(* ===== verification/CS_Prelude.thy ===== *)
theory CS_Prelude
  imports Main "HOL-Library.Word" "HOL-Library.Monad_Syntax"
begin

text \<open>
  Shared material of the development: the machine types, the treatment of undefined behaviour,
  fixed-size C buffers and C strings, the number conversions of \<^verbatim>\<open>printf\<close>, and a
  loop combinator with a total-correctness rule.

  \<^item> A C computation that may be undefined (an out-of-bounds access, a use of a null pointer, a
    double free) has an \<open>option\<close> result, and \<open>None\<close> is the undefined case. \<open>need P\<close> is the
    side condition of an access.
  \<^item> A \<^verbatim>\<open>char buf[n]\<close> is a list of length \<open>n\<close>; \<open>cwrite\<close> overwrites a
    segment of it and is undefined outside it; \<open>cstr\<close> reads the C string stored in it.
  \<^item> \<open>c_loop\<close> runs a step function until it leaves the loop; \<open>None\<close> means that the loop
    faults or never ends, so a theorem that gives a \<open>Some\<close> result includes termination.
\<close>

unbundle bit_operations_syntax

named_theorems fault_simps \<open>unfolding rules for the undefined-behaviour monad\<close>
named_theorems wp \<open>weakest preconditions of the fault monad\<close>
named_theorems wpi \<open>introduction rules for a statement followed by the rest of a handler\<close>
named_theorems buf_simps \<open>rules for fixed-size buffers and the C strings in them\<close>

type_synonym u8 = "8 word"
type_synonym u16 = "16 word"
type_synonym u32 = "32 word"
type_synonym u64 = "64 word"

section \<open>Undefined behaviour\<close>

definition need :: "bool \<Rightarrow> unit option" where
  "need P = (if P then Some () else None)"

lemma need_bind [fault_simps]: "(need P \<bind> f) = (if P then f () else None)"
  by (simp add: need_def)

lemma need_eq_Some [simp]: "need P = Some u \<longleftrightarrow> P"
  by (cases u) (simp add: need_def)

lemma need_True [simp]: "need True = Some ()"
  by (simp add: need_def)

lemma need_False [simp]: "need False = None"
  by (simp add: need_def)

text \<open>Reading an array element: undefined past the end.\<close>

definition aget :: "'a list \<Rightarrow> nat \<Rightarrow> 'a option" where
  "aget xs i = (if i < length xs then Some (xs ! i) else None)"

definition aset :: "'a list \<Rightarrow> nat \<Rightarrow> 'a \<Rightarrow> 'a list option" where
  "aset xs i v = (if i < length xs then Some (xs[i := v]) else None)"

lemma aget_Some [simp]: "aget xs i = Some x \<longleftrightarrow> i < length xs \<and> x = xs ! i"
  by (auto simp: aget_def)

lemma aget_in [fault_simps]: "i < length xs \<Longrightarrow> aget xs i = Some (xs ! i)"
  by (simp add: aget_def)

lemma aset_in [fault_simps]: "i < length xs \<Longrightarrow> aset xs i v = Some (xs[i := v])"
  by (simp add: aset_def)

lemma aset_Some [simp]: "aset xs i v = Some ys \<longleftrightarrow> i < length xs \<and> ys = xs[i := v]"
  by (auto simp: aset_def)

section \<open>Buffers and C strings\<close>

abbreviation NUL :: char where "NUL \<equiv> CHR 0x00"

definition cwrite :: "'a list \<Rightarrow> nat \<Rightarrow> 'a list \<Rightarrow> 'a list option" where
  "cwrite buf off xs =
     (if off + length xs \<le> length buf
      then Some (take off buf @ xs @ drop (off + length xs) buf) else None)"

definition cstr :: "char list \<Rightarrow> string" where
  "cstr buf = takeWhile (\<lambda>c. c \<noteq> NUL) buf"

lemma cwrite_length [buf_simps]: "cwrite buf off xs = Some buf' \<Longrightarrow> length buf' = length buf"
  by (auto simp: cwrite_def split: if_splits)

lemma cwrite_defined: "off + length xs \<le> length buf \<Longrightarrow>
    cwrite buf off xs = Some (take off buf @ xs @ drop (off + length xs) buf)"
  by (simp add: cwrite_def)

lemma cwrite_eq_None [buf_simps]: "cwrite buf off xs = None \<longleftrightarrow> length buf < off + length xs"
  by (auto simp: cwrite_def)

lemma cstr_append_NUL [buf_simps]: "NUL \<notin> set s \<Longrightarrow> cstr (s @ NUL # r) = s"
  unfolding cstr_def by (induction s) auto

lemma cstr_no_NUL [buf_simps]: "NUL \<notin> set (cstr buf)"
  by (auto simp: cstr_def dest: set_takeWhileD)

lemma cstr_id [buf_simps]: "NUL \<notin> set s \<Longrightarrow> cstr s = s"
  unfolding cstr_def by (induction s) auto

lemma length_cstr_le: "length (cstr buf) \<le> length buf"
  by (simp add: cstr_def length_takeWhile_le)

text \<open>
  A buffer holds the string \<open>s\<close> when the string and its terminator lie inside it; \<open>holds\<close> is
  what every append of the printers preserves.
\<close>

definition holds :: "char list \<Rightarrow> string \<Rightarrow> bool" where
  "holds buf s \<longleftrightarrow> NUL \<notin> set s \<and> (\<exists>r. buf = s @ NUL # r)"

lemma holds_cstr [buf_simps]: "holds buf s \<Longrightarrow> cstr buf = s"
  by (auto simp: holds_def cstr_append_NUL)

lemma holds_less: "holds buf s \<Longrightarrow> length s < length buf"
  by (auto simp: holds_def)

lemma holds_if_cstr:
  assumes "length (cstr buf) < length buf"
  shows "holds buf (cstr buf)"
proof -
  have split: "buf = cstr buf @ dropWhile (\<lambda>c. c \<noteq> NUL) buf"
    by (simp add: cstr_def)
  with assms have ne: "dropWhile (\<lambda>c. c \<noteq> NUL) buf \<noteq> []"
    by (metis append_Nil2 less_irrefl)
  then obtain c r where cr: "dropWhile (\<lambda>c. c \<noteq> NUL) buf = c # r"
    by (meson neq_Nil_conv)
  then have "c = NUL" using hd_dropWhile [OF ne] by simp
  with split cr show ?thesis
    unfolding holds_def using cstr_no_NUL by metis
qed

lemma cwrite_extends_holds:
  assumes "holds buf s" "NUL \<notin> set t" "length s + length t < length buf"
  shows "\<exists>buf'. cwrite buf (length s) (t @ [NUL]) = Some buf' \<and> holds buf' (s @ t)
           \<and> length buf' = length buf"
proof -
  from assms(1) obtain r where "buf = s @ NUL # r" and "NUL \<notin> set s"
    by (auto simp: holds_def)
  with assms(2,3) show ?thesis
    by (auto simp: cwrite_def holds_def)
qed

text \<open>
  \<^verbatim>\<open>strncpy(dst, src, n)\<close>: the first \<open>n\<close> characters of the source string, filled
  with zeros up to \<open>n\<close>; no terminator is written when the source has \<open>n\<close> characters or more.
\<close>

definition strncpy :: "char list \<Rightarrow> string \<Rightarrow> nat \<Rightarrow> char list option" where
  "strncpy dst src n =
     cwrite dst 0 (take n src @ replicate (n - length src) NUL)"

lemma strncpy_defined: "n \<le> length dst \<Longrightarrow>
    strncpy dst src n = Some (take n src @ replicate (n - length src) NUL @ drop n dst)"
  by (simp add: strncpy_def cwrite_def min_def)

lemma strncpy_length [buf_simps]: "strncpy dst src n = Some dst' \<Longrightarrow> length dst' = length dst"
  unfolding strncpy_def by (rule cwrite_length)

text \<open>
  The idiom \<^verbatim>\<open>strncpy(d, s, sizeof(d) - 1); d[sizeof(d) - 1] = 0\<close> always leaves a
  terminated string, truncated to the buffer.
\<close>

lemma strncpy_terminated:
  assumes "NUL \<notin> set src" "length dst = Suc n"
  shows "\<exists>d. strncpy dst src n = Some d \<and> length d = Suc n \<and> holds (d[n := NUL]) (take n src)"
proof -
  define d where "d = take n src @ replicate (n - length src) NUL @ drop n dst"
  have d: "strncpy dst src n = Some d" using assms(2) by (simp add: strncpy_defined d_def)
  have len: "length d = Suc n" using assms(2) by (simp add: d_def)
  obtain x where x: "drop n dst = [x]"
    using assms(2) by (metis Cons_nth_drop_Suc drop_all lessI order_refl)
  have "d[n := NUL] = take n src @ replicate (n - length src) NUL @ [NUL]"
    using x by (auto simp: d_def list_update_append min_def)
  moreover have "replicate (n - length src) NUL @ [NUL] = NUL # replicate (n - length src) NUL"
    by (simp add: replicate_append_same)
  ultimately have "d[n := NUL] = take n src @ NUL # replicate (n - length src) NUL" by simp
  moreover have "NUL \<notin> set (take n src)" using assms(1) by (meson in_set_takeD)
  ultimately have "holds (d[n := NUL]) (take n src)" unfolding holds_def by blast
  with d len show ?thesis by blast
qed

section \<open>Number conversions of printf\<close>

fun to_radix :: "nat \<Rightarrow> nat \<Rightarrow> nat list" where
  "to_radix b n = (if b < 2 \<or> n < b then [n] else to_radix b (n div b) @ [n mod b])"

declare to_radix.simps [simp del]

definition of_radix :: "nat \<Rightarrow> nat list \<Rightarrow> nat" where
  "of_radix b ds = foldl (\<lambda>a d. a * b + d) 0 ds"

lemma of_radix_snoc [simp]: "of_radix b (ds @ [d]) = of_radix b ds * b + d"
  by (simp add: of_radix_def)

lemma of_to_radix [simp]: "of_radix b (to_radix b n) = n"
proof (induction b n rule: to_radix.induct)
  case (1 b n)
  show ?case
  proof (cases "b < 2 \<or> n < b")
    case True
    then show ?thesis by (simp add: to_radix.simps of_radix_def)
  next
    case False
    then have "to_radix b n = to_radix b (n div b) @ [n mod b]"
      by (subst to_radix.simps) simp
    with False "1.IH" show ?thesis by simp
  qed
qed

lemma to_radix_digit: "2 \<le> b \<Longrightarrow> d \<in> set (to_radix b n) \<Longrightarrow> d < b"
proof (induction b n rule: to_radix.induct)
  case (1 b n)
  then show ?case
    by (subst (asm) to_radix.simps) (auto split: if_splits)
qed

lemma to_radix_nonempty [simp]: "to_radix b n \<noteq> []"
  by (subst to_radix.simps) simp

lemma length_to_radix: "2 \<le> b \<Longrightarrow> 0 < k \<Longrightarrow> n < b ^ k \<Longrightarrow> length (to_radix b n) \<le> k"
proof (induction k arbitrary: n)
  case 0
  then show ?case by simp
next
  case (Suc k)
  show ?case
  proof (cases "n < b")
    case True
    then show ?thesis by (subst to_radix.simps) simp
  next
    case False
    then have "0 < k" using Suc.prems(3) by (cases k) auto
    moreover have "n div b < b ^ k"
      using Suc.prems(1,3) by (simp add: less_mult_imp_div_less mult.commute)
    ultimately have "length (to_radix b (n div b)) \<le> k" using Suc.IH Suc.prems(1) by simp
    with False Suc.prems(1) show ?thesis by (subst to_radix.simps) simp
  qed
qed

definition digit_char :: "nat \<Rightarrow> char" where
  "digit_char d = ''0123456789abcdef'' ! d"

definition char_digit :: "char \<Rightarrow> nat" where
  "char_digit c = (if of_char c < (58::nat) then of_char c - 48 else of_char c - 87)"

lemma all_less_16: "(\<forall>d<16. P (d::nat)) \<longleftrightarrow>
   P 0 \<and> P 1 \<and> P 2 \<and> P 3 \<and> P 4 \<and> P 5 \<and> P 6 \<and> P 7 \<and> P 8 \<and> P 9 \<and> P 10 \<and> P 11 \<and> P 12 \<and> P 13 \<and> P 14 \<and> P 15"
  by (simp add: All_less_Suc numeral_eq_Suc) blast

lemma digit_char_props:
  "d < 16 \<Longrightarrow> char_digit (digit_char d) = d \<and> digit_char d \<in> set ''0123456789abcdef''"
proof -
  have "\<forall>d<16. char_digit (digit_char d) = d \<and> digit_char d \<in> set ''0123456789abcdef''"
    unfolding all_less_16 by (simp add: digit_char_def char_digit_def)
  then show "d < 16 \<Longrightarrow> ?thesis" by blast
qed

definition fmt_radix :: "nat \<Rightarrow> nat \<Rightarrow> string" where
  "fmt_radix b n = map digit_char (to_radix b n)"

definition scan_radix :: "nat \<Rightarrow> string \<Rightarrow> nat" where
  "scan_radix b s = of_radix b (map char_digit s)"

text \<open>\<^verbatim>\<open>%x\<close>, \<^verbatim>\<open>%u\<close> and \<^verbatim>\<open>%0wx\<close>.\<close>

abbreviation fmt_x :: "nat \<Rightarrow> string" where "fmt_x \<equiv> fmt_radix 16"
abbreviation fmt_u :: "nat \<Rightarrow> string" where "fmt_u \<equiv> fmt_radix 10"

definition fmt_0x :: "nat \<Rightarrow> nat \<Rightarrow> string" where
  "fmt_0x w n = replicate (w - length (fmt_x n)) CHR ''0'' @ fmt_x n"

lemma scan_fmt_radix [simp]: "2 \<le> b \<Longrightarrow> b \<le> 16 \<Longrightarrow> scan_radix b (fmt_radix b n) = n"
proof -
  assume b: "2 \<le> b" "b \<le> 16"
  have "map char_digit (map digit_char (to_radix b n)) = to_radix b n"
    unfolding map_map
    by (rule map_idI) (use b in \<open>auto simp: digit_char_props dest: to_radix_digit [OF b(1)]\<close>)
  then show ?thesis by (simp add: scan_radix_def fmt_radix_def del: map_map)
qed

lemma fmt_radix_chars: "2 \<le> b \<Longrightarrow> b \<le> 16 \<Longrightarrow> set (fmt_radix b n) \<subseteq> set ''0123456789abcdef''"
proof
  fix c assume b: "2 \<le> b" "b \<le> 16" and "c \<in> set (fmt_radix b n)"
  then obtain d where "c = digit_char d" "d \<in> set (to_radix b n)"
    unfolding fmt_radix_def set_map by blast
  with b to_radix_digit [of b d n] have "d < 16" by linarith
  then show "c \<in> set ''0123456789abcdef''"
    unfolding \<open>c = digit_char d\<close> by (rule digit_char_props [THEN conjunct2])
qed

lemma fmt_radix_nonempty [simp]: "fmt_radix b n \<noteq> []"
  by (simp add: fmt_radix_def)

lemma length_fmt_radix: "2 \<le> b \<Longrightarrow> 0 < k \<Longrightarrow> n < b ^ k \<Longrightarrow> length (fmt_radix b n) \<le> k"
  by (simp add: fmt_radix_def length_to_radix)

lemma of_radix_zeros: "of_radix b (replicate k 0 @ ds) = of_radix b ds"
  by (induction k) (auto simp: of_radix_def)

lemma scan_fmt_0x [simp]: "scan_radix 16 (fmt_0x w n) = n"
proof -
  have zero: "char_digit CHR ''0'' = 0" by (simp add: char_digit_def)
  have "of_radix 16 (map char_digit (fmt_x n)) = n"
    using scan_fmt_radix [of 16 n] by (simp add: scan_radix_def)
  then show ?thesis
    by (simp add: fmt_0x_def scan_radix_def zero of_radix_zeros)
qed

lemma fmt_0x_chars: "set (fmt_0x w n) \<subseteq> set ''0123456789abcdef''"
  using fmt_radix_chars [of 16 n] by (auto simp: fmt_0x_def)

lemma length_fmt_0x: "0 < w \<Longrightarrow> n < 16 ^ w \<Longrightarrow> length (fmt_0x w n) = w"
  using length_fmt_radix [of 16 w n] by (simp add: fmt_0x_def)

section \<open>Total correctness\<close>

text \<open>\<open>yields m Q\<close>: the computation is defined and its result satisfies \<open>Q\<close>.\<close>

definition yields :: "'a option \<Rightarrow> ('a \<Rightarrow> bool) \<Rightarrow> bool" where
  "yields m Q \<longleftrightarrow> (\<exists>x. m = Some x \<and> Q x)"

lemma yields_Some [wp]: "yields (Some x) Q \<longleftrightarrow> Q x"
  by (simp add: yields_def)

lemma yields_None [wp]: "\<not> yields None Q"
  by (simp add: yields_def)

lemma yields_bind [wp]: "yields (m \<bind> f) Q \<longleftrightarrow> yields m (\<lambda>x. yields (f x) Q)"
  by (cases m) (simp_all add: yields_def)

lemma yields_map_option [wp]: "yields (map_option f m) Q \<longleftrightarrow> yields m (\<lambda>x. Q (f x))"
  by (cases m) (simp_all add: yields_def)

lemma yields_need [wp]: "yields (need P) Q \<longleftrightarrow> P \<and> Q ()"
  by (cases P) (auto simp: yields_def)

lemma yields_aget [wp]: "yields (aget xs i) Q \<longleftrightarrow> i < length xs \<and> Q (xs ! i)"
  by (auto simp: yields_def)

lemma yields_aset [wp]: "yields (aset xs i v) Q \<longleftrightarrow> i < length xs \<and> Q (xs[i := v])"
  by (auto simp: yields_def)

lemma yields_mono: "yields m P \<Longrightarrow> (\<And>x. P x \<Longrightarrow> Q x) \<Longrightarrow> yields m Q"
  by (auto simp: yields_def)

lemma yields_conj: "yields m P \<Longrightarrow> yields m Q \<Longrightarrow> yields m (\<lambda>x. P x \<and> Q x)"
  by (auto simp: yields_def)

lemma yields_then: "yields m P \<Longrightarrow> (\<And>x. P x \<Longrightarrow> yields (f x) Q) \<Longrightarrow> yields (m \<bind> f) Q"
  by (auto simp: yields_def)

lemma yieldsE:
  assumes "yields m Q" obtains x where "m = Some x" "Q x"
  using assms by (auto simp: yields_def)

lemma any_then: "yields m (\<lambda>_. True) \<Longrightarrow> (\<And>x. yields (f x) Q) \<Longrightarrow> yields (m \<bind> f) Q"
  by (erule yields_then) blast

lemma aget_nth_then: "i < length xs \<Longrightarrow> yields (f (xs ! i)) Q \<Longrightarrow> yields (aget xs i \<bind> f) Q"
  by (simp add: wp)

section \<open>Loops\<close>

text \<open>
  A loop body maps the loop state to the next state (\<open>Inl\<close>) or leaves the loop with a value
  (\<open>Inr\<close>).
\<close>

partial_function (option) c_loop :: "('s \<Rightarrow> ('s + 'r) option) \<Rightarrow> 's \<Rightarrow> 'r option" where
  "c_loop body s =
     (body s \<bind> (\<lambda>res. case res of Inl s' \<Rightarrow> c_loop body s' | Inr r \<Rightarrow> Some r))"

lemma c_loop_step:
  "body s = Some (Inl s') \<Longrightarrow> c_loop body s = c_loop body s'"
  by (subst c_loop.simps) simp

lemma c_loop_exit: "body s = Some (Inr r) \<Longrightarrow> c_loop body s = Some r"
  by (subst c_loop.simps) simp

lemma c_loop_fault: "body s = None \<Longrightarrow> c_loop body s = None"
  by (subst c_loop.simps) simp

text \<open>Total correctness: an invariant, a measure that decreases, and a postcondition.\<close>

lemma c_loop_total:
  assumes "I s"
    and step: "\<And>s. I s \<Longrightarrow>
      (\<exists>s'. body s = Some (Inl s') \<and> I s' \<and> m s' < (m s :: nat)) \<or>
      (\<exists>r. body s = Some (Inr r) \<and> Q r)"
  shows "\<exists>r. c_loop body s = Some r \<and> Q r"
  using assms(1)
proof (induction "m s" arbitrary: s rule: less_induct)
  case less
  from step [OF less.prems] show ?case
  proof (elim disjE exE conjE)
    fix s' assume s': "body s = Some (Inl s')" "I s'" "m s' < m s"
    from less.hyps [OF s'(3,2)] show ?thesis using c_loop_step [of body, OF s'(1)] by simp
  next
    fix r assume "body s = Some (Inr r)" "Q r"
    then show ?thesis by (simp add: c_loop_exit)
  qed
qed

section \<open>Lists and words\<close>

lemma unat_less_256: "unat (b :: u8) < 256"
  using unsigned_less [of b] by simp

lemma unat_less_65536: "unat (b :: u16) < 65536"
  using unsigned_less [of b, where ?'a = nat] by simp

lemma unat_ucast_up [simp]:
  "LENGTH('a) \<le> LENGTH('b) \<Longrightarrow> unat (ucast (x :: 'a::len word) :: 'b::len word) = unat x"
proof -
  assume le: "LENGTH('a) \<le> LENGTH('b)"
  have "unat x < 2 ^ LENGTH('a)" by (rule unsigned_less)
  also have "(2::nat) ^ LENGTH('a) \<le> 2 ^ LENGTH('b)" using le by (simp add: power_increasing)
  finally show ?thesis by (simp add: unsigned_ucast_eq take_bit_nat_eq_self)
qed

lemma sint_split:
  fixes w :: "'a::len word"
  shows "sint w = (if uint w < 2 ^ (LENGTH('a) - 1) then uint w else uint w - 2 ^ LENGTH('a))"
proof -
  obtain n where n: "LENGTH('a) = Suc n" by (cases "LENGTH('a)") auto
  have b: "0 \<le> uint w" "uint w < 2 ^ Suc n" using unsigned_less [of w, where 'a = int] n by auto
  have s: "sint w = (uint w + 2 ^ n) mod 2 ^ Suc n - 2 ^ n"
    by (simp add: sint_uint n signed_take_bit_eq_take_bit_shift take_bit_eq_mod)
  show ?thesis
  proof (cases "uint w < 2 ^ n")
    case True
    with b have "(uint w + 2 ^ n) mod 2 ^ Suc n = uint w + 2 ^ n" by simp
    with s True n show ?thesis by simp
  next
    case False
    with b have "(uint w + 2 ^ n) mod 2 ^ Suc n = uint w + 2 ^ n - 2 ^ Suc n"
      by (subst mod_pos_geq) auto
    with s False n show ?thesis by simp
  qed
qed

lemma uint_sint_pos:
  fixes w :: "'a::len word"
  assumes "0 \<le> sint w"
  shows "uint w = sint w"
proof -
  have "\<not> 2 ^ LENGTH('a) \<le> uint w" unfolding not_le by (rule unsigned_less)
  with assms show ?thesis by (auto simp: sint_split split: if_splits)
qed

lemma uint_neg_sint:
  fixes w :: "'a::len word"
  assumes "sint w < 0"
  shows "uint (- w) = - sint w"
proof -
  have neg: "sint w = uint w - 2 ^ LENGTH('a)" and "0 < uint w"
    using assms unsigned_less [of w, where 'a = int] 
    by (auto simp: sint_split split: if_splits intro: le_neq_trans)
  have "uint (- w) = (- uint w) mod 2 ^ LENGTH('a)"
    by (simp add: uint_word_ariths)
  also have "\<dots> = 2 ^ LENGTH('a) - uint w"
    using \<open>0 < uint w\<close> unsigned_less [of w, where 'a = int] by (subst zmod_zminus1_eq_if) auto
  finally show ?thesis using neg by simp
qed

lemma drop_shorter: "0 < n \<Longrightarrow> xs \<noteq> [] \<Longrightarrow> length (drop n xs) < length xs"
  by (cases xs) auto

lemma take_append_take_drop: "take n xs @ take m (drop n xs) = take (n + m) xs"
  by (simp add: take_add)

end
