(* ===== verification/Capstone_Types.thy ===== *)
theory Capstone_Types
  imports CS_Prelude
begin

text \<open>
  The data model of the engine: the public types of \<^verbatim>\<open>include/capstone/capstone.h\<close>
  (architectures, modes, errors, options, \<^verbatim>\<open>cs_insn\<close>, \<^verbatim>\<open>cs_detail\<close>), the
  operand and instruction objects of \<^verbatim>\<open>MCInst.h\<close>, the string stream of
  \<^verbatim>\<open>SStream.h\<close>, and the engine handle \<^verbatim>\<open>cs_struct\<close> of
  \<^verbatim>\<open>cs_priv.h\<close>.

  \<^item> Integers keep their width. Pointers to heap objects are addresses (\<open>nat\<close>, 0 is NULL), or an
    \<open>option\<close> when the object behind the pointer is only ever reached through it.
  \<^item> Function pointers are the names of the functions they can hold, one datatype per pointer
    type, so that a handle is a plain record; calling through them is the dispatch of the
    theory \<^verbatim>\<open>Engine_Dispatch\<close>.
  \<^item> The union of \<^verbatim>\<open>cs_detail\<close> is one field per member. Of the members of the
    architectures whose decoders are not modelled, the field keeps what \<^verbatim>\<open>cs.c\<close> itself
    reads: the operand count and the operand types.
\<close>

section \<open>Enumerations\<close>

datatype cs_arch =
    CS_ARCH_ARM | CS_ARCH_ARM64 | CS_ARCH_MIPS | CS_ARCH_X86 | CS_ARCH_PPC | CS_ARCH_SPARC
  | CS_ARCH_SYSZ | CS_ARCH_XCORE | CS_ARCH_M68K | CS_ARCH_TMS320C64X | CS_ARCH_M680X
  | CS_ARCH_EVM | CS_ARCH_MOS65XX

text \<open>The order of the enumeration, which indexes the tables of \<^verbatim>\<open>cs.c\<close>.\<close>

definition cs_archs :: "cs_arch list" where
  "cs_archs = [CS_ARCH_ARM, CS_ARCH_ARM64, CS_ARCH_MIPS, CS_ARCH_X86, CS_ARCH_PPC,
     CS_ARCH_SPARC, CS_ARCH_SYSZ, CS_ARCH_XCORE, CS_ARCH_M68K, CS_ARCH_TMS320C64X,
     CS_ARCH_M680X, CS_ARCH_EVM, CS_ARCH_MOS65XX]"

abbreviation (input) CS_ARCH_MAX :: nat where "CS_ARCH_MAX \<equiv> 13"
abbreviation (input) CS_ARCH_ALL :: nat where "CS_ARCH_ALL \<equiv> 0xFFFF"
abbreviation (input) CS_SUPPORT_DIET :: nat where "CS_SUPPORT_DIET \<equiv> CS_ARCH_ALL + 1"
abbreviation (input) CS_SUPPORT_X86_REDUCE :: nat where "CS_SUPPORT_X86_REDUCE \<equiv> CS_ARCH_ALL + 2"

primrec arch_num :: "cs_arch \<Rightarrow> nat" where
  "arch_num CS_ARCH_ARM = 0"
| "arch_num CS_ARCH_ARM64 = 1"
| "arch_num CS_ARCH_MIPS = 2"
| "arch_num CS_ARCH_X86 = 3"
| "arch_num CS_ARCH_PPC = 4"
| "arch_num CS_ARCH_SPARC = 5"
| "arch_num CS_ARCH_SYSZ = 6"
| "arch_num CS_ARCH_XCORE = 7"
| "arch_num CS_ARCH_M68K = 8"
| "arch_num CS_ARCH_TMS320C64X = 9"
| "arch_num CS_ARCH_M680X = 10"
| "arch_num CS_ARCH_EVM = 11"
| "arch_num CS_ARCH_MOS65XX = 12"

text \<open>\<^verbatim>\<open>cs_mode\<close> is a set of flags in a 32-bit word.\<close>

abbreviation (input) CS_MODE_LITTLE_ENDIAN :: u32 where "CS_MODE_LITTLE_ENDIAN \<equiv> 0"
abbreviation (input) CS_MODE_ARM :: u32 where "CS_MODE_ARM \<equiv> 0"
abbreviation (input) CS_MODE_16 :: u32 where "CS_MODE_16 \<equiv> 2"
abbreviation (input) CS_MODE_32 :: u32 where "CS_MODE_32 \<equiv> 4"
abbreviation (input) CS_MODE_64 :: u32 where "CS_MODE_64 \<equiv> 8"
abbreviation (input) CS_MODE_THUMB :: u32 where "CS_MODE_THUMB \<equiv> 0x10"
abbreviation (input) CS_MODE_MCLASS :: u32 where "CS_MODE_MCLASS \<equiv> 0x20"
abbreviation (input) CS_MODE_V8 :: u32 where "CS_MODE_V8 \<equiv> 0x40"
abbreviation (input) CS_MODE_MICRO :: u32 where "CS_MODE_MICRO \<equiv> 0x10"
abbreviation (input) CS_MODE_MIPS3 :: u32 where "CS_MODE_MIPS3 \<equiv> 0x20"
abbreviation (input) CS_MODE_MIPS32R6 :: u32 where "CS_MODE_MIPS32R6 \<equiv> 0x40"
abbreviation (input) CS_MODE_MIPS2 :: u32 where "CS_MODE_MIPS2 \<equiv> 0x80"
abbreviation (input) CS_MODE_V9 :: u32 where "CS_MODE_V9 \<equiv> 0x10"
abbreviation (input) CS_MODE_QPX :: u32 where "CS_MODE_QPX \<equiv> 0x10"
abbreviation (input) CS_MODE_M68K_000 :: u32 where "CS_MODE_M68K_000 \<equiv> 2"
abbreviation (input) CS_MODE_M68K_010 :: u32 where "CS_MODE_M68K_010 \<equiv> 4"
abbreviation (input) CS_MODE_M68K_020 :: u32 where "CS_MODE_M68K_020 \<equiv> 8"
abbreviation (input) CS_MODE_M68K_030 :: u32 where "CS_MODE_M68K_030 \<equiv> 0x10"
abbreviation (input) CS_MODE_M68K_040 :: u32 where "CS_MODE_M68K_040 \<equiv> 0x20"
abbreviation (input) CS_MODE_M68K_060 :: u32 where "CS_MODE_M68K_060 \<equiv> 0x40"
abbreviation (input) CS_MODE_BIG_ENDIAN :: u32 where "CS_MODE_BIG_ENDIAN \<equiv> 0x80000000"
abbreviation (input) CS_MODE_MIPS32 :: u32 where "CS_MODE_MIPS32 \<equiv> 4"
abbreviation (input) CS_MODE_MIPS64 :: u32 where "CS_MODE_MIPS64 \<equiv> 8"
abbreviation (input) CS_MODE_M680X_6301 :: u32 where "CS_MODE_M680X_6301 \<equiv> 2"
abbreviation (input) CS_MODE_M680X_6309 :: u32 where "CS_MODE_M680X_6309 \<equiv> 4"
abbreviation (input) CS_MODE_M680X_6800 :: u32 where "CS_MODE_M680X_6800 \<equiv> 8"
abbreviation (input) CS_MODE_M680X_6801 :: u32 where "CS_MODE_M680X_6801 \<equiv> 0x10"
abbreviation (input) CS_MODE_M680X_6805 :: u32 where "CS_MODE_M680X_6805 \<equiv> 0x20"
abbreviation (input) CS_MODE_M680X_6808 :: u32 where "CS_MODE_M680X_6808 \<equiv> 0x40"
abbreviation (input) CS_MODE_M680X_6809 :: u32 where "CS_MODE_M680X_6809 \<equiv> 0x80"
abbreviation (input) CS_MODE_M680X_6811 :: u32 where "CS_MODE_M680X_6811 \<equiv> 0x100"
abbreviation (input) CS_MODE_M680X_CPU12 :: u32 where "CS_MODE_M680X_CPU12 \<equiv> 0x200"
abbreviation (input) CS_MODE_M680X_HCS08 :: u32 where "CS_MODE_M680X_HCS08 \<equiv> 0x400"

datatype cs_err =
    CS_ERR_OK | CS_ERR_MEM | CS_ERR_ARCH | CS_ERR_HANDLE | CS_ERR_CSH | CS_ERR_MODE
  | CS_ERR_OPTION | CS_ERR_DETAIL | CS_ERR_MEMSETUP | CS_ERR_VERSION | CS_ERR_DIET
  | CS_ERR_SKIPDATA | CS_ERR_X86_ATT | CS_ERR_X86_INTEL | CS_ERR_X86_MASM

primrec err_code :: "cs_err \<Rightarrow> int" where
  "err_code CS_ERR_OK = 0"
| "err_code CS_ERR_MEM = 1"
| "err_code CS_ERR_ARCH = 2"
| "err_code CS_ERR_HANDLE = 3"
| "err_code CS_ERR_CSH = 4"
| "err_code CS_ERR_MODE = 5"
| "err_code CS_ERR_OPTION = 6"
| "err_code CS_ERR_DETAIL = 7"
| "err_code CS_ERR_MEMSETUP = 8"
| "err_code CS_ERR_VERSION = 9"
| "err_code CS_ERR_DIET = 10"
| "err_code CS_ERR_SKIPDATA = 11"
| "err_code CS_ERR_X86_ATT = 12"
| "err_code CS_ERR_X86_INTEL = 13"
| "err_code CS_ERR_X86_MASM = 14"

datatype cs_opt_type =
    CS_OPT_INVALID | CS_OPT_SYNTAX | CS_OPT_DETAIL | CS_OPT_MODE | CS_OPT_MEM | CS_OPT_SKIPDATA
  | CS_OPT_SKIPDATA_SETUP | CS_OPT_MNEMONIC | CS_OPT_UNSIGNED

abbreviation (input) CS_OPT_OFF :: u32 where "CS_OPT_OFF \<equiv> 0"
abbreviation (input) CS_OPT_ON :: u32 where "CS_OPT_ON \<equiv> 3"
abbreviation (input) CS_OPT_SYNTAX_DEFAULT :: u32 where "CS_OPT_SYNTAX_DEFAULT \<equiv> 0"
abbreviation (input) CS_OPT_SYNTAX_INTEL :: u32 where "CS_OPT_SYNTAX_INTEL \<equiv> 1"
abbreviation (input) CS_OPT_SYNTAX_ATT :: u32 where "CS_OPT_SYNTAX_ATT \<equiv> 2"
abbreviation (input) CS_OPT_SYNTAX_NOREGNAME :: u32 where "CS_OPT_SYNTAX_NOREGNAME \<equiv> 3"
abbreviation (input) CS_OPT_SYNTAX_MASM :: u32 where "CS_OPT_SYNTAX_MASM \<equiv> 4"

text \<open>The generic groups of \<^verbatim>\<open>cs_group_type\<close>.\<close>

abbreviation (input) CS_GRP_JUMP :: u32 where "CS_GRP_JUMP \<equiv> 1"
abbreviation (input) CS_GRP_CALL :: u32 where "CS_GRP_CALL \<equiv> 2"
abbreviation (input) CS_GRP_RET :: u32 where "CS_GRP_RET \<equiv> 3"
abbreviation (input) CS_GRP_IRET :: u32 where "CS_GRP_IRET \<equiv> 5"
abbreviation (input) CS_GRP_PRIVILEGE :: u32 where "CS_GRP_PRIVILEGE \<equiv> 6"
abbreviation (input) CS_GRP_BRANCH_RELATIVE :: u32 where "CS_GRP_BRANCH_RELATIVE \<equiv> 7"

section \<open>MOS65XX and EVM details\<close>

datatype mos65xx_reg =
    MOS65XX_REG_INVALID | MOS65XX_REG_ACC | MOS65XX_REG_X | MOS65XX_REG_Y | MOS65XX_REG_P
  | MOS65XX_REG_SP

primrec mos65xx_reg_num :: "mos65xx_reg \<Rightarrow> nat" where
  "mos65xx_reg_num MOS65XX_REG_INVALID = 0"
| "mos65xx_reg_num MOS65XX_REG_ACC = 1"
| "mos65xx_reg_num MOS65XX_REG_X = 2"
| "mos65xx_reg_num MOS65XX_REG_Y = 3"
| "mos65xx_reg_num MOS65XX_REG_P = 4"
| "mos65xx_reg_num MOS65XX_REG_SP = 5"

datatype mos65xx_address_mode =
    MOS65XX_AM_NONE | MOS65XX_AM_IMP | MOS65XX_AM_ACC | MOS65XX_AM_ABS | MOS65XX_AM_ZP
  | MOS65XX_AM_IMM | MOS65XX_AM_ABSX | MOS65XX_AM_ABSY | MOS65XX_AM_INDX | MOS65XX_AM_INDY
  | MOS65XX_AM_ZPX | MOS65XX_AM_ZPY | MOS65XX_AM_REL | MOS65XX_AM_IND

datatype mos65xx_insn =
    MOS65XX_INS_INVALID | MOS65XX_INS_ADC | MOS65XX_INS_AND | MOS65XX_INS_ASL | MOS65XX_INS_BCC
  | MOS65XX_INS_BCS | MOS65XX_INS_BEQ | MOS65XX_INS_BIT | MOS65XX_INS_BMI | MOS65XX_INS_BNE
  | MOS65XX_INS_BPL | MOS65XX_INS_BRK | MOS65XX_INS_BVC | MOS65XX_INS_BVS | MOS65XX_INS_CLC
  | MOS65XX_INS_CLD | MOS65XX_INS_CLI | MOS65XX_INS_CLV | MOS65XX_INS_CMP | MOS65XX_INS_CPX
  | MOS65XX_INS_CPY | MOS65XX_INS_DEC | MOS65XX_INS_DEX | MOS65XX_INS_DEY | MOS65XX_INS_EOR
  | MOS65XX_INS_INC | MOS65XX_INS_INX | MOS65XX_INS_INY | MOS65XX_INS_JMP | MOS65XX_INS_JSR
  | MOS65XX_INS_LDA | MOS65XX_INS_LDX | MOS65XX_INS_LDY | MOS65XX_INS_LSR | MOS65XX_INS_NOP
  | MOS65XX_INS_ORA | MOS65XX_INS_PHA | MOS65XX_INS_PLA | MOS65XX_INS_PHP | MOS65XX_INS_PLP
  | MOS65XX_INS_ROL | MOS65XX_INS_ROR | MOS65XX_INS_RTI | MOS65XX_INS_RTS | MOS65XX_INS_SBC
  | MOS65XX_INS_SEC | MOS65XX_INS_SED | MOS65XX_INS_SEI | MOS65XX_INS_STA | MOS65XX_INS_STX
  | MOS65XX_INS_STY | MOS65XX_INS_TAX | MOS65XX_INS_TAY | MOS65XX_INS_TSX | MOS65XX_INS_TXA
  | MOS65XX_INS_TXS | MOS65XX_INS_TYA

primrec mos65xx_insn_num :: "mos65xx_insn \<Rightarrow> nat" where
  "mos65xx_insn_num MOS65XX_INS_INVALID = 0"
| "mos65xx_insn_num MOS65XX_INS_ADC = 1"
| "mos65xx_insn_num MOS65XX_INS_AND = 2"
| "mos65xx_insn_num MOS65XX_INS_ASL = 3"
| "mos65xx_insn_num MOS65XX_INS_BCC = 4"
| "mos65xx_insn_num MOS65XX_INS_BCS = 5"
| "mos65xx_insn_num MOS65XX_INS_BEQ = 6"
| "mos65xx_insn_num MOS65XX_INS_BIT = 7"
| "mos65xx_insn_num MOS65XX_INS_BMI = 8"
| "mos65xx_insn_num MOS65XX_INS_BNE = 9"
| "mos65xx_insn_num MOS65XX_INS_BPL = 10"
| "mos65xx_insn_num MOS65XX_INS_BRK = 11"
| "mos65xx_insn_num MOS65XX_INS_BVC = 12"
| "mos65xx_insn_num MOS65XX_INS_BVS = 13"
| "mos65xx_insn_num MOS65XX_INS_CLC = 14"
| "mos65xx_insn_num MOS65XX_INS_CLD = 15"
| "mos65xx_insn_num MOS65XX_INS_CLI = 16"
| "mos65xx_insn_num MOS65XX_INS_CLV = 17"
| "mos65xx_insn_num MOS65XX_INS_CMP = 18"
| "mos65xx_insn_num MOS65XX_INS_CPX = 19"
| "mos65xx_insn_num MOS65XX_INS_CPY = 20"
| "mos65xx_insn_num MOS65XX_INS_DEC = 21"
| "mos65xx_insn_num MOS65XX_INS_DEX = 22"
| "mos65xx_insn_num MOS65XX_INS_DEY = 23"
| "mos65xx_insn_num MOS65XX_INS_EOR = 24"
| "mos65xx_insn_num MOS65XX_INS_INC = 25"
| "mos65xx_insn_num MOS65XX_INS_INX = 26"
| "mos65xx_insn_num MOS65XX_INS_INY = 27"
| "mos65xx_insn_num MOS65XX_INS_JMP = 28"
| "mos65xx_insn_num MOS65XX_INS_JSR = 29"
| "mos65xx_insn_num MOS65XX_INS_LDA = 30"
| "mos65xx_insn_num MOS65XX_INS_LDX = 31"
| "mos65xx_insn_num MOS65XX_INS_LDY = 32"
| "mos65xx_insn_num MOS65XX_INS_LSR = 33"
| "mos65xx_insn_num MOS65XX_INS_NOP = 34"
| "mos65xx_insn_num MOS65XX_INS_ORA = 35"
| "mos65xx_insn_num MOS65XX_INS_PHA = 36"
| "mos65xx_insn_num MOS65XX_INS_PLA = 37"
| "mos65xx_insn_num MOS65XX_INS_PHP = 38"
| "mos65xx_insn_num MOS65XX_INS_PLP = 39"
| "mos65xx_insn_num MOS65XX_INS_ROL = 40"
| "mos65xx_insn_num MOS65XX_INS_ROR = 41"
| "mos65xx_insn_num MOS65XX_INS_RTI = 42"
| "mos65xx_insn_num MOS65XX_INS_RTS = 43"
| "mos65xx_insn_num MOS65XX_INS_SBC = 44"
| "mos65xx_insn_num MOS65XX_INS_SEC = 45"
| "mos65xx_insn_num MOS65XX_INS_SED = 46"
| "mos65xx_insn_num MOS65XX_INS_SEI = 47"
| "mos65xx_insn_num MOS65XX_INS_STA = 48"
| "mos65xx_insn_num MOS65XX_INS_STX = 49"
| "mos65xx_insn_num MOS65XX_INS_STY = 50"
| "mos65xx_insn_num MOS65XX_INS_TAX = 51"
| "mos65xx_insn_num MOS65XX_INS_TAY = 52"
| "mos65xx_insn_num MOS65XX_INS_TSX = 53"
| "mos65xx_insn_num MOS65XX_INS_TXA = 54"
| "mos65xx_insn_num MOS65XX_INS_TXS = 55"
| "mos65xx_insn_num MOS65XX_INS_TYA = 56"

datatype mos65xx_group_type =
    MOS65XX_GRP_INVALID | MOS65XX_GRP_JUMP | MOS65XX_GRP_CALL | MOS65XX_GRP_RET
  | MOS65XX_GRP_IRET | MOS65XX_GRP_BRANCH_RELATIVE

primrec mos65xx_group_num :: "mos65xx_group_type \<Rightarrow> nat" where
  "mos65xx_group_num MOS65XX_GRP_INVALID = 0"
| "mos65xx_group_num MOS65XX_GRP_JUMP = 1"
| "mos65xx_group_num MOS65XX_GRP_CALL = 2"
| "mos65xx_group_num MOS65XX_GRP_RET = 3"
| "mos65xx_group_num MOS65XX_GRP_IRET = 5"
| "mos65xx_group_num MOS65XX_GRP_BRANCH_RELATIVE = 6"

datatype mos65xx_op_type =
    MOS65XX_OP_INVALID | MOS65XX_OP_REG | MOS65XX_OP_IMM | MOS65XX_OP_MEM

primrec mos65xx_op_num :: "mos65xx_op_type \<Rightarrow> nat" where
  "mos65xx_op_num MOS65XX_OP_INVALID = 0"
| "mos65xx_op_num MOS65XX_OP_REG = 1"
| "mos65xx_op_num MOS65XX_OP_IMM = 2"
| "mos65xx_op_num MOS65XX_OP_MEM = 3"

text \<open>
  The union of \<^verbatim>\<open>cs_mos65xx_op\<close> is its 32-bit storage on a little-endian machine: the
  register occupies the word, \<^verbatim>\<open>mem\<close> its low 16 bits and \<^verbatim>\<open>imm\<close> its low byte.
\<close>

record cs_mos65xx_op =
  mop_type :: mos65xx_op_type
  mop_raw :: u32

definition mop_set_reg :: "mos65xx_reg \<Rightarrow> cs_mos65xx_op \<Rightarrow> cs_mos65xx_op" where
  "mop_set_reg r op = op\<lparr>mop_raw := of_nat (mos65xx_reg_num r)\<rparr>"

definition mop_set_mem :: "u16 \<Rightarrow> cs_mos65xx_op \<Rightarrow> cs_mos65xx_op" where
  "mop_set_mem v op = op\<lparr>mop_raw := push_bit 16 (drop_bit 16 (mop_raw op)) OR ucast v\<rparr>"

definition mop_mem :: "cs_mos65xx_op \<Rightarrow> u16" where
  "mop_mem op = ucast (mop_raw op)"

definition mop_imm :: "cs_mos65xx_op \<Rightarrow> u8" where
  "mop_imm op = ucast (mop_raw op)"

record cs_mos65xx =
  mos_am :: mos65xx_address_mode
  mos_modifies_flags :: bool
  mos_op_count :: u8
  mos_operands :: "cs_mos65xx_op list"

record cs_evm =
  evm_pop :: u8
  evm_push :: u8
  evm_fee :: u32

section \<open>Instructions\<close>

record cs_arch_ops =
  ao_op_count :: u8
  ao_types :: "u32 list"

record cs_detail =
  d_regs_read :: "u16 list"
  d_regs_read_count :: u8
  d_regs_write :: "u16 list"
  d_regs_write_count :: u8
  d_groups :: "u8 list"
  d_groups_count :: u8
  d_x86 :: cs_arch_ops
  d_arm64 :: cs_arch_ops
  d_arm :: cs_arch_ops
  d_m68k :: cs_arch_ops
  d_mips :: cs_arch_ops
  d_ppc :: cs_arch_ops
  d_sparc :: cs_arch_ops
  d_sysz :: cs_arch_ops
  d_xcore :: cs_arch_ops
  d_tms320c64x :: cs_arch_ops
  d_m680x :: cs_arch_ops
  d_evm :: cs_evm
  d_mos65xx :: cs_mos65xx

text \<open>The array sizes of \<^verbatim>\<open>cs_detail\<close>.\<close>

definition detail_wf :: "cs_detail \<Rightarrow> bool" where
  "detail_wf d \<longleftrightarrow> length (d_regs_read d) = 16 \<and> length (d_regs_write d) = 20 \<and>
     length (d_groups d) = 8 \<and> length (mos_operands (d_mos65xx d)) = 3"

text \<open>
  \<^verbatim>\<open>cs_insn\<close>; the pointer to the details carries the address of the block and its contents.
\<close>

record cs_insn =
  in_id :: u32
  in_address :: u64
  in_size :: u16
  in_bytes :: "u8 list"
  in_mnemonic :: "char list"
  in_op_str :: "char list"
  in_detail :: "(nat \<times> cs_detail) option"

abbreviation (input) CS_MNEMONIC_SIZE :: nat where "CS_MNEMONIC_SIZE \<equiv> 32"

definition insn_wf :: "cs_insn \<Rightarrow> bool" where
  "insn_wf i \<longleftrightarrow> length (in_bytes i) = 24 \<and> length (in_mnemonic i) = CS_MNEMONIC_SIZE \<and>
     length (in_op_str i) = 160 \<and> (\<forall>a d. in_detail i = Some (a, d) \<longrightarrow> detail_wf d)"

section \<open>MCInst and SStream\<close>

datatype MCKind = kInvalid | kRegister | kImmediate | kFPImmediate

text \<open>The union of \<^verbatim>\<open>MCOperand\<close> is its 64-bit storage; \<^verbatim>\<open>RegVal\<close> is the low half.\<close>

record MCOperand =
  op_Kind :: MCKind
  op_raw :: u64

record MCInst =
  mi_OpcodePub :: u32
  mi_size :: u8
  mi_has_imm :: bool
  mi_op1_size :: u8
  mi_Opcode :: u32
  mi_Operands :: "MCOperand list"
  mi_flat_insn :: cs_insn
  mi_address :: u64
  mi_x86opsize :: u8
  mi_x86_prefix :: "u8 list"
  mi_imm_size :: u8
  mi_writeback :: bool
  mi_ac_idx :: u8
  mi_popcode_adjust :: u8
  mi_assembly :: "char list"
  mi_evm_data :: "u8 list"

definition mci_wf :: "MCInst \<Rightarrow> bool" where
  "mci_wf mi \<longleftrightarrow> length (mi_Operands mi) = 48 \<and> length (mi_x86_prefix mi) = 4 \<and>
     length (mi_assembly mi) = 8 \<and> length (mi_evm_data mi) = 32 \<and> insn_wf (mi_flat_insn mi)"

record SStream =
  ss_buffer :: "char list"
  ss_index :: nat

abbreviation (input) SSTREAM_SIZE :: nat where "SSTREAM_SIZE \<equiv> 512"

section \<open>The engine handle\<close>

datatype Printer_t =
    ARM_printInst | AArch64_printInst | Mips_printInst | X86_Intel_printInst | X86_ATT_printInst
  | PPC_printInst | Sparc_printInst | SystemZ_printInst | XCore_printInst | M68K_printInst
  | TMS320C64x_printInst | M680X_printInst | EVM_printInst | MOS65XX_printInst

datatype Disasm_t =
    ARM_getInstruction | Thumb_getInstruction | AArch64_getInstruction | Mips_getInstruction
  | X86_getInstruction | PPC_getInstruction | Sparc_getInstruction | SystemZ_getInstruction
  | XCore_getInstruction | M68K_getInstruction | TMS320C64x_getInstruction
  | M680X_getInstruction | EVM_getInstruction | MOS65XX_getInstruction

datatype GetID_t =
    ARM_get_insn_id | AArch64_get_insn_id | Mips_get_insn_id | X86_get_insn_id | PPC_get_insn_id
  | Sparc_get_insn_id | SystemZ_get_insn_id | XCore_get_insn_id | M68K_get_insn_id
  | TMS320C64x_get_insn_id | M680X_get_insn_id | EVM_get_insn_id | MOS65XX_get_insn_id

datatype PostPrinter_t =
    ARM_post_printer | AArch64_post_printer | PPC_post_printer | Sparc_post_printer
  | SystemZ_post_printer | XCore_post_printer | TMS320C64x_post_printer

datatype GetRegName_t =
    ARM_reg_name | ARM_reg_name2 | AArch64_reg_name | Mips_reg_name | X86_reg_name
  | PPC_reg_name | Sparc_reg_name | SystemZ_reg_name | XCore_reg_name | M68K_reg_name
  | TMS320C64x_reg_name | M680X_reg_name | MOS65XX_reg_name

datatype GetInsnName_t =
    ARM_insn_name | AArch64_insn_name | Mips_insn_name | X86_insn_name | PPC_insn_name
  | Sparc_insn_name | SystemZ_insn_name | XCore_insn_name | M68K_insn_name
  | TMS320C64x_insn_name | M680X_insn_name | EVM_insn_name | MOS65XX_insn_name

datatype GetGroupName_t =
    ARM_group_name | AArch64_group_name | Mips_group_name | X86_group_name | PPC_group_name
  | Sparc_group_name | SystemZ_group_name | XCore_group_name | M68K_group_name
  | TMS320C64x_group_name | M680X_group_name | EVM_group_name | MOS65XX_group_name

datatype GetRegisterAccess_t =
    ARM_reg_access | AArch64_reg_access | X86_reg_access | M680X_reg_access

datatype GetRegisterName_t =
    getRegisterName | getRegisterName2

datatype regsize_map_t =
    regsize_map_32 | regsize_map_64

text \<open>
  The user's SKIPDATA setup. The callback gets the buffer, the position in it and the user data;
  the size of the buffer is the length of the list.
\<close>

record cs_opt_skipdata =
  sk_mnemonic :: "string option"
  sk_callback :: "(u8 list \<Rightarrow> nat \<Rightarrow> nat \<Rightarrow> nat) option"
  sk_user_data :: nat

record cs_opt_mnem =
  om_id :: u32
  om_mnemonic :: "string option"

text \<open>The function pointers of \<^verbatim>\<open>cs_opt_mem\<close>, by address; 0 is NULL.\<close>

record cs_opt_mem =
  cs_mem_malloc :: nat
  cs_mem_calloc :: nat
  cs_mem_realloc :: nat
  cs_mem_free :: nat
  cs_vsnprintf :: nat

text \<open>A node of the list of customised mnemonics; \<open>mn_node\<close> is the address of its block.\<close>

record insn_mnem =
  mn_node :: nat
  mn_id :: u32
  mn_mnemonic :: "char list"

record cs_struct =
  ud_arch :: cs_arch
  ud_mode :: u32
  ud_printer :: "Printer_t option"
  ud_printer_info :: nat
  ud_disasm :: "Disasm_t option"
  ud_getinsn_info :: nat
  ud_reg_name :: "GetRegName_t option"
  ud_insn_name :: "GetInsnName_t option"
  ud_group_name :: "GetGroupName_t option"
  ud_insn_id :: "GetID_t option"
  ud_post_printer :: "PostPrinter_t option"
  ud_errnum :: cs_err
  ud_ITStates :: "u8 list"
  ud_ITsize :: u32
  ud_detail :: u32
  ud_imm_unsigned :: u32
  ud_syntax :: u32
  ud_doing_mem :: bool
  ud_insn_cache :: "(nat \<times> u16 list) option"
  ud_get_regname :: "GetRegisterName_t option"
  ud_skipdata :: bool
  ud_skipdata_size :: u8
  ud_skipdata_setup :: cs_opt_skipdata
  ud_regsize_map :: "regsize_map_t option"
  ud_reg_access :: "GetRegisterAccess_t option"
  ud_mnem_list :: "insn_mnem list"

text \<open>
  The \<^verbatim>\<open>size_t\<close> argument of \<^verbatim>\<open>cs_option\<close> is a number or the address of an
  option structure, according to the option's type.
\<close>

datatype opt_value =
    V_num u64
  | V_mem cs_opt_mem
  | V_skipdata cs_opt_skipdata
  | V_mnem cs_opt_mnem

text \<open>The build configuration: the preprocessor symbols the code tests.\<close>

record build =
  b_archs :: "cs_arch \<Rightarrow> bool"
  b_diet :: bool
  b_x86_reduce :: bool
  b_x86_att_disable :: bool

section \<open>The enumeration of architectures\<close>

lemma length_cs_archs [simp]: "length cs_archs = CS_ARCH_MAX"
  by (simp add: cs_archs_def)

lemma cs_archs_nth: "cs_archs ! arch_num a = a"
  by (cases a) (simp_all add: cs_archs_def)

lemma arch_num_less: "arch_num a < CS_ARCH_MAX"
  by (cases a) simp_all

lemma distinct_cs_archs: "distinct cs_archs"
  by (simp add: cs_archs_def)

lemma arch_num_nth: "n < CS_ARCH_MAX \<Longrightarrow> arch_num (cs_archs ! n) = n"
  using distinct_cs_archs cs_archs_nth [of "cs_archs ! n"] arch_num_less [of "cs_archs ! n"]
  by (metis length_cs_archs nth_eq_iff_index_eq)

lemma mop_set_mem_read [simp]:
  "mop_mem (mop_set_mem v op) = v" "mop_imm (mop_set_mem v op) = ucast v"
  by (rule bit_eqI, simp add: mop_mem_def mop_imm_def mop_set_mem_def bit_simps)+

lemma insn_wf_detail: "insn_wf i \<Longrightarrow> in_detail i = Some (a, d) \<Longrightarrow> detail_wf d"
  by (simp add: insn_wf_def)

end
