(* ===== verification/MCInst_Model.thy ===== *)
theory MCInst_Model
  imports Capstone_Types
begin

text \<open>
  The instruction object of \<^verbatim>\<open>MCInst.c\<close>: 48 operand slots, of which the last is also
  the scratch slot of \<^verbatim>\<open>MCOperand_CreateReg1\<close>/\<^verbatim>\<open>CreateImm1\<close>. A pointer to an
  operand is either an object outside the instruction or one of its slots, so that the aliasing
  of the scratch slot is visible. Appending and inserting are shown to act on the operand list
  as list operations while it is shorter than the array.
\<close>

section \<open>Operands\<close>

datatype operand_ptr = Obj MCOperand | Slot nat

definition MCINST_CACHE :: nat where "MCINST_CACHE = 47"

definition MCOperand_isValid :: "MCOperand \<Rightarrow> bool" where
  "MCOperand_isValid op \<longleftrightarrow> op_Kind op \<noteq> kInvalid"

definition MCOperand_isReg :: "MCOperand \<Rightarrow> bool" where
  "MCOperand_isReg op \<longleftrightarrow> op_Kind op = kRegister"

definition MCOperand_isImm :: "MCOperand \<Rightarrow> bool" where
  "MCOperand_isImm op \<longleftrightarrow> op_Kind op = kImmediate"

definition MCOperand_isFPImm :: "MCOperand \<Rightarrow> bool" where
  "MCOperand_isFPImm op \<longleftrightarrow> op_Kind op = kFPImmediate"

definition MCOperand_getReg :: "MCOperand \<Rightarrow> u32" where
  "MCOperand_getReg op = ucast (op_raw op)"

definition MCOperand_setReg :: "MCOperand \<Rightarrow> u32 \<Rightarrow> MCOperand" where
  "MCOperand_setReg op Reg = op\<lparr>op_raw := push_bit 32 (drop_bit 32 (op_raw op)) OR ucast Reg\<rparr>"

definition MCOperand_getImm :: "MCOperand \<Rightarrow> u64" where
  "MCOperand_getImm op = op_raw op"

definition MCOperand_setImm :: "MCOperand \<Rightarrow> u64 \<Rightarrow> MCOperand" where
  "MCOperand_setImm op Val = op\<lparr>op_raw := Val\<rparr>"

text \<open>A \<^verbatim>\<open>double\<close> is its 64-bit representation.\<close>

definition MCOperand_getFPImm :: "MCOperand \<Rightarrow> u64" where
  "MCOperand_getFPImm op = op_raw op"

definition MCOperand_setFPImm :: "MCOperand \<Rightarrow> u64 \<Rightarrow> MCOperand" where
  "MCOperand_setFPImm op Val = op\<lparr>op_raw := Val\<rparr>"

section \<open>Instructions\<close>

text \<open>
  \<^verbatim>\<open>MCInst_Init\<close> resets the fields it names; the address, the flat instruction and the
  data of an EVM push keep their old contents.
\<close>

definition MCInst_Init :: "MCInst \<Rightarrow> MCInst" where
  "MCInst_Init inst = inst\<lparr>
     mi_Operands := map (\<lambda>op. op\<lparr>op_Kind := kInvalid, op_raw := 0\<rparr>) (mi_Operands inst),
     mi_Opcode := 0, mi_OpcodePub := 0, mi_size := 0, mi_has_imm := False, mi_op1_size := 0,
     mi_writeback := False, mi_ac_idx := 0, mi_popcode_adjust := 0,
     mi_assembly := (mi_assembly inst)[0 := NUL]\<rparr>"

definition MCInst_clear :: "MCInst \<Rightarrow> MCInst" where
  "MCInst_clear inst = inst\<lparr>mi_size := 0\<rparr>"

definition operand_deref :: "MCOperand list \<Rightarrow> operand_ptr \<Rightarrow> MCOperand option" where
  "operand_deref ops p = (case p of Obj op \<Rightarrow> Some op | Slot i \<Rightarrow> aget ops i)"

text \<open>The shifting loop of \<^verbatim>\<open>MCInst_insert0\<close>.\<close>

fun insert_shift :: "MCOperand list \<Rightarrow> nat \<Rightarrow> nat \<Rightarrow> MCOperand list option" where
  "insert_shift ops i index =
     (if index < i then do {
        v \<leftarrow> aget ops (i - 1);
        ops' \<leftarrow> aset ops i v;
        insert_shift ops' (i - 1) index }
      else Some ops)"

declare insert_shift.simps [simp del]

definition MCInst_insert0 :: "MCInst \<Rightarrow> nat \<Rightarrow> operand_ptr \<Rightarrow> MCInst option" where
  "MCInst_insert0 inst index Op = do {
     ops \<leftarrow> insert_shift (mi_Operands inst) (unat (mi_size inst)) index;
     op \<leftarrow> operand_deref ops Op;
     ops' \<leftarrow> aset ops index op;
     Some (inst\<lparr>mi_Operands := ops', mi_size := mi_size inst + 1\<rparr>) }"

definition MCInst_setOpcode :: "MCInst \<Rightarrow> u32 \<Rightarrow> MCInst" where
  "MCInst_setOpcode inst Op = inst\<lparr>mi_Opcode := Op\<rparr>"

definition MCInst_setOpcodePub :: "MCInst \<Rightarrow> u32 \<Rightarrow> MCInst" where
  "MCInst_setOpcodePub inst Op = inst\<lparr>mi_OpcodePub := Op\<rparr>"

definition MCInst_getOpcode :: "MCInst \<Rightarrow> u32" where
  "MCInst_getOpcode inst = mi_Opcode inst"

definition MCInst_getOpcodePub :: "MCInst \<Rightarrow> u32" where
  "MCInst_getOpcodePub inst = mi_OpcodePub inst"

definition MCInst_getOperand :: "MCInst \<Rightarrow> nat \<Rightarrow> operand_ptr option" where
  "MCInst_getOperand inst i = (if i < length (mi_Operands inst) then Some (Slot i) else None)"

definition MCInst_getNumOperands :: "MCInst \<Rightarrow> u32" where
  "MCInst_getNumOperands inst = ucast (mi_size inst)"

definition MCInst_addOperand2 :: "MCInst \<Rightarrow> operand_ptr \<Rightarrow> MCInst option" where
  "MCInst_addOperand2 inst Op = do {
     op \<leftarrow> operand_deref (mi_Operands inst) Op;
     ops \<leftarrow> aset (mi_Operands inst) (unat (mi_size inst)) op;
     Some (inst\<lparr>mi_Operands := ops, mi_size := mi_size inst + 1\<rparr>) }"

definition MCOperand_CreateReg1 :: "MCInst \<Rightarrow> u32 \<Rightarrow> (operand_ptr \<times> MCInst) option" where
  "MCOperand_CreateReg1 mcInst Reg = do {
     op \<leftarrow> aget (mi_Operands mcInst) MCINST_CACHE;
     ops \<leftarrow> aset (mi_Operands mcInst) MCINST_CACHE (MCOperand_setReg (op\<lparr>op_Kind := kRegister\<rparr>) Reg);
     Some (Slot MCINST_CACHE, mcInst\<lparr>mi_Operands := ops\<rparr>) }"

definition MCOperand_CreateReg0 :: "MCInst \<Rightarrow> u32 \<Rightarrow> MCInst option" where
  "MCOperand_CreateReg0 mcInst Reg = do {
     op \<leftarrow> aget (mi_Operands mcInst) (unat (mi_size mcInst));
     ops \<leftarrow> aset (mi_Operands mcInst) (unat (mi_size mcInst))
              (MCOperand_setReg (op\<lparr>op_Kind := kRegister\<rparr>) Reg);
     Some (mcInst\<lparr>mi_Operands := ops, mi_size := mi_size mcInst + 1\<rparr>) }"

definition MCOperand_CreateImm1 :: "MCInst \<Rightarrow> u64 \<Rightarrow> (operand_ptr \<times> MCInst) option" where
  "MCOperand_CreateImm1 mcInst Val = do {
     op \<leftarrow> aget (mi_Operands mcInst) MCINST_CACHE;
     ops \<leftarrow> aset (mi_Operands mcInst) MCINST_CACHE (MCOperand_setImm (op\<lparr>op_Kind := kImmediate\<rparr>) Val);
     Some (Slot MCINST_CACHE, mcInst\<lparr>mi_Operands := ops\<rparr>) }"

definition MCOperand_CreateImm0 :: "MCInst \<Rightarrow> u64 \<Rightarrow> MCInst option" where
  "MCOperand_CreateImm0 mcInst Val = do {
     op \<leftarrow> aget (mi_Operands mcInst) (unat (mi_size mcInst));
     ops \<leftarrow> aset (mi_Operands mcInst) (unat (mi_size mcInst))
              (MCOperand_setImm (op\<lparr>op_Kind := kImmediate\<rparr>) Val);
     Some (mcInst\<lparr>mi_Operands := ops, mi_size := mi_size mcInst + 1\<rparr>) }"

text \<open>The details behind \<^verbatim>\<open>MI->flat_insn->detail\<close>; a null pointer is left alone.\<close>

definition on_detail :: "(cs_detail \<Rightarrow> cs_detail option) \<Rightarrow> MCInst \<Rightarrow> MCInst option" where
  "on_detail f MI =
     (case in_detail (mi_flat_insn MI) of None \<Rightarrow> Some MI
      | Some (p, d) \<Rightarrow>
          map_option (\<lambda>d. MI\<lparr>mi_flat_insn := (mi_flat_insn MI)\<lparr>in_detail := Some (p, d)\<rparr>\<rparr>) (f d))"

section \<open>The operand list\<close>

text \<open>The abstraction: the operands in use. The array is the concrete representation.\<close>

definition operands :: "MCInst \<Rightarrow> MCOperand list" where
  "operands inst = take (unat (mi_size inst)) (mi_Operands inst)"

lemma mci_wf_Operands: "mci_wf inst \<Longrightarrow> length (mi_Operands inst) = 48"
  by (simp add: mci_wf_def)

lemma MCInst_Init_wf [simp]: "mci_wf (MCInst_Init inst) = mci_wf inst"
  by (simp add: mci_wf_def MCInst_Init_def)

lemma MCInst_Init_flat [simp]: "mi_flat_insn (MCInst_Init inst) = mi_flat_insn inst"
  "mi_evm_data (MCInst_Init inst) = mi_evm_data inst"
  "mi_size (MCInst_Init inst) = 0" "mi_OpcodePub (MCInst_Init inst) = 0"
  "mi_popcode_adjust (MCInst_Init inst) = 0"
  by (simp_all add: MCInst_Init_def)

lemma unat_size_inc: "unat (mi_size inst) < 48 \<Longrightarrow> unat (mi_size inst + 1) = Suc (unat (mi_size inst))"
  by (simp add: unat_word_ariths)

lemma insert_shift_spec:
  assumes "index \<le> i" "i < length ops"
  shows "insert_shift ops i index =
    Some (take (Suc index) ops @ drop index (take i ops) @ drop (Suc i) ops)"
  using assms
proof (induction "i - index" arbitrary: ops i)
  case 0
  then have "i = index" by simp
  with 0 show ?case by (simp add: insert_shift.simps)
next
  case (Suc n)
  then have lt: "index < i" by simp
  let ?ops = "ops[i := ops ! (i - 1)]"
  have "insert_shift ops i index = insert_shift ?ops (i - 1) index"
    using Suc.prems lt less_imp_diff_less [of i "length ops" 1]
    by (simp add: insert_shift.simps [of ops i index] aget_def aset_def)
  also have "\<dots> = Some (take (Suc index) ?ops @ drop index (take (i - 1) ?ops) @ drop i ?ops)"
    using Suc.hyps(1) [of "i - 1" ?ops] Suc.hyps(2) Suc.prems lt by simp
  also have "take (Suc index) ?ops = take (Suc index) ops" using lt by simp
  also have "take (i - 1) ?ops = take (i - 1) ops" using lt by simp
  also have "drop i ?ops = ops ! (i - 1) # drop (Suc i) ops"
    using Suc.prems by (simp add: drop_update_swap Cons_nth_drop_Suc [symmetric])
  also have "drop index (take (i - 1) ops) @ ops ! (i - 1) # drop (Suc i) ops =
      drop index (take i ops) @ drop (Suc i) ops"
  proof -
    have "take i ops = take (i - 1) ops @ [ops ! (i - 1)]"
      using Suc.prems lt by (metis Suc_diff_1 gr_implies_not0 less_imp_diff_less not_gr_zero
          take_Suc_conv_app_nth)
    then show ?thesis using Suc.prems lt by simp
  qed
  finally show ?case by simp
qed

text \<open>Inserting an operand that does not live in the array is insertion into the operand list.\<close>

lemma insert0_Obj:
  assumes "mci_wf inst" "index \<le> unat (mi_size inst)" "unat (mi_size inst) < 48"
  shows "\<exists>inst'. MCInst_insert0 inst index (Obj op) = Some inst' \<and> mci_wf inst' \<and>
    operands inst' = take index (operands inst) @ op # drop index (operands inst)"
proof -
  let ?n = "unat (mi_size inst)" and ?ops = "mi_Operands inst"
  have len: "length ?ops = 48" by (rule mci_wf_Operands [OF assms(1)])
  define ops where "ops = take (Suc index) ?ops @ drop index (take ?n ?ops) @ drop (Suc ?n) ?ops"
  have sh: "insert_shift ?ops ?n index = Some ops"
    using insert_shift_spec [of index ?n ?ops] assms len by (simp add: ops_def)
  have l: "length ops = 48" using assms(2,3) len by (simp add: ops_def)
  have tk: "take (Suc index) ?ops = take index ?ops @ [?ops ! index]"
    using assms(2,3) len by (simp add: take_Suc_conv_app_nth)
  have upd: "ops[index := op] = take index ?ops @ op # drop index (take ?n ?ops) @ drop (Suc ?n) ?ops"
    using assms(2,3) len by (simp add: ops_def tk list_update_append)
  define inst' where "inst' = inst\<lparr>mi_Operands := ops[index := op], mi_size := mi_size inst + 1\<rparr>"
  have "MCInst_insert0 inst index (Obj op) = Some inst'"
    using sh l assms(2,3) by (simp add: MCInst_insert0_def operand_deref_def aset_def inst'_def)
  moreover have "mci_wf inst'" using assms(1) l by (simp add: inst'_def mci_wf_def)
  moreover have "operands inst' = take index (operands inst) @ op # drop index (operands inst)"
    using assms(2,3) len upd unat_size_inc [of inst]
    by (simp add: operands_def inst'_def min_def Suc_diff_le)
  ultimately show ?thesis by blast
qed

lemma operand_updates [simp]:
  "(op :: MCOperand)\<lparr>op_Kind := k, op_raw := v\<rparr> = \<lparr>op_Kind = k, op_raw = v\<rparr>"
  by (cases op) simp

lemma create_wf:
  assumes "mci_wf inst" "unat (mi_size inst) < 48"
  shows "MCOperand_CreateImm0 inst v = Some (inst\<lparr>
      mi_Operands := (mi_Operands inst)[unat (mi_size inst) := \<lparr>op_Kind = kImmediate, op_raw = v\<rparr>],
      mi_size := mi_size inst + 1\<rparr>)"
  using assms by (simp add: MCOperand_CreateImm0_def MCOperand_setImm_def aget_def aset_def mci_wf_def)

lemma set_get_Reg [simp]: "MCOperand_getReg (MCOperand_setReg op r) = r"
  by (rule bit_eqI) (simp add: MCOperand_getReg_def MCOperand_setReg_def bit_simps)

lemma set_get_Imm [simp]: "MCOperand_getImm (MCOperand_setImm op v) = v"
  by (simp add: MCOperand_getImm_def MCOperand_setImm_def)

end
