(* ===== verification/SStream_Model.thy ===== *)
theory SStream_Model
  imports Capstone_Types
begin

text \<open>
  The string stream of \<^verbatim>\<open>SStream.c\<close>, into which every instruction printer writes: a
  512-byte buffer with a write index. \<open>SStream_concat0\<close> copies with no bound and is undefined
  past the buffer; \<open>SStream_concat\<close> goes through \<^verbatim>\<open>vsnprintf\<close>, which truncates but
  returns the length the text would have had, so the index can run past the text and past the
  buffer. The number printers are shown to print numerals that read back as the value they were
  given, for every 32- and 64-bit value.
\<close>

section \<open>Operations\<close>

definition SStream_Init :: "SStream \<Rightarrow> SStream" where
  "SStream_Init ss = ss\<lparr>ss_index := 0, ss_buffer := (ss_buffer ss)[0 := NUL]\<rparr>"

definition SStream_concat0 :: "SStream \<Rightarrow> string \<Rightarrow> SStream option" where
  "SStream_concat0 ss s = do {
     buf \<leftarrow> cwrite (ss_buffer ss) (ss_index ss) (s @ [NUL]);
     Some (ss\<lparr>ss_buffer := buf, ss_index := ss_index ss + length s\<rparr>) }"

text \<open>
  \<^verbatim>\<open>vsnprintf(buf + off, size, ...)\<close> for a format that expands to \<open>s\<close>; its result is
  the length of \<open>s\<close>.
\<close>

definition vsnprintf :: "char list \<Rightarrow> nat \<Rightarrow> nat \<Rightarrow> string \<Rightarrow> char list option" where
  "vsnprintf buf off sz s =
     (if sz = 0 then Some buf else cwrite buf off (take (sz - 1) s @ [NUL]))"

text \<open>\<^verbatim>\<open>sizeof(ss->buffer) - (ss->index + 1)\<close> in \<^verbatim>\<open>size_t\<close> arithmetic.\<close>

definition concat_avail :: "nat \<Rightarrow> nat" where
  "concat_avail index = nat ((int SSTREAM_SIZE - (int index + 1)) mod 2 ^ 64)"

definition SStream_concat :: "SStream \<Rightarrow> string \<Rightarrow> SStream option" where
  "SStream_concat ss s = do {
     buf \<leftarrow> vsnprintf (ss_buffer ss) (ss_index ss) (concat_avail (ss_index ss)) s;
     Some (ss\<lparr>ss_buffer := buf, ss_index := ss_index ss + length s\<rparr>) }"

abbreviation (input) HEX_THRESHOLD :: int where "HEX_THRESHOLD \<equiv> 9"
abbreviation (input) LONG_MIN :: int where "LONG_MIN \<equiv> - (2 ^ 63)"
abbreviation (input) INT_MIN :: int where "INT_MIN \<equiv> - (2 ^ 31)"

definition printInt64Bang :: "SStream \<Rightarrow> u64 \<Rightarrow> SStream option" where
  "printInt64Bang O' val =
     (if sint val \<ge> 0 then
        if sint val > HEX_THRESHOLD then SStream_concat O' (''#0x'' @ fmt_x (unat val))
        else SStream_concat O' (''#'' @ fmt_u (unat val))
      else if sint val < - HEX_THRESHOLD then
        if sint val = LONG_MIN then SStream_concat O' (''#-0x'' @ fmt_x (unat val))
        else SStream_concat O' (''#-0x'' @ fmt_x (unat (- val)))
      else SStream_concat O' (''#-'' @ fmt_u (unat (- val))))"

definition printUInt64Bang :: "SStream \<Rightarrow> u64 \<Rightarrow> SStream option" where
  "printUInt64Bang O' val =
     (if uint val > HEX_THRESHOLD then SStream_concat O' (''#0x'' @ fmt_x (unat val))
      else SStream_concat O' (''#'' @ fmt_u (unat val)))"

definition printInt64 :: "SStream \<Rightarrow> u64 \<Rightarrow> SStream option" where
  "printInt64 O' val =
     (if sint val \<ge> 0 then
        if sint val > HEX_THRESHOLD then SStream_concat O' (''0x'' @ fmt_x (unat val))
        else SStream_concat O' (fmt_u (unat val))
      else if sint val < - HEX_THRESHOLD then
        if sint val = LONG_MIN then SStream_concat O' (''-0x'' @ fmt_x (unat val))
        else SStream_concat O' (''-0x'' @ fmt_x (unat (- val)))
      else SStream_concat O' (''-'' @ fmt_u (unat (- val))))"

definition printInt32BangDec :: "SStream \<Rightarrow> u32 \<Rightarrow> SStream option" where
  "printInt32BangDec O' val =
     (if sint val \<ge> 0 then SStream_concat O' (''#'' @ fmt_u (unat val))
      else if sint val = INT_MIN then SStream_concat O' (''#-'' @ fmt_u (unat val))
      else SStream_concat O' (''#-'' @ fmt_u (unat (- val))))"

definition printInt32Bang :: "SStream \<Rightarrow> u32 \<Rightarrow> SStream option" where
  "printInt32Bang O' val =
     (if sint val \<ge> 0 then
        if sint val > HEX_THRESHOLD then SStream_concat O' (''#0x'' @ fmt_x (unat val))
        else SStream_concat O' (''#'' @ fmt_u (unat val))
      else if sint val < - HEX_THRESHOLD then
        if sint val = INT_MIN then SStream_concat O' (''#-0x'' @ fmt_x (unat val))
        else SStream_concat O' (''#-0x'' @ fmt_x (unat (- val)))
      else SStream_concat O' (''#-'' @ fmt_u (unat (- val))))"

definition printInt32 :: "SStream \<Rightarrow> u32 \<Rightarrow> SStream option" where
  "printInt32 O' val =
     (if sint val \<ge> 0 then
        if sint val > HEX_THRESHOLD then SStream_concat O' (''0x'' @ fmt_x (unat val))
        else SStream_concat O' (fmt_u (unat val))
      else if sint val < - HEX_THRESHOLD then
        if sint val = INT_MIN then SStream_concat O' (''-0x'' @ fmt_x (unat val))
        else SStream_concat O' (''-0x'' @ fmt_x (unat (- val)))
      else SStream_concat O' (''-'' @ fmt_u (unat (- val))))"

definition printUInt32Bang :: "SStream \<Rightarrow> u32 \<Rightarrow> SStream option" where
  "printUInt32Bang O' val =
     (if uint val > HEX_THRESHOLD then SStream_concat O' (''#0x'' @ fmt_x (unat val))
      else SStream_concat O' (''#'' @ fmt_u (unat val)))"

definition printUInt32 :: "SStream \<Rightarrow> u32 \<Rightarrow> SStream option" where
  "printUInt32 O' val =
     (if uint val > HEX_THRESHOLD then SStream_concat O' (''0x'' @ fmt_x (unat val))
      else SStream_concat O' (fmt_u (unat val)))"

section \<open>Appending\<close>

text \<open>The stream holds the text \<open>p\<close>: the index is its length and its terminator is in place.\<close>

definition ss_holds :: "SStream \<Rightarrow> string \<Rightarrow> bool" where
  "ss_holds ss p \<longleftrightarrow>
     length (ss_buffer ss) = SSTREAM_SIZE \<and> ss_index ss = length p \<and> holds (ss_buffer ss) p"

lemma ss_holds_cstr: "ss_holds ss p \<Longrightarrow> cstr (ss_buffer ss) = p"
  by (simp add: ss_holds_def holds_cstr)

lemma ss_holds_length: "ss_holds ss p \<Longrightarrow> length p < SSTREAM_SIZE"
  using holds_less by (fastforce simp: ss_holds_def)

lemma SStream_Init_holds: "length (ss_buffer ss) = SSTREAM_SIZE \<Longrightarrow> ss_holds (SStream_Init ss) []"
proof -
  assume len: "length (ss_buffer ss) = SSTREAM_SIZE"
  then obtain c r where "ss_buffer ss = c # r" by (cases "ss_buffer ss") auto
  with len show ?thesis by (simp add: ss_holds_def SStream_Init_def holds_def)
qed

lemma concat_avail_in: "i < SSTREAM_SIZE \<Longrightarrow> concat_avail i = SSTREAM_SIZE - 1 - i"
proof -
  assume "i < SSTREAM_SIZE"
  then have "0 \<le> int SSTREAM_SIZE - (int i + 1)" "int SSTREAM_SIZE - (int i + 1) < 2 ^ 64" by auto
  then show ?thesis by (simp add: concat_avail_def)
qed

lemma SStream_concat0_holds:
  assumes "ss_holds ss p" "NUL \<notin> set s" "length p + length s < SSTREAM_SIZE"
  shows "\<exists>ss'. SStream_concat0 ss s = Some ss' \<and> ss_holds ss' (p @ s)"
proof -
  from assms have "holds (ss_buffer ss) p" "length p + length s < length (ss_buffer ss)"
    "ss_index ss = length p" "length (ss_buffer ss) = SSTREAM_SIZE" by (auto simp: ss_holds_def)
  with cwrite_extends_holds [OF this(1) assms(2) this(2)] show ?thesis
    by (auto simp: SStream_concat0_def ss_holds_def)
qed

lemma SStream_concat_holds:
  assumes "ss_holds ss p" "NUL \<notin> set s" "length p + length s < SSTREAM_SIZE - 1"
  shows "\<exists>ss'. SStream_concat ss s = Some ss' \<and> ss_holds ss' (p @ s)"
proof -
  from assms have *: "holds (ss_buffer ss) p" "length p + length s < length (ss_buffer ss)"
    "ss_index ss = length p" "length (ss_buffer ss) = SSTREAM_SIZE" by (auto simp: ss_holds_def)
  have avail: "concat_avail (length p) = SSTREAM_SIZE - 1 - length p"
    using assms(3) by (intro concat_avail_in) simp
  have "take (concat_avail (length p) - 1) s = s" "concat_avail (length p) \<noteq> 0"
    using assms(3) avail by auto
  with cwrite_extends_holds [OF *(1) assms(2) *(2)] *(3,4) show ?thesis
    by (auto simp: SStream_concat_def vsnprintf_def ss_holds_def)
qed

section \<open>Printing a text\<close>

text \<open>\<open>prints f t k\<close>: \<open>f\<close> appends the text \<open>t\<close>, of at most \<open>k\<close> characters, to a stream with room for \<open>k\<close>.\<close>

definition prints :: "(SStream \<Rightarrow> SStream option) \<Rightarrow> string \<Rightarrow> nat \<Rightarrow> bool" where
  "prints f t k \<longleftrightarrow> length t \<le> k \<and>
     (\<forall>ss p. ss_holds ss p \<longrightarrow> length p + k < 511 \<longrightarrow> yields (f ss) (\<lambda>ss'. ss_holds ss' (p @ t)))"

lemma prints_concat: "NUL \<notin> set t \<Longrightarrow> length t \<le> k \<Longrightarrow> prints (\<lambda>ss. SStream_concat ss t) t k"
  unfolding prints_def yields_def by (auto intro!: SStream_concat_holds)

lemma prints_nothing: "prints Some [] 0"
  by (simp add: prints_def wp)

lemma prints_mono: "prints f t k \<Longrightarrow> k \<le> l \<Longrightarrow> prints f t l"
  by (auto simp: prints_def)

lemma prints_if: "prints f t k \<Longrightarrow> prints (\<lambda>ss. if b then f ss else Some ss) (if b then t else []) k"
  by (auto simp: prints_def wp)

lemma prints_if_else: "prints f t k \<Longrightarrow> prints g u k \<Longrightarrow> prints (\<lambda>ss. if b then f ss else g ss) (if b then t else u) k"
  by auto

lemma prints_then:
  assumes "prints f t k" "prints g u l"
  shows "prints (\<lambda>ss. f ss \<bind> g) (t @ u) (k + l)"
  unfolding prints_def
proof (intro conjI allI impI)
  show "length (t @ u) \<le> k + l" using assms by (simp add: prints_def)
  fix ss p assume *: "ss_holds ss p" "length p + (k + l) < 511"
  have f: "yields (f ss) (\<lambda>ss'. ss_holds ss' (p @ t))" using assms(1) * by (simp add: prints_def)
  have "yields (g x) (\<lambda>ss'. ss_holds ss' ((p @ t) @ u))" if "ss_holds x (p @ t)" for x
    using assms * that by (auto simp only: prints_def length_append intro: yields_mono elim!: allE [where x = x] allE [where x = "p @ t"])
  with f show "yields (f ss \<bind> g) (\<lambda>ss'. ss_holds ss' (p @ t @ u))"
    by (intro yields_then [OF f]) simp
qed

lemma prints_seq:
  assumes "\<And>ss. f ss = h ss \<bind> g" "prints h t k" "prints g u l" "k + l \<le> m"
  shows "prints f (t @ u) m"
  using prints_mono [OF prints_then [OF assms(2,3)] assms(4)] assms(1) by presburger

text \<open>Texts with a delimiter between them.\<close>

fun separated :: "string \<Rightarrow> string list \<Rightarrow> string" where
  "separated d [] = []"
| "separated d [t] = t"
| "separated d (t # ts) = t @ d @ separated d ts"

section \<open>Reading numerals back\<close>

text \<open>What a reader of the assembly text takes a numeral for.\<close>

definition scan_num :: "string \<Rightarrow> nat" where
  "scan_num s = (if take 2 s = ''0x'' then scan_radix 16 (drop 2 s) else scan_radix 10 s)"

definition scan_int :: "string \<Rightarrow> int" where
  "scan_int s = (case s of [] \<Rightarrow> 0
     | c # r \<Rightarrow> if c = CHR ''-'' then - int (scan_num r) else int (scan_num s))"

definition scan_bang :: "string \<Rightarrow> int" where
  "scan_bang s = scan_int (tl s)"

lemma fmt_u_head:
  obtains c r where "fmt_u n = c # r" "c \<in> set ''0123456789abcdef''"
    "r = [] \<or> hd r \<in> set ''0123456789abcdef''"
proof -
  have ne: "fmt_u n \<noteq> []" by simp
  then obtain c r where cr: "fmt_u n = c # r" by (meson neq_Nil_conv)
  have sub: "set (c # r) \<subseteq> set ''0123456789abcdef''"
    using fmt_radix_chars [of 10 n] unfolding cr by simp
  then have "c \<in> set ''0123456789abcdef''" by simp
  moreover have "r = [] \<or> hd r \<in> set ''0123456789abcdef''"
    using sub by (cases r) auto
  ultimately show ?thesis using that cr by blast
qed

lemma scan_num_hex [simp]: "scan_num (CHR ''0'' # CHR ''x'' # fmt_x n) = n"
  using scan_fmt_radix [of 16 n] by (simp add: scan_num_def)

lemma scan_num_dec [simp]: "scan_num (fmt_u n) = n"
proof -
  obtain c r where cr: "fmt_u n = c # r" "r = [] \<or> hd r \<in> set ''0123456789abcdef''"
    by (rule fmt_u_head)
  then have "take 2 (fmt_u n) \<noteq> ''0x''"
    by (cases r) (auto simp: take_Suc numeral_2_eq_2)
  then show ?thesis using scan_fmt_radix [of 10 n] by (simp add: scan_num_def)
qed

lemma scan_int_dec [simp]: "scan_int (fmt_u n) = int n"
proof -
  obtain c r where cr: "fmt_u n = c # r" "c \<in> set ''0123456789abcdef''"
    by (rule fmt_u_head)
  then have "c \<noteq> CHR ''-''" by auto
  with cr(1) have "scan_int (fmt_u n) = int (scan_num (fmt_u n))" by (simp add: scan_int_def)
  then show ?thesis by simp
qed

lemma scan_int_hex [simp]: "scan_int (CHR ''0'' # CHR ''x'' # fmt_x n) = int n"
  by (simp add: scan_int_def)

lemma scan_int_neg [simp]: "scan_int (CHR ''-'' # s) = - int (scan_num s)"
  by (simp add: scan_int_def)

lemma no_NUL_fmt: "b \<in> {10, 16} \<Longrightarrow> NUL \<notin> set (fmt_radix b n)"
  using fmt_radix_chars [of b n] by auto

lemma length_fmt_word:
  fixes w :: "'a::len word"
  assumes "b \<in> {10, 16}" "LENGTH('a) \<le> 64"
  shows "length (fmt_radix b (unat w)) \<le> 20"
proof (rule length_fmt_radix)
  have "unat w < 2 ^ LENGTH('a)" by (rule unsigned_less)
  also have "(2::nat) ^ LENGTH('a) \<le> 2 ^ 64" by (rule power_increasing) (use assms(2) in auto)
  also have "(2::nat) ^ 64 \<le> b ^ 20" using assms(1) by auto
  finally show "unat w < b ^ 20" .
qed (use assms in auto)

text \<open>
  The numerals the printers are meant to show: decimal up to the threshold, hexadecimal beyond
  it, the magnitude after a minus sign for a negative value.
\<close>

definition unsigned_numeral :: "'a::len word \<Rightarrow> string" where
  "unsigned_numeral w =
     (if uint w > HEX_THRESHOLD then ''0x'' @ fmt_x (unat w) else fmt_u (unat w))"

definition signed_numeral :: "'a::len word \<Rightarrow> string" where
  "signed_numeral w =
     (if sint w \<ge> 0 then if sint w > HEX_THRESHOLD then ''0x'' @ fmt_x (unat w) else fmt_u (unat w)
      else ''-'' @ (if sint w < - HEX_THRESHOLD then ''0x'' @ fmt_x (unat (- w))
                    else fmt_u (unat (- w))))"

definition decimal_numeral :: "'a::len word \<Rightarrow> string" where
  "decimal_numeral w =
     (if sint w \<ge> 0 then fmt_u (unat w) else ''-'' @ fmt_u (unat (- w)))"

lemma scan_signed_numeral: "scan_int (signed_numeral w) = sint w"
  by (auto simp: signed_numeral_def uint_sint_pos uint_neg_sint)

lemma scan_decimal_numeral: "scan_int (decimal_numeral w) = sint w"
  by (auto simp: decimal_numeral_def uint_sint_pos uint_neg_sint)

lemma scan_unsigned_numeral: "scan_int (unsigned_numeral w) = uint w"
  by (auto simp: unsigned_numeral_def)

definition short_text :: "string \<Rightarrow> bool" where
  "short_text s \<longleftrightarrow> length s \<le> 24 \<and> NUL \<notin> set s"

lemma numerals_short [simp]:
  fixes w :: "'a::len word"
  assumes "LENGTH('a) \<le> 64"
  shows "short_text (signed_numeral w)" "short_text (CHR ''#'' # signed_numeral w)"
    "short_text (unsigned_numeral w)" "short_text (CHR ''#'' # unsigned_numeral w)"
    "short_text (decimal_numeral w)" "short_text (CHR ''#'' # decimal_numeral w)"
proof -
  have u: "length (fmt_u (unat v)) \<le> 20" and x: "length (fmt_x (unat v)) \<le> 20" for v :: "'a word"
    using assms by (simp_all add: length_fmt_word)
  note facts = u [of w] u [of "- w"] x [of w] x [of "- w"]
  show "short_text (signed_numeral w)" "short_text (CHR ''#'' # signed_numeral w)"
    "short_text (unsigned_numeral w)" "short_text (CHR ''#'' # unsigned_numeral w)"
    "short_text (decimal_numeral w)" "short_text (CHR ''#'' # decimal_numeral w)"
    using facts by (auto simp: short_text_def signed_numeral_def unsigned_numeral_def
        decimal_numeral_def no_NUL_fmt)
qed

text \<open>At the most negative value the magnitude is the bit pattern itself.\<close>

lemma neg_min_word:
  fixes w :: "'a::len word"
  assumes "sint w = - (2 ^ (LENGTH('a) - 1))"
  shows "unat (- w) = unat w"
proof -
  obtain n where n: "LENGTH('a) = Suc n" by (cases "LENGTH('a)") auto
  have "\<not> uint w < 2 ^ n"
  proof
    assume "uint w < 2 ^ n"
    then have "sint w = uint w" using n by (simp add: sint_split)
    moreover have "(0::int) < 2 ^ n" by simp
    ultimately show False using assms n by (smt (verit) unsigned_greater_eq diff_Suc_1)
  qed
  then have "uint w - 2 ^ Suc n = - (2 ^ n)" using assms n by (simp add: sint_split)
  then have "uint w = 2 ^ n" by simp
  moreover have "sint w < 0" using assms by simp
  then have "uint (- w) = 2 ^ n" using uint_neg_sint [of w] assms n by simp
  ultimately show ?thesis by (simp add: unat_eq_nat_uint)
qed

text \<open>
  The contract of a number printer: it appends one numeral, short and free of NUL, that reads
  back as the value.
\<close>

locale number_printer =
  fixes print :: "SStream \<Rightarrow> 'v \<Rightarrow> SStream option"
    and val_of :: "'v \<Rightarrow> int"
    and scan :: "string \<Rightarrow> int"
  assumes prints_numeral:
    "\<exists>s. (\<forall>ss. print ss v = SStream_concat ss s) \<and> scan s = val_of v \<and>
         short_text s"
begin

lemma print_appends:
  assumes "ss_holds ss p" "length p + 24 < SSTREAM_SIZE - 1"
  shows "\<exists>ss' s. print ss v = Some ss' \<and> ss_holds ss' (p @ s) \<and> scan s = val_of v"
proof -
  obtain s where s: "print ss v = SStream_concat ss s" "scan s = val_of v" "length s \<le> 24"
    "NUL \<notin> set s" using prints_numeral unfolding short_text_def by blast
  have "length p + length s < SSTREAM_SIZE - 1" using s(3) assms(2) by simp
  from SStream_concat_holds [OF assms(1) s(4) this] s(1,2) show ?thesis by auto
qed

text \<open>Two numbers printed alike are the same number.\<close>

lemma print_injective:
  assumes "\<And>ss. print ss v = print ss w"
  shows "val_of v = val_of w"
proof -
  define ss0 where "ss0 = \<lparr>ss_buffer = replicate SSTREAM_SIZE NUL, ss_index = 0\<rparr>"
  have h: "ss_holds ss0 []"
    by (simp add: ss0_def ss_holds_def holds_def numeral_eq_Suc)
  from print_appends [OF h, of v] obtain s1 t1
    where 1: "print ss0 v = Some s1" "ss_holds s1 t1" "scan t1 = val_of v" by auto
  from print_appends [OF h, of w] obtain s2 t2
    where 2: "print ss0 w = Some s2" "ss_holds s2 t2" "scan t2 = val_of w" by auto
  from 1(1) 2(1) assms [of ss0] have "s1 = s2" by simp
  with 1(2) 2(2) have "t1 = t2" by (metis ss_holds_cstr)
  with 1(3) 2(3) show ?thesis by simp
qed

end

lemma printInt64_numeral: "printInt64 ss v = SStream_concat ss (signed_numeral v)"
  by (simp add: neg_min_word printInt64_def signed_numeral_def)

lemma printInt64Bang_numeral:
  "printInt64Bang ss v = SStream_concat ss (CHR ''#'' # signed_numeral v)"
  by (simp add: neg_min_word printInt64Bang_def signed_numeral_def)

lemma printInt32_numeral: "printInt32 ss v = SStream_concat ss (signed_numeral v)"
  by (simp add: neg_min_word printInt32_def signed_numeral_def)

lemma printInt32Bang_numeral:
  "printInt32Bang ss v = SStream_concat ss (CHR ''#'' # signed_numeral v)"
  by (simp add: neg_min_word printInt32Bang_def signed_numeral_def)

lemma printInt32BangDec_numeral:
  "printInt32BangDec ss v = SStream_concat ss (CHR ''#'' # decimal_numeral v)"
  by (simp add: neg_min_word printInt32BangDec_def decimal_numeral_def)

lemma printUInt_numeral:
  "printUInt64Bang ss v = SStream_concat ss (CHR ''#'' # unsigned_numeral v)"
  "printUInt32Bang ss w = SStream_concat ss (CHR ''#'' # unsigned_numeral w)"
  "printUInt32 ss w = SStream_concat ss (unsigned_numeral w)"
  by (simp_all add: printUInt64Bang_def printUInt32Bang_def printUInt32_def unsigned_numeral_def)

lemma number_printerI:
  assumes "\<And>ss v. pr ss v = SStream_concat ss (txt v)" "\<And>v. sc (txt v) = vl v"
    "\<And>v. short_text (txt v)"
  shows "number_printer pr vl sc"
  using assms by unfold_locales blast

lemmas scan_numeral =
  scan_signed_numeral scan_decimal_numeral scan_unsigned_numeral scan_bang_def

interpretation pi64: number_printer printInt64 sint scan_int
  by (rule number_printerI [OF printInt64_numeral]) (simp_all add: scan_numeral)

interpretation pi64b: number_printer printInt64Bang sint scan_bang
  by (rule number_printerI [OF printInt64Bang_numeral]) (simp_all add: scan_numeral)

interpretation pi32: number_printer printInt32 sint scan_int
  by (rule number_printerI [OF printInt32_numeral]) (simp_all add: scan_numeral)

interpretation pi32b: number_printer printInt32Bang sint scan_bang
  by (rule number_printerI [OF printInt32Bang_numeral]) (simp_all add: scan_numeral)

interpretation pi32d: number_printer printInt32BangDec sint scan_bang
  by (rule number_printerI [OF printInt32BangDec_numeral]) (simp_all add: scan_numeral)

interpretation pu64b: number_printer printUInt64Bang uint scan_bang
  by (rule number_printerI [OF printUInt_numeral(1)]) (simp_all add: scan_numeral)

interpretation pu32b: number_printer printUInt32Bang uint scan_bang
  by (rule number_printerI [OF printUInt_numeral(2)]) (simp_all add: scan_numeral)

interpretation pu32: number_printer printUInt32 uint scan_int
  by (rule number_printerI [OF printUInt_numeral(3)]) (simp_all add: scan_numeral)

end
