(* ===== verification/CS_Heap.thy ===== *)
theory CS_Heap
  imports Capstone_Types
begin

text \<open>
  The dynamic memory of the engine. All allocation goes through the five function pointers of
  \<^verbatim>\<open>cs_opt_mem\<close> (\<^verbatim>\<open>malloc\<close> and its kin by default, the user's functions after
  \<^verbatim>\<open>cs_option(CS_OPT_MEM)\<close>); calling a null one is undefined. Their documented
  behaviour is modelled: an allocation yields a fresh block or NULL, and which calls succeed is
  an arbitrary function of the call's number; \<^verbatim>\<open>free(NULL)\<close> does nothing, and freeing
  anything but a live block is undefined. The live blocks with their sizes are the state the
  leak and double-free theorems speak about.
\<close>

record heap =
  h_funcs :: cs_opt_mem
  h_live :: "nat \<rightharpoonup> nat"
  h_next :: nat
  h_calls :: nat
  h_grant :: "nat \<Rightarrow> bool"

definition h_alloc :: "heap \<Rightarrow> nat \<Rightarrow> nat \<times> heap" where
  "h_alloc h n =
     (if h_grant h (h_calls h)
      then (h_next h, h\<lparr>h_live := (h_live h)(h_next h \<mapsto> n), h_next := Suc (h_next h),
                        h_calls := Suc (h_calls h)\<rparr>)
      else (0, h\<lparr>h_calls := Suc (h_calls h)\<rparr>))"

definition h_malloc :: "heap \<Rightarrow> nat \<Rightarrow> (nat \<times> heap) option" where
  "h_malloc h n = (if cs_mem_malloc (h_funcs h) = 0 then None else Some (h_alloc h n))"

definition h_calloc :: "heap \<Rightarrow> nat \<Rightarrow> (nat \<times> heap) option" where
  "h_calloc h n = (if cs_mem_calloc (h_funcs h) = 0 then None else Some (h_alloc h n))"

definition h_free :: "heap \<Rightarrow> nat \<Rightarrow> heap option" where
  "h_free h p =
     (if cs_mem_free (h_funcs h) = 0 then None
      else if p = 0 then Some h
      else if h_live h p = None then None
      else Some (h\<lparr>h_live := (h_live h)(p := None)\<rparr>))"

text \<open>\<^verbatim>\<open>realloc\<close> of a live block: a new block and the old one released, or NULL and the old one kept.\<close>

definition h_realloc :: "heap \<Rightarrow> nat \<Rightarrow> nat \<Rightarrow> (nat \<times> heap) option" where
  "h_realloc h p n =
     (if cs_mem_realloc (h_funcs h) = 0 \<or> h_live h p = None then None
      else Some (case h_alloc h n of (q, h') \<Rightarrow>
        (q, if q = 0 then h' else h'\<lparr>h_live := (h_live h')(p := None)\<rparr>)))"

fun h_free_all :: "heap \<Rightarrow> nat list \<Rightarrow> heap option" where
  "h_free_all h [] = Some h"
| "h_free_all h (p # ps) = do { h' \<leftarrow> h_free h p; h_free_all h' ps }"

section \<open>Well-formed heaps\<close>

definition heap_wf :: "heap \<Rightarrow> bool" where
  "heap_wf h \<longleftrightarrow> 0 < h_next h \<and> (\<forall>a \<in> dom (h_live h). 0 < a \<and> a < h_next h)"

text \<open>All five functions are set, which \<^verbatim>\<open>cs_open\<close> checks.\<close>

definition funcs_set :: "cs_opt_mem \<Rightarrow> bool" where
  "funcs_set f \<longleftrightarrow> cs_mem_malloc f \<noteq> 0 \<and> cs_mem_calloc f \<noteq> 0 \<and> cs_mem_realloc f \<noteq> 0 \<and>
     cs_mem_free f \<noteq> 0 \<and> cs_vsnprintf f \<noteq> 0"

definition heap_ok :: "heap \<Rightarrow> bool" where
  "heap_ok h \<longleftrightarrow> heap_wf h \<and> funcs_set (h_funcs h)"

lemma heap_ok_facts [simp]:
  "heap_ok h \<Longrightarrow> heap_wf h" "heap_ok h \<Longrightarrow> funcs_set (h_funcs h)"
  by (simp_all add: heap_ok_def)

lemma h_malloc_ok: "heap_ok h \<Longrightarrow> h_malloc h n = Some (h_alloc h n)"
  by (simp add: heap_ok_def h_malloc_def funcs_set_def)

lemma h_calloc_ok: "heap_ok h \<Longrightarrow> h_calloc h n = Some (h_alloc h n)"
  by (simp add: heap_ok_def h_calloc_def funcs_set_def)

lemma h_alloc_cases:
  assumes "heap_ok h"
  obtains (fail) h' where "h_alloc h n = (0, h')" "heap_ok h'" "h_live h' = h_live h"
      "h_funcs h' = h_funcs h"
  | (fresh) p h' where "h_alloc h n = (p, h')" "0 < p" "h_live h p = None" "heap_ok h'"
      "h_live h' = (h_live h)(p \<mapsto> n)" "h_funcs h' = h_funcs h"
proof (cases "h_grant h (h_calls h)")
  case True
  have wf: "0 < h_next h" "\<And>a. a \<in> dom (h_live h) \<Longrightarrow> 0 < a \<and> a < h_next h"
    using assms by (auto simp: heap_ok_def heap_wf_def)
  show ?thesis
  proof (rule fresh [of "h_next h"])
    show "h_live h (h_next h) = None" using wf(2) [of "h_next h"] by fastforce
    show "0 < h_next h" by (rule wf)
    show "h_alloc h n = (h_next h, h\<lparr>h_live := (h_live h)(h_next h \<mapsto> n),
        h_next := Suc (h_next h), h_calls := Suc (h_calls h)\<rparr>)"
      using True by (simp add: h_alloc_def)
    show "heap_ok (h\<lparr>h_live := (h_live h)(h_next h \<mapsto> n), h_next := Suc (h_next h),
        h_calls := Suc (h_calls h)\<rparr>)"
      using assms wf by (auto simp: heap_ok_def heap_wf_def less_Suc_eq)
  qed simp_all
next
  case False
  with assms show ?thesis
    by (intro fail [of "h\<lparr>h_calls := Suc (h_calls h)\<rparr>"])
       (auto simp: h_alloc_def heap_ok_def heap_wf_def)
qed

lemma h_free_ok:
  assumes "heap_ok h" "h_live h p \<noteq> None"
  shows "\<exists>h'. h_free h p = Some h' \<and> heap_ok h' \<and> h_live h' = (h_live h)(p := None)
    \<and> h_funcs h' = h_funcs h"
proof -
  from assms have "0 < p" by (auto simp: heap_ok_def heap_wf_def)
  with assms show ?thesis
    by (auto simp: h_free_def heap_ok_def heap_wf_def funcs_set_def)
qed

lemma h_free_NULL: "heap_ok h \<Longrightarrow> h_free h 0 = Some h"
  by (simp add: h_free_def heap_ok_def funcs_set_def)

lemma h_realloc_cases:
  assumes "heap_ok h" "h_live h p \<noteq> None"
  obtains (fail) h' where "h_realloc h p n = Some (0, h')" "heap_ok h'" "h_live h' = h_live h"
      "h_funcs h' = h_funcs h"
  | (moved) q h' where "h_realloc h p n = Some (q, h')" "0 < q" "h_live h q = None" "heap_ok h'"
      "h_live h' = (h_live h)(p := None, q \<mapsto> n)" "h_funcs h' = h_funcs h"
proof (cases rule: h_alloc_cases [OF assms(1), of n])
  case (1 h')
  with assms show ?thesis
    by (intro fail [of h']) (auto simp: h_realloc_def heap_ok_def funcs_set_def)
next
  case (2 q h')
  then have "p \<noteq> q" using assms(2) by auto
  with 2 assms show ?thesis
    by (intro moved [of q "h'\<lparr>h_live := (h_live h')(p := None)\<rparr>"])
       (auto simp: h_realloc_def heap_ok_def heap_wf_def funcs_set_def)
qed

text \<open>Freeing a list of distinct live blocks, null pointers allowed anywhere in it.\<close>

lemma h_free_all_ok:
  assumes "heap_ok h" "distinct (filter (\<lambda>p. p \<noteq> 0) ps)"
    "\<forall>p \<in> set ps. p \<noteq> 0 \<longrightarrow> h_live h p \<noteq> None"
  shows "\<exists>h'. h_free_all h ps = Some h' \<and> heap_ok h' \<and> h_live h' = h_live h |` (- set ps)
    \<and> h_funcs h' = h_funcs h"
  using assms
proof (induction ps arbitrary: h)
  case Nil
  then show ?case by (simp add: restrict_map_def)
next
  case (Cons p ps)
  show ?case
  proof (cases "p = 0")
    case True
    have "h_live h 0 = None" using Cons.prems(1) by (force simp: heap_ok_def heap_wf_def)
    then have "h_live h |` (- set ps) = h_live h |` (- set (p # ps))"
      using True by (auto simp: restrict_map_def fun_eq_iff)
    with Cons.IH [OF Cons.prems(1)] Cons.prems True show ?thesis
      by (auto simp: h_free_NULL)
  next
    case False
    then have "h_live h p \<noteq> None" using Cons.prems(3) by simp
    from h_free_ok [OF Cons.prems(1) this] obtain h1 where h1: "h_free h p = Some h1" "heap_ok h1"
      "h_live h1 = (h_live h)(p := None)" "h_funcs h1 = h_funcs h" by auto
    have "p \<notin> set ps" using Cons.prems(2) False by auto
    then have "\<forall>q \<in> set ps. q \<noteq> 0 \<longrightarrow> h_live h1 q \<noteq> None" using Cons.prems(3) h1(3) by auto
    moreover have "distinct (filter (\<lambda>p. p \<noteq> 0) ps)" using Cons.prems(2) by (auto split: if_splits)
    ultimately obtain h2 where h2: "h_free_all h1 ps = Some h2" "heap_ok h2"
      "h_live h2 = h_live h1 |` (- set ps)" "h_funcs h2 = h_funcs h1"
      using Cons.IH [OF h1(2)] by blast
    have "h_live h2 = h_live h |` (- set (p # ps))"
      using h2(3) h1(3) by (auto simp: restrict_map_def fun_eq_iff)
    with h1 h2 show ?thesis by auto
  qed
qed

end
