(* ===== verification/Utils_Model.thy ===== *)
theory Utils_Model
  imports CS_Heap
begin

text \<open>
  The lookup helpers of \<^verbatim>\<open>utils.c\<close>: the id-to-index cache of the instruction tables, the
  name tables, counting and membership in zero-terminated or counted arrays, and string
  duplication. The cache is shown to answer as a search of the table does, the two directions of
  a name table to be inverse to each other, and the array helpers to agree with their list
  specifications; the conditions under which they run off their arrays are explicit.
\<close>

section \<open>The instruction table and its cache\<close>

record insn_map =
  im_id :: u16
  im_mapid :: u16
  im_regs_use :: "u16 list"
  im_regs_mod :: "u16 list"
  im_groups :: "u8 list"
  im_branch :: bool
  im_indirect_branch :: bool

text \<open>
  The loop that fills the cache. Its counter is an \<^verbatim>\<open>unsigned short\<close>, so it never ends on
  a table of more than 65535 entries; the id of an entry beyond the maximum writes outside the
  block.
\<close>

fun id2insn_fill :: "insn_map list \<Rightarrow> nat \<Rightarrow> u16 list \<Rightarrow> u16 list option" where
  "id2insn_fill [] i cache = Some cache"
| "id2insn_fill (x # xs) i cache = do {
     cache' \<leftarrow> aset cache (unat (im_id x)) (of_nat i);
     id2insn_fill xs (Suc i) cache' }"

definition make_id2insn :: "heap \<Rightarrow> insn_map list \<Rightarrow> ((nat \<times> u16 list) \<times> heap) option" where
  "make_id2insn h insns = do {
     need (insns \<noteq> []);
     (p, h') \<leftarrow> h_calloc h ((unat (im_id (last insns)) + 1) * 2);
     need (p \<noteq> 0);
     need (length insns \<le> 65535);
     cache \<leftarrow> id2insn_fill (tl insns) 1 (replicate (unat (im_id (last insns)) + 1) 0);
     Some ((p, cache), h') }"

definition insn_find ::
  "heap \<Rightarrow> insn_map list \<Rightarrow> u32 \<Rightarrow> (nat \<times> u16 list) option
     \<Rightarrow> (u16 \<times> (nat \<times> u16 list) option \<times> heap) option" where
  "insn_find h insns idn cache = do {
     need (insns \<noteq> []);
     if idn > ucast (im_id (last insns)) then Some (0, cache, h)
     else do {
       (c, h') \<leftarrow> (case cache of None \<Rightarrow> make_id2insn h insns | Some c \<Rightarrow> Some (c, h));
       r \<leftarrow> aget (snd c) (unat idn);
       Some (r, Some c, h') } }"

section \<open>Name tables\<close>

record name_map =
  nm_id :: u32
  nm_name :: "string option"

fun name2id :: "name_map list \<Rightarrow> string \<Rightarrow> int option" where
  "name2id [] name = Some (- 1)"
| "name2id (e # es) name =
     (case nm_name e of None \<Rightarrow> None
      | Some n \<Rightarrow> if n = name then Some (sint (nm_id e)) else name2id es name)"

fun id2name :: "name_map list \<Rightarrow> u32 \<Rightarrow> string option" where
  "id2name [] idn = None"
| "id2name (e # es) idn = (if nm_id e = idn then nm_name e else id2name es idn)"

section \<open>Arrays\<close>

fun count_positive :: "u16 list \<Rightarrow> nat option" where
  "count_positive [] = None"
| "count_positive (x # xs) = (if x > 0 then map_option Suc (count_positive xs) else Some 0)"

fun count_positive8 :: "u8 list \<Rightarrow> nat option" where
  "count_positive8 [] = None"
| "count_positive8 (x # xs) = (if x > 0 then map_option Suc (count_positive8 xs) else Some 0)"

fun arr_exist8 :: "u8 list \<Rightarrow> nat \<Rightarrow> u32 \<Rightarrow> bool option" where
  "arr_exist8 arr 0 idn = Some False"
| "arr_exist8 [] (Suc mx) idn = None"
| "arr_exist8 (x # xs) (Suc mx) idn = (if ucast x = idn then Some True else arr_exist8 xs mx idn)"

fun arr_exist :: "u16 list \<Rightarrow> nat \<Rightarrow> u32 \<Rightarrow> bool option" where
  "arr_exist arr 0 idn = Some False"
| "arr_exist [] (Suc mx) idn = None"
| "arr_exist (x # xs) (Suc mx) idn = (if ucast x = idn then Some True else arr_exist xs mx idn)"

text \<open>\<^verbatim>\<open>cs_strdup\<close>: the new block and the characters in it, or NULL.\<close>

definition cs_strdup :: "heap \<Rightarrow> string \<Rightarrow> ((nat \<times> char list) option \<times> heap) option" where
  "cs_strdup h str = do {
     (p, h') \<leftarrow> h_malloc h (length str + 1);
     Some (if p = 0 then None else Some (p, str @ [NUL]), h') }"

section \<open>Correctness of the cache\<close>

text \<open>
  What the tables promise: a nonempty table with at most 65535 entries, distinct ids, and the
  greatest id at the end.
\<close>

definition table_wf :: "insn_map list \<Rightarrow> bool" where
  "table_wf insns \<longleftrightarrow> insns \<noteq> [] \<and> length insns \<le> 65535 \<and> distinct (map im_id insns) \<and>
     (\<forall>x \<in> set insns. im_id x \<le> im_id (last insns))"

text \<open>
  A search of the table, as the comment of the code promises it: the position of the entry with
  the id, and 0 when there is none. The entry at position 0 is a placeholder the cache leaves out.
\<close>

fun table_search :: "insn_map list \<Rightarrow> nat \<Rightarrow> u32 \<Rightarrow> nat" where
  "table_search [] i idn = 0"
| "table_search (x # xs) i idn = (if ucast (im_id x) = idn then i else table_search xs (Suc i) idn)"

definition table_index :: "insn_map list \<Rightarrow> u32 \<Rightarrow> nat" where
  "table_index insns idn = table_search (tl insns) 1 idn"

definition cache_ok :: "insn_map list \<Rightarrow> u16 list \<Rightarrow> bool" where
  "cache_ok insns c \<longleftrightarrow> length c = unat (im_id (last insns)) + 1 \<and>
     (\<forall>k < length c. c ! k = of_nat (table_index insns (of_nat k)))"

lemma ucast_eq_of_nat:
  assumes "k < 65536"
  shows "ucast (x :: u16) = (of_nat k :: u32) \<longleftrightarrow> unat x = k"
proof
  assume "ucast x = (of_nat k :: u32)"
  then have "unat (ucast x :: u32) = unat (of_nat k :: u32)" by simp
  moreover have "unat (of_nat k :: u32) = k"
    using assms by (simp add: unsigned_of_nat take_bit_nat_eq_self)
  ultimately show "unat x = k" by simp
qed auto

lemma id2insn_fill_search:
  assumes "\<forall>x \<in> set xs. unat (im_id x) < length cache" "distinct (map im_id xs)"
    "length cache \<le> 65536"
  shows "\<exists>c. id2insn_fill xs i cache = Some c \<and> length c = length cache \<and>
    (\<forall>k < length cache. c ! k =
       (if \<exists>x \<in> set xs. unat (im_id x) = k then of_nat (table_search xs i (of_nat k)) else cache ! k))"
  using assms
proof (induction xs arbitrary: i cache)
  case Nil
  then show ?case by simp
next
  case (Cons x xs)
  let ?c = "cache[unat (im_id x) := of_nat i]"
  from Cons.prems have "\<forall>y \<in> set xs. unat (im_id y) < length ?c" "distinct (map im_id xs)"
    "length ?c \<le> 65536" by auto
  from Cons.IH [OF this, of "Suc i"] obtain c where c: "id2insn_fill xs (Suc i) ?c = Some c"
    "length c = length cache"
    "\<forall>k < length cache. c ! k = (if \<exists>y \<in> set xs. unat (im_id y) = k
        then of_nat (table_search xs (Suc i) (of_nat k)) else ?c ! k)" by auto
  have notin: "\<not> (\<exists>y \<in> set xs. unat (im_id y) = unat (im_id x))"
  proof
    assume "\<exists>y \<in> set xs. unat (im_id y) = unat (im_id x)"
    then have "im_id x \<in> im_id ` set xs" by (metis image_eqI word_unat_eq_iff)
    then show False using Cons.prems(2) by simp
  qed
  have "c ! k = (if \<exists>y \<in> set (x # xs). unat (im_id y) = k
      then of_nat (table_search (x # xs) i (of_nat k)) else cache ! k)"
    if "k < length cache" for k
    using that c(3) notin Cons.prems(3) by (auto simp: ucast_eq_of_nat nth_list_update)
  with c(1,2) Cons.prems(1) show ?case by (auto simp: aset_def)
qed

lemma table_search_miss:
  "\<not> (\<exists>x \<in> set xs. unat (im_id x) = k) \<Longrightarrow> k < 65536 \<Longrightarrow> table_search xs i (of_nat k) = 0"
  by (induction xs arbitrary: i) (auto simp: ucast_eq_of_nat)

lemma id2insn_fill_table:
  assumes "table_wf insns"
  shows "\<exists>c. id2insn_fill (tl insns) 1 (replicate (unat (im_id (last insns)) + 1) 0) = Some c \<and>
    cache_ok insns c"
proof -
  let ?n = "unat (im_id (last insns)) + 1"
  have ne: "insns \<noteq> []" and le: "\<forall>x \<in> set insns. unat (im_id x) < ?n"
    using assms(1) by (auto simp: table_wf_def word_le_nat_alt less_Suc_eq_le)
  have n: "?n \<le> 65536" using unat_less_65536 [of "im_id (last insns)"] by simp
  have "\<forall>x \<in> set (tl insns). unat (im_id x) < length (replicate ?n (0::u16))"
    using le ne by (simp add: list.set_sel(2))
  moreover have "distinct (map im_id (tl insns))"
    using assms(1) by (simp add: table_wf_def map_tl distinct_tl)
  ultimately obtain c where "id2insn_fill (tl insns) 1 (replicate ?n 0) = Some c" "length c = ?n"
    "\<forall>k < ?n. c ! k = (if \<exists>x \<in> set (tl insns). unat (im_id x) = k
        then of_nat (table_search (tl insns) 1 (of_nat k)) else replicate ?n 0 ! k)"
    using id2insn_fill_search [of "tl insns" "replicate ?n 0" 1] n by auto
  moreover from this(3) n have "\<forall>k < ?n. c ! k = of_nat (table_search (tl insns) 1 (of_nat k))"
    by (auto simp: table_search_miss simp del: replicate.simps)
  ultimately show ?thesis by (auto simp: cache_ok_def table_index_def)
qed

lemma make_id2insn_ok:
  assumes "table_wf insns" "make_id2insn h insns = Some ((p, c), h')"
  shows "cache_ok insns c"
  using assms(2) id2insn_fill_table [OF assms(1)]
  by (auto simp: make_id2insn_def bind_eq_Some_conv split: prod.splits)

text \<open>With any cache that agrees with the table, or none, the answer is that of the search.\<close>

lemma insn_find_search:
  assumes "table_wf insns" "case cache of None \<Rightarrow> True | Some (p, c) \<Rightarrow> cache_ok insns c"
    "insn_find h insns idn cache = Some (r, cache', h')"
  shows "r = of_nat (table_index insns idn)"
    "case cache' of None \<Rightarrow> True | Some (p, c) \<Rightarrow> cache_ok insns c"
proof -
  have "r = of_nat (table_index insns idn) \<and> (case cache' of None \<Rightarrow> True | Some (p, c) \<Rightarrow> cache_ok insns c)"
  proof (cases "ucast (im_id (last insns)) < idn")
    case True
    have "ucast (im_id x) \<noteq> idn" if "x \<in> set insns" for x
    proof
      assume "ucast (im_id x) = idn"
      moreover have "im_id x \<le> im_id (last insns)" using assms(1) that by (simp add: table_wf_def)
      then have "(ucast (im_id x) :: u32) \<le> ucast (im_id (last insns))"
        by (simp add: word_le_nat_alt)
      ultimately show False using True by simp
    qed
    moreover have "(\<forall>x \<in> set xs. ucast (im_id x) \<noteq> idn) \<Longrightarrow> table_search xs i idn = 0" for xs i
      by (induction xs arbitrary: i) auto
    ultimately have "table_index insns idn = 0"
      unfolding table_index_def by (metis list.set_sel(2) list.sel(2) empty_iff list.set(1))
    with True assms(2,3) show ?thesis by (auto simp: insn_find_def fault_simps split: if_splits)
  next
    case False
    from assms(3) False obtain p c where c: "cache' = Some (p, c)" "aget c (unat idn) = Some r"
      and src: "(case cache of None \<Rightarrow> make_id2insn h insns | Some c \<Rightarrow> Some (c, h)) = Some ((p, c), h')"
      by (auto simp: insn_find_def fault_simps bind_eq_Some_conv split: if_splits)
    have "cache_ok insns c"
      using src assms(1,2) by (auto split: option.splits dest: make_id2insn_ok)
    with c show ?thesis by (simp add: cache_ok_def)
  qed
  then show "r = of_nat (table_index insns idn)"
    "case cache' of None \<Rightarrow> True | Some (p, c) \<Rightarrow> cache_ok insns c" by auto
qed

text \<open>The lookup does answer, unless the one allocation of the cache fails.\<close>

lemma insn_find_defined:
  assumes "table_wf insns" "heap_ok h" "h_grant h (h_calls h)"
    "case cache of None \<Rightarrow> True | Some (p, c) \<Rightarrow> cache_ok insns c"
  shows "\<exists>r cache' h'. insn_find h insns idn cache = Some (r, cache', h')"
proof (cases "ucast (im_id (last insns)) < idn")
  case True
  then show ?thesis using assms(1) by (simp add: insn_find_def table_wf_def fault_simps)
next
  case False
  then have idn: "unat idn \<le> unat (im_id (last insns))"
    by (simp add: word_less_nat_alt)
  have ne: "insns \<noteq> []" using assms(1) by (simp add: table_wf_def)
  show ?thesis
  proof (cases cache)
    case None
    have "\<exists>p c h'. make_id2insn h insns = Some ((p, c), h') \<and> cache_ok insns c"
      using id2insn_fill_table [OF assms(1)] assms(1-3)
      by (auto simp: make_id2insn_def h_calloc_ok h_alloc_def table_wf_def heap_ok_def heap_wf_def)
    then show ?thesis using False None ne idn
      by (auto simp: insn_find_def fault_simps cache_ok_def)
  next
    case (Some pc)
    then show ?thesis using False ne idn assms(4)
      by (cases pc) (auto simp: insn_find_def fault_simps cache_ok_def)
  qed
qed

section \<open>Name tables\<close>

text \<open>
  In a table with distinct ids and distinct, non-null names, the two lookups are inverse to each
  other. A name that is not in the table gives -1.
\<close>

definition names_wf :: "name_map list \<Rightarrow> bool" where
  "names_wf m \<longleftrightarrow> distinct (map nm_id m) \<and> distinct (map nm_name m) \<and> None \<notin> nm_name ` set m"

lemma id2name_Some:
  "names_wf m \<Longrightarrow> id2name m i = Some n \<longleftrightarrow> (\<exists>e \<in> set m. nm_id e = i \<and> nm_name e = Some n)"
  by (induction m) (auto simp: names_wf_def image_iff)

lemma name2id_hit:
  assumes "names_wf m" "e \<in> set m" "nm_name e = Some n"
  shows "name2id m n = Some (sint (nm_id e))"
  using assms
proof (induction m)
  case (Cons x m)
  then show ?case
    by (cases "nm_name x") (auto simp: names_wf_def image_iff)
qed simp

lemma name2id_miss:
  "None \<notin> nm_name ` set m \<Longrightarrow> Some n \<notin> nm_name ` set m \<Longrightarrow> name2id m n = Some (- 1)"
  by (induction m) (auto split: option.splits)

section \<open>Arrays\<close>

lemma arr_exist8_iff:
  "mx \<le> length arr \<Longrightarrow> arr_exist8 arr mx idn = Some (idn \<in> ucast ` set (take mx arr))"
  by (induction arr mx idn rule: arr_exist8.induct) auto

lemma arr_exist_iff:
  "mx \<le> length arr \<Longrightarrow> arr_exist arr mx idn = Some (idn \<in> ucast ` set (take mx arr))"
  by (induction arr mx idn rule: arr_exist.induct) auto

lemma count_positive_Some:
  "count_positive xs = Some n \<longleftrightarrow> n < length xs \<and> xs ! n = 0 \<and> (\<forall>i < n. xs ! i \<noteq> 0)"
proof (induction xs arbitrary: n)
  case (Cons x xs)
  then show ?case
    by (cases n) (auto simp: word_neq_0_conv [symmetric] All_less_Suc2)
qed simp

lemma count_positive8_Some:
  "count_positive8 xs = Some n \<longleftrightarrow> n < length xs \<and> xs ! n = 0 \<and> (\<forall>i < n. xs ! i \<noteq> 0)"
proof (induction xs arbitrary: n)
  case (Cons x xs)
  then show ?case
    by (cases n) (auto simp: word_neq_0_conv [symmetric] All_less_Suc2)
qed simp

end
