(* ===== verification/EVM_Model.thy ===== *)
theory EVM_Model
  imports MCInst_Model SStream_Model Utils_Model
begin

text \<open>
  The EVM architecture: \<^verbatim>\<open>EVMDisassembler.c\<close>, \<^verbatim>\<open>EVMMapping.c\<close> with its
  table \<^verbatim>\<open>EVMMappingInsn.inc\<close>, and \<^verbatim>\<open>EVMInstPrinter.c\<close> (not the diet
  build). The decoder accepts an opcode of its table when the immediate of a push is complete,
  and never faults; what it prints is the name of the opcode and, for a push, the immediate in
  hexadecimal, from which the bytes can be read back.

  The constants of \<^verbatim>\<open>evm_insn\<close> are numerals usable at every numeric type, as in C.
\<close>

section \<open>Constants and tables\<close>

abbreviation (input) EVM_INS_STOP :: "'a::ring_1" where "EVM_INS_STOP \<equiv> 0"
abbreviation (input) EVM_INS_ADD :: "'a::ring_1" where "EVM_INS_ADD \<equiv> 1"
abbreviation (input) EVM_INS_MUL :: "'a::ring_1" where "EVM_INS_MUL \<equiv> 2"
abbreviation (input) EVM_INS_SUB :: "'a::ring_1" where "EVM_INS_SUB \<equiv> 3"
abbreviation (input) EVM_INS_DIV :: "'a::ring_1" where "EVM_INS_DIV \<equiv> 4"
abbreviation (input) EVM_INS_SDIV :: "'a::ring_1" where "EVM_INS_SDIV \<equiv> 5"
abbreviation (input) EVM_INS_MOD :: "'a::ring_1" where "EVM_INS_MOD \<equiv> 6"
abbreviation (input) EVM_INS_SMOD :: "'a::ring_1" where "EVM_INS_SMOD \<equiv> 7"
abbreviation (input) EVM_INS_ADDMOD :: "'a::ring_1" where "EVM_INS_ADDMOD \<equiv> 8"
abbreviation (input) EVM_INS_MULMOD :: "'a::ring_1" where "EVM_INS_MULMOD \<equiv> 9"
abbreviation (input) EVM_INS_EXP :: "'a::ring_1" where "EVM_INS_EXP \<equiv> 10"
abbreviation (input) EVM_INS_SIGNEXTEND :: "'a::ring_1" where "EVM_INS_SIGNEXTEND \<equiv> 11"
abbreviation (input) EVM_INS_LT :: "'a::ring_1" where "EVM_INS_LT \<equiv> 16"
abbreviation (input) EVM_INS_GT :: "'a::ring_1" where "EVM_INS_GT \<equiv> 17"
abbreviation (input) EVM_INS_SLT :: "'a::ring_1" where "EVM_INS_SLT \<equiv> 18"
abbreviation (input) EVM_INS_SGT :: "'a::ring_1" where "EVM_INS_SGT \<equiv> 19"
abbreviation (input) EVM_INS_EQ :: "'a::ring_1" where "EVM_INS_EQ \<equiv> 20"
abbreviation (input) EVM_INS_ISZERO :: "'a::ring_1" where "EVM_INS_ISZERO \<equiv> 21"
abbreviation (input) EVM_INS_AND :: "'a::ring_1" where "EVM_INS_AND \<equiv> 22"
abbreviation (input) EVM_INS_OR :: "'a::ring_1" where "EVM_INS_OR \<equiv> 23"
abbreviation (input) EVM_INS_XOR :: "'a::ring_1" where "EVM_INS_XOR \<equiv> 24"
abbreviation (input) EVM_INS_NOT :: "'a::ring_1" where "EVM_INS_NOT \<equiv> 25"
abbreviation (input) EVM_INS_BYTE :: "'a::ring_1" where "EVM_INS_BYTE \<equiv> 26"
abbreviation (input) EVM_INS_SHA3 :: "'a::ring_1" where "EVM_INS_SHA3 \<equiv> 32"
abbreviation (input) EVM_INS_ADDRESS :: "'a::ring_1" where "EVM_INS_ADDRESS \<equiv> 48"
abbreviation (input) EVM_INS_BALANCE :: "'a::ring_1" where "EVM_INS_BALANCE \<equiv> 49"
abbreviation (input) EVM_INS_ORIGIN :: "'a::ring_1" where "EVM_INS_ORIGIN \<equiv> 50"
abbreviation (input) EVM_INS_CALLER :: "'a::ring_1" where "EVM_INS_CALLER \<equiv> 51"
abbreviation (input) EVM_INS_CALLVALUE :: "'a::ring_1" where "EVM_INS_CALLVALUE \<equiv> 52"
abbreviation (input) EVM_INS_CALLDATALOAD :: "'a::ring_1" where "EVM_INS_CALLDATALOAD \<equiv> 53"
abbreviation (input) EVM_INS_CALLDATASIZE :: "'a::ring_1" where "EVM_INS_CALLDATASIZE \<equiv> 54"
abbreviation (input) EVM_INS_CALLDATACOPY :: "'a::ring_1" where "EVM_INS_CALLDATACOPY \<equiv> 55"
abbreviation (input) EVM_INS_CODESIZE :: "'a::ring_1" where "EVM_INS_CODESIZE \<equiv> 56"
abbreviation (input) EVM_INS_CODECOPY :: "'a::ring_1" where "EVM_INS_CODECOPY \<equiv> 57"
abbreviation (input) EVM_INS_GASPRICE :: "'a::ring_1" where "EVM_INS_GASPRICE \<equiv> 58"
abbreviation (input) EVM_INS_EXTCODESIZE :: "'a::ring_1" where "EVM_INS_EXTCODESIZE \<equiv> 59"
abbreviation (input) EVM_INS_EXTCODECOPY :: "'a::ring_1" where "EVM_INS_EXTCODECOPY \<equiv> 60"
abbreviation (input) EVM_INS_RETURNDATASIZE :: "'a::ring_1" where "EVM_INS_RETURNDATASIZE \<equiv> 61"
abbreviation (input) EVM_INS_RETURNDATACOPY :: "'a::ring_1" where "EVM_INS_RETURNDATACOPY \<equiv> 62"
abbreviation (input) EVM_INS_BLOCKHASH :: "'a::ring_1" where "EVM_INS_BLOCKHASH \<equiv> 64"
abbreviation (input) EVM_INS_COINBASE :: "'a::ring_1" where "EVM_INS_COINBASE \<equiv> 65"
abbreviation (input) EVM_INS_TIMESTAMP :: "'a::ring_1" where "EVM_INS_TIMESTAMP \<equiv> 66"
abbreviation (input) EVM_INS_NUMBER :: "'a::ring_1" where "EVM_INS_NUMBER \<equiv> 67"
abbreviation (input) EVM_INS_DIFFICULTY :: "'a::ring_1" where "EVM_INS_DIFFICULTY \<equiv> 68"
abbreviation (input) EVM_INS_GASLIMIT :: "'a::ring_1" where "EVM_INS_GASLIMIT \<equiv> 69"
abbreviation (input) EVM_INS_POP :: "'a::ring_1" where "EVM_INS_POP \<equiv> 80"
abbreviation (input) EVM_INS_MLOAD :: "'a::ring_1" where "EVM_INS_MLOAD \<equiv> 81"
abbreviation (input) EVM_INS_MSTORE :: "'a::ring_1" where "EVM_INS_MSTORE \<equiv> 82"
abbreviation (input) EVM_INS_MSTORE8 :: "'a::ring_1" where "EVM_INS_MSTORE8 \<equiv> 83"
abbreviation (input) EVM_INS_SLOAD :: "'a::ring_1" where "EVM_INS_SLOAD \<equiv> 84"
abbreviation (input) EVM_INS_SSTORE :: "'a::ring_1" where "EVM_INS_SSTORE \<equiv> 85"
abbreviation (input) EVM_INS_JUMP :: "'a::ring_1" where "EVM_INS_JUMP \<equiv> 86"
abbreviation (input) EVM_INS_JUMPI :: "'a::ring_1" where "EVM_INS_JUMPI \<equiv> 87"
abbreviation (input) EVM_INS_PC :: "'a::ring_1" where "EVM_INS_PC \<equiv> 88"
abbreviation (input) EVM_INS_MSIZE :: "'a::ring_1" where "EVM_INS_MSIZE \<equiv> 89"
abbreviation (input) EVM_INS_GAS :: "'a::ring_1" where "EVM_INS_GAS \<equiv> 90"
abbreviation (input) EVM_INS_JUMPDEST :: "'a::ring_1" where "EVM_INS_JUMPDEST \<equiv> 91"
abbreviation (input) EVM_INS_PUSH1 :: "'a::ring_1" where "EVM_INS_PUSH1 \<equiv> 96"
abbreviation (input) EVM_INS_PUSH2 :: "'a::ring_1" where "EVM_INS_PUSH2 \<equiv> 97"
abbreviation (input) EVM_INS_PUSH3 :: "'a::ring_1" where "EVM_INS_PUSH3 \<equiv> 98"
abbreviation (input) EVM_INS_PUSH4 :: "'a::ring_1" where "EVM_INS_PUSH4 \<equiv> 99"
abbreviation (input) EVM_INS_PUSH5 :: "'a::ring_1" where "EVM_INS_PUSH5 \<equiv> 100"
abbreviation (input) EVM_INS_PUSH6 :: "'a::ring_1" where "EVM_INS_PUSH6 \<equiv> 101"
abbreviation (input) EVM_INS_PUSH7 :: "'a::ring_1" where "EVM_INS_PUSH7 \<equiv> 102"
abbreviation (input) EVM_INS_PUSH8 :: "'a::ring_1" where "EVM_INS_PUSH8 \<equiv> 103"
abbreviation (input) EVM_INS_PUSH9 :: "'a::ring_1" where "EVM_INS_PUSH9 \<equiv> 104"
abbreviation (input) EVM_INS_PUSH10 :: "'a::ring_1" where "EVM_INS_PUSH10 \<equiv> 105"
abbreviation (input) EVM_INS_PUSH11 :: "'a::ring_1" where "EVM_INS_PUSH11 \<equiv> 106"
abbreviation (input) EVM_INS_PUSH12 :: "'a::ring_1" where "EVM_INS_PUSH12 \<equiv> 107"
abbreviation (input) EVM_INS_PUSH13 :: "'a::ring_1" where "EVM_INS_PUSH13 \<equiv> 108"
abbreviation (input) EVM_INS_PUSH14 :: "'a::ring_1" where "EVM_INS_PUSH14 \<equiv> 109"
abbreviation (input) EVM_INS_PUSH15 :: "'a::ring_1" where "EVM_INS_PUSH15 \<equiv> 110"
abbreviation (input) EVM_INS_PUSH16 :: "'a::ring_1" where "EVM_INS_PUSH16 \<equiv> 111"
abbreviation (input) EVM_INS_PUSH17 :: "'a::ring_1" where "EVM_INS_PUSH17 \<equiv> 112"
abbreviation (input) EVM_INS_PUSH18 :: "'a::ring_1" where "EVM_INS_PUSH18 \<equiv> 113"
abbreviation (input) EVM_INS_PUSH19 :: "'a::ring_1" where "EVM_INS_PUSH19 \<equiv> 114"
abbreviation (input) EVM_INS_PUSH20 :: "'a::ring_1" where "EVM_INS_PUSH20 \<equiv> 115"
abbreviation (input) EVM_INS_PUSH21 :: "'a::ring_1" where "EVM_INS_PUSH21 \<equiv> 116"
abbreviation (input) EVM_INS_PUSH22 :: "'a::ring_1" where "EVM_INS_PUSH22 \<equiv> 117"
abbreviation (input) EVM_INS_PUSH23 :: "'a::ring_1" where "EVM_INS_PUSH23 \<equiv> 118"
abbreviation (input) EVM_INS_PUSH24 :: "'a::ring_1" where "EVM_INS_PUSH24 \<equiv> 119"
abbreviation (input) EVM_INS_PUSH25 :: "'a::ring_1" where "EVM_INS_PUSH25 \<equiv> 120"
abbreviation (input) EVM_INS_PUSH26 :: "'a::ring_1" where "EVM_INS_PUSH26 \<equiv> 121"
abbreviation (input) EVM_INS_PUSH27 :: "'a::ring_1" where "EVM_INS_PUSH27 \<equiv> 122"
abbreviation (input) EVM_INS_PUSH28 :: "'a::ring_1" where "EVM_INS_PUSH28 \<equiv> 123"
abbreviation (input) EVM_INS_PUSH29 :: "'a::ring_1" where "EVM_INS_PUSH29 \<equiv> 124"
abbreviation (input) EVM_INS_PUSH30 :: "'a::ring_1" where "EVM_INS_PUSH30 \<equiv> 125"
abbreviation (input) EVM_INS_PUSH31 :: "'a::ring_1" where "EVM_INS_PUSH31 \<equiv> 126"
abbreviation (input) EVM_INS_PUSH32 :: "'a::ring_1" where "EVM_INS_PUSH32 \<equiv> 127"
abbreviation (input) EVM_INS_DUP1 :: "'a::ring_1" where "EVM_INS_DUP1 \<equiv> 128"
abbreviation (input) EVM_INS_DUP2 :: "'a::ring_1" where "EVM_INS_DUP2 \<equiv> 129"
abbreviation (input) EVM_INS_DUP3 :: "'a::ring_1" where "EVM_INS_DUP3 \<equiv> 130"
abbreviation (input) EVM_INS_DUP4 :: "'a::ring_1" where "EVM_INS_DUP4 \<equiv> 131"
abbreviation (input) EVM_INS_DUP5 :: "'a::ring_1" where "EVM_INS_DUP5 \<equiv> 132"
abbreviation (input) EVM_INS_DUP6 :: "'a::ring_1" where "EVM_INS_DUP6 \<equiv> 133"
abbreviation (input) EVM_INS_DUP7 :: "'a::ring_1" where "EVM_INS_DUP7 \<equiv> 134"
abbreviation (input) EVM_INS_DUP8 :: "'a::ring_1" where "EVM_INS_DUP8 \<equiv> 135"
abbreviation (input) EVM_INS_DUP9 :: "'a::ring_1" where "EVM_INS_DUP9 \<equiv> 136"
abbreviation (input) EVM_INS_DUP10 :: "'a::ring_1" where "EVM_INS_DUP10 \<equiv> 137"
abbreviation (input) EVM_INS_DUP11 :: "'a::ring_1" where "EVM_INS_DUP11 \<equiv> 138"
abbreviation (input) EVM_INS_DUP12 :: "'a::ring_1" where "EVM_INS_DUP12 \<equiv> 139"
abbreviation (input) EVM_INS_DUP13 :: "'a::ring_1" where "EVM_INS_DUP13 \<equiv> 140"
abbreviation (input) EVM_INS_DUP14 :: "'a::ring_1" where "EVM_INS_DUP14 \<equiv> 141"
abbreviation (input) EVM_INS_DUP15 :: "'a::ring_1" where "EVM_INS_DUP15 \<equiv> 142"
abbreviation (input) EVM_INS_DUP16 :: "'a::ring_1" where "EVM_INS_DUP16 \<equiv> 143"
abbreviation (input) EVM_INS_SWAP1 :: "'a::ring_1" where "EVM_INS_SWAP1 \<equiv> 144"
abbreviation (input) EVM_INS_SWAP2 :: "'a::ring_1" where "EVM_INS_SWAP2 \<equiv> 145"
abbreviation (input) EVM_INS_SWAP3 :: "'a::ring_1" where "EVM_INS_SWAP3 \<equiv> 146"
abbreviation (input) EVM_INS_SWAP4 :: "'a::ring_1" where "EVM_INS_SWAP4 \<equiv> 147"
abbreviation (input) EVM_INS_SWAP5 :: "'a::ring_1" where "EVM_INS_SWAP5 \<equiv> 148"
abbreviation (input) EVM_INS_SWAP6 :: "'a::ring_1" where "EVM_INS_SWAP6 \<equiv> 149"
abbreviation (input) EVM_INS_SWAP7 :: "'a::ring_1" where "EVM_INS_SWAP7 \<equiv> 150"
abbreviation (input) EVM_INS_SWAP8 :: "'a::ring_1" where "EVM_INS_SWAP8 \<equiv> 151"
abbreviation (input) EVM_INS_SWAP9 :: "'a::ring_1" where "EVM_INS_SWAP9 \<equiv> 152"
abbreviation (input) EVM_INS_SWAP10 :: "'a::ring_1" where "EVM_INS_SWAP10 \<equiv> 153"
abbreviation (input) EVM_INS_SWAP11 :: "'a::ring_1" where "EVM_INS_SWAP11 \<equiv> 154"
abbreviation (input) EVM_INS_SWAP12 :: "'a::ring_1" where "EVM_INS_SWAP12 \<equiv> 155"
abbreviation (input) EVM_INS_SWAP13 :: "'a::ring_1" where "EVM_INS_SWAP13 \<equiv> 156"
abbreviation (input) EVM_INS_SWAP14 :: "'a::ring_1" where "EVM_INS_SWAP14 \<equiv> 157"
abbreviation (input) EVM_INS_SWAP15 :: "'a::ring_1" where "EVM_INS_SWAP15 \<equiv> 158"
abbreviation (input) EVM_INS_SWAP16 :: "'a::ring_1" where "EVM_INS_SWAP16 \<equiv> 159"
abbreviation (input) EVM_INS_LOG0 :: "'a::ring_1" where "EVM_INS_LOG0 \<equiv> 160"
abbreviation (input) EVM_INS_LOG1 :: "'a::ring_1" where "EVM_INS_LOG1 \<equiv> 161"
abbreviation (input) EVM_INS_LOG2 :: "'a::ring_1" where "EVM_INS_LOG2 \<equiv> 162"
abbreviation (input) EVM_INS_LOG3 :: "'a::ring_1" where "EVM_INS_LOG3 \<equiv> 163"
abbreviation (input) EVM_INS_LOG4 :: "'a::ring_1" where "EVM_INS_LOG4 \<equiv> 164"
abbreviation (input) EVM_INS_CREATE :: "'a::ring_1" where "EVM_INS_CREATE \<equiv> 240"
abbreviation (input) EVM_INS_CALL :: "'a::ring_1" where "EVM_INS_CALL \<equiv> 241"
abbreviation (input) EVM_INS_CALLCODE :: "'a::ring_1" where "EVM_INS_CALLCODE \<equiv> 242"
abbreviation (input) EVM_INS_RETURN :: "'a::ring_1" where "EVM_INS_RETURN \<equiv> 243"
abbreviation (input) EVM_INS_DELEGATECALL :: "'a::ring_1" where "EVM_INS_DELEGATECALL \<equiv> 244"
abbreviation (input) EVM_INS_CALLBLACKBOX :: "'a::ring_1" where "EVM_INS_CALLBLACKBOX \<equiv> 245"
abbreviation (input) EVM_INS_STATICCALL :: "'a::ring_1" where "EVM_INS_STATICCALL \<equiv> 250"
abbreviation (input) EVM_INS_REVERT :: "'a::ring_1" where "EVM_INS_REVERT \<equiv> 253"
abbreviation (input) EVM_INS_SUICIDE :: "'a::ring_1" where "EVM_INS_SUICIDE \<equiv> 255"
abbreviation (input) EVM_INS_INVALID :: "'a::ring_1" where "EVM_INS_INVALID \<equiv> 512"

abbreviation (input) EVM_GRP_INVALID :: "'a::ring_1" where "EVM_GRP_INVALID \<equiv> 0"
abbreviation (input) EVM_GRP_JUMP :: "'a::ring_1" where "EVM_GRP_JUMP \<equiv> 1"
abbreviation (input) EVM_GRP_MATH :: "'a::ring_1" where "EVM_GRP_MATH \<equiv> 8"
abbreviation (input) EVM_GRP_STACK_WRITE :: "'a::ring_1" where "EVM_GRP_STACK_WRITE \<equiv> 9"
abbreviation (input) EVM_GRP_STACK_READ :: "'a::ring_1" where "EVM_GRP_STACK_READ \<equiv> 10"
abbreviation (input) EVM_GRP_MEM_WRITE :: "'a::ring_1" where "EVM_GRP_MEM_WRITE \<equiv> 11"
abbreviation (input) EVM_GRP_MEM_READ :: "'a::ring_1" where "EVM_GRP_MEM_READ \<equiv> 12"
abbreviation (input) EVM_GRP_STORE_WRITE :: "'a::ring_1" where "EVM_GRP_STORE_WRITE \<equiv> 13"
abbreviation (input) EVM_GRP_STORE_READ :: "'a::ring_1" where "EVM_GRP_STORE_READ \<equiv> 14"
abbreviation (input) EVM_GRP_HALT :: "'a::ring_1" where "EVM_GRP_HALT \<equiv> 15"

text \<open>\<^verbatim>\<open>static short opcodes[256]\<close>: -1 marks an opcode that is not assigned.\<close>

definition opcodes :: "int list" where
  "opcodes = [
     EVM_INS_STOP, EVM_INS_ADD, EVM_INS_MUL, EVM_INS_SUB, EVM_INS_DIV, EVM_INS_SDIV,
     EVM_INS_MOD, EVM_INS_SMOD, EVM_INS_ADDMOD, EVM_INS_MULMOD, EVM_INS_EXP, EVM_INS_SIGNEXTEND,
     - 1, - 1, - 1, - 1, EVM_INS_LT, EVM_INS_GT, EVM_INS_SLT, EVM_INS_SGT, EVM_INS_EQ,
     EVM_INS_ISZERO, EVM_INS_AND, EVM_INS_OR, EVM_INS_XOR, EVM_INS_NOT, EVM_INS_BYTE, - 1, - 1,
     - 1, - 1, - 1, EVM_INS_SHA3, - 1, - 1, - 1, - 1, - 1, - 1, - 1, - 1, - 1, - 1, - 1, - 1, -
     1, - 1, - 1, EVM_INS_ADDRESS, EVM_INS_BALANCE, EVM_INS_ORIGIN, EVM_INS_CALLER,
     EVM_INS_CALLVALUE, EVM_INS_CALLDATALOAD, EVM_INS_CALLDATASIZE, EVM_INS_CALLDATACOPY,
     EVM_INS_CODESIZE, EVM_INS_CODECOPY, EVM_INS_GASPRICE, EVM_INS_EXTCODESIZE,
     EVM_INS_EXTCODECOPY, EVM_INS_RETURNDATASIZE, EVM_INS_RETURNDATACOPY, - 1,
     EVM_INS_BLOCKHASH, EVM_INS_COINBASE, EVM_INS_TIMESTAMP, EVM_INS_NUMBER, EVM_INS_DIFFICULTY,
     EVM_INS_GASLIMIT, - 1, - 1, - 1, - 1, - 1, - 1, - 1, - 1, - 1, - 1, EVM_INS_POP,
     EVM_INS_MLOAD, EVM_INS_MSTORE, EVM_INS_MSTORE8, EVM_INS_SLOAD, EVM_INS_SSTORE,
     EVM_INS_JUMP, EVM_INS_JUMPI, EVM_INS_PC, EVM_INS_MSIZE, EVM_INS_GAS, EVM_INS_JUMPDEST, - 1,
     - 1, - 1, - 1, EVM_INS_PUSH1, EVM_INS_PUSH2, EVM_INS_PUSH3, EVM_INS_PUSH4, EVM_INS_PUSH5,
     EVM_INS_PUSH6, EVM_INS_PUSH7, EVM_INS_PUSH8, EVM_INS_PUSH9, EVM_INS_PUSH10, EVM_INS_PUSH11,
     EVM_INS_PUSH12, EVM_INS_PUSH13, EVM_INS_PUSH14, EVM_INS_PUSH15, EVM_INS_PUSH16,
     EVM_INS_PUSH17, EVM_INS_PUSH18, EVM_INS_PUSH19, EVM_INS_PUSH20, EVM_INS_PUSH21,
     EVM_INS_PUSH22, EVM_INS_PUSH23, EVM_INS_PUSH24, EVM_INS_PUSH25, EVM_INS_PUSH26,
     EVM_INS_PUSH27, EVM_INS_PUSH28, EVM_INS_PUSH29, EVM_INS_PUSH30, EVM_INS_PUSH31,
     EVM_INS_PUSH32, EVM_INS_DUP1, EVM_INS_DUP2, EVM_INS_DUP3, EVM_INS_DUP4, EVM_INS_DUP5,
     EVM_INS_DUP6, EVM_INS_DUP7, EVM_INS_DUP8, EVM_INS_DUP9, EVM_INS_DUP10, EVM_INS_DUP11,
     EVM_INS_DUP12, EVM_INS_DUP13, EVM_INS_DUP14, EVM_INS_DUP15, EVM_INS_DUP16, EVM_INS_SWAP1,
     EVM_INS_SWAP2, EVM_INS_SWAP3, EVM_INS_SWAP4, EVM_INS_SWAP5, EVM_INS_SWAP6, EVM_INS_SWAP7,
     EVM_INS_SWAP8, EVM_INS_SWAP9, EVM_INS_SWAP10, EVM_INS_SWAP11, EVM_INS_SWAP12,
     EVM_INS_SWAP13, EVM_INS_SWAP14, EVM_INS_SWAP15, EVM_INS_SWAP16, EVM_INS_LOG0, EVM_INS_LOG1,
     EVM_INS_LOG2, EVM_INS_LOG3, EVM_INS_LOG4, - 1, - 1, - 1, - 1, - 1, - 1, - 1, - 1, - 1, - 1,
     - 1, - 1, - 1, - 1, - 1, - 1, - 1, - 1, - 1, - 1, - 1, - 1, - 1, - 1, - 1, - 1, - 1, - 1, -
     1, - 1, - 1, - 1, - 1, - 1, - 1, - 1, - 1, - 1, - 1, - 1, - 1, - 1, - 1, - 1, - 1, - 1, -
     1, - 1, - 1, - 1, - 1, - 1, - 1, - 1, - 1, - 1, - 1, - 1, - 1, - 1, - 1, - 1, - 1, - 1, -
     1, - 1, - 1, - 1, - 1, - 1, - 1, - 1, - 1, - 1, - 1, EVM_INS_CREATE, EVM_INS_CALL,
     EVM_INS_CALLCODE, EVM_INS_RETURN, EVM_INS_DELEGATECALL, EVM_INS_CALLBLACKBOX, - 1, - 1, -
     1, - 1, EVM_INS_STATICCALL, - 1, - 1, EVM_INS_REVERT, - 1, EVM_INS_SUICIDE]"

text \<open>Items popped and pushed and the gas fee of each opcode.\<close>

definition evm_info :: "u8 \<Rightarrow> u8 \<Rightarrow> u32 \<Rightarrow> cs_evm" where
  "evm_info p q f = \<lparr>evm_pop = p, evm_push = q, evm_fee = f\<rparr>"

definition evm_insns :: "cs_evm list" where
  "evm_insns = [
     evm_info 0 0 0, evm_info 2 1 3, evm_info 2 1 5, evm_info 2 1 3, evm_info 2 1 5,
     evm_info 2 1 5, evm_info 2 1 5, evm_info 2 1 5, evm_info 3 1 8, evm_info 3 1 8,
     evm_info 2 1 10, evm_info 2 1 5, evm_info 0 0 0xffffffff, evm_info 0 0 0xffffffff,
     evm_info 0 0 0xffffffff, evm_info 0 0 0xffffffff, evm_info 2 1 3, evm_info 2 1 3,
     evm_info 2 1 3, evm_info 2 1 3, evm_info 2 1 3, evm_info 1 1 3, evm_info 2 1 3,
     evm_info 2 1 3, evm_info 2 1 3, evm_info 1 1 3, evm_info 2 1 3, evm_info 0 0 0xffffffff,
     evm_info 0 0 0xffffffff, evm_info 0 0 0xffffffff, evm_info 0 0 0xffffffff,
     evm_info 0 0 0xffffffff, evm_info 2 1 30, evm_info 0 0 0xffffffff, evm_info 0 0 0xffffffff,
     evm_info 0 0 0xffffffff, evm_info 0 0 0xffffffff, evm_info 0 0 0xffffffff,
     evm_info 0 0 0xffffffff, evm_info 0 0 0xffffffff, evm_info 0 0 0xffffffff,
     evm_info 0 0 0xffffffff, evm_info 0 0 0xffffffff, evm_info 0 0 0xffffffff,
     evm_info 0 0 0xffffffff, evm_info 0 0 0xffffffff, evm_info 0 0 0xffffffff,
     evm_info 0 0 0xffffffff, evm_info 0 1 2, evm_info 1 1 20, evm_info 0 1 2, evm_info 0 1 2,
     evm_info 0 1 2, evm_info 1 1 3, evm_info 0 1 2, evm_info 3 0 3, evm_info 0 1 2,
     evm_info 3 0 3, evm_info 0 1 2, evm_info 1 1 20, evm_info 4 0 20, evm_info 0 1 2,
     evm_info 3 0 3, evm_info 0 0 0xffffffff, evm_info 1 1 20, evm_info 0 1 2, evm_info 0 1 2,
     evm_info 0 1 2, evm_info 0 1 2, evm_info 0 1 2, evm_info 0 0 0xffffffff,
     evm_info 0 0 0xffffffff, evm_info 0 0 0xffffffff, evm_info 0 0 0xffffffff,
     evm_info 0 0 0xffffffff, evm_info 0 0 0xffffffff, evm_info 0 0 0xffffffff,
     evm_info 0 0 0xffffffff, evm_info 0 0 0xffffffff, evm_info 0 0 0xffffffff, evm_info 1 0 2,
     evm_info 1 1 3, evm_info 2 0 3, evm_info 2 0 3, evm_info 1 1 50, evm_info 2 0 0,
     evm_info 1 0 8, evm_info 2 0 10, evm_info 0 1 2, evm_info 0 1 2, evm_info 0 1 2,
     evm_info 0 0 1, evm_info 0 0 0xffffffff, evm_info 0 0 0xffffffff, evm_info 0 0 0xffffffff,
     evm_info 0 0 0xffffffff, evm_info 0 1 3, evm_info 0 1 3, evm_info 0 1 3, evm_info 0 1 3,
     evm_info 0 1 3, evm_info 0 1 3, evm_info 0 1 3, evm_info 0 1 3, evm_info 0 1 3,
     evm_info 0 1 3, evm_info 0 1 3, evm_info 0 1 3, evm_info 0 1 3, evm_info 0 1 3,
     evm_info 0 1 3, evm_info 0 1 3, evm_info 0 1 3, evm_info 0 1 3, evm_info 0 1 3,
     evm_info 0 1 3, evm_info 0 1 3, evm_info 0 1 3, evm_info 0 1 3, evm_info 0 1 3,
     evm_info 0 1 3, evm_info 0 1 3, evm_info 0 1 3, evm_info 0 1 3, evm_info 0 1 3,
     evm_info 0 1 3, evm_info 0 1 3, evm_info 0 1 3, evm_info 1 2 3, evm_info 2 3 3,
     evm_info 3 4 3, evm_info 4 5 3, evm_info 5 6 3, evm_info 6 7 3, evm_info 7 8 3,
     evm_info 8 9 3, evm_info 9 10 3, evm_info 10 11 3, evm_info 11 12 3, evm_info 12 13 3,
     evm_info 13 14 3, evm_info 14 15 3, evm_info 15 16 3, evm_info 16 17 3, evm_info 2 2 3,
     evm_info 3 3 3, evm_info 4 4 3, evm_info 5 5 3, evm_info 6 6 3, evm_info 7 7 3,
     evm_info 8 8 3, evm_info 9 9 3, evm_info 10 10 3, evm_info 11 11 3, evm_info 12 12 3,
     evm_info 13 13 3, evm_info 14 14 3, evm_info 15 15 3, evm_info 16 16 3, evm_info 17 17 3,
     evm_info 2 0 375, evm_info 3 0 750, evm_info 4 0 1125, evm_info 5 0 1500,
     evm_info 6 0 1875, evm_info 0 0 0xffffffff, evm_info 0 0 0xffffffff,
     evm_info 0 0 0xffffffff, evm_info 0 0 0xffffffff, evm_info 0 0 0xffffffff,
     evm_info 0 0 0xffffffff, evm_info 0 0 0xffffffff, evm_info 0 0 0xffffffff,
     evm_info 0 0 0xffffffff, evm_info 0 0 0xffffffff, evm_info 0 0 0xffffffff,
     evm_info 0 0 0xffffffff, evm_info 0 0 0xffffffff, evm_info 0 0 0xffffffff,
     evm_info 0 0 0xffffffff, evm_info 0 0 0xffffffff, evm_info 0 0 0xffffffff,
     evm_info 0 0 0xffffffff, evm_info 0 0 0xffffffff, evm_info 0 0 0xffffffff,
     evm_info 0 0 0xffffffff, evm_info 0 0 0xffffffff, evm_info 0 0 0xffffffff,
     evm_info 0 0 0xffffffff, evm_info 0 0 0xffffffff, evm_info 0 0 0xffffffff,
     evm_info 0 0 0xffffffff, evm_info 0 0 0xffffffff, evm_info 0 0 0xffffffff,
     evm_info 0 0 0xffffffff, evm_info 0 0 0xffffffff, evm_info 0 0 0xffffffff,
     evm_info 0 0 0xffffffff, evm_info 0 0 0xffffffff, evm_info 0 0 0xffffffff,
     evm_info 0 0 0xffffffff, evm_info 0 0 0xffffffff, evm_info 0 0 0xffffffff,
     evm_info 0 0 0xffffffff, evm_info 0 0 0xffffffff, evm_info 0 0 0xffffffff,
     evm_info 0 0 0xffffffff, evm_info 0 0 0xffffffff, evm_info 0 0 0xffffffff,
     evm_info 0 0 0xffffffff, evm_info 0 0 0xffffffff, evm_info 0 0 0xffffffff,
     evm_info 0 0 0xffffffff, evm_info 0 0 0xffffffff, evm_info 0 0 0xffffffff,
     evm_info 0 0 0xffffffff, evm_info 0 0 0xffffffff, evm_info 0 0 0xffffffff,
     evm_info 0 0 0xffffffff, evm_info 0 0 0xffffffff, evm_info 0 0 0xffffffff,
     evm_info 0 0 0xffffffff, evm_info 0 0 0xffffffff, evm_info 0 0 0xffffffff,
     evm_info 0 0 0xffffffff, evm_info 0 0 0xffffffff, evm_info 0 0 0xffffffff,
     evm_info 0 0 0xffffffff, evm_info 0 0 0xffffffff, evm_info 0 0 0xffffffff,
     evm_info 0 0 0xffffffff, evm_info 0 0 0xffffffff, evm_info 0 0 0xffffffff,
     evm_info 0 0 0xffffffff, evm_info 0 0 0xffffffff, evm_info 0 0 0xffffffff,
     evm_info 0 0 0xffffffff, evm_info 0 0 0xffffffff, evm_info 0 0 0xffffffff,
     evm_info 0 0 0xffffffff, evm_info 3 1 32000, evm_info 7 1 40, evm_info 7 1 40,
     evm_info 2 0 0, evm_info 6 1 40, evm_info 7 1 40, evm_info 0 0 0xffffffff,
     evm_info 0 0 0xffffffff, evm_info 0 0 0xffffffff, evm_info 0 0 0xffffffff, evm_info 6 1 40,
     evm_info 0 0 0xffffffff, evm_info 0 0 0xffffffff, evm_info 2 0 0, evm_info 0 0 0xffffffff,
     evm_info 1 0 0]"

definition evm_insn_name_maps :: "(u32 \<times> string option) list" where
  "evm_insn_name_maps = [
     (EVM_INS_STOP, Some ''stop''), (EVM_INS_ADD, Some ''add''), (EVM_INS_MUL, Some ''mul''),
     (EVM_INS_SUB, Some ''sub''), (EVM_INS_DIV, Some ''div''), (EVM_INS_SDIV, Some ''sdiv''),
     (EVM_INS_MOD, Some ''mod''), (EVM_INS_SMOD, Some ''smod''),
     (EVM_INS_ADDMOD, Some ''addmod''), (EVM_INS_MULMOD, Some ''mulmod''),
     (EVM_INS_EXP, Some ''exp''), (EVM_INS_SIGNEXTEND, Some ''signextend''),
     (EVM_INS_INVALID, None), (EVM_INS_INVALID, None), (EVM_INS_INVALID, None),
     (EVM_INS_INVALID, None), (EVM_INS_LT, Some ''lt''), (EVM_INS_GT, Some ''gt''),
     (EVM_INS_SLT, Some ''slt''), (EVM_INS_SGT, Some ''sgt''), (EVM_INS_EQ, Some ''eq''),
     (EVM_INS_ISZERO, Some ''iszero''), (EVM_INS_AND, Some ''and''), (EVM_INS_OR, Some ''or''),
     (EVM_INS_XOR, Some ''xor''), (EVM_INS_NOT, Some ''not''), (EVM_INS_BYTE, Some ''byte''),
     (EVM_INS_INVALID, None), (EVM_INS_INVALID, None), (EVM_INS_INVALID, None),
     (EVM_INS_INVALID, None), (EVM_INS_INVALID, None), (EVM_INS_SHA3, Some ''sha3''),
     (EVM_INS_INVALID, None), (EVM_INS_INVALID, None), (EVM_INS_INVALID, None),
     (EVM_INS_INVALID, None), (EVM_INS_INVALID, None), (EVM_INS_INVALID, None),
     (EVM_INS_INVALID, None), (EVM_INS_INVALID, None), (EVM_INS_INVALID, None),
     (EVM_INS_INVALID, None), (EVM_INS_INVALID, None), (EVM_INS_INVALID, None),
     (EVM_INS_INVALID, None), (EVM_INS_INVALID, None), (EVM_INS_INVALID, None),
     (EVM_INS_ADDRESS, Some ''address''), (EVM_INS_BALANCE, Some ''balance''),
     (EVM_INS_ORIGIN, Some ''origin''), (EVM_INS_CALLER, Some ''caller''),
     (EVM_INS_CALLVALUE, Some ''callvalue''), (EVM_INS_CALLDATALOAD, Some ''calldataload''),
     (EVM_INS_CALLDATASIZE, Some ''calldatasize''),
     (EVM_INS_CALLDATACOPY, Some ''calldatacopy''), (EVM_INS_CODESIZE, Some ''codesize''),
     (EVM_INS_CODECOPY, Some ''codecopy''), (EVM_INS_GASPRICE, Some ''gasprice''),
     (EVM_INS_EXTCODESIZE, Some ''extcodesize''), (EVM_INS_EXTCODECOPY, Some ''extcodecopy''),
     (EVM_INS_RETURNDATASIZE, Some ''returndatasize''),
     (EVM_INS_RETURNDATACOPY, Some ''returndatacopy''), (EVM_INS_INVALID, None),
     (EVM_INS_BLOCKHASH, Some ''blockhash''), (EVM_INS_COINBASE, Some ''coinbase''),
     (EVM_INS_TIMESTAMP, Some ''timestamp''), (EVM_INS_NUMBER, Some ''number''),
     (EVM_INS_DIFFICULTY, Some ''difficulty''), (EVM_INS_GASLIMIT, Some ''gaslimit''),
     (EVM_INS_INVALID, None), (EVM_INS_INVALID, None), (EVM_INS_INVALID, None),
     (EVM_INS_INVALID, None), (EVM_INS_INVALID, None), (EVM_INS_INVALID, None),
     (EVM_INS_INVALID, None), (EVM_INS_INVALID, None), (EVM_INS_INVALID, None),
     (EVM_INS_INVALID, None), (EVM_INS_POP, Some ''pop''), (EVM_INS_MLOAD, Some ''mload''),
     (EVM_INS_MSTORE, Some ''mstore''), (EVM_INS_MSTORE8, Some ''mstore8''),
     (EVM_INS_SLOAD, Some ''sload''), (EVM_INS_SSTORE, Some ''sstore''),
     (EVM_INS_JUMP, Some ''jump''), (EVM_INS_JUMPI, Some ''jumpi''), (EVM_INS_PC, Some ''pc''),
     (EVM_INS_MSIZE, Some ''msize''), (EVM_INS_GAS, Some ''gas''),
     (EVM_INS_JUMPDEST, Some ''jumpdest''), (EVM_INS_INVALID, None), (EVM_INS_INVALID, None),
     (EVM_INS_INVALID, None), (EVM_INS_INVALID, None), (EVM_INS_PUSH1, Some ''push1''),
     (EVM_INS_PUSH2, Some ''push2''), (EVM_INS_PUSH3, Some ''push3''),
     (EVM_INS_PUSH4, Some ''push4''), (EVM_INS_PUSH5, Some ''push5''),
     (EVM_INS_PUSH6, Some ''push6''), (EVM_INS_PUSH7, Some ''push7''),
     (EVM_INS_PUSH8, Some ''push8''), (EVM_INS_PUSH9, Some ''push9''),
     (EVM_INS_PUSH10, Some ''push10''), (EVM_INS_PUSH11, Some ''push11''),
     (EVM_INS_PUSH12, Some ''push12''), (EVM_INS_PUSH13, Some ''push13''),
     (EVM_INS_PUSH14, Some ''push14''), (EVM_INS_PUSH15, Some ''push15''),
     (EVM_INS_PUSH16, Some ''push16''), (EVM_INS_PUSH17, Some ''push17''),
     (EVM_INS_PUSH18, Some ''push18''), (EVM_INS_PUSH19, Some ''push19''),
     (EVM_INS_PUSH20, Some ''push20''), (EVM_INS_PUSH21, Some ''push21''),
     (EVM_INS_PUSH22, Some ''push22''), (EVM_INS_PUSH23, Some ''push23''),
     (EVM_INS_PUSH24, Some ''push24''), (EVM_INS_PUSH25, Some ''push25''),
     (EVM_INS_PUSH26, Some ''push26''), (EVM_INS_PUSH27, Some ''push27''),
     (EVM_INS_PUSH28, Some ''push28''), (EVM_INS_PUSH29, Some ''push29''),
     (EVM_INS_PUSH30, Some ''push30''), (EVM_INS_PUSH31, Some ''push31''),
     (EVM_INS_PUSH32, Some ''push32''), (EVM_INS_DUP1, Some ''dup1''),
     (EVM_INS_DUP2, Some ''dup2''), (EVM_INS_DUP3, Some ''dup3''),
     (EVM_INS_DUP4, Some ''dup4''), (EVM_INS_DUP5, Some ''dup5''),
     (EVM_INS_DUP6, Some ''dup6''), (EVM_INS_DUP7, Some ''dup7''),
     (EVM_INS_DUP8, Some ''dup8''), (EVM_INS_DUP9, Some ''dup9''),
     (EVM_INS_DUP10, Some ''dup10''), (EVM_INS_DUP11, Some ''dup11''),
     (EVM_INS_DUP12, Some ''dup12''), (EVM_INS_DUP13, Some ''dup13''),
     (EVM_INS_DUP14, Some ''dup14''), (EVM_INS_DUP15, Some ''dup15''),
     (EVM_INS_DUP16, Some ''dup16''), (EVM_INS_SWAP1, Some ''swap1''),
     (EVM_INS_SWAP2, Some ''swap2''), (EVM_INS_SWAP3, Some ''swap3''),
     (EVM_INS_SWAP4, Some ''swap4''), (EVM_INS_SWAP5, Some ''swap5''),
     (EVM_INS_SWAP6, Some ''swap6''), (EVM_INS_SWAP7, Some ''swap7''),
     (EVM_INS_SWAP8, Some ''swap8''), (EVM_INS_SWAP9, Some ''swap9''),
     (EVM_INS_SWAP10, Some ''swap10''), (EVM_INS_SWAP11, Some ''swap11''),
     (EVM_INS_SWAP12, Some ''swap12''), (EVM_INS_SWAP13, Some ''swap13''),
     (EVM_INS_SWAP14, Some ''swap14''), (EVM_INS_SWAP15, Some ''swap15''),
     (EVM_INS_SWAP16, Some ''swap16''), (EVM_INS_LOG0, Some ''log0''),
     (EVM_INS_LOG1, Some ''log1''), (EVM_INS_LOG2, Some ''log2''),
     (EVM_INS_LOG3, Some ''log3''), (EVM_INS_LOG4, Some ''log4''), (EVM_INS_INVALID, None),
     (EVM_INS_INVALID, None), (EVM_INS_INVALID, None), (EVM_INS_INVALID, None),
     (EVM_INS_INVALID, None), (EVM_INS_INVALID, None), (EVM_INS_INVALID, None),
     (EVM_INS_INVALID, None), (EVM_INS_INVALID, None), (EVM_INS_INVALID, None),
     (EVM_INS_INVALID, None), (EVM_INS_INVALID, None), (EVM_INS_INVALID, None),
     (EVM_INS_INVALID, None), (EVM_INS_INVALID, None), (EVM_INS_INVALID, None),
     (EVM_INS_INVALID, None), (EVM_INS_INVALID, None), (EVM_INS_INVALID, None),
     (EVM_INS_INVALID, None), (EVM_INS_INVALID, None), (EVM_INS_INVALID, None),
     (EVM_INS_INVALID, None), (EVM_INS_INVALID, None), (EVM_INS_INVALID, None),
     (EVM_INS_INVALID, None), (EVM_INS_INVALID, None), (EVM_INS_INVALID, None),
     (EVM_INS_INVALID, None), (EVM_INS_INVALID, None), (EVM_INS_INVALID, None),
     (EVM_INS_INVALID, None), (EVM_INS_INVALID, None), (EVM_INS_INVALID, None),
     (EVM_INS_INVALID, None), (EVM_INS_INVALID, None), (EVM_INS_INVALID, None),
     (EVM_INS_INVALID, None), (EVM_INS_INVALID, None), (EVM_INS_INVALID, None),
     (EVM_INS_INVALID, None), (EVM_INS_INVALID, None), (EVM_INS_INVALID, None),
     (EVM_INS_INVALID, None), (EVM_INS_INVALID, None), (EVM_INS_INVALID, None),
     (EVM_INS_INVALID, None), (EVM_INS_INVALID, None), (EVM_INS_INVALID, None),
     (EVM_INS_INVALID, None), (EVM_INS_INVALID, None), (EVM_INS_INVALID, None),
     (EVM_INS_INVALID, None), (EVM_INS_INVALID, None), (EVM_INS_INVALID, None),
     (EVM_INS_INVALID, None), (EVM_INS_INVALID, None), (EVM_INS_INVALID, None),
     (EVM_INS_INVALID, None), (EVM_INS_INVALID, None), (EVM_INS_INVALID, None),
     (EVM_INS_INVALID, None), (EVM_INS_INVALID, None), (EVM_INS_INVALID, None),
     (EVM_INS_INVALID, None), (EVM_INS_INVALID, None), (EVM_INS_INVALID, None),
     (EVM_INS_INVALID, None), (EVM_INS_INVALID, None), (EVM_INS_INVALID, None),
     (EVM_INS_INVALID, None), (EVM_INS_INVALID, None), (EVM_INS_INVALID, None),
     (EVM_INS_INVALID, None), (EVM_INS_INVALID, None), (EVM_INS_CREATE, Some ''create''),
     (EVM_INS_CALL, Some ''call''), (EVM_INS_CALLCODE, Some ''callcode''),
     (EVM_INS_RETURN, Some ''return''), (EVM_INS_DELEGATECALL, Some ''delegatecall''),
     (EVM_INS_CALLBLACKBOX, Some ''callblackbox''), (EVM_INS_INVALID, None),
     (EVM_INS_INVALID, None), (EVM_INS_INVALID, None), (EVM_INS_INVALID, None),
     (EVM_INS_STATICCALL, Some ''staticcall''), (EVM_INS_INVALID, None),
     (EVM_INS_INVALID, None), (EVM_INS_REVERT, Some ''revert''), (EVM_INS_INVALID, None),
     (EVM_INS_SUICIDE, Some ''suicide'')]"

definition evm_group_name_maps :: "name_map list" where
  "evm_group_name_maps = map (\<lambda>(i, n). \<lparr>nm_id = i, nm_name = n\<rparr>) [
     (EVM_GRP_INVALID, None), (EVM_GRP_JUMP, Some ''jump''), (EVM_GRP_MATH, Some ''math''),
     (EVM_GRP_STACK_WRITE, Some ''stack_write''), (EVM_GRP_STACK_READ, Some ''stack_read''),
     (EVM_GRP_MEM_WRITE, Some ''mem_write''), (EVM_GRP_MEM_READ, Some ''mem_read''),
     (EVM_GRP_STORE_WRITE, Some ''store_write''), (EVM_GRP_STORE_READ, Some ''store_read''),
     (EVM_GRP_HALT, Some ''halt'')]"

section \<open>Mapping\<close>

text \<open>\<^verbatim>\<open>evm_insn_find\<close> returns the id, or -1 for an unused opcode.\<close>

definition evm_insn_find :: "cs_evm list \<Rightarrow> nat \<Rightarrow> u32 \<Rightarrow> int option" where
  "evm_insn_find insns mx idn =
     (if mx \<le> unat idn then Some (- 1)
      else do {
        e \<leftarrow> aget insns (unat idn);
        Some (if evm_fee e = 0xffffffff then - 1 else uint idn) })"

text \<open>
  With details requested, the write to \<^verbatim>\<open>insn->detail\<close> is not guarded by a test of the
  pointer.
\<close>

definition EVM_get_insn_id :: "cs_struct \<Rightarrow> cs_insn \<Rightarrow> u32 \<Rightarrow> cs_insn option" where
  "EVM_get_insn_id h insn idn = do {
     let insn = insn\<lparr>in_id := idn\<rparr>;
     k \<leftarrow> evm_insn_find evm_insns (length evm_insns) idn;
     if k > 0 \<and> ud_detail h \<noteq> 0 then do {
       (p, d) \<leftarrow> in_detail insn;
       e \<leftarrow> aget evm_insns (unat idn);
       Some (insn\<lparr>in_detail := Some (p, d\<lparr>d_evm := e\<rparr>)\<rparr>) }
     else Some insn }"

definition EVM_insn_name :: "u32 \<Rightarrow> string option" where
  "EVM_insn_name idn =
     (if length evm_insn_name_maps \<le> unat idn then None
      else snd (evm_insn_name_maps ! unat idn))"

definition EVM_group_name :: "u32 \<Rightarrow> string option" where
  "EVM_group_name idn = id2name evm_group_name_maps idn"

section \<open>Decoder\<close>

text \<open>\<^verbatim>\<open>detail->groups[detail->groups_count] = g; detail->groups_count++\<close>\<close>

definition add_group :: "cs_detail \<Rightarrow> u8 \<Rightarrow> cs_detail option" where
  "add_group d g = do {
     gs \<leftarrow> aset (d_groups d) (unat (d_groups_count d)) g;
     Some (d\<lparr>d_groups := gs, d_groups_count := d_groups_count d + 1\<rparr>) }"

text \<open>The switch at the end of the decoder: the group of the opcode.\<close>

definition EVM_opcode_group :: "u8 \<Rightarrow> u8 option" where
  "EVM_opcode_group opcode =
     (if opcode \<in> {EVM_INS_ADD, EVM_INS_MUL, EVM_INS_SUB, EVM_INS_DIV, EVM_INS_SDIV, EVM_INS_MOD,
          EVM_INS_SMOD, EVM_INS_ADDMOD, EVM_INS_MULMOD, EVM_INS_EXP, EVM_INS_SIGNEXTEND}
      then Some EVM_GRP_MATH
      else if opcode \<in> {EVM_INS_MSTORE, EVM_INS_MSTORE8, EVM_INS_CALLDATACOPY, EVM_INS_CODECOPY,
          EVM_INS_EXTCODECOPY}
      then Some EVM_GRP_MEM_WRITE
      else if opcode \<in> {EVM_INS_MLOAD, EVM_INS_CREATE, EVM_INS_CALL, EVM_INS_CALLCODE,
          EVM_INS_RETURN, EVM_INS_DELEGATECALL, EVM_INS_REVERT}
      then Some EVM_GRP_MEM_READ
      else if opcode = EVM_INS_SSTORE then Some EVM_GRP_STORE_WRITE
      else if opcode = EVM_INS_SLOAD then Some EVM_GRP_STORE_READ
      else if opcode \<in> {EVM_INS_JUMP, EVM_INS_JUMPI} then Some EVM_GRP_JUMP
      else if opcode \<in> {EVM_INS_STOP, EVM_INS_SUICIDE} then Some EVM_GRP_HALT
      else None)"

text \<open>The \<^verbatim>\<open>memset\<close> of the common part of the details and of the EVM member.\<close>

definition EVM_clear_detail :: "cs_detail \<Rightarrow> cs_detail" where
  "EVM_clear_detail d = d\<lparr>
     d_regs_read := replicate (length (d_regs_read d)) 0, d_regs_read_count := 0,
     d_regs_write := replicate (length (d_regs_write d)) 0, d_regs_write_count := 0,
     d_groups := replicate (length (d_groups d)) 0, d_groups_count := 0,
     d_evm := evm_info 0 0 0\<rparr>"

definition EVM_fill_detail :: "cs_struct \<Rightarrow> cs_insn \<Rightarrow> u8 \<Rightarrow> cs_insn option" where
  "EVM_fill_detail ud insn opcode = do {
     (p, d) \<leftarrow> in_detail insn;
     insn \<leftarrow> EVM_get_insn_id ud (insn\<lparr>in_detail := Some (p, EVM_clear_detail d)\<rparr>) (ucast opcode);
     (p, d) \<leftarrow> in_detail insn;
     d \<leftarrow> (if evm_pop (d_evm d) \<noteq> 0 then add_group d EVM_GRP_STACK_READ else Some d);
     d \<leftarrow> (if evm_push (d_evm d) \<noteq> 0 then add_group d EVM_GRP_STACK_WRITE else Some d);
     d \<leftarrow> (case EVM_opcode_group opcode of None \<Rightarrow> Some d | Some g \<Rightarrow> add_group d g);
     Some (insn\<lparr>in_detail := Some (p, d)\<rparr>) }"

text \<open>The result is the returned flag, the instruction object and \<^verbatim>\<open>*size\<close>.\<close>

definition EVM_getInstruction ::
    "cs_struct \<Rightarrow> u8 list \<Rightarrow> MCInst \<Rightarrow> u16 \<Rightarrow> u64 \<Rightarrow> (bool \<times> MCInst \<times> u16) option" where
  "EVM_getInstruction ud code MI sz address =
     (if length code = 0 then Some (False, MI, sz)
      else do {
        let opcode = code ! 0;
        v \<leftarrow> aget opcodes (unat opcode);
        if v = - 1 then Some (False, MI, sz)
        else do {
          let MI = MI\<lparr>mi_address := address, mi_OpcodePub := ucast opcode, mi_Opcode := ucast opcode\<rparr>;
          let len = unat (opcode - EVM_INS_PUSH1 + 1);
          let push = (EVM_INS_PUSH1 \<le> opcode \<and> opcode \<le> EVM_INS_PUSH32);
          if push \<and> length code < 1 + len then Some (False, MI, sz)
          else do {
            data \<leftarrow> (if push then cwrite (mi_evm_data MI) 0 (take len (drop 1 code))
                     else Some (mi_evm_data MI));
            let MI = MI\<lparr>mi_evm_data := data\<rparr>;
            let sz = (if push then of_nat (1 + len) else 1);
            insn \<leftarrow> (if in_detail (mi_flat_insn MI) = None then Some (mi_flat_insn MI)
                     else EVM_fill_detail ud (mi_flat_insn MI) opcode);
            Some (True, MI\<lparr>mi_flat_insn := insn\<rparr>, sz) } } })"

section \<open>Printer\<close>

text \<open>The loop over the bytes of the immediate; \<open>k\<close> is the number of bytes left.\<close>

fun EVM_print_data :: "MCInst \<Rightarrow> nat \<Rightarrow> nat \<Rightarrow> SStream \<Rightarrow> SStream option" where
  "EVM_print_data MI i 0 ss = Some ss"
| "EVM_print_data MI i (Suc k) ss = do {
     b \<leftarrow> aget (mi_evm_data MI) i;
     ss \<leftarrow> SStream_concat ss (fmt_0x 2 (unat b));
     EVM_print_data MI (Suc i) k ss }"

definition EVM_printInst :: "MCInst \<Rightarrow> SStream \<Rightarrow> SStream option" where
  "EVM_printInst MI ss = do {
     name \<leftarrow> EVM_insn_name (mi_Opcode MI);
     ss \<leftarrow> SStream_concat ss name;
     if EVM_INS_PUSH1 \<le> mi_Opcode MI \<and> mi_Opcode MI \<le> EVM_INS_PUSH32 then do {
       ss \<leftarrow> SStream_concat0 ss [CHR 0x09];
       EVM_print_data MI 0 (unat (mi_Opcode MI - EVM_INS_PUSH1 + 1)) ss }
     else Some ss }"


section \<open>Consistency of the tables\<close>

text \<open>
  The four tables agree on which opcodes exist: an assigned opcode has its own number in
  \<^verbatim>\<open>opcodes\<close>, a fee and a short lower-case name filed under its number; an unassigned one
  has none of them.
\<close>

definition plain_name :: "string \<Rightarrow> bool" where
  "plain_name n \<longleftrightarrow> n \<noteq> [] \<and> length n \<le> 14 \<and> list_all (\<lambda>c. c \<in> set ''abcdefghijklmnopqrstuvwxyz0123456789'') n"

definition evm_row_ok :: "nat \<times> int \<times> cs_evm \<times> u32 \<times> string option \<Rightarrow> bool" where
  "evm_row_ok = (\<lambda>(i, v, e, j, n).
     if v = - 1 then evm_fee e = 0xffffffff \<and> j = EVM_INS_INVALID \<and> n = None
     else v = int i \<and> evm_fee e \<noteq> 0xffffffff \<and> j = of_nat i \<and>
       (case n of None \<Rightarrow> False | Some s \<Rightarrow> plain_name s))"

lemma evm_lengths [simp]:
  "length opcodes = 256" "length evm_insns = 256" "length evm_insn_name_maps = 256"
  by (simp_all add: opcodes_def evm_insns_def evm_insn_name_maps_def)

lemma evm_rows: "list_all evm_row_ok (zip [0..<256] (zip opcodes (zip evm_insns evm_insn_name_maps)))"
  by code_simp


lemma evm_row: "i < 256 \<Longrightarrow> evm_row_ok (i, opcodes ! i, evm_insns ! i, evm_insn_name_maps ! i)"
  using evm_rows by (simp add: list_all_length)

definition evm_defined :: "u8 \<Rightarrow> bool" where
  "evm_defined opcode \<longleftrightarrow> opcodes ! unat opcode \<noteq> - 1"

definition evm_name :: "u8 \<Rightarrow> string" where
  "evm_name opcode = the (snd (evm_insn_name_maps ! unat opcode))"

lemma evm_table_row:
  assumes "evm_defined opcode"
  shows "opcodes ! unat opcode = uint opcode" "evm_fee (evm_insns ! unat opcode) \<noteq> 0xffffffff"
    "EVM_insn_name (ucast opcode) = Some (evm_name opcode)" "plain_name (evm_name opcode)"
proof -
  obtain j n where m: "evm_insn_name_maps ! unat opcode = (j, n)" by fastforce
  from evm_row [OF unat_less_256, of opcode] assms obtain s where r: "n = Some s" "plain_name s"
    "opcodes ! unat opcode = int (unat opcode)" "evm_fee (evm_insns ! unat opcode) \<noteq> 0xffffffff"
    unfolding evm_row_ok_def m evm_defined_def by (cases n) simp_all
  from r(3,4) show "opcodes ! unat opcode = uint opcode"
    "evm_fee (evm_insns ! unat opcode) \<noteq> 0xffffffff" by simp_all
  from r(1,2) m unat_less_256 [of opcode]
  show "EVM_insn_name (ucast opcode) = Some (evm_name opcode)" "plain_name (evm_name opcode)"
    by (simp_all add: EVM_insn_name_def evm_name_def)
qed

lemma evm_table_undefined:
  assumes "\<not> evm_defined opcode"
  shows "EVM_insn_name (ucast opcode) = None" "evm_fee (evm_insns ! unat opcode) = 0xffffffff"
proof -
  obtain j n where m: "evm_insn_name_maps ! unat opcode = (j, n)" by fastforce
  from evm_row [OF unat_less_256, of opcode] assms
  have r: "n = None" "evm_fee (evm_insns ! unat opcode) = 0xffffffff"
    by (auto simp only: evm_row_ok_def m evm_defined_def prod.case if_True not_not simp_thms)
  from r m unat_less_256 [of opcode] show "EVM_insn_name (ucast opcode) = None"
    "evm_fee (evm_insns ! unat opcode) = 0xffffffff"
    by (simp_all add: EVM_insn_name_def)
qed

lemma plain_name_chars:
  assumes "plain_name n"
  shows "NUL \<notin> set n" "CHR '' '' \<notin> set n" "CHR 0x09 \<notin> set n" "CHR ''|'' \<notin> set n" "length n \<le> 14"
proof -
  have n: "set n \<subseteq> set ''abcdefghijklmnopqrstuvwxyz0123456789''" "length n \<le> 14"
    using assms unfolding plain_name_def list_all_iff by blast+
  have "NUL \<notin> set ''abcdefghijklmnopqrstuvwxyz0123456789''"
    "CHR '' '' \<notin> set ''abcdefghijklmnopqrstuvwxyz0123456789''"
    "CHR 0x09 \<notin> set ''abcdefghijklmnopqrstuvwxyz0123456789''"
    "CHR ''|'' \<notin> set ''abcdefghijklmnopqrstuvwxyz0123456789''" by simp_all
  with n show "NUL \<notin> set n" "CHR '' '' \<notin> set n" "CHR 0x09 \<notin> set n" "CHR ''|'' \<notin> set n"
    "length n \<le> 14" by blast+
qed

section \<open>Decoding\<close>

text \<open>The length of an instruction: a push carries its immediate.\<close>

definition evm_push_len :: "u8 \<Rightarrow> nat" where
  "evm_push_len opcode =
     (if EVM_INS_PUSH1 \<le> opcode \<and> opcode \<le> EVM_INS_PUSH32 then unat opcode - 95 else 0)"

definition evm_valid :: "u8 list \<Rightarrow> bool" where
  "evm_valid code \<longleftrightarrow> (case code of [] \<Rightarrow> False
     | b # bs \<Rightarrow> evm_defined b \<and> evm_push_len b \<le> length bs)"

text \<open>The groups in the order in which the decoder adds them.\<close>

definition evm_groups :: "u8 \<Rightarrow> u8 list" where
  "evm_groups opcode =
     (if evm_pop (evm_insns ! unat opcode) \<noteq> 0 then [EVM_GRP_STACK_READ] else []) @
     (if evm_push (evm_insns ! unat opcode) \<noteq> 0 then [EVM_GRP_STACK_WRITE] else []) @
     (case EVM_opcode_group opcode of None \<Rightarrow> [] | Some g \<Rightarrow> [g])"

lemma push_range:
  assumes "EVM_INS_PUSH1 \<le> opcode" "opcode \<le> (EVM_INS_PUSH32 :: u8)"
  shows "unat (opcode - EVM_INS_PUSH1 + 1) = unat opcode - 95" "96 \<le> unat opcode" "unat opcode \<le> 127"
proof -
  from assms show r: "96 \<le> unat opcode" "unat opcode \<le> 127" by (simp_all add: word_le_nat_alt)
  have "opcode - EVM_INS_PUSH1 + 1 = opcode - 95" by simp
  moreover have "unat (opcode - 95) = unat opcode - 95"
    using r(1) by (subst unat_sub) (simp_all add: word_le_nat_alt)
  ultimately show "unat (opcode - EVM_INS_PUSH1 + 1) = unat opcode - 95" by simp
qed

lemma evm_push_len_le: "evm_push_len opcode \<le> 32"
  using push_range [of opcode] by (auto simp: evm_push_len_def)

lemma evm_insn_find_eq:
  "evm_insn_find evm_insns 256 (ucast (opcode :: u8)) =
     Some (if evm_fee (evm_insns ! unat opcode) = 0xffffffff then - 1 else int (unat opcode))"
  using unat_less_256 [of opcode]
  by (simp add: evm_insn_find_def fault_simps uint_nat del: of_nat_unat)

lemma EVM_get_insn_id_None:
  assumes "ud_detail h = 0"
  shows "EVM_get_insn_id h insn (ucast (opcode :: u8)) = Some (insn\<lparr>in_id := ucast opcode\<rparr>)"
  using assms by (simp add: EVM_get_insn_id_def evm_insn_find_eq Let_def del: of_nat_unat)

text \<open>The opcode 0 is looked up as 0, which the test for a found entry rejects; its row is zero anyway.\<close>

lemma evm_insns_0: "evm_insns ! 0 = evm_info 0 0 0"
  by (simp add: evm_insns_def)

lemma EVM_get_insn_id_Some:
  assumes "in_detail insn = Some (p, d)" "evm_defined opcode"
  shows "EVM_get_insn_id h insn (ucast opcode) = Some (insn\<lparr>in_id := ucast opcode,
    in_detail := Some (p, if ud_detail h \<noteq> 0 \<and> opcode \<noteq> 0 then d\<lparr>d_evm := evm_insns ! unat opcode\<rparr> else d)\<rparr>)"
proof -
  have same: "insn\<lparr>in_id := i, in_detail := Some (p, d)\<rparr> = insn\<lparr>in_id := i\<rparr>" for i
    using assms(1) by (cases insn) simp
  have pos: "0 < int (unat opcode) \<longleftrightarrow> opcode \<noteq> 0" by (simp add: unat_gt_0 del: of_nat_unat)
  have "EVM_get_insn_id h insn (ucast opcode) =
    (if 0 < int (unat opcode) \<and> ud_detail h \<noteq> 0
     then Some (insn\<lparr>in_id := ucast opcode, in_detail := Some (p, d\<lparr>d_evm := evm_insns ! unat opcode\<rparr>)\<rparr>)
     else Some (insn\<lparr>in_id := ucast opcode\<rparr>))"
    using assms(1) evm_table_row(2) [OF assms(2)] unat_less_256 [of opcode]
    by (simp add: EVM_get_insn_id_def evm_insn_find_eq Let_def fault_simps del: of_nat_unat)
  then show ?thesis unfolding pos using same by simp
qed

lemma EVM_clear_detail_wf: "detail_wf (EVM_clear_detail d) = detail_wf d"
  by (simp add: EVM_clear_detail_def detail_wf_def)

text \<open>The groups written so far, as a list; the array has room for eight.\<close>

definition detail_groups :: "cs_detail \<Rightarrow> u8 list" where
  "detail_groups d = take (unat (d_groups_count d)) (d_groups d)"

lemma add_group_spec:
  assumes "detail_wf d" "unat (d_groups_count d) < 8"
  shows "\<exists>d'. add_group d g = Some d' \<and> detail_wf d' \<and> detail_groups d' = detail_groups d @ [g] \<and>
    unat (d_groups_count d') = Suc (unat (d_groups_count d)) \<and> d_evm d' = d_evm d"
proof -
  let ?n = "unat (d_groups_count d)"
  have len: "length (d_groups d) = 8" using assms(1) by (simp add: detail_wf_def)
  have inc: "unat (d_groups_count d + 1) = Suc ?n"
    using assms(2) by (simp add: unat_word_ariths)
  have "take (Suc ?n) ((d_groups d)[?n := g]) = take ?n (d_groups d) @ [g]"
    using assms(2) len by (simp add: take_Suc_conv_app_nth)
  with assms len inc show ?thesis
    by (auto simp: add_group_def fault_simps detail_wf_def detail_groups_def)
qed

lemma add_group_opt:
  assumes "detail_wf d" "unat (d_groups_count d) < 8"
  shows "\<exists>d'. (case go of None \<Rightarrow> Some d | Some g \<Rightarrow> add_group d g) = Some d' \<and> detail_wf d' \<and>
    detail_groups d' = detail_groups d @ (case go of None \<Rightarrow> [] | Some g \<Rightarrow> [g]) \<and>
    unat (d_groups_count d') \<le> Suc (unat (d_groups_count d)) \<and> d_evm d' = d_evm d"
proof (cases go)
  case (Some g)
  with add_group_spec [OF assms, of g] show ?thesis by auto
qed (use assms in simp)

lemma add_group_if:
  assumes "detail_wf d" "unat (d_groups_count d) < 8"
  shows "\<exists>d'. (if c then add_group d g else Some d) = Some d' \<and> detail_wf d' \<and>
    detail_groups d' = detail_groups d @ (if c then [g] else []) \<and>
    unat (d_groups_count d') \<le> Suc (unat (d_groups_count d)) \<and> d_evm d' = d_evm d"
  using add_group_opt [OF assms, of "if c then Some g else None"] by (cases c) auto

lemma EVM_fill_detail_spec:
  assumes "in_detail insn = Some (p, d)" "detail_wf d" "evm_defined opcode"
  shows "\<exists>d'. EVM_fill_detail ud insn opcode = Some (insn\<lparr>in_id := ucast opcode, in_detail := Some (p, d')\<rparr>) \<and>
    detail_wf d' \<and> (ud_detail ud \<noteq> 0 \<longrightarrow>
      d_evm d' = evm_insns ! unat opcode \<and> detail_groups d' = evm_groups opcode)"
proof -
  define e where "e = (if ud_detail ud \<noteq> 0 then evm_insns ! unat opcode else evm_info 0 0 0)"
  define d1 where "d1 = (EVM_clear_detail d)\<lparr>d_evm := e\<rparr>"
  have wf1: "detail_wf d1" "detail_groups d1 = []" "unat (d_groups_count d1) = 0"
    using assms(2) EVM_clear_detail_wf [of d] 
    by (simp_all add: d1_def detail_wf_def detail_groups_def EVM_clear_detail_def)
  have "(if ud_detail ud \<noteq> 0 \<and> opcode \<noteq> 0 then (EVM_clear_detail d)\<lparr>d_evm := evm_insns ! unat opcode\<rparr>
      else EVM_clear_detail d) = d1"
    using evm_insns_0 by (auto simp: d1_def e_def EVM_clear_detail_def)
  then have id1: "EVM_get_insn_id ud (insn\<lparr>in_detail := Some (p, EVM_clear_detail d)\<rparr>) (ucast opcode) =
      Some (insn\<lparr>in_id := ucast opcode, in_detail := Some (p, d1)\<rparr>)"
    using EVM_get_insn_id_Some [OF _ assms(3), where h = ud, of "insn\<lparr>in_detail := Some (p, EVM_clear_detail d)\<rparr>"
        p "EVM_clear_detail d"] by (simp only: cs_insn.simps) simp
  obtain d2 where d2: "(if evm_pop (d_evm d1) \<noteq> 0 then add_group d1 EVM_GRP_STACK_READ else Some d1) = Some d2"
    "detail_wf d2" "detail_groups d2 = (if evm_pop (d_evm d1) \<noteq> 0 then [EVM_GRP_STACK_READ] else [])"
    "unat (d_groups_count d2) \<le> 1" "d_evm d2 = d_evm d1"
    using add_group_if [of d1 "evm_pop (d_evm d1) \<noteq> 0" EVM_GRP_STACK_READ] wf1 by auto
  obtain d3 where d3: "(if evm_push (d_evm d2) \<noteq> 0 then add_group d2 EVM_GRP_STACK_WRITE else Some d2) = Some d3"
    "detail_wf d3" "detail_groups d3 = detail_groups d2 @
       (if evm_push (d_evm d2) \<noteq> 0 then [EVM_GRP_STACK_WRITE] else [])"
    "unat (d_groups_count d3) \<le> 2" "d_evm d3 = d_evm d2"
    using add_group_if [of d2 "evm_push (d_evm d2) \<noteq> 0" EVM_GRP_STACK_WRITE] d2 by auto
  obtain d4 where d4: "(case EVM_opcode_group opcode of None \<Rightarrow> Some d3 | Some g \<Rightarrow> add_group d3 g) = Some d4"
    "detail_wf d4" "detail_groups d4 = detail_groups d3 @
       (case EVM_opcode_group opcode of None \<Rightarrow> [] | Some g \<Rightarrow> [g])" "d_evm d4 = d_evm d3"
    using add_group_opt [of d3 "EVM_opcode_group opcode"] d3 by auto
  have "EVM_fill_detail ud insn opcode = Some (insn\<lparr>in_id := ucast opcode, in_detail := Some (p, d4)\<rparr>)"
    using assms(1) id1 d2(1) d3(1) d4(1) by (simp add: EVM_fill_detail_def)
  moreover have "d_evm d4 = e" using d4(4) d3(5) d2(5) by (simp add: d1_def)
  moreover have "detail_groups d4 = evm_groups opcode" if "ud_detail ud \<noteq> 0"
    using that d4(3) d3(3) d2(3,5) by (simp add: evm_groups_def d1_def e_def)
  ultimately show ?thesis using d4(2) by (auto simp: e_def)
qed

text \<open>The decoder: rejection leaves the instruction record alone, acceptance is described in full.\<close>

lemma EVM_reject:
  assumes "\<not> evm_valid code"
  shows "\<exists>MI'. EVM_getInstruction ud code MI sz address = Some (False, MI', sz) \<and>
    mi_flat_insn MI' = mi_flat_insn MI \<and> mi_evm_data MI' = mi_evm_data MI \<and> (mci_wf MI \<longrightarrow> mci_wf MI')"
proof (cases code)
  case Nil
  then show ?thesis by (simp add: EVM_getInstruction_def)
next
  case (Cons b bs)
  show ?thesis
  proof (cases "evm_defined b")
    case False
    then show ?thesis using Cons unat_less_256 [of b]
      by (simp add: EVM_getInstruction_def evm_defined_def fault_simps Let_def)
  next
    case True
    then have "\<not> evm_push_len b \<le> length bs" using assms Cons by (simp add: evm_valid_def)
    then have p: "EVM_INS_PUSH1 \<le> b" "b \<le> EVM_INS_PUSH32" "length bs < unat b - 95"
      by (auto simp: evm_push_len_def split: if_splits)
    then show ?thesis using True Cons unat_less_256 [of b] push_range(1) [OF p(1,2)]
      by (simp add: EVM_getInstruction_def evm_defined_def fault_simps Let_def mci_wf_def)
  qed
qed

definition evm_insn_len :: "u8 list \<Rightarrow> nat" where
  "evm_insn_len code = Suc (evm_push_len (hd code))"

lemma EVM_accept:
  assumes "evm_valid code" "mci_wf MI"
  shows "\<exists>MI'. EVM_getInstruction ud code MI sz address = Some (True, MI', of_nat (evm_insn_len code)) \<and>
    mci_wf MI' \<and> mi_address MI' = address \<and>
    mi_Opcode MI' = ucast (hd code) \<and> mi_OpcodePub MI' = ucast (hd code) \<and>
    take (evm_push_len (hd code)) (mi_evm_data MI') = take (evm_push_len (hd code)) (tl code) \<and>
    (case in_detail (mi_flat_insn MI) of
       None \<Rightarrow> mi_flat_insn MI' = mi_flat_insn MI
     | Some (p, d) \<Rightarrow> \<exists>d'. detail_wf d' \<and>
         mi_flat_insn MI' = (mi_flat_insn MI)\<lparr>in_id := ucast (hd code), in_detail := Some (p, d')\<rparr> \<and>
         (ud_detail ud \<noteq> 0 \<longrightarrow> d_evm d' = evm_insns ! unat (hd code) \<and> detail_groups d' = evm_groups (hd code)))"
proof -
  obtain b bs where code: "code = b # bs" and b: "evm_defined b" "evm_push_len b \<le> length bs"
    using assms(1) by (auto simp: evm_valid_def split: list.splits)
  define MI1 where "MI1 = MI\<lparr>mi_address := address, mi_OpcodePub := ucast b, mi_Opcode := ucast b\<rparr>"
  define push where "push \<longleftrightarrow> EVM_INS_PUSH1 \<le> b \<and> b \<le> EVM_INS_PUSH32"
  have len: "push \<Longrightarrow> unat (b - EVM_INS_PUSH1 + 1) = evm_push_len b" "\<not> push \<Longrightarrow> evm_push_len b = 0"
    using push_range(1) [of b] by (auto simp: push_def evm_push_len_def)
  have ed: "length (mi_evm_data MI1) = 32" using assms(2) by (simp add: mci_wf_def MI1_def)
  obtain data where data: "(if push then cwrite (mi_evm_data MI1) 0 (take (unat (b - EVM_INS_PUSH1 + 1)) bs)
        else Some (mi_evm_data MI1)) = Some data" "length data = 32"
      "take (evm_push_len b) data = take (evm_push_len b) bs"
  proof (cases push)
    case True
    then have "unat (b - 95) = evm_push_len b" using len(1) by simp
    with True ed b(2) evm_push_len_le [of b] show ?thesis
      by (intro that [of "take (evm_push_len b) bs @ drop (evm_push_len b) (mi_evm_data MI1)"])
         (simp_all add: cwrite_def min_def)
  qed (use ed len(2) that in simp)
  define insn where "insn = (if in_detail (mi_flat_insn MI) = None then Some (mi_flat_insn MI)
        else EVM_fill_detail ud (mi_flat_insn MI) b)"
  have iwf: "insn_wf (mi_flat_insn MI)" using assms(2) by (simp add: mci_wf_def)
  obtain i where i: "insn = Some i" "insn_wf i"
    "case in_detail (mi_flat_insn MI) of None \<Rightarrow> i = mi_flat_insn MI
     | Some (p, d) \<Rightarrow> \<exists>d'. detail_wf d' \<and>
         i = (mi_flat_insn MI)\<lparr>in_id := ucast b, in_detail := Some (p, d')\<rparr> \<and>
         (ud_detail ud \<noteq> 0 \<longrightarrow> d_evm d' = evm_insns ! unat b \<and> detail_groups d' = evm_groups b)"
  proof (cases "in_detail (mi_flat_insn MI)")
    case None
    then show ?thesis using that iwf by (simp add: insn_def)
  next
    case (Some pd)
    obtain p d where pd: "pd = (p, d)" by (cases pd)
    from EVM_fill_detail_spec [OF Some [unfolded pd] insn_wf_detail [OF iwf Some [unfolded pd]] b(1), of ud]
    obtain d' where d': "EVM_fill_detail ud (mi_flat_insn MI) b =
        Some ((mi_flat_insn MI)\<lparr>in_id := ucast b, in_detail := Some (p, d')\<rparr>)" "detail_wf d'"
      "ud_detail ud \<noteq> 0 \<longrightarrow> d_evm d' = evm_insns ! unat b \<and> detail_groups d' = evm_groups b" by blast
    show ?thesis
      by (rule that [of "(mi_flat_insn MI)\<lparr>in_id := ucast b, in_detail := Some (p, d')\<rparr>"])
         (use d' Some pd iwf in \<open>auto simp: insn_def insn_wf_def\<close>)
  qed
  define MI' where "MI' = MI1\<lparr>mi_evm_data := data, mi_flat_insn := i\<rparr>"
  have v: "aget opcodes (unat b) = Some (opcodes ! unat b)" "opcodes ! unat b \<noteq> - 1"
    using b(1) unat_less_256 [of b] by (simp_all add: evm_defined_def aget_def)
  have data': "(if push then cwrite (mi_evm_data MI) 0 (take (unat (b - 95)) bs)
      else Some (mi_evm_data MI)) = Some data"
    using data(1) by (cases push) (simp_all add: MI1_def)
  have long: "push \<Longrightarrow> \<not> length bs < unat (b - 95)" using len(1) b(2) by simp
  have "EVM_getInstruction ud code MI sz address = Some (True, MI', of_nat (evm_insn_len code))"
  proof (cases push)
    case True
    then show ?thesis using v data' i(1) long len(1) code
      by (simp add: EVM_getInstruction_def aget_def Let_def MI'_def MI1_def insn_def push_def evm_insn_len_def del: of_nat_unat
          cong: if_cong split del: if_split)
  next
    case False
    then have "\<not> (96 \<le> b \<and> b \<le> 127)" by (simp add: push_def)
    with False show ?thesis using v data' i(1) len(2) code
      by (cases "96 \<le> b") (simp_all add: EVM_getInstruction_def aget_def Let_def MI'_def MI1_def insn_def evm_insn_len_def
          cong: if_cong split del: if_split)
  qed
  moreover have "mci_wf MI'" using assms(2) i(2) data(2) by (simp add: MI'_def MI1_def mci_wf_def)
  moreover have "mi_flat_insn MI' = i" "mi_address MI' = address" "mi_Opcode MI' = ucast b"
    "mi_OpcodePub MI' = ucast b" "mi_evm_data MI' = data" by (simp_all add: MI'_def MI1_def)
  ultimately show ?thesis using i(3) data(3) unfolding code list.sel by auto
qed

section \<open>Printing\<close>

text \<open>The bytes of an immediate as the printer writes them, and how to read them back.\<close>

definition hex_bytes :: "u8 list \<Rightarrow> string" where
  "hex_bytes bs = concat (map (\<lambda>b. fmt_0x 2 (unat b)) bs)"

fun unhex_bytes :: "string \<Rightarrow> u8 list" where
  "unhex_bytes (c # d # s) = of_nat (scan_radix 16 [c, d]) # unhex_bytes s"
| "unhex_bytes s = []"

definition evm_text :: "u8 list \<Rightarrow> string" where
  "evm_text code = evm_name (hd code) @
     (if evm_push_len (hd code) = 0 then []
      else CHR 0x09 # hex_bytes (take (evm_push_len (hd code)) (tl code)))"

lemma length_hex_byte: "length (fmt_0x 2 (unat (b :: u8))) = 2"
  using unat_less_256 [of b] by (intro length_fmt_0x) simp_all

lemma length_hex_bytes: "length (hex_bytes bs) = 2 * length bs"
  by (induction bs) (simp_all add: hex_bytes_def length_hex_byte)

lemma hex_bytes_chars: "set (hex_bytes bs) \<subseteq> set ''0123456789abcdef''"
  using fmt_0x_chars by (fastforce simp: hex_bytes_def)

lemma unhex_hex_bytes: "unhex_bytes (hex_bytes bs) = bs"
proof (induction bs)
  case (Cons b bs)
  obtain c d where cd: "fmt_0x 2 (unat b) = [c, d]"
    using length_hex_byte [of b] by (auto simp: length_Suc_conv numeral_eq_Suc)
  have "scan_radix 16 [c, d] = unat b" by (simp flip: cd)
  with Cons cd show ?case by (simp add: hex_bytes_def)
qed (simp add: hex_bytes_def)

lemma hex_bytes_no_NUL: "NUL \<notin> set (hex_bytes bs)"
  using hex_bytes_chars [of bs] by auto

lemma EVM_print_data_spec:
  assumes "ss_holds ss s" "i + k \<le> length (mi_evm_data MI)" "length s + 2 * k < 511"
  shows "\<exists>ss'. EVM_print_data MI i k ss = Some ss' \<and>
    ss_holds ss' (s @ hex_bytes (take k (drop i (mi_evm_data MI))))"
  using assms
proof (induction k arbitrary: i ss s)
  case 0
  then show ?case by (simp add: hex_bytes_def)
next
  case (Suc k)
  let ?b = "mi_evm_data MI ! i"
  have "NUL \<notin> set (fmt_0x 2 (unat ?b))" using fmt_0x_chars [of 2 "unat ?b"] by auto
  then obtain ss1 where ss1: "SStream_concat ss (fmt_0x 2 (unat ?b)) = Some ss1"
    "ss_holds ss1 (s @ fmt_0x 2 (unat ?b))"
    using SStream_concat_holds [OF Suc.prems(1), of "fmt_0x 2 (unat ?b)"] Suc.prems(3)
      length_hex_byte [of ?b] by auto
  from Suc.IH [OF ss1(2), of "Suc i"] Suc.prems length_hex_byte [of ?b] obtain ss2 where
    "EVM_print_data MI (Suc i) k ss1 = Some ss2"
    "ss_holds ss2 ((s @ fmt_0x 2 (unat ?b)) @ hex_bytes (take k (drop (Suc i) (mi_evm_data MI))))"
    by auto
  moreover have "take (Suc k) (drop i (mi_evm_data MI)) = ?b # take k (drop (Suc i) (mi_evm_data MI))"
    using Suc.prems(2) by (simp add: Cons_nth_drop_Suc [symmetric])
  ultimately show ?case using Suc.prems(2) ss1(1) by (simp add: fault_simps hex_bytes_def)
qed

lemma push_op_range:
  "EVM_INS_PUSH1 \<le> (ucast b :: u32) \<and> (ucast b :: u32) \<le> EVM_INS_PUSH32 \<longleftrightarrow> evm_push_len b \<noteq> 0"
  "EVM_INS_PUSH1 \<le> (ucast b :: u32) \<Longrightarrow> ucast b \<le> (EVM_INS_PUSH32 :: u32) \<Longrightarrow>
     unat (ucast b - EVM_INS_PUSH1 + 1 :: u32) = evm_push_len b" for b :: u8
proof -
  show "EVM_INS_PUSH1 \<le> (ucast b :: u32) \<and> (ucast b :: u32) \<le> EVM_INS_PUSH32 \<longleftrightarrow> evm_push_len b \<noteq> 0"
    by (auto simp: evm_push_len_def word_le_nat_alt)
  assume "EVM_INS_PUSH1 \<le> (ucast b :: u32)" "ucast b \<le> (EVM_INS_PUSH32 :: u32)"
  then have r: "96 \<le> unat b" "unat b \<le> 127" by (simp_all add: word_le_nat_alt)
  have "(ucast b :: u32) - EVM_INS_PUSH1 + 1 = ucast b - 95" by simp
  moreover have "unat (ucast b - 95 :: u32) = unat b - 95"
    using r(1) by (subst unat_sub) (simp_all add: word_le_nat_alt)
  ultimately show "unat (ucast b - EVM_INS_PUSH1 + 1 :: u32) = evm_push_len b"
    using r by (simp add: evm_push_len_def word_le_nat_alt)
qed

lemma EVM_print:
  assumes "evm_valid code" "mci_wf MI" "mi_Opcode MI = ucast (hd code)"
    "take (evm_push_len (hd code)) (mi_evm_data MI) = take (evm_push_len (hd code)) (tl code)"
    "ss_holds ss []"
  shows "\<exists>ss'. EVM_printInst MI ss = Some ss' \<and> ss_holds ss' (evm_text code)"
proof -
  let ?b = "hd code" and ?n = "evm_push_len (hd code)"
  have def: "evm_defined ?b" using assms(1) by (auto simp: evm_valid_def split: list.splits)
  note nm = plain_name_chars [OF evm_table_row(4) [OF def]]
  obtain ss1 where ss1: "SStream_concat ss (evm_name ?b) = Some ss1" "ss_holds ss1 (evm_name ?b)"
    using SStream_concat_holds [OF assms(5) nm(1)] nm(5) by auto
  show ?thesis
  proof (cases "?n = 0")
    case True
    then have "\<not> (EVM_INS_PUSH1 \<le> mi_Opcode MI \<and> mi_Opcode MI \<le> EVM_INS_PUSH32)"
      unfolding assms(3) push_op_range(1) by simp
    with True ss1 evm_table_row(3) [OF def] assms(3) show ?thesis
      by (auto simp: EVM_printInst_def evm_text_def)
  next
    case False
    then have p: "EVM_INS_PUSH1 \<le> mi_Opcode MI \<and> mi_Opcode MI \<le> EVM_INS_PUSH32"
      unfolding assms(3) push_op_range(1) by simp
    then have n: "unat (mi_Opcode MI - EVM_INS_PUSH1 + 1) = ?n"
      unfolding assms(3) using push_op_range(2) by blast
    obtain ss2 where ss2: "SStream_concat0 ss1 [CHR 0x09] = Some ss2"
      "ss_holds ss2 (evm_name ?b @ [CHR 0x09])"
      using SStream_concat0_holds [OF ss1(2), of "[CHR 0x09]"] nm(5) by auto
    have "\<exists>ss3. EVM_print_data MI 0 ?n ss2 = Some ss3 \<and>
        ss_holds ss3 ((evm_name ?b @ [CHR 0x09]) @ hex_bytes (take ?n (mi_evm_data MI)))"
      using EVM_print_data_spec [OF ss2(2), of 0 ?n MI] assms(2) evm_push_len_le [of ?b] nm(5)
      by (auto simp: mci_wf_def)
    with p n ss1(1) ss2(1) evm_table_row(3) [OF def] assms(3,4) False show ?thesis
      by (simp add: EVM_printInst_def evm_text_def)
  qed
qed

text \<open>The text determines the immediate: what follows the tabulator reads back as the bytes.\<close>

lemma evm_text_operand:
  assumes "evm_valid code" "evm_push_len (hd code) \<noteq> 0"
  shows "unhex_bytes (drop (Suc (length (evm_name (hd code)))) (evm_text code)) =
    take (evm_push_len (hd code)) (tl code)"
  using assms by (simp add: evm_text_def unhex_hex_bytes)

lemma length_evm_text: "evm_valid code \<Longrightarrow> length (evm_text code) \<le> 79"
proof -
  assume "evm_valid code"
  then have "evm_defined (hd code)" by (auto simp: evm_valid_def split: list.splits)
  from plain_name_chars(5) [OF evm_table_row(4) [OF this]] evm_push_len_le [of "hd code"]
  show ?thesis by (auto simp: evm_text_def length_hex_bytes min_def)
qed

end
