(* ===== verification/MOS65XX_Model.thy ===== *)
theory MOS65XX_Model
  imports MCInst_Model SStream_Model Utils_Model
begin

text \<open>
  The MOS65XX architecture, \<^verbatim>\<open>MOS65XXDisassembler.c\<close> (not the diet build): the opcode
  table, the table of instructions, the decoder with its details, the printer and the names. The
  decoder accepts exactly the assigned opcodes with all their operand bytes, stores the operand
  in little-endian order, and its details stay inside their arrays.
\<close>

section \<open>Tables\<close>

record OpInfo =
  oi_ins :: mos65xx_insn
  oi_am :: mos65xx_address_mode

definition op_info :: "mos65xx_insn \<times> mos65xx_address_mode \<Rightarrow> OpInfo" where
  "op_info p = \<lparr>oi_ins = fst p, oi_am = snd p\<rparr>"

definition OpInfoTable :: "OpInfo list" where
  "OpInfoTable = map op_info [
     (MOS65XX_INS_BRK, MOS65XX_AM_IMP), (MOS65XX_INS_ORA, MOS65XX_AM_INDX),
     (MOS65XX_INS_INVALID, MOS65XX_AM_NONE), (MOS65XX_INS_INVALID, MOS65XX_AM_NONE),
     (MOS65XX_INS_NOP, MOS65XX_AM_ZP), (MOS65XX_INS_ORA, MOS65XX_AM_ZP),
     (MOS65XX_INS_ASL, MOS65XX_AM_ZP), (MOS65XX_INS_INVALID, MOS65XX_AM_NONE),
     (MOS65XX_INS_PHP, MOS65XX_AM_IMP), (MOS65XX_INS_ORA, MOS65XX_AM_IMM),
     (MOS65XX_INS_ASL, MOS65XX_AM_ACC), (MOS65XX_INS_INVALID, MOS65XX_AM_NONE),
     (MOS65XX_INS_NOP, MOS65XX_AM_ABS), (MOS65XX_INS_ORA, MOS65XX_AM_ABS),
     (MOS65XX_INS_ASL, MOS65XX_AM_ABS), (MOS65XX_INS_INVALID, MOS65XX_AM_NONE),
     (MOS65XX_INS_BPL, MOS65XX_AM_REL), (MOS65XX_INS_ORA, MOS65XX_AM_INDY),
     (MOS65XX_INS_INVALID, MOS65XX_AM_NONE), (MOS65XX_INS_INVALID, MOS65XX_AM_NONE),
     (MOS65XX_INS_NOP, MOS65XX_AM_ZPX), (MOS65XX_INS_ORA, MOS65XX_AM_ZPX),
     (MOS65XX_INS_ASL, MOS65XX_AM_ZPX), (MOS65XX_INS_INVALID, MOS65XX_AM_NONE),
     (MOS65XX_INS_CLC, MOS65XX_AM_IMP), (MOS65XX_INS_ORA, MOS65XX_AM_ABSY),
     (MOS65XX_INS_NOP, MOS65XX_AM_IMP), (MOS65XX_INS_INVALID, MOS65XX_AM_NONE),
     (MOS65XX_INS_NOP, MOS65XX_AM_ABS), (MOS65XX_INS_ORA, MOS65XX_AM_ABSX),
     (MOS65XX_INS_ASL, MOS65XX_AM_ABSX), (MOS65XX_INS_INVALID, MOS65XX_AM_NONE),
     (MOS65XX_INS_JSR, MOS65XX_AM_ABS), (MOS65XX_INS_AND, MOS65XX_AM_INDX),
     (MOS65XX_INS_INVALID, MOS65XX_AM_NONE), (MOS65XX_INS_INVALID, MOS65XX_AM_NONE),
     (MOS65XX_INS_BIT, MOS65XX_AM_ZP), (MOS65XX_INS_AND, MOS65XX_AM_ZP),
     (MOS65XX_INS_ROL, MOS65XX_AM_ZP), (MOS65XX_INS_INVALID, MOS65XX_AM_NONE),
     (MOS65XX_INS_PLP, MOS65XX_AM_IMP), (MOS65XX_INS_AND, MOS65XX_AM_IMM),
     (MOS65XX_INS_ROL, MOS65XX_AM_ACC), (MOS65XX_INS_INVALID, MOS65XX_AM_NONE),
     (MOS65XX_INS_BIT, MOS65XX_AM_ABS), (MOS65XX_INS_AND, MOS65XX_AM_ABS),
     (MOS65XX_INS_ROL, MOS65XX_AM_ABS), (MOS65XX_INS_INVALID, MOS65XX_AM_NONE),
     (MOS65XX_INS_BMI, MOS65XX_AM_REL), (MOS65XX_INS_AND, MOS65XX_AM_INDY),
     (MOS65XX_INS_INVALID, MOS65XX_AM_NONE), (MOS65XX_INS_INVALID, MOS65XX_AM_NONE),
     (MOS65XX_INS_NOP, MOS65XX_AM_ZPX), (MOS65XX_INS_AND, MOS65XX_AM_ZPX),
     (MOS65XX_INS_ROL, MOS65XX_AM_ZPX), (MOS65XX_INS_INVALID, MOS65XX_AM_NONE),
     (MOS65XX_INS_SEC, MOS65XX_AM_IMP), (MOS65XX_INS_AND, MOS65XX_AM_ABSY),
     (MOS65XX_INS_NOP, MOS65XX_AM_IMP), (MOS65XX_INS_INVALID, MOS65XX_AM_NONE),
     (MOS65XX_INS_NOP, MOS65XX_AM_ABSX), (MOS65XX_INS_AND, MOS65XX_AM_ABSX),
     (MOS65XX_INS_ROL, MOS65XX_AM_ABSX), (MOS65XX_INS_INVALID, MOS65XX_AM_NONE),
     (MOS65XX_INS_RTI, MOS65XX_AM_IMP), (MOS65XX_INS_EOR, MOS65XX_AM_INDX),
     (MOS65XX_INS_INVALID, MOS65XX_AM_NONE), (MOS65XX_INS_INVALID, MOS65XX_AM_NONE),
     (MOS65XX_INS_NOP, MOS65XX_AM_ZP), (MOS65XX_INS_EOR, MOS65XX_AM_ZP),
     (MOS65XX_INS_LSR, MOS65XX_AM_ZP), (MOS65XX_INS_INVALID, MOS65XX_AM_NONE),
     (MOS65XX_INS_PHA, MOS65XX_AM_IMP), (MOS65XX_INS_EOR, MOS65XX_AM_IMM),
     (MOS65XX_INS_LSR, MOS65XX_AM_ACC), (MOS65XX_INS_INVALID, MOS65XX_AM_NONE),
     (MOS65XX_INS_JMP, MOS65XX_AM_ABS), (MOS65XX_INS_EOR, MOS65XX_AM_ABS),
     (MOS65XX_INS_LSR, MOS65XX_AM_ABS), (MOS65XX_INS_INVALID, MOS65XX_AM_NONE),
     (MOS65XX_INS_BVC, MOS65XX_AM_REL), (MOS65XX_INS_EOR, MOS65XX_AM_INDY),
     (MOS65XX_INS_INVALID, MOS65XX_AM_NONE), (MOS65XX_INS_INVALID, MOS65XX_AM_NONE),
     (MOS65XX_INS_NOP, MOS65XX_AM_ZPX), (MOS65XX_INS_EOR, MOS65XX_AM_ZPX),
     (MOS65XX_INS_LSR, MOS65XX_AM_ZPX), (MOS65XX_INS_INVALID, MOS65XX_AM_NONE),
     (MOS65XX_INS_CLI, MOS65XX_AM_IMP), (MOS65XX_INS_EOR, MOS65XX_AM_ABSY),
     (MOS65XX_INS_NOP, MOS65XX_AM_IMP), (MOS65XX_INS_INVALID, MOS65XX_AM_NONE),
     (MOS65XX_INS_NOP, MOS65XX_AM_ABSX), (MOS65XX_INS_EOR, MOS65XX_AM_ABSX),
     (MOS65XX_INS_LSR, MOS65XX_AM_ABSX), (MOS65XX_INS_INVALID, MOS65XX_AM_NONE),
     (MOS65XX_INS_RTS, MOS65XX_AM_IMP), (MOS65XX_INS_ADC, MOS65XX_AM_INDX),
     (MOS65XX_INS_INVALID, MOS65XX_AM_NONE), (MOS65XX_INS_INVALID, MOS65XX_AM_NONE),
     (MOS65XX_INS_NOP, MOS65XX_AM_ZP), (MOS65XX_INS_ADC, MOS65XX_AM_ZP),
     (MOS65XX_INS_ROR, MOS65XX_AM_ZP), (MOS65XX_INS_INVALID, MOS65XX_AM_NONE),
     (MOS65XX_INS_PLA, MOS65XX_AM_IMP), (MOS65XX_INS_ADC, MOS65XX_AM_IMM),
     (MOS65XX_INS_ROR, MOS65XX_AM_ACC), (MOS65XX_INS_INVALID, MOS65XX_AM_NONE),
     (MOS65XX_INS_JMP, MOS65XX_AM_IND), (MOS65XX_INS_ADC, MOS65XX_AM_ABS),
     (MOS65XX_INS_ROR, MOS65XX_AM_ABS), (MOS65XX_INS_INVALID, MOS65XX_AM_NONE),
     (MOS65XX_INS_BVS, MOS65XX_AM_REL), (MOS65XX_INS_ADC, MOS65XX_AM_INDY),
     (MOS65XX_INS_INVALID, MOS65XX_AM_NONE), (MOS65XX_INS_INVALID, MOS65XX_AM_NONE),
     (MOS65XX_INS_NOP, MOS65XX_AM_ZPX), (MOS65XX_INS_ADC, MOS65XX_AM_ZPX),
     (MOS65XX_INS_ROR, MOS65XX_AM_ZPX), (MOS65XX_INS_INVALID, MOS65XX_AM_NONE),
     (MOS65XX_INS_SEI, MOS65XX_AM_IMP), (MOS65XX_INS_ADC, MOS65XX_AM_ABSY),
     (MOS65XX_INS_NOP, MOS65XX_AM_IMP), (MOS65XX_INS_INVALID, MOS65XX_AM_NONE),
     (MOS65XX_INS_NOP, MOS65XX_AM_ABSX), (MOS65XX_INS_ADC, MOS65XX_AM_ABSX),
     (MOS65XX_INS_ROR, MOS65XX_AM_ABSX), (MOS65XX_INS_INVALID, MOS65XX_AM_NONE),
     (MOS65XX_INS_NOP, MOS65XX_AM_IMP), (MOS65XX_INS_STA, MOS65XX_AM_INDX),
     (MOS65XX_INS_NOP, MOS65XX_AM_IMP), (MOS65XX_INS_INVALID, MOS65XX_AM_NONE),
     (MOS65XX_INS_STY, MOS65XX_AM_ZP), (MOS65XX_INS_STA, MOS65XX_AM_ZP),
     (MOS65XX_INS_STX, MOS65XX_AM_ZP), (MOS65XX_INS_INVALID, MOS65XX_AM_NONE),
     (MOS65XX_INS_DEY, MOS65XX_AM_IMP), (MOS65XX_INS_NOP, MOS65XX_AM_IMP),
     (MOS65XX_INS_TXA, MOS65XX_AM_IMP), (MOS65XX_INS_INVALID, MOS65XX_AM_NONE),
     (MOS65XX_INS_STY, MOS65XX_AM_ABS), (MOS65XX_INS_STA, MOS65XX_AM_ABS),
     (MOS65XX_INS_STX, MOS65XX_AM_ABS), (MOS65XX_INS_INVALID, MOS65XX_AM_NONE),
     (MOS65XX_INS_BCC, MOS65XX_AM_REL), (MOS65XX_INS_STA, MOS65XX_AM_INDY),
     (MOS65XX_INS_INVALID, MOS65XX_AM_NONE), (MOS65XX_INS_INVALID, MOS65XX_AM_NONE),
     (MOS65XX_INS_STY, MOS65XX_AM_ZPX), (MOS65XX_INS_STA, MOS65XX_AM_ZPX),
     (MOS65XX_INS_STX, MOS65XX_AM_ZPY), (MOS65XX_INS_INVALID, MOS65XX_AM_NONE),
     (MOS65XX_INS_TYA, MOS65XX_AM_IMP), (MOS65XX_INS_STA, MOS65XX_AM_ABSY),
     (MOS65XX_INS_TXS, MOS65XX_AM_IMP), (MOS65XX_INS_INVALID, MOS65XX_AM_NONE),
     (MOS65XX_INS_INVALID, MOS65XX_AM_NONE), (MOS65XX_INS_STA, MOS65XX_AM_ABSX),
     (MOS65XX_INS_INVALID, MOS65XX_AM_NONE), (MOS65XX_INS_INVALID, MOS65XX_AM_NONE),
     (MOS65XX_INS_LDY, MOS65XX_AM_IMM), (MOS65XX_INS_LDA, MOS65XX_AM_INDX),
     (MOS65XX_INS_LDX, MOS65XX_AM_IMM), (MOS65XX_INS_INVALID, MOS65XX_AM_NONE),
     (MOS65XX_INS_LDY, MOS65XX_AM_ZP), (MOS65XX_INS_LDA, MOS65XX_AM_ZP),
     (MOS65XX_INS_LDX, MOS65XX_AM_ZP), (MOS65XX_INS_INVALID, MOS65XX_AM_NONE),
     (MOS65XX_INS_TAY, MOS65XX_AM_IMP), (MOS65XX_INS_LDA, MOS65XX_AM_IMM),
     (MOS65XX_INS_TAX, MOS65XX_AM_IMP), (MOS65XX_INS_INVALID, MOS65XX_AM_NONE),
     (MOS65XX_INS_LDY, MOS65XX_AM_ABS), (MOS65XX_INS_LDA, MOS65XX_AM_ABS),
     (MOS65XX_INS_LDX, MOS65XX_AM_ABS), (MOS65XX_INS_INVALID, MOS65XX_AM_NONE),
     (MOS65XX_INS_BCS, MOS65XX_AM_REL), (MOS65XX_INS_LDA, MOS65XX_AM_INDY),
     (MOS65XX_INS_INVALID, MOS65XX_AM_NONE), (MOS65XX_INS_INVALID, MOS65XX_AM_NONE),
     (MOS65XX_INS_LDY, MOS65XX_AM_ZPX), (MOS65XX_INS_LDA, MOS65XX_AM_ZPX),
     (MOS65XX_INS_LDX, MOS65XX_AM_ZPY), (MOS65XX_INS_INVALID, MOS65XX_AM_NONE),
     (MOS65XX_INS_CLV, MOS65XX_AM_IMP), (MOS65XX_INS_LDA, MOS65XX_AM_ABSY),
     (MOS65XX_INS_TSX, MOS65XX_AM_IMP), (MOS65XX_INS_INVALID, MOS65XX_AM_NONE),
     (MOS65XX_INS_LDY, MOS65XX_AM_ABSX), (MOS65XX_INS_LDA, MOS65XX_AM_ABSX),
     (MOS65XX_INS_LDX, MOS65XX_AM_ABSY), (MOS65XX_INS_INVALID, MOS65XX_AM_NONE),
     (MOS65XX_INS_CPY, MOS65XX_AM_IMM), (MOS65XX_INS_CMP, MOS65XX_AM_INDX),
     (MOS65XX_INS_NOP, MOS65XX_AM_IMP), (MOS65XX_INS_INVALID, MOS65XX_AM_NONE),
     (MOS65XX_INS_CPY, MOS65XX_AM_ZP), (MOS65XX_INS_CMP, MOS65XX_AM_ZP),
     (MOS65XX_INS_DEC, MOS65XX_AM_ZP), (MOS65XX_INS_INVALID, MOS65XX_AM_NONE),
     (MOS65XX_INS_INY, MOS65XX_AM_IMP), (MOS65XX_INS_CMP, MOS65XX_AM_IMM),
     (MOS65XX_INS_DEX, MOS65XX_AM_IMP), (MOS65XX_INS_INVALID, MOS65XX_AM_NONE),
     (MOS65XX_INS_CPY, MOS65XX_AM_ABS), (MOS65XX_INS_CMP, MOS65XX_AM_ABS),
     (MOS65XX_INS_DEC, MOS65XX_AM_ABS), (MOS65XX_INS_INVALID, MOS65XX_AM_NONE),
     (MOS65XX_INS_BNE, MOS65XX_AM_REL), (MOS65XX_INS_CMP, MOS65XX_AM_INDY),
     (MOS65XX_INS_INVALID, MOS65XX_AM_NONE), (MOS65XX_INS_INVALID, MOS65XX_AM_NONE),
     (MOS65XX_INS_NOP, MOS65XX_AM_ZPX), (MOS65XX_INS_CMP, MOS65XX_AM_ZPX),
     (MOS65XX_INS_DEC, MOS65XX_AM_ZPX), (MOS65XX_INS_INVALID, MOS65XX_AM_NONE),
     (MOS65XX_INS_CLD, MOS65XX_AM_IMP), (MOS65XX_INS_CMP, MOS65XX_AM_ABSY),
     (MOS65XX_INS_NOP, MOS65XX_AM_IMP), (MOS65XX_INS_INVALID, MOS65XX_AM_NONE),
     (MOS65XX_INS_NOP, MOS65XX_AM_ABSX), (MOS65XX_INS_CMP, MOS65XX_AM_ABSX),
     (MOS65XX_INS_DEC, MOS65XX_AM_ABSX), (MOS65XX_INS_INVALID, MOS65XX_AM_NONE),
     (MOS65XX_INS_CPX, MOS65XX_AM_IMM), (MOS65XX_INS_SBC, MOS65XX_AM_INDX),
     (MOS65XX_INS_NOP, MOS65XX_AM_IMP), (MOS65XX_INS_INVALID, MOS65XX_AM_NONE),
     (MOS65XX_INS_CPX, MOS65XX_AM_ZP), (MOS65XX_INS_SBC, MOS65XX_AM_ZP),
     (MOS65XX_INS_INC, MOS65XX_AM_ZP), (MOS65XX_INS_INVALID, MOS65XX_AM_NONE),
     (MOS65XX_INS_INX, MOS65XX_AM_IMP), (MOS65XX_INS_SBC, MOS65XX_AM_IMM),
     (MOS65XX_INS_NOP, MOS65XX_AM_IMP), (MOS65XX_INS_INVALID, MOS65XX_AM_NONE),
     (MOS65XX_INS_CPX, MOS65XX_AM_ABS), (MOS65XX_INS_SBC, MOS65XX_AM_ABS),
     (MOS65XX_INS_INC, MOS65XX_AM_ABS), (MOS65XX_INS_INVALID, MOS65XX_AM_NONE),
     (MOS65XX_INS_BEQ, MOS65XX_AM_REL), (MOS65XX_INS_SBC, MOS65XX_AM_INDY),
     (MOS65XX_INS_INVALID, MOS65XX_AM_NONE), (MOS65XX_INS_INVALID, MOS65XX_AM_NONE),
     (MOS65XX_INS_NOP, MOS65XX_AM_ZPX), (MOS65XX_INS_SBC, MOS65XX_AM_ZPX),
     (MOS65XX_INS_INC, MOS65XX_AM_ZPX), (MOS65XX_INS_INVALID, MOS65XX_AM_NONE),
     (MOS65XX_INS_SED, MOS65XX_AM_IMP), (MOS65XX_INS_SBC, MOS65XX_AM_ABSY),
     (MOS65XX_INS_NOP, MOS65XX_AM_IMP), (MOS65XX_INS_INVALID, MOS65XX_AM_NONE),
     (MOS65XX_INS_NOP, MOS65XX_AM_ABSX), (MOS65XX_INS_SBC, MOS65XX_AM_ABSX),
     (MOS65XX_INS_INC, MOS65XX_AM_ABSX), (MOS65XX_INS_INVALID, MOS65XX_AM_NONE)]"

definition RegNames :: "string list" where
  "RegNames = [''invalid'', ''A'', ''X'', ''Y'', ''P'', ''SP'']"

definition GroupNames :: "string option list" where
  "GroupNames = [None, Some ''jump'', Some ''call'', Some ''ret'', None, Some ''iret'',
     Some ''branch_relative'']"

record InstructionInfo =
  ii_name :: string
  ii_group_type :: mos65xx_group_type
  ii_write :: mos65xx_reg
  ii_read :: mos65xx_reg
  ii_modifies_status :: bool

definition instr_info ::
    "string \<Rightarrow> mos65xx_group_type \<Rightarrow> mos65xx_reg \<Rightarrow> mos65xx_reg \<Rightarrow> bool \<Rightarrow> InstructionInfo" where
  "instr_info n g w r m =
     \<lparr>ii_name = n, ii_group_type = g, ii_write = w, ii_read = r, ii_modifies_status = m\<rparr>"

definition InstructionInfoTable :: "InstructionInfo list" where
  "InstructionInfoTable = [
     instr_info ''invalid'' MOS65XX_GRP_INVALID MOS65XX_REG_INVALID MOS65XX_REG_INVALID False,
     instr_info ''adc'' MOS65XX_GRP_INVALID MOS65XX_REG_ACC MOS65XX_REG_INVALID True,
     instr_info ''and'' MOS65XX_GRP_INVALID MOS65XX_REG_ACC MOS65XX_REG_INVALID True,
     instr_info ''asl'' MOS65XX_GRP_INVALID MOS65XX_REG_INVALID MOS65XX_REG_INVALID True,
     instr_info ''bcc'' MOS65XX_GRP_BRANCH_RELATIVE MOS65XX_REG_INVALID MOS65XX_REG_P False,
     instr_info ''bcs'' MOS65XX_GRP_BRANCH_RELATIVE MOS65XX_REG_INVALID MOS65XX_REG_P False,
     instr_info ''beq'' MOS65XX_GRP_BRANCH_RELATIVE MOS65XX_REG_INVALID MOS65XX_REG_P False,
     instr_info ''bit'' MOS65XX_GRP_INVALID MOS65XX_REG_INVALID MOS65XX_REG_INVALID True,
     instr_info ''bmi'' MOS65XX_GRP_BRANCH_RELATIVE MOS65XX_REG_INVALID MOS65XX_REG_P False,
     instr_info ''bne'' MOS65XX_GRP_BRANCH_RELATIVE MOS65XX_REG_INVALID MOS65XX_REG_P False,
     instr_info ''bpl'' MOS65XX_GRP_BRANCH_RELATIVE MOS65XX_REG_INVALID MOS65XX_REG_P False,
     instr_info ''brk'' MOS65XX_GRP_INVALID MOS65XX_REG_SP MOS65XX_REG_INVALID False,
     instr_info ''bvc'' MOS65XX_GRP_BRANCH_RELATIVE MOS65XX_REG_INVALID MOS65XX_REG_P False,
     instr_info ''bvs'' MOS65XX_GRP_BRANCH_RELATIVE MOS65XX_REG_INVALID MOS65XX_REG_P False,
     instr_info ''clc'' MOS65XX_GRP_INVALID MOS65XX_REG_INVALID MOS65XX_REG_INVALID True,
     instr_info ''cld'' MOS65XX_GRP_INVALID MOS65XX_REG_INVALID MOS65XX_REG_INVALID True,
     instr_info ''cli'' MOS65XX_GRP_INVALID MOS65XX_REG_INVALID MOS65XX_REG_INVALID True,
     instr_info ''clv'' MOS65XX_GRP_INVALID MOS65XX_REG_INVALID MOS65XX_REG_INVALID True,
     instr_info ''cmp'' MOS65XX_GRP_INVALID MOS65XX_REG_INVALID MOS65XX_REG_ACC True,
     instr_info ''cpx'' MOS65XX_GRP_INVALID MOS65XX_REG_INVALID MOS65XX_REG_X True,
     instr_info ''cpy'' MOS65XX_GRP_INVALID MOS65XX_REG_INVALID MOS65XX_REG_Y True,
     instr_info ''dec'' MOS65XX_GRP_INVALID MOS65XX_REG_INVALID MOS65XX_REG_INVALID True,
     instr_info ''dex'' MOS65XX_GRP_INVALID MOS65XX_REG_X MOS65XX_REG_X True,
     instr_info ''dey'' MOS65XX_GRP_INVALID MOS65XX_REG_Y MOS65XX_REG_Y True,
     instr_info ''eor'' MOS65XX_GRP_INVALID MOS65XX_REG_INVALID MOS65XX_REG_INVALID True,
     instr_info ''inc'' MOS65XX_GRP_INVALID MOS65XX_REG_INVALID MOS65XX_REG_INVALID True,
     instr_info ''inx'' MOS65XX_GRP_INVALID MOS65XX_REG_X MOS65XX_REG_X True,
     instr_info ''iny'' MOS65XX_GRP_INVALID MOS65XX_REG_Y MOS65XX_REG_Y True,
     instr_info ''jmp'' MOS65XX_GRP_JUMP MOS65XX_REG_INVALID MOS65XX_REG_INVALID False,
     instr_info ''jsr'' MOS65XX_GRP_CALL MOS65XX_REG_INVALID MOS65XX_REG_INVALID False,
     instr_info ''lda'' MOS65XX_GRP_INVALID MOS65XX_REG_ACC MOS65XX_REG_INVALID True,
     instr_info ''ldx'' MOS65XX_GRP_INVALID MOS65XX_REG_X MOS65XX_REG_INVALID True,
     instr_info ''ldy'' MOS65XX_GRP_INVALID MOS65XX_REG_Y MOS65XX_REG_INVALID True,
     instr_info ''lsr'' MOS65XX_GRP_INVALID MOS65XX_REG_INVALID MOS65XX_REG_INVALID True,
     instr_info ''nop'' MOS65XX_GRP_INVALID MOS65XX_REG_INVALID MOS65XX_REG_INVALID False,
     instr_info ''ora'' MOS65XX_GRP_INVALID MOS65XX_REG_ACC MOS65XX_REG_INVALID True,
     instr_info ''pha'' MOS65XX_GRP_INVALID MOS65XX_REG_SP MOS65XX_REG_ACC False,
     instr_info ''pla'' MOS65XX_GRP_INVALID MOS65XX_REG_ACC MOS65XX_REG_SP True,
     instr_info ''php'' MOS65XX_GRP_INVALID MOS65XX_REG_SP MOS65XX_REG_P False,
     instr_info ''plp'' MOS65XX_GRP_INVALID MOS65XX_REG_INVALID MOS65XX_REG_SP True,
     instr_info ''rol'' MOS65XX_GRP_INVALID MOS65XX_REG_INVALID MOS65XX_REG_INVALID True,
     instr_info ''ror'' MOS65XX_GRP_INVALID MOS65XX_REG_INVALID MOS65XX_REG_INVALID True,
     instr_info ''rti'' MOS65XX_GRP_IRET MOS65XX_REG_SP MOS65XX_REG_INVALID True,
     instr_info ''rts'' MOS65XX_GRP_RET MOS65XX_REG_SP MOS65XX_REG_INVALID False,
     instr_info ''sbc'' MOS65XX_GRP_INVALID MOS65XX_REG_ACC MOS65XX_REG_INVALID True,
     instr_info ''sec'' MOS65XX_GRP_INVALID MOS65XX_REG_INVALID MOS65XX_REG_INVALID True,
     instr_info ''sed'' MOS65XX_GRP_INVALID MOS65XX_REG_INVALID MOS65XX_REG_INVALID True,
     instr_info ''sei'' MOS65XX_GRP_INVALID MOS65XX_REG_INVALID MOS65XX_REG_INVALID True,
     instr_info ''sta'' MOS65XX_GRP_INVALID MOS65XX_REG_INVALID MOS65XX_REG_ACC False,
     instr_info ''stx'' MOS65XX_GRP_INVALID MOS65XX_REG_INVALID MOS65XX_REG_X False,
     instr_info ''sty'' MOS65XX_GRP_INVALID MOS65XX_REG_INVALID MOS65XX_REG_Y False,
     instr_info ''tax'' MOS65XX_GRP_INVALID MOS65XX_REG_X MOS65XX_REG_ACC True,
     instr_info ''tay'' MOS65XX_GRP_INVALID MOS65XX_REG_Y MOS65XX_REG_ACC True,
     instr_info ''tsx'' MOS65XX_GRP_INVALID MOS65XX_REG_X MOS65XX_REG_SP True,
     instr_info ''txa'' MOS65XX_GRP_INVALID MOS65XX_REG_ACC MOS65XX_REG_X True,
     instr_info ''txs'' MOS65XX_GRP_INVALID MOS65XX_REG_SP MOS65XX_REG_X True,
     instr_info ''tya'' MOS65XX_GRP_INVALID MOS65XX_REG_ACC MOS65XX_REG_Y True]"

section \<open>Decoder\<close>

primrec getInstructionLength :: "mos65xx_address_mode \<Rightarrow> nat" where
  "getInstructionLength MOS65XX_AM_NONE = 1"
| "getInstructionLength MOS65XX_AM_ACC = 1"
| "getInstructionLength MOS65XX_AM_IMP = 1"
| "getInstructionLength MOS65XX_AM_IMM = 2"
| "getInstructionLength MOS65XX_AM_ZPX = 2"
| "getInstructionLength MOS65XX_AM_ZPY = 2"
| "getInstructionLength MOS65XX_AM_ZP = 2"
| "getInstructionLength MOS65XX_AM_REL = 2"
| "getInstructionLength MOS65XX_AM_INDX = 2"
| "getInstructionLength MOS65XX_AM_INDY = 2"
| "getInstructionLength MOS65XX_AM_ABS = 3"
| "getInstructionLength MOS65XX_AM_ABSX = 3"
| "getInstructionLength MOS65XX_AM_ABSY = 3"
| "getInstructionLength MOS65XX_AM_IND = 3"

text \<open>\<^verbatim>\<open>detail->regs_read[detail->regs_read_count++] = r\<close>, and the same for the writes.\<close>

definition push_read :: "mos65xx_reg \<Rightarrow> cs_detail \<Rightarrow> cs_detail option" where
  "push_read r d = do {
     rs \<leftarrow> aset (d_regs_read d) (unat (d_regs_read_count d)) (of_nat (mos65xx_reg_num r));
     Some (d\<lparr>d_regs_read := rs, d_regs_read_count := d_regs_read_count d + 1\<rparr>) }"

definition push_write :: "mos65xx_reg \<Rightarrow> cs_detail \<Rightarrow> cs_detail option" where
  "push_write r d = do {
     rs \<leftarrow> aset (d_regs_write d) (unat (d_regs_write_count d)) (of_nat (mos65xx_reg_num r));
     Some (d\<lparr>d_regs_write := rs, d_regs_write_count := d_regs_write_count d + 1\<rparr>) }"

text \<open>The next entry of \<^verbatim>\<open>detail->mos65xx.operands\<close> gets its type and value.\<close>

definition push_operand ::
    "mos65xx_op_type \<Rightarrow> (cs_mos65xx_op \<Rightarrow> cs_mos65xx_op) \<Rightarrow> cs_detail \<Rightarrow> cs_detail option" where
  "push_operand ty set_val d = do {
     let m = d_mos65xx d;
     op \<leftarrow> aget (mos_operands m) (unat (mos_op_count m));
     ops \<leftarrow> aset (mos_operands m) (unat (mos_op_count m)) (set_val (op\<lparr>mop_type := ty\<rparr>));
     Some (d\<lparr>d_mos65xx := m\<lparr>mos_operands := ops, mos_op_count := mos_op_count m + 1\<rparr>\<rparr>) }"

definition fillDetails :: "MCInst \<Rightarrow> u8 \<Rightarrow> MCInst option" where
  "fillDetails MI opcode = do {
     (p, d) \<leftarrow> in_detail (mi_flat_insn MI);
     oi \<leftarrow> aget OpInfoTable (unat opcode);
     ii \<leftarrow> aget InstructionInfoTable (mos65xx_insn_num (oi_ins oi));
     let am = oi_am oi;
     let d = d\<lparr>d_mos65xx := (d_mos65xx d)\<lparr>mos_am := am, mos_modifies_flags := ii_modifies_status ii,
                 mos_op_count := 0\<rparr>,
               d_groups_count := 0, d_regs_read_count := 0, d_regs_write_count := 0\<rparr>;
     d \<leftarrow> (if ii_group_type ii \<noteq> MOS65XX_GRP_INVALID then do {
            gs \<leftarrow> aset (d_groups d) 0 (of_nat (mos65xx_group_num (ii_group_type ii)));
            Some (d\<lparr>d_groups := gs, d_groups_count := d_groups_count d + 1\<rparr>) }
          else Some d);
     d \<leftarrow> (if ii_read ii \<noteq> MOS65XX_REG_INVALID then push_read (ii_read ii) d
          else if am = MOS65XX_AM_ACC then push_read MOS65XX_REG_ACC d
          else if am = MOS65XX_AM_INDY \<or> am = MOS65XX_AM_ABSY \<or> am = MOS65XX_AM_ZPY
          then push_read MOS65XX_REG_Y d
          else if am = MOS65XX_AM_INDX \<or> am = MOS65XX_AM_ABSX \<or> am = MOS65XX_AM_ZPX
          then push_read MOS65XX_REG_X d
          else Some d);
     d \<leftarrow> (if ii_write ii \<noteq> MOS65XX_REG_INVALID then push_write (ii_write ii) d
          else if am = MOS65XX_AM_ACC then push_write MOS65XX_REG_ACC d
          else Some d);
     d \<leftarrow> (if ii_modifies_status ii then push_write MOS65XX_REG_P d else Some d);
     op0 \<leftarrow> aget (mi_Operands MI) 0;
     d \<leftarrow> (if am = MOS65XX_AM_IMP \<or> am = MOS65XX_AM_REL then Some d
          else if am = MOS65XX_AM_IMM
          then push_operand MOS65XX_OP_IMM (mop_set_mem (ucast (op_raw op0))) d
          else if am = MOS65XX_AM_ACC
          then push_operand MOS65XX_OP_REG (mop_set_reg MOS65XX_REG_ACC) d
          else push_operand MOS65XX_OP_MEM (mop_set_mem (ucast (op_raw op0))) d);
     Some (MI\<lparr>mi_flat_insn := (mi_flat_insn MI)\<lparr>in_detail := Some (p, d)\<rparr>\<rparr>) }"

text \<open>The result is the returned flag, the instruction object and \<^verbatim>\<open>*size\<close>.\<close>

definition MOS65XX_getInstruction ::
    "cs_struct \<Rightarrow> u8 list \<Rightarrow> MCInst \<Rightarrow> u16 \<Rightarrow> u64 \<Rightarrow> (bool \<times> MCInst \<times> u16) option" where
  "MOS65XX_getInstruction ud code MI sz address =
     (if length code = 0 then Some (False, MI, 1)
      else do {
        let opcode = code ! 0;
        oi \<leftarrow> aget OpInfoTable (unat opcode);
        if oi_ins oi = MOS65XX_INS_INVALID then Some (False, MI, 1)
        else do {
          let len = getInstructionLength (oi_am oi);
          if length code < len then Some (False, MI, 1)
          else do {
            let MI = MI\<lparr>mi_address := address, mi_Opcode := ucast opcode,
                       mi_OpcodePub := of_nat (mos65xx_insn_num (oi_ins oi)), mi_size := 0\<rparr>;
            MI \<leftarrow> (if len = 2 then MCOperand_CreateImm0 MI (ucast (code ! 1))
                  else if len = 3
                  then MCOperand_CreateImm0 MI (push_bit 8 (ucast (code ! 2)) OR ucast (code ! 1))
                  else Some MI);
            MI \<leftarrow> (if in_detail (mi_flat_insn MI) \<noteq> None then fillDetails MI opcode else Some MI);
            Some (True, MI, of_nat len) } } })"

section \<open>Printer and names\<close>

text \<open>
  The target of a relative branch is a 64-bit sum printed by a conversion for
  \<^verbatim>\<open>unsigned int\<close>: its low 32 bits.
\<close>

definition MOS65XX_printInst :: "MCInst \<Rightarrow> SStream \<Rightarrow> SStream option" where
  "MOS65XX_printInst MI ss = do {
     let opcode = (ucast (mi_Opcode MI) :: u8);
     op0 \<leftarrow> aget (mi_Operands MI) 0;
     let value = (ucast (op_raw op0) :: u32);
     let hex4 = fmt_0x 4 (unat value);
     let hex2 = fmt_0x 2 (unat value);
     oi \<leftarrow> aget OpInfoTable (unat (mi_Opcode MI));
     ii \<leftarrow> aget InstructionInfoTable (mos65xx_insn_num (oi_ins oi));
     ss \<leftarrow> SStream_concat0 ss (ii_name ii);
     oi \<leftarrow> aget OpInfoTable (unat opcode);
     (case oi_am oi of
        MOS65XX_AM_NONE \<Rightarrow> Some ss
      | MOS65XX_AM_IMP \<Rightarrow> Some ss
      | MOS65XX_AM_ACC \<Rightarrow> SStream_concat ss '' a''
      | MOS65XX_AM_ABS \<Rightarrow> SStream_concat ss ('' $0x'' @ hex4)
      | MOS65XX_AM_IMM \<Rightarrow> SStream_concat ss ('' #$0x'' @ hex2)
      | MOS65XX_AM_ZP \<Rightarrow> SStream_concat ss ('' $0x'' @ hex2)
      | MOS65XX_AM_ABSX \<Rightarrow> SStream_concat ss ('' $0x'' @ hex4 @ '', x'')
      | MOS65XX_AM_ABSY \<Rightarrow> SStream_concat ss ('' $0x'' @ hex4 @ '', y'')
      | MOS65XX_AM_ZPX \<Rightarrow> SStream_concat ss ('' $0x'' @ hex2 @ '', x'')
      | MOS65XX_AM_ZPY \<Rightarrow> SStream_concat ss ('' $0x'' @ hex2 @ '', y'')
      | MOS65XX_AM_REL \<Rightarrow> SStream_concat ss ('' $0x'' @
          fmt_0x 4 (unat (ucast (mi_address MI + scast (ucast value :: u8) + 2) :: u32)))
      | MOS65XX_AM_IND \<Rightarrow> SStream_concat ss ('' ($0x'' @ hex4 @ '')'')
      | MOS65XX_AM_INDX \<Rightarrow> SStream_concat ss ('' ($0x'' @ hex2 @ '', x)'')
      | MOS65XX_AM_INDY \<Rightarrow> SStream_concat ss ('' ($0x'' @ hex2 @ ''), y'')) }"

definition MOS65XX_insn_name :: "u32 \<Rightarrow> string option" where
  "MOS65XX_insn_name idn =
     (if length InstructionInfoTable \<le> unat idn then None
      else Some (ii_name (InstructionInfoTable ! unat idn)))"

definition MOS65XX_reg_name :: "u32 \<Rightarrow> string option" where
  "MOS65XX_reg_name reg =
     (if length RegNames \<le> unat reg then None else Some (RegNames ! unat reg))"

definition MOS65XX_get_insn_id :: "cs_insn \<Rightarrow> u32 \<Rightarrow> cs_insn option" where
  "MOS65XX_get_insn_id insn idn =
     (if idn < 256 then do {
        oi \<leftarrow> aget OpInfoTable (unat idn);
        Some (insn\<lparr>in_id := of_nat (mos65xx_insn_num (oi_ins oi))\<rparr>) }
      else Some insn)"

definition MOS65XX_group_name :: "u32 \<Rightarrow> string option" where
  "MOS65XX_group_name idn =
     (if length GroupNames \<le> unat idn then None else GroupNames ! unat idn)"
section \<open>Properties of the tables\<close>

lemma mos_lengths [simp]:
  "length OpInfoTable = 256" "length InstructionInfoTable = 57"
  by (simp_all add: OpInfoTable_def InstructionInfoTable_def)

lemma mos_insn_num_less [simp]: "mos65xx_insn_num i < 57"
  by (cases i) simp_all

text \<open>Every name has three letters, except that of the placeholder.\<close>

definition mos_name_ok :: "InstructionInfo \<Rightarrow> bool" where
  "mos_name_ok ii \<longleftrightarrow> length (ii_name ii) \<le> 7 \<and> ii_name ii \<noteq> [] \<and>
     list_all (\<lambda>c. c \<in> set ''abcdefghijklmnopqrstuvwxyz'') (ii_name ii)"

lemma mos_names: "list_all mos_name_ok InstructionInfoTable"
  by code_simp

lemma mos_rows: "list_all (\<lambda>oi. oi_am oi = MOS65XX_AM_NONE \<longleftrightarrow> oi_ins oi = MOS65XX_INS_INVALID) OpInfoTable"
  by code_simp

lemma mos_branches: "list_all (\<lambda>oi. oi_am oi = MOS65XX_AM_REL \<longleftrightarrow>
    ii_group_type (InstructionInfoTable ! mos65xx_insn_num (oi_ins oi)) = MOS65XX_GRP_BRANCH_RELATIVE) OpInfoTable"
  by code_simp

abbreviation mos_op :: "u8 \<Rightarrow> OpInfo" where
  "mos_op opcode \<equiv> OpInfoTable ! unat opcode"

abbreviation mos_info :: "u8 \<Rightarrow> InstructionInfo" where
  "mos_info opcode \<equiv> InstructionInfoTable ! mos65xx_insn_num (oi_ins (mos_op opcode))"

lemma mos_get [simp]:
  "aget OpInfoTable (unat (opcode :: u8)) = Some (mos_op opcode)"
  "aget InstructionInfoTable (mos65xx_insn_num i) = Some (InstructionInfoTable ! mos65xx_insn_num i)"
  using unat_less_256 [of opcode] by (simp_all add: aget_def)

lemma mos_op_none: "oi_am (mos_op opcode) = MOS65XX_AM_NONE \<longleftrightarrow> oi_ins (mos_op opcode) = MOS65XX_INS_INVALID"
  using mos_rows unat_less_256 [of opcode] by (simp add: list_all_length)

lemma mos_op_branch: "oi_am (mos_op opcode) = MOS65XX_AM_REL \<longleftrightarrow>
    ii_group_type (mos_info opcode) = MOS65XX_GRP_BRANCH_RELATIVE"
  using mos_branches unat_less_256 [of opcode] by (simp add: list_all_length)

lemma mos_name_chars:
  "NUL \<notin> set (ii_name (mos_info opcode))" "CHR '' '' \<notin> set (ii_name (mos_info opcode))"
  "CHR 0x09 \<notin> set (ii_name (mos_info opcode))" "CHR ''|'' \<notin> set (ii_name (mos_info opcode))"
  "length (ii_name (mos_info opcode)) \<le> 7"
proof -
  let ?n = "ii_name (mos_info opcode)"
  have "mos_name_ok (mos_info opcode)" using mos_names by (simp add: list_all_length)
  then have n: "set ?n \<subseteq> set ''abcdefghijklmnopqrstuvwxyz''" "length ?n \<le> 7"
    unfolding mos_name_ok_def list_all_iff by blast+
  have "NUL \<notin> set ''abcdefghijklmnopqrstuvwxyz''" "CHR '' '' \<notin> set ''abcdefghijklmnopqrstuvwxyz''"
    "CHR 0x09 \<notin> set ''abcdefghijklmnopqrstuvwxyz''" "CHR ''|'' \<notin> set ''abcdefghijklmnopqrstuvwxyz''"
    by simp_all
  with n show "NUL \<notin> set ?n" "CHR '' '' \<notin> set ?n" "CHR 0x09 \<notin> set ?n" "CHR ''|'' \<notin> set ?n"
    "length ?n \<le> 7" by blast+
qed

section \<open>Decoding\<close>

definition mos_insn_len :: "u8 list \<Rightarrow> nat" where
  "mos_insn_len code = getInstructionLength (oi_am (mos_op (hd code)))"

definition mos_valid :: "u8 list \<Rightarrow> bool" where
  "mos_valid code \<longleftrightarrow> code \<noteq> [] \<and> oi_ins (mos_op (hd code)) \<noteq> MOS65XX_INS_INVALID \<and>
     mos_insn_len code \<le> length code"

text \<open>The operand of an instruction: its bytes after the opcode, least significant byte first.\<close>

definition mos_operand :: "u8 list \<Rightarrow> nat" where
  "mos_operand code = (case take (mos_insn_len code - 1) (tl code) of
     [] \<Rightarrow> 0 | [a] \<Rightarrow> unat a | a # b # r \<Rightarrow> unat a + 256 * unat b)"

lemma mos_len_range: "1 \<le> getInstructionLength am" "getInstructionLength am \<le> 3"
  by (cases am; simp)+

lemma mos_operand_less: "mos_operand code < 65536"
proof -
  have "unat a + 256 * unat b < 65536" for a b :: u8
    using unat_less_256 [of a] unat_less_256 [of b] by linarith
  moreover have "unat a < 65536" for a :: u8 using unat_less_256 [of a] by linarith
  ultimately show ?thesis by (auto simp: mos_operand_def split: list.split)
qed

text \<open>What the registers and the operands of the details say.\<close>

definition regs_of :: "u16 list \<Rightarrow> u8 \<Rightarrow> u16 list" where
  "regs_of rs n = take (unat n) rs"

definition mos_reads :: "u8 \<Rightarrow> mos65xx_reg list" where
  "mos_reads opcode =
     (let am = oi_am (mos_op opcode) in
      if ii_read (mos_info opcode) \<noteq> MOS65XX_REG_INVALID then [ii_read (mos_info opcode)]
      else if am = MOS65XX_AM_ACC then [MOS65XX_REG_ACC]
      else if am \<in> {MOS65XX_AM_INDY, MOS65XX_AM_ABSY, MOS65XX_AM_ZPY} then [MOS65XX_REG_Y]
      else if am \<in> {MOS65XX_AM_INDX, MOS65XX_AM_ABSX, MOS65XX_AM_ZPX} then [MOS65XX_REG_X]
      else [])"

definition mos_writes :: "u8 \<Rightarrow> mos65xx_reg list" where
  "mos_writes opcode =
     (if ii_write (mos_info opcode) \<noteq> MOS65XX_REG_INVALID then [ii_write (mos_info opcode)]
      else if oi_am (mos_op opcode) = MOS65XX_AM_ACC then [MOS65XX_REG_ACC] else []) @
     (if ii_modifies_status (mos_info opcode) then [MOS65XX_REG_P] else [])"

definition mos_groups :: "u8 \<Rightarrow> u8 list" where
  "mos_groups opcode = (if ii_group_type (mos_info opcode) = MOS65XX_GRP_INVALID then []
     else [of_nat (mos65xx_group_num (ii_group_type (mos_info opcode)))])"

definition reg_nums :: "mos65xx_reg list \<Rightarrow> u16 list" where
  "reg_nums rs = map (\<lambda>r. of_nat (mos65xx_reg_num r)) rs"

definition mos_detail_ok :: "u8 \<Rightarrow> u16 \<Rightarrow> cs_detail \<Rightarrow> bool" where
  "mos_detail_ok opcode v d \<longleftrightarrow> detail_wf d \<and>
     regs_of (d_regs_read d) (d_regs_read_count d) = reg_nums (mos_reads opcode) \<and>
     regs_of (d_regs_write d) (d_regs_write_count d) = reg_nums (mos_writes opcode) \<and>
     take (unat (d_groups_count d)) (d_groups d) = mos_groups opcode \<and>
     mos_am (d_mos65xx d) = oi_am (mos_op opcode) \<and>
     mos_modifies_flags (d_mos65xx d) = ii_modifies_status (mos_info opcode) \<and>
     (case oi_am (mos_op opcode) of
        MOS65XX_AM_IMP \<Rightarrow> mos_op_count (d_mos65xx d) = 0
      | MOS65XX_AM_REL \<Rightarrow> mos_op_count (d_mos65xx d) = 0
      | MOS65XX_AM_IMM \<Rightarrow> mos_op_count (d_mos65xx d) = 1 \<and>
          mop_type (mos_operands (d_mos65xx d) ! 0) = MOS65XX_OP_IMM \<and>
          mop_imm (mos_operands (d_mos65xx d) ! 0) = ucast v
      | MOS65XX_AM_ACC \<Rightarrow> mos_op_count (d_mos65xx d) = 1 \<and>
          mop_type (mos_operands (d_mos65xx d) ! 0) = MOS65XX_OP_REG \<and>
          mop_raw (mos_operands (d_mos65xx d) ! 0) = of_nat (mos65xx_reg_num MOS65XX_REG_ACC)
      | _ \<Rightarrow> mos_op_count (d_mos65xx d) = 1 \<and>
          mop_type (mos_operands (d_mos65xx d) ! 0) = MOS65XX_OP_MEM \<and>
          mop_mem (mos_operands (d_mos65xx d) ! 0) = v)"

lemma mop_type_set [simp]:
  "mop_type (mop_set_mem v op) = mop_type op" "mop_type (mop_set_reg r op) = mop_type op"
  "mop_raw (mop_set_reg r op) = of_nat (mos65xx_reg_num r)"
  by (simp_all add: mop_set_mem_def mop_set_reg_def)

lemma take_set_fresh: "n < length xs \<Longrightarrow> take (Suc n) (xs[n := x]) = take n xs @ [x]"
  by (simp add: take_Suc_conv_app_nth)

text \<open>Pushing a list of registers, one after the other, appends it.\<close>

fun push_list :: "('r \<Rightarrow> 'd \<Rightarrow> 'd option) \<Rightarrow> 'r list \<Rightarrow> 'd \<Rightarrow> 'd option" where
  "push_list f [] d = Some d"
| "push_list f (r # rs) d = do { d \<leftarrow> f r d; push_list f rs d }"

lemma push_list_append:
  "push_list f (rs @ rs') d = do { d \<leftarrow> push_list f rs d; push_list f rs' d }"
  by (induction rs arbitrary: d) (auto split: bind_splits)

lemma push_list_Nil: "push_list f [] = Some"
  by (rule ext) simp

lemma push_list_single [simp]: "push_list f [r] d = f r d"
  by (simp add: push_list_Nil)

lemma push_reads:
  assumes "detail_wf d" "unat (d_regs_read_count d) + length rs \<le> 16"
  shows "\<exists>xs n. push_list push_read rs d = Some (d\<lparr>d_regs_read := xs, d_regs_read_count := n\<rparr>) \<and>
    length xs = 16 \<and> regs_of xs n = regs_of (d_regs_read d) (d_regs_read_count d) @ reg_nums rs"
  using assms
proof (induction rs arbitrary: d)
  case Nil
  then show ?case
    by (intro exI [of _ "d_regs_read d"] exI [of _ "d_regs_read_count d"])
       (simp add: reg_nums_def detail_wf_def)
next
  case (Cons r rs)
  let ?n = "d_regs_read_count d"
  let ?xs = "(d_regs_read d)[unat ?n := of_nat (mos65xx_reg_num r)]"
  have len: "length (d_regs_read d) = 16" using Cons.prems(1) by (simp add: detail_wf_def)
  have n: "unat ?n < 16" using Cons.prems(2) by simp
  have inc: "unat (?n + 1) = Suc (unat ?n)" using n by (simp add: unat_word_ariths)
  let ?d = "d\<lparr>d_regs_read := ?xs, d_regs_read_count := ?n + 1\<rparr>"
  have r1: "push_read r d = Some ?d" using len n by (simp add: push_read_def fault_simps)
  have "detail_wf ?d" "unat (d_regs_read_count ?d) + length rs \<le> 16"
    using Cons.prems inc by (simp_all add: detail_wf_def)
  from Cons.IH [OF this] obtain xs m where
    "push_list push_read rs ?d = Some (d\<lparr>d_regs_read := xs, d_regs_read_count := m\<rparr>)"
    "length xs = 16" "regs_of xs m = regs_of ?xs (?n + 1) @ reg_nums rs" by auto
  with r1 len n inc show ?case by (auto simp: regs_of_def take_set_fresh reg_nums_def)
qed

lemma push_writes:
  assumes "detail_wf d" "unat (d_regs_write_count d) + length rs \<le> 20"
  shows "\<exists>xs n. push_list push_write rs d = Some (d\<lparr>d_regs_write := xs, d_regs_write_count := n\<rparr>) \<and>
    length xs = 20 \<and> regs_of xs n = regs_of (d_regs_write d) (d_regs_write_count d) @ reg_nums rs"
  using assms
proof (induction rs arbitrary: d)
  case Nil
  then show ?case
    by (intro exI [of _ "d_regs_write d"] exI [of _ "d_regs_write_count d"])
       (simp add: reg_nums_def detail_wf_def)
next
  case (Cons r rs)
  let ?n = "d_regs_write_count d"
  let ?xs = "(d_regs_write d)[unat ?n := of_nat (mos65xx_reg_num r)]"
  have len: "length (d_regs_write d) = 20" using Cons.prems(1) by (simp add: detail_wf_def)
  have n: "unat ?n < 20" using Cons.prems(2) by simp
  have inc: "unat (?n + 1) = Suc (unat ?n)" using n by (simp add: unat_word_ariths)
  let ?d = "d\<lparr>d_regs_write := ?xs, d_regs_write_count := ?n + 1\<rparr>"
  have r1: "push_write r d = Some ?d" using len n by (simp add: push_write_def fault_simps)
  have "detail_wf ?d" "unat (d_regs_write_count ?d) + length rs \<le> 20"
    using Cons.prems inc by (simp_all add: detail_wf_def)
  from Cons.IH [OF this] obtain xs m where
    "push_list push_write rs ?d = Some (d\<lparr>d_regs_write := xs, d_regs_write_count := m\<rparr>)"
    "length xs = 20" "regs_of xs m = regs_of ?xs (?n + 1) @ reg_nums rs" by auto
  with r1 len n inc show ?case by (auto simp: regs_of_def take_set_fresh reg_nums_def)
qed

lemma push_reads_eq:
  fixes opcode :: u8
  defines "ii \<equiv> mos_info opcode" and "am \<equiv> oi_am (mos_op opcode)"
  shows "(if ii_read ii \<noteq> MOS65XX_REG_INVALID then push_read (ii_read ii) d
          else if am = MOS65XX_AM_ACC then push_read MOS65XX_REG_ACC d
          else if am = MOS65XX_AM_INDY \<or> am = MOS65XX_AM_ABSY \<or> am = MOS65XX_AM_ZPY
          then push_read MOS65XX_REG_Y d
          else if am = MOS65XX_AM_INDX \<or> am = MOS65XX_AM_ABSX \<or> am = MOS65XX_AM_ZPX
          then push_read MOS65XX_REG_X d
          else Some d) = push_list push_read (mos_reads opcode) d"
  by (simp add: mos_reads_def Let_def ii_def am_def del: push_list.simps(2))

lemma push_writes_eq:
  fixes opcode :: u8
  defines "ii \<equiv> mos_info opcode" and "am \<equiv> oi_am (mos_op opcode)"
  shows "(do {
     d \<leftarrow> (if ii_write ii \<noteq> MOS65XX_REG_INVALID then push_write (ii_write ii) d
          else if am = MOS65XX_AM_ACC then push_write MOS65XX_REG_ACC d
          else Some d);
     d \<leftarrow> (if ii_modifies_status ii then push_write MOS65XX_REG_P d else Some d);
     f d }) = (push_list push_write (mos_writes opcode) d \<bind> f)"
  by (simp add: mos_writes_def push_list_append ii_def am_def del: push_list.simps(2))

lemma push_operand_first:
  assumes "detail_wf d" "mos_op_count (d_mos65xx d) = 0"
  shows "push_operand ty f d = Some (d\<lparr>d_mos65xx := (d_mos65xx d)\<lparr>mos_op_count := 1,
     mos_operands := (mos_operands (d_mos65xx d))[0 := f ((mos_operands (d_mos65xx d) ! 0)\<lparr>mop_type := ty\<rparr>)]\<rparr>\<rparr>)"
  using assms by (simp add: push_operand_def fault_simps detail_wf_def Let_def)

lemma fillDetails_spec:
  assumes "mci_wf MI" "in_detail (mi_flat_insn MI) = Some (p, d)"
  shows "\<exists>d'. fillDetails MI opcode =
      Some (MI\<lparr>mi_flat_insn := (mi_flat_insn MI)\<lparr>in_detail := Some (p, d')\<rparr>\<rparr>) \<and>
    mos_detail_ok opcode (ucast (op_raw (mi_Operands MI ! 0))) d'"
proof -
  have wf: "detail_wf d" using assms by (auto simp: mci_wf_def insn_wf_def)
  define ii am v where "ii = mos_info opcode" and "am = oi_am (mos_op opcode)"
    and "v = (ucast (op_raw (mi_Operands MI ! 0)) :: u16)"
  define d0 where "d0 = d\<lparr>d_mos65xx := (d_mos65xx d)\<lparr>mos_am := am,
      mos_modifies_flags := ii_modifies_status ii, mos_op_count := 0\<rparr>,
      d_groups_count := 0, d_regs_read_count := 0, d_regs_write_count := 0\<rparr>"
  have wf0: "detail_wf d0" using wf by (simp add: d0_def detail_wf_def)
  define gs where "gs = (if ii_group_type ii \<noteq> MOS65XX_GRP_INVALID
      then (d_groups d)[0 := of_nat (mos65xx_group_num (ii_group_type ii))] else d_groups d)"
  define gn :: u8 where "gn = (if ii_group_type ii \<noteq> MOS65XX_GRP_INVALID then 1 else 0)"
  define d1 where "d1 = d0\<lparr>d_groups := gs, d_groups_count := gn\<rparr>"
  have g: "(if ii_group_type ii \<noteq> MOS65XX_GRP_INVALID then do {
            gs \<leftarrow> aset (d_groups d0) 0 (of_nat (mos65xx_group_num (ii_group_type ii)));
            Some (d0\<lparr>d_groups := gs, d_groups_count := d_groups_count d0 + 1\<rparr>) }
          else Some d0) = Some d1"
    using wf by (auto simp: d1_def d0_def gs_def gn_def detail_wf_def fault_simps)
  have wf1: "detail_wf d1" "take (unat gn) gs = mos_groups opcode"
    using wf by (auto simp: d1_def d0_def gs_def gn_def detail_wf_def mos_groups_def ii_def
        take_Suc_conv_app_nth)
  have "length (mos_reads opcode) \<le> 1" by (simp add: mos_reads_def Let_def)
  then obtain rx rn where rd: "push_list push_read (mos_reads opcode) d1 =
      Some (d1\<lparr>d_regs_read := rx, d_regs_read_count := rn\<rparr>)" "length rx = 16"
    "regs_of rx rn = reg_nums (mos_reads opcode)"
    using push_reads [OF wf1(1), of "mos_reads opcode"] by (auto simp: d1_def d0_def regs_of_def)
  define d2 where "d2 = d1\<lparr>d_regs_read := rx, d_regs_read_count := rn\<rparr>"
  have wf2: "detail_wf d2" using wf1(1) rd(2) by (simp add: d2_def detail_wf_def)
  have "length (mos_writes opcode) \<le> 2" by (simp add: mos_writes_def)
  then obtain wx wn where wr: "push_list push_write (mos_writes opcode) d2 =
      Some (d2\<lparr>d_regs_write := wx, d_regs_write_count := wn\<rparr>)" "length wx = 20"
    "regs_of wx wn = reg_nums (mos_writes opcode)"
    using push_writes [OF wf2, of "mos_writes opcode"] by (auto simp: d2_def d1_def d0_def regs_of_def)
  define d3 where "d3 = d2\<lparr>d_regs_write := wx, d_regs_write_count := wn\<rparr>"
  have wf3: "detail_wf d3" "mos_op_count (d_mos65xx d3) = 0"
    using wf2 wr(2) by (simp_all add: d3_def d2_def d1_def d0_def detail_wf_def)
  define fin where "fin = (if am = MOS65XX_AM_IMP \<or> am = MOS65XX_AM_REL then Some d3
          else if am = MOS65XX_AM_IMM then push_operand MOS65XX_OP_IMM (mop_set_mem v) d3
          else if am = MOS65XX_AM_ACC then push_operand MOS65XX_OP_REG (mop_set_reg MOS65XX_REG_ACC) d3
          else push_operand MOS65XX_OP_MEM (mop_set_mem v) d3)"
  have "fillDetails MI opcode = do { d' \<leftarrow> fin;
      Some (MI\<lparr>mi_flat_insn := (mi_flat_insn MI)\<lparr>in_detail := Some (p, d')\<rparr>\<rparr>) }"
    using assms(1) unfolding fillDetails_def assms(2) Let_def mos_get
    by (simp only: Option.bind.simps prod.case ii_def [symmetric] am_def [symmetric]
          d0_def [symmetric] g push_reads_eq [of opcode, folded ii_def am_def]
          push_writes_eq [of opcode, folded ii_def am_def] rd(1) d2_def [symmetric] wr(1) d3_def [symmetric])
       (simp add: fin_def v_def mci_wf_def aget_def)
  moreover have "\<exists>d'. fin = Some d' \<and> mos_detail_ok opcode v d'"
    using wf3 rd(3) wr(3) wf1(2) unfolding fin_def mos_detail_ok_def am_def [symmetric]
    by (cases am) (simp_all add: push_operand_first d3_def d2_def d1_def d0_def detail_wf_def
        am_def [symmetric] ii_def)
  ultimately show ?thesis by (auto simp: v_def)
qed

lemma MOS65XX_reject:
  assumes "\<not> mos_valid code"
  shows "MOS65XX_getInstruction ud code MI sz address = Some (False, MI, 1)"
  using assms by (cases code)
    (auto simp: MOS65XX_getInstruction_def mos_valid_def mos_insn_len_def Let_def Suc_le_eq)

text \<open>The instruction object after a successful decoding.\<close>

definition mos_value :: "u8 list \<Rightarrow> u64" where
  "mos_value code = of_nat (mos_operand code)"

lemma mos_value_bytes:
  assumes "mos_insn_len code \<le> length code"
  shows "mos_insn_len code = 2 \<Longrightarrow> mos_value code = ucast (code ! 1)"
    "mos_insn_len code = 3 \<Longrightarrow> mos_value code = push_bit 8 (ucast (code ! 2)) OR ucast (code ! 1)"
proof -
  assume "mos_insn_len code = 2"
  then obtain a b r where "code = a # b # r" "mos_insn_len code = 2"
    using assms by (cases code rule: remdups_adj.cases) auto
  then show "mos_value code = ucast (code ! 1)" by (simp add: mos_value_def mos_operand_def)
next
  assume l3: "mos_insn_len code = 3"
  with assms obtain a r where "code = a # r" "2 \<le> length r" by (cases code) auto
  with l3 obtain b c s where code: "code = a # b # c # s" "mos_insn_len code = 3"
    by (cases r rule: remdups_adj.cases) auto
  have "push_bit 8 (ucast c) AND ucast b = (0 :: u64)"
    by (rule bit_eqI) (auto simp: bit_simps dest: bit_imp_le_length)
  then have "push_bit 8 (ucast c) OR ucast b = push_bit 8 (ucast c) + (ucast b :: u64)"
    by (simp add: disjunctive_add_eq_or)
  then show "mos_value code = push_bit 8 (ucast (code ! 2)) OR ucast (code ! 1)"
    using code by (simp add: mos_value_def mos_operand_def push_bit_eq_mult)
qed

lemma MOS65XX_accept:
  assumes "mos_valid code" "mci_wf MI" "op_raw (mi_Operands MI ! 0) = 0"
  shows "\<exists>MI'. MOS65XX_getInstruction ud code MI sz address =
      Some (True, MI', of_nat (mos_insn_len code)) \<and>
    mci_wf MI' \<and> mi_address MI' = address \<and> mi_Opcode MI' = ucast (hd code) \<and>
    mi_OpcodePub MI' = of_nat (mos65xx_insn_num (oi_ins (mos_op (hd code)))) \<and>
    op_raw (mi_Operands MI' ! 0) = mos_value code \<and>
    (case in_detail (mi_flat_insn MI) of
       None \<Rightarrow> mi_flat_insn MI' = mi_flat_insn MI
     | Some (p, d) \<Rightarrow> \<exists>d'. mos_detail_ok (hd code) (of_nat (mos_operand code)) d' \<and>
         mi_flat_insn MI' = (mi_flat_insn MI)\<lparr>in_detail := Some (p, d')\<rparr>)"
proof -
  obtain b bs where code: "code = b # bs" using assms(1) by (cases code) (auto simp: mos_valid_def)
  let ?len = "mos_insn_len code"
  have b: "oi_ins (mos_op b) \<noteq> MOS65XX_INS_INVALID" "?len \<le> length code"
    "getInstructionLength (oi_am (mos_op b)) = ?len"
    using assms(1) code by (auto simp: mos_valid_def mos_insn_len_def)
  define MI1 where "MI1 = MI\<lparr>mi_address := address, mi_Opcode := ucast b,
      mi_OpcodePub := of_nat (mos65xx_insn_num (oi_ins (mos_op b))), mi_size := 0\<rparr>"
  have wf1: "mci_wf MI1" "mi_size MI1 = 0" "length (mi_Operands MI1) = 48"
    using assms(2) by (simp_all add: MI1_def mci_wf_def)
  define ops where "ops = (if ?len = 1 then mi_Operands MI1
      else (mi_Operands MI1)[0 := \<lparr>op_Kind = kImmediate, op_raw = mos_value code\<rparr>])"
  define MI2 where "MI2 = MI1\<lparr>mi_Operands := ops, mi_size := (if ?len = 1 then 0 else 1)\<rparr>"
  have wf2: "mci_wf MI2" using wf1(1) by (simp add: MI2_def ops_def mci_wf_def)
  have "?len = 1 \<Longrightarrow> mos_value code = 0" by (simp add: mos_value_def mos_operand_def)
  then have val: "op_raw (mi_Operands MI2 ! 0) = mos_value code"
    using assms(3) wf1(3) by (auto simp: MI2_def ops_def MI1_def)
  have len3: "?len = 1 \<or> ?len = 2 \<or> ?len = 3"
    using mos_len_range [of "oi_am (mos_op b)"] b(3) by linarith
  have cr: "MCOperand_CreateImm0 MI1 (mos_value code) = Some MI2" if "?len \<noteq> 1"
    using create_wf [OF wf1(1), of "mos_value code"] that wf1(2) by (simp add: MI2_def ops_def)
  have same: "?len = 1 \<Longrightarrow> MI2 = MI1" using wf1(2) by (simp add: MI2_def ops_def)
  have imm: "(if ?len = 2 then MCOperand_CreateImm0 MI1 (ucast (code ! 1))
      else if ?len = 3 then MCOperand_CreateImm0 MI1 (push_bit 8 (ucast (code ! 2)) OR ucast (code ! 1))
      else Some MI1) = Some MI2"
    using len3 cr same mos_value_bytes [OF b(2)] by auto
  define fin where "fin = (if in_detail (mi_flat_insn MI2) \<noteq> None then fillDetails MI2 b else Some MI2)"
  have get: "MOS65XX_getInstruction ud code MI sz address = do { MI' \<leftarrow> fin; Some (True, MI', of_nat ?len) }"
    using b code imm unfolding MOS65XX_getInstruction_def Let_def
    by (simp add: MI1_def [symmetric] fin_def cong: if_cong split del: if_split)
  have flat: "mi_flat_insn MI2 = mi_flat_insn MI" by (simp add: MI2_def MI1_def)
  have fields: "mi_address MI2 = address" "mi_Opcode MI2 = ucast b"
    "mi_OpcodePub MI2 = of_nat (mos65xx_insn_num (oi_ins (mos_op b)))" by (simp_all add: MI2_def MI1_def)
  show ?thesis
  proof (cases "in_detail (mi_flat_insn MI)")
    case None
    then have "fin = Some MI2" by (simp add: fin_def flat)
    with get fields val wf2 flat None code show ?thesis by simp
  next
    case (Some pd)
    obtain p d where pd: "pd = (p, d)" by (cases pd)
    have "in_detail (mi_flat_insn MI2) = Some (p, d)" using Some pd flat by simp
    from fillDetails_spec [OF wf2 this, of b] obtain d' where d':
      "fillDetails MI2 b = Some (MI2\<lparr>mi_flat_insn := (mi_flat_insn MI2)\<lparr>in_detail := Some (p, d')\<rparr>\<rparr>)"
      "mos_detail_ok b (ucast (mos_value code)) d'" unfolding val by blast
    let ?MI = "MI2\<lparr>mi_flat_insn := (mi_flat_insn MI2)\<lparr>in_detail := Some (p, d')\<rparr>\<rparr>"
    have "fin = Some ?MI" using Some pd flat d'(1) by (simp add: fin_def)
    moreover have "mci_wf ?MI" using wf2 d'(2) by (simp add: mci_wf_def insn_wf_def mos_detail_ok_def)
    moreover have "(ucast (mos_value code) :: u16) = of_nat (mos_operand code)"
      by (rule bit_eqI) (simp add: mos_value_def bit_simps)
    ultimately show ?thesis using get fields val flat Some pd code d'(2) by auto
  qed
qed

section \<open>Printing\<close>

text \<open>The text of an operand, by addressing mode.\<close>

definition mos_operand_text :: "mos65xx_address_mode \<Rightarrow> nat \<Rightarrow> u64 \<Rightarrow> string" where
  "mos_operand_text am v address =
     (case am of
        MOS65XX_AM_NONE \<Rightarrow> [] | MOS65XX_AM_IMP \<Rightarrow> []
      | MOS65XX_AM_ACC \<Rightarrow> '' a''
      | MOS65XX_AM_ABS \<Rightarrow> '' $0x'' @ fmt_0x 4 v
      | MOS65XX_AM_IMM \<Rightarrow> '' #$0x'' @ fmt_0x 2 v
      | MOS65XX_AM_ZP \<Rightarrow> '' $0x'' @ fmt_0x 2 v
      | MOS65XX_AM_ABSX \<Rightarrow> '' $0x'' @ fmt_0x 4 v @ '', x''
      | MOS65XX_AM_ABSY \<Rightarrow> '' $0x'' @ fmt_0x 4 v @ '', y''
      | MOS65XX_AM_ZPX \<Rightarrow> '' $0x'' @ fmt_0x 2 v @ '', x''
      | MOS65XX_AM_ZPY \<Rightarrow> '' $0x'' @ fmt_0x 2 v @ '', y''
      | MOS65XX_AM_REL \<Rightarrow> '' $0x'' @ fmt_0x 4 (unat (ucast (address + scast (of_nat v :: u8) + 2) :: u32))
      | MOS65XX_AM_IND \<Rightarrow> '' ($0x'' @ fmt_0x 4 v @ '')''
      | MOS65XX_AM_INDX \<Rightarrow> '' ($0x'' @ fmt_0x 2 v @ '', x)''
      | MOS65XX_AM_INDY \<Rightarrow> '' ($0x'' @ fmt_0x 2 v @ ''), y'')"

definition mos_text :: "u8 list \<Rightarrow> u64 \<Rightarrow> string" where
  "mos_text code address = ii_name (mos_info (hd code)) @
     mos_operand_text (oi_am (mos_op (hd code))) (mos_operand code) address"

lemma length_fmt_0x_le: "v < 65536 \<Longrightarrow> length (fmt_0x w v) \<le> max w 4"
  using length_fmt_radix [of 16 4 v] by (auto simp: fmt_0x_def)

lemma mos_operand_text_safe:
  assumes "v < 65536"
  shows "NUL \<notin> set (mos_operand_text am v address)" "length (mos_operand_text am v address) \<le> 20"
proof -
  have "NUL \<notin> set (fmt_0x w n)" for w n using fmt_0x_chars [of w n] by auto
  then show "NUL \<notin> set (mos_operand_text am v address)"
    by (cases am) (simp_all add: mos_operand_text_def)
  have "length (fmt_0x 4 v) \<le> 4" "length (fmt_0x 2 v) \<le> 4"
    using length_fmt_0x_le [OF assms, of 4] length_fmt_0x_le [OF assms, of 2] by simp_all
  moreover have "length (fmt_0x 4 (unat (w :: u32))) \<le> 16" for w
  proof -
    have "unat w < 16 ^ 8" using unsigned_less [of w, where 'a = nat] by simp
    from length_fmt_radix [OF _ _ this] show ?thesis by (simp add: fmt_0x_def)
  qed
  ultimately show "length (mos_operand_text am v address) \<le> 20"
    by (cases am) (auto simp: mos_operand_text_def intro: le_trans)
qed

lemma SStream_concat_empty: "ss_holds ss s \<Longrightarrow> NUL \<notin> set t \<Longrightarrow> length s + length t < 511 \<Longrightarrow>
    \<exists>ss'. (if t = [] then Some ss else SStream_concat ss t) = Some ss' \<and> ss_holds ss' (s @ t)"
  using SStream_concat_holds [of ss s t] by auto

lemma MOS65XX_print:
  assumes "mos_valid code" "mci_wf MI" "mi_Opcode MI = ucast (hd code)" "mi_address MI = address"
    "op_raw (mi_Operands MI ! 0) = mos_value code" "ss_holds ss []"
  shows "\<exists>ss'. MOS65XX_printInst MI ss = Some ss' \<and> ss_holds ss' (mos_text code address)"
proof -
  let ?b = "hd code" and ?v = "mos_operand code"
  let ?t = "mos_operand_text (oi_am (mos_op ?b)) ?v address"
  obtain ss1 where ss1: "SStream_concat0 ss (ii_name (mos_info ?b)) = Some ss1"
    "ss_holds ss1 (ii_name (mos_info ?b))"
    using SStream_concat0_holds [OF assms(6) mos_name_chars(1) [of ?b]] mos_name_chars(5) [of ?b] by auto
  note safe = mos_operand_text_safe [OF mos_operand_less [of code], of "oi_am (mos_op ?b)" address]
  obtain ss2 where ss2: "(if ?t = [] then Some ss1 else SStream_concat ss1 ?t) = Some ss2"
    "ss_holds ss2 (mos_text code address)"
    using SStream_concat_empty [OF ss1(2) safe(1)] safe(2) mos_name_chars(5) [of ?b]
    by (auto simp: mos_text_def)
  have op: "unat (mi_Opcode MI) = unat ?b" "(ucast (mi_Opcode MI) :: u8) = ?b"
  proof -
    show "unat (mi_Opcode MI) = unat ?b" using assms(3) by simp
    show "(ucast (mi_Opcode MI) :: u8) = ?b"
      unfolding assms(3) by (rule bit_eqI) (simp add: bit_simps)
  qed
  have v: "unat (ucast (mos_value code) :: u32) = ?v"
    "(ucast (ucast (mos_value code) :: u32) :: u8) = of_nat ?v"
  proof -
    have "(ucast (mos_value code) :: u32) = of_nat ?v"
      by (rule bit_eqI) (simp add: mos_value_def bit_simps)
    moreover have "unat (of_nat ?v :: u32) = ?v"
      using mos_operand_less [of code] by (simp add: unsigned_of_nat take_bit_nat_eq_self)
    ultimately show "unat (ucast (mos_value code) :: u32) = ?v" by simp
    show "(ucast (ucast (mos_value code) :: u32) :: u8) = of_nat ?v"
      by (rule bit_eqI) (simp add: mos_value_def bit_simps)
  qed
  have op0: "aget (mi_Operands MI) 0 = Some (mi_Operands MI ! 0)"
    using assms(2) by (simp add: mci_wf_def)
  have "MOS65XX_printInst MI ss = (if ?t = [] then Some ss1 else SStream_concat ss1 ?t)"
    unfolding MOS65XX_printInst_def Let_def op0 op
    using assms(4,5) ss1(1) v by (cases "oi_am (mos_op ?b)") (simp_all add: mos_operand_text_def)
  with ss2 show ?thesis by simp
qed

text \<open>Reading an operand back: the hexadecimal digits after the first \<^verbatim>\<open>x\<close> of the operand.\<close>

definition hex_char :: "char \<Rightarrow> bool" where
  "hex_char c \<longleftrightarrow> c \<in> set ''0123456789abcdef''"

definition mos_scan_operand :: "string \<Rightarrow> nat" where
  "mos_scan_operand s = scan_radix 16 (takeWhile hex_char (drop 1 (dropWhile (\<lambda>c. c \<noteq> CHR ''x'') s)))"

lemma takeWhile_hex: "\<not> hex_char c \<Longrightarrow> takeWhile hex_char (fmt_0x w v @ c # t) = fmt_0x w v"
  "takeWhile hex_char (fmt_0x w v) = fmt_0x w v"
proof -
  have h: "x \<in> set (fmt_0x w v) \<Longrightarrow> hex_char x" for x
    using fmt_0x_chars [of w v] unfolding hex_char_def by blast
  then show "takeWhile hex_char (fmt_0x w v) = fmt_0x w v" by simp
  show "takeWhile hex_char (fmt_0x w v @ c # t) = fmt_0x w v" if "\<not> hex_char c"
    using h that by (simp add: takeWhile_append2)
qed

lemma not_hex: "\<not> hex_char CHR '',''" "\<not> hex_char CHR '')''"
  by (simp_all add: hex_char_def)

lemma mos_scan_operand_text:
  assumes "am \<notin> {MOS65XX_AM_NONE, MOS65XX_AM_IMP, MOS65XX_AM_ACC, MOS65XX_AM_REL}"
  shows "mos_scan_operand (mos_operand_text am v address) = v"
  using assms unfolding mos_scan_operand_def mos_operand_text_def
  by (cases am) (simp_all add: takeWhile_hex not_hex)

end
