(* ===== verification/Arch_Modules.thy ===== *)
theory Arch_Modules
  imports CS_Heap
begin

text \<open>
  The architecture modules \<^verbatim>\<open>arch/*/*Module.c\<close>: \<open>X_global_init\<close> fills the
  handle with the functions of the architecture, \<open>X_option\<close> handles the options that depend on
  it. The tables of \<^verbatim>\<open>cs.c\<close> that select them (constructors, option handlers, the mask
  of disallowed modes, the set of enabled architectures) depend on the build configuration, which
  is an argument.

  An \<open>X_global_init\<close> returns the error, the heap and the handle; its result is \<open>None\<close> when it
  writes through a null pointer. The constructors of nine architectures pass the result of
  \<^verbatim>\<open>cs_mem_malloc\<close> to \<open>X_init\<close> unchecked, which writes the fields of the register
  information: \<open>malloc_mri\<close> is that sequence. The contents of the register information
  (\<^verbatim>\<open>MCRegisterInfo\<close>, modelled in \<^verbatim>\<open>RegisterInfo_Model\<close>) come from the generated
  tables and are not part of the handle; the handle has the address of the block.
\<close>

text \<open>Sizes of the allocated objects on the target.\<close>

record abi =
  sz_cs_struct :: nat
  sz_cs_insn :: nat
  sz_cs_detail :: nat
  sz_insn_mnem :: nat
  sz_MCRegisterInfo :: nat
  sz_m68k_info :: nat
  sz_m680x_info :: nat

section \<open>Constructors and option handlers\<close>

definition malloc_mri :: "abi \<Rightarrow> heap \<Rightarrow> (nat \<times> heap) option" where
  "malloc_mri ab h = do {
     (mri, h) \<leftarrow> h_malloc h (sz_MCRegisterInfo ab);
     need (mri \<noteq> 0);
     Some (mri, h) }"

definition ARM_getRegName :: "cs_struct \<Rightarrow> u32 \<Rightarrow> cs_struct" where
  "ARM_getRegName ud v =
     (if v = CS_OPT_SYNTAX_NOREGNAME
      then ud\<lparr>ud_get_regname := Some getRegisterName2, ud_reg_name := Some ARM_reg_name2\<rparr>
      else ud\<lparr>ud_get_regname := Some getRegisterName, ud_reg_name := Some ARM_reg_name\<rparr>)"

definition ARM_global_init ::
    "build \<Rightarrow> abi \<Rightarrow> heap \<Rightarrow> cs_struct \<Rightarrow> (cs_err \<times> heap \<times> cs_struct) option" where
  "ARM_global_init b ab h ud = do {
     (mri, h) \<leftarrow> malloc_mri ab h;
     let ud = ARM_getRegName ud 0;
     let ud = ud\<lparr>ud_printer := Some ARM_printInst, ud_printer_info := mri,
       ud_reg_name := Some ARM_reg_name, ud_insn_id := Some ARM_get_insn_id,
       ud_insn_name := Some ARM_insn_name, ud_group_name := Some ARM_group_name,
       ud_post_printer := Some ARM_post_printer\<rparr>;
     let ud = (if b_diet b then ud else ud\<lparr>ud_reg_access := Some ARM_reg_access\<rparr>);
     Some (CS_ERR_OK, h,
       if ud_mode ud AND CS_MODE_THUMB \<noteq> 0
       then ud\<lparr>ud_disasm := Some Thumb_getInstruction\<rparr>
       else ud\<lparr>ud_disasm := Some ARM_getInstruction\<rparr>) }"

definition ARM_option :: "cs_struct \<Rightarrow> cs_opt_type \<Rightarrow> u64 \<Rightarrow> cs_err \<times> cs_struct" where
  "ARM_option ud ty v = (CS_ERR_OK,
     case ty of
       CS_OPT_MODE \<Rightarrow>
         (if v AND ucast CS_MODE_THUMB \<noteq> 0
          then ud\<lparr>ud_disasm := Some Thumb_getInstruction\<rparr>
          else ud\<lparr>ud_disasm := Some ARM_getInstruction\<rparr>)\<lparr>ud_mode := ucast v\<rparr>
     | CS_OPT_SYNTAX \<Rightarrow> (ARM_getRegName ud (ucast v))\<lparr>ud_syntax := ucast v\<rparr>
     | _ \<Rightarrow> ud)"


definition AArch64_global_init ::
    "build \<Rightarrow> abi \<Rightarrow> heap \<Rightarrow> cs_struct \<Rightarrow> (cs_err \<times> heap \<times> cs_struct) option" where
  "AArch64_global_init b ab h ud = do {
     (mri, h) \<leftarrow> malloc_mri ab h;
     let ud = ud\<lparr>ud_printer := Some AArch64_printInst, ud_printer_info := mri, ud_getinsn_info := mri,
       ud_disasm := Some AArch64_getInstruction, ud_post_printer := Some AArch64_post_printer,
       ud_reg_name := Some AArch64_reg_name, ud_insn_id := Some AArch64_get_insn_id,
       ud_insn_name := Some AArch64_insn_name, ud_group_name := Some AArch64_group_name\<rparr>;
     Some (CS_ERR_OK, h, if b_diet b then ud else ud\<lparr>ud_reg_access := Some AArch64_reg_access\<rparr>) }"

definition AArch64_option :: "cs_struct \<Rightarrow> cs_opt_type \<Rightarrow> u64 \<Rightarrow> cs_err \<times> cs_struct" where
  "AArch64_option ud ty v = (CS_ERR_OK, if ty = CS_OPT_MODE then ud\<lparr>ud_mode := ucast v\<rparr> else ud)"

text \<open>Mode bits implied by others; \<^verbatim>\<open>value\<close> is cut to the width of \<^verbatim>\<open>cs_mode\<close> at the call.\<close>

definition updated_mode :: "u32 \<Rightarrow> u32" where
  "updated_mode m = (if m AND CS_MODE_MIPS32R6 \<noteq> 0 then m OR CS_MODE_32 else m)"

definition Mips_global_init ::
    "build \<Rightarrow> abi \<Rightarrow> heap \<Rightarrow> cs_struct \<Rightarrow> (cs_err \<times> heap \<times> cs_struct) option" where
  "Mips_global_init b ab h ud = do {
     (mri, h) \<leftarrow> malloc_mri ab h;
     Some (CS_ERR_OK, h, ud\<lparr>ud_printer := Some Mips_printInst, ud_printer_info := mri, ud_getinsn_info := mri,
       ud_disasm := Some Mips_getInstruction, ud_reg_name := Some Mips_reg_name, ud_insn_id :=
       Some Mips_get_insn_id, ud_insn_name := Some Mips_insn_name, ud_group_name := Some
       Mips_group_name\<rparr>) }"

definition Mips_option :: "cs_struct \<Rightarrow> cs_opt_type \<Rightarrow> u64 \<Rightarrow> cs_err \<times> cs_struct" where
  "Mips_option ud ty v = (CS_ERR_OK,
     if ty = CS_OPT_MODE then ud\<lparr>ud_mode := updated_mode (ucast v)\<rparr> else ud)"

definition X86_global_init ::
    "build \<Rightarrow> abi \<Rightarrow> heap \<Rightarrow> cs_struct \<Rightarrow> (cs_err \<times> heap \<times> cs_struct) option" where
  "X86_global_init b ab h ud = do {
     (mri, h) \<leftarrow> malloc_mri ab h;
     let ud = ud\<lparr>ud_printer := Some X86_Intel_printInst, ud_syntax := CS_OPT_SYNTAX_INTEL,
       ud_printer_info := mri, ud_disasm := Some X86_getInstruction,
       ud_reg_name := Some X86_reg_name, ud_insn_id := Some X86_get_insn_id,
       ud_insn_name := Some X86_insn_name, ud_group_name := Some X86_group_name,
       ud_post_printer := None\<rparr>;
     let ud = (if b_diet b then ud else ud\<lparr>ud_reg_access := Some X86_reg_access\<rparr>);
     Some (CS_ERR_OK, h,
       if ud_mode ud = CS_MODE_64 then ud\<lparr>ud_regsize_map := Some regsize_map_64\<rparr>
       else ud\<lparr>ud_regsize_map := Some regsize_map_32\<rparr>) }"

definition X86_option :: "build \<Rightarrow> cs_struct \<Rightarrow> cs_opt_type \<Rightarrow> u64 \<Rightarrow> cs_err \<times> cs_struct" where
  "X86_option b ud ty v =
     (case ty of
        CS_OPT_MODE \<Rightarrow> (CS_ERR_OK,
          (if v = ucast CS_MODE_64 then ud\<lparr>ud_regsize_map := Some regsize_map_64\<rparr>
           else ud\<lparr>ud_regsize_map := Some regsize_map_32\<rparr>)\<lparr>ud_mode := ucast v\<rparr>)
      | CS_OPT_SYNTAX \<Rightarrow>
          (if v = ucast CS_OPT_SYNTAX_DEFAULT \<or> v = ucast CS_OPT_SYNTAX_INTEL
           then (CS_ERR_OK, ud\<lparr>ud_syntax := CS_OPT_SYNTAX_INTEL, ud_printer := Some X86_Intel_printInst\<rparr>)
           else if v = ucast CS_OPT_SYNTAX_MASM
           then (CS_ERR_OK, ud\<lparr>ud_printer := Some X86_Intel_printInst, ud_syntax := ucast v\<rparr>)
           else if v = ucast CS_OPT_SYNTAX_ATT
           then (if \<not> b_diet b \<and> \<not> b_x86_att_disable b
                 then (CS_ERR_OK, ud\<lparr>ud_printer := Some X86_ATT_printInst, ud_syntax := CS_OPT_SYNTAX_ATT\<rparr>)
                 else if \<not> b_diet b \<and> b_x86_att_disable b
                 then (CS_ERR_X86_ATT, ud\<lparr>ud_errnum := CS_ERR_X86_ATT\<rparr>)
                 else (CS_ERR_DIET, ud\<lparr>ud_errnum := CS_ERR_DIET\<rparr>))
           else (CS_ERR_OPTION, ud\<lparr>ud_errnum := CS_ERR_OPTION\<rparr>))
      | _ \<Rightarrow> (CS_ERR_OK, ud))"

definition PPC_global_init ::
    "build \<Rightarrow> abi \<Rightarrow> heap \<Rightarrow> cs_struct \<Rightarrow> (cs_err \<times> heap \<times> cs_struct) option" where
  "PPC_global_init b ab h ud = do {
     (mri, h) \<leftarrow> malloc_mri ab h;
     Some (CS_ERR_OK, h, ud\<lparr>ud_printer := Some PPC_printInst, ud_printer_info := mri, ud_getinsn_info := mri,
       ud_disasm := Some PPC_getInstruction, ud_post_printer := Some PPC_post_printer,
       ud_reg_name := Some PPC_reg_name, ud_insn_id := Some PPC_get_insn_id, ud_insn_name :=
       Some PPC_insn_name, ud_group_name := Some PPC_group_name\<rparr>) }"

definition PPC_option :: "cs_struct \<Rightarrow> cs_opt_type \<Rightarrow> u64 \<Rightarrow> cs_err \<times> cs_struct" where
  "PPC_option ud ty v = (CS_ERR_OK,
     let ud = (if ty = CS_OPT_SYNTAX then ud\<lparr>ud_syntax := ucast v\<rparr> else ud)
     in if ty = CS_OPT_MODE then ud\<lparr>ud_mode := ucast v\<rparr> else ud)"

definition Sparc_global_init ::
    "build \<Rightarrow> abi \<Rightarrow> heap \<Rightarrow> cs_struct \<Rightarrow> (cs_err \<times> heap \<times> cs_struct) option" where
  "Sparc_global_init b ab h ud = do {
     (mri, h) \<leftarrow> malloc_mri ab h;
     Some (CS_ERR_OK, h, ud\<lparr>ud_printer := Some Sparc_printInst, ud_printer_info := mri, ud_getinsn_info := mri,
       ud_disasm := Some Sparc_getInstruction, ud_post_printer := Some Sparc_post_printer,
       ud_reg_name := Some Sparc_reg_name, ud_insn_id := Some Sparc_get_insn_id, ud_insn_name
       := Some Sparc_insn_name, ud_group_name := Some Sparc_group_name\<rparr>) }"

definition Sparc_option :: "cs_struct \<Rightarrow> cs_opt_type \<Rightarrow> u64 \<Rightarrow> cs_err \<times> cs_struct" where
  "Sparc_option ud ty v = (CS_ERR_OK,
     let ud = (if ty = CS_OPT_SYNTAX then ud\<lparr>ud_syntax := ucast v\<rparr> else ud)
     in if ty = CS_OPT_MODE then ud\<lparr>ud_mode := ucast v\<rparr> else ud)"

definition SystemZ_global_init ::
    "build \<Rightarrow> abi \<Rightarrow> heap \<Rightarrow> cs_struct \<Rightarrow> (cs_err \<times> heap \<times> cs_struct) option" where
  "SystemZ_global_init b ab h ud = do {
     (mri, h) \<leftarrow> malloc_mri ab h;
     Some (CS_ERR_OK, h, ud\<lparr>ud_printer := Some SystemZ_printInst, ud_printer_info := mri, ud_getinsn_info := mri,
       ud_disasm := Some SystemZ_getInstruction, ud_post_printer := Some SystemZ_post_printer,
       ud_reg_name := Some SystemZ_reg_name, ud_insn_id := Some SystemZ_get_insn_id,
       ud_insn_name := Some SystemZ_insn_name, ud_group_name := Some SystemZ_group_name\<rparr>) }"

definition SystemZ_option :: "cs_struct \<Rightarrow> cs_opt_type \<Rightarrow> u64 \<Rightarrow> cs_err \<times> cs_struct" where
  "SystemZ_option ud ty v = (CS_ERR_OK, if ty = CS_OPT_SYNTAX then ud\<lparr>ud_syntax := ucast v\<rparr> else ud)"

definition XCore_global_init ::
    "build \<Rightarrow> abi \<Rightarrow> heap \<Rightarrow> cs_struct \<Rightarrow> (cs_err \<times> heap \<times> cs_struct) option" where
  "XCore_global_init b ab h ud = do {
     (mri, h) \<leftarrow> malloc_mri ab h;
     Some (CS_ERR_OK, h, ud\<lparr>ud_printer := Some XCore_printInst, ud_printer_info := mri, ud_getinsn_info := mri,
       ud_disasm := Some XCore_getInstruction, ud_post_printer := Some XCore_post_printer,
       ud_reg_name := Some XCore_reg_name, ud_insn_id := Some XCore_get_insn_id, ud_insn_name
       := Some XCore_insn_name, ud_group_name := Some XCore_group_name\<rparr>) }"

definition XCore_option :: "cs_struct \<Rightarrow> cs_opt_type \<Rightarrow> u64 \<Rightarrow> cs_err \<times> cs_struct" where
  "XCore_option ud ty v = (CS_ERR_OK, ud)"

definition M68K_global_init ::
    "build \<Rightarrow> abi \<Rightarrow> heap \<Rightarrow> cs_struct \<Rightarrow> (cs_err \<times> heap \<times> cs_struct) option" where
  "M68K_global_init b ab h ud = do {
     (info, h) \<leftarrow> h_malloc h (sz_m68k_info ab);
     if info = 0 then Some (CS_ERR_MEM, h, ud)
     else Some (CS_ERR_OK, h, ud\<lparr>ud_printer := Some M68K_printInst, ud_printer_info := info,
       ud_getinsn_info := 0, ud_disasm := Some M68K_getInstruction, ud_skipdata_size := 2,
       ud_post_printer := None, ud_reg_name := Some M68K_reg_name,
       ud_insn_id := Some M68K_get_insn_id, ud_insn_name := Some M68K_insn_name,
       ud_group_name := Some M68K_group_name\<rparr>) }"

definition M68K_option :: "cs_struct \<Rightarrow> cs_opt_type \<Rightarrow> u64 \<Rightarrow> cs_err \<times> cs_struct" where
  "M68K_option ud ty v = (CS_ERR_OK, ud)"

definition TMS320C64x_global_init ::
    "build \<Rightarrow> abi \<Rightarrow> heap \<Rightarrow> cs_struct \<Rightarrow> (cs_err \<times> heap \<times> cs_struct) option" where
  "TMS320C64x_global_init b ab h ud = do {
     (mri, h) \<leftarrow> malloc_mri ab h;
     Some (CS_ERR_OK, h, ud\<lparr>ud_printer := Some TMS320C64x_printInst, ud_printer_info := mri, ud_getinsn_info := mri,
       ud_disasm := Some TMS320C64x_getInstruction, ud_post_printer := Some
       TMS320C64x_post_printer, ud_reg_name := Some TMS320C64x_reg_name, ud_insn_id := Some
       TMS320C64x_get_insn_id, ud_insn_name := Some TMS320C64x_insn_name, ud_group_name := Some
       TMS320C64x_group_name\<rparr>) }"

definition TMS320C64x_option :: "cs_struct \<Rightarrow> cs_opt_type \<Rightarrow> u64 \<Rightarrow> cs_err \<times> cs_struct" where
  "TMS320C64x_option ud ty v = (CS_ERR_OK, ud)"

text \<open>
  \<^verbatim>\<open>M680X_disassembler_init\<close> and \<^verbatim>\<open>M680X_instprinter_init\<close> compare the
  sizes of tables with the ends of the enumerations they are indexed by. The lists pair what each
  test compares; the sizes are those of the tables in the source.
\<close>

definition M680X_disassembler_checks :: "(nat \<times> nat) list" where
  "M680X_disassembler_checks = [(22, 22), (22, 22), (22, 22), (22, 22), (22, 22), (22, 22), (22, 22),
     (357, 357), (11, 11), (11, 11), (33, 33), (15, 15)]"

definition M680X_disassembler_init :: "cs_err" where
  "M680X_disassembler_init =
     (if \<exists>p \<in> set M680X_disassembler_checks. fst p \<noteq> snd p then CS_ERR_MODE else CS_ERR_OK)"

definition M680X_instprinter_checks :: "(nat \<times> nat) list" where
  "M680X_instprinter_checks = [(22, 22), (357, 357), (8, 8)]"

definition M680X_instprinter_init :: "build \<Rightarrow> cs_err" where
  "M680X_instprinter_init b =
     (if \<not> b_diet b \<and> (\<exists>p \<in> set M680X_instprinter_checks. fst p \<noteq> snd p)
      then CS_ERR_MODE else CS_ERR_OK)"

definition M680X_modes :: u32 where
  "M680X_modes = CS_MODE_M680X_6800 OR CS_MODE_M680X_6801 OR CS_MODE_M680X_6805 OR
     CS_MODE_M680X_6808 OR CS_MODE_M680X_6809 OR CS_MODE_M680X_6811 OR CS_MODE_M680X_6301 OR
     CS_MODE_M680X_6309 OR CS_MODE_M680X_CPU12 OR CS_MODE_M680X_HCS08"

definition M680X_global_init ::
    "build \<Rightarrow> abi \<Rightarrow> heap \<Rightarrow> cs_struct \<Rightarrow> (cs_err \<times> heap \<times> cs_struct) option" where
  "M680X_global_init b ab h ud =
     (if M680X_disassembler_init \<noteq> CS_ERR_OK then Some (M680X_disassembler_init, h, ud)
      else if M680X_instprinter_init b \<noteq> CS_ERR_OK then Some (M680X_instprinter_init b, h, ud)
      else if ud_mode ud AND NOT M680X_modes \<noteq> 0 then Some (CS_ERR_MODE, h, ud)
      else if ud_mode ud AND M680X_modes = 0 then Some (CS_ERR_MODE, h, ud)
      else do {
        (info, h) \<leftarrow> h_malloc h (sz_m680x_info ab);
        if info = 0 then Some (CS_ERR_MEM, h, ud)
        else do {
          let ud = ud\<lparr>ud_printer := Some M680X_printInst, ud_printer_info := info,
            ud_getinsn_info := 0, ud_disasm := Some M680X_getInstruction,
            ud_reg_name := Some M680X_reg_name, ud_insn_id := Some M680X_get_insn_id,
            ud_insn_name := Some M680X_insn_name, ud_group_name := Some M680X_group_name,
            ud_skipdata_size := 1, ud_post_printer := None\<rparr>;
          Some (CS_ERR_OK, h,
            if b_diet b then ud else ud\<lparr>ud_reg_access := Some M680X_reg_access\<rparr>) } })"

definition M680X_option :: "cs_struct \<Rightarrow> cs_opt_type \<Rightarrow> u64 \<Rightarrow> cs_err \<times> cs_struct" where
  "M680X_option ud ty v = (CS_ERR_OK, ud)"

definition EVM_global_init ::
    "build \<Rightarrow> abi \<Rightarrow> heap \<Rightarrow> cs_struct \<Rightarrow> (cs_err \<times> heap \<times> cs_struct) option" where
  "EVM_global_init b ab h ud =
     (if ud_mode ud \<noteq> 0 then Some (CS_ERR_MODE, h, ud)
      else Some (CS_ERR_OK, h, ud\<lparr>ud_printer := Some EVM_printInst, ud_printer_info := 0,
        ud_insn_id := Some EVM_get_insn_id, ud_insn_name := Some EVM_insn_name,
        ud_group_name := Some EVM_group_name, ud_disasm := Some EVM_getInstruction\<rparr>))"

definition EVM_option :: "cs_struct \<Rightarrow> cs_opt_type \<Rightarrow> u64 \<Rightarrow> cs_err \<times> cs_struct" where
  "EVM_option ud ty v = (CS_ERR_OK, ud)"

definition MOS65XX_global_init ::
    "build \<Rightarrow> abi \<Rightarrow> heap \<Rightarrow> cs_struct \<Rightarrow> (cs_err \<times> heap \<times> cs_struct) option" where
  "MOS65XX_global_init b ab h ud =
     (if ud_mode ud \<noteq> 0 then Some (CS_ERR_MODE, h, ud)
      else Some (CS_ERR_OK, h, ud\<lparr>ud_printer := Some MOS65XX_printInst, ud_printer_info := 0,
        ud_insn_id := Some MOS65XX_get_insn_id, ud_insn_name := Some MOS65XX_insn_name,
        ud_group_name := Some MOS65XX_group_name, ud_disasm := Some MOS65XX_getInstruction, ud_reg_name := Some MOS65XX_reg_name\<rparr>))"

definition MOS65XX_option :: "cs_struct \<Rightarrow> cs_opt_type \<Rightarrow> u64 \<Rightarrow> cs_err \<times> cs_struct" where
  "MOS65XX_option ud ty v = (CS_ERR_OK, ud)"

section \<open>The tables of cs.c\<close>

text \<open>A disabled architecture has a null entry in the tables of functions and a zero mask.\<close>

primrec arch_init_fun :: "cs_arch \<Rightarrow> build \<Rightarrow> abi \<Rightarrow> heap \<Rightarrow> cs_struct \<Rightarrow>
    (cs_err \<times> heap \<times> cs_struct) option" where
  "arch_init_fun CS_ARCH_ARM = ARM_global_init"
| "arch_init_fun CS_ARCH_ARM64 = AArch64_global_init"
| "arch_init_fun CS_ARCH_MIPS = Mips_global_init"
| "arch_init_fun CS_ARCH_X86 = X86_global_init"
| "arch_init_fun CS_ARCH_PPC = PPC_global_init"
| "arch_init_fun CS_ARCH_SPARC = Sparc_global_init"
| "arch_init_fun CS_ARCH_SYSZ = SystemZ_global_init"
| "arch_init_fun CS_ARCH_XCORE = XCore_global_init"
| "arch_init_fun CS_ARCH_M68K = M68K_global_init"
| "arch_init_fun CS_ARCH_TMS320C64X = TMS320C64x_global_init"
| "arch_init_fun CS_ARCH_M680X = M680X_global_init"
| "arch_init_fun CS_ARCH_EVM = EVM_global_init"
| "arch_init_fun CS_ARCH_MOS65XX = MOS65XX_global_init"

definition cs_arch_init :: "build \<Rightarrow> cs_arch \<Rightarrow> (build \<Rightarrow> abi \<Rightarrow> heap \<Rightarrow> cs_struct \<Rightarrow>
    (cs_err \<times> heap \<times> cs_struct) option) option" where
  "cs_arch_init b a = (if b_archs b a then Some (arch_init_fun a) else None)"

primrec arch_option_fun :: "cs_arch \<Rightarrow> build \<Rightarrow> cs_struct \<Rightarrow> cs_opt_type \<Rightarrow> u64 \<Rightarrow>
    cs_err \<times> cs_struct" where
  "arch_option_fun CS_ARCH_ARM b = ARM_option"
| "arch_option_fun CS_ARCH_ARM64 b = AArch64_option"
| "arch_option_fun CS_ARCH_MIPS b = Mips_option"
| "arch_option_fun CS_ARCH_X86 b = X86_option b"
| "arch_option_fun CS_ARCH_PPC b = PPC_option"
| "arch_option_fun CS_ARCH_SPARC b = Sparc_option"
| "arch_option_fun CS_ARCH_SYSZ b = SystemZ_option"
| "arch_option_fun CS_ARCH_XCORE b = XCore_option"
| "arch_option_fun CS_ARCH_M68K b = M68K_option"
| "arch_option_fun CS_ARCH_TMS320C64X b = TMS320C64x_option"
| "arch_option_fun CS_ARCH_M680X b = M680X_option"
| "arch_option_fun CS_ARCH_EVM b = EVM_option"
| "arch_option_fun CS_ARCH_MOS65XX b = MOS65XX_option"

definition cs_arch_option :: "build \<Rightarrow> cs_arch \<Rightarrow>
    (cs_struct \<Rightarrow> cs_opt_type \<Rightarrow> u64 \<Rightarrow> cs_err \<times> cs_struct) option" where
  "cs_arch_option b a = (if b_archs b a then Some (arch_option_fun a b) else None)"

primrec arch_mode_mask :: "cs_arch \<Rightarrow> u32" where
    "arch_mode_mask CS_ARCH_ARM = NOT (CS_MODE_LITTLE_ENDIAN OR CS_MODE_ARM OR CS_MODE_V8 OR
     CS_MODE_MCLASS OR CS_MODE_THUMB OR CS_MODE_BIG_ENDIAN)"
| "arch_mode_mask CS_ARCH_ARM64 = NOT (CS_MODE_LITTLE_ENDIAN OR CS_MODE_ARM OR
     CS_MODE_BIG_ENDIAN)"
| "arch_mode_mask CS_ARCH_MIPS = NOT (CS_MODE_LITTLE_ENDIAN OR CS_MODE_32 OR CS_MODE_64 OR
     CS_MODE_MICRO OR CS_MODE_MIPS32R6 OR CS_MODE_BIG_ENDIAN OR CS_MODE_MIPS2 OR CS_MODE_MIPS3)"
| "arch_mode_mask CS_ARCH_X86 = NOT (CS_MODE_LITTLE_ENDIAN OR CS_MODE_32 OR CS_MODE_64 OR
     CS_MODE_16)"
| "arch_mode_mask CS_ARCH_PPC = NOT (CS_MODE_LITTLE_ENDIAN OR CS_MODE_32 OR CS_MODE_64 OR
     CS_MODE_BIG_ENDIAN OR CS_MODE_QPX)"
| "arch_mode_mask CS_ARCH_SPARC = NOT (CS_MODE_BIG_ENDIAN OR CS_MODE_V9)"
| "arch_mode_mask CS_ARCH_SYSZ = NOT (CS_MODE_BIG_ENDIAN)"
| "arch_mode_mask CS_ARCH_XCORE = NOT (CS_MODE_BIG_ENDIAN)"
| "arch_mode_mask CS_ARCH_M68K = NOT (CS_MODE_BIG_ENDIAN OR CS_MODE_M68K_000 OR CS_MODE_M68K_010
     OR CS_MODE_M68K_020 OR CS_MODE_M68K_030 OR CS_MODE_M68K_040 OR CS_MODE_M68K_060)"
| "arch_mode_mask CS_ARCH_TMS320C64X = NOT (CS_MODE_BIG_ENDIAN)"
| "arch_mode_mask CS_ARCH_M680X = NOT (CS_MODE_M680X_6301 OR CS_MODE_M680X_6309 OR
     CS_MODE_M680X_6800 OR CS_MODE_M680X_6801 OR CS_MODE_M680X_6805 OR CS_MODE_M680X_6808 OR
     CS_MODE_M680X_6809 OR CS_MODE_M680X_6811 OR CS_MODE_M680X_CPU12 OR CS_MODE_M680X_HCS08)"
| "arch_mode_mask CS_ARCH_EVM = 0"
| "arch_mode_mask CS_ARCH_MOS65XX = NOT (CS_MODE_BIG_ENDIAN)"

definition cs_arch_disallowed_mode_mask :: "build \<Rightarrow> cs_arch \<Rightarrow> u32" where
  "cs_arch_disallowed_mode_mask b a = (if b_archs b a then arch_mode_mask a else 0)"

definition all_arch :: "build \<Rightarrow> u32" where
  "all_arch b = foldl (\<lambda>m a. if b_archs b a then m OR push_bit (arch_num a) 1 else m) 0 cs_archs"


section \<open>The contract of a module\<close>

text \<open>
  What every constructor promises to \<^verbatim>\<open>cs_open\<close>: on success the handle can disassemble
  and print, and the only new block is the one \<^verbatim>\<open>printer_info\<close> points to, which
  \<^verbatim>\<open>cs_close\<close> releases; on an error nothing is left allocated. Both leave alone the
  parts of the handle that the engine itself manages.
\<close>

definition engine_part_kept :: "cs_struct \<Rightarrow> cs_struct \<Rightarrow> bool" where
  "engine_part_kept ud ud' \<longleftrightarrow> ud_arch ud' = ud_arch ud \<and> ud_mnem_list ud' = ud_mnem_list ud \<and>
     ud_insn_cache ud' = ud_insn_cache ud \<and> ud_detail ud' = ud_detail ud \<and>
     ud_skipdata ud' = ud_skipdata ud \<and> ud_skipdata_setup ud' = ud_skipdata_setup ud"

definition callable :: "cs_struct \<Rightarrow> bool" where
  "callable ud \<longleftrightarrow> ud_printer ud \<noteq> None \<and> ud_disasm ud \<noteq> None \<and> ud_insn_id ud \<noteq> None \<and>
     ud_insn_name ud \<noteq> None \<and> ud_group_name ud \<noteq> None"

definition init_post :: "heap \<Rightarrow> cs_struct \<Rightarrow> cs_err \<Rightarrow> heap \<Rightarrow> cs_struct \<Rightarrow> bool" where
  "init_post h ud e h' ud' \<longleftrightarrow>
     heap_ok h' \<and> h_funcs h' = h_funcs h \<and> engine_part_kept ud ud' \<and> ud_mode ud' = ud_mode ud \<and>
     ud_errnum ud' = ud_errnum ud \<and>
     (if e = CS_ERR_OK
      then callable ud' \<and>
        (if ud_printer_info ud' = 0 then h_live h' = h_live h
         else h_live h (ud_printer_info ud') = None \<and>
           (\<exists>n. h_live h' = (h_live h)(ud_printer_info ud' \<mapsto> n)))
      else h_live h' = h_live h)"

locale arch_module =
  fixes init :: "build \<Rightarrow> abi \<Rightarrow> heap \<Rightarrow> cs_struct \<Rightarrow> (cs_err \<times> heap \<times> cs_struct) option"
    and opt :: "build \<Rightarrow> cs_struct \<Rightarrow> cs_opt_type \<Rightarrow> u64 \<Rightarrow> cs_err \<times> cs_struct"
  assumes init_result:
      "heap_ok h \<Longrightarrow> init b ab h ud = Some (e, h', ud') \<Longrightarrow> init_post h ud e h' ud'"
    and init_granted:
      "heap_ok h \<Longrightarrow> h_grant h (h_calls h) \<Longrightarrow> \<exists>r. init b ab h ud = Some r"
    and opt_keeps: "opt b ud ty v = (e, ud') \<Longrightarrow>
      engine_part_kept ud ud' \<and> ud_printer_info ud' = ud_printer_info ud"
    and opt_callable: "callable ud \<Longrightarrow> opt b ud ty v = (e, ud') \<Longrightarrow> callable ud'"
    and opt_ok_or_error: "opt b ud ty v = (e, ud') \<Longrightarrow> e \<noteq> CS_ERR_OK \<Longrightarrow> ud' = ud\<lparr>ud_errnum := e\<rparr>"
begin

lemma init_error_no_leak:
  "heap_ok h \<Longrightarrow> init b ab h ud = Some (e, h', ud') \<Longrightarrow> e \<noteq> CS_ERR_OK \<Longrightarrow>
     h_live h' = h_live h \<and> heap_ok h'"
  using init_result [of h b ab ud e h' ud'] by (simp add: init_post_def)

lemma init_callable:
  "heap_ok h \<Longrightarrow> init b ab h ud = Some (CS_ERR_OK, h', ud') \<Longrightarrow> callable ud'"
  using init_result [of h b ab ud CS_ERR_OK h' ud'] by (simp add: init_post_def)

lemma opt_sequence_keeps:
  "callable ud \<Longrightarrow>
     callable (foldl (\<lambda>u (ty, v). snd (opt b u ty v)) ud xs) \<and>
     engine_part_kept ud (foldl (\<lambda>u (ty, v). snd (opt b u ty v)) ud xs)"
proof (induction xs arbitrary: ud)
  case Nil
  then show ?case by (simp add: engine_part_kept_def)
next
  case (Cons x xs)
  obtain ty v e ud' where x: "x = (ty, v)" and o1: "opt b ud ty v = (e, ud')"
    by (metis surj_pair)
  from opt_keeps [OF o1] opt_callable [OF Cons.prems o1] Cons.IH [of ud'] x o1 show ?case
    by (simp add: engine_part_kept_def)
qed

end

text \<open>The two shapes of constructors: with the unchecked register information, and with a checked block.\<close>

lemma malloc_mri_cases:
  assumes "heap_ok h" "malloc_mri ab h = Some (p, h')"
  shows "0 < p \<and> h_live h p = None \<and> heap_ok h' \<and> h_funcs h' = h_funcs h \<and>
    (\<exists>n. h_live h' = (h_live h)(p \<mapsto> n))"
  using assms
  by (cases rule: h_alloc_cases [OF assms(1), of "sz_MCRegisterInfo ab"])
     (auto simp: malloc_mri_def h_malloc_ok fault_simps split: if_splits)

lemma malloc_mri_granted:
  "heap_ok h \<Longrightarrow> h_grant h (h_calls h) \<Longrightarrow> \<exists>p h'. malloc_mri ab h = Some (p, h')"
  by (auto simp: malloc_mri_def h_malloc_ok h_alloc_def fault_simps heap_ok_def heap_wf_def)

lemma malloc_mri_refused:
  "heap_ok h \<Longrightarrow> \<not> h_grant h (h_calls h) \<Longrightarrow> malloc_mri ab h = None"
  by (simp add: malloc_mri_def h_malloc_ok h_alloc_def fault_simps)

lemma M680X_inits_ok [simp]:
  "M680X_disassembler_init = CS_ERR_OK" "M680X_instprinter_init b = CS_ERR_OK"
  by (simp_all add: M680X_disassembler_init_def M680X_disassembler_checks_def
      M680X_instprinter_init_def M680X_instprinter_checks_def)

lemmas module_defs = engine_part_kept_def callable_def Let_def ARM_getRegName_def

lemma init_post_mri:
  assumes "heap_ok h" "malloc_mri ab h = Some (p, h')"
    "engine_part_kept ud ud'" "ud_mode ud' = ud_mode ud" "ud_errnum ud' = ud_errnum ud"
    "callable ud'" "ud_printer_info ud' = p"
  shows "init_post h ud CS_ERR_OK h' ud'"
  using malloc_mri_cases [OF assms(1,2)] assms(3-) by (auto simp: init_post_def)

lemma init_post_info:
  assumes "heap_ok h" "h_alloc h n = (p, h')"
    "p = 0 \<Longrightarrow> ud' = ud" "p = 0 \<Longrightarrow> e = CS_ERR_MEM" "p \<noteq> 0 \<Longrightarrow> e = CS_ERR_OK"
    "p \<noteq> 0 \<Longrightarrow> engine_part_kept ud ud' \<and> ud_mode ud' = ud_mode ud \<and>
      ud_errnum ud' = ud_errnum ud \<and> callable ud' \<and> ud_printer_info ud' = p"
  shows "init_post h ud e h' ud'"
  using assms by (cases rule: h_alloc_cases [OF assms(1), of n])
    (auto simp: init_post_def engine_part_kept_def)

lemma init_post_error: "heap_ok h \<Longrightarrow> e \<noteq> CS_ERR_OK \<Longrightarrow> init_post h ud e h ud"
  by (simp add: init_post_def engine_part_kept_def)

lemma init_granted_mri:
  assumes "heap_ok h" "h_grant h (h_calls h)" "\<And>p h'. \<exists>r. f (p, h') = Some r"
  shows "\<exists>r. (malloc_mri ab h \<bind> f) = Some r"
  using malloc_mri_granted [OF assms(1,2), of ab] assms(3) by auto

interpretation arm: arch_module ARM_global_init "\<lambda>_. ARM_option"
proof (unfold_locales, goal_cases)
  case (1 h b ab ud e h' ud')
  then show ?case
    by (auto simp: ARM_global_init_def module_defs intro!: init_post_mri
        split: bind_splits if_splits)
next
  case (2 h b ab ud)
  then show ?case unfolding ARM_global_init_def by (rule init_granted_mri) (simp add: Let_def)
qed (auto simp: ARM_option_def module_defs split: cs_opt_type.splits if_splits)

interpretation arm64: arch_module AArch64_global_init "\<lambda>_. AArch64_option"
proof (unfold_locales, goal_cases)
  case (1 h b ab ud e h' ud')
  then show ?case
    by (auto simp: AArch64_global_init_def module_defs intro!: init_post_mri
        split: bind_splits if_splits)
next
  case (2 h b ab ud)
  then show ?case unfolding AArch64_global_init_def by (rule init_granted_mri) (simp add: Let_def)
qed (auto simp: AArch64_option_def module_defs split: cs_opt_type.splits if_splits)

interpretation mips: arch_module Mips_global_init "\<lambda>_. Mips_option"
proof (unfold_locales, goal_cases)
  case (1 h b ab ud e h' ud')
  then show ?case
    by (auto simp: Mips_global_init_def module_defs intro!: init_post_mri
        split: bind_splits if_splits)
next
  case (2 h b ab ud)
  then show ?case unfolding Mips_global_init_def by (rule init_granted_mri) (simp add: Let_def)
qed (auto simp: Mips_option_def module_defs split: cs_opt_type.splits if_splits)

interpretation x86: arch_module X86_global_init X86_option
proof (unfold_locales, goal_cases)
  case (1 h b ab ud e h' ud')
  then show ?case
    by (auto simp: X86_global_init_def module_defs intro!: init_post_mri
        split: bind_splits if_splits)
next
  case (2 h b ab ud)
  then show ?case unfolding X86_global_init_def by (rule init_granted_mri) (simp add: Let_def)
qed (auto simp: X86_option_def module_defs split: cs_opt_type.splits if_splits)

interpretation ppc: arch_module PPC_global_init "\<lambda>_. PPC_option"
proof (unfold_locales, goal_cases)
  case (1 h b ab ud e h' ud')
  then show ?case
    by (auto simp: PPC_global_init_def module_defs intro!: init_post_mri
        split: bind_splits if_splits)
next
  case (2 h b ab ud)
  then show ?case unfolding PPC_global_init_def by (rule init_granted_mri) (simp add: Let_def)
qed (auto simp: PPC_option_def module_defs split: cs_opt_type.splits if_splits)

interpretation sparc: arch_module Sparc_global_init "\<lambda>_. Sparc_option"
proof (unfold_locales, goal_cases)
  case (1 h b ab ud e h' ud')
  then show ?case
    by (auto simp: Sparc_global_init_def module_defs intro!: init_post_mri
        split: bind_splits if_splits)
next
  case (2 h b ab ud)
  then show ?case unfolding Sparc_global_init_def by (rule init_granted_mri) (simp add: Let_def)
qed (auto simp: Sparc_option_def module_defs split: cs_opt_type.splits if_splits)

interpretation sysz: arch_module SystemZ_global_init "\<lambda>_. SystemZ_option"
proof (unfold_locales, goal_cases)
  case (1 h b ab ud e h' ud')
  then show ?case
    by (auto simp: SystemZ_global_init_def module_defs intro!: init_post_mri
        split: bind_splits if_splits)
next
  case (2 h b ab ud)
  then show ?case unfolding SystemZ_global_init_def by (rule init_granted_mri) (simp add: Let_def)
qed (auto simp: SystemZ_option_def module_defs split: cs_opt_type.splits if_splits)

interpretation xcore: arch_module XCore_global_init "\<lambda>_. XCore_option"
proof (unfold_locales, goal_cases)
  case (1 h b ab ud e h' ud')
  then show ?case
    by (auto simp: XCore_global_init_def module_defs intro!: init_post_mri
        split: bind_splits if_splits)
next
  case (2 h b ab ud)
  then show ?case unfolding XCore_global_init_def by (rule init_granted_mri) (simp add: Let_def)
qed (auto simp: XCore_option_def module_defs split: cs_opt_type.splits if_splits)

interpretation tms320c64x: arch_module TMS320C64x_global_init "\<lambda>_. TMS320C64x_option"
proof (unfold_locales, goal_cases)
  case (1 h b ab ud e h' ud')
  then show ?case
    by (auto simp: TMS320C64x_global_init_def module_defs intro!: init_post_mri
        split: bind_splits if_splits)
next
  case (2 h b ab ud)
  then show ?case unfolding TMS320C64x_global_init_def by (rule init_granted_mri) (simp add: Let_def)
qed (auto simp: TMS320C64x_option_def module_defs split: cs_opt_type.splits if_splits)

interpretation m68k: arch_module M68K_global_init "\<lambda>_. M68K_option"
proof (unfold_locales, goal_cases)
  case (1 h b ab ud e h' ud')
  then show ?case
    by (cases "h_alloc h (sz_m68k_info ab)")
       (auto simp: M68K_global_init_def h_malloc_ok module_defs
        intro!: init_post_info [where n = "sz_m68k_info ab"] split: if_splits)
next
  case (2 h b ab ud)
  then show ?case
    by (cases "h_alloc h (sz_m68k_info ab)") (auto simp: M68K_global_init_def h_malloc_ok Let_def)
qed (auto simp: M68K_option_def module_defs)

interpretation m680x: arch_module M680X_global_init "\<lambda>_. M680X_option"
proof (unfold_locales, goal_cases)
  case (1 h b ab ud e h' ud')
  then show ?case
    by (cases "h_alloc h (sz_m680x_info ab)")
       (auto simp: M680X_global_init_def h_malloc_ok module_defs
        intro!: init_post_info [where n = "sz_m680x_info ab"] init_post_error split: if_splits)
next
  case (2 h b ab ud)
  then show ?case
    by (cases "h_alloc h (sz_m680x_info ab)") (auto simp: M680X_global_init_def h_malloc_ok Let_def)
qed (auto simp: M680X_option_def module_defs)

interpretation evm: arch_module EVM_global_init "\<lambda>_. EVM_option"
  by unfold_locales
    (auto simp: EVM_global_init_def EVM_option_def init_post_def module_defs split: if_splits)

interpretation mos65xx: arch_module MOS65XX_global_init "\<lambda>_. MOS65XX_option"
  by unfold_locales
    (auto simp: MOS65XX_global_init_def MOS65XX_option_def init_post_def module_defs split: if_splits)

text \<open>Every entry of the tables meets the contract.\<close>

lemma arch_option_fun_eqs:
  "arch_option_fun CS_ARCH_ARM = (\<lambda>_. ARM_option)"
  "arch_option_fun CS_ARCH_ARM64 = (\<lambda>_. AArch64_option)"
  "arch_option_fun CS_ARCH_MIPS = (\<lambda>_. Mips_option)"
  "arch_option_fun CS_ARCH_PPC = (\<lambda>_. PPC_option)"
  "arch_option_fun CS_ARCH_SPARC = (\<lambda>_. Sparc_option)"
  "arch_option_fun CS_ARCH_SYSZ = (\<lambda>_. SystemZ_option)"
  "arch_option_fun CS_ARCH_XCORE = (\<lambda>_. XCore_option)"
  "arch_option_fun CS_ARCH_M68K = (\<lambda>_. M68K_option)"
  "arch_option_fun CS_ARCH_TMS320C64X = (\<lambda>_. TMS320C64x_option)"
  "arch_option_fun CS_ARCH_M680X = (\<lambda>_. M680X_option)"
  "arch_option_fun CS_ARCH_EVM = (\<lambda>_. EVM_option)"
  "arch_option_fun CS_ARCH_MOS65XX = (\<lambda>_. MOS65XX_option)"
  "arch_option_fun CS_ARCH_X86 = X86_option"
  by (rule ext, simp)+

lemmas module_axioms =
   arm.arch_module_axioms
   arm64.arch_module_axioms
   mips.arch_module_axioms
   ppc.arch_module_axioms
   sparc.arch_module_axioms
   sysz.arch_module_axioms
   xcore.arch_module_axioms
   m68k.arch_module_axioms
   tms320c64x.arch_module_axioms
   m680x.arch_module_axioms
   evm.arch_module_axioms
   mos65xx.arch_module_axioms
   x86.arch_module_axioms

lemma arch_modules: "arch_module (arch_init_fun a) (arch_option_fun a)"
  by (cases a) (simp_all add: arch_option_fun_eqs module_axioms del: arch_option_fun.simps)

lemmas arch_init_result = arch_module.init_result [OF arch_modules]
  and arch_init_granted = arch_module.init_granted [OF arch_modules]
  and arch_opt_keeps = arch_module.opt_keeps [OF arch_modules]
  and arch_opt_callable = arch_module.opt_callable [OF arch_modules]

text \<open>The nine constructors that use the block without a test.\<close>

definition unchecked_mri :: "cs_arch \<Rightarrow> bool" where
  "unchecked_mri a \<longleftrightarrow> a \<notin> {CS_ARCH_M68K, CS_ARCH_M680X, CS_ARCH_EVM, CS_ARCH_MOS65XX}"

lemmas mri_init_defs = ARM_global_init_def AArch64_global_init_def Mips_global_init_def
  X86_global_init_def PPC_global_init_def Sparc_global_init_def SystemZ_global_init_def
  XCore_global_init_def TMS320C64x_global_init_def

lemma arch_init_refused:
  "heap_ok h \<Longrightarrow> \<not> h_grant h (h_calls h) \<Longrightarrow> unchecked_mri a \<Longrightarrow> arch_init_fun a b ab h ud = None"
  by (cases a) (simp_all add: unchecked_mri_def mri_init_defs malloc_mri_refused)

lemma arch_init_total:
  assumes "heap_ok h" "\<not> unchecked_mri a"
  shows "\<exists>r. arch_init_fun a b ab h ud = Some r"
  using assms by (cases a) (auto simp: unchecked_mri_def M68K_global_init_def M680X_global_init_def
      EVM_global_init_def MOS65XX_global_init_def h_malloc_ok Let_def split: prod.split)

section \<open>Enabled architectures and modes\<close>

text \<open>The bit of an architecture is set exactly when the build has it.\<close>

lemma bit_all_arch: "bit (all_arch b) (arch_num a) \<longleftrightarrow> b_archs b a"
  by (cases a) (simp_all add: all_arch_def cs_archs_def bit_simps)

end
