(* ===== verification/Engine_Dispatch.thy ===== *)
theory Engine_Dispatch
  imports EVM_Model MOS65XX_Model Arch_Modules
begin

text \<open>
  Calls through the function pointers of a handle. The functions of EVM and MOS65XX are the
  models of their theories; those of the other architectures are a parameter of the development,
  a record of functions with the same types, so that every theorem holds for all of them. A call
  through a null pointer is undefined.

  The theory ends with the contract that a decoder, an id mapping and a printer keep towards the
  engine, as a locale, and its interpretations for the handles of EVM and MOS65XX.
\<close>

record backends =
  x_disasm :: "Disasm_t \<Rightarrow> cs_struct \<Rightarrow> u8 list \<Rightarrow> MCInst \<Rightarrow> u16 \<Rightarrow> u64 \<Rightarrow>
    (bool \<times> MCInst \<times> u16 \<times> cs_struct) option"
  x_insn_id :: "GetID_t \<Rightarrow> heap \<Rightarrow> cs_struct \<Rightarrow> cs_insn \<Rightarrow> u32 \<Rightarrow> (heap \<times> cs_struct \<times> cs_insn) option"
  x_printer :: "Printer_t \<Rightarrow> cs_struct \<Rightarrow> MCInst \<Rightarrow> SStream \<Rightarrow> (MCInst \<times> SStream) option"
  x_post_printer :: "PostPrinter_t \<Rightarrow> cs_struct \<Rightarrow> cs_insn \<Rightarrow> char list \<Rightarrow> MCInst \<Rightarrow>
    (cs_insn \<times> char list) option"
  x_reg_name :: "GetRegName_t \<Rightarrow> cs_struct \<Rightarrow> u32 \<Rightarrow> string option"
  x_insn_name :: "GetInsnName_t \<Rightarrow> cs_struct \<Rightarrow> u32 \<Rightarrow> string option"
  x_group_name :: "GetGroupName_t \<Rightarrow> cs_struct \<Rightarrow> u32 \<Rightarrow> string option"
  x_reg_access :: "GetRegisterAccess_t \<Rightarrow> cs_insn \<Rightarrow> (u16 list \<times> u8 \<times> u16 list \<times> u8) option"

definition call_disasm :: "backends \<Rightarrow> cs_struct \<Rightarrow> u8 list \<Rightarrow> MCInst \<Rightarrow> u16 \<Rightarrow> u64 \<Rightarrow>
    (bool \<times> MCInst \<times> u16 \<times> cs_struct) option" where
  "call_disasm bk ud code MI sz address =
     (case ud_disasm ud of
        None \<Rightarrow> None
      | Some f \<Rightarrow>
          if f = Disasm_t.EVM_getInstruction
          then map_option (\<lambda>(r, MI, sz). (r, MI, sz, ud)) (EVM_Model.EVM_getInstruction ud code MI sz address)
          else if f = Disasm_t.MOS65XX_getInstruction
          then map_option (\<lambda>(r, MI, sz). (r, MI, sz, ud)) (MOS65XX_Model.MOS65XX_getInstruction ud code MI sz address)
          else x_disasm bk f ud code MI sz address)"

definition call_insn_id :: "backends \<Rightarrow> heap \<Rightarrow> cs_struct \<Rightarrow> cs_insn \<Rightarrow> u32 \<Rightarrow>
    (heap \<times> cs_struct \<times> cs_insn) option" where
  "call_insn_id bk h ud insn idn =
     (case ud_insn_id ud of
        None \<Rightarrow> None
      | Some f \<Rightarrow>
          if f = GetID_t.EVM_get_insn_id
          then map_option (\<lambda>i. (h, ud, i)) (EVM_Model.EVM_get_insn_id ud insn idn)
          else if f = GetID_t.MOS65XX_get_insn_id
          then map_option (\<lambda>i. (h, ud, i)) (MOS65XX_Model.MOS65XX_get_insn_id insn idn)
          else x_insn_id bk f h ud insn idn)"

definition call_printer :: "backends \<Rightarrow> cs_struct \<Rightarrow> MCInst \<Rightarrow> SStream \<Rightarrow> (MCInst \<times> SStream) option" where
  "call_printer bk ud MI ss =
     (case ud_printer ud of
        None \<Rightarrow> None
      | Some f \<Rightarrow>
          if f = Printer_t.EVM_printInst then map_option (Pair MI) (EVM_Model.EVM_printInst MI ss)
          else if f = Printer_t.MOS65XX_printInst then map_option (Pair MI) (MOS65XX_Model.MOS65XX_printInst MI ss)
          else x_printer bk f ud MI ss)"

definition call_post_printer :: "backends \<Rightarrow> cs_struct \<Rightarrow> cs_insn \<Rightarrow> char list \<Rightarrow> MCInst \<Rightarrow>
    (cs_insn \<times> char list) option" where
  "call_post_printer bk ud insn buffer MI =
     (case ud_post_printer ud of None \<Rightarrow> Some (insn, buffer)
      | Some f \<Rightarrow> x_post_printer bk f ud insn buffer MI)"

text \<open>The name functions; the outer option is the call, the inner one the returned pointer.\<close>

definition call_reg_name :: "backends \<Rightarrow> GetRegName_t \<Rightarrow> cs_struct \<Rightarrow> u32 \<Rightarrow> string option" where
  "call_reg_name bk f ud reg =
     (if f = GetRegName_t.MOS65XX_reg_name then MOS65XX_Model.MOS65XX_reg_name reg
      else x_reg_name bk f ud reg)"

definition call_insn_name :: "backends \<Rightarrow> GetInsnName_t \<Rightarrow> cs_struct \<Rightarrow> u32 \<Rightarrow> string option" where
  "call_insn_name bk f ud insn =
     (if f = GetInsnName_t.EVM_insn_name then EVM_Model.EVM_insn_name insn
      else if f = GetInsnName_t.MOS65XX_insn_name then MOS65XX_Model.MOS65XX_insn_name insn
      else x_insn_name bk f ud insn)"

definition call_group_name :: "backends \<Rightarrow> GetGroupName_t \<Rightarrow> cs_struct \<Rightarrow> u32 \<Rightarrow> string option" where
  "call_group_name bk f ud g =
     (if f = GetGroupName_t.EVM_group_name then EVM_Model.EVM_group_name g
      else if f = GetGroupName_t.MOS65XX_group_name then MOS65XX_Model.MOS65XX_group_name g
      else x_group_name bk f ud g)"

section \<open>The contract of an architecture towards the engine\<close>

text \<open>
  A handle of an architecture is described by four functions: which byte strings start with an
  instruction, how long it is, its public id, and its text. The laws say that the three calls of
  the engine (decode, map the id, print) never fault on it, agree with the description, never
  consume more than there is, and touch nothing but what is theirs.
\<close>

definition evm_handle :: "cs_struct \<Rightarrow> bool" where
  "evm_handle ud \<longleftrightarrow> ud_arch ud = CS_ARCH_EVM \<and> ud_disasm ud = Some Disasm_t.EVM_getInstruction \<and>
     ud_insn_id ud = Some GetID_t.EVM_get_insn_id \<and> ud_printer ud = Some Printer_t.EVM_printInst \<and>
     ud_post_printer ud = None"

definition mos_handle :: "cs_struct \<Rightarrow> bool" where
  "mos_handle ud \<longleftrightarrow> ud_arch ud = CS_ARCH_MOS65XX \<and> ud_disasm ud = Some Disasm_t.MOS65XX_getInstruction \<and>
     ud_insn_id ud = Some GetID_t.MOS65XX_get_insn_id \<and> ud_printer ud = Some Printer_t.MOS65XX_printInst \<and>
     ud_post_printer ud = None"

text \<open>
  \<open>kept i i'\<close>: the decoder and the id mapping may write the id and the contents of the details,
  and leave the rest of the instruction record, the address of its details included.
\<close>

definition kept :: "cs_insn \<Rightarrow> cs_insn \<Rightarrow> bool" where
  "kept i i' \<longleftrightarrow> in_address i' = in_address i \<and> in_size i' = in_size i \<and> in_bytes i' = in_bytes i \<and>
     in_mnemonic i' = in_mnemonic i \<and> in_op_str i' = in_op_str i \<and>
     map_option fst (in_detail i') = map_option fst (in_detail i) \<and> (insn_wf i \<longrightarrow> insn_wf i')"

definition decodable :: "cs_struct \<Rightarrow> MCInst \<Rightarrow> bool" where
  "decodable ud MI \<longleftrightarrow> mci_wf MI \<and> op_raw (mi_Operands MI ! 0) = 0 \<and>
     (ud_detail ud \<noteq> 0 \<longrightarrow> in_detail (mi_flat_insn MI) \<noteq> None)"

locale backend =
  fixes is_handle :: "cs_struct \<Rightarrow> bool"
    and valid :: "u8 list \<Rightarrow> bool"
    and insn_len :: "u8 list \<Rightarrow> nat"
    and insn_num :: "u8 list \<Rightarrow> u32"
    and insn_text :: "u8 list \<Rightarrow> u64 \<Rightarrow> string"
  assumes reject: "is_handle ud \<Longrightarrow> mci_wf MI \<Longrightarrow> \<not> valid code \<Longrightarrow>
      \<exists>MI' sz'. call_disasm bk ud code MI sz address = Some (False, MI', sz', ud) \<and> mci_wf MI' \<and>
        mi_flat_insn MI' = mi_flat_insn MI"
    and accept: "is_handle ud \<Longrightarrow> decodable ud MI \<Longrightarrow> valid code \<Longrightarrow>
      \<exists>MI'. call_disasm bk ud code MI sz address = Some (True, MI', of_nat (insn_len code), ud) \<and>
        mci_wf MI' \<and> kept (mi_flat_insn MI) (mi_flat_insn MI') \<and>
        (mi_OpcodePub MI' = 0 \<or> mi_OpcodePub MI' = insn_num code) \<and>
        (\<forall>insn h. insn_wf insn \<longrightarrow> (ud_detail ud \<noteq> 0 \<longrightarrow> in_detail insn \<noteq> None) \<longrightarrow>
           (\<exists>i. call_insn_id bk h ud insn (mi_Opcode MI') = Some (h, ud, i) \<and> kept insn i \<and>
              in_id i = insn_num code)) \<and>
        (\<forall>insn ss. insn_wf insn \<longrightarrow> ss_holds ss [] \<longrightarrow>
           (\<exists>ss'. call_printer bk ud (MI'\<lparr>mi_flat_insn := insn\<rparr>) ss =
               Some (MI'\<lparr>mi_flat_insn := insn\<rparr>, ss') \<and> ss_holds ss' (insn_text code address)))"
    and no_post: "is_handle ud \<Longrightarrow> ud_post_printer ud = None \<and> ud_arch ud \<noteq> CS_ARCH_X86"
    and len_range: "valid code \<Longrightarrow> 0 < insn_len code \<and> insn_len code \<le> length code \<and> insn_len code \<le> 33"
    and text_short: "valid code \<Longrightarrow> length (takeWhile (\<lambda>c. c \<noteq> CHR '' '' \<and> c \<noteq> CHR 0x09) (insn_text code address)) < 32"
    and stable: "is_handle ud \<Longrightarrow> engine_part_kept ud ud' \<Longrightarrow> ud_disasm ud' = ud_disasm ud \<Longrightarrow>
      ud_insn_id ud' = ud_insn_id ud \<Longrightarrow> ud_printer ud' = ud_printer ud \<Longrightarrow>
      ud_post_printer ud' = ud_post_printer ud \<Longrightarrow> is_handle ud'"

lemma kept_refl [simp]: "kept i i"
  by (simp add: kept_def)

lemma kept_trans: "kept i j \<Longrightarrow> kept j k \<Longrightarrow> kept i k"
  by (auto simp: kept_def)

lemma kept_id: "kept i (i\<lparr>in_id := n\<rparr>)"
  by (simp add: kept_def insn_wf_def)

lemma kept_detail: "in_detail i = Some (p, d) \<Longrightarrow> detail_wf d' \<Longrightarrow>
    kept i (i\<lparr>in_id := n, in_detail := Some (p, d')\<rparr>)"
  by (simp add: kept_def insn_wf_def)

lemma takeWhile_length_prefix:
  "P x = False \<Longrightarrow> length (takeWhile P (s @ x # t)) \<le> length s"
proof (induction s)
  case (Cons a s)
  then show ?case by simp
qed simp

lemma evm_kept:
  assumes "evm_valid code" "insn_wf insn" "ud_detail ud \<noteq> 0 \<longrightarrow> in_detail insn \<noteq> None"
  shows "\<exists>i. EVM_Model.EVM_get_insn_id ud insn (ucast (hd code)) = Some i \<and> kept insn i \<and>
    in_id i = ucast (hd code)"
proof (cases "in_detail insn")
  case None
  with assms(3) have "ud_detail ud = 0" by auto
  then show ?thesis using EVM_get_insn_id_None [of ud insn "hd code"] kept_id by simp
next
  case (Some pd)
  obtain p d where pd: "pd = (p, d)" by (cases pd)
  have "evm_defined (hd code)" using assms(1) by (auto simp: evm_valid_def split: list.splits)
  moreover have "detail_wf d" using assms(2) Some pd by (auto simp: insn_wf_def)
  ultimately show ?thesis
    using EVM_get_insn_id_Some [of insn p d "hd code" ud] Some pd
    by (auto simp: detail_wf_def intro!: kept_detail)
qed

interpretation evm_backend: backend evm_handle evm_valid evm_insn_len
  "\<lambda>code. ucast (hd code)" "\<lambda>code address. evm_text code"
proof (unfold_locales, goal_cases)
  case (1 ud MI code bk sz address)
  then show ?case using EVM_reject [of code ud MI sz address]
    by (auto simp: call_disasm_def evm_handle_def)
next
  case (2 ud MI code bk sz address)
  then have wf: "mci_wf MI" by (simp add: decodable_def)
  from EVM_accept [OF 2(3) wf, of ud sz address] obtain MI' where
    g: "EVM_Model.EVM_getInstruction ud code MI sz address = Some (True, MI', of_nat (evm_insn_len code))"
    and MI': "mci_wf MI'" "mi_Opcode MI' = ucast (hd code)" "mi_OpcodePub MI' = ucast (hd code)"
      "take (evm_push_len (hd code)) (mi_evm_data MI') = take (evm_push_len (hd code)) (tl code)"
    and flat: "case in_detail (mi_flat_insn MI) of None \<Rightarrow> mi_flat_insn MI' = mi_flat_insn MI
      | Some (p, d) \<Rightarrow> \<exists>d'. detail_wf d' \<and>
         mi_flat_insn MI' = (mi_flat_insn MI)\<lparr>in_id := ucast (hd code), in_detail := Some (p, d')\<rparr> \<and>
         (ud_detail ud \<noteq> 0 \<longrightarrow> d_evm d' = evm_insns ! unat (hd code) \<and> detail_groups d' = evm_groups (hd code))"
    by blast
  have k: "kept (mi_flat_insn MI) (mi_flat_insn MI')"
    using flat by (cases "in_detail (mi_flat_insn MI)") (auto intro: kept_detail)
  have p: "\<exists>ss'. EVM_Model.EVM_printInst (MI'\<lparr>mi_flat_insn := insn\<rparr>) ss = Some ss' \<and> ss_holds ss' (evm_text code)"
    if "insn_wf insn" "ss_holds ss []" for insn ss
    using that MI' by (intro EVM_print [OF 2(3)]) (simp_all add: mci_wf_def)
  show ?case
    using 2(1) g MI' k p evm_kept [OF 2(3)]
    by (intro exI [of _ MI']) (auto simp: call_disasm_def call_insn_id_def call_printer_def evm_handle_def)
next
  case (3 ud)
  then show ?case by (simp add: evm_handle_def)
next
  case (4 code)
  then show ?case using evm_push_len_le [of "hd code"]
    by (auto simp: evm_valid_def evm_insn_len_def split: list.splits)
next
  case (5 code address)
  then have "evm_defined (hd code)" by (auto simp: evm_valid_def split: list.splits)
  from plain_name_chars(5) [OF evm_table_row(4) [OF this]]
  have l: "length (evm_name (hd code)) \<le> 14" .
  show ?case
  proof (cases "evm_push_len (hd code) = 0")
    case True
    then show ?thesis using l by (auto simp: evm_text_def intro: le_less_trans [OF length_takeWhile_le])
  next
    case False
    then show ?thesis
      using l takeWhile_length_prefix [of "\<lambda>c. c \<noteq> CHR '' '' \<and> c \<noteq> CHR 0x09" "CHR 0x09" "evm_name (hd code)"
          "hex_bytes (take (evm_push_len (hd code)) (tl code))"]
      by (simp add: evm_text_def)
  qed
next
  case (6 ud ud')
  then show ?case by (simp add: evm_handle_def engine_part_kept_def)
qed

lemma mos_kept:
  assumes "insn_wf insn"
  shows "\<exists>i. MOS65XX_Model.MOS65XX_get_insn_id insn (ucast (b :: u8)) = Some i \<and> kept insn i \<and>
    in_id i = of_nat (mos65xx_insn_num (oi_ins (mos_op b)))"
proof -
  have "(ucast b :: u32) < 256" using unat_less_256 [of b] by (simp add: word_less_nat_alt)
  then show ?thesis using unat_less_256 [of b]
    by (simp add: MOS65XX_Model.MOS65XX_get_insn_id_def fault_simps kept_id)
qed

interpretation mos_backend: backend mos_handle mos_valid mos_insn_len
  "\<lambda>code. of_nat (mos65xx_insn_num (oi_ins (mos_op (hd code))))" mos_text
proof (unfold_locales, goal_cases)
  case (1 ud MI code bk sz address)
  then show ?case using MOS65XX_reject [of code ud MI sz address]
    by (auto simp: call_disasm_def mos_handle_def)
next
  case (2 ud MI code bk sz address)
  then have wf: "mci_wf MI" "op_raw (mi_Operands MI ! 0) = 0" by (simp_all add: decodable_def)
  from MOS65XX_accept [OF 2(3) wf, of ud sz address] obtain MI' where
    g: "MOS65XX_Model.MOS65XX_getInstruction ud code MI sz address = Some (True, MI', of_nat (mos_insn_len code))"
    and MI': "mci_wf MI'" "mi_address MI' = address" "mi_Opcode MI' = ucast (hd code)"
      "mi_OpcodePub MI' = of_nat (mos65xx_insn_num (oi_ins (mos_op (hd code))))"
      "op_raw (mi_Operands MI' ! 0) = mos_value code"
    and flat: "case in_detail (mi_flat_insn MI) of None \<Rightarrow> mi_flat_insn MI' = mi_flat_insn MI
      | Some (p, d) \<Rightarrow> \<exists>d'. mos_detail_ok (hd code) (of_nat (mos_operand code)) d' \<and>
         mi_flat_insn MI' = (mi_flat_insn MI)\<lparr>in_detail := Some (p, d')\<rparr>"
    by blast
  have k: "kept (mi_flat_insn MI) (mi_flat_insn MI')"
    using flat by (cases "in_detail (mi_flat_insn MI)")
      (auto simp: kept_def insn_wf_def mos_detail_ok_def)
  have p: "\<exists>ss'. MOS65XX_Model.MOS65XX_printInst (MI'\<lparr>mi_flat_insn := insn\<rparr>) ss = Some ss' \<and>
      ss_holds ss' (mos_text code address)"
    if "insn_wf insn" "ss_holds ss []" for insn ss
    using that MI' by (intro MOS65XX_print [OF 2(3)]) (simp_all add: mci_wf_def)
  show ?case
    using 2(1) g MI' k p mos_kept [of _ "hd code"]
    by (intro exI [of _ MI']) (auto simp: call_disasm_def call_insn_id_def call_printer_def mos_handle_def)
next
  case (3 ud)
  then show ?case by (simp add: mos_handle_def)
next
  case (4 code)
  then show ?case using mos_len_range [of "oi_am (mos_op (hd code))"]
    by (auto simp: mos_valid_def mos_insn_len_def)
next
  case (5 code address)
  have "length (takeWhile (\<lambda>c. c \<noteq> CHR '' '' \<and> c \<noteq> CHR 0x09) (mos_text code address)) \<le> length (mos_text code address)"
    by (rule length_takeWhile_le)
  also have "\<dots> \<le> 27"
    using mos_name_chars(5) [of "hd code"] mos_operand_text_safe(2) [OF mos_operand_less [of code],
        of "oi_am (mos_op (hd code))" address]
    by (simp add: mos_text_def)
  finally show ?case by simp
next
  case (6 ud ud')
  then show ?case by (simp add: mos_handle_def engine_part_kept_def)
qed

end
