(* ===== verification/Engine_Handle.thy ===== *)
theory Engine_Handle
  imports Engine_Dispatch
begin

text \<open>
  The life of a handle in \<^verbatim>\<open>cs.c\<close>: \<^verbatim>\<open>cs_open\<close>, \<^verbatim>\<open>cs_option\<close>,
  \<^verbatim>\<open>cs_close\<close>, \<^verbatim>\<open>cs_errno\<close>, and the queries that need no instruction. The state
  of the library is the heap and the map from handle addresses to the open handles; a call with a
  handle that is not open is undefined, and the null handle is what the code tests for.
\<close>

record world =
  w_heap :: heap
  w_handles :: "nat \<rightharpoonup> cs_struct"

definition get_handle :: "world \<Rightarrow> nat \<Rightarrow> cs_struct option" where
  "get_handle w csh = w_handles w csh"

definition set_handle :: "world \<Rightarrow> nat \<Rightarrow> heap \<Rightarrow> cs_struct \<Rightarrow> world" where
  "set_handle w csh h ud = w\<lparr>w_heap := h, w_handles := (w_handles w)(csh \<mapsto> ud)\<rparr>"

section \<open>Version, support, errors\<close>

abbreviation (input) CS_API_MAJOR :: u32 where "CS_API_MAJOR \<equiv> 5"
abbreviation (input) CS_API_MINOR :: u32 where "CS_API_MINOR \<equiv> 0"

text \<open>The out-parameters are written only when both pointers are given.\<close>

definition cs_version :: "u32 option \<Rightarrow> u32 option \<Rightarrow> u32 \<times> u32 option \<times> u32 option" where
  "cs_version major minor =
     ((push_bit 8 CS_API_MAJOR) + CS_API_MINOR,
      if major \<noteq> None \<and> minor \<noteq> None then (Some CS_API_MAJOR, Some CS_API_MINOR) else (major, minor))"

definition cs_support :: "build \<Rightarrow> int \<Rightarrow> bool" where
  "cs_support b query =
     (if query = int CS_ARCH_ALL
      then all_arch b = foldl (\<lambda>m a. m OR push_bit (arch_num a) 1) 0 cs_archs
      else if 0 \<le> query \<and> query < int CS_ARCH_MAX
      then all_arch b AND push_bit (nat query) 1 \<noteq> 0
      else if query = int CS_SUPPORT_DIET then b_diet b
      else if query = int CS_SUPPORT_X86_REDUCE then b_archs b CS_ARCH_X86 \<and> b_x86_reduce b
      else False)"

definition cs_errno :: "world \<Rightarrow> nat \<Rightarrow> cs_err option" where
  "cs_errno w csh = (if csh = 0 then Some CS_ERR_CSH else map_option ud_errnum (get_handle w csh))"

definition cs_strerror :: "int \<Rightarrow> string" where
  "cs_strerror code =
     (if code = err_code CS_ERR_OK then ''OK (CS_ERR_OK)''
      else if code = err_code CS_ERR_MEM then ''Out of memory (CS_ERR_MEM)''
      else if code = err_code CS_ERR_ARCH then ''Invalid/unsupported architecture(CS_ERR_ARCH)''
      else if code = err_code CS_ERR_HANDLE then ''Invalid handle (CS_ERR_HANDLE)''
      else if code = err_code CS_ERR_CSH then ''Invalid csh (CS_ERR_CSH)''
      else if code = err_code CS_ERR_MODE then ''Invalid mode (CS_ERR_MODE)''
      else if code = err_code CS_ERR_OPTION then ''Invalid option (CS_ERR_OPTION)''
      else if code = err_code CS_ERR_DETAIL then ''Details are unavailable (CS_ERR_DETAIL)''
      else if code = err_code CS_ERR_MEMSETUP then ''Dynamic memory management uninitialized (CS_ERR_MEMSETUP)''
      else if code = err_code CS_ERR_VERSION then ''Different API version between core & binding (CS_ERR_VERSION)''
      else if code = err_code CS_ERR_DIET then ''Information irrelevant in diet engine (CS_ERR_DIET)''
      else if code = err_code CS_ERR_SKIPDATA
      then ''Information irrelevant for ''@ [CHR 0x27] @ ''data'' @ [CHR 0x27] @ '' instruction in SKIPDATA mode (CS_ERR_SKIPDATA)''
      else if code = err_code CS_ERR_X86_ATT then ''AT&T syntax is unavailable (CS_ERR_X86_ATT)''
      else if code = err_code CS_ERR_X86_INTEL then ''INTEL syntax is unavailable (CS_ERR_X86_INTEL)''
      else if code = err_code CS_ERR_X86_MASM then ''MASM syntax is unavailable (CS_ERR_X86_MASM)''
      else ''Unknown error code'')"

section \<open>Opening and closing\<close>

text \<open>The block of \<^verbatim>\<open>calloc\<close>: all fields zero.\<close>

definition zero_struct :: cs_struct where
  "zero_struct = \<lparr>ud_arch = CS_ARCH_ARM, ud_mode = 0, ud_printer = None, ud_printer_info = 0,
     ud_disasm = None, ud_getinsn_info = 0, ud_reg_name = None, ud_insn_name = None,
     ud_group_name = None, ud_insn_id = None, ud_post_printer = None, ud_errnum = CS_ERR_OK,
     ud_ITStates = replicate 8 0, ud_ITsize = 0, ud_detail = 0, ud_imm_unsigned = 0, ud_syntax = 0,
     ud_doing_mem = False, ud_insn_cache = None, ud_get_regname = None, ud_skipdata = False,
     ud_skipdata_size = 0,
     ud_skipdata_setup = \<lparr>sk_mnemonic = None, sk_callback = None, sk_user_data = 0\<rparr>,
     ud_regsize_map = None, ud_reg_access = None, ud_mnem_list = []\<rparr>"

definition SKIPDATA_MNEM :: string where "SKIPDATA_MNEM = ''.byte''"

text \<open>
  \<^verbatim>\<open>arch\<close> is the number the caller passes, \<^verbatim>\<open>handle\<close> the value of the
  out-parameter before and after the call.
\<close>

definition cs_open :: "build \<Rightarrow> abi \<Rightarrow> world \<Rightarrow> nat \<Rightarrow> u32 \<Rightarrow> nat \<Rightarrow> (world \<times> cs_err \<times> nat) option" where
  "cs_open b ab w arch mode handle =
     (if \<not> funcs_set (h_funcs (w_heap w)) then Some (w, CS_ERR_MEMSETUP, handle)
      else if arch < CS_ARCH_MAX \<and> cs_arch_init b (cs_archs ! arch) \<noteq> None
      then (if mode AND cs_arch_disallowed_mode_mask b (cs_archs ! arch) \<noteq> 0
            then Some (w, CS_ERR_MODE, 0)
            else do {
              (p, h) \<leftarrow> h_calloc (w_heap w) (sz_cs_struct ab);
              if p = 0 then Some (w\<lparr>w_heap := h\<rparr>, CS_ERR_MEM, handle)
              else do {
                let ud = zero_struct\<lparr>ud_errnum := CS_ERR_OK, ud_arch := cs_archs ! arch,
                  ud_mode := mode, ud_detail := CS_OPT_OFF,
                  ud_skipdata_setup := (ud_skipdata_setup zero_struct)\<lparr>sk_mnemonic := Some SKIPDATA_MNEM\<rparr>\<rparr>;
                init \<leftarrow> cs_arch_init b (ud_arch ud);
                (err, h, ud) \<leftarrow> init b ab h ud;
                if err \<noteq> CS_ERR_OK then do {
                  h \<leftarrow> h_free h p;
                  Some (w\<lparr>w_heap := h\<rparr>, err, 0) }
                else Some (set_handle w p h ud, CS_ERR_OK, p) } })
      else Some (w, CS_ERR_ARCH, 0))"

definition cs_close :: "world \<Rightarrow> nat \<Rightarrow> (world \<times> cs_err \<times> nat) option" where
  "cs_close w csh =
     (if csh = 0 then Some (w, CS_ERR_CSH, csh)
      else do {
        ud \<leftarrow> get_handle w csh;
        h \<leftarrow> (if ud_printer_info ud \<noteq> 0 then h_free (w_heap w) (ud_printer_info ud) else Some (w_heap w));
        h \<leftarrow> h_free_all h (map mn_node (ud_mnem_list ud));
        h \<leftarrow> h_free h (case ud_insn_cache ud of None \<Rightarrow> 0 | Some (p, c) \<Rightarrow> p);
        h \<leftarrow> h_free h csh;
        Some (w\<lparr>w_heap := h, w_handles := (w_handles w)(csh := None)\<rparr>, CS_ERR_OK, 0) })"

section \<open>Options\<close>

definition skipdata_size :: "cs_struct \<Rightarrow> u8" where
  "skipdata_size ud =
     (case ud_arch ud of
        CS_ARCH_ARM \<Rightarrow> if ud_mode ud AND CS_MODE_THUMB \<noteq> 0 then 2 else 4
      | CS_ARCH_ARM64 \<Rightarrow> 4 | CS_ARCH_MIPS \<Rightarrow> 4 | CS_ARCH_PPC \<Rightarrow> 4 | CS_ARCH_SPARC \<Rightarrow> 4
      | CS_ARCH_SYSZ \<Rightarrow> 2 | CS_ARCH_X86 \<Rightarrow> 1 | CS_ARCH_XCORE \<Rightarrow> 2 | CS_ARCH_M68K \<Rightarrow> 2
      | CS_ARCH_TMS320C64X \<Rightarrow> 4 | CS_ARCH_M680X \<Rightarrow> 1 | CS_ARCH_EVM \<Rightarrow> 1 | CS_ARCH_MOS65XX \<Rightarrow> 1)"

text \<open>
  The list of customised mnemonics. Replacing walks the list to the entry of the id; the new text
  is copied with the terminating idiom of \<^verbatim>\<open>strncpy\<close>.
\<close>

definition set_mnem :: "char list \<Rightarrow> string \<Rightarrow> char list option" where
  "set_mnem buf s = do { d \<leftarrow> strncpy buf s (CS_MNEMONIC_SIZE - 1); aset d (CS_MNEMONIC_SIZE - 1) NUL }"

fun mnem_replace :: "insn_mnem list \<Rightarrow> u32 \<Rightarrow> string \<Rightarrow> insn_mnem list option option" where
  "mnem_replace [] idn s = Some None"
| "mnem_replace (m # ms) idn s =
     (if mn_id m = idn then do {
        buf \<leftarrow> set_mnem (mn_mnemonic m) s;
        Some (Some (m\<lparr>mn_mnemonic := buf\<rparr> # ms)) }
      else do {
        r \<leftarrow> mnem_replace ms idn s;
        Some (map_option (Cons m) r) })"

text \<open>Deleting unlinks the first entry with the id and returns the block to free.\<close>

fun mnem_delete :: "insn_mnem list \<Rightarrow> u32 \<Rightarrow> insn_mnem list \<times> nat option" where
  "mnem_delete [] idn = ([], None)"
| "mnem_delete (m # ms) idn =
     (if mn_id m = idn then (ms, Some (mn_node m))
      else (case mnem_delete ms idn of (ms', p) \<Rightarrow> (m # ms', p)))"

text \<open>\<open>junk\<close> is the contents of a new node's character array before it is written.\<close>

definition opt_mnemonic :: "abi \<Rightarrow> char list \<Rightarrow> heap \<Rightarrow> cs_struct \<Rightarrow> cs_opt_mnem \<Rightarrow>
    (heap \<times> cs_struct) option" where
  "opt_mnemonic ab junk h ud opt =
     (if om_id opt = 0 then Some (h, ud)
      else (case om_mnemonic opt of
        Some s \<Rightarrow> do {
          r \<leftarrow> mnem_replace (ud_mnem_list ud) (om_id opt) s;
          (case r of
             Some ms \<Rightarrow> Some (h, ud\<lparr>ud_mnem_list := ms\<rparr>)
           | None \<Rightarrow> do {
               (p, h) \<leftarrow> h_malloc h (sz_insn_mnem ab);
               need (p \<noteq> 0);
               buf \<leftarrow> set_mnem junk s;
               Some (h, ud\<lparr>ud_mnem_list := \<lparr>mn_node = p, mn_id = om_id opt, mn_mnemonic = buf\<rparr> # ud_mnem_list ud\<rparr>) }) }
      | None \<Rightarrow>
          (case mnem_delete (ud_mnem_list ud) (om_id opt) of
             (ms, None) \<Rightarrow> Some (h, ud)
           | (ms, Some p) \<Rightarrow> do {
               h \<leftarrow> h_free h p;
               Some (h, ud\<lparr>ud_mnem_list := ms\<rparr>) })))"

text \<open>
  \<^verbatim>\<open>cs_option\<close>. The value is a number or an option structure; the code casts it according
  to the option, so a value of the wrong kind is undefined. A null \<^verbatim>\<open>CS_OPT_SKIPDATA_SETUP\<close>
  value is the number 0. The options that reach the architecture's handler pass numbers.
\<close>

definition num_of :: "opt_value \<Rightarrow> u64 option" where
  "num_of v = (case v of V_num n \<Rightarrow> Some n | _ \<Rightarrow> None)"

definition cs_option :: "build \<Rightarrow> abi \<Rightarrow> char list \<Rightarrow> world \<Rightarrow> nat \<Rightarrow> cs_opt_type \<Rightarrow> opt_value \<Rightarrow>
    (world \<times> cs_err) option" where
  "cs_option b ab junk w csh ty v =
     (if ty = CS_OPT_MEM
      then (case v of
              V_mem m \<Rightarrow> Some (w\<lparr>w_heap := (w_heap w)\<lparr>h_funcs := m\<rparr>\<rparr>, CS_ERR_OK)
            | _ \<Rightarrow> None)
      else if csh = 0 then Some (w, CS_ERR_CSH)
      else do {
        ud \<leftarrow> get_handle w csh;
        let h = w_heap w;
        let arch_opt = (do {
          n \<leftarrow> num_of v;
          f \<leftarrow> cs_arch_option b (ud_arch ud);
          Some (let (e, ud) = f ud ty n in (set_handle w csh h ud, e)) });
        (case ty of
           CS_OPT_UNSIGNED \<Rightarrow> do {
             n \<leftarrow> num_of v;
             Some (set_handle w csh h (ud\<lparr>ud_imm_unsigned := ucast n\<rparr>), CS_ERR_OK) }
         | CS_OPT_DETAIL \<Rightarrow> do {
             n \<leftarrow> num_of v;
             Some (set_handle w csh h (ud\<lparr>ud_detail := ucast n\<rparr>), CS_ERR_OK) }
         | CS_OPT_SKIPDATA \<Rightarrow> do {
             n \<leftarrow> num_of v;
             let ud = ud\<lparr>ud_skipdata := (n = ucast CS_OPT_ON)\<rparr>;
             let ud = (if ud_skipdata ud \<and> ud_skipdata_size ud = 0
                       then ud\<lparr>ud_skipdata_size := skipdata_size ud\<rparr> else ud);
             Some (set_handle w csh h ud, CS_ERR_OK) }
         | CS_OPT_SKIPDATA_SETUP \<Rightarrow>
             (case v of
                V_skipdata s \<Rightarrow> Some (set_handle w csh h (ud\<lparr>ud_skipdata_setup := s\<rparr>), CS_ERR_OK)
              | V_num n \<Rightarrow> if n = 0 then Some (w, CS_ERR_OK) else None
              | _ \<Rightarrow> None)
         | CS_OPT_MNEMONIC \<Rightarrow>
             (case v of
                V_mnem opt \<Rightarrow> do {
                  (h, ud) \<leftarrow> opt_mnemonic ab junk h ud opt;
                  Some (set_handle w csh h ud, CS_ERR_OK) }
              | _ \<Rightarrow> None)
         | CS_OPT_MODE \<Rightarrow> do {
             n \<leftarrow> num_of v;
             if n AND ucast (cs_arch_disallowed_mode_mask b (ud_arch ud)) \<noteq> 0
             then Some (w, CS_ERR_OPTION)
             else arch_opt }
         | _ \<Rightarrow> arch_opt) })"

section \<open>The blocks of a handle\<close>

text \<open>
  The heap blocks that belong to a handle: its own, that of \<^verbatim>\<open>printer_info\<close>, the nodes of
  the mnemonic list and the cache of the id mapping. The invariant of the library: they are live,
  and no two handles share one.
\<close>

definition own_front :: "nat \<Rightarrow> cs_struct \<Rightarrow> nat list" where
  "own_front csh ud = csh # (if ud_printer_info ud = 0 then [] else [ud_printer_info ud])"

definition own_back :: "cs_struct \<Rightarrow> nat list" where
  "own_back ud = (case ud_insn_cache ud of None \<Rightarrow> [] | Some (p, c) \<Rightarrow> [p])"

definition owned :: "nat \<Rightarrow> cs_struct \<Rightarrow> nat list" where
  "owned csh ud = own_front csh ud @ map mn_node (ud_mnem_list ud) @ own_back ud"

definition mnem_wf :: "insn_mnem \<Rightarrow> bool" where
  "mnem_wf m \<longleftrightarrow> length (mn_mnemonic m) = CS_MNEMONIC_SIZE \<and> holds (mn_mnemonic m) (cstr (mn_mnemonic m)) \<and>
     mn_id m \<noteq> 0"

definition handle_wf :: "cs_struct \<Rightarrow> bool" where
  "handle_wf ud \<longleftrightarrow> callable ud \<and> list_all mnem_wf (ud_mnem_list ud) \<and>
     distinct (map mn_id (ud_mnem_list ud))"

definition world_ok :: "world \<Rightarrow> bool" where
  "world_ok w \<longleftrightarrow> heap_ok (w_heap w) \<and>
     (\<forall>csh ud. w_handles w csh = Some ud \<longrightarrow>
        handle_wf ud \<and> distinct (owned csh ud) \<and> set (owned csh ud) \<subseteq> dom (h_live (w_heap w))) \<and>
     (\<forall>csh csh' ud ud'. w_handles w csh = Some ud \<longrightarrow> w_handles w csh' = Some ud' \<longrightarrow> csh \<noteq> csh' \<longrightarrow>
        set (owned csh ud) \<inter> set (owned csh' ud') = {})"

lemma world_okD:
  assumes "world_ok w" "w_handles w csh = Some ud"
  shows "heap_ok (w_heap w)" "handle_wf ud" "distinct (owned csh ud)"
    "set (owned csh ud) \<subseteq> dom (h_live (w_heap w))"
  using assms by (simp_all add: world_ok_def)

lemma owned_self [simp]: "csh \<in> set (owned csh ud)"
  by (simp add: owned_def own_front_def)

lemma own_mnem [simp]: "own_front csh (ud\<lparr>ud_mnem_list := ms\<rparr>) = own_front csh ud"
  "own_back (ud\<lparr>ud_mnem_list := ms\<rparr>) = own_back ud"
  by (simp_all add: own_front_def own_back_def)

lemma distinct_middle:
  "distinct (a @ xs @ b) \<Longrightarrow> distinct ys \<Longrightarrow> set ys \<subseteq> set xs \<Longrightarrow> distinct (a @ ys @ b)"
  by auto

lemma world_okI:
  assumes "heap_ok (w_heap w)"
    "\<And>csh ud. w_handles w csh = Some ud \<Longrightarrow>
        handle_wf ud \<and> distinct (owned csh ud) \<and> set (owned csh ud) \<subseteq> dom (h_live (w_heap w))"
    "\<And>csh csh' ud ud'. w_handles w csh = Some ud \<Longrightarrow> w_handles w csh' = Some ud' \<Longrightarrow> csh \<noteq> csh' \<Longrightarrow>
        set (owned csh ud) \<inter> set (owned csh' ud') = {}"
  shows "world_ok w"
  using assms unfolding world_ok_def by blast

lemma world_ok_disjoint:
  "world_ok w \<Longrightarrow> w_handles w csh = Some ud \<Longrightarrow> w_handles w csh' = Some ud' \<Longrightarrow> csh \<noteq> csh' \<Longrightarrow>
     set (owned csh ud) \<inter> set (owned csh' ud') = {}"
  unfolding world_ok_def by blast

lemma live_nonzero: "heap_ok h \<Longrightarrow> p \<in> dom (h_live h) \<Longrightarrow> p \<noteq> 0"
  by (force simp: heap_ok_def heap_wf_def)

text \<open>
  Replacing one handle by another whose blocks are old blocks of this handle or new ones: the
  invariant is kept when the live blocks that do not belong to the handle are left alone.
\<close>

lemma world_ok_update:
  assumes "world_ok w" "heap_ok h" "handle_wf ud" "distinct (owned csh ud)"
    "set (owned csh ud) \<subseteq> dom (h_live h)"
    "\<And>csh' ud'. w_handles w csh' = Some ud' \<Longrightarrow> csh' \<noteq> csh \<Longrightarrow>
       set (owned csh' ud') \<subseteq> dom (h_live h) \<and> set (owned csh' ud') \<inter> set (owned csh ud) = {}"
  shows "world_ok (set_handle w csh h ud)"
  using assms unfolding world_ok_def set_handle_def
  by (auto split: if_splits) blast+

section \<open>Customised mnemonics\<close>

text \<open>The list as a map from ids to texts; the code finds the first entry of an id.\<close>

definition mnem_lookup :: "insn_mnem list \<Rightarrow> u32 \<rightharpoonup> string" where
  "mnem_lookup ms = map_of (map (\<lambda>m. (mn_id m, cstr (mn_mnemonic m))) ms)"

lemma set_mnem_holds:
  assumes "length buf = CS_MNEMONIC_SIZE" "NUL \<notin> set s"
  shows "\<exists>d. set_mnem buf s = Some d \<and> length d = CS_MNEMONIC_SIZE \<and> holds d (take 31 s)"
proof -
  from strncpy_terminated [OF assms(2), of buf 31] assms(1) obtain d where
    "strncpy buf s 31 = Some d" "length d = 32" "holds (d[31 := NUL]) (take 31 s)" by auto
  then show ?thesis by (simp add: set_mnem_def aset_def)
qed

lemma mnem_replace_spec:
  assumes "list_all mnem_wf ms" "NUL \<notin> set s" "idn \<noteq> 0"
  shows "\<exists>r. mnem_replace ms idn s = Some r \<and>
    (case r of None \<Rightarrow> idn \<notin> set (map mn_id ms)
     | Some ms' \<Rightarrow> list_all mnem_wf ms' \<and> map mn_id ms' = map mn_id ms \<and> map mn_node ms' = map mn_node ms \<and>
         idn \<in> set (map mn_id ms) \<and> mnem_lookup ms' = (mnem_lookup ms)(idn \<mapsto> take 31 s))"
  using assms
proof (induction ms)
  case Nil
  then show ?case by simp
next
  case (Cons m ms)
  show ?case
  proof (cases "mn_id m = idn")
    case True
    from Cons.prems have "length (mn_mnemonic m) = 32" by (simp add: mnem_wf_def)
    from set_mnem_holds [OF this Cons.prems(2)] obtain d where
      "set_mnem (mn_mnemonic m) s = Some d" "length d = 32" "holds d (take 31 s)" by auto
    with True Cons.prems show ?thesis
      by (auto simp: mnem_wf_def mnem_lookup_def holds_cstr list_all_iff)
  next
    case False
    from Cons obtain r where r: "mnem_replace ms idn s = Some r"
      "case r of None \<Rightarrow> idn \<notin> set (map mn_id ms)
       | Some ms' \<Rightarrow> list_all mnem_wf ms' \<and> map mn_id ms' = map mn_id ms \<and> map mn_node ms' = map mn_node ms \<and>
           idn \<in> set (map mn_id ms) \<and> mnem_lookup ms' = (mnem_lookup ms)(idn \<mapsto> take 31 s)" by auto
    with False Cons.prems show ?thesis
      by (cases r) (auto simp: mnem_lookup_def fun_eq_iff)
  qed
qed

lemma mnem_delete_miss: "mnem_delete ms idn = (ms', None) \<Longrightarrow> idn \<notin> set (map mn_id ms) \<and> ms' = ms"
  by (induction ms arbitrary: ms') (auto split: if_splits prod.splits)

lemma mnem_delete_hit:
  assumes "mnem_delete ms idn = (ms', Some p)" "distinct (map mn_id ms)"
  shows "\<exists>xs m ys. ms = xs @ m # ys \<and> ms' = xs @ ys \<and> mn_node m = p \<and> mn_id m = idn \<and>
    idn \<notin> set (map mn_id ms')"
  using assms
proof (induction ms arbitrary: ms')
  case (Cons m ms)
  show ?case
  proof (cases "mn_id m = idn")
    case True
    with Cons.prems show ?thesis by (intro exI [of _ "[]"]) auto
  next
    case False
    with Cons.prems(1) obtain ms1 where m1: "mnem_delete ms idn = (ms1, Some p)" "ms' = m # ms1"
      by (auto split: prod.splits)
    from Cons.IH [OF m1(1)] Cons.prems(2) obtain xs n ys where
      "ms = xs @ n # ys" "ms1 = xs @ ys" "mn_node n = p" "mn_id n = idn" "idn \<notin> set (map mn_id ms1)"
      by auto
    with False m1 show ?thesis by (intro exI [of _ "m # xs"]) auto
  qed
qed simp

lemma mnem_lookup_None: "mnem_lookup ms idn = None \<longleftrightarrow> idn \<notin> set (map mn_id ms)"
  by (induction ms) (auto simp: mnem_lookup_def)

lemma mnem_lookup_remove:
  assumes "distinct (map mn_id (xs @ m # ys))"
  shows "mnem_lookup (xs @ ys) = (mnem_lookup (xs @ m # ys))(mn_id m := None)"
proof -
  have "mnem_lookup (xs @ ys) (mn_id m) = None" unfolding mnem_lookup_None using assms by auto
  then show ?thesis
    by (auto simp: mnem_lookup_def map_add_def fun_eq_iff split: option.splits)
qed

text \<open>
  The option refines the update of a finite map: setting stores the text cut to 31 characters,
  a null text removes the entry, the id 0 is ignored. The blocks follow the list.
\<close>

definition mnem_update :: "(u32 \<rightharpoonup> string) \<Rightarrow> cs_opt_mnem \<Rightarrow> (u32 \<rightharpoonup> string)" where
  "mnem_update f opt = (if om_id opt = 0 then f
     else f(om_id opt := map_option (take 31) (om_mnemonic opt)))"

definition opt_mnem_text_ok :: "cs_opt_mnem \<Rightarrow> bool" where
  "opt_mnem_text_ok opt \<longleftrightarrow> (case om_mnemonic opt of None \<Rightarrow> True | Some s \<Rightarrow> NUL \<notin> set s)"

lemma opt_mnemonic_set:
  assumes "heap_ok h" "handle_wf ud" "om_id opt \<noteq> 0" "om_mnemonic opt = Some s" "NUL \<notin> set s"
    "length junk = CS_MNEMONIC_SIZE"
    "om_id opt \<in> set (map mn_id (ud_mnem_list ud)) \<or> h_grant h (h_calls h)"
  shows "\<exists>h' ms. opt_mnemonic ab junk h ud opt = Some (h', ud\<lparr>ud_mnem_list := ms\<rparr>) \<and> heap_ok h' \<and>
    list_all mnem_wf ms \<and> distinct (map mn_id ms) \<and>
    mnem_lookup ms = (mnem_lookup (ud_mnem_list ud))(om_id opt \<mapsto> take 31 s) \<and>
    (map mn_node ms = map mn_node (ud_mnem_list ud) \<and> h' = h \<or>
     (\<exists>p n. map mn_node ms = p # map mn_node (ud_mnem_list ud) \<and> h_live h p = None \<and>
        h_live h' = (h_live h)(p \<mapsto> n)))"
proof -
  let ?ms = "ud_mnem_list ud" and ?i = "om_id opt"
  have wf: "list_all mnem_wf ?ms" "distinct (map mn_id ?ms)" using assms(2) by (simp_all add: handle_wf_def)
  from mnem_replace_spec [OF wf(1) assms(5,3)] obtain r where r: "mnem_replace ?ms ?i s = Some r"
    "case r of None \<Rightarrow> ?i \<notin> set (map mn_id ?ms)
     | Some ms' \<Rightarrow> list_all mnem_wf ms' \<and> map mn_id ms' = map mn_id ?ms \<and> map mn_node ms' = map mn_node ?ms \<and>
         ?i \<in> set (map mn_id ?ms) \<and> mnem_lookup ms' = (mnem_lookup ?ms)(?i \<mapsto> take 31 s)" by auto
  show ?thesis
  proof (cases r)
    case (Some ms')
    with r wf assms(1,3,4) show ?thesis
      by (intro exI [of _ h] exI [of _ ms']) (simp add: opt_mnemonic_def)
  next
    case None
    with r have new: "?i \<notin> set (map mn_id ?ms)" by simp
    with assms(7) have grant: "h_grant h (h_calls h)" by auto
    obtain p h' where p: "h_alloc h (sz_insn_mnem ab) = (p, h')" "0 < p" "h_live h p = None" "heap_ok h'"
      "h_live h' = (h_live h)(p \<mapsto> sz_insn_mnem ab)"
      by (cases rule: h_alloc_cases [OF assms(1), of "sz_insn_mnem ab"])
         (use grant assms(1) in \<open>auto simp: h_alloc_def heap_ok_def heap_wf_def\<close>)
    from set_mnem_holds [OF assms(6,5)] obtain d where d: "set_mnem junk s = Some d" "length d = 32"
      "holds d (take 31 s)" by auto
    let ?m = "\<lparr>mn_node = p, mn_id = ?i, mn_mnemonic = d\<rparr>"
    have "mnem_wf ?m" using d assms(3) by (simp add: mnem_wf_def holds_cstr)
    moreover have "mnem_lookup (?m # ?ms) = (mnem_lookup ?ms)(?i \<mapsto> take 31 s)"
      using d by (simp add: mnem_lookup_def holds_cstr)
    moreover have "opt_mnemonic ab junk h ud opt = Some (h', ud\<lparr>ud_mnem_list := ?m # ?ms\<rparr>)"
      using None r(1) p d(1) assms(1,3,4) by (simp add: opt_mnemonic_def h_malloc_ok fault_simps)
    ultimately show ?thesis using p wf new
      by (intro exI [of _ h'] exI [of _ "?m # ?ms"]) auto
  qed
qed

lemma opt_mnemonic_delete:
  assumes "heap_ok h" "handle_wf ud" "om_id opt \<noteq> 0" "om_mnemonic opt = None"
    "set (map mn_node (ud_mnem_list ud)) \<subseteq> dom (h_live h)" "distinct (map mn_node (ud_mnem_list ud))"
  shows "\<exists>h' ms. opt_mnemonic ab junk h ud opt = Some (h', ud\<lparr>ud_mnem_list := ms\<rparr>) \<and> heap_ok h' \<and>
    list_all mnem_wf ms \<and> distinct (map mn_id ms) \<and>
    mnem_lookup ms = (mnem_lookup (ud_mnem_list ud))(om_id opt := None) \<and>
    set (map mn_node ms) \<subseteq> set (map mn_node (ud_mnem_list ud)) \<and> distinct (map mn_node ms) \<and>
    h_live h' = h_live h |` (- (set (map mn_node (ud_mnem_list ud)) - set (map mn_node ms)))"
proof -
  let ?ms = "ud_mnem_list ud" and ?i = "om_id opt"
  have wf: "list_all mnem_wf ?ms" "distinct (map mn_id ?ms)" using assms(2) by (simp_all add: handle_wf_def)
  obtain ms' po where del: "mnem_delete ?ms ?i = (ms', po)" by (cases "mnem_delete ?ms ?i")
  show ?thesis
  proof (cases po)
    case None
    with mnem_delete_miss [of ?ms ?i ms'] del have "?i \<notin> set (map mn_id ?ms)" "ms' = ?ms" by auto
    moreover from this(1) have "mnem_lookup ?ms ?i = None" unfolding mnem_lookup_None .
    ultimately show ?thesis using None del assms wf
      by (intro exI [of _ h] exI [of _ ?ms]) (auto simp: opt_mnemonic_def fun_eq_iff)
  next
    case (Some p)
    with mnem_delete_hit [of ?ms ?i ms' p] del wf(2) obtain xs m ys where
      s: "?ms = xs @ m # ys" "ms' = xs @ ys" "mn_node m = p" "mn_id m = ?i" by auto
    from s assms(5) have live: "h_live h p \<noteq> None" by auto
    from h_free_ok [OF assms(1) this] obtain h' where h': "h_free h p = Some h'" "heap_ok h'"
      "h_live h' = (h_live h)(p := None)" by auto
    have "opt_mnemonic ab junk h ud opt = Some (h', ud\<lparr>ud_mnem_list := ms'\<rparr>)"
      using Some del h'(1) assms(3,4) by (simp add: opt_mnemonic_def)
    moreover have "mnem_lookup ms' = (mnem_lookup ?ms)(?i := None)"
      using mnem_lookup_remove [of xs m ys] wf(2) s by simp
    moreover have "set (map mn_node ?ms) - set (map mn_node ms') = {p}"
      using assms(6) s by auto
    moreover have "distinct (map mn_id ms')" "distinct (map mn_node ms')" "list_all mnem_wf ms'"
      "set (map mn_node ms') \<subseteq> set (map mn_node ?ms)"
      using wf assms(6) s by auto
    ultimately show ?thesis using h'(2,3)
      by (intro exI [of _ h'] exI [of _ ms']) (auto simp: restrict_map_def fun_eq_iff)
  qed
qed

section \<open>Opening\<close>

definition new_struct :: "cs_arch \<Rightarrow> u32 \<Rightarrow> cs_struct" where
  "new_struct a mode = zero_struct\<lparr>ud_errnum := CS_ERR_OK, ud_arch := a, ud_mode := mode, ud_detail := CS_OPT_OFF,
     ud_skipdata_setup := (ud_skipdata_setup zero_struct)\<lparr>sk_mnemonic := Some SKIPDATA_MNEM\<rparr>\<rparr>"

lemma owned_new:
  "ud_mnem_list ud = [] \<Longrightarrow> ud_insn_cache ud = None \<Longrightarrow>
     owned p ud = (if ud_printer_info ud = 0 then [p] else [p, ud_printer_info ud])"
  by (simp add: owned_def own_front_def own_back_def)

text \<open>A successful constructor gives a handle whose blocks are exactly the new ones.\<close>

lemma arch_init_handle:
  assumes "heap_ok h" "h_live h p \<noteq> None"
    "arch_init_fun a b ab h (new_struct a mode) = Some (CS_ERR_OK, h', ud)"
  shows "handle_wf ud" "distinct (owned p ud)" "heap_ok h'" "h_funcs h' = h_funcs h"
    "set (owned p ud) \<subseteq> dom (h_live h')" "h_live h' |` (- (set (owned p ud) - {p})) = h_live h"
    "\<forall>q \<in> set (owned p ud) - {p}. h_live h q = None"
    "ud_arch ud = a" "ud_mode ud = mode" "ud_errnum ud = CS_ERR_OK" "ud_detail ud = 0"
    "ud_skipdata ud = False" "ud_mnem_list ud = []" "sk_mnemonic (ud_skipdata_setup ud) = Some SKIPDATA_MNEM"
    "sk_callback (ud_skipdata_setup ud) = None"
proof -
  have post: "init_post h (new_struct a mode) CS_ERR_OK h' ud"
    using arch_init_result [OF assms(1,3)] .
  then have k: "ud_mnem_list ud = []" "ud_insn_cache ud = None" "callable ud" "ud_detail ud = 0"
    "ud_arch ud = a" "ud_skipdata ud = False" "sk_mnemonic (ud_skipdata_setup ud) = Some SKIPDATA_MNEM"
    "sk_callback (ud_skipdata_setup ud) = None" "ud_mode ud = mode" "ud_errnum ud = CS_ERR_OK"
    by (simp_all add: init_post_def engine_part_kept_def new_struct_def zero_struct_def)
  then show "ud_arch ud = a" "ud_mode ud = mode" "ud_errnum ud = CS_ERR_OK" "ud_detail ud = 0"
    "ud_skipdata ud = False" "ud_mnem_list ud = []" "sk_mnemonic (ud_skipdata_setup ud) = Some SKIPDATA_MNEM"
    "sk_callback (ud_skipdata_setup ud) = None" by simp_all
  from k show "handle_wf ud" by (simp add: handle_wf_def)
  from post show "heap_ok h'" "h_funcs h' = h_funcs h" by (simp_all add: init_post_def)
  have live: "if ud_printer_info ud = 0 then h_live h' = h_live h
      else h_live h (ud_printer_info ud) = None \<and> (\<exists>n. h_live h' = (h_live h)(ud_printer_info ud \<mapsto> n))"
    using post by (simp add: init_post_def)
  then show "distinct (owned p ud)" "set (owned p ud) \<subseteq> dom (h_live h')"
    "\<forall>q \<in> set (owned p ud) - {p}. h_live h q = None"
    using assms(2) by (auto simp: owned_new [OF k(1,2)] split: if_splits)
  show "h_live h' |` (- (set (owned p ud) - {p})) = h_live h"
  proof (cases "ud_printer_info ud = 0")
    case False
    with live obtain n where l: "h_live h (ud_printer_info ud) = None"
      "h_live h' = (h_live h)(ud_printer_info ud \<mapsto> n)" by auto
    then have "p \<noteq> ud_printer_info ud" using assms(2) by auto
    with l False show ?thesis
      by (intro ext) (auto simp: owned_new [OF k(1,2)] restrict_map_def)
  qed (use live in \<open>simp add: owned_new [OF k(1,2)] restrict_map_def\<close>)
qed

text \<open>The part of \<^verbatim>\<open>cs_open\<close> after the checks of its arguments.\<close>

lemma cs_open_enabled:
  assumes "heap_ok (w_heap w)" "arch < CS_ARCH_MAX" "b_archs b (cs_archs ! arch)"
    "mode AND arch_mode_mask (cs_archs ! arch) = 0"
  shows "cs_open b ab w arch mode handle =
    (case h_alloc (w_heap w) (sz_cs_struct ab) of (p, h) \<Rightarrow>
       if p = 0 then Some (w\<lparr>w_heap := h\<rparr>, CS_ERR_MEM, handle)
       else do {
         (err, h, ud) \<leftarrow> arch_init_fun (cs_archs ! arch) b ab h (new_struct (cs_archs ! arch) mode);
         if err \<noteq> CS_ERR_OK then do {
           h \<leftarrow> h_free h p;
           Some (w\<lparr>w_heap := h\<rparr>, err, 0) }
         else Some (set_handle w p h ud, CS_ERR_OK, p) })"
  using assms
  by (simp add: cs_open_def cs_arch_init_def cs_arch_disallowed_mode_mask_def h_calloc_ok
      new_struct_def Let_def split: prod.split)

definition open_post :: "world \<Rightarrow> nat \<Rightarrow> u32 \<Rightarrow> world \<Rightarrow> cs_err \<Rightarrow> nat \<Rightarrow> bool" where
  "open_post w arch mode w' e csh \<longleftrightarrow> world_ok w' \<and> h_funcs (w_heap w') = h_funcs (w_heap w) \<and>
     (if e = CS_ERR_OK
      then csh \<noteq> 0 \<and> w_handles w csh = None \<and>
        (\<exists>ud. w_handles w' = (w_handles w)(csh \<mapsto> ud) \<and> ud_arch ud = cs_archs ! arch \<and> ud_mode ud = mode \<and>
           ud_errnum ud = CS_ERR_OK \<and> ud_detail ud = 0 \<and> \<not> ud_skipdata ud \<and> ud_mnem_list ud = [] \<and>
           h_live (w_heap w') |` (- set (owned csh ud)) = h_live (w_heap w))
      else w_handles w' = w_handles w \<and> h_live (w_heap w') = h_live (w_heap w))"

lemma world_ok_same:
  "world_ok w \<Longrightarrow> heap_ok h \<Longrightarrow> h_live h = h_live (w_heap w) \<Longrightarrow> world_ok (w\<lparr>w_heap := h\<rparr>)"
  by (auto simp: world_ok_def)

lemma not_live_not_open: "world_ok w \<Longrightarrow> h_live (w_heap w) p = None \<Longrightarrow> w_handles w p = None"
  using owned_self [of p] unfolding world_ok_def by (metis domIff not_None_eq subsetD)

lemma open_post_success:
  assumes w: "world_ok w" and p: "h_live (w_heap w) p = None" "0 < p" "heap_ok h1"
      "h_live h1 = (h_live (w_heap w))(p \<mapsto> n)" "h_funcs h1 = h_funcs (w_heap w)"
    and i: "arch_init_fun (cs_archs ! arch) b ab h1 (new_struct (cs_archs ! arch) mode) = Some (CS_ERR_OK, h2, ud)"
  shows "open_post w arch mode (set_handle w p h2 ud) CS_ERR_OK p"
proof -
  have lp: "h_live h1 p \<noteq> None" using p by simp
  note a = arch_init_handle [OF p(3) lp i]
  have fresh: "\<forall>q \<in> set (owned p ud). h_live (w_heap w) q = None"
    using a(7) p(1,4) by (auto split: if_splits)
  have "h_live h2 |` (- set (owned p ud)) = (h_live h2 |` (- (set (owned p ud) - {p}))) |` (- {p})"
    by (auto simp: restrict_map_def fun_eq_iff)
  also have "\<dots> = h_live (w_heap w)" unfolding a(6) p(4) using p(1) by (auto simp: restrict_map_def fun_eq_iff)
  finally have keep: "h_live h2 |` (- set (owned p ud)) = h_live (w_heap w)" .
  have others: "set (owned c u) \<subseteq> dom (h_live h2) \<and> set (owned c u) \<inter> set (owned p ud) = {}"
    if "w_handles w c = Some u" for c u
  proof -
    have sub: "set (owned c u) \<subseteq> dom (h_live (w_heap w))" using w that by (simp add: world_ok_def)
    moreover have "dom (h_live (w_heap w)) \<subseteq> dom (h_live h2)"
      using keep by (metis dom_restrict inf_le1)
    ultimately show ?thesis using fresh by fastforce
  qed
  have "world_ok (set_handle w p h2 ud)"
    by (rule world_ok_update [OF w a(3) a(1) a(2) a(5)]) (use others in auto)
  then show ?thesis
    using not_live_not_open [OF w p(1)] a keep p(2,5) by (auto simp: open_post_def set_handle_def)
qed

lemma cs_open_post:
  assumes "world_ok w" "cs_open b ab w arch mode handle = Some (w', e, csh)"
  shows "open_post w arch mode w' e csh"
proof (cases "arch < CS_ARCH_MAX \<and> b_archs b (cs_archs ! arch) \<and> mode AND arch_mode_mask (cs_archs ! arch) = 0")
  case False
  with assms show ?thesis
    by (auto simp: cs_open_def cs_arch_init_def cs_arch_disallowed_mode_mask_def open_post_def
        world_ok_def split: if_splits)
next
  case True
  let ?a = "cs_archs ! arch" and ?h = "w_heap w"
  have ok: "heap_ok ?h" using assms(1) by (simp add: world_ok_def)
  note eq = assms(2) [unfolded cs_open_enabled [OF ok True [THEN conjunct1]
        True [THEN conjunct2, THEN conjunct1] True [THEN conjunct2, THEN conjunct2]]]
  show ?thesis
  proof (cases rule: h_alloc_cases [OF ok, of "sz_cs_struct ab"])
    case (1 h')
    with eq assms(1) show ?thesis by (auto simp: open_post_def intro: world_ok_same)
  next
    case (2 p h1)
    with eq obtain err h2 ud where i: "arch_init_fun ?a b ab h1 (new_struct ?a mode) = Some (err, h2, ud)"
      "(if err \<noteq> CS_ERR_OK then do { h \<leftarrow> h_free h2 p; Some (w\<lparr>w_heap := h\<rparr>, err, 0) }
        else Some (set_handle w p h2 ud, CS_ERR_OK, p)) = Some (w', e, csh)"
      by (auto split: bind_splits)
    show ?thesis
    proof (cases "err = CS_ERR_OK")
      case False
      from arch_init_result [OF 2(4) i(1)] False
      have l2: "heap_ok h2" "h_live h2 = h_live h1" "h_funcs h2 = h_funcs h1" by (simp_all add: init_post_def)
      from h_free_ok [OF l2(1), of p] l2(2) 2(5) obtain h3 where h3: "h_free h2 p = Some h3" "heap_ok h3"
        "h_live h3 = (h_live h2)(p := None)" "h_funcs h3 = h_funcs h2" by auto
      have "h_live h3 = h_live ?h" using h3(3) l2(2) 2(3,5) by (auto simp: fun_eq_iff)
      with i(2) False h3 l2 2(6) assms(1) show ?thesis by (auto simp: open_post_def intro: world_ok_same)
    next
      case True
      with i(2) open_post_success [OF assms(1) 2(3,2,4,5,6) i(1) [unfolded True]] show ?thesis by auto
    qed
  qed
qed

text \<open>Which error: the arguments are checked before any memory is requested.\<close>

definition mode_accepted :: "cs_arch \<Rightarrow> u32 \<Rightarrow> bool" where
  "mode_accepted a mode \<longleftrightarrow> mode AND arch_mode_mask a = 0 \<and>
     (a \<in> {CS_ARCH_EVM, CS_ARCH_MOS65XX} \<longrightarrow> mode = 0) \<and>
     (a = CS_ARCH_M680X \<longrightarrow> mode AND M680X_modes \<noteq> 0)"

lemma M680X_mask: "mode AND arch_mode_mask CS_ARCH_M680X = 0 \<Longrightarrow> mode AND NOT M680X_modes = 0"
proof -
  have "NOT M680X_modes = arch_mode_mask CS_ARCH_M680X" by (simp add: M680X_modes_def)
  then show "mode AND arch_mode_mask CS_ARCH_M680X = 0 \<Longrightarrow> ?thesis" by simp
qed

lemma arch_init_err:
  assumes "heap_ok h" "h_grant h (h_calls h)" "mode AND arch_mode_mask a = 0"
    "arch_init_fun a b ab h (new_struct a mode) = Some (e, h', ud)"
  shows "e = (if mode_accepted a mode then CS_ERR_OK else CS_ERR_MODE)"
proof -
  have p: "fst (h_alloc h n) \<noteq> 0" for n
    using assms(1,2) by (simp add: h_alloc_def heap_ok_def heap_wf_def)
  show ?thesis
  proof (cases a)
    case CS_ARCH_M680X
    with M680X_mask assms(3) have "mode AND NOT M680X_modes = 0" by simp
    with CS_ARCH_M680X assms p [of "sz_m680x_info ab"] show ?thesis
      by (auto simp: M680X_global_init_def new_struct_def h_malloc_ok mode_accepted_def Let_def
          simp del: arch_mode_mask.simps split: if_splits prod.splits)
  qed (use assms p [of "sz_m68k_info ab"] in \<open>auto simp: mri_init_defs M68K_global_init_def EVM_global_init_def
        MOS65XX_global_init_def new_struct_def h_malloc_ok mode_accepted_def Let_def
        simp del: arch_mode_mask.simps split: if_splits bind_splits prod.splits\<close>)
qed

section \<open>Closing\<close>

lemma h_free_all_append:
  "h_free_all h (ps @ qs) = do { h \<leftarrow> h_free_all h ps; h_free_all h qs }"
  by (induction ps arbitrary: h) (auto split: bind_splits)

definition close_list :: "nat \<Rightarrow> cs_struct \<Rightarrow> nat list" where
  "close_list csh ud = (if ud_printer_info ud \<noteq> 0 then [ud_printer_info ud] else []) @
     map mn_node (ud_mnem_list ud) @ [case ud_insn_cache ud of None \<Rightarrow> 0 | Some (p, c) \<Rightarrow> p, csh]"

lemma cs_close_free_all:
  "csh \<noteq> 0 \<Longrightarrow> w_handles w csh = Some ud \<Longrightarrow> cs_close w csh = do {
     h \<leftarrow> h_free_all (w_heap w) (close_list csh ud);
     Some (w\<lparr>w_heap := h, w_handles := (w_handles w)(csh := None)\<rparr>, CS_ERR_OK, 0) }"
  by (simp add: cs_close_def get_handle_def close_list_def h_free_all_append)

lemma close_list_owned:
  assumes "0 \<notin> set (owned csh ud)" "distinct (owned csh ud)"
  shows "set (close_list csh ud) - {0} = set (owned csh ud)"
    "distinct (filter (\<lambda>p. p \<noteq> 0) (close_list csh ud))"
  using assms by (auto simp: close_list_def owned_def own_front_def own_back_def split: option.splits if_splits)

lemma cs_close_post:
  assumes "world_ok w" "w_handles w csh = Some ud"
  shows "\<exists>w'. cs_close w csh = Some (w', CS_ERR_OK, 0) \<and> world_ok w' \<and>
    w_handles w' = (w_handles w)(csh := None) \<and>
    h_live (w_heap w') = h_live (w_heap w) |` (- set (owned csh ud)) \<and>
    h_funcs (w_heap w') = h_funcs (w_heap w)"
proof -
  note ok = world_okD [OF assms]
  have nz: "0 \<notin> set (owned csh ud)" using ok(1,4) live_nonzero by blast
  note cl = close_list_owned [OF nz ok(3)]
  have "csh \<noteq> 0" using nz owned_self by metis
  have z: "h_live (w_heap w) 0 = None" using live_nonzero [OF ok(1)] by blast
  obtain h where h: "h_free_all (w_heap w) (close_list csh ud) = Some h" "heap_ok h"
    "h_live h = h_live (w_heap w) |` (- set (close_list csh ud))" "h_funcs h = h_funcs (w_heap w)"
    using h_free_all_ok [OF ok(1) cl(2)] ok(4) cl(1) by blast
  have live: "h_live h = h_live (w_heap w) |` (- set (owned csh ud))"
  proof
    fix x
    have "x \<noteq> 0 \<Longrightarrow> x \<in> set (close_list csh ud) \<longleftrightarrow> x \<in> set (owned csh ud)" using cl(1) by blast
    then show "h_live h x = (h_live (w_heap w) |` (- set (owned csh ud))) x"
      using z by (cases "x = 0") (simp_all add: h(3) restrict_map_def)
  qed
  let ?w = "w\<lparr>w_heap := h, w_handles := (w_handles w)(csh := None)\<rparr>"
  have "world_ok ?w"
  proof (rule world_okI)
    fix c u assume c: "w_handles ?w c = Some u"
    then have "w_handles w c = Some u" "c \<noteq> csh" by (auto split: if_splits)
    with world_okD [OF assms(1) this(1)] world_ok_disjoint [OF assms(1) this(1) assms(2)]
    show "handle_wf u \<and> distinct (owned c u) \<and> set (owned c u) \<subseteq> dom (h_live (w_heap ?w))"
      by (auto simp: live dom_restrict)
  next
    fix c c' u u' assume "w_handles ?w c = Some u" "w_handles ?w c' = Some u'" "c \<noteq> c'"
    then show "set (owned c u) \<inter> set (owned c' u') = {}"
      using world_ok_disjoint [OF assms(1), of c u c' u'] by (auto split: if_splits)
  qed (simp add: h(2))
  then show ?thesis
    using cs_close_free_all [OF \<open>csh \<noteq> 0\<close> assms(2)] h(1,4) live by simp
qed

section \<open>Options keep the invariant\<close>

text \<open>The values the documentation admits for an option.\<close>

definition opt_value_ok :: "cs_opt_type \<Rightarrow> opt_value \<Rightarrow> bool" where
  "opt_value_ok ty v \<longleftrightarrow> (case v of
     V_mem m \<Rightarrow> ty = CS_OPT_MEM \<and> funcs_set m
   | V_skipdata s \<Rightarrow> ty = CS_OPT_SKIPDATA_SETUP
   | V_mnem opt \<Rightarrow> ty = CS_OPT_MNEMONIC \<and> opt_mnem_text_ok opt
   | V_num n \<Rightarrow> ty \<notin> {CS_OPT_MEM, CS_OPT_MNEMONIC} \<and> (ty = CS_OPT_SKIPDATA_SETUP \<longrightarrow> n = 0))"

lemma owned_cong:
  "ud_printer_info ud' = ud_printer_info ud \<Longrightarrow> ud_mnem_list ud' = ud_mnem_list ud \<Longrightarrow>
   ud_insn_cache ud' = ud_insn_cache ud \<Longrightarrow> owned csh ud' = owned csh ud"
  by (simp add: owned_def own_front_def own_back_def)

lemma world_ok_same_blocks:
  assumes "world_ok w" "w_handles w csh = Some ud" "handle_wf ud'" "owned csh ud' = owned csh ud"
  shows "world_ok (set_handle w csh (w_heap w) ud')"
  using assms world_okD [OF assms(1,2)]
  by (intro world_ok_update) (auto simp: world_ok_def)

lemma set_handle_other: "csh' \<noteq> csh \<Longrightarrow> w_handles (set_handle w csh h ud) csh' = w_handles w csh'"
  by (simp add: set_handle_def)

lemma arch_opt_world:
  assumes "world_ok w" "w_handles w csh = Some ud" "arch_option_fun a b ud ty n = (e, ud')"
  shows "world_ok (set_handle w csh (w_heap w) ud')"
proof (rule world_ok_same_blocks [OF assms(1,2)])
  note k = arch_opt_keeps [OF assms(3)]
  have "callable ud'" using arch_opt_callable [OF _ assms(3)] world_okD(2) [OF assms(1,2)]
    by (simp add: handle_wf_def)
  then show "handle_wf ud'" using k world_okD(2) [OF assms(1,2)]
    by (simp add: handle_wf_def engine_part_kept_def)
  show "owned csh ud' = owned csh ud" using k by (intro owned_cong) (simp_all add: engine_part_kept_def)
qed

lemma opt_mnemonic_granted:
  assumes "heap_ok h" "handle_wf ud" "om_id opt \<noteq> 0" "om_mnemonic opt = Some s" "NUL \<notin> set s"
    "opt_mnemonic ab junk h ud opt = Some (h', ud')"
  shows "om_id opt \<in> set (map mn_id (ud_mnem_list ud)) \<or> h_grant h (h_calls h)"
proof (rule ccontr)
  assume n: "\<not> ?thesis"
  from mnem_replace_spec [of "ud_mnem_list ud" s "om_id opt"] assms n
  have "mnem_replace (ud_mnem_list ud) (om_id opt) s = Some None"
    by (auto simp: handle_wf_def split: option.splits)
  with assms n show False by (simp add: opt_mnemonic_def h_malloc_ok h_alloc_def fault_simps)
qed

lemma opt_mnemonic_world:
  assumes "world_ok w" "w_handles w csh = Some ud" "opt_mnem_text_ok opt" "length junk = CS_MNEMONIC_SIZE"
    "opt_mnemonic ab junk (w_heap w) ud opt = Some (h', ud')"
  shows "world_ok (set_handle w csh h' ud') \<and>
    mnem_lookup (ud_mnem_list ud') = mnem_update (mnem_lookup (ud_mnem_list ud)) opt"
proof (cases "om_id opt = 0")
  case True
  with assms(5) have "h' = w_heap w" "ud' = ud" by (simp_all add: opt_mnemonic_def)
  with assms True show ?thesis
    using world_ok_same_blocks [OF assms(1,2) world_okD(2) [OF assms(1,2)]] by (simp add: mnem_update_def)
next
  case nz: False
  note ok = world_okD [OF assms(1,2)]
  note ow = owned_def [of csh ud]
  have other: "set (owned c u) \<subseteq> dom (h_live (w_heap w))" "set (owned c u) \<inter> set (owned csh ud) = {}"
    if "w_handles w c = Some u" "c \<noteq> csh" for c u
    using assms(1,2) that unfolding world_ok_def by blast+
  show ?thesis
  proof (cases "om_mnemonic opt")
    case None
    from opt_mnemonic_delete [OF ok(1,2) nz None, of ab junk] ok(3,4) assms(5) obtain ms where
      ms: "ud' = ud\<lparr>ud_mnem_list := ms\<rparr>" "heap_ok h'" "list_all mnem_wf ms" "distinct (map mn_id ms)"
        "mnem_lookup ms = (mnem_lookup (ud_mnem_list ud))(om_id opt := None)"
        "set (map mn_node ms) \<subseteq> set (map mn_node (ud_mnem_list ud))" "distinct (map mn_node ms)"
        "h_live h' = h_live (w_heap w) |` (- (set (map mn_node (ud_mnem_list ud)) - set (map mn_node ms)))"
      by (auto simp: ow)
    have ow': "owned csh ud' = own_front csh ud @ map mn_node ms @ own_back ud"
      using ms(1) by (simp add: owned_def)
    have sub: "set (owned csh ud') \<subseteq> set (owned csh ud)" using ms(6) unfolding ow ow' by auto
    have d: "distinct (owned csh ud')" using distinct_middle [OF ok(3) [unfolded ow] ms(7,6)] ow' by simp
    have "set (owned csh ud') \<subseteq> dom (h_live h')"
    proof -
      have "set (owned csh ud') \<inter> (set (map mn_node (ud_mnem_list ud)) - set (map mn_node ms)) = {}"
        using ok(3) unfolding ow ow' by auto
      then show ?thesis using sub ok(4) ms(8) by (auto simp: dom_restrict)
    qed
    moreover have "set (owned c u) \<subseteq> dom (h_live h') \<and> set (owned c u) \<inter> set (owned csh ud') = {}"
      if "w_handles w c = Some u" "c \<noteq> csh" for c u
      using other [OF that] sub ms(8) by (auto simp: dom_restrict ow)
    ultimately have "world_ok (set_handle w csh h' ud')"
      using ms ok(2) d by (intro world_ok_update [OF assms(1)]) (auto simp: handle_wf_def callable_def)
    with ms None nz show ?thesis by (simp add: mnem_update_def)
  next
    case (Some s)
    have ns: "NUL \<notin> set s" using assms(3) Some by (simp add: opt_mnem_text_ok_def)
    have g: "om_id opt \<in> set (map mn_id (ud_mnem_list ud)) \<or> h_grant (w_heap w) (h_calls (w_heap w))"
      by (rule opt_mnemonic_granted [OF ok(1,2) nz Some ns assms(5)])
    from opt_mnemonic_set [OF ok(1,2) nz Some ns assms(4) g, of ab, unfolded assms(5) option.inject prod.inject]
    obtain ms where
      ms: "ud' = ud\<lparr>ud_mnem_list := ms\<rparr>" "heap_ok h'" "list_all mnem_wf ms" "distinct (map mn_id ms)"
        "mnem_lookup ms = (mnem_lookup (ud_mnem_list ud))(om_id opt \<mapsto> take 31 s)"
      and nodes: "map mn_node ms = map mn_node (ud_mnem_list ud) \<and> h' = w_heap w \<or>
        (\<exists>p n. map mn_node ms = p # map mn_node (ud_mnem_list ud) \<and> h_live (w_heap w) p = None \<and>
           h_live h' = (h_live (w_heap w))(p \<mapsto> n))"
      by (elim exE conjE, simp only:)
    have wf: "handle_wf ud'" using ms ok(2) by (simp add: handle_wf_def callable_def)
    have d: "distinct (owned csh ud') \<and> set (owned csh ud') \<subseteq> dom (h_live h') \<and>
      dom (h_live (w_heap w)) \<subseteq> dom (h_live h') \<and>
      set (owned csh ud') \<inter> dom (h_live (w_heap w)) \<subseteq> set (owned csh ud)"
      using nodes
    proof (elim disjE exE conjE)
      assume "map mn_node ms = map mn_node (ud_mnem_list ud)" "h' = w_heap w"
      then show ?thesis using ok(3,4) ms(1) by (simp add: owned_def)
    next
      fix p n assume p: "map mn_node ms = p # map mn_node (ud_mnem_list ud)" "h_live (w_heap w) p = None"
        "h_live h' = (h_live (w_heap w))(p \<mapsto> n)"
      have "p \<notin> set (owned csh ud)" using p(2) ok(4) by blast
      then show ?thesis using ok(3,4) p ms(1) by (auto simp: owned_def)
    qed
    have "world_ok (set_handle w csh h' ud')"
      using d other by (intro world_ok_update [OF assms(1) ms(2) wf]) blast+
    with ms Some nz show ?thesis by (simp add: mnem_update_def)
  qed
qed

lemma heap_ok_funcs: "heap_ok h \<Longrightarrow> funcs_set m \<Longrightarrow> heap_ok (h\<lparr>h_funcs := m\<rparr>)"
  by (simp add: heap_ok_def heap_wf_def)

lemma world_heap_ok: "world_ok w \<Longrightarrow> heap_ok (w_heap w)"
  by (simp add: world_ok_def)

lemma cs_option_world:
  assumes "world_ok w" "opt_value_ok ty v" "length junk = CS_MNEMONIC_SIZE"
    "cs_option b ab junk w csh ty v = Some (w', e)"
  shows "world_ok w'"
proof (cases "ty = CS_OPT_MEM \<or> csh = 0")
  case True
  with assms show ?thesis
    by (auto simp: cs_option_def opt_value_ok_def world_heap_ok heap_ok_funcs split: opt_value.splits if_splits intro!: world_ok_same)
next
  case False
  with assms(4) obtain ud where ud: "w_handles w csh = Some ud"
    by (auto simp: cs_option_def get_handle_def split: bind_splits)
  note ok = world_okD [OF assms(1) ud]
  have upd: "world_ok (set_handle w csh (w_heap w) ud')"
    if "ud_printer_info ud' = ud_printer_info ud" "ud_mnem_list ud' = ud_mnem_list ud"
      "ud_insn_cache ud' = ud_insn_cache ud" "callable ud' = callable ud" for ud'
    using that ok(2) by (intro world_ok_same_blocks [OF assms(1) ud] owned_cong) (simp_all add: handle_wf_def)
  have arch: "world_ok w'" if "do { n \<leftarrow> num_of v; f \<leftarrow> cs_arch_option b (ud_arch ud);
      Some (let (e, ud) = f ud ty n in (set_handle w csh (w_heap w) ud, e)) } = Some (w', e)"
    using that arch_opt_world [OF assms(1) ud, of "ud_arch ud" b ty]
    by (auto simp: cs_arch_option_def split: bind_splits if_splits prod.splits)
  show ?thesis
  proof (cases ty)
    case CS_OPT_MNEMONIC
    with assms(2,4) False ud obtain opt h' ud' where "v = V_mnem opt" "opt_mnem_text_ok opt"
      "opt_mnemonic ab junk (w_heap w) ud opt = Some (h', ud')" "w' = set_handle w csh h' ud'"
      by (auto simp: cs_option_def get_handle_def opt_value_ok_def split: opt_value.splits bind_splits)
    with opt_mnemonic_world [OF assms(1) ud _ assms(3)] show ?thesis by blast
  next
    case CS_OPT_SKIPDATA_SETUP
    with assms False ud upd show ?thesis
      by (auto simp: cs_option_def get_handle_def callable_def split: opt_value.splits if_splits)
  qed (use assms False ud arch upd in \<open>auto simp: cs_option_def get_handle_def callable_def Let_def
      split: bind_splits if_splits\<close>)
qed

end
