(* ===== verification/Engine_Fill.thy ===== *)
theory Engine_Fill
  imports Engine_Handle
begin

text \<open>
  How an instruction record is filled: \<^verbatim>\<open>fill_insn\<close> copies the bytes and splits the
  printed text into mnemonic and operands, and \<^verbatim>\<open>skipdata_opstr\<close> lists the bytes of a
  data record. The loops over the printed buffer run until a blank or the terminator; a buffer
  without terminator, or a mnemonic longer than its array, is undefined.
\<close>

section \<open>fill_insn\<close>

definition blank :: "char \<Rightarrow> bool" where
  "blank c \<longleftrightarrow> c = CHR '' '' \<or> c = CHR 0x09"

text \<open>
  The loop that copies the mnemonic: \<open>sp\<close> is the position in the buffer and in the array.
  A bar becomes a space, also in the buffer.
\<close>

function fill_mnem :: "char list \<Rightarrow> nat \<Rightarrow> char list \<Rightarrow> (char list \<times> nat \<times> char list) option" where
  "fill_mnem buffer sp mnem =
     (if \<not> sp < length buffer then None
      else if buffer ! sp = NUL \<or> blank (buffer ! sp) then Some (buffer, sp, mnem)
      else
        let c = (if buffer ! sp = CHR ''|'' then CHR '' '' else buffer ! sp)
        in if sp < length mnem then fill_mnem (buffer[sp := c]) (Suc sp) (mnem[sp := c]) else None)"
  by pat_completeness auto
termination by (relation "measure (\<lambda>(buffer, sp, mnem). length buffer - sp)") auto

declare fill_mnem.simps [simp del]

function skip_blanks :: "char list \<Rightarrow> nat \<Rightarrow> nat option" where
  "skip_blanks buffer sp =
     (if \<not> sp < length buffer then None
      else if blank (buffer ! sp) then skip_blanks buffer (Suc sp)
      else Some sp)"
  by pat_completeness auto
termination by (relation "measure (\<lambda>(buffer, sp). length buffer - sp)") auto

declare skip_blanks.simps [simp del]

text \<open>The C string that starts at a position of a buffer; it must end inside it.\<close>

definition cstr_at :: "char list \<Rightarrow> nat \<Rightarrow> string option" where
  "cstr_at buffer sp = (if NUL \<in> set (drop sp buffer) then Some (cstr (drop sp buffer)) else None)"

definition custom_mnem :: "insn_mnem list \<Rightarrow> u32 \<Rightarrow> char list \<Rightarrow> char list option" where
  "custom_mnem ms idn mnem =
     (case find (\<lambda>m. mn_id m = idn) ms of
        None \<Rightarrow> Some mnem
      | Some m \<Rightarrow> do {
          d \<leftarrow> strncpy mnem (cstr (mn_mnemonic m)) (CS_MNEMONIC_SIZE - 1);
          aset d (CS_MNEMONIC_SIZE - 1) NUL })"

definition fill_insn :: "backends \<Rightarrow> cs_struct \<Rightarrow> cs_insn \<Rightarrow> char list \<Rightarrow> MCInst \<Rightarrow> u8 list \<Rightarrow>
    cs_insn option" where
  "fill_insn bk ud insn buffer mci code = do {
     let copy_size = min (length (in_bytes insn)) (unat (in_size insn));
     need (unat (in_size insn) \<le> length code);
     bytes \<leftarrow> cwrite (in_bytes insn) 0 (take copy_size (drop (unat (in_size insn) - copy_size) code));
     let insn = insn\<lparr>in_bytes := bytes, in_size := of_nat copy_size\<rparr>;
     let insn = (if MCInst_getOpcodePub mci \<noteq> 0 then insn\<lparr>in_id := MCInst_getOpcodePub mci\<rparr> else insn);
     (insn, buffer) \<leftarrow> call_post_printer bk ud insn buffer mci;
     (buffer, sp, mnem) \<leftarrow> fill_mnem buffer 0 (in_mnemonic insn);
     mnem \<leftarrow> aset mnem sp NUL;
     mnem \<leftarrow> custom_mnem (ud_mnem_list ud) (in_id insn) mnem;
     c \<leftarrow> aget buffer sp;
     if c \<noteq> NUL then do {
       sp \<leftarrow> skip_blanks buffer (sp + 1);
       s \<leftarrow> cstr_at buffer sp;
       op \<leftarrow> strncpy (in_op_str insn) s (length (in_op_str insn) - 1);
       op \<leftarrow> aset op (length op - 1) NUL;
       Some (insn\<lparr>in_mnemonic := mnem, in_op_str := op\<rparr>) }
     else do {
       op \<leftarrow> aset (in_op_str insn) 0 NUL;
       Some (insn\<lparr>in_mnemonic := mnem, in_op_str := op\<rparr>) } }"

section \<open>skipdata_opstr\<close>

function opstr_loop :: "char list \<Rightarrow> nat \<Rightarrow> nat \<Rightarrow> u8 list \<Rightarrow> nat \<Rightarrow> nat \<Rightarrow> char list option" where
  "opstr_loop opstr p available buffer i n =
     (if i < n then
        (case aget buffer i of None \<Rightarrow> None | Some b \<Rightarrow>
          (let s = '', 0x'' @ fmt_0x 2 (unat b) in
           case vsnprintf opstr p available s of None \<Rightarrow> None | Some opstr \<Rightarrow>
             if length s > available - 1 then Some opstr
             else opstr_loop opstr (p + length s) (available - length s) buffer (Suc i) n))
      else Some opstr)"
  by pat_completeness auto
termination by (relation "measure (\<lambda>(opstr, p, available, buffer, i, n). n - i)") auto

declare opstr_loop.simps [simp del]

definition skipdata_opstr :: "char list \<Rightarrow> u8 list \<Rightarrow> nat \<Rightarrow> char list option" where
  "skipdata_opstr opstr buffer n =
     (if n = 0 then aset opstr 0 NUL
      else do {
        let available = length opstr;
        b \<leftarrow> aget buffer 0;
        let s = ''0x'' @ fmt_0x 2 (unat b);
        opstr \<leftarrow> vsnprintf opstr 0 available s;
        opstr_loop opstr (length s) (available - length s) buffer 1 n })"

section \<open>What fill_insn computes\<close>

definition bar_to_space :: "char \<Rightarrow> char" where
  "bar_to_space c = (if c = CHR ''|'' then CHR '' '' else c)"

text \<open>The two parts of a printed text.\<close>

definition mnem_part :: "string \<Rightarrow> string" where
  "mnem_part s = map bar_to_space (takeWhile (\<lambda>c. \<not> blank c) s)"

definition op_part :: "string \<Rightarrow> string" where
  "op_part s = dropWhile blank (dropWhile (\<lambda>c. \<not> blank c) s)"

lemma fill_mnem_spec:
  assumes "buffer = pre @ s @ NUL # r" "NUL \<notin> set s" "sp = length pre"
    "length pre + length (takeWhile (\<lambda>c. \<not> blank c) s) \<le> length mnem" "take sp mnem = pre"
  shows "\<exists>mnem'. fill_mnem buffer sp mnem =
      Some (pre @ mnem_part s @ dropWhile (\<lambda>c. \<not> blank c) s @ NUL # r, length (pre @ mnem_part s), mnem') \<and>
    length mnem' = length mnem \<and> take (length (pre @ mnem_part s)) mnem' = pre @ mnem_part s"
  using assms
proof (induction s arbitrary: buffer pre sp mnem)
  case Nil
  then show ?case by (subst fill_mnem.simps) (simp add: mnem_part_def nth_append)
next
  case (Cons c s)
  have here: "sp < length buffer" "buffer ! sp = c" using Cons.prems by (auto simp: nth_append)
  show ?case
  proof (cases "blank c")
    case True
    with Cons.prems here show ?thesis by (subst fill_mnem.simps) (simp add: mnem_part_def)
  next
    case False
    let ?c = "bar_to_space c"
    have sp: "sp < length mnem" using Cons.prems(3,4) False by simp
    have "c \<noteq> NUL" using Cons.prems(2) by auto
    then have "fill_mnem buffer sp mnem = fill_mnem (buffer[sp := ?c]) (Suc sp) (mnem[sp := ?c])"
      using here False sp by (subst fill_mnem.simps) (simp add: bar_to_space_def Let_def)
    moreover have "buffer[sp := ?c] = (pre @ [?c]) @ s @ NUL # r"
      using Cons.prems(1,3) by (simp add: list_update_append)
    moreover have "take (Suc sp) (mnem[sp := ?c]) = pre @ [?c]"
      using Cons.prems(5) sp by (simp add: take_Suc_conv_app_nth)
    moreover have "length (pre @ [?c]) + length (takeWhile (\<lambda>c. \<not> blank c) s) \<le> length (mnem[sp := ?c])"
      using Cons.prems(4) False by simp
    ultimately show ?thesis
      using Cons.IH [of "buffer[sp := ?c]" "pre @ [?c]" "Suc sp" "mnem[sp := ?c]"] Cons.prems(2,3) False
      by (simp add: mnem_part_def)
  qed
qed

lemma skip_blanks_spec:
  assumes "buffer = pre @ s @ NUL # r"
  shows "skip_blanks buffer (length pre) = Some (length pre + length (takeWhile blank s))"
  using assms
proof (induction s arbitrary: pre)
  case Nil
  then show ?case by (subst skip_blanks.simps) (simp add: blank_def)
next
  case (Cons c s)
  then show ?case
    using Cons.IH [of "pre @ [c]"] by (subst skip_blanks.simps) (auto simp: nth_append)
qed

lemma cstr_at_spec: "NUL \<notin> set s \<Longrightarrow> cstr_at (pre @ s @ NUL # r) (length pre) = Some s"
  by (simp add: cstr_at_def cstr_append_NUL)

lemma find_mnem_lookup:
  "mnem_lookup ms idn = map_option (\<lambda>m. cstr (mn_mnemonic m)) (find (\<lambda>m. mn_id m = idn) ms)"
  by (induction ms) (auto simp: mnem_lookup_def)

text \<open>The mnemonic a record gets: the printed one, unless the id has a customised one.\<close>

definition shown_mnem :: "cs_struct \<Rightarrow> u32 \<Rightarrow> string \<Rightarrow> string" where
  "shown_mnem ud idn s =
     (case mnem_lookup (ud_mnem_list ud) idn of None \<Rightarrow> mnem_part s | Some t \<Rightarrow> t)"

lemma mnem_lookup_short:
  assumes "list_all mnem_wf ms" "mnem_lookup ms idn = Some t"
  shows "length t \<le> 31" "NUL \<notin> set t"
proof -
  from assms(2) obtain m where m: "find (\<lambda>m. mn_id m = idn) ms = Some m" "t = cstr (mn_mnemonic m)"
    by (auto simp: find_mnem_lookup)
  then have "m \<in> set ms" by (auto simp: find_Some_iff)
  with assms(1) have "mnem_wf m" by (auto simp: list_all_iff)
  with m holds_less show "length t \<le> 31" "NUL \<notin> set t" by (fastforce simp: mnem_wf_def cstr_no_NUL)+
qed

lemma custom_mnem_spec:
  assumes "list_all mnem_wf ms" "length mnem = CS_MNEMONIC_SIZE" "holds mnem (mnem_part s)"
  shows "\<exists>m. custom_mnem ms idn mnem = Some m \<and> length m = CS_MNEMONIC_SIZE \<and>
    holds m (case mnem_lookup ms idn of None \<Rightarrow> mnem_part s | Some t \<Rightarrow> t)"
proof (cases "find (\<lambda>m. mn_id m = idn) ms")
  case None
  then show ?thesis using assms by (simp add: custom_mnem_def find_mnem_lookup)
next
  case (Some m)
  let ?t = "cstr (mn_mnemonic m)"
  have lk: "mnem_lookup ms idn = Some ?t" using Some by (simp add: find_mnem_lookup)
  note t = mnem_lookup_short [OF assms(1) lk]
  from strncpy_terminated [OF t(2), of mnem 31] assms(2) obtain d where
    "strncpy mnem ?t 31 = Some d" "length d = 32" "holds (d[31 := NUL]) (take 31 ?t)" by auto
  with Some lk t(1) show ?thesis by (auto simp: custom_mnem_def aset_def)
qed

lemma holds_update: "take n d = s \<Longrightarrow> length s = n \<Longrightarrow> n < length d \<Longrightarrow> NUL \<notin> set s \<Longrightarrow> holds (d[n := NUL]) s"
  unfolding holds_def by (simp add: upd_conv_take_nth_drop)

lemma no_NUL_parts: "NUL \<notin> set s \<Longrightarrow> NUL \<notin> set (mnem_part s) \<and> NUL \<notin> set (op_part s)"
  by (auto simp: mnem_part_def op_part_def bar_to_space_def dest: set_takeWhileD set_dropWhileD split: if_splits)

text \<open>The operand text of a record: everything after the blanks, cut to the array.\<close>

lemma fill_op_str:
  assumes "buffer = pre @ s @ NUL # r" "NUL \<notin> set s" "length op = 160" "s = dropWhile (\<lambda>c. \<not> blank c) t"
  shows "\<exists>op'. (if buffer ! length pre \<noteq> NUL then do {
       sp \<leftarrow> skip_blanks buffer (length pre + 1);
       s \<leftarrow> cstr_at buffer sp;
       op \<leftarrow> strncpy op s (length op - 1);
       op \<leftarrow> aset op (length op - 1) NUL;
       Some (f op) }
     else do {
       op \<leftarrow> aset op 0 NUL;
       Some (f op) }) = Some (f op') \<and> length op' = 160 \<and> cstr op' = take 159 (op_part t)"
proof (cases s)
  case Nil
  then have "buffer ! length pre = NUL" using assms(1) by (simp add: nth_append)
  moreover obtain c r' where "op = c # r'" using assms(3) by (cases op) auto
  ultimately show ?thesis using assms Nil
    by (auto simp: fault_simps cstr_def op_part_def)
next
  case (Cons c s')
  have bl: "blank c" using assms(4) Cons hd_dropWhile [of "\<lambda>c. \<not> blank c" t]
    by (metis list.sel(1) list.distinct(1))
  have c: "buffer ! length pre = c" "c \<noteq> NUL" using assms(1,2) Cons by (auto simp: nth_append)
  let ?k = "takeWhile blank s'" and ?o = "dropWhile blank s'"
  have b: "buffer = (pre @ [c]) @ s' @ NUL # r" using assms(1) Cons by simp
  have sk: "skip_blanks buffer (length pre + 1) = Some (length (pre @ c # ?k))"
    using skip_blanks_spec [OF b] by simp
  have b2: "buffer = (pre @ c # ?k) @ ?o @ NUL # r"
    using b by (metis append.assoc append_Cons append_Nil takeWhile_dropWhile_id)
  have no: "NUL \<notin> set ?o" using assms(2) Cons by (auto dest: set_dropWhileD)
  have at: "cstr_at buffer (length (pre @ c # ?k)) = Some ?o"
    by (subst (1) b2, rule cstr_at_spec [OF no])
  have op: "op_part t = ?o" unfolding op_part_def assms(4) [symmetric] Cons using bl by simp
  from strncpy_terminated [OF no, of op 159] assms(3) obtain d where
    d: "strncpy op ?o 159 = Some d" "length d = 160" "holds (d[159 := NUL]) (take 159 ?o)" by auto
  show ?thesis
    using c sk at d op assms(3) holds_cstr [OF d(3)]
    by (intro exI [of _ "d[159 := NUL]"]) (simp add: aset_def)
qed

lemma fill_insn_spec:
  fixes mci :: MCInst
  assumes "insn_wf insn" "ud_post_printer ud = None" "list_all mnem_wf (ud_mnem_list ud)"
    "holds buffer s" "length (takeWhile (\<lambda>c. \<not> blank c) s) < 32" "unat (in_size insn) \<le> length code"
  defines "idn \<equiv> (if mi_OpcodePub mci \<noteq> 0 then mi_OpcodePub mci else in_id insn)"
  shows "\<exists>i. fill_insn bk ud insn buffer mci code = Some i \<and> insn_wf i \<and> in_id i = idn \<and>
    in_address i = in_address insn \<and> in_detail i = in_detail insn \<and>
    unat (in_size i) = min 24 (unat (in_size insn)) \<and>
    take (unat (in_size i)) (in_bytes i) =
      drop (unat (in_size insn) - 24) (take (unat (in_size insn)) code) \<and>
    cstr (in_mnemonic i) = shown_mnem ud idn s \<and> cstr (in_op_str i) = take 159 (op_part s)"
proof -
  let ?n = "unat (in_size insn)"
  define k where "k = min 24 ?n"
  have wf: "length (in_bytes insn) = 24" "length (in_mnemonic insn) = 32" "length (in_op_str insn) = 160"
    using assms(1) by (simp_all add: insn_wf_def)
  have kn: "unat (of_nat k :: u16) = k"
    by (simp add: k_def unsigned_of_nat take_bit_nat_eq_self)
  define bs where "bs = take k (drop (?n - k) code)"
  have bs: "length bs = k" "bs = drop (?n - 24) (take ?n code)"
    using assms(6) by (auto simp: bs_def k_def min_def take_drop split: if_splits)
  define bytes where "bytes = bs @ drop k (in_bytes insn)"
  have cw: "cwrite (in_bytes insn) 0 bs = Some bytes"
    using bs(1) wf(1) by (simp add: cwrite_def bytes_def k_def)
  have bl: "length bytes = 24" "take k bytes = bs" using bs(1) wf(1) by (simp_all add: bytes_def k_def)
  obtain r where buf: "buffer = s @ NUL # r" "NUL \<notin> set s" using assms(4) by (auto simp: holds_def)
  note np = no_NUL_parts [OF buf(2)]
  have lm: "length (mnem_part s) < 32" using assms(5) by (simp add: mnem_part_def)
  let ?buf = "mnem_part s @ dropWhile (\<lambda>c. \<not> blank c) s @ NUL # r"
  from fill_mnem_spec [of buffer "[]" s r 0 "in_mnemonic insn"] buf assms(5) wf(2) obtain m1 where
    m1: "fill_mnem buffer 0 (in_mnemonic insn) = Some (?buf, length (mnem_part s), m1)" "length m1 = 32"
      "take (length (mnem_part s)) m1 = mnem_part s" by auto
  have h1: "holds (m1[length (mnem_part s) := NUL]) (mnem_part s)"
    using m1 lm np by (intro holds_update) auto
  from custom_mnem_spec [OF assms(3) _ h1, of idn] m1(2) obtain m2 where
    m2: "custom_mnem (ud_mnem_list ud) idn (m1[length (mnem_part s) := NUL]) = Some m2" "length m2 = 32"
      "holds m2 (shown_mnem ud idn s)" by (auto simp: shown_mnem_def)
  define i0 where "i0 = insn\<lparr>in_bytes := bytes, in_size := of_nat k, in_id := idn\<rparr>"
  have i0: "(if mi_OpcodePub mci \<noteq> 0 then insn\<lparr>in_bytes := bytes, in_size := of_nat k, in_id := mi_OpcodePub mci\<rparr>
      else insn\<lparr>in_bytes := bytes, in_size := of_nat k\<rparr>) = i0"
    by (simp add: i0_def idn_def)
  have no: "NUL \<notin> set (dropWhile (\<lambda>c. \<not> blank c) s)" using buf(2) by (auto dest: set_dropWhileD)
  from fill_op_str [OF refl no wf(3) refl, of "mnem_part s" r "\<lambda>op. i0\<lparr>in_mnemonic := m2, in_op_str := op\<rparr>"]
  obtain op' where op': "(if ?buf ! length (mnem_part s) \<noteq> NUL then do {
       sp \<leftarrow> skip_blanks ?buf (length (mnem_part s) + 1);
       s \<leftarrow> cstr_at ?buf sp;
       op \<leftarrow> strncpy (in_op_str insn) s (length (in_op_str insn) - 1);
       op \<leftarrow> aset op (length op - 1) NUL;
       Some (i0\<lparr>in_mnemonic := m2, in_op_str := op\<rparr>) }
     else do {
       op \<leftarrow> aset (in_op_str insn) 0 NUL;
       Some (i0\<lparr>in_mnemonic := m2, in_op_str := op\<rparr>) }) = Some (i0\<lparr>in_mnemonic := m2, in_op_str := op'\<rparr>)"
    "length op' = 160" "cstr op' = take 159 (op_part s)" by blast
  have a1: "aset m1 (length (mnem_part s)) NUL = Some (m1[length (mnem_part s) := NUL])"
    using m1(2) lm by (simp add: aset_def)
  have a2: "aget ?buf (length (mnem_part s)) = Some (?buf ! length (mnem_part s))"
    by (simp add: aget_def)
  have f0: "in_mnemonic i0 = in_mnemonic insn" "in_op_str i0 = in_op_str insn" "in_id i0 = idn"
    by (simp_all add: i0_def)
  have "fill_insn bk ud insn buffer mci code = Some (i0\<lparr>in_mnemonic := m2, in_op_str := op'\<rparr>)"
    unfolding fill_insn_def Let_def wf(1) k_def [symmetric] bs_def [symmetric] cw MCInst_getOpcodePub_def
      i0 call_post_printer_def assms(2) need_bind if_P [OF assms(6)] Option.bind.simps option.case prod.case
      f0 m1(1) a1 m2(1) a2 op'(1) ..
  moreover have "insn_wf (i0\<lparr>in_mnemonic := m2, in_op_str := op'\<rparr>)"
    using assms(1) bl(1) m2(2) op'(2) by (simp add: insn_wf_def i0_def)
  ultimately show ?thesis
    using kn bl(2) bs(2) holds_cstr [OF m2(3)] op'(3) by (simp add: i0_def k_def)
qed

section \<open>What skipdata_opstr writes\<close>

text \<open>The listing of the bytes, and the array after it: the listing cut to 159 characters.\<close>

fun byte_list :: "u8 list \<Rightarrow> string" where
  "byte_list [] = []"
| "byte_list [b] = ''0x'' @ fmt_0x 2 (unat b)"
| "byte_list (b # bs) = ''0x'' @ fmt_0x 2 (unat b) @ '', '' @ byte_list bs"

definition tail_list :: "u8 list \<Rightarrow> string" where
  "tail_list bs = concat (map (\<lambda>b. '', 0x'' @ fmt_0x 2 (unat b)) bs)"

lemma byte_list_tail: "byte_list (b # bs) = ''0x'' @ fmt_0x 2 (unat b) @ tail_list bs"
  by (induction bs arbitrary: b) (simp_all add: tail_list_def)

lemma no_NUL_hex: "NUL \<notin> set (fmt_0x w n)"
  using fmt_0x_chars [of w n] by auto

lemma vsnprintf_holds:
  assumes "holds buf s" "NUL \<notin> set t" "length buf = N" "avail = N - length s"
  shows "\<exists>buf'. vsnprintf buf (length s) avail t = Some buf' \<and> length buf' = N \<and>
    holds buf' (s @ take (avail - 1) t)"
proof -
  have lt: "length s < N" using holds_less [OF assms(1)] assms(3) by simp
  have "NUL \<notin> set (take (avail - 1) t)" using assms(2) by (meson in_set_takeD)
  moreover have "length s + length (take (avail - 1) t) < length buf" using lt assms(3,4) by simp
  ultimately show ?thesis
    using cwrite_extends_holds [OF assms(1), of "take (avail - 1) t"] lt assms(3,4)
    by (auto simp: vsnprintf_def)
qed

lemma opstr_loop_spec:
  assumes "holds opstr s" "length opstr = N" "p = length s" "avail = N - length s"
    "n \<le> length buffer" "i \<le> n"
  shows "\<exists>op. opstr_loop opstr p avail buffer i n = Some op \<and> length op = N \<and>
    holds op (take (N - 1) (s @ tail_list (drop i (take n buffer))))"
  using assms
proof (induction "n - i" arbitrary: opstr s p avail i)
  case 0
  then have "i = n" by simp
  moreover have "length s \<le> N - 1" using holds_less [OF 0(2)] 0(3) by simp
  ultimately show ?case using 0 by (subst opstr_loop.simps) (simp add: tail_list_def)
next
  case (Suc k)
  then have i: "i < n" "i < length buffer" by simp_all
  let ?t = "'', 0x'' @ fmt_0x 2 (unat (buffer ! i))"
  have lt: "length s < N" using holds_less [OF Suc.prems(1)] Suc.prems(2) by simp
  have "NUL \<notin> set ?t" using no_NUL_hex by simp
  from vsnprintf_holds [OF Suc.prems(1) this Suc.prems(2,4)] obtain b where
    b: "vsnprintf opstr (length s) avail ?t = Some b" "length b = N" "holds b (s @ take (avail - 1) ?t)"
    by blast
  have d: "drop i (take n buffer) = buffer ! i # drop (Suc i) (take n buffer)"
    using i by (simp add: Cons_nth_drop_Suc [symmetric])
  have tl: "tail_list (drop i (take n buffer)) = ?t @ tail_list (drop (Suc i) (take n buffer))"
    unfolding d by (simp add: tail_list_def)
  have cut: "take (N - 1) s @ take (N - 1 - length s) (t @ x) = s @ take (avail - 1) t"
    if "avail - 1 < length t" for t x :: string
    using that lt Suc.prems(4) by simp
  show ?case
  proof (cases "length ?t > avail - 1")
    case True
    then have "opstr_loop opstr p avail buffer i n = Some b"
      using i b(1) Suc.prems(3) by (subst opstr_loop.simps) (simp add: aget_def Let_def)
    moreover have "take (N - 1) (s @ tail_list (drop i (take n buffer))) = s @ take (avail - 1) ?t"
      unfolding tl take_append [of _ s] using cut [OF True] by simp
    ultimately show ?thesis using b by simp
  next
    case False
    then have "opstr_loop opstr p avail buffer i n =
        opstr_loop b (p + length ?t) (avail - length ?t) buffer (Suc i) n"
      using i b(1) Suc.prems(3) by (subst opstr_loop.simps) (simp add: aget_def Let_def)
    moreover have "holds b (s @ ?t)" using b(3) False by simp
    ultimately show ?thesis unfolding tl append_assoc [symmetric]
      using Suc.hyps(1) [of "Suc i" b "s @ ?t"] Suc.hyps(2) b(2) Suc.prems(3-5) i by simp
  qed
qed

lemma skipdata_opstr_spec:
  assumes "0 < n" "n \<le> length buffer" "length opstr = 160"
  shows "\<exists>op. skipdata_opstr opstr buffer n = Some op \<and> length op = 160 \<and>
    holds op (take 159 (byte_list (take n buffer)))"
proof -
  obtain b bs where buf: "buffer = b # bs" using assms by (cases buffer) auto
  obtain m where n: "n = Suc m" using assms(1) by (cases n) auto
  let ?t = "''0x'' @ fmt_0x 2 (unat b)"
  have lt: "length ?t = 4" using length_hex_byte [of b] by simp
  let ?op = "?t @ NUL # drop 5 opstr"
  have v: "vsnprintf opstr 0 160 ?t = Some ?op"
    using lt assms(3) by (simp add: vsnprintf_def cwrite_def)
  have h: "holds ?op ?t" using no_NUL_hex by (simp add: holds_def)
  have l: "length ?op = 160" using lt assms(3) by simp
  have "skipdata_opstr opstr buffer n = opstr_loop ?op (length ?t) (160 - length ?t) buffer 1 n"
    unfolding skipdata_opstr_def Let_def assms(3) using v buf n by (simp add: aget_def)
  moreover from opstr_loop_spec [OF h l refl refl assms(2), of 1] obtain op where
    "opstr_loop ?op (length ?t) (160 - length ?t) buffer 1 n = Some op" "length op = 160"
    "holds op (take (160 - 1) (?t @ tail_list (drop 1 (take n buffer))))" using n by auto
  moreover have "byte_list (take n buffer) = ?t @ tail_list (drop 1 (take n buffer))"
    using buf n by (simp add: byte_list_tail)
  ultimately show ?thesis by simp
qed

text \<open>The listing of more than 26 bytes does not fit its array.\<close>

lemma length_byte_list: "bs \<noteq> [] \<Longrightarrow> length (byte_list bs) = 6 * length bs - 2"
proof (cases bs)
  case (Cons b bs')
  have "length (tail_list bs') = 6 * length bs'"
    by (induction bs') (simp_all add: tail_list_def length_hex_byte)
  then show ?thesis using Cons by (simp add: byte_list_tail length_hex_byte)
qed simp

end
