(* ===== verification/Engine_Disasm.thy ===== *)
theory Engine_Disasm
  imports Engine_Fill
begin

text \<open>
  Disassembly in \<^verbatim>\<open>cs.c\<close>: \<^verbatim>\<open>cs_disasm\<close> with its growing array,
  \<^verbatim>\<open>cs_disasm_iter\<close>, \<^verbatim>\<open>cs_malloc\<close> and \<^verbatim>\<open>cs_free\<close>.

  \<^item> Memory that C leaves uninitialised (the stack objects, fresh blocks) has contents given by
    the record \<open>junk\<close>, about which nothing is assumed but the sizes of the arrays.
  \<^item> The output array is the list of the finished records, and the live block that holds it
    must have room for the slot being written: a write past it is undefined.
  \<^item> \<^verbatim>\<open>cache_size\<close> and \<^verbatim>\<open>f\<close> are 32-bit. Sizes of blocks are numbers; that
    \<^verbatim>\<open>size_t\<close> does not overflow is part of what an allocation that succeeds means.
\<close>

record junk =
  j_mci :: MCInst
  j_ss :: "nat \<Rightarrow> SStream"
  j_insn :: "nat \<Rightarrow> cs_insn"
  j_detail :: "nat \<Rightarrow> cs_detail"
  j_size :: u16

record env =
  e_abi :: abi
  e_back :: backends
  e_junk :: junk

abbreviation (input) INSN_CACHE_SIZE :: nat where "INSN_CACHE_SIZE \<equiv> 32"

section \<open>One record\<close>

text \<open>
  The branch of a decoded instruction, the same in \<^verbatim>\<open>cs_disasm\<close> and
  \<^verbatim>\<open>cs_disasm_iter\<close>: set the size, map the id, print, fill the record, adjust the id
  of an X86 pseudo opcode. The record is reached through \<^verbatim>\<open>mci.flat_insn\<close>.
\<close>

definition decoded :: "env \<Rightarrow> heap \<Rightarrow> cs_struct \<Rightarrow> MCInst \<Rightarrow> SStream \<Rightarrow> u8 list \<Rightarrow> u16 \<Rightarrow>
    (heap \<times> cs_struct \<times> MCInst) option" where
  "decoded E h ud mci ss0 code sz = do {
     let ss = SStream_Init ss0;
     let insn = (mi_flat_insn mci)\<lparr>in_size := sz\<rparr>;
     (h, ud, insn) \<leftarrow> call_insn_id (e_back E) h ud insn (mi_Opcode mci);
     (mci, ss) \<leftarrow> call_printer (e_back E) ud (mci\<lparr>mi_flat_insn := insn\<rparr>) ss;
     insn \<leftarrow> fill_insn (e_back E) ud (mi_flat_insn mci) (ss_buffer ss) mci code;
     let insn = (if ud_arch ud = CS_ARCH_X86
                 then insn\<lparr>in_id := in_id insn + ucast (mi_popcode_adjust mci)\<rparr> else insn);
     Some (h, ud, mci\<lparr>mi_flat_insn := insn\<rparr>) }"

text \<open>
  How many bytes to skip: \<open>None\<close> is the decision to stop. \<open>code\<close> is the rest of the
  input; \<open>org\<close> and \<open>pos\<close> are the buffer and position the callback is given.
\<close>

definition skip_bytes :: "cs_struct \<Rightarrow> u8 list \<Rightarrow> u8 list \<Rightarrow> nat \<Rightarrow> nat option" where
  "skip_bytes ud code org pos =
     (if \<not> ud_skipdata ud \<or> unat (ud_skipdata_size ud) > length code then None
      else case sk_callback (ud_skipdata_setup ud) of
        Some cb \<Rightarrow>
          (let n = cb org pos (sk_user_data (ud_skipdata_setup ud))
           in if n > length code then None else if n = 0 then None else Some n)
      | None \<Rightarrow> Some (unat (ud_skipdata_size ud)))"

text \<open>The record of skipped data.\<close>

definition emit_data :: "cs_struct \<Rightarrow> cs_insn \<Rightarrow> u8 list \<Rightarrow> u64 \<Rightarrow> nat \<Rightarrow> cs_insn option" where
  "emit_data ud insn code address n = do {
     let insn = insn\<lparr>in_id := 0, in_address := address, in_size := of_nat n\<rparr>;
     need (n \<le> length code);
     bytes \<leftarrow> cwrite (in_bytes insn) 0 (take n code);
     s \<leftarrow> sk_mnemonic (ud_skipdata_setup ud);
     mnem \<leftarrow> strncpy (in_mnemonic insn) s (CS_MNEMONIC_SIZE - 1);
     op \<leftarrow> skipdata_opstr (in_op_str insn) code n;
     Some (insn\<lparr>in_bytes := bytes, in_mnemonic := mnem, in_op_str := op\<rparr>) }"

definition detail_addr :: "cs_insn \<Rightarrow> nat" where
  "detail_addr insn = (case in_detail insn of None \<Rightarrow> 0 | Some (p, d) \<Rightarrow> p)"

section \<open>cs_disasm\<close>

record dis_state =
  ds_heap :: heap
  ds_ud :: cs_struct
  ds_mci :: MCInst
  ds_out :: "cs_insn list"
  ds_f :: u32
  ds_cache_size :: u32
  ds_total :: nat
  ds_total_size :: nat
  ds_buffer :: "u8 list"
  ds_offset :: u64

text \<open>The loop is left by \<^verbatim>\<open>break\<close>, or the function returns 0 from inside it.\<close>

datatype dis_exit = Break dis_state | Return_0 heap cs_struct

text \<open>What \<^verbatim>\<open>*insn\<close> is after the call: not written, null, or the array.\<close>

datatype insn_out = Unwritten | Null | Array nat "cs_insn list"

text \<open>Allocating and attaching the details of the next record.\<close>

definition alloc_detail :: "env \<Rightarrow> heap \<Rightarrow> cs_struct \<Rightarrow> ((nat \<times> cs_detail) option \<times> heap) option" where
  "alloc_detail E h ud =
     (if ud_detail ud \<noteq> 0 then do {
        (p, h) \<leftarrow> h_malloc h (sz_cs_detail (e_abi E));
        Some (if p = 0 then None else Some (p, j_detail (e_junk E) p), h) }
      else Some (None, h))"

text \<open>The path of a failed \<^verbatim>\<open>realloc\<close>: release everything.\<close>

definition release_all :: "heap \<Rightarrow> cs_struct \<Rightarrow> nat \<Rightarrow> cs_insn list \<Rightarrow> (heap \<times> cs_struct) option" where
  "release_all h ud tot out = do {
     h \<leftarrow> (if ud_detail ud \<noteq> 0 then h_free_all h (map detail_addr out) else Some h);
     h \<leftarrow> h_free h tot;
     Some (h, ud\<lparr>ud_errnum := CS_ERR_MEM\<rparr>) }"

text \<open>The end of the loop body: the new record is counted, and the array grows when it is full.\<close>

definition disasm_advance :: "env \<Rightarrow> nat \<Rightarrow> dis_state \<Rightarrow> cs_insn \<Rightarrow> nat \<Rightarrow> (dis_state + dis_exit) option" where
  "disasm_advance E count st insn next_offset = do {
     let st = st\<lparr>ds_out := ds_out st @ [insn], ds_f := ds_f st + 1\<rparr>;
     if count > 0 \<and> length (ds_out st) = count then Some (Inr (Break st))
     else do {
       res \<leftarrow> (if ds_f st = ds_cache_size st then do {
           let cache_size = ds_cache_size st * 8 div 5;
           let total_size = ds_total_size st + sz_cs_insn (e_abi E) * unat cache_size;
           (tmp, h) \<leftarrow> h_realloc (ds_heap st) (ds_total st) total_size;
           if tmp = 0 then do {
             (h, ud) \<leftarrow> release_all h (ds_ud st) (ds_total st) (ds_out st);
             Some (Inr (Return_0 h ud)) }
           else Some (Inl (st\<lparr>ds_heap := h, ds_total := tmp, ds_total_size := total_size,
                              ds_cache_size := cache_size, ds_f := 0\<rparr>)) }
         else Some (Inl st));
       (case res of
          Inr e \<Rightarrow> Some (Inr e)
        | Inl st \<Rightarrow> do {
            need (next_offset \<le> length (ds_buffer st));
            Some (Inl (st\<lparr>ds_buffer := drop next_offset (ds_buffer st),
                          ds_offset := ds_offset st + of_nat next_offset\<rparr>)) }) } }"

text \<open>The body after the call of the decoder, whose result is the last argument.\<close>

definition step_tail :: "env \<Rightarrow> u8 list \<Rightarrow> u64 \<Rightarrow> nat \<Rightarrow> dis_state \<Rightarrow> heap \<Rightarrow>
    bool \<times> MCInst \<times> u16 \<times> cs_struct \<Rightarrow> (dis_state + dis_exit) option" where
  "step_tail E org off count st h = (\<lambda>(r, mci, sz, ud).
     if r then do {
       (h, ud, mci) \<leftarrow> decoded E h ud mci (j_ss (e_junk E) (length (ds_out st))) (ds_buffer st) sz;
       disasm_advance E count (st\<lparr>ds_heap := h, ds_ud := ud, ds_mci := mci\<rparr>) (mi_flat_insn mci) (unat sz) }
     else do {
       h \<leftarrow> (if ud_detail ud \<noteq> 0 then h_free h (detail_addr (mi_flat_insn mci)) else Some h);
       case skip_bytes ud (ds_buffer st) org (unat (ds_offset st - off)) of
         None \<Rightarrow> Some (Inr (Break (st\<lparr>ds_heap := h, ds_ud := ud, ds_mci := mci\<rparr>)))
       | Some n \<Rightarrow> do {
           insn \<leftarrow> emit_data ud (mi_flat_insn mci) (ds_buffer st) (ds_offset st) n;
           disasm_advance E count (st\<lparr>ds_heap := h, ds_ud := ud,
             ds_mci := mci\<lparr>mi_flat_insn := insn\<lparr>in_detail := None\<rparr>\<rparr>\<rparr>) (insn\<lparr>in_detail := None\<rparr>) n } })"

text \<open>The body of the loop, with its condition.\<close>

definition disasm_step :: "env \<Rightarrow> u8 list \<Rightarrow> u64 \<Rightarrow> nat \<Rightarrow> dis_state \<Rightarrow> (dis_state + dis_exit) option" where
  "disasm_step E buffer_org offset_org count st =
     (if ds_buffer st = [] then Some (Inr (Break st))
      else do {
        let c = length (ds_out st);
        let mci = (MCInst_Init (ds_mci st))\<lparr>mi_address := ds_offset st\<rparr>;
        block \<leftarrow> h_live (ds_heap st) (ds_total st);
        need ((c + 1) * sz_cs_insn (e_abi E) \<le> block);
        (det, h) \<leftarrow> alloc_detail E (ds_heap st) (ds_ud st);
        let insn = (j_insn (e_junk E) c)\<lparr>in_detail := det, in_address := ds_offset st\<rparr>;
        let mci = mci\<lparr>mi_flat_insn := insn\<rparr>;
        r \<leftarrow> call_disasm (e_back E) (ds_ud st) (ds_buffer st) mci (j_size (e_junk E)) (ds_offset st);
        step_tail E buffer_org offset_org count st h r })"

text \<open>After the loop: no record, or the array is cut to the records it has.\<close>

definition disasm_finish :: "env \<Rightarrow> dis_state \<Rightarrow> (heap \<times> cs_struct \<times> nat \<times> insn_out) option" where
  "disasm_finish E st =
     (if ds_out st = [] then do {
        h \<leftarrow> h_free (ds_heap st) (ds_total st);
        Some (h, ds_ud st, 0, Null) }
      else if ds_f st \<noteq> ds_cache_size st then do {
        (tmp, h) \<leftarrow> h_realloc (ds_heap st) (ds_total st)
          (ds_total_size st - unat (ds_cache_size st - ds_f st) * sz_cs_insn (e_abi E));
        if tmp = 0 then do {
          (h, ud) \<leftarrow> release_all h (ds_ud st) (ds_total st) (ds_out st);
          Some (h, ud, 0, Null) }
        else Some (h, ds_ud st, length (ds_out st), Array tmp (ds_out st)) }
      else Some (ds_heap st, ds_ud st, length (ds_out st), Array (ds_total st) (ds_out st)))"

definition disasm_loop :: "env \<Rightarrow> u8 list \<Rightarrow> u64 \<Rightarrow> nat \<Rightarrow> dis_state \<Rightarrow>
    (heap \<times> cs_struct \<times> nat \<times> insn_out) option" where
  "disasm_loop E buffer offset count st = do {
     e \<leftarrow> c_loop (disasm_step E buffer offset count) st;
     (case e of
        Return_0 h ud \<Rightarrow> Some (h, ud, 0, Null)
      | Break st \<Rightarrow> disasm_finish E st) }"

definition cs_disasm :: "env \<Rightarrow> world \<Rightarrow> nat \<Rightarrow> u8 list \<Rightarrow> u64 \<Rightarrow> nat \<Rightarrow> (world \<times> nat \<times> insn_out) option" where
  "cs_disasm E w csh buffer offset count =
     (if csh = 0 then Some (w, 0, Unwritten)
      else do {
        ud \<leftarrow> get_handle w csh;
        let ud = ud\<lparr>ud_errnum := CS_ERR_OK\<rparr>;
        let ud = (if ud_arch ud = CS_ARCH_ARM then ud\<lparr>ud_ITsize := 0\<rparr> else ud);
        let cache_size = (if count > 0 \<and> count \<le> INSN_CACHE_SIZE then count else INSN_CACHE_SIZE);
        let total_size = sz_cs_insn (e_abi E) * cache_size;
        (tot, h) \<leftarrow> h_malloc (w_heap w) total_size;
        if tot = 0 then Some (set_handle w csh h (ud\<lparr>ud_errnum := CS_ERR_MEM\<rparr>), 0, Unwritten)
        else do {
          (h, ud, c, out) \<leftarrow> disasm_loop E buffer offset count
            \<lparr>ds_heap = h, ds_ud = ud, ds_mci = j_mci (e_junk E), ds_out = [], ds_f = 0,
             ds_cache_size = of_nat cache_size, ds_total = tot, ds_total_size = total_size,
             ds_buffer = buffer, ds_offset = offset\<rparr>;
          Some (set_handle w csh h ud, c, out) } })"

definition cs_disasm_ex :: "env \<Rightarrow> world \<Rightarrow> nat \<Rightarrow> u8 list \<Rightarrow> u64 \<Rightarrow> nat \<Rightarrow> (world \<times> nat \<times> insn_out) option" where
  "cs_disasm_ex E w csh buffer offset count = cs_disasm E w csh buffer offset count"

section \<open>Releasing and single stepping\<close>

text \<open>\<^verbatim>\<open>cs_free\<close> of an array: the details of the first \<open>count\<close> records, then the array.\<close>

definition cs_free :: "world \<Rightarrow> nat \<Rightarrow> cs_insn list \<Rightarrow> nat \<Rightarrow> world option" where
  "cs_free w p insns count = do {
     need (count \<le> length insns);
     h \<leftarrow> h_free_all (w_heap w) (map detail_addr (take count insns));
     h \<leftarrow> h_free h p;
     Some (w\<lparr>w_heap := h\<rparr>) }"

text \<open>\<^verbatim>\<open>cs_malloc\<close>: the address of the new record and its contents, or null.\<close>

definition cs_malloc :: "env \<Rightarrow> world \<Rightarrow> nat \<Rightarrow> (world \<times> (nat \<times> cs_insn) option) option" where
  "cs_malloc E w csh = do {
     (p, h) \<leftarrow> h_malloc (w_heap w) (sz_cs_insn (e_abi E));
     ud \<leftarrow> get_handle w csh;
     if p = 0 then Some (set_handle w csh h (ud\<lparr>ud_errnum := CS_ERR_MEM\<rparr>), None)
     else if ud_detail ud \<noteq> 0 then do {
       (d, h) \<leftarrow> h_malloc h (sz_cs_detail (e_abi E));
       if d = 0 then do {
         h \<leftarrow> h_free h p;
         Some (set_handle w csh h (ud\<lparr>ud_errnum := CS_ERR_MEM\<rparr>), None) }
       else Some (set_handle w csh h ud,
              Some (p, (j_insn (e_junk E) 0)\<lparr>in_detail := Some (d, j_detail (e_junk E) d)\<rparr>)) }
     else Some (set_handle w csh h ud, Some (p, (j_insn (e_junk E) 0)\<lparr>in_detail := None\<rparr>)) }"

text \<open>
  \<^verbatim>\<open>cs_disasm_iter\<close>: the returned flag, the rest of the code, the next address and the
  record. The callback gets the rest of the code and the position 0.
\<close>

definition cs_disasm_iter :: "env \<Rightarrow> world \<Rightarrow> nat \<Rightarrow> u8 list \<Rightarrow> u64 \<Rightarrow> cs_insn \<Rightarrow>
    (world \<times> bool \<times> u8 list \<times> u64 \<times> cs_insn) option" where
  "cs_disasm_iter E w csh code address insn =
     (if csh = 0 then Some (w, False, code, address, insn)
      else do {
        ud \<leftarrow> get_handle w csh;
        let ud = ud\<lparr>ud_errnum := CS_ERR_OK\<rparr>;
        let mci = (MCInst_Init (j_mci (e_junk E)))\<lparr>mi_address := address,
                    mi_flat_insn := insn\<lparr>in_address := address\<rparr>\<rparr>;
        (r, mci, sz, ud) \<leftarrow> call_disasm (e_back E) ud code mci (j_size (e_junk E)) address;
        if r then do {
          (h, ud, mci) \<leftarrow> decoded E (w_heap w) ud mci (j_ss (e_junk E) 0) code sz;
          need (unat sz \<le> length code);
          Some (set_handle w csh h ud, True, drop (unat sz) code, address + ucast sz, mi_flat_insn mci) }
        else
          (case skip_bytes ud code code 0 of
             None \<Rightarrow> Some (set_handle w csh (w_heap w) ud, False, code, address, mi_flat_insn mci)
           | Some n \<Rightarrow> do {
               insn \<leftarrow> emit_data ud (mi_flat_insn mci) code address n;
               Some (set_handle w csh (w_heap w) ud, True, drop n code, address + of_nat n, insn) }) })"

section \<open>Blocks owned by a computation\<close>

text \<open>
  \<open>owns L h B\<close>: the heap has the live blocks \<open>L\<close> of the caller, untouched, and the blocks
  \<open>B\<close> of the computation, which are not among them.
\<close>

definition owns :: "(nat \<rightharpoonup> nat) \<Rightarrow> heap \<Rightarrow> nat set \<Rightarrow> bool" where
  "owns L h B \<longleftrightarrow> heap_ok h \<and> B \<subseteq> dom (h_live h) \<and> B \<inter> dom L = {} \<and> h_live h |` (- B) = L"

lemma owns_heap: "owns L h B \<Longrightarrow> heap_ok h"
  by (simp add: owns_def)

lemma restrict_UNIV [simp]: "m |` UNIV = m"
  by (simp add: restrict_map_def)

lemma owns_init: "heap_ok h \<Longrightarrow> owns (h_live h) h {}"
  by (simp add: owns_def)

lemma owns_nonzero: "owns L h B \<Longrightarrow> 0 \<notin> B"
  unfolding owns_def using live_nonzero by blast

lemma owns_live: "owns L h B \<Longrightarrow> p \<in> B \<Longrightarrow> h_live h p \<noteq> None"
  by (auto simp: owns_def)

lemma owns_empty: "owns L h {} \<Longrightarrow> h_live h = L"
  by (simp add: owns_def)

lemma owns_same_live: "owns L h B \<Longrightarrow> heap_ok h' \<Longrightarrow> h_live h' = h_live h \<Longrightarrow> owns L h' B"
  by (simp add: owns_def)

lemma h_alloc_frame:
  "h_alloc h n = (p, h') \<Longrightarrow> h_grant h' = h_grant h \<and> h_funcs h' = h_funcs h"
  "h_free h p = Some h' \<Longrightarrow> h_grant h' = h_grant h \<and> h_funcs h' = h_funcs h"
  "h_realloc h p n = Some (q, h') \<Longrightarrow> h_grant h' = h_grant h \<and> h_funcs h' = h_funcs h"
  by (auto simp: h_alloc_def h_free_def h_realloc_def split: if_splits)

lemma h_free_all_frame:
  "h_free_all h ps = Some h' \<Longrightarrow> h_grant h' = h_grant h \<and> h_funcs h' = h_funcs h"
  by (induction ps arbitrary: h) (auto dest!: h_alloc_frame(2) split: bind_splits)

lemma h_alloc_granted:
  "heap_ok h \<Longrightarrow> h_alloc h n = (p, h') \<Longrightarrow> \<forall>k. h_grant h k \<Longrightarrow> p \<noteq> 0"
  by (auto simp: h_alloc_def heap_ok_def heap_wf_def)

lemma owns_alloc:
  assumes "owns L h B" "h_alloc h n = (p, h')"
  shows "p = 0 \<Longrightarrow> owns L h' B \<and> h_live h' = h_live h"
    "p \<noteq> 0 \<Longrightarrow> owns L h' (insert p B) \<and> p \<notin> B \<and> p \<notin> dom L \<and> h_live h' = (h_live h)(p \<mapsto> n)"
proof -
  have ok: "heap_ok h" by (rule owns_heap [OF assms(1)])
  have "(p = 0 \<longrightarrow> owns L h' B \<and> h_live h' = h_live h) \<and>
    (p \<noteq> 0 \<longrightarrow> owns L h' (insert p B) \<and> p \<notin> B \<and> p \<notin> dom L \<and> h_live h' = (h_live h)(p \<mapsto> n))"
  proof (cases rule: h_alloc_cases [OF ok, of n])
    case (1 h1)
    with assms show ?thesis by (auto simp: owns_def)
  next
    case (2 q h1)
    have "h_live h q = None" by (rule 2)
    then have "q \<notin> B" "q \<notin> dom L" using assms(1) by (auto simp: owns_def restrict_map_def split: if_splits)
    moreover have "h_live h1 |` (- insert q B) = L"
    proof -
      have "h_live h1 |` (- insert q B) = (h_live h |` (- B)) |` (- {q})"
        using 2(5) by (auto simp: restrict_map_def fun_eq_iff)
      also have "\<dots> = L" using assms(1) \<open>q \<notin> dom L\<close> by (auto simp: owns_def restrict_map_def fun_eq_iff)
      finally show ?thesis .
    qed
    ultimately show ?thesis using 2 assms by (auto simp: owns_def)
  qed
  then show "p = 0 \<Longrightarrow> owns L h' B \<and> h_live h' = h_live h"
    "p \<noteq> 0 \<Longrightarrow> owns L h' (insert p B) \<and> p \<notin> B \<and> p \<notin> dom L \<and> h_live h' = (h_live h)(p \<mapsto> n)" by auto
qed

lemma owns_remove:
  assumes "owns L h B" "heap_ok h'" "h_live h' = h_live h |` (- S)" "S \<subseteq> B"
  shows "owns L h' (B - S)"
proof -
  have "h_live h' |` (- (B - S)) = h_live h |` (- B)"
    using assms(3,4) by (auto simp: restrict_map_def fun_eq_iff)
  with assms show ?thesis by (auto simp: owns_def dom_restrict)
qed

lemma owns_free:
  assumes "owns L h B" "p \<in> B"
  shows "\<exists>h'. h_free h p = Some h' \<and> owns L h' (B - {p}) \<and> h_live h' = (h_live h)(p := None) \<and>
    h_grant h' = h_grant h \<and> h_funcs h' = h_funcs h"
proof -
  from h_free_ok [OF owns_heap [OF assms(1)] owns_live [OF assms]] obtain h' where
    h': "h_free h p = Some h'" "heap_ok h'" "h_live h' = (h_live h)(p := None)" by auto
  then have "owns L h' (B - {p})" using assms by (intro owns_remove [OF assms(1)]) (auto simp: restrict_map_def fun_eq_iff)
  with h' h_alloc_frame(2) [OF h'(1)] show ?thesis by auto
qed

lemma owns_free_all:
  assumes "owns L h B" "distinct (filter (\<lambda>p. p \<noteq> 0) ps)" "set ps - {0} \<subseteq> B"
  shows "\<exists>h'. h_free_all h ps = Some h' \<and> owns L h' (B - set ps) \<and>
    h_grant h' = h_grant h \<and> h_funcs h' = h_funcs h"
proof -
  have "\<forall>p \<in> set ps. p \<noteq> 0 \<longrightarrow> h_live h p \<noteq> None" using assms(3) owns_live [OF assms(1)] by auto
  from h_free_all_ok [OF owns_heap [OF assms(1)] assms(2) this] obtain h' where
    h': "h_free_all h ps = Some h'" "heap_ok h'" "h_live h' = h_live h |` (- set ps)" by auto
  have z: "h_live h 0 = None" using live_nonzero [OF owns_heap [OF assms(1)]] by blast
  have "h_live h' = h_live h |` (- (set ps - {0}))"
    unfolding h'(3) using z by (auto simp: restrict_map_def fun_eq_iff)
  from owns_remove [OF assms(1) h'(2) this assms(3)] have "owns L h' (B - (set ps - {0}))" .
  moreover have "B - (set ps - {0}) = B - set ps" using owns_nonzero [OF assms(1)] by blast
  ultimately show ?thesis using h'(1) h_free_all_frame [OF h'(1)] by auto
qed

lemma owns_realloc:
  assumes "owns L h (insert p B)" "p \<notin> B"
  obtains (fail) h' where "h_realloc h p n = Some (0, h')" "owns L h' (insert p B)" "h_live h' = h_live h"
      "h_grant h' = h_grant h" "h_funcs h' = h_funcs h" "\<not> (\<forall>k. h_grant h k)"
  | (moved) q h' where "h_realloc h p n = Some (q, h')" "q \<noteq> 0" "owns L h' (insert q B)" "q \<notin> B"
      "h_live h' q = Some n" "\<And>r. r \<in> B \<Longrightarrow> h_live h' r = h_live h r"
      "h_grant h' = h_grant h" "h_funcs h' = h_funcs h"
proof -
  note ok = owns_heap [OF assms(1)]
  have live: "h_live h p \<noteq> None" by (rule owns_live [OF assms(1)]) simp
  show thesis
  proof (cases rule: h_realloc_cases [OF ok live, of n])
    case (1 h')
    have "\<not> (\<forall>k. h_grant h k)"
      using 1(1) live h_alloc_granted [OF ok, of n] by (auto simp: h_realloc_def split: if_splits prod.splits)
    with 1 owns_same_live [OF assms(1) 1(2,3)] h_alloc_frame(3) [OF 1(1)] show thesis by (intro fail [OF 1(1)]) auto
  next
    case (2 q h')
    have qn: "h_live h q = None" by (rule 2)
    have q: "q \<notin> insert p B" "q \<notin> dom L"
      using qn owns_live [OF assms(1), of q] assms(1) by (auto simp: owns_def restrict_map_def split: if_splits)
    have "h_live h' |` (- insert q B) = L"
    proof -
      have "h_live h' |` (- insert q B) = (h_live h |` (- insert p B)) |` (- {q})"
        unfolding 2(5) using q(1) by (auto simp: restrict_map_def fun_eq_iff)
      also have "\<dots> = L" using assms(1) q(2) by (auto simp: owns_def restrict_map_def fun_eq_iff)
      finally show ?thesis .
    qed
    then have "owns L h' (insert q B)" using assms q 2(4,5) by (auto simp: owns_def)
    with 2 q assms(2) h_alloc_frame(3) [OF 2(1)] show thesis by (intro moved [OF 2(1)]) auto
  qed
qed

section \<open>The abstract disassembler\<close>

text \<open>What a caller sees of a record: id, address, size, bytes, mnemonic and operands.\<close>

record insn_view =
  v_id :: u32
  v_address :: u64
  v_size :: u16
  v_bytes :: "u8 list"
  v_mnemonic :: string
  v_op_str :: string

definition view :: "cs_insn \<Rightarrow> insn_view" where
  "view i = \<lparr>v_id = in_id i, v_address = in_address i, v_size = in_size i,
     v_bytes = take (unat (in_size i)) (in_bytes i),
     v_mnemonic = cstr (in_mnemonic i), v_op_str = cstr (in_op_str i)\<rparr>"

text \<open>The description of an architecture, as in the contract of its handles.\<close>

record arch_desc =
  a_valid :: "u8 list \<Rightarrow> bool"
  a_len :: "u8 list \<Rightarrow> nat"
  a_num :: "u8 list \<Rightarrow> u32"
  a_text :: "u8 list \<Rightarrow> u64 \<Rightarrow> string"

definition evm_desc :: arch_desc where
  "evm_desc = \<lparr>a_valid = evm_valid, a_len = evm_insn_len, a_num = (\<lambda>code. ucast (hd code)),
     a_text = (\<lambda>code address. evm_text code)\<rparr>"

definition mos_desc :: arch_desc where
  "mos_desc = \<lparr>a_valid = mos_valid, a_len = mos_insn_len,
     a_num = (\<lambda>code. of_nat (mos65xx_insn_num (oi_ins (mos_op (hd code))))), a_text = mos_text\<rparr>"

text \<open>An instruction: the last 24 of its bytes, and the printed text split at its blanks.\<close>

definition decode_view :: "arch_desc \<Rightarrow> cs_struct \<Rightarrow> u8 list \<Rightarrow> u64 \<Rightarrow> insn_view" where
  "decode_view D ud code address = \<lparr>v_id = a_num D code, v_address = address, v_size = of_nat (min 24 (a_len D code)),
     v_bytes = drop (a_len D code - 24) (take (a_len D code) code),
     v_mnemonic = shown_mnem ud (a_num D code) (a_text D code address),
     v_op_str = take 159 (op_part (a_text D code address))\<rparr>"

definition data_view :: "cs_struct \<Rightarrow> u8 list \<Rightarrow> u64 \<Rightarrow> nat \<Rightarrow> insn_view" where
  "data_view ud code address n = \<lparr>v_id = 0, v_address = address, v_size = of_nat n, v_bytes = take n code,
     v_mnemonic = the (sk_mnemonic (ud_skipdata_setup ud)),
     v_op_str = take 159 (byte_list (take n code))\<rparr>"

text \<open>One record and the number of bytes it stands for; \<open>None\<close> when the disassembly stops.\<close>

definition next_view :: "arch_desc \<Rightarrow> cs_struct \<Rightarrow> u8 list \<Rightarrow> nat \<Rightarrow> u8 list \<Rightarrow> u64 \<Rightarrow> (insn_view \<times> nat) option" where
  "next_view D ud org pos code address =
     (if a_valid D code then Some (decode_view D ud code address, a_len D code)
      else map_option (\<lambda>n. (data_view ud code address n, n)) (skip_bytes ud code org pos))"

function views :: "arch_desc \<Rightarrow> cs_struct \<Rightarrow> u8 list \<Rightarrow> u8 list \<Rightarrow> u64 \<Rightarrow> insn_view list" where
  "views D ud org code address =
     (if code = [] then []
      else case next_view D ud org (length org - length code) code address of
        None \<Rightarrow> []
      | Some (v, n) \<Rightarrow>
          v # (if n = 0 then [] else views D ud org (drop n code) (address + of_nat n)))"
  by pat_completeness auto
termination
  by (relation "measure (\<lambda>(D, ud, org, code, address). length code)") auto

declare views.simps [simp del]

definition expected :: "arch_desc \<Rightarrow> cs_struct \<Rightarrow> nat \<Rightarrow> u8 list \<Rightarrow> u64 \<Rightarrow> insn_view list" where
  "expected D ud count code address =
     (if count = 0 then views D ud code code address else take count (views D ud code code address))"

text \<open>A SKIPDATA setup that is safe to use: the callback and the default skip at most what fits a
  record, the mnemonic is given and short enough to be terminated.\<close>

definition skip_ok :: "cs_struct \<Rightarrow> bool" where
  "skip_ok ud \<longleftrightarrow> (ud_skipdata ud \<longrightarrow> 0 < ud_skipdata_size ud \<and> unat (ud_skipdata_size ud) \<le> 24 \<and>
     (\<forall>cb org pos u. sk_callback (ud_skipdata_setup ud) = Some cb \<longrightarrow> cb org pos u \<le> 24) \<and>
     (\<exists>s. sk_mnemonic (ud_skipdata_setup ud) = Some s \<and> length s \<le> 30 \<and> NUL \<notin> set s))"

lemma skip_bytes_ok:
  assumes "skip_ok ud" "skip_bytes ud code org pos = Some n"
  shows "0 < n" "n \<le> length code" "n \<le> 24"
    "\<exists>s. sk_mnemonic (ud_skipdata_setup ud) = Some s \<and> length s \<le> 30 \<and> NUL \<notin> set s"
  using assms
  by (auto simp: skip_bytes_def skip_ok_def Let_def word_less_nat_alt split: if_splits option.splits)

lemma strncpy_short:
  assumes "length dst = 32" "length s \<le> 30" "NUL \<notin> set s"
  shows "\<exists>d. strncpy dst s 31 = Some d \<and> length d = 32 \<and> cstr d = s"
proof -
  have "31 - length s = Suc (30 - length s)" using assms(2) by simp
  then have "strncpy dst s 31 = Some (s @ NUL # replicate (30 - length s) NUL @ drop 31 dst)"
    using assms by (simp add: strncpy_defined)
  then show ?thesis using assms by (auto simp: cstr_append_NUL)
qed

lemma emit_data_spec:
  assumes "insn_wf insn" "skip_ok ud" "skip_bytes ud code org pos = Some n"
  shows "\<exists>i. emit_data ud insn code address n = Some i \<and> insn_wf i \<and> view i = data_view ud code address n \<and>
    in_detail i = in_detail insn"
proof -
  note n = skip_bytes_ok [OF assms(2,3)]
  obtain s where s: "sk_mnemonic (ud_skipdata_setup ud) = Some s" "length s \<le> 30" "NUL \<notin> set s"
    using n(4) by auto
  have wf: "length (in_bytes insn) = 24" "length (in_mnemonic insn) = 32" "length (in_op_str insn) = 160"
    using assms(1) by (simp_all add: insn_wf_def)
  obtain m where m: "strncpy (in_mnemonic insn) s 31 = Some m" "length m = 32" "cstr m = s"
    using strncpy_short [OF wf(2) s(2,3)] by auto
  obtain op where op: "skipdata_opstr (in_op_str insn) code n = Some op" "length op = 160"
    "holds op (take 159 (byte_list (take n code)))"
    using skipdata_opstr_spec [OF n(1,2) wf(3)] by auto
  have bs: "cwrite (in_bytes insn) 0 (take n code) = Some (take n code @ drop n (in_bytes insn))"
    using n(2,3) wf(1) by (simp add: cwrite_def min_def)
  have nn: "unat (of_nat n :: u16) = n" using n(3) by (simp add: unsigned_of_nat take_bit_nat_eq_self)
  show ?thesis
    using assms(1) n(2,3) s(1) m op bs nn holds_cstr [OF op(3)]
    by (auto simp: emit_data_def Let_def need_bind insn_wf_def view_def data_view_def min_def)
qed

text \<open>Decoding and filling one record, from the contract.\<close>

lemma of_nat_len: "n \<le> 33 \<Longrightarrow> unat (of_nat n :: u16) = n"
  by (simp add: unsigned_of_nat take_bit_nat_eq_self)

context backend
begin

lemma text_mnem: "valid code \<Longrightarrow> length (takeWhile (\<lambda>c. \<not> blank c) (insn_text code address)) < 32"
  using text_short [of code address] by (simp add: blank_def)

definition desc :: arch_desc where
  "desc = \<lparr>a_valid = valid, a_len = insn_len, a_num = insn_num, a_text = insn_text\<rparr>"

lemma decode_record:
  assumes "is_handle ud" "list_all mnem_wf (ud_mnem_list ud)" "decodable ud MI" "valid code"
    "length (ss_buffer ss0) = SSTREAM_SIZE" "in_address (mi_flat_insn MI) = address"
  shows "\<exists>MI' mci. call_disasm (e_back E) ud code MI sz address = Some (True, MI', of_nat (insn_len code), ud) \<and>
    decoded E h ud MI' ss0 code (of_nat (insn_len code)) = Some (h, ud, mci) \<and> mci_wf mci \<and>
    view (mi_flat_insn mci) = decode_view desc ud code address \<and> insn_wf (mi_flat_insn mci) \<and>
    map_option fst (in_detail (mi_flat_insn mci)) = map_option fst (in_detail (mi_flat_insn MI))"
proof -
  let ?bk = "e_back E" and ?n = "insn_len code"
  from accept [OF assms(1,3,4), of ?bk sz address] obtain MI' where
    MI': "call_disasm ?bk ud code MI sz address = Some (True, MI', of_nat ?n, ud)" "mci_wf MI'"
      "kept (mi_flat_insn MI) (mi_flat_insn MI')" "mi_OpcodePub MI' = 0 \<or> mi_OpcodePub MI' = insn_num code"
    and ids: "\<And>insn h. insn_wf insn \<Longrightarrow> (ud_detail ud \<noteq> 0 \<longrightarrow> in_detail insn \<noteq> None) \<Longrightarrow>
           (\<exists>i. call_insn_id ?bk h ud insn (mi_Opcode MI') = Some (h, ud, i) \<and> kept insn i \<and> in_id i = insn_num code)"
    and pr: "\<And>insn ss. insn_wf insn \<Longrightarrow> ss_holds ss [] \<Longrightarrow>
           (\<exists>ss'. call_printer ?bk ud (MI'\<lparr>mi_flat_insn := insn\<rparr>) ss =
               Some (MI'\<lparr>mi_flat_insn := insn\<rparr>, ss') \<and> ss_holds ss' (insn_text code address))"
    by blast
  note len = len_range [OF assms(4)]
  have n16: "unat (of_nat ?n :: u16) = ?n" using len by (intro of_nat_len) simp
  define i0 where "i0 = (mi_flat_insn MI')\<lparr>in_size := of_nat ?n\<rparr>"
  have wf0: "insn_wf i0" using MI'(2) by (simp add: i0_def mci_wf_def insn_wf_def)
  have det0: "ud_detail ud \<noteq> 0 \<longrightarrow> in_detail i0 \<noteq> None"
    using assms(3) MI'(3) by (auto simp: decodable_def kept_def i0_def)
  from ids [OF wf0 det0, of h] obtain i1 where i1: "call_insn_id ?bk h ud i0 (mi_Opcode MI') = Some (h, ud, i1)"
    "kept i0 i1" "in_id i1 = insn_num code" by blast
  have wf1: "insn_wf i1" using i1(2) wf0 by (simp add: kept_def)
  from pr [OF wf1 SStream_Init_holds [OF assms(5)]] obtain ss where
    ss: "call_printer ?bk ud (MI'\<lparr>mi_flat_insn := i1\<rparr>) (SStream_Init ss0) = Some (MI'\<lparr>mi_flat_insn := i1\<rparr>, ss)"
      "ss_holds ss (insn_text code address)" by blast
  let ?mci = "MI'\<lparr>mi_flat_insn := i1\<rparr>"
  have hold: "holds (ss_buffer ss) (insn_text code address)" using ss(2) by (simp add: ss_holds_def)
  have sz1: "unat (in_size i1) = ?n" using i1(2) n16 by (simp add: kept_def i0_def)
  note np = no_post [OF assms(1)]
  have idn: "(if mi_OpcodePub ?mci \<noteq> 0 then mi_OpcodePub ?mci else in_id i1) = insn_num code"
    using MI'(4) i1(3) by auto
  from fill_insn_spec [OF wf1 np [THEN conjunct1] assms(2) hold text_mnem [OF assms(4)], of code ?bk ?mci,
      unfolded idn sz1] len obtain i2 where
    i2: "fill_insn ?bk ud i1 (ss_buffer ss) ?mci code = Some i2" "insn_wf i2" "in_id i2 = insn_num code"
      "in_address i2 = in_address i1" "in_detail i2 = in_detail i1" "unat (in_size i2) = min 24 ?n"
      "take (unat (in_size i2)) (in_bytes i2) = drop (?n - 24) (take ?n code)"
      "cstr (in_mnemonic i2) = shown_mnem ud (insn_num code) (insn_text code address)"
      "cstr (in_op_str i2) = take 159 (op_part (insn_text code address))" by auto
  have "decoded E h ud MI' ss0 code (of_nat ?n) = Some (h, ud, MI'\<lparr>mi_flat_insn := i2\<rparr>)"
    using i1(1) ss(1) i2(1) np by (simp add: decoded_def i0_def)
  moreover have "mci_wf (MI'\<lparr>mi_flat_insn := i2\<rparr>)" using MI'(2) i2(2) by (simp add: mci_wf_def)
  moreover have "in_size i2 = of_nat (min 24 ?n)" using i2(6) by (metis of_nat_unat ucast_id)
  then have "view i2 = decode_view desc ud code address"
    using i2 i1(2) MI'(3) assms(6) by (simp add: view_def decode_view_def desc_def kept_def i0_def)
  moreover have "map_option fst (in_detail i2) = map_option fst (in_detail (mi_flat_insn MI))"
    using i2(5) i1(2) MI'(3) by (simp add: kept_def i0_def)
  ultimately show ?thesis using MI'(1) i2(2)
    by (intro exI [of _ MI'] exI [of _ "MI'\<lparr>mi_flat_insn := i2\<rparr>"]) simp
qed

end

section \<open>The memory of cs_disasm\<close>

definition detail_blocks :: "cs_insn list \<Rightarrow> nat list" where
  "detail_blocks out = filter (\<lambda>p. p \<noteq> 0) (map detail_addr out)"

text \<open>
  The array has room for the records it holds and for the rest of the cache; it and the details
  are the only blocks the loop owns.
\<close>

definition dis_mem :: "env \<Rightarrow> (nat \<rightharpoonup> nat) \<Rightarrow> dis_state \<Rightarrow> bool" where
  "dis_mem E L st \<longleftrightarrow>
     owns L (ds_heap st) (insert (ds_total st) (set (detail_blocks (ds_out st)))) \<and>
     ds_total st \<notin> set (detail_blocks (ds_out st)) \<and> distinct (detail_blocks (ds_out st)) \<and>
     (ud_detail (ds_ud st) = 0 \<longrightarrow> detail_blocks (ds_out st) = []) \<and>
     h_live (ds_heap st) (ds_total st) = Some (ds_total_size st) \<and>
     ds_total_size st = sz_cs_insn (e_abi E) *
       (length (ds_out st) + (unat (ds_cache_size st) - unat (ds_f st))) \<and>
     unat (ds_f st) \<le> unat (ds_cache_size st) \<and> unat (ds_f st) \<le> length (ds_out st)"

definition same_frame :: "heap \<Rightarrow> heap \<Rightarrow> bool" where
  "same_frame h h' \<longleftrightarrow> h_grant h' = h_grant h \<and> h_funcs h' = h_funcs h"

lemma same_frame_refl [simp]: "same_frame h h"
  by (simp add: same_frame_def)

lemma same_frame_trans: "same_frame h h1 \<Longrightarrow> same_frame h1 h2 \<Longrightarrow> same_frame h h2"
  by (simp add: same_frame_def)

text \<open>A failed reallocation ends with nothing left over.\<close>

lemma release_all_ok:
  assumes "owns L h (insert tot (set (detail_blocks out)))" "tot \<notin> set (detail_blocks out)"
    "distinct (detail_blocks out)" "ud_detail ud = 0 \<longrightarrow> detail_blocks out = []"
  shows "\<exists>h'. release_all h ud tot out = Some (h', ud\<lparr>ud_errnum := CS_ERR_MEM\<rparr>) \<and> heap_ok h' \<and>
    h_live h' = L \<and> same_frame h h'"
proof -
  have ps: "set (map detail_addr out) - {0} \<subseteq> insert tot (set (detail_blocks out))"
    "insert tot (set (detail_blocks out)) - set (map detail_addr out) = {tot}"
    using assms(2) owns_nonzero [OF assms(1)] by (auto simp: detail_blocks_def)
  obtain h1 where h1: "(if ud_detail ud \<noteq> 0 then h_free_all h (map detail_addr out) else Some h) = Some h1"
    "owns L h1 {tot}" "same_frame h h1"
  proof (cases "ud_detail ud = 0")
    case True
    then show ?thesis using that assms by simp
  next
    case False
    from owns_free_all [OF assms(1) _ ps(1)] assms(3) ps(2) show ?thesis
      using that False by (auto simp: detail_blocks_def same_frame_def)
  qed
  from owns_free [OF h1(2), of tot] obtain h2 where "h_free h1 tot = Some h2" "owns L h2 {}"
    "h_grant h2 = h_grant h1" "h_funcs h2 = h_funcs h1" by auto
  with h1 show ?thesis
    by (auto simp: release_all_def same_frame_def owns_heap dest: owns_empty)
qed

text \<open>Growing: the next cache is larger by three fifths, and 32 bits suffice below \<open>2 ^ 29\<close> records.\<close>

lemma cache_growth:
  fixes cache :: u32
  assumes "unat cache < 2 ^ 29"
  shows "unat (cache * 8 div 5) = unat cache * 8 div 5"
proof -
  have "unat (cache * 8) = unat cache * 8" using assms by (simp add: unat_word_ariths)
  then show ?thesis by (simp add: unat_div)
qed

definition all_granted :: "heap \<Rightarrow> bool" where
  "all_granted h \<longleftrightarrow> (\<forall>k. h_grant h k)"

lemma same_frame_granted: "same_frame h h' \<Longrightarrow> all_granted h' = all_granted h"
  by (simp add: same_frame_def all_granted_def)

lemma disasm_advance_ok:
  assumes own: "owns L (ds_heap st) (insert (ds_total st) (set (detail_blocks (ds_out st @ [insn]))))"
      "ds_total st \<notin> set (detail_blocks (ds_out st @ [insn]))" "distinct (detail_blocks (ds_out st @ [insn]))"
      "ud_detail (ds_ud st) = 0 \<longrightarrow> detail_blocks (ds_out st @ [insn]) = []"
    and arr: "h_live (ds_heap st) (ds_total st) = Some (ds_total_size st)"
      "ds_total_size st = sz_cs_insn (e_abi E) * (length (ds_out st) + (unat (ds_cache_size st) - unat (ds_f st)))"
      "unat (ds_f st) < unat (ds_cache_size st)" "unat (ds_f st) \<le> length (ds_out st)"
    and small: "length (ds_out st) + 1 < 2 ^ 29" and n: "n \<le> length (ds_buffer st)"
    and cnt: "count = 0 \<or> length (ds_out st) < count"
  shows "(\<exists>st'. disasm_advance E count st insn n = Some (Inl st') \<and> dis_mem E L st' \<and>
        unat (ds_f st') < unat (ds_cache_size st') \<and> ds_out st' = ds_out st @ [insn] \<and>
        ds_buffer st' = drop n (ds_buffer st) \<and> ds_offset st' = ds_offset st + of_nat n \<and>
        ds_ud st' = ds_ud st \<and> ds_mci st' = ds_mci st \<and> same_frame (ds_heap st) (ds_heap st') \<and>
        (0 < count \<longrightarrow> length (ds_out st') < count)) \<or>
    (\<exists>st'. disasm_advance E count st insn n = Some (Inr (Break st')) \<and> dis_mem E L st' \<and>
        ds_out st' = ds_out st @ [insn] \<and> ds_ud st' = ds_ud st \<and> same_frame (ds_heap st) (ds_heap st') \<and>
        0 < count \<and> length (ds_out st') = count) \<or>
    (\<exists>h. disasm_advance E count st insn n = Some (Inr (Return_0 h ((ds_ud st)\<lparr>ud_errnum := CS_ERR_MEM\<rparr>))) \<and>
        heap_ok h \<and> h_live h = L \<and> same_frame (ds_heap st) h \<and> \<not> all_granted (ds_heap st))"
proof -
  define st1 where "st1 = st\<lparr>ds_out := ds_out st @ [insn], ds_f := ds_f st + 1\<rparr>"
  let ?sz = "sz_cs_insn (e_abi E)"
  have f1: "unat (ds_f st1) = unat (ds_f st) + 1"
    using arr(3) unsigned_less [of "ds_cache_size st", where 'a = nat]
    by (simp add: st1_def unat_word_ariths)
  have "length (ds_out st) + (unat (ds_cache_size st) - unat (ds_f st)) =
      length (ds_out st1) + (unat (ds_cache_size st1) - unat (ds_f st1))"
    unfolding f1 using arr(3) by (simp add: st1_def)
  then have cap: "ds_total_size st1 = ?sz * (length (ds_out st1) + (unat (ds_cache_size st1) - unat (ds_f st1)))"
    using arr(2) by (simp only:) (simp add: st1_def)
  have mem1: "dis_mem E L st1"
    unfolding dis_mem_def cap [symmetric] using own arr(1,3,4) f1 by (simp add: st1_def)
  show ?thesis
  proof (cases "count > 0 \<and> length (ds_out st1) = count")
    case True
    then have "disasm_advance E count st insn n = Some (Inr (Break st1))"
      by (simp add: disasm_advance_def st1_def)
    with mem1 True show ?thesis by (auto simp: st1_def)
  next
    case cont: False
    with cnt have cnt1: "count = 0 \<or> length (ds_out st1) < count" by (auto simp: st1_def)
    show ?thesis
    proof (cases "ds_f st1 = ds_cache_size st1")
      case False
      then have "unat (ds_f st1) < unat (ds_cache_size st1)"
        using mem1 by (auto simp: dis_mem_def word_unat_eq_iff)
      moreover have "disasm_advance E count st insn n =
          Some (Inl (st1\<lparr>ds_buffer := drop n (ds_buffer st), ds_offset := ds_offset st + of_nat n\<rparr>))"
        using False cont n by (auto simp: disasm_advance_def st1_def need_bind Let_def)
      ultimately show ?thesis using mem1 cnt1 by (auto simp: st1_def dis_mem_def)
    next
      case full: True
      let ?cs = "ds_cache_size st1"
      have le: "unat ?cs < 2 ^ 29" using full mem1 small by (simp add: dis_mem_def st1_def)
      let ?cs' = "?cs * 8 div 5"
      let ?ts = "ds_total_size st1 + ?sz * unat ?cs'"
      have pos: "0 < unat ?cs'"
        using cache_growth [OF le] full f1 by (simp add: st1_def)
      have ts: "ds_total_size st1 = ?sz * length (ds_out st1)"
        using mem1 full by (simp add: dis_mem_def)
      have own1: "owns L (ds_heap st1) (insert (ds_total st1) (set (detail_blocks (ds_out st1))))"
        "ds_total st1 \<notin> set (detail_blocks (ds_out st1))" using mem1 by (simp_all add: dis_mem_def)
      show ?thesis
      proof (cases rule: owns_realloc [OF own1, of ?ts])
        case (1 h')
        from release_all_ok [OF 1(2) own1(2), of "ds_ud st1"] mem1 obtain h2 where
          "release_all h' (ds_ud st1) (ds_total st1) (ds_out st1) =
             Some (h2, (ds_ud st1)\<lparr>ud_errnum := CS_ERR_MEM\<rparr>)" "heap_ok h2" "h_live h2 = L" "same_frame h' h2"
          by (auto simp: dis_mem_def)
        with 1 full cont show ?thesis
          by (auto simp: disasm_advance_def st1_def same_frame_def all_granted_def Let_def)
      next
        case (2 q h')
        define st2 where "st2 = st1\<lparr>ds_heap := h', ds_total := q, ds_total_size := ?ts,
            ds_cache_size := ?cs', ds_f := 0, ds_buffer := drop n (ds_buffer st),
            ds_offset := ds_offset st + of_nat n\<rparr>"
        have "disasm_advance E count st insn n = Some (Inl st2)"
          using 2(1,2) full cont n by (auto simp: disasm_advance_def st1_def st2_def need_bind Let_def)
        moreover have "dis_mem E L st2"
          using 2 mem1 ts by (simp add: dis_mem_def st2_def distrib_left)
        ultimately show ?thesis using 2 pos cnt1 by (auto simp: st1_def st2_def same_frame_def)
      qed
    qed
  qed
qed

section \<open>The loop\<close>

definition junk_ok :: "junk \<Rightarrow> bool" where
  "junk_ok J \<longleftrightarrow> mci_wf (j_mci J) \<and> (\<forall>n. length (ss_buffer (j_ss J n)) = SSTREAM_SIZE) \<and>
     (\<forall>n. insn_wf ((j_insn J n)\<lparr>in_detail := None\<rparr>)) \<and> (\<forall>p. detail_wf (j_detail J p))"

lemma alloc_detail_ok:
  assumes "owns L h B" "ud_detail ud \<noteq> 0 \<longrightarrow> all_granted h"
  shows "\<exists>det h'. alloc_detail E h ud = Some (det, h') \<and> same_frame h h' \<and>
    (case det of
       None \<Rightarrow> ud_detail ud = 0 \<and> h' = h
     | Some (p, d) \<Rightarrow> ud_detail ud \<noteq> 0 \<and> p \<noteq> 0 \<and> p \<notin> B \<and> d = j_detail (e_junk E) p \<and>
         owns L h' (insert p B) \<and> (\<forall>q. q \<noteq> p \<longrightarrow> h_live h' q = h_live h q))"
proof (cases "ud_detail ud = 0")
  case True
  then show ?thesis by (simp add: alloc_detail_def)
next
  case False
  obtain p h' where a: "h_alloc h (sz_cs_detail (e_abi E)) = (p, h')"
    by (cases "h_alloc h (sz_cs_detail (e_abi E))")
  have "p \<noteq> 0" using h_alloc_granted [OF owns_heap [OF assms(1)] a] assms(2) False
    by (simp add: all_granted_def)
  with owns_alloc(2) [OF assms(1) a] a h_alloc_frame(1) [OF a] False show ?thesis
    by (auto simp: alloc_detail_def h_malloc_ok [OF owns_heap [OF assms(1)]] same_frame_def)
qed

text \<open>The invariant of the loop, and what holds when it is left.\<close>

definition dis_inv :: "arch_desc \<Rightarrow> env \<Rightarrow> heap \<Rightarrow> (nat \<rightharpoonup> nat) \<Rightarrow> cs_struct \<Rightarrow> u8 list \<Rightarrow> u64 \<Rightarrow> nat \<Rightarrow>
    dis_state \<Rightarrow> bool" where
  "dis_inv D E h0 L ud org off count st \<longleftrightarrow>
     dis_mem E L st \<and> unat (ds_f st) < unat (ds_cache_size st) \<and> ds_ud st = ud \<and> mci_wf (ds_mci st) \<and>
     same_frame h0 (ds_heap st) \<and> list_all insn_wf (ds_out st) \<and>
     length (ds_out st) + length (ds_buffer st) \<le> length org \<and>
     (\<exists>k \<le> length org. ds_buffer st = drop k org \<and> ds_offset st = off + of_nat k) \<and>
     views D ud org org off = map view (ds_out st) @ views D ud org (ds_buffer st) (ds_offset st) \<and>
     (count = 0 \<or> length (ds_out st) < count)"

definition exit_ok :: "arch_desc \<Rightarrow> env \<Rightarrow> heap \<Rightarrow> (nat \<rightharpoonup> nat) \<Rightarrow> cs_struct \<Rightarrow> u8 list \<Rightarrow> u64 \<Rightarrow> nat \<Rightarrow>
    dis_exit \<Rightarrow> bool" where
  "exit_ok D E h0 L ud org off count e \<longleftrightarrow>
     (case e of
        Break st \<Rightarrow> dis_mem E L st \<and> ds_ud st = ud \<and> same_frame h0 (ds_heap st) \<and>
          list_all insn_wf (ds_out st) \<and> map view (ds_out st) = expected D ud count org off
      | Return_0 h ud' \<Rightarrow> heap_ok h \<and> h_live h = L \<and> ud' = ud\<lparr>ud_errnum := CS_ERR_MEM\<rparr> \<and>
          same_frame h0 h \<and> \<not> all_granted h0)"

text \<open>Stopping where the abstract disassembler stops.\<close>

lemma stop_expected:
  assumes "views D ud org org off = map view out @ []" "count = 0 \<or> length out < count"
  shows "map view out = expected D ud count org off"
  using assms by (auto simp: expected_def)

text \<open>One more record: the invariant of the next state, or one of the two exits.\<close>

lemma inv_advance:
  assumes inv: "dis_inv D E h0 L ud org off count st" and ne: "ds_buffer st \<noteq> []"
    and small: "length org < 2 ^ 29"
    and nv: "next_view D ud org (length org - length (ds_buffer st)) (ds_buffer st) (ds_offset st) = Some (view insn, n)"
    and n: "0 < n" "n \<le> length (ds_buffer st)"
    and wf: "insn_wf insn" "mci_wf mci"
    and own: "owns L h (insert (ds_total st) (set (detail_blocks (ds_out st @ [insn]))))"
      "ds_total st \<notin> set (detail_blocks (ds_out st @ [insn]))" "distinct (detail_blocks (ds_out st @ [insn]))"
      "ud_detail ud = 0 \<longrightarrow> detail_blocks (ds_out st @ [insn]) = []"
      "h_live h (ds_total st) = h_live (ds_heap st) (ds_total st)" "same_frame (ds_heap st) h"
  defines "st1 \<equiv> st\<lparr>ds_heap := h, ds_ud := ud, ds_mci := mci\<rparr>"
  shows "(\<exists>st'. disasm_advance E count st1 insn n = Some (Inl st') \<and> dis_inv D E h0 L ud org off count st' \<and>
        length (ds_buffer st') < length (ds_buffer st)) \<or>
    (\<exists>e. disasm_advance E count st1 insn n = Some (Inr e) \<and> exit_ok D E h0 L ud org off count e)"
proof -
  have mem: "dis_mem E L st" and f: "unat (ds_f st) < unat (ds_cache_size st)" and ud: "ds_ud st = ud"
    and fr: "same_frame h0 (ds_heap st)" and wfs: "list_all insn_wf (ds_out st)"
    and len: "length (ds_out st) + length (ds_buffer st) \<le> length org"
    and v: "views D ud org org off = map view (ds_out st) @ views D ud org (ds_buffer st) (ds_offset st)"
    and cnt: "count = 0 \<or> length (ds_out st) < count"
    using inv by (simp_all add: dis_inv_def)
  obtain k where k: "k \<le> length org" "ds_buffer st = drop k org" "ds_offset st = off + of_nat k"
    using inv by (auto simp: dis_inv_def)
  have vs: "views D ud org (ds_buffer st) (ds_offset st) =
      view insn # views D ud org (drop n (ds_buffer st)) (ds_offset st + of_nat n)"
    using nv ne n(1) by (subst views.simps) simp
  have fr1: "same_frame h0 (ds_heap st1)" using same_frame_trans [OF fr own(6)] by (simp add: st1_def)
  have v1: "views D ud org org off = map view (ds_out st @ [insn]) @
      views D ud org (drop n (ds_buffer st)) (ds_offset st + of_nat n)"
    using v vs by simp
  have "0 < length (ds_buffer st)" "length (ds_out st1) = length (ds_out st)"
    using ne by (simp_all add: st1_def)
  then have c1: "length (ds_out st1) + 1 < 2 ^ 29" using len small by linarith
  have "(\<exists>st'. disasm_advance E count st1 insn n = Some (Inl st') \<and> dis_mem E L st' \<and>
        unat (ds_f st') < unat (ds_cache_size st') \<and> ds_out st' = ds_out st1 @ [insn] \<and>
        ds_buffer st' = drop n (ds_buffer st1) \<and> ds_offset st' = ds_offset st1 + of_nat n \<and>
        ds_ud st' = ds_ud st1 \<and> ds_mci st' = ds_mci st1 \<and> same_frame (ds_heap st1) (ds_heap st') \<and>
        (0 < count \<longrightarrow> length (ds_out st') < count)) \<or>
    (\<exists>st'. disasm_advance E count st1 insn n = Some (Inr (Break st')) \<and> dis_mem E L st' \<and>
        ds_out st' = ds_out st1 @ [insn] \<and> ds_ud st' = ds_ud st1 \<and> same_frame (ds_heap st1) (ds_heap st') \<and>
        0 < count \<and> length (ds_out st') = count) \<or>
    (\<exists>h. disasm_advance E count st1 insn n = Some (Inr (Return_0 h ((ds_ud st1)\<lparr>ud_errnum := CS_ERR_MEM\<rparr>))) \<and>
        heap_ok h \<and> h_live h = L \<and> same_frame (ds_heap st1) h \<and> \<not> all_granted (ds_heap st1))"
    by (rule disasm_advance_ok) (use mem f own n(2) cnt c1 in \<open>auto simp: st1_def dis_mem_def\<close>)
  then show ?thesis
  proof (elim disjE exE conjE)
    fix st' assume a: "disasm_advance E count st1 insn n = Some (Inl st')" "dis_mem E L st'"
        "unat (ds_f st') < unat (ds_cache_size st')" "ds_out st' = ds_out st1 @ [insn]"
        "ds_buffer st' = drop n (ds_buffer st1)" "ds_offset st' = ds_offset st1 + of_nat n"
        "ds_ud st' = ds_ud st1" "ds_mci st' = ds_mci st1" "same_frame (ds_heap st1) (ds_heap st')"
    assume "0 < count \<longrightarrow> length (ds_out st') < count"
    then have c: "count = 0 \<or> length (ds_out st') < count" by auto
    have "dis_inv D E h0 L ud org off count st'"
      unfolding dis_inv_def
    proof (intro conjI)
      show "\<exists>k \<le> length org. ds_buffer st' = drop k org \<and> ds_offset st' = off + of_nat k"
        using a(5,6) k n(2) by (intro exI [of _ "k + n"]) (auto simp: st1_def add.commute)
      show "length (ds_out st') + length (ds_buffer st') \<le> length org"
        using a(4,5) len n by (simp add: st1_def)
    qed (use a c wf wfs v1 same_frame_trans [OF fr1 a(9)] in \<open>simp_all add: st1_def\<close>)
    then show ?thesis using a(1,5) n by (auto simp: st1_def)
  next
    fix st' assume a: "disasm_advance E count st1 insn n = Some (Inr (Break st'))" "dis_mem E L st'"
        "ds_out st' = ds_out st1 @ [insn]" "ds_ud st' = ds_ud st1" "same_frame (ds_heap st1) (ds_heap st')"
        "0 < count" "length (ds_out st') = count"
    have "map view (ds_out st') = expected D ud count org off"
      unfolding expected_def v1 a(7) [symmetric] using a(3) by (simp add: st1_def)
    with a wf wfs same_frame_trans [OF fr1 a(5)] show ?thesis by (auto simp: exit_ok_def st1_def)
  next
    fix h' assume a: "disasm_advance E count st1 insn n = Some (Inr (Return_0 h' ((ds_ud st1)\<lparr>ud_errnum := CS_ERR_MEM\<rparr>)))"
        "heap_ok h'" "h_live h' = L" "same_frame (ds_heap st1) h'" "\<not> all_granted (ds_heap st1)"
    with same_frame_trans [OF fr1 a(4)] same_frame_granted [OF fr1] show ?thesis
      by (auto simp: exit_ok_def st1_def)
  qed
qed

lemma detail_blocks_snoc:
  "detail_blocks (out @ [i]) = detail_blocks out @ (if detail_addr i = 0 then [] else [detail_addr i])"
  by (simp add: detail_blocks_def)

lemma dis_inv_position:
  assumes "dis_inv D E h0 L ud org off count st" "length org < 2 ^ 29"
  shows "unat (ds_offset st - off) = length org - length (ds_buffer st)"
proof -
  obtain k where k: "k \<le> length org" "ds_buffer st = drop k org" "ds_offset st = off + of_nat k"
    using assms(1) by (auto simp: dis_inv_def)
  then have "ds_offset st - off = of_nat k" by simp
  moreover have "unat (of_nat k :: u64) = k"
    using k(1) assms(2) by (simp add: unsigned_of_nat take_bit_nat_eq_self)
  ultimately show ?thesis using k by simp
qed

lemma detail_addr_fst: "detail_addr i = (case map_option fst (in_detail i) of None \<Rightarrow> 0 | Some p \<Rightarrow> p)"
  by (auto simp: detail_addr_def split: option.split)

text \<open>The part of the body before the decoder is called.\<close>

definition det_owned :: "(nat \<rightharpoonup> nat) \<Rightarrow> env \<Rightarrow> cs_struct \<Rightarrow> dis_state \<Rightarrow> heap \<Rightarrow> nat option \<Rightarrow> bool" where
  "det_owned L E ud st h det \<longleftrightarrow> same_frame (ds_heap st) h \<and>
     (case det of
        None \<Rightarrow> ud_detail ud = 0 \<and> h = ds_heap st
      | Some p \<Rightarrow> ud_detail ud \<noteq> 0 \<and> p \<noteq> 0 \<and>
          p \<notin> insert (ds_total st) (set (detail_blocks (ds_out st))) \<and>
          owns L h (insert p (insert (ds_total st) (set (detail_blocks (ds_out st))))) \<and>
          (\<forall>q. q \<noteq> p \<longrightarrow> h_live h q = h_live (ds_heap st) q))"

lemma step_prepare:
  assumes inv: "dis_inv D E h0 L ud org off count st" and ne: "ds_buffer st \<noteq> []"
    and h: "ud_detail ud \<noteq> 0 \<longrightarrow> all_granted h0" and j: "junk_ok (e_junk E)"
  obtains h1 mci where
    "disasm_step E org off count st =
       call_disasm (e_back E) ud (ds_buffer st) mci (j_size (e_junk E)) (ds_offset st) \<bind>
         step_tail E org off count st h1"
    "decodable ud mci" "in_address (mi_flat_insn mci) = ds_offset st"
    "det_owned L E ud st h1 (map_option fst (in_detail (mi_flat_insn mci)))"
proof -
  let ?c = "length (ds_out st)" and ?off = "ds_offset st"
  have mem: "owns L (ds_heap st) (insert (ds_total st) (set (detail_blocks (ds_out st))))"
    "h_live (ds_heap st) (ds_total st) = Some (ds_total_size st)"
    "ds_total_size st = sz_cs_insn (e_abi E) * (?c + (unat (ds_cache_size st) - unat (ds_f st)))"
    "unat (ds_f st) < unat (ds_cache_size st)" and ud: "ds_ud st = ud" and wf: "mci_wf (ds_mci st)"
    and fr: "same_frame h0 (ds_heap st)"
    using inv by (auto simp: dis_inv_def dis_mem_def)
  have cap: "(?c + 1) * sz_cs_insn (e_abi E) \<le> ds_total_size st"
    unfolding mem(3) mult.commute [of "?c + 1"] using mem(4) by (intro mult_le_mono) simp_all
  have "ud_detail ud \<noteq> 0 \<longrightarrow> all_granted (ds_heap st)" using h same_frame_granted [OF fr] by simp
  from alloc_detail_ok [OF mem(1) this, of E] obtain det h1 where
    det: "alloc_detail E (ds_heap st) ud = Some (det, h1)" "same_frame (ds_heap st) h1"
      "case det of None \<Rightarrow> ud_detail ud = 0 \<and> h1 = ds_heap st
       | Some (p, d) \<Rightarrow> ud_detail ud \<noteq> 0 \<and> p \<noteq> 0 \<and>
           p \<notin> insert (ds_total st) (set (detail_blocks (ds_out st))) \<and> d = j_detail (e_junk E) p \<and>
           owns L h1 (insert p (insert (ds_total st) (set (detail_blocks (ds_out st))))) \<and>
           (\<forall>q. q \<noteq> p \<longrightarrow> h_live h1 q = h_live (ds_heap st) q)" by blast
  define insn where "insn = (j_insn (e_junk E) ?c)\<lparr>in_detail := det, in_address := ?off\<rparr>"
  define mci where "mci = (MCInst_Init (ds_mci st))\<lparr>mi_address := ?off, mi_flat_insn := insn\<rparr>"
  have iwf: "insn_wf insn" using j det(3) by (auto simp: insn_def junk_ok_def insn_wf_def split: option.splits)
  show thesis
  proof (rule that [of mci h1])
    show "disasm_step E org off count st =
        call_disasm (e_back E) ud (ds_buffer st) mci (j_size (e_junk E)) ?off \<bind> step_tail E org off count st h1"
      using ne mem(2) cap ud det(1) by (simp add: disasm_step_def Let_def need_bind insn_def mci_def)
    have "mci_wf mci" using wf iwf MCInst_Init_wf [of "ds_mci st"] by (simp add: mci_def mci_wf_def)
    moreover have "op_raw (mi_Operands mci ! 0) = 0" using wf by (simp add: mci_def MCInst_Init_def mci_wf_def)
    moreover have "ud_detail ud \<noteq> 0 \<longrightarrow> in_detail (mi_flat_insn mci) \<noteq> None"
      using det(3) by (auto simp: mci_def insn_def split: option.splits)
    ultimately show "decodable ud mci" by (simp add: decodable_def)
    show "in_address (mi_flat_insn mci) = ?off" by (simp add: mci_def insn_def)
    show "det_owned L E ud st h1 (map_option fst (in_detail (mi_flat_insn mci)))"
      using det by (auto simp: det_owned_def mci_def insn_def split: option.splits)
  qed
qed

text \<open>The blocks after a record with the details just allocated.\<close>

lemma det_owned_blocks:
  assumes inv: "dis_inv D E h0 L ud org off count st"
    and det: "det_owned L E ud st h det" "map_option fst (in_detail i) = det"
  shows "owns L h (insert (ds_total st) (set (detail_blocks (ds_out st @ [i]))))"
      "ds_total st \<notin> set (detail_blocks (ds_out st @ [i]))" "distinct (detail_blocks (ds_out st @ [i]))"
      "ud_detail ud = 0 \<longrightarrow> detail_blocks (ds_out st @ [i]) = []"
      "h_live h (ds_total st) = h_live (ds_heap st) (ds_total st)" "same_frame (ds_heap st) h"
proof -
  have addr: "detail_addr i = (case det of None \<Rightarrow> 0 | Some p \<Rightarrow> p)" using det(2) by (simp add: detail_addr_fst)
  have mem: "owns L (ds_heap st) (insert (ds_total st) (set (detail_blocks (ds_out st))))"
    "ds_total st \<notin> set (detail_blocks (ds_out st))" "distinct (detail_blocks (ds_out st))"
    "ud_detail ud = 0 \<longrightarrow> detail_blocks (ds_out st) = []"
    using inv by (auto simp: dis_inv_def dis_mem_def)
  show "same_frame (ds_heap st) h" using det(1) by (simp add: det_owned_def)
  show "owns L h (insert (ds_total st) (set (detail_blocks (ds_out st @ [i]))))"
      "ds_total st \<notin> set (detail_blocks (ds_out st @ [i]))" "distinct (detail_blocks (ds_out st @ [i]))"
      "ud_detail ud = 0 \<longrightarrow> detail_blocks (ds_out st @ [i]) = []"
      "h_live h (ds_total st) = h_live (ds_heap st) (ds_total st)"
    using mem det(1) unfolding detail_blocks_snoc addr det_owned_def
    by (auto split: option.splits simp: insert_commute)
qed

text \<open>The blocks after the details of a rejected instruction are released.\<close>

lemma det_owned_free:
  assumes inv: "dis_inv D E h0 L ud org off count st"
    and det: "det_owned L E ud st h (map_option fst (in_detail i))"
  shows "\<exists>h'. (if ud_detail ud \<noteq> 0 then h_free h (detail_addr i) else Some h) = Some h' \<and>
    owns L h' (insert (ds_total st) (set (detail_blocks (ds_out st)))) \<and>
    h_live h' (ds_total st) = h_live (ds_heap st) (ds_total st) \<and> same_frame (ds_heap st) h'"
proof (cases "map_option fst (in_detail i)")
  case None
  with det inv show ?thesis by (auto simp: det_owned_def dis_inv_def dis_mem_def)
next
  case (Some p)
  let ?B = "insert (ds_total st) (set (detail_blocks (ds_out st)))"
  from det Some have p: "ud_detail ud \<noteq> 0" "p \<notin> ?B" "owns L h (insert p ?B)" "same_frame (ds_heap st) h"
    "\<forall>q. q \<noteq> p \<longrightarrow> h_live h q = h_live (ds_heap st) q" by (auto simp: det_owned_def)
  have a: "detail_addr i = p" unfolding detail_addr_fst Some by simp
  from owns_free [OF p(3), of p] obtain h' where "h_free h p = Some h'" "owns L h' (insert p ?B - {p})"
    "h_live h' = (h_live h)(p := None)" "h_grant h' = h_grant h" "h_funcs h' = h_funcs h" by auto
  moreover have "insert p ?B - {p} = ?B" using p(2) by auto
  ultimately show ?thesis using p a by (auto simp: same_frame_def)
qed

context backend
begin

definition step_result :: "env \<Rightarrow> heap \<Rightarrow> (nat \<rightharpoonup> nat) \<Rightarrow> cs_struct \<Rightarrow> u8 list \<Rightarrow> u64 \<Rightarrow> nat \<Rightarrow> dis_state \<Rightarrow> bool" where
  "step_result E h0 L ud org off count st \<longleftrightarrow>
    (\<exists>st'. disasm_step E org off count st = Some (Inl st') \<and> dis_inv desc E h0 L ud org off count st' \<and>
        length (ds_buffer st') < length (ds_buffer st)) \<or>
    (\<exists>e. disasm_step E org off count st = Some (Inr e) \<and> exit_ok desc E h0 L ud org off count e)"

lemma step_decoded:
  assumes inv: "dis_inv desc E h0 L ud org off count st" and ne: "ds_buffer st \<noteq> []"
    and h: "is_handle ud" "list_all mnem_wf (ud_mnem_list ud)" "ud_detail ud \<noteq> 0 \<longrightarrow> all_granted h0"
    and j: "junk_ok (e_junk E)" and small: "length org < 2 ^ 29" and val: "valid (ds_buffer st)"
  shows "step_result E h0 L ud org off count st"
proof -
  let ?code = "ds_buffer st" and ?off = "ds_offset st" and ?ss = "j_ss (e_junk E) (length (ds_out st))"
  obtain h1 mci where p: "disasm_step E org off count st =
      call_disasm (e_back E) ud ?code mci (j_size (e_junk E)) ?off \<bind> step_tail E org off count st h1"
    "decodable ud mci" "in_address (mi_flat_insn mci) = ?off"
    "det_owned L E ud st h1 (map_option fst (in_detail (mi_flat_insn mci)))"
    by (rule step_prepare [OF inv ne h(3) j])
  have ss: "length (ss_buffer ?ss) = 512" using j by (simp add: junk_ok_def)
  from decode_record [OF h(1,2) p(2) val ss p(3), of E "j_size (e_junk E)" h1] obtain MI' mci' where
    d: "call_disasm (e_back E) ud ?code mci (j_size (e_junk E)) ?off = Some (True, MI', of_nat (insn_len ?code), ud)"
      "decoded E h1 ud MI' ?ss ?code (of_nat (insn_len ?code)) = Some (h1, ud, mci')"
      "mci_wf mci'" "view (mi_flat_insn mci') = decode_view desc ud ?code ?off" "insn_wf (mi_flat_insn mci')"
      "map_option fst (in_detail (mi_flat_insn mci')) = map_option fst (in_detail (mi_flat_insn mci))" by blast
  let ?i = "mi_flat_insn mci'"
  note len = len_range [OF val]
  have n16: "unat (of_nat (insn_len ?code) :: u16) = insn_len ?code" using len by (intro of_nat_len) simp
  have step: "disasm_step E org off count st =
      disasm_advance E count (st\<lparr>ds_heap := h1, ds_ud := ud, ds_mci := mci'\<rparr>) ?i (insn_len ?code)"
    using p(1) d(1,2) n16 by (simp add: step_tail_def)
  have nv: "next_view desc ud org (length org - length ?code) ?code ?off = Some (view ?i, insn_len ?code)"
    using val d(4) by (simp add: next_view_def desc_def)
  note blk = det_owned_blocks [OF inv p(4) d(6)]
  show ?thesis unfolding step step_result_def
    by (rule inv_advance [OF inv ne small nv]) (use len d(3,5) blk in auto)
qed

lemma step_rejected:
  assumes inv: "dis_inv desc E h0 L ud org off count st" and ne: "ds_buffer st \<noteq> []"
    and h: "is_handle ud" "skip_ok ud" "ud_detail ud \<noteq> 0 \<longrightarrow> all_granted h0"
    and j: "junk_ok (e_junk E)" and small: "length org < 2 ^ 29" and inval: "\<not> valid (ds_buffer st)"
  shows "step_result E h0 L ud org off count st"
proof -
  let ?code = "ds_buffer st" and ?off = "ds_offset st"
  let ?pos = "length org - length ?code"
  obtain h1 mci where p: "disasm_step E org off count st =
      call_disasm (e_back E) ud ?code mci (j_size (e_junk E)) ?off \<bind> step_tail E org off count st h1"
    "decodable ud mci" "det_owned L E ud st h1 (map_option fst (in_detail (mi_flat_insn mci)))"
    by (rule step_prepare [OF inv ne h(3) j])
  have wf: "mci_wf mci" using p(2) by (simp add: decodable_def)
  from reject [OF h(1) wf inval, of "e_back E" "j_size (e_junk E)" ?off] obtain MI' sz' where
    r: "call_disasm (e_back E) ud ?code mci (j_size (e_junk E)) ?off = Some (False, MI', sz', ud)" "mci_wf MI'"
      "mi_flat_insn MI' = mi_flat_insn mci" by blast
  from det_owned_free [OF inv p(3)] obtain h2 where
    h2: "(if ud_detail ud \<noteq> 0 then h_free h1 (detail_addr (mi_flat_insn mci)) else Some h1) = Some h2"
      "owns L h2 (insert (ds_total st) (set (detail_blocks (ds_out st))))"
      "h_live h2 (ds_total st) = h_live (ds_heap st) (ds_total st)" "same_frame (ds_heap st) h2" by blast
  have step0: "disasm_step E org off count st = (case skip_bytes ud ?code org ?pos of
      None \<Rightarrow> Some (Inr (Break (st\<lparr>ds_heap := h2, ds_ud := ud, ds_mci := MI'\<rparr>)))
    | Some n \<Rightarrow> do {
        insn \<leftarrow> emit_data ud (mi_flat_insn MI') ?code ?off n;
        disasm_advance E count (st\<lparr>ds_heap := h2, ds_ud := ud,
          ds_mci := MI'\<lparr>mi_flat_insn := insn\<lparr>in_detail := None\<rparr>\<rparr>\<rparr>) (insn\<lparr>in_detail := None\<rparr>) n })"
    unfolding p(1) r(1) step_tail_def Option.bind.simps prod.case if_False r(3) h2(1)
      dis_inv_position [OF inv small] ..
  show ?thesis
  proof (cases "skip_bytes ud ?code org ?pos")
    case None
    define st' where "st' = st\<lparr>ds_heap := h2, ds_ud := ud, ds_mci := MI'\<rparr>"
    have "disasm_step E org off count st = Some (Inr (Break st'))"
      using step0 None by (simp add: st'_def)
    moreover have "views desc ud org ?code ?off = []"
      using None inval by (subst views.simps) (simp add: next_view_def desc_def)
    then have "map view (ds_out st) = expected desc ud count org off"
      using inv by (intro stop_expected) (simp_all add: dis_inv_def)
    ultimately show ?thesis
      using inv h2(2-4) same_frame_trans [OF _ h2(4)]
      by (auto simp: step_result_def exit_ok_def dis_inv_def dis_mem_def st'_def)
  next
    case (Some n)
    have iwf: "insn_wf (mi_flat_insn MI')" using r(2) by (simp add: mci_wf_def)
    note n = skip_bytes_ok [OF h(2) Some]
    from emit_data_spec [OF iwf h(2) Some, of ?off] obtain i where
      i: "emit_data ud (mi_flat_insn MI') ?code ?off n = Some i" "insn_wf i" "view i = data_view ud ?code ?off n"
      by blast
    let ?i = "i\<lparr>in_detail := None\<rparr>" and ?mci = "MI'\<lparr>mi_flat_insn := i\<lparr>in_detail := None\<rparr>\<rparr>"
    have step: "disasm_step E org off count st =
        disasm_advance E count (st\<lparr>ds_heap := h2, ds_ud := ud, ds_mci := ?mci\<rparr>) ?i n"
      using step0 Some i(1) by simp
    have vi: "view ?i = data_view ud ?code ?off n" using i(3) by (simp add: view_def)
    have nv: "next_view desc ud org ?pos ?code ?off = Some (view ?i, n)"
      using inval Some vi by (simp add: next_view_def desc_def)
    have wfi: "insn_wf ?i" "mci_wf ?mci" using i(2) r(2) by (simp_all add: insn_wf_def mci_wf_def)
    have z: "detail_blocks (ds_out st @ [?i]) = detail_blocks (ds_out st)"
      by (simp add: detail_blocks_snoc detail_addr_def)
    show ?thesis unfolding step step_result_def
      by (rule inv_advance [OF inv ne small nv n(1,2) wfi]; (unfold z)?)
         (use h2 inv in \<open>auto simp: dis_inv_def dis_mem_def\<close>)
  qed
qed

lemma step_ok:
  assumes inv: "dis_inv desc E h0 L ud org off count st"
    and h: "is_handle ud" "list_all mnem_wf (ud_mnem_list ud)" "skip_ok ud" "ud_detail ud \<noteq> 0 \<longrightarrow> all_granted h0"
    and j: "junk_ok (e_junk E)" and small: "length org < 2 ^ 29"
  shows "step_result E h0 L ud org off count st"
proof (cases "ds_buffer st = []")
  case True
  then have "views desc ud org (ds_buffer st) (ds_offset st) = []" by (subst views.simps) simp
  then have "map view (ds_out st) = expected desc ud count org off"
    using inv by (intro stop_expected) (simp_all add: dis_inv_def)
  then have "exit_ok desc E h0 L ud org off count (Break st)"
    using inv by (simp add: exit_ok_def dis_inv_def)
  then show ?thesis using True by (simp add: step_result_def disasm_step_def)
next
  case False
  show ?thesis
  proof (cases "valid (ds_buffer st)")
    case True
    show ?thesis by (rule step_decoded [OF inv False h(1,2,4) j small True])
  next
    case inval: False
    show ?thesis by (rule step_rejected [OF inv False h(1,3,4) j small inval])
  qed
qed

lemma loop_ok:
  assumes "dis_inv desc E h0 L ud org off count st" "is_handle ud" "list_all mnem_wf (ud_mnem_list ud)"
    "skip_ok ud" "ud_detail ud \<noteq> 0 \<longrightarrow> all_granted h0" "junk_ok (e_junk E)" "length org < 2 ^ 29"
  shows "\<exists>e. c_loop (disasm_step E org off count) st = Some e \<and> exit_ok desc E h0 L ud org off count e"
proof (rule c_loop_total [where I = "dis_inv desc E h0 L ud org off count"
      and m = "\<lambda>st. length (ds_buffer st)"])
  show "dis_inv desc E h0 L ud org off count st" by (rule assms(1))
  fix s assume "dis_inv desc E h0 L ud org off count s"
  from step_ok [OF this assms(2-7)]
  show "(\<exists>s'. disasm_step E org off count s = Some (Inl s') \<and> dis_inv desc E h0 L ud org off count s' \<and>
        length (ds_buffer s') < length (ds_buffer s)) \<or>
      (\<exists>r. disasm_step E org off count s = Some (Inr r) \<and> exit_ok desc E h0 L ud org off count r)"
    by (simp add: step_result_def)
qed

end

section \<open>What cs_disasm delivers\<close>

text \<open>
  Either the array with the expected records, its block exactly as large as they need, and the
  details of the records in blocks of their own; or nothing, and then no memory is held: because
  memory ran out, or because there was nothing to disassemble.
\<close>

definition disasm_post :: "arch_desc \<Rightarrow> env \<Rightarrow> heap \<Rightarrow> (nat \<rightharpoonup> nat) \<Rightarrow> cs_struct \<Rightarrow> nat \<Rightarrow> u8 list \<Rightarrow> u64 \<Rightarrow>
    heap \<Rightarrow> cs_struct \<Rightarrow> nat \<Rightarrow> insn_out \<Rightarrow> bool" where
  "disasm_post D E h0 L ud count code address h ud' c out \<longleftrightarrow> heap_ok h \<and> same_frame h0 h \<and>
     (case out of
        Array p insns \<Rightarrow> ud' = ud \<and> c = length insns \<and> insns \<noteq> [] \<and> list_all insn_wf insns \<and>
          map view insns = expected D ud count code address \<and>
          owns L h (insert p (set (detail_blocks insns))) \<and> p \<notin> set (detail_blocks insns) \<and>
          distinct (detail_blocks insns) \<and> h_live h p = Some (sz_cs_insn (e_abi E) * c)
      | _ \<Rightarrow> c = 0 \<and> h_live h = L \<and>
          (ud' = ud\<lparr>ud_errnum := CS_ERR_MEM\<rparr> \<and> \<not> all_granted h0 \<or>
           ud' = ud \<and> expected D ud count code address = []))"

lemma disasm_finish_ok:
  assumes "exit_ok D E h0 L ud org off count (Break st)"
  shows "\<exists>h ud' c out. disasm_finish E st = Some (h, ud', c, out) \<and> out \<noteq> Unwritten \<and>
    disasm_post D E h0 L ud count org off h ud' c out"
proof -
  let ?B = "insert (ds_total st) (set (detail_blocks (ds_out st)))"
  have own: "owns L (ds_heap st) ?B" "ds_total st \<notin> set (detail_blocks (ds_out st))"
      "distinct (detail_blocks (ds_out st))" "ud_detail ud = 0 \<longrightarrow> detail_blocks (ds_out st) = []"
    and arr: "h_live (ds_heap st) (ds_total st) = Some (ds_total_size st)"
      "ds_total_size st = sz_cs_insn (e_abi E) * (length (ds_out st) + (unat (ds_cache_size st) - unat (ds_f st)))"
      "unat (ds_f st) \<le> unat (ds_cache_size st)"
    and ud: "ds_ud st = ud" and fr: "same_frame h0 (ds_heap st)"
    and wf: "list_all insn_wf (ds_out st)" "map view (ds_out st) = expected D ud count org off"
    using assms by (auto simp: exit_ok_def dis_mem_def)
  have sub: "unat (ds_cache_size st - ds_f st) = unat (ds_cache_size st) - unat (ds_f st)"
    using arr(3) by (simp add: unat_sub word_le_nat_alt)
  show ?thesis
  proof (cases "ds_out st = []")
    case True
    then have B: "?B = {ds_total st}" by (simp add: detail_blocks_def)
    from owns_free [OF own(1), of "ds_total st"] obtain h where "h_free (ds_heap st) (ds_total st) = Some h"
      "owns L h {}" "h_grant h = h_grant (ds_heap st)" "h_funcs h = h_funcs (ds_heap st)" unfolding B by auto
    with True ud fr wf(2) show ?thesis
      by (auto simp: disasm_finish_def disasm_post_def same_frame_def owns_heap dest: owns_empty)
  next
    case ne: False
    show ?thesis
    proof (cases "ds_f st = ds_cache_size st")
      case True
      then have "ds_total_size st = sz_cs_insn (e_abi E) * length (ds_out st)" using arr(2) by simp
      with True ne own arr(1) ud fr wf owns_heap [OF own(1)] show ?thesis
        by (auto simp: disasm_finish_def disasm_post_def)
    next
      case False
      let ?n = "ds_total_size st - unat (ds_cache_size st - ds_f st) * sz_cs_insn (e_abi E)"
      have n: "?n = sz_cs_insn (e_abi E) * length (ds_out st)"
        unfolding sub arr(2) by (simp add: distrib_left mult.commute)
      show ?thesis
      proof (cases rule: owns_realloc [OF own(1,2), of ?n])
        case (1 h')
        from release_all_ok [OF 1(2) own(2,3,4)] obtain h2 where
          "release_all h' ud (ds_total st) (ds_out st) = Some (h2, ud\<lparr>ud_errnum := CS_ERR_MEM\<rparr>)" "heap_ok h2"
          "h_live h2 = L" "same_frame h' h2" by blast
        with 1 False ne ud fr show ?thesis
          by (auto simp: disasm_finish_def disasm_post_def same_frame_def all_granted_def)
      next
        case (2 q h')
        with False ne ud fr wf own n owns_heap [OF 2(3)] show ?thesis
          by (auto simp: disasm_finish_def disasm_post_def same_frame_def)
      qed
    qed
  qed
qed

text \<open>The handle as \<^verbatim>\<open>cs_disasm\<close> resets it; what is printed does not depend on that.\<close>

definition reset_ud :: "cs_struct \<Rightarrow> cs_struct" where
  "reset_ud ud = (let ud = ud\<lparr>ud_errnum := CS_ERR_OK\<rparr>
     in if ud_arch ud = CS_ARCH_ARM then ud\<lparr>ud_ITsize := 0\<rparr> else ud)"

lemma reset_ud_simps [simp]:
  "ud_detail (reset_ud ud) = ud_detail ud" "ud_mnem_list (reset_ud ud) = ud_mnem_list ud"
  "ud_skipdata (reset_ud ud) = ud_skipdata ud" "ud_skipdata_size (reset_ud ud) = ud_skipdata_size ud"
  "ud_skipdata_setup (reset_ud ud) = ud_skipdata_setup ud" "ud_errnum (reset_ud ud) = CS_ERR_OK"
  "skip_ok (reset_ud ud) = skip_ok ud" "owned csh (reset_ud ud) = owned csh ud"
  "handle_wf (reset_ud ud) = handle_wf ud" "engine_part_kept ud (reset_ud ud)"
  by (simp_all add: reset_ud_def Let_def skip_ok_def owned_def own_front_def own_back_def handle_wf_def callable_def
      engine_part_kept_def)

lemma next_view_cong:
  assumes "ud_mnem_list ud' = ud_mnem_list ud" "ud_skipdata ud' = ud_skipdata ud"
    "ud_skipdata_size ud' = ud_skipdata_size ud" "ud_skipdata_setup ud' = ud_skipdata_setup ud"
  shows "next_view D ud' = next_view D ud"
  unfolding next_view_def decode_view_def data_view_def shown_mnem_def skip_bytes_def fun_eq_iff assms
  by simp

lemma views_cong:
  assumes "next_view D ud' = next_view D ud"
  shows "views D ud' org code address = views D ud org code address"
proof (induction "length code" arbitrary: code address rule: less_induct)
  case less
  show ?case
    using less by (subst (1 2) views.simps) (auto simp: assms split: option.splits)
qed

lemma expected_reset [simp]: "expected D (reset_ud ud) count code address = expected D ud count code address"
  using views_cong [OF next_view_cong, of "reset_ud ud" ud D] by (simp add: expected_def)

context backend
begin

lemma is_handle_reset: "is_handle ud \<Longrightarrow> is_handle (reset_ud ud)"
  by (erule stable) (simp_all add: reset_ud_def Let_def engine_part_kept_def)

lemma cs_disasm_ok:
  assumes w: "world_ok w" "w_handles w csh = Some ud" and h: "is_handle ud" "skip_ok ud"
    "ud_detail ud \<noteq> 0 \<longrightarrow> all_granted (w_heap w)"
    and j: "junk_ok (e_junk E)" and small: "length code < 2 ^ 29"
  shows "\<exists>h' ud' c out. cs_disasm E w csh code address count = Some (set_handle w csh h' ud', c, out) \<and>
    disasm_post desc E (w_heap w) (h_live (w_heap w)) (reset_ud ud) count code address h' ud' c out"
proof -
  note ok = world_okD [OF w]
  have nz: "csh \<noteq> 0" using live_nonzero [OF ok(1)] ok(4) owned_self by blast
  let ?L = "h_live (w_heap w)" and ?u = "reset_ud ud"
  define k where "k = (if count > 0 \<and> count \<le> 32 then count else 32)"
  have k: "0 < k" "k \<le> 32" by (auto simp: k_def)
  let ?ts = "sz_cs_insn (e_abi E) * k"
  obtain p h1 where a: "h_alloc (w_heap w) ?ts = (p, h1)" by (cases "h_alloc (w_heap w) ?ts")
  note fr = h_alloc_frame(1) [OF a]
  have start: "cs_disasm E w csh code address count =
      (if p = 0 then Some (set_handle w csh h1 (?u\<lparr>ud_errnum := CS_ERR_MEM\<rparr>), 0, Unwritten)
       else do {
         (h, ud, c, out) \<leftarrow> disasm_loop E code address count
            \<lparr>ds_heap = h1, ds_ud = ?u, ds_mci = j_mci (e_junk E), ds_out = [], ds_f = 0,
             ds_cache_size = of_nat k, ds_total = p, ds_total_size = ?ts,
             ds_buffer = code, ds_offset = address\<rparr>;
         Some (set_handle w csh h ud, c, out) })"
    using nz w(2) a h_malloc_ok [OF ok(1), of ?ts]
    by (simp add: cs_disasm_def get_handle_def Let_def k_def reset_ud_def)
  show ?thesis
  proof (cases "p = 0")
    case True
    have "heap_ok h1" "h_live h1 = ?L" "\<not> all_granted (w_heap w)"
      using owns_alloc(1) [OF owns_init [OF ok(1)] a True] h_alloc_granted [OF ok(1) a] True
      by (auto simp: owns_heap all_granted_def)
    with start True fr show ?thesis by (auto simp: disasm_post_def same_frame_def)
  next
    case False
    define st where "st = \<lparr>ds_heap = h1, ds_ud = ?u, ds_mci = j_mci (e_junk E), ds_out = [], ds_f = 0,
        ds_cache_size = of_nat k, ds_total = p, ds_total_size = ?ts, ds_buffer = code, ds_offset = address\<rparr>"
    have kk: "unat (of_nat k :: u32) = k" using k(2) by (simp add: unsigned_of_nat take_bit_nat_eq_self)
    have "dis_inv desc E (w_heap w) ?L ?u code address count st"
      using owns_alloc(2) [OF owns_init [OF ok(1)] a False] kk k j fr
      by (auto simp: dis_inv_def dis_mem_def st_def detail_blocks_def same_frame_def junk_ok_def)
    moreover have "list_all mnem_wf (ud_mnem_list ?u)" using ok(2) by (simp add: handle_wf_def)
    ultimately obtain e where e: "c_loop (disasm_step E code address count) st = Some e"
      "exit_ok desc E (w_heap w) ?L ?u code address count e"
      using loop_ok [of E "w_heap w" ?L ?u code address count st] is_handle_reset [OF h(1)] h(2,3) j small by auto
    show ?thesis
    proof (cases e)
      case (Break st')
      from disasm_finish_ok [OF e(2) [unfolded Break]] obtain h ud' c out where
        f: "disasm_finish E st' = Some (h, ud', c, out)"
          "disasm_post desc E (w_heap w) ?L ?u count code address h ud' c out" by blast
      have "cs_disasm E w csh code address count = Some (set_handle w csh h ud', c, out)"
        using start False e(1) Break f(1) by (simp add: disasm_loop_def st_def)
      with f(2) show ?thesis by blast
    next
      case (Return_0 h2 ud2)
      with e False start show ?thesis
        by (auto simp: disasm_loop_def st_def exit_ok_def disasm_post_def)
    qed
  qed
qed

end

section \<open>Releasing, and the invariant of the library\<close>

lemma owns_sub_dom: "owns L h B \<Longrightarrow> dom L \<subseteq> dom (h_live h)"
  unfolding owns_def by (metis dom_restrict inf_le1)

lemma disasm_post_dom:
  "disasm_post D E h0 L ud count code address h ud' c out \<Longrightarrow> heap_ok h \<and> dom L \<subseteq> dom (h_live h)"
  by (auto simp: disasm_post_def split: insn_out.splits dest: owns_sub_dom)

lemma disasm_post_ud:
  "disasm_post D E h0 L ud count code address h ud' c out \<Longrightarrow>
     ud' = ud \<or> ud' = ud\<lparr>ud_errnum := CS_ERR_MEM\<rparr>"
  by (auto simp: disasm_post_def split: insn_out.splits)

lemma world_ok_more_live:
  assumes "world_ok w" "w_handles w csh = Some ud" "heap_ok h" "dom (h_live (w_heap w)) \<subseteq> dom (h_live h)"
    "handle_wf ud'" "owned csh ud' = owned csh ud"
  shows "world_ok (set_handle w csh h ud')"
proof (rule world_ok_update [OF assms(1,3,5)])
  note ok = world_okD [OF assms(1,2)]
  show "distinct (owned csh ud')" "set (owned csh ud') \<subseteq> dom (h_live h)"
    unfolding assms(6) using ok(3,4) assms(4) by auto
  fix c u assume "w_handles w c = Some u" "c \<noteq> csh"
  then show "set (owned c u) \<subseteq> dom (h_live h) \<and> set (owned c u) \<inter> set (owned csh ud') = {}"
    unfolding assms(6) using world_okD(4) [OF assms(1)] world_ok_disjoint [OF assms(1) _ assms(2)] assms(4) by blast
qed

lemma disasm_world_ok:
  assumes "world_ok w" "w_handles w csh = Some ud"
    "disasm_post D E h0 (h_live (w_heap w)) (reset_ud ud) count code address h ud' c out"
  shows "world_ok (set_handle w csh h ud')"
proof -
  note ud' = disasm_post_ud [OF assms(3)]
  have "handle_wf ud'" using ud' world_okD(2) [OF assms(1,2)] by (auto simp: handle_wf_def callable_def reset_ud_def Let_def)
  moreover have "owned csh ud' = owned csh ud"
    using ud' owned_cong [of "(reset_ud ud)\<lparr>ud_errnum := CS_ERR_MEM\<rparr>" "reset_ud ud" csh] by auto
  ultimately show ?thesis
    using world_ok_more_live [OF assms(1,2)] disasm_post_dom [OF assms(3)] by blast
qed

text \<open>Freeing the array of a successful call gives back exactly what the call took.\<close>

lemma cs_free_ok:
  assumes "owns L (w_heap w) (insert p (set (detail_blocks insns)))" "p \<notin> set (detail_blocks insns)"
    "distinct (detail_blocks insns)"
  shows "\<exists>h. cs_free w p insns (length insns) = Some (w\<lparr>w_heap := h\<rparr>) \<and> heap_ok h \<and> h_live h = L \<and>
    same_frame (w_heap w) h"
proof -
  have ps: "set (map detail_addr insns) - {0} \<subseteq> insert p (set (detail_blocks insns))"
    "insert p (set (detail_blocks insns)) - set (map detail_addr insns) = {p}"
    using assms(2) owns_nonzero [OF assms(1)] by (auto simp: detail_blocks_def)
  from owns_free_all [OF assms(1) _ ps(1)] assms(3) ps(2) obtain h1 where
    h1: "h_free_all (w_heap w) (map detail_addr insns) = Some h1" "owns L h1 {p}" "same_frame (w_heap w) h1"
    by (auto simp: detail_blocks_def same_frame_def)
  from owns_free [OF h1(2), of p] obtain h2 where "h_free h1 p = Some h2" "owns L h2 {}"
    "h_grant h2 = h_grant h1" "h_funcs h2 = h_funcs h1" by auto
  with h1 show ?thesis
    by (auto simp: cs_free_def need_bind same_frame_def owns_heap dest: owns_empty)
qed

section \<open>Single stepping\<close>

lemma skip_bytes_nil: "skip_ok ud \<Longrightarrow> skip_bytes ud [] org pos = None"
  by (auto simp: skip_bytes_def skip_ok_def word_less_nat_alt)

context backend
begin

lemma cs_disasm_iter_ok:
  assumes w: "world_ok w" "w_handles w csh = Some ud" and h: "is_handle ud" "skip_ok ud"
    and i: "insn_wf insn" "ud_detail ud \<noteq> 0 \<longrightarrow> in_detail insn \<noteq> None" and j: "junk_ok (e_junk E)"
  defines "w' \<equiv> set_handle w csh (w_heap w) (ud\<lparr>ud_errnum := CS_ERR_OK\<rparr>)"
  shows "\<exists>insn'. insn_wf insn' \<and> map_option fst (in_detail insn') = map_option fst (in_detail insn) \<and>
    (case next_view desc ud code 0 code address of
       None \<Rightarrow> cs_disasm_iter E w csh code address insn = Some (w', False, code, address, insn')
     | Some (v, n) \<Rightarrow> 0 < n \<and> n \<le> length code \<and> view insn' = v \<and>
         cs_disasm_iter E w csh code address insn = Some (w', True, drop n code, address + of_nat n, insn'))"
proof -
  note ok = world_okD [OF w]
  have nz: "csh \<noteq> 0" using live_nonzero [OF ok(1)] ok(4) owned_self by blast
  let ?u = "ud\<lparr>ud_errnum := CS_ERR_OK\<rparr>" and ?ss = "j_ss (e_junk E) 0"
  have hu: "is_handle ?u" by (rule stable [OF h(1)]) (simp_all add: engine_part_kept_def)
  have ml: "list_all mnem_wf (ud_mnem_list ?u)" using ok(2) by (simp add: handle_wf_def)
  have su: "skip_ok ?u" using h(2) by (simp add: skip_ok_def)
  have nvu: "next_view desc ?u = next_view desc ud" by (rule next_view_cong) simp_all
  define mci where "mci = (MCInst_Init (j_mci (e_junk E)))\<lparr>mi_address := address,
      mi_flat_insn := insn\<lparr>in_address := address\<rparr>\<rparr>"
  have jw: "mci_wf (j_mci (e_junk E))" using j by (simp add: junk_ok_def)
  have wf: "mci_wf mci" using jw i(1) MCInst_Init_wf [of "j_mci (e_junk E)"] by (simp add: mci_def mci_wf_def insn_wf_def)
  have dec: "decodable ?u mci"
    using wf jw i(2) by (simp add: decodable_def mci_def MCInst_Init_def mci_wf_def)
  have adr: "in_address (mi_flat_insn mci) = address" by (simp add: mci_def)
  have det: "in_detail (mi_flat_insn mci) = in_detail insn" by (simp add: mci_def)
  show ?thesis
  proof (cases "valid code")
    case True
    have ss: "length (ss_buffer ?ss) = 512" using j by (simp add: junk_ok_def)
    from decode_record [OF hu ml dec True ss adr, of E "j_size (e_junk E)" "w_heap w"] obtain MI' mci' where
      d: "call_disasm (e_back E) ?u code mci (j_size (e_junk E)) address = Some (True, MI', of_nat (insn_len code), ?u)"
        "decoded E (w_heap w) ?u MI' ?ss code (of_nat (insn_len code)) = Some (w_heap w, ?u, mci')"
        "view (mi_flat_insn mci') = decode_view desc ?u code address" "insn_wf (mi_flat_insn mci')"
        "map_option fst (in_detail (mi_flat_insn mci')) = map_option fst (in_detail (mi_flat_insn mci))" by blast
    note len = len_range [OF True]
    have n16: "unat (of_nat (insn_len code) :: u16) = insn_len code" using len by (intro of_nat_len) simp
    then have n64: "(ucast (of_nat (insn_len code) :: u16) :: u64) = of_nat (insn_len code)"
      by (metis of_nat_unat)
    have nv: "next_view desc ud code 0 code address = Some (view (mi_flat_insn mci'), insn_len code)"
      using True d(3) by (simp add: next_view_def nvu [symmetric]) (simp add: desc_def)
    have "cs_disasm_iter E w csh code address insn =
        Some (w', True, drop (insn_len code) code, address + of_nat (insn_len code), mi_flat_insn mci')"
      using nz w(2) d(1,2) n16 n64 len
      by (simp add: cs_disasm_iter_def get_handle_def mci_def [symmetric] need_bind w'_def)
    with nv d(4,5) det len show ?thesis by (intro exI [of _ "mi_flat_insn mci'"]) simp
  next
    case False
    from reject [OF hu wf False, of "e_back E" "j_size (e_junk E)" address] obtain MI' sz' where
      r: "call_disasm (e_back E) ?u code mci (j_size (e_junk E)) address = Some (False, MI', sz', ?u)" "mci_wf MI'"
        "mi_flat_insn MI' = mi_flat_insn mci" by blast
    have it: "cs_disasm_iter E w csh code address insn =
        (case skip_bytes ?u code code 0 of
           None \<Rightarrow> Some (w', False, code, address, mi_flat_insn MI')
         | Some n \<Rightarrow> do {
             i \<leftarrow> emit_data ?u (mi_flat_insn MI') code address n;
             Some (w', True, drop n code, address + of_nat n, i) })"
      using nz w(2) r(1) unfolding w'_def
      by (simp add: cs_disasm_iter_def get_handle_def mci_def [symmetric])
    have iwf: "insn_wf (mi_flat_insn MI')" using r(2) by (simp add: mci_wf_def)
    show ?thesis
    proof (cases "skip_bytes ?u code code 0")
      case None
      then have "next_view desc ud code 0 code address = None"
        using False unfolding nvu [symmetric] by (simp add: next_view_def desc_def)
      with it None iwf r(3) det show ?thesis by (intro exI [of _ "mi_flat_insn MI'"]) simp
    next
      case (Some n)
      note n = skip_bytes_ok [OF su Some]
      from emit_data_spec [OF iwf su Some, of address] obtain i' where
        e: "emit_data ?u (mi_flat_insn MI') code address n = Some i'" "insn_wf i'"
          "view i' = data_view ?u code address n" "in_detail i' = in_detail (mi_flat_insn MI')" by blast
      have "next_view desc ud code 0 code address = Some (view i', n)"
        using False Some e(3) unfolding nvu [symmetric] by (simp add: next_view_def desc_def)
      with it Some e n r(3) det show ?thesis by (intro exI [of _ i']) simp
    qed
  qed
qed

end

end
