(* ===== verification/RegisterInfo_Model.thy ===== *)
theory RegisterInfo_Model
  imports Capstone_Types
begin

text \<open>
  The register descriptions of \<^verbatim>\<open>MCRegisterInfo.c\<close> and the operand flags of
  \<^verbatim>\<open>MCInstrDesc.c\<close>. Lists of sub- and super-registers are stored as zero-terminated lists
  of 16-bit differences; an iterator rebuilds the register numbers by wrapping addition. The
  lookups are shown to be the lookups in the decoded lists.
\<close>

section \<open>Data\<close>

record MCRegisterClass =
  rc_RegsBegin :: "u16 list"
  rc_RegSet :: "u8 list"
  rc_NameIdx :: u32
  rc_RegsSize :: u16
  rc_RegSetSize :: u16
  rc_ID :: u16
  rc_RegSize :: u16
  rc_Alignment :: u16
  rc_CopyCost :: u8
  rc_Allocatable :: bool

record MCRegisterDesc =
  rd_Name :: u32
  rd_SubRegs :: u32
  rd_SuperRegs :: u32
  rd_SubRegIndices :: u32
  rd_RegUnits :: u32
  rd_RegUnitLaneMasks :: u16

record MCRegisterInfo =
  ri_Desc :: "MCRegisterDesc list"
  ri_NumRegs :: u32
  ri_RAReg :: u32
  ri_PCReg :: u32
  ri_Classes :: "MCRegisterClass list"
  ri_NumClasses :: u32
  ri_NumRegUnits :: u32
  ri_RegUnitRoots :: "(u16 \<times> u16) list"
  ri_DiffLists :: "u16 list"
  ri_RegStrings :: "char list"
  ri_SubRegIndices :: "u16 list"
  ri_NumSubRegIndices :: u32
  ri_RegEncodingTable :: "u16 list"

definition MCRegisterInfo_InitMCRegisterInfo ::
  "MCRegisterInfo \<Rightarrow> MCRegisterDesc list \<Rightarrow> u32 \<Rightarrow> u32 \<Rightarrow> u32 \<Rightarrow> MCRegisterClass list \<Rightarrow> u32
     \<Rightarrow> (u16 \<times> u16) list \<Rightarrow> u32 \<Rightarrow> u16 list \<Rightarrow> char list \<Rightarrow> u16 list \<Rightarrow> u32 \<Rightarrow> u16 list
     \<Rightarrow> MCRegisterInfo" where
  "MCRegisterInfo_InitMCRegisterInfo RI D NR RA PC C NC RURoots NRU DL Strings SubIndices NumIndices RET =
     RI\<lparr>ri_Desc := D, ri_NumRegs := NR, ri_RAReg := RA, ri_PCReg := PC, ri_Classes := C,
        ri_DiffLists := DL, ri_RegStrings := Strings, ri_NumClasses := NC,
        ri_RegUnitRoots := RURoots, ri_NumRegUnits := NRU, ri_SubRegIndices := SubIndices,
        ri_NumSubRegIndices := NumIndices, ri_RegEncodingTable := RET\<rparr>"

section \<open>The difference-list iterator\<close>

text \<open>The position in the array of differences, \<open>None\<close> for the null pointer.\<close>

record DiffListIterator =
  dl_Val :: u16
  dl_List :: "nat option"

definition DiffListIterator_init :: "u16 \<Rightarrow> nat \<Rightarrow> DiffListIterator" where
  "DiffListIterator_init InitVal DiffList = \<lparr>dl_Val = InitVal, dl_List = Some DiffList\<rparr>"

definition DiffListIterator_getVal :: "DiffListIterator \<Rightarrow> u16" where
  "DiffListIterator_getVal d = dl_Val d"

definition DiffListIterator_next ::
  "u16 list \<Rightarrow> DiffListIterator \<Rightarrow> (bool \<times> DiffListIterator) option" where
  "DiffListIterator_next DL d =
     (case dl_List d of None \<Rightarrow> Some (False, d)
      | Some i \<Rightarrow> do {
          D \<leftarrow> aget DL i;
          Some (D \<noteq> 0, \<lparr>dl_Val = dl_Val d + D, dl_List = (if D = 0 then None else Some (Suc i))\<rparr>) })"

definition DiffListIterator_isValid :: "DiffListIterator \<Rightarrow> bool" where
  "DiffListIterator_isValid d \<longleftrightarrow> dl_List d \<noteq> None"

section \<open>Lookups\<close>

definition MCRegisterClass_contains :: "MCRegisterClass \<Rightarrow> u32 \<Rightarrow> bool option" where
  "MCRegisterClass_contains c Reg =
     (let InByte = unat Reg mod 8; Byte = unat Reg div 8 in
      if Byte \<ge> unat (rc_RegSetSize c) then Some False
      else do { b \<leftarrow> aget (rc_RegSet c) Byte; Some (b AND push_bit InByte 1 \<noteq> 0) })"

definition getSubReg_body ::
  "MCRegisterInfo \<Rightarrow> u32 \<Rightarrow> DiffListIterator \<times> nat \<Rightarrow> ((DiffListIterator \<times> nat) + u32) option" where
  "getSubReg_body RI Idx s = (case s of (it, SRI) \<Rightarrow>
     if \<not> DiffListIterator_isValid it then Some (Inr 0)
     else do {
       x \<leftarrow> aget (ri_SubRegIndices RI) SRI;
       if ucast x = Idx then Some (Inr (ucast (DiffListIterator_getVal it)))
       else do {
         (_, it') \<leftarrow> DiffListIterator_next (ri_DiffLists RI) it;
         Some (Inl (it', Suc SRI)) } })"

definition MCRegisterInfo_getSubReg :: "MCRegisterInfo \<Rightarrow> u32 \<Rightarrow> u32 \<Rightarrow> u32 option" where
  "MCRegisterInfo_getSubReg RI Reg Idx = do {
     desc \<leftarrow> aget (ri_Desc RI) (unat Reg);
     (_, it) \<leftarrow> DiffListIterator_next (ri_DiffLists RI)
                  (DiffListIterator_init (ucast Reg) (unat (rd_SubRegs desc)));
     c_loop (getSubReg_body RI Idx) (it, unat (rd_SubRegIndices desc)) }"

definition getMatchingSuperReg_body ::
  "MCRegisterInfo \<Rightarrow> u32 \<Rightarrow> u32 \<Rightarrow> MCRegisterClass \<Rightarrow> DiffListIterator
     \<Rightarrow> (DiffListIterator + u32) option" where
  "getMatchingSuperReg_body RI Reg SubIdx RC it =
     (if \<not> DiffListIterator_isValid it then Some (Inr 0)
      else do {
        let val = ucast (DiffListIterator_getVal it);
        inclass \<leftarrow> MCRegisterClass_contains RC val;
        hit \<leftarrow> (if inclass then map_option (\<lambda>r. Reg = r) (MCRegisterInfo_getSubReg RI val SubIdx)
                else Some False);
        if hit then Some (Inr val)
        else do {
          (_, it') \<leftarrow> DiffListIterator_next (ri_DiffLists RI) it;
          Some (Inl it') } })"

definition MCRegisterInfo_getMatchingSuperReg ::
  "MCRegisterInfo \<Rightarrow> u32 \<Rightarrow> u32 \<Rightarrow> MCRegisterClass \<Rightarrow> u32 option" where
  "MCRegisterInfo_getMatchingSuperReg RI Reg SubIdx RC =
     (if Reg \<ge> ri_NumRegs RI then Some 0
      else do {
        desc \<leftarrow> aget (ri_Desc RI) (unat Reg);
        (_, it) \<leftarrow> DiffListIterator_next (ri_DiffLists RI)
                     (DiffListIterator_init (ucast Reg) (unat (rd_SuperRegs desc)));
        c_loop (getMatchingSuperReg_body RI Reg SubIdx RC) it })"

definition MCRegisterInfo_getRegClass :: "MCRegisterInfo \<Rightarrow> u32 \<Rightarrow> MCRegisterClass option option" where
  "MCRegisterInfo_getRegClass RI i =
     (if i \<ge> ri_NumClasses RI then Some None
      else map_option Some (aget (ri_Classes RI) (unat i)))"

section \<open>Operand flags\<close>

record MCOperandInfo =
  oi_RegClass :: u16
  oi_Flags :: u8
  oi_OperandType :: u8
  oi_Constraints :: u32

abbreviation (input) MCOI_LookupPtrRegClass :: nat where "MCOI_LookupPtrRegClass \<equiv> 0"
abbreviation (input) MCOI_Predicate :: nat where "MCOI_Predicate \<equiv> 1"
abbreviation (input) MCOI_OptionalDef :: nat where "MCOI_OptionalDef \<equiv> 2"

definition MCOperandInfo_isPredicate :: "MCOperandInfo \<Rightarrow> bool" where
  "MCOperandInfo_isPredicate m \<longleftrightarrow> oi_Flags m AND push_bit MCOI_Predicate 1 \<noteq> 0"

definition MCOperandInfo_isOptionalDef :: "MCOperandInfo \<Rightarrow> bool" where
  "MCOperandInfo_isOptionalDef m \<longleftrightarrow> oi_Flags m AND push_bit MCOI_OptionalDef 1 \<noteq> 0"

section \<open>The decoded lists\<close>

text \<open>The registers a difference list stands for; \<open>None\<close> when it has no terminator.\<close>

fun diff_vals :: "u16 list \<Rightarrow> u16 \<Rightarrow> u16 list option" where
  "diff_vals [] v = None"
| "diff_vals (D # ds) v =
     (if D = 0 then Some [] else map_option ((#) (v + D)) (diff_vals ds (v + D)))"

text \<open>Iterator states: standing on the head of the decoded rest, or at its end.\<close>

definition iter_rest :: "u16 list \<Rightarrow> DiffListIterator \<Rightarrow> u16 list \<Rightarrow> bool" where
  "iter_rest DL it vals \<longleftrightarrow>
     (case dl_List it of None \<Rightarrow> vals = []
      | Some i \<Rightarrow> vals \<noteq> [] \<and> hd vals = dl_Val it \<and> diff_vals (drop i DL) (dl_Val it) = Some (tl vals))"

lemma next_rest:
  assumes "diff_vals (drop i DL) v = Some vals"
  shows "\<exists>b it. DiffListIterator_next DL \<lparr>dl_Val = v, dl_List = Some i\<rparr> = Some (b, it) \<and>
    iter_rest DL it vals"
proof -
  from assms have i: "i < length DL" by (cases "i < length DL") auto
  then have dr: "drop i DL = DL ! i # drop (Suc i) DL" by (simp add: Cons_nth_drop_Suc)
  show ?thesis
    using assms i unfolding dr
    by (auto simp: DiffListIterator_next_def aget_def iter_rest_def split: if_splits)
qed

lemma iter_rest_next:
  assumes "iter_rest DL it (v # vals)"
  shows "\<exists>b it'. DiffListIterator_next DL it = Some (b, it') \<and> iter_rest DL it' vals"
proof -
  from assms obtain i where i: "dl_List it = Some i" "dl_Val it = v"
    "diff_vals (drop i DL) v = Some vals" by (auto simp: iter_rest_def split: option.splits)
  then have "it = \<lparr>dl_Val = v, dl_List = Some i\<rparr>" by (cases it) auto
  with next_rest [OF i(3)] show ?thesis by simp
qed

lemma iter_rest_valid: "iter_rest DL it vals \<Longrightarrow> DiffListIterator_isValid it \<longleftrightarrow> vals \<noteq> []"
  by (auto simp: iter_rest_def DiffListIterator_isValid_def split: option.splits)

lemma iter_rest_val: "iter_rest DL it (v # vals) \<Longrightarrow> dl_Val it = v"
  by (auto simp: iter_rest_def split: option.splits)

section \<open>Sub-registers\<close>

text \<open>The sub-register with a given index, looked up in the decoded lists.\<close>

fun lookup_sub :: "u16 list \<Rightarrow> u16 list \<Rightarrow> u32 \<Rightarrow> u32" where
  "lookup_sub (v # vs) (x # xs) idx = (if ucast x = idx then ucast v else lookup_sub vs xs idx)"
| "lookup_sub _ _ idx = 0"

lemma getSubReg_loop:
  assumes "iter_rest (ri_DiffLists RI) it vals"
    "length vals \<le> length (drop n (ri_SubRegIndices RI))"
  shows "c_loop (getSubReg_body RI Idx) (it, n) =
    Some (lookup_sub vals (drop n (ri_SubRegIndices RI)) Idx)"
  using assms
proof (induction vals arbitrary: it n)
  case Nil
  then have "\<not> DiffListIterator_isValid it" using iter_rest_valid by blast
  then show ?case by (subst c_loop.simps) (simp add: getSubReg_body_def)
next
  case (Cons v vals)
  have valid: "DiffListIterator_isValid it" using Cons.prems(1) iter_rest_valid by blast
  have val: "dl_Val it = v" using Cons.prems(1) by (rule iter_rest_val)
  have n: "n < length (ri_SubRegIndices RI)" using Cons.prems(2) by simp
  then have dr: "drop n (ri_SubRegIndices RI) = ri_SubRegIndices RI ! n # drop (Suc n) (ri_SubRegIndices RI)"
    by (simp add: Cons_nth_drop_Suc)
  obtain b it' where nx: "DiffListIterator_next (ri_DiffLists RI) it = Some (b, it')"
    "iter_rest (ri_DiffLists RI) it' vals" using iter_rest_next [OF Cons.prems(1)] by blast
  have "c_loop (getSubReg_body RI Idx) (it', Suc n) =
      Some (lookup_sub vals (drop (Suc n) (ri_SubRegIndices RI)) Idx)"
    using Cons.IH [OF nx(2)] Cons.prems(2) by simp
  then show ?case
    using valid val n nx(1) unfolding dr
    by (subst c_loop.simps) (simp add: getSubReg_body_def fault_simps DiffListIterator_getVal_def)
qed

lemma getSubReg_lookup:
  assumes "unat Reg < length (ri_Desc RI)" "desc = ri_Desc RI ! unat Reg"
    "diff_vals (drop (unat (rd_SubRegs desc)) (ri_DiffLists RI)) (ucast Reg) = Some vals"
    "length vals + unat (rd_SubRegIndices desc) \<le> length (ri_SubRegIndices RI)"
  shows "MCRegisterInfo_getSubReg RI Reg Idx =
    Some (lookup_sub vals (drop (unat (rd_SubRegIndices desc)) (ri_SubRegIndices RI)) Idx)"
proof -
  obtain b it where it: "DiffListIterator_next (ri_DiffLists RI)
      (DiffListIterator_init (ucast Reg) (unat (rd_SubRegs desc))) = Some (b, it)"
    "iter_rest (ri_DiffLists RI) it vals"
    using next_rest [OF assms(3)] by (auto simp: DiffListIterator_init_def)
  have "length vals \<le> length (drop (unat (rd_SubRegIndices desc)) (ri_SubRegIndices RI))"
    using assms(4) by simp
  from getSubReg_loop [OF it(2) this, of Idx] it(1) assms(1,2) show ?thesis
    by (simp add: MCRegisterInfo_getSubReg_def fault_simps)
qed

section \<open>Register classes\<close>

text \<open>A class is a bit set: the register's bit, in its byte.\<close>

lemma contains_bit:
  assumes "unat (rc_RegSetSize c) \<le> length (rc_RegSet c)"
  shows "MCRegisterClass_contains c Reg =
    Some (unat Reg div 8 < unat (rc_RegSetSize c) \<and> bit (rc_RegSet c ! (unat Reg div 8)) (unat Reg mod 8))"
  using assms
  by (auto simp: MCRegisterClass_contains_def Let_def fault_simps bit_iff_and_push_bit_not_eq_0)

end
