(* ===== verification/Samples.thy ===== *)
theory Samples
  imports Engine_Disasm RegisterInfo_Model
begin

text \<open>
  Concrete objects for the instances of the theorems: an empty stream, blank records, heaps in
  which every allocation or only the first succeeds, a full build and a library with no open
  handle.
\<close>

definition empty_stream :: SStream where
  "empty_stream = \<lparr>ss_buffer = replicate SSTREAM_SIZE NUL, ss_index = 0\<rparr>"

definition blank_operand :: MCOperand where
  "blank_operand = \<lparr>op_Kind = kInvalid, op_raw = 0\<rparr>"

definition blank_insn :: cs_insn where
  "blank_insn = \<lparr>in_id = 0, in_address = 0, in_size = 0, in_bytes = replicate 24 0,
     in_mnemonic = replicate 32 NUL, in_op_str = replicate 160 NUL, in_detail = None\<rparr>"

definition blank_inst :: MCInst where
  "blank_inst = \<lparr>mi_OpcodePub = 0, mi_size = 0, mi_has_imm = False, mi_op1_size = 0, mi_Opcode = 0,
     mi_Operands = replicate 48 blank_operand, mi_flat_insn = blank_insn, mi_address = 0,
     mi_x86opsize = 0, mi_x86_prefix = replicate 4 0, mi_imm_size = 0,
     mi_writeback = False, mi_ac_idx = 0, mi_popcode_adjust = 0, mi_assembly = replicate 8 NUL,
     mi_evm_data = replicate 32 0\<rparr>"

definition no_ops :: cs_arch_ops where
  "no_ops = \<lparr>ao_op_count = 0, ao_types = []\<rparr>"

definition blank_mos_op :: cs_mos65xx_op where
  "blank_mos_op = \<lparr>mop_type = MOS65XX_OP_INVALID, mop_raw = 0\<rparr>"

definition blank_detail :: cs_detail where
  "blank_detail = \<lparr>d_regs_read = replicate 16 0, d_regs_read_count = 0, d_regs_write = replicate 20 0,
     d_regs_write_count = 0, d_groups = replicate 8 0, d_groups_count = 0, d_x86 = no_ops, d_arm64 = no_ops,
     d_arm = no_ops, d_m68k = no_ops, d_mips = no_ops, d_ppc = no_ops, d_sparc = no_ops, d_sysz = no_ops,
     d_xcore = no_ops, d_tms320c64x = no_ops, d_m680x = no_ops, d_evm = evm_info 0 0 0,
     d_mos65xx = \<lparr>mos_am = MOS65XX_AM_NONE, mos_modifies_flags = False, mos_op_count = 0,
       mos_operands = replicate 3 blank_mos_op\<rparr>\<rparr>"

definition all_funcs :: cs_opt_mem where
  "all_funcs = \<lparr>cs_mem_malloc = 1, cs_mem_calloc = 1, cs_mem_realloc = 1, cs_mem_free = 1, cs_vsnprintf = 1\<rparr>"

definition fresh_heap :: heap where
  "fresh_heap = \<lparr>h_funcs = all_funcs, h_live = Map.empty, h_next = 1, h_calls = 0, h_grant = (\<lambda>k. True)\<rparr>"

text \<open>Only the first allocation succeeds.\<close>

definition poor_heap :: heap where
  "poor_heap = fresh_heap\<lparr>h_grant := (\<lambda>k. k = 0)\<rparr>"

definition full_build :: build where
  "full_build = \<lparr>b_archs = (\<lambda>a. True), b_diet = False, b_x86_reduce = False, b_x86_att_disable = False\<rparr>"

definition lp64 :: abi where
  "lp64 = \<lparr>sz_cs_struct = 536, sz_cs_insn = 240, sz_cs_detail = 1528, sz_insn_mnem = 48,
     sz_MCRegisterInfo = 96, sz_m68k_info = 120, sz_m680x_info = 128\<rparr>"

definition no_backends :: backends where
  "no_backends = \<lparr>x_disasm = (\<lambda>f ud code MI sz a. None), x_insn_id = (\<lambda>f h ud i n. None),
     x_printer = (\<lambda>f ud MI ss. None), x_post_printer = (\<lambda>f ud i b MI. None), x_reg_name = (\<lambda>f ud r. None),
     x_insn_name = (\<lambda>f ud i. None), x_group_name = (\<lambda>f ud g. None), x_reg_access = (\<lambda>f i. None)\<rparr>"

definition zero_junk :: junk where
  "zero_junk = \<lparr>j_mci = blank_inst, j_ss = (\<lambda>n. empty_stream), j_insn = (\<lambda>n. blank_insn),
     j_detail = (\<lambda>p. blank_detail), j_size = 0\<rparr>"

definition sample_env :: env where
  "sample_env = \<lparr>e_abi = lp64, e_back = no_backends, e_junk = zero_junk\<rparr>"

definition fresh_world :: world where
  "fresh_world = \<lparr>w_heap = fresh_heap, w_handles = Map.empty\<rparr>"

section \<open>They are well formed\<close>

lemma empty_stream_holds: "ss_holds empty_stream []"
  by (simp add: empty_stream_def ss_holds_def holds_def numeral_eq_Suc)

lemma blank_insn_wf: "insn_wf blank_insn"
  by (simp add: insn_wf_def blank_insn_def)

lemma blank_inst_wf: "mci_wf blank_inst"
  using blank_insn_wf by (simp add: mci_wf_def blank_inst_def)

lemma blank_detail_wf: "detail_wf blank_detail"
  by (simp add: detail_wf_def blank_detail_def)

lemma fresh_heap_ok: "heap_ok fresh_heap"
  by (simp add: heap_ok_def heap_wf_def funcs_set_def fresh_heap_def all_funcs_def)

lemma poor_heap_ok: "heap_ok poor_heap"
  by (simp add: heap_ok_def heap_wf_def funcs_set_def poor_heap_def fresh_heap_def all_funcs_def)

lemma fresh_granted: "all_granted fresh_heap"
  by (simp add: all_granted_def fresh_heap_def)

lemma zero_junk_ok: "junk_ok zero_junk"
  using blank_inst_wf blank_insn_wf blank_detail_wf
  by (simp add: junk_ok_def zero_junk_def empty_stream_def insn_wf_def)

lemma fresh_world_ok: "world_ok fresh_world"
  using fresh_heap_ok by (simp add: world_ok_def fresh_world_def)

end
