(* ===== verification/Support_Props.thy ===== *)
theory Support_Props
  imports Samples
begin

text \<open>
  The properties of the support code that every architecture uses: the string stream and its
  number printers, the operand list, the lookup tables, and the register descriptions. Each
  theorem is followed by a concrete instance.
\<close>

section \<open>The string stream\<close>

text \<open>
  C23. The eight number printers of \<^verbatim>\<open>SStream.c\<close> never fault on a stream with room for 24
  characters, append one numeral, and the numeral reads back as exactly the value, for every
  signed and unsigned 32- and 64-bit value, the most negative ones included.
\<close>

theorem number_printers_round_trip:
  assumes "ss_holds ss p" "length p + 24 < SSTREAM_SIZE - 1"
  shows "(\<exists>t s. printInt64 ss v = Some t \<and> ss_holds t (p @ s) \<and> scan_int s = sint v) \<and>
    (\<exists>t s. printInt64Bang ss v = Some t \<and> ss_holds t (p @ s) \<and> scan_bang s = sint v) \<and>
    (\<exists>t s. printUInt64Bang ss v = Some t \<and> ss_holds t (p @ s) \<and> scan_bang s = uint v) \<and>
    (\<exists>t s. printInt32 ss w = Some t \<and> ss_holds t (p @ s) \<and> scan_int s = sint w) \<and>
    (\<exists>t s. printInt32Bang ss w = Some t \<and> ss_holds t (p @ s) \<and> scan_bang s = sint w) \<and>
    (\<exists>t s. printInt32BangDec ss w = Some t \<and> ss_holds t (p @ s) \<and> scan_bang s = sint w) \<and>
    (\<exists>t s. printUInt32 ss w = Some t \<and> ss_holds t (p @ s) \<and> scan_int s = uint w) \<and>
    (\<exists>t s. printUInt32Bang ss w = Some t \<and> ss_holds t (p @ s) \<and> scan_bang s = uint w)"
  by (intro conjI pi64.print_appends [OF assms] pi64b.print_appends [OF assms] pu64b.print_appends [OF assms]
      pi32.print_appends [OF assms] pi32b.print_appends [OF assms] pi32d.print_appends [OF assms]
      pu32.print_appends [OF assms] pu32b.print_appends [OF assms])

theorem number_printers_round_trip_witness:
  "\<exists>t s. printInt64 empty_stream (push_bit 63 1) = Some t \<and> ss_holds t s \<and> scan_int s = - (2 ^ 63)"
  using number_printers_round_trip [OF empty_stream_holds, of "push_bit 63 1"] by simp

text \<open>
  C36. \<^verbatim>\<open>SStream_concat\<close> truncates a text that does not fit, but advances the index by the
  full length that \<^verbatim>\<open>vsnprintf\<close> returns. The index then points past the text, and once it
  is past the buffer the next unbounded append writes outside the buffer.
\<close>

theorem SStream_concat_truncates:
  assumes "ss_holds ss p" "NUL \<notin> set s" "length p < SSTREAM_SIZE - 1"
    "SSTREAM_SIZE - 2 < length p + length s"
  shows "\<exists>t. SStream_concat ss s = Some t \<and> cstr (ss_buffer t) = take (SSTREAM_SIZE - 2) (p @ s) \<and>
    ss_index t = length p + length s \<and>
    (SSTREAM_SIZE \<le> length p + length s \<longrightarrow> (\<forall>u. SStream_concat0 t u = None))"
proof -
  let ?s = "take (510 - length p) s"
  have av: "concat_avail (ss_index ss) = 511 - length p"
    using assms(1,3) by (simp add: ss_holds_def concat_avail_in)
  have len: "length (ss_buffer ss) = 512" and ix: "ss_index ss = length p"
    and h: "holds (ss_buffer ss) p" using assms(1) by (auto simp: ss_holds_def)
  have n: "NUL \<notin> set ?s" using assms(2) by (meson in_set_takeD)
  have l: "length p + length ?s < length (ss_buffer ss)" using len assms(3) by simp
  from cwrite_extends_holds [OF h n l] obtain buf where
    b: "cwrite (ss_buffer ss) (length p) (?s @ [NUL]) = Some buf" "holds buf (p @ ?s)" by blast
  have "SStream_concat ss s = Some (ss\<lparr>ss_buffer := buf, ss_index := length p + length s\<rparr>)"
    using b(1) av ix assms(3) by (simp add: SStream_concat_def vsnprintf_def)
  moreover have "cstr buf = take 510 (p @ s)" using holds_cstr [OF b(2)] assms(3) by simp
  moreover have "length buf = 512" using cwrite_length [OF b(1)] len by simp
  ultimately show ?thesis by (auto simp: SStream_concat0_def buf_simps split: bind_splits)
qed

theorem SStream_concat_truncates_witness:
  "\<exists>t. SStream_concat empty_stream (replicate 600 CHR ''a'') = Some t \<and> ss_index t = 600 \<and>
     length (cstr (ss_buffer t)) = 510 \<and> SStream_concat0 t ''b'' = None"
  using SStream_concat_truncates [OF empty_stream_holds, of "replicate 600 CHR ''a''"] by auto

section \<open>Operands\<close>

text \<open>
  C24. \<^verbatim>\<open>MCInst_insert0\<close> is list insertion: with a free slot and an index within the operands
  it never leaves the array, and the operands in use afterwards are the old ones with the new one
  at the index, in order.
\<close>

theorem insert0_is_list_insertion:
  assumes "mci_wf inst" "index \<le> unat (mi_size inst)" "unat (mi_size inst) < 48"
  shows "\<exists>inst'. MCInst_insert0 inst index (Obj op) = Some inst' \<and> mci_wf inst' \<and>
    operands inst' = take index (operands inst) @ [op] @ drop index (operands inst)"
  using insert0_Obj [OF assms] by simp

theorem insert0_is_list_insertion_witness:
  "\<exists>inst. MCInst_insert0 blank_inst 0 (Obj blank_operand) = Some inst \<and> operands inst = [blank_operand]"
  using insert0_is_list_insertion [OF blank_inst_wf, of 0 blank_operand]
  by (auto simp: blank_inst_def operands_def)

text \<open>
  An operand stored as a register or as an immediate reads back as the value that was stored,
  although both live in the same union and a register only covers its low half; and the operands
  that \<^verbatim>\<open>MCOperand_CreateImm0\<close> and \<^verbatim>\<open>MCOperand_CreateReg0\<close> append come after
  the ones in use, tagged with their kind.
\<close>

lemma created_operands:
  assumes "mci_wf inst" "unat (mi_size inst) < 48"
  shows "(\<exists>inst' op. MCOperand_CreateImm0 inst v = Some inst' \<and> mci_wf inst' \<and>
      operands inst' = operands inst @ [op] \<and> MCOperand_isImm op \<and> MCOperand_getImm op = v) \<and>
    (\<exists>inst' op. MCOperand_CreateReg0 inst r = Some inst' \<and> mci_wf inst' \<and>
      operands inst' = operands inst @ [op] \<and> MCOperand_isReg op \<and> MCOperand_getReg op = r)"
proof -
  let ?n = "unat (mi_size inst)"
  have len: "?n < length (mi_Operands inst)" using assms by (simp add: mci_wf_def)
  have new: "operands (inst\<lparr>mi_Operands := (mi_Operands inst)[?n := op], mi_size := mi_size inst + 1\<rparr>) =
      operands inst @ [op]" for op
    using len unat_size_inc [OF assms(2)] by (simp add: operands_def take_Suc_conv_app_nth)
  have wf: "mci_wf (inst\<lparr>mi_Operands := (mi_Operands inst)[?n := op], mi_size := mi_size inst + 1\<rparr>)" for op
    using assms(1) by (simp add: mci_wf_def)
  let ?i = "MCOperand_setImm ((mi_Operands inst ! ?n)\<lparr>op_Kind := kImmediate\<rparr>) v"
  let ?r = "MCOperand_setReg ((mi_Operands inst ! ?n)\<lparr>op_Kind := kRegister\<rparr>) r"
  have "MCOperand_isImm ?i" "MCOperand_isReg ?r"
    by (simp_all add: MCOperand_isImm_def MCOperand_isReg_def MCOperand_setImm_def MCOperand_setReg_def)
  with len new [of ?i] new [of ?r] wf [of ?i] wf [of ?r] show ?thesis
    unfolding MCOperand_CreateImm0_def MCOperand_CreateReg0_def
    by (auto simp: fault_simps simp del: operand_updates intro!: exI [of _ ?i] exI [of _ ?r])
qed

section \<open>Tables\<close>

lemma table_search_entry:
  "if \<exists>x \<in> set xs. ucast (im_id x) = idn
   then i \<le> table_search xs i idn \<and> table_search xs i idn < i + length xs \<and>
     ucast (im_id (xs ! (table_search xs i idn - i))) = idn
   else table_search xs i idn = 0"
proof (induction xs arbitrary: i)
  case (Cons x xs)
  show ?case
  proof (cases "ucast (im_id x) = idn")
    case False
    let ?t = "table_search xs (Suc i) idn"
    have "Suc i \<le> ?t \<Longrightarrow> (x # xs) ! (?t - i) = xs ! (?t - Suc i)" by (simp add: nth_Cons')
    with False Cons [of "Suc i"] show ?thesis by (cases "\<exists>x \<in> set xs. ucast (im_id x) = idn") auto
  qed simp
qed simp

text \<open>
  C31. \<^verbatim>\<open>insn_find\<close>, with or without its cache, answers as a search of the instruction table
  does: the position of the entry with the id if a proper entry has it, and otherwise 0. The call
  returns when the one allocation of the cache succeeds, and the cache it leaves is again a right one.
\<close>

theorem insn_find_searches:
  assumes "table_wf insns" "heap_ok h" "h_grant h (h_calls h)"
    "case cache of None \<Rightarrow> True | Some (p, c) \<Rightarrow> cache_ok insns c"
  shows "\<exists>r cache' h'. insn_find h insns idn cache = Some (r, cache', h') \<and>
    (case cache' of None \<Rightarrow> True | Some (p, c) \<Rightarrow> cache_ok insns c) \<and>
    (if \<exists>x \<in> set (tl insns). ucast (im_id x) = idn
     then 0 < unat r \<and> unat r < length insns \<and> ucast (im_id (insns ! unat r)) = idn else r = 0)"
proof -
  obtain r cache' h' where r: "insn_find h insns idn cache = Some (r, cache', h')"
    using insn_find_defined [OF assms] by blast
  note s = insn_find_search [OF assms(1,4) r]
  note t = table_search_entry [of "tl insns" idn 1, folded table_index_def]
  have len: "length insns \<le> 65535" "insns \<noteq> []" using assms(1) by (simp_all add: table_wf_def)
  show ?thesis
  proof (cases "\<exists>x \<in> set (tl insns). ucast (im_id x) = idn")
    case True
    with t have k: "1 \<le> table_index insns idn" "table_index insns idn < length insns"
      "ucast (im_id (tl insns ! (table_index insns idn - 1))) = idn" using len(2) by auto
    have "unat r = table_index insns idn"
      using s(1) k(2) len(1) by (simp add: unsigned_of_nat take_bit_nat_eq_self)
    moreover have "tl insns ! (table_index insns idn - 1) = insns ! table_index insns idn"
      using k(1,2) by (simp add: nth_tl)
    ultimately show ?thesis using True r s(2) k by auto
  next
    case False
    then show ?thesis using t r s by auto
  qed
qed

definition sample_insns :: "insn_map list" where
  "sample_insns = map (\<lambda>i. \<lparr>im_id = i, im_mapid = i + 100, im_regs_use = [], im_regs_mod = [], im_groups = [],
     im_branch = False, im_indirect_branch = False\<rparr>) [0, 3, 7]"

theorem insn_find_searches_witness:
  "\<exists>r c h'. insn_find fresh_heap sample_insns 7 None = Some (r, c, h') \<and> 0 < unat r \<and>
     ucast (im_id (sample_insns ! unat r)) = (7 :: u32)"
proof -
  have "table_wf sample_insns" by (simp add: table_wf_def sample_insns_def)
  moreover have "h_grant fresh_heap (h_calls fresh_heap)" by (simp add: fresh_heap_def)
  moreover have "\<exists>x \<in> set (tl sample_insns). ucast (im_id x) = (7 :: u32)" by (simp add: sample_insns_def)
  ultimately show ?thesis using insn_find_searches [OF _ fresh_heap_ok, of sample_insns None 7] by auto
qed

text \<open>
  In a name table with distinct ids and distinct, non-null names the two lookups are inverse to
  each other, and a name that is not in the table gives -1 (the header says 0).
\<close>

lemma name_lookups_inverse:
  assumes "names_wf m"
  shows "(id2name m i = Some n \<longrightarrow> name2id m n = Some (sint i)) \<and>
    (name2id m n = Some (sint j) \<and> Some n \<in> nm_name ` set m \<longrightarrow> id2name m j = Some n) \<and>
    (Some n \<notin> nm_name ` set m \<longrightarrow> name2id m n = Some (- 1))"
proof (intro conjI impI)
  assume "id2name m i = Some n"
  then obtain e where "e \<in> set m" "nm_id e = i" "nm_name e = Some n"
    using id2name_Some [OF assms] by blast
  then show "name2id m n = Some (sint i)" using name2id_hit [OF assms] by blast
next
  assume h: "name2id m n = Some (sint j) \<and> Some n \<in> nm_name ` set m"
  then obtain e where e: "e \<in> set m" "nm_name e = Some n" by force
  with h name2id_hit [OF assms e] have "nm_id e = j" by (auto intro: signed_word_eqI)
  with e show "id2name m j = Some n" using id2name_Some [OF assms] by blast
next
  assume "Some n \<notin> nm_name ` set m"
  then show "name2id m n = Some (- 1)" using assms by (intro name2id_miss) (simp_all add: names_wf_def)
qed

definition sample_names :: "name_map list" where
  "sample_names = [\<lparr>nm_id = 1, nm_name = Some ''jump''\<rparr>, \<lparr>nm_id = 2, nm_name = Some ''call''\<rparr>]"

end
