(* ===== verification/Engine_Session.thy ===== *)
theory Engine_Session
  imports Engine_Disasm
begin

text \<open>
  The client of the engine in \<^verbatim>\<open>CapStoneHelper.m\<close>: it opens a handle, sets its options,
  allocates one record, calls \<^verbatim>\<open>cs_disasm_iter\<close> until it fails, copies each record into an
  instruction bank, and releases everything. The bank keeps all texts in one string and the
  positions in parallel arrays; an \<^verbatim>\<open>NSMutableData\<close> of fixed-size items is a list of them,
  and an \<^verbatim>\<open>NSUInteger\<close> length or offset is a number.

  The whole run is shown to be total, to produce the listing of the abstract disassembler, and to
  leave the library as it was, for any architecture that meets the contract of
  \<^verbatim>\<open>Engine_Dispatch\<close>.
\<close>

section \<open>The instruction bank\<close>

record CapStoneInstruction =
  ci_mnemonic :: string
  ci_operand :: string
  ci_startAddr :: u64
  ci_size :: u16

record CapStoneInstructionBank =
  instructionStringBank :: string
  instructionOffsetInStringBank :: "nat list"
  instructionOpStrSizes :: "nat list"
  instructionMnemonicSizes :: "nat list"
  instructionStartAddresses :: "u64 list"
  instructionSizes :: "u16 list"
  numberOfInstructions :: nat
  bank_error :: "cs_err option"

definition bank_init :: CapStoneInstructionBank where
  "bank_init = \<lparr>instructionStringBank = [], instructionOffsetInStringBank = [], instructionOpStrSizes = [],
     instructionMnemonicSizes = [], instructionStartAddresses = [], instructionSizes = [],
     numberOfInstructions = 0, bank_error = None\<rparr>"

text \<open>\<^verbatim>\<open>strlen\<close> of an array that has no terminator is undefined.\<close>

definition strlen :: "char list \<Rightarrow> nat option" where
  "strlen buf = (if NUL \<in> set buf then Some (length (cstr buf)) else None)"

definition appendInstruction ::
    "CapStoneInstructionBank \<Rightarrow> cs_insn \<Rightarrow> u64 \<Rightarrow> CapStoneInstructionBank option" where
  "appendInstruction bank insn codeStartAddr = do {
     let bank = bank\<lparr>instructionOffsetInStringBank :=
       instructionOffsetInStringBank bank @ [length (instructionStringBank bank)]\<rparr>;
     mnemonicSize \<leftarrow> strlen (in_mnemonic insn);
     let bank = bank\<lparr>instructionMnemonicSizes := instructionMnemonicSizes bank @ [mnemonicSize],
       instructionStringBank := instructionStringBank bank @ take mnemonicSize (in_mnemonic insn)\<rparr>;
     opStrSize \<leftarrow> strlen (in_op_str insn);
     let bank = bank\<lparr>instructionOpStrSizes := instructionOpStrSizes bank @ [opStrSize],
       instructionStringBank := instructionStringBank bank @ take opStrSize (in_op_str insn)\<rparr>;
     Some (bank\<lparr>instructionStartAddresses := instructionStartAddresses bank @ [codeStartAddr],
       instructionSizes := instructionSizes bank @ [in_size insn],
       numberOfInstructions := numberOfInstructions bank + 1\<rparr>) }"

definition instructionAtIndex :: "CapStoneInstructionBank \<Rightarrow> nat \<Rightarrow> CapStoneInstruction option" where
  "instructionAtIndex bank index = do {
     offset \<leftarrow> aget (instructionOffsetInStringBank bank) index;
     mnemonicSize \<leftarrow> aget (instructionMnemonicSizes bank) index;
     operandSize \<leftarrow> aget (instructionOpStrSizes bank) index;
     need (offset + mnemonicSize + operandSize \<le> length (instructionStringBank bank));
     sz \<leftarrow> aget (instructionSizes bank) index;
     addr \<leftarrow> aget (instructionStartAddresses bank) index;
     Some \<lparr>ci_mnemonic = take mnemonicSize (drop offset (instructionStringBank bank)),
           ci_operand = take operandSize (drop (offset + mnemonicSize) (instructionStringBank bank)),
           ci_startAddr = addr, ci_size = sz\<rparr> }"

section \<open>The run\<close>

text \<open>The loop over \<^verbatim>\<open>cs_disasm_iter\<close>; the progress report has no effect on the result.\<close>

record iter_state =
  it_world :: world
  it_code :: "u8 list"
  it_codeAddress :: u64
  it_insn :: cs_insn
  it_bank :: CapStoneInstructionBank

definition iter_step :: "env \<Rightarrow> nat \<Rightarrow> iter_state \<Rightarrow> (iter_state + iter_state) option" where
  "iter_step E csh st = do {
     (w, r, code, addr, insn) \<leftarrow>
       cs_disasm_iter E (it_world st) csh (it_code st) (it_codeAddress st) (it_insn st);
     let st = st\<lparr>it_world := w, it_code := code, it_codeAddress := addr, it_insn := insn\<rparr>;
     if r then do {
       bank \<leftarrow> appendInstruction (it_bank st) insn (addr - ucast (in_size insn));
       Some (Inl (st\<lparr>it_bank := bank\<rparr>)) }
     else Some (Inr st) }"

text \<open>
  The body of \<^verbatim>\<open>instructionsFrom\<close> for a target architecture and mode, and the mode it sets
  by an option afterwards. \<open>junk\<close> is the contents of a new mnemonic node, which the options used
  here do not allocate; \<open>hnd\<close> is the uninitialised handle variable. The error stored after the
  loop is the result of \<^verbatim>\<open>cs_open\<close>.
\<close>

definition capstone_run :: "build \<Rightarrow> env \<Rightarrow> char list \<Rightarrow> nat \<Rightarrow> world \<Rightarrow> cs_arch \<Rightarrow> u32 \<Rightarrow> u32 option \<Rightarrow>
    u8 list \<Rightarrow> u64 \<Rightarrow> (world \<times> CapStoneInstructionBank) option" where
  "capstone_run b E junk hnd w target_arch target_mode mode_option data codeStartAddress = do {
     (w, cserr, csh) \<leftarrow> cs_open b (e_abi E) w (arch_num target_arch) target_mode hnd;
     if cserr \<noteq> CS_ERR_OK then Some (w, bank_init\<lparr>bank_error := Some cserr\<rparr>)
     else do {
       w \<leftarrow> (case mode_option of
               None \<Rightarrow> Some w
             | Some m \<Rightarrow> map_option fst (cs_option b (e_abi E) junk w csh CS_OPT_MODE (V_num (ucast m))));
       (w, _) \<leftarrow> cs_option b (e_abi E) junk w csh CS_OPT_DETAIL (V_num (ucast CS_OPT_ON));
       (w, _) \<leftarrow> cs_option b (e_abi E) junk w csh CS_OPT_SKIPDATA (V_num (ucast CS_OPT_ON));
       (w, insn) \<leftarrow> cs_malloc E w csh;
       (p, insn) \<leftarrow> insn;
       st \<leftarrow> c_loop (iter_step E csh) \<lparr>it_world = w, it_code = data, it_codeAddress = codeStartAddress,
         it_insn = insn, it_bank = bank_init\<rparr>;
       w \<leftarrow> cs_free (it_world st) p [it_insn st] 1;
       err_handle \<leftarrow> cs_errno w csh;
       let bank = (if err_handle \<noteq> CS_ERR_OK then (it_bank st)\<lparr>bank_error := Some cserr\<rparr> else it_bank st);
       (w, _, _) \<leftarrow> cs_close w csh;
       Some (w, bank) } }"

text \<open>The architectures of the application.\<close>

datatype CapStoneArchType =
    CapStoneArchTypeI386 | CapStoneArchTypeX8664 | CapStoneArchTypeThumb | CapStoneArchTypeARM
  | CapStoneArchTypeARM64

primrec capstone_target :: "CapStoneArchType \<Rightarrow> cs_arch \<times> u32 \<times> u32 option" where
  "capstone_target CapStoneArchTypeI386 = (CS_ARCH_X86, CS_MODE_32, None)"
| "capstone_target CapStoneArchTypeX8664 = (CS_ARCH_X86, CS_MODE_64, None)"
| "capstone_target CapStoneArchTypeThumb = (CS_ARCH_ARM, CS_MODE_ARM, Some CS_MODE_THUMB)"
| "capstone_target CapStoneArchTypeARM = (CS_ARCH_ARM, CS_MODE_ARM, Some CS_MODE_ARM)"
| "capstone_target CapStoneArchTypeARM64 = (CS_ARCH_ARM64, CS_MODE_ARM, Some CS_MODE_ARM)"

definition instructionsFrom :: "build \<Rightarrow> env \<Rightarrow> char list \<Rightarrow> nat \<Rightarrow> world \<Rightarrow> u8 list \<Rightarrow> CapStoneArchType \<Rightarrow> u64 \<Rightarrow>
    (world \<times> CapStoneInstructionBank) option" where
  "instructionsFrom b E junk hnd w data arch codeStartAddress =
     (case capstone_target arch of (a, mode, opt) \<Rightarrow> capstone_run b E junk hnd w a mode opt data codeStartAddress)"

section \<open>The bank is a list\<close>

text \<open>The bank stands for the list of the instructions that were appended.\<close>

definition bank_holds :: "CapStoneInstructionBank \<Rightarrow> CapStoneInstruction list \<Rightarrow> bool" where
  "bank_holds bank L \<longleftrightarrow> numberOfInstructions bank = length L \<and>
     length (instructionOffsetInStringBank bank) = length L \<and> length (instructionOpStrSizes bank) = length L \<and>
     length (instructionMnemonicSizes bank) = length L \<and> length (instructionStartAddresses bank) = length L \<and>
     length (instructionSizes bank) = length L \<and>
     (\<forall>i < length L. instructionAtIndex bank i = Some (L ! i))"

lemma bank_init_holds: "bank_holds bank_init []"
  by (simp add: bank_holds_def bank_init_def)

definition entry_of :: "cs_insn \<Rightarrow> u64 \<Rightarrow> CapStoneInstruction" where
  "entry_of insn addr = \<lparr>ci_mnemonic = cstr (in_mnemonic insn), ci_operand = cstr (in_op_str insn),
     ci_startAddr = addr, ci_size = in_size insn\<rparr>"

lemma take_cstr: "take (length (cstr buf)) buf = cstr buf"
  unfolding cstr_def by (rule takeWhile_eq_take [symmetric])

definition bank_append :: "CapStoneInstructionBank \<Rightarrow> string \<Rightarrow> string \<Rightarrow> u64 \<Rightarrow> u16 \<Rightarrow> CapStoneInstructionBank" where
  "bank_append bank m oper addr sz = bank\<lparr>
     instructionOffsetInStringBank := instructionOffsetInStringBank bank @ [length (instructionStringBank bank)],
     instructionMnemonicSizes := instructionMnemonicSizes bank @ [length m],
     instructionStringBank := instructionStringBank bank @ m @ oper,
     instructionOpStrSizes := instructionOpStrSizes bank @ [length oper],
     instructionStartAddresses := instructionStartAddresses bank @ [addr],
     instructionSizes := instructionSizes bank @ [sz], numberOfInstructions := numberOfInstructions bank + 1\<rparr>"

lemma appendInstruction_eq:
  assumes "NUL \<in> set (in_mnemonic insn)" "NUL \<in> set (in_op_str insn)"
  shows "appendInstruction bank insn addr =
    Some (bank_append bank (cstr (in_mnemonic insn)) (cstr (in_op_str insn)) addr (in_size insn))"
  using assms by (simp add: appendInstruction_def strlen_def Let_def take_cstr bank_append_def)

lemma at_index_Some:
  "instructionAtIndex bank i = Some x \<longleftrightarrow>
     i < length (instructionOffsetInStringBank bank) \<and> i < length (instructionMnemonicSizes bank) \<and>
     i < length (instructionOpStrSizes bank) \<and> i < length (instructionSizes bank) \<and>
     i < length (instructionStartAddresses bank) \<and>
     (let off = instructionOffsetInStringBank bank ! i; m = instructionMnemonicSizes bank ! i;
          n = instructionOpStrSizes bank ! i
      in off + m + n \<le> length (instructionStringBank bank) \<and>
         x = \<lparr>ci_mnemonic = take m (drop off (instructionStringBank bank)),
              ci_operand = take n (drop (off + m) (instructionStringBank bank)),
              ci_startAddr = instructionStartAddresses bank ! i, ci_size = instructionSizes bank ! i\<rparr>)"
  by (auto simp: instructionAtIndex_def bind_eq_Some_conv Let_def)

lemma bank_append_old:
  assumes "instructionAtIndex bank i = Some x"
  shows "instructionAtIndex (bank_append bank m oper addr sz) i = Some x"
  using assms by (simp add: at_index_Some bank_append_def Let_def nth_append)

lemma bank_append_holds:
  assumes "bank_holds bank L"
  shows "bank_holds (bank_append bank m oper addr sz)
    (L @ [\<lparr>ci_mnemonic = m, ci_operand = oper, ci_startAddr = addr, ci_size = sz\<rparr>])"
proof -
  let ?b = "bank_append bank m oper addr sz" and ?e = "\<lparr>ci_mnemonic = m, ci_operand = oper, ci_startAddr = addr, ci_size = sz\<rparr>"
  have new: "instructionAtIndex ?b (length L) = Some ?e"
    using assms by (simp add: at_index_Some bank_append_def bank_holds_def Let_def nth_append)
  have "instructionAtIndex ?b i = Some ((L @ [?e]) ! i)" if "i < Suc (length L)" for i
  proof (cases "i = length L")
    case False
    with that assms have "instructionAtIndex bank i = Some (L ! i)" by (simp add: bank_holds_def)
    from bank_append_old [OF this] that False show ?thesis by (simp add: nth_append)
  qed (use new in simp)
  with assms show ?thesis by (simp add: bank_holds_def bank_append_def)
qed

lemma append_holds:
  assumes "bank_holds bank L" "NUL \<in> set (in_mnemonic insn)" "NUL \<in> set (in_op_str insn)"
  shows "\<exists>bank'. appendInstruction bank insn addr = Some bank' \<and> bank_holds bank' (L @ [entry_of insn addr]) \<and>
    bank_error bank' = bank_error bank"
  using bank_append_holds [OF assms(1)] appendInstruction_eq [OF assms(2,3)]
  by (auto simp: entry_of_def bank_append_def)

section \<open>The listing\<close>

text \<open>
  The records single stepping delivers, with the number of bytes each stands for. Single stepping
  restarts the position at every call, so with a callback its records may differ from those of
  \<^verbatim>\<open>cs_disasm\<close>; without one they are the same.
\<close>

function listing :: "arch_desc \<Rightarrow> cs_struct \<Rightarrow> u8 list \<Rightarrow> u64 \<Rightarrow> (insn_view \<times> nat) list" where
  "listing D ud code address =
     (if code = [] then []
      else case next_view D ud code 0 code address of
        None \<Rightarrow> []
      | Some (v, n) \<Rightarrow>
          (v, n) # (if n = 0 then [] else listing D ud (drop n code) (address + of_nat n)))"
  by pat_completeness auto
termination
  by (relation "measure (\<lambda>(D, ud, code, address). length code)") auto

declare listing.simps [simp del]

definition no_callback :: "cs_struct \<Rightarrow> bool" where
  "no_callback ud \<longleftrightarrow> (ud_skipdata ud \<longrightarrow> sk_callback (ud_skipdata_setup ud) = None)"

lemma no_callback_next: "no_callback ud \<Longrightarrow> next_view D ud org pos = next_view D ud org' pos'"
  by (auto simp: next_view_def skip_bytes_def no_callback_def fun_eq_iff)

lemma views_listing:
  assumes "no_callback ud"
  shows "views D ud org code address = map fst (listing D ud code address)"
proof (induction "length code" arbitrary: code address rule: less_induct)
  case less
  have eq: "next_view D ud org (length org - length code) code address = next_view D ud code 0 code address"
    by (rule fun_cong [OF fun_cong [OF no_callback_next [OF assms]]])
  show ?case
  proof (cases "next_view D ud code 0 code address")
    case None
    then show ?thesis using eq by (subst views.simps, subst listing.simps) simp
  next
    case (Some vn)
    obtain v n where vn: "vn = (v, n)" by fastforce
    have "code \<noteq> [] \<Longrightarrow> n \<noteq> 0 \<Longrightarrow>
        views D ud org (drop n code) (address + of_nat n) = map fst (listing D ud (drop n code) (address + of_nat n))"
      by (rule less) simp
    then show ?thesis using Some vn eq by (subst views.simps, subst listing.simps) simp
  qed
qed

lemma listing_cong:
  assumes "\<And>code address. next_view D ud' code 0 code address = next_view D ud code 0 code address"
  shows "listing D ud' code address = listing D ud code address"
proof (induction "length code" arbitrary: code address rule: less_induct)
  case less
  show ?case
    using less by (subst (1 2) listing.simps) (auto simp: assms split: option.split)
qed

text \<open>What the client stores for a record: its start is the next address less the reported size.\<close>

definition listed :: "insn_view \<times> nat \<Rightarrow> CapStoneInstruction" where
  "listed = (\<lambda>(v, n). \<lparr>ci_mnemonic = v_mnemonic v, ci_operand = v_op_str v,
     ci_startAddr = v_address v + of_nat n - ucast (v_size v), ci_size = v_size v\<rparr>)"

lemma short_cstr_terminated: "length (cstr buf) < length buf \<Longrightarrow> NUL \<in> set buf"
  by (cases "NUL \<in> set buf") (simp_all add: cstr_id)

lemma shown_mnem_short:
  assumes "list_all mnem_wf (ud_mnem_list ud)" "length (takeWhile (\<lambda>c. \<not> blank c) s) < 32"
  shows "length (shown_mnem ud idn s) < 32"
  using assms mnem_lookup_short(1) [OF assms(1), of idn]
  by (auto simp: shown_mnem_def mnem_part_def less_Suc_eq_le split: option.split)

context backend
begin

lemma next_view_fits:
  assumes "list_all mnem_wf (ud_mnem_list ud)" "skip_ok ud" "next_view desc ud org pos code address = Some (v, n)"
  shows "length (v_mnemonic v) < 32" "length (v_op_str v) < 160" "v_address v = address"
proof -
  have "length (v_mnemonic v) < 32 \<and> length (v_op_str v) < 160 \<and> v_address v = address"
  proof (cases "valid code")
    case True
    with assms(3) have v: "v = decode_view desc ud code address" by (simp add: next_view_def desc_def)
    show ?thesis using shown_mnem_short [OF assms(1) text_mnem [OF True]]
      by (simp add: v decode_view_def desc_def)
  next
    case False
    with assms(3) have sk: "skip_bytes ud code org pos = Some n" "v = data_view ud code address n"
      by (auto simp: next_view_def desc_def)
    from skip_bytes_ok(4) [OF assms(2) sk(1)] show ?thesis by (auto simp: sk(2) data_view_def)
  qed
  then show "length (v_mnemonic v) < 32" "length (v_op_str v) < 160" "v_address v = address" by auto
qed

lemma nil_not_valid: "\<not> valid []"
  using len_range [of "[]"] by auto

lemma next_view_nil: "skip_ok ud \<Longrightarrow> next_view desc ud org pos [] address = None"
  using nil_not_valid by (simp add: next_view_def desc_def skip_bytes_nil)

text \<open>The loop of the client: the world is left alone and the bank receives the listing.\<close>

lemma iter_loop_ok:
  assumes w: "world_ok w" "w_handles w csh = Some ud" "ud_errnum ud = CS_ERR_OK"
    and h: "is_handle ud" "skip_ok ud" and j: "junk_ok (e_junk E)"
  shows "insn_wf insn \<Longrightarrow> in_detail insn \<noteq> None \<Longrightarrow> bank_holds bank L \<Longrightarrow> bank_error bank = None \<Longrightarrow>
    \<exists>st. c_loop (iter_step E csh) \<lparr>it_world = w, it_code = code, it_codeAddress = address,
          it_insn = insn, it_bank = bank\<rparr> = Some st \<and>
      it_world st = w \<and> insn_wf (it_insn st) \<and>
      map_option fst (in_detail (it_insn st)) = map_option fst (in_detail insn) \<and>
      bank_holds (it_bank st) (L @ map listed (listing desc ud code address)) \<and> bank_error (it_bank st) = None"
proof (induction "length code" arbitrary: code address insn bank L rule: less_induct)
  case less
  let ?st = "\<lparr>it_world = w, it_code = code, it_codeAddress = address, it_insn = insn, it_bank = bank\<rparr>"
  have same: "set_handle w csh (w_heap w) (ud\<lparr>ud_errnum := CS_ERR_OK\<rparr>) = w"
    using w(2,3) by (simp add: set_handle_def map_upd_triv)
  have ml: "list_all mnem_wf (ud_mnem_list ud)" using world_okD(2) [OF w(1,2)] by (simp add: handle_wf_def)
  from cs_disasm_iter_ok [OF w(1,2) h less.prems(1) _ j, of code address] less.prems(2) obtain i where
    i: "insn_wf i" "map_option fst (in_detail i) = map_option fst (in_detail insn)"
    and nx: "case next_view desc ud code 0 code address of
       None \<Rightarrow> cs_disasm_iter E w csh code address insn = Some (w, False, code, address, i)
     | Some (v, n) \<Rightarrow> 0 < n \<and> n \<le> length code \<and> view i = v \<and>
         cs_disasm_iter E w csh code address insn = Some (w, True, drop n code, address + of_nat n, i)"
    unfolding same by blast
  have det: "in_detail i \<noteq> None" using i(2) less.prems(2) by auto
  show ?case
  proof (cases "next_view desc ud code 0 code address")
    case None
    with nx have "iter_step E csh ?st = Some (Inr (?st\<lparr>it_insn := i\<rparr>))" by (simp add: iter_step_def)
    moreover have "listing desc ud code address = []" using None by (subst listing.simps) simp
    ultimately show ?thesis using i less.prems by (simp add: c_loop_exit)
  next
    case (Some vn)
    obtain v n where vn: "vn = (v, n)" by fastforce
    with Some nx have n: "0 < n" "n \<le> length code" "view i = v" and
      it: "cs_disasm_iter E w csh code address insn = Some (w, True, drop n code, address + of_nat n, i)" by auto
    note fits = next_view_fits [OF ml h(2) Some [unfolded vn]]
    have "NUL \<in> set (in_mnemonic i)" "NUL \<in> set (in_op_str i)"
      using fits(1,2) i(1) n(3) by (auto simp: view_def insn_wf_def intro!: short_cstr_terminated)
    from append_holds [OF less.prems(3) this, of "address + of_nat n - ucast (in_size i)"] obtain bank' where
      b: "appendInstruction bank i (address + of_nat n - ucast (in_size i)) = Some bank'"
        "bank_holds bank' (L @ [entry_of i (address + of_nat n - ucast (in_size i))])"
        "bank_error bank' = bank_error bank" by blast
    let ?st' = "\<lparr>it_world = w, it_code = drop n code, it_codeAddress = address + of_nat n, it_insn = i, it_bank = bank'\<rparr>"
    have st: "iter_step E csh ?st = Some (Inl ?st')" using it b(1) by (simp add: iter_step_def)
    have e: "entry_of i (address + of_nat n - ucast (in_size i)) = listed (v, n)"
      using n(3) fits(3) by (auto simp: entry_of_def listed_def view_def)
    have ls: "listing desc ud code address = (v, n) # listing desc ud (drop n code) (address + of_nat n)"
      using Some vn n(1,2) by (subst listing.simps) auto
    have "length (drop n code) < length code" using n(1,2) by simp
    from less.hyps [OF this i(1) det b(2) [unfolded e]] b(3) less.prems(4) obtain st2 where
      "c_loop (iter_step E csh) ?st' = Some st2" "it_world st2 = w" "insn_wf (it_insn st2)"
      "map_option fst (in_detail (it_insn st2)) = map_option fst (in_detail i)"
      "bank_holds (it_bank st2) ((L @ [listed (v, n)]) @ map listed (listing desc ud (drop n code) (address + of_nat n)))"
      "bank_error (it_bank st2) = None" by auto
    then show ?thesis using c_loop_step [of "iter_step E csh", OF st] i(2) ls by auto
  qed
qed

end

section \<open>Nothing is lost\<close>

text \<open>
  With SKIPDATA on, no callback and a default skip of one byte the disassembly never stops early:
  the records stand for all of the input.
\<close>

definition skips_bytes :: "cs_struct \<Rightarrow> bool" where
  "skips_bytes ud \<longleftrightarrow> ud_skipdata ud \<and> ud_skipdata_size ud = 1 \<and> sk_callback (ud_skipdata_setup ud) = None"

lemma skips_one: "skips_bytes ud \<Longrightarrow> code \<noteq> [] \<Longrightarrow> skip_bytes ud code org pos = Some 1"
  by (cases code) (simp_all add: skip_bytes_def skips_bytes_def)

context backend
begin

lemma next_view_total:
  assumes "skips_bytes ud" "code \<noteq> []"
  shows "\<exists>v n. next_view desc ud org pos code address = Some (v, n) \<and> 0 < n \<and> n \<le> length code \<and>
    v_bytes v = drop (n - 24) (take n code)"
proof (cases "valid code")
  case True
  then show ?thesis using len_range [OF True] by (simp add: next_view_def desc_def decode_view_def)
next
  case False
  then show ?thesis using skips_one [OF assms, of org pos] assms(2)
    by (cases code) (simp_all add: next_view_def desc_def data_view_def)
qed

lemma listing_covers:
  assumes "skips_bytes ud"
  shows "sum_list (map snd (listing desc ud code address)) = length code"
proof (induction "length code" arbitrary: code address rule: less_induct)
  case less
  show ?case
  proof (cases "code = []")
    case False
    from next_view_total [OF assms False, of code 0 address] obtain v n where
      n: "next_view desc ud code 0 code address = Some (v, n)" "0 < n" "n \<le> length code" by blast
    have "sum_list (map snd (listing desc ud (drop n code) (address + of_nat n))) = length (drop n code)"
      using n(2,3) by (intro less) simp
    then show ?thesis using n False by (subst listing.simps) simp
  qed (simp add: listing.simps)
qed

lemma listing_bytes:
  assumes "skips_bytes ud" "\<And>code. valid code \<Longrightarrow> insn_len code \<le> 24"
  shows "concat (map (\<lambda>(v, n). v_bytes v) (listing desc ud code address)) = code"
proof (induction "length code" arbitrary: code address rule: less_induct)
  case less
  show ?case
  proof (cases "code = []")
    case False
    from next_view_total [OF assms(1) False, of code 0 address] obtain v n where
      n: "next_view desc ud code 0 code address = Some (v, n)" "0 < n" "n \<le> length code"
        "v_bytes v = drop (n - 24) (take n code)" by blast
    have "n \<le> 24"
      using n(1) assms(2) [of code] skips_one [OF assms(1) False, of code 0]
      by (auto simp: next_view_def desc_def split: if_splits)
    then have b: "v_bytes v = take n code" using n(4) by simp
    have "concat (map (\<lambda>(v, n). v_bytes v) (listing desc ud (drop n code) (address + of_nat n))) = drop n code"
      using n(2,3) by (intro less) simp
    then show ?thesis using n(1,2) b False by (subst listing.simps) simp
  qed (simp add: listing.simps)
qed

end

section \<open>Allocating a record\<close>

text \<open>
  \<^verbatim>\<open>cs_malloc\<close> delivers a record with details exactly when the handle asks for them, and owns
  just its blocks; when memory runs out it keeps none.
\<close>

definition malloc_post :: "env \<Rightarrow> world \<Rightarrow> cs_struct \<Rightarrow> heap \<Rightarrow> cs_struct \<Rightarrow> (nat \<times> cs_insn) option \<Rightarrow> bool" where
  "malloc_post E w ud h ud' r \<longleftrightarrow> heap_ok h \<and> same_frame (w_heap w) h \<and>
     (case r of
        None \<Rightarrow> ud' = ud\<lparr>ud_errnum := CS_ERR_MEM\<rparr> \<and> h_live h = h_live (w_heap w) \<and> \<not> all_granted (w_heap w)
      | Some (p, insn) \<Rightarrow> ud' = ud \<and> (in_detail insn \<noteq> None \<longleftrightarrow> ud_detail ud \<noteq> 0) \<and>
          owns (h_live (w_heap w)) h (insert p (set (detail_blocks [insn]))) \<and>
          p \<notin> set (detail_blocks [insn]) \<and> (junk_ok (e_junk E) \<longrightarrow> insn_wf insn))"

lemma cs_malloc_post:
  assumes "world_ok w" "w_handles w csh = Some ud"
  shows "\<exists>h ud' r. cs_malloc E w csh = Some (set_handle w csh h ud', r) \<and> malloc_post E w ud h ud' r"
proof -
  let ?L = "h_live (w_heap w)"
  have ok: "heap_ok (w_heap w)" by (rule world_heap_ok [OF assms(1)])
  obtain p h1 where a: "h_alloc (w_heap w) (sz_cs_insn (e_abi E)) = (p, h1)" by fastforce
  note o1 = owns_alloc [OF owns_init [OF ok] a]
  note f1 = h_alloc_frame(1) [OF a]
  have jw: "junk_ok (e_junk E) \<Longrightarrow> insn_wf ((j_insn (e_junk E) 0)\<lparr>in_detail := None\<rparr>)"
    "junk_ok (e_junk E) \<Longrightarrow> insn_wf ((j_insn (e_junk E) 0)\<lparr>in_detail := Some (d, j_detail (e_junk E) d)\<rparr>)" for d
    by (auto simp: junk_ok_def insn_wf_def)
  show ?thesis
  proof (cases "p = 0")
    case True
    have "\<not> all_granted (w_heap w)" using h_alloc_granted [OF ok a] True by (auto simp: all_granted_def)
    then show ?thesis using True a o1(1) f1 assms(2) ok
      by (auto simp: cs_malloc_def h_malloc_ok get_handle_def malloc_post_def same_frame_def owns_heap)
  next
    case nz: False
    note own1 = o1(2) [OF nz]
    have ok1: "heap_ok h1" using own1 owns_heap by blast
    show ?thesis
    proof (cases "ud_detail ud = 0")
      case True
      then show ?thesis using nz a own1 f1 assms(2) ok jw(1)
        by (auto simp: cs_malloc_def h_malloc_ok get_handle_def malloc_post_def same_frame_def owns_heap
            detail_blocks_def detail_addr_def)
    next
      case det: False
      obtain d h2 where b: "h_alloc h1 (sz_cs_detail (e_abi E)) = (d, h2)" by fastforce
      note o2 = owns_alloc [OF own1 [THEN conjunct1] b]
      note f2 = h_alloc_frame(1) [OF b]
      show ?thesis
      proof (cases "d = 0")
        case True
        from owns_free [of ?L h2 "{p}" p] o2(1) [OF True] obtain h3 where
          h3: "h_free h2 p = Some h3" "owns ?L h3 {}" "h_grant h3 = h_grant h2" "h_funcs h3 = h_funcs h2" by auto
        have "\<not> all_granted (w_heap w)"
          using h_alloc_granted [OF ok1 b] True f1 by (auto simp: all_granted_def)
        then show ?thesis using nz det True a b h3 f1 f2 assms(2) ok ok1
          by (auto simp: cs_malloc_def h_malloc_ok get_handle_def malloc_post_def same_frame_def owns_heap
              dest: owns_empty)
      next
        case False
        from o2(2) [OF False] have "owns ?L h2 {p, d}" "d \<noteq> p" by (auto simp: insert_commute)
        then show ?thesis using nz det False a b f1 f2 assms(2) ok ok1 jw(2)
          by (auto simp: cs_malloc_def h_malloc_ok get_handle_def malloc_post_def same_frame_def owns_heap
              detail_blocks_def detail_addr_def)
      qed
    qed
  qed
qed

section \<open>The whole run\<close>

text \<open>
  An architecture whose constructor delivers a handle that meets the contract, without taking
  memory of its own.
\<close>

locale backend_arch = backend +
  fixes arch :: cs_arch and ud0 :: cs_struct
  assumes init: "arch_init_fun arch b ab h (new_struct arch 0) = Some (CS_ERR_OK, h, ud0)"
    and handle0: "is_handle ud0"
    and size0: "ud_skipdata_size ud0 = 0"
    and engine_options: "is_handle ud \<Longrightarrow>
      is_handle (ud\<lparr>ud_detail := d, ud_skipdata := s, ud_skipdata_size := n\<rparr>)"

text \<open>The handle after the two options the client sets.\<close>

definition client_ud :: "cs_struct \<Rightarrow> cs_struct" where
  "client_ud ud = ud\<lparr>ud_detail := CS_OPT_ON, ud_skipdata := True, ud_skipdata_size := skipdata_size ud\<rparr>"

lemma skipdata_size_range: "0 < skipdata_size ud" "unat (skipdata_size ud) \<le> 24"
  by (cases "ud_arch ud"; simp add: skipdata_size_def)+

lemma set_handle_twice [simp]: "set_handle (set_handle w csh h ud) csh h' ud' = set_handle w csh h' ud'"
  by (simp add: set_handle_def)

lemma set_handle_sel [simp]:
  "w_heap (set_handle w csh h ud) = h" "w_handles (set_handle w csh h ud) csh = Some ud"
  by (simp_all add: set_handle_def)

lemma cs_option_detail:
  "csh \<noteq> 0 \<Longrightarrow> w_handles w csh = Some ud \<Longrightarrow>
     cs_option b ab junk w csh CS_OPT_DETAIL (V_num n) =
       Some (set_handle w csh (w_heap w) (ud\<lparr>ud_detail := ucast n\<rparr>), CS_ERR_OK)"
  by (simp add: cs_option_def get_handle_def num_of_def Let_def)

lemma cs_option_skipdata:
  "csh \<noteq> 0 \<Longrightarrow> w_handles w csh = Some ud \<Longrightarrow> ud_skipdata_size ud = 0 \<Longrightarrow>
     cs_option b ab junk w csh CS_OPT_SKIPDATA (V_num 3) =
       Some (set_handle w csh (w_heap w) (ud\<lparr>ud_skipdata := True, ud_skipdata_size := skipdata_size ud\<rparr>), CS_ERR_OK)"
  by (simp add: cs_option_def get_handle_def num_of_def Let_def skipdata_size_def)

context backend_arch
begin

lemma arch0: "cs_archs ! arch_num arch = arch" "arch_num arch < 13"
  by (simp_all add: cs_archs_nth arch_num_less)

lemma open_ok:
  assumes "world_ok w" "b_archs b arch" "h_grant (w_heap w) (h_calls (w_heap w))"
  obtains p h where "cs_open b ab w (arch_num arch) 0 hnd = Some (set_handle w p h ud0, CS_ERR_OK, p)"
    "p \<noteq> 0" "w_handles w p = None" "world_ok (set_handle w p h ud0)" "same_frame (w_heap w) h"
    "h_live h |` (- set (owned p ud0)) = h_live (w_heap w)"
proof -
  have ok: "heap_ok (w_heap w)" by (rule world_heap_ok [OF assms(1)])
  obtain p h where a: "h_alloc (w_heap w) (sz_cs_struct ab) = (p, h)" by fastforce
  have p: "p \<noteq> 0" using ok assms(3) a by (auto simp: h_alloc_def heap_ok_def heap_wf_def)
  have op: "cs_open b ab w (arch_num arch) 0 hnd = Some (set_handle w p h ud0, CS_ERR_OK, p)"
    using cs_open_enabled [OF ok, of "arch_num arch" b 0 ab hnd] assms(2) arch0 a p by (simp add: init)
  from cs_open_post [OF assms(1) op] have post: "open_post w (arch_num arch) 0 (set_handle w p h ud0) CS_ERR_OK p" .
  then have "w_handles w p = None" "world_ok (set_handle w p h ud0)"
    by (simp_all add: open_post_def)
  moreover from post obtain ud where "w_handles (set_handle w p h ud0) = (w_handles w)(p \<mapsto> ud)"
    "h_live h |` (- set (owned p ud)) = h_live (w_heap w)" by (auto simp: open_post_def)
  moreover from this(1) have "ud = ud0" by (metis fun_upd_same option.inject set_handle_sel(2))
  moreover have "same_frame (w_heap w) h" using h_alloc_frame(1) [OF a] by (simp add: same_frame_def)
  ultimately show thesis using that op p by blast
qed

lemma ud0_facts:
  "ud_skipdata ud0 = False" "ud_errnum ud0 = CS_ERR_OK" "ud_mnem_list ud0 = []"
  "sk_callback (ud_skipdata_setup ud0) = None" "sk_mnemonic (ud_skipdata_setup ud0) = Some SKIPDATA_MNEM"
proof -
  define h where "h = \<lparr>h_funcs = \<lparr>cs_mem_malloc = 1, cs_mem_calloc = 1, cs_mem_realloc = 1, cs_mem_free = 1, cs_vsnprintf = 1\<rparr>,
      h_live = [1 \<mapsto> 1], h_next = 2, h_calls = 0, h_grant = (\<lambda>k. True)\<rparr>"
  have h: "heap_ok h" "h_live h 1 \<noteq> None"
    by (simp_all add: h_def heap_ok_def heap_wf_def funcs_set_def)
  note f = arch_init_handle [OF h, OF init]
  from f(10,12,13,14,15)
  show "ud_skipdata ud0 = False" "ud_errnum ud0 = CS_ERR_OK" "ud_mnem_list ud0 = []"
    "sk_callback (ud_skipdata_setup ud0) = None" "sk_mnemonic (ud_skipdata_setup ud0) = Some SKIPDATA_MNEM" by auto
qed

lemma client_facts:
  "is_handle (client_ud ud0)" "skip_ok (client_ud ud0)" "ud_errnum (client_ud ud0) = CS_ERR_OK"
  "ud_detail (client_ud ud0) \<noteq> 0" "owned p (client_ud ud0) = owned p ud0" "no_callback (client_ud ud0)"
proof -
  show "skip_ok (client_ud ud0)" "ud_errnum (client_ud ud0) = CS_ERR_OK" "ud_detail (client_ud ud0) \<noteq> 0"
    "owned p (client_ud ud0) = owned p ud0" "no_callback (client_ud ud0)"
    using skipdata_size_range [of ud0] ud0_facts
    by (simp_all add: client_ud_def skip_ok_def SKIPDATA_MNEM_def owned_def own_front_def own_back_def no_callback_def)
  show "is_handle (client_ud ud0)" unfolding client_ud_def by (rule engine_options [OF handle0])
qed

lemma run_ok:
  assumes w: "world_ok w" "b_archs b arch" "all_granted (w_heap w)" and j: "junk_ok (e_junk E)"
  shows "\<exists>w' bank. capstone_run b E junk hnd w arch 0 None code address = Some (w', bank) \<and>
    world_ok w' \<and> w_handles w' = w_handles w \<and> h_live (w_heap w') = h_live (w_heap w) \<and>
    bank_error bank = None \<and> bank_holds bank (map listed (listing desc (client_ud ud0) code address))"
proof -
  let ?u = "client_ud ud0" and ?ab = "e_abi E"
  have g: "h_grant (w_heap w) (h_calls (w_heap w))" using w(3) by (simp add: all_granted_def)
  obtain p h1 where op: "cs_open b ?ab w (arch_num arch) 0 hnd = Some (set_handle w p h1 ud0, CS_ERR_OK, p)"
    "p \<noteq> 0" "w_handles w p = None" "world_ok (set_handle w p h1 ud0)" "same_frame (w_heap w) h1"
    "h_live h1 |` (- set (owned p ud0)) = h_live (w_heap w)" by (rule open_ok [OF w(1,2) g])
  let ?w1 = "set_handle w p h1 ?u"
  have opts: "cs_option b ?ab junk (set_handle w p h1 ud0) p CS_OPT_DETAIL (V_num 3) =
      Some (set_handle w p h1 (ud0\<lparr>ud_detail := 3\<rparr>), CS_ERR_OK)"
    "cs_option b ?ab junk (set_handle w p h1 (ud0\<lparr>ud_detail := 3\<rparr>)) p CS_OPT_SKIPDATA (V_num 3) = Some (?w1, CS_ERR_OK)"
    using cs_option_detail [OF op(2), of "set_handle w p h1 ud0" ud0 b ?ab junk 3]
      cs_option_skipdata [OF op(2), of "set_handle w p h1 (ud0\<lparr>ud_detail := 3\<rparr>)" "ud0\<lparr>ud_detail := 3\<rparr>" b ?ab junk]
      size0 by (simp_all add: client_ud_def skipdata_size_def)
  have hw: "handle_wf ?u" using world_okD(2) [OF op(4) set_handle_sel(2)]
    by (simp add: handle_wf_def callable_def client_ud_def)
  have ok1: "world_ok ?w1"
    using world_ok_same_blocks [OF op(4) set_handle_sel(2) hw client_facts(5)] by simp
  obtain h2 r ud' where m: "cs_malloc E ?w1 p = Some (set_handle w p h2 ud', r)" "malloc_post E ?w1 ?u h2 ud' r"
    using cs_malloc_post [OF ok1 set_handle_sel(2), of E] by auto
  have ag: "all_granted h1" using w(3) op(5) by (simp add: same_frame_granted)
  with m obtain q insn where r: "r = Some (q, insn)" "ud' = ?u" "heap_ok h2" "in_detail insn \<noteq> None"
    "owns (h_live h1) h2 (insert q (set (detail_blocks [insn])))" "q \<notin> set (detail_blocks [insn])" "insn_wf insn"
    using j client_facts(4) by (auto simp: malloc_post_def split: option.splits)
  let ?w2 = "set_handle w p h2 ?u"
  have ok2: "world_ok ?w2"
    using world_ok_more_live [OF ok1 set_handle_sel(2) r(3) _ hw refl] owns_sub_dom [OF r(5)] by simp
  obtain st where st: "c_loop (iter_step E p) \<lparr>it_world = ?w2, it_code = code, it_codeAddress = address,
        it_insn = insn, it_bank = bank_init\<rparr> = Some st"
      "it_world st = ?w2" "insn_wf (it_insn st)"
      "map_option fst (in_detail (it_insn st)) = map_option fst (in_detail insn)"
      "bank_holds (it_bank st) (map listed (listing desc ?u code address))" "bank_error (it_bank st) = None"
    using iter_loop_ok [OF ok2 set_handle_sel(2) client_facts(3,1,2) j r(7,4) bank_init_holds, of code address]
    by (auto simp: bank_init_def)
  have blk: "detail_blocks [it_insn st] = detail_blocks [insn]"
    using st(4) by (auto simp: detail_blocks_def detail_addr_def split: option.splits)
  have dd: "distinct (detail_blocks [insn])" by (simp add: detail_blocks_def)
  from cs_free_ok [of "h_live h1" ?w2 q "[it_insn st]"] r(5,6) dd obtain h3 where
    fr: "cs_free ?w2 q [it_insn st] 1 = Some (?w2\<lparr>w_heap := h3\<rparr>)" "heap_ok h3" "h_live h3 = h_live h1"
    unfolding blk by auto
  let ?w3 = "set_handle w p h3 ?u"
  have w3: "?w2\<lparr>w_heap := h3\<rparr> = ?w3" by (simp add: set_handle_def)
  have ok3: "world_ok ?w3"
    using world_ok_more_live [OF ok1 set_handle_sel(2) fr(2) _ hw refl] fr(3) by simp
  have en: "cs_errno ?w3 p = Some CS_ERR_OK"
    using op(2) client_facts(3) by (simp add: cs_errno_def get_handle_def)
  from cs_close_post [OF ok3 set_handle_sel(2)] obtain w' where cl: "cs_close ?w3 p = Some (w', CS_ERR_OK, 0)"
    "world_ok w'" "w_handles w' = (w_handles ?w3)(p := None)"
    "h_live (w_heap w') = h_live h3 |` (- set (owned p ?u))" by auto
  have "w_handles w' = w_handles w" using cl(3) op(3) by (auto simp: set_handle_def)
  moreover have "h_live (w_heap w') = h_live (w_heap w)" using cl(4) fr(3) op(6) client_facts(5) by simp
  moreover have "capstone_run b E junk hnd w arch 0 None code address = Some (w', it_bank st)"
    using op(1) opts m(1) r(1,2) st(1,2) fr(1) w3 en cl(1) by (simp add: capstone_run_def Let_def)
  ultimately show ?thesis using cl(2) st(5,6) by blast
qed

end

text \<open>The two modelled architectures.\<close>

definition evm_new :: cs_struct where
  "evm_new = (new_struct CS_ARCH_EVM 0)\<lparr>ud_printer := Some Printer_t.EVM_printInst, ud_printer_info := 0,
     ud_insn_id := Some GetID_t.EVM_get_insn_id, ud_insn_name := Some GetInsnName_t.EVM_insn_name,
     ud_group_name := Some GetGroupName_t.EVM_group_name, ud_disasm := Some Disasm_t.EVM_getInstruction\<rparr>"

definition mos_new :: cs_struct where
  "mos_new = (new_struct CS_ARCH_MOS65XX 0)\<lparr>ud_printer := Some Printer_t.MOS65XX_printInst, ud_printer_info := 0,
     ud_insn_id := Some GetID_t.MOS65XX_get_insn_id, ud_insn_name := Some GetInsnName_t.MOS65XX_insn_name,
     ud_group_name := Some GetGroupName_t.MOS65XX_group_name, ud_disasm := Some Disasm_t.MOS65XX_getInstruction,
     ud_reg_name := Some GetRegName_t.MOS65XX_reg_name\<rparr>"

interpretation evm_arch: backend_arch evm_handle evm_valid evm_insn_len
  "\<lambda>code. ucast (hd code)" "\<lambda>code address. evm_text code" CS_ARCH_EVM evm_new
  by unfold_locales (simp_all add: EVM_global_init_def evm_new_def new_struct_def zero_struct_def evm_handle_def)

interpretation mos_arch: backend_arch mos_handle mos_valid mos_insn_len
  "\<lambda>code. of_nat (mos65xx_insn_num (oi_ins (mos_op (hd code))))" mos_text CS_ARCH_MOS65XX mos_new
  by unfold_locales (simp_all add: MOS65XX_global_init_def mos_new_def new_struct_def zero_struct_def mos_handle_def)

lemma backend_descs: "evm_backend.desc = evm_desc" "mos_backend.desc = mos_desc"
  by (simp_all add: evm_backend.desc_def mos_backend.desc_def evm_desc_def mos_desc_def)

end
