(* ===== verification/Decoder_Props.thy ===== *)
theory Decoder_Props
  imports Samples Engine_Session
begin

text \<open>
  The properties of the two modelled decoders, EVM and MOS65XX: what they accept, what they
  record about an instruction, that the tables behind them agree with each other, and that the
  printed text determines the operand. Each theorem is followed by a concrete instance.
\<close>

section \<open>EVM\<close>

text \<open>
  C5. The EVM decoder is total and accepts exactly the byte strings that start with an assigned
  opcode and carry the whole immediate of a push. On success it reports the length, stores the
  opcode as id and the immediate in order; on failure it leaves the instruction record alone.
\<close>

theorem EVM_decoder_correct:
  assumes "mci_wf MI"
  shows "\<exists>r MI' sz'. EVM_Model.EVM_getInstruction ud code MI sz address = Some (r, MI', sz') \<and> mci_wf MI' \<and>
    (r \<longleftrightarrow> evm_valid code) \<and>
    (r \<longrightarrow> unat sz' = 1 + evm_push_len (hd code) \<and> unat sz' \<le> length code \<and> mi_address MI' = address \<and>
       mi_Opcode MI' = ucast (hd code) \<and> mi_OpcodePub MI' = ucast (hd code) \<and>
       take (evm_push_len (hd code)) (mi_evm_data MI') = take (evm_push_len (hd code)) (tl code)) \<and>
    (\<not> r \<longrightarrow> mi_flat_insn MI' = mi_flat_insn MI)"
proof (cases "evm_valid code")
  case True
  have len: "unat (of_nat (evm_insn_len code) :: u16) = 1 + evm_push_len (hd code)"
    using evm_push_len_le [of "hd code"] of_nat_len [of "evm_insn_len code"] by (simp add: evm_insn_len_def)
  have "1 + evm_push_len (hd code) \<le> length code"
    using True by (auto simp: evm_valid_def split: list.splits)
  then show ?thesis using EVM_accept [OF True assms, of ud sz address] True len
    by (elim exE conjE) (intro exI conjI, assumption, simp_all)
next
  case False
  from EVM_reject [OF this, of ud MI sz address] assms False show ?thesis by auto
qed

theorem EVM_decoder_correct_witness:
  "\<exists>MI. EVM_Model.EVM_getInstruction evm_new [0x61, 0x12, 0x34] blank_inst 0 0 = Some (True, MI, 3) \<and>
     take 2 (mi_evm_data MI) = [0x12, 0x34]"
proof -
  have v: "evm_valid [0x61, 0x12, 0x34]" by code_simp
  have n: "evm_push_len (0x61 :: u8) = 2" by code_simp
  from EVM_decoder_correct [OF blank_inst_wf, of evm_new "[0x61, 0x12, 0x34]" 0 0] v obtain MI sz' where
    d: "EVM_Model.EVM_getInstruction evm_new [0x61, 0x12, 0x34] blank_inst 0 0 = Some (True, MI, sz')"
      "unat sz' = 3" "take 2 (mi_evm_data MI) = [0x12, 0x34]" by (auto simp: n)
  moreover have "sz' = 3" using d(2) by (simp add: word_unat_eq_iff)
  ultimately show ?thesis by auto
qed

text \<open>
  C29. With details on, the EVM decoder records the stack effect and the fee of the opcode and at
  most three groups, in the order stack read, stack write, and the group of the opcode, and never
  writes outside the group array.
\<close>

theorem EVM_details_correct:
  assumes "mci_wf MI" "evm_valid code" "in_detail (mi_flat_insn MI) = Some (p, d)" "ud_detail ud \<noteq> 0"
  shows "\<exists>MI' d'. EVM_Model.EVM_getInstruction ud code MI sz address = Some (True, MI', of_nat (evm_insn_len code)) \<and>
    in_detail (mi_flat_insn MI') = Some (p, d') \<and> detail_wf d' \<and> d_evm d' = evm_insns ! unat (hd code) \<and>
    detail_groups d' = evm_groups (hd code) \<and> length (evm_groups (hd code)) \<le> 3"
proof -
  have "length (evm_groups (hd code)) \<le> 3" by (auto simp: evm_groups_def split: option.split)
  with EVM_accept [OF assms(2,1), of ud sz address] assms(3,4) show ?thesis by auto
qed

definition detailed_inst :: MCInst where
  "detailed_inst = blank_inst\<lparr>mi_flat_insn := blank_insn\<lparr>in_detail := Some (9, blank_detail)\<rparr>\<rparr>"

lemma detailed_inst_wf: "mci_wf detailed_inst"
  using blank_inst_wf blank_detail_wf by (simp add: detailed_inst_def mci_wf_def insn_wf_def blank_insn_def)

theorem EVM_details_correct_witness:
  "\<exists>MI d. EVM_Model.EVM_getInstruction (client_ud evm_new) [0x01] detailed_inst 0 0 = Some (True, MI, 1) \<and>
     in_detail (mi_flat_insn MI) = Some (9, d) \<and> d_evm d = evm_info 2 1 3 \<and>
     detail_groups d = [EVM_GRP_STACK_READ, EVM_GRP_STACK_WRITE, EVM_GRP_MATH]"
proof -
  have v: "evm_valid [0x01]" by code_simp
  have n: "evm_insn_len [0x01] = 1" "evm_insns ! unat (hd [0x01 :: u8]) = evm_info 2 1 3"
    "evm_groups (hd [0x01]) = [EVM_GRP_STACK_READ, EVM_GRP_STACK_WRITE, EVM_GRP_MATH]" by code_simp+
  from EVM_details_correct [OF detailed_inst_wf v, of 9 blank_detail "client_ud evm_new" 0 0, unfolded n]
  show ?thesis by (auto simp: detailed_inst_def client_ud_def)
qed

text \<open>
  The four tables of EVM agree for every opcode: an opcode that \<^verbatim>\<open>opcodes\<close> assigns has
  its own number there, is found by \<^verbatim>\<open>evm_insn_find\<close> and has a printable name; any other
  opcode is not found and has no name.
\<close>

lemma EVM_tables_agree:
  "if opcodes ! unat (b :: u8) = - 1
   then evm_insn_find evm_insns 256 (ucast b) = Some (- 1) \<and> EVM_Model.EVM_insn_name (ucast b) = None
   else opcodes ! unat b = uint b \<and> evm_insn_find evm_insns 256 (ucast b) = Some (uint b) \<and>
     (\<exists>n. EVM_Model.EVM_insn_name (ucast b) = Some n \<and> plain_name n)"
  using evm_table_row [of b] evm_table_undefined [of b] evm_insn_find_eq [of b]
  by (auto simp: evm_defined_def)

text \<open>
  C15. Printing a decoded EVM instruction never overruns the stream, and its text determines the
  instruction: the characters before the tabulator are the name of the opcode, the rest are the
  hexadecimal digits of exactly the immediate bytes.
\<close>

theorem EVM_text_round_trip:
  assumes "evm_valid code" "mci_wf MI" "ss_holds ss []"
  shows "\<exists>MI' ss' s. EVM_Model.EVM_getInstruction ud code MI sz address = Some (True, MI', of_nat (evm_insn_len code)) \<and>
    EVM_Model.EVM_printInst MI' ss = Some ss' \<and> ss_holds ss' s \<and> length s \<le> 79 \<and>
    EVM_Model.EVM_insn_name (ucast (hd code)) = Some (takeWhile (\<lambda>c. c \<noteq> CHR 0x09) s) \<and>
    unhex_bytes (drop 1 (dropWhile (\<lambda>c. c \<noteq> CHR 0x09) s)) = take (evm_push_len (hd code)) (tl code)"
proof -
  let ?b = "hd code"
  have def: "evm_defined ?b" using assms(1) by (auto simp: evm_valid_def split: list.splits)
  have ns: "\<forall>c \<in> set (evm_name ?b). c \<noteq> CHR 0x09" using plain_name_chars(3) [OF evm_table_row(4) [OF def]] by auto
  from EVM_accept [OF assms(1,2), of ud sz address] obtain MI' where
    m: "EVM_Model.EVM_getInstruction ud code MI sz address = Some (True, MI', of_nat (evm_insn_len code))" "mci_wf MI'"
      "mi_Opcode MI' = ucast ?b" "take (evm_push_len ?b) (mi_evm_data MI') = take (evm_push_len ?b) (tl code)" by blast
  from EVM_print [OF assms(1) m(2,3,4) assms(3)] obtain ss' where
    s: "EVM_Model.EVM_printInst MI' ss = Some ss'" "ss_holds ss' (evm_text code)" by blast
  have parts: "takeWhile (\<lambda>c. c \<noteq> CHR 0x09) (evm_text code) = evm_name ?b"
    "unhex_bytes (drop 1 (dropWhile (\<lambda>c. c \<noteq> CHR 0x09) (evm_text code))) = take (evm_push_len ?b) (tl code)"
    using ns by (auto simp: evm_text_def takeWhile_append2 dropWhile_append2 unhex_hex_bytes)
  show ?thesis using m(1) s parts evm_table_row(3) [OF def] length_evm_text [OF assms(1)]
    by (intro exI [of _ MI'] exI [of _ ss'] exI [of _ "evm_text code"]) simp
qed

theorem EVM_text_round_trip_witness:
  "\<exists>MI ss s. EVM_Model.EVM_getInstruction evm_new [0x61, 0x12, 0x34] blank_inst 0 0 = Some (True, MI, 3) \<and>
     EVM_Model.EVM_printInst MI empty_stream = Some ss \<and> ss_holds ss s \<and> takeWhile (\<lambda>c. c \<noteq> CHR 0x09) s = ''push2'' \<and>
     unhex_bytes (drop 1 (dropWhile (\<lambda>c. c \<noteq> CHR 0x09) s)) = [0x12, 0x34]"
proof -
  have v: "evm_valid [0x61, 0x12, 0x34]" by code_simp
  have n: "evm_push_len (0x61 :: u8) = 2" "evm_insn_len [0x61, 0x12, 0x34] = 3"
    "EVM_Model.EVM_insn_name (ucast (0x61 :: u8)) = Some ''push2''" by code_simp+
  from EVM_text_round_trip [OF v blank_inst_wf empty_stream_holds, of evm_new 0 0]
  show ?thesis unfolding list.sel n by auto
qed

section \<open>MOS65XX\<close>

text \<open>
  C6. The MOS65XX decoder is total and accepts exactly the byte strings that start with a
  documented opcode and carry its one or two operand bytes; it stores the operand least
  significant byte first and reports a length between one and three. A rejected input leaves the
  instruction object as it was and the length at one.
\<close>

theorem MOS65XX_decoder_correct:
  assumes "mci_wf MI" "op_raw (mi_Operands MI ! 0) = 0"
  shows "\<exists>r MI' sz'. MOS65XX_Model.MOS65XX_getInstruction ud code MI sz address = Some (r, MI', sz') \<and> mci_wf MI' \<and>
    (r \<longleftrightarrow> mos_valid code) \<and> (\<not> r \<longrightarrow> MI' = MI \<and> sz' = 1) \<and>
    (r \<longrightarrow> unat sz' = mos_insn_len code \<and> 1 \<le> unat sz' \<and> unat sz' \<le> 3 \<and> unat sz' \<le> length code \<and>
       mi_OpcodePub MI' = of_nat (mos65xx_insn_num (oi_ins (mos_op (hd code)))) \<and>
       unat (op_raw (mi_Operands MI' ! 0)) =
         (\<Sum>i<mos_insn_len code - 1. unat (code ! Suc i) * 256 ^ i))"
proof (cases "mos_valid code")
  case True
  note rng = mos_len_range [of "oi_am (mos_op (hd code))", folded mos_insn_len_def]
  have len: "unat (of_nat (mos_insn_len code) :: u16) = mos_insn_len code" using rng(2) by (intro of_nat_len) simp
  have le: "mos_insn_len code \<le> length code" "code \<noteq> []" using True by (simp_all add: mos_valid_def)
  have v: "unat (mos_value code) = mos_operand code"
    using mos_operand_less [of code] by (simp add: mos_value_def unsigned_of_nat take_bit_nat_eq_self)
  have "mos_operand code = (\<Sum>i<mos_insn_len code - 1. unat (code ! Suc i) * 256 ^ i)"
  proof -
    obtain a bs where c: "code = a # bs" using le(2) by (cases code) auto
    consider "mos_insn_len code = 1" | "mos_insn_len code = 2" | "mos_insn_len code = 3" using rng by linarith
    then show ?thesis
    proof cases
      case 1
      then show ?thesis by (simp add: mos_operand_def)
    next
      case 2
      then obtain b r where "bs = b # r" using le(1) c by (cases bs) auto
      with 2 c show ?thesis by (simp add: mos_operand_def)
    next
      case 3
      then obtain b d r where "bs = b # d # r" using le(1) c by (cases bs rule: remdups_adj.cases) auto
      with 3 c show ?thesis by (simp add: mos_operand_def numeral_2_eq_2 numeral_eq_Suc)
    qed
  qed
  then show ?thesis using MOS65XX_accept [OF True assms, of ud sz address] True len rng le(1) v by auto
next
  case False
  then show ?thesis using MOS65XX_reject [OF False, of ud MI sz address] assms(1) by auto
qed

theorem MOS65XX_decoder_correct_witness:
  "\<exists>MI. MOS65XX_Model.MOS65XX_getInstruction mos_new [0xad, 0x34, 0x12] blank_inst 0 0 = Some (True, MI, 3) \<and>
     unat (op_raw (mi_Operands MI ! 0)) = 0x1234"
proof -
  have v: "mos_valid [0xad, 0x34, 0x12]" by code_simp
  have n: "mos_insn_len [0xad, 0x34, 0x12] = 3" by code_simp
  have z: "op_raw (mi_Operands blank_inst ! 0) = 0" by (simp add: blank_inst_def blank_operand_def)
  have sm: "(\<Sum>i<3 - 1. unat ([0xad, 0x34, 0x12 :: u8] ! Suc i) * 256 ^ i) = 0x1234"
    by (simp add: lessThan_nat_numeral lessThan_Suc)
  from MOS65XX_decoder_correct [OF blank_inst_wf z, of mos_new "[0xad, 0x34, 0x12]" 0 0, unfolded n sm] v obtain MI sz' where
    d: "MOS65XX_Model.MOS65XX_getInstruction mos_new [0xad, 0x34, 0x12] blank_inst 0 0 = Some (True, MI, sz')"
      "unat sz' = 3" "unat (op_raw (mi_Operands MI ! 0)) = 0x1234" by auto
  moreover have "sz' = 3" using d(2) by (simp add: word_unat_eq_iff)
  ultimately show ?thesis by auto
qed

text \<open>
  C30. The details of a decoded MOS65XX instruction are complete and stay inside their arrays: the
  registers read and written, the group, the addressing mode, the flag effect and the one operand
  are those of the opcode, whatever the details held before.
\<close>

theorem MOS65XX_details_correct:
  assumes "mci_wf MI" "op_raw (mi_Operands MI ! 0) = 0" "mos_valid code"
    "in_detail (mi_flat_insn MI) = Some (p, d)"
  shows "\<exists>MI' d'. MOS65XX_Model.MOS65XX_getInstruction ud code MI sz address =
      Some (True, MI', of_nat (mos_insn_len code)) \<and>
    in_detail (mi_flat_insn MI') = Some (p, d') \<and> mos_detail_ok (hd code) (of_nat (mos_operand code)) d' \<and>
    unat (d_regs_read_count d') \<le> 1 \<and> unat (d_regs_write_count d') \<le> 2 \<and> unat (d_groups_count d') \<le> 1"
proof -
  from MOS65XX_accept [OF assms(3,1,2), of ud sz address] assms(4) obtain MI' d' where
    m: "MOS65XX_Model.MOS65XX_getInstruction ud code MI sz address = Some (True, MI', of_nat (mos_insn_len code))"
      "mi_flat_insn MI' = (mi_flat_insn MI)\<lparr>in_detail := Some (p, d')\<rparr>"
      "mos_detail_ok (hd code) (of_nat (mos_operand code)) d'" by auto
  have wf: "length (d_regs_read d') = 16" "length (d_regs_write d') = 20" "length (d_groups d') = 8"
    using m(3) by (simp_all add: mos_detail_ok_def detail_wf_def)
  have "length (reg_nums (mos_reads (hd code))) \<le> 1" "length (reg_nums (mos_writes (hd code))) \<le> 2"
    "length (mos_groups (hd code)) \<le> 1"
    by (simp_all add: reg_nums_def mos_reads_def mos_writes_def mos_groups_def Let_def)
  moreover have "regs_of (d_regs_read d') (d_regs_read_count d') = reg_nums (mos_reads (hd code))"
    "regs_of (d_regs_write d') (d_regs_write_count d') = reg_nums (mos_writes (hd code))"
    "take (unat (d_groups_count d')) (d_groups d') = mos_groups (hd code)"
    using m(3) by (simp_all add: mos_detail_ok_def)
  ultimately have "min 16 (unat (d_regs_read_count d')) \<le> 1" "min 20 (unat (d_regs_write_count d')) \<le> 2"
    "min 8 (unat (d_groups_count d')) \<le> 1"
    using wf by (metis length_take regs_of_def)+
  then show ?thesis using m by (intro exI [of _ MI'] exI [of _ d']) (auto simp: min_def split: if_splits)
qed

theorem MOS65XX_details_correct_witness:
  "\<exists>MI d. MOS65XX_Model.MOS65XX_getInstruction mos_new [0x0a] detailed_inst 0 0 = Some (True, MI, 1) \<and>
     in_detail (mi_flat_insn MI) = Some (9, d) \<and>
     regs_of (d_regs_write d) (d_regs_write_count d) = reg_nums [MOS65XX_REG_ACC, MOS65XX_REG_P] \<and>
     mop_type (mos_operands (d_mos65xx d) ! 0) = MOS65XX_OP_REG"
proof -
  have v: "mos_valid [0x0a]" by code_simp
  have n: "mos_insn_len [0x0a] = 1" "mos_writes (hd [0x0a]) = [MOS65XX_REG_ACC, MOS65XX_REG_P]"
    "oi_am (mos_op (hd [0x0a])) = MOS65XX_AM_ACC" by code_simp+
  have z: "op_raw (mi_Operands detailed_inst ! 0) = 0"
    by (simp add: detailed_inst_def blank_inst_def blank_operand_def)
  have dt: "in_detail (mi_flat_insn detailed_inst) = Some (9, blank_detail)" by (simp add: detailed_inst_def)
  from MOS65XX_details_correct [OF detailed_inst_wf z v dt, of mos_new 0 0] n
  show ?thesis by (auto simp: mos_detail_ok_def)
qed

text \<open>
  C16. The text of a decoded MOS65XX instruction fits the stream and determines the operand: for
  every addressing mode that shows it, the hexadecimal number in the text is the operand; for a
  relative branch it is the target, the address after the instruction plus the signed offset,
  modulo \<open>2 ^ 32\<close> although addresses have 64 bits.
\<close>

lemma scan_rel:
  "mos_scan_operand (mos_operand_text MOS65XX_AM_REL v address) =
     unat (ucast (address + scast (of_nat v :: u8) + 2) :: u32)"
  unfolding mos_scan_operand_def mos_operand_text_def by (simp add: takeWhile_hex)

theorem MOS65XX_text_round_trip:
  assumes "mos_valid code" "mci_wf MI" "op_raw (mi_Operands MI ! 0) = 0" "ss_holds ss []"
  shows "\<exists>MI' ss' t. MOS65XX_Model.MOS65XX_getInstruction ud code MI sz address =
      Some (True, MI', of_nat (mos_insn_len code)) \<and>
    MOS65XX_Model.MOS65XX_printInst MI' ss = Some ss' \<and> ss_holds ss' (ii_name (mos_info (hd code)) @ t) \<and>
    (oi_am (mos_op (hd code)) \<notin> {MOS65XX_AM_IMP, MOS65XX_AM_ACC, MOS65XX_AM_REL} \<longrightarrow>
       mos_scan_operand t = mos_operand code) \<and>
    (oi_am (mos_op (hd code)) = MOS65XX_AM_REL \<longrightarrow>
       mos_scan_operand t = unat (ucast (address + scast (of_nat (mos_operand code) :: u8) + 2) :: u32))"
proof -
  from MOS65XX_accept [OF assms(1-3), of ud sz address] obtain MI' where
    m: "MOS65XX_Model.MOS65XX_getInstruction ud code MI sz address = Some (True, MI', of_nat (mos_insn_len code))"
      "mci_wf MI'" "mi_Opcode MI' = ucast (hd code)" "mi_address MI' = address"
      "op_raw (mi_Operands MI' ! 0) = mos_value code" by blast
  from MOS65XX_print [OF assms(1) m(2-5) assms(4)] obtain ss' where
    s: "MOS65XX_Model.MOS65XX_printInst MI' ss = Some ss'" "ss_holds ss' (mos_text code address)" by blast
  have "oi_am (mos_op (hd code)) \<noteq> MOS65XX_AM_NONE" using assms(1) by (simp add: mos_op_none mos_valid_def)
  with m(1) s mos_scan_operand_text [of "oi_am (mos_op (hd code))" "mos_operand code" address] scan_rel show ?thesis
    by (intro exI [of _ MI'] exI [of _ ss']
        exI [of _ "mos_operand_text (oi_am (mos_op (hd code))) (mos_operand code) address"])
       (auto simp: mos_text_def)
qed

theorem MOS65XX_text_round_trip_witness:
  "\<exists>MI ss t. MOS65XX_Model.MOS65XX_getInstruction mos_new [0xad, 0x34, 0x12] blank_inst 0 0 = Some (True, MI, 3) \<and>
     MOS65XX_Model.MOS65XX_printInst MI empty_stream = Some ss \<and> ss_holds ss (''lda'' @ t) \<and>
     mos_scan_operand t = 0x1234"
proof -
  have v: "mos_valid [0xad, 0x34, 0x12]" by code_simp
  have n: "mos_insn_len [0xad, 0x34, 0x12] = 3" "ii_name (mos_info (hd [0xad, 0x34, 0x12])) = ''lda''"
    "mos_operand [0xad, 0x34, 0x12] = 0x1234" "oi_am (mos_op (hd [0xad, 0x34, 0x12])) = MOS65XX_AM_ABS" by code_simp+
  have z: "op_raw (mi_Operands blank_inst ! 0) = 0" by (simp add: blank_inst_def blank_operand_def)
  from MOS65XX_text_round_trip [OF v blank_inst_wf z empty_stream_holds, of mos_new 0 0] show ?thesis
    unfolding n by auto
qed

text \<open>
  The instructions with a relative target are exactly those in the group of relative
  branches. The number of that group is 6, not the 7 that the engine gives the group of the same
  name, although the header says they are equal.
\<close>

lemma MOS65XX_branch_group:
  "(oi_am (mos_op b) = MOS65XX_AM_REL \<longleftrightarrow> mos_groups b = [6]) \<and>
   mos65xx_group_num MOS65XX_GRP_BRANCH_RELATIVE \<noteq> 7 \<and>
   MOS65XX_Model.MOS65XX_group_name 7 = None"
proof -
  have "mos_groups b = [6] \<longleftrightarrow> ii_group_type (mos_info b) = MOS65XX_GRP_BRANCH_RELATIVE"
    by (cases "ii_group_type (mos_info b)") (simp_all add: mos_groups_def)
  moreover have "MOS65XX_Model.MOS65XX_group_name 7 = None" by code_simp
  ultimately show ?thesis using mos_op_branch [of b] by simp
qed

end
