(* ===== verification/Engine_Query.thy ===== *)
theory Engine_Query
  imports Engine_Handle
begin

text \<open>
  The queries of \<^verbatim>\<open>cs.c\<close> about a disassembled instruction: names of registers,
  instructions and groups, membership in groups and register lists, the operands of a type, and
  the registers an instruction accesses. All but the name functions share three guards, which
  store an error in the handle.

  An instruction argument is the record behind the pointer, which the code never tests. The
  \<^verbatim>\<open>default\<close> case of the two operand queries is for an architecture number that no open
  handle has, so it has no counterpart here.
\<close>

section \<open>Names\<close>

text \<open>The outer option is the call, the inner one the returned pointer.\<close>

definition cs_reg_name :: "backends \<Rightarrow> world \<Rightarrow> nat \<Rightarrow> u32 \<Rightarrow> string option option" where
  "cs_reg_name bk w csh reg =
     (if csh = 0 then Some None
      else do {
        ud \<leftarrow> get_handle w csh;
        Some (case ud_reg_name ud of None \<Rightarrow> None | Some f \<Rightarrow> call_reg_name bk f ud reg) })"

definition cs_insn_name :: "backends \<Rightarrow> world \<Rightarrow> nat \<Rightarrow> u32 \<Rightarrow> string option option" where
  "cs_insn_name bk w csh insn =
     (if csh = 0 then Some None
      else do {
        ud \<leftarrow> get_handle w csh;
        Some (case ud_insn_name ud of None \<Rightarrow> None | Some f \<Rightarrow> call_insn_name bk f ud insn) })"

definition cs_group_name :: "backends \<Rightarrow> world \<Rightarrow> nat \<Rightarrow> u32 \<Rightarrow> string option option" where
  "cs_group_name bk w csh g =
     (if csh = 0 then Some None
      else do {
        ud \<leftarrow> get_handle w csh;
        Some (case ud_group_name ud of None \<Rightarrow> None | Some f \<Rightarrow> call_group_name bk f ud g) })"

section \<open>Queries on the details\<close>

text \<open>The three guards, in their order: the details themselves, or the error to store.\<close>

definition detail_guard :: "cs_struct \<Rightarrow> cs_insn \<Rightarrow> cs_err + cs_detail" where
  "detail_guard ud insn =
     (if ud_detail ud = 0 then Inl CS_ERR_DETAIL
      else if in_id insn = 0 then Inl CS_ERR_SKIPDATA
      else (case in_detail insn of None \<Rightarrow> Inl CS_ERR_DETAIL | Some (p, d) \<Rightarrow> Inr d))"

definition store_err :: "world \<Rightarrow> nat \<Rightarrow> cs_struct \<Rightarrow> cs_err \<Rightarrow> world" where
  "store_err w csh ud e = set_handle w csh (w_heap w) (ud\<lparr>ud_errnum := e\<rparr>)"

definition cs_insn_group :: "world \<Rightarrow> nat \<Rightarrow> cs_insn \<Rightarrow> u32 \<Rightarrow> (world \<times> bool) option" where
  "cs_insn_group w csh insn group_id =
     (if csh = 0 then Some (w, False)
      else do {
        ud \<leftarrow> get_handle w csh;
        (case detail_guard ud insn of
           Inl e \<Rightarrow> Some (store_err w csh ud e, False)
         | Inr d \<Rightarrow> do {
             r \<leftarrow> arr_exist8 (d_groups d) (unat (d_groups_count d)) group_id;
             Some (w, r) }) })"

definition cs_reg_read :: "world \<Rightarrow> nat \<Rightarrow> cs_insn \<Rightarrow> u32 \<Rightarrow> (world \<times> bool) option" where
  "cs_reg_read w csh insn reg_id =
     (if csh = 0 then Some (w, False)
      else do {
        ud \<leftarrow> get_handle w csh;
        (case detail_guard ud insn of
           Inl e \<Rightarrow> Some (store_err w csh ud e, False)
         | Inr d \<Rightarrow> do {
             r \<leftarrow> arr_exist (d_regs_read d) (unat (d_regs_read_count d)) reg_id;
             Some (w, r) }) })"

definition cs_reg_write :: "world \<Rightarrow> nat \<Rightarrow> cs_insn \<Rightarrow> u32 \<Rightarrow> (world \<times> bool) option" where
  "cs_reg_write w csh insn reg_id =
     (if csh = 0 then Some (w, False)
      else do {
        ud \<leftarrow> get_handle w csh;
        (case detail_guard ud insn of
           Inl e \<Rightarrow> Some (store_err w csh ud e, False)
         | Inr d \<Rightarrow> do {
             r \<leftarrow> arr_exist (d_regs_write d) (unat (d_regs_write_count d)) reg_id;
             Some (w, r) }) })"

text \<open>
  The operands the two operand queries walk: the member of the union that belongs to the
  architecture, as its operand types and its count. The loop of EVM is disabled in the source.
\<close>

definition detail_ops :: "cs_arch \<Rightarrow> cs_detail \<Rightarrow> u32 list \<times> u8" where
  "detail_ops arch d =
     (case arch of
        CS_ARCH_ARM \<Rightarrow> (ao_types (d_arm d), ao_op_count (d_arm d))
      | CS_ARCH_ARM64 \<Rightarrow> (ao_types (d_arm64 d), ao_op_count (d_arm64 d))
      | CS_ARCH_X86 \<Rightarrow> (ao_types (d_x86 d), ao_op_count (d_x86 d))
      | CS_ARCH_MIPS \<Rightarrow> (ao_types (d_mips d), ao_op_count (d_mips d))
      | CS_ARCH_PPC \<Rightarrow> (ao_types (d_ppc d), ao_op_count (d_ppc d))
      | CS_ARCH_SPARC \<Rightarrow> (ao_types (d_sparc d), ao_op_count (d_sparc d))
      | CS_ARCH_SYSZ \<Rightarrow> (ao_types (d_sysz d), ao_op_count (d_sysz d))
      | CS_ARCH_XCORE \<Rightarrow> (ao_types (d_xcore d), ao_op_count (d_xcore d))
      | CS_ARCH_M68K \<Rightarrow> (ao_types (d_m68k d), ao_op_count (d_m68k d))
      | CS_ARCH_TMS320C64X \<Rightarrow> (ao_types (d_tms320c64x d), ao_op_count (d_tms320c64x d))
      | CS_ARCH_M680X \<Rightarrow> (ao_types (d_m680x d), ao_op_count (d_m680x d))
      | CS_ARCH_EVM \<Rightarrow> ([], 0)
      | CS_ARCH_MOS65XX \<Rightarrow>
          (map (\<lambda>op. of_nat (mos65xx_op_num (mop_type op))) (mos_operands (d_mos65xx d)),
           mos_op_count (d_mos65xx d)))"

text \<open>The two loops; \<open>n\<close> is the number of operands left, and a read past the array is undefined.\<close>

fun count_ops :: "u32 list \<Rightarrow> nat \<Rightarrow> u32 \<Rightarrow> u32 \<Rightarrow> u32 option" where
  "count_ops ts 0 ty count = Some count"
| "count_ops [] (Suc n) ty count = None"
| "count_ops (t # ts) (Suc n) ty count = count_ops ts n ty (if t = ty then count + 1 else count)"

fun index_ops :: "u32 list \<Rightarrow> nat \<Rightarrow> u32 \<Rightarrow> u32 \<Rightarrow> u32 \<Rightarrow> u32 \<Rightarrow> u32 option option" where
  "index_ops ts 0 i ty post count = Some None"
| "index_ops [] (Suc n) i ty post count = None"
| "index_ops (t # ts) (Suc n) i ty post count =
     (let count = (if t = ty then count + 1 else count)
      in if count = post then Some (Some i) else index_ops ts n (i + 1) ty post count)"

definition cs_op_count :: "world \<Rightarrow> nat \<Rightarrow> cs_insn \<Rightarrow> u32 \<Rightarrow> (world \<times> int) option" where
  "cs_op_count w csh insn op_type =
     (if csh = 0 then Some (w, -1)
      else do {
        ud \<leftarrow> get_handle w csh;
        (case detail_guard ud insn of
           Inl e \<Rightarrow> Some (store_err w csh ud e, -1)
         | Inr d \<Rightarrow> (case detail_ops (ud_arch ud) d of (types, n) \<Rightarrow> do {
             count \<leftarrow> count_ops types (unat n) op_type 0;
             Some (store_err w csh ud CS_ERR_OK, sint count) })) })"

definition cs_op_index :: "world \<Rightarrow> nat \<Rightarrow> cs_insn \<Rightarrow> u32 \<Rightarrow> u32 \<Rightarrow> (world \<times> int) option" where
  "cs_op_index w csh insn op_type post =
     (if csh = 0 then Some (w, -1)
      else do {
        ud \<leftarrow> get_handle w csh;
        (case detail_guard ud insn of
           Inl e \<Rightarrow> Some (store_err w csh ud e, -1)
         | Inr d \<Rightarrow> (case detail_ops (ud_arch ud) d of (types, n) \<Rightarrow> do {
             r \<leftarrow> index_ops types (unat n) 0 op_type post 0;
             Some (store_err w csh ud CS_ERR_OK, case r of None \<Rightarrow> -1 | Some i \<Rightarrow> sint i) })) })"

text \<open>
  \<^verbatim>\<open>cs_regs_access\<close>: the returned code (\<open>-1\<close> for the null handle is not a value of
  \<^verbatim>\<open>cs_err\<close>) and, when the callback ran, what it stored through the four out-parameters.
\<close>

definition cs_regs_access :: "build \<Rightarrow> backends \<Rightarrow> world \<Rightarrow> nat \<Rightarrow> cs_insn \<Rightarrow>
    (world \<times> int \<times> (u16 list \<times> u8 \<times> u16 list \<times> u8) option) option" where
  "cs_regs_access b bk w csh insn =
     (if csh = 0 then Some (w, -1, None)
      else do {
        ud \<leftarrow> get_handle w csh;
        let fail = (\<lambda>e. Some (store_err w csh ud e, err_code e, None));
        if b_diet b then fail CS_ERR_DIET
        else (case detail_guard ud insn of
           Inl e \<Rightarrow> fail e
         | Inr d \<Rightarrow>
             (case ud_reg_access ud of
                None \<Rightarrow> fail CS_ERR_ARCH
              | Some f \<Rightarrow> do {
                  regs \<leftarrow> x_reg_access bk f insn;
                  Some (w, err_code CS_ERR_OK, Some regs) })) })"

section \<open>Membership\<close>

text \<open>The counts of the details stay within the arrays.\<close>

definition counts_ok :: "cs_detail \<Rightarrow> bool" where
  "counts_ok d \<longleftrightarrow> unat (d_groups_count d) \<le> length (d_groups d) \<and>
     unat (d_regs_read_count d) \<le> length (d_regs_read d) \<and>
     unat (d_regs_write_count d) \<le> length (d_regs_write d)"

lemma cs_insn_group_iff:
  assumes "w_handles w csh = Some ud" "csh \<noteq> 0" "detail_guard ud insn = Inr d" "counts_ok d"
  shows "cs_insn_group w csh insn g = Some (w, g \<in> ucast ` set (take (unat (d_groups_count d)) (d_groups d)))"
  using assms by (simp add: cs_insn_group_def get_handle_def counts_ok_def arr_exist8_iff)

lemma cs_reg_read_iff:
  assumes "w_handles w csh = Some ud" "csh \<noteq> 0" "detail_guard ud insn = Inr d" "counts_ok d"
  shows "cs_reg_read w csh insn r =
    Some (w, r \<in> ucast ` set (take (unat (d_regs_read_count d)) (d_regs_read d)))"
  using assms by (simp add: cs_reg_read_def get_handle_def counts_ok_def arr_exist_iff)

lemma cs_reg_write_iff:
  assumes "w_handles w csh = Some ud" "csh \<noteq> 0" "detail_guard ud insn = Inr d" "counts_ok d"
  shows "cs_reg_write w csh insn r =
    Some (w, r \<in> ucast ` set (take (unat (d_regs_write_count d)) (d_regs_write d)))"
  using assms by (simp add: cs_reg_write_def get_handle_def counts_ok_def arr_exist_iff)

text \<open>An error of the guards is what \<^verbatim>\<open>cs_errno\<close> then reports.\<close>

lemma cs_errno_store_err [simp]: "csh \<noteq> 0 \<Longrightarrow> cs_errno (store_err w csh ud e) csh = Some e"
  by (simp add: cs_errno_def store_err_def get_handle_def set_handle_def)

section \<open>Operands of a type\<close>

definition positions :: "'a \<Rightarrow> 'a list \<Rightarrow> nat list" where
  "positions x xs = filter (\<lambda>k. xs ! k = x) [0..<length xs]"

lemma positions_Nil [simp]: "positions x [] = []"
  by (simp add: positions_def)

lemma positions_Cons [simp]:
  "positions x (y # ys) = (if y = x then [0] else []) @ map Suc (positions x ys)"
proof -
  have "[0..<length (y # ys)] = 0 # map Suc [0..<length ys]"
    by (simp add: upt_conv_Cons map_Suc_upt del: upt_Suc)
  then show ?thesis by (simp add: positions_def filter_map o_def)
qed

lemma length_positions_le: "length (positions x xs) \<le> length xs"
  by (induction xs) auto

lemma count_ops_spec:
  "n \<le> length ts \<Longrightarrow> count_ops ts n ty count = Some (count + of_nat (length (positions ty (take n ts))))"
  by (induction ts n ty count rule: count_ops.induct) (auto simp: algebra_simps)

lemma index_ops_spec:
  assumes "n \<le> length ts" "count < post"
  shows "index_ops ts n i ty post count =
    Some (let L = positions ty (take n ts); k = unat post - unat count - 1
          in if k < length L then Some (i + of_nat (L ! k)) else None)"
  using assms
proof (induction ts n i ty post count rule: index_ops.induct)
  case (3 t ts n i ty post count)
  have up: "unat (count + 1) = unat count + 1"
    using 3(3) unsigned_less [of post, where 'a = nat] by (simp add: unat_word_ariths word_less_nat_alt)
  show ?case
  proof (cases "t = ty")
    case True
    show ?thesis
    proof (cases "count + 1 = post")
      case last: True
      with up have "unat post = unat count + 1" by simp
      then show ?thesis using True last by (simp add: Let_def)
    next
      case False
      then have "unat (count + 1) \<noteq> unat post" by (simp add: word_unat_eq_iff)
      then have lt: "count + 1 < post" using 3(3) up unfolding word_less_nat_alt by linarith
      then have k: "unat post - unat count - 1 = Suc (unat post - unat (count + 1) - 1)"
        using up by (simp add: word_less_nat_alt)
      show ?thesis using 3(1) [OF refl] 3(2) lt True False k
        by (auto simp: Let_def algebra_simps)
    qed
  next
    case False
    then show ?thesis using 3 by (auto simp: Let_def nth_append algebra_simps)
  qed
qed auto

text \<open>
  The types of the operands an instruction has, for a handle of an architecture; the count must
  stay within the array.
\<close>

definition op_types :: "cs_arch \<Rightarrow> cs_detail \<Rightarrow> u32 list" where
  "op_types arch d = (case detail_ops arch d of (types, n) \<Rightarrow> take (unat n) types)"

definition ops_ok :: "cs_arch \<Rightarrow> cs_detail \<Rightarrow> bool" where
  "ops_ok arch d \<longleftrightarrow> (case detail_ops arch d of (types, n) \<Rightarrow> unat n \<le> length types)"

lemma op_types_short: "length (op_types arch d) < 256"
  using unat_less_256 [of "snd (detail_ops arch d)"]
  by (cases "detail_ops arch d") (simp add: op_types_def min_less_iff_disj)

lemma sint_small: "n < 256 \<Longrightarrow> sint (of_nat n :: u32) = int n"
  by (simp add: signed_of_nat signed_take_bit_int_eq_self)

lemma cs_op_count_eq:
  assumes "w_handles w csh = Some ud" "csh \<noteq> 0" "detail_guard ud insn = Inr d" "ops_ok (ud_arch ud) d"
  shows "cs_op_count w csh insn ty =
    Some (store_err w csh ud CS_ERR_OK, int (length (positions ty (op_types (ud_arch ud) d))))"
proof -
  have "length (positions ty (op_types (ud_arch ud) d)) < 256"
    using length_positions_le op_types_short by (rule le_less_trans)
  with assms show ?thesis
    by (auto simp: cs_op_count_def get_handle_def ops_ok_def op_types_def count_ops_spec sint_small
        split: prod.splits)
qed

lemma cs_op_index_eq:
  assumes "w_handles w csh = Some ud" "csh \<noteq> 0" "detail_guard ud insn = Inr d" "ops_ok (ud_arch ud) d" "0 < post"
  shows "cs_op_index w csh insn ty post = Some (store_err w csh ud CS_ERR_OK,
    let L = positions ty (op_types (ud_arch ud) d)
    in if unat post \<le> length L then int (L ! (unat post - 1)) else -1)"
proof -
  let ?L = "positions ty (op_types (ud_arch ud) d)"
  have p: "0 < unat post" using assms(5) by (simp add: word_less_nat_alt)
  have small: "?L ! k < 256" if "k < length ?L" for k
  proof -
    have "?L ! k \<in> set ?L" using that by (rule nth_mem)
    then have "?L ! k < length (op_types (ud_arch ud) d)" by (auto simp: positions_def)
    then show ?thesis using op_types_short by (rule less_trans)
  qed
  obtain types n where ops: "detail_ops (ud_arch ud) d = (types, n)" by fastforce
  have "index_ops types (unat n) 0 ty post 0 =
      Some (if unat post - 1 < length ?L then Some (of_nat (?L ! (unat post - 1))) else None)"
    using index_ops_spec [of "unat n" types 0 post 0 ty] assms(4,5) ops
    by (simp add: ops_ok_def op_types_def Let_def)
  with assms(1-3) ops p small show ?thesis
    by (auto simp: cs_op_index_def get_handle_def sint_small Let_def)
qed

lemma positions_nth:
  assumes "k < length (positions x xs)"
  shows "positions x xs ! k < length xs" "xs ! (positions x xs ! k) = x"
proof -
  have "positions x xs ! k \<in> set (positions x xs)" using assms by (rule nth_mem)
  then show "positions x xs ! k < length xs" "xs ! (positions x xs ! k) = x"
    by (auto simp: positions_def)
qed

lemma positions_sorted: "sorted_wrt (<) (positions x xs)"
  by (simp add: positions_def sorted_wrt_filter)

lemma set_positions: "set (positions x xs) = {k. k < length xs \<and> xs ! k = x}"
  by (auto simp: positions_def)

end
