(* ===== verification/Engine_Reach.thy ===== *)
theory Engine_Reach
  imports Engine_Session Engine_Query
begin

text \<open>
  Sequences of calls. The state is the library together with the objects the caller holds: the
  arrays of \<^verbatim>\<open>cs_disasm\<close> and the records of \<^verbatim>\<open>cs_malloc\<close>. A step is one call of the
  interface in which the caller keeps the documented rules: an open handle, an option value of the
  right kind, a held object for \<^verbatim>\<open>cs_free\<close>. Disassembling steps are those of the two modelled
  architectures. The invariant of every reachable state accounts for all memory: each live block
  belongs to exactly one handle or one held object.
\<close>

section \<open>Blocks outside the handles\<close>

definition owned_set :: "world \<Rightarrow> nat \<Rightarrow> nat set" where
  "owned_set w csh = (case w_handles w csh of None \<Rightarrow> {} | Some ud \<Rightarrow> set (owned csh ud))"

definition loose :: "world \<Rightarrow> nat set" where
  "loose w = dom (h_live (w_heap w)) - (\<Union>csh. owned_set w csh)"

lemma owned_set_disjoint: "world_ok w \<Longrightarrow> csh \<noteq> csh' \<Longrightarrow> owned_set w csh \<inter> owned_set w csh' = {}"
  using world_ok_disjoint [of w csh _ csh'] by (auto simp: owned_set_def split: option.splits)

lemma owned_set_live: "world_ok w \<Longrightarrow> owned_set w csh \<subseteq> dom (h_live (w_heap w))"
  using world_okD(4) [of w csh] by (auto simp: owned_set_def split: option.splits)

lemma owned_set_set [simp]:
  "owned_set (set_handle w csh h ud) c = (if c = csh then set (owned csh ud) else owned_set w c)"
  by (simp add: owned_set_def set_handle_def)

lemma owned_set_heap [simp]: "owned_set (w\<lparr>w_heap := h\<rparr>) c = owned_set w c"
  by (simp add: owned_set_def)

text \<open>Replacing a handle changes the loose blocks only by what the rest of the heap does.\<close>

lemma loose_set_handle:
  assumes "world_ok w" "dom (h_live h) - set (owned csh ud) = (dom (h_live (w_heap w)) - owned_set w csh) \<union> B"
    "B \<inter> dom (h_live (w_heap w)) = {}"
  shows "loose (set_handle w csh h ud) = loose w \<union> B"
proof -
  let ?O = "\<Union>c \<in> - {csh}. owned_set w c"
  have all: "(\<Union>c. owned_set w c) = owned_set w csh \<union> ?O" by auto
  have all': "(\<Union>c. owned_set (set_handle w csh h ud) c) = set (owned csh ud) \<union> ?O" by auto
  have "?O \<subseteq> dom (h_live (w_heap w))" using owned_set_live [OF assms(1)] by blast
  then have B: "B - ?O = B" using assms(3) by blast
  have "loose (set_handle w csh h ud) = (dom (h_live h) - set (owned csh ud)) - ?O"
    unfolding loose_def all' by auto
  also have "\<dots> = (dom (h_live (w_heap w)) - owned_set w csh - ?O) \<union> (B - ?O)" unfolding assms(2) by auto
  also have "\<dots> = loose w \<union> B" unfolding loose_def all B by auto
  finally show ?thesis .
qed

lemma loose_same_handle:
  assumes "world_ok w" "w_handles w csh = Some ud" "owned csh ud' = owned csh ud"
  shows "loose (set_handle w csh (w_heap w) ud') = loose w"
  using loose_set_handle [OF assms(1), of "w_heap w" csh ud' "{}"] assms(2,3)
  by (simp add: owned_set_def)

section \<open>Opening, closing, options\<close>

lemma cs_open_loose:
  assumes "world_ok w" "cs_open b ab w arch mode hnd = Some (w', e, csh)"
  shows "loose w' = loose w"
proof -
  note post = cs_open_post [OF assms]
  show ?thesis
  proof (cases "e = CS_ERR_OK")
    case True
    with post obtain ud where u: "w_handles w csh = None" "w_handles w' = (w_handles w)(csh \<mapsto> ud)"
      "h_live (w_heap w') |` (- set (owned csh ud)) = h_live (w_heap w)" by (auto simp: open_post_def)
    have w': "w' = set_handle w csh (w_heap w') ud"
      using u(2) by (simp add: set_handle_def)
    have "dom (h_live (w_heap w')) - set (owned csh ud) = dom (h_live (w_heap w))"
      using u(3) by (metis dom_restrict Diff_eq)
    then show ?thesis
      using loose_set_handle [OF assms(1), of "w_heap w'" csh ud "{}"] w' u(1) by (simp add: owned_set_def)
  next
    case False
    with post show ?thesis by (simp add: open_post_def loose_def owned_set_def)
  qed
qed

lemma cs_close_loose:
  assumes "world_ok w" "w_handles w csh = Some ud" "cs_close w csh = Some (w', e, z)"
  shows "loose w' = loose w" "world_ok w'"
proof -
  from cs_close_post [OF assms(1,2)] assms(3) have c: "world_ok w'" "w_handles w' = (w_handles w)(csh := None)"
    "h_live (w_heap w') = h_live (w_heap w) |` (- set (owned csh ud))" by auto
  have ow: "owned_set w' = (owned_set w)(csh := {})" "owned_set w csh = set (owned csh ud)"
    using assms(2) c(2) by (auto simp: owned_set_def fun_eq_iff)
  have "(\<Union>c. owned_set w c) = set (owned csh ud) \<union> (\<Union>c. owned_set w' c)"
    unfolding ow(1) ow(2) [symmetric] by (auto split: if_splits)
  then show "loose w' = loose w" by (auto simp: loose_def c(3) dom_restrict)
  show "world_ok w'" by (rule c(1))
qed

lemma opt_mnemonic_loose:
  assumes "world_ok w" "w_handles w csh = Some ud" "opt_mnem_text_ok opt" "length junk = CS_MNEMONIC_SIZE"
    "opt_mnemonic ab junk (w_heap w) ud opt = Some (h', ud')"
  shows "loose (set_handle w csh h' ud') = loose w"
proof (cases "om_id opt = 0")
  case True
  with assms(5) have "h' = w_heap w" "ud' = ud" by (simp_all add: opt_mnemonic_def)
  then show ?thesis using loose_same_handle [OF assms(1,2)] by simp
next
  case nz: False
  note ok = world_okD [OF assms(1,2)]
  note ow = owned_def [of csh ud]
  have os: "owned_set w csh = set (owned csh ud)" using assms(2) by (simp add: owned_set_def)
  have "dom (h_live h') - set (owned csh ud') = dom (h_live (w_heap w)) - set (owned csh ud)"
  proof (cases "om_mnemonic opt")
    case None
    from opt_mnemonic_delete [OF ok(1,2) nz None, of ab junk] ok(3,4) assms(5) obtain ms where
      ms: "ud' = ud\<lparr>ud_mnem_list := ms\<rparr>" "set (map mn_node ms) \<subseteq> set (map mn_node (ud_mnem_list ud))"
        "h_live h' = h_live (w_heap w) |` (- (set (map mn_node (ud_mnem_list ud)) - set (map mn_node ms)))"
      by (auto simp: ow)
    have "set (owned csh ud') = set (own_front csh ud) \<union> set (map mn_node ms) \<union> set (own_back ud)"
      "set (owned csh ud) = set (own_front csh ud) \<union> set (map mn_node (ud_mnem_list ud)) \<union> set (own_back ud)"
      using ms(1) by (auto simp: owned_def)
    then show ?thesis using ms(2) by (auto simp: ms(3) dom_restrict)
  next
    case (Some s)
    have ns: "NUL \<notin> set s" using assms(3) Some by (simp add: opt_mnem_text_ok_def)
    have g: "om_id opt \<in> set (map mn_id (ud_mnem_list ud)) \<or> h_grant (w_heap w) (h_calls (w_heap w))"
      by (rule opt_mnemonic_granted [OF ok(1,2) nz Some ns assms(5)])
    from opt_mnemonic_set [OF ok(1,2) nz Some ns assms(4) g, of ab, unfolded assms(5) option.inject prod.inject]
    obtain ms where ms: "ud' = ud\<lparr>ud_mnem_list := ms\<rparr>"
      "map mn_node ms = map mn_node (ud_mnem_list ud) \<and> h' = w_heap w \<or>
        (\<exists>p n. map mn_node ms = p # map mn_node (ud_mnem_list ud) \<and> h_live (w_heap w) p = None \<and>
           h_live h' = (h_live (w_heap w))(p \<mapsto> n))" by (elim exE conjE, simp only:)
    from ms(2) show ?thesis
    proof (elim disjE exE conjE)
      assume "map mn_node ms = map mn_node (ud_mnem_list ud)" "h' = w_heap w"
      then show ?thesis using ms(1) by (simp add: owned_def)
    next
      fix p n assume p: "map mn_node ms = p # map mn_node (ud_mnem_list ud)" "h_live (w_heap w) p = None"
        "h_live h' = (h_live (w_heap w))(p \<mapsto> n)"
      have "set (owned csh ud') = insert p (set (owned csh ud))"
        using p(1) ms(1) by (auto simp: owned_def)
      then show ?thesis using p(2) by (auto simp: p(3))
    qed
  qed
  then show ?thesis using loose_set_handle [OF assms(1), of h' csh ud' "{}"] os by simp
qed

lemma cs_option_loose:
  assumes "world_ok w" "opt_value_ok ty v" "length junk = CS_MNEMONIC_SIZE"
    "cs_option b ab junk w csh ty v = Some (w', e)"
  shows "loose w' = loose w"
proof (cases "ty = CS_OPT_MEM \<or> csh = 0")
  case True
  with assms(4) show ?thesis
    by (auto simp: cs_option_def loose_def split: opt_value.splits if_splits)
next
  case False
  with assms(4) obtain ud where ud: "w_handles w csh = Some ud"
    by (auto simp: cs_option_def get_handle_def split: bind_splits)
  have upd: "loose (set_handle w csh (w_heap w) ud') = loose w"
    if "ud_printer_info ud' = ud_printer_info ud" "ud_mnem_list ud' = ud_mnem_list ud"
      "ud_insn_cache ud' = ud_insn_cache ud" for ud'
    using that by (intro loose_same_handle [OF assms(1) ud] owned_cong)
  have arch: "loose w' = loose w" if "do { n \<leftarrow> num_of v; f \<leftarrow> cs_arch_option b (ud_arch ud);
      Some (let (e, ud) = f ud ty n in (set_handle w csh (w_heap w) ud, e)) } = Some (w', e)"
  proof -
    from that obtain n ud' where a: "arch_option_fun (ud_arch ud) b ud ty n = (e, ud')"
      "w' = set_handle w csh (w_heap w) ud'"
      by (auto simp: cs_arch_option_def split: bind_splits if_splits prod.splits)
    from arch_opt_keeps [OF a(1)] show ?thesis
      unfolding a(2) by (intro upd) (simp_all add: engine_part_kept_def)
  qed
  show ?thesis
  proof (cases ty)
    case CS_OPT_MNEMONIC
    with assms(2,4) False ud obtain opt h' ud' where "opt_mnem_text_ok opt"
      "opt_mnemonic ab junk (w_heap w) ud opt = Some (h', ud')" "w' = set_handle w csh h' ud'"
      by (auto simp: cs_option_def get_handle_def opt_value_ok_def split: opt_value.splits bind_splits)
    with opt_mnemonic_loose [OF assms(1) ud _ assms(3)] show ?thesis by blast
  next
    case CS_OPT_SKIPDATA_SETUP
    with assms False ud upd show ?thesis
      by (auto simp: cs_option_def get_handle_def split: opt_value.splits if_splits)
  qed (use assms False ud arch upd in \<open>auto simp: cs_option_def get_handle_def Let_def
      split: bind_splits if_splits\<close>)
qed

section \<open>Disassembling, releasing, asking\<close>

lemma owns_dom: "owns L h B \<Longrightarrow> dom (h_live h) = dom L \<union> B"
  unfolding owns_def by (metis Diff_eq Un_Diff_cancel2 dom_restrict sup.absorb1 sup.commute)

lemma loose_owns:
  assumes "world_ok w" "w_handles w csh = Some ud" "owned csh ud' = owned csh ud"
    "owns (h_live (w_heap w)) h B"
  shows "loose (set_handle w csh h ud') = loose w \<union> B" "loose w \<inter> B = {}"
proof -
  have B: "B \<inter> dom (h_live (w_heap w)) = {}" using assms(4) by (simp add: owns_def)
  then show "loose w \<inter> B = {}" by (auto simp: loose_def)
  have "set (owned csh ud) \<subseteq> dom (h_live (w_heap w))" by (rule world_okD(4) [OF assms(1,2)])
  then have "dom (h_live h) - set (owned csh ud') = (dom (h_live (w_heap w)) - owned_set w csh) \<union> B"
    using B unfolding owns_dom [OF assms(4)] by (auto simp: owned_set_def assms(2,3))
  with loose_set_handle [OF assms(1) this B] show "loose (set_handle w csh h ud') = loose w \<union> B" by simp
qed

lemma world_ok_release:
  assumes "world_ok w" "heap_ok h" "h_live h = h_live (w_heap w) |` (- B)" "B \<subseteq> loose w"
  shows "world_ok (w\<lparr>w_heap := h\<rparr>)" "loose (w\<lparr>w_heap := h\<rparr>) = loose w - B"
proof -
  have dis: "set (owned c u) \<inter> B = {}" if "w_handles w c = Some u" for c u
  proof -
    have "set (owned c u) = owned_set w c" using that by (simp add: owned_set_def)
    then show ?thesis using assms(4) by (auto simp: loose_def)
  qed
  show "loose (w\<lparr>w_heap := h\<rparr>) = loose w - B" by (auto simp: loose_def assms(3) dom_restrict)
  show "world_ok (w\<lparr>w_heap := h\<rparr>)"
  proof (rule world_okI)
    fix c u assume "w_handles (w\<lparr>w_heap := h\<rparr>) c = Some u"
    then have c: "w_handles w c = Some u" by simp
    show "handle_wf u \<and> distinct (owned c u) \<and> set (owned c u) \<subseteq> dom (h_live (w_heap (w\<lparr>w_heap := h\<rparr>)))"
      using world_okD [OF assms(1) c] dis [OF c] by (auto simp: assms(3) dom_restrict)
  next
    fix c c' u u' assume "w_handles (w\<lparr>w_heap := h\<rparr>) c = Some u" "w_handles (w\<lparr>w_heap := h\<rparr>) c' = Some u'" "c \<noteq> c'"
    then show "set (owned c u) \<inter> set (owned c' u') = {}" using world_ok_disjoint [OF assms(1)] by simp
  qed (simp add: assms(2))
qed

definition held_blocks :: "nat \<times> cs_insn list \<Rightarrow> nat list" where
  "held_blocks = (\<lambda>(p, insns). p # detail_blocks insns)"

lemma cs_free_held:
  assumes "world_ok w" "set (held_blocks (p, insns)) \<subseteq> loose w" "distinct (held_blocks (p, insns))"
  shows "\<exists>w'. cs_free w p insns (length insns) = Some w' \<and> world_ok w' \<and>
    loose w' = loose w - set (held_blocks (p, insns)) \<and> w_handles w' = w_handles w"
proof -
  let ?B = "set (held_blocks (p, insns))"
  have B: "?B = insert p (set (detail_blocks insns))" by (simp add: held_blocks_def)
  have "?B \<subseteq> dom (h_live (w_heap w))" using assms(2) by (auto simp: loose_def)
  then have "owns (h_live (w_heap w) |` (- ?B)) (w_heap w) ?B"
    using world_heap_ok [OF assms(1)] by (auto simp: owns_def)
  from cs_free_ok [OF this [unfolded B]] assms(3) obtain h where
    h: "cs_free w p insns (length insns) = Some (w\<lparr>w_heap := h\<rparr>)" "heap_ok h"
      "h_live h = h_live (w_heap w) |` (- ?B)" unfolding B by (auto simp: held_blocks_def)
  from world_ok_release [OF assms(1) h(2,3) assms(2)] h(1) show ?thesis by auto
qed

lemma store_err_ok:
  assumes "world_ok w" "w_handles w csh = Some ud"
  shows "world_ok (store_err w csh ud e)" "loose (store_err w csh ud e) = loose w"
proof -
  have "handle_wf (ud\<lparr>ud_errnum := e\<rparr>)" using world_okD(2) [OF assms] by (simp add: handle_wf_def callable_def)
  moreover have "owned csh (ud\<lparr>ud_errnum := e\<rparr>) = owned csh ud" by (rule owned_cong) simp_all
  ultimately show "world_ok (store_err w csh ud e)" "loose (store_err w csh ud e) = loose w"
    unfolding store_err_def by (rule world_ok_same_blocks [OF assms], intro loose_same_handle [OF assms])
qed

section \<open>Calls and reachable states\<close>

record session =
  s_world :: world
  s_held :: "(nat \<times> cs_insn list) list"

definition modelled :: "cs_struct \<Rightarrow> bool" where
  "modelled ud \<longleftrightarrow> evm_handle ud \<or> mos_handle ud"

text \<open>What a call of \<^verbatim>\<open>cs_disasm\<close> hands over to the caller.\<close>

definition hand_over :: "insn_out \<Rightarrow> (nat \<times> cs_insn list) list" where
  "hand_over out = (case out of Array p insns \<Rightarrow> [(p, insns)] | _ \<Rightarrow> [])"

inductive api_step :: "build \<Rightarrow> env \<Rightarrow> session \<Rightarrow> session \<Rightarrow> bool" for b E where
  Open: "cs_open b (e_abi E) (s_world s) arch mode hnd = Some (w, e, csh) \<Longrightarrow>
    api_step b E s (s\<lparr>s_world := w\<rparr>)"
| Option: "opt_value_ok ty v \<Longrightarrow> length junk = CS_MNEMONIC_SIZE \<Longrightarrow>
    cs_option b (e_abi E) junk (s_world s) csh ty v = Some (w, e) \<Longrightarrow> api_step b E s (s\<lparr>s_world := w\<rparr>)"
| Close: "cs_close (s_world s) csh = Some (w, e, z) \<Longrightarrow> api_step b E s (s\<lparr>s_world := w\<rparr>)"
| Disasm: "w_handles (s_world s) csh = Some ud \<Longrightarrow> modelled ud \<Longrightarrow> skip_ok ud \<Longrightarrow>
    ud_detail ud \<noteq> 0 \<longrightarrow> all_granted (w_heap (s_world s)) \<Longrightarrow> length code < 2 ^ 29 \<Longrightarrow>
    cs_disasm E (s_world s) csh code address count = Some (w, c, out) \<Longrightarrow>
    api_step b E s (s\<lparr>s_world := w, s_held := hand_over out @ s_held s\<rparr>)"
| Malloc: "w_handles (s_world s) csh = Some ud \<Longrightarrow> cs_malloc E (s_world s) csh = Some (w, r) \<Longrightarrow>
    api_step b E s (s\<lparr>s_world := w,
      s_held := (case r of None \<Rightarrow> [] | Some (p, insn) \<Rightarrow> [(p, [insn])]) @ s_held s\<rparr>)"
| Iter: "w_handles (s_world s) csh = Some ud \<Longrightarrow> modelled ud \<Longrightarrow> skip_ok ud \<Longrightarrow>
    s_held s = A @ (p, [insn]) # B \<Longrightarrow> ud_detail ud \<noteq> 0 \<longrightarrow> in_detail insn \<noteq> None \<Longrightarrow>
    cs_disasm_iter E (s_world s) csh code address insn = Some (w, r, code', address', insn') \<Longrightarrow>
    api_step b E s (s\<lparr>s_world := w, s_held := A @ (p, [insn']) # B\<rparr>)"
| Free: "s_held s = A @ (p, insns) # B \<Longrightarrow> cs_free (s_world s) p insns (length insns) = Some w \<Longrightarrow>
    api_step b E s (s\<lparr>s_world := w, s_held := A @ B\<rparr>)"
| Insn_group: "cs_insn_group (s_world s) csh insn g = Some (w, r) \<Longrightarrow> api_step b E s (s\<lparr>s_world := w\<rparr>)"
| Reg_read: "cs_reg_read (s_world s) csh insn g = Some (w, r) \<Longrightarrow> api_step b E s (s\<lparr>s_world := w\<rparr>)"
| Reg_write: "cs_reg_write (s_world s) csh insn g = Some (w, r) \<Longrightarrow> api_step b E s (s\<lparr>s_world := w\<rparr>)"
| Op_count: "cs_op_count (s_world s) csh insn g = Some (w, i) \<Longrightarrow> api_step b E s (s\<lparr>s_world := w\<rparr>)"
| Op_index: "cs_op_index (s_world s) csh insn g k = Some (w, i) \<Longrightarrow> api_step b E s (s\<lparr>s_world := w\<rparr>)"
| Regs_access: "cs_regs_access b (e_back E) (s_world s) csh insn = Some (w, i, regs) \<Longrightarrow>
    api_step b E s (s\<lparr>s_world := w\<rparr>)"

text \<open>The library before its first call: nothing allocated, no handle, nothing held.\<close>

definition initial :: "session \<Rightarrow> bool" where
  "initial s \<longleftrightarrow> heap_ok (w_heap (s_world s)) \<and> h_live (w_heap (s_world s)) = Map.empty \<and>
     w_handles (s_world s) = Map.empty \<and> s_held s = []"

inductive reachable :: "build \<Rightarrow> env \<Rightarrow> session \<Rightarrow> bool" for b E where
  start: "initial s \<Longrightarrow> reachable b E s"
| call: "reachable b E s \<Longrightarrow> api_step b E s s' \<Longrightarrow> reachable b E s'"

definition session_ok :: "session \<Rightarrow> bool" where
  "session_ok s \<longleftrightarrow> world_ok (s_world s) \<and> distinct (concat (map held_blocks (s_held s))) \<and>
     set (concat (map held_blocks (s_held s))) = loose (s_world s) \<and>
     (\<forall>(p, insns) \<in> set (s_held s). list_all insn_wf insns)"

lemma initial_ok: "initial s \<Longrightarrow> session_ok s"
  by (simp add: initial_def session_ok_def world_ok_def loose_def owned_set_def)

lemma session_ok_world:
  "session_ok s \<Longrightarrow> world_ok w \<Longrightarrow> loose w = loose (s_world s) \<Longrightarrow> session_ok (s\<lparr>s_world := w\<rparr>)"
  by (simp add: session_ok_def)

lemma session_ok_more:
  assumes "session_ok s" "world_ok w" "loose w = loose (s_world s) \<union> set (held_blocks x)"
    "loose (s_world s) \<inter> set (held_blocks x) = {}" "distinct (held_blocks x)" "list_all insn_wf (snd x)"
  shows "session_ok (s\<lparr>s_world := w, s_held := x # s_held s\<rparr>)"
  using assms by (auto simp: session_ok_def split: prod.splits)

section \<open>Every call keeps the invariant\<close>

text \<open>The contract of the modelled architectures, for either of them.\<close>

lemma modelled_disasm:
  assumes "world_ok w" "w_handles w csh = Some ud" "modelled ud" "skip_ok ud"
    "ud_detail ud \<noteq> 0 \<longrightarrow> all_granted (w_heap w)" "junk_ok (e_junk E)" "length code < 2 ^ 29"
  shows "\<exists>D h ud' c out. cs_disasm E w csh code address count = Some (set_handle w csh h ud', c, out) \<and>
    disasm_post D E (w_heap w) (h_live (w_heap w)) (reset_ud ud) count code address h ud' c out"
  using assms(3) evm_backend.cs_disasm_ok [OF assms(1,2) _ assms(4-7), of address count]
    mos_backend.cs_disasm_ok [OF assms(1,2) _ assms(4-7), of address count]
  unfolding modelled_def by blast

lemma modelled_iter:
  assumes "world_ok w" "w_handles w csh = Some ud" "modelled ud" "skip_ok ud" "insn_wf insn"
    "ud_detail ud \<noteq> 0 \<longrightarrow> in_detail insn \<noteq> None" "junk_ok (e_junk E)"
    "cs_disasm_iter E w csh code address insn = Some (w', r, code', address', insn')"
  shows "w' = set_handle w csh (w_heap w) (ud\<lparr>ud_errnum := CS_ERR_OK\<rparr>)" "insn_wf insn'"
    "map_option fst (in_detail insn') = map_option fst (in_detail insn)"
proof -
  have "\<exists>D i. insn_wf i \<and> map_option fst (in_detail i) = map_option fst (in_detail insn) \<and>
    (case next_view D ud code 0 code address of
       None \<Rightarrow> cs_disasm_iter E w csh code address insn =
         Some (set_handle w csh (w_heap w) (ud\<lparr>ud_errnum := CS_ERR_OK\<rparr>), False, code, address, i)
     | Some (v, n) \<Rightarrow> 0 < n \<and> n \<le> length code \<and> view i = v \<and> cs_disasm_iter E w csh code address insn =
         Some (set_handle w csh (w_heap w) (ud\<lparr>ud_errnum := CS_ERR_OK\<rparr>), True, drop n code, address + of_nat n, i))"
    using assms(3) evm_backend.cs_disasm_iter_ok [OF assms(1,2) _ assms(4-7), of code address]
      mos_backend.cs_disasm_iter_ok [OF assms(1,2) _ assms(4-7), of code address]
    unfolding modelled_def by blast
  then show "w' = set_handle w csh (w_heap w) (ud\<lparr>ud_errnum := CS_ERR_OK\<rparr>)" "insn_wf insn'"
    "map_option fst (in_detail insn') = map_option fst (in_detail insn)"
    using assms(8) by (auto split: option.splits)
qed

lemma disasm_step_ok:
  assumes "session_ok s" "w_handles (s_world s) csh = Some ud"
    "disasm_post D E h0 (h_live (w_heap (s_world s))) (reset_ud ud) count code address h ud' c out"
  shows "session_ok (s\<lparr>s_world := set_handle (s_world s) csh h ud', s_held := hand_over out @ s_held s\<rparr>)"
proof -
  let ?w = "s_world s"
  have w: "world_ok ?w" using assms(1) by (simp add: session_ok_def)
  have ok: "world_ok (set_handle ?w csh h ud')" by (rule disasm_world_ok [OF w assms(2,3)])
  have own: "owned csh ud' = owned csh ud"
    using disasm_post_ud [OF assms(3)] owned_cong [of "(reset_ud ud)\<lparr>ud_errnum := CS_ERR_MEM\<rparr>" "reset_ud ud" csh] by auto
  show ?thesis
  proof (cases out)
    case (Array p insns)
    with assms(3) have o: "owns (h_live (w_heap ?w)) h (set (held_blocks (p, insns)))" "list_all insn_wf insns"
      "distinct (held_blocks (p, insns))" by (auto simp: disasm_post_def held_blocks_def)
    from session_ok_more [OF assms(1) ok loose_owns [OF w assms(2) own o(1)] o(3)] o(2) Array show ?thesis
      by (simp add: hand_over_def)
  qed (use assms(3) session_ok_world [OF assms(1) ok] loose_owns(1) [OF w assms(2) own, of h "{}"] in
      \<open>auto simp: disasm_post_def hand_over_def owns_def\<close>)
qed

lemma malloc_step_ok:
  assumes "session_ok s" "w_handles (s_world s) csh = Some ud" "junk_ok (e_junk E)"
    "malloc_post E (s_world s) ud h ud' r"
  shows "session_ok (s\<lparr>s_world := set_handle (s_world s) csh h ud',
    s_held := (case r of None \<Rightarrow> [] | Some (p, insn) \<Rightarrow> [(p, [insn])]) @ s_held s\<rparr>)"
proof -
  let ?w = "s_world s"
  have w: "world_ok ?w" using assms(1) by (simp add: session_ok_def)
  have ud': "owned csh ud' = owned csh ud" "handle_wf ud'" "heap_ok h"
    using assms(4) world_okD(2) [OF w assms(2)] owned_cong [of "ud\<lparr>ud_errnum := CS_ERR_MEM\<rparr>" ud csh]
    by (auto simp: malloc_post_def handle_wf_def callable_def split: option.splits)
  show ?thesis
  proof (cases r)
    case None
    then have l: "h_live h = h_live (w_heap ?w)" using assms(4) by (simp add: malloc_post_def)
    have "world_ok (set_handle ?w csh h ud')"
      using world_ok_more_live [OF w assms(2) ud'(3) _ ud'(2,1)] l by simp
    moreover have "loose (set_handle ?w csh h ud') = loose ?w"
      using loose_owns(1) [OF w assms(2) ud'(1), of h "{}"] l ud'(3) by (simp add: owns_def)
    ultimately show ?thesis using session_ok_world [OF assms(1)] None by simp
  next
    case (Some pi)
    obtain p insn where pi: "pi = (p, insn)" by fastforce
    with Some assms(3,4) have o: "owns (h_live (w_heap ?w)) h (set (held_blocks (p, [insn])))"
      "insn_wf insn" "distinct (held_blocks (p, [insn]))"
      by (auto simp: malloc_post_def held_blocks_def detail_blocks_def)
    have ok: "world_ok (set_handle ?w csh h ud')"
      using world_ok_more_live [OF w assms(2) ud'(3) _ ud'(2,1)] owns_sub_dom [OF o(1)] by simp
    from session_ok_more [OF assms(1) ok loose_owns [OF w assms(2) ud'(1) o(1)] o(3)] o(2) Some pi show ?thesis
      by simp
  qed
qed

text \<open>A query returns the same library, or the library with an error stored in an open handle.\<close>

lemma query_results:
  "cs_insn_group w csh insn g = Some (w', r) \<Longrightarrow> w' = w \<or> (\<exists>ud e. w_handles w csh = Some ud \<and> w' = store_err w csh ud e)"
  "cs_reg_read w csh insn g = Some (w', r) \<Longrightarrow> w' = w \<or> (\<exists>ud e. w_handles w csh = Some ud \<and> w' = store_err w csh ud e)"
  "cs_reg_write w csh insn g = Some (w', r) \<Longrightarrow> w' = w \<or> (\<exists>ud e. w_handles w csh = Some ud \<and> w' = store_err w csh ud e)"
  "cs_op_count w csh insn g = Some (w', i) \<Longrightarrow> w' = w \<or> (\<exists>ud e. w_handles w csh = Some ud \<and> w' = store_err w csh ud e)"
  "cs_op_index w csh insn g k = Some (w', i) \<Longrightarrow> w' = w \<or> (\<exists>ud e. w_handles w csh = Some ud \<and> w' = store_err w csh ud e)"
  "cs_regs_access b bk w csh insn = Some (w', i, regs) \<Longrightarrow>
     w' = w \<or> (\<exists>ud e. w_handles w csh = Some ud \<and> w' = store_err w csh ud e)"
  by (auto simp: cs_insn_group_def cs_reg_read_def cs_reg_write_def cs_op_count_def cs_op_index_def
      cs_regs_access_def get_handle_def Let_def split: if_splits sum.splits bind_splits prod.splits option.splits)

lemma query_ok:
  assumes "session_ok s"
    "w' = s_world s \<or> (\<exists>ud e. w_handles (s_world s) csh = Some ud \<and> w' = store_err (s_world s) csh ud e)"
  shows "session_ok (s\<lparr>s_world := w'\<rparr>)"
  using assms store_err_ok [of "s_world s" csh] by (auto simp: session_ok_def)

lemma api_step_ok:
  assumes "api_step b E s s'" "session_ok s" "junk_ok (e_junk E)"
  shows "session_ok s'"
proof -
  have w: "world_ok (s_world s)" using assms(2) by (simp add: session_ok_def)
  from assms(1) show ?thesis
  proof cases
    case (Open arch mode hnd w e csh)
    then show ?thesis using cs_open_loose [OF w Open(2)] cs_open_post [OF w Open(2)] session_ok_world [OF assms(2)]
      by (simp add: open_post_def)
  next
    case (Option ty v junk csh w e)
    then show ?thesis
      using cs_option_loose [OF w] cs_option_world [OF w] session_ok_world [OF assms(2)] by metis
  next
    case (Close csh w e z)
    show ?thesis
    proof (cases "csh = 0")
      case True
      with Close assms(2) show ?thesis by (simp add: cs_close_def session_ok_def)
    next
      case False
      with Close(2) obtain ud where "w_handles (s_world s) csh = Some ud"
        by (auto simp: cs_close_def get_handle_def split: bind_splits)
      from cs_close_loose [OF w this Close(2)] Close(1) session_ok_world [OF assms(2)] show ?thesis by simp
    qed
  next
    case (Disasm csh ud code address count w c out)
    from modelled_disasm [OF w Disasm(2-5) assms(3) Disasm(6), of address count] Disasm(7)
    obtain D h ud' where "w = set_handle (s_world s) csh h ud'"
      "disasm_post D E (w_heap (s_world s)) (h_live (w_heap (s_world s))) (reset_ud ud) count code address h ud' c out"
      by auto
    with disasm_step_ok [OF assms(2) Disasm(2)] Disasm(1) show ?thesis by simp
  next
    case (Malloc csh ud w r)
    from cs_malloc_post [OF w Malloc(2), of E] Malloc(3) obtain h ud' where
      "w = set_handle (s_world s) csh h ud'" "malloc_post E (s_world s) ud h ud' r" by auto
    with malloc_step_ok [OF assms(2) Malloc(2) assms(3)] Malloc(1) show ?thesis by simp
  next
    case (Iter csh ud A p insn B code address w r code' address' insn')
    have iw: "insn_wf insn" using assms(2) Iter(5) by (auto simp: session_ok_def)
    note it = modelled_iter [OF w Iter(2-4) iw Iter(6) assms(3) Iter(7)]
    have blk: "detail_blocks [insn'] = detail_blocks [insn]"
      using it(3) by (auto simp: detail_blocks_def detail_addr_def split: option.splits)
    have "world_ok w" "loose w = loose (s_world s)"
      using store_err_ok [OF w Iter(2), of CS_ERR_OK] it(1) by (simp_all add: store_err_def)
    with assms(2) Iter(1,5) it(2) blk show ?thesis by (auto simp: session_ok_def held_blocks_def)
  next
    case (Free A p insns B w)
    have B: "set (held_blocks (p, insns)) \<subseteq> loose (s_world s)" "distinct (held_blocks (p, insns))"
      using assms(2) Free(2) by (auto simp: session_ok_def)
    from cs_free_held [OF w B] Free(3) have fr: "world_ok w"
      "loose w = loose (s_world s) - set (held_blocks (p, insns))" by auto
    with assms(2) Free(1,2) show ?thesis by (auto simp: session_ok_def)
  qed (use assms(2) query_ok query_results in \<open>metis+\<close>)
qed

end
