(* ===== verification/Engine_Props.thy ===== *)
theory Engine_Props
  imports Engine_Reach Samples
begin

text \<open>
  The properties of the engine \<^verbatim>\<open>cs.c\<close>: opening and closing, options, the text of a
  record, disassembling at once and step by step, and the queries. Each theorem with a hypothesis
  is followed by a concrete instance.
\<close>

section \<open>Sample sessions\<close>

definition evm_world :: world where
  "evm_world = \<lparr>w_heap = snd (h_alloc fresh_heap (sz_cs_struct lp64)), w_handles = [1 \<mapsto> evm_new]\<rparr>"

definition mos_world :: world where
  "mos_world = \<lparr>w_heap = snd (h_alloc fresh_heap (sz_cs_struct lp64)), w_handles = [1 \<mapsto> mos_new]\<rparr>"

lemma opened_worlds:
  "cs_open full_build lp64 fresh_world (arch_num CS_ARCH_EVM) 0 0 = Some (evm_world, CS_ERR_OK, 1)"
  "cs_open full_build lp64 fresh_world (arch_num CS_ARCH_MOS65XX) 0 0 = Some (mos_world, CS_ERR_OK, 1)"
proof -
  let ?h = "snd (h_alloc fresh_heap (sz_cs_struct lp64))"
  have h: "heap_ok (w_heap fresh_world)" "h_alloc (w_heap fresh_world) (sz_cs_struct lp64) = (1, ?h)"
    using fresh_heap_ok by (simp_all add: fresh_world_def fresh_heap_def h_alloc_def)
  note enabled = cs_open_enabled [OF h(1) arch_num_less, of full_build _ 0 lp64 0, unfolded h(2)]
  show "cs_open full_build lp64 fresh_world (arch_num CS_ARCH_EVM) 0 0 = Some (evm_world, CS_ERR_OK, 1)"
    using enabled [of CS_ARCH_EVM] evm_arch.init [of full_build lp64 ?h]
    by (simp add: cs_archs_def full_build_def evm_world_def set_handle_def) (simp add: fresh_world_def)
  show "cs_open full_build lp64 fresh_world (arch_num CS_ARCH_MOS65XX) 0 0 = Some (mos_world, CS_ERR_OK, 1)"
    using enabled [of CS_ARCH_MOS65XX] mos_arch.init [of full_build lp64 ?h]
    by (simp add: cs_archs_def full_build_def mos_world_def set_handle_def) (simp add: fresh_world_def)
qed

lemma evm_world_ok: "world_ok evm_world" "w_handles evm_world 1 = Some evm_new"
  "all_granted (w_heap evm_world)"
  using cs_open_post [OF fresh_world_ok opened_worlds(1)]
  by (simp_all add: open_post_def evm_world_def all_granted_def h_alloc_def fresh_heap_def)

lemma mos_world_ok: "world_ok mos_world" "w_handles mos_world 1 = Some mos_new"
  "all_granted (w_heap mos_world)"
  using cs_open_post [OF fresh_world_ok opened_worlds(2)]
  by (simp_all add: open_post_def mos_world_def all_granted_def h_alloc_def fresh_heap_def)

lemma new_skip_ok: "skip_ok evm_new" "skip_ok mos_new"
  using evm_arch.ud0_facts mos_arch.ud0_facts by (simp_all add: skip_ok_def)

lemma sample_env_ok: "junk_ok (e_junk sample_env)"
  using zero_junk_ok by (simp add: sample_env_def)

section \<open>Opening and closing\<close>

lemma cs_open_outcome:
  assumes "world_ok w" "all_granted (w_heap w)"
  shows "\<exists>w' csh. cs_open b ab w arch mode hnd = Some (w',
    (if arch < CS_ARCH_MAX \<and> b_archs b (cs_archs ! arch)
     then if mode_accepted (cs_archs ! arch) mode then CS_ERR_OK else CS_ERR_MODE
     else CS_ERR_ARCH), csh)"
proof (cases "arch < CS_ARCH_MAX \<and> b_archs b (cs_archs ! arch) \<and> mode AND arch_mode_mask (cs_archs ! arch) = 0")
  case False
  then show ?thesis using world_heap_ok [OF assms(1)]
    by (auto simp: cs_open_def cs_arch_init_def cs_arch_disallowed_mode_mask_def mode_accepted_def)
next
  case True
  let ?a = "cs_archs ! arch"
  have ok: "heap_ok (w_heap w)" by (rule world_heap_ok [OF assms(1)])
  have nz: "fst (h_alloc h n) \<noteq> 0" if "heap_ok h" "all_granted h" for h n
    using that by (simp add: h_alloc_def heap_ok_def heap_wf_def all_granted_def)
  obtain p h1 where a: "h_alloc (w_heap w) (sz_cs_struct ab) = (p, h1)" by fastforce
  have p: "p \<noteq> 0" using nz [OF ok assms(2), of "sz_cs_struct ab"] a by simp
  have own: "owns (h_live (w_heap w)) h1 {p}" using owns_alloc(2) [OF owns_init [OF ok] a p] by simp
  then have ok1: "heap_ok h1" "h_live h1 p \<noteq> None" by (auto simp: owns_heap owns_live)
  have g1: "h_grant h1 (h_calls h1)" using h_alloc_frame(1) [OF a] assms(2) by (simp add: all_granted_def)
  obtain e h2 ud where i: "arch_init_fun ?a b ab h1 (new_struct ?a mode) = Some (e, h2, ud)"
    using arch_init_granted [OF ok1(1) g1, of ?a b ab "new_struct ?a mode"] by (metis surj_pair)
  have e: "e = (if mode_accepted ?a mode then CS_ERR_OK else CS_ERR_MODE)"
    using arch_init_err [OF ok1(1) g1 _ i] True by blast
  have fr: "e \<noteq> CS_ERR_OK \<Longrightarrow> \<exists>h3. h_free h2 p = Some h3"
    using arch_init_result [OF ok1(1) i] ok1(2) h_free_ok [of h2 p] by (auto simp: init_post_def)
  show ?thesis
    using cs_open_enabled [OF ok, of arch b mode ab hnd] True a p i e fr by (auto split: if_splits)
qed

text \<open>
  C13. \<^verbatim>\<open>cs_open\<close> classifies its arguments before it takes memory: an unknown or disabled
  architecture gives \<^verbatim>\<open>CS_ERR_ARCH\<close>, a mode bit the architecture does not allow gives
  \<^verbatim>\<open>CS_ERR_MODE\<close>, and otherwise, with memory, success depends only on whether the
  architecture accepts the mode.
\<close>

theorem cs_open_result:
  assumes "world_ok w" "all_granted (w_heap w)"
  shows "\<exists>w' csh. cs_open b ab w arch mode hnd = Some (w',
    (if arch < CS_ARCH_MAX \<and> b_archs b (cs_archs ! arch)
     then if mode_accepted (cs_archs ! arch) mode then CS_ERR_OK else CS_ERR_MODE
     else CS_ERR_ARCH), csh)"
  by (rule cs_open_outcome [OF assms])

theorem cs_open_result_witness:
  "\<exists>w csh w' csh'. cs_open full_build lp64 fresh_world 11 0 0 = Some (w, CS_ERR_OK, csh) \<and>
     cs_open full_build lp64 fresh_world 11 1 0 = Some (w', CS_ERR_MODE, csh')"
  using cs_open_result [OF fresh_world_ok, of full_build lp64 11 0 0] cs_open_result [OF fresh_world_ok, of full_build lp64 11 1 0]
  by (simp add: fresh_world_def fresh_granted full_build_def mode_accepted_def cs_archs_def)

text \<open>
  C9. Whatever \<^verbatim>\<open>cs_open\<close> returns, no memory is lost: an error leaves the live blocks and
  the open handles as they were, and a success followed by \<^verbatim>\<open>cs_close\<close> restores both. This
  holds for all thirteen architectures and any allocation failures.
\<close>

theorem open_close_no_leak:
  assumes "world_ok w" "cs_open b ab w arch mode hnd = Some (w', e, csh)"
  shows "world_ok w' \<and>
    (if e = CS_ERR_OK
     then \<exists>w''. cs_close w' csh = Some (w'', CS_ERR_OK, 0) \<and> world_ok w'' \<and>
       w_handles w'' = w_handles w \<and> h_live (w_heap w'') = h_live (w_heap w)
     else w_handles w' = w_handles w \<and> h_live (w_heap w') = h_live (w_heap w))"
proof -
  note post = cs_open_post [OF assms]
  show ?thesis
  proof (cases "e = CS_ERR_OK")
    case True
    with post obtain ud where u: "world_ok w'" "w_handles w csh = None" "w_handles w' = (w_handles w)(csh \<mapsto> ud)"
      "h_live (w_heap w') |` (- set (owned csh ud)) = h_live (w_heap w)" by (auto simp: open_post_def)
    from cs_close_post [OF u(1), of csh ud] u(3) obtain w'' where
      "cs_close w' csh = Some (w'', CS_ERR_OK, 0)" "world_ok w''" "w_handles w'' = (w_handles w')(csh := None)"
      "h_live (w_heap w'') = h_live (w_heap w') |` (- set (owned csh ud))" by auto
    with u True show ?thesis by auto
  qed (use post in \<open>simp add: open_post_def\<close>)
qed

theorem open_close_no_leak_witness:
  "\<exists>w. cs_close evm_world 1 = Some (w, CS_ERR_OK, 0) \<and> h_live (w_heap w) = Map.empty"
  using open_close_no_leak [OF fresh_world_ok opened_worlds(1)] by (auto simp: fresh_world_def fresh_heap_def)

text \<open>
  C39. Nine constructors write through the block of the register information without testing it:
  when the handle is allocated but that second allocation fails, \<^verbatim>\<open>cs_open\<close> writes through a
  null pointer instead of returning \<^verbatim>\<open>CS_ERR_MEM\<close>.
\<close>

theorem cs_open_unchecked_malloc:
  assumes "world_ok w" "unchecked_mri a" "b_archs b a" "mode AND arch_mode_mask a = 0"
    "h_grant (w_heap w) (h_calls (w_heap w))" "\<not> h_grant (w_heap w) (Suc (h_calls (w_heap w)))"
  shows "cs_open b ab w (arch_num a) mode hnd = None"
proof -
  have ok: "heap_ok (w_heap w)" by (rule world_heap_ok [OF assms(1)])
  obtain p h1 where a: "h_alloc (w_heap w) (sz_cs_struct ab) = (p, h1)" by fastforce
  have p: "p \<noteq> 0" using ok assms(5) a by (auto simp: h_alloc_def heap_ok_def heap_wf_def)
  have own: "owns (h_live (w_heap w)) h1 {p}" using owns_alloc(2) [OF owns_init [OF ok] a p] by simp
  have "\<not> h_grant h1 (h_calls h1)" using a assms(5,6) by (auto simp: h_alloc_def)
  with arch_init_refused [OF owns_heap [OF own] _ assms(2)]
  have "arch_init_fun a b ab h1 (new_struct a mode) = None" by blast
  with cs_open_enabled [OF ok, of "arch_num a" b mode ab hnd] assms(3,4) a p show ?thesis
    by (simp add: cs_archs_nth arch_num_less)
qed

theorem cs_open_unchecked_malloc_witness:
  "cs_open full_build lp64 (fresh_world\<lparr>w_heap := poor_heap\<rparr>) (arch_num CS_ARCH_ARM64) 0 0 = None"
proof -
  have "world_ok (fresh_world\<lparr>w_heap := poor_heap\<rparr>)" using poor_heap_ok by (simp add: world_ok_def fresh_world_def)
  then show ?thesis
    by (rule cs_open_unchecked_malloc)
       (simp_all add: unchecked_mri_def full_build_def poor_heap_def fresh_heap_def)
qed

end
