(* ===== verification/Disasm_Props.thy ===== *)
theory Disasm_Props
  imports Engine_Props
begin

text \<open>
  The properties of disassembling: \<^verbatim>\<open>cs_disasm\<close>, \<^verbatim>\<open>cs_disasm_iter\<close>,
  \<^verbatim>\<open>cs_malloc\<close>, \<^verbatim>\<open>cs_free\<close> and the client, for a handle of one of the two modelled
  architectures, and what every sequence of calls keeps.
\<close>

section \<open>The modelled handles\<close>

definition describes :: "arch_desc \<Rightarrow> cs_struct \<Rightarrow> bool" where
  "describes D ud \<longleftrightarrow> D = evm_desc \<and> evm_handle ud \<or> D = mos_desc \<and> mos_handle ud"

lemma describes_new: "describes evm_desc evm_new" "describes mos_desc mos_new"
  using evm_arch.handle0 mos_arch.handle0 by (simp_all add: describes_def)

lemma disasm_ok:
  assumes "world_ok w" "w_handles w csh = Some ud" "describes D ud" "skip_ok ud"
    "ud_detail ud \<noteq> 0 \<longrightarrow> all_granted (w_heap w)" "junk_ok (e_junk E)" "length code < 2 ^ 29"
  obtains h ud' c out where "cs_disasm E w csh code address count = Some (set_handle w csh h ud', c, out)"
    "disasm_post D E (w_heap w) (h_live (w_heap w)) (reset_ud ud) count code address h ud' c out"
  using assms(3) evm_backend.cs_disasm_ok [OF assms(1,2) _ assms(4-7), of address count]
    mos_backend.cs_disasm_ok [OF assms(1,2) _ assms(4-7), of address count]
  unfolding describes_def backend_descs by blast

lemma iter_ok:
  assumes "world_ok w" "w_handles w csh = Some ud" "describes D ud" "skip_ok ud" "insn_wf insn"
    "ud_detail ud \<noteq> 0 \<longrightarrow> in_detail insn \<noteq> None" "junk_ok (e_junk E)"
  shows "\<exists>i. insn_wf i \<and> map_option fst (in_detail i) = map_option fst (in_detail insn) \<and>
    (case next_view D ud code 0 code address of
       None \<Rightarrow> cs_disasm_iter E w csh code address insn = Some (store_err w csh ud CS_ERR_OK, False, code, address, i)
     | Some (v, n) \<Rightarrow> 0 < n \<and> n \<le> length code \<and> view i = v \<and> cs_disasm_iter E w csh code address insn =
         Some (store_err w csh ud CS_ERR_OK, True, drop n code, address + of_nat n, i))"
  using assms(3) evm_backend.cs_disasm_iter_ok [OF assms(1,2) _ assms(4-7), of code address]
    mos_backend.cs_disasm_iter_ok [OF assms(1,2) _ assms(4-7), of code address]
  unfolding describes_def backend_descs store_err_def by blast

lemma handle_nonzero: "world_ok w \<Longrightarrow> w_handles w csh = Some ud \<Longrightarrow> csh \<noteq> 0"
  using world_okD [of w csh ud] live_nonzero owned_self by blast

section \<open>Disassembling at once\<close>



text \<open>
  C10. The array of \<^verbatim>\<open>cs_disasm\<close> and the details of its records are exactly what
  \<^verbatim>\<open>cs_free\<close> of the array releases: after the two calls the live blocks are those of before.
\<close>

theorem cs_disasm_free_no_leak:
  assumes "world_ok w" "w_handles w csh = Some ud" "describes D ud" "skip_ok ud"
    "ud_detail ud \<noteq> 0 \<longrightarrow> all_granted (w_heap w)" "junk_ok (e_junk E)" "length code < 2 ^ 29"
    "cs_disasm E w csh code address count = Some (w', c, Array p insns)"
  shows "\<exists>w''. cs_free w' p insns c = Some w'' \<and> world_ok w'' \<and> h_live (w_heap w'') = h_live (w_heap w) \<and>
    dom (w_handles w'') = dom (w_handles w)"
proof -
  obtain h ud' where w': "w' = set_handle w csh h ud'"
    and post: "disasm_post D E (w_heap w) (h_live (w_heap w)) (reset_ud ud) count code address h ud' c (Array p insns)"
    using disasm_ok [OF assms(1-7), of address count] assms(8) by auto
  let ?B = "insert p (set (detail_blocks insns))"
  have o: "owns (h_live (w_heap w)) (w_heap w') ?B" "p \<notin> set (detail_blocks insns)"
    "distinct (detail_blocks insns)" "c = length insns" "owned csh ud' = owned csh ud"
    using post by (simp_all add: disasm_post_def w')
  from cs_free_ok [OF o(1-3)] o(4) obtain h2 where f: "cs_free w' p insns c = Some (w'\<lparr>w_heap := h2\<rparr>)"
    "heap_ok h2" "h_live h2 = h_live (w_heap w)" by auto
  have ok: "world_ok w'" unfolding w' by (rule disasm_world_ok [OF assms(1,2) post])
  have "?B \<subseteq> loose w'" using loose_owns(1) [OF assms(1,2) o(5)] o(1) by (auto simp: w')
  moreover have "h_live h2 = h_live (w_heap w') |` (- ?B)" using o(1) f(3) by (simp add: owns_def)
  ultimately have "world_ok (w'\<lparr>w_heap := h2\<rparr>)" using world_ok_release(1) [OF ok f(2)] by blast
  with f assms(2) show ?thesis by (auto simp: w' set_handle_def)
qed

theorem cs_disasm_free_no_leak_witness:
  "\<exists>w c p insns w'. cs_disasm sample_env mos_world 1 [0xA9, 0x01] 0 0 = Some (w, c, Array p insns) \<and>
     cs_free w p insns c = Some w' \<and> h_live (w_heap w') = h_live (w_heap mos_world)"
proof -
  have nz: "expected mos_desc (reset_ud mos_new) 0 [0xA9, 0x01] 0 \<noteq> []" by code_simp
  have g: "ud_detail mos_new \<noteq> 0 \<longrightarrow> all_granted (w_heap mos_world)" using mos_world_ok(3) by simp
  have len: "length [0xA9, 0x01 :: u8] < 2 ^ 29" by simp
  obtain h ud c out where r: "cs_disasm sample_env mos_world 1 [0xA9, 0x01] 0 0 = Some (set_handle mos_world 1 h ud, c, out)"
    "disasm_post mos_desc sample_env (w_heap mos_world) (h_live (w_heap mos_world)) (reset_ud mos_new) 0 [0xA9, 0x01] 0 h ud c out"
    by (rule disasm_ok [OF mos_world_ok(1,2) describes_new(2) new_skip_ok(2) g sample_env_ok len])
  from r(2) nz mos_world_ok(3) obtain p insns where o: "out = Array p insns"
    by (cases out) (auto simp: disasm_post_def)
  from cs_disasm_free_no_leak [OF mos_world_ok(1,2) describes_new(2) new_skip_ok(2) g sample_env_ok len r(1) [unfolded o]]
    mos_world_ok(3) r(1) o show ?thesis by auto
qed

section \<open>Step by step\<close>

text \<open>
  C3. One call of \<^verbatim>\<open>cs_disasm_iter\<close> delivers the next record of the abstract
  disassembler and moves the code, its length and the address past the bytes of that record, at
  least one and never more than there are; or it returns false with code and address unchanged. It
  allocates nothing, keeps the block of the details, and always resets the error.
\<close>

theorem cs_disasm_iter_correct:
  assumes "world_ok w" "w_handles w csh = Some ud" "describes D ud" "skip_ok ud" "insn_wf insn"
    "ud_detail ud \<noteq> 0 \<longrightarrow> in_detail insn \<noteq> None" "junk_ok (e_junk E)"
  shows "\<exists>w' i. world_ok w' \<and> w_heap w' = w_heap w \<and> cs_errno w' csh = Some CS_ERR_OK \<and>
    detail_addr i = detail_addr insn \<and>
    (case next_view D ud code 0 code address of
       None \<Rightarrow> cs_disasm_iter E w csh code address insn = Some (w', False, code, address, i)
     | Some (v, n) \<Rightarrow> 0 < n \<and> n \<le> length code \<and> view i = v \<and>
         cs_disasm_iter E w csh code address insn = Some (w', True, drop n code, address + of_nat n, i))"
proof -
  let ?w = "store_err w csh ud CS_ERR_OK"
  obtain i where i: "map_option fst (in_detail i) = map_option fst (in_detail insn)"
    "case next_view D ud code 0 code address of
       None \<Rightarrow> cs_disasm_iter E w csh code address insn = Some (?w, False, code, address, i)
     | Some (v, n) \<Rightarrow> 0 < n \<and> n \<le> length code \<and> view i = v \<and>
         cs_disasm_iter E w csh code address insn = Some (?w, True, drop n code, address + of_nat n, i)"
    using iter_ok [OF assms, of code address] by blast
  have "detail_addr i = detail_addr insn" using i(1) by (simp add: detail_addr_fst)
  moreover have "world_ok ?w" by (rule store_err_ok(1) [OF assms(1,2)])
  moreover have "w_heap ?w = w_heap w" by (simp add: store_err_def)
  moreover have "cs_errno ?w csh = Some CS_ERR_OK" by (rule cs_errno_store_err [OF handle_nonzero [OF assms(1,2)]])
  ultimately show ?thesis using i(2) by blast
qed

theorem cs_disasm_iter_correct_witness:
  "\<exists>w i. cs_disasm_iter sample_env mos_world 1 [0xA9, 0x01, 0x60] 0x10 blank_insn = Some (w, True, [0x60], 0x12, i) \<and>
     cstr (in_mnemonic i) = ''lda'' \<and> cstr (in_op_str i) = ''#$0x01''"
proof -
  have v: "map_option (\<lambda>(v, n). (v_mnemonic v, v_op_str v, n))
      (next_view mos_desc mos_new [0xA9, 0x01, 0x60] 0 [0xA9, 0x01, 0x60] 0x10) = Some (''lda'', ''#$0x01'', 2)"
    by code_simp
  then obtain v where nv: "next_view mos_desc mos_new [0xA9, 0x01, 0x60] 0 [0xA9, 0x01, 0x60] 0x10 = Some (v, 2)"
    "v_mnemonic v = ''lda''" "v_op_str v = ''#$0x01''" by auto
  have d: "ud_detail mos_new \<noteq> 0 \<longrightarrow> in_detail blank_insn \<noteq> None"
    by (simp add: mos_new_def new_struct_def zero_struct_def)
  from cs_disasm_iter_correct [OF mos_world_ok(1,2) describes_new(2) new_skip_ok(2) blank_insn_wf d sample_env_ok,
      of "[0xA9, 0x01, 0x60]" "0x10"] nv show ?thesis by (auto simp: view_def)
qed





section \<open>What is kept of the input\<close>




definition skipping :: "cs_struct \<Rightarrow> cs_struct" where
  "skipping ud = ud\<lparr>ud_skipdata := True, ud_skipdata_size := 1\<rparr>"




text \<open>
  A push of 24 bytes or more: the engine moves on by the whole instruction, but the record
  reports the size 24 and holds the last 24 bytes, so neither its opcode byte nor its end can be
  told from the record.
\<close>

lemma EVM_push_truncated:
  assumes "world_ok w" "w_handles w csh = Some ud" "evm_handle ud" "skip_ok ud" "insn_wf insn"
    "ud_detail ud \<noteq> 0 \<longrightarrow> in_detail insn \<noteq> None" "junk_ok (e_junk E)"
    "0x77 \<le> b" "b \<le> 0x7f" "n = unat b - 0x5f" "n \<le> length bs"
  shows "\<exists>w' i. cs_disasm_iter E w csh (b # bs) address insn = Some (w', True, drop n bs, address + 1 + of_nat n, i) \<and>
    in_size i = 24 \<and> 24 < 1 + n \<and> in_bytes i = drop (n - 23) (b # take n bs)"
proof -
  have D: "describes evm_desc ud" using assms(3) by (simp add: describes_def)
  have b: "0x77 \<le> unat b" "unat b \<le> 0x7f" using assms(8,9) by (simp_all add: word_le_nat_alt)
  have pl: "evm_push_len b = n" using b assms(10) by (simp add: evm_push_len_def word_le_nat_alt)
  have n: "24 \<le> n" "n \<le> 32" using b assms(10) by auto
  have "list_all (\<lambda>k. opcodes ! k \<noteq> - 1) [0x77..<0x80]" by code_simp
  then have "evm_defined b" using b unfolding evm_defined_def list_all_iff set_upt by auto
  then have ok: "evm_valid (b # bs)" using pl assms(11) by (simp add: evm_valid_def)
  have nv: "next_view evm_desc ud (b # bs) 0 (b # bs) address =
      Some (decode_view evm_desc ud (b # bs) address, Suc n)"
    using ok pl by (simp add: next_view_def evm_desc_def evm_insn_len_def)
  from iter_ok [OF assms(1,2) D assms(4-7), of "b # bs" address] nv obtain i where
    i: "insn_wf i" "view i = decode_view evm_desc ud (b # bs) address"
      "cs_disasm_iter E w csh (b # bs) address insn =
        Some (store_err w csh ud CS_ERR_OK, True, drop n bs, address + of_nat (Suc n), i)" by auto
  have v: "v_size (view i) = 24" "v_bytes (view i) = drop (n - 23) (b # take n bs)"
    using n pl by (simp_all add: i(2) decode_view_def evm_desc_def evm_insn_len_def)
  then show ?thesis using i(1,3) n by (auto simp: view_def insn_wf_def add.assoc)
qed

section \<open>SKIPDATA setups that are not safe\<close>

lemma rejected_iter:
  assumes "world_ok w" "w_handles w csh = Some ud" "describes D ud" "\<not> a_valid D code" "insn_wf insn"
    "junk_ok (e_junk E)" "skip_bytes ud code code 0 = Some n"
  shows "\<exists>i0. insn_wf i0 \<and> cs_disasm_iter E w csh code address insn =
    map_option (\<lambda>i. (store_err w csh ud CS_ERR_OK, True, drop n code, address + of_nat n, i))
      (emit_data (ud\<lparr>ud_errnum := CS_ERR_OK\<rparr>) i0 code address n)"
proof -
  let ?u = "ud\<lparr>ud_errnum := CS_ERR_OK\<rparr>"
  define mci where "mci = (MCInst_Init (j_mci (e_junk E)))\<lparr>mi_address := address,
      mi_flat_insn := insn\<lparr>in_address := address\<rparr>\<rparr>"
  have wf: "mci_wf mci" using assms(5,6) MCInst_Init_wf [of "j_mci (e_junk E)"]
    by (simp add: mci_def mci_wf_def insn_wf_def junk_ok_def)
  have u: "evm_handle ud \<Longrightarrow> evm_handle ?u" "mos_handle ud \<Longrightarrow> mos_handle ?u"
    by (simp_all add: evm_handle_def mos_handle_def)
  have "\<exists>MI' sz'. call_disasm (e_back E) ?u code mci (j_size (e_junk E)) address = Some (False, MI', sz', ?u) \<and> mci_wf MI'"
    using assms(3,4) evm_backend.reject [OF u(1) wf, of code "e_back E" "j_size (e_junk E)" address]
      mos_backend.reject [OF u(2) wf, of code "e_back E" "j_size (e_junk E)" address]
    unfolding describes_def evm_desc_def mos_desc_def by auto
  then obtain MI' sz' where r: "call_disasm (e_back E) ?u code mci (j_size (e_junk E)) address = Some (False, MI', sz', ?u)"
    "mci_wf MI'" by blast
  have "skip_bytes ?u code code 0 = Some n" 
    using assms(7) unfolding skip_bytes_def by (simp cong: option.case_cong if_cong)
  then have "cs_disasm_iter E w csh code address insn =
      map_option (\<lambda>i. (store_err w csh ud CS_ERR_OK, True, drop n code, address + of_nat n, i))
        (emit_data ?u (mi_flat_insn MI') code address n)"
    using handle_nonzero [OF assms(1,2)] assms(2) r(1)
    by (simp add: cs_disasm_iter_def get_handle_def mci_def [symmetric] store_err_def map_conv_bind_option comp_def)
  moreover have "insn_wf (mi_flat_insn MI')" using r(2) by (simp add: mci_wf_def)
  ultimately show ?thesis by blast
qed

text \<open>
  C40. Skipping data is undefined when the callback asks for more than the 24 bytes of a record, which
  \<^verbatim>\<open>memcpy\<close> writes past the end of the array, or when the setup has a null mnemonic, which
  \<^verbatim>\<open>strncpy\<close> reads. The engine checks neither.
\<close>

theorem skipdata_undefined:
  assumes "world_ok w" "w_handles w csh = Some ud" "describes D ud" "\<not> a_valid D code" "insn_wf insn"
    "junk_ok (e_junk E)" "skip_bytes ud code code 0 = Some n"
    "24 < n \<or> sk_mnemonic (ud_skipdata_setup ud) = None"
  shows "cs_disasm_iter E w csh code address insn = None"
proof -
  obtain i0 where m: "insn_wf i0" "cs_disasm_iter E w csh code address insn =
      map_option (\<lambda>i. (store_err w csh ud CS_ERR_OK, True, drop n code, address + of_nat n, i))
        (emit_data (ud\<lparr>ud_errnum := CS_ERR_OK\<rparr>) i0 code address n)"
    using rejected_iter [OF assms(1-7), of address] by blast
  have "cwrite (in_bytes i0) 0 (take n code) = None" if "24 < n" "n \<le> length code"
    using that m(1) by (simp add: cwrite_def insn_wf_def)
  then show ?thesis using m(2) assms(8)
    by (auto simp: emit_data_def Let_def need_bind split: bind_splits)
qed

definition greedy :: "cs_struct \<Rightarrow> cs_struct" where
  "greedy ud = (skipping ud)\<lparr>ud_skipdata_setup := \<lparr>sk_mnemonic = Some ''db'',
     sk_callback = Some (\<lambda>code pos u. length code), sk_user_data = 0\<rparr>\<rparr>"

theorem skipdata_undefined_witness:
  "cs_disasm_iter sample_env (set_handle mos_world 1 (w_heap mos_world) (greedy mos_new)) 1 (replicate 25 0x02) 0 blank_insn = None"
proof -
  have w: "world_ok (set_handle mos_world 1 (w_heap mos_world) (greedy mos_new))"
    by (rule world_ok_same_blocks [OF mos_world_ok(1,2)])
       (use world_okD(2) [OF mos_world_ok(1,2)] in
         \<open>simp_all add: greedy_def skipping_def handle_wf_def callable_def owned_def own_front_def own_back_def\<close>)
  have D: "describes mos_desc (greedy mos_new)"
    using mos_arch.handle0 by (simp add: describes_def greedy_def skipping_def mos_handle_def)
  have v: "\<not> a_valid mos_desc (replicate 25 0x02)" by code_simp
  have s: "skip_bytes (greedy mos_new) (replicate 25 0x02) (replicate 25 0x02) 0 = Some 25"
    by (simp add: skip_bytes_def greedy_def skipping_def)
  show ?thesis
    by (rule skipdata_undefined [OF w set_handle_sel(2) D v blank_insn_wf sample_env_ok s]) simp
qed

section \<open>Allocating a record\<close>

text \<open>
  \<^verbatim>\<open>cs_malloc\<close> delivers a record that \<^verbatim>\<open>cs_disasm_iter\<close> can fill, with a block
  for details exactly when the handle asks for them, and \<^verbatim>\<open>cs_free\<close> of it restores the live
  blocks; when memory runs out it returns null, keeps nothing and sets \<^verbatim>\<open>CS_ERR_MEM\<close>.
\<close>

lemma cs_malloc_correct:
  assumes "world_ok w" "w_handles w csh = Some ud" "junk_ok (e_junk E)"
  shows "\<exists>w' r. cs_malloc E w csh = Some (w', r) \<and>
    (case r of
       None \<Rightarrow> \<not> all_granted (w_heap w) \<and> h_live (w_heap w') = h_live (w_heap w) \<and> cs_errno w' csh = Some CS_ERR_MEM
     | Some (p, insn) \<Rightarrow> insn_wf insn \<and> (in_detail insn \<noteq> None \<longleftrightarrow> ud_detail ud \<noteq> 0) \<and>
         (\<exists>w''. cs_free w' p [insn] 1 = Some w'' \<and> h_live (w_heap w'') = h_live (w_heap w)))"
proof -
  obtain h ud' r where m: "cs_malloc E w csh = Some (set_handle w csh h ud', r)" "malloc_post E w ud h ud' r"
    using cs_malloc_post [OF assms(1,2), of E] by blast
  show ?thesis
  proof (cases r)
    case None
    then show ?thesis using m handle_nonzero [OF assms(1,2)]
      by (auto simp: malloc_post_def cs_errno_def get_handle_def)
  next
    case (Some pi)
    obtain p insn where pi: "pi = (p, insn)" by fastforce
    have o: "owns (h_live (w_heap w)) (w_heap (set_handle w csh h ud')) (insert p (set (detail_blocks [insn])))"
      "p \<notin> set (detail_blocks [insn])" "insn_wf insn" "in_detail insn \<noteq> None \<longleftrightarrow> ud_detail ud \<noteq> 0"
      using m(2) Some pi assms(3) by (auto simp: malloc_post_def)
    have "distinct (detail_blocks [insn])" by (simp add: detail_blocks_def)
    from cs_free_ok [OF o(1,2) this] m(1) o(3,4) Some pi show ?thesis by auto
  qed
qed

section \<open>Sequences of calls\<close>

lemma world_finite: "world_ok w \<Longrightarrow> finite (dom (w_handles w))"
proof -
  assume w: "world_ok w"
  have "dom (w_handles w) \<subseteq> dom (h_live (w_heap w))" using world_okD(4) [OF w] owned_self by blast
  also have "\<dots> \<subseteq> {..<h_next (w_heap w)}" using world_heap_ok [OF w] by (auto simp: heap_ok_def heap_wf_def)
  finally show ?thesis by (rule finite_subset) simp
qed

lemma reachable_ok: "reachable b E s \<Longrightarrow> junk_ok (e_junk E) \<Longrightarrow> session_ok s"
  by (induction rule: reachable.induct) (auto intro: initial_ok api_step_ok)

lemma session_close:
  assumes "session_ok s" "w_handles (s_world s) csh = Some ud"
  obtains w where "cs_close (s_world s) csh = Some (w, CS_ERR_OK, 0)" "w_handles w = (w_handles (s_world s))(csh := None)"
  using assms cs_close_post [of "s_world s" csh ud] by (auto simp: session_ok_def)

lemma session_free:
  assumes "session_ok s" "(p, insns) \<in> set (s_held s)"
  obtains w where "cs_free (s_world s) p insns (length insns) = Some w" "w_handles w = w_handles (s_world s)"
proof -
  have "distinct (held_blocks (p, insns))" using assms by (auto simp: session_ok_def distinct_concat_iff)
  moreover have "set (held_blocks (p, insns)) \<subseteq> loose (s_world s)" using assms by (auto simp: session_ok_def)
  ultimately show thesis using assms(1) cs_free_held [of "s_world s" p insns] that by (auto simp: session_ok_def)
qed

lemma session_empty: "session_ok s \<Longrightarrow> w_handles (s_world s) = Map.empty \<Longrightarrow> s_held s = [] \<Longrightarrow>
    h_live (w_heap (s_world s)) = Map.empty"
  by (simp add: session_ok_def loose_def owned_set_def dom_def fun_eq_iff)


definition sample_session :: session where
  "sample_session = \<lparr>s_world = evm_world, s_held = []\<rparr>"

lemma sample_reachable: "reachable full_build sample_env sample_session"
proof -
  let ?s = "\<lparr>s_world = fresh_world, s_held = []\<rparr>"
  have "reachable full_build sample_env ?s"
    using fresh_heap_ok by (intro reachable.start) (simp add: initial_def fresh_world_def, simp add: fresh_heap_def)
  moreover have "api_step full_build sample_env ?s sample_session"
    using api_step.Open [of full_build sample_env ?s] opened_worlds(1) by (simp add: sample_env_def sample_session_def)
  ultimately show ?thesis by (rule reachable.call)
qed


text \<open>
  C14. The caller can always shut down: from every reachable state some sequence of further calls
  leads to a state with no handle, nothing held and no live block.
\<close>

theorem shutdown_possible:
  assumes "reachable b E s" "junk_ok (e_junk E)"
  shows "\<exists>s'. (api_step b E)\<^sup>*\<^sup>* s s' \<and> w_handles (s_world s') = Map.empty \<and> s_held s' = [] \<and>
    h_live (w_heap (s_world s')) = Map.empty"
  using assms(1)
proof (induction "card (dom (w_handles (s_world s))) + length (s_held s)" arbitrary: s rule: less_induct)
  case less
  have ok: "session_ok s" by (rule reachable_ok [OF less.prems assms(2)])
  have fin: "finite (dom (w_handles (s_world s)))" using ok by (intro world_finite) (simp add: session_ok_def)
  show ?case
  proof (cases "s_held s")
    case (Cons x B)
    obtain p insns where x: "x = (p, insns)" by fastforce
    obtain w where w: "cs_free (s_world s) p insns (length insns) = Some w" "w_handles w = w_handles (s_world s)"
      using session_free [OF ok, of p insns] Cons x by auto
    let ?s = "s\<lparr>s_world := w, s_held := B\<rparr>"
    have st: "api_step b E s ?s" using api_step.Free [of s "[]" p insns B w] Cons x w(1) by simp
    from less.hyps [of ?s] reachable.call [OF less.prems st] Cons w(2) st show ?thesis
      by (auto intro: converse_rtranclp_into_rtranclp)
  next
    case Nil
    show ?thesis
    proof (cases "w_handles (s_world s) = Map.empty")
      case True
      then show ?thesis using Nil session_empty [OF ok] by auto
    next
      case False
      then obtain csh ud where h: "w_handles (s_world s) csh = Some ud" by fastforce
      obtain w where w: "cs_close (s_world s) csh = Some (w, CS_ERR_OK, 0)"
        "w_handles w = (w_handles (s_world s))(csh := None)" by (rule session_close [OF ok h])
      let ?s = "s\<lparr>s_world := w\<rparr>"
      have st: "api_step b E s ?s" by (rule api_step.Close [OF w(1)])
      have "card (dom (w_handles (s_world ?s))) < card (dom (w_handles (s_world s)))"
        using h fin card_Diff1_less [of "dom (w_handles (s_world s))" csh] by (simp add: w(2) domI)
      from less.hyps [of ?s] reachable.call [OF less.prems st] this Nil st show ?thesis
        by (auto intro: converse_rtranclp_into_rtranclp)
    qed
  qed
qed

theorem shutdown_possible_witness:
  "\<exists>s. (api_step full_build sample_env)\<^sup>*\<^sup>* sample_session s \<and> h_live (w_heap (s_world s)) = Map.empty"
  using shutdown_possible [OF sample_reachable sample_env_ok] by blast

end
