(* ===== verification/Query_Props.thy ===== *)
theory Query_Props
  imports Disasm_Props
begin

text \<open>
  The properties of the options, of the text of a record, of the queries, of the instruction bank
  of the client and of the register descriptions.
\<close>

section \<open>Options\<close>

text \<open>Setting custom mnemonics one after the other.\<close>

fun set_mnemonics :: "build \<Rightarrow> abi \<Rightarrow> char list \<Rightarrow> nat \<Rightarrow> world \<Rightarrow> cs_opt_mnem list \<Rightarrow> world option" where
  "set_mnemonics b ab junk csh w [] = Some w"
| "set_mnemonics b ab junk csh w (opt # opts) = do {
     (w, e) \<leftarrow> cs_option b ab junk w csh CS_OPT_MNEMONIC (V_mnem opt);
     set_mnemonics b ab junk csh w opts }"

lemma opt_mnemonic_runs:
  assumes "world_ok w" "w_handles w csh = Some ud" "opt_mnem_text_ok opt" "length junk = CS_MNEMONIC_SIZE"
    "all_granted (w_heap w)"
  shows "\<exists>h ud'. opt_mnemonic ab junk (w_heap w) ud opt = Some (h, ud')"
proof (cases "om_id opt = 0")
  case False
  note ok = world_okD [OF assms(1,2)]
  show ?thesis
  proof (cases "om_mnemonic opt")
    case None
    from opt_mnemonic_delete [OF ok(1,2) False None, of ab junk] ok(3,4) show ?thesis by (auto simp: owned_def)
  next
    case (Some s)
    have "NUL \<notin> set s" using assms(3) Some by (simp add: opt_mnem_text_ok_def)
    from opt_mnemonic_set [OF ok(1,2) False Some this assms(4), of ab] assms(5) show ?thesis
      by (auto simp: all_granted_def)
  qed
qed (simp add: opt_mnemonic_def)

lemma opt_mnemonic_frame:
  "opt_mnemonic ab junk h ud opt = Some (h', ud') \<Longrightarrow> h_grant h' = h_grant h \<and> ud' = ud\<lparr>ud_mnem_list := ud_mnem_list ud'\<rparr>"
  by (auto simp: opt_mnemonic_def h_malloc_def split: if_splits option.splits bind_splits prod.splits
      dest: h_alloc_frame(1) [OF sym] h_alloc_frame)

text \<open>
  C12. The linked list of custom mnemonics implements a map from instruction ids to texts: after
  any sequence of \<^verbatim>\<open>CS_OPT_MNEMONIC\<close> options the list looks up what the same updates of the
  map give, texts cut to 31 characters, a null text removing the entry and the id 0 being ignored;
  the library's invariant holds and the rest of the handle is untouched.
\<close>

theorem custom_mnemonics_refine_map:
  assumes "world_ok w" "w_handles w csh = Some ud" "list_all opt_mnem_text_ok opts"
    "length junk = CS_MNEMONIC_SIZE" "all_granted (w_heap w)"
  shows "\<exists>w' ud'. set_mnemonics b ab junk csh w opts = Some w' \<and> world_ok w' \<and>
    w_handles w' = (w_handles w)(csh \<mapsto> ud') \<and> ud' = ud\<lparr>ud_mnem_list := ud_mnem_list ud'\<rparr> \<and>
    mnem_lookup (ud_mnem_list ud') = fold (\<lambda>opt f. mnem_update f opt) opts (mnem_lookup (ud_mnem_list ud))"
  using assms
proof (induction opts arbitrary: w ud)
  case Nil
  then show ?case by (auto intro!: exI [of _ ud] simp: map_upd_triv)
next
  case (Cons opt opts)
  have opt: "opt_mnem_text_ok opt" using Cons.prems(3) by simp
  from opt_mnemonic_runs [OF Cons.prems(1,2) opt Cons.prems(4,5), of ab] obtain h ud1 where
    r: "opt_mnemonic ab junk (w_heap w) ud opt = Some (h, ud1)" by blast
  let ?w = "set_handle w csh h ud1"
  note ok = opt_mnemonic_world [OF Cons.prems(1,2) opt Cons.prems(4) r]
  note fr = opt_mnemonic_frame [OF r]
  have st: "cs_option b ab junk w csh CS_OPT_MNEMONIC (V_mnem opt) = Some (?w, CS_ERR_OK)"
    using handle_nonzero [OF Cons.prems(1,2)] Cons.prems(2) r by (simp add: cs_option_def get_handle_def)
  have "all_granted (w_heap ?w)" using fr Cons.prems(5) by (simp add: all_granted_def)
  moreover have "list_all opt_mnem_text_ok opts" using Cons.prems(3) by simp
  ultimately obtain w' ud' where
    i: "set_mnemonics b ab junk csh ?w opts = Some w'" "world_ok w'" "w_handles w' = (w_handles ?w)(csh \<mapsto> ud')"
      "ud' = ud1\<lparr>ud_mnem_list := ud_mnem_list ud'\<rparr>"
      "mnem_lookup (ud_mnem_list ud') = fold (\<lambda>opt f. mnem_update f opt) opts (mnem_lookup (ud_mnem_list ud1))"
    using Cons.IH [OF conjunct1 [OF ok] set_handle_sel(2) _ Cons.prems(4)] by blast
  have "ud' = ud\<lparr>ud_mnem_list := ud_mnem_list ud'\<rparr>"
    by (subst i(4), subst conjunct2 [OF fr]) simp
  moreover have "w_handles w' = (w_handles w)(csh \<mapsto> ud')" using i(3) by (simp add: set_handle_def)
  ultimately show ?case using st i(1,2,5) ok by (intro exI [of _ w'] exI [of _ ud'] conjI) simp_all
qed

theorem custom_mnemonics_refine_map_witness:
  "\<exists>w ud. set_mnemonics full_build lp64 (replicate 32 NUL) 1 evm_world
      [\<lparr>om_id = 1, om_mnemonic = Some ''plus''\<rparr>, \<lparr>om_id = 2, om_mnemonic = Some ''times''\<rparr>, \<lparr>om_id = 1, om_mnemonic = None\<rparr>] = Some w \<and>
     w_handles w 1 = Some ud \<and> mnem_lookup (ud_mnem_list ud) 2 = Some ''times'' \<and> mnem_lookup (ud_mnem_list ud) 1 = None"
  using custom_mnemonics_refine_map [OF evm_world_ok(1,2) _ _ evm_world_ok(3), where junk = "replicate 32 NUL" and
      opts = "[\<lparr>om_id = 1, om_mnemonic = Some ''plus''\<rparr>, \<lparr>om_id = 2, om_mnemonic = Some ''times''\<rparr>, \<lparr>om_id = 1, om_mnemonic = None\<rparr>]"
      and b = full_build and ab = lp64] evm_arch.ud0_facts(3)
  by (auto simp: opt_mnem_text_ok_def mnem_update_def)

text \<open>
  \<^verbatim>\<open>cs_option\<close> reports its errors without touching the library: the null handle gives
  \<^verbatim>\<open>CS_ERR_CSH\<close> for every option but the memory functions, and a mode with a bit that the
  architecture does not allow gives \<^verbatim>\<open>CS_ERR_OPTION\<close>, in every architecture.
\<close>

lemma cs_option_errors:
  assumes "world_ok w" "w_handles w csh = Some ud" "b_archs b (ud_arch ud)"
    "ty \<noteq> CS_OPT_MEM" "n AND ucast (arch_mode_mask (ud_arch ud)) \<noteq> 0"
  shows "cs_option b ab junk w 0 ty v = Some (w, CS_ERR_CSH) \<and>
    cs_option b ab junk w csh CS_OPT_MODE (V_num n) = Some (w, CS_ERR_OPTION)"
  using assms handle_nonzero [OF assms(1,2)]
  by (simp add: cs_option_def get_handle_def num_of_def cs_arch_disallowed_mode_mask_def)

section \<open>The text of a record\<close>



text \<open>
  C34. \<^verbatim>\<open>skipdata_opstr\<close> lists the skipped bytes as \<^verbatim>\<open>0x%02x\<close> separated by commas. The
  list is complete whenever it is shorter than the array of 160 characters, that is for up to 26
  bytes, and otherwise it is cut to 159; it never writes past the array.
\<close>

theorem skipdata_opstr_lists:
  assumes "0 < n" "n \<le> length buffer" "length opstr = 160"
  shows "\<exists>op. skipdata_opstr opstr buffer n = Some op \<and> length op = 160 \<and>
    cstr op = take 159 (byte_list (take n buffer)) \<and>
    (n \<le> 26 \<longrightarrow> cstr op = byte_list (take n buffer))"
proof -
  obtain op where op: "skipdata_opstr opstr buffer n = Some op" "length op = 160"
    "holds op (take 159 (byte_list (take n buffer)))" using skipdata_opstr_spec [OF assms] by blast
  have "take n buffer \<noteq> []" using assms by auto
  from length_byte_list [OF this] have "n \<le> 26 \<Longrightarrow> length (byte_list (take n buffer)) \<le> 159" using assms(2) by simp
  with op holds_cstr [OF op(3)] show ?thesis by auto
qed

theorem skipdata_opstr_lists_witness:
  "\<exists>op. skipdata_opstr (replicate 160 NUL) [0x02, 0xff] 2 = Some op \<and> cstr op = ''0x02, 0xff''"
proof -
  have "byte_list [0x02, 0xff] = ''0x02, 0xff''" by code_simp
  then show ?thesis using skipdata_opstr_lists [of 2 "[0x02, 0xff]" "replicate 160 NUL"] by auto
qed

section \<open>Queries about a record\<close>

text \<open>
  C32. The three membership queries: without details, for a skipped record or without a block of
  details they return false and store the matching error for \<^verbatim>\<open>cs_errno\<close>; otherwise they
  decide membership in the groups, the registers read and the registers written, by the counts the
  details carry, and leave the library as it is.
\<close>

theorem membership_queries:
  assumes "w_handles w csh = Some ud" "csh \<noteq> 0" "\<And>p d. in_detail insn = Some (p, d) \<Longrightarrow> counts_ok d"
  shows "(\<forall>p d. ud_detail ud \<noteq> 0 \<and> in_id insn \<noteq> 0 \<and> in_detail insn = Some (p, d) \<longrightarrow>
      cs_insn_group w csh insn x = Some (w, x \<in> ucast ` set (take (unat (d_groups_count d)) (d_groups d))) \<and>
      cs_reg_read w csh insn x = Some (w, x \<in> ucast ` set (take (unat (d_regs_read_count d)) (d_regs_read d))) \<and>
      cs_reg_write w csh insn x = Some (w, x \<in> ucast ` set (take (unat (d_regs_write_count d)) (d_regs_write d)))) \<and>
    (ud_detail ud = 0 \<or> in_id insn = 0 \<or> in_detail insn = None \<longrightarrow>
      (\<exists>w'. cs_errno w' csh = Some (if ud_detail ud \<noteq> 0 \<and> in_id insn = 0 then CS_ERR_SKIPDATA else CS_ERR_DETAIL) \<and>
        cs_insn_group w csh insn x = Some (w', False) \<and> cs_reg_read w csh insn x = Some (w', False) \<and>
        cs_reg_write w csh insn x = Some (w', False)))"
proof (intro conjI allI impI, goal_cases)
  case (1 p d)
  then have "detail_guard ud insn = Inr d" by (simp add: detail_guard_def)
  from cs_insn_group_iff [OF assms(1,2) this] 1 assms(3) show ?case by blast
next
  case (2 p d)
  then have "detail_guard ud insn = Inr d" by (simp add: detail_guard_def)
  from cs_reg_read_iff [OF assms(1,2) this] 2 assms(3) show ?case by blast
next
  case (3 p d)
  then have "detail_guard ud insn = Inr d" by (simp add: detail_guard_def)
  from cs_reg_write_iff [OF assms(1,2) this] 3 assms(3) show ?case by blast
next
  case 4
  let ?e = "if ud_detail ud \<noteq> 0 \<and> in_id insn = 0 then CS_ERR_SKIPDATA else CS_ERR_DETAIL"
  have g: "detail_guard ud insn = Inl ?e" using 4 by (auto simp: detail_guard_def)
  show ?case
    using assms(1,2) g cs_errno_store_err [OF assms(2)]
    by (intro exI [of _ "store_err w csh ud ?e"]) (simp add: cs_insn_group_def cs_reg_read_def cs_reg_write_def get_handle_def)
qed

definition grouped :: cs_insn where
  "grouped = blank_insn\<lparr>in_id := 7, in_detail := Some (5, blank_detail\<lparr>d_groups := [2, 1, 0, 0, 0, 0, 0, 0], d_groups_count := 1\<rparr>)\<rparr>"

definition detailed :: "cs_struct \<Rightarrow> world \<Rightarrow> world" where
  "detailed ud w = set_handle w 1 (w_heap w) (ud\<lparr>ud_detail := 3\<rparr>)"

lemma detailed_handle: "w_handles (detailed ud w) 1 = Some (ud\<lparr>ud_detail := 3\<rparr>)"
  unfolding detailed_def by (rule set_handle_sel(2))

theorem membership_queries_witness:
  "cs_insn_group (detailed mos_new mos_world) 1 grouped 2 = Some (detailed mos_new mos_world, True) \<and>
   cs_insn_group (detailed mos_new mos_world) 1 grouped 1 = Some (detailed mos_new mos_world, False)"
proof -
  have c: "\<And>p d. in_detail grouped = Some (p, d) \<Longrightarrow> counts_ok d"
    by (auto simp: grouped_def counts_ok_def blank_detail_def)
  have g: "in_id grouped \<noteq> 0" "in_detail grouped = Some (5, snd (the (in_detail grouped)))"
    "take (unat (d_groups_count (snd (the (in_detail grouped))))) (d_groups (snd (the (in_detail grouped)))) = [2]"
    by (simp_all add: grouped_def)
  show ?thesis
    using membership_queries [OF detailed_handle one_neq_zero c, where x = 2]
      membership_queries [OF detailed_handle one_neq_zero c, where x = 1] g by auto
qed

text \<open>
  The first opcode of the Ethereum machine has the id 0, so its records look like skipped data:
  with details on, the membership queries answer \<^verbatim>\<open>CS_ERR_SKIPDATA\<close> for a decoded
  \<^verbatim>\<open>STOP\<close>, although it has the group of halting instructions.
\<close>

lemma EVM_stop_is_skipdata:
  assumes "world_ok w" "w_handles w csh = Some ud" "evm_handle ud" "skip_ok ud" "insn_wf insn"
    "in_detail insn \<noteq> None" "ud_detail ud \<noteq> 0" "junk_ok (e_junk E)"
  shows "\<exists>w' i w''. cs_disasm_iter E w csh (0x00 # bs) address insn = Some (w', True, bs, address + 1, i) \<and>
    in_detail i \<noteq> None \<and> cs_insn_group w' csh i g = Some (w'', False) \<and> cs_errno w'' csh = Some CS_ERR_SKIPDATA"
proof -
  have D: "describes evm_desc ud" using assms(3) by (simp add: describes_def)
  have "evm_valid (0x00 # bs)" by (simp add: evm_valid_def evm_push_len_def evm_defined_def opcodes_def)
  then have nv: "next_view evm_desc ud (0x00 # bs) 0 (0x00 # bs) address = Some (decode_view evm_desc ud (0x00 # bs) address, 1)"
    by (simp add: next_view_def evm_desc_def evm_insn_len_def evm_push_len_def)
  from iter_ok [OF assms(1,2) D assms(4,5) _ assms(8), of "0x00 # bs" address] assms(6) nv obtain i where
    i: "map_option fst (in_detail i) = map_option fst (in_detail insn)"
      "view i = decode_view evm_desc ud (0x00 # bs) address"
      "cs_disasm_iter E w csh (0x00 # bs) address insn = Some (store_err w csh ud CS_ERR_OK, True, bs, address + 1, i)"
    by auto
  let ?u = "ud\<lparr>ud_errnum := CS_ERR_OK\<rparr>"
  have z: "in_id i = 0" using arg_cong [OF i(2), of v_id] by (simp add: view_def decode_view_def evm_desc_def)
  have "cs_insn_group (store_err w csh ud CS_ERR_OK) csh i g =
      Some (store_err (store_err w csh ud CS_ERR_OK) csh ?u CS_ERR_SKIPDATA, False)"
    using handle_nonzero [OF assms(1,2)] z assms(7)
    by (simp add: cs_insn_group_def get_handle_def store_err_def detail_guard_def)
  with i cs_errno_store_err [OF handle_nonzero [OF assms(1,2)]] assms(6) show ?thesis by auto
qed

lemma detailed_ok:
  assumes "world_ok w" "w_handles w 1 = Some ud"
  shows "world_ok (detailed ud w)"
  unfolding detailed_def
  by (rule world_ok_same_blocks [OF assms])
     (use world_okD(2) [OF assms] in \<open>simp_all add: handle_wf_def callable_def owned_def own_front_def own_back_def\<close>)

text \<open>
  C33. \<^verbatim>\<open>cs_op_count\<close> and \<^verbatim>\<open>cs_op_index\<close> agree, for every architecture: the count is
  the number of operands of the type, and for \<open>position\<close> from 1 to that count
  \<^verbatim>\<open>cs_op_index\<close> gives increasing indices of operands of the type, all of them; past the
  count it gives -1.
\<close>

theorem operand_queries_agree:
  assumes "w_handles w csh = Some ud" "csh \<noteq> 0" "detail_guard ud insn = Inr d" "ops_ok (ud_arch ud) d"
  shows "\<exists>w' L. cs_op_count w csh insn ty = Some (w', int (length L)) \<and> cs_errno w' csh = Some CS_ERR_OK \<and>
    sorted_wrt (<) L \<and>
    set L = {k. k < length (op_types (ud_arch ud) d) \<and> op_types (ud_arch ud) d ! k = ty} \<and>
    (\<forall>post > 0. cs_op_index w csh insn ty post =
       Some (w', if unat post \<le> length L then int (L ! (unat post - 1)) else -1))"
  using cs_op_count_eq [OF assms] cs_op_index_eq [OF assms] cs_errno_store_err [OF assms(2)]
  by (intro exI [of _ "store_err w csh ud CS_ERR_OK"] exI [of _ "positions ty (op_types (ud_arch ud) d)"])
     (simp add: Let_def positions_sorted set_positions)

definition two_registers :: cs_insn where
  "two_registers = blank_insn\<lparr>in_id := 7, in_detail := Some (5, blank_detail\<lparr>d_mos65xx :=
     \<lparr>mos_am = MOS65XX_AM_NONE, mos_modifies_flags = False, mos_op_count = 2,
      mos_operands = replicate 3 \<lparr>mop_type = MOS65XX_OP_REG, mop_raw = 0\<rparr>\<rparr>\<rparr>)\<rparr>"

theorem operand_queries_agree_witness:
  "\<exists>w (L :: nat list). cs_op_count (detailed mos_new mos_world) 1 two_registers 1 = Some (w, int (length L)) \<and>
     cs_op_index (detailed mos_new mos_world) 1 two_registers 1 3 = Some (w, -1)"
proof -
  let ?u = "mos_new\<lparr>ud_detail := 3\<rparr>" and ?d = "snd (the (in_detail two_registers))"
  have g: "detail_guard ?u two_registers = Inr ?d" by (simp add: detail_guard_def two_registers_def)
  have a: "ud_arch ?u = CS_ARCH_MOS65XX" by (simp add: mos_new_def new_struct_def zero_struct_def)
  have o: "ops_ok (ud_arch ?u) ?d" "length (op_types (ud_arch ?u) ?d) = 2"
    by (simp_all add: a ops_ok_def op_types_def detail_ops_def two_registers_def)
  obtain w L where r: "cs_op_count (detailed mos_new mos_world) 1 two_registers 1 = Some (w, int (length L))"
    "set L = {k. k < length (op_types (ud_arch ?u) ?d) \<and> op_types (ud_arch ?u) ?d ! k = 1}" "sorted_wrt (<) L"
    "cs_op_index (detailed mos_new mos_world) 1 two_registers 1 3 = Some (w, if 3 \<le> length L then int (L ! 2) else -1)"
    using operand_queries_agree [OF detailed_handle _ g o(1), of mos_world 1] by auto
  have "length L = card (set L)" using r(3) by (simp add: distinct_card strict_sorted_iff)
  also have "\<dots> \<le> card {..<2::nat}" unfolding r(2) o(2) by (intro card_mono) auto
  finally have "\<not> 3 \<le> length L" by simp
  with r(1,4) show ?thesis by (intro exI [of _ w] exI [of _ L]) simp
qed

section \<open>The instruction bank\<close>

text \<open>
  The bank of the client, one string and five parallel arrays, is a list of instructions: what
  is appended is found again at the next index, with the texts of the record, the earlier entries
  stay, and an index past the end has no entry.
\<close>

lemma bank_is_a_list:
  assumes "bank_holds bank L" "NUL \<in> set (in_mnemonic insn)" "NUL \<in> set (in_op_str insn)"
  shows "\<exists>bank'. appendInstruction bank insn addr = Some bank' \<and>
    bank_holds bank' (L @ [\<lparr>ci_mnemonic = cstr (in_mnemonic insn), ci_operand = cstr (in_op_str insn),
      ci_startAddr = addr, ci_size = in_size insn\<rparr>]) \<and>
    (\<forall>k. instructionAtIndex bank' k = (if k < length L then instructionAtIndex bank k
       else if k = length L then Some \<lparr>ci_mnemonic = cstr (in_mnemonic insn), ci_operand = cstr (in_op_str insn),
         ci_startAddr = addr, ci_size = in_size insn\<rparr> else None))"
proof -
  let ?e = "\<lparr>ci_mnemonic = cstr (in_mnemonic insn), ci_operand = cstr (in_op_str insn),
      ci_startAddr = addr, ci_size = in_size insn\<rparr>"
  obtain bank' where b: "appendInstruction bank insn addr = Some bank'" "bank_holds bank' (L @ [?e])"
    using append_holds [OF assms, of addr] by (auto simp: entry_of_def)
  have "instructionAtIndex bank' k = None" if "length L < k" for k
    using that b(2) by (cases "instructionAtIndex bank' k") (simp_all add: bank_holds_def at_index_Some)
  moreover have "instructionAtIndex bank' k = Some ((L @ [?e]) ! k)" if "k \<le> length L" for k
    using that b(2) by (simp add: bank_holds_def)
  moreover have "instructionAtIndex bank k = Some (L ! k)" if "k < length L" for k
    using that assms(1) by (simp add: bank_holds_def)
  ultimately show ?thesis using b by (intro exI [of _ bank']) (auto simp: nth_append)
qed

text \<open>
  C35. Every target of the application is one the engine accepts in a build that has the
  architecture: \<^verbatim>\<open>cs_open\<close> succeeds with its architecture and mode whenever memory allows,
  and the mode set by an option afterwards is not refused.
\<close>

theorem targets_accepted:
  assumes "world_ok w" "all_granted (w_heap w)" "capstone_target t = (a, mode, opt)" "b_archs b a"
  shows "\<exists>w' csh. cs_open b ab w (arch_num a) mode hnd = Some (w', CS_ERR_OK, csh) \<and> csh \<noteq> 0 \<and>
    (\<forall>m. opt = Some m \<longrightarrow> (\<exists>w''. cs_option b ab junk w' csh CS_OPT_MODE (V_num (ucast m)) = Some (w'', CS_ERR_OK)))"
proof -
  have m: "mode_accepted a mode" "opt = Some m \<Longrightarrow> a \<in> {CS_ARCH_ARM, CS_ARCH_ARM64} \<and> m AND arch_mode_mask a = 0" for m
    using assms(3) by (cases t; auto simp: mode_accepted_def)+
  have a: "cs_archs ! arch_num a = a" "arch_num a < CS_ARCH_MAX" by (simp_all add: cs_archs_nth arch_num_less)
  from cs_open_outcome [OF assms(1,2), of b ab "arch_num a" mode hnd] a m(1) assms(4) obtain w' csh where
    o: "cs_open b ab w (arch_num a) mode hnd = Some (w', CS_ERR_OK, csh)" by auto
  from cs_open_post [OF assms(1) o] a(1) obtain ud where
    u: "csh \<noteq> 0" "w_handles w' csh = Some ud" "ud_arch ud = a" by (auto simp: open_post_def)
  have "\<exists>w''. cs_option b ab junk w' csh CS_OPT_MODE (V_num (ucast m)) = Some (w'', CS_ERR_OK)" if "opt = Some m" for m
  proof -
    have "ucast m AND ucast (arch_mode_mask a) = (0 :: u64)"
      using m(2) [OF that] by (metis unsigned_0 unsigned_and_eq)
    with m(2) [OF that] u assms(4) show ?thesis
      by (auto simp: cs_option_def get_handle_def num_of_def cs_arch_disallowed_mode_mask_def cs_arch_option_def
          ARM_option_def AArch64_option_def)
  qed
  with o u(1) show ?thesis by blast
qed

theorem targets_accepted_witness:
  "\<exists>w csh w'. cs_open full_build lp64 fresh_world (arch_num CS_ARCH_ARM) CS_MODE_ARM 0 = Some (w, CS_ERR_OK, csh) \<and>
     cs_option full_build lp64 [] w csh CS_OPT_MODE (V_num (ucast (CS_MODE_THUMB :: u32))) = Some (w', CS_ERR_OK)"
  using targets_accepted [OF fresh_world_ok _ capstone_target.simps(3), of full_build lp64 0 "[]"] fresh_granted
  by (auto simp: full_build_def fresh_world_def)

section \<open>Support and errors\<close>

lemma arch_bits:
  fixes m :: u32
  assumes "k < 32"
  shows "bit (foldl (\<lambda>m a. if P a then m OR push_bit (arch_num a) 1 else m) m xs) k \<longleftrightarrow>
    bit m k \<or> (\<exists>a \<in> set xs. P a \<and> arch_num a = k)"
  using assms by (induction xs arbitrary: m) (auto simp: bit_or_iff bit_exp_iff)

lemma all_arch_bit: "bit (all_arch b) (arch_num a) \<longleftrightarrow> b_archs b a"
proof -
  have "set cs_archs = UNIV" using cs_archs_nth arch_num_less length_cs_archs nth_mem by (metis UNIV_eq_I)
  moreover have "arch_num a' = arch_num a \<longleftrightarrow> a' = a" for a' by (metis cs_archs_nth)
  moreover have "arch_num a < 32" using arch_num_less [of a] by simp
  ultimately show ?thesis using arch_bits [of "arch_num a" "b_archs b" 0 cs_archs] by (simp add: all_arch_def)
qed

lemma and_push_bit_1: "(w :: u32) AND push_bit n 1 \<noteq> 0 \<longleftrightarrow> bit w n"
  by (simp add: bit_iff_and_push_bit_not_eq_0)

text \<open>
  \<^verbatim>\<open>cs_support\<close> tells which architectures a build has: for the number of an
  architecture it is true exactly when \<^verbatim>\<open>cs_open\<close> would not refuse it, the query for all is
  true exactly when every single one is, and a number that names nothing is not supported.
\<close>

lemma cs_support_iff:
  "(\<forall>a. cs_support b (int (arch_num a)) \<longleftrightarrow> b_archs b a) \<and>
   (cs_support b (int CS_ARCH_ALL) \<longleftrightarrow> (\<forall>a. b_archs b a)) \<and>
   (\<forall>q < 0. \<not> cs_support b q)"
proof (intro conjI allI impI)
  fix a
  have "arch_num a < 13" using arch_num_less [of a] .
  then show "cs_support b (int (arch_num a)) \<longleftrightarrow> b_archs b a"
    using and_push_bit_1 [of "all_arch b" "arch_num a"] by (simp add: cs_support_def all_arch_bit)
next
  let ?all = "foldl (\<lambda>m a. m OR push_bit (arch_num a) 1) (0 :: u32) cs_archs"
  have all: "?all = all_arch (b\<lparr>b_archs := (\<lambda>a. True)\<rparr>)" by (simp add: all_arch_def)
  have "all_arch b = ?all \<longleftrightarrow> (\<forall>a. b_archs b a)"
  proof
    assume "all_arch b = ?all"
    then show "\<forall>a. b_archs b a" using all_arch_bit [of b] all_arch_bit [of "b\<lparr>b_archs := (\<lambda>a. True)\<rparr>"] unfolding all by simp
  qed (simp add: all_arch_def)
  then show "cs_support b (int CS_ARCH_ALL) \<longleftrightarrow> (\<forall>a. b_archs b a)" by (simp add: cs_support_def)
qed (simp add: cs_support_def)

text \<open>
  Every error code has a text of its own in \<^verbatim>\<open>cs_strerror\<close>, different from the text of
  an unknown code.
\<close>

lemma cs_strerror_distinct:
  "cs_strerror (err_code e) = cs_strerror (err_code e') \<longleftrightarrow> e = e'"
  by (cases e; cases e'; simp add: cs_strerror_def)

section \<open>Register descriptions\<close>

text \<open>
  \<^verbatim>\<open>MCRegisterInfo_getSubReg\<close> decodes the delta-encoded list of sub-registers and
  searches it: it returns the register paired with the wanted index, and 0 when no sub-register has
  that index. A register class is a bit set, and a register is in it exactly when its bit is set
  inside the set's size.
\<close>

lemma register_lookups:
  assumes "unat Reg < length (ri_Desc RI)" "desc = ri_Desc RI ! unat Reg"
    "diff_vals (drop (unat (rd_SubRegs desc)) (ri_DiffLists RI)) (ucast Reg) = Some vals"
    "length vals + unat (rd_SubRegIndices desc) \<le> length (ri_SubRegIndices RI)"
    "unat (rc_RegSetSize c) \<le> length (rc_RegSet c)"
  shows "MCRegisterInfo_getSubReg RI Reg Idx =
      Some (case map_of (zip (map ucast (drop (unat (rd_SubRegIndices desc)) (ri_SubRegIndices RI))) vals) Idx of
              None \<Rightarrow> 0 | Some r \<Rightarrow> ucast r) \<and>
    MCRegisterClass_contains c Reg =
      Some (unat Reg < 8 * unat (rc_RegSetSize c) \<and> bit (rc_RegSet c ! (unat Reg div 8)) (unat Reg mod 8))"
proof -
  have "lookup_sub vs xs idx = (case map_of (zip (map ucast xs) vs) idx of None \<Rightarrow> 0 | Some r \<Rightarrow> ucast r)" for vs xs idx
    by (induction vs xs idx rule: lookup_sub.induct) auto
  with getSubReg_lookup [OF assms(1-4), of Idx] contains_bit [OF assms(5), of Reg] show ?thesis
    by (simp add: less_mult_imp_div_less div_less_iff_less_mult mult.commute)
qed

text \<open>Register 1 has the sub-registers 2 and 3 with the indices 5 and 6.\<close>

definition sample_regs :: MCRegisterInfo where
  "sample_regs = \<lparr>ri_Desc = replicate 4 \<lparr>rd_Name = 0, rd_SubRegs = 0, rd_SuperRegs = 2, rd_SubRegIndices = 0,
     rd_RegUnits = 0, rd_RegUnitLaneMasks = 0\<rparr>, ri_NumRegs = 4, ri_RAReg = 0, ri_PCReg = 0, ri_Classes = [],
     ri_NumClasses = 0, ri_NumRegUnits = 0, ri_RegUnitRoots = [], ri_DiffLists = [1, 1, 0], ri_RegStrings = [],
     ri_SubRegIndices = [5, 6], ri_NumSubRegIndices = 2, ri_RegEncodingTable = []\<rparr>"

definition sample_class :: MCRegisterClass where
  "sample_class = \<lparr>rc_RegsBegin = [1], rc_RegSet = [2], rc_NameIdx = 0, rc_RegsSize = 1, rc_RegSetSize = 1, rc_ID = 0,
     rc_RegSize = 4, rc_Alignment = 4, rc_CopyCost = 1, rc_Allocatable = True\<rparr>"

end
