(* ===== verification/Math_Model.thy ===== *)
theory Math_Model
  imports CS_Prelude
begin

text \<open>
  The arithmetic helpers of \<^verbatim>\<open>MathExtras.h\<close> and the variable-length decoder of
  \<^verbatim>\<open>LEB128.h\<close>. Where the header has two versions, one for compilers with bit-counting builtins
  and a portable one, both are modelled: the builtin by counting over the list of bits, the
  portable version as it is written. A shift by the width of its operand or more is undefined. The
  conversions between floating point and bits and the portable population count are left out.
\<close>

unbundle bit_operations_syntax

section \<open>Halves and shapes\<close>

definition Hi_32 :: "u64 \<Rightarrow> u32" where "Hi_32 Value = ucast (drop_bit 32 Value)"

definition Lo_32 :: "u64 \<Rightarrow> u32" where "Lo_32 Value = ucast Value"

definition isUIntN :: "u32 \<Rightarrow> u64 \<Rightarrow> bool option" where
  "isUIntN N x = do {
     need (64 - N < 64);
     Some (x = (x AND drop_bit (unat (64 - N)) (NOT 0))) }"

definition isMask_32 :: "u32 \<Rightarrow> bool" where
  "isMask_32 Value \<longleftrightarrow> Value \<noteq> 0 \<and> (Value + 1) AND Value = 0"

definition isMask_64 :: "u64 \<Rightarrow> bool" where
  "isMask_64 Value \<longleftrightarrow> Value \<noteq> 0 \<and> (Value + 1) AND Value = 0"

definition isShiftedMask_32 :: "u32 \<Rightarrow> bool" where
  "isShiftedMask_32 Value \<longleftrightarrow> isMask_32 ((Value - 1) OR Value)"

definition isShiftedMask_64 :: "u64 \<Rightarrow> bool" where
  "isShiftedMask_64 Value \<longleftrightarrow> isMask_64 ((Value - 1) OR Value)"

definition isPowerOf2_32 :: "u32 \<Rightarrow> bool" where
  "isPowerOf2_32 Value \<longleftrightarrow> Value \<noteq> 0 \<and> Value AND (Value - 1) = 0"

section \<open>Counting bits\<close>

text \<open>The builtins, over the bits from the top or from the bottom.\<close>

definition builtin_clz :: "'a :: len word \<Rightarrow> nat" where
  "builtin_clz v = length (takeWhile Not (rev (map (bit v) [0..<LENGTH('a)])))"

definition builtin_ctz :: "'a :: len word \<Rightarrow> nat" where
  "builtin_ctz v = length (takeWhile Not (map (bit v) [0..<LENGTH('a)]))"

definition builtin_popcount :: "'a :: len word \<Rightarrow> nat" where
  "builtin_popcount v = length (filter (bit v) [0..<LENGTH('a)])"

definition CountLeadingZeros_32 :: "u32 \<Rightarrow> u32" where
  "CountLeadingZeros_32 Value = (if Value = 0 then 32 else of_nat (builtin_clz Value))"

definition CountLeadingZeros_64 :: "u64 \<Rightarrow> u32" where
  "CountLeadingZeros_64 Value = (if Value = 0 then 64 else of_nat (builtin_clz Value))"

definition CountTrailingZeros_32 :: "u32 \<Rightarrow> u32" where
  "CountTrailingZeros_32 Value = (if Value \<noteq> 0 then of_nat (builtin_ctz Value) else 32)"

definition CountTrailingZeros_64 :: "u64 \<Rightarrow> u32" where
  "CountTrailingZeros_64 Value = (if Value \<noteq> 0 then of_nat (builtin_ctz Value) else 64)"

definition CountLeadingOnes_32 :: "u32 \<Rightarrow> u32" where
  "CountLeadingOnes_32 Value = CountLeadingZeros_32 (NOT Value)"

definition CountLeadingOnes_64 :: "u64 \<Rightarrow> u32" where
  "CountLeadingOnes_64 Value = CountLeadingZeros_64 (NOT Value)"

definition CountTrailingOnes_32 :: "u32 \<Rightarrow> u32" where
  "CountTrailingOnes_32 Value = CountTrailingZeros_32 (NOT Value)"

definition CountTrailingOnes_64 :: "u64 \<Rightarrow> u32" where
  "CountTrailingOnes_64 Value = CountTrailingZeros_64 (NOT Value)"

definition CountPopulation_32 :: "u32 \<Rightarrow> u32" where
  "CountPopulation_32 Value = of_nat (builtin_popcount Value)"

definition CountPopulation_64 :: "u64 \<Rightarrow> u32" where
  "CountPopulation_64 Value = of_nat (builtin_popcount Value)"

text \<open>The portable versions. The loop of the bisection halves \<^verbatim>\<open>Shift\<close> until it is 0.\<close>

function clz_bisect :: "'a :: len word \<Rightarrow> u32 \<Rightarrow> u32 \<Rightarrow> u32" where
  "clz_bisect Value Count Shift =
     (if Shift = 0 then Count
      else let Tmp = drop_bit (unat Shift) Value
           in if Tmp \<noteq> 0 then clz_bisect Tmp Count (drop_bit 1 Shift)
              else clz_bisect Value (Count OR Shift) (drop_bit 1 Shift))"
  by pat_completeness auto
termination
  by (relation "measure (\<lambda>(Value, Count, Shift). unat Shift)")
     (auto simp: drop_bit_eq_div unat_div unat_gt_0)

declare clz_bisect.simps [simp del]

definition CountLeadingZeros_32_portable :: "u32 \<Rightarrow> u32" where
  "CountLeadingZeros_32_portable Value = (if Value = 0 then 32 else clz_bisect Value 0 16)"

definition CountLeadingZeros_64_portable :: "u64 \<Rightarrow> u32" where
  "CountLeadingZeros_64_portable Value = (if Value = 0 then 64 else clz_bisect Value 0 32)"

text \<open>The version for a \<^verbatim>\<open>long\<close> of 32 bits.\<close>

definition CountLeadingZeros_64_halves :: "u64 \<Rightarrow> u32" where
  "CountLeadingZeros_64_halves Value =
     (let Hi = Hi_32 Value in
      if Hi \<noteq> 0 then CountLeadingZeros_32_portable Hi
      else let Lo = Lo_32 Value in CountLeadingZeros_32_portable Lo + 32)"

definition Mod37BitPosition :: "u32 list" where
  "Mod37BitPosition = [32, 0, 1, 26, 2, 23, 27, 0, 3, 16, 24, 30, 28, 11, 0, 13,
     4, 7, 17, 0, 25, 22, 31, 15, 29, 10, 12, 6, 0, 21, 14, 9,
     5, 20, 8, 19, 18]"

definition CountTrailingZeros_32_portable :: "u32 \<Rightarrow> u32 option" where
  "CountTrailingZeros_32_portable Value =
     aget Mod37BitPosition (unat (((1 + NOT Value) AND Value) mod 37))"

definition Mod67Position :: "u32 list" where
  "Mod67Position = [64, 0, 1, 39, 2, 15, 40, 23, 3, 12, 16, 59, 41, 19, 24, 54,
     4, 64, 13, 10, 17, 62, 60, 28, 42, 30, 20, 51, 25, 44, 55,
     47, 5, 32, 65, 38, 14, 22, 11, 58, 18, 53, 63, 9, 61, 27,
     29, 50, 43, 46, 31, 37, 21, 57, 52, 8, 26, 49, 45, 36, 56,
     7, 48, 35, 6, 34, 33, 0]"

definition CountTrailingZeros_64_portable :: "u64 \<Rightarrow> u32 option" where
  "CountTrailingZeros_64_portable Value =
     aget Mod67Position (unat (((1 + NOT Value) AND Value) mod 67))"

text \<open>The loop of \<^verbatim>\<open>countLeadingZeros\<close>, over a signed number: \<open>i\<close> counts down to 0.\<close>

fun clz_loop :: "nat \<Rightarrow> int \<Rightarrow> u32 \<Rightarrow> u32" where
  "clz_loop 0 x count = count"
| "clz_loop (Suc i) x count = (if x = 0 then count else clz_loop i (x div 2) (count - 1))"

definition countLeadingZeros :: "int \<Rightarrow> u32" where
  "countLeadingZeros x = (if x < 0 then 0 else clz_loop 31 x 32)"

definition Log2_32 :: "u32 \<Rightarrow> u32" where "Log2_32 Value = 31 - CountLeadingZeros_32 Value"

definition Log2_64 :: "u64 \<Rightarrow> u32" where "Log2_64 Value = 63 - CountLeadingZeros_64 Value"

definition Log2_32_Ceil :: "u32 \<Rightarrow> u32" where
  "Log2_32_Ceil Value = 32 - CountLeadingZeros_32 (Value - 1)"

definition Log2_64_Ceil :: "u64 \<Rightarrow> u32" where
  "Log2_64_Ceil Value = 64 - CountLeadingZeros_64 (Value - 1)"

section \<open>Division and alignment\<close>

function GreatestCommonDivisor64 :: "u64 \<Rightarrow> u64 \<Rightarrow> u64" where
  "GreatestCommonDivisor64 A B = (if B \<noteq> 0 then GreatestCommonDivisor64 B (A mod B) else A)"
  by pat_completeness auto
termination
  by (relation "measure (\<lambda>(A, B). unat B)") (auto simp: unat_mod unat_gt_0)

declare GreatestCommonDivisor64.simps [simp del]

definition MinAlign :: "u64 \<Rightarrow> u64 \<Rightarrow> u64" where
  "MinAlign A B = (A OR B) AND (1 + NOT (A OR B))"

definition NextPowerOf2 :: "u64 \<Rightarrow> u64" where
  "NextPowerOf2 A =
     (let A = A OR drop_bit 1 A; A = A OR drop_bit 2 A; A = A OR drop_bit 4 A;
          A = A OR drop_bit 8 A; A = A OR drop_bit 16 A; A = A OR drop_bit 32 A
      in A + 1)"

definition RoundUpToAlignment :: "u64 \<Rightarrow> u64 \<Rightarrow> u64 option" where
  "RoundUpToAlignment Value Align = do {
     need (Align \<noteq> 0);
     Some (((Value + Align - 1) div Align) * Align) }"

definition OffsetToAlignment :: "u64 \<Rightarrow> u64 \<Rightarrow> u64 option" where
  "OffsetToAlignment Value Align = do {
     r \<leftarrow> RoundUpToAlignment Value Align;
     Some (r - Value) }"

text \<open>The negation of the least number overflows, which is undefined.\<close>

definition abs64 :: "u64 \<Rightarrow> u64 option" where
  "abs64 x = (if x <s 0 then do { need (sint x \<noteq> - (2 ^ 63)); Some (- x) } else Some x)"

definition SignExtend32 :: "u32 \<Rightarrow> u32 \<Rightarrow> u32 option" where
  "SignExtend32 X B = do {
     need (32 - B < 32);
     Some (signed_drop_bit (unat (32 - B)) (push_bit (unat (32 - B)) X)) }"

definition SignExtend64 :: "u64 \<Rightarrow> u32 \<Rightarrow> u64 option" where
  "SignExtend64 X B = do {
     need (64 - B < 64);
     Some (signed_drop_bit (unat (64 - B)) (push_bit (unat (64 - B)) X)) }"

text \<open>
  \<^verbatim>\<open>decodeULEB128\<close>: the value and the number of bytes read; reading past the bytes, or a
  shift by 64 or more, is undefined.
\<close>

fun uleb_loop :: "u8 list \<Rightarrow> u64 \<Rightarrow> nat \<Rightarrow> nat \<Rightarrow> (u64 \<times> nat) option" where
  "uleb_loop [] Value Shift n = None"
| "uleb_loop (b # bs) Value Shift n =
     (if Shift \<ge> 64 then None
      else let Value = Value + push_bit Shift (ucast (b AND 0x7f))
           in if b \<ge> 128 then uleb_loop bs Value (Shift + 7) (n + 1) else Some (Value, n + 1))"

definition decodeULEB128 :: "u8 list \<Rightarrow> (u64 \<times> nat) option" where
  "decodeULEB128 p = uleb_loop p 0 0 0"

section \<open>The lowest set bit\<close>

lemma takeWhile_nth_length: "length (takeWhile P xs) < length xs \<Longrightarrow> \<not> P (xs ! length (takeWhile P xs))"
  using nth_length_takeWhile by blast

lemma takeWhile_before: "i < length (takeWhile P xs) \<Longrightarrow> P (xs ! i)"
  by (metis nth_mem set_takeWhileD takeWhile_nth)

lemma ctz_le: "builtin_ctz (v :: 'a :: len word) \<le> LENGTH('a)"
  unfolding builtin_ctz_def using length_takeWhile_le [of Not "map (bit v) [0..<LENGTH('a)]"] by simp

lemma ctz_below: "i < builtin_ctz v \<Longrightarrow> \<not> bit v i"
  for v :: "'a :: len word"
proof -
  assume i: "i < builtin_ctz v"
  then have "Not (map (bit v) [0..<LENGTH('a)] ! i)" unfolding builtin_ctz_def by (rule takeWhile_before)
  with i ctz_le [of v] show ?thesis by simp
qed

lemma ctz_bit:
  fixes v :: "'a :: len word"
  assumes "v \<noteq> 0"
  shows "builtin_ctz v < LENGTH('a)" "bit v (builtin_ctz v)"
proof -
  show l: "builtin_ctz v < LENGTH('a)"
  proof (rule ccontr)
    assume "\<not> ?thesis"
    then have "builtin_ctz v = LENGTH('a)" using ctz_le [of v] by simp
    then have "\<not> bit v i" if "i < LENGTH('a)" for i using ctz_below [of i v] that by simp
    then have "v = 0" by (intro bit_word_eqI) simp
    with assms show False ..
  qed
  show "bit v (builtin_ctz v)"
    using takeWhile_nth_length [of Not "map (bit v) [0..<LENGTH('a)]"] l unfolding builtin_ctz_def by simp
qed

text \<open>Subtracting one clears the lowest set bit and sets all below.\<close>

lemma bit_minus_one:
  fixes v :: "'a :: len word"
  assumes "v \<noteq> 0" "i < LENGTH('a)"
  shows "bit (v - 1) i \<longleftrightarrow> i < builtin_ctz v \<or> builtin_ctz v < i \<and> bit v i"
proof -
  let ?n = "builtin_ctz v"
  define w where "w = v AND NOT (mask (Suc ?n))"
  note n = ctz_bit [OF assms(1)]
  have b: "bit w k \<longleftrightarrow> ?n < k \<and> bit v k" for k
    unfolding w_def by (auto simp: bit_simps dest: bit_imp_le_length)
  have "v = w OR push_bit ?n 1"
  proof (rule bit_word_eqI)
    fix k assume "k < LENGTH('a)"
    then show "bit v k \<longleftrightarrow> bit (w OR push_bit ?n 1) k"
      using n ctz_below [of k v] by (auto simp: bit_simps b) (metis linorder_neqE_nat)
  qed
  also have "\<dots> = w + push_bit ?n 1"
    by (rule disjunctive_add_eq_or [symmetric]) (rule bit_word_eqI, auto simp: bit_simps b)
  finally have v: "v = w + push_bit ?n 1" .
  have "v - 1 = w + mask ?n" by (subst v) (simp add: mask_eq_decr_exp)
  also have "\<dots> = w OR mask ?n"
    by (rule disjunctive_add_eq_or) (rule bit_word_eqI, auto simp: bit_simps b)
  finally show ?thesis using assms(2) n by (auto simp: bit_simps b)
qed

lemma lowest_bit_isolated:
  fixes v :: "'a :: len word"
  assumes "v \<noteq> 0"
  shows "(1 + NOT v) AND v = push_bit (builtin_ctz v) 1"
proof (rule bit_word_eqI)
  fix k assume k: "k < LENGTH('a)"
  have "1 + NOT v = NOT (v - 1)" by (simp add: not_eq_complement)
  then show "bit ((1 + NOT v) AND v) k \<longleftrightarrow> bit (push_bit (builtin_ctz v) 1 :: 'a word) k"
    using bit_minus_one [OF assms k] ctz_bit [OF assms] ctz_below [of k v] k
    by (auto simp: bit_simps)
qed

lemma ctz_eq:
  fixes v :: "'a :: len word"
  assumes "bit v n" "\<forall>i < n. \<not> bit v i"
  shows "builtin_ctz v = n"
proof -
  have "v \<noteq> 0" using assms(1) by auto
  from ctz_bit(2) [OF this] ctz_below [of n v] assms show ?thesis by (metis linorder_neqE_nat)
qed

section \<open>Trailing zeros\<close>

text \<open>The powers of two have different residues, and the tables list their exponents.\<close>

lemma mod37_table: "list_all (\<lambda>n. Mod37BitPosition ! (2 ^ n mod 37) = of_nat n) [0..<32]"
  unfolding Mod37BitPosition_def by (simp add: upt_rec [of 0] upt_rec [of "Suc 0"] numeral_2_eq_2 [symmetric])

lemma mod67_table: "list_all (\<lambda>n. Mod67Position ! (2 ^ n mod 67) = of_nat n) [0..<64]"
  unfolding Mod67Position_def by (simp add: upt_rec [of 0] upt_rec [of "Suc 0"] numeral_2_eq_2 [symmetric])

lemma unat_push_1:
  assumes "n < LENGTH('a)"
  shows "unat (push_bit n 1 :: 'a :: len word) = 2 ^ n"
  using assms by (simp add: unsigned_push_bit_eq take_bit_nat_eq_self del: push_bit_of_1)

lemma isolated_index:
  fixes v :: "'a :: len word"
  assumes "v \<noteq> 0" "unat m = k" "0 < k"
  shows "unat (((1 + NOT v) AND v) mod m) = 2 ^ builtin_ctz v mod k"
  using assms(2) ctz_bit(1) [OF assms(1)] by (simp only: lowest_bit_isolated [OF assms(1)] unat_mod unat_push_1)

lemma CountTrailingZeros_32_same: "CountTrailingZeros_32_portable v = Some (CountTrailingZeros_32 v)"
proof (cases "v = 0")
  case True
  then show ?thesis by (simp add: CountTrailingZeros_32_portable_def CountTrailingZeros_32_def Mod37BitPosition_def)
next
  case False
  let ?n = "builtin_ctz v"
  have "?n < 32" using ctz_bit(1) [OF False] by simp
  then have t: "Mod37BitPosition ! (2 ^ ?n mod 37) = of_nat ?n" using mod37_table unfolding list_all_iff set_upt by simp
  have "length Mod37BitPosition = 37" by (simp add: Mod37BitPosition_def)
  then have "aget Mod37BitPosition (2 ^ ?n mod 37) = Some (of_nat ?n)" using t by (simp add: aget_def)
  then show ?thesis using isolated_index [OF False, of 37 37] False
    by (simp add: CountTrailingZeros_32_portable_def CountTrailingZeros_32_def)
qed

lemma CountTrailingZeros_64_same: "CountTrailingZeros_64_portable v = Some (CountTrailingZeros_64 v)"
proof (cases "v = 0")
  case True
  then show ?thesis by (simp add: CountTrailingZeros_64_portable_def CountTrailingZeros_64_def Mod67Position_def)
next
  case False
  let ?n = "builtin_ctz v"
  have "?n < 64" using ctz_bit(1) [OF False] by simp
  then have t: "Mod67Position ! (2 ^ ?n mod 67) = of_nat ?n" using mod67_table unfolding list_all_iff set_upt by simp
  have "length Mod67Position = 68" by (simp add: Mod67Position_def)
  moreover have "(2 :: nat) ^ ?n mod 67 < 67" by simp
  ultimately have "aget Mod67Position (2 ^ ?n mod 67) = Some (of_nat ?n)" using t by (simp add: aget_def)
  then show ?thesis using isolated_index [OF False, of 67 67] False
    by (simp add: CountTrailingZeros_64_portable_def CountTrailingZeros_64_def)
qed

section \<open>Leading zeros\<close>

text \<open>\<open>p\<close> is the position of the highest set bit of \<open>n\<close>.\<close>

definition top_bit :: "nat \<Rightarrow> nat \<Rightarrow> bool" where
  "top_bit n p \<longleftrightarrow> 2 ^ p \<le> n \<and> n < 2 ^ Suc p"

lemma top_bit_unique: "top_bit n p \<Longrightarrow> top_bit n q \<Longrightarrow> p = q"
proof -
  have "p \<le> q" if "top_bit n p" "top_bit n q" for p q
  proof -
    have "(2 :: nat) ^ p < 2 ^ Suc q" using that unfolding top_bit_def by linarith
    then show ?thesis by (simp only: power_strict_increasing_iff less_Suc_eq_le)
  qed
  then show "top_bit n p \<Longrightarrow> top_bit n q \<Longrightarrow> p = q" using le_antisym by blast
qed

lemma top_bit_ex: "0 < n \<Longrightarrow> \<exists>p. top_bit n p"
proof (induction n rule: less_induct)
  case (less n)
  show ?case
  proof (cases "n = 1")
    case True
    then show ?thesis by (intro exI [of _ 0]) (simp add: top_bit_def)
  next
    case False
    with less.prems obtain p where "top_bit (n div 2) p" using less.IH [of "n div 2"] by auto
    then show ?thesis by (intro exI [of _ "Suc p"]) (auto simp: top_bit_def)
  qed
qed

lemma top_bit_div: "top_bit n p \<Longrightarrow> k \<le> p \<Longrightarrow> top_bit (n div 2 ^ k) (p - k)"
proof -
  assume t: "top_bit n p" "k \<le> p"
  have "2 ^ (p - k) * 2 ^ k = (2 :: nat) ^ p" "2 ^ Suc (p - k) * 2 ^ k = (2 :: nat) ^ Suc p"
    using t(2) by (simp_all flip: power_add)
  with t(1) show ?thesis unfolding top_bit_def
    by (simp add: less_eq_div_iff_mult_less_eq div_less_iff_less_mult)
qed

lemma top_bit_less: "top_bit n p \<Longrightarrow> n < 2 ^ k \<Longrightarrow> p < k"
  unfolding top_bit_def by (meson le_less_trans power_less_imp_less_exp one_less_numeral_iff semiring_norm(76))

lemma clz_top_bit:
  fixes v :: "'a :: len word"
  assumes "v \<noteq> 0"
  shows "builtin_clz v < LENGTH('a)" "top_bit (unat v) (LENGTH('a) - 1 - builtin_clz v)"
proof -
  let ?xs = "rev (map (bit v) [0..<LENGTH('a)])"
  obtain j where j: "j < LENGTH('a)" "bit v j" using assms by (metis bit_word_eqI bit_0_eq bot_apply bot_bool_def)
  have "True \<in> set ?xs" using j by (auto intro!: image_eqI [of _ _ j])
  then have "takeWhile Not ?xs \<noteq> ?xs" by (metis set_takeWhileD)
  then have l: "length (takeWhile Not ?xs) < length ?xs"
    by (metis length_takeWhile_le le_neq_implies_less takeWhile_eq_take take_all_iff order_refl)
  then show c: "builtin_clz v < LENGTH('a)" by (simp add: builtin_clz_def)
  let ?p = "LENGTH('a) - 1 - builtin_clz v"
  have nth: "?xs ! i \<longleftrightarrow> bit v (LENGTH('a) - 1 - i)" if "i < LENGTH('a)" for i using that by (simp add: rev_nth)
  have p: "bit v ?p" using takeWhile_nth_length [OF l] nth [OF c] by (simp add: builtin_clz_def)
  have above: "\<not> bit v k" if "?p < k" for k
  proof (cases "k < LENGTH('a)")
    case True
    then have "LENGTH('a) - 1 - k < builtin_clz v" using that c by simp
    then have "\<not> ?xs ! (LENGTH('a) - 1 - k)" unfolding builtin_clz_def by (rule takeWhile_before)
    with nth [of "LENGTH('a) - 1 - k"] True show ?thesis by simp
  qed (auto dest: bit_imp_le_length)
  have "2 ^ ?p \<le> unat v"
  proof -
    have "push_bit ?p (1 :: 'a word) AND v = push_bit ?p 1"
      using p by (intro bit_word_eqI) (auto simp: bit_simps)
    then have "push_bit ?p (1 :: 'a word) \<le> v" by (metis word_and_le1 word_and_le2)
    then show ?thesis using c unat_push_1 [of ?p, where 'a = 'a] by (simp only: word_le_nat_alt)
  qed
  moreover have "unat v < 2 ^ Suc ?p"
  proof -
    have "bit v k \<longleftrightarrow> k < Suc ?p \<and> bit v k" for k using above [of k] by (cases "?p < k") auto
    then have "v = take_bit (Suc ?p) v" by (intro bit_word_eqI) (simp add: bit_take_bit_iff)
    then have "unat v = take_bit (Suc ?p) (unat v)" by (metis unsigned_take_bit_eq)
    then show ?thesis by (metis take_bit_nat_less_exp)
  qed
  ultimately show "top_bit (unat v) ?p" unfolding top_bit_def ..
qed

lemma or_add_disjoint:
  fixes c :: u32
  assumes "2 ^ Suc k dvd unat c" "k < 32"
  shows "c OR push_bit k 1 = c + push_bit k 1"
proof -
  have "\<not> bit (unat c) k" using assms(1) by (auto simp: bit_iff_odd dvd_def mult.assoc)
  then have "\<not> bit c k" by (simp add: bit_unsigned_iff)
  then show ?thesis by (intro disjunctive_add_eq_or [symmetric] bit_word_eqI) (auto simp: bit_simps)
qed

text \<open>
  One bisection of \<open>2 ^ k\<close> bits, with \<^verbatim>\<open>Shift\<close> half of that: the count grows by the
  zeros above the highest set bit.
\<close>

lemma clz_bisect_spec:
  fixes v :: "'a :: len word"
  assumes "top_bit (unat v) p" "p < 2 ^ k" "k \<le> 6" "2 ^ k dvd unat c" "unat c + 2 ^ k \<le> 64"
    "s = (if k = 0 then 0 else push_bit (k - 1) 1)"
  shows "unat (clz_bisect v c s) = unat c + (2 ^ k - 1 - p)"
  using assms
proof (induction k arbitrary: v p c s)
  case 0
  then show ?case by (simp add: clz_bisect.simps)
next
  case (Suc k)
  have k: "k < 32" "(2 :: nat) ^ k < 2 ^ 32" using Suc.prems(3) by (simp, intro power_strict_increasing) simp_all
  have s: "s = push_bit k 1" using Suc.prems(6) by simp
  have us: "unat s = 2 ^ k" using unat_push_1 [of k, where 'a = 32] k(1) s by simp
  have s0: "s \<noteq> 0" using us by (metis unat_0 power_not_zero zero_neq_numeral)
  have s2: "drop_bit 1 s = (if k = 0 then 0 else push_bit (k - 1) 1)"
    using k(1) unfolding s by (intro bit_word_eqI) (auto simp: bit_simps)
  let ?t = "drop_bit (unat s) v"
  have t: "unat ?t = unat v div 2 ^ (2 ^ k)" unfolding us unat_drop_bit_eq by (rule drop_bit_eq_div)
  show ?case
  proof (cases "2 ^ k \<le> p")
    case True
    have tb: "top_bit (unat ?t) (p - 2 ^ k)" using top_bit_div [OF Suc.prems(1) True] t by simp
    then have "?t \<noteq> 0" by (auto simp: top_bit_def)
    then have "clz_bisect v c s = clz_bisect ?t c (drop_bit 1 s)"
      using s0 by (subst clz_bisect.simps) (simp add: Let_def)
    moreover have "unat (clz_bisect ?t c (drop_bit 1 s)) = unat c + (2 ^ k - 1 - (p - 2 ^ k))"
      using Suc.prems tb s2 by (intro Suc.IH) (auto intro: dvd_trans [of "2 ^ k" "2 ^ Suc k"])
    ultimately show ?thesis using True Suc.prems(2) by simp
  next
    case False
    have "unat v < 2 ^ Suc p" using Suc.prems(1) by (simp add: top_bit_def)
    also have "\<dots> \<le> 2 ^ (2 ^ k)" using False by (intro power_increasing) simp_all
    finally have "unat ?t = 0" using t by simp
    then have "?t = 0" by (simp add: unat_eq_zero)
    then have "clz_bisect v c s = clz_bisect v (c OR s) (drop_bit 1 s)"
      using s0 by (subst clz_bisect.simps) (simp add: Let_def)
    moreover have cs: "unat (c OR s) = unat c + 2 ^ k"
      using or_add_disjoint [OF Suc.prems(4)] k Suc.prems(5) us s by (simp add: unat_add_lem [THEN iffD1])
    moreover have "unat (clz_bisect v (c OR s) (drop_bit 1 s)) = unat (c OR s) + (2 ^ k - 1 - p)"
      using Suc.prems False s2 cs by (intro Suc.IH) (auto intro: dvd_trans [of "2 ^ k" "2 ^ Suc k"])
    ultimately show ?thesis using False Suc.prems(2) by simp
  qed
qed

lemma clz_bisect_builtin:
  fixes v :: "'a :: len word"
  assumes "v \<noteq> 0" "LENGTH('a) = 2 ^ Suc k" "Suc k \<le> 6"
  shows "clz_bisect v 0 (push_bit k 1) = of_nat (builtin_clz v)"
proof -
  note t = clz_top_bit [OF assms(1)]
  have "unat (clz_bisect v 0 (push_bit k 1)) = unat (0 :: u32) + (2 ^ Suc k - 1 - (2 ^ Suc k - 1 - builtin_clz v))"
    using t assms(2,3) power_increasing [of "Suc k" 6 "2 :: nat"] by (intro clz_bisect_spec) simp_all
  then have "unat (clz_bisect v 0 (push_bit k 1)) = builtin_clz v" using t(1) assms(2) by simp
  then show ?thesis by (metis of_nat_unat ucast_id)
qed

lemma CountLeadingZeros_32_same: "CountLeadingZeros_32_portable v = CountLeadingZeros_32 v"
  using clz_bisect_builtin [of v 4]
  by (auto simp: CountLeadingZeros_32_portable_def CountLeadingZeros_32_def)

lemma CountLeadingZeros_64_same: "CountLeadingZeros_64_portable v = CountLeadingZeros_64 v"
  using clz_bisect_builtin [of v 5]
  by (auto simp: CountLeadingZeros_64_portable_def CountLeadingZeros_64_def)

lemma clz_unique:
  fixes v :: "'a :: len word"
  assumes "top_bit (unat v) p"
  shows "builtin_clz v = LENGTH('a) - 1 - p" "p < LENGTH('a)"
proof -
  have "v \<noteq> 0" using assms by (auto simp: top_bit_def)
  note c = clz_top_bit [OF this]
  from top_bit_unique [OF c(2) assms] c(1) show "builtin_clz v = LENGTH('a) - 1 - p" by simp
  show "p < LENGTH('a)" using top_bit_less [OF assms] unsigned_less by blast
qed

lemma CountLeadingZeros_64_halves_same: "CountLeadingZeros_64_halves v = CountLeadingZeros_64 v"
proof (cases "v = 0")
  case True
  then show ?thesis by (simp add: CountLeadingZeros_64_halves_def Hi_32_def Lo_32_def
      CountLeadingZeros_32_portable_def CountLeadingZeros_64_def)
next
  case False
  then obtain p where p: "top_bit (unat v) p" using top_bit_ex [of "unat v"] by (auto simp: unat_gt_0)
  note c = clz_unique [OF p]
  have d: "unat (drop_bit 32 v) = unat v div 2 ^ 32" unfolding unat_drop_bit_eq by (rule drop_bit_eq_div)
  have "unat v < 2 ^ LENGTH(64)" by (rule unsigned_less)
  then have "unat v div 2 ^ 32 < 2 ^ 32" by (simp add: div_less_iff_less_mult)
  then have hi: "unat (Hi_32 v) = unat v div 2 ^ 32"
    unfolding Hi_32_def unsigned_ucast_eq d by (simp add: take_bit_nat_eq_self)
  show ?thesis
  proof (cases "32 \<le> p")
    case True
    have t: "top_bit (unat (Hi_32 v)) (p - 32)" using top_bit_div [OF p True] hi by simp
    then have "Hi_32 v \<noteq> 0" by (auto simp: top_bit_def)
    then show ?thesis using False clz_unique [OF t] c True
      by (simp add: CountLeadingZeros_64_halves_def CountLeadingZeros_32_same CountLeadingZeros_32_def CountLeadingZeros_64_def)
  next
    case low: False
    have "unat v < 2 ^ Suc p" using p by (simp add: top_bit_def)
    also have "\<dots> \<le> 2 ^ 32" using low by (intro power_increasing) simp_all
    finally have s: "unat v < 2 ^ 32" .
    then have "unat (Hi_32 v) = 0" using hi by simp
    then have h0: "Hi_32 v = 0" by (simp add: unat_eq_zero)
    have lo: "unat (Lo_32 v) = unat v" using s by (simp add: Lo_32_def unsigned_ucast_eq take_bit_nat_eq_self)
    then have t: "top_bit (unat (Lo_32 v)) p" using p by simp
    then have "Lo_32 v \<noteq> 0" by (auto simp: top_bit_def)
    then show ?thesis using False h0 clz_unique [OF t] c low
      by (simp add: CountLeadingZeros_64_halves_def CountLeadingZeros_32_same CountLeadingZeros_32_def CountLeadingZeros_64_def
          of_nat_diff)
  qed
qed

text \<open>The loop over a signed number counts the same.\<close>

lemma clz_loop_spec:
  assumes "0 \<le> x" "x < 2 ^ i"
  shows "clz_loop i x c = (if x = 0 then c else c - of_nat (Suc (THE p. top_bit (nat x) p)))"
  using assms
proof (induction i arbitrary: x c)
  case (Suc i)
  show ?case
  proof (cases "x = 0")
    case False
    with Suc.prems obtain p where p: "top_bit (nat x) p" using top_bit_ex [of "nat x"] by auto
    have the: "(THE p. top_bit n p) = q" if "top_bit n q" for n q using that top_bit_unique by blast
    have IH: "clz_loop i (x div 2) (c - 1) =
        (if x div 2 = 0 then c - 1 else c - 1 - of_nat (Suc (THE p. top_bit (nat (x div 2)) p)))"
      using Suc.prems by (intro Suc.IH) auto
    show ?thesis
    proof (cases p)
      case 0
      then have "x = 1" using p False Suc.prems(1) by (auto simp: top_bit_def)
      then show ?thesis using IH the [OF p] 0 by simp
    next
      case (Suc q)
      have "top_bit (nat x div 2 ^ 1) (p - 1)" using Suc by (intro top_bit_div [OF p]) simp
      then have q: "top_bit (nat (x div 2)) q" using Suc Suc.prems(1) by (simp add: nat_div_distrib)
      then have "x div 2 \<noteq> 0" by (auto simp: top_bit_def)
      then show ?thesis using IH the [OF p] the [OF q] Suc False by (simp add: algebra_simps)
    qed
  qed simp
qed simp

lemma countLeadingZeros_top:
  assumes "top_bit (nat x) p" "p < 31" "0 \<le> x"
  shows "countLeadingZeros x = of_nat (31 - p)"
proof -
  have "nat x < 2 ^ Suc p" using assms(1) by (simp add: top_bit_def)
  also have "\<dots> \<le> 2 ^ 31" using assms(2) by (intro power_increasing) simp_all
  finally have x: "x < 2 ^ 31" using assms(3) by (simp add: nat_less_iff)
  have "x \<noteq> 0" using assms(1) by (auto simp: top_bit_def)
  moreover have "(THE q. top_bit (nat x) q) = p" using assms(1) top_bit_unique by blast
  ultimately show ?thesis
    using clz_loop_spec [OF assms(3) x, of 32] assms(2,3) by (simp add: countLeadingZeros_def of_nat_diff)
qed

section \<open>Shapes\<close>

text \<open>Adding one to a number that ends in exactly \<open>n\<close> ones.\<close>

lemma isMask_word:
  fixes v :: "'a :: len word"
  shows "v \<noteq> 0 \<and> (v + 1) AND v = 0 \<longleftrightarrow> (\<exists>n. 0 < n \<and> n \<le> LENGTH('a) \<and> v = mask n)"
proof
  assume m: "v \<noteq> 0 \<and> (v + 1) AND v = 0"
  show "\<exists>n. 0 < n \<and> n \<le> LENGTH('a) \<and> v = mask n"
  proof (cases "v + 1 = 0")
    case True
    then have "v = mask LENGTH('a)" by (simp add: eq_neg_iff_add_eq_0 flip: minus_1_eq_mask)
    then show ?thesis by (intro exI [of _ "LENGTH('a)"]) simp
  next
    case False
    let ?n = "builtin_ctz (v + 1)"
    note c = ctz_bit [OF False]
    have b: "bit v i \<longleftrightarrow> i < ?n \<or> ?n < i \<and> bit (v + 1) i" if "i < LENGTH('a)" for i
      using bit_minus_one [OF False that] by simp
    have "\<not> (bit (v + 1) i \<and> bit v i)" for i using m by (metis bit_0_eq bit_and_iff bot_apply bot_bool_def)
    with b have "bit v i \<longleftrightarrow> i < ?n" if "i < LENGTH('a)" for i using that by blast
    then have v: "v = mask ?n" by (intro bit_word_eqI) (simp add: bit_simps)
    moreover have "?n \<noteq> 0" using v m by (metis mask_0)
    ultimately show ?thesis using c(1) by (intro exI [of _ ?n]) simp
  qed
next
  assume "\<exists>n. 0 < n \<and> n \<le> LENGTH('a) \<and> v = mask n"
  then obtain n where n: "0 < n" "n \<le> LENGTH('a)" "v = mask n" by blast
  have "bit v 0" using n by (simp add: bit_simps)
  then have "v \<noteq> 0" by auto
  moreover have "v + 1 = push_bit n 1" using n(3) by (simp add: mask_eq_decr_exp)
  then have "(v + 1) AND v = 0" using n(3) by (intro bit_word_eqI) (auto simp: bit_simps)
  ultimately show "v \<noteq> 0 \<and> (v + 1) AND v = 0" by blast
qed

lemma isMask_32_iff: "isMask_32 v \<longleftrightarrow> (\<exists>n. 0 < n \<and> n \<le> 32 \<and> v = mask n)"
  unfolding isMask_32_def using isMask_word [of v] by simp

lemma isMask_64_iff: "isMask_64 v \<longleftrightarrow> (\<exists>n. 0 < n \<and> n \<le> 64 \<and> v = mask n)"
  unfolding isMask_64_def using isMask_word [of v] by simp

lemma isPowerOf2_32_iff: "isPowerOf2_32 v \<longleftrightarrow> (\<exists>n < 32. v = push_bit n 1)"
proof
  assume p: "isPowerOf2_32 v"
  then have v: "v \<noteq> 0" by (simp add: isPowerOf2_32_def)
  note c = ctz_bit [OF v]
  have "\<not> (bit v i \<and> bit (v - 1) i)" for i
    using p unfolding isPowerOf2_32_def by (metis bit_0_eq bit_and_iff bot_apply bot_bool_def)
  then have "bit v i \<longleftrightarrow> i = builtin_ctz v" if "i < 32" for i
    using that c bit_minus_one [OF v, of i] ctz_below [of i v] by (cases i "builtin_ctz v" rule: linorder_cases) auto
  then show "\<exists>n < 32. v = push_bit n 1" using c(1)
    by (intro exI [of _ "builtin_ctz v"] conjI bit_word_eqI) (auto simp: bit_simps)
next
  assume "\<exists>n < 32. v = push_bit n 1"
  then obtain n where n: "n < 32" "v = push_bit n 1" by blast
  have v: "v \<noteq> 0" using unat_push_1 [of n, where 'a = 32] n by (auto simp del: push_bit_of_1)
  have "v - 1 = mask n" using n(2) by (simp add: mask_eq_decr_exp)
  then have "v AND (v - 1) = 0" using n(2) by (intro bit_word_eqI) (auto simp: bit_simps)
  then show "isPowerOf2_32 v" using v by (simp add: isPowerOf2_32_def)
qed

text \<open>Filling the zeros below the lowest set bit.\<close>

lemma isShiftedMask_32_iff: "isShiftedMask_32 v \<longleftrightarrow> v = 0 \<or> (\<exists>m n. m < n \<and> n \<le> 32 \<and> v = mask n AND NOT (mask m))"
proof (cases "v = 0")
  case True
  then show ?thesis by (simp add: isShiftedMask_32_def isMask_32_def)
next
  case False
  let ?k = "builtin_ctz v" and ?f = "(v - 1) OR v"
  note c = ctz_bit [OF False]
  have f: "bit ?f i \<longleftrightarrow> i < 32 \<and> (i \<le> ?k \<or> bit v i)" for i
  proof (cases "i < 32")
    case True
    then show ?thesis using bit_minus_one [OF False, of i] c by (auto simp: bit_or_iff)
  qed (auto dest: bit_imp_le_length)
  have v: "v = ?f AND NOT (mask ?k)"
  proof (rule bit_word_eqI)
    fix i assume i: "i < LENGTH(32)"
    show "bit v i \<longleftrightarrow> bit (?f AND NOT (mask ?k)) i"
      using i f [of i] c(2) ctz_below [of i v]
      by (cases i ?k rule: linorder_cases) (simp_all add: bit_and_iff bit_not_iff bit_mask_iff)
  qed
  show ?thesis
  proof
    assume "isShiftedMask_32 v"
    then obtain n where n: "n \<le> 32" "?f = mask n" unfolding isShiftedMask_32_def isMask_32_iff by blast
    have "bit ?f ?k" using f [of ?k] c(1) by simp
    then have "?k < n" unfolding n(2) by (simp add: bit_mask_iff)
    then show "v = 0 \<or> (\<exists>m n. m < n \<and> n \<le> 32 \<and> v = mask n AND NOT (mask m))" using v n by metis
  next
    assume "v = 0 \<or> (\<exists>m n. m < n \<and> n \<le> 32 \<and> v = mask n AND NOT (mask m))"
    then obtain m n where mn: "m < n" "n \<le> 32" "v = mask n AND NOT (mask m)" using False by blast
    have vb: "bit v i \<longleftrightarrow> m \<le> i \<and> i < n" for i
      using mn(2) unfolding mn(3) by (auto simp: bit_and_iff bit_not_iff bit_mask_iff)
    have "?k = m" using mn(1) vb by (intro ctz_eq) auto
    then have "bit ?f i \<longleftrightarrow> bit (mask n :: u32) i" for i using mn(1,2) vb [of i] unfolding f by (auto simp: bit_mask_iff)
    then have "?f = mask n" by (intro bit_word_eqI) simp
    then show "isShiftedMask_32 v" unfolding isShiftedMask_32_def isMask_32_iff
      using mn(1,2) by (intro exI [of _ n]) simp
  qed
qed

section \<open>Logarithms\<close>

lemma unat_small: "n < 2 ^ LENGTH('a) \<Longrightarrow> unat (of_nat n :: 'a :: len word) = n"
  by (simp add: unsigned_of_nat take_bit_nat_eq_self)

lemma Log2_32_floor:
  assumes "v \<noteq> 0"
  shows "2 ^ unat (Log2_32 v) \<le> unat v \<and> unat v < 2 ^ Suc (unat (Log2_32 v))"
proof -
  note c = clz_top_bit [OF assms]
  have "Log2_32 v = of_nat (31 - builtin_clz v)"
    using c(1) assms by (simp add: Log2_32_def CountLeadingZeros_32_def of_nat_diff)
  then have "unat (Log2_32 v) = 31 - builtin_clz v" by (simp add: unsigned_of_nat take_bit_nat_eq_self)
  with c(2) show ?thesis by (simp add: top_bit_def)
qed

lemma Log2_32_Ceil_ceil:
  assumes "1 < v"
  shows "unat v \<le> 2 ^ unat (Log2_32_Ceil v) \<and> 2 ^ (unat (Log2_32_Ceil v) - 1) < unat v"
proof -
  have "v \<noteq> 0" using assms by auto
  then have v: "v - 1 \<noteq> 0" "unat (v - 1) = unat v - 1" "0 < unat v"
    using assms by (auto simp: unat_minus_one word_less_nat_alt unat_gt_0)
  note c = clz_top_bit [OF v(1)]
  have "Log2_32_Ceil v = of_nat (32 - builtin_clz (v - 1))"
    using c(1) v(1) by (simp add: Log2_32_Ceil_def CountLeadingZeros_32_def of_nat_diff)
  moreover have "unat (of_nat (32 - builtin_clz (v - 1)) :: u32) = 32 - builtin_clz (v - 1)"
    by (rule unat_small) simp
  ultimately have "unat (Log2_32_Ceil v) = Suc (31 - builtin_clz (v - 1))" using c(1) by simp
  moreover have "2 ^ (31 - builtin_clz (v - 1)) \<le> unat v - 1" "unat v - 1 < 2 * 2 ^ (31 - builtin_clz (v - 1))"
    using c(2) v(2) by (simp_all add: top_bit_def)
  ultimately show ?thesis using v(3) unfolding \<open>unat (Log2_32_Ceil v) = _\<close> power_Suc diff_Suc_1 by linarith
qed

section \<open>Sign extension\<close>

lemma signed_shift_back:
  fixes X :: "'a :: len word"
  assumes "0 < b" "b \<le> LENGTH('a)"
  shows "signed_drop_bit (LENGTH('a) - b) (push_bit (LENGTH('a) - b) X) = signed_take_bit (b - 1) X"
proof (rule bit_word_eqI)
  fix n assume "n < LENGTH('a)"
  then show "bit (signed_drop_bit (LENGTH('a) - b) (push_bit (LENGTH('a) - b) X)) n \<longleftrightarrow> bit (signed_take_bit (b - 1) X) n"
    using assms by (cases "n = b - 1")
      (auto simp: bit_signed_drop_bit_iff bit_push_bit_iff bit_signed_take_bit_iff min_def not_le)
qed

lemma sint_signed_take_bit:
  fixes X :: "'a :: len word"
  assumes "0 < b" "b \<le> LENGTH('a)"
  shows "sint (signed_take_bit (b - 1) X) = signed_take_bit (b - 1) (uint X)"
  using assms by (intro bit_eqI) (auto simp: bit_simps min_def)

lemma SignExtend32_eq:
  assumes "0 < B" "B \<le> 32"
  shows "SignExtend32 X B = Some (signed_take_bit (unat B - 1) X)"
proof -
  have b: "0 < unat B" "unat B \<le> 32" using assms by (simp_all add: word_less_nat_alt word_le_nat_alt)
  then have "unat (32 - B) = 32 - unat B" using assms(2) by (simp add: unat_sub)
  then show ?thesis using b signed_shift_back [of "unat B" X]
    by (simp add: SignExtend32_def need_bind word_less_nat_alt)
qed

lemma SignExtend64_eq:
  assumes "0 < B" "B \<le> 64"
  shows "SignExtend64 X B = Some (signed_take_bit (unat B - 1) X)"
proof -
  have b: "0 < unat B" "unat B \<le> 64" using assms by (simp_all add: word_less_nat_alt word_le_nat_alt)
  then have "unat (64 - B) = 64 - unat B" using assms(2) by (simp add: unat_sub)
  then show ?thesis using b signed_shift_back [of "unat B" X]
    by (simp add: SignExtend64_def need_bind word_less_nat_alt)
qed

section \<open>Alignment\<close>

lemma GreatestCommonDivisor64_gcd: "unat (GreatestCommonDivisor64 A B) = gcd (unat A) (unat B)"
proof (induction A B rule: GreatestCommonDivisor64.induct)
  case (1 A B)
  show ?case
  proof (cases "B = 0")
    case False
    with 1 show ?thesis by (subst GreatestCommonDivisor64.simps) (simp add: unat_mod gcd.commute gcd_red_nat [of "unat A"])
  qed (simp add: GreatestCommonDivisor64.simps)
qed

lemma dvd_ctz:
  fixes v :: "'a :: len word"
  assumes "v \<noteq> 0"
  shows "2 ^ k dvd unat v \<longleftrightarrow> k \<le> builtin_ctz v"
proof -
  have b: "bit (unat v) i \<longleftrightarrow> bit v i" for i by (simp add: bit_unsigned_iff)
  have "2 ^ k dvd unat v \<longleftrightarrow> (\<forall>i < k. \<not> bit (unat v) i)"
    unfolding take_bit_eq_0_iff [symmetric] by (auto simp: bit_eq_iff bit_take_bit_iff)
  also have "\<dots> \<longleftrightarrow> k \<le> builtin_ctz v" unfolding b using ctz_bit(2) [OF assms] ctz_below [of _ v]
    by (meson leI less_le_trans)
  finally show ?thesis .
qed

lemma MinAlign_eq: "A \<noteq> 0 \<or> B \<noteq> 0 \<Longrightarrow> MinAlign A B = push_bit (builtin_ctz (A OR B)) 1"
  using lowest_bit_isolated [of "A OR B"] by (simp add: MinAlign_def or_eq_0_iff and.commute)

lemma RoundUpToAlignment_up:
  assumes "Align \<noteq> 0" "unat Value + unat Align \<le> 2 ^ 64"
  obtains r where "RoundUpToAlignment Value Align = Some r" "unat Align dvd unat r" "unat Value \<le> unat r"
    "unat r < unat Value + unat Align"
proof -
  let ?a = "unat Align" and ?v = "unat Value"
  have a: "0 < ?a" using assms(1) by (simp add: unat_gt_0)
  have "unat (Value + (Align - 1)) = ?v + (?a - 1)"
    using assms a by (subst unat_add_lem [THEN iffD1]) (simp_all add: unat_minus_one)
  then have s: "unat (Value + Align - 1) = ?v + (?a - 1)" by (simp add: algebra_simps)
  let ?q = "(?v + (?a - 1)) div ?a"
  have m: "?q * ?a \<le> ?v + (?a - 1)" "?v + (?a - 1) < ?q * ?a + ?a"
    using div_mult_mod_eq [of "?v + (?a - 1)" ?a] mod_less_divisor [OF a, of "?v + (?a - 1)"] by linarith+
  have "?q * ?a < 2 ^ 64" using m(1) assms(2) a by linarith
  then have "unat (((Value + Align - 1) div Align) * Align) = ?q * ?a"
    by (subst unat_mult_lem [THEN iffD1]) (simp_all add: unat_div s)
  then obtain r where r: "RoundUpToAlignment Value Align = Some r" "unat r = ?q * ?a"
    using assms(1) by (simp add: RoundUpToAlignment_def need_bind)
  have "?v \<le> ?q * ?a" "?q * ?a < ?v + ?a" using m a by linarith+
  then show thesis by (intro that [OF r(1)]) (simp_all only: r(2) dvd_triv_right)
qed

text \<open>Each line of \<^verbatim>\<open>NextPowerOf2\<close> doubles the range over which set bits are smeared down.\<close>

lemma smear_step:
  fixes A B :: u64
  assumes "\<And>i. bit B i \<longleftrightarrow> (\<exists>j. i \<le> j \<and> j < i + k \<and> bit A j)"
  shows "bit (B OR drop_bit k B) i \<longleftrightarrow> (\<exists>j. i \<le> j \<and> j < i + (k + k) \<and> bit A j)"
proof -
  have "bit (B OR drop_bit k B) i \<longleftrightarrow> bit B i \<or> bit B (k + i)" by (simp add: bit_or_iff bit_drop_bit_eq)
  also have "\<dots> \<longleftrightarrow> (\<exists>j. i \<le> j \<and> j < i + k \<and> bit A j) \<or> (\<exists>j. k + i \<le> j \<and> j < k + i + k \<and> bit A j)"
    unfolding assms ..
  also have "\<dots> \<longleftrightarrow> (\<exists>j. i \<le> j \<and> j < i + (k + k) \<and> bit A j)"
  proof (intro iffI)
    assume "\<exists>j. i \<le> j \<and> j < i + (k + k) \<and> bit A j"
    then obtain j where "i \<le> j" "j < i + (k + k)" "bit A j" by blast
    then show "(\<exists>j. i \<le> j \<and> j < i + k \<and> bit A j) \<or> (\<exists>j. k + i \<le> j \<and> j < k + i + k \<and> bit A j)"
      by (cases "j < i + k") auto
  next
    assume "(\<exists>j. i \<le> j \<and> j < i + k \<and> bit A j) \<or> (\<exists>j. k + i \<le> j \<and> j < k + i + k \<and> bit A j)"
    then show "\<exists>j. i \<le> j \<and> j < i + (k + k) \<and> bit A j" by (elim disjE exE conjE; intro exI conjI; assumption?) simp_all
  qed
  finally show ?thesis .
qed

lemma NextPowerOf2_smear: "\<exists>m. NextPowerOf2 A = m + 1 \<and> (\<forall>i. bit m i \<longleftrightarrow> (\<exists>j \<ge> i. bit A j))"
proof -
  define a0 a1 a2 a3 a4 a5 where a: "a0 = A OR drop_bit 1 A" "a1 = a0 OR drop_bit 2 a0" "a2 = a1 OR drop_bit 4 a1"
    "a3 = a2 OR drop_bit 8 a2" "a4 = a3 OR drop_bit 16 a3" "a5 = a4 OR drop_bit 32 a4"
  have s0: "bit A i \<longleftrightarrow> (\<exists>j. i \<le> j \<and> j < i + 1 \<and> bit A j)" for i by (auto simp: less_Suc_eq_le intro: le_antisym)
  have s1: "bit a0 i \<longleftrightarrow> (\<exists>j. i \<le> j \<and> j < i + 2 \<and> bit A j)" for i using smear_step [OF s0] unfolding a by simp
  have s2: "bit a1 i \<longleftrightarrow> (\<exists>j. i \<le> j \<and> j < i + 4 \<and> bit A j)" for i using smear_step [OF s1] unfolding a by simp
  have s3: "bit a2 i \<longleftrightarrow> (\<exists>j. i \<le> j \<and> j < i + 8 \<and> bit A j)" for i using smear_step [OF s2] unfolding a by simp
  have s4: "bit a3 i \<longleftrightarrow> (\<exists>j. i \<le> j \<and> j < i + 16 \<and> bit A j)" for i using smear_step [OF s3] unfolding a by simp
  have s5: "bit a4 i \<longleftrightarrow> (\<exists>j. i \<le> j \<and> j < i + 32 \<and> bit A j)" for i using smear_step [OF s4] unfolding a by simp
  have s6: "bit a5 i \<longleftrightarrow> (\<exists>j. i \<le> j \<and> j < i + 64 \<and> bit A j)" for i using smear_step [OF s5] unfolding a by simp
  have "bit a5 i \<longleftrightarrow> (\<exists>j \<ge> i. bit A j)" for i unfolding s6 using bit_imp_le_length [of A] by fastforce
  moreover have "NextPowerOf2 A = a5 + 1" by (simp add: NextPowerOf2_def Let_def a)
  ultimately show ?thesis by blast
qed

lemma NextPowerOf2_eq:
  "NextPowerOf2 A = (if A = 0 then 1 else push_bit (64 - builtin_clz A) 1)"
proof (cases "A = 0")
  case True
  then show ?thesis by (simp add: NextPowerOf2_def Let_def)
next
  case False
  obtain m where m: "NextPowerOf2 A = m + 1" "bit m i \<longleftrightarrow> (\<exists>j \<ge> i. bit A j)" for i
    using NextPowerOf2_smear [of A] by blast
  let ?p = "63 - builtin_clz A"
  note c = clz_top_bit [OF False]
  have top: "top_bit (unat A) ?p" using c(2) by simp
  have hi: "\<not> bit A j" if "?p < j" for j
  proof -
    have "unat A < 2 ^ Suc ?p" using top by (simp add: top_bit_def)
    also have "\<dots> \<le> 2 ^ j" using that by (intro power_increasing) simp_all
    finally have "\<not> bit (unat A) j" by (simp add: bit_iff_odd)
    then show ?thesis by (simp add: bit_unsigned_iff)
  qed
  have "bit A ?p"
  proof (rule ccontr)
    assume n: "\<not> bit A ?p"
    have "bit A j \<longleftrightarrow> j < ?p \<and> bit A j" for j using hi [of j] n by (cases j ?p rule: linorder_cases) auto
    then have "take_bit ?p (unat A) = unat A" by (intro bit_eqI) (simp add: bit_take_bit_iff bit_unsigned_iff)
    then have "unat A < 2 ^ ?p" by (metis take_bit_nat_less_exp)
    then show False using top by (simp add: top_bit_def)
  qed
  then have set: "\<exists>j \<ge> i. bit A j" if "i \<le> ?p" for i using that by blast
  have "bit m i \<longleftrightarrow> i < Suc ?p" for i
  proof (cases "i \<le> ?p")
    case False
    then have "\<not> bit A j" if "i \<le> j" for j using that hi [of j] by simp
    with False show ?thesis unfolding m(2) by auto
  qed (simp add: m(2) set)
  then have "m = mask (Suc ?p)" using c(1) by (intro bit_word_eqI) (auto simp: bit_mask_iff)
  moreover have "64 - builtin_clz A = Suc ?p" using c(1) by simp
  ultimately show ?thesis using False m(1) by (simp add: mask_eq_decr_exp)
qed

section \<open>Variable-length numbers\<close>

text \<open>The encoding that \<^verbatim>\<open>decodeULEB128\<close> reads: seven bits a byte, the top bit set on all but the last.\<close>

function uleb_encode :: "nat \<Rightarrow> u8 list" where
  "uleb_encode n = (if n < 128 then [of_nat n] else of_nat (n mod 128 + 128) # uleb_encode (n div 128))"
  by pat_completeness auto
termination by (relation "measure id") auto

declare uleb_encode.simps [simp del]

lemma uleb_loop_encode:
  assumes "n * 2 ^ s < 2 ^ 64" "s < 64"
  shows "uleb_loop (uleb_encode n @ rest) v s k = Some (v + of_nat (n * 2 ^ s), k + length (uleb_encode n))"
  using assms
proof (induction n arbitrary: v s k rule: uleb_encode.induct)
  case (1 n)
  have low: "(of_nat (m + c) AND 0x7f :: u8) = of_nat m" if "m < 128" "c = 0 \<or> c = 128" for m c
  proof -
    have "(of_nat (m + c) AND 0x7f :: u8) = take_bit 7 (of_nat (m + c))" by (simp add: take_bit_eq_mask mask_eq_decr_exp)
    also have "\<dots> = of_nat (take_bit 7 (m + c))" by (simp only: take_bit_of_nat)
    also have "take_bit 7 (m + c) = m" using that by (auto simp: take_bit_eq_mod)
    finally show ?thesis .
  qed
  have uc: "push_bit s (ucast (of_nat m :: u8) :: u64) = of_nat (m * 2 ^ s)" if "m < 128" for m
  proof -
    have "unat (of_nat m :: u8) = m" using that by (intro unat_small) simp
    then have "(ucast (of_nat m :: u8) :: u64) = of_nat m" by (metis of_nat_unat)
    then show ?thesis by (simp add: push_bit_eq_mult)
  qed
  show ?case
  proof (cases "n < 128")
    case True
    have "\<not> 128 \<le> (of_nat n :: u8)" using True by (simp add: word_le_nat_alt unat_small)
    then show ?thesis using True 1 low [of n 0] uc [of n]
      by (subst (1 2) uleb_encode.simps) (simp add: Let_def)
  next
    case False
    let ?q = "n div 128" and ?r = "n mod 128"
    have n: "n = ?q * 128 + ?r" by simp
    have "?q * 2 ^ (s + 7) \<le> n * 2 ^ s" by (subst (2) n) (simp add: power_add algebra_simps)
    with 1 have q: "?q * 2 ^ (s + 7) < 2 ^ 64" by linarith
    have "s + 7 < 64"
    proof (rule ccontr)
      assume "\<not> s + 7 < 64"
      then have "(2 :: nat) ^ 64 \<le> 2 ^ (s + 7)" by (intro power_increasing) simp_all
      moreover have "0 < ?q" using False by simp
      ultimately show False using q by (metis mult_le_mono1 mult_1 leD order_trans One_nat_def Suc_leI)
    qed
    with 1 False q have IH: "uleb_loop (uleb_encode ?q @ rest) v' (s + 7) (k + 1) =
        Some (v' + of_nat (?q * 2 ^ (s + 7)), k + 1 + length (uleb_encode ?q))" for v' by blast
    have "128 \<le> (of_nat (?r + 128) :: u8)" by (simp add: word_le_nat_alt unat_small del: of_nat_add)
    moreover have "r * 2 ^ s + q * 2 ^ (s + 7) = (q * 128 + r) * 2 ^ s" for q r :: nat
      by (simp add: power_add algebra_simps)
    from this [of ?r ?q] n have "?r * 2 ^ s + ?q * 2 ^ (s + 7) = n * 2 ^ s" by simp
    then have "(of_nat (?r * 2 ^ s) :: u64) + of_nat (?q * 2 ^ (s + 7)) = of_nat (n * 2 ^ s)" by (metis of_nat_add)
    ultimately show ?thesis using False 1 IH low [of ?r 128] uc [of ?r]
      by (subst (1 2) uleb_encode.simps) (simp add: Let_def add.assoc del: of_nat_add of_nat_mult)
  qed
qed

lemma decode_encode: "n < 2 ^ 64 \<Longrightarrow> decodeULEB128 (uleb_encode n @ rest) = Some (of_nat n, length (uleb_encode n))"
  using uleb_loop_encode [of n 0 rest 0 0] by (simp add: decodeULEB128_def)

end
