(* ===== verification/AddrModes_Model.thy ===== *)
theory AddrModes_Model
  imports Math_Model MCInst_Model
begin

text \<open>
  The encodings of \<^verbatim>\<open>ARMAddressingModes.h\<close> and \<^verbatim>\<open>AArch64AddressingModes.h\<close>: rotated and
  splatted immediates, logical immediates, packed addressing modes, and the Thumb-2 immediate
  decoder of \<^verbatim>\<open>ARMDisassembler.c\<close> that undoes one of them. Enumerations are the unsigned numbers
  the code packs and casts; a signed result is its bit pattern, with \<^verbatim>\<open>-1\<close> the largest word.
\<close>

section \<open>ARM: names\<close>

abbreviation (input) ARM_AM_no_shift :: u32 where "ARM_AM_no_shift \<equiv> 0"
abbreviation (input) ARM_AM_asr :: u32 where "ARM_AM_asr \<equiv> 1"
abbreviation (input) ARM_AM_lsl :: u32 where "ARM_AM_lsl \<equiv> 2"
abbreviation (input) ARM_AM_lsr :: u32 where "ARM_AM_lsr \<equiv> 3"
abbreviation (input) ARM_AM_ror :: u32 where "ARM_AM_ror \<equiv> 4"
abbreviation (input) ARM_AM_rrx :: u32 where "ARM_AM_rrx \<equiv> 5"
abbreviation (input) ARM_AM_sub :: u32 where "ARM_AM_sub \<equiv> 0"
abbreviation (input) ARM_AM_add :: u32 where "ARM_AM_add \<equiv> 1"
abbreviation (input) ARM_AM_ia :: u32 where "ARM_AM_ia \<equiv> 1"
abbreviation (input) ARM_AM_ib :: u32 where "ARM_AM_ib \<equiv> 2"
abbreviation (input) ARM_AM_da :: u32 where "ARM_AM_da \<equiv> 3"
abbreviation (input) ARM_AM_db :: u32 where "ARM_AM_db \<equiv> 4"

definition ARM_AM_getAddrOpcStr :: "u32 \<Rightarrow> string" where
  "ARM_AM_getAddrOpcStr Op = (if Op = ARM_AM_sub then ''-'' else [])"

definition ARM_AM_getShiftOpcStr :: "u32 \<Rightarrow> string" where
  "ARM_AM_getShiftOpcStr Op =
     (if Op = ARM_AM_asr then ''asr'' else if Op = ARM_AM_lsl then ''lsl''
      else if Op = ARM_AM_lsr then ''lsr'' else if Op = ARM_AM_ror then ''ror''
      else if Op = ARM_AM_rrx then ''rrx'' else [])"

definition ARM_AM_getShiftOpcEncoding :: "u32 \<Rightarrow> u32" where
  "ARM_AM_getShiftOpcEncoding Op =
     (if Op = ARM_AM_asr then 2 else if Op = ARM_AM_lsl then 0
      else if Op = ARM_AM_lsr then 1 else if Op = ARM_AM_ror then 3 else - 1)"

definition ARM_AM_getAMSubModeStr :: "u32 \<Rightarrow> string" where
  "ARM_AM_getAMSubModeStr Mode =
     (if Mode = ARM_AM_ia then ''ia'' else if Mode = ARM_AM_ib then ''ib''
      else if Mode = ARM_AM_da then ''da'' else if Mode = ARM_AM_db then ''db'' else [])"

section \<open>ARM: shifter operands\<close>

text \<open>A rotation by 32 or more shifts by the width, which is undefined; the callers pass less.\<close>

definition rotr32 :: "u32 \<Rightarrow> u32 \<Rightarrow> u32" where
  "rotr32 Val Amt = drop_bit (unat Amt) Val OR push_bit (unat ((32 - Amt) AND 31)) Val"

definition rotl32 :: "u32 \<Rightarrow> u32 \<Rightarrow> u32" where
  "rotl32 Val Amt = push_bit (unat Amt) Val OR drop_bit (unat ((32 - Amt) AND 31)) Val"

definition getSORegOpc :: "u32 \<Rightarrow> u32 \<Rightarrow> u32" where
  "getSORegOpc ShOp Imm = ShOp OR push_bit 3 Imm"

definition getSORegOffset :: "u32 \<Rightarrow> u32" where "getSORegOffset Op = drop_bit 3 Op"

definition ARM_AM_getSORegShOp :: "u32 \<Rightarrow> u32" where "ARM_AM_getSORegShOp Op = Op AND 7"

definition getSOImmValImm :: "u32 \<Rightarrow> u32" where "getSOImmValImm Imm = Imm AND 0xFF"

definition getSOImmValRot :: "u32 \<Rightarrow> u32" where "getSOImmValRot Imm = drop_bit 8 Imm * 2"

definition getSOImmValRotate :: "u32 \<Rightarrow> u32" where
  "getSOImmValRotate Imm =
     (if Imm AND NOT 255 = 0 then 0
      else
        let TZ = CountTrailingZeros_32 Imm;
            RotAmt = TZ AND NOT 1
        in if rotr32 Imm RotAmt AND NOT 255 = 0 then (32 - RotAmt) AND 31
           else if Imm AND 63 \<noteq> 0 then
             (let TZ2 = CountTrailingZeros_32 (Imm AND NOT 63);
                  RotAmt2 = TZ2 AND NOT 1
              in if rotr32 Imm RotAmt2 AND NOT 255 = 0 then (32 - RotAmt2) AND 31
                 else (32 - RotAmt) AND 31)
           else (32 - RotAmt) AND 31)"

definition getSOImmVal :: "u32 \<Rightarrow> u32" where
  "getSOImmVal Arg =
     (if Arg AND NOT 255 = 0 then Arg
      else
        let RotAmt = getSOImmValRotate Arg
        in if rotr32 (NOT 255) RotAmt AND Arg \<noteq> 0 then - 1
           else rotl32 Arg RotAmt OR push_bit 8 (drop_bit 1 RotAmt))"

definition isSOImmTwoPartVal :: "u32 \<Rightarrow> bool" where
  "isSOImmTwoPartVal V =
     (let V = rotr32 (NOT 255) (getSOImmValRotate V) AND V
      in if V = 0 then False
         else let V = rotr32 (NOT 255) (getSOImmValRotate V) AND V in V = 0)"

definition getSOImmTwoPartFirst :: "u32 \<Rightarrow> u32" where
  "getSOImmTwoPartFirst V = rotr32 255 (getSOImmValRotate V) AND V"

definition getSOImmTwoPartSecond :: "u32 \<Rightarrow> u32" where
  "getSOImmTwoPartSecond V = rotr32 (NOT 255) (getSOImmValRotate V) AND V"

section \<open>Thumb\<close>

definition getThumbImmValShift :: "u32 \<Rightarrow> u32" where
  "getThumbImmValShift Imm = (if Imm AND NOT 255 = 0 then 0 else CountTrailingZeros_32 Imm)"

definition isThumbImmShiftedVal :: "u32 \<Rightarrow> bool" where
  "isThumbImmShiftedVal V = (push_bit (unat (getThumbImmValShift V)) (NOT 255) AND V = 0)"

definition getThumbImm16ValShift :: "u32 \<Rightarrow> u32" where
  "getThumbImm16ValShift Imm = (if Imm AND NOT 65535 = 0 then 0 else CountTrailingZeros_32 Imm)"

definition isThumbImm16ShiftedVal :: "u32 \<Rightarrow> bool" where
  "isThumbImm16ShiftedVal V = (push_bit (unat (getThumbImm16ValShift V)) (NOT 65535) AND V = 0)"

definition getThumbImmNonShiftedVal :: "u32 \<Rightarrow> u32" where
  "getThumbImmNonShiftedVal V = drop_bit (unat (getThumbImmValShift V)) V"

definition getT2SOImmValSplatVal :: "u32 \<Rightarrow> u32" where
  "getT2SOImmValSplatVal V =
     (if V AND 0xffffff00 = 0 then V
      else
        let Vs = (if V AND 0xff = 0 then drop_bit 8 V else V);
            Imm = Vs AND 0xff;
            u = Imm OR push_bit 16 Imm
        in if Vs = u then push_bit 8 (if Vs = V then 1 else 2) OR Imm
           else if Vs = u OR push_bit 8 u then push_bit 8 3 OR Imm
           else - 1)"

definition getT2SOImmValRotateVal :: "u32 \<Rightarrow> u32" where
  "getT2SOImmValRotateVal V =
     (let RotAmt = CountLeadingZeros_32 V
      in if RotAmt \<ge> 24 then - 1
         else if rotr32 0xff000000 RotAmt AND V = V
         then (rotr32 V (24 - RotAmt) AND 0x7f) OR push_bit 7 (RotAmt + 8)
         else - 1)"

definition getT2SOImmVal :: "u32 \<Rightarrow> u32" where
  "getT2SOImmVal Arg =
     (let Splat = getT2SOImmValSplatVal Arg
      in if Splat \<noteq> - 1 then Splat
         else let Rot = getT2SOImmValRotateVal Arg in if Rot \<noteq> - 1 then Rot else - 1)"

definition getT2SOImmValRotate :: "u32 \<Rightarrow> u32" where
  "getT2SOImmValRotate V =
     (if V AND NOT 255 = 0 then 0
      else let RotAmt = CountTrailingZeros_32 V in (32 - RotAmt) AND 31)"

definition isT2SOImmTwoPartVal :: "u32 \<Rightarrow> bool" where
  "isT2SOImmTwoPartVal Imm =
     (if getT2SOImmValSplatVal Imm \<noteq> - 1 then False
      else
        let V = rotr32 (NOT 255) (getT2SOImmValRotate Imm) AND Imm
        in if V = 0 then False
           else if getT2SOImmVal V \<noteq> - 1 then True
           else
             let V = (if getT2SOImmValSplatVal (Imm AND 0xff00ff00) \<noteq> - 1 then Imm AND NOT 0xff00ff00
                      else if getT2SOImmValSplatVal (Imm AND 0x00ff00ff) \<noteq> - 1 then Imm AND NOT 0x00ff00ff
                      else Imm)
             in getT2SOImmVal V \<noteq> - 1)"

definition getT2SOImmTwoPartFirst :: "u32 \<Rightarrow> u32" where
  "getT2SOImmTwoPartFirst Imm =
     (let V = rotr32 (NOT 255) (getT2SOImmValRotate Imm) AND Imm
      in if getT2SOImmVal V \<noteq> - 1 then V
         else if getT2SOImmValSplatVal (Imm AND 0xff00ff00) \<noteq> - 1 then Imm AND 0xff00ff00
         else Imm AND 0x00ff00ff)"

definition getT2SOImmTwoPartSecond :: "u32 \<Rightarrow> u32" where
  "getT2SOImmTwoPartSecond Imm = Imm XOR getT2SOImmTwoPartFirst Imm"

text \<open>The decoder of the Thumb-2 encoding.\<close>

definition fieldFromInstruction_4 :: "u32 \<Rightarrow> nat \<Rightarrow> nat \<Rightarrow> u32" where
  "fieldFromInstruction_4 insn startBit numBits =
     (let fieldMask = (if numBits = 32 then - 1 else push_bit startBit (push_bit numBits 1 - 1))
      in drop_bit startBit (insn AND fieldMask))"

definition T2SOImm_value :: "u32 \<Rightarrow> u32" where
  "T2SOImm_value Val =
     (if fieldFromInstruction_4 Val 10 2 = 0 then
        (let byte = fieldFromInstruction_4 Val 8 2;
             imm = fieldFromInstruction_4 Val 0 8
         in if byte = 0 then imm
            else if byte = 1 then push_bit 16 imm OR imm
            else if byte = 2 then push_bit 24 imm OR push_bit 8 imm
            else push_bit 24 imm OR push_bit 16 imm OR push_bit 8 imm OR imm)
      else
        (let unrot = fieldFromInstruction_4 Val 0 7 OR 0x80;
             rot = fieldFromInstruction_4 Val 7 5
         in drop_bit (unat rot) unrot OR push_bit (unat ((32 - rot) AND 31)) unrot))"

definition DecodeT2SOImm :: "MCInst \<Rightarrow> u32 \<Rightarrow> MCInst option" where
  "DecodeT2SOImm Inst Val = MCOperand_CreateImm0 Inst (ucast (T2SOImm_value Val))"

section \<open>ARM: packed addressing modes\<close>

definition ARM_AM_getAM2Opc :: "u32 \<Rightarrow> u32 \<Rightarrow> u32 \<Rightarrow> u32 \<Rightarrow> u32" where
  "ARM_AM_getAM2Opc Opc Imm12 SO IdxMode =
     Imm12 OR push_bit 12 (of_bool (Opc = ARM_AM_sub)) OR push_bit 13 SO OR push_bit 16 IdxMode"

definition getAM2Offset :: "u32 \<Rightarrow> u32" where "getAM2Offset AM2Opc = AM2Opc AND (push_bit 12 1 - 1)"

definition getAM2Op :: "u32 \<Rightarrow> u32" where
  "getAM2Op AM2Opc = (if drop_bit 12 AM2Opc AND 1 \<noteq> 0 then ARM_AM_sub else ARM_AM_add)"

definition getAM2ShiftOpc :: "u32 \<Rightarrow> u32" where "getAM2ShiftOpc AM2Opc = drop_bit 13 AM2Opc AND 7"

definition getAM2IdxMode :: "u32 \<Rightarrow> u32" where "getAM2IdxMode AM2Opc = drop_bit 16 AM2Opc"

definition getAM3Opc :: "u32 \<Rightarrow> u8 \<Rightarrow> u32 \<Rightarrow> u32" where
  "getAM3Opc Opc Offset IdxMode =
     push_bit 8 (of_bool (Opc = ARM_AM_sub)) OR ucast Offset OR push_bit 9 IdxMode"

definition getAM3Offset :: "u32 \<Rightarrow> u8" where "getAM3Offset AM3Opc = ucast (AM3Opc AND 0xFF)"

definition getAM3Op :: "u32 \<Rightarrow> u32" where
  "getAM3Op AM3Opc = (if drop_bit 8 AM3Opc AND 1 \<noteq> 0 then ARM_AM_sub else ARM_AM_add)"

definition getAM3IdxMode :: "u32 \<Rightarrow> u32" where "getAM3IdxMode AM3Opc = drop_bit 9 AM3Opc"

definition getAM4SubMode :: "u32 \<Rightarrow> u32" where "getAM4SubMode Mode = Mode AND 0x7"

definition getAM4ModeImm :: "u32 \<Rightarrow> u32" where "getAM4ModeImm SubMode = SubMode"

definition ARM_AM_getAM5Opc :: "u32 \<Rightarrow> u8 \<Rightarrow> u32" where
  "ARM_AM_getAM5Opc Opc Offset = push_bit 8 (of_bool (Opc = ARM_AM_sub)) OR ucast Offset"

definition ARM_AM_getAM5Offset :: "u32 \<Rightarrow> u8" where "ARM_AM_getAM5Offset AM5Opc = ucast (AM5Opc AND 0xFF)"

definition ARM_AM_getAM5Op :: "u32 \<Rightarrow> u32" where
  "ARM_AM_getAM5Op AM5Opc = (if drop_bit 8 AM5Opc AND 1 \<noteq> 0 then ARM_AM_sub else ARM_AM_add)"

section \<open>ARM: NEON immediates\<close>

definition createNEONModImm :: "u32 \<Rightarrow> u32 \<Rightarrow> u32" where
  "createNEONModImm OpCmode Val = push_bit 8 OpCmode OR Val"

definition getNEONModImmOpCmode :: "u32 \<Rightarrow> u32" where
  "getNEONModImmOpCmode ModImm = drop_bit 8 ModImm AND 0x1f"

definition getNEONModImmVal :: "u32 \<Rightarrow> u32" where "getNEONModImmVal ModImm = ModImm AND 0xff"

text \<open>The loop that sets the bytes of a 64-bit element.\<close>

fun NEON_bytes :: "u32 \<Rightarrow> nat \<Rightarrow> nat \<Rightarrow> u64 \<Rightarrow> u64" where
  "NEON_bytes ModImm ByteNum 0 Val = Val"
| "NEON_bytes ModImm ByteNum (Suc n) Val =
     NEON_bytes ModImm (ByteNum + 1) n
       (if drop_bit ByteNum ModImm AND 1 \<noteq> 0 then Val OR push_bit (8 * ByteNum) 0xff else Val)"

text \<open>The value and the element size; an unsupported immediate leaves the size unwritten.\<close>

definition ARM_AM_decodeNEONModImm :: "u32 \<Rightarrow> u64 \<times> u32 option" where
  "ARM_AM_decodeNEONModImm ModImm =
     (let OpCmode = getNEONModImmOpCmode ModImm;
          Imm8 = getNEONModImmVal ModImm
      in if OpCmode = 0xe then (ucast Imm8, Some 8)
         else if OpCmode AND 0xc = 0x8 then
           (let ByteNum = drop_bit 1 (OpCmode AND 0x6) in (push_bit (unat (8 * ByteNum)) (ucast Imm8), Some 16))
         else if OpCmode AND 0x8 = 0 then
           (let ByteNum = drop_bit 1 (OpCmode AND 0x6) in (push_bit (unat (8 * ByteNum)) (ucast Imm8), Some 32))
         else if OpCmode AND 0xe = 0xc then
           (let ByteNum = 1 + (OpCmode AND 0x1)
            in (ucast (push_bit (unat (8 * ByteNum)) Imm8 OR drop_bit (unat (8 * (2 - ByteNum))) 0xffff), Some 32))
         else if OpCmode = 0x1e then (NEON_bytes ModImm 0 8 0, Some 64)
         else (0, None))"

text \<open>The bits of the floating-point number that an 8-bit immediate stands for, in both headers.\<close>

definition getFPImmFloat :: "u32 \<Rightarrow> u32" where
  "getFPImmFloat Imm =
     (let Sign = (ucast (drop_bit 7 Imm AND 0x1) :: u8);
          Exp = (ucast (drop_bit 4 Imm AND 0x7) :: u8);
          Mantissa = (ucast (Imm AND 0xf) :: u8)
      in push_bit 31 (ucast Sign) OR push_bit 30 (if Exp AND 0x4 \<noteq> 0 then 0 else 1) OR
         push_bit 25 (if Exp AND 0x4 \<noteq> 0 then 0x1f else 0) OR push_bit 23 (ucast (Exp AND 0x3)) OR
         push_bit 19 (ucast Mantissa))"

section \<open>AArch64\<close>

definition AArch64_AM_getShiftType :: "u32 \<Rightarrow> int" where
  "AArch64_AM_getShiftType Imm =
     (let t = drop_bit 6 Imm AND 0x7 in if t \<le> 4 then int (unat t) else - 1)"

definition AArch64_AM_getShiftExtendName :: "int \<Rightarrow> string option" where
  "AArch64_AM_getShiftExtendName ST =
     (let names = [''lsl'', ''lsr'', ''asr'', ''ror'', ''msl'', ''uxtb'', ''uxth'', ''uxtw'', ''uxtx'',
                   ''sxtb'', ''sxth'', ''sxtw'', ''sxtx'']
      in if 0 \<le> ST \<and> ST < 13 then Some (names ! nat ST) else None)"

definition AArch64_AM_getShiftValue :: "u32 \<Rightarrow> u32" where "AArch64_AM_getShiftValue Imm = Imm AND 0x3f"

definition AArch64_AM_getArithShiftValue :: "u32 \<Rightarrow> u32" where "AArch64_AM_getArithShiftValue Imm = Imm AND 0x7"

definition AArch64_AM_getExtendType :: "u32 \<Rightarrow> int" where
  "AArch64_AM_getExtendType Imm = (if Imm \<le> 7 then 5 + int (unat Imm) else 5)"

definition AArch64_AM_getArithExtendType :: "u32 \<Rightarrow> int" where
  "AArch64_AM_getArithExtendType Imm = AArch64_AM_getExtendType (drop_bit 3 Imm AND 0x7)"

text \<open>The fields of a logical immediate. The size of the pattern is \<open>1 << len\<close>.\<close>

definition logical_len :: "u64 \<Rightarrow> int" where
  "logical_len val =
     (let N = (ucast (drop_bit 12 val) :: u32) AND 1;
          imms = (ucast val :: u32) AND 0x3f
      in sint (31 - countLeadingZeros (sint (push_bit 6 N OR (NOT imms AND 0x3f)))))"

definition aarch64_ror :: "u64 \<Rightarrow> u32 \<Rightarrow> u64" where
  "aarch64_ror elt sz = push_bit (unat (sz - 1)) (elt AND 1) OR drop_bit 1 elt"

text \<open>The replication loop: it stops when the size is that of the register.\<close>

definition replicate_body :: "u32 \<Rightarrow> u64 \<times> u32 \<Rightarrow> ((u64 \<times> u32) + u64) option" where
  "replicate_body regSize = (\<lambda>(pattern, sz).
     if sz \<noteq> regSize then do {
       need (sz < 64);
       Some (Inl (pattern OR push_bit (unat sz) pattern, sz * 2)) }
     else Some (Inr pattern))"

definition AArch64_AM_decodeLogicalImmediate :: "u64 \<Rightarrow> u32 \<Rightarrow> u64 option" where
  "AArch64_AM_decodeLogicalImmediate val regSize = do {
     let immr = (ucast (drop_bit 6 val) :: u32) AND 0x3f;
     let imms = (ucast val :: u32) AND 0x3f;
     let len = logical_len val;
     need (0 \<le> len);
     let sz = (push_bit (nat len) 1 :: u32);
     let R = immr AND (sz - 1);
     let S = imms AND (sz - 1);
     need (S + 1 < 64);
     let pattern = push_bit (unat (S + 1)) 1 - 1;
     let pattern = ((\<lambda>p. aarch64_ror p sz) ^^ unat R) pattern;
     c_loop (replicate_body regSize) (pattern, sz) }"

definition AArch64_AM_isValidDecodeLogicalImmediate :: "u64 \<Rightarrow> u32 \<Rightarrow> bool" where
  "AArch64_AM_isValidDecodeLogicalImmediate val regSize =
     (let N = (ucast (drop_bit 12 val) :: u32) AND 1;
          imms = (ucast val :: u32) AND 0x3f
      in if regSize = 32 \<and> N \<noteq> 0 then False
         else
           let len = logical_len val
           in if len < 0 then False
              else
                let sz = (push_bit (nat len) 1 :: u32);
                    S = imms AND (sz - 1)
                in S \<noteq> sz - 1)"

definition AArch64_AM_lookup :: "u32 list" where
  "AArch64_AM_lookup = [0x00000000, 0x000000ff, 0x0000ff00, 0x0000ffff,
     0x00ff0000, 0x00ff00ff, 0x00ffff00, 0x00ffffff,
     0xff000000, 0xff0000ff, 0xff00ff00, 0xff00ffff,
     0xffff0000, 0xffff00ff, 0xffffff00, 0xffffffff]"

definition AArch64_AM_decodeAdvSIMDModImmType10 :: "u8 \<Rightarrow> u64 option" where
  "AArch64_AM_decodeAdvSIMDModImmType10 Imm = do {
     lo \<leftarrow> aget AArch64_AM_lookup (unat (Imm AND 0x0f));
     hi \<leftarrow> aget AArch64_AM_lookup (unat (drop_bit 4 Imm));
     Some (ucast lo OR push_bit 32 (ucast hi)) }"

section \<open>Rotation\<close>

lemma unat_complement:
  assumes "unat (a :: u32) < 32"
  shows "unat ((32 - a) AND 31) = (if unat a = 0 then 0 else 32 - unat a)"
proof -
  have "(32 - a) AND 31 = take_bit 5 (32 - a)" by (simp add: take_bit_eq_mask mask_eq_decr_exp)
  then have "unat ((32 - a) AND 31) = take_bit 5 (unat (32 - a))" by (simp only: unsigned_take_bit_eq)
  moreover have "unat (32 - a) = 32 - unat a" using assms by (simp add: unat_sub word_le_nat_alt)
  ultimately show ?thesis using assms by (simp add: take_bit_eq_mod)
qed

lemma bit_rotr32:
  assumes "unat a < 32" "i < 32"
  shows "bit (rotr32 v a) i \<longleftrightarrow> bit v ((i + unat a) mod 32)"
proof -
  have "\<not> bit v k" if "32 \<le> k" for k using that by (auto dest: bit_imp_le_length)
  then show ?thesis using assms
    by (auto simp: rotr32_def bit_or_iff bit_drop_bit_eq bit_push_bit_iff mod_if unat_complement add.commute)
qed

lemma bit_rotl32:
  assumes "unat a < 32" "i < 32"
  shows "bit (rotl32 v a) i \<longleftrightarrow> bit v ((i + 32 - unat a) mod 32)"
proof -
  have "\<not> bit v k" if "32 \<le> k" for k using that by (auto dest: bit_imp_le_length)
  then show ?thesis using assms
    by (auto simp: rotl32_def bit_or_iff bit_drop_bit_eq bit_push_bit_iff mod_if unat_complement add.commute)
qed

lemma rotr_rotl: "unat a < 32 \<Longrightarrow> rotr32 (rotl32 v a) a = v"
  by (intro bit_word_eqI) (auto simp: bit_rotr32 bit_rotl32 mod_if)

lemma rotl_rotr: "unat a < 32 \<Longrightarrow> rotl32 (rotr32 v a) a = v"
  by (intro bit_word_eqI) (auto simp: bit_rotr32 bit_rotl32 mod_if)

section \<open>ARM immediates\<close>

lemma not_255_eq_0: "(v :: u32) AND NOT 255 = 0 \<longleftrightarrow> (\<forall>i < 32. bit v i \<longrightarrow> i < 8)"
proof -
  have m: "(255 :: u32) = mask 8" by (simp add: mask_eq_decr_exp)
  show ?thesis unfolding m by (auto simp: bit_eq_iff bit_and_iff bit_not_iff bit_mask_iff not_less dest: bit_imp_le_length)
qed

text \<open>
  The encodable values: all set bits lie in a window of eight bits that starts at an even position
  and may wrap around the top.
\<close>

definition in_window :: "u32 \<Rightarrow> nat \<Rightarrow> bool" where
  "in_window v p \<longleftrightarrow> (\<forall>i < 32. bit v i \<longrightarrow> (i + 32 - p) mod 32 < 8)"

definition so_encodable :: "u32 \<Rightarrow> bool" where
  "so_encodable v \<longleftrightarrow> (\<exists>p < 32. even p \<and> in_window v p)"

lemma in_window_rotr:
  assumes "unat a < 32"
  shows "rotr32 v a AND NOT 255 = 0 \<longleftrightarrow> in_window v (unat a)"
proof -
  have "(\<forall>i < 32. bit v ((i + unat a) mod 32) \<longrightarrow> i < 8) \<longleftrightarrow> (\<forall>i < 32. bit v i \<longrightarrow> (i + 32 - unat a) mod 32 < 8)"
  proof (intro iffI allI impI)
    fix i assume h: "\<forall>i < 32. bit v ((i + unat a) mod 32) \<longrightarrow> i < 8" and i: "i < 32" "bit v i"
    have "((i + 32 - unat a) mod 32 + unat a) mod 32 = i" using i(1) assms by (auto simp: mod_if)
    then show "(i + 32 - unat a) mod 32 < 8" using h [rule_format, of "(i + 32 - unat a) mod 32"] i by simp
  next
    fix i assume h: "\<forall>i < 32. bit v i \<longrightarrow> (i + 32 - unat a) mod 32 < 8" and i: "i < 32" "bit v ((i + unat a) mod 32)"
    have "((i + unat a) mod 32 + 32 - unat a) mod 32 = i" using i(1) assms by (auto simp: mod_if)
    then show "i < 8" using h [rule_format, of "(i + unat a) mod 32"] i by simp
  qed
  then show ?thesis unfolding not_255_eq_0 in_window_def using assms by (simp add: bit_rotr32)
qed

text \<open>Rotation amounts: right by \<open>p\<close> is left by \<open>32 - p\<close>.\<close>

lemma rot_complement:
  assumes "unat a < 32"
  shows "rotl32 v ((32 - a) AND 31) = rotr32 v a" "rotr32 v ((32 - a) AND 31) = rotl32 v a"
    "unat ((32 - a) AND 31) < 32"
proof -
  show c: "unat ((32 - a) AND 31) < 32" using unat_complement [OF assms] by auto
  show "rotl32 v ((32 - a) AND 31) = rotr32 v a" "rotr32 v ((32 - a) AND 31) = rotl32 v a"
    using c assms by (intro bit_word_eqI; auto simp: bit_rotl32 bit_rotr32 unat_complement mod_if)+
qed

text \<open>The mask test of \<^verbatim>\<open>getSOImmVal\<close> is the window test.\<close>

lemma rot_mask_test:
  assumes "unat a < 32"
  shows "rotr32 (NOT 255) ((32 - a) AND 31) AND v = 0 \<longleftrightarrow> in_window v (unat a)"
proof -
  have b: "bit (NOT 255 :: u32) k \<longleftrightarrow> 8 \<le> k \<and> k < 32" for k
  proof -
    have m: "(255 :: u32) = mask 8" by (simp add: mask_eq_decr_exp)
    show ?thesis unfolding m by (auto simp: bit_not_iff bit_mask_iff)
  qed
  have "bit (rotr32 (NOT 255) ((32 - a) AND 31)) i \<longleftrightarrow> 8 \<le> (i + 32 - unat a) mod 32" if "i < 32" for i
    unfolding rot_complement(2) [OF assms] bit_rotl32 [OF assms that] b by simp
  then show ?thesis unfolding in_window_def by (auto simp: bit_eq_iff bit_and_iff not_le dest: bit_imp_le_length)
qed

lemma ctz_word:
  assumes "(v :: u32) \<noteq> 0"
  shows "unat (CountTrailingZeros_32 v) = builtin_ctz v" "builtin_ctz v < 32"
proof -
  show "builtin_ctz v < 32" using ctz_bit(1) [OF assms] by simp
  then show "unat (CountTrailingZeros_32 v) = builtin_ctz v" using assms by (simp add: CountTrailingZeros_32_def unat_small)
qed

lemma even_floor: "unat ((a :: u32) AND NOT 1) = unat a div 2 * 2"
proof -
  have m: "(1 :: u32) = mask 1" by (simp add: mask_eq_decr_exp)
  have "bit (unat (a AND NOT 1)) i \<longleftrightarrow> bit (push_bit 1 (drop_bit 1 (unat a))) i" for i
    unfolding m by (auto simp: bit_unsigned_iff bit_and_iff bit_not_iff bit_mask_iff bit_push_bit_iff bit_drop_bit_eq
        simp del: push_bit_Suc push_bit_numeral mask_1 dest: bit_imp_le_length)
  then have "unat (a AND NOT 1) = push_bit 1 (drop_bit 1 (unat a))" by (intro bit_eqI) blast
  then show ?thesis by (simp add: push_bit_eq_mult drop_bit_eq_div)
qed

text \<open>The rotation that \<^verbatim>\<open>getSOImmValRotate\<close> chooses covers the value whenever one does.\<close>

lemma window_low:
  assumes "in_window v p" "p \<le> 24" "even p" "v \<noteq> 0"
  shows "in_window v (builtin_ctz v div 2 * 2)"
  unfolding in_window_def
proof (intro allI impI)
  fix i assume i: "i < 32" "bit v i"
  let ?t = "builtin_ctz v"
  have w: "p \<le> j \<and> j < p + 8" if "bit v j" "j < 32" for j
    using assms(1) [unfolded in_window_def, rule_format, OF that(2,1)] assms(2) that(2)
    by (auto simp: mod_if split: if_splits)
  have "p \<le> ?t" using w [of ?t] ctz_bit [OF assms(4)] by simp
  then have "p \<le> ?t div 2 * 2" using assms(3) by presburger
  moreover have "?t \<le> i" using ctz_below [of i v] i(2) not_less by blast
  then have "?t div 2 * 2 \<le> i" by presburger
  ultimately show "(i + 32 - ?t div 2 * 2) mod 32 < 8" using w [OF i(2,1)] i(1) by (auto simp: mod_if)
qed

lemma window_high:
  assumes "in_window v p" "24 < p" "p < 32" "even p" "\<not> in_window v 0" "\<not> in_window v (builtin_ctz v div 2 * 2)" "v \<noteq> 0"
  shows "v AND 63 \<noteq> 0" "v AND NOT 63 \<noteq> 0" "in_window v (builtin_ctz (v AND NOT 63) div 2 * 2)"
proof -
  have p30: "p \<le> 30" using assms(3,4) by presburger
  have m: "(63 :: u32) = mask 6" by (simp add: mask_eq_decr_exp)
  have lo: "bit (v AND 63) j \<longleftrightarrow> bit v j \<and> j < 6" for j
    unfolding m by (auto simp: bit_and_iff bit_mask_iff)
  have hi: "bit (v AND NOT 63) j \<longleftrightarrow> bit v j \<and> 6 \<le> j" for j
    unfolding m by (auto simp: bit_and_iff bit_not_iff bit_mask_iff not_less dest: bit_imp_le_length)
  have w: "p \<le> j \<or> j + 25 \<le> p" if "bit v j" "j < 32" for j
    using assms(1) [unfolded in_window_def, rule_format, OF that(2,1)] assms(2,3) that(2)
    by (auto simp: mod_if split: if_splits)
  have len: "j < 32" if "bit v j" for j using bit_imp_le_length [OF that] by simp
  show "v AND 63 \<noteq> 0"
  proof
    assume "v AND 63 = 0"
    then have "\<not> bit v j" if "j < 6" for j using lo [of j] that by simp
    with p30 have h: "p \<le> j" if "bit v j" for j using w [OF that len [OF that]] that by (cases "j < 6") auto
    then have "p \<le> builtin_ctz v" using ctz_bit(2) [OF assms(7)] by blast
    then have t: "p \<le> builtin_ctz v div 2 * 2" using assms(4) by presburger
    have "in_window v (builtin_ctz v div 2 * 2)"
      unfolding in_window_def
    proof (intro allI impI)
      fix i assume i: "i < 32" "bit v i"
      have "builtin_ctz v \<le> i" using ctz_below [of i v] i(2) not_less by blast
      then have "builtin_ctz v div 2 * 2 \<le> i" by presburger
      then show "(i + 32 - builtin_ctz v div 2 * 2) mod 32 < 8" using i(1) t assms(2) by (auto simp: mod_if)
    qed
    with assms(6) show False ..
  qed
  show nz: "v AND NOT 63 \<noteq> 0"
  proof
    assume "v AND NOT 63 = 0"
    then have "j < 6" if "bit v j" for j using hi [of j] that by (cases "j < 6") auto
    then have "in_window v 0" by (auto simp: in_window_def mod_if) (metis less_trans numeral_less_iff semiring_norm(76,78,81))
    with assms(5) show False ..
  qed
  let ?t = "builtin_ctz (v AND NOT 63)"
  note c = ctz_bit [OF nz]
  have "p \<le> ?t" using c hi [of ?t] w [of ?t] len [of ?t] p30 by auto
  then have t: "p \<le> ?t div 2 * 2" using assms(4) by presburger
  have t32: "?t div 2 * 2 < 32" using c(1) by simp
  show "in_window v (?t div 2 * 2)"
    unfolding in_window_def
  proof (intro allI impI)
    fix i assume i: "i < 32" "bit v i"
    show "(i + 32 - ?t div 2 * 2) mod 32 < 8"
    proof (cases "i < 6")
      case True
      then have "i + 25 \<le> p" using w [OF i(2,1)] assms(2) by auto
      then show ?thesis using t t32 by (auto simp: mod_if)
    next
      case False
      then have "?t \<le> i" using ctz_below [of i "v AND NOT 63"] hi [of i] i(2) not_less by auto
      then have "?t div 2 * 2 \<le> i" by presburger
      then show ?thesis using i(1) t assms(2) by (auto simp: mod_if)
    qed
  qed
qed

text \<open>The amount that \<^verbatim>\<open>getSOImmValRotate\<close> returns, as a window.\<close>

lemma ctz_window:
  assumes "(w :: u32) \<noteq> 0"
  shows "unat (CountTrailingZeros_32 w AND NOT 1) = builtin_ctz w div 2 * 2"
    "unat (CountTrailingZeros_32 w AND NOT 1) < 32"
    "rotr32 v (CountTrailingZeros_32 w AND NOT 1) AND NOT 255 = 0 \<longleftrightarrow> in_window v (builtin_ctz w div 2 * 2)"
proof -
  show u: "unat (CountTrailingZeros_32 w AND NOT 1) = builtin_ctz w div 2 * 2"
    unfolding even_floor ctz_word(1) [OF assms] ..
  show l: "unat (CountTrailingZeros_32 w AND NOT 1) < 32" unfolding u using ctz_word(2) [OF assms] by simp
  show "rotr32 v (CountTrailingZeros_32 w AND NOT 1) AND NOT 255 = 0 \<longleftrightarrow> in_window v (builtin_ctz w div 2 * 2)"
    unfolding in_window_rotr [OF l] u ..
qed

lemma getSOImmValRotate_window:
  assumes "v AND NOT 255 \<noteq> 0"
  obtains a where "unat a < 32" "even (unat a)" "getSOImmValRotate v = (32 - a) AND 31"
    "so_encodable v \<Longrightarrow> in_window v (unat a)"
proof -
  have v: "v \<noteq> 0" using assms by auto
  let ?a = "CountTrailingZeros_32 v AND NOT 1" and ?b = "CountTrailingZeros_32 (v AND NOT 63) AND NOT 1"
  note A = ctz_window [OF v]
  have n0: "\<not> in_window v 0" using assms in_window_rotr [of 0 v] by (simp add: rotr32_def)
  show thesis
  proof (cases "v AND 63 \<noteq> 0 \<and> v AND NOT 63 \<noteq> 0 \<and> \<not> in_window v (unat ?a) \<and> in_window v (unat ?b)")
    case True
    note B = ctz_window [of "v AND NOT 63"]
    have "getSOImmValRotate v = (32 - ?b) AND 31"
      using assms True A(1) A(3) [of v] B(1) B(3) [of v] unfolding getSOImmValRotate_def Let_def by simp
    with True B(1,2) show thesis by (intro that [of ?b]) simp_all
  next
    case False
    have "getSOImmValRotate v = (32 - ?a) AND 31"
    proof -
      have "v AND NOT 63 \<noteq> 0"
      proof
        assume "v AND NOT 63 = 0"
        then have "(v AND NOT 63) AND NOT 255 = 0" by (simp only: zero_and_eq)
        moreover have "NOT 63 AND NOT 255 = (NOT 255 :: u32)" by simp
        ultimately show False using assms by (simp only: and.assoc)
      qed
      note B = ctz_window [OF this]
      show ?thesis using False assms \<open>v AND NOT 63 \<noteq> 0\<close>
        unfolding getSOImmValRotate_def Let_def A(3) B(3) A(1) B(1) by argo
    qed
    moreover have "in_window v (unat ?a)" if enc: "so_encodable v"
    proof (rule ccontr)
      assume w: "\<not> in_window v (unat ?a)"
      then have w': "\<not> in_window v (builtin_ctz v div 2 * 2)" unfolding A(1) .
      obtain p where p: "p < 32" "even p" "in_window v p" using enc unfolding so_encodable_def by blast
      have "24 < p" using window_low [OF p(3) _ p(2) v] w' by fastforce
      note h = window_high [OF p(3) this p(1,2) n0 w' v]
      show False using False w h(1,2) h(3) ctz_window(1) [OF h(2)] by simp
    qed
    ultimately show thesis using A(1,2) by (intro that [of ?a]) simp_all
  qed
qed

text \<open>Words below a power of two are those whose bits lie below the exponent.\<close>

lemma bits_unat_less:
  fixes w :: "'a :: len word"
  assumes "\<And>i. bit w i \<Longrightarrow> i < n"
  shows "unat w < 2 ^ n"
proof -
  have "take_bit n (unat w) = unat w" using assms by (intro bit_eqI) (auto simp: bit_take_bit_iff bit_unsigned_iff)
  then show ?thesis by (metis take_bit_nat_less_exp)
qed

lemma unat_less_bits:
  fixes w :: "'a :: len word"
  assumes "unat w < 2 ^ n" "bit w i"
  shows "i < n"
proof (rule ccontr)
  assume "\<not> i < n"
  then have "(2 :: nat) ^ n \<le> 2 ^ i" by (intro power_increasing) simp_all
  with assms(1) have "unat w < 2 ^ i" by (rule less_le_trans)
  then have "\<not> bit (unat w) i" by (simp add: bit_iff_odd)
  with assms(2) show False by (simp add: bit_unsigned_iff)
qed

text \<open>Two fields packed side by side, and taken apart.\<close>

lemma pack_fields:
  fixes b k :: "'a :: len word"
  assumes "unat b < 2 ^ n" "unat k < 2 ^ m" "n + m \<le> LENGTH('a)"
  shows "take_bit n (b OR push_bit n k) = b" "drop_bit n (b OR push_bit n k) = k"
    "unat (b OR push_bit n k) < 2 ^ (n + m)"
proof -
  note f = unat_less_bits [OF assms(1)] and g = unat_less_bits [OF assms(2)]
  show "take_bit n (b OR push_bit n k) = b"
    by (intro bit_word_eqI) (auto simp: bit_or_iff bit_take_bit_iff bit_push_bit_iff dest: f)
  have "bit k i \<Longrightarrow> n + i < LENGTH('a)" for i using g [of i] assms(3) by simp
  then show "drop_bit n (b OR push_bit n k) = k"
    by (intro bit_word_eqI) (auto simp: bit_or_iff bit_drop_bit_eq bit_push_bit_iff dest: f)
  show "unat (b OR push_bit n k) < 2 ^ (n + m)"
  proof (rule bits_unat_less)
    fix i assume "bit (b OR push_bit n k) i"
    then show "i < n + m" using f [of i] g [of "i - n"] by (auto simp: bit_or_iff bit_push_bit_iff)
  qed
qed

text \<open>Putting a byte and a rotation together and taking them apart.\<close>

lemma byte_bits: "(b :: u32) AND NOT 255 = 0 \<Longrightarrow> bit b i \<Longrightarrow> i < 8"
  unfolding not_255_eq_0 using bit_imp_le_length [of b i] by auto

lemma byte_unat_less: "(b :: u32) AND NOT 255 = 0 \<Longrightarrow> unat b < 2 ^ 8"
  by (rule bits_unat_less) (rule byte_bits)

lemma and_255: "(v :: u32) AND 255 = take_bit 8 v"
  by (simp add: take_bit_eq_mask mask_eq_decr_exp)

lemma pack_8:
  assumes "(b :: u32) AND NOT 255 = 0" "unat k < 2 ^ 24"
  shows "(b OR push_bit 8 k) AND 255 = b" "drop_bit 8 (b OR push_bit 8 k) = k"
  unfolding and_255 using pack_fields [OF byte_unat_less [OF assms(1)] assms(2)] by simp_all

definition SOImm_value :: "u32 \<Rightarrow> u32" where
  "SOImm_value e = rotr32 (getSOImmValImm e) (getSOImmValRot e)"

lemma pack_8_unat:
  assumes "(b :: u32) AND NOT 255 = 0" "unat k < 2 ^ 4"
  shows "unat (b OR push_bit 8 k) < 2 ^ 12"
  using pack_fields(3) [OF byte_unat_less [OF assms(1)] assms(2)] by simp

lemma getSOImmVal_byte:
  assumes "v AND NOT 255 = 0"
  shows "SOImm_value v = v" "unat v < 2 ^ 12"
proof -
  have "v AND 255 = v" "drop_bit 8 v = 0" using pack_8 [OF assms, of 0] by simp_all
  then show "SOImm_value v = v"
    by (simp add: SOImm_value_def getSOImmValImm_def getSOImmValRot_def rotr32_def)
  show "unat v < 2 ^ 12" using byte_unat_less [OF assms] by simp
qed

lemma half_rotation:
  assumes "unat (a :: u32) < 32" "even (unat a)"
  shows "drop_bit 1 ((32 - a) AND 31) * 2 = (32 - a) AND 31" "unat (drop_bit 1 ((32 - a) AND 31)) < 2 ^ 4"
proof -
  let ?r = "(32 - a) AND 31"
  have r: "even (unat ?r)" "unat ?r < 32" using assms by (auto simp: unat_complement)
  have h: "unat (drop_bit 1 ?r) = unat ?r div 2" by (simp add: drop_bit_eq_div unat_div)
  show "unat (drop_bit 1 ?r) < 2 ^ 4" unfolding h using r(2) by simp
  then have "unat (drop_bit 1 ?r * 2) = unat ?r" using r unfolding unat_word_ariths h by simp
  then show "drop_bit 1 ?r * 2 = ?r" by (simp only: word_unat_eq_iff)
qed

lemma getSOImmVal_rotated:
  assumes "unat a < 32" "even (unat a)" "in_window v (unat a)"
  shows "SOImm_value (rotl32 v ((32 - a) AND 31) OR push_bit 8 (drop_bit 1 ((32 - a) AND 31))) = v"
    "unat (rotl32 v ((32 - a) AND 31) OR push_bit 8 (drop_bit 1 ((32 - a) AND 31))) < 2 ^ 12"
proof -
  note rc = rot_complement [OF assms(1)]
  have byte: "rotr32 v a AND NOT 255 = 0" using in_window_rotr [OF assms(1)] assms(3) by blast
  note h = half_rotation [OF assms(1,2)]
  have k: "unat (drop_bit 1 ((32 - a) AND 31)) < 2 ^ 24" using h(2) by simp
  show "SOImm_value (rotl32 v ((32 - a) AND 31) OR push_bit 8 (drop_bit 1 ((32 - a) AND 31))) = v"
    unfolding rc(1) SOImm_value_def getSOImmValImm_def getSOImmValRot_def pack_8 [OF byte k] h(1) rc(2)
    by (rule rotl_rotr [OF assms(1)])
  show "unat (rotl32 v ((32 - a) AND 31) OR push_bit 8 (drop_bit 1 ((32 - a) AND 31))) < 2 ^ 12"
    unfolding rc(1) by (rule pack_8_unat [OF byte h(2)])
qed

lemma getSOImmVal_encodes:
  assumes "so_encodable v"
  shows "SOImm_value (getSOImmVal v) = v \<and> unat (getSOImmVal v) < 2 ^ 12"
proof (cases "v AND NOT 255 = 0")
  case True
  then show ?thesis using getSOImmVal_byte [OF True] by (simp add: getSOImmVal_def)
next
  case False
  then obtain a where a: "unat a < 32" "even (unat a)" "getSOImmValRotate v = (32 - a) AND 31"
    "in_window v (unat a)" using assms by (metis getSOImmValRotate_window)
  have "rotr32 (NOT 255) (getSOImmValRotate v) AND v = 0" unfolding a(3) using rot_mask_test [OF a(1)] a(4) by blast
  then have "getSOImmVal v = rotl32 v ((32 - a) AND 31) OR push_bit 8 (drop_bit 1 ((32 - a) AND 31))"
    using False a(3) unfolding getSOImmVal_def Let_def by argo
  then show ?thesis using getSOImmVal_rotated [OF a(1,2,4)] by (simp only:)
qed

lemma getSOImmVal_rejects:
  assumes "\<not> so_encodable v"
  shows "getSOImmVal v = - 1"
proof -
  have n0: "v AND NOT 255 \<noteq> 0"
  proof
    assume "v AND NOT 255 = 0"
    then have "in_window v 0" using in_window_rotr [of 0 v] by (simp add: rotr32_def)
    with assms show False unfolding so_encodable_def by force
  qed
  then obtain a where a: "unat a < 32" "even (unat a)" "getSOImmValRotate v = (32 - a) AND 31"
    by (metis getSOImmValRotate_window)
  then have "\<not> in_window v (unat a)" using assms unfolding so_encodable_def by blast
  then have "rotr32 (NOT 255) (getSOImmValRotate v) AND v \<noteq> 0" unfolding a(3) using rot_mask_test [OF a(1)] by blast
  then show ?thesis using n0 unfolding getSOImmVal_def Let_def by argo
qed

section \<open>Thumb-2 immediates\<close>

lemma bit_field:
  assumes "n < 32" "s + n \<le> 32"
  shows "bit (fieldFromInstruction_4 v s n) i \<longleftrightarrow> i < n \<and> bit v (s + i)"
proof -
  have "push_bit n 1 - 1 = (mask n :: u32)" by (simp add: mask_eq_decr_exp)
  then show ?thesis using assms
    by (auto simp: fieldFromInstruction_4_def Let_def bit_drop_bit_eq bit_and_iff bit_push_bit_iff bit_mask_iff
        dest: bit_imp_le_length)
qed

lemma field_shift:
  assumes "n < 32" "s + n \<le> 32"
  shows "fieldFromInstruction_4 v s n = take_bit n (drop_bit s v)"
  using bit_field [OF assms] by (intro bit_word_eqI) (simp add: bit_take_bit_iff bit_drop_bit_eq)

lemma fields_packed:
  assumes "(b :: u32) AND NOT 255 = 0" "unat k < 2 ^ 24"
  shows "fieldFromInstruction_4 (b OR push_bit 8 k) 0 8 = b"
    "fieldFromInstruction_4 (b OR push_bit 8 k) 8 2 = take_bit 2 k"
    "fieldFromInstruction_4 (b OR push_bit 8 k) 10 2 = take_bit 2 (drop_bit 2 k)"
proof -
  note p = pack_8 [OF assms]
  have m: "(255 :: u32) = mask 8" by (simp add: mask_eq_decr_exp)
  show "fieldFromInstruction_4 (b OR push_bit 8 k) 0 8 = b"
    using p(1) unfolding m by (simp add: field_shift take_bit_eq_mask)
  show "fieldFromInstruction_4 (b OR push_bit 8 k) 8 2 = take_bit 2 k"
    by (subst field_shift) (simp, simp, simp only: p(2))
  have d: "drop_bit 10 x = drop_bit 2 (drop_bit 8 x)" for x :: u32 by simp
  show "fieldFromInstruction_4 (b OR push_bit 8 k) 10 2 = take_bit 2 (drop_bit 2 k)"
    by (subst field_shift) (simp, simp, simp only: d p(2))
qed

lemma T2SOImm_value_splat:
  assumes "(b :: u32) AND NOT 255 = 0" "unat k < 4"
  shows "T2SOImm_value (push_bit 8 k OR b) =
    (if k = 0 then b else if k = 1 then b OR push_bit 16 b else if k = 2 then push_bit 8 (b OR push_bit 16 b)
     else (b OR push_bit 16 b) OR push_bit 8 (b OR push_bit 16 b))"
proof -
  have k: "take_bit 2 k = k" "drop_bit 2 k = 0" "unat k < 2 ^ 24"
    using assms(2) by (simp_all add: take_bit_eq_mod drop_bit_eq_div word_unat_eq_iff unat_mod unat_div)
  note f = fields_packed [OF assms(1) k(3)]
  have "push_bit 24 b = push_bit 8 (push_bit 16 b)" by simp
  then show ?thesis
    unfolding or.commute [of "push_bit 8 k"] T2SOImm_value_def Let_def f k(1,2) push_bit_or
    by (simp only: take_bit_of_0 if_True refl ac_simps)
qed

text \<open>The masks of the splat test.\<close>

lemma byte_masks:
  fixes V :: u32
  shows "V AND 0xffffff00 = V AND NOT 255" "(V AND 0xff) AND NOT 255 = 0"
    "V AND 0xff = 0 \<Longrightarrow> push_bit 8 (drop_bit 8 V) = V"
proof -
  have m: "(255 :: u32) = mask 8" by (simp add: mask_eq_decr_exp)
  have "(0xffffff00 :: u32) = NOT 255" by (simp add: word_eq_iff_unsigned not_eq_complement)
  then show "V AND 0xffffff00 = V AND NOT 255" by (simp only:)
  show "(V AND 0xff) AND NOT 255 = 0" unfolding m by (intro bit_word_eqI) (simp add: bit_and_iff bit_not_iff)
  assume z: "V AND 0xff = 0"
  have "bit (V AND mask 8) i \<longleftrightarrow> bit V i" if "i < 8" for i using that by (auto simp: bit_and_iff bit_mask_iff)
  then have "\<not> bit V i" if "i < 8" for i using that z unfolding m by simp
  then have "8 \<le> i" if "bit V i" for i using that not_le by blast
  then show "push_bit 8 (drop_bit 8 V) = V"
    by (intro bit_word_eqI) (auto simp: bit_push_bit_iff bit_drop_bit_eq le_add_diff_inverse)
qed

lemma bit_splat:
  assumes "(b :: u32) AND NOT 255 = 0" "bit b i"
  shows "bit (b OR push_bit 16 b) (16 + i)" "bit ((b OR push_bit 16 b) OR push_bit 8 (b OR push_bit 16 b)) (24 + i)"
  using assms(2) byte_bits [OF assms] by (auto simp: bit_or_iff bit_push_bit_iff)

lemma getT2SOImmValSplatVal_sound:
  assumes "getT2SOImmValSplatVal V \<noteq> - 1"
  shows "T2SOImm_value (getT2SOImmValSplatVal V) = V"
proof (cases "V AND NOT 255 = 0")
  case True
  then show ?thesis using T2SOImm_value_splat [OF True, of 0] by (simp add: getT2SOImmValSplatVal_def byte_masks(1))
next
  case big: False
  define Vs where "Vs = (if V AND 0xff = 0 then drop_bit 8 V else V)"
  define b where "b = Vs AND 0xff"
  define u where "u = b OR push_bit 16 b"
  have g: "getT2SOImmValSplatVal V = (if Vs = u then push_bit 8 (if Vs = V then 1 else 2) OR b
     else if Vs = u OR push_bit 8 u then push_bit 8 3 OR b else - 1)"
    using big unfolding getT2SOImmValSplatVal_def byte_masks(1) Let_def Vs_def [symmetric] b_def [symmetric] u_def [symmetric]
    by argo
  have byte: "b AND NOT 255 = 0" unfolding b_def by (rule byte_masks(2))
  note T2 = T2SOImm_value_splat [OF byte, folded u_def]
  have shifted: "push_bit 8 Vs = V" if "Vs \<noteq> V" using that byte_masks(3) [of V] unfolding Vs_def by (auto split: if_splits)
  consider "Vs = u" "Vs = V" | "Vs = u" "Vs \<noteq> V" | "Vs \<noteq> u" "Vs = u OR push_bit 8 u"
    using assms unfolding g by argo
  then show ?thesis
  proof cases
    case 1
    then show ?thesis unfolding g using T2 [of 1] by simp
  next
    case 2
    then show ?thesis unfolding g using T2 [of 2] shifted by simp
  next
    case 3
    have "Vs = V"
    proof (rule ccontr)
      assume n: "Vs \<noteq> V"
      then have "Vs = drop_bit 8 V" unfolding Vs_def by (auto split: if_splits)
      then have "\<not> bit Vs (24 + i)" for i using bit_imp_le_length [of V "32 + i"] by (auto simp: bit_drop_bit_eq)
      then have "\<not> bit b i" for i using bit_splat(2) [OF byte, folded u_def, of i] 3(2) by auto
      then have "b = 0" by (intro bit_word_eqI) simp
      then have "Vs = 0" using 3 by (simp add: u_def)
      then show False using shifted [OF n] big by simp
    qed
    then show ?thesis unfolding g using T2 [of 3] 3 by simp
  qed
qed

lemma rotr_rotr:
  assumes "unat a < 32" "unat b < 32" "unat a + unat b = 32"
  shows "rotr32 (rotr32 v a) b = v"
proof (rule bit_word_eqI)
  fix n assume "n < LENGTH(32)"
  moreover from this have "((n + unat b) mod 32 + unat a) mod 32 = n"
    using assms(3) by (simp add: mod_add_left_eq add.assoc [of n] add.commute [of "unat b"])
  ultimately show "bit (rotr32 (rotr32 v a) b) n \<longleftrightarrow> bit v n" using assms by (simp add: bit_rotr32)
qed

text \<open>A rotated immediate: a byte with its top bit set, at the position its leading zeros give.\<close>

lemma clz_bits:
  assumes "(v :: u32) \<noteq> 0"
  shows "CountLeadingZeros_32 v = of_nat (builtin_clz v)" "builtin_clz v < 32" "bit v (31 - builtin_clz v)"
    "bit v i \<Longrightarrow> i \<le> 31 - builtin_clz v"
proof -
  note c = clz_top_bit [OF assms]
  show "CountLeadingZeros_32 v = of_nat (builtin_clz v)" using assms by (simp add: CountLeadingZeros_32_def)
  show "builtin_clz v < 32" using c(1) by simp
  let ?p = "31 - builtin_clz v"
  have t: "2 ^ ?p \<le> unat v" "unat v < 2 ^ Suc ?p" using c(2) by (simp_all add: top_bit_def)
  show b: "bit v i \<Longrightarrow> i \<le> ?p" for i using unat_less_bits [OF t(2)] by (simp add: less_Suc_eq_le)
  show "bit v ?p"
  proof (rule ccontr)
    assume "\<not> bit v ?p"
    then have "unat v < 2 ^ ?p" by (intro bits_unat_less) (metis b le_neq_implies_less)
    with t(1) show False by simp
  qed
qed

definition T2_window :: "u32 \<Rightarrow> nat \<Rightarrow> bool" where
  "T2_window v c \<longleftrightarrow> c < 24 \<and> bit v (31 - c) \<and> (\<forall>i. bit v i \<longrightarrow> 24 - c \<le> i \<and> i \<le> 31 - c)"

lemma T2_window_clz:
  assumes "T2_window v c"
  shows "builtin_clz v = c" "v \<noteq> 0"
proof -
  show n: "v \<noteq> 0" using assms by (auto simp: T2_window_def)
  have "31 - c \<le> 31 - builtin_clz v" "31 - builtin_clz v \<le> 31 - c"
    using assms clz_bits(3) [OF n] clz_bits(4) [OF n, of "31 - c"] by (auto simp: T2_window_def)
  then show "builtin_clz v = c" using clz_bits(2) [OF n] assms by (auto simp: T2_window_def)
qed

text \<open>The mask test compares the value with its window.\<close>

lemma T2_mask_test:
  assumes "c < 24" "builtin_clz V = c" "V \<noteq> 0"
  shows "rotr32 0xff000000 (of_nat c) AND V = V \<longleftrightarrow> T2_window V c"
proof -
  have m: "(0xff000000 :: u32) = NOT (mask 24)" by (simp add: mask_eq_decr_exp word_eq_iff_unsigned not_eq_complement)
  have u: "unat (of_nat c :: u32) = c" using assms(1) by (intro unat_small) simp
  have len: "i < 32" if "bit V i" for i using bit_imp_le_length [OF that] by simp
  have "bit (rotr32 0xff000000 (of_nat c)) i \<longleftrightarrow> 24 \<le> (i + c) mod 32" if "i < 32" for i
    using that assms(1) u unfolding m by (auto simp: bit_rotr32 bit_not_iff bit_mask_iff)
  then have "rotr32 0xff000000 (of_nat c) AND V = V \<longleftrightarrow> (\<forall>i. bit V i \<longrightarrow> 24 \<le> (i + c) mod 32)"
    using len by (auto simp: bit_eq_iff bit_and_iff)
  moreover have "24 \<le> (i + c) mod 32 \<longleftrightarrow> 24 - c \<le> i" if "bit V i" for i
    using clz_bits(4) [OF assms(3) that] clz_bits(2) [OF assms(3)] assms(2) by auto
  ultimately show ?thesis
    using assms clz_bits(3,4) [OF assms(3)] unfolding T2_window_def by blast
qed

lemma getT2SOImmValRotateVal_eq:
  "getT2SOImmValRotateVal V = (if T2_window V (builtin_clz V)
     then (rotr32 V (24 - of_nat (builtin_clz V)) AND 0x7f) OR push_bit 7 (of_nat (builtin_clz V) + 8) else - 1)"
proof (cases "V = 0")
  case True
  then show ?thesis by (simp add: getT2SOImmValRotateVal_def CountLeadingZeros_32_def T2_window_def)
next
  case False
  let ?c = "builtin_clz V"
  have "(24 :: u32) \<le> of_nat ?c \<longleftrightarrow> 24 \<le> ?c"
    using clz_bits(2) [OF False] by (simp add: word_le_nat_alt unat_small)
  then show ?thesis using T2_mask_test [OF _ refl False] False
    unfolding getT2SOImmValRotateVal_def clz_bits(1) [OF False] Let_def by (auto simp: T2_window_def)
qed

lemma T2_rotated:
  assumes "T2_window V c"
  defines "e \<equiv> (rotr32 V (24 - of_nat c) AND 0x7f) OR push_bit 7 (of_nat c + 8)"
  shows "T2SOImm_value e = V" "unat e < 2 ^ 12"
proof -
  have c: "c < 24" "bit V (31 - c)" and w: "bit V i \<Longrightarrow> 24 - c \<le> i \<and> i \<le> 31 - c" for i
    using assms(1) by (simp_all add: T2_window_def)
  let ?k = "of_nat c + 8 :: u32" and ?r = "rotr32 V (24 - of_nat c)"
  have u: "unat (of_nat c :: u32) = c" using c(1) by (intro unat_small) simp
  have k: "unat ?k = c + 8" using unat_small [of "c + 8", where 'a = 32] c(1) by simp
  have s: "unat (24 - of_nat c :: u32) = 24 - c" using c(1) u by (simp add: unat_sub word_le_nat_alt)
  have low: "x AND 0x7f = take_bit 7 x" for x :: u32 by (simp add: take_bit_eq_mask mask_eq_decr_exp)
  have b: "unat (?r AND 0x7f) < 2 ^ 7" unfolding low
    by (rule bits_unat_less) (simp add: bit_take_bit_iff)
  note p = pack_fields [OF b, of ?k 5, folded e_def]
  have e: "take_bit 7 e = ?r AND 0x7f" "drop_bit 7 e = ?k" "unat e < 2 ^ 12" using p k c(1) by simp_all
  show "unat e < 2 ^ 12" by (rule e(3))
  have f: "fieldFromInstruction_4 e 0 7 = ?r AND 0x7f" using e(1) by (simp add: field_shift)
  have "take_bit 5 ?k = ?k" using k c(1) by (simp add: word_unat_eq_iff unat_mod take_bit_eq_mod)
  then have g: "fieldFromInstruction_4 e 7 5 = ?k" using e(2) by (simp add: field_shift)
  have d: "drop_bit 10 x = drop_bit 3 (drop_bit 7 x)" for x :: u32 by simp
  have h: "fieldFromInstruction_4 e 10 2 \<noteq> 0"
  proof
    assume "fieldFromInstruction_4 e 10 2 = 0"
    then have "unat (take_bit 2 (drop_bit 3 ?k)) = 0" by (simp add: field_shift d e(2))
    then have "(c + 8) div 8 mod 4 = 0"
      by (simp add: take_bit_eq_mod drop_bit_eq_div unat_mod unat_div k)
    moreover have "0 < (c + 8) div 8" "(c + 8) div 8 < 4" using c(1) by auto
    ultimately show False by simp
  qed
  have r: "bit ?r i \<longleftrightarrow> i < 8 \<and> bit V (i + (24 - c))" for i
  proof (cases "i < 32")
    case True
    then show ?thesis
      using s c(1) w [of "(i + (24 - c)) mod 32"] by (auto simp: bit_rotr32 mod_if split: if_splits)
  qed (auto dest: bit_imp_le_length)
  have one: "bit (push_bit 7 1 :: u32) n \<longleftrightarrow> n = 7" for n
    by (auto simp: bit_push_bit_iff bit_1_iff simp del: push_bit_of_1)
  have r7: "bit ?r 7" using r [of 7] c by simp
  have "(?r AND 0x7f) OR push_bit 7 1 = ?r"
  proof (rule bit_word_eqI)
    fix n
    show "bit ((?r AND 0x7f) OR push_bit 7 1) n \<longleftrightarrow> bit ?r n"
      unfolding low bit_or_iff bit_take_bit_iff one using r7 r [of n] by (cases n "7 :: nat" rule: linorder_cases) auto
  qed
  then have "(?r AND 0x7f) OR 0x80 = ?r" by simp
  then show "T2SOImm_value e = V"
    using h rotr_rotr [of "24 - of_nat c" ?k V] c(1) s k
    unfolding T2SOImm_value_def Let_def f g rotr32_def [of _ ?k, symmetric] by simp
qed

lemma small_not_minus_1: "unat (e :: u32) < 2 ^ 12 \<Longrightarrow> e \<noteq> - 1"
  by (auto simp: unsigned_minus_1_eq_mask mask_eq_exp_minus_1)

lemma getT2SOImmVal_sound:
  assumes "getT2SOImmVal v \<noteq> - 1"
  shows "T2SOImm_value (getT2SOImmVal v) = v"
proof (cases "getT2SOImmValSplatVal v = - 1")
  case True
  then have e: "getT2SOImmVal v = getT2SOImmValRotateVal v" by (simp add: getT2SOImmVal_def Let_def)
  with assms have w: "T2_window v (builtin_clz v)" by (auto simp: getT2SOImmValRotateVal_eq split: if_splits)
  show ?thesis unfolding e getT2SOImmValRotateVal_eq using T2_rotated(1) [OF w] w by simp
next
  case False
  then show ?thesis using getT2SOImmValSplatVal_sound [OF False] by (simp add: getT2SOImmVal_def)
qed

lemma splat_hit:
  assumes "V AND NOT 255 \<noteq> 0" "(if V AND 0xff = 0 then drop_bit 8 V else V) = Vs" "Vs AND 0xff = b"
    "Vs = b OR push_bit 16 b \<or> Vs = (b OR push_bit 16 b) OR push_bit 8 (b OR push_bit 16 b)"
  shows "getT2SOImmValSplatVal V \<noteq> - 1"
proof -
  have b: "b AND NOT 255 = 0" using assms(3) byte_masks(2) by metis
  have "push_bit 8 k OR b \<noteq> - 1" if "unat k < 2 ^ 4" for k
    using small_not_minus_1 [OF pack_8_unat [OF b that]] unfolding or.commute [of b] .
  from this [of 1] this [of 2] this [of 3] have n: "push_bit 8 1 OR b \<noteq> - 1" "push_bit 8 2 OR b \<noteq> - 1" "push_bit 8 3 OR b \<noteq> - 1"
    by simp_all
  show ?thesis
    unfolding getT2SOImmValSplatVal_def byte_masks(1) Let_def assms(2,3) using assms(1,4) n by (auto split del: if_split split: if_splits)
qed

lemma splat_found:
  assumes "(b :: u32) AND NOT 255 = 0" "b \<noteq> 0"
  shows "getT2SOImmValSplatVal (b OR push_bit 16 b) \<noteq> - 1"
    "getT2SOImmValSplatVal (push_bit 8 (b OR push_bit 16 b)) \<noteq> - 1"
    "getT2SOImmValSplatVal ((b OR push_bit 16 b) OR push_bit 8 (b OR push_bit 16 b)) \<noteq> - 1"
proof -
  let ?u = "b OR push_bit 16 b"
  have s16: "push_bit 16 b = push_bit 8 (push_bit 8 b)" by simp
  obtain i where i: "bit b i" "i < 8" using assms byte_bits [OF assms(1)] by (metis bit_0_eq bit_word_eqI bot_apply bot_bool_def)
  have big: "V AND NOT 255 \<noteq> 0" if "bit V j" "8 \<le> j" for V :: u32 and j
    using byte_bits [of V j] that by auto
  have b8: "unat b < 2 ^ 8" by (rule byte_unat_less [OF assms(1)])
  have p8: "unat (push_bit 8 b) < 2 ^ 16" using pack_fields(3) [of 0 8 b 8] b8 by simp
  have u: "unat ?u < 2 ^ 24" using pack_fields(3) [OF b8 p8] unfolding s16 by simp
  have low: "?u AND 0xff = b" using pack_8(1) [OF assms(1), of "push_bit 8 b"] p8 by simp
  have "bit ?u (16 + i)" using i by (simp add: bit_or_iff bit_push_bit_iff)
  then show "getT2SOImmValSplatVal ?u \<noteq> - 1"
    using assms(2) low by (intro splat_hit [where Vs = ?u and b = b] big [of _ "16 + i"]) simp_all
  have "bit (push_bit 8 ?u) (8 + i)" using i by (simp add: bit_or_iff bit_push_bit_iff)
  moreover have "push_bit 8 ?u AND 0xff = 0" "drop_bit 8 (push_bit 8 ?u) = ?u" using pack_8 [of 0 ?u] u by simp_all
  ultimately show "getT2SOImmValSplatVal (push_bit 8 ?u) \<noteq> - 1"
    using low by (intro splat_hit [where Vs = ?u and b = b] big [of _ "8 + i"]) simp_all
  have "bit (?u OR push_bit 8 ?u) (16 + i)" using i by (simp add: bit_or_iff bit_push_bit_iff)
  moreover have "(?u OR push_bit 8 ?u) AND 0xff = b"
    using low pack_8(1) [of 0 ?u] u by (simp add: bit.conj_disj_distrib2)
  ultimately show "getT2SOImmValSplatVal (?u OR push_bit 8 ?u) \<noteq> - 1"
    using assms(2) by (intro splat_hit [where Vs = "?u OR push_bit 8 ?u" and b = b] big [of _ "16 + i"]) simp_all
qed

lemma splat_complete:
  assumes "(b :: u32) AND NOT 255 = 0" "unat k < 4"
  shows "getT2SOImmValSplatVal (T2SOImm_value (push_bit 8 k OR b)) \<noteq> - 1"
proof -
  have z: "getT2SOImmValSplatVal c \<noteq> - 1" if "c AND NOT 255 = 0" for c
    using small_not_minus_1 [of c] byte_unat_less [OF that] that unfolding getT2SOImmValSplatVal_def byte_masks(1) by simp
  show ?thesis
  proof (cases "b = 0")
    case True
    then show ?thesis unfolding T2SOImm_value_splat [OF assms] using z [of 0] by simp
  next
    case False
    then show ?thesis unfolding T2SOImm_value_splat [OF assms] using z [OF assms(1)] splat_found [OF assms(1) False] by (simp only: split: if_split) simp
  qed
qed

lemma T2_rot_window:
  assumes "unat r < 32" "8 \<le> unat r" "unat b < 2 ^ 8" "bit b 7"
  shows "T2_window (rotr32 b r) (unat r - 8)"
proof -
  note l = unat_less_bits [OF assms(3)]
  have "32 - unat r \<le> i \<and> i \<le> 39 - unat r" if "bit (rotr32 b r) i" for i
  proof -
    have i: "i < 32" using bit_imp_le_length [OF that] by simp
    then have "(i + unat r) mod 32 < 8" using l that assms(1) by (simp add: bit_rotr32)
    then show ?thesis using i assms(1,2) by (auto simp: mod_if split: if_splits)
  qed
  moreover have "bit (rotr32 b r) (39 - unat r)" using assms by (simp add: bit_rotr32)
  ultimately show ?thesis using assms(1,2) by (auto simp: T2_window_def)
qed

lemma field_byte: "fieldFromInstruction_4 e 0 8 AND NOT 255 = 0"
proof -
  have m: "(255 :: u32) = mask 8" by (simp add: mask_eq_decr_exp)
  show ?thesis unfolding m by (intro bit_word_eqI) (simp add: field_shift bit_and_iff bit_not_iff bit_mask_iff bit_take_bit_iff)
qed

lemma getT2SOImmVal_complete: "getT2SOImmVal (T2SOImm_value e) \<noteq> - 1"
proof (cases "fieldFromInstruction_4 e 10 2 = 0")
  case True
  let ?b = "fieldFromInstruction_4 e 0 8" and ?k = "fieldFromInstruction_4 e 8 2"
  have k: "unat ?k < 4" using bits_unat_less [of ?k 2] by (simp add: bit_field)
  have "T2SOImm_value e = T2SOImm_value (push_bit 8 ?k OR ?b)"
    unfolding T2SOImm_value_splat [OF field_byte k] T2SOImm_value_def [of e] Let_def True push_bit_or
    by (simp add: ac_simps)
  then have "getT2SOImmValSplatVal (T2SOImm_value e) \<noteq> - 1" using splat_complete [OF field_byte k] by metis
  then show ?thesis by (simp add: getT2SOImmVal_def Let_def)
next
  case False
  let ?b = "fieldFromInstruction_4 e 0 7 OR 0x80" and ?r = "fieldFromInstruction_4 e 7 5"
  have v: "T2SOImm_value e = rotr32 ?b ?r" using False by (simp add: T2SOImm_value_def Let_def rotr32_def)
  have b128: "(0x80 :: u32) = push_bit 7 1" by simp
  have f: "unat (fieldFromInstruction_4 e 0 7) < 2 ^ 7" by (rule bits_unat_less) (simp add: bit_field)
  have b: "unat ?b < 2 ^ 8" "bit ?b 7"
    using pack_fields(3) [OF f, of 1 1] unfolding b128 by (simp_all add: bit_or_iff bit_push_bit_iff del: push_bit_of_1)
  have r: "unat ?r < 32" using bits_unat_less [of ?r 5] by (simp add: bit_field)
  have "8 \<le> unat ?r"
  proof (rule ccontr)
    assume "\<not> ?thesis"
    then have l: "i < 3" if "bit ?r i" for i using that by (intro unat_less_bits [of ?r 3 i]) simp_all
    have "\<not> bit (fieldFromInstruction_4 e 10 2) i" for i using l [of "3 + i"] by (auto simp: bit_field)
    with False show False by (metis bit_0_eq bit_word_eqI bot_apply bot_bool_def)
  qed
  note w = T2_rot_window [OF r this b]
  then have "getT2SOImmValRotateVal (rotr32 ?b ?r) \<noteq> - 1"
    using T2_rotated(2) [OF w] small_not_minus_1 T2_window_clz(1) [OF w] unfolding getT2SOImmValRotateVal_eq by simp
  then show ?thesis unfolding v by (simp add: getT2SOImmVal_def Let_def)
qed

end
