(* ===== verification/AddrModes_Props.thy ===== *)
theory AddrModes_Props
  imports AddrModes_Model
begin

text \<open>
  What the arithmetic helpers and the immediate encodings compute: the AArch64 logical immediates
  first, then the properties of both headers, each with an application to concrete words.
\<close>

section \<open>Logical immediates\<close>

lemma logical_len_eq:
  fixes val :: u64
  defines "w \<equiv> push_bit 6 ((ucast (drop_bit 12 val) :: u32) AND 1) OR (NOT ((ucast val :: u32) AND 0x3f) AND 0x3f)"
  shows "w = 0 \<Longrightarrow> logical_len val = - 1"
    "top_bit (unat w) p \<Longrightarrow> p < 31 \<Longrightarrow> logical_len val = int p"
proof -
  have l: "logical_len val = sint (31 - countLeadingZeros (sint w))"
    by (simp add: logical_len_def Let_def w_def)
  show "w = 0 \<Longrightarrow> logical_len val = - 1" unfolding l by (simp add: countLeadingZeros_def eval_nat_numeral)
  assume p: "top_bit (unat w) p" "p < 31"
  have "unat w < 2 ^ Suc p" using p(1) by (simp add: top_bit_def)
  also have "\<dots> \<le> 2 ^ 31" using p(2) by (intro power_increasing) simp_all
  finally have "int (unat w) < int (2 ^ 31)" by (simp only: of_nat_less_iff)
  then have s: "sint w = int (unat w)" unfolding sint_split uint_nat by (simp del: of_nat_unat uint_nat)
  have "countLeadingZeros (sint w) = of_nat (31 - p)" unfolding s using p by (intro countLeadingZeros_top) simp_all
  then have "31 - countLeadingZeros (sint w) = of_nat p" using p(2) by (simp add: of_nat_diff)
  then show "logical_len val = int p" unfolding l using p(2) by (simp add: signed_of_nat signed_take_bit_int_eq_self)
qed

lemma logical_len_ok:
  assumes "0 \<le> logical_len val"
  obtains p where "logical_len val = int p" "p \<le> 6" "(ucast (drop_bit 12 val) :: u32) AND 1 = 0 \<longrightarrow> p \<le> 5"
proof -
  define N where "N = (ucast (drop_bit 12 val) :: u32) AND 1"
  define m where "m = NOT ((ucast val :: u32) AND 0x3f) AND 0x3f"
  note l = logical_len_eq [of val, folded N_def m_def]
  have "m = take_bit 6 (NOT ((ucast val :: u32) AND 0x3f))"
    unfolding m_def by (simp add: take_bit_eq_mask mask_eq_decr_exp)
  then have m: "unat m < 2 ^ 6" by (intro bits_unat_less) (simp add: bit_take_bit_iff)
  have N: "unat N < 2 ^ 1" unfolding N_def by (rule bits_unat_less) (simp add: bit_and_iff bit_1_iff)
  have w: "unat (m OR push_bit 6 N) < 2 ^ 7" using pack_fields(3) [OF m N] by simp
  have "push_bit 6 N OR m \<noteq> 0" using l(1) assms by fastforce
  then obtain p where p: "top_bit (unat (push_bit 6 N OR m)) p" by (metis top_bit_ex unat_gt_0)
  have p7: "p < 7" using top_bit_less [OF p] w by (simp add: or.commute)
  have "p < 6" if "N = 0" using top_bit_less [OF p, of 6] m that by simp
  then show thesis using l(2) [OF p] p7 N_def by (intro that [of p]) auto
qed

text \<open>Rotation inside an element.\<close>

lemma unat_push_1_32: "p \<le> 6 \<Longrightarrow> unat (push_bit p 1 :: u32) = 2 ^ p"
  by (rule unat_push_1) simp

lemma unat_size_minus_1:
  assumes "p \<le> 6"
  shows "unat (push_bit p 1 - 1 :: u32) = 2 ^ p - 1"
proof -
  have "(push_bit p 1 :: u32) \<noteq> 0" using unat_push_1_32 [OF assms] by (metis power_not_zero unat_0 zero_neq_numeral)
  from unat_minus_one [OF this] show ?thesis using unat_push_1_32 [OF assms] by metis
qed

lemma bit_aarch64_ror:
  assumes "p \<le> 6" "\<And>i. bit e i \<Longrightarrow> i < 2 ^ p"
  shows "bit (aarch64_ror e (push_bit p 1)) i \<longleftrightarrow> i < 2 ^ p \<and> bit e ((i + 1) mod 2 ^ p)"
proof -
  let ?s = "2 ^ p :: nat"
  have s: "0 < ?s" "?s \<le> 64" using power_increasing [of p 6 "2 :: nat"] assms(1) by simp_all
  have "unat (push_bit p 1 - 1 :: u32) = ?s - 1"
    by (rule unat_size_minus_1 [OF assms(1)])
  moreover have b: "bit (e AND 1) k \<longleftrightarrow> k = 0 \<and> bit e 0" for k by (auto simp: bit_and_iff bit_1_iff)
  have "bit (push_bit (?s - 1) (e AND 1)) i \<longleftrightarrow> i = ?s - 1 \<and> bit e 0" unfolding bit_push_bit_iff b using s by auto
  ultimately have "bit (aarch64_ror e (push_bit p 1)) i \<longleftrightarrow> i = ?s - 1 \<and> bit e 0 \<or> bit e (Suc i)"
    unfolding aarch64_ror_def by (simp only: bit_or_iff bit_drop_bit_eq comp_def plus_1_eq_Suc)
  moreover have "\<not> bit e j" if "?s \<le> j" for j using assms(2) [of j] that by auto
  ultimately show ?thesis using s(1) by (cases "Suc i" ?s rule: linorder_cases) auto
qed

lemma bit_ror_iterated:
  assumes "p \<le> 6" "\<And>i. bit e i \<Longrightarrow> i < 2 ^ p"
  shows "bit (((\<lambda>x. aarch64_ror x (push_bit p 1)) ^^ n) e) i \<longleftrightarrow> i < 2 ^ p \<and> bit e ((i + n) mod 2 ^ p)"
proof (induction n arbitrary: i)
  case 0
  then show ?case using assms(2) [of i] by auto
next
  case (Suc n)
  let ?f = "\<lambda>x. aarch64_ror x (push_bit p 1)"
  have "j < 2 ^ p" if "bit ((?f ^^ n) e) j" for j using Suc.IH [of j] that by blast
  then have r: "bit (?f ((?f ^^ n) e)) i \<longleftrightarrow> i < 2 ^ p \<and> bit ((?f ^^ n) e) ((i + 1) mod 2 ^ p)"
    by (rule bit_aarch64_ror [OF assms(1)])
  have m: "((i + 1) mod 2 ^ p + n) mod 2 ^ p = (i + Suc n) mod 2 ^ p" by (simp add: mod_add_left_eq)
  have "bit ((?f ^^ Suc n) e) i \<longleftrightarrow> bit (?f ((?f ^^ n) e)) i" by (simp del: push_bit_of_1)
  then show ?case unfolding r Suc.IH m by simp
qed

text \<open>The replication loop doubles the element until it fills the register.\<close>

lemma replicate_loop:
  assumes "q \<le> k" "k \<le> 6" "\<And>i. bit e i \<longleftrightarrow> i < 2 ^ q \<and> P (i mod 2 ^ p)" "p \<le> q"
  shows "\<exists>r. c_loop (replicate_body (push_bit k 1)) (e, push_bit q 1) = Some r \<and>
    (\<forall>i. bit r i \<longleftrightarrow> i < 2 ^ k \<and> P (i mod 2 ^ p))"
  using assms
proof (induction "k - q" arbitrary: q e)
  case 0
  then have "q = k" by simp
  then have "replicate_body (push_bit k 1) (e, push_bit q 1) = Some (Inr e)" by (simp add: replicate_body_def)
  from c_loop_exit [of "replicate_body (push_bit k 1)", OF this] show ?case using 0 \<open>q = k\<close> by (intro exI [of _ e]) simp
next
  case (Suc d)
  then have q: "q < k" "q \<le> 5" by simp_all
  have u: "unat (push_bit q 1 :: u32) = 2 ^ q" "unat (push_bit k 1 :: u32) = 2 ^ k" using unat_push_1_32 [of q] unat_push_1_32 [of k] Suc.prems(2) q(2) by linarith+
  have "2 ^ q \<le> (2 :: nat) ^ 5" using q(2) by (intro power_increasing) simp_all
  then have s: "(push_bit q 1 :: u32) < 64" using u(1) by (simp add: word_less_nat_alt)
  have "(push_bit q 1 :: u32) \<noteq> push_bit k 1" using u q(1) by (metis nat_neq_iff one_less_numeral_iff power_strict_increasing_iff semiring_norm(76))
  moreover have "push_bit q 1 * 2 = (push_bit (Suc q) 1 :: u32)" by simp
  ultimately have step: "replicate_body (push_bit k 1) (e, push_bit q 1) =
      Some (Inl (e OR push_bit (2 ^ q) e, push_bit (Suc q) 1))"
    using s u(1) unfolding replicate_body_def by (simp add: need_bind del: push_bit_of_1 push_bit_Suc)
  have "bit (e OR push_bit (2 ^ q) e) i \<longleftrightarrow> i < 2 ^ Suc q \<and> P (i mod 2 ^ p)" for i
  proof -
    have m: "(i - 2 ^ q) mod 2 ^ p = i mod 2 ^ p" if "2 ^ q \<le> i"
      using that le_imp_power_dvd [OF Suc.prems(4), of "2 :: nat"] mod_eq_dvd_iff_nat [of "i - 2 ^ q" i "2 ^ p"] by simp
    have l: "i < 64" if "i < 2 ^ Suc q" using that power_increasing [of "Suc q" 6 "2 :: nat"] q(2) by simp
    show ?thesis
    proof (cases "i < 2 ^ q")
      case True
      then show ?thesis using Suc.prems(3) [of i] by (simp add: bit_or_iff bit_push_bit_iff)
    next
      case False
      then have "bit (e OR push_bit (2 ^ q) e) i \<longleftrightarrow> i < 64 \<and> bit e (i - 2 ^ q)"
        using Suc.prems(3) [of i] by (simp add: bit_or_iff bit_push_bit_iff)
      also have "bit e (i - 2 ^ q) \<longleftrightarrow> i < 2 ^ Suc q \<and> P (i mod 2 ^ p)"
        using False m Suc.prems(3) [of "i - 2 ^ q"] by simp linarith
      finally show ?thesis using l by blast
    qed
  qed
  then show ?case using Suc.hyps(1) [of "Suc q" "e OR push_bit (2 ^ q) e"] Suc.hyps(2) Suc.prems q
    unfolding c_loop_step [of "replicate_body (push_bit k 1)", OF step] by simp
qed

text \<open>The fields, as numbers.\<close>

lemma logical_field:
  fixes x :: u64
  assumes "p \<le> 6"
  shows "unat (((ucast x :: u32) AND 0x3f) AND (push_bit p 1 - 1)) = unat (x AND 0x3f) mod 2 ^ p"
proof -
  have m: "(0x3f :: u32) = mask 6" "(0x3f :: u64) = mask 6" "push_bit p 1 - 1 = (mask p :: u32)"
    by (simp_all add: mask_eq_decr_exp)
  have "bit (unat (((ucast x :: u32) AND 0x3f) AND (push_bit p 1 - 1))) i \<longleftrightarrow> bit (take_bit p (unat (x AND 0x3f))) i" for i
    using assms unfolding m by (auto simp: bit_take_bit_iff bit_unsigned_iff bit_and_iff bit_mask_iff dest: bit_imp_le_length)
  then have "unat (((ucast x :: u32) AND 0x3f) AND (push_bit p 1 - 1)) = take_bit p (unat (x AND 0x3f))"
    by (intro bit_eqI) blast
  then show ?thesis by (simp only: take_bit_eq_mod)
qed

lemma logical_valid:
  assumes "AArch64_AM_isValidDecodeLogicalImmediate val (push_bit k 1)" "k = 5 \<or> k = 6"
  obtains p where "logical_len val = int p" "p \<le> k" "Suc (unat (val AND 0x3f) mod 2 ^ p) < 2 ^ p"
proof -
  have len: "0 \<le> logical_len val"
    using assms(1) by (simp add: AArch64_AM_isValidDecodeLogicalImmediate_def Let_def split: if_splits)
  obtain p where p: "logical_len val = int p" "p \<le> 6" "(ucast (drop_bit 12 val) :: u32) AND 1 = 0 \<longrightarrow> p \<le> 5"
    using logical_len_ok [OF len] .
  let ?S = "((ucast val :: u32) AND 0x3f) AND (push_bit p 1 - 1)"
  have v: "k = 5 \<longrightarrow> (ucast (drop_bit 12 val) :: u32) AND 1 = 0" "?S \<noteq> push_bit p 1 - 1"
    using assms(1) p(1) by (auto simp: AArch64_AM_isValidDecodeLogicalImmediate_def Let_def split: if_splits)
  have k: "p \<le> k" using v(1) p(2,3) assms(2) by auto
  have "unat ?S \<noteq> unat (push_bit p 1 - 1 :: u32)" using v(2) by (simp only: word_unat_eq_iff not_False_eq_True)
  then have "unat (val AND 0x3f) mod 2 ^ p \<noteq> 2 ^ p - 1" unfolding logical_field [OF p(2)] unat_size_minus_1 [OF p(2)] .
  moreover have "unat (val AND 0x3f) mod 2 ^ p < 2 ^ p" by simp
  ultimately have "Suc (unat (val AND 0x3f) mod 2 ^ p) < 2 ^ p" by linarith
  then show thesis using p(1) k that by blast
qed

lemma decodeLogicalImmediate_bits:
  assumes "AArch64_AM_isValidDecodeLogicalImmediate val (push_bit k 1)" "k = 5 \<or> k = 6"
  defines "p \<equiv> nat (logical_len val)"
  shows "\<exists>r. AArch64_AM_decodeLogicalImmediate val (push_bit k 1) = Some r \<and>
    (\<forall>i. bit r i \<longleftrightarrow> i < 2 ^ k \<and>
       (i + unat (drop_bit 6 val AND 0x3f)) mod 2 ^ p \<le> unat (val AND 0x3f) mod 2 ^ p)"
proof -
  obtain p' where p': "logical_len val = int p'" "p' \<le> k" "Suc (unat (val AND 0x3f) mod 2 ^ p') < 2 ^ p'"
    using logical_valid [OF assms(1,2)] .
  then have [simp]: "p' = p" by (simp add: p_def)
  have p: "p \<le> 6" using p'(2) assms(2) by auto
  have p64: "(2 :: nat) ^ p \<le> 64" using power_increasing [OF p, of "2 :: nat"] by simp
  define S R where "S = ((ucast val :: u32) AND 0x3f) AND (push_bit p 1 - 1)"
    and "R = ((ucast (drop_bit 6 val) :: u32) AND 0x3f) AND (push_bit p 1 - 1)"
  have S: "unat S = unat (val AND 0x3f) mod 2 ^ p" and R: "unat R = unat (drop_bit 6 val AND 0x3f) mod 2 ^ p"
    unfolding S_def R_def by (rule logical_field [OF p])+
  have s: "Suc (unat S) < 2 ^ p" unfolding S using p'(3) by simp
  have "unat (S + 1) = Suc (unat S)" using s p64 by (subst unat_add_lem [THEN iffD1]) simp_all
  then have S1: "unat (S + 1) = Suc (unat S)" "S + 1 < 64" using s p64 by (simp_all add: word_less_nat_alt)
  define e where "e = (push_bit (Suc (unat S)) 1 - 1 :: u64)"
  have "e = mask (Suc (unat S))" by (simp add: e_def mask_eq_decr_exp)
  moreover have "unat S < 63" using s p64 by linarith
  ultimately have e: "bit e i \<longleftrightarrow> i \<le> unat S" for i by (auto simp: bit_mask_iff less_Suc_eq_le simp del: mask_Suc_exp)
  then have e': "bit e i \<Longrightarrow> i < 2 ^ p" for i using s by auto
  define f where "f = ((\<lambda>x. aarch64_ror x (push_bit p 1)) ^^ unat R) e"
  have "bit f i \<longleftrightarrow> i < 2 ^ p \<and> bit e ((i + unat R) mod 2 ^ p)" for i
    unfolding f_def by (rule bit_ror_iterated [OF p e'])
  then have f: "bit f i \<longleftrightarrow> i < 2 ^ p \<and> (i mod 2 ^ p + unat R) mod 2 ^ p \<le> unat S" for i
    unfolding e by (auto simp: mod_add_left_eq)
  have "\<exists>r. c_loop (replicate_body (push_bit k 1)) (f, push_bit p 1) = Some r \<and>
    (\<forall>i. bit r i \<longleftrightarrow> i < 2 ^ k \<and> (i mod 2 ^ p + unat R) mod 2 ^ p \<le> unat S)"
    by (rule replicate_loop) (use p'(2) assms(2) f in \<open>simp_all only: \<open>p' = p\<close>, linarith\<close>)
  moreover have "AArch64_AM_decodeLogicalImmediate val (push_bit k 1) = c_loop (replicate_body (push_bit k 1)) (f, push_bit p 1)"
    using p'(1) S1 unfolding AArch64_AM_decodeLogicalImmediate_def Let_def f_def e_def S_def R_def
    by (simp add: need_bind del: push_bit_of_1)
  moreover have "(i mod 2 ^ p + unat R) mod 2 ^ p = (i + unat (drop_bit 6 val AND 0x3f)) mod 2 ^ p" for i
    unfolding R by (rule mod_add_eq)
  ultimately show ?thesis unfolding S by simp
qed

section \<open>Packed operands\<close>

lemma and_low_mask: "(x :: u32) AND 7 = take_bit 3 x" "(x :: u32) AND 0x1f = take_bit 5 x" "(x :: u32) AND 0xff = take_bit 8 x"
  "(x :: u32) AND (push_bit 12 1 - 1) = take_bit 12 x"
  by (simp_all add: take_bit_eq_mask mask_eq_decr_exp)

text \<open>The flag of an addition or subtraction, read back from its bit.\<close>

lemma flag_field:
  fixes x :: u32
  assumes "Opc = ARM_AM_sub \<or> Opc = ARM_AM_add" "take_bit 1 (drop_bit n x) = of_bool (Opc = ARM_AM_sub)"
  shows "(if drop_bit n x AND 1 \<noteq> 0 then ARM_AM_sub else ARM_AM_add) = Opc"
proof -
  have "drop_bit n x AND 1 = take_bit 1 (drop_bit n x)" by (simp add: take_bit_eq_mask mask_eq_decr_exp)
  then show ?thesis unfolding assms(2) using assms(1) by auto
qed

lemma of_bool_unat: "unat (of_bool b :: u32) < 2 ^ 1" by (cases b) simp_all

lemma push_nest:
  "push_bit 8 (push_bit 1 x) = push_bit 9 x" "push_bit 12 (push_bit 1 x) = push_bit 13 x"
  "push_bit 13 (push_bit 3 x) = push_bit 16 x" for x :: u32
  unfolding push_bit_push_bit by simp_all

lemma SOReg_round_trip:
  assumes "unat ShOp < 2 ^ 3" "unat Imm < 2 ^ 29"
  shows "ARM_AM_getSORegShOp (getSORegOpc ShOp Imm) = ShOp" "getSORegOffset (getSORegOpc ShOp Imm) = Imm"
  unfolding ARM_AM_getSORegShOp_def getSORegOffset_def getSORegOpc_def and_low_mask
  using pack_fields [OF assms] by simp_all

text \<open>Mode 2 nests three pairs of fields.\<close>

lemma AM2_round_trip:
  assumes "Opc = ARM_AM_sub \<or> Opc = ARM_AM_add" "unat Imm12 < 2 ^ 12" "unat SO < 2 ^ 3" "unat IdxMode < 2 ^ 16"
  defines "M \<equiv> ARM_AM_getAM2Opc Opc Imm12 SO IdxMode"
  shows "getAM2Offset M = Imm12" "getAM2Op M = Opc" "getAM2ShiftOpc M = SO" "getAM2IdxMode M = IdxMode"
proof -
  let ?f = "of_bool (Opc = ARM_AM_sub) :: u32"
  define a where "a = SO OR push_bit 3 IdxMode"
  define b where "b = ?f OR push_bit 1 a"
  have l: "3 + 16 \<le> LENGTH(32)" "1 + (3 + 16) \<le> LENGTH(32)" "12 + (1 + (3 + 16)) \<le> LENGTH(32)" by simp_all
  note A = pack_fields [OF assms(3,4) l(1), folded a_def]
  note B = pack_fields [OF of_bool_unat A(3) l(2), of "Opc = ARM_AM_sub", folded b_def]
  note M = pack_fields [OF assms(2) B(3) l(3)]
  have m: "M = Imm12 OR push_bit 12 b"
    unfolding M_def b_def a_def ARM_AM_getAM2Opc_def push_bit_or push_nest by (simp only: or.assoc)
  show "getAM2Offset M = Imm12" unfolding getAM2Offset_def and_low_mask m by (rule M(1))
  show "getAM2Op M = Opc" unfolding getAM2Op_def m by (intro flag_field assms(1)) (simp only: M(2) B(1))
  have d13: "drop_bit 13 x = drop_bit 1 (drop_bit 12 x)" and d16: "drop_bit 16 x = drop_bit 3 (drop_bit 1 (drop_bit 12 x))" for x :: u32
    by simp_all
  show "getAM2ShiftOpc M = SO" unfolding getAM2ShiftOpc_def and_low_mask m d13 M(2) B(2) by (rule A(1))
  show "getAM2IdxMode M = IdxMode" unfolding getAM2IdxMode_def m d16 M(2) B(2) by (rule A(2))
qed

text \<open>Mode 3 and mode 5 have an 8-bit offset below their flag.\<close>

lemma ucast_offset:
  fixes Offset :: u8
  shows "unat (ucast Offset :: u32) < 2 ^ 8" "(ucast (ucast Offset :: u32) :: u8) = Offset"
proof -
  show "unat (ucast Offset :: u32) < 2 ^ 8"
    by (rule bits_unat_less) (auto simp: bit_ucast_iff dest: bit_imp_le_length)
  show "(ucast (ucast Offset :: u32) :: u8) = Offset" by (intro bit_word_eqI) (simp add: bit_ucast_iff)
qed

lemma AM3_round_trip:
  fixes Offset :: u8
  assumes "Opc = ARM_AM_sub \<or> Opc = ARM_AM_add" "unat IdxMode < 2 ^ 23"
  defines "M \<equiv> getAM3Opc Opc Offset IdxMode"
  shows "getAM3Offset M = Offset" "getAM3Op M = Opc" "getAM3IdxMode M = IdxMode"
proof -
  let ?f = "of_bool (Opc = ARM_AM_sub) :: u32"
  define b where "b = ?f OR push_bit 1 IdxMode"
  have l: "1 + 23 \<le> LENGTH(32)" "8 + (1 + 23) \<le> LENGTH(32)" by simp_all
  note B = pack_fields [OF of_bool_unat assms(2) l(1), of "Opc = ARM_AM_sub", folded b_def]
  note M = pack_fields [OF ucast_offset(1) B(3) l(2), of Offset]
  have m: "M = ucast Offset OR push_bit 8 b"
    unfolding M_def b_def getAM3Opc_def push_bit_or push_nest by (simp only: or.assoc or.left_commute)
  show "getAM3Offset M = Offset" unfolding getAM3Offset_def and_low_mask m M(1) by (rule ucast_offset(2))
  show "getAM3Op M = Opc" unfolding getAM3Op_def m by (intro flag_field assms(1)) (simp only: M(2) B(1))
  have d9: "drop_bit 9 x = drop_bit 1 (drop_bit 8 x)" for x :: u32 by simp
  show "getAM3IdxMode M = IdxMode" unfolding getAM3IdxMode_def m d9 M(2) by (rule B(2))
qed

lemma AM5_round_trip:
  assumes "Opc = ARM_AM_sub \<or> Opc = ARM_AM_add"
  shows "ARM_AM_getAM5Offset (ARM_AM_getAM5Opc Opc Offset) = Offset" "ARM_AM_getAM5Op (ARM_AM_getAM5Opc Opc Offset) = Opc"
proof -
  have e: "ARM_AM_getAM5Opc Opc Offset = getAM3Opc Opc Offset 0" by (simp add: ARM_AM_getAM5Opc_def getAM3Opc_def)
  show "ARM_AM_getAM5Offset (ARM_AM_getAM5Opc Opc Offset) = Offset" "ARM_AM_getAM5Op (ARM_AM_getAM5Opc Opc Offset) = Opc"
    unfolding e using AM3_round_trip [OF assms, of 0 Offset]
    by (simp_all add: ARM_AM_getAM5Offset_def ARM_AM_getAM5Op_def getAM3Offset_def getAM3Op_def)
qed

lemma NEON_round_trip:
  assumes "unat OpCmode < 2 ^ 5" "unat Val < 2 ^ 8"
  shows "getNEONModImmOpCmode (createNEONModImm OpCmode Val) = OpCmode" "getNEONModImmVal (createNEONModImm OpCmode Val) = Val"
proof -
  have l: "8 + 5 \<le> LENGTH(32)" by simp
  note M = pack_fields [OF assms(2,1) l]
  have "take_bit 5 OpCmode = OpCmode" using assms(1) by (intro bit_word_eqI) (auto simp: bit_take_bit_iff dest: unat_less_bits [of _ 5, simplified])
  then show "getNEONModImmOpCmode (createNEONModImm OpCmode Val) = OpCmode" "getNEONModImmVal (createNEONModImm OpCmode Val) = Val"
    unfolding getNEONModImmOpCmode_def getNEONModImmVal_def createNEONModImm_def and_low_mask or.commute [of "push_bit 8 OpCmode"] M(1,2)
    by simp_all
qed

section \<open>Arithmetic helpers\<close>

text \<open>
  C28. The portable bit counters of \<^verbatim>\<open>MathExtras.h\<close> (a bisection, a split into halves, two
  lookup tables indexed by a residue) end inside their tables and give the same numbers as the
  versions over the compiler's builtins, for every value, 0 included.
\<close>

theorem bit_counters_agree:
  "CountLeadingZeros_32_portable w = CountLeadingZeros_32 w \<and>
   CountLeadingZeros_64_portable v = CountLeadingZeros_64 v \<and>
   CountLeadingZeros_64_halves v = CountLeadingZeros_64 v \<and>
   CountTrailingZeros_32_portable w = Some (CountTrailingZeros_32 w) \<and>
   CountTrailingZeros_64_portable v = Some (CountTrailingZeros_64 v)"
  by (simp add: CountLeadingZeros_32_same CountLeadingZeros_64_same CountLeadingZeros_64_halves_same
      CountTrailingZeros_32_same CountTrailingZeros_64_same)

text \<open>
  \<^verbatim>\<open>decodeULEB128\<close> undoes the encoding: on the bytes of a number below \<open>2 ^ 64\<close>,
  whatever follows them, it returns the number and the count of its bytes.
\<close>

lemma decodeULEB128_round_trip:
  assumes "n < 2 ^ 64"
  shows "decodeULEB128 (uleb_encode n @ rest) = Some (of_nat n, length (uleb_encode n))"
  by (rule decode_encode [OF assms])

text \<open>
  \<^verbatim>\<open>RoundUpToAlignment\<close> returns the least multiple of the alignment that is not below
  the value, and \<^verbatim>\<open>OffsetToAlignment\<close> its distance, as long as the sum of value and alignment
  does not pass \<open>2 ^ 64\<close>.
\<close>

lemma RoundUpToAlignment_least:
  assumes "Align \<noteq> 0" "unat Value + unat Align \<le> 2 ^ 64"
  shows "\<exists>r d. RoundUpToAlignment Value Align = Some r \<and> OffsetToAlignment Value Align = Some d \<and>
    unat r = (LEAST m. unat Align dvd m \<and> unat Value \<le> m) \<and> unat r = unat Value + unat d"
proof -
  obtain r where r: "RoundUpToAlignment Value Align = Some r" "unat Align dvd unat r" "unat Value \<le> unat r"
    "unat r < unat Value + unat Align" using RoundUpToAlignment_up [OF assms] .
  have "unat r \<le> m" if "unat Align dvd m" "unat Value \<le> m" for m
  proof (rule ccontr)
    assume "\<not> unat r \<le> m"
    then have "unat Align dvd unat r - m" "0 < unat r - m" using dvd_diff_nat [OF r(2) that(1)] by simp_all
    then have "unat Align \<le> unat r - m" by (simp add: dvd_imp_le)
    then show False using r(4) that(2) \<open>\<not> unat r \<le> m\<close> by linarith
  qed
  then have "unat r = (LEAST m. unat Align dvd m \<and> unat Value \<le> m)"
    using r(2,3) by (intro Least_equality [symmetric]) auto
  moreover have "unat r = unat Value + unat (r - Value)" using r(3) by (simp add: unat_sub word_le_nat_alt)
  ultimately show ?thesis using r(1) by (simp add: OffsetToAlignment_def)
qed

section \<open>Immediates and addressing modes\<close>

text \<open>
  C25. \<^verbatim>\<open>getSOImmVal\<close> is a decision procedure for the immediates of ARM's data-processing
  instructions. A value whose set bits fit into eight bits that start at an even position,
  wrapping around the top included, gets a 12-bit encoding that stands for the value; every other
  value gets \<open>-1\<close>.
\<close>

theorem getSOImmVal_correct:
  "if so_encodable v
   then rotr32 (getSOImmValImm (getSOImmVal v)) (getSOImmValRot (getSOImmVal v)) = v \<and> unat (getSOImmVal v) < 2 ^ 12
   else getSOImmVal v = - 1"
  using getSOImmVal_encodes [of v] getSOImmVal_rejects [of v] by (simp add: SOImm_value_def)

text \<open>
  C26. The Thumb-2 encoder and the Thumb-2 decoder agree: \<^verbatim>\<open>getT2SOImmVal\<close> finds an
  encoding exactly for the values that some encoding stands for, and \<^verbatim>\<open>DecodeT2SOImm\<close> on the
  encoding found appends the value as an immediate operand.
\<close>

theorem T2SOImm_round_trip:
  assumes "T2SOImm_value e = v"
  shows "getT2SOImmVal v \<noteq> - 1 \<and> DecodeT2SOImm Inst (getT2SOImmVal v) = MCOperand_CreateImm0 Inst (ucast v)"
  using getT2SOImmVal_complete [of e] getT2SOImmVal_sound [of v] assms by (simp add: DecodeT2SOImm_def)

theorem T2SOImm_round_trip_witness:
  "\<forall>Inst. getT2SOImmVal 0xab00ab00 \<noteq> - 1 \<and>
   DecodeT2SOImm Inst (getT2SOImmVal 0xab00ab00) = MCOperand_CreateImm0 Inst 0xab00ab00"
proof -
  have "T2SOImm_value 0x2ab = 0xab00ab00"
    by (simp add: T2SOImm_value_def field_shift Let_def)
  from T2SOImm_round_trip [OF this] show ?thesis by simp
qed

text \<open>
  C27. A logical immediate of AArch64 that \<^verbatim>\<open>isValidDecodeLogicalImmediate\<close> accepts decodes: no
  shift is undefined, the loop that replicates the element ends, and bit \<open>i\<close> of the result is set
  when \<open>i + immr\<close>, modulo the element size, is at most \<^verbatim>\<open>imms\<close> modulo the element size.
\<close>

theorem decodeLogicalImmediate_correct:
  assumes "regSize = 32 \<or> regSize = 64" "AArch64_AM_isValidDecodeLogicalImmediate val regSize"
  shows "\<exists>r. AArch64_AM_decodeLogicalImmediate val regSize = Some r \<and>
    (\<forall>i. bit r i \<longleftrightarrow> i < unat regSize \<and>
       (i + unat (drop_bit 6 val AND 0x3f)) mod 2 ^ nat (logical_len val)
         \<le> unat (val AND 0x3f) mod 2 ^ nat (logical_len val))"
proof -
  have "(push_bit 5 1 :: u32) = 32" "(push_bit 6 1 :: u32) = 64" by simp_all
  then show ?thesis
    using assms decodeLogicalImmediate_bits [of val 5] decodeLogicalImmediate_bits [of val 6] by (elim disjE) simp_all
qed

theorem decodeLogicalImmediate_correct_witness:
  "\<exists>r. AArch64_AM_decodeLogicalImmediate 0x3c 32 = Some r \<and>
    (\<forall>i. bit r i \<longleftrightarrow> i < 32 \<and> i mod 2 = 0)"
proof -
  have l: "logical_len 0x3c = 1" using logical_len_eq(2) [of "0x3c" 1] by (simp add: top_bit_def)
  then have "AArch64_AM_isValidDecodeLogicalImmediate 0x3c 32"
    by (simp add: AArch64_AM_isValidDecodeLogicalImmediate_def Let_def)
  from decodeLogicalImmediate_correct [OF disjI1 [OF refl] this] show ?thesis by (simp add: l)
qed

text \<open>
  The packed operands of addressing modes 2, 3 and 5, of shifted registers and of NEON
  immediates unpack to the fields they were made of.
\<close>

lemma packed_operands_round_trip:
  assumes "Opc = ARM_AM_sub \<or> Opc = ARM_AM_add" "unat Imm12 < 2 ^ 12" "unat SO < 2 ^ 3" "unat IdxMode < 2 ^ 16"
    "unat OpCmode < 2 ^ 5" "unat Val < 2 ^ 8"
  shows "let M2 = ARM_AM_getAM2Opc Opc Imm12 SO IdxMode; M3 = getAM3Opc Opc Offset IdxMode;
      M5 = ARM_AM_getAM5Opc Opc Offset; SR = getSORegOpc SO Imm12; NI = createNEONModImm OpCmode Val
    in getAM2Offset M2 = Imm12 \<and> getAM2Op M2 = Opc \<and> getAM2ShiftOpc M2 = SO \<and> getAM2IdxMode M2 = IdxMode \<and>
    getAM3Offset M3 = Offset \<and> getAM3Op M3 = Opc \<and> getAM3IdxMode M3 = IdxMode \<and>
    ARM_AM_getAM5Offset M5 = Offset \<and> ARM_AM_getAM5Op M5 = Opc \<and>
    ARM_AM_getSORegShOp SR = SO \<and> getSORegOffset SR = Imm12 \<and>
    getNEONModImmOpCmode NI = OpCmode \<and> getNEONModImmVal NI = Val"
proof -
  have "unat IdxMode < 2 ^ 23" "unat Imm12 < 2 ^ 29" using assms(2,4) by simp_all
  note facts = AM2_round_trip [OF assms(1-4)] AM3_round_trip [OF assms(1) this(1), of Offset] AM5_round_trip [OF assms(1), of Offset]
    SOReg_round_trip [OF assms(3) this(2)] NEON_round_trip [OF assms(5,6)]
  then show ?thesis unfolding Let_def by blast
qed

end
