(* ===== verification/M680X_Tables.thy ===== *)
theory M680X_Tables
  imports CS_Prelude
begin

text \<open>
  The tables of the M680X disassembler: the opcode tables of the ten CPU types
  (\<^verbatim>\<open>m6800.inc\<close> to \<^verbatim>\<open>hd6309.inc\<close>), the instruction properties
  (\<^verbatim>\<open>insn_props.inc\<close>), and the enumerations they use. An entry is a tuple with the fields of
  its C structure in their order. The instructions are the numbers of \<^verbatim>\<open>m680x_insn\<close>.
\<close>

section \<open>Enumerations\<close>

datatype m680x_reg =
    M680X_REG_INVALID | M680X_REG_A | M680X_REG_B | M680X_REG_E | M680X_REG_F
  | M680X_REG_0 | M680X_REG_D | M680X_REG_W | M680X_REG_CC | M680X_REG_DP
  | M680X_REG_MD | M680X_REG_HX | M680X_REG_H | M680X_REG_X | M680X_REG_Y
  | M680X_REG_S | M680X_REG_U | M680X_REG_V | M680X_REG_Q | M680X_REG_PC
  | M680X_REG_TMP2 | M680X_REG_TMP3

primrec m680x_reg_num :: "m680x_reg \<Rightarrow> nat" where
  "m680x_reg_num M680X_REG_INVALID = 0"
| "m680x_reg_num M680X_REG_A = 1"
| "m680x_reg_num M680X_REG_B = 2"
| "m680x_reg_num M680X_REG_E = 3"
| "m680x_reg_num M680X_REG_F = 4"
| "m680x_reg_num M680X_REG_0 = 5"
| "m680x_reg_num M680X_REG_D = 6"
| "m680x_reg_num M680X_REG_W = 7"
| "m680x_reg_num M680X_REG_CC = 8"
| "m680x_reg_num M680X_REG_DP = 9"
| "m680x_reg_num M680X_REG_MD = 10"
| "m680x_reg_num M680X_REG_HX = 11"
| "m680x_reg_num M680X_REG_H = 12"
| "m680x_reg_num M680X_REG_X = 13"
| "m680x_reg_num M680X_REG_Y = 14"
| "m680x_reg_num M680X_REG_S = 15"
| "m680x_reg_num M680X_REG_U = 16"
| "m680x_reg_num M680X_REG_V = 17"
| "m680x_reg_num M680X_REG_Q = 18"
| "m680x_reg_num M680X_REG_PC = 19"
| "m680x_reg_num M680X_REG_TMP2 = 20"
| "m680x_reg_num M680X_REG_TMP3 = 21"

datatype insn_hdlr_id =
    illgl_hid | rel8_hid | rel16_hid | imm8_hid | imm16_hid
  | imm32_hid | dir_hid | ext_hid | idxX_hid | idxY_hid
  | idx09_hid | inh_hid | rr09_hid | rbits_hid | bitmv_hid
  | tfm_hid | opidx_hid | opidxdr_hid | idxX0_hid | idxX16_hid
  | imm8rel_hid | idxS_hid | idxS16_hid | idxXp_hid | idxX0p_hid
  | idx12_hid | idx12s_hid | rr12_hid | loop_hid | index_hid
  | imm8i12x_hid | imm16i12x_hid | exti12x_hid

datatype e_access_mode =
    uuuu | rrrr | wwww | rwww | rrrm
  | rmmm | wrrr | mrrr | mwww | mmmm
  | mwrr | mmrr | wmmm | rruu | muuu

primrec access_mode_num :: "e_access_mode \<Rightarrow> nat" where
  "access_mode_num uuuu = 0"
| "access_mode_num rrrr = 1"
| "access_mode_num wwww = 2"
| "access_mode_num rwww = 3"
| "access_mode_num rrrm = 4"
| "access_mode_num rmmm = 5"
| "access_mode_num wrrr = 6"
| "access_mode_num mrrr = 7"
| "access_mode_num mwww = 8"
| "access_mode_num mmmm = 9"
| "access_mode_num mwrr = 10"
| "access_mode_num mmrr = 11"
| "access_mode_num wmmm = 12"
| "access_mode_num rruu = 13"
| "access_mode_num muuu = 14"

text \<open>\<^verbatim>\<open>m680x_insn\<close> and \<^verbatim>\<open>m680x_group_type\<close>.\<close>

abbreviation (input) M680X_INS_INVLD :: nat where "M680X_INS_INVLD \<equiv> 0"
abbreviation (input) M680X_INS_ABA :: nat where "M680X_INS_ABA \<equiv> 1"
abbreviation (input) M680X_INS_ABX :: nat where "M680X_INS_ABX \<equiv> 2"
abbreviation (input) M680X_INS_ABY :: nat where "M680X_INS_ABY \<equiv> 3"
abbreviation (input) M680X_INS_ADC :: nat where "M680X_INS_ADC \<equiv> 4"
abbreviation (input) M680X_INS_ADCA :: nat where "M680X_INS_ADCA \<equiv> 5"
abbreviation (input) M680X_INS_ADCB :: nat where "M680X_INS_ADCB \<equiv> 6"
abbreviation (input) M680X_INS_ADCD :: nat where "M680X_INS_ADCD \<equiv> 7"
abbreviation (input) M680X_INS_ADCR :: nat where "M680X_INS_ADCR \<equiv> 8"
abbreviation (input) M680X_INS_ADD :: nat where "M680X_INS_ADD \<equiv> 9"
abbreviation (input) M680X_INS_ADDA :: nat where "M680X_INS_ADDA \<equiv> 10"
abbreviation (input) M680X_INS_ADDB :: nat where "M680X_INS_ADDB \<equiv> 11"
abbreviation (input) M680X_INS_ADDD :: nat where "M680X_INS_ADDD \<equiv> 12"
abbreviation (input) M680X_INS_ADDE :: nat where "M680X_INS_ADDE \<equiv> 13"
abbreviation (input) M680X_INS_ADDF :: nat where "M680X_INS_ADDF \<equiv> 14"
abbreviation (input) M680X_INS_ADDR :: nat where "M680X_INS_ADDR \<equiv> 15"
abbreviation (input) M680X_INS_ADDW :: nat where "M680X_INS_ADDW \<equiv> 16"
abbreviation (input) M680X_INS_AIM :: nat where "M680X_INS_AIM \<equiv> 17"
abbreviation (input) M680X_INS_AIS :: nat where "M680X_INS_AIS \<equiv> 18"
abbreviation (input) M680X_INS_AIX :: nat where "M680X_INS_AIX \<equiv> 19"
abbreviation (input) M680X_INS_AND :: nat where "M680X_INS_AND \<equiv> 20"
abbreviation (input) M680X_INS_ANDA :: nat where "M680X_INS_ANDA \<equiv> 21"
abbreviation (input) M680X_INS_ANDB :: nat where "M680X_INS_ANDB \<equiv> 22"
abbreviation (input) M680X_INS_ANDCC :: nat where "M680X_INS_ANDCC \<equiv> 23"
abbreviation (input) M680X_INS_ANDD :: nat where "M680X_INS_ANDD \<equiv> 24"
abbreviation (input) M680X_INS_ANDR :: nat where "M680X_INS_ANDR \<equiv> 25"
abbreviation (input) M680X_INS_ASL :: nat where "M680X_INS_ASL \<equiv> 26"
abbreviation (input) M680X_INS_ASLA :: nat where "M680X_INS_ASLA \<equiv> 27"
abbreviation (input) M680X_INS_ASLB :: nat where "M680X_INS_ASLB \<equiv> 28"
abbreviation (input) M680X_INS_ASLD :: nat where "M680X_INS_ASLD \<equiv> 29"
abbreviation (input) M680X_INS_ASR :: nat where "M680X_INS_ASR \<equiv> 30"
abbreviation (input) M680X_INS_ASRA :: nat where "M680X_INS_ASRA \<equiv> 31"
abbreviation (input) M680X_INS_ASRB :: nat where "M680X_INS_ASRB \<equiv> 32"
abbreviation (input) M680X_INS_ASRD :: nat where "M680X_INS_ASRD \<equiv> 33"
abbreviation (input) M680X_INS_ASRX :: nat where "M680X_INS_ASRX \<equiv> 34"
abbreviation (input) M680X_INS_BAND :: nat where "M680X_INS_BAND \<equiv> 35"
abbreviation (input) M680X_INS_BCC :: nat where "M680X_INS_BCC \<equiv> 36"
abbreviation (input) M680X_INS_BCLR :: nat where "M680X_INS_BCLR \<equiv> 37"
abbreviation (input) M680X_INS_BCS :: nat where "M680X_INS_BCS \<equiv> 38"
abbreviation (input) M680X_INS_BEOR :: nat where "M680X_INS_BEOR \<equiv> 39"
abbreviation (input) M680X_INS_BEQ :: nat where "M680X_INS_BEQ \<equiv> 40"
abbreviation (input) M680X_INS_BGE :: nat where "M680X_INS_BGE \<equiv> 41"
abbreviation (input) M680X_INS_BGND :: nat where "M680X_INS_BGND \<equiv> 42"
abbreviation (input) M680X_INS_BGT :: nat where "M680X_INS_BGT \<equiv> 43"
abbreviation (input) M680X_INS_BHCC :: nat where "M680X_INS_BHCC \<equiv> 44"
abbreviation (input) M680X_INS_BHCS :: nat where "M680X_INS_BHCS \<equiv> 45"
abbreviation (input) M680X_INS_BHI :: nat where "M680X_INS_BHI \<equiv> 46"
abbreviation (input) M680X_INS_BIAND :: nat where "M680X_INS_BIAND \<equiv> 47"
abbreviation (input) M680X_INS_BIEOR :: nat where "M680X_INS_BIEOR \<equiv> 48"
abbreviation (input) M680X_INS_BIH :: nat where "M680X_INS_BIH \<equiv> 49"
abbreviation (input) M680X_INS_BIL :: nat where "M680X_INS_BIL \<equiv> 50"
abbreviation (input) M680X_INS_BIOR :: nat where "M680X_INS_BIOR \<equiv> 51"
abbreviation (input) M680X_INS_BIT :: nat where "M680X_INS_BIT \<equiv> 52"
abbreviation (input) M680X_INS_BITA :: nat where "M680X_INS_BITA \<equiv> 53"
abbreviation (input) M680X_INS_BITB :: nat where "M680X_INS_BITB \<equiv> 54"
abbreviation (input) M680X_INS_BITD :: nat where "M680X_INS_BITD \<equiv> 55"
abbreviation (input) M680X_INS_BITMD :: nat where "M680X_INS_BITMD \<equiv> 56"
abbreviation (input) M680X_INS_BLE :: nat where "M680X_INS_BLE \<equiv> 57"
abbreviation (input) M680X_INS_BLS :: nat where "M680X_INS_BLS \<equiv> 58"
abbreviation (input) M680X_INS_BLT :: nat where "M680X_INS_BLT \<equiv> 59"
abbreviation (input) M680X_INS_BMC :: nat where "M680X_INS_BMC \<equiv> 60"
abbreviation (input) M680X_INS_BMI :: nat where "M680X_INS_BMI \<equiv> 61"
abbreviation (input) M680X_INS_BMS :: nat where "M680X_INS_BMS \<equiv> 62"
abbreviation (input) M680X_INS_BNE :: nat where "M680X_INS_BNE \<equiv> 63"
abbreviation (input) M680X_INS_BOR :: nat where "M680X_INS_BOR \<equiv> 64"
abbreviation (input) M680X_INS_BPL :: nat where "M680X_INS_BPL \<equiv> 65"
abbreviation (input) M680X_INS_BRCLR :: nat where "M680X_INS_BRCLR \<equiv> 66"
abbreviation (input) M680X_INS_BRSET :: nat where "M680X_INS_BRSET \<equiv> 67"
abbreviation (input) M680X_INS_BRA :: nat where "M680X_INS_BRA \<equiv> 68"
abbreviation (input) M680X_INS_BRN :: nat where "M680X_INS_BRN \<equiv> 69"
abbreviation (input) M680X_INS_BSET :: nat where "M680X_INS_BSET \<equiv> 70"
abbreviation (input) M680X_INS_BSR :: nat where "M680X_INS_BSR \<equiv> 71"
abbreviation (input) M680X_INS_BVC :: nat where "M680X_INS_BVC \<equiv> 72"
abbreviation (input) M680X_INS_BVS :: nat where "M680X_INS_BVS \<equiv> 73"
abbreviation (input) M680X_INS_CALL :: nat where "M680X_INS_CALL \<equiv> 74"
abbreviation (input) M680X_INS_CBA :: nat where "M680X_INS_CBA \<equiv> 75"
abbreviation (input) M680X_INS_CBEQ :: nat where "M680X_INS_CBEQ \<equiv> 76"
abbreviation (input) M680X_INS_CBEQA :: nat where "M680X_INS_CBEQA \<equiv> 77"
abbreviation (input) M680X_INS_CBEQX :: nat where "M680X_INS_CBEQX \<equiv> 78"
abbreviation (input) M680X_INS_CLC :: nat where "M680X_INS_CLC \<equiv> 79"
abbreviation (input) M680X_INS_CLI :: nat where "M680X_INS_CLI \<equiv> 80"
abbreviation (input) M680X_INS_CLR :: nat where "M680X_INS_CLR \<equiv> 81"
abbreviation (input) M680X_INS_CLRA :: nat where "M680X_INS_CLRA \<equiv> 82"
abbreviation (input) M680X_INS_CLRB :: nat where "M680X_INS_CLRB \<equiv> 83"
abbreviation (input) M680X_INS_CLRD :: nat where "M680X_INS_CLRD \<equiv> 84"
abbreviation (input) M680X_INS_CLRE :: nat where "M680X_INS_CLRE \<equiv> 85"
abbreviation (input) M680X_INS_CLRF :: nat where "M680X_INS_CLRF \<equiv> 86"
abbreviation (input) M680X_INS_CLRH :: nat where "M680X_INS_CLRH \<equiv> 87"
abbreviation (input) M680X_INS_CLRW :: nat where "M680X_INS_CLRW \<equiv> 88"
abbreviation (input) M680X_INS_CLRX :: nat where "M680X_INS_CLRX \<equiv> 89"
abbreviation (input) M680X_INS_CLV :: nat where "M680X_INS_CLV \<equiv> 90"
abbreviation (input) M680X_INS_CMP :: nat where "M680X_INS_CMP \<equiv> 91"
abbreviation (input) M680X_INS_CMPA :: nat where "M680X_INS_CMPA \<equiv> 92"
abbreviation (input) M680X_INS_CMPB :: nat where "M680X_INS_CMPB \<equiv> 93"
abbreviation (input) M680X_INS_CMPD :: nat where "M680X_INS_CMPD \<equiv> 94"
abbreviation (input) M680X_INS_CMPE :: nat where "M680X_INS_CMPE \<equiv> 95"
abbreviation (input) M680X_INS_CMPF :: nat where "M680X_INS_CMPF \<equiv> 96"
abbreviation (input) M680X_INS_CMPR :: nat where "M680X_INS_CMPR \<equiv> 97"
abbreviation (input) M680X_INS_CMPS :: nat where "M680X_INS_CMPS \<equiv> 98"
abbreviation (input) M680X_INS_CMPU :: nat where "M680X_INS_CMPU \<equiv> 99"
abbreviation (input) M680X_INS_CMPW :: nat where "M680X_INS_CMPW \<equiv> 100"
abbreviation (input) M680X_INS_CMPX :: nat where "M680X_INS_CMPX \<equiv> 101"
abbreviation (input) M680X_INS_CMPY :: nat where "M680X_INS_CMPY \<equiv> 102"
abbreviation (input) M680X_INS_COM :: nat where "M680X_INS_COM \<equiv> 103"
abbreviation (input) M680X_INS_COMA :: nat where "M680X_INS_COMA \<equiv> 104"
abbreviation (input) M680X_INS_COMB :: nat where "M680X_INS_COMB \<equiv> 105"
abbreviation (input) M680X_INS_COMD :: nat where "M680X_INS_COMD \<equiv> 106"
abbreviation (input) M680X_INS_COME :: nat where "M680X_INS_COME \<equiv> 107"
abbreviation (input) M680X_INS_COMF :: nat where "M680X_INS_COMF \<equiv> 108"
abbreviation (input) M680X_INS_COMW :: nat where "M680X_INS_COMW \<equiv> 109"
abbreviation (input) M680X_INS_COMX :: nat where "M680X_INS_COMX \<equiv> 110"
abbreviation (input) M680X_INS_CPD :: nat where "M680X_INS_CPD \<equiv> 111"
abbreviation (input) M680X_INS_CPHX :: nat where "M680X_INS_CPHX \<equiv> 112"
abbreviation (input) M680X_INS_CPS :: nat where "M680X_INS_CPS \<equiv> 113"
abbreviation (input) M680X_INS_CPX :: nat where "M680X_INS_CPX \<equiv> 114"
abbreviation (input) M680X_INS_CPY :: nat where "M680X_INS_CPY \<equiv> 115"
abbreviation (input) M680X_INS_CWAI :: nat where "M680X_INS_CWAI \<equiv> 116"
abbreviation (input) M680X_INS_DAA :: nat where "M680X_INS_DAA \<equiv> 117"
abbreviation (input) M680X_INS_DBEQ :: nat where "M680X_INS_DBEQ \<equiv> 118"
abbreviation (input) M680X_INS_DBNE :: nat where "M680X_INS_DBNE \<equiv> 119"
abbreviation (input) M680X_INS_DBNZ :: nat where "M680X_INS_DBNZ \<equiv> 120"
abbreviation (input) M680X_INS_DBNZA :: nat where "M680X_INS_DBNZA \<equiv> 121"
abbreviation (input) M680X_INS_DBNZX :: nat where "M680X_INS_DBNZX \<equiv> 122"
abbreviation (input) M680X_INS_DEC :: nat where "M680X_INS_DEC \<equiv> 123"
abbreviation (input) M680X_INS_DECA :: nat where "M680X_INS_DECA \<equiv> 124"
abbreviation (input) M680X_INS_DECB :: nat where "M680X_INS_DECB \<equiv> 125"
abbreviation (input) M680X_INS_DECD :: nat where "M680X_INS_DECD \<equiv> 126"
abbreviation (input) M680X_INS_DECE :: nat where "M680X_INS_DECE \<equiv> 127"
abbreviation (input) M680X_INS_DECF :: nat where "M680X_INS_DECF \<equiv> 128"
abbreviation (input) M680X_INS_DECW :: nat where "M680X_INS_DECW \<equiv> 129"
abbreviation (input) M680X_INS_DECX :: nat where "M680X_INS_DECX \<equiv> 130"
abbreviation (input) M680X_INS_DES :: nat where "M680X_INS_DES \<equiv> 131"
abbreviation (input) M680X_INS_DEX :: nat where "M680X_INS_DEX \<equiv> 132"
abbreviation (input) M680X_INS_DEY :: nat where "M680X_INS_DEY \<equiv> 133"
abbreviation (input) M680X_INS_DIV :: nat where "M680X_INS_DIV \<equiv> 134"
abbreviation (input) M680X_INS_DIVD :: nat where "M680X_INS_DIVD \<equiv> 135"
abbreviation (input) M680X_INS_DIVQ :: nat where "M680X_INS_DIVQ \<equiv> 136"
abbreviation (input) M680X_INS_EDIV :: nat where "M680X_INS_EDIV \<equiv> 137"
abbreviation (input) M680X_INS_EDIVS :: nat where "M680X_INS_EDIVS \<equiv> 138"
abbreviation (input) M680X_INS_EIM :: nat where "M680X_INS_EIM \<equiv> 139"
abbreviation (input) M680X_INS_EMACS :: nat where "M680X_INS_EMACS \<equiv> 140"
abbreviation (input) M680X_INS_EMAXD :: nat where "M680X_INS_EMAXD \<equiv> 141"
abbreviation (input) M680X_INS_EMAXM :: nat where "M680X_INS_EMAXM \<equiv> 142"
abbreviation (input) M680X_INS_EMIND :: nat where "M680X_INS_EMIND \<equiv> 143"
abbreviation (input) M680X_INS_EMINM :: nat where "M680X_INS_EMINM \<equiv> 144"
abbreviation (input) M680X_INS_EMUL :: nat where "M680X_INS_EMUL \<equiv> 145"
abbreviation (input) M680X_INS_EMULS :: nat where "M680X_INS_EMULS \<equiv> 146"
abbreviation (input) M680X_INS_EOR :: nat where "M680X_INS_EOR \<equiv> 147"
abbreviation (input) M680X_INS_EORA :: nat where "M680X_INS_EORA \<equiv> 148"
abbreviation (input) M680X_INS_EORB :: nat where "M680X_INS_EORB \<equiv> 149"
abbreviation (input) M680X_INS_EORD :: nat where "M680X_INS_EORD \<equiv> 150"
abbreviation (input) M680X_INS_EORR :: nat where "M680X_INS_EORR \<equiv> 151"
abbreviation (input) M680X_INS_ETBL :: nat where "M680X_INS_ETBL \<equiv> 152"
abbreviation (input) M680X_INS_EXG :: nat where "M680X_INS_EXG \<equiv> 153"
abbreviation (input) M680X_INS_FDIV :: nat where "M680X_INS_FDIV \<equiv> 154"
abbreviation (input) M680X_INS_IBEQ :: nat where "M680X_INS_IBEQ \<equiv> 155"
abbreviation (input) M680X_INS_IBNE :: nat where "M680X_INS_IBNE \<equiv> 156"
abbreviation (input) M680X_INS_IDIV :: nat where "M680X_INS_IDIV \<equiv> 157"
abbreviation (input) M680X_INS_IDIVS :: nat where "M680X_INS_IDIVS \<equiv> 158"
abbreviation (input) M680X_INS_ILLGL :: nat where "M680X_INS_ILLGL \<equiv> 159"
abbreviation (input) M680X_INS_INC :: nat where "M680X_INS_INC \<equiv> 160"
abbreviation (input) M680X_INS_INCA :: nat where "M680X_INS_INCA \<equiv> 161"
abbreviation (input) M680X_INS_INCB :: nat where "M680X_INS_INCB \<equiv> 162"
abbreviation (input) M680X_INS_INCD :: nat where "M680X_INS_INCD \<equiv> 163"
abbreviation (input) M680X_INS_INCE :: nat where "M680X_INS_INCE \<equiv> 164"
abbreviation (input) M680X_INS_INCF :: nat where "M680X_INS_INCF \<equiv> 165"
abbreviation (input) M680X_INS_INCW :: nat where "M680X_INS_INCW \<equiv> 166"
abbreviation (input) M680X_INS_INCX :: nat where "M680X_INS_INCX \<equiv> 167"
abbreviation (input) M680X_INS_INS :: nat where "M680X_INS_INS \<equiv> 168"
abbreviation (input) M680X_INS_INX :: nat where "M680X_INS_INX \<equiv> 169"
abbreviation (input) M680X_INS_INY :: nat where "M680X_INS_INY \<equiv> 170"
abbreviation (input) M680X_INS_JMP :: nat where "M680X_INS_JMP \<equiv> 171"
abbreviation (input) M680X_INS_JSR :: nat where "M680X_INS_JSR \<equiv> 172"
abbreviation (input) M680X_INS_LBCC :: nat where "M680X_INS_LBCC \<equiv> 173"
abbreviation (input) M680X_INS_LBCS :: nat where "M680X_INS_LBCS \<equiv> 174"
abbreviation (input) M680X_INS_LBEQ :: nat where "M680X_INS_LBEQ \<equiv> 175"
abbreviation (input) M680X_INS_LBGE :: nat where "M680X_INS_LBGE \<equiv> 176"
abbreviation (input) M680X_INS_LBGT :: nat where "M680X_INS_LBGT \<equiv> 177"
abbreviation (input) M680X_INS_LBHI :: nat where "M680X_INS_LBHI \<equiv> 178"
abbreviation (input) M680X_INS_LBLE :: nat where "M680X_INS_LBLE \<equiv> 179"
abbreviation (input) M680X_INS_LBLS :: nat where "M680X_INS_LBLS \<equiv> 180"
abbreviation (input) M680X_INS_LBLT :: nat where "M680X_INS_LBLT \<equiv> 181"
abbreviation (input) M680X_INS_LBMI :: nat where "M680X_INS_LBMI \<equiv> 182"
abbreviation (input) M680X_INS_LBNE :: nat where "M680X_INS_LBNE \<equiv> 183"
abbreviation (input) M680X_INS_LBPL :: nat where "M680X_INS_LBPL \<equiv> 184"
abbreviation (input) M680X_INS_LBRA :: nat where "M680X_INS_LBRA \<equiv> 185"
abbreviation (input) M680X_INS_LBRN :: nat where "M680X_INS_LBRN \<equiv> 186"
abbreviation (input) M680X_INS_LBSR :: nat where "M680X_INS_LBSR \<equiv> 187"
abbreviation (input) M680X_INS_LBVC :: nat where "M680X_INS_LBVC \<equiv> 188"
abbreviation (input) M680X_INS_LBVS :: nat where "M680X_INS_LBVS \<equiv> 189"
abbreviation (input) M680X_INS_LDA :: nat where "M680X_INS_LDA \<equiv> 190"
abbreviation (input) M680X_INS_LDAA :: nat where "M680X_INS_LDAA \<equiv> 191"
abbreviation (input) M680X_INS_LDAB :: nat where "M680X_INS_LDAB \<equiv> 192"
abbreviation (input) M680X_INS_LDB :: nat where "M680X_INS_LDB \<equiv> 193"
abbreviation (input) M680X_INS_LDBT :: nat where "M680X_INS_LDBT \<equiv> 194"
abbreviation (input) M680X_INS_LDD :: nat where "M680X_INS_LDD \<equiv> 195"
abbreviation (input) M680X_INS_LDE :: nat where "M680X_INS_LDE \<equiv> 196"
abbreviation (input) M680X_INS_LDF :: nat where "M680X_INS_LDF \<equiv> 197"
abbreviation (input) M680X_INS_LDHX :: nat where "M680X_INS_LDHX \<equiv> 198"
abbreviation (input) M680X_INS_LDMD :: nat where "M680X_INS_LDMD \<equiv> 199"
abbreviation (input) M680X_INS_LDQ :: nat where "M680X_INS_LDQ \<equiv> 200"
abbreviation (input) M680X_INS_LDS :: nat where "M680X_INS_LDS \<equiv> 201"
abbreviation (input) M680X_INS_LDU :: nat where "M680X_INS_LDU \<equiv> 202"
abbreviation (input) M680X_INS_LDW :: nat where "M680X_INS_LDW \<equiv> 203"
abbreviation (input) M680X_INS_LDX :: nat where "M680X_INS_LDX \<equiv> 204"
abbreviation (input) M680X_INS_LDY :: nat where "M680X_INS_LDY \<equiv> 205"
abbreviation (input) M680X_INS_LEAS :: nat where "M680X_INS_LEAS \<equiv> 206"
abbreviation (input) M680X_INS_LEAU :: nat where "M680X_INS_LEAU \<equiv> 207"
abbreviation (input) M680X_INS_LEAX :: nat where "M680X_INS_LEAX \<equiv> 208"
abbreviation (input) M680X_INS_LEAY :: nat where "M680X_INS_LEAY \<equiv> 209"
abbreviation (input) M680X_INS_LSL :: nat where "M680X_INS_LSL \<equiv> 210"
abbreviation (input) M680X_INS_LSLA :: nat where "M680X_INS_LSLA \<equiv> 211"
abbreviation (input) M680X_INS_LSLB :: nat where "M680X_INS_LSLB \<equiv> 212"
abbreviation (input) M680X_INS_LSLD :: nat where "M680X_INS_LSLD \<equiv> 213"
abbreviation (input) M680X_INS_LSLX :: nat where "M680X_INS_LSLX \<equiv> 214"
abbreviation (input) M680X_INS_LSR :: nat where "M680X_INS_LSR \<equiv> 215"
abbreviation (input) M680X_INS_LSRA :: nat where "M680X_INS_LSRA \<equiv> 216"
abbreviation (input) M680X_INS_LSRB :: nat where "M680X_INS_LSRB \<equiv> 217"
abbreviation (input) M680X_INS_LSRD :: nat where "M680X_INS_LSRD \<equiv> 218"
abbreviation (input) M680X_INS_LSRW :: nat where "M680X_INS_LSRW \<equiv> 219"
abbreviation (input) M680X_INS_LSRX :: nat where "M680X_INS_LSRX \<equiv> 220"
abbreviation (input) M680X_INS_MAXA :: nat where "M680X_INS_MAXA \<equiv> 221"
abbreviation (input) M680X_INS_MAXM :: nat where "M680X_INS_MAXM \<equiv> 222"
abbreviation (input) M680X_INS_MEM :: nat where "M680X_INS_MEM \<equiv> 223"
abbreviation (input) M680X_INS_MINA :: nat where "M680X_INS_MINA \<equiv> 224"
abbreviation (input) M680X_INS_MINM :: nat where "M680X_INS_MINM \<equiv> 225"
abbreviation (input) M680X_INS_MOV :: nat where "M680X_INS_MOV \<equiv> 226"
abbreviation (input) M680X_INS_MOVB :: nat where "M680X_INS_MOVB \<equiv> 227"
abbreviation (input) M680X_INS_MOVW :: nat where "M680X_INS_MOVW \<equiv> 228"
abbreviation (input) M680X_INS_MUL :: nat where "M680X_INS_MUL \<equiv> 229"
abbreviation (input) M680X_INS_MULD :: nat where "M680X_INS_MULD \<equiv> 230"
abbreviation (input) M680X_INS_NEG :: nat where "M680X_INS_NEG \<equiv> 231"
abbreviation (input) M680X_INS_NEGA :: nat where "M680X_INS_NEGA \<equiv> 232"
abbreviation (input) M680X_INS_NEGB :: nat where "M680X_INS_NEGB \<equiv> 233"
abbreviation (input) M680X_INS_NEGD :: nat where "M680X_INS_NEGD \<equiv> 234"
abbreviation (input) M680X_INS_NEGX :: nat where "M680X_INS_NEGX \<equiv> 235"
abbreviation (input) M680X_INS_NOP :: nat where "M680X_INS_NOP \<equiv> 236"
abbreviation (input) M680X_INS_NSA :: nat where "M680X_INS_NSA \<equiv> 237"
abbreviation (input) M680X_INS_OIM :: nat where "M680X_INS_OIM \<equiv> 238"
abbreviation (input) M680X_INS_ORA :: nat where "M680X_INS_ORA \<equiv> 239"
abbreviation (input) M680X_INS_ORAA :: nat where "M680X_INS_ORAA \<equiv> 240"
abbreviation (input) M680X_INS_ORAB :: nat where "M680X_INS_ORAB \<equiv> 241"
abbreviation (input) M680X_INS_ORB :: nat where "M680X_INS_ORB \<equiv> 242"
abbreviation (input) M680X_INS_ORCC :: nat where "M680X_INS_ORCC \<equiv> 243"
abbreviation (input) M680X_INS_ORD :: nat where "M680X_INS_ORD \<equiv> 244"
abbreviation (input) M680X_INS_ORR :: nat where "M680X_INS_ORR \<equiv> 245"
abbreviation (input) M680X_INS_PSHA :: nat where "M680X_INS_PSHA \<equiv> 246"
abbreviation (input) M680X_INS_PSHB :: nat where "M680X_INS_PSHB \<equiv> 247"
abbreviation (input) M680X_INS_PSHC :: nat where "M680X_INS_PSHC \<equiv> 248"
abbreviation (input) M680X_INS_PSHD :: nat where "M680X_INS_PSHD \<equiv> 249"
abbreviation (input) M680X_INS_PSHH :: nat where "M680X_INS_PSHH \<equiv> 250"
abbreviation (input) M680X_INS_PSHS :: nat where "M680X_INS_PSHS \<equiv> 251"
abbreviation (input) M680X_INS_PSHSW :: nat where "M680X_INS_PSHSW \<equiv> 252"
abbreviation (input) M680X_INS_PSHU :: nat where "M680X_INS_PSHU \<equiv> 253"
abbreviation (input) M680X_INS_PSHUW :: nat where "M680X_INS_PSHUW \<equiv> 254"
abbreviation (input) M680X_INS_PSHX :: nat where "M680X_INS_PSHX \<equiv> 255"
abbreviation (input) M680X_INS_PSHY :: nat where "M680X_INS_PSHY \<equiv> 256"
abbreviation (input) M680X_INS_PULA :: nat where "M680X_INS_PULA \<equiv> 257"
abbreviation (input) M680X_INS_PULB :: nat where "M680X_INS_PULB \<equiv> 258"
abbreviation (input) M680X_INS_PULC :: nat where "M680X_INS_PULC \<equiv> 259"
abbreviation (input) M680X_INS_PULD :: nat where "M680X_INS_PULD \<equiv> 260"
abbreviation (input) M680X_INS_PULH :: nat where "M680X_INS_PULH \<equiv> 261"
abbreviation (input) M680X_INS_PULS :: nat where "M680X_INS_PULS \<equiv> 262"
abbreviation (input) M680X_INS_PULSW :: nat where "M680X_INS_PULSW \<equiv> 263"
abbreviation (input) M680X_INS_PULU :: nat where "M680X_INS_PULU \<equiv> 264"
abbreviation (input) M680X_INS_PULUW :: nat where "M680X_INS_PULUW \<equiv> 265"
abbreviation (input) M680X_INS_PULX :: nat where "M680X_INS_PULX \<equiv> 266"
abbreviation (input) M680X_INS_PULY :: nat where "M680X_INS_PULY \<equiv> 267"
abbreviation (input) M680X_INS_REV :: nat where "M680X_INS_REV \<equiv> 268"
abbreviation (input) M680X_INS_REVW :: nat where "M680X_INS_REVW \<equiv> 269"
abbreviation (input) M680X_INS_ROL :: nat where "M680X_INS_ROL \<equiv> 270"
abbreviation (input) M680X_INS_ROLA :: nat where "M680X_INS_ROLA \<equiv> 271"
abbreviation (input) M680X_INS_ROLB :: nat where "M680X_INS_ROLB \<equiv> 272"
abbreviation (input) M680X_INS_ROLD :: nat where "M680X_INS_ROLD \<equiv> 273"
abbreviation (input) M680X_INS_ROLW :: nat where "M680X_INS_ROLW \<equiv> 274"
abbreviation (input) M680X_INS_ROLX :: nat where "M680X_INS_ROLX \<equiv> 275"
abbreviation (input) M680X_INS_ROR :: nat where "M680X_INS_ROR \<equiv> 276"
abbreviation (input) M680X_INS_RORA :: nat where "M680X_INS_RORA \<equiv> 277"
abbreviation (input) M680X_INS_RORB :: nat where "M680X_INS_RORB \<equiv> 278"
abbreviation (input) M680X_INS_RORD :: nat where "M680X_INS_RORD \<equiv> 279"
abbreviation (input) M680X_INS_RORW :: nat where "M680X_INS_RORW \<equiv> 280"
abbreviation (input) M680X_INS_RORX :: nat where "M680X_INS_RORX \<equiv> 281"
abbreviation (input) M680X_INS_RSP :: nat where "M680X_INS_RSP \<equiv> 282"
abbreviation (input) M680X_INS_RTC :: nat where "M680X_INS_RTC \<equiv> 283"
abbreviation (input) M680X_INS_RTI :: nat where "M680X_INS_RTI \<equiv> 284"
abbreviation (input) M680X_INS_RTS :: nat where "M680X_INS_RTS \<equiv> 285"
abbreviation (input) M680X_INS_SBA :: nat where "M680X_INS_SBA \<equiv> 286"
abbreviation (input) M680X_INS_SBC :: nat where "M680X_INS_SBC \<equiv> 287"
abbreviation (input) M680X_INS_SBCA :: nat where "M680X_INS_SBCA \<equiv> 288"
abbreviation (input) M680X_INS_SBCB :: nat where "M680X_INS_SBCB \<equiv> 289"
abbreviation (input) M680X_INS_SBCD :: nat where "M680X_INS_SBCD \<equiv> 290"
abbreviation (input) M680X_INS_SBCR :: nat where "M680X_INS_SBCR \<equiv> 291"
abbreviation (input) M680X_INS_SEC :: nat where "M680X_INS_SEC \<equiv> 292"
abbreviation (input) M680X_INS_SEI :: nat where "M680X_INS_SEI \<equiv> 293"
abbreviation (input) M680X_INS_SEV :: nat where "M680X_INS_SEV \<equiv> 294"
abbreviation (input) M680X_INS_SEX :: nat where "M680X_INS_SEX \<equiv> 295"
abbreviation (input) M680X_INS_SEXW :: nat where "M680X_INS_SEXW \<equiv> 296"
abbreviation (input) M680X_INS_SLP :: nat where "M680X_INS_SLP \<equiv> 297"
abbreviation (input) M680X_INS_STA :: nat where "M680X_INS_STA \<equiv> 298"
abbreviation (input) M680X_INS_STAA :: nat where "M680X_INS_STAA \<equiv> 299"
abbreviation (input) M680X_INS_STAB :: nat where "M680X_INS_STAB \<equiv> 300"
abbreviation (input) M680X_INS_STB :: nat where "M680X_INS_STB \<equiv> 301"
abbreviation (input) M680X_INS_STBT :: nat where "M680X_INS_STBT \<equiv> 302"
abbreviation (input) M680X_INS_STD :: nat where "M680X_INS_STD \<equiv> 303"
abbreviation (input) M680X_INS_STE :: nat where "M680X_INS_STE \<equiv> 304"
abbreviation (input) M680X_INS_STF :: nat where "M680X_INS_STF \<equiv> 305"
abbreviation (input) M680X_INS_STOP :: nat where "M680X_INS_STOP \<equiv> 306"
abbreviation (input) M680X_INS_STHX :: nat where "M680X_INS_STHX \<equiv> 307"
abbreviation (input) M680X_INS_STQ :: nat where "M680X_INS_STQ \<equiv> 308"
abbreviation (input) M680X_INS_STS :: nat where "M680X_INS_STS \<equiv> 309"
abbreviation (input) M680X_INS_STU :: nat where "M680X_INS_STU \<equiv> 310"
abbreviation (input) M680X_INS_STW :: nat where "M680X_INS_STW \<equiv> 311"
abbreviation (input) M680X_INS_STX :: nat where "M680X_INS_STX \<equiv> 312"
abbreviation (input) M680X_INS_STY :: nat where "M680X_INS_STY \<equiv> 313"
abbreviation (input) M680X_INS_SUB :: nat where "M680X_INS_SUB \<equiv> 314"
abbreviation (input) M680X_INS_SUBA :: nat where "M680X_INS_SUBA \<equiv> 315"
abbreviation (input) M680X_INS_SUBB :: nat where "M680X_INS_SUBB \<equiv> 316"
abbreviation (input) M680X_INS_SUBD :: nat where "M680X_INS_SUBD \<equiv> 317"
abbreviation (input) M680X_INS_SUBE :: nat where "M680X_INS_SUBE \<equiv> 318"
abbreviation (input) M680X_INS_SUBF :: nat where "M680X_INS_SUBF \<equiv> 319"
abbreviation (input) M680X_INS_SUBR :: nat where "M680X_INS_SUBR \<equiv> 320"
abbreviation (input) M680X_INS_SUBW :: nat where "M680X_INS_SUBW \<equiv> 321"
abbreviation (input) M680X_INS_SWI :: nat where "M680X_INS_SWI \<equiv> 322"
abbreviation (input) M680X_INS_SWI2 :: nat where "M680X_INS_SWI2 \<equiv> 323"
abbreviation (input) M680X_INS_SWI3 :: nat where "M680X_INS_SWI3 \<equiv> 324"
abbreviation (input) M680X_INS_SYNC :: nat where "M680X_INS_SYNC \<equiv> 325"
abbreviation (input) M680X_INS_TAB :: nat where "M680X_INS_TAB \<equiv> 326"
abbreviation (input) M680X_INS_TAP :: nat where "M680X_INS_TAP \<equiv> 327"
abbreviation (input) M680X_INS_TAX :: nat where "M680X_INS_TAX \<equiv> 328"
abbreviation (input) M680X_INS_TBA :: nat where "M680X_INS_TBA \<equiv> 329"
abbreviation (input) M680X_INS_TBEQ :: nat where "M680X_INS_TBEQ \<equiv> 330"
abbreviation (input) M680X_INS_TBL :: nat where "M680X_INS_TBL \<equiv> 331"
abbreviation (input) M680X_INS_TBNE :: nat where "M680X_INS_TBNE \<equiv> 332"
abbreviation (input) M680X_INS_TEST :: nat where "M680X_INS_TEST \<equiv> 333"
abbreviation (input) M680X_INS_TFM :: nat where "M680X_INS_TFM \<equiv> 334"
abbreviation (input) M680X_INS_TFR :: nat where "M680X_INS_TFR \<equiv> 335"
abbreviation (input) M680X_INS_TIM :: nat where "M680X_INS_TIM \<equiv> 336"
abbreviation (input) M680X_INS_TPA :: nat where "M680X_INS_TPA \<equiv> 337"
abbreviation (input) M680X_INS_TST :: nat where "M680X_INS_TST \<equiv> 338"
abbreviation (input) M680X_INS_TSTA :: nat where "M680X_INS_TSTA \<equiv> 339"
abbreviation (input) M680X_INS_TSTB :: nat where "M680X_INS_TSTB \<equiv> 340"
abbreviation (input) M680X_INS_TSTD :: nat where "M680X_INS_TSTD \<equiv> 341"
abbreviation (input) M680X_INS_TSTE :: nat where "M680X_INS_TSTE \<equiv> 342"
abbreviation (input) M680X_INS_TSTF :: nat where "M680X_INS_TSTF \<equiv> 343"
abbreviation (input) M680X_INS_TSTW :: nat where "M680X_INS_TSTW \<equiv> 344"
abbreviation (input) M680X_INS_TSTX :: nat where "M680X_INS_TSTX \<equiv> 345"
abbreviation (input) M680X_INS_TSX :: nat where "M680X_INS_TSX \<equiv> 346"
abbreviation (input) M680X_INS_TSY :: nat where "M680X_INS_TSY \<equiv> 347"
abbreviation (input) M680X_INS_TXA :: nat where "M680X_INS_TXA \<equiv> 348"
abbreviation (input) M680X_INS_TXS :: nat where "M680X_INS_TXS \<equiv> 349"
abbreviation (input) M680X_INS_TYS :: nat where "M680X_INS_TYS \<equiv> 350"
abbreviation (input) M680X_INS_WAI :: nat where "M680X_INS_WAI \<equiv> 351"
abbreviation (input) M680X_INS_WAIT :: nat where "M680X_INS_WAIT \<equiv> 352"
abbreviation (input) M680X_INS_WAV :: nat where "M680X_INS_WAV \<equiv> 353"
abbreviation (input) M680X_INS_WAVR :: nat where "M680X_INS_WAVR \<equiv> 354"
abbreviation (input) M680X_INS_XGDX :: nat where "M680X_INS_XGDX \<equiv> 355"
abbreviation (input) M680X_INS_XGDY :: nat where "M680X_INS_XGDY \<equiv> 356"

abbreviation (input) M680X_GRP_INVALID :: u8 where "M680X_GRP_INVALID \<equiv> 0"
abbreviation (input) M680X_GRP_JUMP :: u8 where "M680X_GRP_JUMP \<equiv> 1"
abbreviation (input) M680X_GRP_CALL :: u8 where "M680X_GRP_CALL \<equiv> 2"
abbreviation (input) M680X_GRP_RET :: u8 where "M680X_GRP_RET \<equiv> 3"
abbreviation (input) M680X_GRP_INT :: u8 where "M680X_GRP_INT \<equiv> 4"
abbreviation (input) M680X_GRP_IRET :: u8 where "M680X_GRP_IRET \<equiv> 5"
abbreviation (input) M680X_GRP_PRIV :: u8 where "M680X_GRP_PRIV \<equiv> 6"
abbreviation (input) M680X_GRP_BRAREL :: u8 where "M680X_GRP_BRAREL \<equiv> 7"
abbreviation (input) M680X_GRP_ENDING :: u8 where "M680X_GRP_ENDING \<equiv> 8"

section \<open>Opcode tables\<close>

type_synonym inst_page1 = "nat \<times> insn_hdlr_id \<times> insn_hdlr_id"

type_synonym inst_pageX = "nat \<times> nat \<times> insn_hdlr_id \<times> insn_hdlr_id"

definition g_m6800_inst_page1_table :: "inst_page1 list" where
  "g_m6800_inst_page1_table = [(M680X_INS_ILLGL, illgl_hid, inh_hid),
     (M680X_INS_NOP, inh_hid, inh_hid),
     (M680X_INS_ILLGL, illgl_hid, inh_hid),
     (M680X_INS_ILLGL, illgl_hid, inh_hid),
     (M680X_INS_ILLGL, illgl_hid, inh_hid),
     (M680X_INS_ILLGL, illgl_hid, inh_hid),
     (M680X_INS_TAP, inh_hid, inh_hid),
     (M680X_INS_TPA, inh_hid, inh_hid),
     (M680X_INS_INX, inh_hid, inh_hid),
     (M680X_INS_DEX, inh_hid, inh_hid),
     (M680X_INS_CLV, inh_hid, inh_hid),
     (M680X_INS_SEV, inh_hid, inh_hid),
     (M680X_INS_CLC, inh_hid, inh_hid),
     (M680X_INS_SEC, inh_hid, inh_hid),
     (M680X_INS_CLI, inh_hid, inh_hid),
     (M680X_INS_SEI, inh_hid, inh_hid),
     (M680X_INS_SBA, inh_hid, inh_hid),
     (M680X_INS_CBA, inh_hid, inh_hid),
     (M680X_INS_ILLGL, illgl_hid, inh_hid),
     (M680X_INS_ILLGL, illgl_hid, inh_hid),
     (M680X_INS_ILLGL, illgl_hid, inh_hid),
     (M680X_INS_ILLGL, illgl_hid, inh_hid),
     (M680X_INS_TAB, inh_hid, inh_hid),
     (M680X_INS_TBA, inh_hid, inh_hid),
     (M680X_INS_ILLGL, illgl_hid, inh_hid),
     (M680X_INS_DAA, inh_hid, inh_hid),
     (M680X_INS_ILLGL, illgl_hid, inh_hid),
     (M680X_INS_ABA, inh_hid, inh_hid),
     (M680X_INS_ILLGL, illgl_hid, inh_hid),
     (M680X_INS_ILLGL, illgl_hid, inh_hid),
     (M680X_INS_ILLGL, illgl_hid, inh_hid),
     (M680X_INS_ILLGL, illgl_hid, inh_hid),
     (M680X_INS_BRA, rel8_hid, inh_hid),
     (M680X_INS_ILLGL, illgl_hid, inh_hid),
     (M680X_INS_BHI, rel8_hid, inh_hid),
     (M680X_INS_BLS, rel8_hid, inh_hid),
     (M680X_INS_BCC, rel8_hid, inh_hid),
     (M680X_INS_BCS, rel8_hid, inh_hid),
     (M680X_INS_BNE, rel8_hid, inh_hid),
     (M680X_INS_BEQ, rel8_hid, inh_hid),
     (M680X_INS_BVC, rel8_hid, inh_hid),
     (M680X_INS_BVS, rel8_hid, inh_hid),
     (M680X_INS_BPL, rel8_hid, inh_hid),
     (M680X_INS_BMI, rel8_hid, inh_hid),
     (M680X_INS_BGE, rel8_hid, inh_hid),
     (M680X_INS_BLT, rel8_hid, inh_hid),
     (M680X_INS_BGT, rel8_hid, inh_hid),
     (M680X_INS_BLE, rel8_hid, inh_hid),
     (M680X_INS_TSX, inh_hid, inh_hid),
     (M680X_INS_INS, inh_hid, inh_hid),
     (M680X_INS_PULA, inh_hid, inh_hid),
     (M680X_INS_PULB, inh_hid, inh_hid),
     (M680X_INS_DES, inh_hid, inh_hid),
     (M680X_INS_TXS, inh_hid, inh_hid),
     (M680X_INS_PSHA, inh_hid, inh_hid),
     (M680X_INS_PSHB, inh_hid, inh_hid),
     (M680X_INS_ILLGL, illgl_hid, inh_hid),
     (M680X_INS_RTS, inh_hid, inh_hid),
     (M680X_INS_ILLGL, illgl_hid, inh_hid),
     (M680X_INS_RTI, inh_hid, inh_hid),
     (M680X_INS_ILLGL, illgl_hid, inh_hid),
     (M680X_INS_ILLGL, illgl_hid, inh_hid),
     (M680X_INS_WAI, inh_hid, inh_hid),
     (M680X_INS_SWI, inh_hid, inh_hid),
     (M680X_INS_NEGA, inh_hid, inh_hid),
     (M680X_INS_ILLGL, illgl_hid, inh_hid),
     (M680X_INS_ILLGL, illgl_hid, inh_hid),
     (M680X_INS_COMA, inh_hid, inh_hid),
     (M680X_INS_LSRA, inh_hid, inh_hid),
     (M680X_INS_ILLGL, illgl_hid, inh_hid),
     (M680X_INS_RORA, inh_hid, inh_hid),
     (M680X_INS_ASRA, inh_hid, inh_hid),
     (M680X_INS_ASLA, inh_hid, inh_hid),
     (M680X_INS_ROLA, inh_hid, inh_hid),
     (M680X_INS_DECA, inh_hid, inh_hid),
     (M680X_INS_ILLGL, illgl_hid, inh_hid),
     (M680X_INS_INCA, inh_hid, inh_hid),
     (M680X_INS_TSTA, inh_hid, inh_hid),
     (M680X_INS_ILLGL, illgl_hid, inh_hid),
     (M680X_INS_CLRA, inh_hid, inh_hid),
     (M680X_INS_NEGB, inh_hid, inh_hid),
     (M680X_INS_ILLGL, illgl_hid, inh_hid),
     (M680X_INS_ILLGL, illgl_hid, inh_hid),
     (M680X_INS_COMB, inh_hid, inh_hid),
     (M680X_INS_LSRB, inh_hid, inh_hid),
     (M680X_INS_ILLGL, illgl_hid, inh_hid),
     (M680X_INS_RORB, inh_hid, inh_hid),
     (M680X_INS_ASRB, inh_hid, inh_hid),
     (M680X_INS_ASLB, inh_hid, inh_hid),
     (M680X_INS_ROLB, inh_hid, inh_hid),
     (M680X_INS_DECB, inh_hid, inh_hid),
     (M680X_INS_ILLGL, illgl_hid, inh_hid),
     (M680X_INS_INCB, inh_hid, inh_hid),
     (M680X_INS_TSTB, inh_hid, inh_hid),
     (M680X_INS_ILLGL, illgl_hid, inh_hid),
     (M680X_INS_CLRB, inh_hid, inh_hid),
     (M680X_INS_NEG, idxX_hid, inh_hid),
     (M680X_INS_ILLGL, illgl_hid, inh_hid),
     (M680X_INS_ILLGL, illgl_hid, inh_hid),
     (M680X_INS_COM, idxX_hid, inh_hid),
     (M680X_INS_LSR, idxX_hid, inh_hid),
     (M680X_INS_ILLGL, illgl_hid, inh_hid),
     (M680X_INS_ROR, idxX_hid, inh_hid),
     (M680X_INS_ASR, idxX_hid, inh_hid),
     (M680X_INS_ASL, idxX_hid, inh_hid),
     (M680X_INS_ROL, idxX_hid, inh_hid),
     (M680X_INS_DEC, idxX_hid, inh_hid),
     (M680X_INS_ILLGL, illgl_hid, inh_hid),
     (M680X_INS_INC, idxX_hid, inh_hid),
     (M680X_INS_TST, idxX_hid, inh_hid),
     (M680X_INS_JMP, idxX_hid, inh_hid),
     (M680X_INS_CLR, idxX_hid, inh_hid),
     (M680X_INS_NEG, ext_hid, inh_hid),
     (M680X_INS_ILLGL, illgl_hid, inh_hid),
     (M680X_INS_ILLGL, illgl_hid, inh_hid),
     (M680X_INS_COM, ext_hid, inh_hid),
     (M680X_INS_LSR, ext_hid, inh_hid),
     (M680X_INS_ILLGL, illgl_hid, inh_hid),
     (M680X_INS_ROR, ext_hid, inh_hid),
     (M680X_INS_ASR, ext_hid, inh_hid),
     (M680X_INS_ASL, ext_hid, inh_hid),
     (M680X_INS_ROL, ext_hid, inh_hid),
     (M680X_INS_DEC, ext_hid, inh_hid),
     (M680X_INS_ILLGL, illgl_hid, inh_hid),
     (M680X_INS_INC, ext_hid, inh_hid),
     (M680X_INS_TST, ext_hid, inh_hid),
     (M680X_INS_JMP, ext_hid, inh_hid),
     (M680X_INS_CLR, ext_hid, inh_hid),
     (M680X_INS_SUBA, imm8_hid, inh_hid),
     (M680X_INS_CMPA, imm8_hid, inh_hid),
     (M680X_INS_SBCA, imm8_hid, inh_hid),
     (M680X_INS_ILLGL, illgl_hid, inh_hid),
     (M680X_INS_ANDA, imm8_hid, inh_hid),
     (M680X_INS_BITA, imm8_hid, inh_hid),
     (M680X_INS_LDAA, imm8_hid, inh_hid),
     (M680X_INS_ILLGL, illgl_hid, inh_hid),
     (M680X_INS_EORA, imm8_hid, inh_hid),
     (M680X_INS_ADCA, imm8_hid, inh_hid),
     (M680X_INS_ORAA, imm8_hid, inh_hid),
     (M680X_INS_ADDA, imm8_hid, inh_hid),
     (M680X_INS_CPX, imm16_hid, inh_hid),
     (M680X_INS_BSR, rel8_hid, inh_hid),
     (M680X_INS_LDS, imm16_hid, inh_hid),
     (M680X_INS_ILLGL, illgl_hid, inh_hid),
     (M680X_INS_SUBA, dir_hid, inh_hid),
     (M680X_INS_CMPA, dir_hid, inh_hid),
     (M680X_INS_SBCA, dir_hid, inh_hid),
     (M680X_INS_ILLGL, illgl_hid, inh_hid),
     (M680X_INS_ANDA, dir_hid, inh_hid),
     (M680X_INS_BITA, dir_hid, inh_hid),
     (M680X_INS_LDAA, dir_hid, inh_hid),
     (M680X_INS_STAA, dir_hid, inh_hid),
     (M680X_INS_EORA, dir_hid, inh_hid),
     (M680X_INS_ADCA, dir_hid, inh_hid),
     (M680X_INS_ORAA, dir_hid, inh_hid),
     (M680X_INS_ADDA, dir_hid, inh_hid),
     (M680X_INS_CPX, dir_hid, inh_hid),
     (M680X_INS_ILLGL, illgl_hid, inh_hid),
     (M680X_INS_LDS, dir_hid, inh_hid),
     (M680X_INS_STS, dir_hid, inh_hid),
     (M680X_INS_SUBA, idxX_hid, inh_hid),
     (M680X_INS_CMPA, idxX_hid, inh_hid),
     (M680X_INS_SBCA, idxX_hid, inh_hid),
     (M680X_INS_ILLGL, illgl_hid, inh_hid),
     (M680X_INS_ANDA, idxX_hid, inh_hid),
     (M680X_INS_BITA, idxX_hid, inh_hid),
     (M680X_INS_LDAA, idxX_hid, inh_hid),
     (M680X_INS_STAA, idxX_hid, inh_hid),
     (M680X_INS_EORA, idxX_hid, inh_hid),
     (M680X_INS_ADCA, idxX_hid, inh_hid),
     (M680X_INS_ORAA, idxX_hid, inh_hid),
     (M680X_INS_ADDA, idxX_hid, inh_hid),
     (M680X_INS_CPX, idxX_hid, inh_hid),
     (M680X_INS_JSR, idxX_hid, inh_hid),
     (M680X_INS_LDS, idxX_hid, inh_hid),
     (M680X_INS_STS, idxX_hid, inh_hid),
     (M680X_INS_SUBA, ext_hid, inh_hid),
     (M680X_INS_CMPA, ext_hid, inh_hid),
     (M680X_INS_SBCA, ext_hid, inh_hid),
     (M680X_INS_ILLGL, illgl_hid, inh_hid),
     (M680X_INS_ANDA, ext_hid, inh_hid),
     (M680X_INS_BITA, ext_hid, inh_hid),
     (M680X_INS_LDAA, ext_hid, inh_hid),
     (M680X_INS_STAA, ext_hid, inh_hid),
     (M680X_INS_EORA, ext_hid, inh_hid),
     (M680X_INS_ADCA, ext_hid, inh_hid),
     (M680X_INS_ORAA, ext_hid, inh_hid),
     (M680X_INS_ADDA, ext_hid, inh_hid),
     (M680X_INS_CPX, ext_hid, inh_hid),
     (M680X_INS_JSR, ext_hid, inh_hid),
     (M680X_INS_LDS, ext_hid, inh_hid),
     (M680X_INS_STS, ext_hid, inh_hid),
     (M680X_INS_SUBB, imm8_hid, inh_hid),
     (M680X_INS_CMPB, imm8_hid, inh_hid),
     (M680X_INS_SBCB, imm8_hid, inh_hid),
     (M680X_INS_ILLGL, illgl_hid, inh_hid),
     (M680X_INS_ANDB, imm8_hid, inh_hid),
     (M680X_INS_BITB, imm8_hid, inh_hid),
     (M680X_INS_LDAB, imm8_hid, inh_hid),
     (M680X_INS_ILLGL, illgl_hid, inh_hid),
     (M680X_INS_EORB, imm8_hid, inh_hid),
     (M680X_INS_ADCB, imm8_hid, inh_hid),
     (M680X_INS_ORAB, imm8_hid, inh_hid),
     (M680X_INS_ADDB, imm8_hid, inh_hid),
     (M680X_INS_ILLGL, illgl_hid, inh_hid),
     (M680X_INS_ILLGL, illgl_hid, inh_hid),
     (M680X_INS_LDX, imm16_hid, inh_hid),
     (M680X_INS_ILLGL, illgl_hid, inh_hid),
     (M680X_INS_SUBB, dir_hid, inh_hid),
     (M680X_INS_CMPB, dir_hid, inh_hid),
     (M680X_INS_SBCB, dir_hid, inh_hid),
     (M680X_INS_ILLGL, illgl_hid, inh_hid),
     (M680X_INS_ANDB, dir_hid, inh_hid),
     (M680X_INS_BITB, dir_hid, inh_hid),
     (M680X_INS_LDAB, dir_hid, inh_hid),
     (M680X_INS_STAB, dir_hid, inh_hid),
     (M680X_INS_EORB, dir_hid, inh_hid),
     (M680X_INS_ADCB, dir_hid, inh_hid),
     (M680X_INS_ORAB, dir_hid, inh_hid),
     (M680X_INS_ADDB, dir_hid, inh_hid),
     (M680X_INS_ILLGL, illgl_hid, inh_hid),
     (M680X_INS_ILLGL, illgl_hid, inh_hid),
     (M680X_INS_LDX, dir_hid, inh_hid),
     (M680X_INS_STX, dir_hid, inh_hid),
     (M680X_INS_SUBB, idxX_hid, inh_hid),
     (M680X_INS_CMPB, idxX_hid, inh_hid),
     (M680X_INS_SBCB, idxX_hid, inh_hid),
     (M680X_INS_ILLGL, illgl_hid, inh_hid),
     (M680X_INS_ANDB, idxX_hid, inh_hid),
     (M680X_INS_BITB, idxX_hid, inh_hid),
     (M680X_INS_LDAB, idxX_hid, inh_hid),
     (M680X_INS_STAB, idxX_hid, inh_hid),
     (M680X_INS_EORB, idxX_hid, inh_hid),
     (M680X_INS_ADCB, idxX_hid, inh_hid),
     (M680X_INS_ORAB, idxX_hid, inh_hid),
     (M680X_INS_ADDB, idxX_hid, inh_hid),
     (M680X_INS_ILLGL, illgl_hid, inh_hid),
     (M680X_INS_ILLGL, illgl_hid, inh_hid),
     (M680X_INS_LDX, idxX_hid, inh_hid),
     (M680X_INS_STX, idxX_hid, inh_hid),
     (M680X_INS_SUBB, ext_hid, inh_hid),
     (M680X_INS_CMPB, ext_hid, inh_hid),
     (M680X_INS_SBCB, ext_hid, inh_hid),
     (M680X_INS_ILLGL, illgl_hid, inh_hid),
     (M680X_INS_ANDB, ext_hid, inh_hid),
     (M680X_INS_BITB, ext_hid, inh_hid),
     (M680X_INS_LDAB, ext_hid, inh_hid),
     (M680X_INS_STAB, ext_hid, inh_hid),
     (M680X_INS_EORB, ext_hid, inh_hid),
     (M680X_INS_ADCB, ext_hid, inh_hid),
     (M680X_INS_ORAB, ext_hid, inh_hid),
     (M680X_INS_ADDB, ext_hid, inh_hid),
     (M680X_INS_ILLGL, illgl_hid, inh_hid),
     (M680X_INS_ILLGL, illgl_hid, inh_hid),
     (M680X_INS_LDX, ext_hid, inh_hid),
     (M680X_INS_STX, ext_hid, inh_hid)]"

definition g_m6801_inst_overlay_table :: "inst_pageX list" where
  "g_m6801_inst_overlay_table = [(0x04, M680X_INS_LSRD, inh_hid, inh_hid),
     (0x05, M680X_INS_ASLD, inh_hid, inh_hid),
     (0x21, M680X_INS_BRN, rel8_hid, inh_hid),
     (0x38, M680X_INS_PULX, inh_hid, inh_hid),
     (0x3A, M680X_INS_ABX, inh_hid, inh_hid),
     (0x3C, M680X_INS_PSHX, inh_hid, inh_hid),
     (0x3D, M680X_INS_MUL, inh_hid, inh_hid),
     (0x83, M680X_INS_SUBD, imm16_hid, inh_hid),
     (0x93, M680X_INS_SUBD, dir_hid, inh_hid),
     (0x9D, M680X_INS_JSR, dir_hid, inh_hid),
     (0xA3, M680X_INS_SUBD, idxX_hid, inh_hid),
     (0xB3, M680X_INS_SUBD, ext_hid, inh_hid),
     (0xC3, M680X_INS_ADDD, imm16_hid, inh_hid),
     (0xCC, M680X_INS_LDD, imm16_hid, inh_hid),
     (0xD3, M680X_INS_ADDD, dir_hid, inh_hid),
     (0xDC, M680X_INS_LDD, dir_hid, inh_hid),
     (0xDD, M680X_INS_STD, dir_hid, inh_hid),
     (0xE3, M680X_INS_ADDD, idxX_hid, inh_hid),
     (0xEC, M680X_INS_LDD, idxX_hid, inh_hid),
     (0xED, M680X_INS_STD, idxX_hid, inh_hid),
     (0xF3, M680X_INS_ADDD, ext_hid, inh_hid),
     (0xFC, M680X_INS_LDD, ext_hid, inh_hid),
     (0xFD, M680X_INS_STD, ext_hid, inh_hid)]"

definition g_hd6301_inst_overlay_table :: "inst_pageX list" where
  "g_hd6301_inst_overlay_table = [(0x18, M680X_INS_XGDX, inh_hid, inh_hid),
     (0x1a, M680X_INS_SLP, inh_hid, inh_hid),
     (0x61, M680X_INS_AIM, imm8_hid, idxX_hid),
     (0x62, M680X_INS_OIM, imm8_hid, idxX_hid),
     (0x65, M680X_INS_EIM, imm8_hid, idxX_hid),
     (0x6B, M680X_INS_TIM, imm8_hid, idxX_hid),
     (0x71, M680X_INS_AIM, imm8_hid, dir_hid),
     (0x72, M680X_INS_OIM, imm8_hid, dir_hid),
     (0x75, M680X_INS_EIM, imm8_hid, dir_hid),
     (0x7B, M680X_INS_TIM, imm8_hid, dir_hid)]"

definition g_m6811_inst_overlay_table :: "inst_pageX list" where
  "g_m6811_inst_overlay_table = [(0x00, M680X_INS_TEST, inh_hid, inh_hid),
     (0x02, M680X_INS_IDIV, inh_hid, inh_hid),
     (0x03, M680X_INS_FDIV, inh_hid, inh_hid),
     (0x12, M680X_INS_BRSET, dir_hid, imm8rel_hid),
     (0x13, M680X_INS_BRCLR, dir_hid, imm8rel_hid),
     (0x14, M680X_INS_BSET, dir_hid, imm8_hid),
     (0x15, M680X_INS_BCLR, dir_hid, imm8_hid),
     (0x1c, M680X_INS_BSET, idxX_hid, imm8_hid),
     (0x1d, M680X_INS_BCLR, idxX_hid, imm8_hid),
     (0x1e, M680X_INS_BRSET, idxX_hid, imm8rel_hid),
     (0x1f, M680X_INS_BRCLR, idxX_hid, imm8rel_hid),
     (0x8f, M680X_INS_XGDX, inh_hid, inh_hid),
     (0xcf, M680X_INS_STOP, inh_hid, inh_hid)]"

definition g_m6811_inst_page2_table :: "inst_pageX list" where
  "g_m6811_inst_page2_table = [(0x08, M680X_INS_INY, inh_hid, inh_hid),
     (0x09, M680X_INS_DEY, inh_hid, inh_hid),
     (0x1c, M680X_INS_BSET, idxY_hid, imm8_hid),
     (0x1d, M680X_INS_BCLR, idxY_hid, imm8_hid),
     (0x1e, M680X_INS_BRSET, idxY_hid, imm8rel_hid),
     (0x1f, M680X_INS_BRCLR, idxY_hid, imm8rel_hid),
     (0x30, M680X_INS_TSY, inh_hid, inh_hid),
     (0x35, M680X_INS_TYS, inh_hid, inh_hid),
     (0x38, M680X_INS_PULY, inh_hid, inh_hid),
     (0x3a, M680X_INS_ABY, inh_hid, inh_hid),
     (0x3c, M680X_INS_PSHY, inh_hid, inh_hid),
     (0x60, M680X_INS_NEG, idxY_hid, inh_hid),
     (0x63, M680X_INS_COM, idxY_hid, inh_hid),
     (0x64, M680X_INS_LSR, idxY_hid, inh_hid),
     (0x66, M680X_INS_ROR, idxY_hid, inh_hid),
     (0x67, M680X_INS_ASR, idxY_hid, inh_hid),
     (0x68, M680X_INS_ASL, idxY_hid, inh_hid),
     (0x69, M680X_INS_ROL, idxY_hid, inh_hid),
     (0x6a, M680X_INS_DEC, idxY_hid, inh_hid),
     (0x6c, M680X_INS_INC, idxY_hid, inh_hid),
     (0x6d, M680X_INS_TST, idxY_hid, inh_hid),
     (0x6e, M680X_INS_JMP, idxY_hid, inh_hid),
     (0x6f, M680X_INS_CLR, idxY_hid, inh_hid),
     (0x8c, M680X_INS_CPY, imm16_hid, inh_hid),
     (0x8f, M680X_INS_XGDY, inh_hid, inh_hid),
     (0x9c, M680X_INS_CPY, dir_hid, inh_hid),
     (0xa0, M680X_INS_SUBA, idxY_hid, inh_hid),
     (0xa1, M680X_INS_CMPA, idxY_hid, inh_hid),
     (0xa2, M680X_INS_SBCA, idxY_hid, inh_hid),
     (0xa3, M680X_INS_SUBD, idxY_hid, inh_hid),
     (0xa4, M680X_INS_ANDA, idxY_hid, inh_hid),
     (0xa5, M680X_INS_BITA, idxY_hid, inh_hid),
     (0xa6, M680X_INS_LDAA, idxY_hid, inh_hid),
     (0xa7, M680X_INS_STAA, idxY_hid, inh_hid),
     (0xa8, M680X_INS_EORA, idxY_hid, inh_hid),
     (0xa9, M680X_INS_ADCA, idxY_hid, inh_hid),
     (0xaa, M680X_INS_ORAA, idxY_hid, inh_hid),
     (0xab, M680X_INS_ADDA, idxY_hid, inh_hid),
     (0xac, M680X_INS_CPY, idxY_hid, inh_hid),
     (0xad, M680X_INS_JSR, idxY_hid, inh_hid),
     (0xae, M680X_INS_LDS, idxY_hid, inh_hid),
     (0xaf, M680X_INS_STS, idxY_hid, inh_hid),
     (0xbc, M680X_INS_CPY, ext_hid, inh_hid),
     (0xce, M680X_INS_LDY, imm16_hid, inh_hid),
     (0xde, M680X_INS_LDY, dir_hid, inh_hid),
     (0xdf, M680X_INS_STY, dir_hid, inh_hid),
     (0xe0, M680X_INS_SUBB, idxY_hid, inh_hid),
     (0xe1, M680X_INS_CMPB, idxY_hid, inh_hid),
     (0xe2, M680X_INS_SBCB, idxY_hid, inh_hid),
     (0xe3, M680X_INS_ADDD, idxY_hid, inh_hid),
     (0xe4, M680X_INS_ANDB, idxY_hid, inh_hid),
     (0xe5, M680X_INS_BITB, idxY_hid, inh_hid),
     (0xe6, M680X_INS_LDAB, idxY_hid, inh_hid),
     (0xe7, M680X_INS_STAB, idxY_hid, inh_hid),
     (0xe8, M680X_INS_EORB, idxY_hid, inh_hid),
     (0xe9, M680X_INS_ADCB, idxY_hid, inh_hid),
     (0xea, M680X_INS_ORAB, idxY_hid, inh_hid),
     (0xeb, M680X_INS_ADDB, idxY_hid, inh_hid),
     (0xec, M680X_INS_LDD, idxY_hid, inh_hid),
     (0xed, M680X_INS_STD, idxY_hid, inh_hid),
     (0xee, M680X_INS_LDY, idxY_hid, inh_hid),
     (0xef, M680X_INS_STY, idxY_hid, inh_hid),
     (0xfe, M680X_INS_LDY, ext_hid, inh_hid),
     (0xff, M680X_INS_STY, ext_hid, inh_hid)]"

definition g_m6811_inst_page3_table :: "inst_pageX list" where
  "g_m6811_inst_page3_table = [(0x83, M680X_INS_CPD, imm16_hid, inh_hid),
     (0x93, M680X_INS_CPD, dir_hid, inh_hid),
     (0xa3, M680X_INS_CPD, idxX_hid, inh_hid),
     (0xac, M680X_INS_CPY, idxX_hid, inh_hid),
     (0xb3, M680X_INS_CPD, ext_hid, inh_hid),
     (0xee, M680X_INS_LDY, idxX_hid, inh_hid),
     (0xef, M680X_INS_STY, idxX_hid, inh_hid)]"

definition g_m6811_inst_page4_table :: "inst_pageX list" where
  "g_m6811_inst_page4_table = [(0xa3, M680X_INS_CPD, idxY_hid, inh_hid),
     (0xac, M680X_INS_CPX, idxY_hid, inh_hid),
     (0xee, M680X_INS_LDX, idxY_hid, inh_hid),
     (0xef, M680X_INS_STX, idxY_hid, inh_hid)]"

definition g_cpu12_inst_page1_table :: "inst_page1 list" where
  "g_cpu12_inst_page1_table = [(M680X_INS_BGND, inh_hid, inh_hid),
     (M680X_INS_MEM, inh_hid, inh_hid),
     (M680X_INS_INY, inh_hid, inh_hid),
     (M680X_INS_DEY, inh_hid, inh_hid),
     (M680X_INS_DBEQ, loop_hid, inh_hid),
     (M680X_INS_JMP, idx12_hid, inh_hid),
     (M680X_INS_JMP, ext_hid, inh_hid),
     (M680X_INS_BSR, rel8_hid, inh_hid),
     (M680X_INS_INX, inh_hid, inh_hid),
     (M680X_INS_DEX, inh_hid, inh_hid),
     (M680X_INS_RTC, inh_hid, inh_hid),
     (M680X_INS_RTI, inh_hid, inh_hid),
     (M680X_INS_BSET, idx12_hid, imm8_hid),
     (M680X_INS_BCLR, idx12_hid, imm8_hid),
     (M680X_INS_BRSET, idx12_hid, imm8rel_hid),
     (M680X_INS_BRCLR, idx12_hid, imm8rel_hid),
     (M680X_INS_ANDCC, imm8_hid, inh_hid),
     (M680X_INS_EDIV, inh_hid, inh_hid),
     (M680X_INS_MUL, inh_hid, inh_hid),
     (M680X_INS_EMUL, inh_hid, inh_hid),
     (M680X_INS_ORCC, imm8_hid, inh_hid),
     (M680X_INS_JSR, idx12_hid, inh_hid),
     (M680X_INS_JSR, ext_hid, inh_hid),
     (M680X_INS_JSR, dir_hid, inh_hid),
     (M680X_INS_ILLGL, illgl_hid, inh_hid),
     (M680X_INS_LEAY, idx12_hid, inh_hid),
     (M680X_INS_LEAX, idx12_hid, inh_hid),
     (M680X_INS_LEAS, idx12_hid, inh_hid),
     (M680X_INS_BSET, ext_hid, imm8_hid),
     (M680X_INS_BCLR, ext_hid, imm8_hid),
     (M680X_INS_BRSET, ext_hid, imm8rel_hid),
     (M680X_INS_BRCLR, ext_hid, imm8rel_hid),
     (M680X_INS_BRA, rel8_hid, inh_hid),
     (M680X_INS_BRN, rel8_hid, inh_hid),
     (M680X_INS_BHI, rel8_hid, inh_hid),
     (M680X_INS_BLS, rel8_hid, inh_hid),
     (M680X_INS_BCC, rel8_hid, inh_hid),
     (M680X_INS_BCS, rel8_hid, inh_hid),
     (M680X_INS_BNE, rel8_hid, inh_hid),
     (M680X_INS_BEQ, rel8_hid, inh_hid),
     (M680X_INS_BVC, rel8_hid, inh_hid),
     (M680X_INS_BVS, rel8_hid, inh_hid),
     (M680X_INS_BPL, rel8_hid, inh_hid),
     (M680X_INS_BMI, rel8_hid, inh_hid),
     (M680X_INS_BGE, rel8_hid, inh_hid),
     (M680X_INS_BLT, rel8_hid, inh_hid),
     (M680X_INS_BGT, rel8_hid, inh_hid),
     (M680X_INS_BLE, rel8_hid, inh_hid),
     (M680X_INS_PULX, inh_hid, inh_hid),
     (M680X_INS_PULY, inh_hid, inh_hid),
     (M680X_INS_PULA, inh_hid, inh_hid),
     (M680X_INS_PULB, inh_hid, inh_hid),
     (M680X_INS_PSHX, inh_hid, inh_hid),
     (M680X_INS_PSHY, inh_hid, inh_hid),
     (M680X_INS_PSHA, inh_hid, inh_hid),
     (M680X_INS_PSHB, inh_hid, inh_hid),
     (M680X_INS_PULC, inh_hid, inh_hid),
     (M680X_INS_PSHC, inh_hid, inh_hid),
     (M680X_INS_PULD, inh_hid, inh_hid),
     (M680X_INS_PSHD, inh_hid, inh_hid),
     (M680X_INS_WAVR, inh_hid, inh_hid),
     (M680X_INS_RTS, inh_hid, inh_hid),
     (M680X_INS_WAI, inh_hid, inh_hid),
     (M680X_INS_SWI, inh_hid, inh_hid),
     (M680X_INS_NEGA, inh_hid, inh_hid),
     (M680X_INS_COMA, inh_hid, inh_hid),
     (M680X_INS_INCA, inh_hid, inh_hid),
     (M680X_INS_DECA, inh_hid, inh_hid),
     (M680X_INS_LSRA, inh_hid, inh_hid),
     (M680X_INS_ROLA, inh_hid, inh_hid),
     (M680X_INS_RORA, inh_hid, inh_hid),
     (M680X_INS_ASRA, inh_hid, inh_hid),
     (M680X_INS_ASLA, inh_hid, inh_hid),
     (M680X_INS_LSRD, inh_hid, inh_hid),
     (M680X_INS_CALL, ext_hid, index_hid),
     (M680X_INS_CALL, idx12_hid, index_hid),
     (M680X_INS_BSET, dir_hid, imm8_hid),
     (M680X_INS_BCLR, dir_hid, imm8_hid),
     (M680X_INS_BRSET, dir_hid, imm8rel_hid),
     (M680X_INS_BRCLR, dir_hid, imm8rel_hid),
     (M680X_INS_NEGB, inh_hid, inh_hid),
     (M680X_INS_COMB, inh_hid, inh_hid),
     (M680X_INS_INCB, inh_hid, inh_hid),
     (M680X_INS_DECB, inh_hid, inh_hid),
     (M680X_INS_LSRB, inh_hid, inh_hid),
     (M680X_INS_ROLB, inh_hid, inh_hid),
     (M680X_INS_RORB, inh_hid, inh_hid),
     (M680X_INS_ASRB, inh_hid, inh_hid),
     (M680X_INS_ASLB, inh_hid, inh_hid),
     (M680X_INS_ASLD, inh_hid, inh_hid),
     (M680X_INS_STAA, dir_hid, inh_hid),
     (M680X_INS_STAB, dir_hid, inh_hid),
     (M680X_INS_STD, dir_hid, inh_hid),
     (M680X_INS_STY, dir_hid, inh_hid),
     (M680X_INS_STX, dir_hid, inh_hid),
     (M680X_INS_STS, dir_hid, inh_hid),
     (M680X_INS_NEG, idx12_hid, inh_hid),
     (M680X_INS_COM, idx12_hid, inh_hid),
     (M680X_INS_INC, idx12_hid, inh_hid),
     (M680X_INS_DEC, idx12_hid, inh_hid),
     (M680X_INS_LSR, idx12_hid, inh_hid),
     (M680X_INS_ROL, idx12_hid, inh_hid),
     (M680X_INS_ROR, idx12_hid, inh_hid),
     (M680X_INS_ASR, idx12_hid, inh_hid),
     (M680X_INS_ASL, idx12_hid, inh_hid),
     (M680X_INS_CLR, idx12_hid, inh_hid),
     (M680X_INS_STAA, idx12_hid, inh_hid),
     (M680X_INS_STAB, idx12_hid, inh_hid),
     (M680X_INS_STD, idx12_hid, inh_hid),
     (M680X_INS_STY, idx12_hid, inh_hid),
     (M680X_INS_STX, idx12_hid, inh_hid),
     (M680X_INS_STS, idx12_hid, inh_hid),
     (M680X_INS_NEG, ext_hid, inh_hid),
     (M680X_INS_COM, ext_hid, inh_hid),
     (M680X_INS_INC, ext_hid, inh_hid),
     (M680X_INS_DEC, ext_hid, inh_hid),
     (M680X_INS_LSR, ext_hid, inh_hid),
     (M680X_INS_ROL, ext_hid, inh_hid),
     (M680X_INS_ROR, ext_hid, inh_hid),
     (M680X_INS_ASR, ext_hid, inh_hid),
     (M680X_INS_ASL, ext_hid, inh_hid),
     (M680X_INS_CLR, ext_hid, inh_hid),
     (M680X_INS_STAA, ext_hid, inh_hid),
     (M680X_INS_STAB, ext_hid, inh_hid),
     (M680X_INS_STD, ext_hid, inh_hid),
     (M680X_INS_STY, ext_hid, inh_hid),
     (M680X_INS_STX, ext_hid, inh_hid),
     (M680X_INS_STS, ext_hid, inh_hid),
     (M680X_INS_SUBA, imm8_hid, inh_hid),
     (M680X_INS_CMPA, imm8_hid, inh_hid),
     (M680X_INS_SBCA, imm8_hid, inh_hid),
     (M680X_INS_SUBD, imm16_hid, inh_hid),
     (M680X_INS_ANDA, imm8_hid, inh_hid),
     (M680X_INS_BITA, imm8_hid, inh_hid),
     (M680X_INS_LDAA, imm8_hid, inh_hid),
     (M680X_INS_CLRA, inh_hid, inh_hid),
     (M680X_INS_EORA, imm8_hid, inh_hid),
     (M680X_INS_ADCA, imm8_hid, inh_hid),
     (M680X_INS_ORAA, imm8_hid, inh_hid),
     (M680X_INS_ADDA, imm8_hid, inh_hid),
     (M680X_INS_CPD, imm16_hid, inh_hid),
     (M680X_INS_CPY, imm16_hid, inh_hid),
     (M680X_INS_CPX, imm16_hid, inh_hid),
     (M680X_INS_CPS, imm16_hid, inh_hid),
     (M680X_INS_SUBA, dir_hid, inh_hid),
     (M680X_INS_CMPA, dir_hid, inh_hid),
     (M680X_INS_SBCA, dir_hid, inh_hid),
     (M680X_INS_SUBD, dir_hid, inh_hid),
     (M680X_INS_ANDA, dir_hid, inh_hid),
     (M680X_INS_BITA, dir_hid, inh_hid),
     (M680X_INS_LDAA, dir_hid, inh_hid),
     (M680X_INS_TSTA, inh_hid, inh_hid),
     (M680X_INS_EORA, dir_hid, inh_hid),
     (M680X_INS_ADCA, dir_hid, inh_hid),
     (M680X_INS_ORAA, dir_hid, inh_hid),
     (M680X_INS_ADDA, dir_hid, inh_hid),
     (M680X_INS_CPD, dir_hid, inh_hid),
     (M680X_INS_CPY, dir_hid, inh_hid),
     (M680X_INS_CPX, dir_hid, inh_hid),
     (M680X_INS_CPS, dir_hid, inh_hid),
     (M680X_INS_SUBA, idx12_hid, inh_hid),
     (M680X_INS_CMPA, idx12_hid, inh_hid),
     (M680X_INS_SBCA, idx12_hid, inh_hid),
     (M680X_INS_SUBD, idx12_hid, inh_hid),
     (M680X_INS_ANDA, idx12_hid, inh_hid),
     (M680X_INS_BITA, idx12_hid, inh_hid),
     (M680X_INS_LDAA, idx12_hid, inh_hid),
     (M680X_INS_NOP, inh_hid, inh_hid),
     (M680X_INS_EORA, idx12_hid, inh_hid),
     (M680X_INS_ADCA, idx12_hid, inh_hid),
     (M680X_INS_ORAA, idx12_hid, inh_hid),
     (M680X_INS_ADDA, idx12_hid, inh_hid),
     (M680X_INS_CPD, idx12_hid, inh_hid),
     (M680X_INS_CPY, idx12_hid, inh_hid),
     (M680X_INS_CPX, idx12_hid, inh_hid),
     (M680X_INS_CPS, idx12_hid, inh_hid),
     (M680X_INS_SUBA, ext_hid, inh_hid),
     (M680X_INS_CMPA, ext_hid, inh_hid),
     (M680X_INS_SBCA, ext_hid, inh_hid),
     (M680X_INS_SUBD, ext_hid, inh_hid),
     (M680X_INS_ANDA, ext_hid, inh_hid),
     (M680X_INS_BITA, ext_hid, inh_hid),
     (M680X_INS_LDAA, ext_hid, inh_hid),
     (M680X_INS_TFR, rr12_hid, inh_hid),
     (M680X_INS_EORA, ext_hid, inh_hid),
     (M680X_INS_ADCA, ext_hid, inh_hid),
     (M680X_INS_ORAA, ext_hid, inh_hid),
     (M680X_INS_ADDA, ext_hid, inh_hid),
     (M680X_INS_CPD, ext_hid, inh_hid),
     (M680X_INS_CPY, ext_hid, inh_hid),
     (M680X_INS_CPX, ext_hid, inh_hid),
     (M680X_INS_CPS, ext_hid, inh_hid),
     (M680X_INS_SUBB, imm8_hid, inh_hid),
     (M680X_INS_CMPB, imm8_hid, inh_hid),
     (M680X_INS_SBCB, imm8_hid, inh_hid),
     (M680X_INS_ADDD, imm16_hid, inh_hid),
     (M680X_INS_ANDB, imm8_hid, inh_hid),
     (M680X_INS_BITB, imm8_hid, inh_hid),
     (M680X_INS_LDAB, imm8_hid, inh_hid),
     (M680X_INS_CLRB, inh_hid, inh_hid),
     (M680X_INS_EORB, imm8_hid, inh_hid),
     (M680X_INS_ADCB, imm8_hid, inh_hid),
     (M680X_INS_ORAB, imm8_hid, inh_hid),
     (M680X_INS_ADDB, imm8_hid, inh_hid),
     (M680X_INS_LDD, imm16_hid, inh_hid),
     (M680X_INS_LDY, imm16_hid, inh_hid),
     (M680X_INS_LDX, imm16_hid, inh_hid),
     (M680X_INS_LDS, imm16_hid, inh_hid),
     (M680X_INS_SUBB, dir_hid, inh_hid),
     (M680X_INS_CMPB, dir_hid, inh_hid),
     (M680X_INS_SBCB, dir_hid, inh_hid),
     (M680X_INS_ADDD, dir_hid, inh_hid),
     (M680X_INS_ANDB, dir_hid, inh_hid),
     (M680X_INS_BITB, dir_hid, inh_hid),
     (M680X_INS_LDAB, dir_hid, inh_hid),
     (M680X_INS_TSTB, inh_hid, inh_hid),
     (M680X_INS_EORB, dir_hid, inh_hid),
     (M680X_INS_ADCB, dir_hid, inh_hid),
     (M680X_INS_ORAB, dir_hid, inh_hid),
     (M680X_INS_ADDB, dir_hid, inh_hid),
     (M680X_INS_LDD, dir_hid, inh_hid),
     (M680X_INS_LDY, dir_hid, inh_hid),
     (M680X_INS_LDX, dir_hid, inh_hid),
     (M680X_INS_LDS, dir_hid, inh_hid),
     (M680X_INS_SUBB, idx12_hid, inh_hid),
     (M680X_INS_CMPB, idx12_hid, inh_hid),
     (M680X_INS_SBCB, idx12_hid, inh_hid),
     (M680X_INS_ADDD, idx12_hid, inh_hid),
     (M680X_INS_ANDB, idx12_hid, inh_hid),
     (M680X_INS_BITB, idx12_hid, inh_hid),
     (M680X_INS_LDAB, idx12_hid, inh_hid),
     (M680X_INS_TST, idx12_hid, inh_hid),
     (M680X_INS_EORB, idx12_hid, inh_hid),
     (M680X_INS_ADCB, idx12_hid, inh_hid),
     (M680X_INS_ORAB, idx12_hid, inh_hid),
     (M680X_INS_ADDB, idx12_hid, inh_hid),
     (M680X_INS_LDD, idx12_hid, inh_hid),
     (M680X_INS_LDY, idx12_hid, inh_hid),
     (M680X_INS_LDX, idx12_hid, inh_hid),
     (M680X_INS_LDS, idx12_hid, inh_hid),
     (M680X_INS_SUBA, ext_hid, inh_hid),
     (M680X_INS_CMPA, ext_hid, inh_hid),
     (M680X_INS_SBCA, ext_hid, inh_hid),
     (M680X_INS_ADDD, ext_hid, inh_hid),
     (M680X_INS_ANDA, ext_hid, inh_hid),
     (M680X_INS_BITA, ext_hid, inh_hid),
     (M680X_INS_LDAA, ext_hid, inh_hid),
     (M680X_INS_TST, ext_hid, inh_hid),
     (M680X_INS_EORA, ext_hid, inh_hid),
     (M680X_INS_ADCA, ext_hid, inh_hid),
     (M680X_INS_ORAA, ext_hid, inh_hid),
     (M680X_INS_ADDA, ext_hid, inh_hid),
     (M680X_INS_LDD, ext_hid, inh_hid),
     (M680X_INS_LDY, ext_hid, inh_hid),
     (M680X_INS_LDX, ext_hid, inh_hid),
     (M680X_INS_LDS, ext_hid, inh_hid)]"

definition g_cpu12_inst_page2_table :: "inst_pageX list" where
  "g_cpu12_inst_page2_table = [(0x00, M680X_INS_MOVW, imm16i12x_hid, inh_hid),
     (0x01, M680X_INS_MOVW, exti12x_hid, inh_hid),
     (0x02, M680X_INS_MOVW, idx12_hid, idx12_hid),
     (0x03, M680X_INS_MOVW, imm16_hid, ext_hid),
     (0x04, M680X_INS_MOVW, ext_hid, ext_hid),
     (0x05, M680X_INS_MOVW, idx12_hid, ext_hid),
     (0x06, M680X_INS_ABA, inh_hid, inh_hid),
     (0x07, M680X_INS_DAA, inh_hid, inh_hid),
     (0x08, M680X_INS_MOVB, imm8i12x_hid, inh_hid),
     (0x09, M680X_INS_MOVB, exti12x_hid, inh_hid),
     (0x0a, M680X_INS_MOVB, idx12_hid, idx12_hid),
     (0x0b, M680X_INS_MOVB, imm8_hid, ext_hid),
     (0x0c, M680X_INS_MOVB, ext_hid, ext_hid),
     (0x0d, M680X_INS_MOVB, idx12_hid, ext_hid),
     (0x0e, M680X_INS_TAB, inh_hid, inh_hid),
     (0x0f, M680X_INS_TBA, inh_hid, inh_hid),
     (0x10, M680X_INS_IDIV, inh_hid, inh_hid),
     (0x11, M680X_INS_FDIV, inh_hid, inh_hid),
     (0x12, M680X_INS_EMACS, ext_hid, inh_hid),
     (0x13, M680X_INS_EMULS, inh_hid, inh_hid),
     (0x14, M680X_INS_EDIVS, inh_hid, inh_hid),
     (0x15, M680X_INS_IDIVS, inh_hid, inh_hid),
     (0x16, M680X_INS_SBA, inh_hid, inh_hid),
     (0x17, M680X_INS_CBA, inh_hid, inh_hid),
     (0x18, M680X_INS_MAXA, idx12_hid, inh_hid),
     (0x19, M680X_INS_MINA, idx12_hid, inh_hid),
     (0x1a, M680X_INS_EMAXD, idx12_hid, inh_hid),
     (0x1b, M680X_INS_EMIND, idx12_hid, inh_hid),
     (0x1c, M680X_INS_MAXM, idx12_hid, inh_hid),
     (0x1d, M680X_INS_MINM, idx12_hid, inh_hid),
     (0x1e, M680X_INS_EMAXM, idx12_hid, inh_hid),
     (0x1f, M680X_INS_EMINM, idx12_hid, inh_hid),
     (0x20, M680X_INS_LBRA, rel16_hid, inh_hid),
     (0x21, M680X_INS_LBRN, rel16_hid, inh_hid),
     (0x22, M680X_INS_LBHI, rel16_hid, inh_hid),
     (0x23, M680X_INS_LBLS, rel16_hid, inh_hid),
     (0x24, M680X_INS_LBCC, rel16_hid, inh_hid),
     (0x25, M680X_INS_LBCS, rel16_hid, inh_hid),
     (0x26, M680X_INS_LBNE, rel16_hid, inh_hid),
     (0x27, M680X_INS_LBEQ, rel16_hid, inh_hid),
     (0x28, M680X_INS_LBVC, rel16_hid, inh_hid),
     (0x29, M680X_INS_LBVS, rel16_hid, inh_hid),
     (0x2a, M680X_INS_LBPL, rel16_hid, inh_hid),
     (0x2b, M680X_INS_LBMI, rel16_hid, inh_hid),
     (0x2c, M680X_INS_LBGE, rel16_hid, inh_hid),
     (0x2d, M680X_INS_LBLT, rel16_hid, inh_hid),
     (0x2e, M680X_INS_LBGT, rel16_hid, inh_hid),
     (0x2f, M680X_INS_LBLE, rel16_hid, inh_hid),
     (0x3a, M680X_INS_REV, inh_hid, inh_hid),
     (0x3b, M680X_INS_REVW, inh_hid, inh_hid),
     (0x3c, M680X_INS_WAV, inh_hid, inh_hid),
     (0x3d, M680X_INS_TBL, idx12s_hid, inh_hid),
     (0x3e, M680X_INS_STOP, inh_hid, inh_hid),
     (0x3f, M680X_INS_ETBL, idx12s_hid, inh_hid)]"

definition g_m6805_inst_page1_table :: "inst_page1 list" where
  "g_m6805_inst_page1_table = [(M680X_INS_BRSET, opidxdr_hid, inh_hid),
     (M680X_INS_BRCLR, opidxdr_hid, inh_hid),
     (M680X_INS_BRSET, opidxdr_hid, inh_hid),
     (M680X_INS_BRCLR, opidxdr_hid, inh_hid),
     (M680X_INS_BRSET, opidxdr_hid, inh_hid),
     (M680X_INS_BRCLR, opidxdr_hid, inh_hid),
     (M680X_INS_BRSET, opidxdr_hid, inh_hid),
     (M680X_INS_BRCLR, opidxdr_hid, inh_hid),
     (M680X_INS_BRSET, opidxdr_hid, inh_hid),
     (M680X_INS_BRCLR, opidxdr_hid, inh_hid),
     (M680X_INS_BRSET, opidxdr_hid, inh_hid),
     (M680X_INS_BRCLR, opidxdr_hid, inh_hid),
     (M680X_INS_BRSET, opidxdr_hid, inh_hid),
     (M680X_INS_BRCLR, opidxdr_hid, inh_hid),
     (M680X_INS_BRSET, opidxdr_hid, inh_hid),
     (M680X_INS_BRCLR, opidxdr_hid, inh_hid),
     (M680X_INS_BCLR, opidx_hid, dir_hid),
     (M680X_INS_BSET, opidx_hid, dir_hid),
     (M680X_INS_BCLR, opidx_hid, dir_hid),
     (M680X_INS_BSET, opidx_hid, dir_hid),
     (M680X_INS_BCLR, opidx_hid, dir_hid),
     (M680X_INS_BSET, opidx_hid, dir_hid),
     (M680X_INS_BCLR, opidx_hid, dir_hid),
     (M680X_INS_BSET, opidx_hid, dir_hid),
     (M680X_INS_BCLR, opidx_hid, dir_hid),
     (M680X_INS_BSET, opidx_hid, dir_hid),
     (M680X_INS_BCLR, opidx_hid, dir_hid),
     (M680X_INS_BSET, opidx_hid, dir_hid),
     (M680X_INS_BCLR, opidx_hid, dir_hid),
     (M680X_INS_BSET, opidx_hid, dir_hid),
     (M680X_INS_BCLR, opidx_hid, dir_hid),
     (M680X_INS_BSET, opidx_hid, dir_hid),
     (M680X_INS_BRA, rel8_hid, inh_hid),
     (M680X_INS_BRN, rel8_hid, inh_hid),
     (M680X_INS_BHI, rel8_hid, inh_hid),
     (M680X_INS_BLS, rel8_hid, inh_hid),
     (M680X_INS_BCC, rel8_hid, inh_hid),
     (M680X_INS_BCS, rel8_hid, inh_hid),
     (M680X_INS_BNE, rel8_hid, inh_hid),
     (M680X_INS_BEQ, rel8_hid, inh_hid),
     (M680X_INS_BHCC, rel8_hid, inh_hid),
     (M680X_INS_BHCS, rel8_hid, inh_hid),
     (M680X_INS_BPL, rel8_hid, inh_hid),
     (M680X_INS_BMI, rel8_hid, inh_hid),
     (M680X_INS_BMC, rel8_hid, inh_hid),
     (M680X_INS_BMS, rel8_hid, inh_hid),
     (M680X_INS_BIL, rel8_hid, inh_hid),
     (M680X_INS_BIH, rel8_hid, inh_hid),
     (M680X_INS_NEG, dir_hid, inh_hid),
     (M680X_INS_ILLGL, illgl_hid, inh_hid),
     (M680X_INS_ILLGL, illgl_hid, inh_hid),
     (M680X_INS_COM, dir_hid, inh_hid),
     (M680X_INS_LSR, dir_hid, inh_hid),
     (M680X_INS_ILLGL, illgl_hid, inh_hid),
     (M680X_INS_ROR, dir_hid, inh_hid),
     (M680X_INS_ASR, dir_hid, inh_hid),
     (M680X_INS_LSL, dir_hid, inh_hid),
     (M680X_INS_ROL, dir_hid, inh_hid),
     (M680X_INS_DEC, dir_hid, inh_hid),
     (M680X_INS_ILLGL, illgl_hid, inh_hid),
     (M680X_INS_INC, dir_hid, inh_hid),
     (M680X_INS_TST, dir_hid, inh_hid),
     (M680X_INS_ILLGL, illgl_hid, inh_hid),
     (M680X_INS_CLR, dir_hid, inh_hid),
     (M680X_INS_NEGA, inh_hid, inh_hid),
     (M680X_INS_ILLGL, illgl_hid, inh_hid),
     (M680X_INS_MUL, inh_hid, inh_hid),
     (M680X_INS_COMA, inh_hid, inh_hid),
     (M680X_INS_LSRA, inh_hid, inh_hid),
     (M680X_INS_ILLGL, illgl_hid, inh_hid),
     (M680X_INS_RORA, inh_hid, inh_hid),
     (M680X_INS_ASRA, inh_hid, inh_hid),
     (M680X_INS_LSLA, inh_hid, inh_hid),
     (M680X_INS_ROLA, inh_hid, inh_hid),
     (M680X_INS_DECA, inh_hid, inh_hid),
     (M680X_INS_ILLGL, illgl_hid, inh_hid),
     (M680X_INS_INCA, inh_hid, inh_hid),
     (M680X_INS_TSTA, inh_hid, inh_hid),
     (M680X_INS_ILLGL, illgl_hid, inh_hid),
     (M680X_INS_CLRA, inh_hid, inh_hid),
     (M680X_INS_NEGX, inh_hid, inh_hid),
     (M680X_INS_ILLGL, illgl_hid, inh_hid),
     (M680X_INS_ILLGL, illgl_hid, inh_hid),
     (M680X_INS_COMX, inh_hid, inh_hid),
     (M680X_INS_LSRX, inh_hid, inh_hid),
     (M680X_INS_ILLGL, illgl_hid, inh_hid),
     (M680X_INS_RORX, inh_hid, inh_hid),
     (M680X_INS_ASRX, inh_hid, inh_hid),
     (M680X_INS_LSLX, inh_hid, inh_hid),
     (M680X_INS_ROLX, inh_hid, inh_hid),
     (M680X_INS_DECX, inh_hid, inh_hid),
     (M680X_INS_ILLGL, illgl_hid, inh_hid),
     (M680X_INS_INCX, inh_hid, inh_hid),
     (M680X_INS_TSTX, inh_hid, inh_hid),
     (M680X_INS_ILLGL, illgl_hid, inh_hid),
     (M680X_INS_CLRX, inh_hid, inh_hid),
     (M680X_INS_NEG, idxX_hid, inh_hid),
     (M680X_INS_ILLGL, illgl_hid, inh_hid),
     (M680X_INS_ILLGL, illgl_hid, inh_hid),
     (M680X_INS_COM, idxX_hid, inh_hid),
     (M680X_INS_LSR, idxX_hid, inh_hid),
     (M680X_INS_ILLGL, illgl_hid, inh_hid),
     (M680X_INS_ROR, idxX_hid, inh_hid),
     (M680X_INS_ASR, idxX_hid, inh_hid),
     (M680X_INS_LSL, idxX_hid, inh_hid),
     (M680X_INS_ROL, idxX_hid, inh_hid),
     (M680X_INS_DEC, idxX_hid, inh_hid),
     (M680X_INS_ILLGL, illgl_hid, inh_hid),
     (M680X_INS_INC, idxX_hid, inh_hid),
     (M680X_INS_TST, idxX_hid, inh_hid),
     (M680X_INS_ILLGL, illgl_hid, inh_hid),
     (M680X_INS_CLR, idxX_hid, inh_hid),
     (M680X_INS_NEG, idxX0_hid, inh_hid),
     (M680X_INS_ILLGL, illgl_hid, inh_hid),
     (M680X_INS_ILLGL, illgl_hid, inh_hid),
     (M680X_INS_COM, idxX0_hid, inh_hid),
     (M680X_INS_LSR, idxX0_hid, inh_hid),
     (M680X_INS_ILLGL, illgl_hid, inh_hid),
     (M680X_INS_ROR, idxX0_hid, inh_hid),
     (M680X_INS_ASR, idxX0_hid, inh_hid),
     (M680X_INS_LSL, idxX0_hid, inh_hid),
     (M680X_INS_ROL, idxX0_hid, inh_hid),
     (M680X_INS_DEC, idxX0_hid, inh_hid),
     (M680X_INS_ILLGL, illgl_hid, inh_hid),
     (M680X_INS_INC, idxX0_hid, inh_hid),
     (M680X_INS_TST, idxX0_hid, inh_hid),
     (M680X_INS_ILLGL, illgl_hid, inh_hid),
     (M680X_INS_CLR, idxX0_hid, inh_hid),
     (M680X_INS_RTI, inh_hid, inh_hid),
     (M680X_INS_RTS, inh_hid, inh_hid),
     (M680X_INS_ILLGL, illgl_hid, inh_hid),
     (M680X_INS_SWI, inh_hid, inh_hid),
     (M680X_INS_ILLGL, illgl_hid, inh_hid),
     (M680X_INS_ILLGL, illgl_hid, inh_hid),
     (M680X_INS_ILLGL, illgl_hid, inh_hid),
     (M680X_INS_ILLGL, illgl_hid, inh_hid),
     (M680X_INS_ILLGL, illgl_hid, inh_hid),
     (M680X_INS_ILLGL, illgl_hid, inh_hid),
     (M680X_INS_ILLGL, illgl_hid, inh_hid),
     (M680X_INS_ILLGL, illgl_hid, inh_hid),
     (M680X_INS_ILLGL, illgl_hid, inh_hid),
     (M680X_INS_ILLGL, illgl_hid, inh_hid),
     (M680X_INS_STOP, inh_hid, inh_hid),
     (M680X_INS_WAIT, inh_hid, inh_hid),
     (M680X_INS_ILLGL, illgl_hid, inh_hid),
     (M680X_INS_ILLGL, illgl_hid, inh_hid),
     (M680X_INS_ILLGL, illgl_hid, inh_hid),
     (M680X_INS_ILLGL, illgl_hid, inh_hid),
     (M680X_INS_ILLGL, illgl_hid, inh_hid),
     (M680X_INS_ILLGL, illgl_hid, inh_hid),
     (M680X_INS_ILLGL, illgl_hid, inh_hid),
     (M680X_INS_TAX, inh_hid, inh_hid),
     (M680X_INS_CLC, inh_hid, inh_hid),
     (M680X_INS_SEC, inh_hid, inh_hid),
     (M680X_INS_CLI, inh_hid, inh_hid),
     (M680X_INS_SEI, inh_hid, inh_hid),
     (M680X_INS_RSP, inh_hid, inh_hid),
     (M680X_INS_NOP, inh_hid, inh_hid),
     (M680X_INS_ILLGL, illgl_hid, inh_hid),
     (M680X_INS_TXA, inh_hid, inh_hid),
     (M680X_INS_SUB, imm8_hid, inh_hid),
     (M680X_INS_CMP, imm8_hid, inh_hid),
     (M680X_INS_SBC, imm8_hid, inh_hid),
     (M680X_INS_CPX, imm8_hid, inh_hid),
     (M680X_INS_AND, imm8_hid, inh_hid),
     (M680X_INS_BIT, imm8_hid, inh_hid),
     (M680X_INS_LDA, imm8_hid, inh_hid),
     (M680X_INS_ILLGL, illgl_hid, inh_hid),
     (M680X_INS_EOR, imm8_hid, inh_hid),
     (M680X_INS_ADC, imm8_hid, inh_hid),
     (M680X_INS_ORA, imm8_hid, inh_hid),
     (M680X_INS_ADD, imm8_hid, inh_hid),
     (M680X_INS_ILLGL, illgl_hid, inh_hid),
     (M680X_INS_BSR, rel8_hid, inh_hid),
     (M680X_INS_LDX, imm8_hid, inh_hid),
     (M680X_INS_ILLGL, illgl_hid, inh_hid),
     (M680X_INS_SUB, dir_hid, inh_hid),
     (M680X_INS_CMP, dir_hid, inh_hid),
     (M680X_INS_SBC, dir_hid, inh_hid),
     (M680X_INS_CPX, dir_hid, inh_hid),
     (M680X_INS_AND, dir_hid, inh_hid),
     (M680X_INS_BIT, dir_hid, inh_hid),
     (M680X_INS_LDA, dir_hid, inh_hid),
     (M680X_INS_STA, dir_hid, inh_hid),
     (M680X_INS_EOR, dir_hid, inh_hid),
     (M680X_INS_ADC, dir_hid, inh_hid),
     (M680X_INS_ORA, dir_hid, inh_hid),
     (M680X_INS_ADD, dir_hid, inh_hid),
     (M680X_INS_JMP, dir_hid, inh_hid),
     (M680X_INS_JSR, dir_hid, inh_hid),
     (M680X_INS_LDX, dir_hid, inh_hid),
     (M680X_INS_STX, dir_hid, inh_hid),
     (M680X_INS_SUB, ext_hid, inh_hid),
     (M680X_INS_CMP, ext_hid, inh_hid),
     (M680X_INS_SBC, ext_hid, inh_hid),
     (M680X_INS_CPX, ext_hid, inh_hid),
     (M680X_INS_AND, ext_hid, inh_hid),
     (M680X_INS_BIT, ext_hid, inh_hid),
     (M680X_INS_LDA, ext_hid, inh_hid),
     (M680X_INS_STA, ext_hid, inh_hid),
     (M680X_INS_EOR, ext_hid, inh_hid),
     (M680X_INS_ADC, ext_hid, inh_hid),
     (M680X_INS_ORA, ext_hid, inh_hid),
     (M680X_INS_ADD, ext_hid, inh_hid),
     (M680X_INS_JMP, ext_hid, inh_hid),
     (M680X_INS_JSR, ext_hid, inh_hid),
     (M680X_INS_LDX, ext_hid, inh_hid),
     (M680X_INS_STX, ext_hid, inh_hid),
     (M680X_INS_SUB, idxX16_hid, inh_hid),
     (M680X_INS_CMP, idxX16_hid, inh_hid),
     (M680X_INS_SBC, idxX16_hid, inh_hid),
     (M680X_INS_CPX, idxX16_hid, inh_hid),
     (M680X_INS_AND, idxX16_hid, inh_hid),
     (M680X_INS_BIT, idxX16_hid, inh_hid),
     (M680X_INS_LDA, idxX16_hid, inh_hid),
     (M680X_INS_STA, idxX16_hid, inh_hid),
     (M680X_INS_EOR, idxX16_hid, inh_hid),
     (M680X_INS_ADC, idxX16_hid, inh_hid),
     (M680X_INS_ORA, idxX16_hid, inh_hid),
     (M680X_INS_ADD, idxX16_hid, inh_hid),
     (M680X_INS_JMP, idxX16_hid, inh_hid),
     (M680X_INS_JSR, idxX16_hid, inh_hid),
     (M680X_INS_LDX, idxX16_hid, inh_hid),
     (M680X_INS_STX, idxX16_hid, inh_hid),
     (M680X_INS_SUB, idxX_hid, inh_hid),
     (M680X_INS_CMP, idxX_hid, inh_hid),
     (M680X_INS_SBC, idxX_hid, inh_hid),
     (M680X_INS_CPX, idxX_hid, inh_hid),
     (M680X_INS_AND, idxX_hid, inh_hid),
     (M680X_INS_BIT, idxX_hid, inh_hid),
     (M680X_INS_LDA, idxX_hid, inh_hid),
     (M680X_INS_STA, idxX_hid, inh_hid),
     (M680X_INS_EOR, idxX_hid, inh_hid),
     (M680X_INS_ADC, idxX_hid, inh_hid),
     (M680X_INS_ORA, idxX_hid, inh_hid),
     (M680X_INS_ADD, idxX_hid, inh_hid),
     (M680X_INS_JMP, idxX_hid, inh_hid),
     (M680X_INS_JSR, idxX_hid, inh_hid),
     (M680X_INS_LDX, idxX_hid, inh_hid),
     (M680X_INS_STX, idxX_hid, inh_hid),
     (M680X_INS_SUB, idxX0_hid, inh_hid),
     (M680X_INS_CMP, idxX0_hid, inh_hid),
     (M680X_INS_SBC, idxX0_hid, inh_hid),
     (M680X_INS_CPX, idxX0_hid, inh_hid),
     (M680X_INS_AND, idxX0_hid, inh_hid),
     (M680X_INS_BIT, idxX0_hid, inh_hid),
     (M680X_INS_LDA, idxX0_hid, inh_hid),
     (M680X_INS_STA, idxX0_hid, inh_hid),
     (M680X_INS_EOR, idxX0_hid, inh_hid),
     (M680X_INS_ADC, idxX0_hid, inh_hid),
     (M680X_INS_ORA, idxX0_hid, inh_hid),
     (M680X_INS_ADD, idxX0_hid, inh_hid),
     (M680X_INS_JMP, idxX0_hid, inh_hid),
     (M680X_INS_JSR, idxX0_hid, inh_hid),
     (M680X_INS_LDX, idxX0_hid, inh_hid),
     (M680X_INS_STX, idxX0_hid, inh_hid)]"

definition g_m6808_inst_overlay_table :: "inst_pageX list" where
  "g_m6808_inst_overlay_table = [(0x31, M680X_INS_CBEQ, dir_hid, rel8_hid),
     (0x35, M680X_INS_STHX, dir_hid, inh_hid),
     (0x3b, M680X_INS_DBNZ, dir_hid, rel8_hid),
     (0x41, M680X_INS_CBEQA, imm8rel_hid, inh_hid),
     (0x45, M680X_INS_LDHX, imm16_hid, inh_hid),
     (0x4b, M680X_INS_DBNZA, rel8_hid, inh_hid),
     (0x4e, M680X_INS_MOV, dir_hid, dir_hid),
     (0x51, M680X_INS_CBEQX, imm8rel_hid, inh_hid),
     (0x52, M680X_INS_DIV, inh_hid, inh_hid),
     (0x55, M680X_INS_LDHX, dir_hid, inh_hid),
     (0x5b, M680X_INS_DBNZX, rel8_hid, inh_hid),
     (0x5e, M680X_INS_MOV, dir_hid, idxX0p_hid),
     (0x61, M680X_INS_CBEQ, idxXp_hid, rel8_hid),
     (0x62, M680X_INS_NSA, inh_hid, inh_hid),
     (0x65, M680X_INS_CPHX, imm16_hid, inh_hid),
     (0x6b, M680X_INS_DBNZ, idxX_hid, rel8_hid),
     (0x6e, M680X_INS_MOV, imm8_hid, dir_hid),
     (0x71, M680X_INS_CBEQ, idxX0p_hid, rel8_hid),
     (0x72, M680X_INS_DAA, inh_hid, inh_hid),
     (0x75, M680X_INS_CPHX, dir_hid, inh_hid),
     (0x7b, M680X_INS_DBNZ, idxX0_hid, rel8_hid),
     (0x7e, M680X_INS_MOV, idxX0p_hid, dir_hid),
     (0x84, M680X_INS_TAP, inh_hid, inh_hid),
     (0x85, M680X_INS_TPA, inh_hid, inh_hid),
     (0x86, M680X_INS_PULA, inh_hid, inh_hid),
     (0x87, M680X_INS_PSHA, inh_hid, inh_hid),
     (0x88, M680X_INS_PULX, inh_hid, inh_hid),
     (0x89, M680X_INS_PSHX, inh_hid, inh_hid),
     (0x8a, M680X_INS_PULH, inh_hid, inh_hid),
     (0x8b, M680X_INS_PSHH, inh_hid, inh_hid),
     (0x8c, M680X_INS_CLRH, inh_hid, inh_hid),
     (0x90, M680X_INS_BGE, rel8_hid, inh_hid),
     (0x91, M680X_INS_BLT, rel8_hid, inh_hid),
     (0x92, M680X_INS_BGT, rel8_hid, inh_hid),
     (0x93, M680X_INS_BLE, rel8_hid, inh_hid),
     (0x94, M680X_INS_TXS, inh_hid, inh_hid),
     (0x95, M680X_INS_TSX, inh_hid, inh_hid),
     (0x97, M680X_INS_TAX, inh_hid, inh_hid),
     (0x9f, M680X_INS_TXA, inh_hid, inh_hid),
     (0xa7, M680X_INS_AIS, imm8_hid, inh_hid),
     (0xaf, M680X_INS_AIX, imm8_hid, inh_hid)]"

definition g_m6808_inst_page2_table :: "inst_pageX list" where
  "g_m6808_inst_page2_table = [(0x60, M680X_INS_NEG, idxS_hid, inh_hid),
     (0x61, M680X_INS_CBEQ, idxS_hid, rel8_hid),
     (0x63, M680X_INS_COM, idxS_hid, inh_hid),
     (0x64, M680X_INS_LSR, idxS_hid, inh_hid),
     (0x66, M680X_INS_ROR, idxS_hid, inh_hid),
     (0x67, M680X_INS_ASR, idxS_hid, inh_hid),
     (0x68, M680X_INS_LSL, idxS_hid, inh_hid),
     (0x69, M680X_INS_ROL, idxS_hid, inh_hid),
     (0x6a, M680X_INS_DEC, idxS_hid, inh_hid),
     (0x6b, M680X_INS_DBNZ, idxS_hid, rel8_hid),
     (0x6c, M680X_INS_INC, idxS_hid, inh_hid),
     (0x6d, M680X_INS_TST, idxS_hid, inh_hid),
     (0x6f, M680X_INS_CLR, idxS_hid, inh_hid),
     (0xd0, M680X_INS_SUB, idxS16_hid, inh_hid),
     (0xd1, M680X_INS_CMP, idxS16_hid, inh_hid),
     (0xd2, M680X_INS_SBC, idxS16_hid, inh_hid),
     (0xd3, M680X_INS_CPX, idxS16_hid, inh_hid),
     (0xd4, M680X_INS_AND, idxS16_hid, inh_hid),
     (0xd5, M680X_INS_BIT, idxS16_hid, inh_hid),
     (0xd6, M680X_INS_LDA, idxS16_hid, inh_hid),
     (0xd7, M680X_INS_STA, idxS16_hid, inh_hid),
     (0xd8, M680X_INS_EOR, idxS16_hid, inh_hid),
     (0xd9, M680X_INS_ADC, idxS16_hid, inh_hid),
     (0xda, M680X_INS_ORA, idxS16_hid, inh_hid),
     (0xdb, M680X_INS_ADD, idxS16_hid, inh_hid),
     (0xde, M680X_INS_LDX, idxS16_hid, inh_hid),
     (0xdf, M680X_INS_STX, idxS16_hid, inh_hid),
     (0xe0, M680X_INS_SUB, idxS_hid, inh_hid),
     (0xe1, M680X_INS_CMP, idxS_hid, inh_hid),
     (0xe2, M680X_INS_SBC, idxS_hid, inh_hid),
     (0xe3, M680X_INS_CPX, idxS_hid, inh_hid),
     (0xe4, M680X_INS_AND, idxS_hid, inh_hid),
     (0xe5, M680X_INS_BIT, idxS_hid, inh_hid),
     (0xe6, M680X_INS_LDA, idxS_hid, inh_hid),
     (0xe7, M680X_INS_STA, idxS_hid, inh_hid),
     (0xe8, M680X_INS_EOR, idxS_hid, inh_hid),
     (0xe9, M680X_INS_ADC, idxS_hid, inh_hid),
     (0xea, M680X_INS_ORA, idxS_hid, inh_hid),
     (0xeb, M680X_INS_ADD, idxS_hid, inh_hid),
     (0xee, M680X_INS_LDX, idxS_hid, inh_hid),
     (0xef, M680X_INS_STX, idxS_hid, inh_hid)]"

definition g_hcs08_inst_overlay_table :: "inst_pageX list" where
  "g_hcs08_inst_overlay_table = [(0x32, M680X_INS_LDHX, ext_hid, inh_hid),
     (0x3e, M680X_INS_CPHX, ext_hid, inh_hid),
     (0x82, M680X_INS_BGND, inh_hid, inh_hid),
     (0x96, M680X_INS_STHX, ext_hid, inh_hid)]"

definition g_hcs08_inst_page2_table :: "inst_pageX list" where
  "g_hcs08_inst_page2_table = [(0x60, M680X_INS_NEG, idxS_hid, inh_hid),
     (0x61, M680X_INS_CBEQ, idxS_hid, rel8_hid),
     (0x63, M680X_INS_COM, idxS_hid, inh_hid),
     (0x64, M680X_INS_LSR, idxS_hid, inh_hid),
     (0x66, M680X_INS_ROR, idxS_hid, inh_hid),
     (0x67, M680X_INS_ASR, idxS_hid, inh_hid),
     (0x68, M680X_INS_LSL, idxS_hid, inh_hid),
     (0x69, M680X_INS_ROL, idxS_hid, inh_hid),
     (0x6a, M680X_INS_DEC, idxS_hid, inh_hid),
     (0x6b, M680X_INS_DBNZ, idxS_hid, rel8_hid),
     (0x6c, M680X_INS_INC, idxS_hid, inh_hid),
     (0x6d, M680X_INS_TST, idxS_hid, inh_hid),
     (0x6f, M680X_INS_CLR, idxS_hid, inh_hid),
     (0xae, M680X_INS_LDHX, idxX0_hid, inh_hid),
     (0xbe, M680X_INS_LDHX, idxX16_hid, inh_hid),
     (0xce, M680X_INS_LDHX, idxX_hid, inh_hid),
     (0xd0, M680X_INS_SUB, idxS16_hid, inh_hid),
     (0xd1, M680X_INS_CMP, idxS16_hid, inh_hid),
     (0xd2, M680X_INS_SBC, idxS16_hid, inh_hid),
     (0xd3, M680X_INS_CPX, idxS16_hid, inh_hid),
     (0xd4, M680X_INS_AND, idxS16_hid, inh_hid),
     (0xd5, M680X_INS_BIT, idxS16_hid, inh_hid),
     (0xd6, M680X_INS_LDA, idxS16_hid, inh_hid),
     (0xd7, M680X_INS_STA, idxS16_hid, inh_hid),
     (0xd8, M680X_INS_EOR, idxS16_hid, inh_hid),
     (0xd9, M680X_INS_ADC, idxS16_hid, inh_hid),
     (0xda, M680X_INS_ORA, idxS16_hid, inh_hid),
     (0xdb, M680X_INS_ADD, idxS16_hid, inh_hid),
     (0xde, M680X_INS_LDX, idxS16_hid, inh_hid),
     (0xdf, M680X_INS_STX, idxS16_hid, inh_hid),
     (0xe0, M680X_INS_SUB, idxS_hid, inh_hid),
     (0xe1, M680X_INS_CMP, idxS_hid, inh_hid),
     (0xe2, M680X_INS_SBC, idxS_hid, inh_hid),
     (0xe3, M680X_INS_CPX, idxS_hid, inh_hid),
     (0xe4, M680X_INS_AND, idxS_hid, inh_hid),
     (0xe5, M680X_INS_BIT, idxS_hid, inh_hid),
     (0xe6, M680X_INS_LDA, idxS_hid, inh_hid),
     (0xe7, M680X_INS_STA, idxS_hid, inh_hid),
     (0xe8, M680X_INS_EOR, idxS_hid, inh_hid),
     (0xe9, M680X_INS_ADC, idxS_hid, inh_hid),
     (0xea, M680X_INS_ORA, idxS_hid, inh_hid),
     (0xeb, M680X_INS_ADD, idxS_hid, inh_hid),
     (0xee, M680X_INS_LDX, idxS_hid, inh_hid),
     (0xef, M680X_INS_STX, idxS_hid, inh_hid),
     (0xf3, M680X_INS_CPHX, idxS_hid, inh_hid),
     (0xfe, M680X_INS_LDHX, idxS_hid, inh_hid),
     (0xff, M680X_INS_STHX, idxS_hid, inh_hid)]"

definition g_m6809_inst_page1_table :: "inst_page1 list" where
  "g_m6809_inst_page1_table = [(M680X_INS_NEG, dir_hid, inh_hid),
     (M680X_INS_ILLGL, illgl_hid, inh_hid),
     (M680X_INS_ILLGL, illgl_hid, inh_hid),
     (M680X_INS_COM, dir_hid, inh_hid),
     (M680X_INS_LSR, dir_hid, inh_hid),
     (M680X_INS_ILLGL, illgl_hid, inh_hid),
     (M680X_INS_ROR, dir_hid, inh_hid),
     (M680X_INS_ASR, dir_hid, inh_hid),
     (M680X_INS_LSL, dir_hid, inh_hid),
     (M680X_INS_ROL, dir_hid, inh_hid),
     (M680X_INS_DEC, dir_hid, inh_hid),
     (M680X_INS_ILLGL, illgl_hid, inh_hid),
     (M680X_INS_INC, dir_hid, inh_hid),
     (M680X_INS_TST, dir_hid, inh_hid),
     (M680X_INS_JMP, dir_hid, inh_hid),
     (M680X_INS_CLR, dir_hid, inh_hid),
     (M680X_INS_ILLGL, illgl_hid, inh_hid),
     (M680X_INS_ILLGL, illgl_hid, inh_hid),
     (M680X_INS_NOP, inh_hid, inh_hid),
     (M680X_INS_SYNC, inh_hid, inh_hid),
     (M680X_INS_ILLGL, illgl_hid, inh_hid),
     (M680X_INS_ILLGL, illgl_hid, inh_hid),
     (M680X_INS_LBRA, rel16_hid, inh_hid),
     (M680X_INS_LBSR, rel16_hid, inh_hid),
     (M680X_INS_ILLGL, illgl_hid, inh_hid),
     (M680X_INS_DAA, inh_hid, inh_hid),
     (M680X_INS_ORCC, imm8_hid, inh_hid),
     (M680X_INS_ILLGL, illgl_hid, inh_hid),
     (M680X_INS_ANDCC, imm8_hid, inh_hid),
     (M680X_INS_SEX, inh_hid, inh_hid),
     (M680X_INS_EXG, rr09_hid, inh_hid),
     (M680X_INS_TFR, rr09_hid, inh_hid),
     (M680X_INS_BRA, rel8_hid, inh_hid),
     (M680X_INS_BRN, rel8_hid, inh_hid),
     (M680X_INS_BHI, rel8_hid, inh_hid),
     (M680X_INS_BLS, rel8_hid, inh_hid),
     (M680X_INS_BCC, rel8_hid, inh_hid),
     (M680X_INS_BCS, rel8_hid, inh_hid),
     (M680X_INS_BNE, rel8_hid, inh_hid),
     (M680X_INS_BEQ, rel8_hid, inh_hid),
     (M680X_INS_BVC, rel8_hid, inh_hid),
     (M680X_INS_BVS, rel8_hid, inh_hid),
     (M680X_INS_BPL, rel8_hid, inh_hid),
     (M680X_INS_BMI, rel8_hid, inh_hid),
     (M680X_INS_BGE, rel8_hid, inh_hid),
     (M680X_INS_BLT, rel8_hid, inh_hid),
     (M680X_INS_BGT, rel8_hid, inh_hid),
     (M680X_INS_BLE, rel8_hid, inh_hid),
     (M680X_INS_LEAX, idx09_hid, inh_hid),
     (M680X_INS_LEAY, idx09_hid, inh_hid),
     (M680X_INS_LEAS, idx09_hid, inh_hid),
     (M680X_INS_LEAU, idx09_hid, inh_hid),
     (M680X_INS_PSHS, rbits_hid, inh_hid),
     (M680X_INS_PULS, rbits_hid, inh_hid),
     (M680X_INS_PSHU, rbits_hid, inh_hid),
     (M680X_INS_PULU, rbits_hid, inh_hid),
     (M680X_INS_ILLGL, illgl_hid, inh_hid),
     (M680X_INS_RTS, inh_hid, inh_hid),
     (M680X_INS_ABX, inh_hid, inh_hid),
     (M680X_INS_RTI, inh_hid, inh_hid),
     (M680X_INS_CWAI, imm8_hid, inh_hid),
     (M680X_INS_MUL, inh_hid, inh_hid),
     (M680X_INS_ILLGL, illgl_hid, inh_hid),
     (M680X_INS_SWI, inh_hid, inh_hid),
     (M680X_INS_NEGA, inh_hid, inh_hid),
     (M680X_INS_ILLGL, illgl_hid, inh_hid),
     (M680X_INS_ILLGL, illgl_hid, inh_hid),
     (M680X_INS_COMA, inh_hid, inh_hid),
     (M680X_INS_LSRA, inh_hid, inh_hid),
     (M680X_INS_ILLGL, illgl_hid, inh_hid),
     (M680X_INS_RORA, inh_hid, inh_hid),
     (M680X_INS_ASRA, inh_hid, inh_hid),
     (M680X_INS_LSLA, inh_hid, inh_hid),
     (M680X_INS_ROLA, inh_hid, inh_hid),
     (M680X_INS_DECA, inh_hid, inh_hid),
     (M680X_INS_ILLGL, illgl_hid, inh_hid),
     (M680X_INS_INCA, inh_hid, inh_hid),
     (M680X_INS_TSTA, inh_hid, inh_hid),
     (M680X_INS_ILLGL, illgl_hid, inh_hid),
     (M680X_INS_CLRA, inh_hid, inh_hid),
     (M680X_INS_NEGB, inh_hid, inh_hid),
     (M680X_INS_ILLGL, illgl_hid, inh_hid),
     (M680X_INS_ILLGL, illgl_hid, inh_hid),
     (M680X_INS_COMB, inh_hid, inh_hid),
     (M680X_INS_LSRB, inh_hid, inh_hid),
     (M680X_INS_ILLGL, illgl_hid, inh_hid),
     (M680X_INS_RORB, inh_hid, inh_hid),
     (M680X_INS_ASRB, inh_hid, inh_hid),
     (M680X_INS_LSLB, inh_hid, inh_hid),
     (M680X_INS_ROLB, inh_hid, inh_hid),
     (M680X_INS_DECB, inh_hid, inh_hid),
     (M680X_INS_ILLGL, illgl_hid, inh_hid),
     (M680X_INS_INCB, inh_hid, inh_hid),
     (M680X_INS_TSTB, inh_hid, inh_hid),
     (M680X_INS_ILLGL, illgl_hid, inh_hid),
     (M680X_INS_CLRB, inh_hid, inh_hid),
     (M680X_INS_NEG, idx09_hid, inh_hid),
     (M680X_INS_ILLGL, illgl_hid, inh_hid),
     (M680X_INS_ILLGL, illgl_hid, inh_hid),
     (M680X_INS_COM, idx09_hid, inh_hid),
     (M680X_INS_LSR, idx09_hid, inh_hid),
     (M680X_INS_ILLGL, illgl_hid, inh_hid),
     (M680X_INS_ROR, idx09_hid, inh_hid),
     (M680X_INS_ASR, idx09_hid, inh_hid),
     (M680X_INS_LSL, idx09_hid, inh_hid),
     (M680X_INS_ROL, idx09_hid, inh_hid),
     (M680X_INS_DEC, idx09_hid, inh_hid),
     (M680X_INS_ILLGL, illgl_hid, inh_hid),
     (M680X_INS_INC, idx09_hid, inh_hid),
     (M680X_INS_TST, idx09_hid, inh_hid),
     (M680X_INS_JMP, idx09_hid, inh_hid),
     (M680X_INS_CLR, idx09_hid, inh_hid),
     (M680X_INS_NEG, ext_hid, inh_hid),
     (M680X_INS_ILLGL, illgl_hid, inh_hid),
     (M680X_INS_ILLGL, illgl_hid, inh_hid),
     (M680X_INS_COM, ext_hid, inh_hid),
     (M680X_INS_LSR, ext_hid, inh_hid),
     (M680X_INS_ILLGL, illgl_hid, inh_hid),
     (M680X_INS_ROR, ext_hid, inh_hid),
     (M680X_INS_ASR, ext_hid, inh_hid),
     (M680X_INS_LSL, ext_hid, inh_hid),
     (M680X_INS_ROL, ext_hid, inh_hid),
     (M680X_INS_DEC, ext_hid, inh_hid),
     (M680X_INS_ILLGL, illgl_hid, inh_hid),
     (M680X_INS_INC, ext_hid, inh_hid),
     (M680X_INS_TST, ext_hid, inh_hid),
     (M680X_INS_JMP, ext_hid, inh_hid),
     (M680X_INS_CLR, ext_hid, inh_hid),
     (M680X_INS_SUBA, imm8_hid, inh_hid),
     (M680X_INS_CMPA, imm8_hid, inh_hid),
     (M680X_INS_SBCA, imm8_hid, inh_hid),
     (M680X_INS_SUBD, imm16_hid, inh_hid),
     (M680X_INS_ANDA, imm8_hid, inh_hid),
     (M680X_INS_BITA, imm8_hid, inh_hid),
     (M680X_INS_LDA, imm8_hid, inh_hid),
     (M680X_INS_ILLGL, illgl_hid, inh_hid),
     (M680X_INS_EORA, imm8_hid, inh_hid),
     (M680X_INS_ADCA, imm8_hid, inh_hid),
     (M680X_INS_ORA, imm8_hid, inh_hid),
     (M680X_INS_ADDA, imm8_hid, inh_hid),
     (M680X_INS_CMPX, imm16_hid, inh_hid),
     (M680X_INS_BSR, rel8_hid, inh_hid),
     (M680X_INS_LDX, imm16_hid, inh_hid),
     (M680X_INS_ILLGL, illgl_hid, inh_hid),
     (M680X_INS_SUBA, dir_hid, inh_hid),
     (M680X_INS_CMPA, dir_hid, inh_hid),
     (M680X_INS_SBCA, dir_hid, inh_hid),
     (M680X_INS_SUBD, dir_hid, inh_hid),
     (M680X_INS_ANDA, dir_hid, inh_hid),
     (M680X_INS_BITA, dir_hid, inh_hid),
     (M680X_INS_LDA, dir_hid, inh_hid),
     (M680X_INS_STA, dir_hid, inh_hid),
     (M680X_INS_EORA, dir_hid, inh_hid),
     (M680X_INS_ADCA, dir_hid, inh_hid),
     (M680X_INS_ORA, dir_hid, inh_hid),
     (M680X_INS_ADDA, dir_hid, inh_hid),
     (M680X_INS_CMPX, dir_hid, inh_hid),
     (M680X_INS_JSR, dir_hid, inh_hid),
     (M680X_INS_LDX, dir_hid, inh_hid),
     (M680X_INS_STX, dir_hid, inh_hid),
     (M680X_INS_SUBA, idx09_hid, inh_hid),
     (M680X_INS_CMPA, idx09_hid, inh_hid),
     (M680X_INS_SBCA, idx09_hid, inh_hid),
     (M680X_INS_SUBD, idx09_hid, inh_hid),
     (M680X_INS_ANDA, idx09_hid, inh_hid),
     (M680X_INS_BITA, idx09_hid, inh_hid),
     (M680X_INS_LDA, idx09_hid, inh_hid),
     (M680X_INS_STA, idx09_hid, inh_hid),
     (M680X_INS_EORA, idx09_hid, inh_hid),
     (M680X_INS_ADCA, idx09_hid, inh_hid),
     (M680X_INS_ORA, idx09_hid, inh_hid),
     (M680X_INS_ADDA, idx09_hid, inh_hid),
     (M680X_INS_CMPX, idx09_hid, inh_hid),
     (M680X_INS_JSR, idx09_hid, inh_hid),
     (M680X_INS_LDX, idx09_hid, inh_hid),
     (M680X_INS_STX, idx09_hid, inh_hid),
     (M680X_INS_SUBA, ext_hid, inh_hid),
     (M680X_INS_CMPA, ext_hid, inh_hid),
     (M680X_INS_SBCA, ext_hid, inh_hid),
     (M680X_INS_SUBD, ext_hid, inh_hid),
     (M680X_INS_ANDA, ext_hid, inh_hid),
     (M680X_INS_BITA, ext_hid, inh_hid),
     (M680X_INS_LDA, ext_hid, inh_hid),
     (M680X_INS_STA, ext_hid, inh_hid),
     (M680X_INS_EORA, ext_hid, inh_hid),
     (M680X_INS_ADCA, ext_hid, inh_hid),
     (M680X_INS_ORA, ext_hid, inh_hid),
     (M680X_INS_ADDA, ext_hid, inh_hid),
     (M680X_INS_CMPX, ext_hid, inh_hid),
     (M680X_INS_JSR, ext_hid, inh_hid),
     (M680X_INS_LDX, ext_hid, inh_hid),
     (M680X_INS_STX, ext_hid, inh_hid),
     (M680X_INS_SUBB, imm8_hid, inh_hid),
     (M680X_INS_CMPB, imm8_hid, inh_hid),
     (M680X_INS_SBCB, imm8_hid, inh_hid),
     (M680X_INS_ADDD, imm16_hid, inh_hid),
     (M680X_INS_ANDB, imm8_hid, inh_hid),
     (M680X_INS_BITB, imm8_hid, inh_hid),
     (M680X_INS_LDB, imm8_hid, inh_hid),
     (M680X_INS_ILLGL, illgl_hid, inh_hid),
     (M680X_INS_EORB, imm8_hid, inh_hid),
     (M680X_INS_ADCB, imm8_hid, inh_hid),
     (M680X_INS_ORB, imm8_hid, inh_hid),
     (M680X_INS_ADDB, imm8_hid, inh_hid),
     (M680X_INS_LDD, imm16_hid, inh_hid),
     (M680X_INS_ILLGL, illgl_hid, inh_hid),
     (M680X_INS_LDU, imm16_hid, inh_hid),
     (M680X_INS_ILLGL, illgl_hid, inh_hid),
     (M680X_INS_SUBB, dir_hid, inh_hid),
     (M680X_INS_CMPB, dir_hid, inh_hid),
     (M680X_INS_SBCB, dir_hid, inh_hid),
     (M680X_INS_ADDD, dir_hid, inh_hid),
     (M680X_INS_ANDB, dir_hid, inh_hid),
     (M680X_INS_BITB, dir_hid, inh_hid),
     (M680X_INS_LDB, dir_hid, inh_hid),
     (M680X_INS_STB, dir_hid, inh_hid),
     (M680X_INS_EORB, dir_hid, inh_hid),
     (M680X_INS_ADCB, dir_hid, inh_hid),
     (M680X_INS_ORB, dir_hid, inh_hid),
     (M680X_INS_ADDB, dir_hid, inh_hid),
     (M680X_INS_LDD, dir_hid, inh_hid),
     (M680X_INS_STD, dir_hid, inh_hid),
     (M680X_INS_LDU, dir_hid, inh_hid),
     (M680X_INS_STU, dir_hid, inh_hid),
     (M680X_INS_SUBB, idx09_hid, inh_hid),
     (M680X_INS_CMPB, idx09_hid, inh_hid),
     (M680X_INS_SBCB, idx09_hid, inh_hid),
     (M680X_INS_ADDD, idx09_hid, inh_hid),
     (M680X_INS_ANDB, idx09_hid, inh_hid),
     (M680X_INS_BITB, idx09_hid, inh_hid),
     (M680X_INS_LDB, idx09_hid, inh_hid),
     (M680X_INS_STB, idx09_hid, inh_hid),
     (M680X_INS_EORB, idx09_hid, inh_hid),
     (M680X_INS_ADCB, idx09_hid, inh_hid),
     (M680X_INS_ORB, idx09_hid, inh_hid),
     (M680X_INS_ADDB, idx09_hid, inh_hid),
     (M680X_INS_LDD, idx09_hid, inh_hid),
     (M680X_INS_STD, idx09_hid, inh_hid),
     (M680X_INS_LDU, idx09_hid, inh_hid),
     (M680X_INS_STU, idx09_hid, inh_hid),
     (M680X_INS_SUBB, ext_hid, inh_hid),
     (M680X_INS_CMPB, ext_hid, inh_hid),
     (M680X_INS_SBCB, ext_hid, inh_hid),
     (M680X_INS_ADDD, ext_hid, inh_hid),
     (M680X_INS_ANDB, ext_hid, inh_hid),
     (M680X_INS_BITB, ext_hid, inh_hid),
     (M680X_INS_LDB, ext_hid, inh_hid),
     (M680X_INS_STB, ext_hid, inh_hid),
     (M680X_INS_EORB, ext_hid, inh_hid),
     (M680X_INS_ADCB, ext_hid, inh_hid),
     (M680X_INS_ORB, ext_hid, inh_hid),
     (M680X_INS_ADDB, ext_hid, inh_hid),
     (M680X_INS_LDD, ext_hid, inh_hid),
     (M680X_INS_STD, ext_hid, inh_hid),
     (M680X_INS_LDU, ext_hid, inh_hid),
     (M680X_INS_STU, ext_hid, inh_hid)]"

definition g_m6809_inst_page2_table :: "inst_pageX list" where
  "g_m6809_inst_page2_table = [(0x21, M680X_INS_LBRN, rel16_hid, inh_hid),
     (0x22, M680X_INS_LBHI, rel16_hid, inh_hid),
     (0x23, M680X_INS_LBLS, rel16_hid, inh_hid),
     (0x24, M680X_INS_LBCC, rel16_hid, inh_hid),
     (0x25, M680X_INS_LBCS, rel16_hid, inh_hid),
     (0x26, M680X_INS_LBNE, rel16_hid, inh_hid),
     (0x27, M680X_INS_LBEQ, rel16_hid, inh_hid),
     (0x28, M680X_INS_LBVC, rel16_hid, inh_hid),
     (0x29, M680X_INS_LBVS, rel16_hid, inh_hid),
     (0x2a, M680X_INS_LBPL, rel16_hid, inh_hid),
     (0x2b, M680X_INS_LBMI, rel16_hid, inh_hid),
     (0x2c, M680X_INS_LBGE, rel16_hid, inh_hid),
     (0x2d, M680X_INS_LBLT, rel16_hid, inh_hid),
     (0x2e, M680X_INS_LBGT, rel16_hid, inh_hid),
     (0x2f, M680X_INS_LBLE, rel16_hid, inh_hid),
     (0x3f, M680X_INS_SWI2, inh_hid, inh_hid),
     (0x83, M680X_INS_CMPD, imm16_hid, inh_hid),
     (0x8c, M680X_INS_CMPY, imm16_hid, inh_hid),
     (0x8e, M680X_INS_LDY, imm16_hid, inh_hid),
     (0x93, M680X_INS_CMPD, dir_hid, inh_hid),
     (0x9c, M680X_INS_CMPY, dir_hid, inh_hid),
     (0x9e, M680X_INS_LDY, dir_hid, inh_hid),
     (0x9f, M680X_INS_STY, dir_hid, inh_hid),
     (0xa3, M680X_INS_CMPD, idx09_hid, inh_hid),
     (0xac, M680X_INS_CMPY, idx09_hid, inh_hid),
     (0xae, M680X_INS_LDY, idx09_hid, inh_hid),
     (0xaf, M680X_INS_STY, idx09_hid, inh_hid),
     (0xb3, M680X_INS_CMPD, ext_hid, inh_hid),
     (0xbc, M680X_INS_CMPY, ext_hid, inh_hid),
     (0xbe, M680X_INS_LDY, ext_hid, inh_hid),
     (0xbf, M680X_INS_STY, ext_hid, inh_hid),
     (0xce, M680X_INS_LDS, imm16_hid, inh_hid),
     (0xde, M680X_INS_LDS, dir_hid, inh_hid),
     (0xdf, M680X_INS_STS, dir_hid, inh_hid),
     (0xee, M680X_INS_LDS, idx09_hid, inh_hid),
     (0xef, M680X_INS_STS, idx09_hid, inh_hid),
     (0xfe, M680X_INS_LDS, ext_hid, inh_hid),
     (0xff, M680X_INS_STS, ext_hid, inh_hid)]"

definition g_m6809_inst_page3_table :: "inst_pageX list" where
  "g_m6809_inst_page3_table = [(0x3f, M680X_INS_SWI3, inh_hid, inh_hid),
     (0x83, M680X_INS_CMPU, imm16_hid, inh_hid),
     (0x8c, M680X_INS_CMPS, imm16_hid, inh_hid),
     (0x93, M680X_INS_CMPU, dir_hid, inh_hid),
     (0x9c, M680X_INS_CMPS, dir_hid, inh_hid),
     (0xa3, M680X_INS_CMPU, idx09_hid, inh_hid),
     (0xac, M680X_INS_CMPS, idx09_hid, inh_hid),
     (0xb3, M680X_INS_CMPU, ext_hid, inh_hid),
     (0xbc, M680X_INS_CMPS, ext_hid, inh_hid)]"

definition g_hd6309_inst_overlay_table :: "inst_pageX list" where
  "g_hd6309_inst_overlay_table = [(0x01, M680X_INS_OIM, imm8_hid, dir_hid),
     (0x02, M680X_INS_AIM, imm8_hid, dir_hid),
     (0x05, M680X_INS_EIM, imm8_hid, dir_hid),
     (0x0B, M680X_INS_TIM, imm8_hid, dir_hid),
     (0x14, M680X_INS_SEXW, inh_hid, inh_hid),
     (0x61, M680X_INS_OIM, imm8_hid, idx09_hid),
     (0x62, M680X_INS_AIM, imm8_hid, idx09_hid),
     (0x65, M680X_INS_EIM, imm8_hid, idx09_hid),
     (0x6B, M680X_INS_TIM, imm8_hid, idx09_hid),
     (0x71, M680X_INS_OIM, imm8_hid, ext_hid),
     (0x72, M680X_INS_AIM, imm8_hid, ext_hid),
     (0x75, M680X_INS_EIM, imm8_hid, ext_hid),
     (0x7B, M680X_INS_TIM, imm8_hid, ext_hid),
     (0xCD, M680X_INS_LDQ, imm32_hid, inh_hid)]"

definition g_hd6309_inst_page2_table :: "inst_pageX list" where
  "g_hd6309_inst_page2_table = [(0x21, M680X_INS_LBRN, rel16_hid, inh_hid),
     (0x22, M680X_INS_LBHI, rel16_hid, inh_hid),
     (0x23, M680X_INS_LBLS, rel16_hid, inh_hid),
     (0x24, M680X_INS_LBCC, rel16_hid, inh_hid),
     (0x25, M680X_INS_LBCS, rel16_hid, inh_hid),
     (0x26, M680X_INS_LBNE, rel16_hid, inh_hid),
     (0x27, M680X_INS_LBEQ, rel16_hid, inh_hid),
     (0x28, M680X_INS_LBVC, rel16_hid, inh_hid),
     (0x29, M680X_INS_LBVS, rel16_hid, inh_hid),
     (0x2a, M680X_INS_LBPL, rel16_hid, inh_hid),
     (0x2b, M680X_INS_LBMI, rel16_hid, inh_hid),
     (0x2c, M680X_INS_LBGE, rel16_hid, inh_hid),
     (0x2d, M680X_INS_LBLT, rel16_hid, inh_hid),
     (0x2e, M680X_INS_LBGT, rel16_hid, inh_hid),
     (0x2f, M680X_INS_LBLE, rel16_hid, inh_hid),
     (0x30, M680X_INS_ADDR, rr09_hid, inh_hid),
     (0x31, M680X_INS_ADCR, rr09_hid, inh_hid),
     (0x32, M680X_INS_SUBR, rr09_hid, inh_hid),
     (0x33, M680X_INS_SBCR, rr09_hid, inh_hid),
     (0x34, M680X_INS_ANDR, rr09_hid, inh_hid),
     (0x35, M680X_INS_ORR, rr09_hid, inh_hid),
     (0x36, M680X_INS_EORR, rr09_hid, inh_hid),
     (0x37, M680X_INS_CMPR, rr09_hid, inh_hid),
     (0x38, M680X_INS_PSHSW, inh_hid, inh_hid),
     (0x39, M680X_INS_PULSW, inh_hid, inh_hid),
     (0x3a, M680X_INS_PSHUW, inh_hid, inh_hid),
     (0x3b, M680X_INS_PULUW, inh_hid, inh_hid),
     (0x3f, M680X_INS_SWI2, inh_hid, inh_hid),
     (0x40, M680X_INS_NEGD, inh_hid, inh_hid),
     (0x43, M680X_INS_COMD, inh_hid, inh_hid),
     (0x44, M680X_INS_LSRD, inh_hid, inh_hid),
     (0x46, M680X_INS_RORD, inh_hid, inh_hid),
     (0x47, M680X_INS_ASRD, inh_hid, inh_hid),
     (0x48, M680X_INS_LSLD, inh_hid, inh_hid),
     (0x49, M680X_INS_ROLD, inh_hid, inh_hid),
     (0x4a, M680X_INS_DECD, inh_hid, inh_hid),
     (0x4c, M680X_INS_INCD, inh_hid, inh_hid),
     (0x4d, M680X_INS_TSTD, inh_hid, inh_hid),
     (0x4f, M680X_INS_CLRD, inh_hid, inh_hid),
     (0x53, M680X_INS_COMW, inh_hid, inh_hid),
     (0x54, M680X_INS_LSRW, inh_hid, inh_hid),
     (0x56, M680X_INS_RORW, inh_hid, inh_hid),
     (0x59, M680X_INS_ROLW, inh_hid, inh_hid),
     (0x5a, M680X_INS_DECW, inh_hid, inh_hid),
     (0x5c, M680X_INS_INCW, inh_hid, inh_hid),
     (0x5d, M680X_INS_TSTW, inh_hid, inh_hid),
     (0x5f, M680X_INS_CLRW, inh_hid, inh_hid),
     (0x80, M680X_INS_SUBW, imm16_hid, inh_hid),
     (0x81, M680X_INS_CMPW, imm16_hid, inh_hid),
     (0x82, M680X_INS_SBCD, imm16_hid, inh_hid),
     (0x83, M680X_INS_CMPD, imm16_hid, inh_hid),
     (0x84, M680X_INS_ANDD, imm16_hid, inh_hid),
     (0x85, M680X_INS_BITD, imm16_hid, inh_hid),
     (0x86, M680X_INS_LDW, imm16_hid, inh_hid),
     (0x88, M680X_INS_EORD, imm16_hid, inh_hid),
     (0x89, M680X_INS_ADCD, imm16_hid, inh_hid),
     (0x8a, M680X_INS_ORD, imm16_hid, inh_hid),
     (0x8b, M680X_INS_ADDW, imm16_hid, inh_hid),
     (0x8c, M680X_INS_CMPY, imm16_hid, inh_hid),
     (0x8e, M680X_INS_LDY, imm16_hid, inh_hid),
     (0x90, M680X_INS_SUBW, dir_hid, inh_hid),
     (0x91, M680X_INS_CMPW, dir_hid, inh_hid),
     (0x92, M680X_INS_SBCD, dir_hid, inh_hid),
     (0x93, M680X_INS_CMPD, dir_hid, inh_hid),
     (0x94, M680X_INS_ANDD, dir_hid, inh_hid),
     (0x95, M680X_INS_BITD, dir_hid, inh_hid),
     (0x96, M680X_INS_LDW, dir_hid, inh_hid),
     (0x97, M680X_INS_STW, dir_hid, inh_hid),
     (0x98, M680X_INS_EORD, dir_hid, inh_hid),
     (0x99, M680X_INS_ADCD, dir_hid, inh_hid),
     (0x9a, M680X_INS_ORD, dir_hid, inh_hid),
     (0x9b, M680X_INS_ADDW, dir_hid, inh_hid),
     (0x9c, M680X_INS_CMPY, dir_hid, inh_hid),
     (0x9e, M680X_INS_LDY, dir_hid, inh_hid),
     (0x9f, M680X_INS_STY, dir_hid, inh_hid),
     (0xa0, M680X_INS_SUBW, idx09_hid, inh_hid),
     (0xa1, M680X_INS_CMPW, idx09_hid, inh_hid),
     (0xa2, M680X_INS_SBCD, idx09_hid, inh_hid),
     (0xa3, M680X_INS_CMPD, idx09_hid, inh_hid),
     (0xa4, M680X_INS_ANDD, idx09_hid, inh_hid),
     (0xa5, M680X_INS_BITD, idx09_hid, inh_hid),
     (0xa6, M680X_INS_LDW, idx09_hid, inh_hid),
     (0xa7, M680X_INS_STW, idx09_hid, inh_hid),
     (0xa8, M680X_INS_EORD, idx09_hid, inh_hid),
     (0xa9, M680X_INS_ADCD, idx09_hid, inh_hid),
     (0xaa, M680X_INS_ORD, idx09_hid, inh_hid),
     (0xab, M680X_INS_ADDW, idx09_hid, inh_hid),
     (0xac, M680X_INS_CMPY, idx09_hid, inh_hid),
     (0xae, M680X_INS_LDY, idx09_hid, inh_hid),
     (0xaf, M680X_INS_STY, idx09_hid, inh_hid),
     (0xb0, M680X_INS_SUBW, ext_hid, inh_hid),
     (0xb1, M680X_INS_CMPW, ext_hid, inh_hid),
     (0xb2, M680X_INS_SBCD, ext_hid, inh_hid),
     (0xb3, M680X_INS_CMPD, ext_hid, inh_hid),
     (0xb4, M680X_INS_ANDD, ext_hid, inh_hid),
     (0xb5, M680X_INS_BITD, ext_hid, inh_hid),
     (0xb6, M680X_INS_LDW, ext_hid, inh_hid),
     (0xb7, M680X_INS_STW, ext_hid, inh_hid),
     (0xb8, M680X_INS_EORD, ext_hid, inh_hid),
     (0xb9, M680X_INS_ADCD, ext_hid, inh_hid),
     (0xba, M680X_INS_ORD, ext_hid, inh_hid),
     (0xbb, M680X_INS_ADDW, ext_hid, inh_hid),
     (0xbc, M680X_INS_CMPY, ext_hid, inh_hid),
     (0xbe, M680X_INS_LDY, ext_hid, inh_hid),
     (0xbf, M680X_INS_STY, ext_hid, inh_hid),
     (0xce, M680X_INS_LDS, imm16_hid, inh_hid),
     (0xdc, M680X_INS_LDQ, dir_hid, inh_hid),
     (0xdd, M680X_INS_STQ, dir_hid, inh_hid),
     (0xde, M680X_INS_LDS, dir_hid, inh_hid),
     (0xdf, M680X_INS_STS, dir_hid, inh_hid),
     (0xec, M680X_INS_LDQ, idx09_hid, inh_hid),
     (0xed, M680X_INS_STQ, idx09_hid, inh_hid),
     (0xee, M680X_INS_LDS, idx09_hid, inh_hid),
     (0xef, M680X_INS_STS, idx09_hid, inh_hid),
     (0xfc, M680X_INS_LDQ, ext_hid, inh_hid),
     (0xfd, M680X_INS_STQ, ext_hid, inh_hid),
     (0xfe, M680X_INS_LDS, ext_hid, inh_hid),
     (0xff, M680X_INS_STS, ext_hid, inh_hid)]"

definition g_hd6309_inst_page3_table :: "inst_pageX list" where
  "g_hd6309_inst_page3_table = [(0x30, M680X_INS_BAND, bitmv_hid, inh_hid),
     (0x31, M680X_INS_BIAND, bitmv_hid, inh_hid),
     (0x32, M680X_INS_BOR, bitmv_hid, inh_hid),
     (0x33, M680X_INS_BIOR, bitmv_hid, inh_hid),
     (0x34, M680X_INS_BEOR, bitmv_hid, inh_hid),
     (0x35, M680X_INS_BIEOR, bitmv_hid, inh_hid),
     (0x36, M680X_INS_LDBT, bitmv_hid, inh_hid),
     (0x37, M680X_INS_STBT, bitmv_hid, inh_hid),
     (0x38, M680X_INS_TFM, tfm_hid, inh_hid),
     (0x39, M680X_INS_TFM, tfm_hid, inh_hid),
     (0x3a, M680X_INS_TFM, tfm_hid, inh_hid),
     (0x3b, M680X_INS_TFM, tfm_hid, inh_hid),
     (0x3c, M680X_INS_BITMD, imm8_hid, inh_hid),
     (0x3d, M680X_INS_LDMD, imm8_hid, inh_hid),
     (0x3f, M680X_INS_SWI3, inh_hid, inh_hid),
     (0x43, M680X_INS_COME, inh_hid, inh_hid),
     (0x4a, M680X_INS_DECE, inh_hid, inh_hid),
     (0x4c, M680X_INS_INCE, inh_hid, inh_hid),
     (0x4d, M680X_INS_TSTE, inh_hid, inh_hid),
     (0x4f, M680X_INS_CLRE, inh_hid, inh_hid),
     (0x53, M680X_INS_COMF, inh_hid, inh_hid),
     (0x5a, M680X_INS_DECF, inh_hid, inh_hid),
     (0x5c, M680X_INS_INCF, inh_hid, inh_hid),
     (0x5d, M680X_INS_TSTF, inh_hid, inh_hid),
     (0x5f, M680X_INS_CLRF, inh_hid, inh_hid),
     (0x80, M680X_INS_SUBE, imm8_hid, inh_hid),
     (0x81, M680X_INS_CMPE, imm8_hid, inh_hid),
     (0x83, M680X_INS_CMPU, imm16_hid, inh_hid),
     (0x86, M680X_INS_LDE, imm8_hid, inh_hid),
     (0x8b, M680X_INS_ADDE, imm8_hid, inh_hid),
     (0x8c, M680X_INS_CMPS, imm16_hid, inh_hid),
     (0x8d, M680X_INS_DIVD, imm8_hid, inh_hid),
     (0x8e, M680X_INS_DIVQ, imm16_hid, inh_hid),
     (0x8f, M680X_INS_MULD, imm16_hid, inh_hid),
     (0x90, M680X_INS_SUBE, dir_hid, inh_hid),
     (0x91, M680X_INS_CMPE, dir_hid, inh_hid),
     (0x93, M680X_INS_CMPU, dir_hid, inh_hid),
     (0x96, M680X_INS_LDE, dir_hid, inh_hid),
     (0x97, M680X_INS_STE, dir_hid, inh_hid),
     (0x9b, M680X_INS_ADDE, dir_hid, inh_hid),
     (0x9c, M680X_INS_CMPS, dir_hid, inh_hid),
     (0x9d, M680X_INS_DIVD, dir_hid, inh_hid),
     (0x9e, M680X_INS_DIVQ, dir_hid, inh_hid),
     (0x9f, M680X_INS_MULD, dir_hid, inh_hid),
     (0xa0, M680X_INS_SUBE, idx09_hid, inh_hid),
     (0xa1, M680X_INS_CMPE, idx09_hid, inh_hid),
     (0xa3, M680X_INS_CMPU, idx09_hid, inh_hid),
     (0xa6, M680X_INS_LDE, idx09_hid, inh_hid),
     (0xa7, M680X_INS_STE, idx09_hid, inh_hid),
     (0xab, M680X_INS_ADDE, idx09_hid, inh_hid),
     (0xac, M680X_INS_CMPS, idx09_hid, inh_hid),
     (0xad, M680X_INS_DIVD, idx09_hid, inh_hid),
     (0xae, M680X_INS_DIVQ, idx09_hid, inh_hid),
     (0xaf, M680X_INS_MULD, idx09_hid, inh_hid),
     (0xb0, M680X_INS_SUBE, ext_hid, inh_hid),
     (0xb1, M680X_INS_CMPE, ext_hid, inh_hid),
     (0xb3, M680X_INS_CMPU, ext_hid, inh_hid),
     (0xb6, M680X_INS_LDE, ext_hid, inh_hid),
     (0xb7, M680X_INS_STE, ext_hid, inh_hid),
     (0xbb, M680X_INS_ADDE, ext_hid, inh_hid),
     (0xbc, M680X_INS_CMPS, ext_hid, inh_hid),
     (0xbd, M680X_INS_DIVD, ext_hid, inh_hid),
     (0xbe, M680X_INS_DIVQ, ext_hid, inh_hid),
     (0xbf, M680X_INS_MULD, ext_hid, inh_hid),
     (0xc0, M680X_INS_SUBF, imm8_hid, inh_hid),
     (0xc1, M680X_INS_CMPF, imm8_hid, inh_hid),
     (0xc6, M680X_INS_LDF, imm8_hid, inh_hid),
     (0xcb, M680X_INS_ADDF, imm8_hid, inh_hid),
     (0xd0, M680X_INS_SUBF, dir_hid, inh_hid),
     (0xd1, M680X_INS_CMPF, dir_hid, inh_hid),
     (0xd6, M680X_INS_LDF, dir_hid, inh_hid),
     (0xd7, M680X_INS_STF, dir_hid, inh_hid),
     (0xdb, M680X_INS_ADDF, dir_hid, inh_hid),
     (0xe0, M680X_INS_SUBF, idx09_hid, inh_hid),
     (0xe1, M680X_INS_CMPF, idx09_hid, inh_hid),
     (0xe6, M680X_INS_LDF, idx09_hid, inh_hid),
     (0xe7, M680X_INS_STF, idx09_hid, inh_hid),
     (0xeb, M680X_INS_ADDF, idx09_hid, inh_hid),
     (0xf0, M680X_INS_SUBF, ext_hid, inh_hid),
     (0xf1, M680X_INS_CMPF, ext_hid, inh_hid),
     (0xf6, M680X_INS_LDF, ext_hid, inh_hid),
     (0xf7, M680X_INS_STF, ext_hid, inh_hid),
     (0xfb, M680X_INS_ADDF, ext_hid, inh_hid)]"

section \<open>Instruction properties\<close>

record insn_props =
  ip_group :: u8
  ip_access_mode :: e_access_mode
  ip_reg0 :: m680x_reg
  ip_reg1 :: m680x_reg
  ip_cc_modified :: bool
  ip_update_reg_access :: bool

abbreviation (input) props :: "u8 \<Rightarrow> e_access_mode \<Rightarrow> m680x_reg \<Rightarrow> m680x_reg \<Rightarrow> bool \<Rightarrow> bool \<Rightarrow> insn_props" where
  "props g a r0 r1 c u \<equiv> \<lparr>ip_group = g, ip_access_mode = a, ip_reg0 = r0, ip_reg1 = r1,
     ip_cc_modified = c, ip_update_reg_access = u\<rparr>"

abbreviation (input) NOG :: u8 where "NOG \<equiv> M680X_GRP_INVALID"
abbreviation (input) NOR :: m680x_reg where "NOR \<equiv> M680X_REG_INVALID"

definition g_insn_props :: "insn_props list" where
  "g_insn_props = [props NOG uuuu NOR NOR False False,
     props NOG rmmm M680X_REG_B M680X_REG_A True False,
     props NOG rmmm M680X_REG_B M680X_REG_X False False,
     props NOG rmmm M680X_REG_B M680X_REG_Y False False,
     props NOG mrrr M680X_REG_A NOR True False,
     props NOG mrrr M680X_REG_A NOR True False,
     props NOG mrrr M680X_REG_B NOR True False,
     props NOG mrrr M680X_REG_D NOR True False,
     props NOG rmmm NOR NOR True False,
     props NOG mrrr M680X_REG_A NOR True False,
     props NOG mrrr M680X_REG_A NOR True False,
     props NOG mrrr M680X_REG_B NOR True False,
     props NOG mrrr M680X_REG_D NOR True False,
     props NOG mrrr M680X_REG_E NOR True False,
     props NOG mrrr M680X_REG_F NOR True False,
     props NOG rmmm NOR NOR True False,
     props NOG mrrr M680X_REG_W NOR True False,
     props NOG rmmm NOR NOR True False,
     props NOG mrrr M680X_REG_S NOR False False,
     props NOG mrrr M680X_REG_HX NOR False False,
     props NOG mrrr M680X_REG_A NOR True False,
     props NOG mrrr M680X_REG_A NOR True False,
     props NOG mrrr M680X_REG_B NOR True False,
     props NOG mrrr M680X_REG_CC NOR True False,
     props NOG mrrr M680X_REG_D NOR True False,
     props NOG rmmm NOR NOR True False,
     props NOG mrrr NOR NOR True False,
     props NOG mrrr M680X_REG_A NOR True False,
     props NOG mrrr M680X_REG_B NOR True False,
     props NOG mrrr M680X_REG_D NOR True False,
     props NOG mrrr NOR NOR True False,
     props NOG mrrr M680X_REG_A NOR True False,
     props NOG mrrr M680X_REG_B NOR True False,
     props NOG mrrr M680X_REG_D NOR True False,
     props NOG mrrr M680X_REG_X NOR True False,
     props NOG mrrr NOR NOR False False,
     props M680X_GRP_JUMP uuuu NOR NOR False False,
     props NOG mrrr NOR NOR True False,
     props M680X_GRP_JUMP uuuu NOR NOR False False,
     props NOG mrrr NOR NOR False False,
     props M680X_GRP_JUMP uuuu NOR NOR False False,
     props M680X_GRP_JUMP uuuu NOR NOR False False,
     props NOG uuuu NOR NOR False False,
     props M680X_GRP_JUMP uuuu NOR NOR False False,
     props M680X_GRP_JUMP uuuu NOR NOR False False,
     props M680X_GRP_JUMP uuuu NOR NOR False False,
     props M680X_GRP_JUMP uuuu NOR NOR False False,
     props NOG mrrr NOR NOR False False,
     props NOG mrrr NOR NOR False False,
     props M680X_GRP_JUMP uuuu NOR NOR False False,
     props M680X_GRP_JUMP uuuu NOR NOR False False,
     props NOG mrrr NOR NOR False False,
     props NOG rrrr M680X_REG_A NOR True False,
     props NOG rrrr M680X_REG_A NOR True False,
     props NOG rrrr M680X_REG_B NOR True False,
     props NOG rrrr M680X_REG_D NOR True False,
     props NOG rrrr M680X_REG_MD NOR True False,
     props M680X_GRP_JUMP uuuu NOR NOR False False,
     props M680X_GRP_JUMP uuuu NOR NOR False False,
     props M680X_GRP_JUMP uuuu NOR NOR False False,
     props M680X_GRP_JUMP uuuu NOR NOR False False,
     props M680X_GRP_JUMP uuuu NOR NOR False False,
     props M680X_GRP_JUMP uuuu NOR NOR False False,
     props M680X_GRP_JUMP uuuu NOR NOR False False,
     props NOG mrrr NOR NOR False False,
     props M680X_GRP_JUMP uuuu NOR NOR False False,
     props M680X_GRP_JUMP rruu NOR NOR False False,
     props M680X_GRP_JUMP rruu NOR NOR False False,
     props M680X_GRP_JUMP uuuu NOR NOR False False,
     props M680X_GRP_JUMP uuuu NOR NOR False False,
     props NOG mrrr NOR NOR True False,
     props M680X_GRP_CALL uuuu NOR NOR False True,
     props M680X_GRP_JUMP uuuu NOR NOR False False,
     props M680X_GRP_JUMP uuuu NOR NOR False False,
     props M680X_GRP_CALL uuuu NOR NOR False True,
     props NOG rrrr M680X_REG_B M680X_REG_A True False,
     props M680X_GRP_JUMP rruu M680X_REG_A NOR False False,
     props M680X_GRP_JUMP rruu M680X_REG_A NOR False False,
     props M680X_GRP_JUMP rruu M680X_REG_X NOR False False,
     props NOG uuuu NOR NOR True False,
     props NOG uuuu NOR NOR True False,
     props NOG wrrr NOR NOR True False,
     props NOG wrrr M680X_REG_A NOR True False,
     props NOG wrrr M680X_REG_B NOR True False,
     props NOG wrrr M680X_REG_D NOR True False,
     props NOG wrrr M680X_REG_E NOR True False,
     props NOG wrrr M680X_REG_F NOR True False,
     props NOG wrrr M680X_REG_H NOR True False,
     props NOG wrrr M680X_REG_W NOR True False,
     props NOG wrrr M680X_REG_X NOR True False,
     props NOG uuuu NOR NOR True False,
     props NOG rrrr M680X_REG_A NOR True False,
     props NOG rrrr M680X_REG_A NOR True False,
     props NOG rrrr M680X_REG_B NOR True False,
     props NOG rrrr M680X_REG_D NOR True False,
     props NOG rrrr M680X_REG_E NOR True False,
     props NOG rrrr M680X_REG_F NOR True False,
     props NOG rrrr NOR NOR True False,
     props NOG rrrr M680X_REG_S NOR True False,
     props NOG rrrr M680X_REG_U NOR True False,
     props NOG rrrr M680X_REG_W NOR True False,
     props NOG rrrr M680X_REG_X NOR True False,
     props NOG rrrr M680X_REG_Y NOR True False,
     props NOG mrrr NOR NOR True False,
     props NOG mrrr M680X_REG_A NOR True False,
     props NOG mrrr M680X_REG_B NOR True False,
     props NOG mrrr M680X_REG_D NOR True False,
     props NOG mrrr M680X_REG_E NOR True False,
     props NOG mrrr M680X_REG_F NOR True False,
     props NOG mrrr M680X_REG_W NOR True False,
     props NOG mrrr M680X_REG_X NOR True False,
     props NOG rrrr M680X_REG_D NOR True False,
     props NOG rrrr M680X_REG_HX NOR True False,
     props NOG rrrr M680X_REG_S NOR True False,
     props NOG rrrr M680X_REG_X NOR True False,
     props NOG rrrr M680X_REG_Y NOR True False,
     props NOG mrrr NOR NOR True True,
     props NOG mrrr NOR NOR True True,
     props M680X_GRP_JUMP muuu NOR NOR False False,
     props M680X_GRP_JUMP muuu NOR NOR False False,
     props M680X_GRP_JUMP muuu NOR NOR False False,
     props M680X_GRP_JUMP muuu M680X_REG_A NOR False False,
     props M680X_GRP_JUMP muuu M680X_REG_X NOR False False,
     props NOG mrrr NOR NOR True False,
     props NOG mrrr M680X_REG_A NOR True False,
     props NOG mrrr M680X_REG_B NOR True False,
     props NOG mrrr M680X_REG_D NOR True False,
     props NOG mrrr M680X_REG_E NOR True False,
     props NOG mrrr M680X_REG_F NOR True False,
     props NOG mrrr M680X_REG_W NOR True False,
     props NOG mrrr M680X_REG_X NOR True False,
     props NOG mrrr M680X_REG_S NOR False False,
     props NOG mrrr M680X_REG_X NOR True False,
     props NOG mrrr M680X_REG_Y NOR True False,
     props NOG mmrr NOR NOR True True,
     props NOG mrrr M680X_REG_D NOR True False,
     props NOG mrrr M680X_REG_Q NOR True False,
     props NOG mmrr NOR NOR True True,
     props NOG mmrr NOR NOR True True,
     props NOG rmmm NOR NOR True False,
     props NOG mrrr NOR NOR True True,
     props NOG mrrr M680X_REG_D NOR True False,
     props NOG mrrr NOR NOR True True,
     props NOG mrrr M680X_REG_D NOR True False,
     props NOG mrrr NOR NOR True True,
     props NOG mmrr NOR NOR True True,
     props NOG mmrr NOR NOR True True,
     props NOG mrrr M680X_REG_A NOR True False,
     props NOG mrrr M680X_REG_A NOR True False,
     props NOG mrrr M680X_REG_B NOR True False,
     props NOG mrrr M680X_REG_D NOR True False,
     props NOG rmmm NOR NOR True False,
     props NOG rmmm NOR NOR True True,
     props NOG mmmm NOR NOR False False,
     props NOG mmmm NOR NOR True True,
     props M680X_GRP_JUMP muuu NOR NOR False False,
     props M680X_GRP_JUMP muuu NOR NOR False False,
     props NOG mmmm NOR NOR True True,
     props NOG mmmm NOR NOR True True,
     props NOG uuuu NOR NOR False False,
     props NOG mrrr NOR NOR True False,
     props NOG mrrr M680X_REG_A NOR True False,
     props NOG mrrr M680X_REG_B NOR True False,
     props NOG mrrr M680X_REG_D NOR True False,
     props NOG mrrr M680X_REG_E NOR True False,
     props NOG mrrr M680X_REG_F NOR True False,
     props NOG mrrr M680X_REG_W NOR True False,
     props NOG mrrr M680X_REG_X NOR True False,
     props NOG mrrr M680X_REG_S NOR False False,
     props NOG mrrr M680X_REG_X NOR True False,
     props NOG mrrr M680X_REG_Y NOR True False,
     props M680X_GRP_JUMP uuuu NOR NOR False False,
     props M680X_GRP_CALL uuuu NOR NOR False True,
     props M680X_GRP_JUMP uuuu NOR NOR False False,
     props M680X_GRP_JUMP uuuu NOR NOR False False,
     props M680X_GRP_JUMP uuuu NOR NOR False False,
     props M680X_GRP_JUMP uuuu NOR NOR False False,
     props M680X_GRP_JUMP uuuu NOR NOR False False,
     props M680X_GRP_JUMP uuuu NOR NOR False False,
     props M680X_GRP_JUMP uuuu NOR NOR False False,
     props M680X_GRP_JUMP uuuu NOR NOR False False,
     props M680X_GRP_JUMP uuuu NOR NOR False False,
     props M680X_GRP_JUMP uuuu NOR NOR False False,
     props M680X_GRP_JUMP uuuu NOR NOR False False,
     props M680X_GRP_JUMP uuuu NOR NOR False False,
     props M680X_GRP_JUMP uuuu NOR NOR False False,
     props M680X_GRP_JUMP uuuu NOR NOR False False,
     props M680X_GRP_CALL uuuu NOR NOR False True,
     props M680X_GRP_JUMP uuuu NOR NOR False False,
     props M680X_GRP_JUMP uuuu NOR NOR False False,
     props NOG wrrr M680X_REG_A NOR True False,
     props NOG wrrr M680X_REG_A NOR True False,
     props NOG wrrr M680X_REG_B NOR True False,
     props NOG wrrr M680X_REG_B NOR True False,
     props NOG mrrr NOR NOR False False,
     props NOG wrrr M680X_REG_D NOR True False,
     props NOG wrrr M680X_REG_E NOR True False,
     props NOG wrrr M680X_REG_F NOR True False,
     props NOG wrrr M680X_REG_HX NOR True False,
     props NOG mrrr M680X_REG_MD NOR False False,
     props NOG wrrr M680X_REG_Q NOR True False,
     props NOG wrrr M680X_REG_S NOR True False,
     props NOG wrrr M680X_REG_U NOR True False,
     props NOG wrrr M680X_REG_W NOR True False,
     props NOG wrrr M680X_REG_X NOR True False,
     props NOG wrrr M680X_REG_Y NOR True False,
     props NOG wrrr M680X_REG_S NOR False False,
     props NOG wrrr M680X_REG_U NOR False False,
     props NOG wrrr M680X_REG_X NOR False False,
     props NOG wrrr M680X_REG_Y NOR False False,
     props NOG mrrr NOR NOR True False,
     props NOG mrrr M680X_REG_A NOR True False,
     props NOG mrrr M680X_REG_B NOR True False,
     props NOG mrrr M680X_REG_D NOR True False,
     props NOG mrrr M680X_REG_X NOR True False,
     props NOG mrrr NOR NOR True False,
     props NOG mrrr M680X_REG_A NOR True False,
     props NOG mrrr M680X_REG_B NOR True False,
     props NOG mrrr M680X_REG_D NOR True False,
     props NOG mrrr M680X_REG_W NOR True False,
     props NOG mrrr M680X_REG_X NOR True False,
     props NOG mrrr M680X_REG_A NOR True False,
     props NOG mrrr NOR NOR True True,
     props NOG mmrr NOR NOR True True,
     props NOG mrrr M680X_REG_A NOR True False,
     props NOG mrrr NOR NOR True True,
     props NOG rwww NOR NOR True False,
     props NOG rwww NOR NOR False False,
     props NOG rwww NOR NOR False False,
     props NOG mmmm NOR NOR True True,
     props NOG mwrr M680X_REG_D NOR True True,
     props NOG mrrr NOR NOR True False,
     props NOG mrrr M680X_REG_A NOR True False,
     props NOG mrrr M680X_REG_B NOR True False,
     props NOG mrrr M680X_REG_D NOR True False,
     props NOG mrrr M680X_REG_X NOR True False,
     props NOG uuuu NOR NOR False False,
     props NOG mrrr M680X_REG_A NOR True False,
     props NOG rmmm NOR NOR True False,
     props NOG mrrr M680X_REG_A NOR True False,
     props NOG mrrr M680X_REG_A NOR True False,
     props NOG mrrr M680X_REG_B NOR True False,
     props NOG mrrr M680X_REG_B NOR True False,
     props NOG mrrr M680X_REG_CC NOR True False,
     props NOG mrrr M680X_REG_D NOR True False,
     props NOG rmmm NOR NOR True False,
     props NOG rmmm M680X_REG_A NOR False True,
     props NOG rmmm M680X_REG_B NOR False True,
     props NOG rmmm M680X_REG_CC NOR False True,
     props NOG rmmm M680X_REG_D NOR False True,
     props NOG rmmm M680X_REG_H NOR False True,
     props NOG mrrr M680X_REG_S NOR False False,
     props NOG mrrr M680X_REG_S M680X_REG_W False False,
     props NOG mrrr M680X_REG_U NOR False False,
     props NOG mrrr M680X_REG_U M680X_REG_W False False,
     props NOG rmmm M680X_REG_X NOR False True,
     props NOG rmmm M680X_REG_Y NOR False True,
     props NOG wmmm M680X_REG_A NOR False True,
     props NOG wmmm M680X_REG_B NOR False True,
     props NOG wmmm M680X_REG_CC NOR False True,
     props NOG wmmm M680X_REG_D NOR False True,
     props NOG wmmm M680X_REG_H NOR False True,
     props NOG mwww M680X_REG_S NOR False False,
     props NOG mwww M680X_REG_S M680X_REG_W False False,
     props NOG mwww M680X_REG_U NOR False False,
     props NOG mwww M680X_REG_U M680X_REG_W False False,
     props NOG wmmm M680X_REG_X NOR False True,
     props NOG wmmm M680X_REG_Y NOR False True,
     props NOG mmrr NOR NOR True True,
     props NOG mmmm NOR NOR True True,
     props NOG mrrr NOR NOR True False,
     props NOG mrrr M680X_REG_A NOR True False,
     props NOG mrrr M680X_REG_B NOR True False,
     props NOG mrrr M680X_REG_D NOR True False,
     props NOG mrrr M680X_REG_W NOR True False,
     props NOG mrrr M680X_REG_X NOR True False,
     props NOG mrrr NOR NOR True False,
     props NOG mrrr M680X_REG_A NOR True False,
     props NOG mrrr M680X_REG_B NOR True False,
     props NOG mrrr M680X_REG_D NOR True False,
     props NOG mrrr M680X_REG_W NOR True False,
     props NOG mrrr M680X_REG_X NOR True False,
     props NOG wrrr M680X_REG_S NOR False False,
     props M680X_GRP_RET mwww NOR NOR False True,
     props M680X_GRP_IRET mwww NOR NOR False True,
     props M680X_GRP_RET mwww NOR NOR False True,
     props NOG rmmm M680X_REG_B M680X_REG_A True False,
     props NOG mrrr M680X_REG_A NOR True False,
     props NOG mrrr M680X_REG_A NOR True False,
     props NOG mrrr M680X_REG_B NOR True False,
     props NOG mrrr M680X_REG_D NOR True False,
     props NOG rmmm NOR NOR True False,
     props NOG uuuu NOR NOR True False,
     props NOG uuuu NOR NOR True False,
     props NOG uuuu NOR NOR True False,
     props NOG wrrr NOR NOR True True,
     props NOG rwww M680X_REG_W NOR True True,
     props NOG uuuu NOR NOR False False,
     props NOG rwww M680X_REG_A NOR True False,
     props NOG rwww M680X_REG_A NOR True False,
     props NOG rwww M680X_REG_B NOR True False,
     props NOG rwww M680X_REG_B NOR True False,
     props NOG rrrm NOR NOR False False,
     props NOG rwww M680X_REG_D NOR True False,
     props NOG rwww M680X_REG_E NOR True False,
     props NOG rwww M680X_REG_F NOR True False,
     props NOG uuuu NOR NOR False False,
     props NOG rwww M680X_REG_HX NOR True False,
     props NOG rwww M680X_REG_Q NOR True False,
     props NOG rwww M680X_REG_S NOR True False,
     props NOG rwww M680X_REG_U NOR True False,
     props NOG rwww M680X_REG_W NOR True False,
     props NOG rwww M680X_REG_X NOR True False,
     props NOG rwww M680X_REG_Y NOR True False,
     props NOG mrrr M680X_REG_A NOR True False,
     props NOG mrrr M680X_REG_A NOR True False,
     props NOG mrrr M680X_REG_B NOR True False,
     props NOG mrrr M680X_REG_D NOR True False,
     props NOG mrrr M680X_REG_E NOR True False,
     props NOG mrrr M680X_REG_F NOR True False,
     props NOG rmmm NOR NOR True False,
     props NOG mrrr M680X_REG_W NOR True False,
     props M680X_GRP_INT mmrr NOR NOR True True,
     props M680X_GRP_INT mmrr NOR NOR True True,
     props M680X_GRP_INT mmrr NOR NOR True True,
     props NOG uuuu NOR NOR False False,
     props NOG rwww M680X_REG_A M680X_REG_B True False,
     props NOG rwww M680X_REG_A M680X_REG_CC False False,
     props NOG rwww M680X_REG_A M680X_REG_X False False,
     props NOG rwww M680X_REG_B M680X_REG_A True False,
     props M680X_GRP_JUMP muuu NOR NOR False False,
     props NOG rmmm NOR NOR True True,
     props M680X_GRP_JUMP muuu NOR NOR False False,
     props NOG uuuu NOR NOR False False,
     props NOG rwww NOR NOR False False,
     props NOG rwww NOR NOR False False,
     props NOG rrrr NOR NOR True False,
     props NOG rwww M680X_REG_CC M680X_REG_A False False,
     props NOG rrrr NOR NOR True False,
     props NOG rrrr M680X_REG_A NOR True False,
     props NOG rrrr M680X_REG_B NOR True False,
     props NOG rrrr M680X_REG_D NOR True False,
     props NOG rrrr M680X_REG_E NOR True False,
     props NOG rrrr M680X_REG_F NOR True False,
     props NOG rrrr M680X_REG_W NOR True False,
     props NOG rrrr M680X_REG_X NOR True False,
     props NOG rwww M680X_REG_S M680X_REG_HX False False,
     props NOG rwww M680X_REG_S M680X_REG_Y False False,
     props NOG rwww M680X_REG_X M680X_REG_A False False,
     props NOG rwww M680X_REG_HX M680X_REG_S False False,
     props NOG rwww M680X_REG_Y M680X_REG_S False False,
     props NOG mrrr NOR NOR True True,
     props NOG uuuu NOR NOR True False,
     props NOG uuuu NOR NOR True True,
     props NOG uuuu NOR NOR True True,
     props NOG mmmm M680X_REG_D M680X_REG_X False False,
     props NOG mmmm M680X_REG_D M680X_REG_Y False False]"

text \<open>The registers an instruction changes beside its operands.\<close>

type_synonym insn_to_changed_regs = "nat \<times> e_access_mode \<times> m680x_reg list"

definition changed_regs :: "insn_to_changed_regs list" where
  "changed_regs = [(M680X_INS_BSR, mmmm, [M680X_REG_S]),
     (M680X_INS_CALL, mmmm, [M680X_REG_S]),
     (M680X_INS_CWAI, mrrr, [M680X_REG_S, M680X_REG_PC, M680X_REG_U, M680X_REG_Y, M680X_REG_X, M680X_REG_DP, M680X_REG_D, M680X_REG_CC]),
     (M680X_INS_DAA, mrrr, [M680X_REG_A]),
     (M680X_INS_DIV, mmrr, [M680X_REG_A, M680X_REG_H, M680X_REG_X]),
     (M680X_INS_EDIV, mmrr, [M680X_REG_D, M680X_REG_Y, M680X_REG_X]),
     (M680X_INS_EDIVS, mmrr, [M680X_REG_D, M680X_REG_Y, M680X_REG_X]),
     (M680X_INS_EMACS, mrrr, [M680X_REG_X, M680X_REG_Y]),
     (M680X_INS_EMAXM, rrrr, [M680X_REG_D]),
     (M680X_INS_EMINM, rrrr, [M680X_REG_D]),
     (M680X_INS_EMUL, mmrr, [M680X_REG_D, M680X_REG_Y]),
     (M680X_INS_EMULS, mmrr, [M680X_REG_D, M680X_REG_Y]),
     (M680X_INS_ETBL, wmmm, [M680X_REG_A, M680X_REG_B]),
     (M680X_INS_FDIV, mmmm, [M680X_REG_D, M680X_REG_X]),
     (M680X_INS_IDIV, mmmm, [M680X_REG_D, M680X_REG_X]),
     (M680X_INS_IDIVS, mmmm, [M680X_REG_D, M680X_REG_X]),
     (M680X_INS_JSR, mmmm, [M680X_REG_S]),
     (M680X_INS_LBSR, mmmm, [M680X_REG_S]),
     (M680X_INS_MAXM, rrrr, [M680X_REG_A]),
     (M680X_INS_MINM, rrrr, [M680X_REG_A]),
     (M680X_INS_MEM, mmrr, [M680X_REG_X, M680X_REG_Y, M680X_REG_A]),
     (M680X_INS_MUL, mmmm, [M680X_REG_A, M680X_REG_B]),
     (M680X_INS_MULD, mwrr, [M680X_REG_D, M680X_REG_W]),
     (M680X_INS_PSHA, rmmm, [M680X_REG_A, M680X_REG_S]),
     (M680X_INS_PSHB, rmmm, [M680X_REG_B, M680X_REG_S]),
     (M680X_INS_PSHC, rmmm, [M680X_REG_CC, M680X_REG_S]),
     (M680X_INS_PSHD, rmmm, [M680X_REG_D, M680X_REG_S]),
     (M680X_INS_PSHH, rmmm, [M680X_REG_H, M680X_REG_S]),
     (M680X_INS_PSHX, rmmm, [M680X_REG_X, M680X_REG_S]),
     (M680X_INS_PSHY, rmmm, [M680X_REG_Y, M680X_REG_S]),
     (M680X_INS_PULA, wmmm, [M680X_REG_A, M680X_REG_S]),
     (M680X_INS_PULB, wmmm, [M680X_REG_B, M680X_REG_S]),
     (M680X_INS_PULC, wmmm, [M680X_REG_CC, M680X_REG_S]),
     (M680X_INS_PULD, wmmm, [M680X_REG_D, M680X_REG_S]),
     (M680X_INS_PULH, wmmm, [M680X_REG_H, M680X_REG_S]),
     (M680X_INS_PULX, wmmm, [M680X_REG_X, M680X_REG_S]),
     (M680X_INS_PULY, wmmm, [M680X_REG_Y, M680X_REG_S]),
     (M680X_INS_REV, mmrr, [M680X_REG_A, M680X_REG_X, M680X_REG_Y]),
     (M680X_INS_REVW, mmmm, [M680X_REG_A, M680X_REG_X, M680X_REG_Y]),
     (M680X_INS_RTC, mwww, [M680X_REG_S, M680X_REG_PC]),
     (M680X_INS_RTI, mwww, [M680X_REG_S, M680X_REG_CC, M680X_REG_B, M680X_REG_A, M680X_REG_DP, M680X_REG_X, M680X_REG_Y, M680X_REG_U, M680X_REG_PC]),
     (M680X_INS_RTS, mwww, [M680X_REG_S, M680X_REG_PC]),
     (M680X_INS_SEX, wrrr, [M680X_REG_A, M680X_REG_B]),
     (M680X_INS_SEXW, rwww, [M680X_REG_W, M680X_REG_D]),
     (M680X_INS_SWI, mmrr, [M680X_REG_S, M680X_REG_PC, M680X_REG_U, M680X_REG_Y, M680X_REG_X, M680X_REG_DP, M680X_REG_A, M680X_REG_B, M680X_REG_CC]),
     (M680X_INS_SWI2, mmrr, [M680X_REG_S, M680X_REG_PC, M680X_REG_U, M680X_REG_Y, M680X_REG_X, M680X_REG_DP, M680X_REG_A, M680X_REG_B, M680X_REG_CC]),
     (M680X_INS_SWI3, mmrr, [M680X_REG_S, M680X_REG_PC, M680X_REG_U, M680X_REG_Y, M680X_REG_X, M680X_REG_DP, M680X_REG_A, M680X_REG_B, M680X_REG_CC]),
     (M680X_INS_TBL, wrrr, [M680X_REG_A, M680X_REG_B]),
     (M680X_INS_WAI, mrrr, [M680X_REG_S, M680X_REG_PC, M680X_REG_X, M680X_REG_A, M680X_REG_B, M680X_REG_CC]),
     (M680X_INS_WAV, rmmm, [M680X_REG_A, M680X_REG_B, M680X_REG_X, M680X_REG_Y]),
     (M680X_INS_WAVR, rmmm, [M680X_REG_A, M680X_REG_B, M680X_REG_X, M680X_REG_Y])]"

end
