(* ===== verification/M680X_Model.thy ===== *)
theory M680X_Model
  imports M680X_Tables MCInst_Model
begin

text \<open>
  The M680X decoder, \<^verbatim>\<open>M680XDisassembler.c\<close>: reading the code buffer, the search of the
  opcode tables, the check that an instruction is valid and complete, the handlers of the
  addressing modes, and the register and access lists.

  The union of an operand is a record with a field per member; the code reads only the member that
  belongs to the type it has set. The structure \<^verbatim>\<open>m680x_info\<close>, which a handle keeps behind
  \<^verbatim>\<open>printer_info\<close>, is passed and returned. Messages on \<^verbatim>\<open>stderr\<close> are left out;
  \<^verbatim>\<open>abort\<close> is undefined.
\<close>

unbundle bit_operations_syntax

section \<open>Types\<close>

datatype m680x_op_type =
    M680X_OP_INVALID | M680X_OP_REGISTER | M680X_OP_IMMEDIATE | M680X_OP_INDEXED
  | M680X_OP_EXTENDED | M680X_OP_DIRECT | M680X_OP_RELATIVE | M680X_OP_CONSTANT

primrec m680x_op_num :: "m680x_op_type \<Rightarrow> nat" where
  "m680x_op_num M680X_OP_INVALID = 0"
| "m680x_op_num M680X_OP_REGISTER = 1"
| "m680x_op_num M680X_OP_IMMEDIATE = 2"
| "m680x_op_num M680X_OP_INDEXED = 3"
| "m680x_op_num M680X_OP_EXTENDED = 4"
| "m680x_op_num M680X_OP_DIRECT = 5"
| "m680x_op_num M680X_OP_RELATIVE = 6"
| "m680x_op_num M680X_OP_CONSTANT = 7"

abbreviation (input) M680X_OPERAND_COUNT :: nat where "M680X_OPERAND_COUNT \<equiv> 9"
abbreviation (input) M680X_OFFSET_NONE :: u8 where "M680X_OFFSET_NONE \<equiv> 0"
abbreviation (input) M680X_OFFSET_BITS_5 :: u8 where "M680X_OFFSET_BITS_5 \<equiv> 5"
abbreviation (input) M680X_OFFSET_BITS_8 :: u8 where "M680X_OFFSET_BITS_8 \<equiv> 8"
abbreviation (input) M680X_OFFSET_BITS_9 :: u8 where "M680X_OFFSET_BITS_9 \<equiv> 9"
abbreviation (input) M680X_OFFSET_BITS_16 :: u8 where "M680X_OFFSET_BITS_16 \<equiv> 16"
abbreviation (input) M680X_IDX_INDIRECT :: u8 where "M680X_IDX_INDIRECT \<equiv> 1"
abbreviation (input) M680X_IDX_NO_COMMA :: u8 where "M680X_IDX_NO_COMMA \<equiv> 2"
abbreviation (input) M680X_IDX_POST_INC_DEC :: u8 where "M680X_IDX_POST_INC_DEC \<equiv> 4"
abbreviation (input) M680X_FIRST_OP_IN_MNEM :: u8 where "M680X_FIRST_OP_IN_MNEM \<equiv> 1"
abbreviation (input) M680X_SECOND_OP_IN_MNEM :: u8 where "M680X_SECOND_OP_IN_MNEM \<equiv> 2"

text \<open>Signed fields are their bit patterns.\<close>

record m680x_op_idx =
  ix_base_reg :: m680x_reg
  ix_offset_reg :: m680x_reg
  ix_offset :: u16
  ix_offset_addr :: u16
  ix_offset_bits :: u8
  ix_inc_dec :: u8
  ix_flags :: u8

record m680x_op_rel =
  rl_address :: u16
  rl_offset :: u16

record m680x_op_ext =
  ex_address :: u16
  ex_indirect :: bool

record cs_m680x_op =
  mo_type :: m680x_op_type
  mo_imm :: u32
  mo_reg :: m680x_reg
  mo_idx :: m680x_op_idx
  mo_rel :: m680x_op_rel
  mo_ext :: m680x_op_ext
  mo_direct_addr :: u8
  mo_const_val :: u8
  mo_size :: u8
  mo_access :: u8

record cs_m680x =
  m6_flags :: u8
  m6_op_count :: u8
  m6_operands :: "cs_m680x_op list"

definition zero_op :: cs_m680x_op where
  "zero_op = \<lparr>mo_type = M680X_OP_INVALID, mo_imm = 0, mo_reg = M680X_REG_INVALID,
     mo_idx = \<lparr>ix_base_reg = M680X_REG_INVALID, ix_offset_reg = M680X_REG_INVALID, ix_offset = 0,
       ix_offset_addr = 0, ix_offset_bits = 0, ix_inc_dec = 0, ix_flags = 0\<rparr>,
     mo_rel = \<lparr>rl_address = 0, rl_offset = 0\<rparr>, mo_ext = \<lparr>ex_address = 0, ex_indirect = False\<rparr>,
     mo_direct_addr = 0, mo_const_val = 0, mo_size = 0, mo_access = 0\<rparr>"

definition zero_m680x :: cs_m680x where
  "zero_m680x = \<lparr>m6_flags = 0, m6_op_count = 0, m6_operands = replicate M680X_OPERAND_COUNT zero_op\<rparr>"

datatype e_access = UNCHANGED | READ | WRITE | MODIFY

primrec access_num :: "e_access \<Rightarrow> u8" where
  "access_num UNCHANGED = 0"
| "access_num READ = 1"
| "access_num WRITE = 2"
| "access_num MODIFY = 3"

datatype e_cpu_type =
    M680X_CPU_TYPE_INVALID | M680X_CPU_TYPE_6301 | M680X_CPU_TYPE_6309 | M680X_CPU_TYPE_6800
  | M680X_CPU_TYPE_6801 | M680X_CPU_TYPE_6805 | M680X_CPU_TYPE_6808 | M680X_CPU_TYPE_6809
  | M680X_CPU_TYPE_6811 | M680X_CPU_TYPE_CPU12 | M680X_CPU_TYPE_HCS08

text \<open>A null pointer to a table is \<open>None\<close>; the size of a table is the length of its list.\<close>

record cpu_tables =
  ct_page1 :: "inst_page1 list option"
  ct_overlay :: "inst_pageX list option list"
  ct_prefix :: "u8 list"
  ct_pageX :: "inst_pageX list option list"
  ct_reg_byte_size :: "u8 list option"
  ct_tfr_reg_valid :: "bool list option"
  ct_cc_not_modified :: "nat list"

record m680x_info =
  mx_code :: "u8 list"
  mx_size :: u32
  mx_offset :: u16
  mx_cpu_type :: e_cpu_type
  mx_m680x :: cs_m680x
  mx_cpu :: cpu_tables
  mx_insn :: nat
  mx_insn_size :: u8

section \<open>The code buffer\<close>

text \<open>
  The differences of addresses are computed in \<^verbatim>\<open>int\<close> and compared with the unsigned size, so
  that a negative one is large. The outer option is undefined behaviour, the inner one the result
  \<^verbatim>\<open>false\<close>, which leaves the variable of the caller unchanged.
\<close>

definition in_code :: "m680x_info \<Rightarrow> int \<Rightarrow> bool" where
  "in_code info i \<longleftrightarrow> (word_of_int i :: u32) < mx_size info"

definition code_at :: "m680x_info \<Rightarrow> int \<Rightarrow> u8 option" where
  "code_at info i = do { need (0 \<le> i); aget (mx_code info) (nat i) }"

definition code_pos :: "m680x_info \<Rightarrow> u16 \<Rightarrow> int" where
  "code_pos info address = uint address - uint (mx_offset info)"

definition read_byte :: "m680x_info \<Rightarrow> u16 \<Rightarrow> u8 option option" where
  "read_byte info address =
     (if in_code info (code_pos info address) then map_option Some (code_at info (code_pos info address))
      else Some None)"

definition read_byte_sign_extended :: "m680x_info \<Rightarrow> u16 \<Rightarrow> u16 option option" where
  "read_byte_sign_extended info address =
     (if in_code info (code_pos info address) then do {
        b \<leftarrow> code_at info (code_pos info address);
        let word = (ucast b :: u16);
        Some (Some (if word AND 0x80 \<noteq> 0 then word OR 0xFF00 else word)) }
      else Some None)"

definition read_word :: "m680x_info \<Rightarrow> u16 \<Rightarrow> u16 option option" where
  "read_word info address =
     (let i = code_pos info address
      in if in_code info (i + 1) then do {
           a \<leftarrow> code_at info i;
           b \<leftarrow> code_at info (i + 1);
           Some (Some (push_bit 8 (ucast a) OR ucast b)) }
         else Some None)"

definition read_sdword :: "m680x_info \<Rightarrow> u16 \<Rightarrow> u32 option option" where
  "read_sdword info address =
     (let i = code_pos info address
      in if in_code info (i + 3) then do {
           a \<leftarrow> code_at info i;
           b \<leftarrow> code_at info (i + 1);
           c \<leftarrow> code_at info (i + 2);
           d \<leftarrow> code_at info (i + 3);
           Some (Some (push_bit 24 (ucast a) OR push_bit 16 (ucast b) OR push_bit 8 (ucast c) OR ucast d)) }
         else Some None)"

text \<open>A call that ignores the result: the variable keeps its value.\<close>

definition or_keep :: "'a \<Rightarrow> 'a option option \<Rightarrow> 'a option" where
  "or_keep v r = map_option (\<lambda>x. case x of None \<Rightarrow> v | Some w \<Rightarrow> w) r"

section \<open>The opcode tables\<close>

text \<open>
  The loop of \<^verbatim>\<open>binary_search\<close>. It leaves with \<^verbatim>\<open>first > last\<close>, so that the result
  \<^verbatim>\<open>-2\<close> after it is never returned.
\<close>

function bs_loop :: "inst_pageX list \<Rightarrow> nat \<Rightarrow> int \<Rightarrow> int \<Rightarrow> int option" where
  "bs_loop tab opcode first fin =
     (if first \<le> fin then do {
        let middle = (first + fin) div 2;
        need (0 \<le> middle);
        e \<leftarrow> aget tab (nat middle);
        if fst e < opcode then bs_loop tab opcode (middle + 1) fin
        else if fst e = opcode then Some middle
        else bs_loop tab opcode first (middle - 1) }
      else Some (- 1))"
  by pat_completeness auto
termination
  by (relation "measure (\<lambda>(tab, opcode, first, fin). nat (fin - first + 1))") auto

declare bs_loop.simps [simp del]

definition binary_search :: "inst_pageX list \<Rightarrow> u8 \<Rightarrow> int option" where
  "binary_search tab opcode = bs_loop tab (unat opcode) 0 (int (length tab) - 1)"

text \<open>The sizes of the registers of each CPU, by the number of the register; 0 is no register.\<close>

definition g_m6800_reg_byte_size :: "u8 list" where
  "g_m6800_reg_byte_size = [0, 1, 1, 0, 0, 0, 0, 0, 1, 0, 0, 0, 0, 2, 0, 2, 0, 0, 0, 2, 0, 0]"

definition g_m6805_reg_byte_size :: "u8 list" where
  "g_m6805_reg_byte_size = [0, 1, 0, 0, 0, 0, 0, 0, 1, 0, 0, 0, 0, 1, 0, 2, 0, 0, 0, 2, 0, 0]"

definition g_m6808_reg_byte_size :: "u8 list" where
  "g_m6808_reg_byte_size = [0, 1, 0, 0, 0, 0, 0, 0, 1, 0, 0, 2, 1, 1, 0, 2, 0, 0, 0, 2, 0, 0]"

definition g_m6801_reg_byte_size :: "u8 list" where
  "g_m6801_reg_byte_size = [0, 1, 1, 0, 0, 0, 2, 0, 1, 0, 0, 0, 0, 2, 0, 2, 0, 0, 0, 2, 0, 0]"

definition g_m6811_reg_byte_size :: "u8 list" where
  "g_m6811_reg_byte_size = [0, 1, 1, 0, 0, 0, 2, 0, 1, 0, 0, 0, 0, 2, 2, 2, 0, 0, 0, 2, 0, 0]"

definition g_cpu12_reg_byte_size :: "u8 list" where
  "g_cpu12_reg_byte_size = [0, 1, 1, 0, 0, 0, 2, 0, 1, 0, 0, 0, 0, 2, 2, 2, 0, 0, 0, 2, 2, 2]"

definition g_m6809_reg_byte_size :: "u8 list" where
  "g_m6809_reg_byte_size = [0, 1, 1, 0, 0, 0, 2, 0, 1, 1, 0, 0, 0, 2, 2, 2, 2, 0, 0, 2, 0, 0]"

definition g_hd6309_reg_byte_size :: "u8 list" where
  "g_hd6309_reg_byte_size = [0, 1, 1, 1, 1, 1, 2, 2, 1, 1, 1, 0, 0, 2, 2, 2, 2, 2, 4, 2, 0, 0]"

definition m6809_tfr_reg_valid :: "bool list" where
  "m6809_tfr_reg_valid = [True, True, True, True, True, True, False, False,
     True, True, True, True, False, False, False, False]"

primrec g_cpu_tables :: "e_cpu_type \<Rightarrow> cpu_tables" where
  "g_cpu_tables M680X_CPU_TYPE_INVALID =
     \<lparr>ct_page1 = None, ct_overlay = [None, None], ct_prefix = [0, 0, 0], ct_pageX = [None, None, None],
      ct_reg_byte_size = None, ct_tfr_reg_valid = None, ct_cc_not_modified = [M680X_INS_INVLD, M680X_INS_INVLD]\<rparr>"
| "g_cpu_tables M680X_CPU_TYPE_6301 =
     \<lparr>ct_page1 = Some g_m6800_inst_page1_table,
      ct_overlay = [Some g_m6801_inst_overlay_table, Some g_hd6301_inst_overlay_table],
      ct_prefix = [0, 0, 0], ct_pageX = [None, None, None],
      ct_reg_byte_size = Some g_m6801_reg_byte_size, ct_tfr_reg_valid = None,
      ct_cc_not_modified = [M680X_INS_INVLD, M680X_INS_INVLD]\<rparr>"
| "g_cpu_tables M680X_CPU_TYPE_6309 =
     \<lparr>ct_page1 = Some g_m6809_inst_page1_table, ct_overlay = [Some g_hd6309_inst_overlay_table, None],
      ct_prefix = [0x10, 0x11, 0],
      ct_pageX = [Some g_hd6309_inst_page2_table, Some g_hd6309_inst_page3_table, None],
      ct_reg_byte_size = Some g_hd6309_reg_byte_size, ct_tfr_reg_valid = None,
      ct_cc_not_modified = [M680X_INS_INVLD, M680X_INS_INVLD]\<rparr>"
| "g_cpu_tables M680X_CPU_TYPE_6800 =
     \<lparr>ct_page1 = Some g_m6800_inst_page1_table, ct_overlay = [None, None],
      ct_prefix = [0, 0, 0], ct_pageX = [None, None, None],
      ct_reg_byte_size = Some g_m6800_reg_byte_size, ct_tfr_reg_valid = None,
      ct_cc_not_modified = [M680X_INS_INVLD, M680X_INS_INVLD]\<rparr>"
| "g_cpu_tables M680X_CPU_TYPE_6801 =
     \<lparr>ct_page1 = Some g_m6800_inst_page1_table, ct_overlay = [Some g_m6801_inst_overlay_table, None],
      ct_prefix = [0, 0, 0], ct_pageX = [None, None, None],
      ct_reg_byte_size = Some g_m6801_reg_byte_size, ct_tfr_reg_valid = None,
      ct_cc_not_modified = [M680X_INS_INVLD, M680X_INS_INVLD]\<rparr>"
| "g_cpu_tables M680X_CPU_TYPE_6805 =
     \<lparr>ct_page1 = Some g_m6805_inst_page1_table, ct_overlay = [None, None],
      ct_prefix = [0, 0, 0], ct_pageX = [None, None, None],
      ct_reg_byte_size = Some g_m6805_reg_byte_size, ct_tfr_reg_valid = None,
      ct_cc_not_modified = [M680X_INS_BCLR, M680X_INS_BSET]\<rparr>"
| "g_cpu_tables M680X_CPU_TYPE_6808 =
     \<lparr>ct_page1 = Some g_m6805_inst_page1_table, ct_overlay = [Some g_m6808_inst_overlay_table, None],
      ct_prefix = [0x9E, 0, 0], ct_pageX = [Some g_m6808_inst_page2_table, None, None],
      ct_reg_byte_size = Some g_m6808_reg_byte_size, ct_tfr_reg_valid = None,
      ct_cc_not_modified = [M680X_INS_BCLR, M680X_INS_BSET]\<rparr>"
| "g_cpu_tables M680X_CPU_TYPE_6809 =
     \<lparr>ct_page1 = Some g_m6809_inst_page1_table, ct_overlay = [None, None],
      ct_prefix = [0x10, 0x11, 0],
      ct_pageX = [Some g_m6809_inst_page2_table, Some g_m6809_inst_page3_table, None],
      ct_reg_byte_size = Some g_m6809_reg_byte_size, ct_tfr_reg_valid = Some m6809_tfr_reg_valid,
      ct_cc_not_modified = [M680X_INS_INVLD, M680X_INS_INVLD]\<rparr>"
| "g_cpu_tables M680X_CPU_TYPE_6811 =
     \<lparr>ct_page1 = Some g_m6800_inst_page1_table,
      ct_overlay = [Some g_m6801_inst_overlay_table, Some g_m6811_inst_overlay_table],
      ct_prefix = [0x18, 0x1A, 0xCD],
      ct_pageX = [Some g_m6811_inst_page2_table, Some g_m6811_inst_page3_table, Some g_m6811_inst_page4_table],
      ct_reg_byte_size = Some g_m6811_reg_byte_size, ct_tfr_reg_valid = None,
      ct_cc_not_modified = [M680X_INS_INVLD, M680X_INS_INVLD]\<rparr>"
| "g_cpu_tables M680X_CPU_TYPE_CPU12 =
     \<lparr>ct_page1 = Some g_cpu12_inst_page1_table, ct_overlay = [None, None],
      ct_prefix = [0x18, 0, 0], ct_pageX = [Some g_cpu12_inst_page2_table, None, None],
      ct_reg_byte_size = Some g_cpu12_reg_byte_size, ct_tfr_reg_valid = None,
      ct_cc_not_modified = [M680X_INS_INVLD, M680X_INS_INVLD]\<rparr>"
| "g_cpu_tables M680X_CPU_TYPE_HCS08 =
     \<lparr>ct_page1 = Some g_m6805_inst_page1_table,
      ct_overlay = [Some g_m6808_inst_overlay_table, Some g_hcs08_inst_overlay_table],
      ct_prefix = [0x9E, 0, 0], ct_pageX = [Some g_hcs08_inst_page2_table, None, None],
      ct_reg_byte_size = Some g_m6808_reg_byte_size, ct_tfr_reg_valid = None,
      ct_cc_not_modified = [M680X_INS_BCLR, M680X_INS_BSET]\<rparr>"

text \<open>
  The loops over the page prefixes and over the overlay tables, which stop at the first empty or
  missing table. A hit is \<open>Some\<close> of the table's entry; \<open>find_page\<close> gives the table.
\<close>

fun find_page :: "u8 list \<Rightarrow> inst_pageX list option list \<Rightarrow> u8 \<Rightarrow> inst_pageX list option" where
  "find_page (p # ps) (t # ts) ir =
     (case t of None \<Rightarrow> None
      | Some tab \<Rightarrow> if length tab = 0 then None else if p = ir then Some tab else find_page ps ts ir)"
| "find_page _ _ ir = None"

fun find_overlay :: "inst_pageX list option list \<Rightarrow> u8 \<Rightarrow> inst_pageX option option" where
  "find_overlay [] ir = Some None"
| "find_overlay (t # ts) ir =
     (case t of None \<Rightarrow> Some None
      | Some tab \<Rightarrow>
          if length tab = 0 then Some None
          else do {
            index \<leftarrow> binary_search tab ir;
            if index \<ge> 0 then map_option Some (aget tab (nat index)) else find_overlay ts ir })"

definition M680X_get_insn_id :: "m680x_info \<Rightarrow> cs_insn \<Rightarrow> u32 \<Rightarrow> cs_insn option" where
  "M680X_get_insn_id info insn idn = do {
     let cpu = mx_cpu info;
     let insn_prefix = (ucast (drop_bit 8 idn AND 0xff) :: u8);
     case find_page (ct_prefix cpu) (ct_pageX cpu) insn_prefix of
       Some tab \<Rightarrow> do {
         index \<leftarrow> binary_search tab (ucast (idn AND 0xff));
         if index \<ge> 0 then do {
           e \<leftarrow> aget tab (nat index);
           Some (insn\<lparr>in_id := of_nat (fst (snd e))\<rparr>) }
         else Some (insn\<lparr>in_id := of_nat M680X_INS_ILLGL\<rparr>) }
     | None \<Rightarrow>
         if insn_prefix \<noteq> 0 then Some (insn\<lparr>in_id := of_nat M680X_INS_ILLGL\<rparr>)
         else do {
           page1 \<leftarrow> ct_page1 cpu;
           e \<leftarrow> aget page1 (unat idn);
           if fst e \<noteq> M680X_INS_ILLGL then Some (insn\<lparr>in_id := of_nat (fst e)\<rparr>)
           else do {
             hit \<leftarrow> find_overlay (ct_overlay cpu) (ucast (idn AND 0xff));
             Some (insn\<lparr>in_id := of_nat (case hit of None \<Rightarrow> M680X_INS_ILLGL | Some e \<Rightarrow> fst (snd e))\<rparr>) } } }"

section \<open>Groups and registers of the details\<close>

definition add_insn_group :: "u8 \<Rightarrow> MCInst \<Rightarrow> MCInst option" where
  "add_insn_group grp =
     on_detail (\<lambda>detail.
       if grp \<noteq> M680X_GRP_INVALID \<and> grp \<noteq> M680X_GRP_ENDING then do {
         gs \<leftarrow> aset (d_groups detail) (unat (d_groups_count detail)) grp;
         Some (detail\<lparr>d_groups := gs, d_groups_count := d_groups_count detail + 1\<rparr>) }
       else Some detail)"

fun exists_reg_list :: "u16 list \<Rightarrow> nat \<Rightarrow> u16 \<Rightarrow> bool option" where
  "exists_reg_list regs 0 reg = Some False"
| "exists_reg_list [] (Suc n) reg = None"
| "exists_reg_list (r # regs) (Suc n) reg = (if r = reg then Some True else exists_reg_list regs n reg)"

definition reg_code :: "m680x_reg \<Rightarrow> u16" where "reg_code reg = of_nat (m680x_reg_num reg)"

definition add_read :: "m680x_reg \<Rightarrow> cs_detail \<Rightarrow> cs_detail option" where
  "add_read reg detail = do {
     found \<leftarrow> exists_reg_list (d_regs_read detail) (unat (d_regs_read_count detail)) (reg_code reg);
     if found then Some detail
     else do {
       rs \<leftarrow> aset (d_regs_read detail) (unat (d_regs_read_count detail)) (reg_code reg);
       Some (detail\<lparr>d_regs_read := rs, d_regs_read_count := d_regs_read_count detail + 1\<rparr>) } }"

definition add_write :: "m680x_reg \<Rightarrow> cs_detail \<Rightarrow> cs_detail option" where
  "add_write reg detail = do {
     found \<leftarrow> exists_reg_list (d_regs_write detail) (unat (d_regs_write_count detail)) (reg_code reg);
     if found then Some detail
     else do {
       rs \<leftarrow> aset (d_regs_write detail) (unat (d_regs_write_count detail)) (reg_code reg);
       Some (detail\<lparr>d_regs_write := rs, d_regs_write_count := d_regs_write_count detail + 1\<rparr>) } }"

definition add_reg_to_rw_list :: "m680x_reg \<Rightarrow> e_access \<Rightarrow> MCInst \<Rightarrow> MCInst option" where
  "add_reg_to_rw_list reg access =
     on_detail (\<lambda>detail.
       if reg = M680X_REG_INVALID then Some detail
       else case access of
         MODIFY \<Rightarrow> do { detail \<leftarrow> add_read reg detail; add_write reg detail }
       | WRITE \<Rightarrow> add_write reg detail
       | READ \<Rightarrow> add_read reg detail
       | UNCHANGED \<Rightarrow> Some detail)"

definition reg_byte_size :: "m680x_info \<Rightarrow> m680x_reg \<Rightarrow> u8 option" where
  "reg_byte_size info reg = do { sizes \<leftarrow> ct_reg_byte_size (mx_cpu info); aget sizes (m680x_reg_num reg) }"

definition update_am_reg_list :: "m680x_info \<Rightarrow> cs_m680x_op \<Rightarrow> e_access \<Rightarrow> MCInst \<Rightarrow> MCInst option" where
  "update_am_reg_list info op access MI =
     (if in_detail (mi_flat_insn MI) = None then Some MI
      else case mo_type op of
        M680X_OP_REGISTER \<Rightarrow> add_reg_to_rw_list (mo_reg op) access MI
      | M680X_OP_INDEXED \<Rightarrow> do {
          let idx = mo_idx op;
          MI \<leftarrow> add_reg_to_rw_list (ix_base_reg idx) READ MI;
          with_H \<leftarrow> (if ix_base_reg idx = M680X_REG_X then map_option (\<lambda>h. h \<noteq> 0) (reg_byte_size info M680X_REG_H)
                    else Some False);
          MI \<leftarrow> (if with_H then add_reg_to_rw_list M680X_REG_H READ MI else Some MI);
          MI \<leftarrow> (if ix_offset_reg idx \<noteq> M680X_REG_INVALID then add_reg_to_rw_list (ix_offset_reg idx) READ MI
                else Some MI);
          if ix_inc_dec idx \<noteq> 0 then do {
            MI \<leftarrow> add_reg_to_rw_list (ix_base_reg idx) WRITE MI;
            if with_H then add_reg_to_rw_list M680X_REG_H WRITE MI else Some MI }
          else Some MI }
      | _ \<Rightarrow> Some MI)"

definition g_access_mode_to_access :: "e_access list list" where
  "g_access_mode_to_access =
     [[UNCHANGED, READ, WRITE, READ, READ, READ, WRITE, MODIFY,
       MODIFY, MODIFY, MODIFY, MODIFY, WRITE, READ, MODIFY],
      [UNCHANGED, READ, WRITE, WRITE, READ, MODIFY, READ, READ,
       WRITE, MODIFY, WRITE, MODIFY, MODIFY, READ, UNCHANGED],
      [UNCHANGED, READ, WRITE, WRITE, READ, MODIFY, READ, READ,
       WRITE, MODIFY, READ, READ, MODIFY, UNCHANGED, UNCHANGED],
      [UNCHANGED, READ, WRITE, WRITE, MODIFY, MODIFY, READ, READ,
       WRITE, MODIFY, READ, READ, MODIFY, UNCHANGED, UNCHANGED]]"

definition get_access :: "nat \<Rightarrow> e_access_mode \<Rightarrow> e_access option" where
  "get_access operator_index access_mode = do {
     row \<leftarrow> aget g_access_mode_to_access (if operator_index > 3 then 3 else operator_index);
     aget row (access_mode_num access_mode) }"

text \<open>The loops over the operands in use, from operand \<open>i\<close> on.\<close>

fun build_regs_from :: "m680x_info \<Rightarrow> e_access_mode \<Rightarrow> nat \<Rightarrow> nat \<Rightarrow> MCInst \<Rightarrow> MCInst option" where
  "build_regs_from info access_mode i 0 MI = Some MI"
| "build_regs_from info access_mode i (Suc n) MI = do {
     access \<leftarrow> get_access i access_mode;
     op \<leftarrow> aget (m6_operands (mx_m680x info)) i;
     MI \<leftarrow> update_am_reg_list info op access MI;
     build_regs_from info access_mode (i + 1) n MI }"

definition build_regs_read_write_counts :: "m680x_info \<Rightarrow> e_access_mode \<Rightarrow> MCInst \<Rightarrow> MCInst option" where
  "build_regs_read_write_counts info access_mode MI =
     (if in_detail (mi_flat_insn MI) = None \<or> m6_op_count (mx_m680x info) = 0 then Some MI
      else build_regs_from info access_mode 0 (unat (m6_op_count (mx_m680x info))) MI)"

definition on_operand :: "nat \<Rightarrow> (cs_m680x_op \<Rightarrow> cs_m680x_op) \<Rightarrow> m680x_info \<Rightarrow> m680x_info option" where
  "on_operand i f info = do {
     op \<leftarrow> aget (m6_operands (mx_m680x info)) i;
     ops \<leftarrow> aset (m6_operands (mx_m680x info)) i (f op);
     Some (info\<lparr>mx_m680x := (mx_m680x info)\<lparr>m6_operands := ops\<rparr>\<rparr>) }"

fun operators_access_from :: "e_access_mode \<Rightarrow> nat \<Rightarrow> nat \<Rightarrow> nat \<Rightarrow> m680x_info \<Rightarrow> m680x_info option" where
  "operators_access_from access_mode i offset 0 info = Some info"
| "operators_access_from access_mode i offset (Suc n) info = do {
     let offset = (if mx_insn info = M680X_INS_MULD \<and> i = 1 then 1 else offset);
     access \<leftarrow> get_access (i + offset) access_mode;
     info \<leftarrow> on_operand i (\<lambda>op. op\<lparr>mo_access := access_num access\<rparr>) info;
     operators_access_from access_mode (i + 1) offset n info }"

definition add_operators_access :: "MCInst \<Rightarrow> e_access_mode \<Rightarrow> m680x_info \<Rightarrow> m680x_info option" where
  "add_operators_access MI access_mode info =
     (if in_detail (mi_flat_insn MI) = None \<or> m6_op_count (mx_m680x info) = 0 \<or> access_mode = uuuu then Some info
      else operators_access_from access_mode 0 0 (unat (m6_op_count (mx_m680x info))) info)"

text \<open>The registers of one entry of \<^verbatim>\<open>changed_regs\<close>, from position \<open>j\<close> on, and all entries.\<close>

fun changed_entry :: "m680x_info \<Rightarrow> e_access_mode \<Rightarrow> nat \<Rightarrow> m680x_reg list \<Rightarrow> MCInst \<Rightarrow> MCInst option" where
  "changed_entry info access_mode j [] MI = Some MI"
| "changed_entry info access_mode j (reg # regs) MI = do {
     sz \<leftarrow> reg_byte_size info reg;
     MI \<leftarrow> (if sz = 0 \<and> mx_insn info \<noteq> M680X_INS_MUL then Some MI
           else do {
             access \<leftarrow> get_access j access_mode;
             add_reg_to_rw_list (if sz = 0 then M680X_REG_X else reg) access MI });
     changed_entry info access_mode (j + 1) regs MI }"

fun changed_from :: "m680x_info \<Rightarrow> insn_to_changed_regs list \<Rightarrow> MCInst \<Rightarrow> MCInst option" where
  "changed_from info [] MI = Some MI"
| "changed_from info ((insn, access_mode, regs) # rest) MI = do {
     MI \<leftarrow> (if mx_insn info = insn then changed_entry info access_mode 0 regs MI else Some MI);
     changed_from info rest MI }"

definition set_changed_regs_read_write_counts :: "m680x_info \<Rightarrow> MCInst \<Rightarrow> MCInst option" where
  "set_changed_regs_read_write_counts info MI =
     (if in_detail (mi_flat_insn MI) = None then Some MI else changed_from info changed_regs MI)"

section \<open>Is the instruction valid and complete?\<close>

record insn_desc =
  ds_opcode :: u32
  ds_insn :: nat
  ds_hid0 :: insn_hdlr_id
  ds_hid1 :: insn_hdlr_id
  ds_insn_size :: u16

text \<open>
  The checks work on the address and the size found so far and return the verdict with both.
  \<open>count_bytes\<close> counts \<open>n\<close> bytes and asks for the last of them.
\<close>

type_synonym check = "u16 \<times> u16 \<Rightarrow> (bool \<times> u16 \<times> u16) option"

definition has_byte :: "m680x_info \<Rightarrow> u16 \<Rightarrow> bool option" where
  "has_byte info address = map_option (\<lambda>r. r \<noteq> None) (read_byte info address)"

definition count_bytes :: "m680x_info \<Rightarrow> u16 \<Rightarrow> check" where
  "count_bytes info n = (\<lambda>(address, sz). do {
     ok \<leftarrow> has_byte info (address + (n - 1));
     Some (ok, address + n, sz + n) })"

definition is_indexed09_post_byte_valid :: "m680x_info \<Rightarrow> u8 \<Rightarrow> check" where
  "is_indexed09_post_byte_valid info post_byte = (\<lambda>(address, sz).
     let c = post_byte AND 0x9F
     in if c \<in> {0x87, 0x8A, 0x8E, 0x8F, 0x90, 0x92, 0x97, 0x9A, 0x9E} then Some (False, address, sz)
        else if c \<in> {0x88, 0x8C, 0x98, 0x9C} then count_bytes info 1 (address, sz)
        else if c \<in> {0x89, 0x8D, 0x99, 0x9D} then count_bytes info 2 (address, sz)
        else if c = 0x9F then
          (if post_byte AND 0x60 = 0 then count_bytes info 2 (address, sz)
           else Some (False, address + 2, sz + 2))
        else Some (True, address, sz))"

definition is_indexed12_post_byte_valid :: "m680x_info \<Rightarrow> u8 \<Rightarrow> bool \<Rightarrow> check" where
  "is_indexed12_post_byte_valid info post_byte is_subset = (\<lambda>(address, sz).
     if post_byte AND 0x20 = 0 then Some (True, address, sz)
     else
       let c = post_byte AND 0xe7
       in if c \<in> {0xe0, 0xe1} then
            (if is_subset then Some (False, address, sz) else count_bytes info 1 (address, sz))
          else if c \<in> {0xe2, 0xe3} then
            (if is_subset then Some (False, address, sz) else count_bytes info 2 (address, sz))
          else Some (True, address, sz))"

definition is_tfr09_reg_valid :: "m680x_info \<Rightarrow> u8 \<Rightarrow> bool option" where
  "is_tfr09_reg_valid info reg_nibble =
     (case ct_tfr_reg_valid (mx_cpu info) of None \<Rightarrow> Some True | Some v \<Rightarrow> aget v (unat reg_nibble))"

definition is_exg_tfr12_post_byte_valid :: "u8 \<Rightarrow> bool" where
  "is_exg_tfr12_post_byte_valid post_byte \<longleftrightarrow> post_byte AND 0x08 = 0"

definition is_tfm_reg_valid :: "u8 \<Rightarrow> bool" where
  "is_tfm_reg_valid reg_nibble \<longleftrightarrow> reg_nibble \<le> 4"

definition is_loop_post_byte_valid :: "u8 \<Rightarrow> bool" where
  "is_loop_post_byte_valid post_byte \<longleftrightarrow>
     post_byte < 0xc0 \<and> post_byte AND 0x07 \<noteq> 2 \<and> post_byte AND 0x07 \<noteq> 3"

text \<open>A post byte is counted and read; without it the check fails before \<open>next\<close> is asked.\<close>

definition post_byte_then :: "m680x_info \<Rightarrow> u16 \<Rightarrow> (u8 \<Rightarrow> check) \<Rightarrow> check" where
  "post_byte_then info counted nxt = (\<lambda>(address, sz). do {
     b \<leftarrow> read_byte info address;
     case b of None \<Rightarrow> Some (False, address + 1, sz + counted)
     | Some ir \<Rightarrow> nxt ir (address + 1, sz + counted) })"

definition check_seq :: "check \<Rightarrow> check \<Rightarrow> check" where
  "check_seq f g = (\<lambda>s. do { (ok, s') \<leftarrow> f s; if ok then g s' else Some (False, s') })"

definition verdict :: "bool \<Rightarrow> check" where "verdict ok = (\<lambda>(address, sz). Some (ok, address, sz))"

text \<open>The last byte of two that were counted with the post byte.\<close>

definition last_counted :: "m680x_info \<Rightarrow> check" where
  "last_counted info = (\<lambda>(address, sz). do {
     ok \<leftarrow> has_byte info address;
     Some (ok, address + 1, sz) })"

definition check_hid :: "m680x_info \<Rightarrow> insn_hdlr_id \<Rightarrow> check" where
  "check_hid info hid =
     (case hid of
        imm32_hid \<Rightarrow> count_bytes info 4
      | ext_hid \<Rightarrow> count_bytes info 2 | imm16_hid \<Rightarrow> count_bytes info 2 | rel16_hid \<Rightarrow> count_bytes info 2
      | imm8rel_hid \<Rightarrow> count_bytes info 2 | opidxdr_hid \<Rightarrow> count_bytes info 2
      | idxX16_hid \<Rightarrow> count_bytes info 2 | idxS16_hid \<Rightarrow> count_bytes info 2
      | rel8_hid \<Rightarrow> count_bytes info 1 | dir_hid \<Rightarrow> count_bytes info 1 | rbits_hid \<Rightarrow> count_bytes info 1
      | imm8_hid \<Rightarrow> count_bytes info 1 | idxX_hid \<Rightarrow> count_bytes info 1 | idxXp_hid \<Rightarrow> count_bytes info 1
      | idxY_hid \<Rightarrow> count_bytes info 1 | idxS_hid \<Rightarrow> count_bytes info 1 | index_hid \<Rightarrow> count_bytes info 1
      | illgl_hid \<Rightarrow> verdict True | inh_hid \<Rightarrow> verdict True | idxX0_hid \<Rightarrow> verdict True
      | idxX0p_hid \<Rightarrow> verdict True | opidx_hid \<Rightarrow> verdict True
      | idx09_hid \<Rightarrow> post_byte_then info 1 (is_indexed09_post_byte_valid info)
      | idx12s_hid \<Rightarrow> post_byte_then info 1 (\<lambda>ir. is_indexed12_post_byte_valid info ir True)
      | idx12_hid \<Rightarrow> post_byte_then info 1 (\<lambda>ir. is_indexed12_post_byte_valid info ir False)
      | exti12x_hid \<Rightarrow>
          post_byte_then info 1 (\<lambda>ir. check_seq (is_indexed12_post_byte_valid info ir False) (count_bytes info 2))
      | imm16i12x_hid \<Rightarrow>
          post_byte_then info 1 (\<lambda>ir. check_seq (is_indexed12_post_byte_valid info ir False) (count_bytes info 2))
      | imm8i12x_hid \<Rightarrow>
          post_byte_then info 1 (\<lambda>ir. check_seq (is_indexed12_post_byte_valid info ir False) (count_bytes info 1))
      | tfm_hid \<Rightarrow>
          post_byte_then info 1 (\<lambda>ir. verdict (is_tfm_reg_valid (drop_bit 4 ir AND 0x0F) \<and> is_tfm_reg_valid (ir AND 0x0F)))
      | rr09_hid \<Rightarrow>
          post_byte_then info 1 (\<lambda>ir s. do {
            a \<leftarrow> is_tfr09_reg_valid info (drop_bit 4 ir AND 0x0F);
            b \<leftarrow> (if a then is_tfr09_reg_valid info (ir AND 0x0F) else Some False);
            verdict b s })
      | rr12_hid \<Rightarrow> post_byte_then info 1 (\<lambda>ir. verdict (is_exg_tfr12_post_byte_valid ir))
      | bitmv_hid \<Rightarrow>
          post_byte_then info 2 (\<lambda>ir. if ir AND 0xc0 = 0xc0 then verdict False else last_counted info)
      | loop_hid \<Rightarrow>
          post_byte_then info 2 (\<lambda>ir. if \<not> is_loop_post_byte_valid ir then verdict False else last_counted info))"

definition is_sufficient_code_size :: "m680x_info \<Rightarrow> u16 \<Rightarrow> insn_desc \<Rightarrow> (bool \<times> insn_desc) option" where
  "is_sufficient_code_size info address desc = do {
     (ok, address, sz) \<leftarrow> check_seq (check_hid info (ds_hid0 desc)) (check_hid info (ds_hid1 desc))
                            (address, ds_insn_size desc);
     Some (ok, desc\<lparr>ds_insn_size := sz\<rparr>) }"

text \<open>Filling the description from an entry of a table.\<close>

definition desc_entry :: "nat \<times> insn_hdlr_id \<times> insn_hdlr_id \<Rightarrow> insn_desc \<Rightarrow> insn_desc" where
  "desc_entry e desc = (case e of (insn, h0, h1) \<Rightarrow> desc\<lparr>ds_insn := insn, ds_hid0 := h0, ds_hid1 := h1\<rparr>)"

text \<open>The part of \<^verbatim>\<open>decode_insn\<close> after the prefix: page 1, the overlays, and the check.\<close>

definition decode_page1 :: "m680x_info \<Rightarrow> u8 \<Rightarrow> insn_desc \<Rightarrow> insn_desc option" where
  "decode_page1 info ir desc = do {
     desc \<leftarrow> (if ds_insn desc = M680X_INS_ILLGL then do {
               page1 \<leftarrow> ct_page1 (mx_cpu info);
               e \<leftarrow> aget page1 (unat ir);
               Some (desc_entry e desc) }
             else Some desc);
     if ds_insn desc = M680X_INS_ILLGL then do {
       hit \<leftarrow> find_overlay (ct_overlay (mx_cpu info)) ir;
       Some (case hit of None \<Rightarrow> desc | Some e \<Rightarrow> desc_entry (snd e) desc) }
     else Some desc }"

definition decode_insn :: "m680x_info \<Rightarrow> u16 \<Rightarrow> insn_desc \<Rightarrow> (bool \<times> insn_desc) option" where
  "decode_insn info base_address desc = do {
     b \<leftarrow> read_byte info base_address;
     case b of None \<Rightarrow> Some (False, desc)
     | Some ir \<Rightarrow> do {
         let address = base_address + 1;
         let desc = desc\<lparr>ds_insn := M680X_INS_ILLGL, ds_opcode := ucast ir\<rparr>;
         let finish = (\<lambda>ir address desc. do {
           desc \<leftarrow> decode_page1 info ir desc;
           let desc = desc\<lparr>ds_insn_size := address - base_address\<rparr>;
           if ds_insn desc \<noteq> M680X_INS_ILLGL \<and> ds_insn desc \<noteq> M680X_INS_INVLD
           then is_sufficient_code_size info address desc else Some (False, desc) });
         case find_page (ct_prefix (mx_cpu info)) (ct_pageX (mx_cpu info)) ir of
           None \<Rightarrow> finish ir address desc
         | Some tab \<Rightarrow> do {
             b2 \<leftarrow> read_byte info address;
             case b2 of None \<Rightarrow> Some (False, desc)
             | Some ir2 \<Rightarrow> do {
                 let desc = desc\<lparr>ds_opcode := push_bit 8 (ds_opcode desc) OR ucast ir2\<rparr>;
                 index \<leftarrow> binary_search tab ir2;
                 if index < 0 then Some (False, desc)
                 else do {
                   e \<leftarrow> aget tab (nat index);
                   finish ir2 (address + 1) (desc_entry (snd e) desc) } } } } }"

section \<open>The handlers of the addressing modes\<close>

text \<open>
  A handler takes the instruction, the decoder's state and the address \<^verbatim>\<open>*address\<close>, and returns
  them. \<open>new_operand\<close> is \<^verbatim>\<open>&m680x->operands[m680x->op_count++]\<close>: the position of the
  operand, which has to exist once it is written to.
\<close>

type_synonym hdlr = "MCInst \<Rightarrow> m680x_info \<Rightarrow> u16 \<Rightarrow> (MCInst \<times> m680x_info \<times> u16) option"

definition new_operand :: "m680x_info \<Rightarrow> nat \<times> m680x_info" where
  "new_operand info =
     (unat (m6_op_count (mx_m680x info)),
      info\<lparr>mx_m680x := (mx_m680x info)\<lparr>m6_op_count := m6_op_count (mx_m680x info) + 1\<rparr>\<rparr>)"

definition illegal_hdlr :: hdlr where
  "illegal_hdlr MI info address = do {
     let (i, info) = new_operand info;
     let info = info\<lparr>mx_insn := M680X_INS_ILLGL\<rparr>;
     temp8 \<leftarrow> or_keep 0 (read_byte info address);
     info \<leftarrow> on_operand i (\<lambda>op. op\<lparr>mo_imm := ucast temp8 AND 0xff, mo_type := M680X_OP_IMMEDIATE, mo_size := 1\<rparr>) info;
     Some (MI, info, address + 1) }"

definition inherent_hdlr :: hdlr where
  "inherent_hdlr MI info address = Some (MI, info, address)"

definition add_reg_operand :: "m680x_reg \<Rightarrow> m680x_info \<Rightarrow> m680x_info option" where
  "add_reg_operand reg info = do {
     let (i, info) = new_operand info;
     sz \<leftarrow> reg_byte_size info reg;
     on_operand i (\<lambda>op. op\<lparr>mo_type := M680X_OP_REGISTER, mo_reg := reg, mo_size := sz\<rparr>) info }"

definition operand_size :: "m680x_info \<Rightarrow> cs_m680x_op \<Rightarrow> u8 \<Rightarrow> u8 option" where
  "operand_size info op default_size =
     (if mx_insn info = M680X_INS_JMP \<or> mx_insn info = M680X_INS_JSR then Some 0
      else if mx_insn info = M680X_INS_DIVD \<or>
        (mx_insn info = M680X_INS_AIS \<or> mx_insn info = M680X_INS_AIX) \<and> mo_type op \<noteq> M680X_OP_REGISTER then Some 1
      else if mx_insn info = M680X_INS_DIVQ \<or> mx_insn info = M680X_INS_MOVW then Some 2
      else if mx_insn info = M680X_INS_EMACS then Some 4
      else if m6_op_count (mx_m680x info) > 0 then do {
        op0 \<leftarrow> aget (m6_operands (mx_m680x info)) 0;
        if mo_type op0 = M680X_OP_REGISTER then Some (mo_size op0) else Some default_size }
      else Some default_size)"

definition set_operand_size :: "nat \<Rightarrow> u8 \<Rightarrow> m680x_info \<Rightarrow> m680x_info option" where
  "set_operand_size i default_size info = do {
     op \<leftarrow> aget (m6_operands (mx_m680x info)) i;
     sz \<leftarrow> operand_size info op default_size;
     on_operand i (\<lambda>op. op\<lparr>mo_size := sz\<rparr>) info }"

definition reg_s_reg_ids :: "m680x_reg list" where
  "reg_s_reg_ids = [M680X_REG_CC, M680X_REG_A, M680X_REG_B, M680X_REG_DP,
     M680X_REG_X, M680X_REG_Y, M680X_REG_U, M680X_REG_PC]"

definition reg_u_reg_ids :: "m680x_reg list" where
  "reg_u_reg_ids = [M680X_REG_CC, M680X_REG_A, M680X_REG_B, M680X_REG_DP,
     M680X_REG_X, M680X_REG_Y, M680X_REG_S, M680X_REG_PC]"

text \<open>The loop over the bits of the register list, from bit \<open>i\<close> on.\<close>

fun reg_bits_from :: "u8 \<Rightarrow> m680x_reg list \<Rightarrow> nat \<Rightarrow> m680x_info \<Rightarrow> m680x_info option" where
  "reg_bits_from reg_bits [] i info = Some info"
| "reg_bits_from reg_bits (reg # regs) i info = do {
     info \<leftarrow> (if bit reg_bits i then add_reg_operand reg info else Some info);
     reg_bits_from reg_bits regs (i + 1) info }"

definition reg_bits_hdlr :: hdlr where
  "reg_bits_hdlr MI info address = do {
     op0 \<leftarrow> aget (m6_operands (mx_m680x info)) 0;
     reg_bits \<leftarrow> or_keep 0 (read_byte info address);
     regs \<leftarrow> (if mo_reg op0 = M680X_REG_U then Some reg_u_reg_ids
             else if mo_reg op0 = M680X_REG_S then Some reg_s_reg_ids else None);
     MI \<leftarrow> (if (mx_insn info = M680X_INS_PULU \<or> mx_insn info = M680X_INS_PULS) \<and> reg_bits AND 0x80 \<noteq> 0
           then add_insn_group M680X_GRP_RET MI else Some MI);
     info \<leftarrow> reg_bits_from reg_bits regs 0 info;
     Some (MI, info, address + 1) }"

definition g_tfr_exg_reg_ids :: "m680x_reg list" where
  "g_tfr_exg_reg_ids = [M680X_REG_D, M680X_REG_X, M680X_REG_Y, M680X_REG_U,
     M680X_REG_S, M680X_REG_PC, M680X_REG_W, M680X_REG_V,
     M680X_REG_A, M680X_REG_B, M680X_REG_CC, M680X_REG_DP,
     M680X_REG_0, M680X_REG_0, M680X_REG_E, M680X_REG_F]"

definition reg_reg09_hdlr :: hdlr where
  "reg_reg09_hdlr MI info address = do {
     regs \<leftarrow> or_keep 0 (read_byte info address);
     r0 \<leftarrow> aget g_tfr_exg_reg_ids (unat (drop_bit 4 regs));
     info \<leftarrow> add_reg_operand r0 info;
     r1 \<leftarrow> aget g_tfr_exg_reg_ids (unat (regs AND 0x0f));
     info \<leftarrow> add_reg_operand r1 info;
     MI \<leftarrow> (if regs AND 0x0f = 0x05 then add_insn_group M680X_GRP_JUMP MI else Some MI);
     Some (MI, info, address + 1) }"

definition g_tfr_exg12_reg0_ids :: "m680x_reg list" where
  "g_tfr_exg12_reg0_ids = [M680X_REG_A, M680X_REG_B, M680X_REG_CC, M680X_REG_TMP3,
     M680X_REG_D, M680X_REG_X, M680X_REG_Y, M680X_REG_S]"

definition g_tfr_exg12_reg1_ids :: "m680x_reg list" where
  "g_tfr_exg12_reg1_ids = [M680X_REG_A, M680X_REG_B, M680X_REG_CC, M680X_REG_TMP2,
     M680X_REG_D, M680X_REG_X, M680X_REG_Y, M680X_REG_S]"

definition reg_reg12_hdlr :: hdlr where
  "reg_reg12_hdlr MI info address = do {
     regs \<leftarrow> or_keep 0 (read_byte info address);
     let info = info\<lparr>mx_insn := (if regs AND 0x80 \<noteq> 0 then M680X_INS_EXG else M680X_INS_TFR)\<rparr>;
     r0 \<leftarrow> aget g_tfr_exg12_reg0_ids (unat (drop_bit 4 regs AND 0x07));
     info \<leftarrow> add_reg_operand r0 info;
     r1 \<leftarrow> aget g_tfr_exg12_reg1_ids (unat (regs AND 0x07));
     info \<leftarrow> add_reg_operand r1 info;
     Some (MI, info, address + 1) }"

definition add_rel_operand :: "u16 \<Rightarrow> u16 \<Rightarrow> m680x_info \<Rightarrow> m680x_info option" where
  "add_rel_operand offset address info = do {
     let (i, info) = new_operand info;
     on_operand i (\<lambda>op. op\<lparr>mo_type := M680X_OP_RELATIVE, mo_size := 0,
       mo_rel := \<lparr>rl_address = address, rl_offset = offset\<rparr>\<rparr>) info }"

definition relative8_hdlr :: hdlr where
  "relative8_hdlr MI info address = do {
     offset \<leftarrow> or_keep 0 (read_byte_sign_extended info address);
     let address = address + 1;
     info \<leftarrow> add_rel_operand offset (address + offset) info;
     MI \<leftarrow> add_insn_group M680X_GRP_BRAREL MI;
     MI \<leftarrow> (if mx_insn info \<noteq> M680X_INS_BRA \<and> mx_insn info \<noteq> M680X_INS_BSR \<and> mx_insn info \<noteq> M680X_INS_BRN
           then add_reg_to_rw_list M680X_REG_CC READ MI else Some MI);
     Some (MI, info, address) }"

definition relative16_hdlr :: hdlr where
  "relative16_hdlr MI info address = do {
     offset \<leftarrow> or_keep 0 (read_word info address);
     let address = address + 2;
     info \<leftarrow> add_rel_operand offset (address + offset) info;
     MI \<leftarrow> add_insn_group M680X_GRP_BRAREL MI;
     MI \<leftarrow> (if mx_insn info \<noteq> M680X_INS_LBRA \<and> mx_insn info \<noteq> M680X_INS_LBSR \<and> mx_insn info \<noteq> M680X_INS_LBRN
           then add_reg_to_rw_list M680X_REG_CC READ MI else Some MI);
     Some (MI, info, address) }"

definition g_rr5_to_reg_ids :: "m680x_reg list" where
  "g_rr5_to_reg_ids = [M680X_REG_X, M680X_REG_Y, M680X_REG_U, M680X_REG_S]"

definition on_idx :: "(m680x_op_idx \<Rightarrow> m680x_op_idx) \<Rightarrow> cs_m680x_op \<Rightarrow> cs_m680x_op" where
  "on_idx f op = op\<lparr>mo_idx := f (mo_idx op)\<rparr>"

definition or_flags :: "u8 \<Rightarrow> m680x_op_idx \<Rightarrow> m680x_op_idx" where
  "or_flags v idx = idx\<lparr>ix_flags := ix_flags idx OR v\<rparr>"

text \<open>An operand of a type whose size comes from the instruction or the first register.\<close>

definition sized_operand :: "m680x_op_type \<Rightarrow> m680x_info \<Rightarrow> (nat \<times> m680x_info) option" where
  "sized_operand ty info = do {
     let (i, info) = new_operand info;
     info \<leftarrow> on_operand i (\<lambda>op. op\<lparr>mo_type := ty\<rparr>) info;
     info \<leftarrow> set_operand_size i 1 info;
     Some (i, info) }"

definition add_indexed_operand ::
    "m680x_reg \<Rightarrow> bool \<Rightarrow> u8 \<Rightarrow> u8 \<Rightarrow> u16 \<Rightarrow> bool \<Rightarrow> m680x_info \<Rightarrow> m680x_info option" where
  "add_indexed_operand base_reg post_inc_dec inc_dec offset_bits offset no_comma info = do {
     (i, info) \<leftarrow> sized_operand M680X_OP_INDEXED info;
     on_operand i (on_idx (\<lambda>idx.
       let idx = idx\<lparr>ix_base_reg := base_reg, ix_offset_reg := M680X_REG_INVALID, ix_inc_dec := inc_dec\<rparr>;
           idx = (if inc_dec \<noteq> 0 \<and> post_inc_dec then or_flags M680X_IDX_POST_INC_DEC idx else idx);
           idx = (if offset_bits \<noteq> M680X_OFFSET_NONE then idx\<lparr>ix_offset := offset, ix_offset_addr := 0\<rparr> else idx);
           idx = idx\<lparr>ix_offset_bits := offset_bits\<rparr>
       in or_flags (if no_comma then M680X_IDX_NO_COMMA else 0) idx)) info }"

definition indexed8_hdlr :: "m680x_reg \<Rightarrow> bool \<Rightarrow> u8 \<Rightarrow> hdlr" where
  "indexed8_hdlr reg post_inc_dec inc_dec MI info address = do {
     offset \<leftarrow> or_keep 0 (read_byte info address);
     info \<leftarrow> add_indexed_operand reg post_inc_dec inc_dec M680X_OFFSET_BITS_8 (ucast offset) False info;
     Some (MI, info, address + 1) }"

definition indexedX_hdlr :: hdlr where "indexedX_hdlr = indexed8_hdlr M680X_REG_X False 0"

definition indexedY_hdlr :: hdlr where "indexedY_hdlr = indexed8_hdlr M680X_REG_Y False 0"

text \<open>
  The indexed modes of the 6809. The offset address of \<^verbatim>\<open>n8,PCR\<close> is computed from the variable
  \<^verbatim>\<open>offset\<close>, which is 0 there.
\<close>

definition idx09_mode :: "m680x_info \<Rightarrow> u8 \<Rightarrow> nat \<Rightarrow> u16 \<Rightarrow> (m680x_info \<times> u16) option" where
  "idx09_mode info post_byte i address =
     (let c = post_byte AND 0x1f;
          upd = (\<lambda>f. map_option (\<lambda>info. (info, address)) (on_operand i (on_idx f) info))
      in if c = 0x00 then upd (\<lambda>x. or_flags M680X_IDX_POST_INC_DEC (x\<lparr>ix_inc_dec := 1\<rparr>))
         else if c \<in> {0x11, 0x01} then upd (\<lambda>x. or_flags M680X_IDX_POST_INC_DEC (x\<lparr>ix_inc_dec := 2\<rparr>))
         else if c = 0x02 then upd (\<lambda>x. x\<lparr>ix_inc_dec := - 1\<rparr>)
         else if c \<in> {0x13, 0x03} then upd (\<lambda>x. x\<lparr>ix_inc_dec := - 2\<rparr>)
         else if c \<in> {0x14, 0x04} then Some (info, address)
         else if c \<in> {0x15, 0x05} then upd (\<lambda>x. x\<lparr>ix_offset_reg := M680X_REG_B\<rparr>)
         else if c \<in> {0x16, 0x06} then upd (\<lambda>x. x\<lparr>ix_offset_reg := M680X_REG_A\<rparr>)
         else if c \<in> {0x1c, 0x0c} then do {
           soffset \<leftarrow> or_keep 0 (read_byte_sign_extended info address);
           info \<leftarrow> on_operand i (on_idx (\<lambda>x. x\<lparr>ix_base_reg := M680X_REG_PC, ix_offset_addr := 0 + (address + 1),
             ix_offset := soffset, ix_offset_bits := M680X_OFFSET_BITS_8\<rparr>)) info;
           Some (info, address + 1) }
         else if c \<in> {0x18, 0x08} then do {
           soffset \<leftarrow> or_keep 0 (read_byte_sign_extended info address);
           info \<leftarrow> on_operand i (on_idx (\<lambda>x. x\<lparr>ix_offset := soffset, ix_offset_bits := M680X_OFFSET_BITS_8\<rparr>)) info;
           Some (info, address + 1) }
         else if c \<in> {0x1d, 0x0d} then do {
           offset \<leftarrow> or_keep 0 (read_word info address);
           info \<leftarrow> on_operand i (on_idx (\<lambda>x. x\<lparr>ix_base_reg := M680X_REG_PC, ix_offset_addr := offset + (address + 2),
             ix_offset := offset, ix_offset_bits := M680X_OFFSET_BITS_16\<rparr>)) info;
           Some (info, address + 2) }
         else if c \<in> {0x19, 0x09} then do {
           offset \<leftarrow> or_keep 0 (read_word info address);
           info \<leftarrow> on_operand i (on_idx (\<lambda>x. x\<lparr>ix_offset := offset, ix_offset_bits := M680X_OFFSET_BITS_16\<rparr>)) info;
           Some (info, address + 2) }
         else if c \<in> {0x1b, 0x0b} then upd (\<lambda>x. x\<lparr>ix_offset_reg := M680X_REG_D\<rparr>)
         else if c = 0x1f then do {
           op \<leftarrow> aget (m6_operands (mx_m680x info)) i;
           a \<leftarrow> or_keep (ex_address (mo_ext op)) (read_word info address);
           info \<leftarrow> on_operand i (\<lambda>op. op\<lparr>mo_type := M680X_OP_EXTENDED, mo_ext := \<lparr>ex_address = a, ex_indirect = True\<rparr>\<rparr>) info;
           Some (info, address + 2) }
         else upd (\<lambda>x. x\<lparr>ix_base_reg := M680X_REG_INVALID\<rparr>))"

definition indexed09_hdlr :: hdlr where
  "indexed09_hdlr MI info address = do {
     post_byte \<leftarrow> or_keep 0 (read_byte info address);
     let address = address + 1;
     (i, info) \<leftarrow> sized_operand M680X_OP_INDEXED info;
     reg \<leftarrow> aget g_rr5_to_reg_ids (unat (drop_bit 5 post_byte AND 0x03));
     info \<leftarrow> on_operand i (on_idx (\<lambda>x. x\<lparr>ix_base_reg := reg, ix_offset_reg := M680X_REG_INVALID\<rparr>)) info;
     (info, address) \<leftarrow>
       (if post_byte AND 0x80 = 0 then do {
          let offset = (if post_byte AND 0x10 = 0x10 then ucast post_byte OR 0xfff0 else ucast (post_byte AND 0x0f));
          info \<leftarrow> on_operand i (on_idx (\<lambda>x. x\<lparr>ix_offset := offset, ix_offset_addr := offset + address,
            ix_offset_bits := M680X_OFFSET_BITS_5\<rparr>)) info;
          Some (info, address) }
        else do {
          info \<leftarrow> (if post_byte AND 0x10 = 0x10 then on_operand i (on_idx (or_flags M680X_IDX_INDIRECT)) info else Some info);
          idx09_mode info post_byte i address });
     op0 \<leftarrow> aget (m6_operands (mx_m680x info)) 0;
     MI \<leftarrow> (if mx_insn info \<in> {M680X_INS_LEAU, M680X_INS_LEAS, M680X_INS_LEAX, M680X_INS_LEAY} \<and>
             (mo_reg op0 = M680X_REG_X \<or> mo_reg op0 = M680X_REG_Y)
           then add_reg_to_rw_list M680X_REG_CC MODIFY MI else Some MI);
     Some (MI, info, address) }"

definition g_idx12_to_reg_ids :: "m680x_reg list" where
  "g_idx12_to_reg_ids = [M680X_REG_X, M680X_REG_Y, M680X_REG_S, M680X_REG_PC]"

definition g_or12_to_reg_ids :: "m680x_reg list" where
  "g_or12_to_reg_ids = [M680X_REG_A, M680X_REG_B, M680X_REG_D]"

text \<open>The increment of the CPU12: four bits with sign, no 0.\<close>

definition idx12_inc_dec :: "u8 \<Rightarrow> u8" where
  "idx12_inc_dec post_byte =
     (let v = post_byte AND 0x0f;
          v = (if v AND 0x08 \<noteq> 0 then v OR 0xf0 else v)
      in if 0 \<le>s v then v + 1 else v)"

definition idx12_mode :: "m680x_info \<Rightarrow> u8 \<Rightarrow> nat \<Rightarrow> u16 \<Rightarrow> (m680x_info \<times> u16) option" where
  "idx12_mode info post_byte i address = do {
     info \<leftarrow> (if post_byte AND 0xe0 = 0xe0 then do {
               reg \<leftarrow> aget g_idx12_to_reg_ids (unat (drop_bit 3 post_byte AND 0x03));
               on_operand i (on_idx (\<lambda>x. x\<lparr>ix_base_reg := reg\<rparr>)) info }
             else Some info);
     let c = post_byte AND 0xe7;
     if c \<in> {0xe0, 0xe1} then do {
       offset8 \<leftarrow> or_keep 0 (read_byte info address);
       let address = address + 1;
       info \<leftarrow> on_operand i (on_idx (\<lambda>x.
         let offset = (if post_byte AND 0x01 \<noteq> 0 then ucast offset8 OR 0xff00 else ucast offset8);
             x = x\<lparr>ix_offset := offset, ix_offset_bits := M680X_OFFSET_BITS_9\<rparr>
         in if ix_base_reg x = M680X_REG_PC then x\<lparr>ix_offset_addr := offset + address\<rparr> else x)) info;
       Some (info, address) }
     else if c \<in> {0xe2, 0xe3} then do {
       op \<leftarrow> aget (m6_operands (mx_m680x info)) i;
       offset \<leftarrow> or_keep (ix_offset (mo_idx op)) (read_word info address);
       let address = address + 2;
       info \<leftarrow> on_operand i (on_idx (\<lambda>x.
         let x = (if c = 0xe3 then or_flags M680X_IDX_INDIRECT x else x);
             x = x\<lparr>ix_offset := offset, ix_offset_bits := M680X_OFFSET_BITS_16\<rparr>
         in if ix_base_reg x = M680X_REG_PC then x\<lparr>ix_offset_addr := offset + address\<rparr> else x)) info;
       Some (info, address) }
     else if c \<in> {0xe4, 0xe5, 0xe6} then do {
       reg \<leftarrow> aget g_or12_to_reg_ids (unat (post_byte AND 0x03));
       info \<leftarrow> on_operand i (on_idx (\<lambda>x. x\<lparr>ix_offset_reg := reg\<rparr>)) info;
       Some (info, address) }
     else if c = 0xe7 then do {
       info \<leftarrow> on_operand i (on_idx (\<lambda>x. or_flags M680X_IDX_INDIRECT (x\<lparr>ix_offset_reg := M680X_REG_D\<rparr>))) info;
       Some (info, address) }
     else do {
       reg \<leftarrow> aget g_idx12_to_reg_ids (unat (drop_bit 6 post_byte AND 0x03));
       info \<leftarrow> on_operand i (on_idx (\<lambda>x.
         let x = x\<lparr>ix_base_reg := reg, ix_inc_dec := idx12_inc_dec post_byte\<rparr>
         in if post_byte AND 0x10 \<noteq> 0 then or_flags M680X_IDX_POST_INC_DEC x else x)) info;
       Some (info, address) } }"

definition indexed12_hdlr :: hdlr where
  "indexed12_hdlr MI info address = do {
     post_byte \<leftarrow> or_keep 0 (read_byte info address);
     let address = address + 1;
     (i, info) \<leftarrow> sized_operand M680X_OP_INDEXED info;
     info \<leftarrow> on_operand i (on_idx (\<lambda>x. x\<lparr>ix_offset_reg := M680X_REG_INVALID\<rparr>)) info;
     (info, address) \<leftarrow>
       (if post_byte AND 0x20 = 0 then do {
          reg \<leftarrow> aget g_idx12_to_reg_ids (unat (drop_bit 6 post_byte AND 0x03));
          let offset = (if post_byte AND 0x10 = 0x10 then ucast post_byte OR 0xfff0 else ucast (post_byte AND 0x0f));
          info \<leftarrow> on_operand i (on_idx (\<lambda>x. x\<lparr>ix_base_reg := reg, ix_offset := offset,
            ix_offset_addr := offset + address, ix_offset_bits := M680X_OFFSET_BITS_5\<rparr>)) info;
          Some (info, address) }
        else idx12_mode info post_byte i address);
     Some (MI, info, address) }"

definition add_const_operand :: "u8 \<Rightarrow> m680x_info \<Rightarrow> m680x_info option" where
  "add_const_operand v info = do {
     let (i, info) = new_operand info;
     on_operand i (\<lambda>op. op\<lparr>mo_type := M680X_OP_CONSTANT, mo_const_val := v\<rparr>) info }"

definition index_hdlr :: hdlr where
  "index_hdlr MI info address = do {
     let (i, info) = new_operand info;
     op \<leftarrow> aget (m6_operands (mx_m680x info)) i;
     v \<leftarrow> or_keep (mo_const_val op) (read_byte info address);
     info \<leftarrow> on_operand i (\<lambda>op. op\<lparr>mo_type := M680X_OP_CONSTANT, mo_const_val := v\<rparr>) info;
     Some (MI, info, address + 1) }"

definition direct_hdlr :: hdlr where
  "direct_hdlr MI info address = do {
     (i, info) \<leftarrow> sized_operand M680X_OP_DIRECT info;
     op \<leftarrow> aget (m6_operands (mx_m680x info)) i;
     v \<leftarrow> or_keep (mo_direct_addr op) (read_byte info address);
     info \<leftarrow> on_operand i (\<lambda>op. op\<lparr>mo_direct_addr := v\<rparr>) info;
     Some (MI, info, address + 1) }"

definition set_ext_address :: "u16 \<Rightarrow> cs_m680x_op \<Rightarrow> cs_m680x_op" where
  "set_ext_address v op = op\<lparr>mo_ext := (mo_ext op)\<lparr>ex_address := v\<rparr>\<rparr>"

definition extended_hdlr :: hdlr where
  "extended_hdlr MI info address = do {
     (i, info) \<leftarrow> sized_operand M680X_OP_EXTENDED info;
     op \<leftarrow> aget (m6_operands (mx_m680x info)) i;
     v \<leftarrow> or_keep (ex_address (mo_ext op)) (read_word info address);
     info \<leftarrow> on_operand i (set_ext_address v) info;
     Some (MI, info, address + 2) }"

definition immediate_hdlr :: hdlr where
  "immediate_hdlr MI info address = do {
     (i, info) \<leftarrow> sized_operand M680X_OP_IMMEDIATE info;
     op \<leftarrow> aget (m6_operands (mx_m680x info)) i;
     imm \<leftarrow> (if mo_size op = 1 then map_option scast (or_keep 0 (read_byte_sign_extended info address))
            else if mo_size op = 2 then map_option scast (or_keep 0 (read_word info address))
            else if mo_size op = 4 then or_keep (mo_imm op) (read_sdword info address)
            else Some 0);
     info \<leftarrow> on_operand i (\<lambda>op. op\<lparr>mo_imm := imm\<rparr>) info;
     Some (MI, info, address + ucast (mo_size op)) }"

definition bit_move_regs :: "m680x_reg list" where
  "bit_move_regs = [M680X_REG_CC, M680X_REG_A, M680X_REG_B, M680X_REG_INVALID]"

definition bit_move_hdlr :: hdlr where
  "bit_move_hdlr MI info address = do {
     post_byte \<leftarrow> or_keep 0 (read_byte info address);
     let address = address + 1;
     reg \<leftarrow> aget bit_move_regs (unat (drop_bit 6 post_byte));
     info \<leftarrow> add_reg_operand reg info;
     info \<leftarrow> add_const_operand (drop_bit 3 post_byte AND 0x07) info;
     info \<leftarrow> add_const_operand (post_byte AND 0x07) info;
     direct_hdlr MI info address }"

definition inc_dec_r0 :: "u8 list" where "inc_dec_r0 = [1, - 1, 1, 0]"

definition inc_dec_r1 :: "u8 list" where "inc_dec_r1 = [1, - 1, 0, 1]"

definition tfm_hdlr :: hdlr where
  "tfm_hdlr MI info address = do {
     let index = ucast (mi_Opcode MI AND 0xff) - (0x38 :: u8);
     regs \<leftarrow> or_keep 0 (read_byte info address);
     r0 \<leftarrow> aget g_tfr_exg_reg_ids (unat (drop_bit 4 regs));
     d0 \<leftarrow> aget inc_dec_r0 (unat index);
     info \<leftarrow> add_indexed_operand r0 True d0 M680X_OFFSET_NONE 0 True info;
     r1 \<leftarrow> aget g_tfr_exg_reg_ids (unat (regs AND 0x0f));
     d1 \<leftarrow> aget inc_dec_r1 (unat index);
     info \<leftarrow> add_indexed_operand r1 True d1 M680X_OFFSET_NONE 0 True info;
     MI \<leftarrow> add_reg_to_rw_list M680X_REG_W MODIFY MI;
     Some (MI, info, address) }"

definition opcode_bit :: "MCInst \<Rightarrow> u8" where
  "opcode_bit MI = ucast (drop_bit 1 (mi_Opcode MI AND 0x0e))"

definition opidx_hdlr :: hdlr where
  "opidx_hdlr MI info address = do {
     info \<leftarrow> add_const_operand (opcode_bit MI) info;
     Some (MI, info, address) }"

definition opidx_dir_rel_hdlr :: hdlr where
  "opidx_dir_rel_hdlr MI info address = do {
     info \<leftarrow> add_const_operand (opcode_bit MI) info;
     (MI, info, address) \<leftarrow> direct_hdlr MI info address;
     (MI, info, address) \<leftarrow> relative8_hdlr MI info address;
     MI \<leftarrow> add_reg_to_rw_list M680X_REG_CC MODIFY MI;
     Some (MI, info, address) }"

definition indexedX0_hdlr :: hdlr where
  "indexedX0_hdlr MI info address = do {
     info \<leftarrow> add_indexed_operand M680X_REG_X False 0 M680X_OFFSET_NONE 0 False info;
     Some (MI, info, address) }"

definition indexedX16_hdlr :: hdlr where
  "indexedX16_hdlr MI info address = do {
     offset \<leftarrow> or_keep 0 (read_word info address);
     info \<leftarrow> add_indexed_operand M680X_REG_X False 0 M680X_OFFSET_BITS_16 offset False info;
     Some (MI, info, address + 2) }"

definition imm_rel_hdlr :: hdlr where
  "imm_rel_hdlr MI info address = do {
     (MI, info, address) \<leftarrow> immediate_hdlr MI info address;
     relative8_hdlr MI info address }"

definition indexedS_hdlr :: hdlr where "indexedS_hdlr = indexed8_hdlr M680X_REG_S False 0"

text \<open>\<^verbatim>\<open>indexedS16_hdlr\<close> advances its pointer, not the address.\<close>

definition indexedS16_hdlr :: hdlr where
  "indexedS16_hdlr MI info address = do {
     offset \<leftarrow> or_keep 0 (read_word info address);
     info \<leftarrow> add_indexed_operand M680X_REG_S False 0 M680X_OFFSET_BITS_16 offset False info;
     Some (MI, info, address) }"

definition indexedX0p_hdlr :: hdlr where
  "indexedX0p_hdlr MI info address = do {
     info \<leftarrow> add_indexed_operand M680X_REG_X True 1 M680X_OFFSET_NONE 0 True info;
     Some (MI, info, address) }"

definition indexedXp_hdlr :: hdlr where "indexedXp_hdlr = indexed8_hdlr M680X_REG_X True 1"

definition imm_idx12_x_hdlr :: hdlr where
  "imm_idx12_x_hdlr MI info address = do {
     let (i, info) = new_operand info;
     (MI, info, address) \<leftarrow> indexed12_hdlr MI info address;
     info \<leftarrow> on_operand i (\<lambda>op. op\<lparr>mo_type := M680X_OP_IMMEDIATE\<rparr>) info;
     info \<leftarrow> (if mx_insn info = M680X_INS_MOVW then do {
               imm16 \<leftarrow> or_keep 0 (read_word info address);
               on_operand i (\<lambda>op. op\<lparr>mo_imm := scast imm16, mo_size := 2\<rparr>) info }
             else do {
               imm8 \<leftarrow> or_keep 0 (read_byte info address);
               on_operand i (\<lambda>op. op\<lparr>mo_imm := scast imm8, mo_size := 1\<rparr>) info });
     info \<leftarrow> set_operand_size i 1 info;
     Some (MI, info, address) }"

definition ext_idx12_x_hdlr :: hdlr where
  "ext_idx12_x_hdlr MI info address = do {
     let (i, info) = new_operand info;
     (MI, info, address) \<leftarrow> indexed12_hdlr MI info address;
     imm16 \<leftarrow> or_keep 0 (read_word info address);
     info \<leftarrow> on_operand i (\<lambda>op. set_ext_address imm16 (op\<lparr>mo_type := M680X_OP_EXTENDED\<rparr>)) info;
     info \<leftarrow> set_operand_size i 1 info;
     Some (MI, info, address) }"

definition loop_reg_ids :: "m680x_reg list" where
  "loop_reg_ids = [M680X_REG_A, M680X_REG_B, M680X_REG_INVALID, M680X_REG_INVALID,
     M680X_REG_D, M680X_REG_X, M680X_REG_Y, M680X_REG_S]"

definition loop_insn_ids :: "nat list" where
  "loop_insn_ids = [M680X_INS_DBEQ, M680X_INS_DBNE, M680X_INS_TBEQ, M680X_INS_TBNE,
     M680X_INS_IBEQ, M680X_INS_IBNE, M680X_INS_ILLGL, M680X_INS_ILLGL]"

definition loop_hdlr :: hdlr where
  "loop_hdlr MI info address = do {
     post_byte \<leftarrow> or_keep 0 (read_byte info address);
     let address = address + 1;
     insn \<leftarrow> aget loop_insn_ids (unat (drop_bit 5 post_byte AND 0x07));
     let info = info\<lparr>mx_insn := insn\<rparr>;
     (MI, info, address) \<leftarrow> (if insn = M680X_INS_ILLGL then illegal_hdlr MI info address else Some (MI, info, address));
     rel \<leftarrow> or_keep 0 (read_byte info address);
     let address = address + 1;
     reg \<leftarrow> aget loop_reg_ids (unat (post_byte AND 0x07));
     info \<leftarrow> add_reg_operand reg info;
     let (i, info) = new_operand info;
     let offset = (if post_byte AND 0x10 \<noteq> 0 then 0xff00 OR ucast rel else ucast rel);
     info \<leftarrow> on_operand i (\<lambda>op. op\<lparr>mo_type := M680X_OP_RELATIVE,
       mo_rel := \<lparr>rl_address = address + offset, rl_offset = offset\<rparr>\<rparr>) info;
     MI \<leftarrow> add_insn_group M680X_GRP_BRAREL MI;
     Some (MI, info, address) }"

primrec g_insn_handler :: "insn_hdlr_id \<Rightarrow> hdlr" where
  "g_insn_handler illgl_hid = illegal_hdlr"
| "g_insn_handler rel8_hid = relative8_hdlr"
| "g_insn_handler rel16_hid = relative16_hdlr"
| "g_insn_handler imm8_hid = immediate_hdlr"
| "g_insn_handler imm16_hid = immediate_hdlr"
| "g_insn_handler imm32_hid = immediate_hdlr"
| "g_insn_handler dir_hid = direct_hdlr"
| "g_insn_handler ext_hid = extended_hdlr"
| "g_insn_handler idxX_hid = indexedX_hdlr"
| "g_insn_handler idxY_hid = indexedY_hdlr"
| "g_insn_handler idx09_hid = indexed09_hdlr"
| "g_insn_handler inh_hid = inherent_hdlr"
| "g_insn_handler rr09_hid = reg_reg09_hdlr"
| "g_insn_handler rbits_hid = reg_bits_hdlr"
| "g_insn_handler bitmv_hid = bit_move_hdlr"
| "g_insn_handler tfm_hid = tfm_hdlr"
| "g_insn_handler opidx_hid = opidx_hdlr"
| "g_insn_handler opidxdr_hid = opidx_dir_rel_hdlr"
| "g_insn_handler idxX0_hid = indexedX0_hdlr"
| "g_insn_handler idxX16_hid = indexedX16_hdlr"
| "g_insn_handler imm8rel_hid = imm_rel_hdlr"
| "g_insn_handler idxS_hid = indexedS_hdlr"
| "g_insn_handler idxS16_hid = indexedS16_hdlr"
| "g_insn_handler idxXp_hid = indexedXp_hdlr"
| "g_insn_handler idxX0p_hid = indexedX0p_hdlr"
| "g_insn_handler idx12_hid = indexed12_hdlr"
| "g_insn_handler idx12s_hid = indexed12_hdlr"
| "g_insn_handler rr12_hid = reg_reg12_hdlr"
| "g_insn_handler loop_hid = loop_hdlr"
| "g_insn_handler index_hid = index_hdlr"
| "g_insn_handler imm8i12x_hid = imm_idx12_x_hdlr"
| "g_insn_handler imm16i12x_hid = imm_idx12_x_hdlr"
| "g_insn_handler exti12x_hid = ext_idx12_x_hdlr"

section \<open>One instruction\<close>

definition clear_detail :: "cs_detail \<Rightarrow> cs_detail" where
  "clear_detail d = d\<lparr>d_regs_read := map (\<lambda>_. 0) (d_regs_read d), d_regs_read_count := 0,
     d_regs_write := map (\<lambda>_. 0) (d_regs_write d), d_regs_write_count := 0,
     d_groups := map (\<lambda>_. 0) (d_groups d), d_groups_count := 0,
     d_m680x := \<lparr>ao_op_count = 0, ao_types = replicate M680X_OPERAND_COUNT 0\<rparr>\<rparr>"

text \<open>The register of the mnemonic: \<^verbatim>\<open>HX\<close> is \<^verbatim>\<open>X\<close> on a CPU without it.\<close>

definition mnem_reg :: "m680x_info \<Rightarrow> m680x_reg \<Rightarrow> m680x_reg option" where
  "mnem_reg info reg =
     (if reg = M680X_REG_HX then
        map_option (\<lambda>sz. if sz = 0 then M680X_REG_X else reg) (reg_byte_size info reg)
      else Some reg)"

definition or_m6_flags :: "u8 \<Rightarrow> m680x_info \<Rightarrow> m680x_info" where
  "or_m6_flags v info = info\<lparr>mx_m680x := (mx_m680x info)\<lparr>m6_flags := m6_flags (mx_m680x info) OR v\<rparr>\<rparr>"

definition mnem_operands :: "m680x_info \<Rightarrow> m680x_info option" where
  "mnem_operands info = do {
     props \<leftarrow> aget g_insn_props (mx_insn info);
     if ip_reg0 props = M680X_REG_INVALID then Some info
     else do {
       reg \<leftarrow> mnem_reg info (ip_reg0 props);
       info \<leftarrow> add_reg_operand reg info;
       let info = or_m6_flags M680X_FIRST_OP_IN_MNEM info;
       if ip_reg1 props = M680X_REG_INVALID then Some info
       else do {
         reg \<leftarrow> mnem_reg info (ip_reg1 props);
         info \<leftarrow> add_reg_operand reg info;
         Some (or_m6_flags M680X_SECOND_OP_IN_MNEM info) } } }"

definition cc_not_modified :: "m680x_info \<Rightarrow> bool" where
  "cc_not_modified info \<longleftrightarrow> mx_insn info \<in> set (ct_cc_not_modified (mx_cpu info))"

text \<open>The part after the handlers: group, flags register, and the access of all operands.\<close>

definition fill_access :: "MCInst \<Rightarrow> m680x_info \<Rightarrow> (MCInst \<times> m680x_info) option" where
  "fill_access MI info = do {
     props \<leftarrow> aget g_insn_props (mx_insn info);
     MI \<leftarrow> add_insn_group (ip_group props) MI;
     MI \<leftarrow> (if ip_cc_modified props \<and> \<not> cc_not_modified info then add_reg_to_rw_list M680X_REG_CC MODIFY MI else Some MI);
     let access_mode = (if cc_not_modified info then rmmm else ip_access_mode props);
     MI \<leftarrow> build_regs_read_write_counts info access_mode MI;
     info \<leftarrow> add_operators_access MI access_mode info;
     MI \<leftarrow> (if ip_update_reg_access props then set_changed_regs_read_write_counts info MI else Some MI);
     Some (MI, info) }"

definition zero_desc :: insn_desc where
  "zero_desc = \<lparr>ds_opcode = 0, ds_insn = M680X_INS_INVLD, ds_hid0 = illgl_hid, ds_hid1 = illgl_hid, ds_insn_size = 0\<rparr>"

definition m680x_disassemble :: "MCInst \<Rightarrow> m680x_info \<Rightarrow> u16 \<Rightarrow> (u32 \<times> MCInst \<times> m680x_info) option" where
  "m680x_disassemble MI info base_address = do {
     MI \<leftarrow> on_detail (\<lambda>d. Some (clear_detail d)) MI;
     let info = info\<lparr>mx_m680x := zero_m680x, mx_insn_size := 1\<rparr>;
     (ok, desc) \<leftarrow> decode_insn info base_address zero_desc;
     let MI = MCInst_setOpcode MI (ds_opcode desc);
     if ok then do {
       let address = base_address + (if ds_opcode desc > 0xff then 2 else 1);
       let info = info\<lparr>mx_insn := ds_insn desc\<rparr>;
       info \<leftarrow> mnem_operands info;
       (MI, info, address) \<leftarrow> g_insn_handler (ds_hid0 desc) MI info address;
       (MI, info, address) \<leftarrow> g_insn_handler (ds_hid1 desc) MI info address;
       (MI, info) \<leftarrow> fill_access MI info;
       let info = info\<lparr>mx_insn_size := ucast (ds_insn_size desc)\<rparr>;
       Some (ucast (mx_insn_size info), MI, info) }
     else do {
       (MI, info, address) \<leftarrow> illegal_hdlr MI info base_address;
       Some (1, MI, info) } }"

definition m680x_setup_internals :: "m680x_info \<Rightarrow> e_cpu_type \<Rightarrow> u16 \<Rightarrow> u8 list \<Rightarrow> u16 \<Rightarrow> (bool \<times> m680x_info)" where
  "m680x_setup_internals info cpu_type address code code_len =
     (if cpu_type = M680X_CPU_TYPE_INVALID then (False, info)
      else (True, info\<lparr>mx_code := code, mx_size := ucast code_len, mx_offset := address,
        mx_cpu_type := cpu_type, mx_cpu := g_cpu_tables cpu_type\<rparr>))"

definition m680x_cpu_type :: "u32 \<Rightarrow> e_cpu_type" where
  "m680x_cpu_type mode =
     (if mode AND CS_MODE_M680X_6800 \<noteq> 0 then M680X_CPU_TYPE_6800
      else if mode AND CS_MODE_M680X_6801 \<noteq> 0 then M680X_CPU_TYPE_6801
      else if mode AND CS_MODE_M680X_6805 \<noteq> 0 then M680X_CPU_TYPE_6805
      else if mode AND CS_MODE_M680X_6808 \<noteq> 0 then M680X_CPU_TYPE_6808
      else if mode AND CS_MODE_M680X_HCS08 \<noteq> 0 then M680X_CPU_TYPE_HCS08
      else if mode AND CS_MODE_M680X_6809 \<noteq> 0 then M680X_CPU_TYPE_6809
      else if mode AND CS_MODE_M680X_6301 \<noteq> 0 then M680X_CPU_TYPE_6301
      else if mode AND CS_MODE_M680X_6309 \<noteq> 0 then M680X_CPU_TYPE_6309
      else if mode AND CS_MODE_M680X_6811 \<noteq> 0 then M680X_CPU_TYPE_6811
      else if mode AND CS_MODE_M680X_CPU12 \<noteq> 0 then M680X_CPU_TYPE_CPU12
      else M680X_CPU_TYPE_INVALID)"

text \<open>
  The result is the returned flag, the instruction, \<^verbatim>\<open>*size\<close> and the decoder's state. The
  length of the code is passed on as a 16-bit number.
\<close>

definition M680X_getInstruction ::
    "cs_struct \<Rightarrow> u8 list \<Rightarrow> MCInst \<Rightarrow> u64 \<Rightarrow> m680x_info \<Rightarrow> (bool \<times> MCInst \<times> u16 \<times> m680x_info) option" where
  "M680X_getInstruction handle code MI address info = do {
     let MI = MCInst_clear MI;
     let cpu_type = m680x_cpu_type (ud_mode handle);
     let (ok, info) = (if cpu_type \<noteq> M680X_CPU_TYPE_INVALID
       then m680x_setup_internals info cpu_type (ucast address) code (of_nat (length code)) else (False, info));
     (insn_size, MI, info) \<leftarrow> (if ok then m680x_disassemble MI info (ucast address) else Some (0, MI, info));
     if insn_size = 0 then Some (False, MI, 1, info)
     else if unat insn_size > length code then Some (False, MI, of_nat (length code), info)
     else Some (True, MI, ucast insn_size, info) }"

text \<open>The register lists of the details; the arrays of the caller have to be large enough.\<close>

definition M680X_reg_access :: "cs_insn \<Rightarrow> (u16 list \<times> u8 \<times> u16 list \<times> u8) option" where
  "M680X_reg_access insn =
     (case in_detail insn of None \<Rightarrow> Some ([], 0, [], 0)
      | Some (p, d) \<Rightarrow> do {
          need (unat (d_regs_read_count d) \<le> length (d_regs_read d) \<and> unat (d_regs_write_count d) \<le> length (d_regs_write d));
          Some (take (unat (d_regs_read_count d)) (d_regs_read d), d_regs_read_count d,
                take (unat (d_regs_write_count d)) (d_regs_write d), d_regs_write_count d) })"

end
