(* ===== verification/M680X_Printer.thy ===== *)
theory M680X_Printer
  imports M680X_Model SStream_Model Utils_Model
begin

text \<open>
  The M680X printer, \<^verbatim>\<open>M680XInstPrinter.c\<close>: the names, the text of an operand, and the text of
  an instruction. The printer works on the operands in the decoder's state and copies them to the
  details. The function pointers of a handle of this architecture are the ones its constructor has
  set; other ones are outside the model.
\<close>

unbundle bit_operations_syntax

section \<open>Names\<close>

definition s_reg_names :: "string list" where
  "s_reg_names = [''<invalid>'', ''a'', ''b'', ''e'', ''f'', ''0'', ''d'', ''w'', ''cc'', ''dp'', ''md'',
     ''hx'', ''h'', ''x'', ''y'', ''s'', ''u'', ''v'', ''q'', ''pc'', ''tmp2'', ''tmp3'']"

definition s_instruction_names :: "string list" where
  "s_instruction_names = [''invld'', ''aba'', ''abx'', ''aby'', ''adc'', ''adca'', ''adcb'', ''adcd'', ''adcr'', ''add'',
     ''adda'', ''addb'', ''addd'', ''adde'', ''addf'', ''addr'', ''addw'', ''aim'', ''ais'',
     ''aix'', ''and'', ''anda'', ''andb'', ''andcc'', ''andd'', ''andr'', ''asl'', ''asla'',
     ''aslb'', ''asld'', ''asr'', ''asra'', ''asrb'', ''asrd'', ''asrx'', ''band'', ''bcc'',
     ''bclr'', ''bcs'', ''beor'', ''beq'', ''bge'', ''bgnd'', ''bgt'', ''bhcc'', ''bhcs'', ''bhi'',
     ''biand'', ''bieor'', ''bih'', ''bil'', ''bior'', ''bit'', ''bita'', ''bitb'', ''bitd'',
     ''bitmd'', ''ble'', ''bls'', ''blt'', ''bmc'', ''bmi'', ''bms'', ''bne'', ''bor'', ''bpl'',
     ''brclr'', ''brset'', ''bra'', ''brn'', ''bset'', ''bsr'', ''bvc'', ''bvs'', ''call'', ''cba'',
     ''cbeq'', ''cbeqa'', ''cbeqx'', ''clc'', ''cli'', ''clr'', ''clra'', ''clrb'', ''clrd'',
     ''clre'', ''clrf'', ''clrh'', ''clrw'', ''clrx'', ''clv'', ''cmp'', ''cmpa'', ''cmpb'',
     ''cmpd'', ''cmpe'', ''cmpf'', ''cmpr'', ''cmps'', ''cmpu'', ''cmpw'', ''cmpx'', ''cmpy'',
     ''com'', ''coma'', ''comb'', ''comd'', ''come'', ''comf'', ''comw'', ''comx'', ''cpd'',
     ''cphx'', ''cps'', ''cpx'', ''cpy'', ''cwai'', ''daa'', ''dbeq'', ''dbne'', ''dbnz'',
     ''dbnza'', ''dbnzx'', ''dec'', ''deca'', ''decb'', ''decd'', ''dece'', ''decf'', ''decw'',
     ''decx'', ''des'', ''dex'', ''dey'', ''div'', ''divd'', ''divq'', ''ediv'', ''edivs'', ''eim'',
     ''emacs'', ''emaxd'', ''emaxm'', ''emind'', ''eminm'', ''emul'', ''emuls'', ''eor'', ''eora'',
     ''eorb'', ''eord'', ''eorr'', ''etbl'', ''exg'', ''fdiv'', ''ibeq'', ''ibne'', ''idiv'',
     ''idivs'', ''illgl'', ''inc'', ''inca'', ''incb'', ''incd'', ''ince'', ''incf'', ''incw'',
     ''incx'', ''ins'', ''inx'', ''iny'', ''jmp'', ''jsr'', ''lbcc'', ''lbcs'', ''lbeq'', ''lbge'',
     ''lbgt'', ''lbhi'', ''lble'', ''lbls'', ''lblt'', ''lbmi'', ''lbne'', ''lbpl'', ''lbra'',
     ''lbrn'', ''lbsr'', ''lbvc'', ''lbvs'', ''lda'', ''ldaa'', ''ldab'', ''ldb'', ''ldbt'',
     ''ldd'', ''lde'', ''ldf'', ''ldhx'', ''ldmd'', ''ldq'', ''lds'', ''ldu'', ''ldw'', ''ldx'',
     ''ldy'', ''leas'', ''leau'', ''leax'', ''leay'', ''lsl'', ''lsla'', ''lslb'', ''lsld'',
     ''lslx'', ''lsr'', ''lsra'', ''lsrb'', ''lsrd'', ''lsrw'', ''lsrx'', ''maxa'', ''maxm'',
     ''mem'', ''mina'', ''minm'', ''mov'', ''movb'', ''movw'', ''mul'', ''muld'', ''neg'', ''nega'',
     ''negb'', ''negd'', ''negx'', ''nop'', ''nsa'', ''oim'', ''ora'', ''oraa'', ''orab'', ''orb'',
     ''orcc'', ''ord'', ''orr'', ''psha'', ''pshb'', ''pshc'', ''pshd'', ''pshh'', ''pshs'',
     ''pshsw'', ''pshu'', ''pshuw'', ''pshx'', ''pshy'', ''pula'', ''pulb'', ''pulc'', ''puld'',
     ''pulh'', ''puls'', ''pulsw'', ''pulu'', ''puluw'', ''pulx'', ''puly'', ''rev'', ''revw'',
     ''rol'', ''rola'', ''rolb'', ''rold'', ''rolw'', ''rolx'', ''ror'', ''rora'', ''rorb'',
     ''rord'', ''rorw'', ''rorx'', ''rsp'', ''rtc'', ''rti'', ''rts'', ''sba'', ''sbc'', ''sbca'',
     ''sbcb'', ''sbcd'', ''sbcr'', ''sec'', ''sei'', ''sev'', ''sex'', ''sexw'', ''slp'', ''sta'',
     ''staa'', ''stab'', ''stb'', ''stbt'', ''std'', ''ste'', ''stf'', ''stop'', ''sthx'', ''stq'',
     ''sts'', ''stu'', ''stw'', ''stx'', ''sty'', ''sub'', ''suba'', ''subb'', ''subd'', ''sube'',
     ''subf'', ''subr'', ''subw'', ''swi'', ''swi2'', ''swi3'', ''sync'', ''tab'', ''tap'', ''tax'',
     ''tba'', ''tbeq'', ''tbl'', ''tbne'', ''test'', ''tfm'', ''tfr'', ''tim'', ''tpa'', ''tst'',
     ''tsta'', ''tstb'', ''tstd'', ''tste'', ''tstf'', ''tstw'', ''tstx'', ''tsx'', ''tsy'',
     ''txa'', ''txs'', ''tys'', ''wai'', ''wait'', ''wav'', ''wavr'', ''xgdx'', ''xgdy'']"

definition s_group_names :: "name_map list" where
  "s_group_names = map (\<lambda>(i, n). \<lparr>nm_id = ucast (i :: u8), nm_name = Some n\<rparr>)
     [(M680X_GRP_INVALID, ''<invalid>''), (M680X_GRP_JUMP, ''jump''), (M680X_GRP_CALL, ''call''),
      (M680X_GRP_RET, ''return''), (M680X_GRP_INT, ''interrupt''), (M680X_GRP_IRET, ''interrupt_return''),
      (M680X_GRP_PRIV, ''privileged''), (M680X_GRP_BRAREL, ''branch_relative'')]"

definition M680X_reg_name :: "u32 \<Rightarrow> string option" where
  "M680X_reg_name reg = (if length s_reg_names \<le> unat reg then None else Some (s_reg_names ! unat reg))"

definition M680X_insn_name :: "u32 \<Rightarrow> string option" where
  "M680X_insn_name idn =
     (if length s_instruction_names \<le> unat idn then None else Some (s_instruction_names ! unat idn))"

definition M680X_group_name :: "u32 \<Rightarrow> string option" where
  "M680X_group_name idn = id2name s_group_names idn"

section \<open>Operands\<close>

text \<open>\<^verbatim>\<open>%0wX\<close>.\<close>

definition fmt_0X :: "nat \<Rightarrow> nat \<Rightarrow> string" where
  "fmt_0X w n =
     (let s = map (\<lambda>d. ''0123456789ABCDEF'' ! d) (to_radix 16 n)
      in replicate (w - length s) CHR ''0'' @ s)"

definition printRegName :: "cs_struct \<Rightarrow> m680x_reg \<Rightarrow> SStream \<Rightarrow> SStream option" where
  "printRegName handle reg OS = do {
     need (ud_reg_name handle = Some GetRegName_t.M680X_reg_name);
     s \<leftarrow> M680X_reg_name (of_nat (m680x_reg_num reg));
     SStream_concat OS s }"

definition printInstructionName :: "cs_struct \<Rightarrow> nat \<Rightarrow> SStream \<Rightarrow> SStream option" where
  "printInstructionName handle insn OS = do {
     need (ud_insn_name handle = Some GetInsnName_t.M680X_insn_name);
     s \<leftarrow> M680X_insn_name (of_nat insn);
     SStream_concat OS s }"

definition get_unsigned :: "u32 \<Rightarrow> u8 \<Rightarrow> u32" where
  "get_unsigned v byte_size =
     (if byte_size = 1 then v AND 0xff else if byte_size = 2 then v AND 0xffff else v)"

definition s_inc_dec :: "string list" where
  "s_inc_dec = [''--'', ''-'', [], ''+'', ''++'']"

definition printIncDec :: "bool \<Rightarrow> m680x_info \<Rightarrow> m680x_op_idx \<Rightarrow> SStream \<Rightarrow> SStream option" where
  "printIncDec isPost info idx ss =
     (if ix_inc_dec idx = 0 then Some ss
      else if \<not> isPost \<and> ix_flags idx AND M680X_IDX_POST_INC_DEC = 0 \<or> isPost \<and> ix_flags idx AND M680X_IDX_POST_INC_DEC \<noteq> 0
      then do {
        prePostfix \<leftarrow>
          (if mx_cpu_type info = M680X_CPU_TYPE_CPU12 then Some (if ix_inc_dec idx <s 0 then ''-'' else ''+'')
           else if - 2 \<le>s ix_inc_dec idx \<and> ix_inc_dec idx \<le>s 2 then aget s_inc_dec (nat (sint (ix_inc_dec idx) + 2))
           else Some []);
        SStream_concat ss prePostfix }
      else Some ss)"

definition printIndexed :: "cs_struct \<Rightarrow> m680x_info \<Rightarrow> m680x_op_idx \<Rightarrow> SStream \<Rightarrow> SStream option" where
  "printIndexed handle info idx ss = do {
     ss \<leftarrow> (if ix_flags idx AND M680X_IDX_INDIRECT \<noteq> 0 then SStream_concat ss ''['' else Some ss);
     ss \<leftarrow> (if ix_offset_reg idx \<noteq> M680X_REG_INVALID then printRegName handle (ix_offset_reg idx) ss
           else if ix_offset_bits idx > 0 then
             (if ix_base_reg idx = M680X_REG_PC then SStream_concat ss (''$'' @ fmt_0X 4 (unat (ix_offset_addr idx)))
              else SStream_concat ss (decimal_numeral (ix_offset idx)))
           else if ix_inc_dec idx \<noteq> 0 \<and> mx_cpu_type info = M680X_CPU_TYPE_CPU12
           then SStream_concat ss (fmt_u (nat \<bar>sint (ix_inc_dec idx)\<bar>))
           else Some ss);
     ss \<leftarrow> (if ix_flags idx AND M680X_IDX_NO_COMMA = 0 then SStream_concat ss '','' else Some ss);
     ss \<leftarrow> printIncDec False info idx ss;
     ss \<leftarrow> printRegName handle (ix_base_reg idx) ss;
     ss \<leftarrow> (if ix_base_reg idx = M680X_REG_PC \<and> ix_offset_bits idx > 0 then SStream_concat ss ''R'' else Some ss);
     ss \<leftarrow> printIncDec True info idx ss;
     if ix_flags idx AND M680X_IDX_INDIRECT \<noteq> 0 then SStream_concat ss '']'' else Some ss }"

definition printOperand :: "cs_struct \<Rightarrow> m680x_info \<Rightarrow> cs_m680x_op \<Rightarrow> SStream \<Rightarrow> SStream option" where
  "printOperand handle info op ss =
     (case mo_type op of
        M680X_OP_REGISTER \<Rightarrow> printRegName handle (mo_reg op) ss
      | M680X_OP_CONSTANT \<Rightarrow> SStream_concat ss (fmt_u (unat (mo_const_val op)))
      | M680X_OP_IMMEDIATE \<Rightarrow>
          if ud_imm_unsigned handle \<noteq> 0 then SStream_concat ss (''#'' @ fmt_u (unat (get_unsigned (mo_imm op) (mo_size op))))
          else SStream_concat ss (''#'' @ decimal_numeral (mo_imm op))
      | M680X_OP_INDEXED \<Rightarrow> printIndexed handle info (mo_idx op) ss
      | M680X_OP_RELATIVE \<Rightarrow> SStream_concat ss (''$'' @ fmt_0X 4 (unat (rl_address (mo_rel op))))
      | M680X_OP_DIRECT \<Rightarrow> SStream_concat ss (''$'' @ fmt_0X 2 (unat (mo_direct_addr op)))
      | M680X_OP_EXTENDED \<Rightarrow>
          if ex_indirect (mo_ext op) then SStream_concat ss (''[$'' @ fmt_0X 4 (unat (ex_address (mo_ext op))) @ '']'')
          else if ex_address (mo_ext op) < 256 then SStream_concat ss (''>$'' @ fmt_0X 4 (unat (ex_address (mo_ext op))))
          else SStream_concat ss (''$'' @ fmt_0X 4 (unat (ex_address (mo_ext op))))
      | M680X_OP_INVALID \<Rightarrow> SStream_concat ss ''<invalid_operand>'')"

section \<open>Instructions\<close>

definition getDelimiter :: "m680x_info \<Rightarrow> string option" where
  "getDelimiter info =
     (if mx_insn info = M680X_INS_TFM then Some '',''
      else do {
        let m680x = mx_m680x info;
        let n = unat (m6_op_count m680x);
        need (n \<le> 1 \<or> n \<le> length (m6_operands m680x));
        let ops = (if n > 1 then take n (m6_operands m680x) else []);
        let indexed = (\<exists>op\<in>set ops. mo_type op = M680X_OP_INDEXED);
        let count = length (filter (\<lambda>op. mo_type op \<noteq> M680X_OP_REGISTER) ops);
        Some (if indexed \<and> count \<ge> 1 then '';'' else '','') })"

text \<open>The copy of the operands to the details, of which the model keeps the count and the types.\<close>

definition copy_operands :: "cs_m680x \<Rightarrow> MCInst \<Rightarrow> MCInst option" where
  "copy_operands m680x = on_detail (\<lambda>d. Some (d\<lparr>d_m680x :=
     \<lparr>ao_op_count = m6_op_count m680x, ao_types = map (\<lambda>op. of_nat (m680x_op_num (mo_type op))) (m6_operands m680x)\<rparr>\<rparr>))"

text \<open>The loop over the operands, from operand \<open>i\<close> on; \<open>n\<close> are left.\<close>

fun print_operands :: "cs_struct \<Rightarrow> m680x_info \<Rightarrow> nat \<Rightarrow> string \<Rightarrow> nat \<Rightarrow> nat \<Rightarrow> SStream \<Rightarrow> SStream option" where
  "print_operands handle info suppress_operands delimiter i 0 ss = Some ss"
| "print_operands handle info suppress_operands delimiter i (Suc n) ss = do {
     ss \<leftarrow> (if i \<ge> suppress_operands then do {
             op \<leftarrow> aget (m6_operands (mx_m680x info)) i;
             ss \<leftarrow> printOperand handle info op ss;
             if n \<noteq> 0 then SStream_concat ss delimiter else Some ss }
           else Some ss);
     print_operands handle info suppress_operands delimiter (i + 1) n ss }"

definition M680X_printInst :: "cs_struct \<Rightarrow> m680x_info \<Rightarrow> MCInst \<Rightarrow> SStream \<Rightarrow> (MCInst \<times> SStream) option" where
  "M680X_printInst handle info MI ss = do {
     let m680x = mx_m680x info;
     delimiter \<leftarrow> getDelimiter info;
     MI \<leftarrow> copy_operands m680x MI;
     if mx_insn info = M680X_INS_INVLD \<or> mx_insn info = M680X_INS_ILLGL then do {
       ss \<leftarrow> (if m6_op_count m680x \<noteq> 0 then do {
               op \<leftarrow> aget (m6_operands m680x) 0;
               SStream_concat ss (''fcb $'' @ fmt_0X 2 (unat (mo_imm op))) }
             else SStream_concat ss ''fcb $<unknown>'');
       Some (MI, ss) }
     else do {
       ss \<leftarrow> printInstructionName handle (mx_insn info) ss;
       ss \<leftarrow> SStream_concat ss '' '';
       let suppress_operands = (if m6_flags m680x AND M680X_FIRST_OP_IN_MNEM \<noteq> 0 then 1 else 0) +
         (if m6_flags m680x AND M680X_SECOND_OP_IN_MNEM \<noteq> 0 then 1 else 0);
       ss \<leftarrow> print_operands handle info suppress_operands delimiter 0 (unat (m6_op_count m680x)) ss;
       Some (MI, ss) } }"

end
