(* ===== verification/M680X_Lemmas.thy ===== *)
theory M680X_Lemmas
  imports M680X_Model
begin

text \<open>
  Lemmas on the M680X decoder: the search of the
  opcode tables, and the resources each operation uses up: operands, registers and groups of the
  details, and bytes of the code.
\<close>

section \<open>The search of a table\<close>

definition rising :: "inst_pageX list \<Rightarrow> bool" where
  "rising tab \<longleftrightarrow> sorted_wrt (\<lambda>x y. fst x < fst y) tab"

lemma rising_nth: "rising tab \<Longrightarrow> i < j \<Longrightarrow> j < length tab \<Longrightarrow> fst (tab ! i) < fst (tab ! j)"
  using sorted_wrt_nth_less [of "\<lambda>x y. fst x < fst y" tab i j] by (simp add: rising_def)

lemma rising_inj: "rising tab \<Longrightarrow> i < length tab \<Longrightarrow> j < length tab \<Longrightarrow> fst (tab ! i) = fst (tab ! j) \<Longrightarrow> i = j"
  by (metis linorder_neqE_nat nat_neq_iff rising_nth)

text \<open>The loop keeps the entry, if there is one, between its bounds.\<close>

lemma bs_loop_finds:
  assumes "rising tab" "0 \<le> first" "fin < int (length tab)"
    and "\<And>i. i < length tab \<Longrightarrow> fst (tab ! i) = opcode \<Longrightarrow> first \<le> int i \<and> int i \<le> fin"
  shows "yields (bs_loop tab opcode first fin) (\<lambda>r. if opcode \<in> fst ` set tab
    then 0 \<le> r \<and> r < int (length tab) \<and> fst (tab ! nat r) = opcode else r = - 1)"
  using assms
proof (induction tab opcode first fin rule: bs_loop.induct)
  case (1 tab opcode first fin)
  let ?m = "(first + fin) div 2"
  show ?case
  proof (cases "first \<le> fin")
    case True
    then have m: "0 \<le> ?m" "nat ?m < length tab" "first \<le> ?m" "?m \<le> fin" using 1 by auto
    have side: "i = nat ?m \<or> (i < nat ?m \<and> fst (tab ! i) < fst (tab ! nat ?m)) \<or> (nat ?m < i \<and> fst (tab ! nat ?m) < fst (tab ! i))"
      if "i < length tab" for i
      using rising_nth [OF 1(3)] that m(2) by (metis linorder_neqE_nat)
    consider "fst (tab ! nat ?m) < opcode" | "fst (tab ! nat ?m) = opcode" | "opcode < fst (tab ! nat ?m)"
      by linarith
    then show ?thesis
    proof cases
      case 1
      have "first \<le> int i \<and> ?m + 1 \<le> int i" if "i < length tab" "fst (tab ! i) = opcode" for i
        using side [OF that(1)] "1.prems"(4) [OF that] that(2) 1 m by auto
      then show ?thesis
        using "1.IH"(1) [OF True refl _ _ 1] "1.prems" m 1 by (subst bs_loop.simps) (auto simp: wp True Let_def)
    next
      case 2
      then have "opcode \<in> fst ` set tab" using m(2) by (metis image_eqI nth_mem)
      with 2 m True show ?thesis by (subst bs_loop.simps) (auto simp: wp Let_def)
    next
      case 3
      have "int i \<le> ?m - 1" if "i < length tab" "fst (tab ! i) = opcode" for i
        using side [OF that(1)] "1.prems"(4) [OF that] that(2) 3 m by auto
      then show ?thesis
        using "1.IH"(2) [OF True refl] "1.prems" m 3 by (subst bs_loop.simps) (auto simp: wp True Let_def)
    qed
  next
    case False
    with 1(6) have "opcode \<notin> fst ` set tab" by (force simp: in_set_conv_nth)
    with False show ?thesis by (simp add: bs_loop.simps wp)
  qed
qed

lemma binary_search_finds:
  assumes "rising tab"
  shows "yields (binary_search tab opcode) (\<lambda>r. if unat opcode \<in> fst ` set tab
    then 0 \<le> r \<and> r < int (length tab) \<and> fst (tab ! nat r) = unat opcode else r = - 1)"
  unfolding binary_search_def by (rule bs_loop_finds [OF assms]) auto

text \<open>The reference: the entry with the opcode, looked for from the start.\<close>

fun page_lookup :: "inst_pageX list \<Rightarrow> nat \<Rightarrow> inst_pageX option" where
  "page_lookup [] opcode = None"
| "page_lookup (e # tab) opcode = (if fst e = opcode then Some e else page_lookup tab opcode)"

lemma page_lookup_None: "page_lookup tab opcode = None \<longleftrightarrow> opcode \<notin> fst ` set tab"
  by (induction tab) auto

lemma page_lookup_nth: "rising tab \<Longrightarrow> i < length tab \<Longrightarrow> page_lookup tab (fst (tab ! i)) = Some (tab ! i)"
proof (induction tab arbitrary: i)
  case (Cons e tab)
  show ?case
  proof (cases i)
    case (Suc j)
    with Cons.prems have j: "rising tab" "j < length tab" by (auto simp: rising_def)
    moreover have "fst e < fst (tab ! j)" using rising_nth [OF Cons.prems(1), of 0 i] Cons.prems(2) Suc by simp
    ultimately show ?thesis using Suc Cons.IH by auto
  qed simp
qed simp

lemma page_lookup_Some: "page_lookup tab opcode = Some e \<Longrightarrow> e \<in> set tab \<and> fst e = opcode"
  by (induction tab) (auto split: if_splits)

text \<open>What the callers do with the result of the search.\<close>

lemma search_entry:
  assumes "rising tab"
  obtains r where "binary_search tab opcode = Some r"
    "page_lookup tab (unat opcode) = (if 0 \<le> r then Some (tab ! nat r) else None)"
    "0 \<le> r \<Longrightarrow> nat r < length tab"
proof -
  obtain r where r: "binary_search tab opcode = Some r" "if unat opcode \<in> fst ` set tab
      then 0 \<le> r \<and> r < int (length tab) \<and> fst (tab ! nat r) = unat opcode else r = - 1"
    using binary_search_finds [OF assms] by (rule yieldsE)
  show ?thesis
  proof (rule that [OF r(1)])
    show "page_lookup tab (unat opcode) = (if 0 \<le> r then Some (tab ! nat r) else None)"
      using r(2) page_lookup_nth [OF assms, of "nat r"] page_lookup_None [of tab "unat opcode"]
      by (auto split: if_splits simp: nat_less_iff)
    show "nat r < length tab" if "0 \<le> r" using r(2) that by (auto split: if_splits)
  qed
qed

section \<open>Registers and groups of the details\<close>

text \<open>
  \<open>budget M r g MI\<close>: \<open>MI\<close> is \<open>M\<close> but for the contents of its details, whose arrays have their
  sizes and hold at most \<open>r\<close> read registers, \<open>r\<close> written registers and \<open>g\<close> groups; each
  register occurs once and is valid.
\<close>

definition reg_list :: "nat \<Rightarrow> u16 list \<Rightarrow> u8 \<Rightarrow> bool" where
  "reg_list r regs n \<longleftrightarrow> unat n \<le> r \<and> distinct (take (unat n) regs) \<and>
     set (take (unat n) regs) \<subseteq> reg_code ` (UNIV - {M680X_REG_INVALID})"

definition detail_budget :: "nat \<Rightarrow> nat \<Rightarrow> cs_detail \<Rightarrow> bool" where
  "detail_budget r g d \<longleftrightarrow> detail_wf d \<and> reg_list r (d_regs_read d) (d_regs_read_count d) \<and>
     reg_list r (d_regs_write d) (d_regs_write_count d) \<and> unat (d_groups_count d) \<le> g"

definition with_detail :: "MCInst \<Rightarrow> (nat \<times> cs_detail) option \<Rightarrow> MCInst" where
  "with_detail MI x = MI\<lparr>mi_flat_insn := (mi_flat_insn MI)\<lparr>in_detail := x\<rparr>\<rparr>"

definition budget :: "MCInst \<Rightarrow> nat \<Rightarrow> nat \<Rightarrow> MCInst \<Rightarrow> bool" where
  "budget M r g MI \<longleftrightarrow>
     (case in_detail (mi_flat_insn M) of None \<Rightarrow> MI = M
      | Some (p, _) \<Rightarrow> \<exists>d. MI = with_detail M (Some (p, d)) \<and> detail_budget r g d)"

lemma detail_budget_mono: "detail_budget r g d \<Longrightarrow> r \<le> r' \<Longrightarrow> g \<le> g' \<Longrightarrow> detail_budget r' g' d"
  by (simp add: detail_budget_def reg_list_def)

lemma budget_mono: "budget M r g MI \<Longrightarrow> r \<le> r' \<Longrightarrow> g \<le> g' \<Longrightarrow> budget M r' g' MI"
  by (auto simp: budget_def intro: detail_budget_mono split: option.splits)

lemma budget_Opcode [simp]: "budget M r g MI \<Longrightarrow> mi_Opcode MI = mi_Opcode M"
  by (auto simp: budget_def with_detail_def split: option.splits)

lemma budget_None [simp]: "budget M r g MI \<Longrightarrow> in_detail (mi_flat_insn MI) = None \<longleftrightarrow> in_detail (mi_flat_insn M) = None"
  by (auto simp: budget_def with_detail_def split: option.splits)

lemma on_detail_budget:
  assumes b: "budget M r g MI"
    and f: "\<And>d. detail_budget r g d \<Longrightarrow> yields (f d) (detail_budget r' g')"
  shows "yields (on_detail f MI) (budget M r' g')"
proof (cases "in_detail (mi_flat_insn M)")
  case None
  with b show ?thesis by (simp add: budget_def on_detail_def wp)
next
  case (Some pd)
  then obtain p d0 where M: "in_detail (mi_flat_insn M) = Some (p, d0)" by (cases pd) auto
  with b obtain d where MI: "MI = with_detail M (Some (p, d))" and "detail_budget r g d"
    by (auto simp: budget_def)
  from f [OF this(2)] obtain d' where "f d = Some d'" "detail_budget r' g' d'" by (rule yieldsE)
  with M MI show ?thesis by (auto simp: budget_def on_detail_def with_detail_def wp)
qed

lemma add_insn_group_budget:
  assumes "budget M r g MI" "g < 8"
  shows "yields (add_insn_group grp MI) (budget M r (g + 1))"
  unfolding add_insn_group_def
  using assms(2) by (intro on_detail_budget [OF assms(1)])
    (auto simp: wp detail_budget_def detail_wf_def unat_word_ariths)

lemma exists_reg_list_yields:
  "n \<le> length regs \<Longrightarrow> exists_reg_list regs n reg = Some (reg \<in> set (take n regs))"
  by (induction regs n reg rule: exists_reg_list.induct) auto

lemma reg_list_snoc:
  assumes "reg_list r regs n" "r < length regs" "r < 255" "c \<notin> set (take (unat n) regs)"
    and "c \<in> reg_code ` (UNIV - {M680X_REG_INVALID})"
  shows "reg_list (r + 1) (regs[unat n := c]) (n + 1)"
proof -
  have n: "unat n < length regs" "unat (n + 1) = Suc (unat n)"
    using assms(1-3) by (simp_all add: reg_list_def unat_word_ariths)
  have "take (Suc (unat n)) (regs[unat n := c]) = take (unat n) regs @ [c]"
    using n(1) by (simp add: take_Suc_conv_app_nth)
  with assms n show ?thesis by (auto simp: reg_list_def)
qed

lemma reg_list_mono: "reg_list r regs n \<Longrightarrow> r \<le> r' \<Longrightarrow> reg_list r' regs n"
  by (simp add: reg_list_def)

lemma add_read_budget:
  assumes "detail_budget r g d" "r < 16" "reg \<noteq> M680X_REG_INVALID"
  shows "yields (add_read reg d) (\<lambda>d'. detail_wf d' \<and> reg_list (r + 1) (d_regs_read d') (d_regs_read_count d') \<and>
    d_regs_write d' = d_regs_write d \<and> d_regs_write_count d' = d_regs_write_count d \<and>
    d_groups_count d' = d_groups_count d)"
proof -
  have d: "detail_wf d" "reg_list r (d_regs_read d) (d_regs_read_count d)" "length (d_regs_read d) = 16"
    "unat (d_regs_read_count d) \<le> r"
    using assms(1) by (simp_all add: detail_budget_def detail_wf_def reg_list_def)
  show ?thesis
    using d assms reg_list_snoc [OF d(2), of "reg_code reg"] reg_list_mono [OF d(2), of "r + 1"]
    by (simp add: add_read_def exists_reg_list_yields wp detail_wf_def)
qed

lemma add_write_budget:
  assumes "detail_wf d" "reg_list r (d_regs_write d) (d_regs_write_count d)" "r < 20" "reg \<noteq> M680X_REG_INVALID"
  shows "yields (add_write reg d) (\<lambda>d'. detail_wf d' \<and> reg_list (r + 1) (d_regs_write d') (d_regs_write_count d') \<and>
    d_regs_read d' = d_regs_read d \<and> d_regs_read_count d' = d_regs_read_count d \<and>
    d_groups_count d' = d_groups_count d)"
proof -
  have d: "length (d_regs_write d) = 20" "unat (d_regs_write_count d) \<le> r"
    using assms(1,2) by (simp_all add: detail_wf_def reg_list_def)
  show ?thesis
    using d assms reg_list_snoc [OF assms(2), of "reg_code reg"] reg_list_mono [OF assms(2), of "r + 1"]
    by (simp add: add_write_def exists_reg_list_yields wp detail_wf_def)
qed

lemma add_reg_to_rw_list_budget:
  assumes "budget M r g MI" "r < 16"
  shows "yields (add_reg_to_rw_list reg access MI) (budget M (r + 1) g)"
  unfolding add_reg_to_rw_list_def
proof (rule on_detail_budget [OF assms(1)])
  fix d assume d: "detail_budget r g d"
  have keep: "detail_budget (r + 1) g d" by (rule detail_budget_mono [OF d]) simp_all
  show "yields (if reg = M680X_REG_INVALID then Some d else case access of
       MODIFY \<Rightarrow> add_read reg d \<bind> add_write reg | WRITE \<Rightarrow> add_write reg d
     | READ \<Rightarrow> add_read reg d | UNCHANGED \<Rightarrow> Some d) (detail_budget (r + 1) g)"
  proof (cases "reg = M680X_REG_INVALID")
    case True with keep show ?thesis by (simp add: wp)
  next
    case False
    note R = add_read_budget [OF d assms(2) False]
    note W = add_write_budget [OF _ _ _ False, of _ r]
    have db: "detail_wf d" "reg_list r (d_regs_write d) (d_regs_write_count d)" "unat (d_groups_count d) \<le> g"
      using d by (simp_all add: detail_budget_def)
    have r: "reg_list (r + 1) (d_regs_read d) (d_regs_read_count d)" "reg_list (r + 1) (d_regs_write d) (d_regs_write_count d)"
      using keep by (simp_all add: detail_budget_def)
    show ?thesis
    proof (cases access)
      case UNCHANGED with False keep show ?thesis by (simp add: wp)
    next
      case READ
      have "yields (add_read reg d) (detail_budget (r + 1) g)"
        by (rule yields_mono [OF R]) (use db r in \<open>auto simp: detail_budget_def\<close>)
      with READ False show ?thesis by simp
    next
      case WRITE
      have "yields (add_write reg d) (detail_budget (r + 1) g)"
        by (rule yields_mono [OF W]) (use db r assms(2) in \<open>auto simp: detail_budget_def\<close>)
      with WRITE False show ?thesis by simp
    next
      case MODIFY
      have "yields (add_read reg d \<bind> add_write reg) (detail_budget (r + 1) g)"
      proof (rule yields_then [OF R], elim conjE)
        fix d' assume "detail_wf d'" "reg_list (r + 1) (d_regs_read d') (d_regs_read_count d')"
          "d_regs_write d' = d_regs_write d" "d_regs_write_count d' = d_regs_write_count d"
          "d_groups_count d' = d_groups_count d"
        then show "yields (add_write reg d') (detail_budget (r + 1) g)"
          using db assms(2) by (intro yields_mono [OF W]) (auto simp: detail_budget_def)
      qed
      with MODIFY False show ?thesis by simp
    qed
  qed
qed

section \<open>The code buffer\<close>

text \<open>
  \<open>env\<close>: the buffer holds the bytes announced and the CPU has its tables. \<open>near info k a\<close>: the
  address \<open>a\<close> is at most \<open>k\<close> bytes after the start of the code.
\<close>

definition env :: "m680x_info \<Rightarrow> bool" where
  "env info \<longleftrightarrow> unat (mx_size info) \<le> length (mx_code info) \<and> unat (mx_size info) < 65536 \<and>
     (\<exists>sizes. ct_reg_byte_size (mx_cpu info) = Some sizes \<and> length sizes = 22) \<and>
     (case ct_tfr_reg_valid (mx_cpu info) of None \<Rightarrow> True | Some v \<Rightarrow> length v = 16)"

definition near :: "m680x_info \<Rightarrow> nat \<Rightarrow> u16 \<Rightarrow> bool" where
  "near info k a \<longleftrightarrow> (\<exists>j\<le>k. a = mx_offset info + of_nat j)"

lemma near_plus: "near info k a \<Longrightarrow> near info (k + m) (a + of_nat m)"
proof -
  assume "near info k a"
  then obtain j where "j \<le> k" "a = mx_offset info + of_nat j" by (auto simp: near_def)
  then show ?thesis by (auto simp: near_def intro!: exI [of _ "j + m"])
qed

lemma near_mono: "near info k a \<Longrightarrow> k \<le> m \<Longrightarrow> near info m a"
  unfolding near_def using le_trans by blast

lemma near_start [simp]: "near info k (mx_offset info)"
  by (auto simp: near_def intro: exI [of _ 0])

lemma mod_wrap: "0 \<le> x \<Longrightarrow> x < 2 * m \<Longrightarrow> x mod m = (if x < m then x else x - m)" for x m :: int
  using mod_pos_pos_trivial [of x m] mod_pos_pos_trivial [of "x - m" m] minus_mod_self2 [of x m] by auto

text \<open>
  The position of an address near the start is its distance, or far before the code after a wrap of
  the address. \<open>fits info j m\<close>: the bytes at \<open>j\<close> to \<open>j + m\<close> can be read together.
\<close>

lemma near_code_pos:
  assumes "j < 65536"
  shows "code_pos info (mx_offset info + of_nat j) =
    (if unat (mx_offset info) + j < 65536 then int j else int j - 65536)"
proof -
  have "uint (mx_offset info) < 65536" using uint_lt2p [of "mx_offset info"] by simp
  moreover have "uint (mx_offset info + of_nat j) = (uint (mx_offset info) + int j) mod 65536"
    using assms by (simp add: uint_word_ariths unsigned_of_nat take_bit_eq_mod zmod_int mod_add_right_eq)
  moreover have "unat (mx_offset info) + j < 65536 \<longleftrightarrow> uint (mx_offset info) + int j < 65536"
    unfolding uint_nat by linarith
  ultimately show ?thesis
    using assms uint_ge_0 [of "mx_offset info"] by (auto simp: code_pos_def mod_wrap)
qed

definition fits :: "m680x_info \<Rightarrow> nat \<Rightarrow> nat \<Rightarrow> bool" where
  "fits info j m \<longleftrightarrow> unat (mx_offset info) + j < 65536 \<and> j + m < unat (mx_size info)"

lemma in_code_iff:
  assumes "env info" "- 65536 \<le> i" "i < 131072"
  shows "in_code info i \<longleftrightarrow> 0 \<le> i \<and> i < int (unat (mx_size info))"
proof -
  have "unat (mx_size info) < 65536" using assms(1) by (simp add: env_def)
  then have "uint (mx_size info) < 65536" unfolding uint_nat by linarith
  moreover have "uint (word_of_int i :: u32) = (if 0 \<le> i then i else i + 4294967296)"
  proof (cases "0 \<le> i")
    case True
    with assms(3) show ?thesis by (simp add: uint_word_of_int mod_pos_pos_trivial)
  next
    case False
    then have "i mod 4294967296 = (i + 4294967296) mod 4294967296" by simp
    also have "\<dots> = i + 4294967296" using False assms(2) by (intro mod_pos_pos_trivial) auto
    finally show ?thesis using False by (simp add: uint_word_of_int)
  qed
  ultimately show ?thesis
    using assms(2,3) unfolding in_code_def word_less_def uint_nat [of "mx_size info"] by (cases "0 \<le> i") auto
qed

lemma in_code_near:
  assumes "env info" "j < 65000" "m < 8"
  shows "in_code info (code_pos info (mx_offset info + of_nat j) + int m) \<longleftrightarrow> fits info j m"
proof -
  have "int j + int m < uint (mx_size info) \<longleftrightarrow> j + m < unat (mx_size info)"
    unfolding uint_nat by linarith
  with assms show ?thesis by (subst in_code_iff) (auto simp: near_code_pos fits_def)
qed

lemma code_at_near:
  assumes "env info" "fits info j m" "n \<le> m" "j < 65000"
  shows "code_at info (code_pos info (mx_offset info + of_nat j) + int n) = Some (mx_code info ! (j + n))"
  using assms by (auto simp: near_code_pos code_at_def env_def nat_add_distrib aget_def fits_def)

lemmas code_near = in_code_near [of _ _ 0, simplified] in_code_near [of _ _ 1, simplified] in_code_near [of _ _ 3, simplified]
  code_at_near [of _ _ _ 0, simplified] code_at_near [of _ _ _ 1, simplified] code_at_near [of _ _ _ 2, simplified]
  code_at_near [of _ _ _ 3, simplified]

lemma read_byte_near:
  assumes "env info" "j < 65000"
  shows "read_byte info (mx_offset info + of_nat j) = Some (if fits info j 0 then Some (mx_code info ! j) else None)"
  using assms by (simp add: read_byte_def code_near)

lemma read_byte_sign_extended_near:
  assumes "env info" "j < 65000"
  shows "read_byte_sign_extended info (mx_offset info + of_nat j) =
    Some (if fits info j 0 then
      Some (let word = ucast (mx_code info ! j) in if word AND 0x80 \<noteq> 0 then word OR 0xFF00 else word) else None)"
  using assms by (simp add: read_byte_sign_extended_def code_near Let_def)

lemma read_word_near:
  assumes "env info" "j < 65000"
  shows "read_word info (mx_offset info + of_nat j) =
    Some (if fits info j 1 then Some (push_bit 8 (ucast (mx_code info ! j)) OR ucast (mx_code info ! (j + 1))) else None)"
  using assms by (simp add: read_word_def code_near Let_def)

lemma read_sdword_near:
  assumes "env info" "j < 65000"
  shows "read_sdword info (mx_offset info + of_nat j) =
    Some (if fits info j 3 then Some (push_bit 24 (ucast (mx_code info ! j)) OR push_bit 16 (ucast (mx_code info ! (j + 1)))
      OR push_bit 8 (ucast (mx_code info ! (j + 2))) OR ucast (mx_code info ! (j + 3))) else None)"
  using assms by (simp add: read_sdword_def code_near Let_def)

lemmas reads_near = read_byte_near read_byte_sign_extended_near read_word_near read_sdword_near

text \<open>Near the start every read is defined.\<close>

lemma reads_defined:
  assumes "env info" "near info k a" "k < 65000"
  shows "yields (read_byte info a) (\<lambda>_. True)" "yields (read_byte_sign_extended info a) (\<lambda>_. True)"
    "yields (read_word info a) (\<lambda>_. True)" "yields (read_sdword info a) (\<lambda>_. True)"
  using assms by (auto simp: near_def wp reads_near)

section \<open>Operands\<close>

text \<open>
  \<open>op_weight\<close> bounds the registers an operand contributes to a list of the details.
  \<open>holding I S n w info\<close>: \<open>info\<close> is \<open>I\<close> but for the instruction, which is one of \<open>S\<close>, and
  the operands, of which at most \<open>n\<close> are in use, with the total weight \<open>w\<close>.
\<close>

definition op_weight :: "cs_m680x_op \<Rightarrow> nat" where
  "op_weight op = (case mo_type op of M680X_OP_REGISTER \<Rightarrow> 1 | M680X_OP_INDEXED \<Rightarrow> 5 | _ \<Rightarrow> 0)"

definition holding :: "m680x_info \<Rightarrow> nat set \<Rightarrow> nat \<Rightarrow> nat \<Rightarrow> m680x_info \<Rightarrow> bool" where
  "holding I S n w info \<longleftrightarrow>
     info = I\<lparr>mx_m680x := mx_m680x info, mx_insn := mx_insn info\<rparr> \<and> mx_insn info \<in> S \<and>
     length (m6_operands (mx_m680x info)) = 9 \<and> unat (m6_op_count (mx_m680x info)) \<le> n \<and>
     sum_list (map op_weight (m6_operands (mx_m680x info))) \<le> w"

lemma holding_mono: "holding I S n w info \<Longrightarrow> S \<subseteq> T \<Longrightarrow> n \<le> n' \<Longrightarrow> w \<le> w' \<Longrightarrow> holding I T n' w' info"
  by (auto simp: holding_def)

lemma holding_same:
  assumes "holding I S n w info"
  shows "mx_code info = mx_code I" "mx_size info = mx_size I" "mx_offset info = mx_offset I"
    "mx_cpu info = mx_cpu I" "mx_cpu_type info = mx_cpu_type I" "mx_insn_size info = mx_insn_size I"
proof -
  have *: "info = I\<lparr>mx_m680x := mx_m680x info, mx_insn := mx_insn info\<rparr>" using assms by (simp add: holding_def)
  show "mx_code info = mx_code I" "mx_size info = mx_size I" "mx_offset info = mx_offset I"
    "mx_cpu info = mx_cpu I" "mx_cpu_type info = mx_cpu_type I" "mx_insn_size info = mx_insn_size I"
    by (subst *, simp)+
qed

lemma holding_env: "holding I S n w info \<Longrightarrow> env info = env I"
  by (simp add: env_def holding_same)

lemma holding_near: "holding I S n w info \<Longrightarrow> near info k a = near I k a"
  by (simp add: near_def holding_same)

lemma holding_slots [simp]: "holding I S n w info \<Longrightarrow> length (m6_operands (mx_m680x info)) = 9"
  by (simp add: holding_def)

lemma new_operand_holding:
  assumes "holding I S n w info" "n < 9"
  shows "fst (new_operand info) < 9" "holding I S (n + 1) w (snd (new_operand info))"
    "mx_insn (snd (new_operand info)) = mx_insn info"
    "m6_operands (mx_m680x (snd (new_operand info))) = m6_operands (mx_m680x info)"
proof -
  obtain x i where info: "info = I\<lparr>mx_m680x := x, mx_insn := i\<rparr>" using assms(1) unfolding holding_def by blast
  show "fst (new_operand info) < 9" "holding I S (n + 1) w (snd (new_operand info))"
    "mx_insn (snd (new_operand info)) = mx_insn info"
    "m6_operands (mx_m680x (snd (new_operand info))) = m6_operands (mx_m680x info)"
    using assms(1,2) unfolding info
    by (simp_all add: holding_def new_operand_def unat_word_ariths)
qed

lemma new_operandE:
  assumes "holding I S n w info" "n < 9"
  obtains i info1 where "new_operand info = (i, info1)" "i < 9" "holding I S (n + 1) w info1"
  using new_operand_holding [OF assms] by (cases "new_operand info") auto

lemma sum_list_update_nat:
  "i < length xs \<Longrightarrow> sum_list (map f (xs[i := y])) + f (xs ! i) = sum_list (map f xs) + f y" for f :: "'a \<Rightarrow> nat"
  by (induction xs arbitrary: i) (auto split: nat.split simp: nth_Cons')

lemma on_operand_holding:
  assumes "holding I S n w info" "i < 9" "\<And>op. op_weight (f op) \<le> op_weight op + c"
  shows "yields (on_operand i f info) (\<lambda>info'. holding I S n (w + c) info' \<and> mx_insn info' = mx_insn info \<and>
    m6_op_count (mx_m680x info') = m6_op_count (mx_m680x info) \<and>
    m6_operands (mx_m680x info') = (m6_operands (mx_m680x info))[i := f (m6_operands (mx_m680x info) ! i)])"
proof -
  let ?ops = "m6_operands (mx_m680x info)"
  obtain x k where info: "info = I\<lparr>mx_m680x := x, mx_insn := k\<rparr>" using assms(1) unfolding holding_def by blast
  have "sum_list (map op_weight (?ops[i := f (?ops ! i)])) + op_weight (?ops ! i) =
      sum_list (map op_weight ?ops) + op_weight (f (?ops ! i))"
    using assms(1,2) by (intro sum_list_update_nat) simp
  then have "sum_list (map op_weight (?ops[i := f (?ops ! i)])) \<le> w + c"
    using assms(3) [of "?ops ! i"] assms(1) unfolding holding_def by linarith
  with assms(1,2) show ?thesis unfolding info by (simp add: on_operand_def holding_def wp)
qed

text \<open>An update that keeps the type of the operand keeps the weight.\<close>

lemma op_weight_type: "mo_type op' = mo_type op \<Longrightarrow> op_weight op' = op_weight op"
  by (simp add: op_weight_def)

lemma op_weight_update [simp]:
  "op_weight (op\<lparr>mo_imm := a\<rparr>) = op_weight op" "op_weight (op\<lparr>mo_reg := b\<rparr>) = op_weight op"
  "op_weight (op\<lparr>mo_rel := c\<rparr>) = op_weight op" "op_weight (op\<lparr>mo_ext := d\<rparr>) = op_weight op"
  "op_weight (op\<lparr>mo_direct_addr := v\<rparr>) = op_weight op" "op_weight (op\<lparr>mo_const_val := v\<rparr>) = op_weight op"
  "op_weight (op\<lparr>mo_size := v\<rparr>) = op_weight op" "op_weight (op\<lparr>mo_access := v\<rparr>) = op_weight op"
  "op_weight (op\<lparr>mo_type := t\<rparr>) = (case t of M680X_OP_REGISTER \<Rightarrow> 1 | M680X_OP_INDEXED \<Rightarrow> 5 | _ \<Rightarrow> 0)"
  by (simp_all add: op_weight_def)

lemma op_weight_on_idx [simp]: "op_weight (on_idx f op) = op_weight op"
  by (simp add: op_weight_def on_idx_def)

lemma op_weight_set_ext [simp]: "op_weight (set_ext_address v op) = op_weight op"
  by (simp add: op_weight_def set_ext_address_def)

lemma on_operand_keeps:
  assumes "holding I S n w info" "i < 9" "\<And>op. op_weight (f op) \<le> op_weight op"
  shows "yields (on_operand i f info) (\<lambda>info'. holding I S n w info' \<and> mx_insn info' = mx_insn info)"
  using on_operand_holding [OF assms(1,2), of f 0] assms(3) by (auto elim: yields_mono)

lemma reg_byte_size_yields: "env info \<Longrightarrow> yields (reg_byte_size info reg) (\<lambda>_. True)"
  by (cases reg) (auto simp: env_def reg_byte_size_def wp)

lemma add_reg_operand_holding:
  assumes "holding I S n w info" "env I" "n < 9"
  shows "yields (add_reg_operand reg info) (\<lambda>info'. holding I S (n + 1) (w + 1) info' \<and> mx_insn info' = mx_insn info)"
proof -
  obtain i info1 where new: "new_operand info = (i, info1)" by fastforce
  then have i: "i < 9" "holding I S (n + 1) w info1" "mx_insn info1 = mx_insn info"
    using new_operand_holding [OF assms(1,3)] by simp_all
  have "yields (reg_byte_size info1 reg) (\<lambda>_. True)"
    using reg_byte_size_yields holding_env [OF i(2)] assms(2) by blast
  then show ?thesis
    unfolding add_reg_operand_def new Let_def prod.case
    by (rule yields_then) (rule yields_mono [OF on_operand_holding [OF i(2,1), of _ 1]], auto simp: op_weight_def i(3))
qed

lemma operand_size_yields:
  "length (m6_operands (mx_m680x info)) = 9 \<Longrightarrow> yields (operand_size info op d) (\<lambda>_. True)"
  by (simp add: operand_size_def wp)

lemma set_operand_size_holding:
  assumes "holding I S n w info" "i < 9"
  shows "yields (set_operand_size i d info) (\<lambda>info'. holding I S n w info' \<and> mx_insn info' = mx_insn info)"
  unfolding set_operand_size_def
  using assms operand_size_yields [of info]
  by (simp add: wp) (auto intro!: yields_mono [OF operand_size_yields] on_operand_keeps simp: op_weight_def)

lemma sized_operand_holding:
  assumes "holding I S n w info" "n < 9" "op_weight (zero_op\<lparr>mo_type := ty\<rparr>) \<le> c"
  shows "yields (sized_operand ty info) (\<lambda>(i, info'). i < 9 \<and> holding I S (n + 1) (w + c) info' \<and> mx_insn info' = mx_insn info)"
proof -
  obtain i info1 where new: "new_operand info = (i, info1)" by fastforce
  then have i: "i < 9" "holding I S (n + 1) w info1" "mx_insn info1 = mx_insn info"
    using new_operand_holding [OF assms(1,2)] by simp_all
  have "op_weight (op\<lparr>mo_type := ty\<rparr>) \<le> op_weight op + c" for op
    using assms(3) by (simp add: op_weight_def)
  then have "yields (on_operand i (\<lambda>op. op\<lparr>mo_type := ty\<rparr>) info1) (\<lambda>info'. holding I S (n + 1) (w + c) info' \<and> mx_insn info' = mx_insn info)"
    using i(3) by (intro yields_mono [OF on_operand_holding [OF i(2,1)]]) auto
  then show ?thesis
    unfolding sized_operand_def new Let_def prod.case
    by (rule yields_then) (auto simp: wp i(1) elim!: yields_mono [OF set_operand_size_holding [OF _ i(1)]])
qed

section \<open>Handlers\<close>

text \<open>
  What a handler may use up: \<open>c\<close> operands of weight \<open>v\<close>, \<open>d\<close> registers listed at once, \<open>e\<close>
  groups and \<open>m\<close> bytes; \<open>T\<close> are the instructions it may change to. The state around it is
  described by \<open>after\<close>.
\<close>

definition after :: "MCInst \<Rightarrow> m680x_info \<Rightarrow> nat set \<Rightarrow> nat \<Rightarrow> nat \<Rightarrow> nat \<Rightarrow> nat \<Rightarrow> nat \<Rightarrow> MCInst \<times> m680x_info \<times> u16 \<Rightarrow> bool" where
  "after M I S r g n w k = (\<lambda>(MI, info, a). budget M r g MI \<and> holding I S n w info \<and> near I k a)"

lemma after_iff [simp]:
  "after M I S r g n w k (MI, info, a) \<longleftrightarrow> budget M r g MI \<and> holding I S n w info \<and> near I k a"
  by (simp add: after_def)

definition hdlr_spec :: "hdlr \<Rightarrow> nat \<Rightarrow> nat \<Rightarrow> nat \<Rightarrow> nat \<Rightarrow> nat \<Rightarrow> nat set \<Rightarrow> bool" where
  "hdlr_spec h c v d e m T \<longleftrightarrow>
     (\<forall>M I S r g n w k MI info a.
        env I \<longrightarrow> budget M r g MI \<longrightarrow> holding I S n w info \<longrightarrow> near I k a \<longrightarrow>
        n + c \<le> 9 \<longrightarrow> r + d \<le> 16 \<longrightarrow> g + e \<le> 8 \<longrightarrow> k + m < 65000 \<longrightarrow>
        yields (h MI info a) (after M I (S \<union> T) (r + d) (g + e) (n + c) (w + v) (k + m)))"

lemma near_steps:
  "near I k a \<Longrightarrow> near I (k + 1) (a + 1)" "near I k a \<Longrightarrow> near I (k + 2) (a + 2)"
  "near I k a \<Longrightarrow> near I (k + 2) (2 + a)"
  using near_plus [of I k a 1] near_plus [of I k a 2] by (simp_all add: add.commute)

lemma yields_or_keep: "yields m (\<lambda>_. True) \<Longrightarrow> (\<And>x. Q x) \<Longrightarrow> yields (or_keep v m) Q"
  by (auto simp: or_keep_def wp elim: yields_mono)

lemma reads_holding:
  assumes "holding I S n w info" "near I k a" "env I" "k < 65000"
  shows "yields (read_byte info a) (\<lambda>_. True)" "yields (read_byte_sign_extended info a) (\<lambda>_. True)"
    "yields (read_word info a) (\<lambda>_. True)" "yields (read_sdword info a) (\<lambda>_. True)"
proof -
  have "env info" "near info k a" using assms(1-3) by (simp_all add: holding_env holding_near)
  from reads_defined [OF this assms(4)]
  show "yields (read_byte info a) (\<lambda>_. True)" "yields (read_byte_sign_extended info a) (\<lambda>_. True)"
    "yields (read_word info a) (\<lambda>_. True)" "yields (read_sdword info a) (\<lambda>_. True)" by simp_all
qed

lemma keep_then:
  assumes "yields m (\<lambda>_. True)" "\<And>x. yields (f x) Q"
  shows "yields (or_keep v m \<bind> f) Q"
  by (simp add: wp yields_or_keep assms)

lemmas read_then [wpi] = keep_then [OF reads_holding(1)] keep_then [OF reads_holding(2)]
  keep_then [OF reads_holding(3)] keep_then [OF reads_holding(4)]

lemma group_then [wpi]:
  assumes "budget M r g MI" "g < 8" "\<And>MI. budget M r (g + 1) MI \<Longrightarrow> yields (f MI) Q"
  shows "yields (add_insn_group grp MI \<bind> f) Q"
    "yields ((if b then add_insn_group grp MI else Some MI) \<bind> f) Q"
proof -
  show *: "yields (add_insn_group grp MI \<bind> f) Q"
    by (rule yields_then [OF add_insn_group_budget [OF assms(1,2)] assms(3)])
  show "yields ((if b then add_insn_group grp MI else Some MI) \<bind> f) Q"
    using * assms(3) [OF budget_mono [OF assms(1)]] by (simp add: wp)
qed

lemma reg_then [wpi]:
  assumes "budget M r g MI" "r < 16" "\<And>MI. budget M (r + 1) g MI \<Longrightarrow> yields (f MI) Q"
  shows "yields (add_reg_to_rw_list reg access MI \<bind> f) Q"
    "yields ((if b then add_reg_to_rw_list reg access MI else Some MI) \<bind> f) Q"
proof -
  show *: "yields (add_reg_to_rw_list reg access MI \<bind> f) Q"
    by (rule yields_then [OF add_reg_to_rw_list_budget [OF assms(1,2)] assms(3)])
  show "yields ((if b then add_reg_to_rw_list reg access MI else Some MI) \<bind> f) Q"
    using * assms(3) [OF budget_mono [OF assms(1)]] by (simp add: wp)
qed

lemma aget_then [wpi]: "i < length xs \<Longrightarrow> (\<And>x. yields (f x) Q) \<Longrightarrow> yields (aget xs i \<bind> f) Q"
  by (simp add: wp)

lemma add_reg_operand_then [wpi]:
  assumes "holding I S n w info" "env I" "n < 9"
    and "\<And>info'. holding I S (n + 1) (w + 1) info' \<Longrightarrow> mx_insn info' = mx_insn info \<Longrightarrow> yields (f info') Q"
  shows "yields (add_reg_operand reg info \<bind> f) Q"
  using yields_then [OF add_reg_operand_holding [OF assms(1-3)]] assms(4) by blast

lemma on_operand_then:
  assumes "holding I S n w info" "i < 9" "\<And>op. op_weight (f op) \<le> op_weight op"
    and "\<And>info'. holding I S n w info' \<Longrightarrow> mx_insn info' = mx_insn info \<Longrightarrow> yields (g info') Q"
  shows "yields (on_operand i f info \<bind> g) Q"
  using yields_then [OF on_operand_keeps [OF assms(1-3)]] assms(4) by blast

lemma sized_operand_then:
  assumes "holding I S n w info" "n < 9" "op_weight (zero_op\<lparr>mo_type := ty\<rparr>) \<le> c"
    and "\<And>i info'. i < 9 \<Longrightarrow> holding I S (n + 1) (w + c) info' \<Longrightarrow> mx_insn info' = mx_insn info \<Longrightarrow> yields (f (i, info')) Q"
  shows "yields (sized_operand ty info \<bind> f) Q"
  using yields_then [OF sized_operand_holding [OF assms(1-3)]] assms(4) by auto

lemma typed_operand_then [wpi]:
  assumes "holding I S n w info" "n < 9" "ty \<in> {M680X_OP_DIRECT, M680X_OP_EXTENDED, M680X_OP_IMMEDIATE}"
    and "\<And>i info'. i < 9 \<Longrightarrow> holding I S (n + 1) w info' \<Longrightarrow> mx_insn info' = mx_insn info \<Longrightarrow> yields (f (i, info')) Q"
  shows "yields (sized_operand ty info \<bind> f) Q"
  using assms(3,4) by (intro sized_operand_then [OF assms(1,2), of _ 0]) (auto simp: op_weight_def)

lemma indexed_operand_then [wpi]:
  assumes "holding I S n w info" "n < 9"
    and "\<And>i info'. i < 9 \<Longrightarrow> holding I S (n + 1) (w + 5) info' \<Longrightarrow> mx_insn info' = mx_insn info \<Longrightarrow> yields (f (i, info')) Q"
  shows "yields (sized_operand M680X_OP_INDEXED info \<bind> f) Q"
  using assms(3) by (intro sized_operand_then [OF assms(1,2), of _ 5]) (auto simp: op_weight_def)

text \<open>A new operand whose type is set at once.\<close>

lemma new_operand_then:
  assumes "holding I S n w info" "n < 9" "\<And>op. op_weight (f op) \<le> op_weight op + c"
    and "\<And>info'. holding I S (n + 1) (w + c) info' \<Longrightarrow> mx_insn info' = mx_insn info \<Longrightarrow> Q info'"
  shows "yields (on_operand (fst (new_operand info)) f (snd (new_operand info))) Q"
proof -
  note new = new_operand_holding [OF assms(1,2)]
  show ?thesis
    by (rule yields_mono [OF on_operand_holding [OF new(2,1) assms(3)]]) (use assms(4) new(3) in auto)
qed

lemma add_rel_operand_holding:
  assumes "holding I S n w info" "n < 9"
  shows "yields (add_rel_operand offset a info) (\<lambda>info'. holding I S (n + 1) w info' \<and> mx_insn info' = mx_insn info)"
  unfolding add_rel_operand_def Let_def prod.case_eq_if
  by (rule new_operand_then [OF assms, of _ 0]) (simp_all add: op_weight_def)

lemma add_const_operand_holding:
  assumes "holding I S n w info" "n < 9"
  shows "yields (add_const_operand v info) (\<lambda>info'. holding I S (n + 1) w info' \<and> mx_insn info' = mx_insn info)"
  unfolding add_const_operand_def Let_def prod.case_eq_if
  by (rule new_operand_then [OF assms, of _ 0]) (simp_all add: op_weight_def)

lemma add_indexed_operand_holding:
  assumes "holding I S n w info" "n < 9"
  shows "yields (add_indexed_operand reg post inc bits offset nc info)
    (\<lambda>info'. holding I S (n + 1) (w + 5) info' \<and> mx_insn info' = mx_insn info)"
  unfolding add_indexed_operand_def
  by (rule sized_operand_then [OF assms, of _ 5])
    (simp add: op_weight_def, auto intro!: yields_mono [OF on_operand_keeps])

lemma add_operand_then [wpi]:
  assumes "holding I S n w info" "n < 9"
    and "\<And>info'. holding I S (n + 1) w info' \<Longrightarrow> mx_insn info' = mx_insn info \<Longrightarrow> yields (f info') Q"
  shows "yields (add_rel_operand offset a info \<bind> f) Q" "yields (add_const_operand v info \<bind> f) Q"
  using yields_then [OF add_rel_operand_holding [OF assms(1,2)]] yields_then [OF add_const_operand_holding [OF assms(1,2)]]
    assms(3) by blast+

lemma add_indexed_operand_then [wpi]:
  assumes "holding I S n w info" "n < 9"
    and "\<And>info'. holding I S (n + 1) (w + 5) info' \<Longrightarrow> mx_insn info' = mx_insn info \<Longrightarrow> yields (f info') Q"
  shows "yields (add_indexed_operand reg post inc bits offset nc info \<bind> f) Q"
  using yields_then [OF add_indexed_operand_holding [OF assms(1,2)]] assms(3) by blast

lemma hdlr_specI:
  assumes "\<And>M I S r g n w k MI info a. env I \<Longrightarrow> budget M r g MI \<Longrightarrow> holding I S n w info \<Longrightarrow> near I k a \<Longrightarrow>
    n + c \<le> 9 \<Longrightarrow> r + d \<le> 16 \<Longrightarrow> g + e \<le> 8 \<Longrightarrow> k + m < 65000 \<Longrightarrow>
    yields (h MI info a) (after M I (S \<union> T) (r + d) (g + e) (n + c) (w + v) (k + m))"
  shows "hdlr_spec h c v d e m T"
  using assms unfolding hdlr_spec_def by blast

lemma hdlr_specD:
  assumes "hdlr_spec h c v d e m T" "env I" "budget M r g MI" "holding I S n w info" "near I k a"
    and "n + c \<le> 9" "r + d \<le> 16" "g + e \<le> 8" "k + m < 65000"
  shows "yields (h MI info a) (after M I (S \<union> T) (r + d) (g + e) (n + c) (w + v) (k + m))"
  using assms unfolding hdlr_spec_def by blast

lemma hdlr_spec_mono:
  assumes "hdlr_spec h c v d e m T" "c \<le> c'" "v \<le> v'" "d \<le> d'" "e \<le> e'" "m \<le> m'" "T \<subseteq> T'"
  shows "hdlr_spec h c' v' d' e' m' T'"
proof (rule hdlr_specI)
  fix M I S r g n w k MI info a
  assume "env I" "budget M r g MI" "holding I S n w info" "near I k a"
    "n + c' \<le> 9" "r + d' \<le> 16" "g + e' \<le> 8" "k + m' < 65000"
  then have "yields (h MI info a) (after M I (S \<union> T) (r + d) (g + e) (n + c) (w + v) (k + m))"
    using assms(2-) by (intro hdlr_specD [OF assms(1)]) auto
  then show "yields (h MI info a) (after M I (S \<union> T') (r + d') (g + e') (n + c') (w + v') (k + m'))"
    by (rule yields_mono)
      (use assms(2-) in \<open>auto simp: after_def elim!: budget_mono holding_mono near_mono\<close>)
qed

lemma hdlr_spec_seq:
  assumes "hdlr_spec h1 c1 v1 d1 e1 m1 T1" "hdlr_spec h2 c2 v2 d2 e2 m2 T2"
  shows "hdlr_spec (\<lambda>MI info a. h1 MI info a \<bind> (\<lambda>(MI, info, a). h2 MI info a))
    (c1 + c2) (v1 + v2) (d1 + d2) (e1 + e2) (m1 + m2) (T1 \<union> T2)"
proof (rule hdlr_specI)
  fix M I S r g n w k MI info a
  assume *: "env I" "budget M r g MI" "holding I S n w info" "near I k a"
    "n + (c1 + c2) \<le> 9" "r + (d1 + d2) \<le> 16" "g + (e1 + e2) \<le> 8" "k + (m1 + m2) < 65000"
  show "yields (h1 MI info a \<bind> (\<lambda>(MI, info, a). h2 MI info a))
    (after M I (S \<union> (T1 \<union> T2)) (r + (d1 + d2)) (g + (e1 + e2)) (n + (c1 + c2)) (w + (v1 + v2)) (k + (m1 + m2)))"
  proof (rule yields_then [OF hdlr_specD [OF assms(1) *(1-4)]])
    fix x assume x: "after M I (S \<union> T1) (r + d1) (g + e1) (n + c1) (w + v1) (k + m1) x"
    obtain MI' info' a' where eq: "x = (MI', info', a')" by (cases x)
    have "yields (h2 MI' info' a') (after M I ((S \<union> T1) \<union> T2) ((r + d1) + d2) ((g + e1) + e2) ((n + c1) + c2) ((w + v1) + v2) ((k + m1) + m2))"
      using x *(5-8) by (intro hdlr_specD [OF assms(2) *(1)]) (auto simp: eq after_def)
    then show "yields (case x of (MI, info, a) \<Rightarrow> h2 MI info a)
      (after M I (S \<union> (T1 \<union> T2)) (r + (d1 + d2)) (g + (e1 + e2)) (n + (c1 + c2)) (w + (v1 + v2)) (k + (m1 + m2)))"
      by (simp add: eq add.assoc Un_assoc)
  qed (use *(5-8) in simp_all)
qed

text \<open>The end of a handler.\<close>

lemma afterI [wpi]:
  assumes "budget M r g MI" "holding I S n w info" "near I k a"
    and "r \<le> r'" "g \<le> g'" "S \<subseteq> S'" "n \<le> n'" "w \<le> w'" "k \<le> k'"
  shows "yields (Some (MI, info, a)) (after M I S' r' g' n' w' k')"
  using assms by (auto simp: after_def wp intro: budget_mono holding_mono near_mono)

lemma inherent_hdlr_spec: "hdlr_spec inherent_hdlr 0 0 0 0 0 {}"
  by (rule hdlr_specI) (auto simp: inherent_hdlr_def intro: afterI)

lemma relative8_hdlr_spec: "hdlr_spec relative8_hdlr 1 0 1 1 1 {}"
  by (rule hdlr_specI) (unfold relative8_hdlr_def Let_def, (rule wpi near_steps | assumption | simp)+)

lemma relative16_hdlr_spec: "hdlr_spec relative16_hdlr 1 0 1 1 2 {}"
  by (rule hdlr_specI) (unfold relative16_hdlr_def Let_def, (rule wpi near_steps | assumption | simp)+)

text \<open>Indices cut out of a byte.\<close>

lemma and_mask_less: "unat (b AND mask n :: u8) < 2 ^ n"
proof -
  have "unat (b AND mask n) = take_bit n (unat b)"
    by (simp add: unsigned_take_bit_eq flip: take_bit_eq_mask)
  then show ?thesis by simp
qed

lemma index_less [simp]:
  "unat (b AND 0x0f :: u8) < 16" "unat (b AND 0x07 :: u8) < 8" "unat (b AND 0x03 :: u8) < 4"
  "unat (drop_bit 4 b :: u8) < 16" "unat (drop_bit 6 b :: u8) < 4"
proof -
  have "unat b < 256" using unsigned_less [of b] by simp
  then show "unat (drop_bit 4 b) < 16" "unat (drop_bit 6 b) < 4"
    unfolding unat_drop_bit_eq unfolding drop_bit_eq_div by simp_all
  show "unat (b AND 0x0f) < 16" "unat (b AND 0x07) < 8" "unat (b AND 0x03) < 4"
    using and_mask_less [of b 4] and_mask_less [of b 3] and_mask_less [of b 2]
    by (simp_all add: mask_eq_exp_minus_1)
qed

lemma id_table_lengths [simp]:
  "length g_tfr_exg_reg_ids = 16" "length g_tfr_exg12_reg0_ids = 8" "length g_tfr_exg12_reg1_ids = 8"
  "length g_rr5_to_reg_ids = 4" "length g_idx12_to_reg_ids = 4" "length bit_move_regs = 4"
  "length loop_reg_ids = 8" "length loop_insn_ids = 8"
  by (simp_all add: g_tfr_exg_reg_ids_def g_tfr_exg12_reg0_ids_def g_tfr_exg12_reg1_ids_def g_rr5_to_reg_ids_def
      g_idx12_to_reg_ids_def bit_move_regs_def loop_reg_ids_def loop_insn_ids_def)

lemma reg_reg09_hdlr_spec: "hdlr_spec reg_reg09_hdlr 2 2 0 1 1 {}"
  by (rule hdlr_specI) (unfold reg_reg09_hdlr_def Let_def, (rule wpi near_steps | assumption | simp)+)

lemma opidx_hdlr_spec: "hdlr_spec opidx_hdlr 1 0 0 0 0 {}"
  by (rule hdlr_specI) (unfold opidx_hdlr_def Let_def, (rule wpi near_steps | assumption | simp)+)

lemma indexed8_hdlr_spec: "hdlr_spec (indexed8_hdlr reg post inc) 1 5 0 0 1 {}"
  by (rule hdlr_specI) (unfold indexed8_hdlr_def Let_def, (rule wpi near_steps | assumption | simp)+)

lemma indexedX0_hdlr_spec: "hdlr_spec indexedX0_hdlr 1 5 0 0 0 {}"
  by (rule hdlr_specI) (unfold indexedX0_hdlr_def Let_def, (rule wpi near_steps | assumption | simp)+)

lemma indexedX16_hdlr_spec: "hdlr_spec indexedX16_hdlr 1 5 0 0 2 {}"
  by (rule hdlr_specI) (unfold indexedX16_hdlr_def Let_def, (rule wpi near_steps | assumption | simp)+)

lemma indexedS16_hdlr_spec: "hdlr_spec indexedS16_hdlr 1 5 0 0 0 {}"
  by (rule hdlr_specI) (unfold indexedS16_hdlr_def Let_def, (rule wpi near_steps | assumption | simp)+)

lemma indexedX0p_hdlr_spec: "hdlr_spec indexedX0p_hdlr 1 5 0 0 0 {}"
  by (rule hdlr_specI) (unfold indexedX0p_hdlr_def Let_def, (rule wpi near_steps | assumption | simp)+)

lemma direct_hdlr_spec: "hdlr_spec direct_hdlr 1 0 0 0 1 {}"
  by (rule hdlr_specI) (unfold direct_hdlr_def Let_def prod.case,
    (rule wpi near_steps on_operand_then | assumption | simp)+)

lemma extended_hdlr_spec: "hdlr_spec extended_hdlr 1 0 0 0 2 {}"
  by (rule hdlr_specI) (unfold extended_hdlr_def Let_def prod.case,
    (rule wpi near_steps on_operand_then | assumption | simp)+)

lemma opidx_dir_rel_hdlr_spec: "hdlr_spec opidx_dir_rel_hdlr 3 0 2 1 2 {}"
  by (rule hdlr_specI)
    (unfold opidx_dir_rel_hdlr_def direct_hdlr_def relative8_hdlr_def Let_def prod.case bind_assoc bind.bind_lunit,
      (rule wpi near_steps on_operand_then | assumption | simp)+)

lemma bit_move_hdlr_spec: "hdlr_spec bit_move_hdlr 4 1 0 0 2 {}"
  by (rule hdlr_specI) (unfold bit_move_hdlr_def direct_hdlr_def Let_def prod.case,
    (rule wpi near_steps on_operand_then | assumption | simp)+)

lemma near_ucast: "near I k a \<Longrightarrow> near I (k + 255) (a + ucast (b :: u8))"
proof -
  assume "near I k a"
  then have "near I (k + unat b) (a + of_nat (unat b))" by (rule near_plus)
  moreover have "unat b < 256" using unsigned_less [of b] by simp
  moreover have "of_nat (unat b) = (ucast b :: u16)" by simp
  ultimately show ?thesis by (auto elim: near_mono)
qed

lemma immediate_hdlr_spec: "hdlr_spec immediate_hdlr 1 0 0 0 255 {}"
proof (rule hdlr_specI)
  fix M I S r g n w k MI info a
  assume *: "env I" "budget M r g MI" "holding I S n w info" "near I k a" "n + 1 \<le> 9" "r + 0 \<le> 16" "g + 0 \<le> 8" "k + 255 < 65000"
  show "yields (immediate_hdlr MI info a) (after M I (S \<union> {}) (r + 0) (g + 0) (n + 1) (w + 0) (k + 255))"
    unfolding immediate_hdlr_def
  proof (rule typed_operand_then [OF *(3)], use * in simp, simp, unfold prod.case, rule aget_then, simp)
    fix i :: nat and info' op assume h: "holding I S (n + 1) w info'" and i: "i < 9"
    have "near I (k + 255) (a + ucast (mo_size op))" using *(4) by (rule near_ucast)
    then have fin: "yields (Some (MI, info'', a + ucast (mo_size op))) (after M I (S \<union> {}) (r + 0) (g + 0) (n + 1) (w + 0) (k + 255))"
      if "holding I S (n + 1) w info''" for info''
      using * that by (intro afterI) auto
    have k: "k < 65000" using * by simp
    note R = reads_holding [OF h *(4,1) k, THEN yields_or_keep]
    show "yields ((if mo_size op = 1 then map_option scast (or_keep 0 (read_byte_sign_extended info' a))
            else if mo_size op = 2 then map_option scast (or_keep 0 (read_word info' a))
            else if mo_size op = 4 then or_keep (mo_imm op) (read_sdword info' a) else Some 0) \<bind>
           (\<lambda>imm. on_operand i (mo_imm_update (\<lambda>_. imm)) info' \<bind> (\<lambda>info. Some (MI, info, a + ucast (mo_size op)))))
         (after M I (S \<union> {}) (r + 0) (g + 0) (n + 1) (w + 0) (k + 255))"
      by (rule any_then, simp add: wp R, rule on_operand_then [OF h i], simp, erule fin)
  qed
qed

lemma set_insn_holding: "holding I S n w info \<Longrightarrow> i \<in> T \<Longrightarrow> holding I (S \<union> T) n w (info\<lparr>mx_insn := i\<rparr>)"
  unfolding holding_def by (cases info, cases I) auto

lemma reg_reg12_hdlr_spec: "hdlr_spec reg_reg12_hdlr 2 2 0 0 1 {M680X_INS_EXG, M680X_INS_TFR}"
  by (rule hdlr_specI) (unfold reg_reg12_hdlr_def Let_def prod.case,
    (rule wpi near_steps on_operand_then set_insn_holding [where T = "{M680X_INS_EXG, M680X_INS_TFR}"] | assumption
      | simp del: Un_insert_right)+)

lemma imm_rel_hdlr_spec: "hdlr_spec imm_rel_hdlr 2 0 1 1 256 {}"
proof -
  have "imm_rel_hdlr = (\<lambda>MI info a. immediate_hdlr MI info a \<bind> (\<lambda>(MI, info, a). relative8_hdlr MI info a))"
    by (intro ext) (simp add: imm_rel_hdlr_def)
  then show ?thesis
    using hdlr_spec_seq [OF immediate_hdlr_spec relative8_hdlr_spec] by (simp add: numeral_2_eq_2)
qed

lemma index_hdlr_spec: "hdlr_spec index_hdlr 1 0 0 0 1 {}"
proof (rule hdlr_specI)
  fix M I S r g n w k MI info a
  assume *: "env I" "budget M r g MI" "holding I S n w info" "near I k a" "n + 1 \<le> 9" "r + 0 \<le> 16" "g + 0 \<le> 8" "k + 1 < 65000"
  have "n < 9" using *(5) by simp
  with *(3) obtain i info1 where new: "new_operand info = (i, info1)" and i: "i < 9" "holding I S (n + 1) w info1"
    by (rule new_operandE)
  show "yields (index_hdlr MI info a) (after M I (S \<union> {}) (r + 0) (g + 0) (n + 1) (w + 0) (k + 1))"
    unfolding index_hdlr_def new Let_def prod.case
    using * i by - (rule wpi near_steps on_operand_then | assumption | simp)+
qed

lemma illegal_hdlr_spec: "hdlr_spec illegal_hdlr 1 0 0 0 1 {M680X_INS_ILLGL}"
proof (rule hdlr_specI)
  fix M I S r g n w k MI info a
  assume *: "env I" "budget M r g MI" "holding I S n w info" "near I k a" "n + 1 \<le> 9" "r + 0 \<le> 16" "g + 0 \<le> 8" "k + 1 < 65000"
  have "n < 9" using *(5) by simp
  with *(3) obtain i info1 where new: "new_operand info = (i, info1)" and i: "i < 9" "holding I S (n + 1) w info1"
    by (rule new_operandE)
  have "holding I (S \<union> {M680X_INS_ILLGL}) (n + 1) w (info1\<lparr>mx_insn := M680X_INS_ILLGL\<rparr>)"
    by (rule set_insn_holding [OF i(2)]) simp
  then show "yields (illegal_hdlr MI info a) (after M I (S \<union> {M680X_INS_ILLGL}) (r + 0) (g + 0) (n + 1) (w + 0) (k + 1))"
    unfolding illegal_hdlr_def new Let_def prod.case
    using * i(1) by - (rule wpi near_steps on_operand_then | assumption | simp del: Un_insert_right)+
qed

lemma idx_mode_steps:
  assumes h: "holding I S n w info" "i < 9" and near: "near I k' a'"
  shows "(\<And>op. op_weight (f op) \<le> op_weight op) \<Longrightarrow> yields (on_operand i f info \<bind> (\<lambda>info. Some (info, a')))
      (\<lambda>(info', a'). holding I S n w info' \<and> near I k' a')"
    and "yields (map_option (\<lambda>info. (info, a')) (on_operand i (on_idx g) info))
      (\<lambda>(info', a'). holding I S n w info' \<and> near I k' a')"
    and "yields (Some (info, a')) (\<lambda>(info', a'). holding I S n w info' \<and> near I k' a')"
  using near h by (auto simp: wp intro!: yields_mono [OF on_operand_keeps [OF h]])

lemma idx09_mode_holding:
  assumes h: "holding I S n w info" "i < 9" and a: "near I k a" "env I" "k < 65000"
    and k': "near I k' a" "near I k' (a + 1)" "near I k' (a + 2)"
  shows "yields (idx09_mode info pb i a) (\<lambda>(info', a'). holding I S n w info' \<and> near I k' a')"
  unfolding idx09_mode_def Let_def
  using h a k' by (auto intro!: idx_mode_steps read_then [OF h(1) a] aget_then)

lemma idx12_mode_holding:
  assumes h: "holding I S n w info" "i < 9" and a: "near I k a" "env I" "k < 65000"
    and k': "near I k' a" "near I k' (a + 1)" "near I k' (a + 2)"
  shows "yields (idx12_mode info pb i a) (\<lambda>(info', a'). holding I S n w info' \<and> near I k' a')"
proof -
  have or12: "unat (pb AND 0x03) < length g_or12_to_reg_ids" if "pb AND 0xe7 \<in> {0xe4, 0xe5, 0xe6}"
  proof -
    have "(pb AND 0xe7) AND 0x03 = pb AND 0x03" by (simp add: and.assoc)
    with that have "pb AND 0x03 \<in> {0, 1, 2}" by auto
    then show ?thesis by (auto simp: g_or12_to_reg_ids_def)
  qed
  have base: "yields (if pb AND 0xe0 = 0xe0 then do {
      reg \<leftarrow> aget g_idx12_to_reg_ids (unat (drop_bit 3 pb AND 0x03));
      on_operand i (on_idx (\<lambda>x. x\<lparr>ix_base_reg := reg\<rparr>)) info } else Some info)
    (\<lambda>info'. holding I S n w info')"
    using h by (auto intro!: aget_then yields_mono [OF on_operand_keeps] simp: wp)
  show ?thesis
    unfolding idx12_mode_def
    apply (rule yields_then [OF base])
    subgoal premises p for info'
      unfolding Let_def
      using p h(2) a k' or12
      by (auto intro!: idx_mode_steps read_then [OF p a] aget_then)
    done
qed

lemma indexed09_hdlr_spec: "hdlr_spec indexed09_hdlr 1 5 1 0 3 {}"
proof (rule hdlr_specI)
  fix M I S r g n w k MI info a
  assume *: "env I" "budget M r g MI" "holding I S n w info" "near I k a" "n + 1 \<le> 9" "r + 1 \<le> 16" "g + 0 \<le> 8" "k + 3 < 65000"
  have k: "near I (k + 1) (a + 1)" "near I (k + 3) (a + 1)" "near I (k + 3) (a + 1 + 1)" "near I (k + 3) (a + 1 + 2)"
    using *(4) near_plus [of I k a 1] near_plus [of I k a 2] near_plus [of I k a 3]
    by (auto simp: add.assoc elim: near_mono)
  have k3: "k + 1 < 65000" using *(8) by simp
  show "yields (indexed09_hdlr MI info a) (after M I (S \<union> {}) (r + 1) (g + 0) (n + 1) (w + 5) (k + 3))"
    unfolding indexed09_hdlr_def Let_def
    apply (rule read_then [OF *(3,4,1)])
    subgoal using *(8) by simp
    apply (rule indexed_operand_then [OF *(3)])
    subgoal using *(5) by simp
    apply (unfold prod.case)
    apply (rule aget_then, simp)
    apply (rule on_operand_then, assumption, assumption, simp)
    apply (rule yields_then [where P = "\<lambda>(info', a'). holding I S (n + 1) (w + 5) info' \<and> near I (k + 3) a'"])
    subgoal premises p for pb i info1 reg info2
      using p by (auto intro!: idx_mode_steps idx09_mode_holding [OF _ p(1) k(1) *(1) k3 k(2-4)] yields_then [OF on_operand_keeps] simp: k bind.bind_lunit)
    using * by - (clarify, (rule aget_then reg_then(2) afterI | assumption | simp)+)
qed

lemma indexed12_hdlr_spec: "hdlr_spec indexed12_hdlr 1 5 0 0 3 {}"
proof (rule hdlr_specI)
  fix M I S r g n w k MI info a
  assume *: "env I" "budget M r g MI" "holding I S n w info" "near I k a" "n + 1 \<le> 9" "r + 0 \<le> 16" "g + 0 \<le> 8" "k + 3 < 65000"
  have k: "near I (k + 1) (a + 1)" "near I (k + 3) (a + 1)" "near I (k + 3) (a + 1 + 1)" "near I (k + 3) (a + 1 + 2)"
    using *(4) near_plus [of I k a 1] near_plus [of I k a 2] near_plus [of I k a 3]
    by (auto simp: add.assoc elim: near_mono)
  have k3: "k + 1 < 65000" using *(8) by simp
  show "yields (indexed12_hdlr MI info a) (after M I (S \<union> {}) (r + 0) (g + 0) (n + 1) (w + 5) (k + 3))"
    unfolding indexed12_hdlr_def Let_def
    apply (rule read_then [OF *(3,4,1)])
    subgoal using *(8) by simp
    apply (rule indexed_operand_then [OF *(3)])
    subgoal using *(5) by simp
    apply (unfold prod.case)
    apply (rule on_operand_then, assumption, assumption, simp)
    apply (rule yields_then [where P = "\<lambda>(info', a'). holding I S (n + 1) (w + 5) info' \<and> near I (k + 3) a'"])
    subgoal premises p for pb i info1 info2
      using p by (auto intro!: aget_then idx_mode_steps idx12_mode_holding [OF _ p(1) k(1) *(1) k3 k(2-4)] yields_then [OF on_operand_keeps] simp: k bind.bind_lunit)
    using * by - (clarify, (rule afterI | assumption | simp)+)
qed

lemma set_operand_size_then [wpi]:
  assumes "holding I S n w info" "i < 9"
    and "\<And>info'. holding I S n w info' \<Longrightarrow> mx_insn info' = mx_insn info \<Longrightarrow> yields (f info') Q"
  shows "yields (set_operand_size i d info \<bind> f) Q"
  using yields_then [OF set_operand_size_holding [OF assms(1,2)]] assms(3) by blast

lemma imm_idx12_x_hdlr_spec: "hdlr_spec imm_idx12_x_hdlr 2 5 0 0 3 {}"
proof (rule hdlr_specI)
  fix M I S r g n w k MI info a
  assume *: "env I" "budget M r g MI" "holding I S n w info" "near I k a" "n + 2 \<le> 9" "r + 0 \<le> 16" "g + 0 \<le> 8" "k + 3 < 65000"
  have "n < 9" using *(5) by simp
  with *(3) obtain i info1 where new: "new_operand info = (i, info1)" "i < 9" "holding I S (n + 1) w info1"
    by (rule new_operandE)
  show "yields (imm_idx12_x_hdlr MI info a) (after M I (S \<union> {}) (r + 0) (g + 0) (n + 2) (w + 5) (k + 3))"
    unfolding imm_idx12_x_hdlr_def new Let_def prod.case
    apply (rule yields_then [OF hdlr_specD [OF indexed12_hdlr_spec *(1,2) new(3) *(4)]])
    using * new(2) apply (simp_all, clarsimp)
    subgoal premises p for MI' info'
      using p new(2)
      by (auto intro!: on_operand_then [OF _ new(2)] read_then [OF _ _ *(1,8)] set_operand_size_then yields_then [OF on_operand_keeps] afterI)
    done
qed

lemma ext_idx12_x_hdlr_spec: "hdlr_spec ext_idx12_x_hdlr 2 5 0 0 3 {}"
proof (rule hdlr_specI)
  fix M I S r g n w k MI info a
  assume *: "env I" "budget M r g MI" "holding I S n w info" "near I k a" "n + 2 \<le> 9" "r + 0 \<le> 16" "g + 0 \<le> 8" "k + 3 < 65000"
  have "n < 9" using *(5) by simp
  with *(3) obtain i info1 where new: "new_operand info = (i, info1)" "i < 9" "holding I S (n + 1) w info1"
    by (rule new_operandE)
  show "yields (ext_idx12_x_hdlr MI info a) (after M I (S \<union> {}) (r + 0) (g + 0) (n + 2) (w + 5) (k + 3))"
    unfolding ext_idx12_x_hdlr_def new Let_def prod.case
    apply (rule yields_then [OF hdlr_specD [OF indexed12_hdlr_spec *(1,2) new(3) *(4)]])
    using * new(2) apply (simp_all, clarsimp)
    subgoal premises p for MI' info'
      using p new(2) by - (rule on_operand_then [OF _ new(2)] read_then [OF _ _ *(1,8)] set_operand_size_then afterI | assumption | simp)+
    done
qed

lemma loop_hdlr_spec:
  "hdlr_spec loop_hdlr 3 1 0 1 3 (set loop_insn_ids)"
proof (rule hdlr_specI)
  fix M I S r g n w k MI info a
  let ?T = "S \<union> set loop_insn_ids"
  assume *: "env I" "budget M r g MI" "holding I S n w info" "near I k a" "n + 3 \<le> 9" "r + 0 \<le> 16" "g + 1 \<le> 8" "k + 3 < 65000"
  have k: "near I (k + 1) (a + 1)" using near_plus [OF *(4), of 1] by simp
  show "yields (loop_hdlr MI info a) (after M I ?T (r + 0) (g + 1) (n + 3) (w + 1) (k + 3))"
    unfolding loop_hdlr_def Let_def
    apply (rule read_then [OF *(3,4,1)])
    subgoal using *(8) by simp
    apply (rule aget_nth_then, simp)
    subgoal for pb
    proof -
      let ?insn = "loop_insn_ids ! unat (drop_bit 5 pb AND 7)"
      have h: "holding I ?T n w (info\<lparr>mx_insn := ?insn\<rparr>)"
        by (rule set_insn_holding [OF *(3)]) simp
      have *: "yields (if ?insn = M680X_INS_ILLGL then illegal_hdlr MI (info\<lparr>mx_insn := ?insn\<rparr>) (a + 1)
          else Some (MI, info\<lparr>mx_insn := ?insn\<rparr>, a + 1)) (after M I ?T r g (n + 1) w (k + 2))"
        using hdlr_specD [OF illegal_hdlr_spec *(1,2) h k] * h k
        by (auto intro!: afterI simp: loop_insn_ids_def insert_absorb)
      show ?thesis
        apply (rule yields_then [OF *], clarsimp simp del: One_nat_def add_2_eq_Suc')
        subgoal premises p for MI' info' a'
        proof -
          have n: "n + 1 + 1 < 9" "k + 2 < 65000" "near I (k + 3) (a' + 1)"
            using \<open>n + 3 \<le> 9\<close> \<open>k + 3 < 65000\<close> near_plus [OF p(3), of 1]
            by (simp_all add: numeral_3_eq_3 numeral_2_eq_2)
          show ?thesis
            apply (rule read_then [OF p(2,3) \<open>env I\<close> n(2)])
            apply (rule aget_then, simp)
            apply (rule add_reg_operand_then [OF p(2) \<open>env I\<close>], use n in simp)
            subgoal premises q for rel reg info2
            proof (cases "new_operand info2")
              case (Pair i info3)
              have new: "i < 9" "holding I ?T (n + 1 + 1 + 1) (w + 1) info3"
                using new_operand_holding [OF q(1) n(1)] Pair by simp_all
              show ?thesis
                unfolding Pair prod.case
                using p(1) new n(3) \<open>g + 1 \<le> 8\<close>
                by - (rule on_operand_then group_then(1) afterI | assumption | simp)+
            qed
            done
        qed
        done
    qed
    done
qed

text \<open>
  The block transfer needs an opcode from 0x38 to 0x3b, the register list the stack pointer that the
  mnemonic names.
\<close>

lemma tfm_index_less:
  assumes "0x38 \<le> unat (op AND 0xff :: u32)" "unat (op AND 0xff) \<le> 0x3b"
  shows "unat (ucast (op AND 0xff) - (0x38 :: u8)) < 4"
proof -
  have "unat (ucast (op AND 0xff) :: u8) = unat (op AND 0xff)"
    unfolding unsigned_ucast_eq using assms(2) by (simp add: take_bit_nat_eq_self)
  with assms show ?thesis by (subst unat_sub) (auto simp: word_le_nat_alt)
qed

lemma tfm_hdlr_after:
  assumes "env I" "budget M r g MI" "holding I S n w info" "near I k a" "n + 2 \<le> 9" "r + 1 \<le> 16" "k + 1 < 65000"
    and op: "0x38 \<le> unat (mi_Opcode M AND 0xff)" "unat (mi_Opcode M AND 0xff) \<le> 0x3b"
  shows "yields (tfm_hdlr MI info a) (after M I S (r + 1) g (n + 2) (w + 10) (k + 1))"
proof -
  have i: "unat (ucast (mi_Opcode MI AND 0xff) - (0x38 :: u8)) < 4"
    using tfm_index_less [OF op] assms(2) by simp
  show ?thesis
    unfolding tfm_hdlr_def Let_def
    using assms(1-7) i
    by - (rule wpi near_steps | assumption | simp add: inc_dec_r0_def inc_dec_r1_def)+
qed

lemma reg_bits_from_holding:
  assumes "holding I S n w info" "env I" "n + length regs \<le> 9"
  shows "yields (reg_bits_from bits regs i info) (holding I S (n + length regs) (w + length regs))"
  using assms(1,3)
proof (induction regs arbitrary: i n w info)
  case Nil then show ?case by (simp add: wp)
next
  case (Cons reg regs)
  have "yields (if bit bits i then add_reg_operand reg info else Some info) (holding I S (n + 1) (w + 1))"
    using Cons.prems(2) holding_mono [OF Cons.prems(1)]
    by (auto simp: wp intro!: yields_mono [OF add_reg_operand_holding [OF Cons.prems(1) assms(2)]])
  then show ?case
    unfolding reg_bits_from.simps
    by (rule yields_then) (use Cons.IH [of "n + 1" "w + 1"] Cons.prems(2) in auto)
qed

lemma reg_bits_hdlr_after:
  assumes "env I" "budget M r g MI" "holding I S n w info" "near I k a" "n + 8 \<le> 9" "r \<le> 16" "g + 1 \<le> 8" "k + 1 < 65000"
    and "mo_reg (m6_operands (mx_m680x info) ! 0) \<in> {M680X_REG_S, M680X_REG_U}"
  shows "yields (reg_bits_hdlr MI info a) (after M I S r (g + 1) (n + 8) (w + 8) (k + 1))"
proof -
  let ?op = "m6_operands (mx_m680x info) ! 0"
  have ids: "yields (if mo_reg ?op = M680X_REG_U then Some reg_u_reg_ids
      else if mo_reg ?op = M680X_REG_S then Some reg_s_reg_ids else None) (\<lambda>regs. length regs = 8)"
    using assms(9) by (auto simp: wp reg_u_reg_ids_def reg_s_reg_ids_def)
  show ?thesis
    unfolding reg_bits_hdlr_def
    apply (rule aget_nth_then, use assms(3) in simp)
    apply (rule read_then [OF assms(3,4,1)], use assms(8) in simp)
    apply (rule yields_then [OF ids])
    apply (rule group_then [OF assms(2)], use assms(7) in simp)
    subgoal premises p for bits regs MI'
      by (rule yields_then [OF reg_bits_from_holding [OF assms(3,1), of regs]])
        (use assms p near_steps(1) [OF assms(4)] in \<open>auto intro!: afterI\<close>)
    done
qed

end
