(* ===== verification/M680X_Decode.thy ===== *)
theory M680X_Decode
  imports M680X_Lemmas
begin

text \<open>
  The M680X decoder as a whole: the access lists, facts about every entry of the opcode tables, the
  recognition of an instruction, and the safety of the decoder.
\<close>

section \<open>Access lists\<close>

lemma update_am_reg_list_budget:
  assumes b: "budget M r g MI" and r: "r + op_weight op \<le> 16" and e: "env info"
  shows "yields (update_am_reg_list info op access MI) (budget M (r + op_weight op) g)"
proof -
  have H: "yields (if ix_base_reg (mo_idx op) = M680X_REG_X then map_option (\<lambda>h. h \<noteq> 0) (reg_byte_size info M680X_REG_H)
      else Some False) (\<lambda>_. True)"
    using reg_byte_size_yields [OF e] by (simp add: wp)
  have id: "budget M (r + op_weight op) g MI" by (rule budget_mono [OF b]) simp_all
  show ?thesis
  proof (cases "mo_type op")
    case M680X_OP_REGISTER
    with r id add_reg_to_rw_list_budget [OF b, of "mo_reg op" access] show ?thesis
      by (simp add: update_am_reg_list_def wp op_weight_def)
  next
    case M680X_OP_INDEXED
    then have w: "op_weight op = 5" by (simp add: op_weight_def)
    have "yields (do {
          MI \<leftarrow> add_reg_to_rw_list (ix_base_reg (mo_idx op)) READ MI;
          with_H \<leftarrow> (if ix_base_reg (mo_idx op) = M680X_REG_X then map_option (\<lambda>h. h \<noteq> 0) (reg_byte_size info M680X_REG_H)
                    else Some False);
          MI \<leftarrow> (if with_H then add_reg_to_rw_list M680X_REG_H READ MI else Some MI);
          MI \<leftarrow> (if ix_offset_reg (mo_idx op) \<noteq> M680X_REG_INVALID then add_reg_to_rw_list (ix_offset_reg (mo_idx op)) READ MI
                else Some MI);
          if ix_inc_dec (mo_idx op) \<noteq> 0 then do {
            MI \<leftarrow> add_reg_to_rw_list (ix_base_reg (mo_idx op)) WRITE MI;
            if with_H then add_reg_to_rw_list M680X_REG_H WRITE MI else Some MI }
          else Some MI }) (budget M (r + 5) g)"
      apply (rule reg_then(1) [OF b], use r w in simp)
      apply (rule any_then [OF H])
      apply (rule reg_then(2), assumption, use r w in simp)
      apply (rule reg_then(2), assumption, use r w in simp)
      subgoal premises p for MI1 with_H MI2 MI3
        using p(3) r w
        by (auto simp: wp intro!: budget_mono [OF p(3)] reg_then(1) [OF p(3)] yields_mono [OF add_reg_to_rw_list_budget]
            elim: budget_mono)
      done
    with M680X_OP_INDEXED w id b show ?thesis by (simp add: update_am_reg_list_def Let_def yields_Some)
  qed (use id in \<open>simp_all add: update_am_reg_list_def wp\<close>)
qed

lemma get_access_yields: "yields (get_access i mode) (\<lambda>_. True)"
proof -
  have "access_mode_num mode < 15" by (cases mode) simp_all
  moreover have "(if i > 3 then 3 else i) < length g_access_mode_to_access" by (simp add: g_access_mode_to_access_def)
  moreover have "\<forall>row\<in>set g_access_mode_to_access. length row = 15" by (simp add: g_access_mode_to_access_def)
  ultimately show ?thesis unfolding get_access_def by (simp only: wp) (metis nth_mem)
qed

lemma build_regs_from_budget:
  assumes "env info" "i + n \<le> length (m6_operands (mx_m680x info))" "budget M r g MI"
    and "r + sum_list (map op_weight (take n (drop i (m6_operands (mx_m680x info))))) \<le> 16"
  shows "yields (build_regs_from info mode i n MI)
    (budget M (r + sum_list (map op_weight (take n (drop i (m6_operands (mx_m680x info)))))) g)"
  using assms(2-)
proof (induction n arbitrary: i r MI)
  case 0 then show ?case by (simp add: wp)
next
  case (Suc n)
  let ?ops = "m6_operands (mx_m680x info)"
  have split: "take (Suc n) (drop i ?ops) = ?ops ! i # take n (drop (i + 1) ?ops)"
    using Suc.prems(1) by (simp add: Cons_nth_drop_Suc [symmetric])
  show ?case
    unfolding build_regs_from.simps
    apply (rule any_then [OF get_access_yields])
    apply (rule aget_nth_then, use Suc.prems in simp)
    apply (rule yields_then [OF update_am_reg_list_budget [OF Suc.prems(2) _ assms(1)]], use Suc.prems(3) split in simp)
    subgoal premises p for access MI'
      using Suc.IH [OF _ p] Suc.prems by (simp add: split add.assoc)
    done
qed

lemma build_regs_read_write_counts_budget:
  assumes "env info" "holding I S n w info" "n \<le> 9" "budget M r g MI" "r + w \<le> 16"
  shows "yields (build_regs_read_write_counts info mode MI) (budget M (r + w) g)"
proof -
  let ?ops = "m6_operands (mx_m680x info)" and ?n = "unat (m6_op_count (mx_m680x info))"
  have "sum_list (map op_weight ?ops) = sum_list (map op_weight (take ?n ?ops)) + sum_list (map op_weight (drop ?n ?ops))"
    by (metis append_take_drop_id map_append sum_list_append)
  then have le: "sum_list (map op_weight (take ?n ?ops)) \<le> w"
    using assms(2) unfolding holding_def by linarith
  have "yields (build_regs_from info mode 0 ?n MI) (budget M (r + w) g)"
    using build_regs_from_budget [OF assms(1) _ assms(4), of 0 ?n mode] assms(2,3,5) le
    by (auto simp: holding_def elim!: yields_mono budget_mono)
  then show ?thesis
    using budget_mono [OF assms(4), of "r + w" g] assms(4)
    by (simp add: build_regs_read_write_counts_def wp)
qed

lemma operators_access_from_holding:
  assumes "holding I S c w info" "i + n \<le> 9"
  shows "yields (operators_access_from mode i offset n info) (\<lambda>info'. holding I S c w info' \<and> mx_insn info' = mx_insn info)"
  using assms
proof (induction n arbitrary: i offset info)
  case 0 then show ?case by (simp add: wp)
next
  case (Suc n)
  show ?case
    unfolding operators_access_from.simps Let_def
    apply (rule any_then [OF get_access_yields])
    apply (rule on_operand_then [OF Suc.prems(1)], use Suc.prems(2) in simp, simp)
    subgoal premises p for access info'
      using Suc.IH [OF p(1), of "i + 1"] Suc.prems(2) p(2) by simp
    done
qed

lemma add_operators_access_holding:
  assumes "holding I S n w info" "n \<le> 9"
  shows "yields (add_operators_access MI mode info) (\<lambda>info'. holding I S n w info' \<and> mx_insn info' = mx_insn info)"
  using operators_access_from_holding [OF assms(1), of 0] assms
  by (auto simp: add_operators_access_def wp holding_def)

text \<open>The registers of the instruction in \<^verbatim>\<open>changed_regs\<close>.\<close>

definition changed_count :: "nat \<Rightarrow> nat" where
  "changed_count insn = sum_list (map (\<lambda>(i, _, regs). if i = insn then length regs else 0) changed_regs)"

lemma changed_entry_budget:
  assumes "env info" "budget M r g MI" "r + length regs \<le> 16"
  shows "yields (changed_entry info mode j regs MI) (budget M (r + length regs) g)"
  using assms(2,3)
proof (induction regs arbitrary: j r MI)
  case Nil then show ?case by (simp add: wp)
next
  case (Cons reg regs)
  have one: "yields (if sz = 0 \<and> mx_insn info \<noteq> M680X_INS_MUL then Some MI
      else get_access j mode \<bind> (\<lambda>access. add_reg_to_rw_list (if sz = 0 then M680X_REG_X else reg) access MI))
    (budget M (r + 1) g)" for sz :: u8
    using budget_mono [OF Cons.prems(1), of "r + 1" g] Cons.prems
      add_reg_to_rw_list_budget [OF Cons.prems(1)]
    by (auto simp: yields_Some intro!: any_then [OF get_access_yields])
  show ?case
    unfolding changed_entry.simps
    apply (rule any_then [OF reg_byte_size_yields [OF assms(1)]])
    apply (rule yields_then [OF one])
    subgoal premises p for sz MI'
      using Cons.IH [OF p] Cons.prems(2) by simp
    done
qed

lemma changed_from_budget:
  assumes "env info" "budget M r g MI"
    and "r + sum_list (map (\<lambda>(i, _, regs). if i = mx_insn info then length regs else 0) xs) \<le> 16"
  shows "yields (changed_from info xs MI)
    (budget M (r + sum_list (map (\<lambda>(i, _, regs). if i = mx_insn info then length regs else 0) xs)) g)"
  using assms(2,3)
proof (induction xs arbitrary: r MI)
  case Nil then show ?case by (simp add: wp)
next
  case (Cons x xs)
  obtain insn mode regs where x: "x = (insn, mode, regs)" by (cases x)
  let ?c = "if insn = mx_insn info then length regs else 0"
  have "yields (if mx_insn info = insn then changed_entry info mode 0 regs MI else Some MI) (budget M (r + ?c) g)"
    using changed_entry_budget [OF assms(1) Cons.prems(1), of regs mode 0] Cons.prems by (auto simp: wp x)
  then show ?case
    unfolding x changed_from.simps
    by (rule yields_then) (use Cons.IH [of "r + ?c"] Cons.prems(2) in \<open>auto simp: x add.assoc split: if_splits\<close>)
qed

lemma set_changed_budget:
  assumes "env info" "budget M r g MI" "r + changed_count (mx_insn info) \<le> 16"
  shows "yields (set_changed_regs_read_write_counts info MI) (budget M (r + changed_count (mx_insn info)) g)"
  using changed_from_budget [OF assms(1,2), of changed_regs] budget_mono [OF assms(2)] assms
  by (simp add: set_changed_regs_read_write_counts_def changed_count_def wp)

section \<open>The entries of the opcode tables\<close>

text \<open>
  What the handler of an identifier uses up: operands, registers of the details (those it lists
  itself and those its operands contribute), and bytes.
\<close>

primrec hid_ops :: "insn_hdlr_id \<Rightarrow> nat" where
  "hid_ops illgl_hid = 1" | "hid_ops rel8_hid = 1" | "hid_ops rel16_hid = 1" | "hid_ops imm8_hid = 1"
| "hid_ops imm16_hid = 1" | "hid_ops imm32_hid = 1" | "hid_ops dir_hid = 1" | "hid_ops ext_hid = 1"
| "hid_ops idxX_hid = 1" | "hid_ops idxY_hid = 1" | "hid_ops idx09_hid = 1" | "hid_ops inh_hid = 0"
| "hid_ops rr09_hid = 2" | "hid_ops rbits_hid = 8" | "hid_ops bitmv_hid = 4" | "hid_ops tfm_hid = 2"
| "hid_ops opidx_hid = 1" | "hid_ops opidxdr_hid = 3" | "hid_ops idxX0_hid = 1" | "hid_ops idxX16_hid = 1"
| "hid_ops imm8rel_hid = 2" | "hid_ops idxS_hid = 1" | "hid_ops idxS16_hid = 1" | "hid_ops idxXp_hid = 1"
| "hid_ops idxX0p_hid = 1" | "hid_ops idx12_hid = 1" | "hid_ops idx12s_hid = 1" | "hid_ops rr12_hid = 2"
| "hid_ops loop_hid = 3" | "hid_ops index_hid = 1" | "hid_ops imm8i12x_hid = 2" | "hid_ops imm16i12x_hid = 2"
| "hid_ops exti12x_hid = 2"

primrec hid_regs :: "insn_hdlr_id \<Rightarrow> nat" where
  "hid_regs illgl_hid = 0" | "hid_regs rel8_hid = 1" | "hid_regs rel16_hid = 1" | "hid_regs imm8_hid = 0"
| "hid_regs imm16_hid = 0" | "hid_regs imm32_hid = 0" | "hid_regs dir_hid = 0" | "hid_regs ext_hid = 0"
| "hid_regs idxX_hid = 5" | "hid_regs idxY_hid = 5" | "hid_regs idx09_hid = 6" | "hid_regs inh_hid = 0"
| "hid_regs rr09_hid = 2" | "hid_regs rbits_hid = 8" | "hid_regs bitmv_hid = 1" | "hid_regs tfm_hid = 11"
| "hid_regs opidx_hid = 0" | "hid_regs opidxdr_hid = 2" | "hid_regs idxX0_hid = 5" | "hid_regs idxX16_hid = 5"
| "hid_regs imm8rel_hid = 1" | "hid_regs idxS_hid = 5" | "hid_regs idxS16_hid = 5" | "hid_regs idxXp_hid = 5"
| "hid_regs idxX0p_hid = 5" | "hid_regs idx12_hid = 5" | "hid_regs idx12s_hid = 5" | "hid_regs rr12_hid = 2"
| "hid_regs loop_hid = 1" | "hid_regs index_hid = 0" | "hid_regs imm8i12x_hid = 5" | "hid_regs imm16i12x_hid = 5"
| "hid_regs exti12x_hid = 5"

primrec hid_size :: "insn_hdlr_id \<Rightarrow> nat" where
  "hid_size illgl_hid = 0" | "hid_size rel8_hid = 1" | "hid_size rel16_hid = 2" | "hid_size imm8_hid = 1"
| "hid_size imm16_hid = 2" | "hid_size imm32_hid = 4" | "hid_size dir_hid = 1" | "hid_size ext_hid = 2"
| "hid_size idxX_hid = 1" | "hid_size idxY_hid = 1" | "hid_size idx09_hid = 3" | "hid_size inh_hid = 0"
| "hid_size rr09_hid = 1" | "hid_size rbits_hid = 1" | "hid_size bitmv_hid = 2" | "hid_size tfm_hid = 1"
| "hid_size opidx_hid = 0" | "hid_size opidxdr_hid = 2" | "hid_size idxX0_hid = 0" | "hid_size idxX16_hid = 2"
| "hid_size imm8rel_hid = 2" | "hid_size idxS_hid = 1" | "hid_size idxS16_hid = 2" | "hid_size idxXp_hid = 1"
| "hid_size idxX0p_hid = 0" | "hid_size idx12_hid = 3" | "hid_size idx12s_hid = 1" | "hid_size rr12_hid = 1"
| "hid_size loop_hid = 2" | "hid_size index_hid = 1" | "hid_size imm8i12x_hid = 4" | "hid_size imm16i12x_hid = 5"
| "hid_size exti12x_hid = 5"

text \<open>The instructions with more than two registers in \<^verbatim>\<open>changed_regs\<close>.\<close>

definition heavy_insns :: "nat list" where
  "heavy_insns = [M680X_INS_CWAI, M680X_INS_DIV, M680X_INS_EDIV, M680X_INS_EDIVS, M680X_INS_MEM, M680X_INS_REV,
     M680X_INS_REVW, M680X_INS_RTI, M680X_INS_SWI, M680X_INS_SWI2, M680X_INS_SWI3, M680X_INS_WAI, M680X_INS_WAV,
     M680X_INS_WAVR]"

text \<open>
  An entry is within the arrays: with the two registers a mnemonic may name at most nine operands,
  and with those, the flags and \<^verbatim>\<open>changed_regs\<close> at most sixteen registers. It has at most six
  bytes after the opcode. The handlers with preconditions meet them.
\<close>

definition entry_ok :: "nat \<Rightarrow> nat \<times> insn_hdlr_id \<times> insn_hdlr_id \<Rightarrow> bool" where
  "entry_ok opc e = (case e of (insn, h0, h1) \<Rightarrow>
     insn < 357 \<and> insn \<noteq> M680X_INS_INVLD \<and> hid_size h0 + hid_size h1 \<le> 6 \<and> hid_ops h0 + hid_ops h1 \<le> (if h0 = rbits_hid then 8 else 7) \<and>
     h1 \<noteq> tfm_hid \<and> h1 \<noteq> rbits_hid \<and> (h0 = tfm_hid \<longrightarrow> 0x38 \<le> opc \<and> opc \<le> 0x3b) \<and>
     (h0 = rbits_hid \<longrightarrow> insn = M680X_INS_PSHS \<or> insn = M680X_INS_PSHU \<or> insn = M680X_INS_PULS \<or> insn = M680X_INS_PULU) \<and>
     (hid_regs h0 + hid_regs h1 \<le> 4 \<or> hid_regs h0 + hid_regs h1 \<le> 11 \<and> insn \<notin> set heavy_insns))"

definition page_ok :: "inst_pageX list \<Rightarrow> bool" where
  "page_ok tab \<longleftrightarrow> tab \<noteq> [] \<and> successively (\<lambda>x y. fst x < fst y) tab \<and> 
     list_all (\<lambda>e. fst e < 256 \<and> fst (snd e) \<noteq> M680X_INS_ILLGL \<and> entry_ok (fst e) (snd e)) tab"

lemma page_ok_rising: "page_ok tab \<Longrightarrow> rising tab"
  unfolding page_ok_def rising_def
  using successively_conv_sorted_wrt [of "\<lambda>x y :: inst_pageX. fst x < fst y"] by (simp add: transp_def)

lemma m6801_inst_overlay_table_ok: "page_ok g_m6801_inst_overlay_table"
  by (simp add: g_m6801_inst_overlay_table_def page_ok_def entry_ok_def heavy_insns_def cong del: successively_cong)

lemma hd6301_inst_overlay_table_ok: "page_ok g_hd6301_inst_overlay_table"
  by (simp add: g_hd6301_inst_overlay_table_def page_ok_def entry_ok_def heavy_insns_def cong del: successively_cong)

lemma m6811_inst_overlay_table_ok: "page_ok g_m6811_inst_overlay_table"
  by (simp add: g_m6811_inst_overlay_table_def page_ok_def entry_ok_def heavy_insns_def cong del: successively_cong)

lemma m6811_inst_page2_table_ok: "page_ok g_m6811_inst_page2_table"
  by (simp add: g_m6811_inst_page2_table_def page_ok_def entry_ok_def heavy_insns_def cong del: successively_cong)

lemma m6811_inst_page3_table_ok: "page_ok g_m6811_inst_page3_table"
  by (simp add: g_m6811_inst_page3_table_def page_ok_def entry_ok_def heavy_insns_def cong del: successively_cong)

lemma m6811_inst_page4_table_ok: "page_ok g_m6811_inst_page4_table"
  by (simp add: g_m6811_inst_page4_table_def page_ok_def entry_ok_def heavy_insns_def cong del: successively_cong)

lemma cpu12_inst_page2_table_ok: "page_ok g_cpu12_inst_page2_table"
  by (simp add: g_cpu12_inst_page2_table_def page_ok_def entry_ok_def heavy_insns_def cong del: successively_cong)

lemma m6808_inst_overlay_table_ok: "page_ok g_m6808_inst_overlay_table"
  by (simp add: g_m6808_inst_overlay_table_def page_ok_def entry_ok_def heavy_insns_def cong del: successively_cong)

lemma m6808_inst_page2_table_ok: "page_ok g_m6808_inst_page2_table"
  by (simp add: g_m6808_inst_page2_table_def page_ok_def entry_ok_def heavy_insns_def cong del: successively_cong)

lemma hcs08_inst_overlay_table_ok: "page_ok g_hcs08_inst_overlay_table"
  by (simp add: g_hcs08_inst_overlay_table_def page_ok_def entry_ok_def heavy_insns_def cong del: successively_cong)

lemma hcs08_inst_page2_table_ok: "page_ok g_hcs08_inst_page2_table"
  by (simp add: g_hcs08_inst_page2_table_def page_ok_def entry_ok_def heavy_insns_def cong del: successively_cong)

lemma m6809_inst_page2_table_ok: "page_ok g_m6809_inst_page2_table"
  by (simp add: g_m6809_inst_page2_table_def page_ok_def entry_ok_def heavy_insns_def cong del: successively_cong)

lemma m6809_inst_page3_table_ok: "page_ok g_m6809_inst_page3_table"
  by (simp add: g_m6809_inst_page3_table_def page_ok_def entry_ok_def heavy_insns_def cong del: successively_cong)

lemma hd6309_inst_overlay_table_ok: "page_ok g_hd6309_inst_overlay_table"
  by (simp add: g_hd6309_inst_overlay_table_def page_ok_def entry_ok_def heavy_insns_def cong del: successively_cong)

lemma hd6309_inst_page2_table_ok: "page_ok g_hd6309_inst_page2_table"
  by (simp add: g_hd6309_inst_page2_table_def page_ok_def entry_ok_def heavy_insns_def cong del: successively_cong)

lemma hd6309_inst_page3_table_ok: "page_ok g_hd6309_inst_page3_table"
  by (simp add: g_hd6309_inst_page3_table_def page_ok_def entry_ok_def heavy_insns_def cong del: successively_cong)

lemma m6800_inst_page1_table_ok: "length g_m6800_inst_page1_table = 256 \<and> list_all (entry_ok 0) g_m6800_inst_page1_table"
  by (simp add: g_m6800_inst_page1_table_def entry_ok_def heavy_insns_def)

lemma cpu12_inst_page1_table_ok: "length g_cpu12_inst_page1_table = 256 \<and> list_all (entry_ok 0) g_cpu12_inst_page1_table"
  by (simp add: g_cpu12_inst_page1_table_def entry_ok_def heavy_insns_def)

lemma m6805_inst_page1_table_ok: "length g_m6805_inst_page1_table = 256 \<and> list_all (entry_ok 0) g_m6805_inst_page1_table"
  by (simp add: g_m6805_inst_page1_table_def entry_ok_def heavy_insns_def)

lemma m6809_inst_page1_table_ok: "length g_m6809_inst_page1_table = 256 \<and> list_all (entry_ok 0) g_m6809_inst_page1_table"
  by (simp add: g_m6809_inst_page1_table_def entry_ok_def heavy_insns_def)

lemmas tables_ok =
  m6801_inst_overlay_table_ok hd6301_inst_overlay_table_ok m6811_inst_overlay_table_ok m6811_inst_page2_table_ok m6811_inst_page3_table_ok m6811_inst_page4_table_ok cpu12_inst_page2_table_ok m6808_inst_overlay_table_ok m6808_inst_page2_table_ok hcs08_inst_overlay_table_ok hcs08_inst_page2_table_ok m6809_inst_page2_table_ok m6809_inst_page3_table_ok hd6309_inst_overlay_table_ok hd6309_inst_page2_table_ok hd6309_inst_page3_table_ok m6800_inst_page1_table_ok cpu12_inst_page1_table_ok m6805_inst_page1_table_ok m6809_inst_page1_table_ok

definition cpu_ok :: "cpu_tables \<Rightarrow> bool" where
  "cpu_ok cpu \<longleftrightarrow>
     (case ct_page1 cpu of None \<Rightarrow> False | Some t \<Rightarrow> length t = 256 \<and> list_all (entry_ok 0) t) \<and>
     list_all (\<lambda>t. case t of None \<Rightarrow> True | Some tab \<Rightarrow> page_ok tab) (ct_overlay cpu @ ct_pageX cpu)"

lemma g_cpu_tables_ok: "c \<noteq> M680X_CPU_TYPE_INVALID \<Longrightarrow> cpu_ok (g_cpu_tables c)"
  by (cases c) (simp_all add: cpu_ok_def tables_ok)

lemma g_cpu_tables_env:
  assumes "c \<noteq> M680X_CPU_TYPE_INVALID" "mx_cpu info = g_cpu_tables c"
    and "unat (mx_size info) \<le> length (mx_code info)" "unat (mx_size info) < 65536"
  shows "env info"
  using assms by (cases c) (simp_all add: env_def g_m6800_reg_byte_size_def g_m6801_reg_byte_size_def
    g_m6805_reg_byte_size_def g_m6808_reg_byte_size_def g_m6811_reg_byte_size_def g_cpu12_reg_byte_size_def
    g_m6809_reg_byte_size_def g_hd6309_reg_byte_size_def m6809_tfr_reg_valid_def)

section \<open>Properties of an instruction\<close>

lemma length_g_insn_props [simp]: "length g_insn_props = 357"
  by (simp add: g_insn_props_def)

lemma changed_regs_distinct: "distinct (map fst changed_regs)"
  by (simp add: changed_regs_def)

lemma changed_regs_small:
  "\<forall>(i, _, regs)\<in>set changed_regs. length regs \<le> 9 \<and> (i \<in> set heavy_insns \<or> length regs \<le> 2)"
  by (simp add: changed_regs_def heavy_insns_def)

lemma sum_list_unique:
  assumes "distinct (map fst xs)" "\<And>y. (insn, y) \<in> set xs \<Longrightarrow> f y \<le> b"
  shows "sum_list (map (\<lambda>(i, y). if i = insn then f y else 0) xs) \<le> (b :: nat)"
  using assms
proof (induction xs)
  case (Cons x xs)
  have z: "sum_list (map (\<lambda>(i, y). if i = insn then f y else 0) xs) = 0" if "insn \<notin> fst ` set xs"
    using that by (induction xs) auto
  obtain i y where x: "x = (i, y)" by (cases x)
  show ?case
  proof (cases "i = insn")
    case True
    with Cons.prems(1) x have "insn \<notin> fst ` set xs" by auto
    from z [OF this] show ?thesis using Cons.prems(2) [of y] x True by (simp del: sum_list_eq_0_iff)
  next
    case False
    with Cons x show ?thesis by simp
  qed
qed simp

lemma changed_count_le: "changed_count insn \<le> 9" "insn \<notin> set heavy_insns \<Longrightarrow> changed_count insn \<le> 2"
proof -
  have eq: "changed_count insn = sum_list (map (\<lambda>(i, y). if i = insn then length (snd y) else 0) changed_regs)"
    unfolding changed_count_def by (rule arg_cong [of _ _ sum_list], rule map_cong) (auto split: prod.splits)
  show "changed_count insn \<le> 9"
    unfolding eq using changed_regs_small by (intro sum_list_unique [OF changed_regs_distinct]) fastforce
  show "changed_count insn \<le> 2" if "insn \<notin> set heavy_insns"
    unfolding eq using changed_regs_small that by (intro sum_list_unique [OF changed_regs_distinct]) fastforce
qed

lemma fill_access_budget:
  assumes "env I" "holding I S n w info" "n \<le> 9" "budget M r g MI" "g < 8" "mx_insn info < 357"
    and "r + 1 + w + changed_count (mx_insn info) \<le> 16"
  shows "yields (fill_access MI info) (\<lambda>(MI', info'). budget M 16 (g + 1) MI' \<and> holding I S n w info')"
proof -
  have e: "env info" using assms(1,2) by (simp add: holding_env)
  show ?thesis
    unfolding fill_access_def Let_def
    apply (rule aget_then, use assms(6) in simp)
    apply (rule group_then(1) [OF assms(4,5)])
    apply (rule reg_then(2), assumption, use assms(7) in simp)
    apply (rule yields_then [OF build_regs_read_write_counts_budget [OF e assms(2,3)]], assumption, use assms(7) in simp)
    apply (rule yields_then [OF add_operators_access_holding [OF assms(2,3)]], elim conjE)
    subgoal premises p for props MI1 MI2 MI3 info'
    proof -
      have "env info'" using p(4) assms(1) by (simp add: holding_env)
      then have "yields (set_changed_regs_read_write_counts info' MI3) (budget M 16 (g + 1))"
        using p(3,5) assms(7) by (intro yields_mono [OF set_changed_budget]) (auto elim: budget_mono)
      then have "yields (if ip_update_reg_access props then set_changed_regs_read_write_counts info' MI3 else Some MI3) (budget M 16 (g + 1))"
        using budget_mono [OF p(3)] assms(7) by (simp add: yields_Some)
      then show ?thesis by (rule yields_then) (simp add: yields_Some p(4))
    qed
    done
qed

lemma mnem_reg_yields: "env info \<Longrightarrow> yields (mnem_reg info reg) (\<lambda>_. True)"
  using reg_byte_size_yields by (simp add: mnem_reg_def wp)

lemma or_m6_flags_holding [simp]:
  "holding I S n w (or_m6_flags v info) = holding I S n w info" "mx_insn (or_m6_flags v info) = mx_insn info"
  unfolding holding_def or_m6_flags_def by (cases info, cases I, auto)+

text \<open>The first operand of a mnemonic with a register.\<close>

definition first_op :: "m680x_info \<Rightarrow> m680x_reg \<Rightarrow> m680x_info \<Rightarrow> bool" where
  "first_op I reg info \<longleftrightarrow> mo_type (m6_operands (mx_m680x info) ! 0) = M680X_OP_REGISTER \<and>
     mo_reg (m6_operands (mx_m680x info) ! 0) = reg \<and>
     Some (mo_size (m6_operands (mx_m680x info) ! 0)) = reg_byte_size I reg \<and> 0 < m6_op_count (mx_m680x info)"

lemma add_reg_operand_exact:
  assumes "holding I S n w info" "env I" "n < 9"
  shows "yields (add_reg_operand reg info) (\<lambda>info'.
    holding I S (n + 1) (w + 1) info' \<and> mx_insn info' = mx_insn info \<and>
    m6_op_count (mx_m680x info') = m6_op_count (mx_m680x info) + 1 \<and>
    (m6_op_count (mx_m680x info) = 0 \<longrightarrow> first_op I reg info') \<and>
    (m6_op_count (mx_m680x info) = 1 \<and> first_op I r info \<longrightarrow> first_op I r info'))"
proof (rule yields_conj [OF add_reg_operand_holding [OF assms], THEN yields_mono])
  have same: "mx_cpu info = mx_cpu I" and slots: "length (m6_operands (mx_m680x info)) = 9"
    using assms(1) by (simp_all add: holding_same)
  obtain sz where sz: "reg_byte_size I reg = Some sz" using reg_byte_size_yields [OF assms(2)] by (rule yieldsE)
  have c: "unat (m6_op_count (mx_m680x info)) < 9" using assms(1,3) by (simp add: holding_def)
  show "yields (add_reg_operand reg info) (\<lambda>info'. m6_op_count (mx_m680x info') = m6_op_count (mx_m680x info) + 1 \<and>
    (m6_op_count (mx_m680x info) = 0 \<longrightarrow> first_op I reg info') \<and>
    (m6_op_count (mx_m680x info) = 1 \<and> first_op I r info \<longrightarrow> first_op I r info'))"
    using same slots sz c
    by (auto simp: add_reg_operand_def new_operand_def on_operand_def reg_byte_size_def first_op_def wp
        Option.bind_eq_Some_conv aget_def split: if_splits)
qed auto

lemma mnem_operands_holding:
  assumes "env I" "holding I S n w info" "n + 2 \<le> 9" "mx_insn info < 357"
  shows "yields (mnem_operands info) (\<lambda>info'. holding I S (n + 2) (w + 2) info' \<and> mx_insn info' = mx_insn info \<and>
    (\<forall>reg. m6_op_count (mx_m680x info) = 0 \<and> ip_reg0 (g_insn_props ! mx_insn info) = reg \<and> reg \<noteq> M680X_REG_INVALID \<and>
      reg \<noteq> M680X_REG_HX \<longrightarrow> first_op I reg info' \<and>
      (ip_reg1 (g_insn_props ! mx_insn info) = M680X_REG_INVALID \<longrightarrow> holding I S (n + 1) (w + 1) info')))"
    (is "yields _ ?Q")
proof -
  let ?p = "g_insn_props ! mx_insn info"
  have e: "env info'" if "holding I S k v info'" for info' k v using that assms(1) by (simp add: holding_env)
  have fl: "first_op I r (or_m6_flags v x) = first_op I r x" for r v x
    by (simp add: first_op_def or_m6_flags_def)
  have oc: "m6_op_count (mx_m680x (or_m6_flags v x)) = m6_op_count (mx_m680x x)" for v x
    by (simp add: or_m6_flags_def)
  have mr: "yields (mnem_reg info' reg) (\<lambda>r. reg \<noteq> M680X_REG_HX \<longrightarrow> r = reg)" if "env info'" for info' reg
    using reg_byte_size_yields [OF that] by (simp add: mnem_reg_def wp)
  show ?thesis
    unfolding mnem_operands_def
    apply (rule aget_nth_then, use assms(4) in simp)
    apply (cases "ip_reg0 ?p = M680X_REG_INVALID")
    subgoal using holding_mono [OF assms(2)] by (simp add: yields_Some)
    apply (simp only: if_False, rule yields_then [OF mr [OF e [OF assms(2)]]])
    apply (rule yields_then [OF add_reg_operand_exact [OF assms(2,1)]], use assms(3) in simp)
    subgoal premises p for r0 info1
    proof (cases "ip_reg1 ?p = M680X_REG_INVALID")
      case True
      with p holding_mono [of I S "n + 1" "w + 1" info1 S "n + 2" "w + 2"] show ?thesis
        by (auto simp: yields_Some fl)
    next
      case False
      have h: "holding I S (n + 1) (w + 1) (or_m6_flags M680X_FIRST_OP_IN_MNEM info1)" using p(3) by simp
      show ?thesis
        unfolding Let_def if_not_P [OF False]
        apply (rule yields_then [OF mr [OF e [OF h]]])
        apply (rule yields_then [OF add_reg_operand_exact [OF h assms(1), of _ r0]], use assms(3) in simp)
        using p False by (auto simp: yields_Some fl oc numeral_2_eq_2)
    qed
    done
qed

end
