(* ===== verification/M680X_Length.thy ===== *)
theory M680X_Length
  imports M680X_Decode
begin

text \<open>
  The recognition of an M680X instruction. The reference is a function from the bytes that can be
  read to the table entry and the length of the instruction; \<^verbatim>\<open>decode_insn\<close> computes it, with
  its checks interleaved with the counting.
\<close>

section \<open>The length of an instruction\<close>

text \<open>The bytes that can be read.\<close>

definition readable :: "m680x_info \<Rightarrow> u8 list" where
  "readable info = take (min (unat (mx_size info)) (65536 - unat (mx_offset info))) (mx_code info)"

lemma fits_readable: "env info \<Longrightarrow> fits info j 0 \<longleftrightarrow> j < length (readable info)"
  by (auto simp: env_def fits_def readable_def)

lemma readable_nth: "j < length (readable info) \<Longrightarrow> readable info ! j = mx_code info ! j"
  by (simp add: readable_def)

text \<open>
  The bytes that follow the post byte of the 6809 and of the CPU12, \<open>None\<close> for one that is invalid.
\<close>

definition post_len09 :: "u8 \<Rightarrow> nat option" where
  "post_len09 pb =
     (let c = pb AND 0x9F
      in if c \<in> {0x87, 0x8A, 0x8E, 0x8F, 0x90, 0x92, 0x97, 0x9A, 0x9E} then None
         else if c \<in> {0x88, 0x8C, 0x98, 0x9C} then Some 1
         else if c \<in> {0x89, 0x8D, 0x99, 0x9D} then Some 2
         else if c = 0x9F then (if pb AND 0x60 = 0 then Some 2 else None)
         else Some 0)"

definition post_len12 :: "bool \<Rightarrow> u8 \<Rightarrow> nat option" where
  "post_len12 is_subset pb =
     (let c = pb AND 0xe7
      in if pb AND 0x20 = 0 then Some 0
         else if c \<in> {0xe0, 0xe1} then (if is_subset then None else Some 1)
         else if c \<in> {0xe2, 0xe3} then (if is_subset then None else Some 2)
         else Some 0)"

definition tfr_valid :: "cpu_tables \<Rightarrow> u8 \<Rightarrow> bool" where
  "tfr_valid cpu nibble = (case ct_tfr_reg_valid cpu of None \<Rightarrow> True | Some v \<Rightarrow> v ! unat nibble)"

text \<open>A post byte and the length it decides on; without one the length exceeds what is there.\<close>

definition post_len :: "nat \<Rightarrow> (u8 \<Rightarrow> nat option) \<Rightarrow> u8 list \<Rightarrow> nat option" where
  "post_len least f bs = (case bs of [] \<Rightarrow> Some least | pb # _ \<Rightarrow> map_option Suc (f pb))"

definition hid_length :: "cpu_tables \<Rightarrow> insn_hdlr_id \<Rightarrow> u8 list \<Rightarrow> nat option" where
  "hid_length cpu hid =
     (case hid of
        idx09_hid \<Rightarrow> post_len 1 post_len09
      | idx12s_hid \<Rightarrow> post_len 1 (post_len12 True)
      | idx12_hid \<Rightarrow> post_len 1 (post_len12 False)
      | exti12x_hid \<Rightarrow> post_len 1 (\<lambda>pb. map_option (\<lambda>n. n + 2) (post_len12 False pb))
      | imm16i12x_hid \<Rightarrow> post_len 1 (\<lambda>pb. map_option (\<lambda>n. n + 2) (post_len12 False pb))
      | imm8i12x_hid \<Rightarrow> post_len 1 (\<lambda>pb. map_option (\<lambda>n. n + 1) (post_len12 False pb))
      | tfm_hid \<Rightarrow> post_len 1 (\<lambda>pb. if drop_bit 4 pb AND 0x0F \<le> 4 \<and> pb AND 0x0F \<le> 4 then Some 0 else None)
      | rr09_hid \<Rightarrow> post_len 1 (\<lambda>pb. if tfr_valid cpu (drop_bit 4 pb AND 0x0F) \<and> tfr_valid cpu (pb AND 0x0F) then Some 0 else None)
      | rr12_hid \<Rightarrow> post_len 1 (\<lambda>pb. if pb AND 0x08 = 0 then Some 0 else None)
      | bitmv_hid \<Rightarrow> post_len 1 (\<lambda>pb. if pb AND 0xc0 = 0xc0 then None else Some 1)
      | loop_hid \<Rightarrow> post_len 1 (\<lambda>pb. if is_loop_post_byte_valid pb then Some 1 else None)
      | _ \<Rightarrow> (\<lambda>_. Some (hid_size hid)))"

definition seq_length :: "(u8 list \<Rightarrow> nat option) \<Rightarrow> (u8 list \<Rightarrow> nat option) \<Rightarrow> u8 list \<Rightarrow> nat option" where
  "seq_length f g bs = (case f bs of None \<Rightarrow> None | Some a \<Rightarrow> map_option (\<lambda>b. a + b) (g (drop a bs)))"

section \<open>The checks compute the length\<close>

text \<open>
  \<open>gauges info L f\<close>: the check \<open>f\<close> is defined and accepts exactly when the length \<open>L\<close> of the
  bytes ahead is not more than there are; address and size have then advanced by it.
\<close>

definition gauged :: "m680x_info \<Rightarrow> nat option \<Rightarrow> nat \<Rightarrow> u16 \<Rightarrow> bool \<times> u16 \<times> u16 \<Rightarrow> bool" where
  "gauged info l p sz = (\<lambda>(ok, a, sz').
     case l of None \<Rightarrow> \<not> ok
     | Some j \<Rightarrow> ok = (p + j \<le> length (readable info)) \<and> (ok \<longrightarrow> a = mx_offset info + of_nat (p + j) \<and> sz' = sz + of_nat j))"

definition gauges :: "m680x_info \<Rightarrow> nat \<Rightarrow> (u8 list \<Rightarrow> nat option) \<Rightarrow> check \<Rightarrow> bool" where
  "gauges info m L f \<longleftrightarrow> (\<forall>bs j. L bs = Some j \<longrightarrow> j \<le> m) \<and>
     (\<forall>p sz. p \<le> length (readable info) \<longrightarrow> p + m < 65000 \<longrightarrow>
       yields (f (mx_offset info + of_nat p, sz)) (gauged info (L (drop p (readable info))) p sz))"

lemma gaugesI:
  assumes "\<And>bs j. L bs = Some j \<Longrightarrow> j \<le> m"
    and "\<And>p sz. p \<le> length (readable info) \<Longrightarrow> p + m < 65000 \<Longrightarrow>
      yields (f (mx_offset info + of_nat p, sz)) (gauged info (L (drop p (readable info))) p sz)"
  shows "gauges info m L f"
  using assms unfolding gauges_def by blast

lemma gaugesD:
  "gauges info m L f \<Longrightarrow> p \<le> length (readable info) \<Longrightarrow> p + m < 65000 \<Longrightarrow>
    yields (f (mx_offset info + of_nat p, sz)) (gauged info (L (drop p (readable info))) p sz)"
  unfolding gauges_def by blast

lemma gauges_bound: "gauges info m L f \<Longrightarrow> L bs = Some j \<Longrightarrow> j \<le> m"
  unfolding gauges_def by blast

lemma gauges_verdict: "gauges info 0 (\<lambda>_. if ok then Some 0 else None) (verdict ok)"
  by (rule gaugesI) (auto simp: verdict_def wp gauged_def split: if_splits)

lemma gauges_bytes:
  assumes "env info" "0 < n"
  shows "gauges info n (\<lambda>_. Some n) (count_bytes info (of_nat n))"
proof (rule gaugesI)
  fix p and sz :: u16 assume p: "p \<le> length (readable info)" "p + n < 65000"
  have "of_nat n - (1 :: u16) = of_nat (n - 1)" using assms(2) by (simp add: of_nat_diff)
  then have a: "mx_offset info + of_nat p + (of_nat n - 1) = mx_offset info + of_nat (p + (n - 1))" by simp
  show "yields (count_bytes info (of_nat n) (mx_offset info + of_nat p, sz)) (gauged info (Some n) p sz)"
    unfolding count_bytes_def prod.case a has_byte_def
    using assms p by (simp only: wp read_byte_near) (auto simp: gauged_def fits_readable)
qed simp

lemma gauged_None [simp]: "gauged info None p sz (False, a, sz')"
  by (simp add: gauged_def)

lemma gauged_long: "length (readable info) < p + j \<Longrightarrow> gauged info (Some j) p sz (False, a, sz')"
  by (simp add: gauged_def)

lemma gauged_shift:
  "gauged info l (p + a) (sz + of_nat a) r \<Longrightarrow> gauged info (map_option (\<lambda>b. a + b) l) p sz r"
  by (cases r) (auto simp: gauged_def add.assoc split: option.splits)

lemma gauges_seq:
  assumes f: "gauges info m L f" and g: "gauges info n L' g"
  shows "gauges info (m + n) (seq_length L L') (check_seq f g)"
proof (rule gaugesI)
  show "j \<le> m + n" if "seq_length L L' bs = Some j" for bs j
    using that gauges_bound [OF f] gauges_bound [OF g]
    by (fastforce simp: seq_length_def split: option.splits dest: add_mono)
  fix p and sz :: u16 assume p: "p \<le> length (readable info)" "p + (m + n) < 65000"
  let ?bs = "drop p (readable info)"
  have "yields (f (mx_offset info + of_nat p, sz)) (gauged info (L ?bs) p sz)"
    by (rule gaugesD [OF f p(1)]) (use p(2) in simp)
  then show "yields (check_seq f g (mx_offset info + of_nat p, sz)) (gauged info (seq_length L L' ?bs) p sz)"
    unfolding check_seq_def
  proof (rule yields_then, clarify)
    fix ok a sz' assume *: "gauged info (L ?bs) p sz (ok, a, sz')"
    show "yields (if ok then g (a, sz') else Some (False, a, sz')) (gauged info (seq_length L L' ?bs) p sz)"
    proof (cases ok)
      case True
      with * obtain j where j: "L ?bs = Some j" "p + j \<le> length (readable info)" "a = mx_offset info + of_nat (p + j)" "sz' = sz + of_nat j"
        by (auto simp: gauged_def split: option.splits)
      have "yields (g (a, sz')) (gauged info (L' (drop (p + j) (readable info))) (p + j) sz')"
        unfolding j(3) by (rule gaugesD [OF g j(2)]) (use p(2) gauges_bound [OF f j(1)] in simp)
      then have "yields (g (a, sz')) (gauged info (seq_length L L' ?bs) p sz)"
        unfolding j(4) by (rule yields_mono) (simp add: seq_length_def j(1) add.commute [of j p] gauged_shift)
      with True show ?thesis by simp
    next
      case False
      with * have "gauged info (seq_length L L' ?bs) p sz (False, a, sz')"
        by (auto simp: gauged_def seq_length_def split: option.splits)
      with False show ?thesis by (simp add: wp)
    qed
  qed
qed

lemma readable_Cons:
  assumes "p < length (readable info)"
  shows "drop p (readable info) = mx_code info ! p # drop (p + 1) (readable info)"
  using Cons_nth_drop_Suc [OF assms] readable_nth [OF assms] by simp

lemma gauges_post_byte:
  assumes "env info" "\<And>ir. gauges info m (\<lambda>_. F ir) (nxt ir)"
  shows "gauges info (1 + m) (post_len 1 F) (post_byte_then info 1 nxt)"
proof (rule gaugesI)
  show "j \<le> 1 + m" if "post_len 1 F bs = Some j" for bs j
    using that gauges_bound [OF assms(2)] by (auto simp: post_len_def split: list.splits)
  fix p and sz :: u16 assume p: "p \<le> length (readable info)" "p + (1 + m) < 65000"
  have a: "mx_offset info + of_nat p + 1 = mx_offset info + of_nat (p + 1)" by simp
  show "yields (post_byte_then info 1 nxt (mx_offset info + of_nat p, sz)) (gauged info (post_len 1 F (drop p (readable info))) p sz)"
  proof (cases "p < length (readable info)")
    case True
    let ?pb = "mx_code info ! p"
    have "yields (nxt ?pb (mx_offset info + of_nat (p + 1), sz + of_nat 1)) (gauged info (F ?pb) (p + 1) (sz + of_nat 1))"
      by (rule gaugesD [OF assms(2)]) (use p True in simp_all)
    then have "yields (nxt ?pb (mx_offset info + of_nat (p + 1), sz + 1)) (gauged info (map_option Suc (F ?pb)) p sz)"
      using gauged_shift [of info "F ?pb" p 1 sz] by (simp add: yields_mono)
    with True p assms(1) show ?thesis
      by (simp add: post_byte_then_def read_byte_near wp a fits_readable readable_Cons post_len_def del: of_nat_add of_nat_Suc)
  next
    case False
    with p assms(1) show ?thesis
      by (simp add: post_byte_then_def read_byte_near wp fits_readable post_len_def gauged_def)
  qed
qed

lemma gauges_post_byte_2:
  assumes "env info"
  shows "gauges info 2 (post_len 1 (\<lambda>pb. if bad pb then None else Some 1))
    (post_byte_then info 2 (\<lambda>ir. if bad ir then verdict False else last_counted info))"
proof (rule gaugesI)
  show "j \<le> 2" if "post_len 1 (\<lambda>pb. if bad pb then None else Some 1) bs = Some j" for bs j
    using that by (auto simp: post_len_def split: list.splits if_splits)
  fix p :: nat and sz :: u16 assume p: "p \<le> length (readable info)" "p + 2 < 65000"
  have a: "mx_offset info + of_nat p + 1 = mx_offset info + of_nat (p + 1)" by simp
  show "yields (post_byte_then info 2 (\<lambda>ir. if bad ir then verdict False else last_counted info) (mx_offset info + of_nat p, sz))
    (gauged info (post_len 1 (\<lambda>pb. if bad pb then None else Some 1) (drop p (readable info))) p sz)"
  proof (cases "p < length (readable info)")
    case True
    with p assms show ?thesis
      by (auto simp: post_byte_then_def a read_byte_near verdict_def last_counted_def has_byte_def wp fits_readable
          readable_Cons post_len_def simp del: of_nat_add of_nat_Suc) (auto simp: gauged_def)
  next
    case False
    with p assms show ?thesis
      by (simp add: post_byte_then_def read_byte_near wp fits_readable post_len_def gauged_def)
  qed
qed

lemma gauges_some_bytes:
  assumes "env info"
  shows "gauges info 1 (\<lambda>_. Some 1) (count_bytes info 1)" "gauges info 2 (\<lambda>_. Some 2) (count_bytes info 2)"
    "gauges info 4 (\<lambda>_. Some 4) (count_bytes info 4)" "gauges info 2 (\<lambda>_. Some 1) (count_bytes info 1)"
  using gauges_bytes [OF assms, of 1] gauges_bytes [OF assms, of 2] gauges_bytes [OF assms, of 4]
  by (auto simp: gauges_def)

lemma gauged_nothing: "p \<le> length (readable info) \<Longrightarrow> gauged info (Some 0) p sz (True, mx_offset info + of_nat p, sz)"
  by (simp add: gauged_def)

lemma gauges_indexed09:
  assumes "env info"
  shows "gauges info 2 (\<lambda>_. post_len09 pb) (is_indexed09_post_byte_valid info pb)"
  by (rule gaugesI)
    (auto simp: is_indexed09_post_byte_valid_def post_len09_def Let_def yields_Some gauged_nothing split: if_splits
      intro: gaugesD [OF gauges_some_bytes(2) [OF assms], simplified] gaugesD [OF gauges_some_bytes(4) [OF assms], simplified])

lemma gauges_indexed12:
  assumes "env info"
  shows "gauges info 2 (\<lambda>_. post_len12 False pb) (is_indexed12_post_byte_valid info pb False)"
  by (rule gaugesI)
    (auto simp: is_indexed12_post_byte_valid_def post_len12_def Let_def yields_Some gauged_nothing split: if_splits
      intro: gaugesD [OF gauges_some_bytes(2) [OF assms], simplified] gaugesD [OF gauges_some_bytes(4) [OF assms], simplified])

lemma gauges_indexed12s: "gauges info 0 (\<lambda>_. post_len12 True pb) (is_indexed12_post_byte_valid info pb True)"
  by (rule gaugesI)
    (auto simp: is_indexed12_post_byte_valid_def post_len12_def Let_def yields_Some gauged_nothing split: if_splits)

lemma gauges_rr09:
  assumes "env info"
  shows "gauges info 0 (\<lambda>_. if tfr_valid (mx_cpu info) (drop_bit 4 ir AND 0x0F) \<and> tfr_valid (mx_cpu info) (ir AND 0x0F) then Some 0 else None)
    (\<lambda>s. do {
      a \<leftarrow> is_tfr09_reg_valid info (drop_bit 4 ir AND 0x0F);
      b \<leftarrow> (if a then is_tfr09_reg_valid info (ir AND 0x0F) else Some False);
      verdict b s })"
proof -
  have t: "is_tfr09_reg_valid info (x AND 0x0F) = Some (tfr_valid (mx_cpu info) (x AND 0x0F))" for x
    using assms by (auto simp: is_tfr09_reg_valid_def tfr_valid_def env_def aget_def split: option.splits)
  show ?thesis
    by (rule gaugesI) (auto simp: t verdict_def yields_Some gauged_nothing split: if_splits)
qed

lemma seq_const: "seq_length (\<lambda>_. x) (\<lambda>_. Some n) = (\<lambda>_. map_option (\<lambda>j. j + n) x)"
  by (auto simp: seq_length_def fun_eq_iff split: option.splits)

lemma check_hid_gauges:
  assumes "env info"
  shows "gauges info (hid_size hid) (hid_length (mx_cpu info) hid) (check_hid info hid)"
proof -
  note c = gauges_some_bytes [OF assms]
  note p = gauges_post_byte [OF assms]
  note i12 = gauges_seq [OF gauges_indexed12 [OF assms]]
  have post: "gauges info n (post_len 1 F) (post_byte_then info 1 nxt)"
    if "\<And>ir. gauges info m (\<lambda>_. F ir) (nxt ir)" "n = 1 + m" for n m F nxt
    using p [OF that(1)] that(2) by simp
  have two: "gauges info 2 (post_len 1 (\<lambda>pb. if ok pb then Some 1 else None))
      (post_byte_then info 2 (\<lambda>ir. if \<not> ok ir then verdict False else last_counted info))" for ok
  proof -
    have "(\<lambda>pb. if ok pb then Some (1 :: nat) else None) = (\<lambda>pb. if \<not> ok pb then None else Some 1)" by auto
    then show ?thesis using gauges_post_byte_2 [OF assms, of "\<lambda>pb. \<not> ok pb"] by simp
  qed
  have none: "gauges info 0 (\<lambda>_. Some 0) (verdict True)" using gauges_verdict [of info True] by simp
  have tfm: "gauges info 0 (\<lambda>_. if drop_bit 4 pb AND 0x0F \<le> 4 \<and> pb AND 0x0F \<le> 4 then Some 0 else None)
      (verdict (is_tfm_reg_valid (drop_bit 4 pb AND 0x0F) \<and> is_tfm_reg_valid (pb AND 0x0F)))" for pb
    unfolding is_tfm_reg_valid_def by (rule gauges_verdict)
  have rr12: "gauges info 0 (\<lambda>_. if pb AND 0x08 = 0 then Some 0 else None) (verdict (is_exg_tfr12_post_byte_valid pb))" for pb
    unfolding is_exg_tfr12_post_byte_valid_def by (rule gauges_verdict)
  show ?thesis
    apply (cases hid)
    apply (simp_all only: check_hid_def hid_length_def hid_size.simps insn_hdlr_id.case c(1-3) none two gauges_post_byte_2 [OF assms])
    apply (rule none | (rule post, rule gauges_indexed09 [OF assms] gauges_indexed12 [OF assms] gauges_indexed12s gauges_rr09 [OF assms]
          i12 [OF c(1), unfolded seq_const] i12 [OF c(2), unfolded seq_const] tfm rr12, simp))+
    done
qed

lemma is_sufficient_gauges:
  assumes "env info" "p \<le> length (readable info)" "p + (hid_size (ds_hid0 desc) + hid_size (ds_hid1 desc)) < 65000"
  shows "yields (is_sufficient_code_size info (mx_offset info + of_nat p) desc) (\<lambda>(ok, desc').
    case seq_length (hid_length (mx_cpu info) (ds_hid0 desc)) (hid_length (mx_cpu info) (ds_hid1 desc)) (drop p (readable info)) of
      None \<Rightarrow> \<not> ok
    | Some j \<Rightarrow> ok = (p + j \<le> length (readable info)) \<and> (ok \<longrightarrow> desc' = desc\<lparr>ds_insn_size := ds_insn_size desc + of_nat j\<rparr>))"
    (is "yields _ ?Q")
proof -
  let ?L = "seq_length (hid_length (mx_cpu info) (ds_hid0 desc)) (hid_length (mx_cpu info) (ds_hid1 desc)) (drop p (readable info))"
  have "yields (check_seq (check_hid info (ds_hid0 desc)) (check_hid info (ds_hid1 desc)) (mx_offset info + of_nat p, ds_insn_size desc))
    (gauged info ?L p (ds_insn_size desc))"
    using gauges_seq [OF check_hid_gauges check_hid_gauges, OF assms(1,1)] assms(2,3) by (rule gaugesD)
  then show ?thesis
    unfolding is_sufficient_code_size_def
  proof (rule yields_then, clarify)
    fix ok a sz assume "gauged info ?L p (ds_insn_size desc) (ok, a, sz)"
    then show "yields (Some (ok, desc\<lparr>ds_insn_size := sz\<rparr>)) ?Q"
      by (auto simp: yields_Some gauged_def split: option.splits)
  qed
qed

section \<open>The choice of the entry\<close>

lemma find_page_Some: "find_page ps ts ir = Some tab \<Longrightarrow> Some tab \<in> set ts \<and> ir \<in> set ps"
  by (induction ps ts ir rule: find_page.induct) (auto split: option.splits if_splits)

text \<open>The reference for the overlays: the first table that has the opcode.\<close>

fun overlay_lookup :: "inst_pageX list option list \<Rightarrow> nat \<Rightarrow> inst_pageX option" where
  "overlay_lookup (Some tab # ts) opcode =
     (if tab = [] then None else case page_lookup tab opcode of None \<Rightarrow> overlay_lookup ts opcode | Some e \<Rightarrow> Some e)"
| "overlay_lookup _ opcode = None"

lemma find_overlay_lookup:
  assumes "\<And>tab. Some tab \<in> set ts \<Longrightarrow> rising tab"
  shows "find_overlay ts ir = Some (overlay_lookup ts (unat ir))"
  using assms
proof (induction ts ir rule: find_overlay.induct)
  case (2 t ts ir)
  show ?case
  proof (cases t)
    case (Some tab)
    show ?thesis
    proof (cases "tab = []")
      case False
      have "rising tab" using 2(2) Some by simp
      then obtain r where r: "binary_search tab ir = Some r"
        "page_lookup tab (unat ir) = (if 0 \<le> r then Some (tab ! nat r) else None)" "0 \<le> r \<Longrightarrow> nat r < length tab"
        by (rule search_entry [where opcode = ir]) blast
      with Some False 2 show ?thesis by (auto simp: aget_def)
    qed (simp add: Some)
  qed simp
qed simp

lemma overlay_lookup_Some:
  "overlay_lookup ts opcode = Some e \<Longrightarrow> \<exists>tab. Some tab \<in> set ts \<and> e \<in> set tab \<and> fst e = opcode"
  by (induction ts opcode rule: overlay_lookup.induct)
    (auto split: option.splits if_splits dest: page_lookup_Some)

text \<open>
  The reference for the recognition: the opcode, its length in bytes, and the entry. A prefix byte
  selects a page, another byte the first page, whose illegal opcodes the overlays may define.
\<close>

definition base_entry :: "cpu_tables \<Rightarrow> u8 \<Rightarrow> nat \<times> insn_hdlr_id \<times> insn_hdlr_id" where
  "base_entry cpu ir =
     (let e = the (ct_page1 cpu) ! unat ir
      in if fst e \<noteq> M680X_INS_ILLGL then e
         else case overlay_lookup (ct_overlay cpu) (unat ir) of None \<Rightarrow> e | Some e' \<Rightarrow> snd e')"

fun recognise :: "cpu_tables \<Rightarrow> u8 list \<Rightarrow> (u32 \<times> nat \<times> nat \<times> insn_hdlr_id \<times> insn_hdlr_id) option" where
  "recognise cpu [] = None"
| "recognise cpu (b # bs) =
     (case find_page (ct_prefix cpu) (ct_pageX cpu) b of
        None \<Rightarrow> Some (ucast b, 1, base_entry cpu b)
      | Some tab \<Rightarrow>
          (case bs of [] \<Rightarrow> None
           | b2 # _ \<Rightarrow> map_option (\<lambda>e. (push_bit 8 (ucast b) OR ucast b2, 2, snd e)) (page_lookup tab (unat b2))))"

lemma cpu_ok_tables:
  assumes "cpu_ok cpu"
  shows "\<exists>t. ct_page1 cpu = Some t \<and> length t = 256 \<and> list_all (entry_ok 0) t"
    and "Some tab \<in> set (ct_overlay cpu) \<union> set (ct_pageX cpu) \<Longrightarrow> page_ok tab"
  using assms by (auto simp: cpu_ok_def list_all_iff split: option.splits)

lemma byte_index: "unat (b :: u8) < 256"
  using unsigned_less [of b] by simp

lemma base_entry_ok:
  assumes "cpu_ok cpu"
  shows "entry_ok 0 (base_entry cpu ir) \<or> entry_ok (unat ir) (base_entry cpu ir)"
proof -
  obtain t where t: "ct_page1 cpu = Some t" "length t = 256" "list_all (entry_ok 0) t"
    using cpu_ok_tables(1) [OF assms] by blast
  have "entry_ok 0 (t ! unat ir)" using t byte_index [of ir] by (auto simp: list_all_length)
  moreover have "entry_ok (unat ir) (snd e)" if lk: "overlay_lookup (ct_overlay cpu) (unat ir) = Some e" for e
  proof -
    obtain tab where "Some tab \<in> set (ct_overlay cpu)" "e \<in> set tab" "fst e = unat ir"
      using overlay_lookup_Some [OF lk] by blast
    with cpu_ok_tables(2) [OF assms, of tab] show ?thesis by (auto simp: page_ok_def list_all_iff)
  qed
  ultimately show ?thesis by (auto simp: base_entry_def t(1) Let_def split: option.splits)
qed

lemma decode_page1_base:
  assumes "cpu_ok (mx_cpu info)" "ds_insn desc = M680X_INS_ILLGL"
  shows "decode_page1 info ir desc = Some (desc_entry (base_entry (mx_cpu info) ir) desc)"
proof -
  obtain t where t: "ct_page1 (mx_cpu info) = Some t" "length t = 256"
    using cpu_ok_tables(1) [OF assms(1)] by blast
  have o: "find_overlay (ct_overlay (mx_cpu info)) ir = Some (overlay_lookup (ct_overlay (mx_cpu info)) (unat ir))"
    using cpu_ok_tables(2) [OF assms(1)] page_ok_rising by (intro find_overlay_lookup) blast
  obtain insn h0 h1 where e: "t ! unat ir = (insn, h0, h1)" by (cases "t ! unat ir")
  have "decode_page1 info ir desc =
      (if insn = M680X_INS_ILLGL then find_overlay (ct_overlay (mx_cpu info)) ir \<bind>
         (\<lambda>hit. Some (case hit of None \<Rightarrow> desc_entry (t ! unat ir) desc | Some e \<Rightarrow> desc_entry (snd e) (desc_entry (t ! unat ir) desc)))
       else Some (desc_entry (t ! unat ir) desc))"
    using assms(2) t byte_index [of ir] 
    by (simp add: decode_page1_def aget_def e desc_entry_def cong: option.case_cong)
  also have "\<dots> = Some (desc_entry (base_entry (mx_cpu info) ir) desc)"
    unfolding o by (auto simp: base_entry_def t(1) Let_def e desc_entry_def split: option.splits prod.splits)
  finally show ?thesis .
qed

lemma decode_page1_other: "ds_insn desc \<noteq> M680X_INS_ILLGL \<Longrightarrow> decode_page1 info ir desc = Some desc"
  by (simp add: decode_page1_def)

text \<open>
  The reference for the decoder: the opcode, the length and the entry of the instruction that the
  bytes start with, if there is one and it is complete.
\<close>

definition insn_of :: "cpu_tables \<Rightarrow> u8 list \<Rightarrow> (u32 \<times> nat \<times> nat \<times> insn_hdlr_id \<times> insn_hdlr_id) option" where
  "insn_of cpu bs =
     (case recognise cpu bs of None \<Rightarrow> None
      | Some (opc, n, insn, h0, h1) \<Rightarrow>
          if insn = M680X_INS_ILLGL then None
          else case seq_length (hid_length cpu h0) (hid_length cpu h1) (drop n bs) of None \<Rightarrow> None
               | Some l \<Rightarrow> if n + l \<le> length bs then Some (opc, n + l, insn, h0, h1) else None)"

definition recognised :: "m680x_info \<Rightarrow> bool \<times> insn_desc \<Rightarrow> bool" where
  "recognised info = (\<lambda>(ok, desc).
     case insn_of (mx_cpu info) (readable info) of None \<Rightarrow> \<not> ok
     | Some (opc, l, insn, h0, h1) \<Rightarrow> ok \<and>
         desc = \<lparr>ds_opcode = opc, ds_insn = insn, ds_hid0 = h0, ds_hid1 = h1, ds_insn_size = of_nat l\<rparr>)"

lemma entry_ok_size: "entry_ok opc (insn, h0, h1) \<Longrightarrow> hid_size h0 + hid_size h1 \<le> 6 \<and> insn \<noteq> M680X_INS_INVLD"
  by (simp add: entry_ok_def)

text \<open>The last step of \<^verbatim>\<open>decode_insn\<close>.\<close>

lemma finish_recognised:
  assumes "env info" "entry_ok opc e" "n \<le> 2" "n \<le> length (readable info)"
    and "recognise (mx_cpu info) (readable info) = Some (ds_opcode desc, n, e)"
    and d: "desc' = (desc_entry e desc)\<lparr>ds_insn_size := of_nat n\<rparr>"
  shows "yields (if ds_insn desc' \<noteq> M680X_INS_ILLGL \<and> ds_insn desc' \<noteq> M680X_INS_INVLD
      then is_sufficient_code_size info (mx_offset info + of_nat n) desc' else Some (False, desc')) (recognised info)"
proof -
  obtain insn h0 h1 where e: "e = (insn, h0, h1)" by (cases e)
  have desc': "desc' = \<lparr>ds_opcode = ds_opcode desc, ds_insn = insn, ds_hid0 = h0, ds_hid1 = h1, ds_insn_size = of_nat n\<rparr>"
    by (simp add: d e desc_entry_def)
  have ok: "hid_size h0 + hid_size h1 \<le> 6" "insn \<noteq> M680X_INS_INVLD" using entry_ok_size assms(2) by (simp_all add: e)
  show ?thesis
  proof (cases "insn = M680X_INS_ILLGL")
    case True
    with assms(5) show ?thesis by (simp add: desc' wp recognised_def insn_of_def e)
  next
    case False
    have "yields (is_sufficient_code_size info (mx_offset info + of_nat n) desc') (recognised info)"
      by (rule yields_mono [OF is_sufficient_gauges [OF assms(1,4)]])
        (use assms(3,5) ok False in \<open>auto simp: desc' e recognised_def insn_of_def split: option.splits\<close>)
    with False ok(2) show ?thesis by (simp add: desc')
  qed
qed

lemma page_entry:
  assumes "cpu_ok cpu" "find_page (ct_prefix cpu) (ct_pageX cpu) b = Some tab" "page_lookup tab (unat b2) = Some e"
  shows "rising tab" "entry_ok (unat b2) (snd e)" "fst (snd e) \<noteq> M680X_INS_ILLGL"
proof -
  have ok: "page_ok tab" using cpu_ok_tables(2) [OF assms(1)] find_page_Some [OF assms(2)] by blast
  then show "rising tab" by (rule page_ok_rising)
  show "entry_ok (unat b2) (snd e)" "fst (snd e) \<noteq> M680X_INS_ILLGL"
    using ok page_lookup_Some [OF assms(3)] by (auto simp: page_ok_def list_all_iff)
qed

lemma decode_insn_recognised:
  assumes "env info" "cpu_ok (mx_cpu info)"
  shows "yields (decode_insn info (mx_offset info) desc) (recognised info)"
proof (cases "0 < length (readable info)")
  case False
  have "read_byte info (mx_offset info) = Some None" using read_byte_near [OF assms(1), of 0] False assms(1) by (simp add: fits_readable)
  with False show ?thesis by (simp add: decode_insn_def wp recognised_def insn_of_def)
next
  case True
  define b where "b = mx_code info ! 0"
  have code: "readable info = b # drop 1 (readable info)" using readable_Cons [OF True] by (simp add: b_def)
  have rb: "read_byte info (mx_offset info) = Some (Some b)"
    using read_byte_near [OF assms(1), of 0] True assms(1) by (simp add: b_def fits_readable)
  let ?page = "find_page (ct_prefix (mx_cpu info)) (ct_pageX (mx_cpu info)) b"
  let ?d = "desc\<lparr>ds_insn := M680X_INS_ILLGL, ds_opcode := ucast b\<rparr>"
  show ?thesis
  proof (cases ?page)
    case None
    have rec: "recognise (mx_cpu info) (readable info) = Some (ds_opcode ?d, 1, base_entry (mx_cpu info) b)"
      by (subst code) (simp add: None)
    obtain opc where e: "entry_ok opc (base_entry (mx_cpu info) b)" using base_entry_ok [OF assms(2)] by blast
    let ?d' = "(desc_entry (base_entry (mx_cpu info) b) ?d)\<lparr>ds_insn_size := of_nat 1\<rparr>"
    have "decode_insn info (mx_offset info) desc =
        (if ds_insn ?d' \<noteq> M680X_INS_ILLGL \<and> ds_insn ?d' \<noteq> M680X_INS_INVLD
         then is_sufficient_code_size info (mx_offset info + of_nat 1) ?d' else Some (False, ?d'))"
      by (simp add: decode_insn_def rb None decode_page1_base [OF assms(2)] Let_def)
    also have "yields \<dots> (recognised info)"
      by (rule finish_recognised [OF assms(1) e _ _ rec refl]) (use True in \<open>simp_all add: Suc_le_eq\<close>)
    finally show ?thesis .
  next
    case (Some tab)
    show ?thesis
    proof (cases "1 < length (readable info)")
      case False
      then have one: "drop 1 (readable info) = []" by simp
      have "recognise (mx_cpu info) (readable info) = None" by (subst code) (simp only: one recognise.simps Some, simp)
      with False show ?thesis
        using read_byte_near [OF assms(1), of 1] assms(1)
        by (simp add: decode_insn_def rb Some wp recognised_def insn_of_def Let_def fits_readable)
    next
      case two: True
      define b2 where "b2 = mx_code info ! 1"
      have code: "readable info = b # b2 # drop 2 (readable info)"
        using code readable_Cons [OF two] by (simp add: b2_def numeral_2_eq_2)
      have rb2: "read_byte info (mx_offset info + 1) = Some (Some b2)"
        using read_byte_near [OF assms(1), of 1] two assms(1) by (simp add: b2_def fits_readable)
      let ?d2 = "?d\<lparr>ds_opcode := push_bit 8 (ucast b) OR ucast b2\<rparr>"
      have "rising tab" using cpu_ok_tables(2) [OF assms(2)] find_page_Some [OF Some] page_ok_rising by blast
      then obtain r where r: "binary_search tab b2 = Some r"
        "page_lookup tab (unat b2) = (if 0 \<le> r then Some (tab ! nat r) else None)" "0 \<le> r \<longrightarrow> nat r < length tab"
        by (rule search_entry [where opcode = b2]) blast
      show ?thesis
      proof (cases "0 \<le> r")
        case False
        then have "recognise (mx_cpu info) (readable info) = None" by (subst code) (simp add: Some r(2))
        with False show ?thesis by (simp add: decode_insn_def rb Some rb2 r(1) wp recognised_def insn_of_def Let_def)
      next
        case True
        let ?e = "snd (tab ! nat r)"
        let ?d' = "(desc_entry ?e ?d2)\<lparr>ds_insn_size := of_nat 2\<rparr>"
        have lk: "page_lookup tab (unat b2) = Some (tab ! nat r)" using r(2) True by simp
        note e = page_entry [OF assms(2) Some lk]
        have rec: "recognise (mx_cpu info) (readable info) = Some (ds_opcode ?d2, 2, ?e)"
          by (subst code) (simp add: Some lk)
        have "decode_insn info (mx_offset info) desc =
            (if ds_insn ?d' \<noteq> M680X_INS_ILLGL \<and> ds_insn ?d' \<noteq> M680X_INS_INVLD
             then is_sufficient_code_size info (mx_offset info + of_nat 2) ?d' else Some (False, ?d'))"
          using True r(1,3) e(3)
          by (cases ?e) (simp add: decode_insn_def rb Some rb2 aget_def decode_page1_other desc_entry_def Let_def
              add.commute [of 2 "mx_offset info"])
        also have "yields \<dots> (recognised info)"
          by (rule finish_recognised [OF assms(1) e(2) _ _ rec refl]) (use two in simp_all)
        finally show ?thesis .
      qed
    qed
  qed
qed

lemma low_byte:
  "unat ((push_bit 8 x OR ucast c) AND 0xff :: u32) = unat (c :: u8)" "unat (ucast c AND 0xff :: u32) = unat c"
proof -
  have ff: "(0xff :: u32) = mask 8" by (simp add: mask_eq_exp_minus_1)
  have c: "take_bit 8 (ucast c :: u32) = ucast c" 
    using byte_index [of c] by (simp add: word_unat_eq_iff unsigned_take_bit_eq take_bit_nat_eq_self)
  show "unat (ucast c AND 0xff :: u32) = unat c" unfolding ff take_bit_eq_mask [symmetric] c by simp
  show "unat ((push_bit 8 x OR ucast c) AND 0xff :: u32) = unat c"
    unfolding ff take_bit_eq_mask [symmetric] by (simp add: take_bit_push_bit c)
qed

lemma recognise_entry:
  assumes "cpu_ok cpu" "recognise cpu code = Some (opc, n, insn, h0, h1)"
  obtains opc' where "entry_ok opc' (insn, h0, h1)" "h0 = tfm_hid \<Longrightarrow> unat (opc AND 0xff) = opc'"
proof (cases code)
  case (Cons b bs)
  note low = low_byte
  show ?thesis
  proof (cases "find_page (ct_prefix cpu) (ct_pageX cpu) b")
    case None
    with assms(2) Cons have eq: "opc = ucast b" "base_entry cpu b = (insn, h0, h1)" by auto
    from base_entry_ok [OF assms(1), of b] show ?thesis
    proof
      assume "entry_ok 0 (base_entry cpu b)"
      then show ?thesis using eq by (intro that [of 0]) (auto simp: entry_ok_def)
    next
      assume "entry_ok (unat b) (base_entry cpu b)"
      then show ?thesis using eq low by (intro that [of "unat b"]) auto
    qed
  next
    case (Some tab)
    with assms(2) Cons obtain b2 bs' e where b2: "bs = b2 # bs'" "page_lookup tab (unat b2) = Some e"
      "snd e = (insn, h0, h1)" "opc = push_bit 8 (ucast b) OR ucast b2" by (auto split: list.splits)
    from page_entry(2) [OF assms(1) Some b2(2)] b2(3,4) low show ?thesis by (intro that [of "unat b2"]) auto
  qed
qed (use assms(2) in simp)

lemma recognise_length: "recognise cpu code = Some (opc, n, e) \<Longrightarrow> n = 1 \<or> n = 2"
  by (cases "(cpu, code)" rule: recognise.cases) (auto split: option.splits list.splits)

lemma hid_length_bound: "hid_length cpu hid bs = Some j \<Longrightarrow> j \<le> hid_size hid"
  by (cases hid)
    (auto simp: hid_length_def post_len_def post_len09_def post_len12_def Let_def split: list.splits if_splits)

lemma insn_of_entry:
  assumes "cpu_ok cpu" "insn_of cpu bs = Some (opc, l, insn, h0, h1)"
  obtains opc' where "entry_ok opc' (insn, h0, h1)" "h0 = tfm_hid \<Longrightarrow> unat (opc AND 0xff) = opc'"
    "0 < l" "l \<le> 8" "l \<le> length bs" "insn \<noteq> M680X_INS_ILLGL"
proof -
  obtain n j where n: "recognise cpu bs = Some (opc, n, insn, h0, h1)" "insn \<noteq> M680X_INS_ILLGL"
    "seq_length (hid_length cpu h0) (hid_length cpu h1) (drop n bs) = Some j" "l = n + j" "l \<le> length bs"
    using assms(2) by (auto simp: insn_of_def split: option.splits if_splits)
  obtain opc' where e: "entry_ok opc' (insn, h0, h1)" "h0 = tfm_hid \<Longrightarrow> unat (opc AND 0xff) = opc'"
    using recognise_entry [OF assms(1) n(1)] by blast
  have "j \<le> hid_size h0 + hid_size h1"
    using n(3) by (fastforce simp: seq_length_def split: option.splits dest: hid_length_bound)
  then show ?thesis
    using recognise_length [OF n(1)] entry_ok_size [OF e(1)] n e by (intro that) auto
qed

end
