(* ===== verification/M680X_Safety.thy ===== *)
theory M680X_Safety
  imports M680X_Length
begin

text \<open>
  The safety of the M680X decoder: every handler of every table entry stays within the operands and
  the details, and what \<^verbatim>\<open>M680X_getInstruction\<close> returns.
\<close>

section \<open>The handlers of an entry\<close>

text \<open>The instructions a handler may set in place of the one of the entry.\<close>

definition late_insns :: "insn_hdlr_id \<Rightarrow> nat set" where
  "late_insns hid = (case hid of illgl_hid \<Rightarrow> {M680X_INS_ILLGL} | rr12_hid \<Rightarrow> {M680X_INS_EXG, M680X_INS_TFR}
     | loop_hid \<Rightarrow> set loop_insn_ids | _ \<Rightarrow> {})"

lemma late_insns_light: "insn \<in> late_insns hid \<Longrightarrow> insn < 357 \<and> insn \<notin> set heavy_insns"
  by (cases hid) (auto simp: late_insns_def loop_insn_ids_def heavy_insns_def)

lemmas handler_specs = inherent_hdlr_spec illegal_hdlr_spec relative8_hdlr_spec relative16_hdlr_spec immediate_hdlr_spec
  direct_hdlr_spec extended_hdlr_spec indexed8_hdlr_spec indexed09_hdlr_spec reg_reg09_hdlr_spec bit_move_hdlr_spec
  opidx_hdlr_spec opidx_dir_rel_hdlr_spec indexedX0_hdlr_spec indexedX16_hdlr_spec imm_rel_hdlr_spec indexedS16_hdlr_spec
  indexedX0p_hdlr_spec indexed12_hdlr_spec reg_reg12_hdlr_spec loop_hdlr_spec index_hdlr_spec imm_idx12_x_hdlr_spec
  ext_idx12_x_hdlr_spec

lemma g_insn_handler_spec:
  assumes "hid \<noteq> tfm_hid" "hid \<noteq> rbits_hid"
  shows "\<exists>v d. v + d \<le> hid_regs hid \<and> hdlr_spec (g_insn_handler hid) (hid_ops hid) v d 1 256 (late_insns hid)"
proof -
  have *: "\<exists>v d. v + d \<le> c \<and> hdlr_spec h n v d 1 256 L"
    if "hdlr_spec h n' v d e m T" "v + d \<le> c" "n' \<le> n" "e \<le> 1" "m \<le> 256" "T \<subseteq> L" for h n n' v d e m T c L
    using hdlr_spec_mono [OF that(1), of n v d 1 256 L] that(2-) by auto
  show ?thesis
    using assms
    by (cases hid)
      (simp_all only: simp_thms g_insn_handler.simps hid_ops.simps hid_regs.simps indexedX_hdlr_def indexedY_hdlr_def
        indexedS_hdlr_def indexedXp_hdlr_def,
        ((rule *, rule handler_specs, auto simp: late_insns_def)[1])+)
qed

text \<open>The first handler of an entry, after the operands of the mnemonic.\<close>

lemma rbits_props:
  "insn \<in> {M680X_INS_PSHS, M680X_INS_PSHU, M680X_INS_PULS, M680X_INS_PULU} \<Longrightarrow>
   ip_reg0 (g_insn_props ! insn) \<in> {M680X_REG_S, M680X_REG_U} \<and> ip_reg1 (g_insn_props ! insn) = M680X_REG_INVALID"
  by (auto simp: g_insn_props_def)

lemma after_mono:
  assumes "yields m (after M I S r g n w k)" "S \<subseteq> S'" "r \<le> r'" "g \<le> g'" "n \<le> n'" "w \<le> w'" "k \<le> k'"
  shows "yields m (after M I S' r' g' n' w' k')"
  using assms by (auto simp: after_def elim!: yields_mono budget_mono holding_mono near_mono)

lemma first_handler:
  assumes I: "env I" and e: "entry_ok opc (insn, h0, h1)" and opc: "h0 = tfm_hid \<Longrightarrow> unat (mi_Opcode M AND 0xff) = opc"
    and b: "budget M 0 0 MI" and info: "holding I {insn} 0 0 info" and a: "near I 2 a" and c: "m6_op_count (mx_m680x info) = 0"
  shows "\<exists>v d. v + d \<le> hid_regs h0 \<and> yields (mnem_operands info \<bind> (\<lambda>info. g_insn_handler h0 MI info a))
    (after M I ({insn} \<union> late_insns h0) d 1 (if h0 = rbits_hid then 9 else 2 + hid_ops h0) (2 + v) 258)"
proof -
  have insn: "mx_insn info < 357" "mx_insn info = insn" using e info by (simp_all add: entry_ok_def holding_def)
  note mnem = mnem_operands_holding [OF I info _ insn(1), simplified insn(2)]
  consider "h0 = tfm_hid" | "h0 = rbits_hid" | "h0 \<noteq> tfm_hid" "h0 \<noteq> rbits_hid" by blast
  then show ?thesis
  proof cases
    case 1
    have "yields (mnem_operands info \<bind> (\<lambda>info. g_insn_handler h0 MI info a)) (after M I ({insn} \<union> late_insns h0) 1 1 4 12 258)"
    proof (rule yields_then [OF mnem], simp, elim conjE)
      fix info' assume "holding I {insn} (0 + 2) (0 + 2) info'"
      then have "yields (tfm_hdlr MI info' a) (after M I {insn} (0 + 1) 0 (0 + 2 + 2) (0 + 2 + 10) (2 + 1))"
        using I b a opc 1 e by (intro tfm_hdlr_after) (auto simp: entry_ok_def)
      then show "yields (g_insn_handler h0 MI info' a) (after M I ({insn} \<union> late_insns h0) 1 1 4 12 258)"
        unfolding 1 g_insn_handler.simps by (rule after_mono) auto
    qed
    with 1 show ?thesis by (intro exI [of _ 10] exI [of _ 1]) simp
  next
    case 2
    have r: "ip_reg0 (g_insn_props ! insn) \<in> {M680X_REG_S, M680X_REG_U}" "ip_reg1 (g_insn_props ! insn) = M680X_REG_INVALID"
      using rbits_props [of insn] e 2 by (auto simp: entry_ok_def)
    have "yields (mnem_operands info \<bind> (\<lambda>info. g_insn_handler h0 MI info a)) (after M I ({insn} \<union> late_insns h0) 0 1 9 9 258)"
    proof (rule yields_then [OF mnem], simp, elim conjE)
      fix info'
      assume "\<forall>reg. m6_op_count (mx_m680x info) = 0 \<and> ip_reg0 (g_insn_props ! insn) = reg \<and> reg \<noteq> M680X_REG_INVALID \<and>
        reg \<noteq> M680X_REG_HX \<longrightarrow> first_op I reg info' \<and>
        (ip_reg1 (g_insn_props ! insn) = M680X_REG_INVALID \<longrightarrow> holding I {insn} (0 + 1) (0 + 1) info')"
      with r c have "first_op I (ip_reg0 (g_insn_props ! insn)) info'" "holding I {insn} (0 + 1) (0 + 1) info'"
        by auto
      then have "yields (reg_bits_hdlr MI info' a) (after M I {insn} 0 (0 + 1) (0 + 1 + 8) (0 + 1 + 8) (2 + 1))"
        using I b a r(1) by (intro reg_bits_hdlr_after) (auto simp: first_op_def)
      then show "yields (g_insn_handler h0 MI info' a) (after M I ({insn} \<union> late_insns h0) 0 1 9 9 258)"
        unfolding 2 g_insn_handler.simps by (rule after_mono) auto
    qed
    then show ?thesis
      using 2 by (intro exI [of _ 8] exI [of _ 0]) (auto elim: after_mono)
  next
    case 3
    then obtain v d where vd: "v + d \<le> hid_regs h0" "hdlr_spec (g_insn_handler h0) (hid_ops h0) v d 1 256 (late_insns h0)"
      using g_insn_handler_spec by blast
    have lim: "0 + 2 + hid_ops h0 \<le> 9" "0 + d \<le> 16" using e vd(1) 3 by (auto simp: entry_ok_def split: if_splits)
    have "yields (mnem_operands info \<bind> (\<lambda>info. g_insn_handler h0 MI info a))
        (after M I ({insn} \<union> late_insns h0) (0 + d) (0 + 1) (0 + 2 + hid_ops h0) (0 + 2 + v) (2 + 256))"
      by (rule yields_then [OF mnem], simp) (elim conjE, rule hdlr_specD [OF vd(2) I b _ a], use lim in simp_all)
    with 3 vd(1) show ?thesis by (intro exI [of _ v] exI [of _ d]) simp
  qed
qed

lemma entry_handlers:
  assumes I: "env I" and e: "entry_ok opc (insn, h0, h1)" and opc: "h0 = tfm_hid \<Longrightarrow> unat (mi_Opcode M AND 0xff) = opc"
    and b: "budget M 0 0 MI" and info: "holding I {insn} 0 0 info" and a: "near I 2 a" and c: "m6_op_count (mx_m680x info) = 0"
  shows "yields (mnem_operands info \<bind> (\<lambda>info. g_insn_handler h0 MI info a) \<bind>
      (\<lambda>(MI, info, address). g_insn_handler h1 MI info address) \<bind> (\<lambda>(MI, info, address). fill_access MI info))
    (\<lambda>(MI', info'). budget M 16 8 MI' \<and> holding I ({insn} \<union> late_insns h0 \<union> late_insns h1) 9 16 info')"
proof -
  obtain v0 d0 where h0: "v0 + d0 \<le> hid_regs h0" "yields (mnem_operands info \<bind> (\<lambda>info. g_insn_handler h0 MI info a))
      (after M I ({insn} \<union> late_insns h0) d0 1 (if h0 = rbits_hid then 9 else 2 + hid_ops h0) (2 + v0) 258)"
    using first_handler [OF assms] by blast
  have "h1 \<noteq> tfm_hid" "h1 \<noteq> rbits_hid" using e by (simp_all add: entry_ok_def)
  then obtain v1 d1 where h1: "v1 + d1 \<le> hid_regs h1" "hdlr_spec (g_insn_handler h1) (hid_ops h1) v1 d1 1 256 (late_insns h1)"
    using g_insn_handler_spec by blast
  have ops: "(if h0 = rbits_hid then 9 else 2 + hid_ops h0) + hid_ops h1 \<le> 9" using e by (auto simp: entry_ok_def split: if_splits)
  have regs: "d0 + d1 + 1 + (2 + v0 + v1) + changed_count i \<le> 16" if "i \<in> {insn} \<union> late_insns h0 \<union> late_insns h1" for i
  proof -
    have "hid_regs h0 + hid_regs h1 \<le> 4 \<or> hid_regs h0 + hid_regs h1 \<le> 11 \<and> i \<notin> set heavy_insns"
      using e that late_insns_light [of i h0] late_insns_light [of i h1] by (auto simp: entry_ok_def)
    with changed_count_le [of i] h0(1) h1(1) show ?thesis by linarith
  qed
  have i357: "i < 357" if "i \<in> {insn} \<union> late_insns h0 \<union> late_insns h1" for i
    using e that late_insns_light [of i h0] late_insns_light [of i h1] by (auto simp: entry_ok_def)
  have "d0 + d1 \<le> 16" using regs [of insn] by simp
  let ?R = "{insn} \<union> late_insns h0" and ?S = "{insn} \<union> late_insns h0 \<union> late_insns h1" and ?n = "if h0 = rbits_hid then 9 else 2 + hid_ops h0"
  have "yields (mnem_operands info \<bind> (\<lambda>info. g_insn_handler h0 MI info a) \<bind> (\<lambda>(MI, info, address). g_insn_handler h1 MI info address))
    (after M I (?R \<union> late_insns h1) (d0 + d1) (1 + 1) (?n + hid_ops h1) (2 + v0 + v1) (258 + 256))"
  proof (rule yields_then [OF h0(2)], clarify)
    fix MI info address assume "after M I ?R d0 1 ?n (2 + v0) 258 (MI, info, address)"
    then show "yields (g_insn_handler h1 MI info address)
      (after M I (?R \<union> late_insns h1) (d0 + d1) (1 + 1) (?n + hid_ops h1) (2 + v0 + v1) (258 + 256))"
      using ops \<open>d0 + d1 \<le> 16\<close> by (intro hdlr_specD [OF h1(2) I]) simp_all
  qed
  then have "yields (mnem_operands info \<bind> (\<lambda>info. g_insn_handler h0 MI info a) \<bind> (\<lambda>(MI, info, address). g_insn_handler h1 MI info address))
    (after M I ?S (d0 + d1) 2 9 (2 + v0 + v1) 514)"
    by (rule after_mono) (use ops in simp_all)
  then show ?thesis
  proof (rule yields_then, clarify)
    fix MI' info' a' assume "after M I ?S (d0 + d1) 2 9 (2 + v0 + v1) 514 (MI', info', a')"
    then have p: "budget M (d0 + d1) 2 MI'" "holding I ?S 9 (2 + v0 + v1) info'" by simp_all
    then have "mx_insn info' \<in> ?S" by (simp add: holding_def)
    with regs [OF this] i357 [OF this]
    have "yields (fill_access MI' info') (\<lambda>(MI', info'). budget M 16 (2 + 1) MI' \<and> holding I ?S 9 (2 + v0 + v1) info')"
      by (intro fill_access_budget [OF I p(2) _ p(1)]) simp_all
    then show "yields (fill_access MI' info') (\<lambda>(MI', info'). budget M 16 8 MI' \<and> holding I ?S 9 16 info')"
      by (rule yields_mono) (use regs [of insn] in \<open>auto elim: budget_mono holding_mono\<close>)
  qed
qed

section \<open>One instruction\<close>

text \<open>What the decoder may change of an instruction object: its opcode and the contents of its details.\<close>

definition detailed :: "MCInst \<Rightarrow> MCInst \<Rightarrow> bool" where
  "detailed MI MI' \<longleftrightarrow>
     (case in_detail (mi_flat_insn MI) of None \<Rightarrow> MI' = MI\<lparr>mi_Opcode := mi_Opcode MI'\<rparr>
      | Some (p, _) \<Rightarrow> \<exists>d. MI' = with_detail (MI\<lparr>mi_Opcode := mi_Opcode MI'\<rparr>) (Some (p, d)) \<and> detail_budget 16 8 d)"

lemma clear_detail_budget: "detail_wf d \<Longrightarrow> detail_budget 0 0 (clear_detail d)"
  by (simp add: detail_budget_def detail_wf_def clear_detail_def reg_list_def)

lemma cleared_budget:
  assumes "\<And>p d. in_detail (mi_flat_insn MI) = Some (p, d) \<Longrightarrow> detail_wf d"
  shows "yields (on_detail (\<lambda>d. Some (clear_detail d)) MI) (\<lambda>MI1. \<forall>opc. budget (MCInst_setOpcode MI1 opc) 0 0 (MCInst_setOpcode MI1 opc) \<and>
    (\<forall>MI'. budget (MCInst_setOpcode MI1 opc) 16 8 MI' \<longrightarrow> detailed MI MI' \<and> mi_Opcode MI' = opc))"
proof (cases "in_detail (mi_flat_insn MI)")
  case None
  then show ?thesis by (auto simp: on_detail_def wp budget_def detailed_def MCInst_setOpcode_def)
next
  case (Some pd)
  then obtain p d where pd: "in_detail (mi_flat_insn MI) = Some (p, d)" by (cases pd) auto
  with assms have "detail_budget 0 0 (clear_detail d)" by (blast intro: clear_detail_budget)
  with pd show ?thesis
    by (auto simp: on_detail_def wp budget_def detailed_def MCInst_setOpcode_def with_detail_def)
      (rule exI [of _ "clear_detail d"], simp)
qed

lemma zero_m680x_empty: "length (m6_operands zero_m680x) = 9" "m6_op_count zero_m680x = 0"
  "sum_list (map op_weight (m6_operands zero_m680x)) = 0"
  by (simp_all add: zero_m680x_def op_weight_def zero_op_def)

text \<open>The outcome: the instruction the readable bytes start with, or one illegal byte.\<close>

definition first_byte :: "u8 list \<Rightarrow> u8" where
  "first_byte bs = (case bs of [] \<Rightarrow> 0 | b # _ \<Rightarrow> b)"

definition illegal_byte :: "u8 \<Rightarrow> m680x_info \<Rightarrow> bool" where
  "illegal_byte b info \<longleftrightarrow> mx_insn info = M680X_INS_ILLGL \<and> m6_op_count (mx_m680x info) = 1 \<and>
     mo_type (m6_operands (mx_m680x info) ! 0) = M680X_OP_IMMEDIATE \<and> mo_imm (m6_operands (mx_m680x info) ! 0) = ucast b"

definition disassembled :: "m680x_info \<Rightarrow> MCInst \<Rightarrow> u32 \<times> MCInst \<times> m680x_info \<Rightarrow> bool" where
  "disassembled info MI = (\<lambda>(n, MI', info').
     detailed MI MI' \<and> length (m6_operands (mx_m680x info')) = 9 \<and> unat (m6_op_count (mx_m680x info')) \<le> 9 \<and>
     mx_cpu_type info' = mx_cpu_type info \<and> mx_cpu info' = mx_cpu info \<and>
     (case insn_of (mx_cpu info) (readable info) of
        None \<Rightarrow> n = 1 \<and> illegal_byte (first_byte (readable info)) info'
      | Some (opc, l, insn, h0, h1) \<Rightarrow> unat n = l \<and> mi_Opcode MI' = opc \<and> mx_insn info' \<in> {insn} \<union> late_insns h0 \<union> late_insns h1))"

lemma size_cast: "q < 256 \<Longrightarrow> unat (ucast (ucast (of_nat q :: u16) :: u8) :: u32) = q"
  by (simp add: unsigned_ucast_eq unsigned_of_nat take_bit_nat_eq_self)

lemma illegal_hdlr_byte:
  assumes "env info" "m6_op_count (mx_m680x info) = 0" "illegal_hdlr MI info (mx_offset info) = Some (MI', info', a')"
    and "length (m6_operands (mx_m680x info)) = 9"
  shows "illegal_byte (first_byte (readable info)) info'"
proof -
  let ?I = "info\<lparr>mx_m680x := (mx_m680x info)\<lparr>m6_op_count := 1\<rparr>, mx_insn := M680X_INS_ILLGL\<rparr>"
  have env: "env ?I" and readable: "readable ?I = readable info" using assms(1) by (simp_all add: env_def readable_def)
  have "(case readable info of [] \<Rightarrow> 0 | b # _ \<Rightarrow> b) = (if readable info = [] then 0 else readable info ! 0)" by (cases "readable info") simp_all
  then have "or_keep 0 (read_byte ?I (mx_offset info)) = Some (first_byte (readable info))"
    using read_byte_near [OF env, of 0] fits_readable [OF env, of 0] readable_nth [of 0 ?I]
    by (simp add: readable or_keep_def first_byte_def)
  moreover have "(ucast b AND 0xff :: u32) = ucast b" for b :: u8
  proof -
    have ff: "(0xff :: u32) = mask 8" by (simp add: mask_eq_exp_minus_1)
    show ?thesis unfolding ff by (rule bit_eqI; auto simp: bit_simps dest: bit_imp_le_length)
  qed
  moreover have "m6_operands (mx_m680x info) \<noteq> []" using assms(4) by auto
  ultimately show ?thesis
    using assms(2,3) by (auto simp: illegal_hdlr_def new_operand_def on_operand_def Let_def illegal_byte_def aget_def aset_def)
qed

lemma m680x_disassemble_defined:
  assumes "env info" "cpu_ok (mx_cpu info)" "\<And>p d. in_detail (mi_flat_insn MI) = Some (p, d) \<Longrightarrow> detail_wf d"
    and base: "base = mx_offset info"
  shows "yields (m680x_disassemble MI info base) (disassembled info MI)"
proof -
  let ?I = "info\<lparr>mx_m680x := zero_m680x, mx_insn_size := 1\<rparr>"
  have I: "env ?I" "cpu_ok (mx_cpu ?I)" "mx_offset ?I = base"
    using assms(1,2,4) by (simp_all add: env_def)
  have readable: "readable ?I = readable info" by (simp add: readable_def)
  have start: "holding ?I {i} 0 0 (?I\<lparr>mx_insn := i\<rparr>)" for i by (simp add: holding_def zero_m680x_empty)
  have near: "near ?I 2 (base + (if b then 2 else 1))" for b
    using near_plus [of ?I 0 base 1] near_plus [of ?I 0 base 2] near_start [of ?I 0]
    by (auto simp: base elim: near_mono)
  show ?thesis
    unfolding m680x_disassemble_def Let_def
  proof (rule yields_then [OF cleared_budget [OF assms(3)]], assumption,
      rule yields_then [OF decode_insn_recognised [OF I(1,2), unfolded I(3)]], clarify)
    fix MI1 ok desc
    assume b: "\<forall>opc. budget (MCInst_setOpcode MI1 opc) 0 0 (MCInst_setOpcode MI1 opc) \<and>
        (\<forall>MI'. budget (MCInst_setOpcode MI1 opc) 16 8 MI' \<longrightarrow> detailed MI MI' \<and> mi_Opcode MI' = opc)"
      and rec: "recognised ?I (ok, desc)"
    let ?M = "MCInst_setOpcode MI1 (ds_opcode desc)"
    have M: "budget ?M 0 0 ?M" and fin: "\<And>MI'. budget ?M 16 8 MI' \<Longrightarrow> detailed MI MI' \<and> mi_Opcode MI' = ds_opcode desc"
      using b by blast+
    have "yields (do {
          (MI, info, address) \<leftarrow> illegal_hdlr ?M ?I base;
          Some (1, MI, info) }) (disassembled info MI)" if "\<not> ok"
    proof -
      have none: "insn_of (mx_cpu info) (readable info) = None"
        using rec that by (auto simp: recognised_def readable split: option.splits)
      have "holding ?I {mx_insn info} 0 0 ?I" using start [of "mx_insn info"] by simp
      then have "yields (illegal_hdlr ?M ?I base) (after ?M ?I ({mx_insn info} \<union> {M680X_INS_ILLGL}) (0 + 0) (0 + 0) (0 + 1) (0 + 0) (0 + 1))"
        using near_start [of ?I 0] base by (intro hdlr_specD [OF illegal_hdlr_spec I(1) M]) simp_all
      then obtain MI' info' a' where h: "illegal_hdlr ?M ?I base = Some (MI', info', a')" "budget ?M 0 0 MI'"
        "holding ?I ({mx_insn info} \<union> {M680X_INS_ILLGL}) 1 0 info'" by (auto simp: yields_def)
      have "budget ?M 16 8 MI'" by (rule budget_mono [OF h(2)]) simp_all
      moreover have "illegal_byte (first_byte (readable info)) info'"
        using illegal_hdlr_byte [OF I(1), of ?M] h(1) I(3) by (simp add: zero_m680x_empty readable)
      moreover have "mx_cpu_type info' = mx_cpu_type info" "mx_cpu info' = mx_cpu info"
        using holding_same(4,5) [OF h(3)] by simp_all
      ultimately show ?thesis
        using fin h(3) by (simp add: h(1) wp disassembled_def holding_def none)
    qed
    moreover have "yields (do {
          info \<leftarrow> mnem_operands (?I\<lparr>mx_insn := ds_insn desc\<rparr>);
          (MI, info, address) \<leftarrow> g_insn_handler (ds_hid0 desc) ?M info (base + (if ds_opcode desc > 0xff then 2 else 1));
          (MI, info, address) \<leftarrow> g_insn_handler (ds_hid1 desc) MI info address;
          (MI, info) \<leftarrow> fill_access MI info;
          Some (ucast (mx_insn_size (info\<lparr>mx_insn_size := ucast (ds_insn_size desc)\<rparr>)), MI, info\<lparr>mx_insn_size := ucast (ds_insn_size desc)\<rparr>) })
        (disassembled info MI)" if ok
    proof -
      from rec that obtain l where l: "insn_of (mx_cpu info) (readable info) = Some (ds_opcode desc, l, ds_insn desc, ds_hid0 desc, ds_hid1 desc)"
        "ds_insn_size desc = of_nat l"
        by (auto simp: recognised_def readable split: option.splits)
      obtain opc where e: "entry_ok opc (ds_insn desc, ds_hid0 desc, ds_hid1 desc)"
        "ds_hid0 desc = tfm_hid \<Longrightarrow> unat (ds_opcode desc AND 0xff) = opc" "l \<le> 8"
        using insn_of_entry [OF assms(2) l(1)] by blast
      have opc: "unat (mi_Opcode ?M AND 0xff) = opc" if "ds_hid0 desc = tfm_hid" using e(2) that by (simp add: MCInst_setOpcode_def)
      have size: "unat (ucast (ucast (ds_insn_size desc) :: u8) :: u32) = l"
        unfolding l(2) by (intro size_cast) (use e(3) in simp)
      have "yields (mnem_operands (?I\<lparr>mx_insn := ds_insn desc\<rparr>) \<bind>
          (\<lambda>info. g_insn_handler (ds_hid0 desc) ?M info (base + (if ds_opcode desc > 0xff then 2 else 1))) \<bind>
          (\<lambda>(MI, info, address). g_insn_handler (ds_hid1 desc) MI info address) \<bind> (\<lambda>(MI, info, address). fill_access MI info))
        (\<lambda>(MI', info'). budget ?M 16 8 MI' \<and> holding ?I ({ds_insn desc} \<union> late_insns (ds_hid0 desc) \<union> late_insns (ds_hid1 desc)) 9 16 info')"
        using entry_handlers [OF I(1) e(1) opc M start near] by (simp add: zero_m680x_empty)
      then show ?thesis
        apply (simp only: yields_bind)
        apply (erule yields_mono)
        apply (erule yields_mono)
        apply (clarify, simp only: prod.case yields_bind)
        apply (erule yields_mono)
        apply (clarify, simp only: prod.case yields_bind)
        apply (erule yields_mono)
        subgoal premises p for x1 x2 x3 x4 x5 x6 x7 r
        proof (cases r)
          case (Pair MI' info')
          with p have "budget ?M 16 8 MI'" "holding ?I ({ds_insn desc} \<union> late_insns (ds_hid0 desc) \<union> late_insns (ds_hid1 desc)) 9 16 info'" by simp_all
          with fin [OF this(1)] holding_same(4,5) [OF this(2)] show ?thesis
            using l size unfolding Pair prod.case yields_Some disassembled_def holding_def by auto
        qed
        done
    qed
    ultimately show "yields (if ok then do {
          info \<leftarrow> mnem_operands (?I\<lparr>mx_insn := ds_insn desc\<rparr>);
          (MI, info, address) \<leftarrow> g_insn_handler (ds_hid0 desc) ?M info (base + (if ds_opcode desc > 0xff then 2 else 1));
          (MI, info, address) \<leftarrow> g_insn_handler (ds_hid1 desc) MI info address;
          (MI, info) \<leftarrow> fill_access MI info;
          Some (ucast (mx_insn_size (info\<lparr>mx_insn_size := ucast (ds_insn_size desc)\<rparr>)), MI, info\<lparr>mx_insn_size := ucast (ds_insn_size desc)\<rparr>) }
        else do {
          (MI, info, address) \<leftarrow> illegal_hdlr ?M ?I base;
          Some (1, MI, info) }) (disassembled info MI)"
      by simp
  qed
qed

section \<open>M680X-getInstruction\<close>

text \<open>
  The bytes the decoder sees: the length of the code is taken modulo \<open>2 ^ 16\<close>, and the code ends
  where the 16-bit address wraps.
\<close>

definition seen :: "u8 list \<Rightarrow> u64 \<Rightarrow> u8 list" where
  "seen code address = take (min (length code mod 65536) (65536 - unat (ucast address :: u16))) code"

lemma length_seen: "length (seen code address) \<le> length code"
  by (simp add: seen_def)

lemma setup_env:
  assumes "c \<noteq> M680X_CPU_TYPE_INVALID"
  shows "env (info\<lparr>mx_code := code, mx_size := ucast (of_nat (length code) :: u16), mx_offset := ucast (address :: u64),
      mx_cpu_type := c, mx_cpu := g_cpu_tables c\<rparr>)" (is "env ?I")
    and "readable (info\<lparr>mx_code := code, mx_size := ucast (of_nat (length code) :: u16), mx_offset := ucast address,
      mx_cpu_type := c, mx_cpu := g_cpu_tables c\<rparr>) = seen code address"
proof -
  have sz: "unat (ucast (of_nat (length code) :: u16) :: u32) = length code mod 65536"
    by (simp add: unsigned_ucast_eq unsigned_of_nat take_bit_eq_mod)
  then show "env ?I" by (intro g_cpu_tables_env [OF assms]) simp_all
  show "readable ?I = seen code address" by (simp add: readable_def seen_def sz)
qed

text \<open>The result for a CPU type \<open>c\<close>: the instruction of the reference, or an illegal byte.\<close>

definition decodes_to :: "e_cpu_type \<Rightarrow> u8 list \<Rightarrow> u64 \<Rightarrow> MCInst \<Rightarrow> u16 \<Rightarrow> m680x_info \<Rightarrow> bool" where
  "decodes_to c code address MI sz info \<longleftrightarrow>
     length (m6_operands (mx_m680x info)) = 9 \<and> unat (m6_op_count (mx_m680x info)) \<le> 9 \<and>
     mx_cpu_type info = c \<and> mx_cpu info = g_cpu_tables c \<and>
     (case insn_of (g_cpu_tables c) (seen code address) of
        None \<Rightarrow> unat sz = min 1 (length code) \<and> illegal_byte (first_byte (seen code address)) info
      | Some (opc, l, insn, h0, h1) \<Rightarrow> unat sz = l \<and> mi_Opcode MI = opc \<and> mx_insn info \<in> {insn} \<union> late_insns h0 \<union> late_insns h1)"

lemma M680X_getInstruction_outcome:
  fixes handle code MI address info
  defines "c \<equiv> m680x_cpu_type (ud_mode handle)"
  assumes wf: "\<And>p d. in_detail (mi_flat_insn MI) = Some (p, d) \<Longrightarrow> detail_wf d"
  shows "yields (M680X_getInstruction handle code MI address info) (\<lambda>(ok, MI', sz, info').
    ok = (c \<noteq> M680X_CPU_TYPE_INVALID \<and> code \<noteq> []) \<and>
    (c = M680X_CPU_TYPE_INVALID \<longrightarrow> MI' = MCInst_clear MI \<and> info' = info \<and> sz = 1) \<and>
    (c \<noteq> M680X_CPU_TYPE_INVALID \<longrightarrow> detailed (MCInst_clear MI) MI' \<and> decodes_to c code address MI' sz info'))"
    (is "yields _ ?Q")
proof (cases "c = M680X_CPU_TYPE_INVALID")
  case True
  then show ?thesis by (simp add: M680X_getInstruction_def c_def [symmetric] wp)
next
  case False
  let ?I = "info\<lparr>mx_code := code, mx_size := ucast (of_nat (length code) :: u16), mx_offset := ucast address,
    mx_cpu_type := c, mx_cpu := g_cpu_tables c\<rparr>"
  note env = setup_env(1) [OF False] and bs = setup_env(2) [OF False]
  have d: "yields (m680x_disassemble (MCInst_clear MI) ?I (ucast address)) (disassembled ?I (MCInst_clear MI))"
    using env g_cpu_tables_ok [OF False] wf by (intro m680x_disassemble_defined) (auto simp: MCInst_clear_def)
  have eq: "M680X_getInstruction handle code MI address info =
      m680x_disassemble (MCInst_clear MI) ?I (ucast address) \<bind> (\<lambda>(n, MI, info).
        if n = 0 then Some (False, MI, 1, info)
        else if unat n > length code then Some (False, MI, of_nat (length code), info)
        else Some (True, MI, ucast n, info))"
    using False by (simp add: M680X_getInstruction_def m680x_setup_internals_def c_def [symmetric] Let_def)
  show ?thesis
    unfolding eq
  proof (rule yields_then [OF d], clarify)
    fix n MI' info'
    assume x: "disassembled ?I (MCInst_clear MI) (n, MI', info')"
    show "yields (if n = 0 then Some (False, MI', 1, info')
        else if unat n > length code then Some (False, MI', of_nat (length code), info')
        else Some (True, MI', ucast n, info')) ?Q"
    proof (cases "insn_of (g_cpu_tables c) (seen code address)")
      case None
      with x have "n = 1" "detailed (MCInst_clear MI) MI'" "length (m6_operands (mx_m680x info')) = 9"
        "unat (m6_op_count (mx_m680x info')) \<le> 9" "illegal_byte (first_byte (seen code address)) info'" "mx_cpu_type info' = c" "mx_cpu info' = g_cpu_tables c"
        by (simp_all add: disassembled_def bs)
      with None False show ?thesis by (cases "code = []") (auto simp: decodes_to_def yields_Some Suc_le_eq min_def)
    next
      case (Some r)
      obtain opc l insn h0 h1 where r: "r = (opc, l, insn, h0, h1)" by (cases r)
      have l: "0 < l" "l \<le> 8" "l \<le> length code"
        using insn_of_entry [OF g_cpu_tables_ok [OF False]] Some length_seen [of code address] unfolding r
        by (metis le_trans)+
      from x have n: "unat n = l" by (simp add: disassembled_def bs Some r)
      then have "n \<noteq> 0" "unat (ucast n :: u16) = l" "code \<noteq> []"
        using l by (auto simp: unsigned_ucast_eq take_bit_nat_eq_self)
      with x n l False show ?thesis
        by (simp add: disassembled_def decodes_to_def bs Some r yields_Some)
    qed
  qed
qed

end
