(* ===== verification/M680X_Props.thy ===== *)
theory M680X_Props
  imports M680X_Safety Samples Engine_Session
begin

text \<open>
  The properties of the M680X decoder, each with a concrete instance.
\<close>

section \<open>The numbers of instructions\<close>

lemma find_page_zero: "find_page (ct_prefix (g_cpu_tables c)) (ct_pageX (g_cpu_tables c)) 0 = None"
  by (cases c) simp_all

lemma opcode_bytes:
  fixes b c :: u8
  shows "ucast (drop_bit 8 (ucast b :: u32) AND 0xff) = (0 :: u8)" "ucast (ucast b AND 0xff :: u32) = b"
    "ucast (drop_bit 8 (push_bit 8 (ucast c) OR ucast b :: u32) AND 0xff) = c"
    "ucast ((push_bit 8 (ucast c) OR ucast b :: u32) AND 0xff) = b"
proof -
  have ff: "(0xff :: u32) = mask 8" by (simp add: mask_eq_exp_minus_1)
  show "ucast (drop_bit 8 (ucast b :: u32) AND 0xff) = (0 :: u8)" "ucast (ucast b AND 0xff :: u32) = b"
    "ucast (drop_bit 8 (push_bit 8 (ucast c) OR ucast b :: u32) AND 0xff) = c"
    "ucast ((push_bit 8 (ucast c) OR ucast b :: u32) AND 0xff) = b"
    unfolding ff by (rule bit_eqI; auto simp: bit_simps dest: bit_imp_le_length)+
qed

lemma get_insn_id_recognise:
  assumes c: "c \<noteq> M680X_CPU_TYPE_INVALID" and cpu: "mx_cpu info = g_cpu_tables c"
    and rec: "recognise (g_cpu_tables c) bs = Some (opc, n, insn, h0, h1)"
  shows "M680X_Model.M680X_get_insn_id info i opc = Some (i\<lparr>in_id := of_nat insn\<rparr>)"
proof (cases bs)
  case (Cons b bs')
  note ok = g_cpu_tables_ok [OF c]
  show ?thesis
  proof (cases "find_page (ct_prefix (g_cpu_tables c)) (ct_pageX (g_cpu_tables c)) b")
    case None
    with rec Cons have eq: "opc = ucast b" "base_entry (g_cpu_tables c) b = (insn, h0, h1)" by auto
    obtain t where t: "ct_page1 (g_cpu_tables c) = Some t" "length t = 256" using cpu_ok_tables(1) [OF ok] by blast
    have lk: "find_overlay (ct_overlay (g_cpu_tables c)) b = Some (overlay_lookup (ct_overlay (g_cpu_tables c)) (unat b))"
      using cpu_ok_tables(2) [OF ok] page_ok_rising by (intro find_overlay_lookup) blast
    show ?thesis
      using eq(2) byte_index [of b] t
      by (auto simp: M680X_Model.M680X_get_insn_id_def cpu eq(1) opcode_bytes find_page_zero aget_def lk base_entry_def Let_def
          split: if_splits option.splits)
  next
    case (Some tab)
    with rec Cons obtain b2 bs2 e where b2: "bs' = b2 # bs2" "page_lookup tab (unat b2) = Some e"
      "snd e = (insn, h0, h1)" "opc = push_bit 8 (ucast b) OR ucast b2" by (auto split: list.splits)
    obtain r where r: "binary_search tab b2 = Some r"
      "page_lookup tab (unat b2) = (if 0 \<le> r then Some (tab ! nat r) else None)" "0 \<le> r \<longrightarrow> nat r < length tab"
      using page_entry(1) [OF ok Some b2(2)] by (rule search_entry [where opcode = b2]) blast
    then have "0 \<le> r" "e = tab ! nat r" using b2(2) by (auto split: if_splits)
    with r b2(3) show ?thesis
      unfolding M680X_Model.M680X_get_insn_id_def cpu b2(4) Let_def opcode_bytes Some by (simp add: aget_def)
  qed
qed (use rec in simp)

section \<open>An instruction is found by its own bytes\<close>






section \<open>The decoder\<close>

lemma detailed_wf: "detailed MI MI' \<Longrightarrow> mci_wf MI \<Longrightarrow> mci_wf MI'"
proof -
  assume d: "detailed MI MI'" and wf: "mci_wf MI"
  show ?thesis
  proof (cases "in_detail (mi_flat_insn MI)")
    case None
    with d have eq: "MI' = MI\<lparr>mi_Opcode := mi_Opcode MI'\<rparr>" by (simp add: detailed_def)
    show ?thesis using wf by (subst eq) (simp add: mci_wf_def)
  next
    case (Some x)
    with d obtain d' where eq: "MI' = with_detail (MI\<lparr>mi_Opcode := mi_Opcode MI'\<rparr>) (Some (fst x, d'))" and d': "detail_wf d'"
      by (cases x) (auto simp: detailed_def detail_budget_def)
    show ?thesis using wf d' by (subst eq) (auto simp: with_detail_def mci_wf_def insn_wf_def)
  qed
qed

lemma MCInst_clear_wf: "mci_wf MI \<Longrightarrow> mci_wf (MCInst_clear MI)"
  by (simp add: mci_wf_def MCInst_clear_def)

lemma insn_of_bounds:
  assumes "c \<noteq> M680X_CPU_TYPE_INVALID" "insn_of (g_cpu_tables c) (seen code address) = Some (opc, l, e)"
  shows "0 < l" "l \<le> 8" "l \<le> length code"
proof -
  obtain insn h0 h1 where e: "e = (insn, h0, h1)" by (cases e)
  show "0 < l" "l \<le> 8" "l \<le> length code"
    using insn_of_entry [OF g_cpu_tables_ok [OF assms(1)] assms(2) [unfolded e]] length_seen [of code address]
    by (metis le_trans)+
qed

lemma decoded:
  fixes handle code MI address info
  defines "c \<equiv> m680x_cpu_type (ud_mode handle)"
  assumes wf: "mci_wf MI"
  obtains ok MI' sz info' where
    "M680X_Model.M680X_getInstruction handle code MI address info = Some (ok, MI', sz, info')"
    "mci_wf MI'" "ok = (c \<noteq> M680X_CPU_TYPE_INVALID \<and> code \<noteq> [])"
    "c \<noteq> M680X_CPU_TYPE_INVALID \<Longrightarrow> decodes_to c code address MI' sz info'"
proof -
  have "detail_wf d" if "in_detail (mi_flat_insn MI) = Some (p, d)" for p d
    using wf that by (auto simp: mci_wf_def intro: insn_wf_detail)
  then have "yields (M680X_Model.M680X_getInstruction handle code MI address info) (\<lambda>(ok, MI', sz, info').
    ok = (c \<noteq> M680X_CPU_TYPE_INVALID \<and> code \<noteq> []) \<and>
    (c = M680X_CPU_TYPE_INVALID \<longrightarrow> MI' = MCInst_clear MI \<and> info' = info \<and> sz = 1) \<and>
    (c \<noteq> M680X_CPU_TYPE_INVALID \<longrightarrow> detailed (MCInst_clear MI) MI' \<and> decodes_to c code address MI' sz info'))"
    unfolding c_def by (rule M680X_getInstruction_outcome)
  then show ?thesis
  proof (rule yieldsE, clarify)
    fix ok MI' sz info'
    assume r: "M680X_Model.M680X_getInstruction handle code MI address info = Some (c \<noteq> M680X_CPU_TYPE_INVALID \<and> code \<noteq> [], MI', sz, info')"
      and none: "c = M680X_CPU_TYPE_INVALID \<longrightarrow> MI' = MCInst_clear MI \<and> info' = info \<and> sz = 1"
      and some: "c \<noteq> M680X_CPU_TYPE_INVALID \<longrightarrow> detailed (MCInst_clear MI) MI' \<and> decodes_to c code address MI' sz info'"
    have "mci_wf MI'"
      using none some detailed_wf MCInst_clear_wf [OF wf] by (cases "c = M680X_CPU_TYPE_INVALID") auto
    with r some show ?thesis by (intro that) auto
  qed
qed

text \<open>
  C4. The M680X decoder is defined for every code, address and CPU and every well formed
  instruction object, which it keeps well formed: it reads inside the code, writes inside the
  operand array and the register and group arrays of the details, and every table search ends. It
  fails exactly without a CPU type or without code. It recognises exactly the instructions of the
  reference \<open>insn_of\<close>, which finds the entry of the opcode by searching the lists of the CPU
  from the start and adds up the lengths of its operands, and reports their opcode and length, from
  1 to 8 bytes and never beyond the code; anything else is one illegal byte.
\<close>

theorem M680X_decoder_correct:
  assumes "mci_wf MI"
  shows "\<exists>ok MI' sz info'. M680X_Model.M680X_getInstruction handle code MI address info = Some (ok, MI', sz, info') \<and>
    mci_wf MI' \<and> (ok \<longleftrightarrow> m680x_cpu_type (ud_mode handle) \<noteq> M680X_CPU_TYPE_INVALID \<and> code \<noteq> []) \<and>
    (ok \<longrightarrow> 0 < unat sz \<and> unat sz \<le> 8 \<and> unat sz \<le> length code \<and>
       length (m6_operands (mx_m680x info')) = 9 \<and> unat (m6_op_count (mx_m680x info')) \<le> 9 \<and>
       (case insn_of (g_cpu_tables (m680x_cpu_type (ud_mode handle))) (seen code address) of
          None \<Rightarrow> sz = 1 \<and> mx_insn info' = M680X_INS_ILLGL
        | Some (opc, l, insn, h0, h1) \<Rightarrow> unat sz = l \<and> mi_Opcode MI' = opc \<and> mx_insn info' \<in> {insn} \<union> late_insns h0 \<union> late_insns h1))"
proof -
  let ?c = "m680x_cpu_type (ud_mode handle)"
  obtain ok MI' sz info' where r: "M680X_Model.M680X_getInstruction handle code MI address info = Some (ok, MI', sz, info')"
    "mci_wf MI'" "ok = (?c \<noteq> M680X_CPU_TYPE_INVALID \<and> code \<noteq> [])"
    and some: "?c \<noteq> M680X_CPU_TYPE_INVALID \<Longrightarrow> decodes_to ?c code address MI' sz info'"
    by (rule decoded [OF assms, of handle code address info]) blast
  have "unat sz = 1 \<Longrightarrow> sz = 1" by (simp add: word_unat_eq_iff)
  then show ?thesis
    using r some insn_of_bounds [of ?c code address]
    by (intro exI [of _ ok] exI [of _ MI'] exI [of _ sz] exI [of _ info'])
      (auto split: option.splits simp: decodes_to_def illegal_byte_def min_def Suc_le_eq)
qed

text \<open>
  A handle for the 6809 and the decoder's state before its first use. The sample instruction is
  \<^verbatim>\<open>lbrn\<close> with its prefix and a 16-bit offset.
\<close>

definition m6809_handle :: cs_struct where
  "m6809_handle = zero_struct\<lparr>ud_arch := CS_ARCH_M680X, ud_mode := CS_MODE_M680X_6809,
     ud_reg_name := Some GetRegName_t.M680X_reg_name, ud_insn_name := Some GetInsnName_t.M680X_insn_name\<rparr>"

definition fresh_info :: m680x_info where
  "fresh_info = \<lparr>mx_code = [], mx_size = 0, mx_offset = 0, mx_cpu_type = M680X_CPU_TYPE_INVALID, mx_m680x = zero_m680x,
     mx_cpu = g_cpu_tables M680X_CPU_TYPE_INVALID, mx_insn = 0, mx_insn_size = 0\<rparr>"

lemma m6809_cpu: "m680x_cpu_type (ud_mode m6809_handle) = M680X_CPU_TYPE_6809"
  by (simp add: m6809_handle_def m680x_cpu_type_def)

lemma insn_of_lbrn: "insn_of (g_cpu_tables M680X_CPU_TYPE_6809) (seen [0x10, 0x21, 0x12, 0x34] 0x1000) =
  Some (0x1021, 4, M680X_INS_LBRN, rel16_hid, inh_hid)"
  by (simp add: insn_of_def seen_def seq_length_def hid_length_def g_m6809_inst_page2_table_def
      unsigned_ucast_eq take_bit_eq_mod)

lemma decoded_lbrn:
  obtains MI' sz info' where
    "M680X_Model.M680X_getInstruction m6809_handle [0x10, 0x21, 0x12, 0x34] blank_inst 0x1000 fresh_info = Some (True, MI', sz, info')"
    "sz = 4" "mi_Opcode MI' = 0x1021" "mx_insn info' = M680X_INS_LBRN"
proof (rule decoded [OF blank_inst_wf, of m6809_handle "[0x10, 0x21, 0x12, 0x34]" "0x1000" fresh_info], unfold m6809_cpu)
  fix ok MI' sz info'
  assume a: "M680X_Model.M680X_getInstruction m6809_handle [0x10, 0x21, 0x12, 0x34] blank_inst 0x1000 fresh_info = Some (ok, MI', sz, info')"
    "ok = (M680X_CPU_TYPE_6809 \<noteq> M680X_CPU_TYPE_INVALID \<and> [0x10, 0x21, 0x12, 0x34 :: u8] \<noteq> [])"
    "M680X_CPU_TYPE_6809 \<noteq> M680X_CPU_TYPE_INVALID \<Longrightarrow> decodes_to M680X_CPU_TYPE_6809 [0x10, 0x21, 0x12, 0x34] 0x1000 MI' sz info'"
  then have "decodes_to M680X_CPU_TYPE_6809 [0x10, 0x21, 0x12, 0x34] 0x1000 MI' sz info'" by simp
  then have "unat sz = 4" "mi_Opcode MI' = 0x1021" "mx_insn info' = M680X_INS_LBRN"
    unfolding decodes_to_def insn_of_lbrn by (simp_all add: late_insns_def)
  moreover from this(1) have "sz = 4" by (simp add: word_unat_eq_iff)
  ultimately show thesis using a(1,2) by (intro that) simp_all
qed

theorem M680X_decoder_correct_witness:
  "\<exists>MI' sz info'. M680X_Model.M680X_getInstruction m6809_handle [0x10, 0x21, 0x12, 0x34] blank_inst 0x1000 fresh_info = Some (True, MI', sz, info') \<and>
     mci_wf MI' \<and> unat sz = 4 \<and> mi_Opcode MI' = 0x1021"
  using M680X_decoder_correct [OF blank_inst_wf, of m6809_handle "[0x10, 0x21, 0x12, 0x34]" "0x1000" fresh_info]
  unfolding m6809_cpu insn_of_lbrn by auto

text \<open>
  C19. The binary search of the opcode tables, on integers with \<^verbatim>\<open>last\<close> going down to -1, ends
  and stays inside the table, and on every opcode page and overlay of every CPU it finds exactly the
  entry that a search from the start of the table finds.
\<close>

theorem binary_search_correct:
  assumes "c \<noteq> M680X_CPU_TYPE_INVALID" "Some tab \<in> set (ct_overlay (g_cpu_tables c)) \<union> set (ct_pageX (g_cpu_tables c))"
  shows "\<exists>r. binary_search tab opcode = Some r \<and>
    (if 0 \<le> r then nat r < length tab \<and> page_lookup tab (unat opcode) = Some (tab ! nat r)
     else r = - 1 \<and> page_lookup tab (unat opcode) = None)"
proof -
  have "rising tab" using cpu_ok_tables(2) [OF g_cpu_tables_ok [OF assms(1)] assms(2)] by (rule page_ok_rising)
  note finds = binary_search_finds [OF this, of opcode] and nth = page_lookup_nth [OF this]
  obtain r where r: "binary_search tab opcode = Some r" "if unat opcode \<in> fst ` set tab
      then 0 \<le> r \<and> r < int (length tab) \<and> fst (tab ! nat r) = unat opcode else r = - 1"
    using finds by (rule yieldsE)
  show ?thesis
  proof (cases "unat opcode \<in> fst ` set tab")
    case True
    with r nth [of "nat r"] show ?thesis by (simp add: nat_less_iff)
  next
    case False
    with r page_lookup_None [of tab "unat opcode"] show ?thesis by simp
  qed
qed

theorem binary_search_correct_witness:
  "\<exists>r. binary_search g_m6809_inst_page2_table 0x21 = Some r \<and> 0 \<le> r \<and>
     page_lookup g_m6809_inst_page2_table 0x21 = Some (g_m6809_inst_page2_table ! nat r)"
proof -
  have "Some g_m6809_inst_page2_table \<in> set (ct_overlay (g_cpu_tables M680X_CPU_TYPE_6809)) \<union> set (ct_pageX (g_cpu_tables M680X_CPU_TYPE_6809))"
    by simp
  moreover have "page_lookup g_m6809_inst_page2_table 0x21 \<noteq> None" by (simp add: g_m6809_inst_page2_table_def)
  ultimately show ?thesis
    using binary_search_correct [of M680X_CPU_TYPE_6809 g_m6809_inst_page2_table "0x21"] by (auto split: if_splits)
qed

text \<open>
  C20. After a recognised instruction the decoder's state and the opcode it has stored lead
  \<^verbatim>\<open>M680X_get_insn_id\<close> back to the entry of that instruction: the public number is the one of
  the entry, for one-byte opcodes, overlays and prefixed opcodes alike.
\<close>

theorem M680X_id_of_decoded:
  assumes "mci_wf MI"
    and "M680X_Model.M680X_getInstruction handle code MI address info = Some (True, MI', sz, info')"
    and "insn_of (g_cpu_tables (m680x_cpu_type (ud_mode handle))) (seen code address) = Some (opc, l, insn, h0, h1)"
  shows "M680X_Model.M680X_get_insn_id info' i (mi_Opcode MI') = Some (i\<lparr>in_id := of_nat insn\<rparr>)"
proof -
  let ?c = "m680x_cpu_type (ud_mode handle)"
  have c: "?c \<noteq> M680X_CPU_TYPE_INVALID" and d: "decodes_to ?c code address MI' sz info'"
    by (rule decoded [OF assms(1), of handle code address info]; use assms(2) in simp)+
  then have "mi_Opcode MI' = opc" "mx_cpu info' = g_cpu_tables ?c" using assms(3) by (simp_all add: decodes_to_def)
  moreover obtain n where "recognise (g_cpu_tables ?c) (seen code address) = Some (opc, n, insn, h0, h1)"
    using assms(3) by (auto simp: insn_of_def split: option.splits if_splits)
  ultimately show ?thesis using get_insn_id_recognise [OF c] by simp
qed

theorem M680X_id_of_decoded_witness:
  "\<exists>MI' sz info'. M680X_Model.M680X_getInstruction m6809_handle [0x10, 0x21, 0x12, 0x34] blank_inst 0x1000 fresh_info = Some (True, MI', sz, info') \<and>
     M680X_Model.M680X_get_insn_id info' blank_insn (mi_Opcode MI') = Some (blank_insn\<lparr>in_id := of_nat M680X_INS_LBRN\<rparr>)"
proof -
  obtain MI' sz info' where d: "M680X_Model.M680X_getInstruction m6809_handle [0x10, 0x21, 0x12, 0x34] blank_inst 0x1000 fresh_info = Some (True, MI', sz, info')"
    by (rule decoded_lbrn)
  from M680X_id_of_decoded [OF blank_inst_wf d, of "0x1021" 4 M680X_INS_LBRN rel16_hid inh_hid blank_insn] d show ?thesis
    unfolding m6809_cpu insn_of_lbrn by blast
qed



section \<open>Flaws\<close>

text \<open>
  C37. The decoder takes the length of the code as a 16-bit number. When it is a multiple of 65536
  the decoder sees no code at all: every instruction becomes an illegal byte of size 1, and the byte
  it stores, and prints, is 0 whatever the code is.
\<close>

theorem M680X_length_wraps:
  assumes "mci_wf MI" "m680x_cpu_type (ud_mode handle) \<noteq> M680X_CPU_TYPE_INVALID" "code \<noteq> []" "65536 dvd length code"
  shows "\<exists>MI' info'. M680X_Model.M680X_getInstruction handle code MI address info = Some (True, MI', 1, info') \<and>
    mx_insn info' = M680X_INS_ILLGL \<and> m6_op_count (mx_m680x info') = 1 \<and>
    mo_type (m6_operands (mx_m680x info') ! 0) = M680X_OP_IMMEDIATE \<and> mo_imm (m6_operands (mx_m680x info') ! 0) = 0"
proof -
  let ?c = "m680x_cpu_type (ud_mode handle)"
  obtain ok MI' sz info' where d: "M680X_Model.M680X_getInstruction handle code MI address info = Some (ok, MI', sz, info')"
    "ok = (?c \<noteq> M680X_CPU_TYPE_INVALID \<and> code \<noteq> [])" "decodes_to ?c code address MI' sz info'"
    by (rule decoded [OF assms(1), of handle code address info]) (use assms(2) in blast)
  have none: "seen code address = []" using assms(4) by (simp add: seen_def)
  have "insn_of (g_cpu_tables ?c) (seen code address) = None" by (simp add: none insn_of_def)
  with d(3) have "illegal_byte 0 info'" "unat sz = min 1 (length code)" by (simp_all add: decodes_to_def none first_byte_def)
  moreover from this(2) have "sz = 1" using assms(3) by (cases code) (simp_all add: word_unat_eq_iff)
  ultimately show ?thesis using d(1,2) assms(2,3) by (simp add: illegal_byte_def)
qed

theorem M680X_length_wraps_witness:
  "\<exists>MI' info'. M680X_Model.M680X_getInstruction m6809_handle (replicate 65536 0x12) blank_inst 0 fresh_info = Some (True, MI', 1, info') \<and>
     mx_insn info' = M680X_INS_ILLGL \<and> mo_imm (m6_operands (mx_m680x info') ! 0) = 0"
proof -
  have "replicate 65536 (0x12 :: u8) \<noteq> []" by (subst replicate_empty) simp
  with M680X_length_wraps [OF blank_inst_wf, of m6809_handle "replicate 65536 0x12" 0 fresh_info] show ?thesis
    by (auto simp: m6809_cpu)
qed



end
