(* ===== verification/M680X_Text.thy ===== *)
theory M680X_Text
  imports M680X_Printer M680X_Props
begin

text \<open>
  The text of an M680X instruction as a function of the decoded operands, and that the printer
  writes it and nothing else, inside its buffer.
\<close>

section \<open>The text of an instruction\<close>

definition reg_text :: "m680x_reg \<Rightarrow> string" where
  "reg_text reg = s_reg_names ! m680x_reg_num reg"

definition inc_dec_text :: "m680x_info \<Rightarrow> u8 \<Rightarrow> string" where
  "inc_dec_text info v =
     (if v = 0 then [] else if mx_cpu_type info = M680X_CPU_TYPE_CPU12 then if v <s 0 then ''-'' else ''+''
      else if - 2 \<le>s v \<and> v \<le>s 2 then s_inc_dec ! nat (sint v + 2) else [])"

definition offset_text :: "m680x_info \<Rightarrow> m680x_op_idx \<Rightarrow> string" where
  "offset_text info idx =
     (if ix_offset_reg idx \<noteq> M680X_REG_INVALID then reg_text (ix_offset_reg idx)
      else if ix_offset_bits idx > 0 then
        if ix_base_reg idx = M680X_REG_PC then ''$'' @ fmt_0X 4 (unat (ix_offset_addr idx)) else decimal_numeral (ix_offset idx)
      else if ix_inc_dec idx \<noteq> 0 \<and> mx_cpu_type info = M680X_CPU_TYPE_CPU12 then fmt_u (nat \<bar>sint (ix_inc_dec idx)\<bar>)
      else [])"

definition indexed_text :: "m680x_info \<Rightarrow> m680x_op_idx \<Rightarrow> string" where
  "indexed_text info idx =
     (let indirect = ix_flags idx AND M680X_IDX_INDIRECT \<noteq> 0;
          post = ix_flags idx AND M680X_IDX_POST_INC_DEC \<noteq> 0;
          step = inc_dec_text info (ix_inc_dec idx)
      in (if indirect then ''['' else []) @ offset_text info idx @
         (if ix_flags idx AND M680X_IDX_NO_COMMA = 0 then '','' else []) @
         (if post then [] else step) @ reg_text (ix_base_reg idx) @
         (if ix_base_reg idx = M680X_REG_PC \<and> ix_offset_bits idx > 0 then ''R'' else []) @
         (if post then step else []) @ (if indirect then '']'' else []))"

definition extended_text :: "m680x_op_ext \<Rightarrow> string" where
  "extended_text ext =
     (let s = ''$'' @ fmt_0X 4 (unat (ex_address ext))
      in if ex_indirect ext then ''['' @ s @ '']'' else if ex_address ext < 256 then ''>'' @ s else s)"

definition operand_text :: "bool \<Rightarrow> m680x_info \<Rightarrow> cs_m680x_op \<Rightarrow> string" where
  "operand_text imm_unsigned info op =
     (case mo_type op of
        M680X_OP_REGISTER \<Rightarrow> reg_text (mo_reg op)
      | M680X_OP_CONSTANT \<Rightarrow> fmt_u (unat (mo_const_val op))
      | M680X_OP_IMMEDIATE \<Rightarrow>
          ''#'' @ (if imm_unsigned then fmt_u (unat (get_unsigned (mo_imm op) (mo_size op))) else decimal_numeral (mo_imm op))
      | M680X_OP_INDEXED \<Rightarrow> indexed_text info (mo_idx op)
      | M680X_OP_RELATIVE \<Rightarrow> ''$'' @ fmt_0X 4 (unat (rl_address (mo_rel op)))
      | M680X_OP_DIRECT \<Rightarrow> ''$'' @ fmt_0X 2 (unat (mo_direct_addr op))
      | M680X_OP_EXTENDED \<Rightarrow> extended_text (mo_ext op)
      | M680X_OP_INVALID \<Rightarrow> ''<invalid_operand>'')"

text \<open>The operands in use; those the mnemonic does not already name are printed, with delimiters between them.\<close>

definition operands_in_use :: "m680x_info \<Rightarrow> cs_m680x_op list" where
  "operands_in_use info = take (unat (m6_op_count (mx_m680x info))) (m6_operands (mx_m680x info))"

definition named_operands :: "m680x_info \<Rightarrow> nat" where
  "named_operands info = (let f = m6_flags (mx_m680x info) in
     (if f AND M680X_FIRST_OP_IN_MNEM \<noteq> 0 then 1 else 0) + (if f AND M680X_SECOND_OP_IN_MNEM \<noteq> 0 then 1 else 0))"

definition delimiter_text :: "m680x_info \<Rightarrow> string" where
  "delimiter_text info =
     (let ops = operands_in_use info
      in if mx_insn info \<noteq> M680X_INS_TFM \<and> length ops > 1 \<and> M680X_OP_INDEXED \<in> mo_type ` set ops then '';'' else '','')"

definition insn_text :: "bool \<Rightarrow> m680x_info \<Rightarrow> string" where
  "insn_text imm_unsigned info =
     (if mx_insn info = M680X_INS_INVLD \<or> mx_insn info = M680X_INS_ILLGL
      then if m6_op_count (mx_m680x info) \<noteq> 0 then ''fcb $'' @ fmt_0X 2 (unat (mo_imm (m6_operands (mx_m680x info) ! 0)))
           else ''fcb $<unknown>''
      else (s_instruction_names ! mx_insn info) @ '' '' @
        separated (delimiter_text info) (map (operand_text imm_unsigned info) (drop (named_operands info) (operands_in_use info))))"

section \<open>Numbers and names\<close>

lemma fmt_0X_clean: "NUL \<notin> set (fmt_0X w n)"
proof -
  have "''0123456789ABCDEF'' ! d \<noteq> NUL" if "d \<in> set (to_radix 16 n)" for d
  proof -
    have "''0123456789ABCDEF'' ! d \<in> set ''0123456789ABCDEF''"
      using to_radix_digit [of 16 d n] that by (intro nth_mem) simp
    then show ?thesis by auto
  qed
  from this [symmetric] show ?thesis by (auto simp: fmt_0X_def Let_def)
qed

lemma fmt_0X_length: "n < 16 ^ k \<Longrightarrow> 0 < k \<Longrightarrow> w \<le> k \<Longrightarrow> length (fmt_0X w n) \<le> k"
  using length_to_radix [of 16 k n] by (simp add: fmt_0X_def)

lemma hex_numbers:
  fixes a :: u8 and b :: u16 and c :: u32
  shows "length (fmt_0X 2 (unat a)) \<le> 2" "length (fmt_0X 4 (unat b)) \<le> 4" "length (fmt_0X 2 (unat c)) \<le> 8"
  using unsigned_less [of a, where 'a = nat] unsigned_less [of b, where 'a = nat] unsigned_less [of c, where 'a = nat]
  by (intro fmt_0X_length; simp)+

lemma unat_power_less: "unat (v :: 'a::len word) < 2 ^ LENGTH('a)"
  by (rule unsigned_less)

lemma decimal_numbers:
  fixes a :: u8 and b :: u16 and c :: u32
  shows "length (fmt_u (unat a)) \<le> 3" "length (decimal_numeral b) \<le> 6" "length (fmt_u (unat c)) \<le> 10" "length (decimal_numeral c) \<le> 11"
    "length (fmt_u (nat \<bar>sint a\<bar>)) \<le> 3"
proof -
  show "length (fmt_u (unat a)) \<le> 3" "length (fmt_u (unat c)) \<le> 10" for a :: u8 and c :: u32
    using unat_power_less [of a] unat_power_less [of c] by (intro length_fmt_radix; simp)+
  note this(2) [of c] this(2) [of "- c"]
  moreover have "length (fmt_u (unat b)) \<le> 5" for b :: u16
    using unat_power_less [of b] by (intro length_fmt_radix; simp)
  note this [of b] this [of "- b"]
  ultimately show "length (decimal_numeral b) \<le> 6" "length (decimal_numeral c) \<le> 11"
    by (auto simp: decimal_numeral_def)
  have "\<bar>sint a\<bar> < 1000" using sint_greater_eq [of a] sint_less [of a] by simp
  then show "length (fmt_u (nat \<bar>sint a\<bar>)) \<le> 3" by (intro length_fmt_radix) simp_all
qed

lemma decimal_clean: "NUL \<notin> set (fmt_u n)" "NUL \<notin> set (decimal_numeral v)"
  by (simp_all add: decimal_numeral_def no_NUL_fmt)

lemma name_tables:
  "length s_reg_names = 22" "length s_instruction_names = 357"
  "list_all (\<lambda>n. length n \<le> 9 \<and> NUL \<notin> set n) s_reg_names"
  "list_all (\<lambda>n. length n \<le> 5 \<and> NUL \<notin> set n) s_instruction_names"
  by code_simp+

lemma reg_num_bound: "m680x_reg_num r < 22"
  by (cases r) simp_all

lemma reg_text_props: "length (reg_text r) \<le> 9" "NUL \<notin> set (reg_text r)"
  using name_tables(1,3) reg_num_bound [of r] by (simp_all add: reg_text_def list_all_length)

lemma insn_name_props:
  assumes "i < 357"
  shows "length (s_instruction_names ! i) \<le> 5" "NUL \<notin> set (s_instruction_names ! i)"
  using name_tables(2,4) assms by (simp_all add: list_all_length)

lemma printRegName_prints:
  assumes "ud_reg_name handle = Some GetRegName_t.M680X_reg_name"
  shows "prints (printRegName handle r) (reg_text r) 9"
proof -
  have "unat (of_nat (m680x_reg_num r) :: u32) = m680x_reg_num r"
    using reg_num_bound [of r] by (simp add: unsigned_of_nat take_bit_nat_eq_self)
  then have "printRegName handle r = (\<lambda>ss. SStream_concat ss (reg_text r))"
    using assms reg_num_bound [of r] name_tables(1)
    by (simp add: fun_eq_iff printRegName_def need_def M680X_Printer.M680X_reg_name_def reg_text_def)
  then show ?thesis using prints_concat [OF reg_text_props(2,1)] by simp
qed

lemma printInstructionName_prints:
  assumes "ud_insn_name handle = Some GetInsnName_t.M680X_insn_name" "i < 357"
  shows "prints (printInstructionName handle i) (s_instruction_names ! i) 5"
proof -
  have "unat (of_nat i :: u32) = i" using assms(2) by (simp add: unsigned_of_nat take_bit_nat_eq_self)
  then have "printInstructionName handle i = (\<lambda>ss. SStream_concat ss (s_instruction_names ! i))"
    using assms name_tables(2)
    by (simp add: fun_eq_iff printInstructionName_def need_def M680X_Printer.M680X_insn_name_def)
  then show ?thesis using prints_concat [OF insn_name_props(2,1) [OF assms(2)]] by simp
qed

section \<open>Operands\<close>

lemma inc_dec_text_props: "length (inc_dec_text info v) \<le> 2" "NUL \<notin> set (inc_dec_text info v)"
proof -
  have "length (s_inc_dec ! i) \<le> 2 \<and> NUL \<notin> set (s_inc_dec ! i)" if "i < 5" for i
  proof -
    have "list_all (\<lambda>n. length n \<le> 2 \<and> NUL \<notin> set n) s_inc_dec" "length s_inc_dec = 5" by (simp_all add: s_inc_dec_def)
    with that show ?thesis by (simp add: list_all_length)
  qed
  moreover have "nat (sint v + 2) < 5" if "- 2 \<le>s v" "v \<le>s 2"
    using that by (simp add: word_sle_eq)
  ultimately show "length (inc_dec_text info v) \<le> 2" "NUL \<notin> set (inc_dec_text info v)"
    by (auto simp: inc_dec_text_def)
qed

lemma printIncDec_prints:
  "prints (printIncDec post info idx)
     (if post \<longleftrightarrow> ix_flags idx AND M680X_IDX_POST_INC_DEC \<noteq> 0 then inc_dec_text info (ix_inc_dec idx) else []) 2"
proof -
  have "nat (sint (ix_inc_dec idx) + 2) < length s_inc_dec" if "- 2 \<le>s ix_inc_dec idx" "ix_inc_dec idx \<le>s 2"
    using that by (simp add: word_sle_eq s_inc_dec_def)
  then have "printIncDec post info idx = (\<lambda>ss. if (post \<longleftrightarrow> ix_flags idx AND M680X_IDX_POST_INC_DEC \<noteq> 0) \<and> ix_inc_dec idx \<noteq> 0
      then SStream_concat ss (inc_dec_text info (ix_inc_dec idx)) else Some ss)"
    by (auto simp: fun_eq_iff printIncDec_def inc_dec_text_def aget_def)
  moreover have "(if post \<longleftrightarrow> ix_flags idx AND M680X_IDX_POST_INC_DEC \<noteq> 0 then inc_dec_text info (ix_inc_dec idx) else []) =
      (if (post \<longleftrightarrow> ix_flags idx AND M680X_IDX_POST_INC_DEC \<noteq> 0) \<and> ix_inc_dec idx \<noteq> 0 then inc_dec_text info (ix_inc_dec idx) else [])"
    by (simp add: inc_dec_text_def)
  ultimately show ?thesis by (simp only:) (rule prints_if [OF prints_concat [OF inc_dec_text_props(2,1)]])
qed

lemma printIncDec_sides:
  "prints (printIncDec False info idx)
     (if ix_flags idx AND M680X_IDX_POST_INC_DEC \<noteq> 0 then [] else inc_dec_text info (ix_inc_dec idx)) 2"
  "prints (printIncDec True info idx)
     (if ix_flags idx AND M680X_IDX_POST_INC_DEC \<noteq> 0 then inc_dec_text info (ix_inc_dec idx) else []) 2"
  using printIncDec_prints [of False info idx] printIncDec_prints [of True info idx] by (simp_all split: if_splits)

lemma prints_text: "NUL \<notin> set t \<Longrightarrow> length t \<le> k \<Longrightarrow> u = t \<Longrightarrow> prints (\<lambda>ss. SStream_concat ss t) u k"
  by (simp add: prints_concat)

lemma offset_prints:
  assumes "ud_reg_name handle = Some GetRegName_t.M680X_reg_name"
  shows "prints (\<lambda>ss. if ix_offset_reg idx \<noteq> M680X_REG_INVALID then printRegName handle (ix_offset_reg idx) ss
      else if ix_offset_bits idx > 0 then
        (if ix_base_reg idx = M680X_REG_PC then SStream_concat ss (''$'' @ fmt_0X 4 (unat (ix_offset_addr idx)))
         else SStream_concat ss (decimal_numeral (ix_offset idx)))
      else if ix_inc_dec idx \<noteq> 0 \<and> mx_cpu_type info = M680X_CPU_TYPE_CPU12
      then SStream_concat ss (fmt_u (nat \<bar>sint (ix_inc_dec idx)\<bar>))
      else Some ss) (offset_text info idx) 9"
  unfolding offset_text_def
  by (intro prints_if_else printRegName_prints assms prints_concat prints_mono [OF prints_nothing])
    (use hex_numbers(2) [of "ix_offset_addr idx"] decimal_numbers(2) [of "ix_offset idx"] decimal_numbers(5) [of "ix_inc_dec idx"]
      in \<open>simp_all add: fmt_0X_clean decimal_clean\<close>)

lemma printIndexed_prints:
  assumes "ud_reg_name handle = Some GetRegName_t.M680X_reg_name"
  shows "prints (printIndexed handle info idx) (indexed_text info idx) (1 + (9 + (1 + (2 + (9 + (1 + (2 + 1)))))))"
  unfolding printIndexed_def [abs_def] indexed_text_def Let_def
  by (intro prints_then prints_if offset_prints printIncDec_sides printRegName_prints assms prints_concat) simp_all

lemma printOperand_prints:
  assumes "ud_reg_name handle = Some GetRegName_t.M680X_reg_name"
  shows "prints (printOperand handle info op) (operand_text (ud_imm_unsigned handle \<noteq> 0) info op) 26"
proof (cases "mo_type op")
  case M680X_OP_EXTENDED
  then have "printOperand handle info op = (\<lambda>ss. SStream_concat ss (extended_text (mo_ext op)))"
    by (simp add: fun_eq_iff printOperand_def extended_text_def)
  moreover have "length (extended_text (mo_ext op)) \<le> 26" "NUL \<notin> set (extended_text (mo_ext op))"
    using hex_numbers(2) [of "ex_address (mo_ext op)"] by (auto simp: extended_text_def Let_def fmt_0X_clean)
  ultimately show ?thesis by (simp add: operand_text_def M680X_OP_EXTENDED prints_concat)
next
  case M680X_OP_IMMEDIATE
  then show ?thesis
    using decimal_numbers(3) [of "get_unsigned (mo_imm op) (mo_size op)"] decimal_numbers(4) [of "mo_imm op"]
    by (simp add: printOperand_def [abs_def] operand_text_def prints_concat decimal_clean)
qed (use assms hex_numbers(2) [of "rl_address (mo_rel op)"] hex_numbers(1) [of "mo_direct_addr op"] decimal_numbers(1) [of "mo_const_val op"]
    in \<open>simp_all add: printOperand_def [abs_def] operand_text_def prints_concat fmt_0X_clean decimal_clean
      prints_mono [OF printRegName_prints] prints_mono [OF printIndexed_prints]\<close>)

section \<open>Instructions\<close>

lemma separated_Cons: "separated d (t # ts) = t @ (if ts = [] then [] else d) @ separated d ts"
  by (cases ts) simp_all

lemma print_operands_prints:
  assumes handle: "ud_reg_name handle = Some GetRegName_t.M680X_reg_name"
    and d: "length d \<le> 1" "NUL \<notin> set d"
    and n: "i + n = length (operands_in_use info)"
  shows "prints (print_operands handle info s d i n)
    (separated d (map (operand_text (ud_imm_unsigned handle \<noteq> 0) info) (drop (max s i) (operands_in_use info)))) (n * 27)"
  using n
proof (induction n arbitrary: i)
  case 0
  moreover have "print_operands handle info s d i 0 = Some" by (simp add: fun_eq_iff)
  ultimately show ?case using prints_nothing by simp
next
  case (Suc n)
  let ?ops = "operands_in_use info" and ?t = "operand_text (ud_imm_unsigned handle \<noteq> 0) info"
  have i: "i < length ?ops" "aget (m6_operands (mx_m680x info)) i = Some (?ops ! i)"
    using Suc.prems by (auto simp: operands_in_use_def)
  have IH: "prints (print_operands handle info s d (i + 1) n) (separated d (map ?t (drop (max s (i + 1)) ?ops))) (n * 27)"
    using Suc by simp
  let ?first = "\<lambda>ss. if i \<ge> s then printOperand handle info (?ops ! i) ss \<bind> (\<lambda>ss. if n \<noteq> 0 then SStream_concat ss d else Some ss) else Some ss"
  have "prints ?first (if i \<ge> s then ?t (?ops ! i) @ (if n \<noteq> 0 then d else []) else []) (26 + 1)"
    using d by (intro prints_if prints_then printOperand_prints handle prints_concat)
  moreover have "print_operands handle info s d i (Suc n) = (\<lambda>ss. ?first ss \<bind> print_operands handle info s d (i + 1) n)"
    by (simp add: fun_eq_iff i(2))
  ultimately have "prints (print_operands handle info s d i (Suc n))
      ((if i \<ge> s then ?t (?ops ! i) @ (if n \<noteq> 0 then d else []) else []) @ separated d (map ?t (drop (max s (i + 1)) ?ops))) (Suc n * 27)"
    using prints_mono [OF prints_then [OF _ IH], of ?first _ "26 + 1" "Suc n * 27"] by simp
  moreover have "(if i \<ge> s then ?t (?ops ! i) @ (if n \<noteq> 0 then d else []) else []) @ separated d (map ?t (drop (max s (i + 1)) ?ops)) =
      separated d (map ?t (drop (max s i) ?ops))"
    using Suc.prems i(1) Cons_nth_drop_Suc [OF i(1), symmetric]
    by (cases "i \<ge> s"; cases "s = Suc i") (auto simp: separated_Cons max_def not_le)
  ultimately show ?case by (simp only:)
qed

lemma getDelimiter_text:
  assumes "unat (m6_op_count (mx_m680x info)) \<le> length (m6_operands (mx_m680x info))"
  shows "getDelimiter info = Some (delimiter_text info)"
proof -
  have "(\<exists>op\<in>set ops. mo_type op = M680X_OP_INDEXED) \<and> length (filter (\<lambda>op. mo_type op \<noteq> M680X_OP_REGISTER) ops) \<ge> 1 \<longleftrightarrow>
      M680X_OP_INDEXED \<in> mo_type ` set ops" for ops
  proof
    assume "M680X_OP_INDEXED \<in> mo_type ` set ops"
    then obtain op where op: "op \<in> set ops" "mo_type op = M680X_OP_INDEXED" by force
    then have "op \<in> set (filter (\<lambda>op. mo_type op \<noteq> M680X_OP_REGISTER) ops)" by simp
    then have "0 < length (filter (\<lambda>op. mo_type op \<noteq> M680X_OP_REGISTER) ops)" by (rule length_pos_if_in_set)
    with op show "(\<exists>op\<in>set ops. mo_type op = M680X_OP_INDEXED) \<and> length (filter (\<lambda>op. mo_type op \<noteq> M680X_OP_REGISTER) ops) \<ge> 1"
      by (auto simp: Suc_le_eq)
  qed (metis image_eqI)
  note eq = this
  show ?thesis
    unfolding getDelimiter_def delimiter_text_def operands_in_use_def Let_def eq
    by (cases "unat (m6_op_count (mx_m680x info)) > 1") (simp_all add: assms need_def min_absorb2)
qed

lemma printInst_prints:
  assumes handle: "ud_reg_name handle = Some GetRegName_t.M680X_reg_name" "ud_insn_name handle = Some GetInsnName_t.M680X_insn_name"
    and ops: "length (m6_operands (mx_m680x info)) = 9" "unat (m6_op_count (mx_m680x info)) \<le> 9" and insn: "mx_insn info < 357"
    and copy: "copy_operands (mx_m680x info) MI = Some MI'" and ss: "ss_holds ss []"
  shows "yields (M680X_printInst handle info MI ss) (\<lambda>(MI'', ss'). MI'' = MI' \<and> ss_holds ss' (insn_text (ud_imm_unsigned handle \<noteq> 0) info))"
    and "length (insn_text (ud_imm_unsigned handle \<noteq> 0) info) \<le> 249"
proof -
  let ?n = "unat (m6_op_count (mx_m680x info))" and ?d = "delimiter_text info"
  let ?illegal = "mx_insn info = M680X_INS_INVLD \<or> mx_insn info = M680X_INS_ILLGL"
  let ?byte = "\<lambda>ss. if m6_op_count (mx_m680x info) \<noteq> 0 then SStream_concat ss (''fcb $'' @ fmt_0X 2 (unat (mo_imm (m6_operands (mx_m680x info) ! 0))))
    else SStream_concat ss ''fcb $<unknown>''"
  let ?text = "\<lambda>ss. printInstructionName handle (mx_insn info) ss \<bind> (\<lambda>ss. SStream_concat ss '' '' \<bind>
    print_operands handle info (named_operands info) ?d 0 ?n)"
  have d: "length ?d \<le> 1" "NUL \<notin> set ?d" by (simp_all add: delimiter_text_def Let_def)
  have n: "0 + ?n = length (operands_in_use info)" using ops by (simp add: operands_in_use_def)
  have "prints ?byte (if m6_op_count (mx_m680x info) \<noteq> 0 then ''fcb $'' @ fmt_0X 2 (unat (mo_imm (m6_operands (mx_m680x info) ! 0)))
      else ''fcb $<unknown>'') 249"
    using hex_numbers(3) [of "mo_imm (m6_operands (mx_m680x info) ! 0)"]
    by (intro prints_if_else prints_concat) (simp_all add: fmt_0X_clean)
  moreover have "prints ?text ((s_instruction_names ! mx_insn info) @ '' '' @
      separated ?d (map (operand_text (ud_imm_unsigned handle \<noteq> 0) info) (drop (named_operands info) (operands_in_use info)))) 249"
  proof (rule prints_mono)
    show "prints ?text ((s_instruction_names ! mx_insn info) @ '' '' @
      separated ?d (map (operand_text (ud_imm_unsigned handle \<noteq> 0) info) (drop (named_operands info) (operands_in_use info)))) (5 + (1 + ?n * 27))"
      using print_operands_prints [OF handle(1) d n, of "named_operands info"]
      by (intro prints_then printInstructionName_prints handle insn prints_concat) simp_all
  qed (use ops in simp)
  ultimately have p: "prints (\<lambda>ss. if ?illegal then ?byte ss else ?text ss) (insn_text (ud_imm_unsigned handle \<noteq> 0) info) 249"
    unfolding insn_text_def by (rule prints_if_else)
  then show "length (insn_text (ud_imm_unsigned handle \<noteq> 0) info) \<le> 249" by (simp add: prints_def)
  have "M680X_printInst handle info MI ss = map_option (Pair MI') (if ?illegal then ?byte ss else ?text ss)"
    using ops copy getDelimiter_text [of info]
    by (auto simp: M680X_printInst_def Let_def named_operands_def map_conv_bind_option bind_assoc aget_def comp_def)
  moreover have "yields (if ?illegal then ?byte ss else ?text ss) (\<lambda>ss'. ss_holds ss' (insn_text (ud_imm_unsigned handle \<noteq> 0) info))"
    using p ss unfolding prints_def by fastforce
  ultimately show "yields (M680X_printInst handle info MI ss) (\<lambda>(MI'', ss'). MI'' = MI' \<and> ss_holds ss' (insn_text (ud_imm_unsigned handle \<noteq> 0) info))"
    unfolding yields_def by auto
qed

section \<open>From the code to the text\<close>

lemma decoded_insn_bound:
  assumes "c \<noteq> M680X_CPU_TYPE_INVALID" "decodes_to c code address MI sz info"
  shows "mx_insn info < 357"
proof (cases "insn_of (g_cpu_tables c) (seen code address)")
  case None
  with assms(2) show ?thesis by (simp add: decodes_to_def illegal_byte_def)
next
  case (Some r)
  obtain opc l insn h0 h1 where r: "r = (opc, l, insn, h0, h1)" by (cases r)
  have "insn < 357"
    by (rule insn_of_entry [OF g_cpu_tables_ok [OF assms(1)] Some [unfolded r]]) (simp add: entry_ok_def)
  moreover have "mx_insn info \<in> {insn} \<union> late_insns h0 \<union> late_insns h1"
    using assms(2) by (simp add: decodes_to_def Some r)
  ultimately show ?thesis using late_insns_light [of _ h0] late_insns_light [of _ h1] by blast
qed

lemma M680X_global_init_handle:
  assumes "M680X_global_init b ab h ud = Some (CS_ERR_OK, h', handle)"
  shows "ud_reg_name handle = Some GetRegName_t.M680X_reg_name" "ud_insn_name handle = Some GetInsnName_t.M680X_insn_name"
    "m680x_cpu_type (ud_mode handle) \<noteq> M680X_CPU_TYPE_INVALID"
proof -
  from assms have h: "ud_reg_name handle = Some GetRegName_t.M680X_reg_name" "ud_insn_name handle = Some GetInsnName_t.M680X_insn_name"
    "ud_mode handle = ud_mode ud" "ud_mode ud AND M680X_modes \<noteq> 0"
    by (auto simp: M680X_global_init_def Let_def Option.bind_eq_Some_conv split: if_splits)
  then show "ud_reg_name handle = Some GetRegName_t.M680X_reg_name" "ud_insn_name handle = Some GetInsnName_t.M680X_insn_name" by simp_all
  from h(4) show "m680x_cpu_type (ud_mode handle) \<noteq> M680X_CPU_TYPE_INVALID"
    unfolding h(3) m680x_cpu_type_def M680X_modes_def bit.conj_disj_distrib by (auto split: if_splits)
qed

text \<open>
  C17. A handle that the M680X constructor has set up decodes and prints any code: the decoder
  accepts it, and the printer writes the text of the decoded instruction, the mnemonic and the
  operands it does not name with delimiters between them, and nothing else. The text has at most 249
  characters, so that it fits the stream. What is not an instruction is printed as
  \<^verbatim>\<open>fcb\<close> with its first byte.
\<close>

theorem M680X_text_correct:
  assumes "mci_wf MI" "M680X_global_init b ab h ud = Some (CS_ERR_OK, h', handle)" "code \<noteq> []" "ss_holds ss []"
  shows "\<exists>MI' sz info' MI'' ss'. M680X_Model.M680X_getInstruction handle code MI address info = Some (True, MI', sz, info') \<and>
    M680X_Printer.M680X_printInst handle info' MI' ss = Some (MI'', ss') \<and>
    ss_holds ss' (insn_text (ud_imm_unsigned handle \<noteq> 0) info') \<and> length (insn_text (ud_imm_unsigned handle \<noteq> 0) info') \<le> 249 \<and>
    (insn_of (g_cpu_tables (m680x_cpu_type (ud_mode handle))) (seen code address) = None \<longrightarrow>
       insn_text (ud_imm_unsigned handle \<noteq> 0) info' = ''fcb $'' @ fmt_0X 2 (unat (first_byte (seen code address))))"
proof -
  let ?c = "m680x_cpu_type (ud_mode handle)"
  note handle = M680X_global_init_handle [OF assms(2)]
  obtain ok MI' sz info' where d: "M680X_Model.M680X_getInstruction handle code MI address info = Some (ok, MI', sz, info')"
    "ok = (?c \<noteq> M680X_CPU_TYPE_INVALID \<and> code \<noteq> [])" "decodes_to ?c code address MI' sz info'"
    by (rule decoded [OF assms(1), of handle code address info]) (use handle(3) in blast)
  obtain MI'' where copy: "copy_operands (mx_m680x info') MI' = Some MI''"
    by (cases "in_detail (mi_flat_insn MI')") (auto simp: copy_operands_def on_detail_def)
  have ops: "length (m6_operands (mx_m680x info')) = 9" "unat (m6_op_count (mx_m680x info')) \<le> 9"
    using d(3) by (simp_all add: decodes_to_def)
  note p = printInst_prints [OF handle(1,2) ops decoded_insn_bound [OF handle(3) d(3)] copy assms(4)]
  have "unat (ucast b :: u32) = unat b" for b :: u8
    using unat_power_less [of b] by (simp add: unsigned_ucast_eq take_bit_nat_eq_self)
  then have "insn_text (ud_imm_unsigned handle \<noteq> 0) info' = ''fcb $'' @ fmt_0X 2 (unat (first_byte (seen code address)))"
    if "insn_of (g_cpu_tables ?c) (seen code address) = None"
    using d(3) that by (simp add: decodes_to_def illegal_byte_def insn_text_def)
  with d(1,2) handle(3) assms(3) p show ?thesis
    unfolding yields_def by auto
qed

theorem M680X_text_correct_witness:
  "\<exists>h' handle MI' sz info' MI'' ss'.
     M680X_global_init full_build lp64 fresh_heap (zero_struct\<lparr>ud_mode := CS_MODE_M680X_6809\<rparr>) = Some (CS_ERR_OK, h', handle) \<and>
     M680X_Model.M680X_getInstruction handle [0x01] blank_inst 0 fresh_info = Some (True, MI', sz, info') \<and>
     M680X_Printer.M680X_printInst handle info' MI' empty_stream = Some (MI'', ss') \<and> ss_holds ss' ''fcb $01''"
proof -
  have "\<exists>h' handle. M680X_global_init full_build lp64 fresh_heap (zero_struct\<lparr>ud_mode := CS_MODE_M680X_6809\<rparr>) = Some (CS_ERR_OK, h', handle) \<and>
      ud_mode handle = CS_MODE_M680X_6809"
    by (simp add: M680X_global_init_def M680X_modes_def h_malloc_def h_alloc_def fresh_heap_def all_funcs_def full_build_def
        zero_struct_def Let_def)
  then obtain h' handle where i: "M680X_global_init full_build lp64 fresh_heap (zero_struct\<lparr>ud_mode := CS_MODE_M680X_6809\<rparr>) = Some (CS_ERR_OK, h', handle)"
    "ud_mode handle = CS_MODE_M680X_6809" by blast
  have "insn_of (g_cpu_tables (m680x_cpu_type (ud_mode handle))) (seen [0x01] 0) = None"
    by (simp add: i(2) m680x_cpu_type_def insn_of_def seen_def base_entry_def g_m6809_inst_page1_table_def)
  moreover have "fmt_0X 2 (unat (first_byte (seen [0x01] 0))) = ''01''"
    by (simp add: first_byte_def seen_def fmt_0X_def to_radix.simps)
  ultimately show ?thesis
    using M680X_text_correct [OF blank_inst_wf i(1), of "[0x01]" empty_stream 0 fresh_info] i(1)
    by (auto simp: empty_stream_holds)
qed

end
