(* ===== verification/M680X_Operands.thy ===== *)
theory M680X_Operands
  imports M680X_Props
begin

text \<open>
  The operands of an M680X instruction: that the immediate, direct, extended and relative operands
  hold the bytes of the instruction.
\<close>

unbundle bit_operations_syntax

section \<open>The steps behind a decoded instruction\<close>



section \<open>The operands keep their values to the end\<close>









section \<open>The handlers\<close>















end
