(* ===== verification/M68K_Tables.thy ===== *)
theory M68K_Tables
  imports Utils_Model
begin

text \<open>
  The constants and tables of the M68K architecture: the registers and instructions of
  \<^verbatim>\<open>m68k.h\<close>, the names of \<^verbatim>\<open>M68KInstPrinter.c\<close>, and the opcode table of
  \<^verbatim>\<open>M68KDisassembler.c\<close>. Registers and instructions are the numbers of their enumerations,
  because the code computes with them. A pointer to an instruction handler is a number, 0 is the
  null pointer; \<open>ptr_f\<close> points to the function \<open>f\<close>.
\<close>

unbundle bit_operations_syntax

section \<open>Registers, instructions and groups\<close>

abbreviation (input) M68K_REG_INVALID :: u32 where "M68K_REG_INVALID \<equiv> 0"
abbreviation (input) M68K_REG_D0 :: u32 where "M68K_REG_D0 \<equiv> 1"
abbreviation (input) M68K_REG_D1 :: u32 where "M68K_REG_D1 \<equiv> 2"
abbreviation (input) M68K_REG_D2 :: u32 where "M68K_REG_D2 \<equiv> 3"
abbreviation (input) M68K_REG_D3 :: u32 where "M68K_REG_D3 \<equiv> 4"
abbreviation (input) M68K_REG_D4 :: u32 where "M68K_REG_D4 \<equiv> 5"
abbreviation (input) M68K_REG_D5 :: u32 where "M68K_REG_D5 \<equiv> 6"
abbreviation (input) M68K_REG_D6 :: u32 where "M68K_REG_D6 \<equiv> 7"
abbreviation (input) M68K_REG_D7 :: u32 where "M68K_REG_D7 \<equiv> 8"
abbreviation (input) M68K_REG_A0 :: u32 where "M68K_REG_A0 \<equiv> 9"
abbreviation (input) M68K_REG_A1 :: u32 where "M68K_REG_A1 \<equiv> 10"
abbreviation (input) M68K_REG_A2 :: u32 where "M68K_REG_A2 \<equiv> 11"
abbreviation (input) M68K_REG_A3 :: u32 where "M68K_REG_A3 \<equiv> 12"
abbreviation (input) M68K_REG_A4 :: u32 where "M68K_REG_A4 \<equiv> 13"
abbreviation (input) M68K_REG_A5 :: u32 where "M68K_REG_A5 \<equiv> 14"
abbreviation (input) M68K_REG_A6 :: u32 where "M68K_REG_A6 \<equiv> 15"
abbreviation (input) M68K_REG_A7 :: u32 where "M68K_REG_A7 \<equiv> 16"
abbreviation (input) M68K_REG_FP0 :: u32 where "M68K_REG_FP0 \<equiv> 17"
abbreviation (input) M68K_REG_FP1 :: u32 where "M68K_REG_FP1 \<equiv> 18"
abbreviation (input) M68K_REG_FP2 :: u32 where "M68K_REG_FP2 \<equiv> 19"
abbreviation (input) M68K_REG_FP3 :: u32 where "M68K_REG_FP3 \<equiv> 20"
abbreviation (input) M68K_REG_FP4 :: u32 where "M68K_REG_FP4 \<equiv> 21"
abbreviation (input) M68K_REG_FP5 :: u32 where "M68K_REG_FP5 \<equiv> 22"
abbreviation (input) M68K_REG_FP6 :: u32 where "M68K_REG_FP6 \<equiv> 23"
abbreviation (input) M68K_REG_FP7 :: u32 where "M68K_REG_FP7 \<equiv> 24"
abbreviation (input) M68K_REG_PC :: u32 where "M68K_REG_PC \<equiv> 25"
abbreviation (input) M68K_REG_SR :: u32 where "M68K_REG_SR \<equiv> 26"
abbreviation (input) M68K_REG_CCR :: u32 where "M68K_REG_CCR \<equiv> 27"
abbreviation (input) M68K_REG_SFC :: u32 where "M68K_REG_SFC \<equiv> 28"
abbreviation (input) M68K_REG_DFC :: u32 where "M68K_REG_DFC \<equiv> 29"
abbreviation (input) M68K_REG_USP :: u32 where "M68K_REG_USP \<equiv> 30"
abbreviation (input) M68K_REG_VBR :: u32 where "M68K_REG_VBR \<equiv> 31"
abbreviation (input) M68K_REG_CACR :: u32 where "M68K_REG_CACR \<equiv> 32"
abbreviation (input) M68K_REG_CAAR :: u32 where "M68K_REG_CAAR \<equiv> 33"
abbreviation (input) M68K_REG_MSP :: u32 where "M68K_REG_MSP \<equiv> 34"
abbreviation (input) M68K_REG_ISP :: u32 where "M68K_REG_ISP \<equiv> 35"
abbreviation (input) M68K_REG_TC :: u32 where "M68K_REG_TC \<equiv> 36"
abbreviation (input) M68K_REG_ITT0 :: u32 where "M68K_REG_ITT0 \<equiv> 37"
abbreviation (input) M68K_REG_ITT1 :: u32 where "M68K_REG_ITT1 \<equiv> 38"
abbreviation (input) M68K_REG_DTT0 :: u32 where "M68K_REG_DTT0 \<equiv> 39"
abbreviation (input) M68K_REG_DTT1 :: u32 where "M68K_REG_DTT1 \<equiv> 40"
abbreviation (input) M68K_REG_MMUSR :: u32 where "M68K_REG_MMUSR \<equiv> 41"
abbreviation (input) M68K_REG_URP :: u32 where "M68K_REG_URP \<equiv> 42"
abbreviation (input) M68K_REG_SRP :: u32 where "M68K_REG_SRP \<equiv> 43"
abbreviation (input) M68K_REG_FPCR :: u32 where "M68K_REG_FPCR \<equiv> 44"
abbreviation (input) M68K_REG_FPSR :: u32 where "M68K_REG_FPSR \<equiv> 45"
abbreviation (input) M68K_REG_FPIAR :: u32 where "M68K_REG_FPIAR \<equiv> 46"

abbreviation (input) M68K_INS_INVALID :: u32 where "M68K_INS_INVALID \<equiv> 0"
abbreviation (input) M68K_INS_ABCD :: u32 where "M68K_INS_ABCD \<equiv> 1"
abbreviation (input) M68K_INS_ADD :: u32 where "M68K_INS_ADD \<equiv> 2"
abbreviation (input) M68K_INS_ADDA :: u32 where "M68K_INS_ADDA \<equiv> 3"
abbreviation (input) M68K_INS_ADDI :: u32 where "M68K_INS_ADDI \<equiv> 4"
abbreviation (input) M68K_INS_ADDQ :: u32 where "M68K_INS_ADDQ \<equiv> 5"
abbreviation (input) M68K_INS_ADDX :: u32 where "M68K_INS_ADDX \<equiv> 6"
abbreviation (input) M68K_INS_AND :: u32 where "M68K_INS_AND \<equiv> 7"
abbreviation (input) M68K_INS_ANDI :: u32 where "M68K_INS_ANDI \<equiv> 8"
abbreviation (input) M68K_INS_ASL :: u32 where "M68K_INS_ASL \<equiv> 9"
abbreviation (input) M68K_INS_ASR :: u32 where "M68K_INS_ASR \<equiv> 10"
abbreviation (input) M68K_INS_BHS :: u32 where "M68K_INS_BHS \<equiv> 11"
abbreviation (input) M68K_INS_BLO :: u32 where "M68K_INS_BLO \<equiv> 12"
abbreviation (input) M68K_INS_BHI :: u32 where "M68K_INS_BHI \<equiv> 13"
abbreviation (input) M68K_INS_BLS :: u32 where "M68K_INS_BLS \<equiv> 14"
abbreviation (input) M68K_INS_BCC :: u32 where "M68K_INS_BCC \<equiv> 15"
abbreviation (input) M68K_INS_BCS :: u32 where "M68K_INS_BCS \<equiv> 16"
abbreviation (input) M68K_INS_BNE :: u32 where "M68K_INS_BNE \<equiv> 17"
abbreviation (input) M68K_INS_BEQ :: u32 where "M68K_INS_BEQ \<equiv> 18"
abbreviation (input) M68K_INS_BVC :: u32 where "M68K_INS_BVC \<equiv> 19"
abbreviation (input) M68K_INS_BVS :: u32 where "M68K_INS_BVS \<equiv> 20"
abbreviation (input) M68K_INS_BPL :: u32 where "M68K_INS_BPL \<equiv> 21"
abbreviation (input) M68K_INS_BMI :: u32 where "M68K_INS_BMI \<equiv> 22"
abbreviation (input) M68K_INS_BGE :: u32 where "M68K_INS_BGE \<equiv> 23"
abbreviation (input) M68K_INS_BLT :: u32 where "M68K_INS_BLT \<equiv> 24"
abbreviation (input) M68K_INS_BGT :: u32 where "M68K_INS_BGT \<equiv> 25"
abbreviation (input) M68K_INS_BLE :: u32 where "M68K_INS_BLE \<equiv> 26"
abbreviation (input) M68K_INS_BRA :: u32 where "M68K_INS_BRA \<equiv> 27"
abbreviation (input) M68K_INS_BSR :: u32 where "M68K_INS_BSR \<equiv> 28"
abbreviation (input) M68K_INS_BCHG :: u32 where "M68K_INS_BCHG \<equiv> 29"
abbreviation (input) M68K_INS_BCLR :: u32 where "M68K_INS_BCLR \<equiv> 30"
abbreviation (input) M68K_INS_BSET :: u32 where "M68K_INS_BSET \<equiv> 31"
abbreviation (input) M68K_INS_BTST :: u32 where "M68K_INS_BTST \<equiv> 32"
abbreviation (input) M68K_INS_BFCHG :: u32 where "M68K_INS_BFCHG \<equiv> 33"
abbreviation (input) M68K_INS_BFCLR :: u32 where "M68K_INS_BFCLR \<equiv> 34"
abbreviation (input) M68K_INS_BFEXTS :: u32 where "M68K_INS_BFEXTS \<equiv> 35"
abbreviation (input) M68K_INS_BFEXTU :: u32 where "M68K_INS_BFEXTU \<equiv> 36"
abbreviation (input) M68K_INS_BFFFO :: u32 where "M68K_INS_BFFFO \<equiv> 37"
abbreviation (input) M68K_INS_BFINS :: u32 where "M68K_INS_BFINS \<equiv> 38"
abbreviation (input) M68K_INS_BFSET :: u32 where "M68K_INS_BFSET \<equiv> 39"
abbreviation (input) M68K_INS_BFTST :: u32 where "M68K_INS_BFTST \<equiv> 40"
abbreviation (input) M68K_INS_BKPT :: u32 where "M68K_INS_BKPT \<equiv> 41"
abbreviation (input) M68K_INS_CALLM :: u32 where "M68K_INS_CALLM \<equiv> 42"
abbreviation (input) M68K_INS_CAS :: u32 where "M68K_INS_CAS \<equiv> 43"
abbreviation (input) M68K_INS_CAS2 :: u32 where "M68K_INS_CAS2 \<equiv> 44"
abbreviation (input) M68K_INS_CHK :: u32 where "M68K_INS_CHK \<equiv> 45"
abbreviation (input) M68K_INS_CHK2 :: u32 where "M68K_INS_CHK2 \<equiv> 46"
abbreviation (input) M68K_INS_CLR :: u32 where "M68K_INS_CLR \<equiv> 47"
abbreviation (input) M68K_INS_CMP :: u32 where "M68K_INS_CMP \<equiv> 48"
abbreviation (input) M68K_INS_CMPA :: u32 where "M68K_INS_CMPA \<equiv> 49"
abbreviation (input) M68K_INS_CMPI :: u32 where "M68K_INS_CMPI \<equiv> 50"
abbreviation (input) M68K_INS_CMPM :: u32 where "M68K_INS_CMPM \<equiv> 51"
abbreviation (input) M68K_INS_CMP2 :: u32 where "M68K_INS_CMP2 \<equiv> 52"
abbreviation (input) M68K_INS_CINVL :: u32 where "M68K_INS_CINVL \<equiv> 53"
abbreviation (input) M68K_INS_CINVP :: u32 where "M68K_INS_CINVP \<equiv> 54"
abbreviation (input) M68K_INS_CINVA :: u32 where "M68K_INS_CINVA \<equiv> 55"
abbreviation (input) M68K_INS_CPUSHL :: u32 where "M68K_INS_CPUSHL \<equiv> 56"
abbreviation (input) M68K_INS_CPUSHP :: u32 where "M68K_INS_CPUSHP \<equiv> 57"
abbreviation (input) M68K_INS_CPUSHA :: u32 where "M68K_INS_CPUSHA \<equiv> 58"
abbreviation (input) M68K_INS_DBT :: u32 where "M68K_INS_DBT \<equiv> 59"
abbreviation (input) M68K_INS_DBF :: u32 where "M68K_INS_DBF \<equiv> 60"
abbreviation (input) M68K_INS_DBHI :: u32 where "M68K_INS_DBHI \<equiv> 61"
abbreviation (input) M68K_INS_DBLS :: u32 where "M68K_INS_DBLS \<equiv> 62"
abbreviation (input) M68K_INS_DBCC :: u32 where "M68K_INS_DBCC \<equiv> 63"
abbreviation (input) M68K_INS_DBCS :: u32 where "M68K_INS_DBCS \<equiv> 64"
abbreviation (input) M68K_INS_DBNE :: u32 where "M68K_INS_DBNE \<equiv> 65"
abbreviation (input) M68K_INS_DBEQ :: u32 where "M68K_INS_DBEQ \<equiv> 66"
abbreviation (input) M68K_INS_DBVC :: u32 where "M68K_INS_DBVC \<equiv> 67"
abbreviation (input) M68K_INS_DBVS :: u32 where "M68K_INS_DBVS \<equiv> 68"
abbreviation (input) M68K_INS_DBPL :: u32 where "M68K_INS_DBPL \<equiv> 69"
abbreviation (input) M68K_INS_DBMI :: u32 where "M68K_INS_DBMI \<equiv> 70"
abbreviation (input) M68K_INS_DBGE :: u32 where "M68K_INS_DBGE \<equiv> 71"
abbreviation (input) M68K_INS_DBLT :: u32 where "M68K_INS_DBLT \<equiv> 72"
abbreviation (input) M68K_INS_DBGT :: u32 where "M68K_INS_DBGT \<equiv> 73"
abbreviation (input) M68K_INS_DBLE :: u32 where "M68K_INS_DBLE \<equiv> 74"
abbreviation (input) M68K_INS_DBRA :: u32 where "M68K_INS_DBRA \<equiv> 75"
abbreviation (input) M68K_INS_DIVS :: u32 where "M68K_INS_DIVS \<equiv> 76"
abbreviation (input) M68K_INS_DIVSL :: u32 where "M68K_INS_DIVSL \<equiv> 77"
abbreviation (input) M68K_INS_DIVU :: u32 where "M68K_INS_DIVU \<equiv> 78"
abbreviation (input) M68K_INS_DIVUL :: u32 where "M68K_INS_DIVUL \<equiv> 79"
abbreviation (input) M68K_INS_EOR :: u32 where "M68K_INS_EOR \<equiv> 80"
abbreviation (input) M68K_INS_EORI :: u32 where "M68K_INS_EORI \<equiv> 81"
abbreviation (input) M68K_INS_EXG :: u32 where "M68K_INS_EXG \<equiv> 82"
abbreviation (input) M68K_INS_EXT :: u32 where "M68K_INS_EXT \<equiv> 83"
abbreviation (input) M68K_INS_EXTB :: u32 where "M68K_INS_EXTB \<equiv> 84"
abbreviation (input) M68K_INS_FABS :: u32 where "M68K_INS_FABS \<equiv> 85"
abbreviation (input) M68K_INS_FSABS :: u32 where "M68K_INS_FSABS \<equiv> 86"
abbreviation (input) M68K_INS_FDABS :: u32 where "M68K_INS_FDABS \<equiv> 87"
abbreviation (input) M68K_INS_FACOS :: u32 where "M68K_INS_FACOS \<equiv> 88"
abbreviation (input) M68K_INS_FADD :: u32 where "M68K_INS_FADD \<equiv> 89"
abbreviation (input) M68K_INS_FSADD :: u32 where "M68K_INS_FSADD \<equiv> 90"
abbreviation (input) M68K_INS_FDADD :: u32 where "M68K_INS_FDADD \<equiv> 91"
abbreviation (input) M68K_INS_FASIN :: u32 where "M68K_INS_FASIN \<equiv> 92"
abbreviation (input) M68K_INS_FATAN :: u32 where "M68K_INS_FATAN \<equiv> 93"
abbreviation (input) M68K_INS_FATANH :: u32 where "M68K_INS_FATANH \<equiv> 94"
abbreviation (input) M68K_INS_FBF :: u32 where "M68K_INS_FBF \<equiv> 95"
abbreviation (input) M68K_INS_FBEQ :: u32 where "M68K_INS_FBEQ \<equiv> 96"
abbreviation (input) M68K_INS_FBOGT :: u32 where "M68K_INS_FBOGT \<equiv> 97"
abbreviation (input) M68K_INS_FBOGE :: u32 where "M68K_INS_FBOGE \<equiv> 98"
abbreviation (input) M68K_INS_FBOLT :: u32 where "M68K_INS_FBOLT \<equiv> 99"
abbreviation (input) M68K_INS_FBOLE :: u32 where "M68K_INS_FBOLE \<equiv> 100"
abbreviation (input) M68K_INS_FBOGL :: u32 where "M68K_INS_FBOGL \<equiv> 101"
abbreviation (input) M68K_INS_FBOR :: u32 where "M68K_INS_FBOR \<equiv> 102"
abbreviation (input) M68K_INS_FBUN :: u32 where "M68K_INS_FBUN \<equiv> 103"
abbreviation (input) M68K_INS_FBUEQ :: u32 where "M68K_INS_FBUEQ \<equiv> 104"
abbreviation (input) M68K_INS_FBUGT :: u32 where "M68K_INS_FBUGT \<equiv> 105"
abbreviation (input) M68K_INS_FBUGE :: u32 where "M68K_INS_FBUGE \<equiv> 106"
abbreviation (input) M68K_INS_FBULT :: u32 where "M68K_INS_FBULT \<equiv> 107"
abbreviation (input) M68K_INS_FBULE :: u32 where "M68K_INS_FBULE \<equiv> 108"
abbreviation (input) M68K_INS_FBNE :: u32 where "M68K_INS_FBNE \<equiv> 109"
abbreviation (input) M68K_INS_FBT :: u32 where "M68K_INS_FBT \<equiv> 110"
abbreviation (input) M68K_INS_FBSF :: u32 where "M68K_INS_FBSF \<equiv> 111"
abbreviation (input) M68K_INS_FBSEQ :: u32 where "M68K_INS_FBSEQ \<equiv> 112"
abbreviation (input) M68K_INS_FBGT :: u32 where "M68K_INS_FBGT \<equiv> 113"
abbreviation (input) M68K_INS_FBGE :: u32 where "M68K_INS_FBGE \<equiv> 114"
abbreviation (input) M68K_INS_FBLT :: u32 where "M68K_INS_FBLT \<equiv> 115"
abbreviation (input) M68K_INS_FBLE :: u32 where "M68K_INS_FBLE \<equiv> 116"
abbreviation (input) M68K_INS_FBGL :: u32 where "M68K_INS_FBGL \<equiv> 117"
abbreviation (input) M68K_INS_FBGLE :: u32 where "M68K_INS_FBGLE \<equiv> 118"
abbreviation (input) M68K_INS_FBNGLE :: u32 where "M68K_INS_FBNGLE \<equiv> 119"
abbreviation (input) M68K_INS_FBNGL :: u32 where "M68K_INS_FBNGL \<equiv> 120"
abbreviation (input) M68K_INS_FBNLE :: u32 where "M68K_INS_FBNLE \<equiv> 121"
abbreviation (input) M68K_INS_FBNLT :: u32 where "M68K_INS_FBNLT \<equiv> 122"
abbreviation (input) M68K_INS_FBNGE :: u32 where "M68K_INS_FBNGE \<equiv> 123"
abbreviation (input) M68K_INS_FBNGT :: u32 where "M68K_INS_FBNGT \<equiv> 124"
abbreviation (input) M68K_INS_FBSNE :: u32 where "M68K_INS_FBSNE \<equiv> 125"
abbreviation (input) M68K_INS_FBST :: u32 where "M68K_INS_FBST \<equiv> 126"
abbreviation (input) M68K_INS_FCMP :: u32 where "M68K_INS_FCMP \<equiv> 127"
abbreviation (input) M68K_INS_FCOS :: u32 where "M68K_INS_FCOS \<equiv> 128"
abbreviation (input) M68K_INS_FCOSH :: u32 where "M68K_INS_FCOSH \<equiv> 129"
abbreviation (input) M68K_INS_FDBF :: u32 where "M68K_INS_FDBF \<equiv> 130"
abbreviation (input) M68K_INS_FDBEQ :: u32 where "M68K_INS_FDBEQ \<equiv> 131"
abbreviation (input) M68K_INS_FDBOGT :: u32 where "M68K_INS_FDBOGT \<equiv> 132"
abbreviation (input) M68K_INS_FDBOGE :: u32 where "M68K_INS_FDBOGE \<equiv> 133"
abbreviation (input) M68K_INS_FDBOLT :: u32 where "M68K_INS_FDBOLT \<equiv> 134"
abbreviation (input) M68K_INS_FDBOLE :: u32 where "M68K_INS_FDBOLE \<equiv> 135"
abbreviation (input) M68K_INS_FDBOGL :: u32 where "M68K_INS_FDBOGL \<equiv> 136"
abbreviation (input) M68K_INS_FDBOR :: u32 where "M68K_INS_FDBOR \<equiv> 137"
abbreviation (input) M68K_INS_FDBUN :: u32 where "M68K_INS_FDBUN \<equiv> 138"
abbreviation (input) M68K_INS_FDBUEQ :: u32 where "M68K_INS_FDBUEQ \<equiv> 139"
abbreviation (input) M68K_INS_FDBUGT :: u32 where "M68K_INS_FDBUGT \<equiv> 140"
abbreviation (input) M68K_INS_FDBUGE :: u32 where "M68K_INS_FDBUGE \<equiv> 141"
abbreviation (input) M68K_INS_FDBULT :: u32 where "M68K_INS_FDBULT \<equiv> 142"
abbreviation (input) M68K_INS_FDBULE :: u32 where "M68K_INS_FDBULE \<equiv> 143"
abbreviation (input) M68K_INS_FDBNE :: u32 where "M68K_INS_FDBNE \<equiv> 144"
abbreviation (input) M68K_INS_FDBT :: u32 where "M68K_INS_FDBT \<equiv> 145"
abbreviation (input) M68K_INS_FDBSF :: u32 where "M68K_INS_FDBSF \<equiv> 146"
abbreviation (input) M68K_INS_FDBSEQ :: u32 where "M68K_INS_FDBSEQ \<equiv> 147"
abbreviation (input) M68K_INS_FDBGT :: u32 where "M68K_INS_FDBGT \<equiv> 148"
abbreviation (input) M68K_INS_FDBGE :: u32 where "M68K_INS_FDBGE \<equiv> 149"
abbreviation (input) M68K_INS_FDBLT :: u32 where "M68K_INS_FDBLT \<equiv> 150"
abbreviation (input) M68K_INS_FDBLE :: u32 where "M68K_INS_FDBLE \<equiv> 151"
abbreviation (input) M68K_INS_FDBGL :: u32 where "M68K_INS_FDBGL \<equiv> 152"
abbreviation (input) M68K_INS_FDBGLE :: u32 where "M68K_INS_FDBGLE \<equiv> 153"
abbreviation (input) M68K_INS_FDBNGLE :: u32 where "M68K_INS_FDBNGLE \<equiv> 154"
abbreviation (input) M68K_INS_FDBNGL :: u32 where "M68K_INS_FDBNGL \<equiv> 155"
abbreviation (input) M68K_INS_FDBNLE :: u32 where "M68K_INS_FDBNLE \<equiv> 156"
abbreviation (input) M68K_INS_FDBNLT :: u32 where "M68K_INS_FDBNLT \<equiv> 157"
abbreviation (input) M68K_INS_FDBNGE :: u32 where "M68K_INS_FDBNGE \<equiv> 158"
abbreviation (input) M68K_INS_FDBNGT :: u32 where "M68K_INS_FDBNGT \<equiv> 159"
abbreviation (input) M68K_INS_FDBSNE :: u32 where "M68K_INS_FDBSNE \<equiv> 160"
abbreviation (input) M68K_INS_FDBST :: u32 where "M68K_INS_FDBST \<equiv> 161"
abbreviation (input) M68K_INS_FDIV :: u32 where "M68K_INS_FDIV \<equiv> 162"
abbreviation (input) M68K_INS_FSDIV :: u32 where "M68K_INS_FSDIV \<equiv> 163"
abbreviation (input) M68K_INS_FDDIV :: u32 where "M68K_INS_FDDIV \<equiv> 164"
abbreviation (input) M68K_INS_FETOX :: u32 where "M68K_INS_FETOX \<equiv> 165"
abbreviation (input) M68K_INS_FETOXM1 :: u32 where "M68K_INS_FETOXM1 \<equiv> 166"
abbreviation (input) M68K_INS_FGETEXP :: u32 where "M68K_INS_FGETEXP \<equiv> 167"
abbreviation (input) M68K_INS_FGETMAN :: u32 where "M68K_INS_FGETMAN \<equiv> 168"
abbreviation (input) M68K_INS_FINT :: u32 where "M68K_INS_FINT \<equiv> 169"
abbreviation (input) M68K_INS_FINTRZ :: u32 where "M68K_INS_FINTRZ \<equiv> 170"
abbreviation (input) M68K_INS_FLOG10 :: u32 where "M68K_INS_FLOG10 \<equiv> 171"
abbreviation (input) M68K_INS_FLOG2 :: u32 where "M68K_INS_FLOG2 \<equiv> 172"
abbreviation (input) M68K_INS_FLOGN :: u32 where "M68K_INS_FLOGN \<equiv> 173"
abbreviation (input) M68K_INS_FLOGNP1 :: u32 where "M68K_INS_FLOGNP1 \<equiv> 174"
abbreviation (input) M68K_INS_FMOD :: u32 where "M68K_INS_FMOD \<equiv> 175"
abbreviation (input) M68K_INS_FMOVE :: u32 where "M68K_INS_FMOVE \<equiv> 176"
abbreviation (input) M68K_INS_FSMOVE :: u32 where "M68K_INS_FSMOVE \<equiv> 177"
abbreviation (input) M68K_INS_FDMOVE :: u32 where "M68K_INS_FDMOVE \<equiv> 178"
abbreviation (input) M68K_INS_FMOVECR :: u32 where "M68K_INS_FMOVECR \<equiv> 179"
abbreviation (input) M68K_INS_FMOVEM :: u32 where "M68K_INS_FMOVEM \<equiv> 180"
abbreviation (input) M68K_INS_FMUL :: u32 where "M68K_INS_FMUL \<equiv> 181"
abbreviation (input) M68K_INS_FSMUL :: u32 where "M68K_INS_FSMUL \<equiv> 182"
abbreviation (input) M68K_INS_FDMUL :: u32 where "M68K_INS_FDMUL \<equiv> 183"
abbreviation (input) M68K_INS_FNEG :: u32 where "M68K_INS_FNEG \<equiv> 184"
abbreviation (input) M68K_INS_FSNEG :: u32 where "M68K_INS_FSNEG \<equiv> 185"
abbreviation (input) M68K_INS_FDNEG :: u32 where "M68K_INS_FDNEG \<equiv> 186"
abbreviation (input) M68K_INS_FNOP :: u32 where "M68K_INS_FNOP \<equiv> 187"
abbreviation (input) M68K_INS_FREM :: u32 where "M68K_INS_FREM \<equiv> 188"
abbreviation (input) M68K_INS_FRESTORE :: u32 where "M68K_INS_FRESTORE \<equiv> 189"
abbreviation (input) M68K_INS_FSAVE :: u32 where "M68K_INS_FSAVE \<equiv> 190"
abbreviation (input) M68K_INS_FSCALE :: u32 where "M68K_INS_FSCALE \<equiv> 191"
abbreviation (input) M68K_INS_FSGLDIV :: u32 where "M68K_INS_FSGLDIV \<equiv> 192"
abbreviation (input) M68K_INS_FSGLMUL :: u32 where "M68K_INS_FSGLMUL \<equiv> 193"
abbreviation (input) M68K_INS_FSIN :: u32 where "M68K_INS_FSIN \<equiv> 194"
abbreviation (input) M68K_INS_FSINCOS :: u32 where "M68K_INS_FSINCOS \<equiv> 195"
abbreviation (input) M68K_INS_FSINH :: u32 where "M68K_INS_FSINH \<equiv> 196"
abbreviation (input) M68K_INS_FSQRT :: u32 where "M68K_INS_FSQRT \<equiv> 197"
abbreviation (input) M68K_INS_FSSQRT :: u32 where "M68K_INS_FSSQRT \<equiv> 198"
abbreviation (input) M68K_INS_FDSQRT :: u32 where "M68K_INS_FDSQRT \<equiv> 199"
abbreviation (input) M68K_INS_FSF :: u32 where "M68K_INS_FSF \<equiv> 200"
abbreviation (input) M68K_INS_FSBEQ :: u32 where "M68K_INS_FSBEQ \<equiv> 201"
abbreviation (input) M68K_INS_FSOGT :: u32 where "M68K_INS_FSOGT \<equiv> 202"
abbreviation (input) M68K_INS_FSOGE :: u32 where "M68K_INS_FSOGE \<equiv> 203"
abbreviation (input) M68K_INS_FSOLT :: u32 where "M68K_INS_FSOLT \<equiv> 204"
abbreviation (input) M68K_INS_FSOLE :: u32 where "M68K_INS_FSOLE \<equiv> 205"
abbreviation (input) M68K_INS_FSOGL :: u32 where "M68K_INS_FSOGL \<equiv> 206"
abbreviation (input) M68K_INS_FSOR :: u32 where "M68K_INS_FSOR \<equiv> 207"
abbreviation (input) M68K_INS_FSUN :: u32 where "M68K_INS_FSUN \<equiv> 208"
abbreviation (input) M68K_INS_FSUEQ :: u32 where "M68K_INS_FSUEQ \<equiv> 209"
abbreviation (input) M68K_INS_FSUGT :: u32 where "M68K_INS_FSUGT \<equiv> 210"
abbreviation (input) M68K_INS_FSUGE :: u32 where "M68K_INS_FSUGE \<equiv> 211"
abbreviation (input) M68K_INS_FSULT :: u32 where "M68K_INS_FSULT \<equiv> 212"
abbreviation (input) M68K_INS_FSULE :: u32 where "M68K_INS_FSULE \<equiv> 213"
abbreviation (input) M68K_INS_FSNE :: u32 where "M68K_INS_FSNE \<equiv> 214"
abbreviation (input) M68K_INS_FST :: u32 where "M68K_INS_FST \<equiv> 215"
abbreviation (input) M68K_INS_FSSF :: u32 where "M68K_INS_FSSF \<equiv> 216"
abbreviation (input) M68K_INS_FSSEQ :: u32 where "M68K_INS_FSSEQ \<equiv> 217"
abbreviation (input) M68K_INS_FSGT :: u32 where "M68K_INS_FSGT \<equiv> 218"
abbreviation (input) M68K_INS_FSGE :: u32 where "M68K_INS_FSGE \<equiv> 219"
abbreviation (input) M68K_INS_FSLT :: u32 where "M68K_INS_FSLT \<equiv> 220"
abbreviation (input) M68K_INS_FSLE :: u32 where "M68K_INS_FSLE \<equiv> 221"
abbreviation (input) M68K_INS_FSGL :: u32 where "M68K_INS_FSGL \<equiv> 222"
abbreviation (input) M68K_INS_FSGLE :: u32 where "M68K_INS_FSGLE \<equiv> 223"
abbreviation (input) M68K_INS_FSNGLE :: u32 where "M68K_INS_FSNGLE \<equiv> 224"
abbreviation (input) M68K_INS_FSNGL :: u32 where "M68K_INS_FSNGL \<equiv> 225"
abbreviation (input) M68K_INS_FSNLE :: u32 where "M68K_INS_FSNLE \<equiv> 226"
abbreviation (input) M68K_INS_FSNLT :: u32 where "M68K_INS_FSNLT \<equiv> 227"
abbreviation (input) M68K_INS_FSNGE :: u32 where "M68K_INS_FSNGE \<equiv> 228"
abbreviation (input) M68K_INS_FSNGT :: u32 where "M68K_INS_FSNGT \<equiv> 229"
abbreviation (input) M68K_INS_FSSNE :: u32 where "M68K_INS_FSSNE \<equiv> 230"
abbreviation (input) M68K_INS_FSST :: u32 where "M68K_INS_FSST \<equiv> 231"
abbreviation (input) M68K_INS_FSUB :: u32 where "M68K_INS_FSUB \<equiv> 232"
abbreviation (input) M68K_INS_FSSUB :: u32 where "M68K_INS_FSSUB \<equiv> 233"
abbreviation (input) M68K_INS_FDSUB :: u32 where "M68K_INS_FDSUB \<equiv> 234"
abbreviation (input) M68K_INS_FTAN :: u32 where "M68K_INS_FTAN \<equiv> 235"
abbreviation (input) M68K_INS_FTANH :: u32 where "M68K_INS_FTANH \<equiv> 236"
abbreviation (input) M68K_INS_FTENTOX :: u32 where "M68K_INS_FTENTOX \<equiv> 237"
abbreviation (input) M68K_INS_FTRAPF :: u32 where "M68K_INS_FTRAPF \<equiv> 238"
abbreviation (input) M68K_INS_FTRAPEQ :: u32 where "M68K_INS_FTRAPEQ \<equiv> 239"
abbreviation (input) M68K_INS_FTRAPOGT :: u32 where "M68K_INS_FTRAPOGT \<equiv> 240"
abbreviation (input) M68K_INS_FTRAPOGE :: u32 where "M68K_INS_FTRAPOGE \<equiv> 241"
abbreviation (input) M68K_INS_FTRAPOLT :: u32 where "M68K_INS_FTRAPOLT \<equiv> 242"
abbreviation (input) M68K_INS_FTRAPOLE :: u32 where "M68K_INS_FTRAPOLE \<equiv> 243"
abbreviation (input) M68K_INS_FTRAPOGL :: u32 where "M68K_INS_FTRAPOGL \<equiv> 244"
abbreviation (input) M68K_INS_FTRAPOR :: u32 where "M68K_INS_FTRAPOR \<equiv> 245"
abbreviation (input) M68K_INS_FTRAPUN :: u32 where "M68K_INS_FTRAPUN \<equiv> 246"
abbreviation (input) M68K_INS_FTRAPUEQ :: u32 where "M68K_INS_FTRAPUEQ \<equiv> 247"
abbreviation (input) M68K_INS_FTRAPUGT :: u32 where "M68K_INS_FTRAPUGT \<equiv> 248"
abbreviation (input) M68K_INS_FTRAPUGE :: u32 where "M68K_INS_FTRAPUGE \<equiv> 249"
abbreviation (input) M68K_INS_FTRAPULT :: u32 where "M68K_INS_FTRAPULT \<equiv> 250"
abbreviation (input) M68K_INS_FTRAPULE :: u32 where "M68K_INS_FTRAPULE \<equiv> 251"
abbreviation (input) M68K_INS_FTRAPNE :: u32 where "M68K_INS_FTRAPNE \<equiv> 252"
abbreviation (input) M68K_INS_FTRAPT :: u32 where "M68K_INS_FTRAPT \<equiv> 253"
abbreviation (input) M68K_INS_FTRAPSF :: u32 where "M68K_INS_FTRAPSF \<equiv> 254"
abbreviation (input) M68K_INS_FTRAPSEQ :: u32 where "M68K_INS_FTRAPSEQ \<equiv> 255"
abbreviation (input) M68K_INS_FTRAPGT :: u32 where "M68K_INS_FTRAPGT \<equiv> 256"
abbreviation (input) M68K_INS_FTRAPGE :: u32 where "M68K_INS_FTRAPGE \<equiv> 257"
abbreviation (input) M68K_INS_FTRAPLT :: u32 where "M68K_INS_FTRAPLT \<equiv> 258"
abbreviation (input) M68K_INS_FTRAPLE :: u32 where "M68K_INS_FTRAPLE \<equiv> 259"
abbreviation (input) M68K_INS_FTRAPGL :: u32 where "M68K_INS_FTRAPGL \<equiv> 260"
abbreviation (input) M68K_INS_FTRAPGLE :: u32 where "M68K_INS_FTRAPGLE \<equiv> 261"
abbreviation (input) M68K_INS_FTRAPNGLE :: u32 where "M68K_INS_FTRAPNGLE \<equiv> 262"
abbreviation (input) M68K_INS_FTRAPNGL :: u32 where "M68K_INS_FTRAPNGL \<equiv> 263"
abbreviation (input) M68K_INS_FTRAPNLE :: u32 where "M68K_INS_FTRAPNLE \<equiv> 264"
abbreviation (input) M68K_INS_FTRAPNLT :: u32 where "M68K_INS_FTRAPNLT \<equiv> 265"
abbreviation (input) M68K_INS_FTRAPNGE :: u32 where "M68K_INS_FTRAPNGE \<equiv> 266"
abbreviation (input) M68K_INS_FTRAPNGT :: u32 where "M68K_INS_FTRAPNGT \<equiv> 267"
abbreviation (input) M68K_INS_FTRAPSNE :: u32 where "M68K_INS_FTRAPSNE \<equiv> 268"
abbreviation (input) M68K_INS_FTRAPST :: u32 where "M68K_INS_FTRAPST \<equiv> 269"
abbreviation (input) M68K_INS_FTST :: u32 where "M68K_INS_FTST \<equiv> 270"
abbreviation (input) M68K_INS_FTWOTOX :: u32 where "M68K_INS_FTWOTOX \<equiv> 271"
abbreviation (input) M68K_INS_HALT :: u32 where "M68K_INS_HALT \<equiv> 272"
abbreviation (input) M68K_INS_ILLEGAL :: u32 where "M68K_INS_ILLEGAL \<equiv> 273"
abbreviation (input) M68K_INS_JMP :: u32 where "M68K_INS_JMP \<equiv> 274"
abbreviation (input) M68K_INS_JSR :: u32 where "M68K_INS_JSR \<equiv> 275"
abbreviation (input) M68K_INS_LEA :: u32 where "M68K_INS_LEA \<equiv> 276"
abbreviation (input) M68K_INS_LINK :: u32 where "M68K_INS_LINK \<equiv> 277"
abbreviation (input) M68K_INS_LPSTOP :: u32 where "M68K_INS_LPSTOP \<equiv> 278"
abbreviation (input) M68K_INS_LSL :: u32 where "M68K_INS_LSL \<equiv> 279"
abbreviation (input) M68K_INS_LSR :: u32 where "M68K_INS_LSR \<equiv> 280"
abbreviation (input) M68K_INS_MOVE :: u32 where "M68K_INS_MOVE \<equiv> 281"
abbreviation (input) M68K_INS_MOVEA :: u32 where "M68K_INS_MOVEA \<equiv> 282"
abbreviation (input) M68K_INS_MOVEC :: u32 where "M68K_INS_MOVEC \<equiv> 283"
abbreviation (input) M68K_INS_MOVEM :: u32 where "M68K_INS_MOVEM \<equiv> 284"
abbreviation (input) M68K_INS_MOVEP :: u32 where "M68K_INS_MOVEP \<equiv> 285"
abbreviation (input) M68K_INS_MOVEQ :: u32 where "M68K_INS_MOVEQ \<equiv> 286"
abbreviation (input) M68K_INS_MOVES :: u32 where "M68K_INS_MOVES \<equiv> 287"
abbreviation (input) M68K_INS_MOVE16 :: u32 where "M68K_INS_MOVE16 \<equiv> 288"
abbreviation (input) M68K_INS_MULS :: u32 where "M68K_INS_MULS \<equiv> 289"
abbreviation (input) M68K_INS_MULU :: u32 where "M68K_INS_MULU \<equiv> 290"
abbreviation (input) M68K_INS_NBCD :: u32 where "M68K_INS_NBCD \<equiv> 291"
abbreviation (input) M68K_INS_NEG :: u32 where "M68K_INS_NEG \<equiv> 292"
abbreviation (input) M68K_INS_NEGX :: u32 where "M68K_INS_NEGX \<equiv> 293"
abbreviation (input) M68K_INS_NOP :: u32 where "M68K_INS_NOP \<equiv> 294"
abbreviation (input) M68K_INS_NOT :: u32 where "M68K_INS_NOT \<equiv> 295"
abbreviation (input) M68K_INS_OR :: u32 where "M68K_INS_OR \<equiv> 296"
abbreviation (input) M68K_INS_ORI :: u32 where "M68K_INS_ORI \<equiv> 297"
abbreviation (input) M68K_INS_PACK :: u32 where "M68K_INS_PACK \<equiv> 298"
abbreviation (input) M68K_INS_PEA :: u32 where "M68K_INS_PEA \<equiv> 299"
abbreviation (input) M68K_INS_PFLUSH :: u32 where "M68K_INS_PFLUSH \<equiv> 300"
abbreviation (input) M68K_INS_PFLUSHA :: u32 where "M68K_INS_PFLUSHA \<equiv> 301"
abbreviation (input) M68K_INS_PFLUSHAN :: u32 where "M68K_INS_PFLUSHAN \<equiv> 302"
abbreviation (input) M68K_INS_PFLUSHN :: u32 where "M68K_INS_PFLUSHN \<equiv> 303"
abbreviation (input) M68K_INS_PLOADR :: u32 where "M68K_INS_PLOADR \<equiv> 304"
abbreviation (input) M68K_INS_PLOADW :: u32 where "M68K_INS_PLOADW \<equiv> 305"
abbreviation (input) M68K_INS_PLPAR :: u32 where "M68K_INS_PLPAR \<equiv> 306"
abbreviation (input) M68K_INS_PLPAW :: u32 where "M68K_INS_PLPAW \<equiv> 307"
abbreviation (input) M68K_INS_PMOVE :: u32 where "M68K_INS_PMOVE \<equiv> 308"
abbreviation (input) M68K_INS_PMOVEFD :: u32 where "M68K_INS_PMOVEFD \<equiv> 309"
abbreviation (input) M68K_INS_PTESTR :: u32 where "M68K_INS_PTESTR \<equiv> 310"
abbreviation (input) M68K_INS_PTESTW :: u32 where "M68K_INS_PTESTW \<equiv> 311"
abbreviation (input) M68K_INS_PULSE :: u32 where "M68K_INS_PULSE \<equiv> 312"
abbreviation (input) M68K_INS_REMS :: u32 where "M68K_INS_REMS \<equiv> 313"
abbreviation (input) M68K_INS_REMU :: u32 where "M68K_INS_REMU \<equiv> 314"
abbreviation (input) M68K_INS_RESET :: u32 where "M68K_INS_RESET \<equiv> 315"
abbreviation (input) M68K_INS_ROL :: u32 where "M68K_INS_ROL \<equiv> 316"
abbreviation (input) M68K_INS_ROR :: u32 where "M68K_INS_ROR \<equiv> 317"
abbreviation (input) M68K_INS_ROXL :: u32 where "M68K_INS_ROXL \<equiv> 318"
abbreviation (input) M68K_INS_ROXR :: u32 where "M68K_INS_ROXR \<equiv> 319"
abbreviation (input) M68K_INS_RTD :: u32 where "M68K_INS_RTD \<equiv> 320"
abbreviation (input) M68K_INS_RTE :: u32 where "M68K_INS_RTE \<equiv> 321"
abbreviation (input) M68K_INS_RTM :: u32 where "M68K_INS_RTM \<equiv> 322"
abbreviation (input) M68K_INS_RTR :: u32 where "M68K_INS_RTR \<equiv> 323"
abbreviation (input) M68K_INS_RTS :: u32 where "M68K_INS_RTS \<equiv> 324"
abbreviation (input) M68K_INS_SBCD :: u32 where "M68K_INS_SBCD \<equiv> 325"
abbreviation (input) M68K_INS_ST :: u32 where "M68K_INS_ST \<equiv> 326"
abbreviation (input) M68K_INS_SF :: u32 where "M68K_INS_SF \<equiv> 327"
abbreviation (input) M68K_INS_SHI :: u32 where "M68K_INS_SHI \<equiv> 328"
abbreviation (input) M68K_INS_SLS :: u32 where "M68K_INS_SLS \<equiv> 329"
abbreviation (input) M68K_INS_SCC :: u32 where "M68K_INS_SCC \<equiv> 330"
abbreviation (input) M68K_INS_SHS :: u32 where "M68K_INS_SHS \<equiv> 331"
abbreviation (input) M68K_INS_SCS :: u32 where "M68K_INS_SCS \<equiv> 332"
abbreviation (input) M68K_INS_SLO :: u32 where "M68K_INS_SLO \<equiv> 333"
abbreviation (input) M68K_INS_SNE :: u32 where "M68K_INS_SNE \<equiv> 334"
abbreviation (input) M68K_INS_SEQ :: u32 where "M68K_INS_SEQ \<equiv> 335"
abbreviation (input) M68K_INS_SVC :: u32 where "M68K_INS_SVC \<equiv> 336"
abbreviation (input) M68K_INS_SVS :: u32 where "M68K_INS_SVS \<equiv> 337"
abbreviation (input) M68K_INS_SPL :: u32 where "M68K_INS_SPL \<equiv> 338"
abbreviation (input) M68K_INS_SMI :: u32 where "M68K_INS_SMI \<equiv> 339"
abbreviation (input) M68K_INS_SGE :: u32 where "M68K_INS_SGE \<equiv> 340"
abbreviation (input) M68K_INS_SLT :: u32 where "M68K_INS_SLT \<equiv> 341"
abbreviation (input) M68K_INS_SGT :: u32 where "M68K_INS_SGT \<equiv> 342"
abbreviation (input) M68K_INS_SLE :: u32 where "M68K_INS_SLE \<equiv> 343"
abbreviation (input) M68K_INS_STOP :: u32 where "M68K_INS_STOP \<equiv> 344"
abbreviation (input) M68K_INS_SUB :: u32 where "M68K_INS_SUB \<equiv> 345"
abbreviation (input) M68K_INS_SUBA :: u32 where "M68K_INS_SUBA \<equiv> 346"
abbreviation (input) M68K_INS_SUBI :: u32 where "M68K_INS_SUBI \<equiv> 347"
abbreviation (input) M68K_INS_SUBQ :: u32 where "M68K_INS_SUBQ \<equiv> 348"
abbreviation (input) M68K_INS_SUBX :: u32 where "M68K_INS_SUBX \<equiv> 349"
abbreviation (input) M68K_INS_SWAP :: u32 where "M68K_INS_SWAP \<equiv> 350"
abbreviation (input) M68K_INS_TAS :: u32 where "M68K_INS_TAS \<equiv> 351"
abbreviation (input) M68K_INS_TRAP :: u32 where "M68K_INS_TRAP \<equiv> 352"
abbreviation (input) M68K_INS_TRAPV :: u32 where "M68K_INS_TRAPV \<equiv> 353"
abbreviation (input) M68K_INS_TRAPT :: u32 where "M68K_INS_TRAPT \<equiv> 354"
abbreviation (input) M68K_INS_TRAPF :: u32 where "M68K_INS_TRAPF \<equiv> 355"
abbreviation (input) M68K_INS_TRAPHI :: u32 where "M68K_INS_TRAPHI \<equiv> 356"
abbreviation (input) M68K_INS_TRAPLS :: u32 where "M68K_INS_TRAPLS \<equiv> 357"
abbreviation (input) M68K_INS_TRAPCC :: u32 where "M68K_INS_TRAPCC \<equiv> 358"
abbreviation (input) M68K_INS_TRAPHS :: u32 where "M68K_INS_TRAPHS \<equiv> 359"
abbreviation (input) M68K_INS_TRAPCS :: u32 where "M68K_INS_TRAPCS \<equiv> 360"
abbreviation (input) M68K_INS_TRAPLO :: u32 where "M68K_INS_TRAPLO \<equiv> 361"
abbreviation (input) M68K_INS_TRAPNE :: u32 where "M68K_INS_TRAPNE \<equiv> 362"
abbreviation (input) M68K_INS_TRAPEQ :: u32 where "M68K_INS_TRAPEQ \<equiv> 363"
abbreviation (input) M68K_INS_TRAPVC :: u32 where "M68K_INS_TRAPVC \<equiv> 364"
abbreviation (input) M68K_INS_TRAPVS :: u32 where "M68K_INS_TRAPVS \<equiv> 365"
abbreviation (input) M68K_INS_TRAPPL :: u32 where "M68K_INS_TRAPPL \<equiv> 366"
abbreviation (input) M68K_INS_TRAPMI :: u32 where "M68K_INS_TRAPMI \<equiv> 367"
abbreviation (input) M68K_INS_TRAPGE :: u32 where "M68K_INS_TRAPGE \<equiv> 368"
abbreviation (input) M68K_INS_TRAPLT :: u32 where "M68K_INS_TRAPLT \<equiv> 369"
abbreviation (input) M68K_INS_TRAPGT :: u32 where "M68K_INS_TRAPGT \<equiv> 370"
abbreviation (input) M68K_INS_TRAPLE :: u32 where "M68K_INS_TRAPLE \<equiv> 371"
abbreviation (input) M68K_INS_TST :: u32 where "M68K_INS_TST \<equiv> 372"
abbreviation (input) M68K_INS_UNLK :: u32 where "M68K_INS_UNLK \<equiv> 373"
abbreviation (input) M68K_INS_UNPK :: u32 where "M68K_INS_UNPK \<equiv> 374"

abbreviation (input) M68K_GRP_INVALID :: u8 where "M68K_GRP_INVALID \<equiv> 0"
abbreviation (input) M68K_GRP_JUMP :: u8 where "M68K_GRP_JUMP \<equiv> 1"
abbreviation (input) M68K_GRP_RET :: u8 where "M68K_GRP_RET \<equiv> 3"
abbreviation (input) M68K_GRP_IRET :: u8 where "M68K_GRP_IRET \<equiv> 5"
abbreviation (input) M68K_GRP_BRANCH_RELATIVE :: u8 where "M68K_GRP_BRANCH_RELATIVE \<equiv> 7"

section \<open>Names\<close>

definition m68k_reg_names :: "string list" where
  "m68k_reg_names = [''invalid'', ''d0'', ''d1'', ''d2'', ''d3'', ''d4'', ''d5'', ''d6'', ''d7'', ''a0'', ''a1'', ''a2'', ''a3'',
     ''a4'', ''a5'', ''a6'', ''a7'', ''fp0'', ''fp1'', ''fp2'', ''fp3'', ''fp4'', ''fp5'', ''fp6'', ''fp7'', ''pc'',
     ''sr'', ''ccr'', ''sfc'', ''dfc'', ''usp'', ''vbr'', ''cacr'', ''caar'', ''msp'', ''isp'', ''tc'', ''itt0'',
     ''itt1'', ''dtt0'', ''dtt1'', ''mmusr'', ''urp'', ''srp'', ''fpcr'', ''fpsr'', ''fpiar'']"

definition m68k_instruction_names :: "string list" where
  "m68k_instruction_names = [''invalid'', ''abcd'', ''add'', ''adda'', ''addi'', ''addq'', ''addx'', ''and'', ''andi'', ''asl'', ''asr'',
     ''bhs'', ''blo'', ''bhi'', ''bls'', ''bcc'', ''bcs'', ''bne'', ''beq'', ''bvc'', ''bvs'', ''bpl'', ''bmi'',
     ''bge'', ''blt'', ''bgt'', ''ble'', ''bra'', ''bsr'', ''bchg'', ''bclr'', ''bset'', ''btst'', ''bfchg'',
     ''bfclr'', ''bfexts'', ''bfextu'', ''bfffo'', ''bfins'', ''bfset'', ''bftst'', ''bkpt'', ''callm'', ''cas'',
     ''cas2'', ''chk'', ''chk2'', ''clr'', ''cmp'', ''cmpa'', ''cmpi'', ''cmpm'', ''cmp2'', ''cinvl'', ''cinvp'',
     ''cinva'', ''cpushl'', ''cpushp'', ''cpusha'', ''dbt'', ''dbf'', ''dbhi'', ''dbls'', ''dbcc'', ''dbcs'',
     ''dbne'', ''dbeq'', ''dbvc'', ''dbvs'', ''dbpl'', ''dbmi'', ''dbge'', ''dblt'', ''dbgt'', ''dble'', ''dbra'',
     ''divs'', ''divsl'', ''divu'', ''divul'', ''eor'', ''eori'', ''exg'', ''ext'', ''extb'', ''fabs'', ''fsabs'',
     ''fdabs'', ''facos'', ''fadd'', ''fsadd'', ''fdadd'', ''fasin'', ''fatan'', ''fatanh'', ''fbf'', ''fbeq'',
     ''fbogt'', ''fboge'', ''fbolt'', ''fbole'', ''fbogl'', ''fbor'', ''fbun'', ''fbueq'', ''fbugt'', ''fbuge'',
     ''fbult'', ''fbule'', ''fbne'', ''fbt'', ''fbsf'', ''fbseq'', ''fbgt'', ''fbge'', ''fblt'', ''fble'', ''fbgl'',
     ''fbgle'', ''fbngle'', ''fbngl'', ''fbnle'', ''fbnlt'', ''fbnge'', ''fbngt'', ''fbsne'', ''fbst'', ''fcmp'',
     ''fcos'', ''fcosh'', ''fdbf'', ''fdbeq'', ''fdbogt'', ''fdboge'', ''fdbolt'', ''fdbole'', ''fdbogl'',
     ''fdbor'', ''fdbun'', ''fdbueq'', ''fdbugt'', ''fdbuge'', ''fdbult'', ''fdbule'', ''fdbne'', ''fdbt'',
     ''fdbsf'', ''fdbseq'', ''fdbgt'', ''fdbge'', ''fdblt'', ''fdble'', ''fdbgl'', ''fdbgle'', ''fdbngle'',
     ''fdbngl'', ''fdbnle'', ''fdbnlt'', ''fdbnge'', ''fdbngt'', ''fdbsne'', ''fdbst'', ''fdiv'', ''fsdiv'',
     ''fddiv'', ''fetox'', ''fetoxm1'', ''fgetexp'', ''fgetman'', ''fint'', ''fintrz'', ''flog10'', ''flog2'',
     ''flogn'', ''flognp1'', ''fmod'', ''fmove'', ''fsmove'', ''fdmove'', ''fmovecr'', ''fmovem'', ''fmul'',
     ''fsmul'', ''fdmul'', ''fneg'', ''fsneg'', ''fdneg'', ''fnop'', ''frem'', ''frestore'', ''fsave'', ''fscale'',
     ''fsgldiv'', ''fsglmul'', ''fsin'', ''fsincos'', ''fsinh'', ''fsqrt'', ''fssqrt'', ''fdsqrt'', ''fsf'',
     ''fseq'', ''fsogt'', ''fsoge'', ''fsolt'', ''fsole'', ''fsogl'', ''fsor'', ''fsun'', ''fsueq'', ''fsugt'',
     ''fsuge'', ''fsult'', ''fsule'', ''fsne'', ''fst'', ''fssf'', ''fsseq'', ''fsgt'', ''fsge'', ''fslt'',
     ''fsle'', ''fsgl'', ''fsgle'', ''fsngle'', ''fsngl'', ''fsnle'', ''fsnlt'', ''fsnge'', ''fsngt'', ''fssne'',
     ''fsst'', ''fsub'', ''fssub'', ''fdsub'', ''ftan'', ''ftanh'', ''ftentox'', ''ftrapf'', ''ftrapeq'',
     ''ftrapogt'', ''ftrapoge'', ''ftrapolt'', ''ftrapole'', ''ftrapogl'', ''ftrapor'', ''ftrapun'', ''ftrapueq'',
     ''ftrapugt'', ''ftrapuge'', ''ftrapult'', ''ftrapule'', ''ftrapne'', ''ftrapt'', ''ftrapsf'', ''ftrapseq'',
     ''ftrapgt'', ''ftrapge'', ''ftraplt'', ''ftraple'', ''ftrapgl'', ''ftrapgle'', ''ftrapngle'', ''ftrapngl'',
     ''ftrapnle'', ''ftrapnlt'', ''ftrapnge'', ''ftrapngt'', ''ftrapsne'', ''ftrapst'', ''ftst'', ''ftwotox'',
     ''halt'', ''illegal'', ''jmp'', ''jsr'', ''lea'', ''link'', ''lpstop'', ''lsl'', ''lsr'', ''move'', ''movea'',
     ''movec'', ''movem'', ''movep'', ''moveq'', ''moves'', ''move16'', ''muls'', ''mulu'', ''nbcd'', ''neg'',
     ''negx'', ''nop'', ''not'', ''or'', ''ori'', ''pack'', ''pea'', ''pflush'', ''pflusha'', ''pflushan'',
     ''pflushn'', ''ploadr'', ''ploadw'', ''plpar'', ''plpaw'', ''pmove'', ''pmovefd'', ''ptestr'', ''ptestw'',
     ''pulse'', ''rems'', ''remu'', ''reset'', ''rol'', ''ror'', ''roxl'', ''roxr'', ''rtd'', ''rte'', ''rtm'',
     ''rtr'', ''rts'', ''sbcd'', ''st'', ''sf'', ''shi'', ''sls'', ''scc'', ''shs'', ''scs'', ''slo'', ''sne'',
     ''seq'', ''svc'', ''svs'', ''spl'', ''smi'', ''sge'', ''slt'', ''sgt'', ''sle'', ''stop'', ''sub'', ''suba'',
     ''subi'', ''subq'', ''subx'', ''swap'', ''tas'', ''trap'', ''trapv'', ''trapt'', ''trapf'', ''traphi'',
     ''trapls'', ''trapcc'', ''traphs'', ''trapcs'', ''traplo'', ''trapne'', ''trapeq'', ''trapvc'', ''trapvs'',
     ''trappl'', ''trapmi'', ''trapge'', ''traplt'', ''trapgt'', ''traple'', ''tst'', ''unlk'', ''unpk'']"

definition m68k_group_name_maps :: "name_map list" where
  "m68k_group_name_maps = map (\<lambda>(i, n). \<lparr>nm_id = ucast (i :: u8), nm_name = n\<rparr>)
     [(M68K_GRP_INVALID, None), (M68K_GRP_JUMP, Some ''jump''), (M68K_GRP_RET, Some ''ret''),
      (M68K_GRP_IRET, Some ''iret''), (M68K_GRP_BRANCH_RELATIVE, Some ''branch_relative'')]"

section \<open>Small tables\<close>

definition g_3bit_qdata_table :: "u32 list" where
  "g_3bit_qdata_table = [8, 1, 2, 3, 4, 5, 6, 7]"

definition g_5bit_data_table :: "u32 list" where
  "g_5bit_data_table = [32, 1, 2, 3, 4, 5, 6, 7, 8, 9, 10, 11, 12, 13, 14, 15, 16, 17, 18, 19, 20, 21, 22, 23, 24, 25, 26, 27, 28, 29,
     30, 31]"

definition s_branch_lut :: "u32 list" where
  "s_branch_lut = [M68K_INS_INVALID, M68K_INS_INVALID, M68K_INS_BHI, M68K_INS_BLS, M68K_INS_BCC, M68K_INS_BCS, M68K_INS_BNE,
     M68K_INS_BEQ, M68K_INS_BVC, M68K_INS_BVS, M68K_INS_BPL, M68K_INS_BMI, M68K_INS_BGE, M68K_INS_BLT, M68K_INS_BGT,
     M68K_INS_BLE]"

definition s_dbcc_lut :: "u32 list" where
  "s_dbcc_lut = [M68K_INS_DBT, M68K_INS_DBF, M68K_INS_DBHI, M68K_INS_DBLS, M68K_INS_DBCC, M68K_INS_DBCS, M68K_INS_DBNE,
     M68K_INS_DBEQ, M68K_INS_DBVC, M68K_INS_DBVS, M68K_INS_DBPL, M68K_INS_DBMI, M68K_INS_DBGE, M68K_INS_DBLT,
     M68K_INS_DBGT, M68K_INS_DBLE]"

definition s_scc_lut :: "u32 list" where
  "s_scc_lut = [M68K_INS_ST, M68K_INS_SF, M68K_INS_SHI, M68K_INS_SLS, M68K_INS_SCC, M68K_INS_SCS, M68K_INS_SNE, M68K_INS_SEQ,
     M68K_INS_SVC, M68K_INS_SVS, M68K_INS_SPL, M68K_INS_SMI, M68K_INS_SGE, M68K_INS_SLT, M68K_INS_SGT, M68K_INS_SLE]"

definition s_trap_lut :: "u32 list" where
  "s_trap_lut = [M68K_INS_TRAPT, M68K_INS_TRAPF, M68K_INS_TRAPHI, M68K_INS_TRAPLS, M68K_INS_TRAPCC, M68K_INS_TRAPCS,
     M68K_INS_TRAPNE, M68K_INS_TRAPEQ, M68K_INS_TRAPVC, M68K_INS_TRAPVS, M68K_INS_TRAPPL, M68K_INS_TRAPMI,
     M68K_INS_TRAPGE, M68K_INS_TRAPLT, M68K_INS_TRAPGT, M68K_INS_TRAPLE]"

section \<open>Pointers to the handlers\<close>

abbreviation (input) ptr_d68000_invalid :: nat where "ptr_d68000_invalid \<equiv> 1"
abbreviation (input) ptr_d68000_1010 :: nat where "ptr_d68000_1010 \<equiv> 2"
abbreviation (input) ptr_d68000_1111 :: nat where "ptr_d68000_1111 \<equiv> 3"
abbreviation (input) ptr_d68000_abcd_rr :: nat where "ptr_d68000_abcd_rr \<equiv> 4"
abbreviation (input) ptr_d68000_abcd_mm :: nat where "ptr_d68000_abcd_mm \<equiv> 5"
abbreviation (input) ptr_d68000_add_er_8 :: nat where "ptr_d68000_add_er_8 \<equiv> 6"
abbreviation (input) ptr_d68000_add_er_16 :: nat where "ptr_d68000_add_er_16 \<equiv> 7"
abbreviation (input) ptr_d68000_add_er_32 :: nat where "ptr_d68000_add_er_32 \<equiv> 8"
abbreviation (input) ptr_d68000_add_re_8 :: nat where "ptr_d68000_add_re_8 \<equiv> 9"
abbreviation (input) ptr_d68000_add_re_16 :: nat where "ptr_d68000_add_re_16 \<equiv> 10"
abbreviation (input) ptr_d68000_add_re_32 :: nat where "ptr_d68000_add_re_32 \<equiv> 11"
abbreviation (input) ptr_d68000_adda_16 :: nat where "ptr_d68000_adda_16 \<equiv> 12"
abbreviation (input) ptr_d68000_adda_32 :: nat where "ptr_d68000_adda_32 \<equiv> 13"
abbreviation (input) ptr_d68000_addi_8 :: nat where "ptr_d68000_addi_8 \<equiv> 14"
abbreviation (input) ptr_d68000_addi_16 :: nat where "ptr_d68000_addi_16 \<equiv> 15"
abbreviation (input) ptr_d68000_addi_32 :: nat where "ptr_d68000_addi_32 \<equiv> 16"
abbreviation (input) ptr_d68000_addq_8 :: nat where "ptr_d68000_addq_8 \<equiv> 17"
abbreviation (input) ptr_d68000_addq_16 :: nat where "ptr_d68000_addq_16 \<equiv> 18"
abbreviation (input) ptr_d68000_addq_32 :: nat where "ptr_d68000_addq_32 \<equiv> 19"
abbreviation (input) ptr_d68000_addx_rr_8 :: nat where "ptr_d68000_addx_rr_8 \<equiv> 20"
abbreviation (input) ptr_d68000_addx_rr_16 :: nat where "ptr_d68000_addx_rr_16 \<equiv> 21"
abbreviation (input) ptr_d68000_addx_rr_32 :: nat where "ptr_d68000_addx_rr_32 \<equiv> 22"
abbreviation (input) ptr_d68000_addx_mm_8 :: nat where "ptr_d68000_addx_mm_8 \<equiv> 23"
abbreviation (input) ptr_d68000_addx_mm_16 :: nat where "ptr_d68000_addx_mm_16 \<equiv> 24"
abbreviation (input) ptr_d68000_addx_mm_32 :: nat where "ptr_d68000_addx_mm_32 \<equiv> 25"
abbreviation (input) ptr_d68000_and_er_8 :: nat where "ptr_d68000_and_er_8 \<equiv> 26"
abbreviation (input) ptr_d68000_and_er_16 :: nat where "ptr_d68000_and_er_16 \<equiv> 27"
abbreviation (input) ptr_d68000_and_er_32 :: nat where "ptr_d68000_and_er_32 \<equiv> 28"
abbreviation (input) ptr_d68000_and_re_8 :: nat where "ptr_d68000_and_re_8 \<equiv> 29"
abbreviation (input) ptr_d68000_and_re_16 :: nat where "ptr_d68000_and_re_16 \<equiv> 30"
abbreviation (input) ptr_d68000_and_re_32 :: nat where "ptr_d68000_and_re_32 \<equiv> 31"
abbreviation (input) ptr_d68000_andi_to_ccr :: nat where "ptr_d68000_andi_to_ccr \<equiv> 32"
abbreviation (input) ptr_d68000_andi_to_sr :: nat where "ptr_d68000_andi_to_sr \<equiv> 33"
abbreviation (input) ptr_d68000_andi_8 :: nat where "ptr_d68000_andi_8 \<equiv> 34"
abbreviation (input) ptr_d68000_andi_16 :: nat where "ptr_d68000_andi_16 \<equiv> 35"
abbreviation (input) ptr_d68000_andi_32 :: nat where "ptr_d68000_andi_32 \<equiv> 36"
abbreviation (input) ptr_d68000_asr_s_8 :: nat where "ptr_d68000_asr_s_8 \<equiv> 37"
abbreviation (input) ptr_d68000_asr_s_16 :: nat where "ptr_d68000_asr_s_16 \<equiv> 38"
abbreviation (input) ptr_d68000_asr_s_32 :: nat where "ptr_d68000_asr_s_32 \<equiv> 39"
abbreviation (input) ptr_d68000_asr_r_8 :: nat where "ptr_d68000_asr_r_8 \<equiv> 40"
abbreviation (input) ptr_d68000_asr_r_16 :: nat where "ptr_d68000_asr_r_16 \<equiv> 41"
abbreviation (input) ptr_d68000_asr_r_32 :: nat where "ptr_d68000_asr_r_32 \<equiv> 42"
abbreviation (input) ptr_d68000_asr_ea :: nat where "ptr_d68000_asr_ea \<equiv> 43"
abbreviation (input) ptr_d68000_asl_s_8 :: nat where "ptr_d68000_asl_s_8 \<equiv> 44"
abbreviation (input) ptr_d68000_asl_s_16 :: nat where "ptr_d68000_asl_s_16 \<equiv> 45"
abbreviation (input) ptr_d68000_asl_s_32 :: nat where "ptr_d68000_asl_s_32 \<equiv> 46"
abbreviation (input) ptr_d68000_asl_r_8 :: nat where "ptr_d68000_asl_r_8 \<equiv> 47"
abbreviation (input) ptr_d68000_asl_r_16 :: nat where "ptr_d68000_asl_r_16 \<equiv> 48"
abbreviation (input) ptr_d68000_asl_r_32 :: nat where "ptr_d68000_asl_r_32 \<equiv> 49"
abbreviation (input) ptr_d68000_asl_ea :: nat where "ptr_d68000_asl_ea \<equiv> 50"
abbreviation (input) ptr_d68000_bcc_8 :: nat where "ptr_d68000_bcc_8 \<equiv> 51"
abbreviation (input) ptr_d68000_bcc_16 :: nat where "ptr_d68000_bcc_16 \<equiv> 52"
abbreviation (input) ptr_d68020_bcc_32 :: nat where "ptr_d68020_bcc_32 \<equiv> 53"
abbreviation (input) ptr_d68000_bchg_r :: nat where "ptr_d68000_bchg_r \<equiv> 54"
abbreviation (input) ptr_d68000_bchg_s :: nat where "ptr_d68000_bchg_s \<equiv> 55"
abbreviation (input) ptr_d68000_bclr_r :: nat where "ptr_d68000_bclr_r \<equiv> 56"
abbreviation (input) ptr_d68000_bclr_s :: nat where "ptr_d68000_bclr_s \<equiv> 57"
abbreviation (input) ptr_d68020_bfchg :: nat where "ptr_d68020_bfchg \<equiv> 58"
abbreviation (input) ptr_d68020_bfclr :: nat where "ptr_d68020_bfclr \<equiv> 59"
abbreviation (input) ptr_d68020_bfexts :: nat where "ptr_d68020_bfexts \<equiv> 60"
abbreviation (input) ptr_d68020_bfextu :: nat where "ptr_d68020_bfextu \<equiv> 61"
abbreviation (input) ptr_d68020_bfffo :: nat where "ptr_d68020_bfffo \<equiv> 62"
abbreviation (input) ptr_d68020_bfins :: nat where "ptr_d68020_bfins \<equiv> 63"
abbreviation (input) ptr_d68020_bfset :: nat where "ptr_d68020_bfset \<equiv> 64"
abbreviation (input) ptr_d68020_bftst :: nat where "ptr_d68020_bftst \<equiv> 65"
abbreviation (input) ptr_d68010_bkpt :: nat where "ptr_d68010_bkpt \<equiv> 66"
abbreviation (input) ptr_d68000_bra_8 :: nat where "ptr_d68000_bra_8 \<equiv> 67"
abbreviation (input) ptr_d68000_bra_16 :: nat where "ptr_d68000_bra_16 \<equiv> 68"
abbreviation (input) ptr_d68020_bra_32 :: nat where "ptr_d68020_bra_32 \<equiv> 69"
abbreviation (input) ptr_d68000_bset_r :: nat where "ptr_d68000_bset_r \<equiv> 70"
abbreviation (input) ptr_d68000_bset_s :: nat where "ptr_d68000_bset_s \<equiv> 71"
abbreviation (input) ptr_d68000_bsr_8 :: nat where "ptr_d68000_bsr_8 \<equiv> 72"
abbreviation (input) ptr_d68000_bsr_16 :: nat where "ptr_d68000_bsr_16 \<equiv> 73"
abbreviation (input) ptr_d68020_bsr_32 :: nat where "ptr_d68020_bsr_32 \<equiv> 74"
abbreviation (input) ptr_d68000_btst_r :: nat where "ptr_d68000_btst_r \<equiv> 75"
abbreviation (input) ptr_d68000_btst_s :: nat where "ptr_d68000_btst_s \<equiv> 76"
abbreviation (input) ptr_d68020_callm :: nat where "ptr_d68020_callm \<equiv> 77"
abbreviation (input) ptr_d68020_cas_8 :: nat where "ptr_d68020_cas_8 \<equiv> 78"
abbreviation (input) ptr_d68020_cas_16 :: nat where "ptr_d68020_cas_16 \<equiv> 79"
abbreviation (input) ptr_d68020_cas_32 :: nat where "ptr_d68020_cas_32 \<equiv> 80"
abbreviation (input) ptr_d68020_cas2_16 :: nat where "ptr_d68020_cas2_16 \<equiv> 81"
abbreviation (input) ptr_d68020_cas2_32 :: nat where "ptr_d68020_cas2_32 \<equiv> 82"
abbreviation (input) ptr_d68000_chk_16 :: nat where "ptr_d68000_chk_16 \<equiv> 83"
abbreviation (input) ptr_d68020_chk_32 :: nat where "ptr_d68020_chk_32 \<equiv> 84"
abbreviation (input) ptr_d68020_chk2_cmp2_8 :: nat where "ptr_d68020_chk2_cmp2_8 \<equiv> 85"
abbreviation (input) ptr_d68020_chk2_cmp2_16 :: nat where "ptr_d68020_chk2_cmp2_16 \<equiv> 86"
abbreviation (input) ptr_d68020_chk2_cmp2_32 :: nat where "ptr_d68020_chk2_cmp2_32 \<equiv> 87"
abbreviation (input) ptr_d68040_cinv :: nat where "ptr_d68040_cinv \<equiv> 88"
abbreviation (input) ptr_d68000_clr_8 :: nat where "ptr_d68000_clr_8 \<equiv> 89"
abbreviation (input) ptr_d68000_clr_16 :: nat where "ptr_d68000_clr_16 \<equiv> 90"
abbreviation (input) ptr_d68000_clr_32 :: nat where "ptr_d68000_clr_32 \<equiv> 91"
abbreviation (input) ptr_d68000_cmp_8 :: nat where "ptr_d68000_cmp_8 \<equiv> 92"
abbreviation (input) ptr_d68000_cmp_16 :: nat where "ptr_d68000_cmp_16 \<equiv> 93"
abbreviation (input) ptr_d68000_cmp_32 :: nat where "ptr_d68000_cmp_32 \<equiv> 94"
abbreviation (input) ptr_d68000_cmpa_16 :: nat where "ptr_d68000_cmpa_16 \<equiv> 95"
abbreviation (input) ptr_d68000_cmpa_32 :: nat where "ptr_d68000_cmpa_32 \<equiv> 96"
abbreviation (input) ptr_d68000_cmpi_8 :: nat where "ptr_d68000_cmpi_8 \<equiv> 97"
abbreviation (input) ptr_d68020_cmpi_pcdi_8 :: nat where "ptr_d68020_cmpi_pcdi_8 \<equiv> 98"
abbreviation (input) ptr_d68020_cmpi_pcix_8 :: nat where "ptr_d68020_cmpi_pcix_8 \<equiv> 99"
abbreviation (input) ptr_d68000_cmpi_16 :: nat where "ptr_d68000_cmpi_16 \<equiv> 100"
abbreviation (input) ptr_d68020_cmpi_pcdi_16 :: nat where "ptr_d68020_cmpi_pcdi_16 \<equiv> 101"
abbreviation (input) ptr_d68020_cmpi_pcix_16 :: nat where "ptr_d68020_cmpi_pcix_16 \<equiv> 102"
abbreviation (input) ptr_d68000_cmpi_32 :: nat where "ptr_d68000_cmpi_32 \<equiv> 103"
abbreviation (input) ptr_d68020_cmpi_pcdi_32 :: nat where "ptr_d68020_cmpi_pcdi_32 \<equiv> 104"
abbreviation (input) ptr_d68020_cmpi_pcix_32 :: nat where "ptr_d68020_cmpi_pcix_32 \<equiv> 105"
abbreviation (input) ptr_d68000_cmpm_8 :: nat where "ptr_d68000_cmpm_8 \<equiv> 106"
abbreviation (input) ptr_d68000_cmpm_16 :: nat where "ptr_d68000_cmpm_16 \<equiv> 107"
abbreviation (input) ptr_d68000_cmpm_32 :: nat where "ptr_d68000_cmpm_32 \<equiv> 108"
abbreviation (input) ptr_d68020_cpbcc_16 :: nat where "ptr_d68020_cpbcc_16 \<equiv> 109"
abbreviation (input) ptr_d68020_cpbcc_32 :: nat where "ptr_d68020_cpbcc_32 \<equiv> 110"
abbreviation (input) ptr_d68020_cpdbcc :: nat where "ptr_d68020_cpdbcc \<equiv> 111"
abbreviation (input) ptr_d68020_cpgen :: nat where "ptr_d68020_cpgen \<equiv> 112"
abbreviation (input) ptr_d68020_cprestore :: nat where "ptr_d68020_cprestore \<equiv> 113"
abbreviation (input) ptr_d68020_cpsave :: nat where "ptr_d68020_cpsave \<equiv> 114"
abbreviation (input) ptr_d68020_cpscc :: nat where "ptr_d68020_cpscc \<equiv> 115"
abbreviation (input) ptr_d68020_cptrapcc_0 :: nat where "ptr_d68020_cptrapcc_0 \<equiv> 116"
abbreviation (input) ptr_d68020_cptrapcc_16 :: nat where "ptr_d68020_cptrapcc_16 \<equiv> 117"
abbreviation (input) ptr_d68020_cptrapcc_32 :: nat where "ptr_d68020_cptrapcc_32 \<equiv> 118"
abbreviation (input) ptr_d68040_cpush :: nat where "ptr_d68040_cpush \<equiv> 119"
abbreviation (input) ptr_d68000_dbcc :: nat where "ptr_d68000_dbcc \<equiv> 120"
abbreviation (input) ptr_d68000_dbra :: nat where "ptr_d68000_dbra \<equiv> 121"
abbreviation (input) ptr_d68000_divs :: nat where "ptr_d68000_divs \<equiv> 122"
abbreviation (input) ptr_d68000_divu :: nat where "ptr_d68000_divu \<equiv> 123"
abbreviation (input) ptr_d68020_divl :: nat where "ptr_d68020_divl \<equiv> 124"
abbreviation (input) ptr_d68000_eor_8 :: nat where "ptr_d68000_eor_8 \<equiv> 125"
abbreviation (input) ptr_d68000_eor_16 :: nat where "ptr_d68000_eor_16 \<equiv> 126"
abbreviation (input) ptr_d68000_eor_32 :: nat where "ptr_d68000_eor_32 \<equiv> 127"
abbreviation (input) ptr_d68000_eori_to_ccr :: nat where "ptr_d68000_eori_to_ccr \<equiv> 128"
abbreviation (input) ptr_d68000_eori_to_sr :: nat where "ptr_d68000_eori_to_sr \<equiv> 129"
abbreviation (input) ptr_d68000_eori_8 :: nat where "ptr_d68000_eori_8 \<equiv> 130"
abbreviation (input) ptr_d68000_eori_16 :: nat where "ptr_d68000_eori_16 \<equiv> 131"
abbreviation (input) ptr_d68000_eori_32 :: nat where "ptr_d68000_eori_32 \<equiv> 132"
abbreviation (input) ptr_d68000_exg_dd :: nat where "ptr_d68000_exg_dd \<equiv> 133"
abbreviation (input) ptr_d68000_exg_aa :: nat where "ptr_d68000_exg_aa \<equiv> 134"
abbreviation (input) ptr_d68000_exg_da :: nat where "ptr_d68000_exg_da \<equiv> 135"
abbreviation (input) ptr_d68020_extb_32 :: nat where "ptr_d68020_extb_32 \<equiv> 136"
abbreviation (input) ptr_d68000_ext_16 :: nat where "ptr_d68000_ext_16 \<equiv> 137"
abbreviation (input) ptr_d68000_ext_32 :: nat where "ptr_d68000_ext_32 \<equiv> 138"
abbreviation (input) ptr_d68000_illegal :: nat where "ptr_d68000_illegal \<equiv> 139"
abbreviation (input) ptr_d68000_jmp :: nat where "ptr_d68000_jmp \<equiv> 140"
abbreviation (input) ptr_d68000_jsr :: nat where "ptr_d68000_jsr \<equiv> 141"
abbreviation (input) ptr_d68000_lea :: nat where "ptr_d68000_lea \<equiv> 142"
abbreviation (input) ptr_d68000_link_16 :: nat where "ptr_d68000_link_16 \<equiv> 143"
abbreviation (input) ptr_d68020_link_32 :: nat where "ptr_d68020_link_32 \<equiv> 144"
abbreviation (input) ptr_d68000_lsr_s_8 :: nat where "ptr_d68000_lsr_s_8 \<equiv> 145"
abbreviation (input) ptr_d68000_lsr_s_16 :: nat where "ptr_d68000_lsr_s_16 \<equiv> 146"
abbreviation (input) ptr_d68000_lsr_s_32 :: nat where "ptr_d68000_lsr_s_32 \<equiv> 147"
abbreviation (input) ptr_d68000_lsr_r_8 :: nat where "ptr_d68000_lsr_r_8 \<equiv> 148"
abbreviation (input) ptr_d68000_lsr_r_16 :: nat where "ptr_d68000_lsr_r_16 \<equiv> 149"
abbreviation (input) ptr_d68000_lsr_r_32 :: nat where "ptr_d68000_lsr_r_32 \<equiv> 150"
abbreviation (input) ptr_d68000_lsr_ea :: nat where "ptr_d68000_lsr_ea \<equiv> 151"
abbreviation (input) ptr_d68000_lsl_s_8 :: nat where "ptr_d68000_lsl_s_8 \<equiv> 152"
abbreviation (input) ptr_d68000_lsl_s_16 :: nat where "ptr_d68000_lsl_s_16 \<equiv> 153"
abbreviation (input) ptr_d68000_lsl_s_32 :: nat where "ptr_d68000_lsl_s_32 \<equiv> 154"
abbreviation (input) ptr_d68000_lsl_r_8 :: nat where "ptr_d68000_lsl_r_8 \<equiv> 155"
abbreviation (input) ptr_d68000_lsl_r_16 :: nat where "ptr_d68000_lsl_r_16 \<equiv> 156"
abbreviation (input) ptr_d68000_lsl_r_32 :: nat where "ptr_d68000_lsl_r_32 \<equiv> 157"
abbreviation (input) ptr_d68000_lsl_ea :: nat where "ptr_d68000_lsl_ea \<equiv> 158"
abbreviation (input) ptr_d68000_move_8 :: nat where "ptr_d68000_move_8 \<equiv> 159"
abbreviation (input) ptr_d68000_move_16 :: nat where "ptr_d68000_move_16 \<equiv> 160"
abbreviation (input) ptr_d68000_move_32 :: nat where "ptr_d68000_move_32 \<equiv> 161"
abbreviation (input) ptr_d68000_movea_16 :: nat where "ptr_d68000_movea_16 \<equiv> 162"
abbreviation (input) ptr_d68000_movea_32 :: nat where "ptr_d68000_movea_32 \<equiv> 163"
abbreviation (input) ptr_d68000_move_to_ccr :: nat where "ptr_d68000_move_to_ccr \<equiv> 164"
abbreviation (input) ptr_d68010_move_fr_ccr :: nat where "ptr_d68010_move_fr_ccr \<equiv> 165"
abbreviation (input) ptr_d68000_move_to_sr :: nat where "ptr_d68000_move_to_sr \<equiv> 166"
abbreviation (input) ptr_d68000_move_fr_sr :: nat where "ptr_d68000_move_fr_sr \<equiv> 167"
abbreviation (input) ptr_d68000_move_to_usp :: nat where "ptr_d68000_move_to_usp \<equiv> 168"
abbreviation (input) ptr_d68000_move_fr_usp :: nat where "ptr_d68000_move_fr_usp \<equiv> 169"
abbreviation (input) ptr_d68010_movec :: nat where "ptr_d68010_movec \<equiv> 170"
abbreviation (input) ptr_d68000_movem_pd_16 :: nat where "ptr_d68000_movem_pd_16 \<equiv> 171"
abbreviation (input) ptr_d68000_movem_pd_32 :: nat where "ptr_d68000_movem_pd_32 \<equiv> 172"
abbreviation (input) ptr_d68000_movem_re_16 :: nat where "ptr_d68000_movem_re_16 \<equiv> 173"
abbreviation (input) ptr_d68000_movem_re_32 :: nat where "ptr_d68000_movem_re_32 \<equiv> 174"
abbreviation (input) ptr_d68000_movem_er_16 :: nat where "ptr_d68000_movem_er_16 \<equiv> 175"
abbreviation (input) ptr_d68000_movem_er_32 :: nat where "ptr_d68000_movem_er_32 \<equiv> 176"
abbreviation (input) ptr_d68000_movep_er_16 :: nat where "ptr_d68000_movep_er_16 \<equiv> 177"
abbreviation (input) ptr_d68000_movep_er_32 :: nat where "ptr_d68000_movep_er_32 \<equiv> 178"
abbreviation (input) ptr_d68000_movep_re_16 :: nat where "ptr_d68000_movep_re_16 \<equiv> 179"
abbreviation (input) ptr_d68000_movep_re_32 :: nat where "ptr_d68000_movep_re_32 \<equiv> 180"
abbreviation (input) ptr_d68010_moves_8 :: nat where "ptr_d68010_moves_8 \<equiv> 181"
abbreviation (input) ptr_d68010_moves_16 :: nat where "ptr_d68010_moves_16 \<equiv> 182"
abbreviation (input) ptr_d68010_moves_32 :: nat where "ptr_d68010_moves_32 \<equiv> 183"
abbreviation (input) ptr_d68000_moveq :: nat where "ptr_d68000_moveq \<equiv> 184"
abbreviation (input) ptr_d68040_move16_pi_pi :: nat where "ptr_d68040_move16_pi_pi \<equiv> 185"
abbreviation (input) ptr_d68040_move16_pi_al :: nat where "ptr_d68040_move16_pi_al \<equiv> 186"
abbreviation (input) ptr_d68040_move16_al_pi :: nat where "ptr_d68040_move16_al_pi \<equiv> 187"
abbreviation (input) ptr_d68040_move16_ai_al :: nat where "ptr_d68040_move16_ai_al \<equiv> 188"
abbreviation (input) ptr_d68040_move16_al_ai :: nat where "ptr_d68040_move16_al_ai \<equiv> 189"
abbreviation (input) ptr_d68000_muls :: nat where "ptr_d68000_muls \<equiv> 190"
abbreviation (input) ptr_d68000_mulu :: nat where "ptr_d68000_mulu \<equiv> 191"
abbreviation (input) ptr_d68020_mull :: nat where "ptr_d68020_mull \<equiv> 192"
abbreviation (input) ptr_d68000_nbcd :: nat where "ptr_d68000_nbcd \<equiv> 193"
abbreviation (input) ptr_d68000_neg_8 :: nat where "ptr_d68000_neg_8 \<equiv> 194"
abbreviation (input) ptr_d68000_neg_16 :: nat where "ptr_d68000_neg_16 \<equiv> 195"
abbreviation (input) ptr_d68000_neg_32 :: nat where "ptr_d68000_neg_32 \<equiv> 196"
abbreviation (input) ptr_d68000_negx_8 :: nat where "ptr_d68000_negx_8 \<equiv> 197"
abbreviation (input) ptr_d68000_negx_16 :: nat where "ptr_d68000_negx_16 \<equiv> 198"
abbreviation (input) ptr_d68000_negx_32 :: nat where "ptr_d68000_negx_32 \<equiv> 199"
abbreviation (input) ptr_d68000_nop :: nat where "ptr_d68000_nop \<equiv> 200"
abbreviation (input) ptr_d68000_not_8 :: nat where "ptr_d68000_not_8 \<equiv> 201"
abbreviation (input) ptr_d68000_not_16 :: nat where "ptr_d68000_not_16 \<equiv> 202"
abbreviation (input) ptr_d68000_not_32 :: nat where "ptr_d68000_not_32 \<equiv> 203"
abbreviation (input) ptr_d68000_or_er_8 :: nat where "ptr_d68000_or_er_8 \<equiv> 204"
abbreviation (input) ptr_d68000_or_er_16 :: nat where "ptr_d68000_or_er_16 \<equiv> 205"
abbreviation (input) ptr_d68000_or_er_32 :: nat where "ptr_d68000_or_er_32 \<equiv> 206"
abbreviation (input) ptr_d68000_or_re_8 :: nat where "ptr_d68000_or_re_8 \<equiv> 207"
abbreviation (input) ptr_d68000_or_re_16 :: nat where "ptr_d68000_or_re_16 \<equiv> 208"
abbreviation (input) ptr_d68000_or_re_32 :: nat where "ptr_d68000_or_re_32 \<equiv> 209"
abbreviation (input) ptr_d68000_ori_to_ccr :: nat where "ptr_d68000_ori_to_ccr \<equiv> 210"
abbreviation (input) ptr_d68000_ori_to_sr :: nat where "ptr_d68000_ori_to_sr \<equiv> 211"
abbreviation (input) ptr_d68000_ori_8 :: nat where "ptr_d68000_ori_8 \<equiv> 212"
abbreviation (input) ptr_d68000_ori_16 :: nat where "ptr_d68000_ori_16 \<equiv> 213"
abbreviation (input) ptr_d68000_ori_32 :: nat where "ptr_d68000_ori_32 \<equiv> 214"
abbreviation (input) ptr_d68020_pack_rr :: nat where "ptr_d68020_pack_rr \<equiv> 215"
abbreviation (input) ptr_d68020_pack_mm :: nat where "ptr_d68020_pack_mm \<equiv> 216"
abbreviation (input) ptr_d68000_pea :: nat where "ptr_d68000_pea \<equiv> 217"
abbreviation (input) ptr_d68000_reset :: nat where "ptr_d68000_reset \<equiv> 218"
abbreviation (input) ptr_d68000_ror_s_8 :: nat where "ptr_d68000_ror_s_8 \<equiv> 219"
abbreviation (input) ptr_d68000_ror_s_16 :: nat where "ptr_d68000_ror_s_16 \<equiv> 220"
abbreviation (input) ptr_d68000_ror_s_32 :: nat where "ptr_d68000_ror_s_32 \<equiv> 221"
abbreviation (input) ptr_d68000_ror_r_8 :: nat where "ptr_d68000_ror_r_8 \<equiv> 222"
abbreviation (input) ptr_d68000_ror_r_16 :: nat where "ptr_d68000_ror_r_16 \<equiv> 223"
abbreviation (input) ptr_d68000_ror_r_32 :: nat where "ptr_d68000_ror_r_32 \<equiv> 224"
abbreviation (input) ptr_d68000_ror_ea :: nat where "ptr_d68000_ror_ea \<equiv> 225"
abbreviation (input) ptr_d68000_rol_s_8 :: nat where "ptr_d68000_rol_s_8 \<equiv> 226"
abbreviation (input) ptr_d68000_rol_s_16 :: nat where "ptr_d68000_rol_s_16 \<equiv> 227"
abbreviation (input) ptr_d68000_rol_s_32 :: nat where "ptr_d68000_rol_s_32 \<equiv> 228"
abbreviation (input) ptr_d68000_rol_r_8 :: nat where "ptr_d68000_rol_r_8 \<equiv> 229"
abbreviation (input) ptr_d68000_rol_r_16 :: nat where "ptr_d68000_rol_r_16 \<equiv> 230"
abbreviation (input) ptr_d68000_rol_r_32 :: nat where "ptr_d68000_rol_r_32 \<equiv> 231"
abbreviation (input) ptr_d68000_rol_ea :: nat where "ptr_d68000_rol_ea \<equiv> 232"
abbreviation (input) ptr_d68000_roxr_s_8 :: nat where "ptr_d68000_roxr_s_8 \<equiv> 233"
abbreviation (input) ptr_d68000_roxr_s_16 :: nat where "ptr_d68000_roxr_s_16 \<equiv> 234"
abbreviation (input) ptr_d68000_roxr_s_32 :: nat where "ptr_d68000_roxr_s_32 \<equiv> 235"
abbreviation (input) ptr_d68000_roxr_r_8 :: nat where "ptr_d68000_roxr_r_8 \<equiv> 236"
abbreviation (input) ptr_d68000_roxr_r_16 :: nat where "ptr_d68000_roxr_r_16 \<equiv> 237"
abbreviation (input) ptr_d68000_roxr_r_32 :: nat where "ptr_d68000_roxr_r_32 \<equiv> 238"
abbreviation (input) ptr_d68000_roxr_ea :: nat where "ptr_d68000_roxr_ea \<equiv> 239"
abbreviation (input) ptr_d68000_roxl_s_8 :: nat where "ptr_d68000_roxl_s_8 \<equiv> 240"
abbreviation (input) ptr_d68000_roxl_s_16 :: nat where "ptr_d68000_roxl_s_16 \<equiv> 241"
abbreviation (input) ptr_d68000_roxl_s_32 :: nat where "ptr_d68000_roxl_s_32 \<equiv> 242"
abbreviation (input) ptr_d68000_roxl_r_8 :: nat where "ptr_d68000_roxl_r_8 \<equiv> 243"
abbreviation (input) ptr_d68000_roxl_r_16 :: nat where "ptr_d68000_roxl_r_16 \<equiv> 244"
abbreviation (input) ptr_d68000_roxl_r_32 :: nat where "ptr_d68000_roxl_r_32 \<equiv> 245"
abbreviation (input) ptr_d68000_roxl_ea :: nat where "ptr_d68000_roxl_ea \<equiv> 246"
abbreviation (input) ptr_d68010_rtd :: nat where "ptr_d68010_rtd \<equiv> 247"
abbreviation (input) ptr_d68000_rte :: nat where "ptr_d68000_rte \<equiv> 248"
abbreviation (input) ptr_d68020_rtm :: nat where "ptr_d68020_rtm \<equiv> 249"
abbreviation (input) ptr_d68000_rtr :: nat where "ptr_d68000_rtr \<equiv> 250"
abbreviation (input) ptr_d68000_rts :: nat where "ptr_d68000_rts \<equiv> 251"
abbreviation (input) ptr_d68000_sbcd_rr :: nat where "ptr_d68000_sbcd_rr \<equiv> 252"
abbreviation (input) ptr_d68000_sbcd_mm :: nat where "ptr_d68000_sbcd_mm \<equiv> 253"
abbreviation (input) ptr_d68000_scc :: nat where "ptr_d68000_scc \<equiv> 254"
abbreviation (input) ptr_d68000_stop :: nat where "ptr_d68000_stop \<equiv> 255"
abbreviation (input) ptr_d68000_sub_er_8 :: nat where "ptr_d68000_sub_er_8 \<equiv> 256"
abbreviation (input) ptr_d68000_sub_er_16 :: nat where "ptr_d68000_sub_er_16 \<equiv> 257"
abbreviation (input) ptr_d68000_sub_er_32 :: nat where "ptr_d68000_sub_er_32 \<equiv> 258"
abbreviation (input) ptr_d68000_sub_re_8 :: nat where "ptr_d68000_sub_re_8 \<equiv> 259"
abbreviation (input) ptr_d68000_sub_re_16 :: nat where "ptr_d68000_sub_re_16 \<equiv> 260"
abbreviation (input) ptr_d68000_sub_re_32 :: nat where "ptr_d68000_sub_re_32 \<equiv> 261"
abbreviation (input) ptr_d68000_suba_16 :: nat where "ptr_d68000_suba_16 \<equiv> 262"
abbreviation (input) ptr_d68000_suba_32 :: nat where "ptr_d68000_suba_32 \<equiv> 263"
abbreviation (input) ptr_d68000_subi_8 :: nat where "ptr_d68000_subi_8 \<equiv> 264"
abbreviation (input) ptr_d68000_subi_16 :: nat where "ptr_d68000_subi_16 \<equiv> 265"
abbreviation (input) ptr_d68000_subi_32 :: nat where "ptr_d68000_subi_32 \<equiv> 266"
abbreviation (input) ptr_d68000_subq_8 :: nat where "ptr_d68000_subq_8 \<equiv> 267"
abbreviation (input) ptr_d68000_subq_16 :: nat where "ptr_d68000_subq_16 \<equiv> 268"
abbreviation (input) ptr_d68000_subq_32 :: nat where "ptr_d68000_subq_32 \<equiv> 269"
abbreviation (input) ptr_d68000_subx_rr_8 :: nat where "ptr_d68000_subx_rr_8 \<equiv> 270"
abbreviation (input) ptr_d68000_subx_rr_16 :: nat where "ptr_d68000_subx_rr_16 \<equiv> 271"
abbreviation (input) ptr_d68000_subx_rr_32 :: nat where "ptr_d68000_subx_rr_32 \<equiv> 272"
abbreviation (input) ptr_d68000_subx_mm_8 :: nat where "ptr_d68000_subx_mm_8 \<equiv> 273"
abbreviation (input) ptr_d68000_subx_mm_16 :: nat where "ptr_d68000_subx_mm_16 \<equiv> 274"
abbreviation (input) ptr_d68000_subx_mm_32 :: nat where "ptr_d68000_subx_mm_32 \<equiv> 275"
abbreviation (input) ptr_d68000_swap :: nat where "ptr_d68000_swap \<equiv> 276"
abbreviation (input) ptr_d68000_tas :: nat where "ptr_d68000_tas \<equiv> 277"
abbreviation (input) ptr_d68000_trap :: nat where "ptr_d68000_trap \<equiv> 278"
abbreviation (input) ptr_d68020_trapcc_0 :: nat where "ptr_d68020_trapcc_0 \<equiv> 279"
abbreviation (input) ptr_d68020_trapcc_16 :: nat where "ptr_d68020_trapcc_16 \<equiv> 280"
abbreviation (input) ptr_d68020_trapcc_32 :: nat where "ptr_d68020_trapcc_32 \<equiv> 281"
abbreviation (input) ptr_d68000_trapv :: nat where "ptr_d68000_trapv \<equiv> 282"
abbreviation (input) ptr_d68000_tst_8 :: nat where "ptr_d68000_tst_8 \<equiv> 283"
abbreviation (input) ptr_d68020_tst_pcdi_8 :: nat where "ptr_d68020_tst_pcdi_8 \<equiv> 284"
abbreviation (input) ptr_d68020_tst_pcix_8 :: nat where "ptr_d68020_tst_pcix_8 \<equiv> 285"
abbreviation (input) ptr_d68020_tst_i_8 :: nat where "ptr_d68020_tst_i_8 \<equiv> 286"
abbreviation (input) ptr_d68000_tst_16 :: nat where "ptr_d68000_tst_16 \<equiv> 287"
abbreviation (input) ptr_d68020_tst_a_16 :: nat where "ptr_d68020_tst_a_16 \<equiv> 288"
abbreviation (input) ptr_d68020_tst_pcdi_16 :: nat where "ptr_d68020_tst_pcdi_16 \<equiv> 289"
abbreviation (input) ptr_d68020_tst_pcix_16 :: nat where "ptr_d68020_tst_pcix_16 \<equiv> 290"
abbreviation (input) ptr_d68020_tst_i_16 :: nat where "ptr_d68020_tst_i_16 \<equiv> 291"
abbreviation (input) ptr_d68000_tst_32 :: nat where "ptr_d68000_tst_32 \<equiv> 292"
abbreviation (input) ptr_d68020_tst_a_32 :: nat where "ptr_d68020_tst_a_32 \<equiv> 293"
abbreviation (input) ptr_d68020_tst_pcdi_32 :: nat where "ptr_d68020_tst_pcdi_32 \<equiv> 294"
abbreviation (input) ptr_d68020_tst_pcix_32 :: nat where "ptr_d68020_tst_pcix_32 \<equiv> 295"
abbreviation (input) ptr_d68020_tst_i_32 :: nat where "ptr_d68020_tst_i_32 \<equiv> 296"
abbreviation (input) ptr_d68000_unlk :: nat where "ptr_d68000_unlk \<equiv> 297"
abbreviation (input) ptr_d68020_unpk_rr :: nat where "ptr_d68020_unpk_rr \<equiv> 298"
abbreviation (input) ptr_d68020_unpk_mm :: nat where "ptr_d68020_unpk_mm \<equiv> 299"

section \<open>The opcode table\<close>

record opcode_struct =
  os_opcode_handler :: nat
  os_mask :: u32
  os_match :: u32
  os_ea_mask :: u32
  os_mask2 :: u32
  os_match2 :: u32

record instruction_struct =
  is_instruction :: nat
  is_word2_mask :: u32
  is_word2_match :: u32

text \<open>The initialiser of an entry; members that are left out are 0.\<close>

definition opc :: "nat \<Rightarrow> u32 \<Rightarrow> u32 \<Rightarrow> u32 \<Rightarrow> u32 \<Rightarrow> u32 \<Rightarrow> opcode_struct" where
  "opc handler m v ea m2 v2 = \<lparr>os_opcode_handler = handler, os_mask = m, os_match = v, os_ea_mask = ea,
     os_mask2 = m2, os_match2 = v2\<rparr>"

text \<open>The table in three parts; the last entry ends it.\<close>

definition g_opcode_info_1 :: "opcode_struct list" where
  "g_opcode_info_1 = [
     opc ptr_d68000_1010 0xf000 0xa000 0x000 0 0,
     opc ptr_d68000_1111 0xf000 0xf000 0x000 0 0,
     opc ptr_d68000_abcd_rr 0xf1f8 0xc100 0x000 0 0,
     opc ptr_d68000_abcd_mm 0xf1f8 0xc108 0x000 0 0,
     opc ptr_d68000_add_er_8 0xf1c0 0xd000 0xbff 0 0,
     opc ptr_d68000_add_er_16 0xf1c0 0xd040 0xfff 0 0,
     opc ptr_d68000_add_er_32 0xf1c0 0xd080 0xfff 0 0,
     opc ptr_d68000_add_re_8 0xf1c0 0xd100 0x3f8 0 0,
     opc ptr_d68000_add_re_16 0xf1c0 0xd140 0x3f8 0 0,
     opc ptr_d68000_add_re_32 0xf1c0 0xd180 0x3f8 0 0,
     opc ptr_d68000_adda_16 0xf1c0 0xd0c0 0xfff 0 0,
     opc ptr_d68000_adda_32 0xf1c0 0xd1c0 0xfff 0 0,
     opc ptr_d68000_addi_8 0xffc0 0x0600 0xbf8 0 0,
     opc ptr_d68000_addi_16 0xffc0 0x0640 0xbf8 0 0,
     opc ptr_d68000_addi_32 0xffc0 0x0680 0xbf8 0 0,
     opc ptr_d68000_addq_8 0xf1c0 0x5000 0xbf8 0 0,
     opc ptr_d68000_addq_16 0xf1c0 0x5040 0xff8 0 0,
     opc ptr_d68000_addq_32 0xf1c0 0x5080 0xff8 0 0,
     opc ptr_d68000_addx_rr_8 0xf1f8 0xd100 0x000 0 0,
     opc ptr_d68000_addx_rr_16 0xf1f8 0xd140 0x000 0 0,
     opc ptr_d68000_addx_rr_32 0xf1f8 0xd180 0x000 0 0,
     opc ptr_d68000_addx_mm_8 0xf1f8 0xd108 0x000 0 0,
     opc ptr_d68000_addx_mm_16 0xf1f8 0xd148 0x000 0 0,
     opc ptr_d68000_addx_mm_32 0xf1f8 0xd188 0x000 0 0,
     opc ptr_d68000_and_er_8 0xf1c0 0xc000 0xbff 0 0,
     opc ptr_d68000_and_er_16 0xf1c0 0xc040 0xbff 0 0,
     opc ptr_d68000_and_er_32 0xf1c0 0xc080 0xbff 0 0,
     opc ptr_d68000_and_re_8 0xf1c0 0xc100 0x3f8 0 0,
     opc ptr_d68000_and_re_16 0xf1c0 0xc140 0x3f8 0 0,
     opc ptr_d68000_and_re_32 0xf1c0 0xc180 0x3f8 0 0,
     opc ptr_d68000_andi_to_ccr 0xffff 0x023c 0x000 0xff00 0x0000,
     opc ptr_d68000_andi_to_sr 0xffff 0x027c 0x000 0 0,
     opc ptr_d68000_andi_8 0xffc0 0x0200 0xbf8 0 0,
     opc ptr_d68000_andi_16 0xffc0 0x0240 0xbf8 0 0,
     opc ptr_d68000_andi_32 0xffc0 0x0280 0xbf8 0 0,
     opc ptr_d68000_asr_s_8 0xf1f8 0xe000 0x000 0 0,
     opc ptr_d68000_asr_s_16 0xf1f8 0xe040 0x000 0 0,
     opc ptr_d68000_asr_s_32 0xf1f8 0xe080 0x000 0 0,
     opc ptr_d68000_asr_r_8 0xf1f8 0xe020 0x000 0 0,
     opc ptr_d68000_asr_r_16 0xf1f8 0xe060 0x000 0 0,
     opc ptr_d68000_asr_r_32 0xf1f8 0xe0a0 0x000 0 0,
     opc ptr_d68000_asr_ea 0xffc0 0xe0c0 0x3f8 0 0,
     opc ptr_d68000_asl_s_8 0xf1f8 0xe100 0x000 0 0,
     opc ptr_d68000_asl_s_16 0xf1f8 0xe140 0x000 0 0,
     opc ptr_d68000_asl_s_32 0xf1f8 0xe180 0x000 0 0,
     opc ptr_d68000_asl_r_8 0xf1f8 0xe120 0x000 0 0,
     opc ptr_d68000_asl_r_16 0xf1f8 0xe160 0x000 0 0,
     opc ptr_d68000_asl_r_32 0xf1f8 0xe1a0 0x000 0 0,
     opc ptr_d68000_asl_ea 0xffc0 0xe1c0 0x3f8 0 0,
     opc ptr_d68000_bcc_8 0xf000 0x6000 0x000 0 0,
     opc ptr_d68000_bcc_16 0xf0ff 0x6000 0x000 0 0,
     opc ptr_d68020_bcc_32 0xf0ff 0x60ff 0x000 0 0,
     opc ptr_d68000_bchg_r 0xf1c0 0x0140 0xbf8 0 0,
     opc ptr_d68000_bchg_s 0xffc0 0x0840 0xbf8 0xff00 0x0000,
     opc ptr_d68000_bclr_r 0xf1c0 0x0180 0xbf8 0 0,
     opc ptr_d68000_bclr_s 0xffc0 0x0880 0xbf8 0xff00 0x0000,
     opc ptr_d68020_bfchg 0xffc0 0xeac0 0xa78 0xf000 0x0000,
     opc ptr_d68020_bfclr 0xffc0 0xecc0 0xa78 0xf000 0x0000,
     opc ptr_d68020_bfexts 0xffc0 0xebc0 0xa7b 0x8000 0x0000,
     opc ptr_d68020_bfextu 0xffc0 0xe9c0 0xa7b 0x8000 0x0000,
     opc ptr_d68020_bfffo 0xffc0 0xedc0 0xa7b 0x8000 0x0000,
     opc ptr_d68020_bfins 0xffc0 0xefc0 0xa78 0x8000 0x0000,
     opc ptr_d68020_bfset 0xffc0 0xeec0 0xa78 0xf000 0x0000,
     opc ptr_d68020_bftst 0xffc0 0xe8c0 0xa7b 0xf000 0x0000,
     opc ptr_d68010_bkpt 0xfff8 0x4848 0x000 0 0,
     opc ptr_d68000_bra_8 0xff00 0x6000 0x000 0 0,
     opc ptr_d68000_bra_16 0xffff 0x6000 0x000 0 0,
     opc ptr_d68020_bra_32 0xffff 0x60ff 0x000 0 0,
     opc ptr_d68000_bset_r 0xf1c0 0x01c0 0xbf8 0 0,
     opc ptr_d68000_bset_s 0xffc0 0x08c0 0xbf8 0xfe00 0x0000,
     opc ptr_d68000_bsr_8 0xff00 0x6100 0x000 0 0,
     opc ptr_d68000_bsr_16 0xffff 0x6100 0x000 0 0,
     opc ptr_d68020_bsr_32 0xffff 0x61ff 0x000 0 0,
     opc ptr_d68000_btst_r 0xf1c0 0x0100 0xbff 0 0,
     opc ptr_d68000_btst_s 0xffc0 0x0800 0xbfb 0xff00 0x0000,
     opc ptr_d68020_callm 0xffc0 0x06c0 0x27b 0xff00 0x0000,
     opc ptr_d68020_cas_8 0xffc0 0x0ac0 0x3f8 0xfe38 0x0000,
     opc ptr_d68020_cas_16 0xffc0 0x0cc0 0x3f8 0xfe38 0x0000,
     opc ptr_d68020_cas_32 0xffc0 0x0ec0 0x3f8 0xfe38 0x0000,
     opc ptr_d68020_cas2_16 0xffff 0x0cfc 0x000 0x0e38 0x0000,
     opc ptr_d68020_cas2_32 0xffff 0x0efc 0x000 0x0e38 0x0000,
     opc ptr_d68000_chk_16 0xf1c0 0x4180 0xbff 0 0,
     opc ptr_d68020_chk_32 0xf1c0 0x4100 0xbff 0 0,
     opc ptr_d68020_chk2_cmp2_8 0xffc0 0x00c0 0x27b 0x07ff 0x0000,
     opc ptr_d68020_chk2_cmp2_16 0xffc0 0x02c0 0x27b 0x07ff 0x0000,
     opc ptr_d68020_chk2_cmp2_32 0xffc0 0x04c0 0x27b 0x07ff 0x0000,
     opc ptr_d68040_cinv 0xff20 0xf400 0x000 0 0,
     opc ptr_d68000_clr_8 0xffc0 0x4200 0xbf8 0 0,
     opc ptr_d68000_clr_16 0xffc0 0x4240 0xbf8 0 0,
     opc ptr_d68000_clr_32 0xffc0 0x4280 0xbf8 0 0,
     opc ptr_d68000_cmp_8 0xf1c0 0xb000 0xbff 0 0,
     opc ptr_d68000_cmp_16 0xf1c0 0xb040 0xfff 0 0,
     opc ptr_d68000_cmp_32 0xf1c0 0xb080 0xfff 0 0,
     opc ptr_d68000_cmpa_16 0xf1c0 0xb0c0 0xfff 0 0,
     opc ptr_d68000_cmpa_32 0xf1c0 0xb1c0 0xfff 0 0,
     opc ptr_d68000_cmpi_8 0xffc0 0x0c00 0xbf8 0 0,
     opc ptr_d68020_cmpi_pcdi_8 0xffff 0x0c3a 0x000 0 0,
     opc ptr_d68020_cmpi_pcix_8 0xffff 0x0c3b 0x000 0 0,
     opc ptr_d68000_cmpi_16 0xffc0 0x0c40 0xbf8 0 0,
     opc ptr_d68020_cmpi_pcdi_16 0xffff 0x0c7a 0x000 0 0]"

definition g_opcode_info_2 :: "opcode_struct list" where
  "g_opcode_info_2 = [
     opc ptr_d68020_cmpi_pcix_16 0xffff 0x0c7b 0x000 0 0,
     opc ptr_d68000_cmpi_32 0xffc0 0x0c80 0xbf8 0 0,
     opc ptr_d68020_cmpi_pcdi_32 0xffff 0x0cba 0x000 0 0,
     opc ptr_d68020_cmpi_pcix_32 0xffff 0x0cbb 0x000 0 0,
     opc ptr_d68000_cmpm_8 0xf1f8 0xb108 0x000 0 0,
     opc ptr_d68000_cmpm_16 0xf1f8 0xb148 0x000 0 0,
     opc ptr_d68000_cmpm_32 0xf1f8 0xb188 0x000 0 0,
     opc ptr_d68020_cpbcc_16 0xf1c0 0xf080 0x000 0 0,
     opc ptr_d68020_cpbcc_32 0xf1c0 0xf0c0 0x000 0 0,
     opc ptr_d68020_cpdbcc 0xf1f8 0xf048 0x000 0 0,
     opc ptr_d68020_cpgen 0xf1c0 0xf000 0x000 0 0,
     opc ptr_d68020_cprestore 0xf1c0 0xf140 0x37f 0 0,
     opc ptr_d68020_cpsave 0xf1c0 0xf100 0x2f8 0 0,
     opc ptr_d68020_cpscc 0xf1c0 0xf040 0xbf8 0 0,
     opc ptr_d68020_cptrapcc_0 0xf1ff 0xf07c 0x000 0 0,
     opc ptr_d68020_cptrapcc_16 0xf1ff 0xf07a 0x000 0 0,
     opc ptr_d68020_cptrapcc_32 0xf1ff 0xf07b 0x000 0 0,
     opc ptr_d68040_cpush 0xff20 0xf420 0x000 0 0,
     opc ptr_d68000_dbcc 0xf0f8 0x50c8 0x000 0 0,
     opc ptr_d68000_dbra 0xfff8 0x51c8 0x000 0 0,
     opc ptr_d68000_divs 0xf1c0 0x81c0 0xbff 0 0,
     opc ptr_d68000_divu 0xf1c0 0x80c0 0xbff 0 0,
     opc ptr_d68020_divl 0xff80 0x4c00 0xbff 0x83f8 0x0000,
     opc ptr_d68000_eor_8 0xf1c0 0xb100 0xbf8 0 0,
     opc ptr_d68000_eor_16 0xf1c0 0xb140 0xbf8 0 0,
     opc ptr_d68000_eor_32 0xf1c0 0xb180 0xbf8 0 0,
     opc ptr_d68000_eori_to_ccr 0xffff 0x0a3c 0x000 0xff00 0x0000,
     opc ptr_d68000_eori_to_sr 0xffff 0x0a7c 0x000 0 0,
     opc ptr_d68000_eori_8 0xffc0 0x0a00 0xbf8 0 0,
     opc ptr_d68000_eori_16 0xffc0 0x0a40 0xbf8 0 0,
     opc ptr_d68000_eori_32 0xffc0 0x0a80 0xbf8 0 0,
     opc ptr_d68000_exg_dd 0xf1f8 0xc140 0x000 0 0,
     opc ptr_d68000_exg_aa 0xf1f8 0xc148 0x000 0 0,
     opc ptr_d68000_exg_da 0xf1f8 0xc188 0x000 0 0,
     opc ptr_d68020_extb_32 0xfff8 0x49c0 0x000 0 0,
     opc ptr_d68000_ext_16 0xfff8 0x4880 0x000 0 0,
     opc ptr_d68000_ext_32 0xfff8 0x48c0 0x000 0 0,
     opc ptr_d68000_illegal 0xffff 0x4afc 0x000 0 0,
     opc ptr_d68000_jmp 0xffc0 0x4ec0 0x27b 0 0,
     opc ptr_d68000_jsr 0xffc0 0x4e80 0x27b 0 0,
     opc ptr_d68000_lea 0xf1c0 0x41c0 0x27b 0 0,
     opc ptr_d68000_link_16 0xfff8 0x4e50 0x000 0 0,
     opc ptr_d68020_link_32 0xfff8 0x4808 0x000 0 0,
     opc ptr_d68000_lsr_s_8 0xf1f8 0xe008 0x000 0 0,
     opc ptr_d68000_lsr_s_16 0xf1f8 0xe048 0x000 0 0,
     opc ptr_d68000_lsr_s_32 0xf1f8 0xe088 0x000 0 0,
     opc ptr_d68000_lsr_r_8 0xf1f8 0xe028 0x000 0 0,
     opc ptr_d68000_lsr_r_16 0xf1f8 0xe068 0x000 0 0,
     opc ptr_d68000_lsr_r_32 0xf1f8 0xe0a8 0x000 0 0,
     opc ptr_d68000_lsr_ea 0xffc0 0xe2c0 0x3f8 0 0,
     opc ptr_d68000_lsl_s_8 0xf1f8 0xe108 0x000 0 0,
     opc ptr_d68000_lsl_s_16 0xf1f8 0xe148 0x000 0 0,
     opc ptr_d68000_lsl_s_32 0xf1f8 0xe188 0x000 0 0,
     opc ptr_d68000_lsl_r_8 0xf1f8 0xe128 0x000 0 0,
     opc ptr_d68000_lsl_r_16 0xf1f8 0xe168 0x000 0 0,
     opc ptr_d68000_lsl_r_32 0xf1f8 0xe1a8 0x000 0 0,
     opc ptr_d68000_lsl_ea 0xffc0 0xe3c0 0x3f8 0 0,
     opc ptr_d68000_move_8 0xf000 0x1000 0xbff 0 0,
     opc ptr_d68000_move_16 0xf000 0x3000 0xfff 0 0,
     opc ptr_d68000_move_32 0xf000 0x2000 0xfff 0 0,
     opc ptr_d68000_movea_16 0xf1c0 0x3040 0xfff 0 0,
     opc ptr_d68000_movea_32 0xf1c0 0x2040 0xfff 0 0,
     opc ptr_d68000_move_to_ccr 0xffc0 0x44c0 0xbff 0 0,
     opc ptr_d68010_move_fr_ccr 0xffc0 0x42c0 0xbf8 0 0,
     opc ptr_d68000_move_to_sr 0xffc0 0x46c0 0xbff 0 0,
     opc ptr_d68000_move_fr_sr 0xffc0 0x40c0 0xbf8 0 0,
     opc ptr_d68000_move_to_usp 0xfff8 0x4e60 0x000 0 0,
     opc ptr_d68000_move_fr_usp 0xfff8 0x4e68 0x000 0 0,
     opc ptr_d68010_movec 0xfffe 0x4e7a 0x000 0 0,
     opc ptr_d68000_movem_pd_16 0xfff8 0x48a0 0x000 0 0,
     opc ptr_d68000_movem_pd_32 0xfff8 0x48e0 0x000 0 0,
     opc ptr_d68000_movem_re_16 0xffc0 0x4880 0x2f8 0 0,
     opc ptr_d68000_movem_re_32 0xffc0 0x48c0 0x2f8 0 0,
     opc ptr_d68000_movem_er_16 0xffc0 0x4c80 0x37b 0 0,
     opc ptr_d68000_movem_er_32 0xffc0 0x4cc0 0x37b 0 0,
     opc ptr_d68000_movep_er_16 0xf1f8 0x0108 0x000 0 0,
     opc ptr_d68000_movep_er_32 0xf1f8 0x0148 0x000 0 0,
     opc ptr_d68000_movep_re_16 0xf1f8 0x0188 0x000 0 0,
     opc ptr_d68000_movep_re_32 0xf1f8 0x01c8 0x000 0 0,
     opc ptr_d68010_moves_8 0xffc0 0x0e00 0x3f8 0x07ff 0x0000,
     opc ptr_d68010_moves_16 0xffc0 0x0e40 0x3f8 0x07ff 0x0000,
     opc ptr_d68010_moves_32 0xffc0 0x0e80 0x3f8 0x07ff 0x0000,
     opc ptr_d68000_moveq 0xf100 0x7000 0x000 0 0,
     opc ptr_d68040_move16_pi_pi 0xfff8 0xf620 0x000 0x8fff 0x8000,
     opc ptr_d68040_move16_pi_al 0xfff8 0xf600 0x000 0 0,
     opc ptr_d68040_move16_al_pi 0xfff8 0xf608 0x000 0 0,
     opc ptr_d68040_move16_ai_al 0xfff8 0xf610 0x000 0 0,
     opc ptr_d68040_move16_al_ai 0xfff8 0xf618 0x000 0 0,
     opc ptr_d68000_muls 0xf1c0 0xc1c0 0xbff 0 0,
     opc ptr_d68000_mulu 0xf1c0 0xc0c0 0xbff 0 0,
     opc ptr_d68020_mull 0xffc0 0x4c00 0xbff 0x83f8 0x0000,
     opc ptr_d68000_nbcd 0xffc0 0x4800 0xbf8 0 0,
     opc ptr_d68000_neg_8 0xffc0 0x4400 0xbf8 0 0,
     opc ptr_d68000_neg_16 0xffc0 0x4440 0xbf8 0 0,
     opc ptr_d68000_neg_32 0xffc0 0x4480 0xbf8 0 0,
     opc ptr_d68000_negx_8 0xffc0 0x4000 0xbf8 0 0,
     opc ptr_d68000_negx_16 0xffc0 0x4040 0xbf8 0 0,
     opc ptr_d68000_negx_32 0xffc0 0x4080 0xbf8 0 0,
     opc ptr_d68000_nop 0xffff 0x4e71 0x000 0 0,
     opc ptr_d68000_not_8 0xffc0 0x4600 0xbf8 0 0]"

definition g_opcode_info_3 :: "opcode_struct list" where
  "g_opcode_info_3 = [
     opc ptr_d68000_not_16 0xffc0 0x4640 0xbf8 0 0,
     opc ptr_d68000_not_32 0xffc0 0x4680 0xbf8 0 0,
     opc ptr_d68000_or_er_8 0xf1c0 0x8000 0xbff 0 0,
     opc ptr_d68000_or_er_16 0xf1c0 0x8040 0xbff 0 0,
     opc ptr_d68000_or_er_32 0xf1c0 0x8080 0xbff 0 0,
     opc ptr_d68000_or_re_8 0xf1c0 0x8100 0x3f8 0 0,
     opc ptr_d68000_or_re_16 0xf1c0 0x8140 0x3f8 0 0,
     opc ptr_d68000_or_re_32 0xf1c0 0x8180 0x3f8 0 0,
     opc ptr_d68000_ori_to_ccr 0xffff 0x003c 0x000 0xff00 0x0000,
     opc ptr_d68000_ori_to_sr 0xffff 0x007c 0x000 0 0,
     opc ptr_d68000_ori_8 0xffc0 0x0000 0xbf8 0 0,
     opc ptr_d68000_ori_16 0xffc0 0x0040 0xbf8 0 0,
     opc ptr_d68000_ori_32 0xffc0 0x0080 0xbf8 0 0,
     opc ptr_d68020_pack_rr 0xf1f8 0x8140 0x000 0 0,
     opc ptr_d68020_pack_mm 0xf1f8 0x8148 0x000 0 0,
     opc ptr_d68000_pea 0xffc0 0x4840 0x27b 0 0,
     opc ptr_d68000_reset 0xffff 0x4e70 0x000 0 0,
     opc ptr_d68000_ror_s_8 0xf1f8 0xe018 0x000 0 0,
     opc ptr_d68000_ror_s_16 0xf1f8 0xe058 0x000 0 0,
     opc ptr_d68000_ror_s_32 0xf1f8 0xe098 0x000 0 0,
     opc ptr_d68000_ror_r_8 0xf1f8 0xe038 0x000 0 0,
     opc ptr_d68000_ror_r_16 0xf1f8 0xe078 0x000 0 0,
     opc ptr_d68000_ror_r_32 0xf1f8 0xe0b8 0x000 0 0,
     opc ptr_d68000_ror_ea 0xffc0 0xe6c0 0x3f8 0 0,
     opc ptr_d68000_rol_s_8 0xf1f8 0xe118 0x000 0 0,
     opc ptr_d68000_rol_s_16 0xf1f8 0xe158 0x000 0 0,
     opc ptr_d68000_rol_s_32 0xf1f8 0xe198 0x000 0 0,
     opc ptr_d68000_rol_r_8 0xf1f8 0xe138 0x000 0 0,
     opc ptr_d68000_rol_r_16 0xf1f8 0xe178 0x000 0 0,
     opc ptr_d68000_rol_r_32 0xf1f8 0xe1b8 0x000 0 0,
     opc ptr_d68000_rol_ea 0xffc0 0xe7c0 0x3f8 0 0,
     opc ptr_d68000_roxr_s_8 0xf1f8 0xe010 0x000 0 0,
     opc ptr_d68000_roxr_s_16 0xf1f8 0xe050 0x000 0 0,
     opc ptr_d68000_roxr_s_32 0xf1f8 0xe090 0x000 0 0,
     opc ptr_d68000_roxr_r_8 0xf1f8 0xe030 0x000 0 0,
     opc ptr_d68000_roxr_r_16 0xf1f8 0xe070 0x000 0 0,
     opc ptr_d68000_roxr_r_32 0xf1f8 0xe0b0 0x000 0 0,
     opc ptr_d68000_roxr_ea 0xffc0 0xe4c0 0x3f8 0 0,
     opc ptr_d68000_roxl_s_8 0xf1f8 0xe110 0x000 0 0,
     opc ptr_d68000_roxl_s_16 0xf1f8 0xe150 0x000 0 0,
     opc ptr_d68000_roxl_s_32 0xf1f8 0xe190 0x000 0 0,
     opc ptr_d68000_roxl_r_8 0xf1f8 0xe130 0x000 0 0,
     opc ptr_d68000_roxl_r_16 0xf1f8 0xe170 0x000 0 0,
     opc ptr_d68000_roxl_r_32 0xf1f8 0xe1b0 0x000 0 0,
     opc ptr_d68000_roxl_ea 0xffc0 0xe5c0 0x3f8 0 0,
     opc ptr_d68010_rtd 0xffff 0x4e74 0x000 0 0,
     opc ptr_d68000_rte 0xffff 0x4e73 0x000 0 0,
     opc ptr_d68020_rtm 0xfff0 0x06c0 0x000 0 0,
     opc ptr_d68000_rtr 0xffff 0x4e77 0x000 0 0,
     opc ptr_d68000_rts 0xffff 0x4e75 0x000 0 0,
     opc ptr_d68000_sbcd_rr 0xf1f8 0x8100 0x000 0 0,
     opc ptr_d68000_sbcd_mm 0xf1f8 0x8108 0x000 0 0,
     opc ptr_d68000_scc 0xf0c0 0x50c0 0xbf8 0 0,
     opc ptr_d68000_stop 0xffff 0x4e72 0x000 0 0,
     opc ptr_d68000_sub_er_8 0xf1c0 0x9000 0xbff 0 0,
     opc ptr_d68000_sub_er_16 0xf1c0 0x9040 0xfff 0 0,
     opc ptr_d68000_sub_er_32 0xf1c0 0x9080 0xfff 0 0,
     opc ptr_d68000_sub_re_8 0xf1c0 0x9100 0x3f8 0 0,
     opc ptr_d68000_sub_re_16 0xf1c0 0x9140 0x3f8 0 0,
     opc ptr_d68000_sub_re_32 0xf1c0 0x9180 0x3f8 0 0,
     opc ptr_d68000_suba_16 0xf1c0 0x90c0 0xfff 0 0,
     opc ptr_d68000_suba_32 0xf1c0 0x91c0 0xfff 0 0,
     opc ptr_d68000_subi_8 0xffc0 0x0400 0xbf8 0 0,
     opc ptr_d68000_subi_16 0xffc0 0x0440 0xbf8 0 0,
     opc ptr_d68000_subi_32 0xffc0 0x0480 0xbf8 0 0,
     opc ptr_d68000_subq_8 0xf1c0 0x5100 0xbf8 0 0,
     opc ptr_d68000_subq_16 0xf1c0 0x5140 0xff8 0 0,
     opc ptr_d68000_subq_32 0xf1c0 0x5180 0xff8 0 0,
     opc ptr_d68000_subx_rr_8 0xf1f8 0x9100 0x000 0 0,
     opc ptr_d68000_subx_rr_16 0xf1f8 0x9140 0x000 0 0,
     opc ptr_d68000_subx_rr_32 0xf1f8 0x9180 0x000 0 0,
     opc ptr_d68000_subx_mm_8 0xf1f8 0x9108 0x000 0 0,
     opc ptr_d68000_subx_mm_16 0xf1f8 0x9148 0x000 0 0,
     opc ptr_d68000_subx_mm_32 0xf1f8 0x9188 0x000 0 0,
     opc ptr_d68000_swap 0xfff8 0x4840 0x000 0 0,
     opc ptr_d68000_tas 0xffc0 0x4ac0 0xbf8 0 0,
     opc ptr_d68000_trap 0xfff0 0x4e40 0x000 0 0,
     opc ptr_d68020_trapcc_0 0xf0ff 0x50fc 0x000 0 0,
     opc ptr_d68020_trapcc_16 0xf0ff 0x50fa 0x000 0 0,
     opc ptr_d68020_trapcc_32 0xf0ff 0x50fb 0x000 0 0,
     opc ptr_d68000_trapv 0xffff 0x4e76 0x000 0 0,
     opc ptr_d68000_tst_8 0xffc0 0x4a00 0xbf8 0 0,
     opc ptr_d68020_tst_pcdi_8 0xffff 0x4a3a 0x000 0 0,
     opc ptr_d68020_tst_pcix_8 0xffff 0x4a3b 0x000 0 0,
     opc ptr_d68020_tst_i_8 0xffff 0x4a3c 0x000 0 0,
     opc ptr_d68000_tst_16 0xffc0 0x4a40 0xbf8 0 0,
     opc ptr_d68020_tst_a_16 0xfff8 0x4a48 0x000 0 0,
     opc ptr_d68020_tst_pcdi_16 0xffff 0x4a7a 0x000 0 0,
     opc ptr_d68020_tst_pcix_16 0xffff 0x4a7b 0x000 0 0,
     opc ptr_d68020_tst_i_16 0xffff 0x4a7c 0x000 0 0,
     opc ptr_d68000_tst_32 0xffc0 0x4a80 0xbf8 0 0,
     opc ptr_d68020_tst_a_32 0xfff8 0x4a88 0x000 0 0,
     opc ptr_d68020_tst_pcdi_32 0xffff 0x4aba 0x000 0 0,
     opc ptr_d68020_tst_pcix_32 0xffff 0x4abb 0x000 0 0,
     opc ptr_d68020_tst_i_32 0xffff 0x4abc 0x000 0 0,
     opc ptr_d68000_unlk 0xfff8 0x4e58 0x000 0 0,
     opc ptr_d68020_unpk_rr 0xf1f8 0x8180 0x000 0 0,
     opc ptr_d68020_unpk_mm 0xf1f8 0x8188 0x000 0 0,
     opc 0 0 0 0 0 0]"

definition g_opcode_info :: "opcode_struct list" where
  "g_opcode_info = g_opcode_info_1 @ g_opcode_info_2 @ g_opcode_info_3"

end
