(* ===== verification/M68K_Model.thy ===== *)
theory M68K_Model
  imports M68K_Tables MCInst_Model
begin

text \<open>
  The first part of the M68K decoder, \<^verbatim>\<open>M68KDisassembler.c\<close>: reading the code buffer, the
  table of the instructions and how it is built, the effective addresses, and the functions that
  fill in the operands. The handlers of the instructions and the decoder itself follow in
  \<^verbatim>\<open>M68K_Handlers\<close> and \<^verbatim>\<open>M68K_Decode\<close>.

  The union of an operand is its 64-bit storage on a little-endian machine: \<^verbatim>\<open>imm\<close> and
  \<^verbatim>\<open>dimm\<close> occupy it, \<^verbatim>\<open>reg\<close> and \<^verbatim>\<open>simm\<close> are its low half, and
  \<^verbatim>\<open>reg_pair\<close> is the pair of its halves. Signed values are their bit patterns. A pointer to
  an operand is its index in \<^verbatim>\<open>operands\<close>; all indices in the code are constants below 4.
\<close>

unbundle bit_operations_syntax

section \<open>Types\<close>

datatype m68k_address_mode =
    M68K_AM_NONE | M68K_AM_REG_DIRECT_DATA | M68K_AM_REG_DIRECT_ADDR | M68K_AM_REGI_ADDR
  | M68K_AM_REGI_ADDR_POST_INC | M68K_AM_REGI_ADDR_PRE_DEC | M68K_AM_REGI_ADDR_DISP
  | M68K_AM_AREGI_INDEX_8_BIT_DISP | M68K_AM_AREGI_INDEX_BASE_DISP | M68K_AM_MEMI_POST_INDEX
  | M68K_AM_MEMI_PRE_INDEX | M68K_AM_PCI_DISP | M68K_AM_PCI_INDEX_8_BIT_DISP
  | M68K_AM_PCI_INDEX_BASE_DISP | M68K_AM_PC_MEMI_POST_INDEX | M68K_AM_PC_MEMI_PRE_INDEX
  | M68K_AM_ABSOLUTE_DATA_SHORT | M68K_AM_ABSOLUTE_DATA_LONG | M68K_AM_IMMEDIATE
  | M68K_AM_BRANCH_DISPLACEMENT

datatype m68k_op_type =
    M68K_OP_INVALID | M68K_OP_REG | M68K_OP_IMM | M68K_OP_MEM | M68K_OP_FP_SINGLE
  | M68K_OP_FP_DOUBLE | M68K_OP_REG_BITS | M68K_OP_REG_PAIR | M68K_OP_BR_DISP

primrec m68k_op_num :: "m68k_op_type \<Rightarrow> nat" where
  "m68k_op_num M68K_OP_INVALID = 0"
| "m68k_op_num M68K_OP_REG = 1"
| "m68k_op_num M68K_OP_IMM = 2"
| "m68k_op_num M68K_OP_MEM = 3"
| "m68k_op_num M68K_OP_FP_SINGLE = 4"
| "m68k_op_num M68K_OP_FP_DOUBLE = 5"
| "m68k_op_num M68K_OP_REG_BITS = 6"
| "m68k_op_num M68K_OP_REG_PAIR = 7"
| "m68k_op_num M68K_OP_BR_DISP = 8"

record m68k_op_mem =
  km_base_reg :: u32
  km_index_reg :: u32
  km_in_base_reg :: u32
  km_in_disp :: u32
  km_out_disp :: u32
  km_disp :: u16
  km_scale :: u8
  km_bitfield :: u8
  km_width :: u8
  km_offset :: u8
  km_index_size :: u8

record m68k_op_br_disp =
  kb_disp :: u32
  kb_disp_size :: u8

record cs_m68k_op =
  ko_raw :: u64
  ko_mem :: m68k_op_mem
  ko_br_disp :: m68k_op_br_disp
  ko_register_bits :: u32
  ko_type :: m68k_op_type
  ko_address_mode :: m68k_address_mode

definition ko_reg :: "cs_m68k_op \<Rightarrow> u32" where
  "ko_reg op = ucast (ko_raw op)"

definition ko_reg_0 :: "cs_m68k_op \<Rightarrow> u32" where
  "ko_reg_0 op = ucast (ko_raw op)"

definition ko_reg_1 :: "cs_m68k_op \<Rightarrow> u32" where
  "ko_reg_1 op = ucast (drop_bit 32 (ko_raw op))"

definition set_imm :: "u64 \<Rightarrow> cs_m68k_op \<Rightarrow> cs_m68k_op" where
  "set_imm v op = op\<lparr>ko_raw := v\<rparr>"

definition set_reg :: "u32 \<Rightarrow> cs_m68k_op \<Rightarrow> cs_m68k_op" where
  "set_reg r op = op\<lparr>ko_raw := push_bit 32 (drop_bit 32 (ko_raw op)) OR ucast r\<rparr>"

definition set_reg_pair :: "u32 \<Rightarrow> u32 \<Rightarrow> cs_m68k_op \<Rightarrow> cs_m68k_op" where
  "set_reg_pair r0 r1 op = op\<lparr>ko_raw := push_bit 32 (ucast r1) OR ucast r0\<rparr>"

datatype m68k_size_type = M68K_SIZE_TYPE_INVALID | M68K_SIZE_TYPE_CPU | M68K_SIZE_TYPE_FPU

text \<open>The union of \<^verbatim>\<open>cpu_size\<close> and \<^verbatim>\<open>fpu_size\<close> is one number.\<close>

record m68k_op_size =
  kz_type :: m68k_size_type
  kz_size :: u32

abbreviation (input) M68K_CPU_SIZE_NONE :: u32 where "M68K_CPU_SIZE_NONE \<equiv> 0"
abbreviation (input) M68K_CPU_SIZE_BYTE :: u32 where "M68K_CPU_SIZE_BYTE \<equiv> 1"
abbreviation (input) M68K_CPU_SIZE_WORD :: u32 where "M68K_CPU_SIZE_WORD \<equiv> 2"
abbreviation (input) M68K_CPU_SIZE_LONG :: u32 where "M68K_CPU_SIZE_LONG \<equiv> 4"
abbreviation (input) M68K_FPU_SIZE_NONE :: u32 where "M68K_FPU_SIZE_NONE \<equiv> 0"
abbreviation (input) M68K_FPU_SIZE_SINGLE :: u32 where "M68K_FPU_SIZE_SINGLE \<equiv> 4"
abbreviation (input) M68K_FPU_SIZE_DOUBLE :: u32 where "M68K_FPU_SIZE_DOUBLE \<equiv> 8"
abbreviation (input) M68K_FPU_SIZE_EXTENDED :: u32 where "M68K_FPU_SIZE_EXTENDED \<equiv> 12"
abbreviation (input) M68K_OP_BR_DISP_SIZE_WORD :: u8 where "M68K_OP_BR_DISP_SIZE_WORD \<equiv> 2"
abbreviation (input) M68K_OP_BR_DISP_SIZE_LONG :: u8 where "M68K_OP_BR_DISP_SIZE_LONG \<equiv> 4"
abbreviation (input) M68K_OPERAND_COUNT :: nat where "M68K_OPERAND_COUNT \<equiv> 4"

record cs_m68k =
  kx_operands :: "cs_m68k_op list"
  kx_op_size :: m68k_op_size
  kx_op_count :: u8

definition zero_mem :: m68k_op_mem where
  "zero_mem = \<lparr>km_base_reg = 0, km_index_reg = 0, km_in_base_reg = 0, km_in_disp = 0, km_out_disp = 0,
     km_disp = 0, km_scale = 0, km_bitfield = 0, km_width = 0, km_offset = 0, km_index_size = 0\<rparr>"

definition zero_m68k_op :: cs_m68k_op where
  "zero_m68k_op = \<lparr>ko_raw = 0, ko_mem = zero_mem, ko_br_disp = \<lparr>kb_disp = 0, kb_disp_size = 0\<rparr>,
     ko_register_bits = 0, ko_type = M68K_OP_INVALID, ko_address_mode = M68K_AM_NONE\<rparr>"

definition zero_m68k :: cs_m68k where
  "zero_m68k = \<lparr>kx_operands = replicate M68K_OPERAND_COUNT zero_m68k_op,
     kx_op_size = \<lparr>kz_type = M68K_SIZE_TYPE_INVALID, kz_size = 0\<rparr>, kx_op_count = 0\<rparr>"

record m68k_info =
  mk_code :: "u8 list"
  mk_code_len :: u64
  mk_baseAddress :: u64
  mk_inst :: MCInst
  mk_pc :: u32
  mk_ir :: u32
  mk_type :: u32
  mk_address_mask :: u32
  mk_extension :: cs_m68k
  mk_regs_read :: "u16 list"
  mk_regs_read_count :: u8
  mk_regs_write :: "u16 list"
  mk_regs_write_count :: u8
  mk_groups :: "u8 list"
  mk_groups_count :: u8

abbreviation (input) TYPE_68000 :: u32 where "TYPE_68000 \<equiv> 1"
abbreviation (input) TYPE_68010 :: u32 where "TYPE_68010 \<equiv> 2"
abbreviation (input) TYPE_68020 :: u32 where "TYPE_68020 \<equiv> 4"
abbreviation (input) TYPE_68030 :: u32 where "TYPE_68030 \<equiv> 8"
abbreviation (input) TYPE_68040 :: u32 where "TYPE_68040 \<equiv> 16"
abbreviation (input) M68010_PLUS :: u32 where "M68010_PLUS \<equiv> TYPE_68010 OR TYPE_68020 OR TYPE_68030 OR TYPE_68040"
abbreviation (input) M68020_ONLY :: u32 where "M68020_ONLY \<equiv> TYPE_68020"
abbreviation (input) M68020_PLUS :: u32 where "M68020_PLUS \<equiv> TYPE_68020 OR TYPE_68030 OR TYPE_68040"
abbreviation (input) M68040_PLUS :: u32 where "M68040_PLUS \<equiv> TYPE_68040"

section \<open>The code buffer\<close>

definition m68k_read_disassembler_16 :: "m68k_info \<Rightarrow> u64 \<Rightarrow> u32 option" where
  "m68k_read_disassembler_16 info addr = do {
     v0 \<leftarrow> aget (mk_code info) (unat addr);
     v1 \<leftarrow> aget (mk_code info) (unat (addr + 1));
     Some (push_bit 8 (ucast v0) OR ucast v1) }"

definition m68k_read_disassembler_32 :: "m68k_info \<Rightarrow> u64 \<Rightarrow> u32 option" where
  "m68k_read_disassembler_32 info addr = do {
     v0 \<leftarrow> aget (mk_code info) (unat addr);
     v1 \<leftarrow> aget (mk_code info) (unat (addr + 1));
     v2 \<leftarrow> aget (mk_code info) (unat (addr + 2));
     v3 \<leftarrow> aget (mk_code info) (unat (addr + 3));
     Some (push_bit 24 (ucast v0) OR push_bit 16 (ucast v1) OR push_bit 8 (ucast v2) OR ucast v3) }"

definition m68k_read_disassembler_64 :: "m68k_info \<Rightarrow> u64 \<Rightarrow> u64 option" where
  "m68k_read_disassembler_64 info addr = do {
     v0 \<leftarrow> aget (mk_code info) (unat addr);
     v1 \<leftarrow> aget (mk_code info) (unat (addr + 1));
     v2 \<leftarrow> aget (mk_code info) (unat (addr + 2));
     v3 \<leftarrow> aget (mk_code info) (unat (addr + 3));
     v4 \<leftarrow> aget (mk_code info) (unat (addr + 4));
     v5 \<leftarrow> aget (mk_code info) (unat (addr + 5));
     v6 \<leftarrow> aget (mk_code info) (unat (addr + 6));
     v7 \<leftarrow> aget (mk_code info) (unat (addr + 7));
     Some (push_bit 56 (ucast v0) OR push_bit 48 (ucast v1) OR push_bit 40 (ucast v2) OR push_bit 32 (ucast v3) OR
       push_bit 24 (ucast v4) OR push_bit 16 (ucast v5) OR push_bit 8 (ucast v6) OR ucast v7) }"

definition m68k_offset :: "m68k_info \<Rightarrow> u64 \<Rightarrow> u64" where
  "m68k_offset info address = (address - mk_baseAddress info) AND ucast (mk_address_mask info)"

definition m68k_read_safe_16 :: "m68k_info \<Rightarrow> u64 \<Rightarrow> u32 option" where
  "m68k_read_safe_16 info address = (let addr = m68k_offset info address
     in if mk_code_len info < addr + 2 then Some 0xaaaa else m68k_read_disassembler_16 info addr)"

definition m68k_read_safe_32 :: "m68k_info \<Rightarrow> u64 \<Rightarrow> u32 option" where
  "m68k_read_safe_32 info address = (let addr = m68k_offset info address
     in if mk_code_len info < addr + 4 then Some 0xaaaaaaaa else m68k_read_disassembler_32 info addr)"

definition m68k_read_safe_64 :: "m68k_info \<Rightarrow> u64 \<Rightarrow> u64 option" where
  "m68k_read_safe_64 info address = (let addr = m68k_offset info address
     in if mk_code_len info < addr + 8 then Some 0xaaaaaaaaaaaaaaaa else m68k_read_disassembler_64 info addr)"

definition peek_imm_8 :: "m68k_info \<Rightarrow> u32 option" where
  "peek_imm_8 info = map_option (\<lambda>v. v AND 0xff) (m68k_read_safe_16 info (ucast (mk_pc info)))"

definition peek_imm_16 :: "m68k_info \<Rightarrow> u32 option" where
  "peek_imm_16 info = m68k_read_safe_16 info (ucast (mk_pc info))"

definition peek_imm_32 :: "m68k_info \<Rightarrow> u32 option" where
  "peek_imm_32 info = m68k_read_safe_32 info (ucast (mk_pc info))"

definition peek_imm_64 :: "m68k_info \<Rightarrow> u64 option" where
  "peek_imm_64 info = m68k_read_safe_64 info (ucast (mk_pc info))"

definition skip_pc :: "u32 \<Rightarrow> m68k_info \<Rightarrow> m68k_info" where
  "skip_pc n info = info\<lparr>mk_pc := mk_pc info + n\<rparr>"

definition read_imm_8 :: "m68k_info \<Rightarrow> (u32 \<times> m68k_info) option" where
  "read_imm_8 info = map_option (\<lambda>v. (v, skip_pc 2 info)) (peek_imm_8 info)"

definition read_imm_16 :: "m68k_info \<Rightarrow> (u32 \<times> m68k_info) option" where
  "read_imm_16 info = map_option (\<lambda>v. (v, skip_pc 2 info)) (peek_imm_16 info)"

definition read_imm_32 :: "m68k_info \<Rightarrow> (u32 \<times> m68k_info) option" where
  "read_imm_32 info = map_option (\<lambda>v. (v, skip_pc 4 info)) (peek_imm_32 info)"

definition read_imm_64 :: "m68k_info \<Rightarrow> (u64 \<times> m68k_info) option" where
  "read_imm_64 info = map_option (\<lambda>v. (v, skip_pc 8 info)) (peek_imm_64 info)"

definition make_int_8 :: "u32 \<Rightarrow> u32" where
  "make_int_8 v = (if v AND 0x80 \<noteq> 0 then v OR NOT 0xff else v AND 0xff)"

definition make_int_16 :: "u32 \<Rightarrow> u32" where
  "make_int_16 v = (if v AND 0x8000 \<noteq> 0 then v OR NOT 0xffff else v AND 0xffff)"

section \<open>Operands\<close>

definition on_op :: "nat \<Rightarrow> (cs_m68k_op \<Rightarrow> cs_m68k_op) \<Rightarrow> m68k_info \<Rightarrow> m68k_info" where
  "on_op i f info = info\<lparr>mk_extension := (mk_extension info)\<lparr>kx_operands :=
     (kx_operands (mk_extension info))[i := f (kx_operands (mk_extension info) ! i)]\<rparr>\<rparr>"

definition op_at :: "m68k_info \<Rightarrow> nat \<Rightarrow> cs_m68k_op" where
  "op_at info i = kx_operands (mk_extension info) ! i"

definition on_mem :: "(m68k_op_mem \<Rightarrow> m68k_op_mem) \<Rightarrow> cs_m68k_op \<Rightarrow> cs_m68k_op" where
  "on_mem f op = op\<lparr>ko_mem := f (ko_mem op)\<rparr>"

text \<open>Assignments to an operand that occur together.\<close>

definition as_reg :: "m68k_address_mode \<Rightarrow> u32 \<Rightarrow> cs_m68k_op \<Rightarrow> cs_m68k_op" where
  "as_reg mode r op = set_reg r (op\<lparr>ko_address_mode := mode\<rparr>)"

definition as_imm :: "u64 \<Rightarrow> cs_m68k_op \<Rightarrow> cs_m68k_op" where
  "as_imm v op = set_imm v (op\<lparr>ko_type := M68K_OP_IMM, ko_address_mode := M68K_AM_IMMEDIATE\<rparr>)"

definition as_branch :: "u32 \<Rightarrow> u8 \<Rightarrow> cs_m68k_op \<Rightarrow> cs_m68k_op" where
  "as_branch disp sz op = op\<lparr>ko_type := M68K_OP_BR_DISP, ko_address_mode := M68K_AM_BRANCH_DISPLACEMENT,
     ko_br_disp := \<lparr>kb_disp = disp, kb_disp_size = sz\<rparr>\<rparr>"

definition as_pair :: "u32 \<Rightarrow> u32 \<Rightarrow> cs_m68k_op \<Rightarrow> cs_m68k_op" where
  "as_pair r0 r1 op = set_reg_pair r0 r1 (op\<lparr>ko_address_mode := M68K_AM_NONE, ko_type := M68K_OP_REG_PAIR\<rparr>)"

definition set_op_count :: "u8 \<Rightarrow> m68k_info \<Rightarrow> m68k_info" where
  "set_op_count n info = info\<lparr>mk_extension := (mk_extension info)\<lparr>kx_op_count := n\<rparr>\<rparr>"

definition set_op_size :: "m68k_size_type \<Rightarrow> u32 \<Rightarrow> m68k_info \<Rightarrow> m68k_info" where
  "set_op_size ty n info = info\<lparr>mk_extension := (mk_extension info)\<lparr>kx_op_size := \<lparr>kz_type = ty, kz_size = n\<rparr>\<rparr>\<rparr>"

definition set_opcode :: "u32 \<Rightarrow> m68k_info \<Rightarrow> m68k_info" where
  "set_opcode opcode info = info\<lparr>mk_inst := MCInst_setOpcode (mk_inst info) opcode\<rparr>"

text \<open>\<^verbatim>\<open>info->inst->Opcode += n\<close>.\<close>

definition add_opcode :: "u32 \<Rightarrow> m68k_info \<Rightarrow> m68k_info" where
  "add_opcode n info = set_opcode (mi_Opcode (mk_inst info) + n) info"

text \<open>The fields of an instruction word.\<close>

definition D_reg :: "u32 \<Rightarrow> nat \<Rightarrow> u32" where
  "D_reg w s = M68K_REG_D0 + (drop_bit s w AND 7)"

definition A_reg :: "u32 \<Rightarrow> nat \<Rightarrow> u32" where
  "A_reg w s = M68K_REG_A0 + (drop_bit s w AND 7)"

definition FP_reg :: "u32 \<Rightarrow> u32" where
  "FP_reg n = M68K_REG_FP0 + n"

text \<open>\<^verbatim>\<open>(BIT_F(extension) ? M68K_REG_A0 : M68K_REG_D0) + ((extension >> 12) & 7)\<close>.\<close>

definition DA_reg :: "u32 \<Rightarrow> u32" where
  "DA_reg extension = (if extension AND 0x8000 \<noteq> 0 then A_reg extension 12 else D_reg extension 12)"

section \<open>Effective addresses\<close>

definition EXT_FULL :: "u32 \<Rightarrow> bool" where "EXT_FULL A \<longleftrightarrow> A AND 0x100 \<noteq> 0"
definition EXT_8BIT_DISPLACEMENT :: "u32 \<Rightarrow> u32" where "EXT_8BIT_DISPLACEMENT A = A AND 0xff"
definition EXT_BASE_REGISTER_PRESENT :: "u32 \<Rightarrow> bool" where "EXT_BASE_REGISTER_PRESENT A \<longleftrightarrow> A AND 0x80 = 0"
definition EXT_INDEX_REGISTER_PRESENT :: "u32 \<Rightarrow> bool" where "EXT_INDEX_REGISTER_PRESENT A \<longleftrightarrow> A AND 0x40 = 0"
definition EXT_INDEX_SCALE :: "u32 \<Rightarrow> u32" where "EXT_INDEX_SCALE A = drop_bit 9 A AND 3"
definition EXT_INDEX_LONG :: "u32 \<Rightarrow> bool" where "EXT_INDEX_LONG A \<longleftrightarrow> A AND 0x800 \<noteq> 0"
definition EXT_BASE_DISPLACEMENT_PRESENT :: "u32 \<Rightarrow> bool" where "EXT_BASE_DISPLACEMENT_PRESENT A \<longleftrightarrow> A AND 0x30 > 0x10"
definition EXT_BASE_DISPLACEMENT_LONG :: "u32 \<Rightarrow> bool" where "EXT_BASE_DISPLACEMENT_LONG A \<longleftrightarrow> A AND 0x30 = 0x30"
definition EXT_OUTER_DISPLACEMENT_PRESENT :: "u32 \<Rightarrow> bool" where
  "EXT_OUTER_DISPLACEMENT_PRESENT A \<longleftrightarrow> A AND 3 > 1 \<and> A AND 0x47 < 0x44"
definition EXT_OUTER_DISPLACEMENT_LONG :: "u32 \<Rightarrow> bool" where
  "EXT_OUTER_DISPLACEMENT_LONG A \<longleftrightarrow> A AND 3 = 3 \<and> A AND 0x47 < 0x44"

text \<open>The index register with its size and its scale.\<close>

definition set_index :: "u32 \<Rightarrow> m68k_op_mem \<Rightarrow> m68k_op_mem" where
  "set_index extension m = m\<lparr>km_index_reg := DA_reg extension, km_index_size := (if EXT_INDEX_LONG extension then 1 else 0)\<rparr>"

definition set_scale :: "u32 \<Rightarrow> m68k_op_mem \<Rightarrow> m68k_op_mem" where
  "set_scale extension m = (if EXT_INDEX_SCALE extension \<noteq> 0
     then m\<lparr>km_scale := push_bit (unat (EXT_INDEX_SCALE extension)) 1\<rparr> else m)"

definition set_base :: "bool \<Rightarrow> u32 \<Rightarrow> m68k_op_mem \<Rightarrow> m68k_op_mem" where
  "set_base is_pc instruction m = m\<lparr>km_base_reg := (if is_pc then M68K_REG_PC else A_reg instruction 0)\<rparr>"

definition full_mode :: "bool \<Rightarrow> u32 \<Rightarrow> cs_m68k_op \<Rightarrow> cs_m68k_op" where
  "full_mode is_pc extension op =
     (let preindex = extension AND 7 > 0 \<and> extension AND 7 < 4; postindex = extension AND 7 > 4
      in if preindex then op\<lparr>ko_address_mode := (if is_pc then M68K_AM_PC_MEMI_PRE_INDEX else M68K_AM_MEMI_PRE_INDEX)\<rparr>
         else if postindex then op\<lparr>ko_address_mode := (if is_pc then M68K_AM_PC_MEMI_POST_INDEX else M68K_AM_MEMI_POST_INDEX)\<rparr>
         else op)"

definition get_with_index_address_mode :: "m68k_info \<Rightarrow> nat \<Rightarrow> u32 \<Rightarrow> bool \<Rightarrow> m68k_info option" where
  "get_with_index_address_mode info i instruction is_pc = do {
     (extension, info) \<leftarrow> read_imm_16 info;
     let info = on_op i (\<lambda>op. op\<lparr>ko_address_mode := M68K_AM_AREGI_INDEX_BASE_DISP\<rparr>) info;
     if EXT_FULL extension then do {
       let info = on_op i (on_mem (\<lambda>m. m\<lparr>km_base_reg := M68K_REG_INVALID, km_index_reg := M68K_REG_INVALID\<rparr>)) info;
       (in_disp, info) \<leftarrow> (if EXT_BASE_DISPLACEMENT_PRESENT extension
         then if EXT_BASE_DISPLACEMENT_LONG extension then read_imm_32 info else read_imm_16 info else Some (0, info));
       let info = on_op i (on_mem (\<lambda>m. m\<lparr>km_in_disp := in_disp\<rparr>)) info;
       (out_disp, info) \<leftarrow> (if EXT_OUTER_DISPLACEMENT_PRESENT extension
         then if EXT_OUTER_DISPLACEMENT_LONG extension then read_imm_32 info else read_imm_16 info else Some (0, info));
       let info = on_op i (on_mem (\<lambda>m. m\<lparr>km_out_disp := out_disp\<rparr>)) info;
       let info = (if EXT_BASE_REGISTER_PRESENT extension then on_op i (on_mem (set_base is_pc instruction)) info else info);
       let info = (if EXT_INDEX_REGISTER_PRESENT extension
         then on_op i (on_mem (\<lambda>m. set_scale extension (set_index extension m))) info else info);
       Some (on_op i (full_mode is_pc extension) info) }
     else do {
       let info = on_op i (on_mem (\<lambda>m. set_base is_pc instruction (set_index extension m))) info;
       let info = (if EXT_8BIT_DISPLACEMENT extension = 0
         then if is_pc then on_op i (\<lambda>op. op\<lparr>ko_address_mode := M68K_AM_PCI_INDEX_BASE_DISP\<rparr>) info else info
         else on_op i (\<lambda>op. on_mem (\<lambda>m. m\<lparr>km_disp := scast (ucast (extension AND 0xff) :: u8)\<rparr>)
           (op\<lparr>ko_address_mode := (if is_pc then M68K_AM_PCI_INDEX_8_BIT_DISP else M68K_AM_AREGI_INDEX_8_BIT_DISP)\<rparr>)) info);
       Some (on_op i (on_mem (set_scale extension)) info) } }"

text \<open>
  The immediate of mode \<^verbatim>\<open>0x3c\<close>: sizes other than 1, 2 and 4 take 8 bytes, and a byte is the
  low half of a word.
\<close>

definition read_ea_imm :: "m68k_info \<Rightarrow> u32 \<Rightarrow> (u64 \<times> m68k_info) option" where
  "read_ea_imm info sz =
     (if sz = 1 then map_option (\<lambda>(v, info). (ucast (v AND 0xff), info)) (read_imm_8 info)
      else if sz = 2 then map_option (\<lambda>(v, info). (ucast (v AND 0xffff), info)) (read_imm_16 info)
      else if sz = 4 then map_option (\<lambda>(v, info). (ucast v, info)) (read_imm_32 info)
      else read_imm_64 info)"

definition get_ea_mode_op :: "m68k_info \<Rightarrow> nat \<Rightarrow> u32 \<Rightarrow> u32 \<Rightarrow> m68k_info option" where
  "get_ea_mode_op info i instruction sz =
     (let info = on_op i (\<lambda>op. op\<lparr>ko_type := M68K_OP_MEM\<rparr>) info;
          mode = instruction AND 0x3f
      in if mode < 0x08 then Some (on_op i (\<lambda>op. (as_reg M68K_AM_REG_DIRECT_DATA (D_reg instruction 0) op)\<lparr>ko_type := M68K_OP_REG\<rparr>) info)
         else if mode < 0x10 then Some (on_op i (\<lambda>op. (as_reg M68K_AM_REG_DIRECT_ADDR (A_reg instruction 0) op)\<lparr>ko_type := M68K_OP_REG\<rparr>) info)
         else if mode < 0x18 then Some (on_op i (as_reg M68K_AM_REGI_ADDR (A_reg instruction 0)) info)
         else if mode < 0x20 then Some (on_op i (as_reg M68K_AM_REGI_ADDR_POST_INC (A_reg instruction 0)) info)
         else if mode < 0x28 then Some (on_op i (as_reg M68K_AM_REGI_ADDR_PRE_DEC (A_reg instruction 0)) info)
         else if mode < 0x30 then do {
           (v, info) \<leftarrow> read_imm_16 info;
           Some (on_op i (\<lambda>op. on_mem (\<lambda>m. m\<lparr>km_base_reg := A_reg instruction 0, km_disp := ucast v\<rparr>)
             (op\<lparr>ko_address_mode := M68K_AM_REGI_ADDR_DISP\<rparr>)) info) }
         else if mode < 0x38 then get_with_index_address_mode info i instruction False
         else if mode = 0x38 then do {
           (v, info) \<leftarrow> read_imm_16 info;
           Some (on_op i (\<lambda>op. set_imm (ucast v) (op\<lparr>ko_address_mode := M68K_AM_ABSOLUTE_DATA_SHORT\<rparr>)) info) }
         else if mode = 0x39 then do {
           (v, info) \<leftarrow> read_imm_32 info;
           Some (on_op i (\<lambda>op. set_imm (ucast v) (op\<lparr>ko_address_mode := M68K_AM_ABSOLUTE_DATA_LONG\<rparr>)) info) }
         else if mode = 0x3a then do {
           (v, info) \<leftarrow> read_imm_16 info;
           Some (on_op i (\<lambda>op. on_mem (\<lambda>m. m\<lparr>km_disp := ucast v\<rparr>) (op\<lparr>ko_address_mode := M68K_AM_PCI_DISP\<rparr>)) info) }
         else if mode = 0x3b then get_with_index_address_mode info i instruction True
         else if mode = 0x3c then do {
           (v, info) \<leftarrow> read_ea_imm info sz;
           Some (on_op i (as_imm v) info) }
         else Some info)"

section \<open>Building an instruction\<close>

definition set_insn_group :: "m68k_info \<Rightarrow> u8 \<Rightarrow> m68k_info option" where
  "set_insn_group info grp = do {
     groups \<leftarrow> aset (mk_groups info) (unat (mk_groups_count info)) grp;
     Some (info\<lparr>mk_groups := groups, mk_groups_count := mk_groups_count info + 1\<rparr>) }"

definition build_init_op :: "m68k_info \<Rightarrow> u32 \<Rightarrow> u8 \<Rightarrow> u32 \<Rightarrow> m68k_info" where
  "build_init_op info opcode count sz = set_op_size M68K_SIZE_TYPE_CPU sz (set_op_count count (set_opcode opcode info))"

text \<open>An immediate passed as an \<^verbatim>\<open>int\<close> is sign-extended when it is stored in the operand.\<close>

definition int_imm :: "u32 \<Rightarrow> u64" where
  "int_imm v = scast v"

definition build_re_gen_1 :: "m68k_info \<Rightarrow> bool \<Rightarrow> u32 \<Rightarrow> u32 \<Rightarrow> m68k_info option" where
  "build_re_gen_1 info isDreg opcode sz = do {
     let info = build_init_op info opcode 2 sz;
     let info = on_op 0 (if isDreg then as_reg M68K_AM_REG_DIRECT_DATA (D_reg (mk_ir info) 9)
       else as_reg M68K_AM_REG_DIRECT_ADDR (A_reg (mk_ir info) 9)) info;
     get_ea_mode_op info 1 (mk_ir info) sz }"

definition build_re_1 :: "m68k_info \<Rightarrow> u32 \<Rightarrow> u32 \<Rightarrow> m68k_info option" where
  "build_re_1 info opcode sz = build_re_gen_1 info True opcode sz"

definition build_er_gen_1 :: "m68k_info \<Rightarrow> bool \<Rightarrow> u32 \<Rightarrow> u32 \<Rightarrow> m68k_info option" where
  "build_er_gen_1 info isDreg opcode sz = do {
     let info = build_init_op info opcode 2 sz;
     info \<leftarrow> get_ea_mode_op info 0 (mk_ir info) sz;
     Some (on_op 1 (if isDreg then as_reg M68K_AM_REG_DIRECT_DATA (D_reg (mk_ir info) 9)
       else as_reg M68K_AM_REG_DIRECT_ADDR (A_reg (mk_ir info) 9)) info) }"

definition build_er_1 :: "m68k_info \<Rightarrow> u32 \<Rightarrow> u32 \<Rightarrow> m68k_info option" where
  "build_er_1 info opcode sz = build_er_gen_1 info True opcode sz"

text \<open>The third operand of \<^verbatim>\<open>build_rr\<close> and \<^verbatim>\<open>build_mm\<close>: \<^verbatim>\<open>imm > 0\<close> is signed.\<close>

definition third_imm :: "u32 \<Rightarrow> m68k_info \<Rightarrow> m68k_info" where
  "third_imm imm info = (if 0 <s imm then on_op 2 (as_imm (int_imm imm)) (set_op_count 3 info) else info)"

definition build_rr :: "m68k_info \<Rightarrow> u32 \<Rightarrow> u32 \<Rightarrow> u32 \<Rightarrow> m68k_info option" where
  "build_rr info opcode sz imm = do {
     let info = build_init_op info opcode 2 sz;
     let info = on_op 0 (as_reg M68K_AM_REG_DIRECT_DATA (D_reg (mk_ir info) 0)) info;
     let info = on_op 1 (as_reg M68K_AM_REG_DIRECT_DATA (D_reg (mk_ir info) 9)) info;
     Some (third_imm imm info) }"

definition build_r :: "m68k_info \<Rightarrow> u32 \<Rightarrow> u32 \<Rightarrow> m68k_info option" where
  "build_r info opcode sz = do {
     let info = build_init_op info opcode 2 sz;
     let info = on_op 0 (as_reg M68K_AM_REG_DIRECT_DATA (D_reg (mk_ir info) 9)) info;
     Some (on_op 1 (as_reg M68K_AM_REG_DIRECT_DATA (D_reg (mk_ir info) 0)) info) }"

definition build_imm_ea :: "m68k_info \<Rightarrow> u32 \<Rightarrow> u32 \<Rightarrow> u32 \<Rightarrow> m68k_info option" where
  "build_imm_ea info opcode sz imm = do {
     let info = build_init_op info opcode 2 sz;
     let info = on_op 0 (as_imm (int_imm imm)) info;
     get_ea_mode_op info 1 (mk_ir info) sz }"

definition qdata :: "m68k_info \<Rightarrow> u64" where
  "qdata info = ucast (g_3bit_qdata_table ! unat (drop_bit 9 (mk_ir info) AND 7))"

definition build_3bit_d :: "m68k_info \<Rightarrow> u32 \<Rightarrow> u32 \<Rightarrow> m68k_info option" where
  "build_3bit_d info opcode sz = do {
     let info = build_init_op info opcode 2 sz;
     let info = on_op 0 (as_imm (qdata info)) info;
     Some (on_op 1 (as_reg M68K_AM_REG_DIRECT_DATA (D_reg (mk_ir info) 0)) info) }"

definition build_3bit_ea :: "m68k_info \<Rightarrow> u32 \<Rightarrow> u32 \<Rightarrow> m68k_info option" where
  "build_3bit_ea info opcode sz = do {
     let info = build_init_op info opcode 2 sz;
     let info = on_op 0 (as_imm (qdata info)) info;
     get_ea_mode_op info 1 (mk_ir info) sz }"

definition build_mm :: "m68k_info \<Rightarrow> u32 \<Rightarrow> u32 \<Rightarrow> u32 \<Rightarrow> m68k_info option" where
  "build_mm info opcode sz imm = do {
     let info = build_init_op info opcode 2 sz;
     let info = on_op 0 (as_reg M68K_AM_REGI_ADDR_PRE_DEC (A_reg (mk_ir info) 0)) info;
     let info = on_op 1 (as_reg M68K_AM_REGI_ADDR_PRE_DEC (A_reg (mk_ir info) 9)) info;
     Some (third_imm imm info) }"

definition build_ea :: "m68k_info \<Rightarrow> u32 \<Rightarrow> u32 \<Rightarrow> m68k_info option" where
  "build_ea info opcode sz = do {
     let info = build_init_op info opcode 1 sz;
     get_ea_mode_op info 0 (mk_ir info) sz }"

definition build_ea_a :: "m68k_info \<Rightarrow> u32 \<Rightarrow> u32 \<Rightarrow> m68k_info option" where
  "build_ea_a info opcode sz = do {
     let info = build_init_op info opcode 2 sz;
     info \<leftarrow> get_ea_mode_op info 0 (mk_ir info) sz;
     Some (on_op 1 (as_reg M68K_AM_REG_DIRECT_ADDR (A_reg (mk_ir info) 9)) info) }"

definition build_ea_ea :: "m68k_info \<Rightarrow> u32 \<Rightarrow> u32 \<Rightarrow> m68k_info option" where
  "build_ea_ea info opcode sz = do {
     let info = build_init_op info opcode 2 sz;
     info \<leftarrow> get_ea_mode_op info 0 (mk_ir info) sz;
     get_ea_mode_op info 1 ((drop_bit 9 (mk_ir info) AND 7) OR (drop_bit 3 (mk_ir info) AND 0x38)) sz }"

definition build_pi_pi :: "m68k_info \<Rightarrow> u32 \<Rightarrow> u32 \<Rightarrow> m68k_info option" where
  "build_pi_pi info opcode sz = do {
     let info = build_init_op info opcode 2 sz;
     let info = on_op 0 (as_reg M68K_AM_REGI_ADDR_POST_INC (A_reg (mk_ir info) 0)) info;
     Some (on_op 1 (as_reg M68K_AM_REGI_ADDR_POST_INC (A_reg (mk_ir info) 9)) info) }"

definition build_imm_special_reg :: "m68k_info \<Rightarrow> u32 \<Rightarrow> u32 \<Rightarrow> u32 \<Rightarrow> u32 \<Rightarrow> m68k_info option" where
  "build_imm_special_reg info opcode imm sz reg = do {
     let info = build_init_op info opcode 2 sz;
     let info = on_op 0 (as_imm (int_imm imm)) info;
     Some (on_op 1 (as_reg M68K_AM_NONE reg) info) }"

definition jump_groups :: "m68k_info \<Rightarrow> m68k_info option" where
  "jump_groups info = do {
     info \<leftarrow> set_insn_group info M68K_GRP_JUMP;
     set_insn_group info M68K_GRP_BRANCH_RELATIVE }"

definition build_relative_branch :: "m68k_info \<Rightarrow> u32 \<Rightarrow> u32 \<Rightarrow> u32 \<Rightarrow> m68k_info option" where
  "build_relative_branch info opcode sz displacement = do {
     let info = build_init_op info opcode 1 sz;
     let info = on_op 0 (as_branch displacement (ucast sz)) info;
     jump_groups info }"

definition build_absolute_jump_with_immediate :: "m68k_info \<Rightarrow> u32 \<Rightarrow> u32 \<Rightarrow> u32 \<Rightarrow> m68k_info option" where
  "build_absolute_jump_with_immediate info opcode sz immediate = do {
     let info = build_init_op info opcode 1 sz;
     let info = on_op 0 (as_imm (int_imm immediate)) info;
     set_insn_group info M68K_GRP_JUMP }"

definition condition :: "m68k_info \<Rightarrow> nat" where
  "condition info = unat (drop_bit 8 (mk_ir info) AND 0xf)"

definition build_bcc :: "m68k_info \<Rightarrow> u32 \<Rightarrow> u32 \<Rightarrow> m68k_info option" where
  "build_bcc info sz displacement = build_relative_branch info (s_branch_lut ! condition info) sz displacement"

definition build_trap :: "m68k_info \<Rightarrow> u32 \<Rightarrow> u32 \<Rightarrow> m68k_info option" where
  "build_trap info sz immediate = build_absolute_jump_with_immediate info (s_trap_lut ! condition info) sz immediate"

definition build_dbxx :: "m68k_info \<Rightarrow> u32 \<Rightarrow> u32 \<Rightarrow> u32 \<Rightarrow> m68k_info option" where
  "build_dbxx info opcode sz displacement = do {
     let info = build_init_op info opcode 2 sz;
     let info = on_op 0 (as_reg M68K_AM_REG_DIRECT_DATA (D_reg (mk_ir info) 0)) info;
     let info = on_op 1 (as_branch displacement M68K_OP_BR_DISP_SIZE_LONG) info;
     jump_groups info }"

definition build_dbcc :: "m68k_info \<Rightarrow> u32 \<Rightarrow> u32 \<Rightarrow> m68k_info option" where
  "build_dbcc info sz displacement = build_dbxx info (s_dbcc_lut ! condition info) sz displacement"

definition build_d_d_ea :: "m68k_info \<Rightarrow> u32 \<Rightarrow> u32 \<Rightarrow> m68k_info option" where
  "build_d_d_ea info opcode sz = do {
     (extension, info) \<leftarrow> read_imm_16 info;
     let info = build_init_op info opcode 3 sz;
     let info = on_op 0 (as_reg M68K_AM_REG_DIRECT_DATA (D_reg extension 0)) info;
     let info = on_op 1 (as_reg M68K_AM_REG_DIRECT_DATA (D_reg extension 6)) info;
     get_ea_mode_op info 2 (mk_ir info) sz }"

definition build_bitfield_ins :: "m68k_info \<Rightarrow> u32 \<Rightarrow> bool \<Rightarrow> m68k_info option" where
  "build_bitfield_ins info opcode has_d_arg = do {
     let info = build_init_op info opcode 1 0;
     (extension, info) \<leftarrow> read_imm_16 info;
     let offset = (if extension AND 0x800 \<noteq> 0 then ucast (drop_bit 6 extension AND 7) else ucast (drop_bit 6 extension AND 31));
     let width = (if extension AND 0x20 \<noteq> 0 then ucast (extension AND 7)
       else ucast (g_5bit_data_table ! unat (extension AND 31)));
     let info = (if has_d_arg
       then on_op 1 (as_reg M68K_AM_REG_DIRECT_DATA (D_reg extension 12)) (set_op_count 2 info) else info);
     info \<leftarrow> get_ea_mode_op info 0 (mk_ir info) 1;
     Some (on_op 0 (on_mem (\<lambda>m. m\<lparr>km_bitfield := 1, km_width := width, km_offset := offset\<rparr>)) info) }"

definition build_d :: "m68k_info \<Rightarrow> u32 \<Rightarrow> u32 \<Rightarrow> m68k_info option" where
  "build_d info opcode sz = do {
     let info = build_init_op info opcode 1 sz;
     Some (on_op 0 (as_reg M68K_AM_REG_DIRECT_DATA (D_reg (mk_ir info) 0)) info) }"

text \<open>The loop of \<^verbatim>\<open>reverse_bits\<close> and \<^verbatim>\<open>reverse_bits_8\<close>, which ends because \<open>v\<close> is shifted to 0.\<close>

function reverse_loop :: "u32 \<Rightarrow> u32 \<Rightarrow> u32 \<Rightarrow> u32 \<times> u32" where
  "reverse_loop v r s = (if v = 0 then (r, s) else reverse_loop (drop_bit 1 v) (push_bit 1 r OR (v AND 1)) (s - 1))"
  by pat_completeness auto
termination
proof (relation "measure (\<lambda>(v, r, s). unat v)", simp)
  fix v r s :: u32
  assume "v \<noteq> 0"
  then have "0 < unat v" by (simp add: unat_gt_0)
  then show "((drop_bit 1 v, push_bit 1 r OR v AND 1, s - 1), v, r, s) \<in> measure (\<lambda>(v, r, s). unat v)"
    by (simp add: drop_bit_eq_div unat_div)
qed

declare reverse_loop.simps [simp del]

text \<open>The shift \<^verbatim>\<open>r <<= s\<close> is defined for \<open>s < 32\<close>, which the callers ensure.\<close>

definition reverse_bits :: "u32 \<Rightarrow> u16" where
  "reverse_bits v = (case reverse_loop (drop_bit 1 v) v 15 of (r, s) \<Rightarrow> ucast (push_bit (unat s) r))"

definition reverse_bits_8 :: "u32 \<Rightarrow> u8" where
  "reverse_bits_8 v = (case reverse_loop (drop_bit 1 v) v 7 of (r, s) \<Rightarrow> ucast (push_bit (unat s) r))"

definition as_bits :: "u32 \<Rightarrow> cs_m68k_op \<Rightarrow> cs_m68k_op" where
  "as_bits bits op = op\<lparr>ko_type := M68K_OP_REG_BITS, ko_register_bits := bits\<rparr>"

definition build_movem_re :: "m68k_info \<Rightarrow> u32 \<Rightarrow> u32 \<Rightarrow> m68k_info option" where
  "build_movem_re info opcode sz = do {
     let info = build_init_op info opcode 2 sz;
     (bits, info) \<leftarrow> read_imm_16 info;
     let info = on_op 0 (as_bits bits) info;
     info \<leftarrow> get_ea_mode_op info 1 (mk_ir info) sz;
     Some (if ko_address_mode (op_at info 1) = M68K_AM_REGI_ADDR_PRE_DEC
       then on_op 0 (\<lambda>op. op\<lparr>ko_register_bits := ucast (reverse_bits (ko_register_bits op))\<rparr>) info else info) }"

definition build_movem_er :: "m68k_info \<Rightarrow> u32 \<Rightarrow> u32 \<Rightarrow> m68k_info option" where
  "build_movem_er info opcode sz = do {
     let info = build_init_op info opcode 2 sz;
     (bits, info) \<leftarrow> read_imm_16 info;
     let info = on_op 1 (as_bits bits) info;
     get_ea_mode_op info 0 (mk_ir info) sz }"

definition build_imm :: "m68k_info \<Rightarrow> u32 \<Rightarrow> u32 \<Rightarrow> m68k_info" where
  "build_imm info opcode data =
     (let info = build_init_op info opcode 1 0;
          info = set_opcode opcode info
      in on_op 0 (as_imm (int_imm data)) info)"

definition build_illegal :: "m68k_info \<Rightarrow> u32 \<Rightarrow> m68k_info" where
  "build_illegal info data = build_imm info M68K_INS_ILLEGAL data"

definition build_invalid :: "m68k_info \<Rightarrow> u32 \<Rightarrow> m68k_info" where
  "build_invalid info data = build_imm info M68K_INS_INVALID data"

definition d68000_invalid :: "m68k_info \<Rightarrow> m68k_info option" where
  "d68000_invalid info = Some (build_invalid info (mk_ir info))"

definition LIMIT_CPU_TYPES :: "m68k_info \<Rightarrow> u32 \<Rightarrow> (m68k_info \<Rightarrow> m68k_info option) \<Rightarrow> m68k_info option" where
  "LIMIT_CPU_TYPES info allowed body = (if mk_type info AND allowed = 0 then d68000_invalid info else body info)"

section \<open>The instruction table\<close>

type_synonym instruction_table = "nat \<Rightarrow> instruction_struct"

text \<open>The two static tables of the file; the index of the instruction table is below \<^verbatim>\<open>0x10000\<close>.\<close>

record m68k_globals =
  gl_opcode_info :: "opcode_struct list"
  gl_instruction_table :: instruction_table

definition m68k_initial_globals :: m68k_globals where
  "m68k_initial_globals = \<lparr>gl_opcode_info = g_opcode_info,
     gl_instruction_table = (\<lambda>_. \<lparr>is_instruction = 0, is_word2_mask = 0, is_word2_match = 0\<rparr>)\<rparr>"

definition valid_ea :: "u32 \<Rightarrow> u32 \<Rightarrow> bool" where
  "valid_ea opcode ea_mask =
     (if ea_mask = 0 then True
      else let mode = opcode AND 0x3f
        in if mode < 0x08 then ea_mask AND 0x800 \<noteq> 0
           else if mode < 0x10 then ea_mask AND 0x400 \<noteq> 0
           else if mode < 0x18 then ea_mask AND 0x200 \<noteq> 0
           else if mode < 0x20 then ea_mask AND 0x100 \<noteq> 0
           else if mode < 0x28 then ea_mask AND 0x080 \<noteq> 0
           else if mode < 0x30 then ea_mask AND 0x040 \<noteq> 0
           else if mode < 0x38 then ea_mask AND 0x020 \<noteq> 0
           else if mode = 0x38 then ea_mask AND 0x010 \<noteq> 0
           else if mode = 0x39 then ea_mask AND 0x008 \<noteq> 0
           else if mode = 0x3a then ea_mask AND 0x002 \<noteq> 0
           else if mode = 0x3b then ea_mask AND 0x001 \<noteq> 0
           else if mode = 0x3c then ea_mask AND 0x004 \<noteq> 0
           else False)"

text \<open>The number of bits of a mask, added up in pairs, and the comparison for \<^verbatim>\<open>qsort\<close>.\<close>

definition nof_true_bits :: "u32 \<Rightarrow> u32" where
  "nof_true_bits a =
     (let a = drop_bit 1 (a AND 0xAAAA) + (a AND 0x5555);
          a = drop_bit 2 (a AND 0xCCCC) + (a AND 0x3333);
          a = drop_bit 4 (a AND 0xF0F0) + (a AND 0x0F0F)
      in drop_bit 8 (a AND 0xFF00) + (a AND 0x00FF))"

definition compare_nof_true_bits :: "opcode_struct \<Rightarrow> opcode_struct \<Rightarrow> u32" where
  "compare_nof_true_bits a b = nof_true_bits (os_mask b) - nof_true_bits (os_mask a)"

text \<open>
  The search for an opcode, from the start of the table to the entry without a handler. The move
  instructions have a second effective address.
\<close>

definition opcode_matches :: "u32 \<Rightarrow> opcode_struct \<Rightarrow> bool" where
  "opcode_matches opcode os \<longleftrightarrow> opcode AND os_mask os = os_match os \<and>
     \<not> ((os_opcode_handler os = ptr_d68000_move_8 \<or> os_opcode_handler os = ptr_d68000_move_16 \<or>
          os_opcode_handler os = ptr_d68000_move_32) \<and>
        \<not> valid_ea ((drop_bit 9 opcode AND 7) OR (drop_bit 3 opcode AND 0x38)) 0xbf8) \<and>
     valid_ea opcode (os_ea_mask os)"

fun search_opcode :: "u32 \<Rightarrow> opcode_struct list \<Rightarrow> instruction_struct \<Rightarrow> instruction_struct" where
  "search_opcode opcode [] i = i"
| "search_opcode opcode (os # rest) i =
     (if os_opcode_handler os = 0 then i
      else if opcode_matches opcode os
      then \<lparr>is_instruction = os_opcode_handler os, is_word2_mask = os_mask2 os, is_word2_match = os_match2 os\<rparr>
      else search_opcode opcode rest i)"

text \<open>
  \<^verbatim>\<open>qsort\<close> of the C library is the parameter \<open>qsort\<close>: it gets the comparison and the entries
  before the last one. The order of entries that compare equal is not specified.
\<close>

type_synonym qsort_t = "(opcode_struct \<Rightarrow> opcode_struct \<Rightarrow> u32) \<Rightarrow> opcode_struct list \<Rightarrow> opcode_struct list"

definition build_opcode_table :: "qsort_t \<Rightarrow> m68k_globals \<Rightarrow> m68k_globals" where
  "build_opcode_table qsort g =
     (if is_instruction (gl_instruction_table g 0) \<noteq> 0 then g
      else let entries = takeWhile (\<lambda>os. os_opcode_handler os \<noteq> 0) (gl_opcode_info g);
               info = qsort compare_nof_true_bits entries @ drop (length entries) (gl_opcode_info g)
        in \<lparr>gl_opcode_info = info,
             gl_instruction_table = (\<lambda>i. search_opcode (of_nat i) info
               ((gl_instruction_table g i)\<lparr>is_instruction := ptr_d68000_invalid\<rparr>))\<rparr>)"

definition instruction_is_valid :: "instruction_table \<Rightarrow> m68k_info \<Rightarrow> u32 \<Rightarrow> (bool \<times> m68k_info) option" where
  "instruction_is_valid tab info word_check = do {
     need (unat (mk_ir info) < 0x10000);
     let i = tab (unat (mk_ir info));
     if is_word2_mask i \<noteq> 0 \<and> word_check AND is_word2_mask i \<noteq> is_word2_match i \<or> is_instruction i = ptr_d68000_invalid
     then map_option (\<lambda>info. (False, info)) (d68000_invalid info)
     else Some (True, info) }"

section \<open>Special instructions\<close>

definition build_cas2 :: "instruction_table \<Rightarrow> m68k_info \<Rightarrow> u32 \<Rightarrow> m68k_info option" where
  "build_cas2 tab info sz = do {
     let info = build_init_op info M68K_INS_CAS2 3 sz;
     w \<leftarrow> peek_imm_32 info;
     let word3 = w AND 0xffff;
     (ok, info) \<leftarrow> instruction_is_valid tab info word3;
     if \<not> ok then Some info
     else do {
       (extension, info) \<leftarrow> read_imm_32 info;
       let info = on_op 0 (as_pair (drop_bit 16 extension AND 7) (extension AND 7)) info;
       let info = on_op 1 (as_pair (drop_bit 22 extension AND 7) (drop_bit 6 extension AND 7)) info;
       let reg_0 = drop_bit 28 extension AND 7;
       let reg_1 = drop_bit 12 extension AND 7;
       Some (on_op 2 (as_pair (reg_0 + (if extension AND 0x80000000 \<noteq> 0 then 8 else 0))
         (reg_1 + (if extension AND 0x8000 \<noteq> 0 then 8 else 0))) info) } }"

definition build_chk2_cmp2 :: "m68k_info \<Rightarrow> u32 \<Rightarrow> m68k_info option" where
  "build_chk2_cmp2 info sz = do {
     let info = build_init_op info M68K_INS_CHK2 2 sz;
     (extension, info) \<leftarrow> read_imm_16 info;
     let info = set_opcode (if extension AND 0x800 \<noteq> 0 then M68K_INS_CHK2 else M68K_INS_CMP2) info;
     info \<leftarrow> get_ea_mode_op info 0 (mk_ir info) sz;
     Some (on_op 1 (\<lambda>op. (as_reg M68K_AM_NONE (DA_reg extension) op)\<lparr>ko_type := M68K_OP_REG\<rparr>) info) }"

definition move16_op :: "u32 \<Rightarrow> m68k_address_mode \<Rightarrow> cs_m68k_op \<Rightarrow> cs_m68k_op" where
  "move16_op d m op =
     (let op = op\<lparr>ko_type := M68K_OP_MEM, ko_address_mode := m\<rparr>
      in if m = M68K_AM_REGI_ADDR_POST_INC \<or> m = M68K_AM_REG_DIRECT_ADDR then set_reg (M68K_REG_A0 + d) op
         else set_imm (int_imm d) op)"

definition build_move16 :: "m68k_info \<Rightarrow> u32 \<times> u32 \<Rightarrow> m68k_address_mode \<times> m68k_address_mode \<Rightarrow> m68k_info option" where
  "build_move16 info d m = do {
     let info = build_init_op info M68K_INS_MOVE16 2 0;
     Some (on_op 1 (move16_op (snd d) (snd m)) (on_op 0 (move16_op (fst d) (fst m)) info)) }"

definition build_link :: "m68k_info \<Rightarrow> u32 \<Rightarrow> u32 \<Rightarrow> m68k_info option" where
  "build_link info disp sz = do {
     let info = build_init_op info M68K_INS_LINK 2 sz;
     let info = on_op 0 (as_reg M68K_AM_NONE (A_reg (mk_ir info) 0)) info;
     Some (on_op 1 (as_imm (int_imm disp)) info) }"

definition build_cpush_cinv :: "m68k_info \<Rightarrow> u32 \<Rightarrow> m68k_info option" where
  "build_cpush_cinv info op_offset = do {
     let info = build_init_op info M68K_INS_INVALID 2 0;
     let scope = drop_bit 3 (mk_ir info) AND 3;
     if scope = 0 then d68000_invalid info
     else do {
       let info = (if scope = 1 then set_opcode op_offset info
         else if scope = 2 then set_opcode (op_offset + 1) info
         else set_opcode (op_offset + 2) (set_op_count 1 info));
       let info = on_op 0 (as_imm (ucast (drop_bit 6 (mk_ir info) AND 3))) info;
       Some (on_op 1 (\<lambda>op. set_imm (ucast (A_reg (mk_ir info) 0))
         (op\<lparr>ko_type := M68K_OP_MEM, ko_address_mode := M68K_AM_REG_DIRECT_ADDR\<rparr>)) info) } }"

definition as_disp :: "u32 \<Rightarrow> u32 \<Rightarrow> cs_m68k_op \<Rightarrow> cs_m68k_op" where
  "as_disp reg disp op = on_mem (\<lambda>m. m\<lparr>km_base_reg := reg, km_disp := ucast disp\<rparr>)
     (op\<lparr>ko_address_mode := M68K_AM_REGI_ADDR_DISP, ko_type := M68K_OP_MEM\<rparr>)"

definition build_movep_re :: "m68k_info \<Rightarrow> u32 \<Rightarrow> m68k_info option" where
  "build_movep_re info sz = do {
     let info = build_init_op info M68K_INS_MOVEP 2 sz;
     let info = on_op 0 (set_reg (D_reg (mk_ir info) 9)) info;
     (disp, info) \<leftarrow> read_imm_16 info;
     Some (on_op 1 (as_disp (A_reg (mk_ir info) 0) disp) info) }"

definition build_movep_er :: "m68k_info \<Rightarrow> u32 \<Rightarrow> m68k_info option" where
  "build_movep_er info sz = do {
     let info = build_init_op info M68K_INS_MOVEP 2 sz;
     (disp, info) \<leftarrow> read_imm_16 info;
     let info = on_op 0 (as_disp (A_reg (mk_ir info) 0) disp) info;
     Some (on_op 1 (set_reg (D_reg (mk_ir info) 9)) info) }"

definition build_moves :: "m68k_info \<Rightarrow> u32 \<Rightarrow> m68k_info option" where
  "build_moves info sz = do {
     let info = build_init_op info M68K_INS_MOVES 2 sz;
     (extension, info) \<leftarrow> read_imm_16 info;
     if extension AND 0x800 \<noteq> 0
     then get_ea_mode_op (on_op 0 (set_reg (DA_reg extension)) info) 1 (mk_ir info) sz
     else do {
       info \<leftarrow> get_ea_mode_op info 0 (mk_ir info) sz;
       Some (on_op 1 (set_reg (DA_reg extension)) info) } }"

end
