(* ===== verification/M68K_Handlers.thy ===== *)
theory M68K_Handlers
  imports M68K_Model
begin

text \<open>
  The instruction handlers of \<^verbatim>\<open>M68KDisassembler.c\<close>, in the order of the file, and the
  dispatch through a pointer to one. A handler fills in the opcode, the operands and the groups and
  moves the program counter over the words it reads. Only the two \<^verbatim>\<open>cas2\<close> handlers look at
  the instruction table again.
\<close>

unbundle bit_operations_syntax

section \<open>Handlers\<close>

definition d68000_illegal :: "m68k_info \<Rightarrow> m68k_info option" where
  "d68000_illegal info = Some (build_illegal info (mk_ir info))"

definition d68000_1010 :: "m68k_info \<Rightarrow> m68k_info option" where
  "d68000_1010 info = Some (build_invalid info (mk_ir info))"

definition d68000_1111 :: "m68k_info \<Rightarrow> m68k_info option" where
  "d68000_1111 info = Some (build_invalid info (mk_ir info))"

definition d68000_abcd_rr :: "m68k_info \<Rightarrow> m68k_info option" where
  "d68000_abcd_rr info = build_rr info M68K_INS_ABCD 1 0"

definition d68000_abcd_mm :: "m68k_info \<Rightarrow> m68k_info option" where
  "d68000_abcd_mm info = build_mm info M68K_INS_ABCD 1 0"

definition d68000_add_er_8 :: "m68k_info \<Rightarrow> m68k_info option" where
  "d68000_add_er_8 info = build_er_1 info M68K_INS_ADD 1"

definition d68000_add_er_16 :: "m68k_info \<Rightarrow> m68k_info option" where
  "d68000_add_er_16 info = build_er_1 info M68K_INS_ADD 2"

definition d68000_add_er_32 :: "m68k_info \<Rightarrow> m68k_info option" where
  "d68000_add_er_32 info = build_er_1 info M68K_INS_ADD 4"

definition d68000_add_re_8 :: "m68k_info \<Rightarrow> m68k_info option" where
  "d68000_add_re_8 info = build_re_1 info M68K_INS_ADD 1"

definition d68000_add_re_16 :: "m68k_info \<Rightarrow> m68k_info option" where
  "d68000_add_re_16 info = build_re_1 info M68K_INS_ADD 2"

definition d68000_add_re_32 :: "m68k_info \<Rightarrow> m68k_info option" where
  "d68000_add_re_32 info = build_re_1 info M68K_INS_ADD 4"

definition d68000_adda_16 :: "m68k_info \<Rightarrow> m68k_info option" where
  "d68000_adda_16 info = build_ea_a info M68K_INS_ADDA 2"

definition d68000_adda_32 :: "m68k_info \<Rightarrow> m68k_info option" where
  "d68000_adda_32 info = build_ea_a info M68K_INS_ADDA 4"

definition d68000_addi_8 :: "m68k_info \<Rightarrow> m68k_info option" where
  "d68000_addi_8 info = do {
       (imm, info) \<leftarrow> read_imm_8 info;
       build_imm_ea info M68K_INS_ADDI 1 imm }"

definition d68000_addi_16 :: "m68k_info \<Rightarrow> m68k_info option" where
  "d68000_addi_16 info = do {
       (imm, info) \<leftarrow> read_imm_16 info;
       build_imm_ea info M68K_INS_ADDI 2 imm }"

definition d68000_addi_32 :: "m68k_info \<Rightarrow> m68k_info option" where
  "d68000_addi_32 info = do {
       (imm, info) \<leftarrow> read_imm_32 info;
       build_imm_ea info M68K_INS_ADDI 4 imm }"

definition d68000_addq_8 :: "m68k_info \<Rightarrow> m68k_info option" where
  "d68000_addq_8 info = build_3bit_ea info M68K_INS_ADDQ 1"

definition d68000_addq_16 :: "m68k_info \<Rightarrow> m68k_info option" where
  "d68000_addq_16 info = build_3bit_ea info M68K_INS_ADDQ 2"

definition d68000_addq_32 :: "m68k_info \<Rightarrow> m68k_info option" where
  "d68000_addq_32 info = build_3bit_ea info M68K_INS_ADDQ 4"

definition d68000_addx_rr_8 :: "m68k_info \<Rightarrow> m68k_info option" where
  "d68000_addx_rr_8 info = build_rr info M68K_INS_ADDX 1 0"

definition d68000_addx_rr_16 :: "m68k_info \<Rightarrow> m68k_info option" where
  "d68000_addx_rr_16 info = build_rr info M68K_INS_ADDX 2 0"

definition d68000_addx_rr_32 :: "m68k_info \<Rightarrow> m68k_info option" where
  "d68000_addx_rr_32 info = build_rr info M68K_INS_ADDX 4 0"

definition d68000_addx_mm_8 :: "m68k_info \<Rightarrow> m68k_info option" where
  "d68000_addx_mm_8 info = build_mm info M68K_INS_ADDX 1 0"

definition d68000_addx_mm_16 :: "m68k_info \<Rightarrow> m68k_info option" where
  "d68000_addx_mm_16 info = build_mm info M68K_INS_ADDX 2 0"

definition d68000_addx_mm_32 :: "m68k_info \<Rightarrow> m68k_info option" where
  "d68000_addx_mm_32 info = build_mm info M68K_INS_ADDX 4 0"

definition d68000_and_er_8 :: "m68k_info \<Rightarrow> m68k_info option" where
  "d68000_and_er_8 info = build_er_1 info M68K_INS_AND 1"

definition d68000_and_er_16 :: "m68k_info \<Rightarrow> m68k_info option" where
  "d68000_and_er_16 info = build_er_1 info M68K_INS_AND 2"

definition d68000_and_er_32 :: "m68k_info \<Rightarrow> m68k_info option" where
  "d68000_and_er_32 info = build_er_1 info M68K_INS_AND 4"

definition d68000_and_re_8 :: "m68k_info \<Rightarrow> m68k_info option" where
  "d68000_and_re_8 info = build_re_1 info M68K_INS_AND 1"

definition d68000_and_re_16 :: "m68k_info \<Rightarrow> m68k_info option" where
  "d68000_and_re_16 info = build_re_1 info M68K_INS_AND 2"

definition d68000_and_re_32 :: "m68k_info \<Rightarrow> m68k_info option" where
  "d68000_and_re_32 info = build_re_1 info M68K_INS_AND 4"

definition d68000_andi_8 :: "m68k_info \<Rightarrow> m68k_info option" where
  "d68000_andi_8 info = do {
       (imm, info) \<leftarrow> read_imm_8 info;
       build_imm_ea info M68K_INS_ANDI 1 imm }"

definition d68000_andi_16 :: "m68k_info \<Rightarrow> m68k_info option" where
  "d68000_andi_16 info = do {
       (imm, info) \<leftarrow> read_imm_16 info;
       build_imm_ea info M68K_INS_ANDI 2 imm }"

definition d68000_andi_32 :: "m68k_info \<Rightarrow> m68k_info option" where
  "d68000_andi_32 info = do {
       (imm, info) \<leftarrow> read_imm_32 info;
       build_imm_ea info M68K_INS_ANDI 4 imm }"

definition d68000_andi_to_ccr :: "m68k_info \<Rightarrow> m68k_info option" where
  "d68000_andi_to_ccr info = do {
       (imm, info) \<leftarrow> read_imm_8 info;
       build_imm_special_reg info M68K_INS_ANDI imm 1 M68K_REG_CCR }"

definition d68000_andi_to_sr :: "m68k_info \<Rightarrow> m68k_info option" where
  "d68000_andi_to_sr info = do {
       (imm, info) \<leftarrow> read_imm_16 info;
       build_imm_special_reg info M68K_INS_ANDI imm 2 M68K_REG_SR }"

definition d68000_asr_s_8 :: "m68k_info \<Rightarrow> m68k_info option" where
  "d68000_asr_s_8 info = build_3bit_d info M68K_INS_ASR 1"

definition d68000_asr_s_16 :: "m68k_info \<Rightarrow> m68k_info option" where
  "d68000_asr_s_16 info = build_3bit_d info M68K_INS_ASR 2"

definition d68000_asr_s_32 :: "m68k_info \<Rightarrow> m68k_info option" where
  "d68000_asr_s_32 info = build_3bit_d info M68K_INS_ASR 4"

definition d68000_asr_r_8 :: "m68k_info \<Rightarrow> m68k_info option" where
  "d68000_asr_r_8 info = build_r info M68K_INS_ASR 1"

definition d68000_asr_r_16 :: "m68k_info \<Rightarrow> m68k_info option" where
  "d68000_asr_r_16 info = build_r info M68K_INS_ASR 2"

definition d68000_asr_r_32 :: "m68k_info \<Rightarrow> m68k_info option" where
  "d68000_asr_r_32 info = build_r info M68K_INS_ASR 4"

definition d68000_asr_ea :: "m68k_info \<Rightarrow> m68k_info option" where
  "d68000_asr_ea info = build_ea info M68K_INS_ASR 2"

definition d68000_asl_s_8 :: "m68k_info \<Rightarrow> m68k_info option" where
  "d68000_asl_s_8 info = build_3bit_d info M68K_INS_ASL 1"

definition d68000_asl_s_16 :: "m68k_info \<Rightarrow> m68k_info option" where
  "d68000_asl_s_16 info = build_3bit_d info M68K_INS_ASL 2"

definition d68000_asl_s_32 :: "m68k_info \<Rightarrow> m68k_info option" where
  "d68000_asl_s_32 info = build_3bit_d info M68K_INS_ASL 4"

definition d68000_asl_r_8 :: "m68k_info \<Rightarrow> m68k_info option" where
  "d68000_asl_r_8 info = build_r info M68K_INS_ASL 1"

definition d68000_asl_r_16 :: "m68k_info \<Rightarrow> m68k_info option" where
  "d68000_asl_r_16 info = build_r info M68K_INS_ASL 2"

definition d68000_asl_r_32 :: "m68k_info \<Rightarrow> m68k_info option" where
  "d68000_asl_r_32 info = build_r info M68K_INS_ASL 4"

definition d68000_asl_ea :: "m68k_info \<Rightarrow> m68k_info option" where
  "d68000_asl_ea info = build_ea info M68K_INS_ASL 2"

definition d68000_bcc_8 :: "m68k_info \<Rightarrow> m68k_info option" where
  "d68000_bcc_8 info = build_bcc info 1 (make_int_8 (mk_ir info))"

definition d68000_bcc_16 :: "m68k_info \<Rightarrow> m68k_info option" where
  "d68000_bcc_16 info = do {
       (imm, info) \<leftarrow> read_imm_16 info;
       build_bcc info 2 (make_int_16 imm) }"

definition d68020_bcc_32 :: "m68k_info \<Rightarrow> m68k_info option" where
  "d68020_bcc_32 info = LIMIT_CPU_TYPES info M68020_PLUS (\<lambda>info.
       do {
         (imm, info) \<leftarrow> read_imm_32 info;
         build_bcc info 4 imm })"

definition d68000_bchg_r :: "m68k_info \<Rightarrow> m68k_info option" where
  "d68000_bchg_r info = build_re_1 info M68K_INS_BCHG 1"

definition d68000_bchg_s :: "m68k_info \<Rightarrow> m68k_info option" where
  "d68000_bchg_s info = do {
       (imm, info) \<leftarrow> read_imm_8 info;
       build_imm_ea info M68K_INS_BCHG 1 imm }"

definition d68000_bclr_r :: "m68k_info \<Rightarrow> m68k_info option" where
  "d68000_bclr_r info = build_re_1 info M68K_INS_BCLR 1"

definition d68000_bclr_s :: "m68k_info \<Rightarrow> m68k_info option" where
  "d68000_bclr_s info = do {
       (imm, info) \<leftarrow> read_imm_8 info;
       build_imm_ea info M68K_INS_BCLR 1 imm }"

definition d68010_bkpt :: "m68k_info \<Rightarrow> m68k_info option" where
  "d68010_bkpt info = LIMIT_CPU_TYPES info M68010_PLUS (\<lambda>info.
       build_absolute_jump_with_immediate info M68K_INS_BKPT 0 (mk_ir info AND 7))"

definition d68020_bfchg :: "m68k_info \<Rightarrow> m68k_info option" where
  "d68020_bfchg info = LIMIT_CPU_TYPES info M68020_PLUS (\<lambda>info.
       build_bitfield_ins info M68K_INS_BFCHG False)"

definition d68020_bfclr :: "m68k_info \<Rightarrow> m68k_info option" where
  "d68020_bfclr info = LIMIT_CPU_TYPES info M68020_PLUS (\<lambda>info.
       build_bitfield_ins info M68K_INS_BFCLR False)"

definition d68020_bfexts :: "m68k_info \<Rightarrow> m68k_info option" where
  "d68020_bfexts info = LIMIT_CPU_TYPES info M68020_PLUS (\<lambda>info.
       build_bitfield_ins info M68K_INS_BFEXTS True)"

definition d68020_bfextu :: "m68k_info \<Rightarrow> m68k_info option" where
  "d68020_bfextu info = LIMIT_CPU_TYPES info M68020_PLUS (\<lambda>info.
       build_bitfield_ins info M68K_INS_BFEXTU True)"

definition d68020_bfffo :: "m68k_info \<Rightarrow> m68k_info option" where
  "d68020_bfffo info = LIMIT_CPU_TYPES info M68020_PLUS (\<lambda>info.
       build_bitfield_ins info M68K_INS_BFFFO True)"

text \<open>The operands of \<^verbatim>\<open>bfins\<close> are exchanged.\<close>
definition d68020_bfins :: "m68k_info \<Rightarrow> m68k_info option" where
  "d68020_bfins info = LIMIT_CPU_TYPES info M68020_PLUS (\<lambda>info. do {
     info \<leftarrow> build_bitfield_ins info M68K_INS_BFINS True;
     let op0 = op_at info 0;
     let op1 = op_at info 1;
     Some (on_op 1 (\<lambda>_. op0) (on_op 0 (\<lambda>_. op1) info)) })"

definition d68020_bfset :: "m68k_info \<Rightarrow> m68k_info option" where
  "d68020_bfset info = LIMIT_CPU_TYPES info M68020_PLUS (\<lambda>info.
       build_bitfield_ins info M68K_INS_BFSET False)"

definition d68020_bftst :: "m68k_info \<Rightarrow> m68k_info option" where
  "d68020_bftst info = build_bitfield_ins info M68K_INS_BFTST False"

definition d68000_bra_8 :: "m68k_info \<Rightarrow> m68k_info option" where
  "d68000_bra_8 info = build_relative_branch info M68K_INS_BRA 1 (make_int_8 (mk_ir info))"

definition d68000_bra_16 :: "m68k_info \<Rightarrow> m68k_info option" where
  "d68000_bra_16 info = do {
       (imm, info) \<leftarrow> read_imm_16 info;
       build_relative_branch info M68K_INS_BRA 2 (make_int_16 imm) }"

definition d68020_bra_32 :: "m68k_info \<Rightarrow> m68k_info option" where
  "d68020_bra_32 info = LIMIT_CPU_TYPES info M68020_PLUS (\<lambda>info.
       do {
         (imm, info) \<leftarrow> read_imm_32 info;
         build_relative_branch info M68K_INS_BRA 4 imm })"

definition d68000_bset_r :: "m68k_info \<Rightarrow> m68k_info option" where
  "d68000_bset_r info = build_re_1 info M68K_INS_BSET 1"

definition d68000_bset_s :: "m68k_info \<Rightarrow> m68k_info option" where
  "d68000_bset_s info = do {
       (imm, info) \<leftarrow> read_imm_8 info;
       build_imm_ea info M68K_INS_BSET 1 imm }"

definition d68000_bsr_8 :: "m68k_info \<Rightarrow> m68k_info option" where
  "d68000_bsr_8 info = build_relative_branch info M68K_INS_BSR 1 (make_int_8 (mk_ir info))"

definition d68000_bsr_16 :: "m68k_info \<Rightarrow> m68k_info option" where
  "d68000_bsr_16 info = do {
       (imm, info) \<leftarrow> read_imm_16 info;
       build_relative_branch info M68K_INS_BSR 2 (make_int_16 imm) }"

definition d68020_bsr_32 :: "m68k_info \<Rightarrow> m68k_info option" where
  "d68020_bsr_32 info = LIMIT_CPU_TYPES info M68020_PLUS (\<lambda>info.
       do {
         imm \<leftarrow> peek_imm_32 info;
         build_relative_branch info M68K_INS_BSR 4 imm })"

definition d68000_btst_r :: "m68k_info \<Rightarrow> m68k_info option" where
  "d68000_btst_r info = build_re_1 info M68K_INS_BTST 4"

definition d68000_btst_s :: "m68k_info \<Rightarrow> m68k_info option" where
  "d68000_btst_s info = do {
       (imm, info) \<leftarrow> read_imm_8 info;
       build_imm_ea info M68K_INS_BTST 1 imm }"

definition d68020_callm :: "m68k_info \<Rightarrow> m68k_info option" where
  "d68020_callm info = LIMIT_CPU_TYPES info M68020_ONLY (\<lambda>info.
       do {
         (imm, info) \<leftarrow> read_imm_8 info;
         build_imm_ea info M68K_INS_CALLM 0 imm })"

definition d68020_cas_8 :: "m68k_info \<Rightarrow> m68k_info option" where
  "d68020_cas_8 info = LIMIT_CPU_TYPES info M68020_PLUS (\<lambda>info.
       build_d_d_ea info M68K_INS_CAS 1)"

definition d68020_cas_16 :: "m68k_info \<Rightarrow> m68k_info option" where
  "d68020_cas_16 info = LIMIT_CPU_TYPES info M68020_PLUS (\<lambda>info.
       build_d_d_ea info M68K_INS_CAS 2)"

definition d68020_cas_32 :: "m68k_info \<Rightarrow> m68k_info option" where
  "d68020_cas_32 info = LIMIT_CPU_TYPES info M68020_PLUS (\<lambda>info.
       build_d_d_ea info M68K_INS_CAS 4)"

definition d68020_cas2_16 :: "instruction_table \<Rightarrow> m68k_info \<Rightarrow> m68k_info option" where
  "d68020_cas2_16 tab info = build_cas2 tab info 2"

definition d68020_cas2_32 :: "instruction_table \<Rightarrow> m68k_info \<Rightarrow> m68k_info option" where
  "d68020_cas2_32 tab info = build_cas2 tab info 4"

definition d68000_chk_16 :: "m68k_info \<Rightarrow> m68k_info option" where
  "d68000_chk_16 info = build_er_1 info M68K_INS_CHK 2"

definition d68020_chk_32 :: "m68k_info \<Rightarrow> m68k_info option" where
  "d68020_chk_32 info = LIMIT_CPU_TYPES info M68020_PLUS (\<lambda>info.
       build_er_1 info M68K_INS_CHK 4)"

definition d68020_chk2_cmp2_8 :: "m68k_info \<Rightarrow> m68k_info option" where
  "d68020_chk2_cmp2_8 info = LIMIT_CPU_TYPES info M68020_PLUS (\<lambda>info.
       build_chk2_cmp2 info 1)"

definition d68020_chk2_cmp2_16 :: "m68k_info \<Rightarrow> m68k_info option" where
  "d68020_chk2_cmp2_16 info = LIMIT_CPU_TYPES info M68020_PLUS (\<lambda>info.
       build_chk2_cmp2 info 2)"

definition d68020_chk2_cmp2_32 :: "m68k_info \<Rightarrow> m68k_info option" where
  "d68020_chk2_cmp2_32 info = LIMIT_CPU_TYPES info M68020_PLUS (\<lambda>info.
       build_chk2_cmp2 info 4)"

definition d68040_cinv :: "m68k_info \<Rightarrow> m68k_info option" where
  "d68040_cinv info = LIMIT_CPU_TYPES info M68040_PLUS (\<lambda>info.
       build_cpush_cinv info M68K_INS_CINVL)"

definition d68000_clr_8 :: "m68k_info \<Rightarrow> m68k_info option" where
  "d68000_clr_8 info = build_ea info M68K_INS_CLR 1"

definition d68000_clr_16 :: "m68k_info \<Rightarrow> m68k_info option" where
  "d68000_clr_16 info = build_ea info M68K_INS_CLR 2"

definition d68000_clr_32 :: "m68k_info \<Rightarrow> m68k_info option" where
  "d68000_clr_32 info = build_ea info M68K_INS_CLR 4"

definition d68000_cmp_8 :: "m68k_info \<Rightarrow> m68k_info option" where
  "d68000_cmp_8 info = build_er_1 info M68K_INS_CMP 1"

definition d68000_cmp_16 :: "m68k_info \<Rightarrow> m68k_info option" where
  "d68000_cmp_16 info = build_er_1 info M68K_INS_CMP 2"

definition d68000_cmp_32 :: "m68k_info \<Rightarrow> m68k_info option" where
  "d68000_cmp_32 info = build_er_1 info M68K_INS_CMP 4"

definition d68000_cmpa_16 :: "m68k_info \<Rightarrow> m68k_info option" where
  "d68000_cmpa_16 info = build_ea_a info M68K_INS_CMPA 2"

definition d68000_cmpa_32 :: "m68k_info \<Rightarrow> m68k_info option" where
  "d68000_cmpa_32 info = build_ea_a info M68K_INS_CMPA 4"

definition d68000_cmpi_8 :: "m68k_info \<Rightarrow> m68k_info option" where
  "d68000_cmpi_8 info = do {
       (imm, info) \<leftarrow> read_imm_8 info;
       build_imm_ea info M68K_INS_CMPI 1 imm }"

definition d68020_cmpi_pcdi_8 :: "m68k_info \<Rightarrow> m68k_info option" where
  "d68020_cmpi_pcdi_8 info = LIMIT_CPU_TYPES info M68010_PLUS (\<lambda>info.
       do {
         (imm, info) \<leftarrow> read_imm_8 info;
         build_imm_ea info M68K_INS_CMPI 1 imm })"

definition d68020_cmpi_pcix_8 :: "m68k_info \<Rightarrow> m68k_info option" where
  "d68020_cmpi_pcix_8 info = LIMIT_CPU_TYPES info M68010_PLUS (\<lambda>info.
       do {
         (imm, info) \<leftarrow> read_imm_8 info;
         build_imm_ea info M68K_INS_CMPI 1 imm })"

definition d68000_cmpi_16 :: "m68k_info \<Rightarrow> m68k_info option" where
  "d68000_cmpi_16 info = do {
       (imm, info) \<leftarrow> read_imm_16 info;
       build_imm_ea info M68K_INS_CMPI 2 imm }"

definition d68020_cmpi_pcdi_16 :: "m68k_info \<Rightarrow> m68k_info option" where
  "d68020_cmpi_pcdi_16 info = LIMIT_CPU_TYPES info M68010_PLUS (\<lambda>info.
       do {
         (imm, info) \<leftarrow> read_imm_16 info;
         build_imm_ea info M68K_INS_CMPI 2 imm })"

definition d68020_cmpi_pcix_16 :: "m68k_info \<Rightarrow> m68k_info option" where
  "d68020_cmpi_pcix_16 info = LIMIT_CPU_TYPES info M68010_PLUS (\<lambda>info.
       do {
         (imm, info) \<leftarrow> read_imm_16 info;
         build_imm_ea info M68K_INS_CMPI 2 imm })"

definition d68000_cmpi_32 :: "m68k_info \<Rightarrow> m68k_info option" where
  "d68000_cmpi_32 info = do {
       (imm, info) \<leftarrow> read_imm_32 info;
       build_imm_ea info M68K_INS_CMPI 4 imm }"

definition d68020_cmpi_pcdi_32 :: "m68k_info \<Rightarrow> m68k_info option" where
  "d68020_cmpi_pcdi_32 info = LIMIT_CPU_TYPES info M68010_PLUS (\<lambda>info.
       do {
         (imm, info) \<leftarrow> read_imm_32 info;
         build_imm_ea info M68K_INS_CMPI 4 imm })"

definition d68020_cmpi_pcix_32 :: "m68k_info \<Rightarrow> m68k_info option" where
  "d68020_cmpi_pcix_32 info = LIMIT_CPU_TYPES info M68010_PLUS (\<lambda>info.
       do {
         (imm, info) \<leftarrow> read_imm_32 info;
         build_imm_ea info M68K_INS_CMPI 4 imm })"

definition d68000_cmpm_8 :: "m68k_info \<Rightarrow> m68k_info option" where
  "d68000_cmpm_8 info = build_pi_pi info M68K_INS_CMPM 1"

definition d68000_cmpm_16 :: "m68k_info \<Rightarrow> m68k_info option" where
  "d68000_cmpm_16 info = build_pi_pi info M68K_INS_CMPM 2"

definition d68000_cmpm_32 :: "m68k_info \<Rightarrow> m68k_info option" where
  "d68000_cmpm_32 info = build_pi_pi info M68K_INS_CMPM 4"

definition make_cpbcc_operand :: "m68k_info \<Rightarrow> nat \<Rightarrow> u8 \<Rightarrow> u32 \<Rightarrow> m68k_info" where
  "make_cpbcc_operand info i sz displacement = on_op i (as_branch displacement sz) info"

definition d68020_cpbcc_16 :: "m68k_info \<Rightarrow> m68k_info option" where
  "d68020_cpbcc_16 info = LIMIT_CPU_TYPES info M68020_PLUS (\<lambda>info. do {
     let info = add_opcode (mk_ir info AND 0x2f) info;
     let info = build_init_op info M68K_INS_FBF 1 2;
     (imm, info) \<leftarrow> read_imm_16 info;
     let info = make_cpbcc_operand info 0 M68K_OP_BR_DISP_SIZE_WORD (make_int_16 imm);
     jump_groups info })"

definition d68020_cpbcc_32 :: "m68k_info \<Rightarrow> m68k_info option" where
  "d68020_cpbcc_32 info = LIMIT_CPU_TYPES info M68020_PLUS (\<lambda>info. LIMIT_CPU_TYPES info M68020_PLUS (\<lambda>info. do {
     let info = add_opcode (mk_ir info AND 0x2f) info;
     let info = build_init_op info M68K_INS_FBF 1 4;
     (imm, info) \<leftarrow> read_imm_32 info;
     let info = make_cpbcc_operand info 0 M68K_OP_BR_DISP_SIZE_LONG imm;
     jump_groups info }))"

definition d68020_cpdbcc :: "m68k_info \<Rightarrow> m68k_info option" where
  "d68020_cpdbcc info = LIMIT_CPU_TYPES info M68020_PLUS (\<lambda>info. do {
     (ext1, info) \<leftarrow> read_imm_16 info;
     (ext2, info) \<leftarrow> read_imm_16 info;
     let info = add_opcode (ext1 AND 0x2f) info;
     let info = build_init_op info M68K_INS_FDBF 2 0;
     let info = on_op 0 (set_reg (D_reg (mk_ir info) 0)) info;
     let info = make_cpbcc_operand info 1 M68K_OP_BR_DISP_SIZE_WORD (make_int_16 ext2 + 2);
     jump_groups info })"

definition fmove_fpcr :: "m68k_info \<Rightarrow> u32 \<Rightarrow> m68k_info option" where
  "fmove_fpcr info extension = do {
     let regsel = drop_bit 10 extension AND 7;
     let dir = drop_bit 13 extension AND 1;
     let info = build_init_op info M68K_INS_FMOVE 2 4;
     let (special, op_ea) = (if dir = 0 then (1, 0) else (0, 1));
     info \<leftarrow> get_ea_mode_op info op_ea (mk_ir info) 4;
     Some (if regsel AND 4 \<noteq> 0 then on_op special (set_reg M68K_REG_FPCR) info
       else if regsel AND 2 \<noteq> 0 then on_op special (set_reg M68K_REG_FPSR) info
       else if regsel AND 1 \<noteq> 0 then on_op special (set_reg M68K_REG_FPIAR) info
       else info) }"

definition fmovem :: "m68k_info \<Rightarrow> u32 \<Rightarrow> m68k_info option" where
  "fmovem info extension = do {
     let dir = drop_bit 13 extension AND 1;
     let mode = drop_bit 11 extension AND 3;
     let reglist = extension AND 0xff;
     let info = build_init_op info M68K_INS_FMOVEM 2 0;
     let (op_reglist, op_ea) = (if dir = 0 then (1, 0) else (0, 1));
     info \<leftarrow> get_ea_mode_op info op_ea (mk_ir info) 0;
     Some (if mode = 1 then on_op op_reglist (set_reg (D_reg reglist 4)) info
       else if mode = 0 then on_op op_reglist (\<lambda>op. (as_bits (push_bit 16 reglist) op)\<lparr>ko_address_mode := M68K_AM_NONE\<rparr>) info
       else if mode = 2 then on_op op_reglist (\<lambda>op. (as_bits (push_bit 16 (ucast (reverse_bits_8 reglist))) op)\<lparr>ko_address_mode := M68K_AM_NONE\<rparr>) info
       else info) }"

text \<open>The opcodes of the coprocessor: the instruction, and whether one operand may stand for two equal ones.\<close>
definition fpu_opmodes :: "(u32 \<times> u32 \<times> bool) list" where
  "fpu_opmodes = [
     (0x00, M68K_INS_FMOVE, False), (0x01, M68K_INS_FINT, True), (0x02, M68K_INS_FSINH, True),
     (0x03, M68K_INS_FINTRZ, True), (0x04, M68K_INS_FSQRT, True), (0x06, M68K_INS_FLOGNP1, True),
     (0x08, M68K_INS_FETOXM1, True), (0x09, M68K_INS_FATANH, True), (0x0a, M68K_INS_FATAN, True),
     (0x0c, M68K_INS_FASIN, True), (0x0d, M68K_INS_FATANH, True), (0x0e, M68K_INS_FSIN, True),
     (0x0f, M68K_INS_FTAN, True), (0x10, M68K_INS_FETOX, True), (0x11, M68K_INS_FTWOTOX, True),
     (0x12, M68K_INS_FTENTOX, True), (0x14, M68K_INS_FLOGN, True), (0x15, M68K_INS_FLOG10, True),
     (0x16, M68K_INS_FLOG2, True), (0x18, M68K_INS_FABS, True), (0x19, M68K_INS_FCOSH, True),
     (0x1a, M68K_INS_FNEG, True), (0x1c, M68K_INS_FACOS, True), (0x1d, M68K_INS_FCOS, True),
     (0x1e, M68K_INS_FGETEXP, True), (0x1f, M68K_INS_FGETMAN, True), (0x20, M68K_INS_FDIV, False),
     (0x21, M68K_INS_FMOD, False), (0x22, M68K_INS_FADD, False), (0x23, M68K_INS_FMUL, False),
     (0x24, M68K_INS_FSGLDIV, False), (0x25, M68K_INS_FREM, True), (0x26, M68K_INS_FSCALE, True),
     (0x27, M68K_INS_FSGLMUL, True), (0x28, M68K_INS_FSUB, False), (0x38, M68K_INS_FCMP, False),
     (0x3a, M68K_INS_FTST, True)]"

definition cpgen_source :: "m68k_info \<Rightarrow> nat \<Rightarrow> u32 \<Rightarrow> m68k_info option" where
  "cpgen_source info op0 src =
     (if src = 0 then get_ea_mode_op (set_op_size M68K_SIZE_TYPE_CPU M68K_CPU_SIZE_LONG info) op0 (mk_ir info) 4
      else if src = 6 then get_ea_mode_op (set_op_size M68K_SIZE_TYPE_CPU M68K_CPU_SIZE_BYTE info) op0 (mk_ir info) 1
      else if src = 4 then get_ea_mode_op (set_op_size M68K_SIZE_TYPE_CPU M68K_CPU_SIZE_WORD info) op0 (mk_ir info) 2
      else if src = 1 then do {
        info \<leftarrow> get_ea_mode_op (set_op_size M68K_SIZE_TYPE_FPU M68K_FPU_SIZE_SINGLE info) op0 (mk_ir info) 4;
        Some (on_op op0 (\<lambda>op. op\<lparr>ko_type := M68K_OP_FP_SINGLE\<rparr>) info) }
      else if src = 5 then do {
        info \<leftarrow> get_ea_mode_op (set_op_size M68K_SIZE_TYPE_FPU M68K_FPU_SIZE_DOUBLE info) op0 (mk_ir info) 8;
        Some (on_op op0 (\<lambda>op. op\<lparr>ko_type := M68K_OP_FP_DOUBLE\<rparr>) info) }
      else Some (set_op_size M68K_SIZE_TYPE_FPU M68K_FPU_SIZE_EXTENDED info))"

text \<open>The part of \<^verbatim>\<open>d68020_cpgen\<close> after the moves of constants, control registers and lists.\<close>
definition cpgen_arith :: "m68k_info \<Rightarrow> u32 \<Rightarrow> m68k_info option" where
  "cpgen_arith info next' = do {
     let rm = drop_bit 14 next' AND 1;
     let src = drop_bit 10 next' AND 7;
     let dst = drop_bit 7 next' AND 7;
     let double = drop_bit 6 next' AND 1 \<noteq> 0;
     let opmode = (if double then (next' AND 0x3f) AND NOT 4 else next' AND 0x3f);
     let (info, single) = (case map_of fpu_opmodes opmode of
         None \<Rightarrow> (info, True) | Some (opcode, single) \<Rightarrow> (set_opcode opcode info, single));
     let info = (if double then add_opcode (if drop_bit 2 next' AND 1 \<noteq> 0 then 2 else 1) info else info);
     let info = set_op_size M68K_SIZE_TYPE_CPU 0 (set_op_count 2 info);
     let (op0, op1) = (if opmode = 0 \<and> drop_bit 13 next' AND 1 \<noteq> 0 then (1, 0) else (0, 1));
     if rm = 0 \<and> single \<and> src = dst then Some (on_op op0 (set_reg (FP_reg dst)) (set_op_count 1 info))
     else do {
       info \<leftarrow> (if rm = 1 then cpgen_source info op0 src else Some (on_op op0 (set_reg (FP_reg src)) info));
       Some (on_op op1 (set_reg (FP_reg dst)) info) } }"

definition d68020_cpgen :: "m68k_info \<Rightarrow> m68k_info option" where
  "d68020_cpgen info = LIMIT_CPU_TYPES info M68020_PLUS (\<lambda>info. do {
     (next', info) \<leftarrow> read_imm_16 info;
     if mk_ir info AND 0x3f = 0 \<and> drop_bit 10 (next' AND 0xfc00) = 0x17 then do {
       let info = build_init_op info M68K_INS_FMOVECR 2 0;
       let info = on_op 0 (as_imm (ucast (next' AND 0x3f))) info;
       Some (on_op 1 (set_reg (FP_reg (drop_bit 7 next' AND 7))) info) }
     else do {
       let move = drop_bit 13 next' AND 7;
       if move = 4 \<or> move = 5 then fmove_fpcr info next'
       else if move = 6 \<or> move = 7 then fmovem info next'
       else cpgen_arith info next' } })"

definition d68020_cprestore :: "m68k_info \<Rightarrow> m68k_info option" where
  "d68020_cprestore info = LIMIT_CPU_TYPES info M68020_PLUS (\<lambda>info. do {
     let info = build_init_op info M68K_INS_FRESTORE 1 0;
     get_ea_mode_op info 0 (mk_ir info) 1 })"

definition d68020_cpsave :: "m68k_info \<Rightarrow> m68k_info option" where
  "d68020_cpsave info = LIMIT_CPU_TYPES info M68020_PLUS (\<lambda>info. do {
     let info = build_init_op info M68K_INS_FSAVE 1 0;
     get_ea_mode_op info 0 (mk_ir info) 1 })"

definition d68020_cpscc :: "m68k_info \<Rightarrow> m68k_info option" where
  "d68020_cpscc info = LIMIT_CPU_TYPES info M68020_PLUS (\<lambda>info. do {
     let info = build_init_op info M68K_INS_FSF 1 1;
     (imm, info) \<leftarrow> read_imm_16 info;
     let info = add_opcode (imm AND 0x2f) info;
     get_ea_mode_op info 0 (mk_ir info) 1 })"

definition d68020_cptrapcc_0 :: "m68k_info \<Rightarrow> m68k_info option" where
  "d68020_cptrapcc_0 info = LIMIT_CPU_TYPES info M68020_PLUS (\<lambda>info. do {
     (extension1, info) \<leftarrow> read_imm_16 info;
     let info = build_init_op info M68K_INS_FTRAPF 0 0;
     Some (add_opcode (extension1 AND 0x2f) info) })"

definition d68020_cptrapcc_16 :: "m68k_info \<Rightarrow> m68k_info option" where
  "d68020_cptrapcc_16 info = LIMIT_CPU_TYPES info M68020_PLUS (\<lambda>info. do {
     (extension1, info) \<leftarrow> read_imm_16 info;
     (extension2, info) \<leftarrow> read_imm_16 info;
     let info = build_init_op info M68K_INS_FTRAPF 1 2;
     let info = add_opcode (extension1 AND 0x2f) info;
     Some (on_op 0 (as_imm (ucast extension2)) info) })"

definition d68020_cptrapcc_32 :: "m68k_info \<Rightarrow> m68k_info option" where
  "d68020_cptrapcc_32 info = LIMIT_CPU_TYPES info M68020_PLUS (\<lambda>info. do {
     (extension1, info) \<leftarrow> read_imm_16 info;
     (extension2, info) \<leftarrow> read_imm_32 info;
     let info = build_init_op info M68K_INS_FTRAPF 1 2;
     let info = add_opcode (extension1 AND 0x2f) info;
     Some (on_op 0 (as_imm (ucast extension2)) info) })"

definition d68040_cpush :: "m68k_info \<Rightarrow> m68k_info option" where
  "d68040_cpush info = LIMIT_CPU_TYPES info M68040_PLUS (\<lambda>info.
       build_cpush_cinv info M68K_INS_CPUSHL)"

definition d68000_dbra :: "m68k_info \<Rightarrow> m68k_info option" where
  "d68000_dbra info = do {
       (imm, info) \<leftarrow> read_imm_16 info;
       build_dbxx info M68K_INS_DBRA 0 (make_int_16 imm) }"

definition d68000_dbcc :: "m68k_info \<Rightarrow> m68k_info option" where
  "d68000_dbcc info = do {
       (imm, info) \<leftarrow> read_imm_16 info;
       build_dbcc info 0 (make_int_16 imm) }"

definition d68000_divs :: "m68k_info \<Rightarrow> m68k_info option" where
  "d68000_divs info = build_er_1 info M68K_INS_DIVS 2"

definition d68000_divu :: "m68k_info \<Rightarrow> m68k_info option" where
  "d68000_divu info = build_er_1 info M68K_INS_DIVU 2"

definition d68020_divl :: "m68k_info \<Rightarrow> m68k_info option" where
  "d68020_divl info = LIMIT_CPU_TYPES info M68020_PLUS (\<lambda>info. do {
     (extension, info) \<leftarrow> read_imm_16 info;
     let info = build_init_op info (if extension AND 0x800 \<noteq> 0 then M68K_INS_DIVS else M68K_INS_DIVU) 2 4;
     info \<leftarrow> get_ea_mode_op info 0 (mk_ir info) 4;
     let reg_0 = extension AND 7;
     let reg_1 = drop_bit 12 extension AND 7;
     let info = on_op 1 (as_pair reg_0 reg_1) info;
     Some (if reg_0 = reg_1 \<or> extension AND 0x400 = 0
       then on_op 1 (\<lambda>op. set_reg (M68K_REG_D0 + reg_1) (op\<lparr>ko_type := M68K_OP_REG\<rparr>)) info else info) })"

definition d68000_eor_8 :: "m68k_info \<Rightarrow> m68k_info option" where
  "d68000_eor_8 info = build_re_1 info M68K_INS_EOR 1"

definition d68000_eor_16 :: "m68k_info \<Rightarrow> m68k_info option" where
  "d68000_eor_16 info = build_re_1 info M68K_INS_EOR 2"

definition d68000_eor_32 :: "m68k_info \<Rightarrow> m68k_info option" where
  "d68000_eor_32 info = build_re_1 info M68K_INS_EOR 4"

definition d68000_eori_8 :: "m68k_info \<Rightarrow> m68k_info option" where
  "d68000_eori_8 info = do {
       (imm, info) \<leftarrow> read_imm_8 info;
       build_imm_ea info M68K_INS_EORI 1 imm }"

definition d68000_eori_16 :: "m68k_info \<Rightarrow> m68k_info option" where
  "d68000_eori_16 info = do {
       (imm, info) \<leftarrow> read_imm_16 info;
       build_imm_ea info M68K_INS_EORI 2 imm }"

definition d68000_eori_32 :: "m68k_info \<Rightarrow> m68k_info option" where
  "d68000_eori_32 info = do {
       (imm, info) \<leftarrow> read_imm_32 info;
       build_imm_ea info M68K_INS_EORI 4 imm }"

definition d68000_eori_to_ccr :: "m68k_info \<Rightarrow> m68k_info option" where
  "d68000_eori_to_ccr info = do {
       (imm, info) \<leftarrow> read_imm_8 info;
       build_imm_special_reg info M68K_INS_EORI imm 1 M68K_REG_CCR }"

definition d68000_eori_to_sr :: "m68k_info \<Rightarrow> m68k_info option" where
  "d68000_eori_to_sr info = do {
       (imm, info) \<leftarrow> read_imm_16 info;
       build_imm_special_reg info M68K_INS_EORI imm 2 M68K_REG_SR }"

definition d68000_exg_dd :: "m68k_info \<Rightarrow> m68k_info option" where
  "d68000_exg_dd info = build_r info M68K_INS_EXG 4"

definition d68000_exg_aa :: "m68k_info \<Rightarrow> m68k_info option" where
  "d68000_exg_aa info = do {
     let info = build_init_op info M68K_INS_EXG 2 4;
     let info = on_op 0 (as_reg M68K_AM_NONE (A_reg (mk_ir info) 9)) info;
     Some (on_op 1 (as_reg M68K_AM_NONE (A_reg (mk_ir info) 0)) info) }"

definition d68000_exg_da :: "m68k_info \<Rightarrow> m68k_info option" where
  "d68000_exg_da info = do {
     let info = build_init_op info M68K_INS_EXG 2 4;
     let info = on_op 0 (as_reg M68K_AM_NONE (D_reg (mk_ir info) 9)) info;
     Some (on_op 1 (as_reg M68K_AM_NONE (A_reg (mk_ir info) 0)) info) }"

definition d68000_ext_16 :: "m68k_info \<Rightarrow> m68k_info option" where
  "d68000_ext_16 info = build_d info M68K_INS_EXT 2"

definition d68000_ext_32 :: "m68k_info \<Rightarrow> m68k_info option" where
  "d68000_ext_32 info = build_d info M68K_INS_EXT 4"

definition d68020_extb_32 :: "m68k_info \<Rightarrow> m68k_info option" where
  "d68020_extb_32 info = LIMIT_CPU_TYPES info M68020_PLUS (\<lambda>info.
       build_d info M68K_INS_EXTB 4)"

definition d68000_jmp :: "m68k_info \<Rightarrow> m68k_info option" where
  "d68000_jmp info = do {
     let info = build_init_op info M68K_INS_JMP 1 0;
     info \<leftarrow> set_insn_group info M68K_GRP_JUMP;
     get_ea_mode_op info 0 (mk_ir info) 4 }"

definition d68000_jsr :: "m68k_info \<Rightarrow> m68k_info option" where
  "d68000_jsr info = do {
     let info = build_init_op info M68K_INS_JSR 1 0;
     info \<leftarrow> set_insn_group info M68K_GRP_JUMP;
     get_ea_mode_op info 0 (mk_ir info) 4 }"

definition d68000_lea :: "m68k_info \<Rightarrow> m68k_info option" where
  "d68000_lea info = build_ea_a info M68K_INS_LEA 4"

definition d68000_link_16 :: "m68k_info \<Rightarrow> m68k_info option" where
  "d68000_link_16 info = do {
       (imm, info) \<leftarrow> read_imm_16 info;
       build_link info imm 2 }"

definition d68020_link_32 :: "m68k_info \<Rightarrow> m68k_info option" where
  "d68020_link_32 info = LIMIT_CPU_TYPES info M68020_PLUS (\<lambda>info.
       do {
         (imm, info) \<leftarrow> read_imm_32 info;
         build_link info imm 4 })"

definition d68000_lsr_s_8 :: "m68k_info \<Rightarrow> m68k_info option" where
  "d68000_lsr_s_8 info = build_3bit_d info M68K_INS_LSR 1"

definition d68000_lsr_s_16 :: "m68k_info \<Rightarrow> m68k_info option" where
  "d68000_lsr_s_16 info = build_3bit_d info M68K_INS_LSR 2"

definition d68000_lsr_s_32 :: "m68k_info \<Rightarrow> m68k_info option" where
  "d68000_lsr_s_32 info = build_3bit_d info M68K_INS_LSR 4"

definition d68000_lsr_r_8 :: "m68k_info \<Rightarrow> m68k_info option" where
  "d68000_lsr_r_8 info = build_r info M68K_INS_LSR 1"

definition d68000_lsr_r_16 :: "m68k_info \<Rightarrow> m68k_info option" where
  "d68000_lsr_r_16 info = build_r info M68K_INS_LSR 2"

definition d68000_lsr_r_32 :: "m68k_info \<Rightarrow> m68k_info option" where
  "d68000_lsr_r_32 info = build_r info M68K_INS_LSR 4"

definition d68000_lsr_ea :: "m68k_info \<Rightarrow> m68k_info option" where
  "d68000_lsr_ea info = build_ea info M68K_INS_LSR 2"

definition d68000_lsl_s_8 :: "m68k_info \<Rightarrow> m68k_info option" where
  "d68000_lsl_s_8 info = build_3bit_d info M68K_INS_LSL 1"

definition d68000_lsl_s_16 :: "m68k_info \<Rightarrow> m68k_info option" where
  "d68000_lsl_s_16 info = build_3bit_d info M68K_INS_LSL 2"

definition d68000_lsl_s_32 :: "m68k_info \<Rightarrow> m68k_info option" where
  "d68000_lsl_s_32 info = build_3bit_d info M68K_INS_LSL 4"

definition d68000_lsl_r_8 :: "m68k_info \<Rightarrow> m68k_info option" where
  "d68000_lsl_r_8 info = build_r info M68K_INS_LSL 1"

definition d68000_lsl_r_16 :: "m68k_info \<Rightarrow> m68k_info option" where
  "d68000_lsl_r_16 info = build_r info M68K_INS_LSL 2"

definition d68000_lsl_r_32 :: "m68k_info \<Rightarrow> m68k_info option" where
  "d68000_lsl_r_32 info = build_r info M68K_INS_LSL 4"

definition d68000_lsl_ea :: "m68k_info \<Rightarrow> m68k_info option" where
  "d68000_lsl_ea info = build_ea info M68K_INS_LSL 2"

definition d68000_move_8 :: "m68k_info \<Rightarrow> m68k_info option" where
  "d68000_move_8 info = build_ea_ea info M68K_INS_MOVE 1"

definition d68000_move_16 :: "m68k_info \<Rightarrow> m68k_info option" where
  "d68000_move_16 info = build_ea_ea info M68K_INS_MOVE 2"

definition d68000_move_32 :: "m68k_info \<Rightarrow> m68k_info option" where
  "d68000_move_32 info = build_ea_ea info M68K_INS_MOVE 4"

definition d68000_movea_16 :: "m68k_info \<Rightarrow> m68k_info option" where
  "d68000_movea_16 info = build_ea_a info M68K_INS_MOVEA 2"

definition d68000_movea_32 :: "m68k_info \<Rightarrow> m68k_info option" where
  "d68000_movea_32 info = build_ea_a info M68K_INS_MOVEA 4"

definition d68000_move_to_ccr :: "m68k_info \<Rightarrow> m68k_info option" where
  "d68000_move_to_ccr info = do {
     let info = build_init_op info M68K_INS_MOVE 2 2;
     info \<leftarrow> get_ea_mode_op info 0 (mk_ir info) 1;
     Some (on_op 1 (as_reg M68K_AM_NONE M68K_REG_CCR) info) }"

definition d68010_move_fr_ccr :: "m68k_info \<Rightarrow> m68k_info option" where
  "d68010_move_fr_ccr info = LIMIT_CPU_TYPES info M68010_PLUS (\<lambda>info. do {
     let info = build_init_op info M68K_INS_MOVE 2 2;
     let info = on_op 0 (as_reg M68K_AM_NONE M68K_REG_CCR) info;
     get_ea_mode_op info 1 (mk_ir info) 1 })"

definition d68000_move_fr_sr :: "m68k_info \<Rightarrow> m68k_info option" where
  "d68000_move_fr_sr info = do {
     let info = build_init_op info M68K_INS_MOVE 2 2;
     let info = on_op 0 (as_reg M68K_AM_NONE M68K_REG_SR) info;
     get_ea_mode_op info 1 (mk_ir info) 2 }"

definition d68000_move_to_sr :: "m68k_info \<Rightarrow> m68k_info option" where
  "d68000_move_to_sr info = do {
     let info = build_init_op info M68K_INS_MOVE 2 2;
     info \<leftarrow> get_ea_mode_op info 0 (mk_ir info) 2;
     Some (on_op 1 (as_reg M68K_AM_NONE M68K_REG_SR) info) }"

definition d68000_move_fr_usp :: "m68k_info \<Rightarrow> m68k_info option" where
  "d68000_move_fr_usp info = do {
     let info = build_init_op info M68K_INS_MOVE 2 0;
     let info = on_op 0 (as_reg M68K_AM_NONE M68K_REG_USP) info;
     Some (on_op 1 (as_reg M68K_AM_NONE (A_reg (mk_ir info) 0)) info) }"

definition d68000_move_to_usp :: "m68k_info \<Rightarrow> m68k_info option" where
  "d68000_move_to_usp info = do {
     let info = build_init_op info M68K_INS_MOVE 2 0;
     let info = on_op 0 (as_reg M68K_AM_NONE (A_reg (mk_ir info) 0)) info;
     Some (on_op 1 (as_reg M68K_AM_NONE M68K_REG_USP) info) }"

definition movec_regs :: "(u32 \<times> u32) list" where
  "movec_regs = [(0x000, M68K_REG_SFC), (0x001, M68K_REG_DFC), (0x800, M68K_REG_USP), (0x801, M68K_REG_VBR),
     (0x002, M68K_REG_CACR), (0x802, M68K_REG_CAAR), (0x803, M68K_REG_MSP), (0x804, M68K_REG_ISP),
     (0x003, M68K_REG_TC), (0x004, M68K_REG_ITT0), (0x005, M68K_REG_ITT1), (0x006, M68K_REG_DTT0),
     (0x007, M68K_REG_DTT1), (0x805, M68K_REG_MMUSR), (0x806, M68K_REG_URP), (0x807, M68K_REG_SRP)]"

definition d68010_movec :: "m68k_info \<Rightarrow> m68k_info option" where
  "d68010_movec info = LIMIT_CPU_TYPES info M68010_PLUS (\<lambda>info. do {
     (extension, info) \<leftarrow> read_imm_16 info;
     let info = build_init_op info M68K_INS_MOVEC 2 0;
     let reg = (case map_of movec_regs (extension AND 0xfff) of None \<Rightarrow> M68K_REG_INVALID | Some r \<Rightarrow> r);
     Some (if mk_ir info AND 2 \<noteq> 0
       then on_op 1 (set_reg reg) (on_op 0 (set_reg (DA_reg extension)) info)
       else on_op 1 (set_reg (DA_reg extension)) (on_op 0 (set_reg reg) info)) })"

definition d68000_movem_pd_16 :: "m68k_info \<Rightarrow> m68k_info option" where
  "d68000_movem_pd_16 info = build_movem_re info M68K_INS_MOVEM 2"

definition d68000_movem_pd_32 :: "m68k_info \<Rightarrow> m68k_info option" where
  "d68000_movem_pd_32 info = build_movem_re info M68K_INS_MOVEM 4"

definition d68000_movem_er_16 :: "m68k_info \<Rightarrow> m68k_info option" where
  "d68000_movem_er_16 info = build_movem_er info M68K_INS_MOVEM 2"

definition d68000_movem_er_32 :: "m68k_info \<Rightarrow> m68k_info option" where
  "d68000_movem_er_32 info = build_movem_er info M68K_INS_MOVEM 4"

definition d68000_movem_re_16 :: "m68k_info \<Rightarrow> m68k_info option" where
  "d68000_movem_re_16 info = build_movem_re info M68K_INS_MOVEM 2"

definition d68000_movem_re_32 :: "m68k_info \<Rightarrow> m68k_info option" where
  "d68000_movem_re_32 info = build_movem_re info M68K_INS_MOVEM 4"

definition d68000_movep_re_16 :: "m68k_info \<Rightarrow> m68k_info option" where
  "d68000_movep_re_16 info = build_movep_re info 2"

definition d68000_movep_re_32 :: "m68k_info \<Rightarrow> m68k_info option" where
  "d68000_movep_re_32 info = build_movep_re info 4"

definition d68000_movep_er_16 :: "m68k_info \<Rightarrow> m68k_info option" where
  "d68000_movep_er_16 info = build_movep_er info 2"

definition d68000_movep_er_32 :: "m68k_info \<Rightarrow> m68k_info option" where
  "d68000_movep_er_32 info = build_movep_er info 4"

definition d68010_moves_8 :: "m68k_info \<Rightarrow> m68k_info option" where
  "d68010_moves_8 info = LIMIT_CPU_TYPES info M68010_PLUS (\<lambda>info.
       build_moves info 1)"

definition d68010_moves_16 :: "m68k_info \<Rightarrow> m68k_info option" where
  "d68010_moves_16 info = LIMIT_CPU_TYPES info M68010_PLUS (\<lambda>info.
       build_moves info 2)"

definition d68010_moves_32 :: "m68k_info \<Rightarrow> m68k_info option" where
  "d68010_moves_32 info = LIMIT_CPU_TYPES info M68010_PLUS (\<lambda>info.
       build_moves info 4)"

definition d68000_moveq :: "m68k_info \<Rightarrow> m68k_info option" where
  "d68000_moveq info = do {
     let info = build_init_op info M68K_INS_MOVEQ 2 0;
     let info = on_op 0 (as_imm (ucast (mk_ir info AND 0xff))) info;
     Some (on_op 1 (as_reg M68K_AM_REG_DIRECT_DATA (D_reg (mk_ir info) 9)) info) }"

definition d68040_move16_pi_pi :: "m68k_info \<Rightarrow> m68k_info option" where
  "d68040_move16_pi_pi info = do {
     (imm, info) \<leftarrow> read_imm_16 info;
     LIMIT_CPU_TYPES info M68040_PLUS (\<lambda>info.
       build_move16 info (mk_ir info AND 7, drop_bit 12 imm AND 7) (M68K_AM_REGI_ADDR_POST_INC, M68K_AM_REGI_ADDR_POST_INC)) }"

definition d68040_move16_pi_al :: "m68k_info \<Rightarrow> m68k_info option" where
  "d68040_move16_pi_al info = do {
     (imm, info) \<leftarrow> read_imm_32 info;
     LIMIT_CPU_TYPES info M68040_PLUS (\<lambda>info.
       build_move16 info (mk_ir info AND 7, imm) (M68K_AM_REGI_ADDR_POST_INC, M68K_AM_ABSOLUTE_DATA_LONG)) }"

definition d68040_move16_al_pi :: "m68k_info \<Rightarrow> m68k_info option" where
  "d68040_move16_al_pi info = do {
     (imm, info) \<leftarrow> read_imm_32 info;
     LIMIT_CPU_TYPES info M68040_PLUS (\<lambda>info.
       build_move16 info (imm, mk_ir info AND 7) (M68K_AM_ABSOLUTE_DATA_LONG, M68K_AM_REGI_ADDR_POST_INC)) }"

definition d68040_move16_ai_al :: "m68k_info \<Rightarrow> m68k_info option" where
  "d68040_move16_ai_al info = do {
     (imm, info) \<leftarrow> read_imm_32 info;
     LIMIT_CPU_TYPES info M68040_PLUS (\<lambda>info.
       build_move16 info (mk_ir info AND 7, imm) (M68K_AM_REG_DIRECT_ADDR, M68K_AM_ABSOLUTE_DATA_LONG)) }"

definition d68040_move16_al_ai :: "m68k_info \<Rightarrow> m68k_info option" where
  "d68040_move16_al_ai info = do {
     (imm, info) \<leftarrow> read_imm_32 info;
     LIMIT_CPU_TYPES info M68040_PLUS (\<lambda>info.
       build_move16 info (imm, mk_ir info AND 7) (M68K_AM_ABSOLUTE_DATA_LONG, M68K_AM_REG_DIRECT_ADDR)) }"

definition d68000_muls :: "m68k_info \<Rightarrow> m68k_info option" where
  "d68000_muls info = build_er_1 info M68K_INS_MULS 2"

definition d68000_mulu :: "m68k_info \<Rightarrow> m68k_info option" where
  "d68000_mulu info = build_er_1 info M68K_INS_MULU 2"

definition d68020_mull :: "m68k_info \<Rightarrow> m68k_info option" where
  "d68020_mull info = LIMIT_CPU_TYPES info M68020_PLUS (\<lambda>info. do {
     (extension, info) \<leftarrow> read_imm_16 info;
     let info = build_init_op info (if extension AND 0x800 \<noteq> 0 then M68K_INS_MULS else M68K_INS_MULU) 2 4;
     info \<leftarrow> get_ea_mode_op info 0 (mk_ir info) 4;
     let reg_0 = extension AND 7;
     let reg_1 = drop_bit 12 extension AND 7;
     let info = on_op 1 (as_pair reg_0 reg_1) info;
     Some (if extension AND 0x400 = 0
       then on_op 1 (\<lambda>op. set_reg (M68K_REG_D0 + reg_1) (op\<lparr>ko_type := M68K_OP_REG\<rparr>)) info else info) })"

definition d68000_nbcd :: "m68k_info \<Rightarrow> m68k_info option" where
  "d68000_nbcd info = build_ea info M68K_INS_NBCD 1"

definition d68000_neg_8 :: "m68k_info \<Rightarrow> m68k_info option" where
  "d68000_neg_8 info = build_ea info M68K_INS_NEG 1"

definition d68000_neg_16 :: "m68k_info \<Rightarrow> m68k_info option" where
  "d68000_neg_16 info = build_ea info M68K_INS_NEG 2"

definition d68000_neg_32 :: "m68k_info \<Rightarrow> m68k_info option" where
  "d68000_neg_32 info = build_ea info M68K_INS_NEG 4"

definition d68000_negx_8 :: "m68k_info \<Rightarrow> m68k_info option" where
  "d68000_negx_8 info = build_ea info M68K_INS_NEGX 1"

definition d68000_negx_16 :: "m68k_info \<Rightarrow> m68k_info option" where
  "d68000_negx_16 info = build_ea info M68K_INS_NEGX 2"

definition d68000_negx_32 :: "m68k_info \<Rightarrow> m68k_info option" where
  "d68000_negx_32 info = build_ea info M68K_INS_NEGX 4"

definition d68000_nop :: "m68k_info \<Rightarrow> m68k_info option" where
  "d68000_nop info = Some (set_opcode M68K_INS_NOP info)"

definition d68000_not_8 :: "m68k_info \<Rightarrow> m68k_info option" where
  "d68000_not_8 info = build_ea info M68K_INS_NOT 1"

definition d68000_not_16 :: "m68k_info \<Rightarrow> m68k_info option" where
  "d68000_not_16 info = build_ea info M68K_INS_NOT 2"

definition d68000_not_32 :: "m68k_info \<Rightarrow> m68k_info option" where
  "d68000_not_32 info = build_ea info M68K_INS_NOT 4"

definition d68000_or_er_8 :: "m68k_info \<Rightarrow> m68k_info option" where
  "d68000_or_er_8 info = build_er_1 info M68K_INS_OR 1"

definition d68000_or_er_16 :: "m68k_info \<Rightarrow> m68k_info option" where
  "d68000_or_er_16 info = build_er_1 info M68K_INS_OR 2"

definition d68000_or_er_32 :: "m68k_info \<Rightarrow> m68k_info option" where
  "d68000_or_er_32 info = build_er_1 info M68K_INS_OR 4"

definition d68000_or_re_8 :: "m68k_info \<Rightarrow> m68k_info option" where
  "d68000_or_re_8 info = build_re_1 info M68K_INS_OR 1"

definition d68000_or_re_16 :: "m68k_info \<Rightarrow> m68k_info option" where
  "d68000_or_re_16 info = build_re_1 info M68K_INS_OR 2"

definition d68000_or_re_32 :: "m68k_info \<Rightarrow> m68k_info option" where
  "d68000_or_re_32 info = build_re_1 info M68K_INS_OR 4"

definition d68000_ori_8 :: "m68k_info \<Rightarrow> m68k_info option" where
  "d68000_ori_8 info = do {
       (imm, info) \<leftarrow> read_imm_8 info;
       build_imm_ea info M68K_INS_ORI 1 imm }"

definition d68000_ori_16 :: "m68k_info \<Rightarrow> m68k_info option" where
  "d68000_ori_16 info = do {
       (imm, info) \<leftarrow> read_imm_16 info;
       build_imm_ea info M68K_INS_ORI 2 imm }"

definition d68000_ori_32 :: "m68k_info \<Rightarrow> m68k_info option" where
  "d68000_ori_32 info = do {
       (imm, info) \<leftarrow> read_imm_32 info;
       build_imm_ea info M68K_INS_ORI 4 imm }"

definition d68000_ori_to_ccr :: "m68k_info \<Rightarrow> m68k_info option" where
  "d68000_ori_to_ccr info = do {
       (imm, info) \<leftarrow> read_imm_8 info;
       build_imm_special_reg info M68K_INS_ORI imm 1 M68K_REG_CCR }"

definition d68000_ori_to_sr :: "m68k_info \<Rightarrow> m68k_info option" where
  "d68000_ori_to_sr info = do {
       (imm, info) \<leftarrow> read_imm_16 info;
       build_imm_special_reg info M68K_INS_ORI imm 2 M68K_REG_SR }"

definition d68020_pack_rr :: "m68k_info \<Rightarrow> m68k_info option" where
  "d68020_pack_rr info = LIMIT_CPU_TYPES info M68020_PLUS (\<lambda>info.
       do {
         (imm, info) \<leftarrow> read_imm_16 info;
         build_rr info M68K_INS_PACK 0 imm })"

definition d68020_pack_mm :: "m68k_info \<Rightarrow> m68k_info option" where
  "d68020_pack_mm info = LIMIT_CPU_TYPES info M68020_PLUS (\<lambda>info.
       do {
         (imm, info) \<leftarrow> read_imm_16 info;
         build_mm info M68K_INS_PACK 0 imm })"

definition d68000_pea :: "m68k_info \<Rightarrow> m68k_info option" where
  "d68000_pea info = build_ea info M68K_INS_PEA 4"

definition d68000_reset :: "m68k_info \<Rightarrow> m68k_info option" where
  "d68000_reset info = Some (set_opcode M68K_INS_RESET info)"

definition d68000_ror_s_8 :: "m68k_info \<Rightarrow> m68k_info option" where
  "d68000_ror_s_8 info = build_3bit_d info M68K_INS_ROR 1"

definition d68000_ror_s_16 :: "m68k_info \<Rightarrow> m68k_info option" where
  "d68000_ror_s_16 info = build_3bit_d info M68K_INS_ROR 2"

definition d68000_ror_s_32 :: "m68k_info \<Rightarrow> m68k_info option" where
  "d68000_ror_s_32 info = build_3bit_d info M68K_INS_ROR 4"

definition d68000_ror_r_8 :: "m68k_info \<Rightarrow> m68k_info option" where
  "d68000_ror_r_8 info = build_r info M68K_INS_ROR 1"

definition d68000_ror_r_16 :: "m68k_info \<Rightarrow> m68k_info option" where
  "d68000_ror_r_16 info = build_r info M68K_INS_ROR 2"

definition d68000_ror_r_32 :: "m68k_info \<Rightarrow> m68k_info option" where
  "d68000_ror_r_32 info = build_r info M68K_INS_ROR 4"

definition d68000_ror_ea :: "m68k_info \<Rightarrow> m68k_info option" where
  "d68000_ror_ea info = build_ea info M68K_INS_ROR 2"

definition d68000_rol_s_8 :: "m68k_info \<Rightarrow> m68k_info option" where
  "d68000_rol_s_8 info = build_3bit_d info M68K_INS_ROL 1"

definition d68000_rol_s_16 :: "m68k_info \<Rightarrow> m68k_info option" where
  "d68000_rol_s_16 info = build_3bit_d info M68K_INS_ROL 2"

definition d68000_rol_s_32 :: "m68k_info \<Rightarrow> m68k_info option" where
  "d68000_rol_s_32 info = build_3bit_d info M68K_INS_ROL 4"

definition d68000_rol_r_8 :: "m68k_info \<Rightarrow> m68k_info option" where
  "d68000_rol_r_8 info = build_r info M68K_INS_ROL 1"

definition d68000_rol_r_16 :: "m68k_info \<Rightarrow> m68k_info option" where
  "d68000_rol_r_16 info = build_r info M68K_INS_ROL 2"

definition d68000_rol_r_32 :: "m68k_info \<Rightarrow> m68k_info option" where
  "d68000_rol_r_32 info = build_r info M68K_INS_ROL 4"

definition d68000_rol_ea :: "m68k_info \<Rightarrow> m68k_info option" where
  "d68000_rol_ea info = build_ea info M68K_INS_ROL 2"

definition d68000_roxr_s_8 :: "m68k_info \<Rightarrow> m68k_info option" where
  "d68000_roxr_s_8 info = build_3bit_d info M68K_INS_ROXR 1"

definition d68000_roxr_s_16 :: "m68k_info \<Rightarrow> m68k_info option" where
  "d68000_roxr_s_16 info = build_3bit_d info M68K_INS_ROXR 2"

definition d68000_roxr_s_32 :: "m68k_info \<Rightarrow> m68k_info option" where
  "d68000_roxr_s_32 info = build_3bit_d info M68K_INS_ROXR 4"

definition d68000_roxr_r_8 :: "m68k_info \<Rightarrow> m68k_info option" where
  "d68000_roxr_r_8 info = build_3bit_d info M68K_INS_ROXR 4"

definition d68000_roxr_r_16 :: "m68k_info \<Rightarrow> m68k_info option" where
  "d68000_roxr_r_16 info = build_r info M68K_INS_ROXR 2"

definition d68000_roxr_r_32 :: "m68k_info \<Rightarrow> m68k_info option" where
  "d68000_roxr_r_32 info = build_r info M68K_INS_ROXR 4"

definition d68000_roxr_ea :: "m68k_info \<Rightarrow> m68k_info option" where
  "d68000_roxr_ea info = build_ea info M68K_INS_ROXR 2"

definition d68000_roxl_s_8 :: "m68k_info \<Rightarrow> m68k_info option" where
  "d68000_roxl_s_8 info = build_3bit_d info M68K_INS_ROXL 1"

definition d68000_roxl_s_16 :: "m68k_info \<Rightarrow> m68k_info option" where
  "d68000_roxl_s_16 info = build_3bit_d info M68K_INS_ROXL 2"

definition d68000_roxl_s_32 :: "m68k_info \<Rightarrow> m68k_info option" where
  "d68000_roxl_s_32 info = build_3bit_d info M68K_INS_ROXL 4"

definition d68000_roxl_r_8 :: "m68k_info \<Rightarrow> m68k_info option" where
  "d68000_roxl_r_8 info = build_r info M68K_INS_ROXL 1"

definition d68000_roxl_r_16 :: "m68k_info \<Rightarrow> m68k_info option" where
  "d68000_roxl_r_16 info = build_r info M68K_INS_ROXL 2"

definition d68000_roxl_r_32 :: "m68k_info \<Rightarrow> m68k_info option" where
  "d68000_roxl_r_32 info = build_r info M68K_INS_ROXL 4"

definition d68000_roxl_ea :: "m68k_info \<Rightarrow> m68k_info option" where
  "d68000_roxl_ea info = build_ea info M68K_INS_ROXL 2"

definition d68010_rtd :: "m68k_info \<Rightarrow> m68k_info option" where
  "d68010_rtd info = do {
       info \<leftarrow> set_insn_group info M68K_GRP_RET;
       LIMIT_CPU_TYPES info M68010_PLUS (\<lambda>info.
         do {
           (imm, info) \<leftarrow> read_imm_16 info;
           build_absolute_jump_with_immediate info M68K_INS_RTD 0 imm }) }"

definition d68000_rte :: "m68k_info \<Rightarrow> m68k_info option" where
  "d68000_rte info = do {
       info \<leftarrow> set_insn_group info M68K_GRP_IRET;
       Some (set_opcode M68K_INS_RTE info) }"

definition d68020_rtm :: "m68k_info \<Rightarrow> m68k_info option" where
  "d68020_rtm info = do {
     info \<leftarrow> set_insn_group info M68K_GRP_RET;
     LIMIT_CPU_TYPES info M68020_ONLY (\<lambda>info. do {
       info \<leftarrow> build_absolute_jump_with_immediate info M68K_INS_RTM 0 0;
       Some (on_op 0 (\<lambda>op. set_reg (if mk_ir info AND 8 \<noteq> 0 then A_reg (mk_ir info) 0 else D_reg (mk_ir info) 0)
         (op\<lparr>ko_address_mode := M68K_AM_NONE, ko_type := M68K_OP_REG\<rparr>)) info) }) }"

definition d68000_rtr :: "m68k_info \<Rightarrow> m68k_info option" where
  "d68000_rtr info = do {
       info \<leftarrow> set_insn_group info M68K_GRP_RET;
       Some (set_opcode M68K_INS_RTR info) }"

definition d68000_rts :: "m68k_info \<Rightarrow> m68k_info option" where
  "d68000_rts info = do {
       info \<leftarrow> set_insn_group info M68K_GRP_RET;
       Some (set_opcode M68K_INS_RTS info) }"

definition d68000_sbcd_rr :: "m68k_info \<Rightarrow> m68k_info option" where
  "d68000_sbcd_rr info = build_rr info M68K_INS_SBCD 1 0"

definition d68000_sbcd_mm :: "m68k_info \<Rightarrow> m68k_info option" where
  "d68000_sbcd_mm info = do {
       (imm, info) \<leftarrow> read_imm_16 info;
       build_mm info M68K_INS_SBCD 0 imm }"

definition d68000_scc :: "m68k_info \<Rightarrow> m68k_info option" where
  "d68000_scc info = do {
     let info = build_init_op info (s_scc_lut ! condition info) 1 1;
     get_ea_mode_op info 0 (mk_ir info) 1 }"

definition d68000_stop :: "m68k_info \<Rightarrow> m68k_info option" where
  "d68000_stop info = do {
       (imm, info) \<leftarrow> read_imm_16 info;
       build_absolute_jump_with_immediate info M68K_INS_STOP 0 imm }"

definition d68000_sub_er_8 :: "m68k_info \<Rightarrow> m68k_info option" where
  "d68000_sub_er_8 info = build_er_1 info M68K_INS_SUB 1"

definition d68000_sub_er_16 :: "m68k_info \<Rightarrow> m68k_info option" where
  "d68000_sub_er_16 info = build_er_1 info M68K_INS_SUB 2"

definition d68000_sub_er_32 :: "m68k_info \<Rightarrow> m68k_info option" where
  "d68000_sub_er_32 info = build_er_1 info M68K_INS_SUB 4"

definition d68000_sub_re_8 :: "m68k_info \<Rightarrow> m68k_info option" where
  "d68000_sub_re_8 info = build_re_1 info M68K_INS_SUB 1"

definition d68000_sub_re_16 :: "m68k_info \<Rightarrow> m68k_info option" where
  "d68000_sub_re_16 info = build_re_1 info M68K_INS_SUB 2"

definition d68000_sub_re_32 :: "m68k_info \<Rightarrow> m68k_info option" where
  "d68000_sub_re_32 info = build_re_1 info M68K_INS_SUB 4"

definition d68000_suba_16 :: "m68k_info \<Rightarrow> m68k_info option" where
  "d68000_suba_16 info = build_ea_a info M68K_INS_SUBA 2"

definition d68000_suba_32 :: "m68k_info \<Rightarrow> m68k_info option" where
  "d68000_suba_32 info = build_ea_a info M68K_INS_SUBA 4"

definition d68000_subi_8 :: "m68k_info \<Rightarrow> m68k_info option" where
  "d68000_subi_8 info = do {
       (imm, info) \<leftarrow> read_imm_8 info;
       build_imm_ea info M68K_INS_SUBI 1 imm }"

definition d68000_subi_16 :: "m68k_info \<Rightarrow> m68k_info option" where
  "d68000_subi_16 info = do {
       (imm, info) \<leftarrow> read_imm_16 info;
       build_imm_ea info M68K_INS_SUBI 2 imm }"

definition d68000_subi_32 :: "m68k_info \<Rightarrow> m68k_info option" where
  "d68000_subi_32 info = do {
       (imm, info) \<leftarrow> read_imm_32 info;
       build_imm_ea info M68K_INS_SUBI 4 imm }"

definition d68000_subq_8 :: "m68k_info \<Rightarrow> m68k_info option" where
  "d68000_subq_8 info = build_3bit_ea info M68K_INS_SUBQ 1"

definition d68000_subq_16 :: "m68k_info \<Rightarrow> m68k_info option" where
  "d68000_subq_16 info = build_3bit_ea info M68K_INS_SUBQ 2"

definition d68000_subq_32 :: "m68k_info \<Rightarrow> m68k_info option" where
  "d68000_subq_32 info = build_3bit_ea info M68K_INS_SUBQ 4"

definition d68000_subx_rr_8 :: "m68k_info \<Rightarrow> m68k_info option" where
  "d68000_subx_rr_8 info = build_rr info M68K_INS_SUBX 1 0"

definition d68000_subx_rr_16 :: "m68k_info \<Rightarrow> m68k_info option" where
  "d68000_subx_rr_16 info = build_rr info M68K_INS_SUBX 2 0"

definition d68000_subx_rr_32 :: "m68k_info \<Rightarrow> m68k_info option" where
  "d68000_subx_rr_32 info = build_rr info M68K_INS_SUBX 4 0"

definition d68000_subx_mm_8 :: "m68k_info \<Rightarrow> m68k_info option" where
  "d68000_subx_mm_8 info = build_mm info M68K_INS_SUBX 1 0"

definition d68000_subx_mm_16 :: "m68k_info \<Rightarrow> m68k_info option" where
  "d68000_subx_mm_16 info = build_mm info M68K_INS_SUBX 2 0"

definition d68000_subx_mm_32 :: "m68k_info \<Rightarrow> m68k_info option" where
  "d68000_subx_mm_32 info = build_mm info M68K_INS_SUBX 4 0"

definition d68000_swap :: "m68k_info \<Rightarrow> m68k_info option" where
  "d68000_swap info = build_d info M68K_INS_SWAP 0"

definition d68000_tas :: "m68k_info \<Rightarrow> m68k_info option" where
  "d68000_tas info = build_ea info M68K_INS_TAS 1"

definition d68000_trap :: "m68k_info \<Rightarrow> m68k_info option" where
  "d68000_trap info = build_absolute_jump_with_immediate info M68K_INS_TRAP 0 (mk_ir info AND 0xf)"

definition d68020_trapcc_0 :: "m68k_info \<Rightarrow> m68k_info option" where
  "d68020_trapcc_0 info = LIMIT_CPU_TYPES info M68020_PLUS (\<lambda>info. do {
     info \<leftarrow> build_trap info 0 0;
     Some (set_op_count 0 info) })"

definition d68020_trapcc_16 :: "m68k_info \<Rightarrow> m68k_info option" where
  "d68020_trapcc_16 info = LIMIT_CPU_TYPES info M68020_PLUS (\<lambda>info.
       do {
         (imm, info) \<leftarrow> read_imm_16 info;
         build_trap info 2 imm })"

definition d68020_trapcc_32 :: "m68k_info \<Rightarrow> m68k_info option" where
  "d68020_trapcc_32 info = LIMIT_CPU_TYPES info M68020_PLUS (\<lambda>info.
       do {
         (imm, info) \<leftarrow> read_imm_32 info;
         build_trap info 4 imm })"

definition d68000_trapv :: "m68k_info \<Rightarrow> m68k_info option" where
  "d68000_trapv info = Some (set_opcode M68K_INS_TRAPV info)"

definition d68000_tst_8 :: "m68k_info \<Rightarrow> m68k_info option" where
  "d68000_tst_8 info = build_ea info M68K_INS_TST 1"

definition d68020_tst_pcdi_8 :: "m68k_info \<Rightarrow> m68k_info option" where
  "d68020_tst_pcdi_8 info = LIMIT_CPU_TYPES info M68020_PLUS (\<lambda>info.
       build_ea info M68K_INS_TST 1)"

definition d68020_tst_pcix_8 :: "m68k_info \<Rightarrow> m68k_info option" where
  "d68020_tst_pcix_8 info = LIMIT_CPU_TYPES info M68020_PLUS (\<lambda>info.
       build_ea info M68K_INS_TST 1)"

definition d68020_tst_i_8 :: "m68k_info \<Rightarrow> m68k_info option" where
  "d68020_tst_i_8 info = LIMIT_CPU_TYPES info M68020_PLUS (\<lambda>info.
       build_ea info M68K_INS_TST 1)"

definition d68000_tst_16 :: "m68k_info \<Rightarrow> m68k_info option" where
  "d68000_tst_16 info = build_ea info M68K_INS_TST 2"

definition d68020_tst_a_16 :: "m68k_info \<Rightarrow> m68k_info option" where
  "d68020_tst_a_16 info = LIMIT_CPU_TYPES info M68020_PLUS (\<lambda>info.
       build_ea info M68K_INS_TST 2)"

definition d68020_tst_pcdi_16 :: "m68k_info \<Rightarrow> m68k_info option" where
  "d68020_tst_pcdi_16 info = LIMIT_CPU_TYPES info M68020_PLUS (\<lambda>info.
       build_ea info M68K_INS_TST 2)"

definition d68020_tst_pcix_16 :: "m68k_info \<Rightarrow> m68k_info option" where
  "d68020_tst_pcix_16 info = LIMIT_CPU_TYPES info M68020_PLUS (\<lambda>info.
       build_ea info M68K_INS_TST 2)"

definition d68020_tst_i_16 :: "m68k_info \<Rightarrow> m68k_info option" where
  "d68020_tst_i_16 info = LIMIT_CPU_TYPES info M68020_PLUS (\<lambda>info.
       build_ea info M68K_INS_TST 2)"

definition d68000_tst_32 :: "m68k_info \<Rightarrow> m68k_info option" where
  "d68000_tst_32 info = build_ea info M68K_INS_TST 4"

definition d68020_tst_a_32 :: "m68k_info \<Rightarrow> m68k_info option" where
  "d68020_tst_a_32 info = LIMIT_CPU_TYPES info M68020_PLUS (\<lambda>info.
       build_ea info M68K_INS_TST 4)"

definition d68020_tst_pcdi_32 :: "m68k_info \<Rightarrow> m68k_info option" where
  "d68020_tst_pcdi_32 info = LIMIT_CPU_TYPES info M68020_PLUS (\<lambda>info.
       build_ea info M68K_INS_TST 4)"

definition d68020_tst_pcix_32 :: "m68k_info \<Rightarrow> m68k_info option" where
  "d68020_tst_pcix_32 info = LIMIT_CPU_TYPES info M68020_PLUS (\<lambda>info.
       build_ea info M68K_INS_TST 4)"

definition d68020_tst_i_32 :: "m68k_info \<Rightarrow> m68k_info option" where
  "d68020_tst_i_32 info = LIMIT_CPU_TYPES info M68020_PLUS (\<lambda>info.
       build_ea info M68K_INS_TST 4)"

definition d68000_unlk :: "m68k_info \<Rightarrow> m68k_info option" where
  "d68000_unlk info = do {
     let info = build_init_op info M68K_INS_UNLK 1 0;
     Some (on_op 0 (as_reg M68K_AM_REG_DIRECT_ADDR (A_reg (mk_ir info) 0)) info) }"

definition d68020_unpk_rr :: "m68k_info \<Rightarrow> m68k_info option" where
  "d68020_unpk_rr info = LIMIT_CPU_TYPES info M68020_PLUS (\<lambda>info.
       do {
         (imm, info) \<leftarrow> read_imm_16 info;
         build_rr info M68K_INS_UNPK 0 imm })"

definition d68020_unpk_mm :: "m68k_info \<Rightarrow> m68k_info option" where
  "d68020_unpk_mm info = LIMIT_CPU_TYPES info M68020_PLUS (\<lambda>info.
       do {
         (imm, info) \<leftarrow> read_imm_16 info;
         build_mm info M68K_INS_UNPK 0 imm })"

section \<open>Dispatch\<close>

text \<open>
  The functions the pointers stand for, in the order of the numbers; a call of the null pointer is
  undefined.
\<close>

definition opcode_handlers :: "instruction_table \<Rightarrow> (m68k_info \<Rightarrow> m68k_info option) list" where
  "opcode_handlers tab = [d68000_invalid, d68000_1010, d68000_1111, d68000_abcd_rr, d68000_abcd_mm, d68000_add_er_8, d68000_add_er_16,
     d68000_add_er_32, d68000_add_re_8, d68000_add_re_16, d68000_add_re_32, d68000_adda_16, d68000_adda_32,
     d68000_addi_8, d68000_addi_16, d68000_addi_32, d68000_addq_8, d68000_addq_16, d68000_addq_32, d68000_addx_rr_8,
     d68000_addx_rr_16, d68000_addx_rr_32, d68000_addx_mm_8, d68000_addx_mm_16, d68000_addx_mm_32, d68000_and_er_8,
     d68000_and_er_16, d68000_and_er_32, d68000_and_re_8, d68000_and_re_16, d68000_and_re_32, d68000_andi_to_ccr,
     d68000_andi_to_sr, d68000_andi_8, d68000_andi_16, d68000_andi_32, d68000_asr_s_8, d68000_asr_s_16,
     d68000_asr_s_32, d68000_asr_r_8, d68000_asr_r_16, d68000_asr_r_32, d68000_asr_ea, d68000_asl_s_8,
     d68000_asl_s_16, d68000_asl_s_32, d68000_asl_r_8, d68000_asl_r_16, d68000_asl_r_32, d68000_asl_ea,
     d68000_bcc_8, d68000_bcc_16, d68020_bcc_32, d68000_bchg_r, d68000_bchg_s, d68000_bclr_r, d68000_bclr_s,
     d68020_bfchg, d68020_bfclr, d68020_bfexts, d68020_bfextu, d68020_bfffo, d68020_bfins, d68020_bfset,
     d68020_bftst, d68010_bkpt, d68000_bra_8, d68000_bra_16, d68020_bra_32, d68000_bset_r, d68000_bset_s,
     d68000_bsr_8, d68000_bsr_16, d68020_bsr_32, d68000_btst_r, d68000_btst_s, d68020_callm, d68020_cas_8,
     d68020_cas_16, d68020_cas_32, d68020_cas2_16 tab, d68020_cas2_32 tab, d68000_chk_16, d68020_chk_32,
     d68020_chk2_cmp2_8, d68020_chk2_cmp2_16, d68020_chk2_cmp2_32, d68040_cinv, d68000_clr_8, d68000_clr_16,
     d68000_clr_32, d68000_cmp_8, d68000_cmp_16, d68000_cmp_32, d68000_cmpa_16, d68000_cmpa_32, d68000_cmpi_8,
     d68020_cmpi_pcdi_8, d68020_cmpi_pcix_8, d68000_cmpi_16, d68020_cmpi_pcdi_16, d68020_cmpi_pcix_16,
     d68000_cmpi_32, d68020_cmpi_pcdi_32, d68020_cmpi_pcix_32, d68000_cmpm_8, d68000_cmpm_16, d68000_cmpm_32,
     d68020_cpbcc_16, d68020_cpbcc_32, d68020_cpdbcc, d68020_cpgen, d68020_cprestore, d68020_cpsave, d68020_cpscc,
     d68020_cptrapcc_0, d68020_cptrapcc_16, d68020_cptrapcc_32, d68040_cpush, d68000_dbcc, d68000_dbra, d68000_divs,
     d68000_divu, d68020_divl, d68000_eor_8, d68000_eor_16, d68000_eor_32, d68000_eori_to_ccr, d68000_eori_to_sr,
     d68000_eori_8, d68000_eori_16, d68000_eori_32, d68000_exg_dd, d68000_exg_aa, d68000_exg_da, d68020_extb_32,
     d68000_ext_16, d68000_ext_32, d68000_illegal, d68000_jmp, d68000_jsr, d68000_lea, d68000_link_16,
     d68020_link_32, d68000_lsr_s_8, d68000_lsr_s_16, d68000_lsr_s_32, d68000_lsr_r_8, d68000_lsr_r_16,
     d68000_lsr_r_32, d68000_lsr_ea, d68000_lsl_s_8, d68000_lsl_s_16, d68000_lsl_s_32, d68000_lsl_r_8,
     d68000_lsl_r_16, d68000_lsl_r_32, d68000_lsl_ea, d68000_move_8, d68000_move_16, d68000_move_32,
     d68000_movea_16, d68000_movea_32, d68000_move_to_ccr, d68010_move_fr_ccr, d68000_move_to_sr, d68000_move_fr_sr,
     d68000_move_to_usp, d68000_move_fr_usp, d68010_movec, d68000_movem_pd_16, d68000_movem_pd_32,
     d68000_movem_re_16, d68000_movem_re_32, d68000_movem_er_16, d68000_movem_er_32, d68000_movep_er_16,
     d68000_movep_er_32, d68000_movep_re_16, d68000_movep_re_32, d68010_moves_8, d68010_moves_16, d68010_moves_32,
     d68000_moveq, d68040_move16_pi_pi, d68040_move16_pi_al, d68040_move16_al_pi, d68040_move16_ai_al,
     d68040_move16_al_ai, d68000_muls, d68000_mulu, d68020_mull, d68000_nbcd, d68000_neg_8, d68000_neg_16,
     d68000_neg_32, d68000_negx_8, d68000_negx_16, d68000_negx_32, d68000_nop, d68000_not_8, d68000_not_16,
     d68000_not_32, d68000_or_er_8, d68000_or_er_16, d68000_or_er_32, d68000_or_re_8, d68000_or_re_16,
     d68000_or_re_32, d68000_ori_to_ccr, d68000_ori_to_sr, d68000_ori_8, d68000_ori_16, d68000_ori_32,
     d68020_pack_rr, d68020_pack_mm, d68000_pea, d68000_reset, d68000_ror_s_8, d68000_ror_s_16, d68000_ror_s_32,
     d68000_ror_r_8, d68000_ror_r_16, d68000_ror_r_32, d68000_ror_ea, d68000_rol_s_8, d68000_rol_s_16,
     d68000_rol_s_32, d68000_rol_r_8, d68000_rol_r_16, d68000_rol_r_32, d68000_rol_ea, d68000_roxr_s_8,
     d68000_roxr_s_16, d68000_roxr_s_32, d68000_roxr_r_8, d68000_roxr_r_16, d68000_roxr_r_32, d68000_roxr_ea,
     d68000_roxl_s_8, d68000_roxl_s_16, d68000_roxl_s_32, d68000_roxl_r_8, d68000_roxl_r_16, d68000_roxl_r_32,
     d68000_roxl_ea, d68010_rtd, d68000_rte, d68020_rtm, d68000_rtr, d68000_rts, d68000_sbcd_rr, d68000_sbcd_mm,
     d68000_scc, d68000_stop, d68000_sub_er_8, d68000_sub_er_16, d68000_sub_er_32, d68000_sub_re_8,
     d68000_sub_re_16, d68000_sub_re_32, d68000_suba_16, d68000_suba_32, d68000_subi_8, d68000_subi_16,
     d68000_subi_32, d68000_subq_8, d68000_subq_16, d68000_subq_32, d68000_subx_rr_8, d68000_subx_rr_16,
     d68000_subx_rr_32, d68000_subx_mm_8, d68000_subx_mm_16, d68000_subx_mm_32, d68000_swap, d68000_tas,
     d68000_trap, d68020_trapcc_0, d68020_trapcc_16, d68020_trapcc_32, d68000_trapv, d68000_tst_8,
     d68020_tst_pcdi_8, d68020_tst_pcix_8, d68020_tst_i_8, d68000_tst_16, d68020_tst_a_16, d68020_tst_pcdi_16,
     d68020_tst_pcix_16, d68020_tst_i_16, d68000_tst_32, d68020_tst_a_32, d68020_tst_pcdi_32, d68020_tst_pcix_32,
     d68020_tst_i_32, d68000_unlk, d68020_unpk_rr, d68020_unpk_mm]"

definition call_handler :: "instruction_table \<Rightarrow> nat \<Rightarrow> m68k_info \<Rightarrow> m68k_info option" where
  "call_handler tab ptr info = do {
     need (ptr \<noteq> 0);
     f \<leftarrow> aget (opcode_handlers tab) (ptr - 1);
     f info }"

end
