(* ===== verification/M68K_Decode.thy ===== *)
theory M68K_Decode
  imports M68K_Handlers
begin

text \<open>
  The rest of \<^verbatim>\<open>M68KDisassembler.c\<close>: the lists of the registers an instruction reads and
  writes, and the decoding of one instruction. The structure \<^verbatim>\<open>m68k_info\<close>, which a handle
  keeps behind \<^verbatim>\<open>printer_info\<close>, and the static tables are passed and returned.
\<close>

unbundle bit_operations_syntax

section \<open>Register lists\<close>

fun m68k_exists_reg_list :: "u16 list \<Rightarrow> nat \<Rightarrow> u16 \<Rightarrow> bool option" where
  "m68k_exists_reg_list regs 0 reg = Some False"
| "m68k_exists_reg_list [] (Suc n) reg = None"
| "m68k_exists_reg_list (r # regs) (Suc n) reg = (if r = reg then Some True else m68k_exists_reg_list regs n reg)"

definition m68k_add_write :: "u16 \<Rightarrow> m68k_info \<Rightarrow> m68k_info option" where
  "m68k_add_write reg info = do {
     found \<leftarrow> m68k_exists_reg_list (mk_regs_write info) (unat (mk_regs_write_count info)) reg;
     if found then Some info
     else do {
       regs \<leftarrow> aset (mk_regs_write info) (unat (mk_regs_write_count info)) reg;
       Some (info\<lparr>mk_regs_write := regs, mk_regs_write_count := mk_regs_write_count info + 1\<rparr>) } }"

definition m68k_add_read :: "u16 \<Rightarrow> m68k_info \<Rightarrow> m68k_info option" where
  "m68k_add_read reg info = do {
     found \<leftarrow> m68k_exists_reg_list (mk_regs_read info) (unat (mk_regs_read_count info)) reg;
     if found then Some info
     else do {
       regs \<leftarrow> aset (mk_regs_read info) (unat (mk_regs_read_count info)) reg;
       Some (info\<lparr>mk_regs_read := regs, mk_regs_read_count := mk_regs_read_count info + 1\<rparr>) } }"

definition m68k_add_reg_to_rw_list :: "m68k_info \<Rightarrow> u32 \<Rightarrow> bool \<Rightarrow> m68k_info option" where
  "m68k_add_reg_to_rw_list info reg write =
     (if reg = M68K_REG_INVALID then Some info
      else if write then m68k_add_write (ucast reg) info else m68k_add_read (ucast reg) info)"

definition m68k_update_am_reg_list :: "m68k_info \<Rightarrow> cs_m68k_op \<Rightarrow> bool \<Rightarrow> m68k_info option" where
  "m68k_update_am_reg_list info op write =
     (case ko_address_mode op of
        M68K_AM_REG_DIRECT_ADDR \<Rightarrow> m68k_add_reg_to_rw_list info (ko_reg op) write
      | M68K_AM_REG_DIRECT_DATA \<Rightarrow> m68k_add_reg_to_rw_list info (ko_reg op) write
      | M68K_AM_REGI_ADDR_POST_INC \<Rightarrow> m68k_add_reg_to_rw_list info (ko_reg op) True
      | M68K_AM_REGI_ADDR_PRE_DEC \<Rightarrow> m68k_add_reg_to_rw_list info (ko_reg op) True
      | M68K_AM_REGI_ADDR \<Rightarrow> m68k_add_reg_to_rw_list info (ko_reg op) False
      | M68K_AM_REGI_ADDR_DISP \<Rightarrow> m68k_add_reg_to_rw_list info (ko_reg op) False
      | mode \<Rightarrow>
          if mode \<in> {M68K_AM_AREGI_INDEX_8_BIT_DISP, M68K_AM_AREGI_INDEX_BASE_DISP, M68K_AM_MEMI_POST_INDEX,
               M68K_AM_MEMI_PRE_INDEX, M68K_AM_PCI_INDEX_8_BIT_DISP, M68K_AM_PCI_INDEX_BASE_DISP,
               M68K_AM_PC_MEMI_PRE_INDEX, M68K_AM_PC_MEMI_POST_INDEX}
          then do {
            info \<leftarrow> m68k_add_reg_to_rw_list info (km_index_reg (ko_mem op)) False;
            m68k_add_reg_to_rw_list info (km_base_reg (ko_mem op)) False }
          else Some info)"

text \<open>The loop over the eight bits, from bit \<open>i\<close> on; \<open>n\<close> are left.\<close>

fun update_bits_from :: "u32 \<Rightarrow> u32 \<Rightarrow> bool \<Rightarrow> nat \<Rightarrow> nat \<Rightarrow> m68k_info \<Rightarrow> m68k_info option" where
  "update_bits_from reg_start bits write i 0 info = Some info"
| "update_bits_from reg_start bits write i (Suc n) info = do {
     info \<leftarrow> (if bits AND push_bit i 1 \<noteq> 0 then m68k_add_reg_to_rw_list info (reg_start + of_nat i) write else Some info);
     update_bits_from reg_start bits write (i + 1) n info }"

definition update_bits_range :: "m68k_info \<Rightarrow> u32 \<Rightarrow> u32 \<Rightarrow> bool \<Rightarrow> m68k_info option" where
  "update_bits_range info reg_start bits write = update_bits_from reg_start bits write 0 8 info"

definition update_reg_list_regbits :: "m68k_info \<Rightarrow> cs_m68k_op \<Rightarrow> bool \<Rightarrow> m68k_info option" where
  "update_reg_list_regbits info op write = do {
     let bits = ko_register_bits op;
     info \<leftarrow> update_bits_range info M68K_REG_D0 (bits AND 0xff) write;
     info \<leftarrow> update_bits_range info M68K_REG_A0 (drop_bit 8 bits AND 0xff) write;
     update_bits_range info M68K_REG_FP0 (drop_bit 16 bits AND 0xff) write }"

definition update_op_reg_list :: "m68k_info \<Rightarrow> cs_m68k_op \<Rightarrow> bool \<Rightarrow> m68k_info option" where
  "update_op_reg_list info op write =
     (case ko_type op of
        M68K_OP_REG \<Rightarrow> m68k_add_reg_to_rw_list info (ko_reg op) write
      | M68K_OP_MEM \<Rightarrow> m68k_update_am_reg_list info op write
      | M68K_OP_REG_BITS \<Rightarrow> update_reg_list_regbits info op write
      | M68K_OP_REG_PAIR \<Rightarrow> do {
          info \<leftarrow> m68k_add_reg_to_rw_list info (M68K_REG_D0 + ko_reg_0 op) write;
          m68k_add_reg_to_rw_list info (M68K_REG_D0 + ko_reg_1 op) write }
      | _ \<Rightarrow> Some info)"

text \<open>The loop over the operands that are written, from operand \<open>i\<close> on; \<open>n\<close> are left.\<close>

fun update_ops_from :: "nat \<Rightarrow> nat \<Rightarrow> m68k_info \<Rightarrow> m68k_info option" where
  "update_ops_from i 0 info = Some info"
| "update_ops_from i (Suc n) info = do {
     op \<leftarrow> aget (kx_operands (mk_extension info)) i;
     info \<leftarrow> update_op_reg_list info op True;
     update_ops_from (i + 1) n info }"

definition m68k_build_regs_read_write_counts :: "m68k_info \<Rightarrow> m68k_info option" where
  "m68k_build_regs_read_write_counts info =
     (let count = unat (kx_op_count (mk_extension info))
      in if count = 0 then Some info
         else if count = 1 then update_op_reg_list info (op_at info 0) True
         else do {
           info \<leftarrow> update_op_reg_list info (op_at info 0) False;
           update_ops_from 1 (count - 1) info })"

section \<open>One instruction\<close>

abbreviation (input) M68K_CPU_TYPE_68000 :: u32 where "M68K_CPU_TYPE_68000 \<equiv> 1"
abbreviation (input) M68K_CPU_TYPE_68010 :: u32 where "M68K_CPU_TYPE_68010 \<equiv> 2"
abbreviation (input) M68K_CPU_TYPE_68EC020 :: u32 where "M68K_CPU_TYPE_68EC020 \<equiv> 3"
abbreviation (input) M68K_CPU_TYPE_68020 :: u32 where "M68K_CPU_TYPE_68020 \<equiv> 4"
abbreviation (input) M68K_CPU_TYPE_68030 :: u32 where "M68K_CPU_TYPE_68030 \<equiv> 5"
abbreviation (input) M68K_CPU_TYPE_68040 :: u32 where "M68K_CPU_TYPE_68040 \<equiv> 6"

definition m68k_cpu_setup :: "u32 \<Rightarrow> u32 \<times> u32" where
  "m68k_cpu_setup cpu_type =
     (if cpu_type = M68K_CPU_TYPE_68000 then (TYPE_68000, 0x00ffffff)
      else if cpu_type = M68K_CPU_TYPE_68010 then (TYPE_68010, 0x00ffffff)
      else if cpu_type = M68K_CPU_TYPE_68EC020 then (TYPE_68020, 0x00ffffff)
      else if cpu_type = M68K_CPU_TYPE_68020 then (TYPE_68020, 0xffffffff)
      else if cpu_type = M68K_CPU_TYPE_68030 then (TYPE_68030, 0xffffffff)
      else if cpu_type = M68K_CPU_TYPE_68040 then (TYPE_68040, 0xffffffff)
      else (cpu_type, 0))"

definition m68k_setup_internals :: "m68k_info \<Rightarrow> MCInst \<Rightarrow> u32 \<Rightarrow> u32 \<Rightarrow> m68k_info" where
  "m68k_setup_internals info inst pc cpu_type =
     info\<lparr>mk_inst := inst, mk_pc := pc, mk_ir := 0, mk_type := fst (m68k_cpu_setup cpu_type),
       mk_address_mask := snd (m68k_cpu_setup cpu_type)\<rparr>"

text \<open>The operands at the start: all zero, of the type of a register.\<close>

definition fresh_m68k :: cs_m68k where
  "fresh_m68k = zero_m68k\<lparr>kx_op_size := \<lparr>kz_type = M68K_SIZE_TYPE_CPU, kz_size = 0\<rparr>,
     kx_operands := map (\<lambda>op. op\<lparr>ko_type := M68K_OP_REG\<rparr>) (kx_operands zero_m68k)\<rparr>"

definition m68k_disassemble :: "qsort_t \<Rightarrow> m68k_globals \<Rightarrow> m68k_info \<Rightarrow> u64 \<Rightarrow> (u32 \<times> m68k_globals \<times> m68k_info) option" where
  "m68k_disassemble qsort g info pc = do {
     let info = set_opcode M68K_INS_INVALID info;
     let g = build_opcode_table qsort g;
     let tab = gl_instruction_table g;
     let info = info\<lparr>mk_extension := fresh_m68k\<rparr>;
     ir \<leftarrow> peek_imm_16 info;
     let info = info\<lparr>mk_ir := ir\<rparr>;
     word \<leftarrow> peek_imm_32 info;
     (ok, info) \<leftarrow> instruction_is_valid tab info (word AND 0xffff);
     info \<leftarrow> (if ok then do {
         (ir, info) \<leftarrow> read_imm_16 info;
         let info = info\<lparr>mk_ir := ir\<rparr>;
         need (unat ir < 0x10000);
         call_handler tab (is_instruction (tab (unat ir))) info }
       else Some info);
     let sz = mk_pc info - ucast pc;
     Some (sz, g, info\<lparr>mk_pc := ucast pc\<rparr>) }"

definition m68k_cpu_type :: "u32 \<Rightarrow> u32" where
  "m68k_cpu_type mode =
     (let cpu_type = M68K_CPU_TYPE_68000;
          cpu_type = (if mode AND CS_MODE_M68K_010 \<noteq> 0 then M68K_CPU_TYPE_68010 else cpu_type);
          cpu_type = (if mode AND CS_MODE_M68K_020 \<noteq> 0 then M68K_CPU_TYPE_68020 else cpu_type);
          cpu_type = (if mode AND CS_MODE_M68K_030 \<noteq> 0 then M68K_CPU_TYPE_68030 else cpu_type);
          cpu_type = (if mode AND CS_MODE_M68K_040 \<noteq> 0 then M68K_CPU_TYPE_68040 else cpu_type)
      in if mode AND CS_MODE_M68K_060 \<noteq> 0 then M68K_CPU_TYPE_68040 else cpu_type)"

definition m68k_clear_detail :: "cs_detail \<Rightarrow> cs_detail" where
  "m68k_clear_detail d = d\<lparr>d_regs_read := map (\<lambda>_. 0) (d_regs_read d), d_regs_read_count := 0,
     d_regs_write := map (\<lambda>_. 0) (d_regs_write d), d_regs_write_count := 0,
     d_groups := map (\<lambda>_. 0) (d_groups d), d_groups_count := 0,
     d_m68k := \<lparr>ao_op_count = 0, ao_types = replicate M68K_OPERAND_COUNT 0\<rparr>\<rparr>"

text \<open>
  The result is the returned flag, the instruction, \<^verbatim>\<open>*size\<close>, the static tables and the
  decoder's state. The comparison at the end is one of \<^verbatim>\<open>int\<close>.
\<close>

definition M68K_getInstruction ::
    "qsort_t \<Rightarrow> m68k_globals \<Rightarrow> cs_struct \<Rightarrow> u8 list \<Rightarrow> MCInst \<Rightarrow> u64 \<Rightarrow> m68k_info \<Rightarrow>
      (bool \<times> MCInst \<times> u16 \<times> m68k_globals \<times> m68k_info) option" where
  "M68K_getInstruction qsort g handle code instr address info = do {
     let code_len = (of_nat (length code) :: u64);
     if code_len < 2 then Some (False, instr, 0, g, info)
     else do {
       instr \<leftarrow> on_detail (\<lambda>d. Some (m68k_clear_detail d)) instr;
       let info = info\<lparr>mk_groups_count := 0, mk_regs_read_count := 0, mk_regs_write_count := 0,
         mk_code := code, mk_code_len := code_len, mk_baseAddress := address\<rparr>;
       let info = m68k_setup_internals info instr (ucast address) (m68k_cpu_type (ud_mode handle));
       (s, g, info) \<leftarrow> m68k_disassemble qsort g info address;
       if s = 0 then Some (False, mk_inst info, 2, g, info)
       else do {
         info \<leftarrow> m68k_build_regs_read_write_counts info;
         let sz = (if (ucast code_len :: u32) <s s then ucast code_len else ucast s);
         Some (True, mk_inst info, sz, g, info) } } }"

end
