(* ===== verification/M68K_Lookup.thy ===== *)
theory M68K_Lookup
  imports M68K_Decode "HOL-Library.Multiset"
begin

text \<open>
  The instruction table of M68K: for every \<^verbatim>\<open>qsort\<close> that keeps its contract the table holds,
  for each opcode, the entry of the opcode table that matches with the largest number of mask bits.
  The order in which \<^verbatim>\<open>qsort\<close> leaves entries that compare equal has no influence.
\<close>

section \<open>The keys of the opcode table\<close>

definition opcode_entries :: "opcode_struct list" where
  "opcode_entries = takeWhile (\<lambda>os. os_opcode_handler os \<noteq> 0) g_opcode_info"

definition opcode_key :: "opcode_struct \<Rightarrow> int \<times> int" where
  "opcode_key os = (uint (os_mask os), uint (os_match os))"

definition opcode_keys :: "(int \<times> int) list" where
  "opcode_keys = [(0xf000, 0xa000), (0xf000, 0xf000), (0xf1f8, 0xc100), (0xf1f8, 0xc108), (0xf1c0, 0xd000), (0xf1c0, 0xd040),
     (0xf1c0, 0xd080), (0xf1c0, 0xd100), (0xf1c0, 0xd140), (0xf1c0, 0xd180), (0xf1c0, 0xd0c0), (0xf1c0, 0xd1c0),
     (0xffc0, 0x600), (0xffc0, 0x640), (0xffc0, 0x680), (0xf1c0, 0x5000), (0xf1c0, 0x5040), (0xf1c0, 0x5080),
     (0xf1f8, 0xd100), (0xf1f8, 0xd140), (0xf1f8, 0xd180), (0xf1f8, 0xd108), (0xf1f8, 0xd148), (0xf1f8, 0xd188),
     (0xf1c0, 0xc000), (0xf1c0, 0xc040), (0xf1c0, 0xc080), (0xf1c0, 0xc100), (0xf1c0, 0xc140), (0xf1c0, 0xc180),
     (0xffff, 0x23c), (0xffff, 0x27c), (0xffc0, 0x200), (0xffc0, 0x240), (0xffc0, 0x280), (0xf1f8, 0xe000),
     (0xf1f8, 0xe040), (0xf1f8, 0xe080), (0xf1f8, 0xe020), (0xf1f8, 0xe060), (0xf1f8, 0xe0a0), (0xffc0, 0xe0c0),
     (0xf1f8, 0xe100), (0xf1f8, 0xe140), (0xf1f8, 0xe180), (0xf1f8, 0xe120), (0xf1f8, 0xe160), (0xf1f8, 0xe1a0),
     (0xffc0, 0xe1c0), (0xf000, 0x6000), (0xf0ff, 0x6000), (0xf0ff, 0x60ff), (0xf1c0, 0x140), (0xffc0, 0x840),
     (0xf1c0, 0x180), (0xffc0, 0x880), (0xffc0, 0xeac0), (0xffc0, 0xecc0), (0xffc0, 0xebc0), (0xffc0, 0xe9c0),
     (0xffc0, 0xedc0), (0xffc0, 0xefc0), (0xffc0, 0xeec0), (0xffc0, 0xe8c0), (0xfff8, 0x4848), (0xff00, 0x6000),
     (0xffff, 0x6000), (0xffff, 0x60ff), (0xf1c0, 0x1c0), (0xffc0, 0x8c0), (0xff00, 0x6100), (0xffff, 0x6100),
     (0xffff, 0x61ff), (0xf1c0, 0x100), (0xffc0, 0x800), (0xffc0, 0x6c0), (0xffc0, 0xac0), (0xffc0, 0xcc0),
     (0xffc0, 0xec0), (0xffff, 0xcfc), (0xffff, 0xefc), (0xf1c0, 0x4180), (0xf1c0, 0x4100), (0xffc0, 0xc0),
     (0xffc0, 0x2c0), (0xffc0, 0x4c0), (0xff20, 0xf400), (0xffc0, 0x4200), (0xffc0, 0x4240), (0xffc0, 0x4280),
     (0xf1c0, 0xb000), (0xf1c0, 0xb040), (0xf1c0, 0xb080), (0xf1c0, 0xb0c0), (0xf1c0, 0xb1c0), (0xffc0, 0xc00),
     (0xffff, 0xc3a), (0xffff, 0xc3b), (0xffc0, 0xc40), (0xffff, 0xc7a), (0xffff, 0xc7b), (0xffc0, 0xc80),
     (0xffff, 0xcba), (0xffff, 0xcbb), (0xf1f8, 0xb108), (0xf1f8, 0xb148), (0xf1f8, 0xb188), (0xf1c0, 0xf080),
     (0xf1c0, 0xf0c0), (0xf1f8, 0xf048), (0xf1c0, 0xf000), (0xf1c0, 0xf140), (0xf1c0, 0xf100), (0xf1c0, 0xf040),
     (0xf1ff, 0xf07c), (0xf1ff, 0xf07a), (0xf1ff, 0xf07b), (0xff20, 0xf420), (0xf0f8, 0x50c8), (0xfff8, 0x51c8),
     (0xf1c0, 0x81c0), (0xf1c0, 0x80c0), (0xff80, 0x4c00), (0xf1c0, 0xb100), (0xf1c0, 0xb140), (0xf1c0, 0xb180),
     (0xffff, 0xa3c), (0xffff, 0xa7c), (0xffc0, 0xa00), (0xffc0, 0xa40), (0xffc0, 0xa80), (0xf1f8, 0xc140),
     (0xf1f8, 0xc148), (0xf1f8, 0xc188), (0xfff8, 0x49c0), (0xfff8, 0x4880), (0xfff8, 0x48c0), (0xffff, 0x4afc),
     (0xffc0, 0x4ec0), (0xffc0, 0x4e80), (0xf1c0, 0x41c0), (0xfff8, 0x4e50), (0xfff8, 0x4808), (0xf1f8, 0xe008),
     (0xf1f8, 0xe048), (0xf1f8, 0xe088), (0xf1f8, 0xe028), (0xf1f8, 0xe068), (0xf1f8, 0xe0a8), (0xffc0, 0xe2c0),
     (0xf1f8, 0xe108), (0xf1f8, 0xe148), (0xf1f8, 0xe188), (0xf1f8, 0xe128), (0xf1f8, 0xe168), (0xf1f8, 0xe1a8),
     (0xffc0, 0xe3c0), (0xf000, 0x1000), (0xf000, 0x3000), (0xf000, 0x2000), (0xf1c0, 0x3040), (0xf1c0, 0x2040),
     (0xffc0, 0x44c0), (0xffc0, 0x42c0), (0xffc0, 0x46c0), (0xffc0, 0x40c0), (0xfff8, 0x4e60), (0xfff8, 0x4e68),
     (0xfffe, 0x4e7a), (0xfff8, 0x48a0), (0xfff8, 0x48e0), (0xffc0, 0x4880), (0xffc0, 0x48c0), (0xffc0, 0x4c80),
     (0xffc0, 0x4cc0), (0xf1f8, 0x108), (0xf1f8, 0x148), (0xf1f8, 0x188), (0xf1f8, 0x1c8), (0xffc0, 0xe00),
     (0xffc0, 0xe40), (0xffc0, 0xe80), (0xf100, 0x7000), (0xfff8, 0xf620), (0xfff8, 0xf600), (0xfff8, 0xf608),
     (0xfff8, 0xf610), (0xfff8, 0xf618), (0xf1c0, 0xc1c0), (0xf1c0, 0xc0c0), (0xffc0, 0x4c00), (0xffc0, 0x4800),
     (0xffc0, 0x4400), (0xffc0, 0x4440), (0xffc0, 0x4480), (0xffc0, 0x4000), (0xffc0, 0x4040), (0xffc0, 0x4080),
     (0xffff, 0x4e71), (0xffc0, 0x4600), (0xffc0, 0x4640), (0xffc0, 0x4680), (0xf1c0, 0x8000), (0xf1c0, 0x8040),
     (0xf1c0, 0x8080), (0xf1c0, 0x8100), (0xf1c0, 0x8140), (0xf1c0, 0x8180), (0xffff, 0x3c), (0xffff, 0x7c),
     (0xffc0, 0x0), (0xffc0, 0x40), (0xffc0, 0x80), (0xf1f8, 0x8140), (0xf1f8, 0x8148), (0xffc0, 0x4840),
     (0xffff, 0x4e70), (0xf1f8, 0xe018), (0xf1f8, 0xe058), (0xf1f8, 0xe098), (0xf1f8, 0xe038), (0xf1f8, 0xe078),
     (0xf1f8, 0xe0b8), (0xffc0, 0xe6c0), (0xf1f8, 0xe118), (0xf1f8, 0xe158), (0xf1f8, 0xe198), (0xf1f8, 0xe138),
     (0xf1f8, 0xe178), (0xf1f8, 0xe1b8), (0xffc0, 0xe7c0), (0xf1f8, 0xe010), (0xf1f8, 0xe050), (0xf1f8, 0xe090),
     (0xf1f8, 0xe030), (0xf1f8, 0xe070), (0xf1f8, 0xe0b0), (0xffc0, 0xe4c0), (0xf1f8, 0xe110), (0xf1f8, 0xe150),
     (0xf1f8, 0xe190), (0xf1f8, 0xe130), (0xf1f8, 0xe170), (0xf1f8, 0xe1b0), (0xffc0, 0xe5c0), (0xffff, 0x4e74),
     (0xffff, 0x4e73), (0xfff0, 0x6c0), (0xffff, 0x4e77), (0xffff, 0x4e75), (0xf1f8, 0x8100), (0xf1f8, 0x8108),
     (0xf0c0, 0x50c0), (0xffff, 0x4e72), (0xf1c0, 0x9000), (0xf1c0, 0x9040), (0xf1c0, 0x9080), (0xf1c0, 0x9100),
     (0xf1c0, 0x9140), (0xf1c0, 0x9180), (0xf1c0, 0x90c0), (0xf1c0, 0x91c0), (0xffc0, 0x400), (0xffc0, 0x440),
     (0xffc0, 0x480), (0xf1c0, 0x5100), (0xf1c0, 0x5140), (0xf1c0, 0x5180), (0xf1f8, 0x9100), (0xf1f8, 0x9140),
     (0xf1f8, 0x9180), (0xf1f8, 0x9108), (0xf1f8, 0x9148), (0xf1f8, 0x9188), (0xfff8, 0x4840), (0xffc0, 0x4ac0),
     (0xfff0, 0x4e40), (0xf0ff, 0x50fc), (0xf0ff, 0x50fa), (0xf0ff, 0x50fb), (0xffff, 0x4e76), (0xffc0, 0x4a00),
     (0xffff, 0x4a3a), (0xffff, 0x4a3b), (0xffff, 0x4a3c), (0xffc0, 0x4a40), (0xfff8, 0x4a48), (0xffff, 0x4a7a),
     (0xffff, 0x4a7b), (0xffff, 0x4a7c), (0xffc0, 0x4a80), (0xfff8, 0x4a88), (0xffff, 0x4aba), (0xffff, 0x4abb),
     (0xffff, 0x4abc), (0xfff8, 0x4e58), (0xf1f8, 0x8180), (0xf1f8, 0x8188)]"

lemma g_opcode_info_split: "g_opcode_info = opcode_entries @ [opc 0 0 0 0 0 0]"
  by (simp add: opcode_entries_def g_opcode_info_def g_opcode_info_1_def g_opcode_info_2_def g_opcode_info_3_def opc_def)

lemma opcode_entries_handlers: "list_all (\<lambda>os. 1 < os_opcode_handler os \<and> os_opcode_handler os \<le> 299) opcode_entries"
  by (simp add: opcode_entries_def g_opcode_info_def g_opcode_info_1_def g_opcode_info_2_def g_opcode_info_3_def opc_def)

lemma opcode_entries_keys: "map opcode_key opcode_entries = opcode_keys"
  by (simp add: opcode_entries_def g_opcode_info_def g_opcode_info_1_def g_opcode_info_2_def g_opcode_info_3_def opc_def
      opcode_key_def opcode_keys_def)

lemma opcode_keys_distinct: "distinct opcode_keys"
  by (simp add: opcode_keys_def)

text \<open>The masks that occur, with the number of their bits.\<close>

definition opcode_masks :: "(int \<times> nat) list" where
  "opcode_masks = [(0xf000, 4), (0xf1f8, 10), (0xf1c0, 7), (0xffc0, 10), (0xffff, 16), (0xf000, 4), (0xff00, 8),
     (0xfff8, 13), (0xff20, 9), (0xff80, 9), (0xf0f8, 9), (0xfffe, 15), (0xf1ff, 13), (0xf100, 5), (0xf0c0, 6),
     (0xf0ff, 12), (0xfff0, 12)]"

definition mask_bits :: "u32 \<Rightarrow> nat" where
  "mask_bits m = length (filter (bit m) [0..<32])"

lemma opcode_keys_masks: "list_all (\<lambda>k. fst k \<in> fst ` set opcode_masks) opcode_keys"
  by code_simp

lemma opcode_masks_count:
  "list_all (\<lambda>(m, n). nof_true_bits (word_of_int m) = of_nat n \<and> mask_bits (word_of_int m) = n \<and> n \<le> 16) opcode_masks"
  by (simp add: opcode_masks_def nof_true_bits_def mask_bits_def upt_rec Let_def bit_numeral_rec)

text \<open>Entries with different masks of the same number of bits have no opcode in common.\<close>

definition keys_with :: "int \<Rightarrow> int \<Rightarrow> int list" where
  "keys_with m n = remdups (map (\<lambda>k. snd k AND n) (filter (\<lambda>k. fst k = m) opcode_keys))"

definition no_shared_keys :: "int \<Rightarrow> int \<Rightarrow> bool" where
  "no_shared_keys m n \<longleftrightarrow> list_all (\<lambda>a. a \<notin> set (keys_with n m)) (keys_with m n)"

lemma no_shared_keys_same_bits:
  "no_shared_keys 0xf1f8 0xffc0" "no_shared_keys 0xfff8 0xf1ff" "no_shared_keys 0xf0ff 0xfff0"
  "no_shared_keys 0xff20 0xf0f8" "no_shared_keys 0xff20 0xff80" "no_shared_keys 0xf0f8 0xff80"
  by code_simp+

lemma no_shared_keys_sym: "no_shared_keys m n \<longleftrightarrow> no_shared_keys n m"
  by (auto simp: no_shared_keys_def list_all_iff)

lemma no_shared_keys_same_bits_sym:
  "no_shared_keys 0xffc0 0xf1f8" "no_shared_keys 0xf1ff 0xfff8" "no_shared_keys 0xfff0 0xf0ff"
  "no_shared_keys 0xf0f8 0xff20" "no_shared_keys 0xff80 0xff20" "no_shared_keys 0xff80 0xf0f8"
  by (subst no_shared_keys_sym, rule no_shared_keys_same_bits)+

lemma opcode_masks_apart:
  "list_all (\<lambda>(m, a). list_all (\<lambda>(n, b). a = b \<longrightarrow> m = n \<or> no_shared_keys m n) opcode_masks) opcode_masks"
  by (simp add: opcode_masks_def no_shared_keys_same_bits no_shared_keys_same_bits_sym)

lemma opcode_key_mask:
  assumes "os \<in> set opcode_entries"
  obtains n where "(uint (os_mask os), n) \<in> set opcode_masks" "nof_true_bits (os_mask os) = of_nat n"
    "mask_bits (os_mask os) = n" "n \<le> 16" "opcode_key os \<in> set opcode_keys"
proof -
  have k: "opcode_key os \<in> set opcode_keys" using assms by (simp flip: opcode_entries_keys)
  then obtain n where n: "(uint (os_mask os), n) \<in> set opcode_masks"
    using opcode_keys_masks by (auto simp: list_all_iff opcode_key_def)
  then have "nof_true_bits (word_of_int (uint (os_mask os))) = of_nat n \<and> mask_bits (word_of_int (uint (os_mask os))) = n \<and> n \<le> 16"
    using opcode_masks_count by (auto simp: list_all_iff)
  with n k that show ?thesis by simp
qed

lemma uint_and_eq: "uint ((a :: 'a::len word) AND b) = uint a AND uint b"
  by (simp add: unsigned_and_eq)

text \<open>An opcode that two entries match determines which of them is meant, unless one has more mask bits.\<close>

lemma same_bits_same_entry:
  assumes in_tab: "a \<in> set opcode_entries" "b \<in> set opcode_entries"
    and match: "opcode_matches opcode a" "opcode_matches opcode b"
    and bits: "mask_bits (os_mask a) = mask_bits (os_mask b)"
  shows "a = b"
proof -
  have v: "opcode AND os_mask a = os_match a" "opcode AND os_mask b = os_match b"
    using match by (simp_all add: opcode_matches_def)
  obtain n where a: "(uint (os_mask a), n) \<in> set opcode_masks" "mask_bits (os_mask a) = n" "opcode_key a \<in> set opcode_keys"
    using in_tab(1) by (rule opcode_key_mask)
  obtain m where b: "(uint (os_mask b), m) \<in> set opcode_masks" "mask_bits (os_mask b) = m" "opcode_key b \<in> set opcode_keys"
    using in_tab(2) by (rule opcode_key_mask)
  have "os_match a AND os_mask b = os_match b AND os_mask a"
    unfolding v [symmetric] by (simp add: ac_simps)
  then have "uint (os_match a) AND uint (os_mask b) = uint (os_match b) AND uint (os_mask a)"
    by (simp flip: uint_and_eq)
  moreover have "uint (os_match a) AND uint (os_mask b) \<in> set (keys_with (uint (os_mask a)) (uint (os_mask b)))"
    "uint (os_match b) AND uint (os_mask a) \<in> set (keys_with (uint (os_mask b)) (uint (os_mask a)))"
    using a(3) b(3) by (force simp: keys_with_def opcode_key_def)+
  ultimately have "\<not> no_shared_keys (uint (os_mask a)) (uint (os_mask b))"
    by (auto simp: no_shared_keys_def list_all_iff)
  moreover have "n = m" using a(2) b(2) bits by simp
  ultimately have "uint (os_mask a) = uint (os_mask b)"
    using opcode_masks_apart a(1) b(1) by (fastforce simp: list_all_iff)
  then have "os_mask a = os_mask b" by (simp only: word_uint_eq_iff)
  with v have "opcode_key a = opcode_key b" by (simp add: opcode_key_def)
  moreover have "inj_on opcode_key (set opcode_entries)"
    using opcode_keys_distinct by (simp add: distinct_map flip: opcode_entries_keys)
  ultimately show "a = b" using in_tab by (auto dest: inj_onD)
qed

section \<open>The contract of qsort\<close>

text \<open>
  What the C standard promises of \<^verbatim>\<open>qsort\<close> for the comparison of this file, which orders the
  entries by the number of mask bits: a permutation of the entries, in which none compares greater
  than a later one.
\<close>

locale qsort_order =
  fixes qsort :: qsort_t
  assumes qsort_permutes: "mset (qsort compare_nof_true_bits es) = mset es"
    and qsort_sorts: "sorted_wrt (\<lambda>a b. \<not> 0 <s compare_nof_true_bits a b) (qsort compare_nof_true_bits es)"
begin

lemma set_qsort: "set (qsort compare_nof_true_bits es) = set es"
  by (rule mset_eq_setD [OF qsort_permutes])

lemma length_qsort: "length (qsort compare_nof_true_bits es) = length es"
  by (rule mset_eq_length [OF qsort_permutes])

end

text \<open>The reference: the matching entry such that no matching entry has more mask bits.\<close>

definition best_entry :: "u32 \<Rightarrow> opcode_struct option" where
  "best_entry opcode = find (\<lambda>e. opcode_matches opcode e \<and>
     list_all (\<lambda>e'. opcode_matches opcode e' \<longrightarrow> mask_bits (os_mask e') \<le> mask_bits (os_mask e)) opcode_entries) opcode_entries"

definition as_instruction :: "opcode_struct option \<Rightarrow> instruction_struct" where
  "as_instruction e = (case e of
      None \<Rightarrow> \<lparr>is_instruction = ptr_d68000_invalid, is_word2_mask = 0, is_word2_match = 0\<rparr>
    | Some os \<Rightarrow> \<lparr>is_instruction = os_opcode_handler os, is_word2_mask = os_mask2 os, is_word2_match = os_match2 os\<rparr>)"

lemma sint_diff_small: "m < 512 \<Longrightarrow> n < 512 \<Longrightarrow> sint (of_nat n - of_nat m :: u32) = int n - int m"
proof -
  assume "m < 512" "n < 512"
  then have "signed_take_bit 31 (int n - int m) = int n - int m" by (intro signed_take_bit_int_eq_self) auto
  moreover have "sint (word_of_int (int n - int m) :: u32) = signed_take_bit 31 (int n - int m)"
    unfolding signed_of_int by simp
  ultimately show ?thesis by simp
qed

lemma compare_bits:
  assumes "a \<in> set opcode_entries" "b \<in> set opcode_entries" "\<not> 0 <s compare_nof_true_bits a b"
  shows "mask_bits (os_mask b) \<le> mask_bits (os_mask a)"
proof -
  obtain n where a: "nof_true_bits (os_mask a) = of_nat n" "mask_bits (os_mask a) = n" "n \<le> 16"
    using assms(1) by (rule opcode_key_mask)
  obtain m where b: "nof_true_bits (os_mask b) = of_nat m" "mask_bits (os_mask b) = m" "m \<le> 16"
    using assms(2) by (rule opcode_key_mask)
  have "sint (of_nat m - of_nat n :: u32) = int m - int n" by (rule sint_diff_small) (use a(3) b(3) in simp_all)
  with assms(3) show ?thesis by (simp add: compare_nof_true_bits_def a b word_sless_alt)
qed

lemma find_unique:
  assumes "x \<in> set xs" "P x" "\<And>y. y \<in> set xs \<Longrightarrow> P y \<Longrightarrow> y = x"
  shows "find P xs = Some x"
proof (cases "find P xs")
  case None
  with assms(1,2) show ?thesis by (auto simp: find_None_iff)
next
  case (Some y)
  then have "y \<in> set xs" "P y" by (auto simp: find_Some_iff)
  with assms(3) Some show ?thesis by auto
qed

text \<open>The first matching entry of a list sorted by mask bits is the best one.\<close>

lemma search_opcode_find:
  assumes "\<forall>os\<in>set es. os_opcode_handler os \<noteq> 0"
  shows "search_opcode opcode (es @ opc 0 0 0 0 0 0 # rest) i =
    (case find (opcode_matches opcode) es of None \<Rightarrow> i
     | Some os \<Rightarrow> \<lparr>is_instruction = os_opcode_handler os, is_word2_mask = os_mask2 os, is_word2_match = os_match2 os\<rparr>)"
  using assms by (induction es) (auto simp: opc_def)

lemma find_sorted:
  assumes "sorted_wrt (\<lambda>a b. R b \<le> (R a :: nat)) es" "find P es = Some e"
  shows "e \<in> set es \<and> P e \<and> (\<forall>e'\<in>set es. P e' \<longrightarrow> R e' \<le> R e)"
  using assms by (induction es) (auto split: if_splits)

context qsort_order
begin

lemma find_best: "find (opcode_matches opcode) (qsort compare_nof_true_bits opcode_entries) = best_entry opcode"
proof (cases "find (opcode_matches opcode) (qsort compare_nof_true_bits opcode_entries)")
  case None
  then have "\<forall>e\<in>set opcode_entries. \<not> opcode_matches opcode e" by (simp add: find_None_iff set_qsort)
  then have "best_entry opcode = None" by (auto simp: best_entry_def find_None_iff)
  with None show ?thesis by simp
next
  case (Some e)
  let ?R = "\<lambda>e. mask_bits (os_mask e)"
  have "sorted_wrt (\<lambda>a b. ?R b \<le> ?R a) (qsort compare_nof_true_bits opcode_entries)"
    by (rule sorted_wrt_mono_rel [OF _ qsort_sorts]) (simp add: set_qsort compare_bits)
  from find_sorted [OF this Some]
  have e: "e \<in> set opcode_entries" "opcode_matches opcode e" "\<forall>e'\<in>set opcode_entries. opcode_matches opcode e' \<longrightarrow> ?R e' \<le> ?R e"
    by (auto simp: set_qsort)
  have "best_entry opcode = Some e"
    unfolding best_entry_def
    by (rule find_unique) (use e in \<open>auto simp: list_all_iff intro!: same_bits_same_entry antisym\<close>)
  with Some show ?thesis by simp
qed

lemma built_table:
  "gl_instruction_table (build_opcode_table qsort m68k_initial_globals) i = as_instruction (best_entry (of_nat i))"
proof -
  have "takeWhile (\<lambda>os. os_opcode_handler os \<noteq> 0) g_opcode_info = opcode_entries" by (simp add: opcode_entries_def)
  moreover have "drop (length opcode_entries) g_opcode_info = [opc 0 0 0 0 0 0]" by (simp add: g_opcode_info_split)
  moreover have "\<forall>os\<in>set (qsort compare_nof_true_bits opcode_entries). os_opcode_handler os \<noteq> 0"
    using opcode_entries_handlers by (auto simp: set_qsort list_all_iff)
  ultimately show ?thesis
    by (simp add: build_opcode_table_def m68k_initial_globals_def Let_def search_opcode_find find_best as_instruction_def
        split: option.split)
qed

lemma built_once: "build_opcode_table qsort' (build_opcode_table qsort m68k_initial_globals) =
    build_opcode_table qsort m68k_initial_globals"
proof -
  have "is_instruction (as_instruction (best_entry 0)) \<noteq> 0"
    using opcode_entries_handlers
    by (auto simp: as_instruction_def best_entry_def list_all_iff find_Some_iff split: option.split dest!: nth_mem)
  then show ?thesis using built_table [of 0] by (simp add: build_opcode_table_def)
qed

end

text \<open>The globals: untouched, or as the first call has left them.\<close>

definition m68k_globals_ok :: "qsort_t \<Rightarrow> m68k_globals \<Rightarrow> bool" where
  "m68k_globals_ok qsort g \<longleftrightarrow> g = m68k_initial_globals \<or> g = build_opcode_table qsort m68k_initial_globals"

section \<open>An instance of the contract\<close>

text \<open>A stable insertion sort, driven by the sign of the comparison as \<^verbatim>\<open>qsort\<close> is.\<close>

fun insert_by :: "('a \<Rightarrow> 'a \<Rightarrow> u32) \<Rightarrow> 'a \<Rightarrow> 'a list \<Rightarrow> 'a list" where
  "insert_by cmp x [] = [x]"
| "insert_by cmp x (y # ys) = (if 0 <s cmp x y then y # insert_by cmp x ys else x # y # ys)"

definition insertion_qsort :: qsort_t where
  "insertion_qsort cmp es = foldr (insert_by cmp) es []"

lemma mset_insert_by [simp]: "mset (insert_by cmp x ys) = add_mset x (mset ys)"
  by (induction ys) auto

lemma set_insert_by [simp]: "set (insert_by cmp x ys) = insert x (set ys)"
  by (induction ys) auto

lemma nof_true_bits_less: "unat (nof_true_bits a) < 512"
proof -
  have *: "unat (drop_bit 8 (x AND 0xFF00) + (x AND 0x00FF)) < 512" for x :: u32
  proof -
    have "x AND 0xFF00 \<le> 0xFF00" "x AND 0x00FF \<le> 0x00FF" by (rule word_and_le1)+
    then have "unat (x AND 0xFF00) \<le> 0xFF00" "unat (x AND 0x00FF) \<le> 0x00FF" by (simp_all add: word_le_nat_alt)
    moreover have "unat (drop_bit 8 (x AND 0xFF00)) = unat (x AND 0xFF00) div 256" by (simp add: drop_bit_eq_div unat_div)
    ultimately show ?thesis using unat_plus_if' [of "drop_bit 8 (x AND 0xFF00)" "x AND 0x00FF"] by (simp split: if_splits)
  qed
  show ?thesis unfolding nof_true_bits_def Let_def by (rule *)
qed

lemma compare_sign: "0 <s compare_nof_true_bits a b \<longleftrightarrow> unat (nof_true_bits (os_mask a)) < unat (nof_true_bits (os_mask b))"
proof -
  define m n where "m = unat (nof_true_bits (os_mask a))" and "n = unat (nof_true_bits (os_mask b))"
  then have m: "nof_true_bits (os_mask a) = of_nat m" "m < 512" and n: "nof_true_bits (os_mask b) = of_nat n" "n < 512"
    using nof_true_bits_less by simp_all
  then show ?thesis
    using sint_diff_small [OF m(2) n(2)] by (simp add: compare_nof_true_bits_def word_sless_alt unsigned_of_nat take_bit_nat_eq_self)
qed

interpretation insertion: qsort_order insertion_qsort
proof
  let ?R = "\<lambda>a b. \<not> 0 <s compare_nof_true_bits a b"
  show "mset (insertion_qsort compare_nof_true_bits es) = mset es" for es
    by (induction es) (simp_all add: insertion_qsort_def)
  have step: "sorted_wrt ?R (insert_by compare_nof_true_bits x ys)" if "sorted_wrt ?R ys" for x ys
    using that by (induction ys) (auto simp: compare_sign)
  show "sorted_wrt ?R (insertion_qsort compare_nof_true_bits es)" for es
    by (induction es) (simp_all add: insertion_qsort_def step)
qed

end
