(* ===== verification/M68K_Safety.thy ===== *)
theory M68K_Safety
  imports M68K_Lookup
begin

text \<open>
  What every instruction handler of M68K keeps: it reads the code only inside the buffer, moves the
  program counter by at most ten words, uses at most three operands and three groups, and leaves
  operands that name existing registers.
\<close>

section \<open>Reading the code\<close>

definition m68k_wf :: "m68k_info \<Rightarrow> bool" where
  "m68k_wf info \<longleftrightarrow> unat (mk_code_len info) \<le> length (mk_code info)"

lemma m68k_offset_less: "unat (m68k_offset info a) < 2 ^ 32"
proof -
  have "m68k_offset info a \<le> ucast (mk_address_mask info)"
    unfolding m68k_offset_def by (rule word_and_le1)
  then have "unat (m68k_offset info a) \<le> unat (ucast (mk_address_mask info) :: u64)" by (simp only: word_le_nat_alt)
  also have "\<dots> = unat (mk_address_mask info)" by simp
  also have "\<dots> < 2 ^ 32" using unsigned_less [of "mk_address_mask info", where ?'a = nat] by simp
  finally show ?thesis .
qed

lemma m68k_offset_plus: "k \<le> 8 \<Longrightarrow> unat (m68k_offset info a + of_nat k) = unat (m68k_offset info a) + k"
  using m68k_offset_less [of info a] by (simp add: unat_word_ariths unsigned_of_nat take_bit_nat_eq_self)

lemmas m68k_offset_steps = m68k_offset_plus [of 1, simplified] m68k_offset_plus [of 2, simplified] m68k_offset_plus [of 3, simplified]
  m68k_offset_plus [of 4, simplified] m68k_offset_plus [of 5, simplified] m68k_offset_plus [of 6, simplified]
  m68k_offset_plus [of 7, simplified] m68k_offset_plus [of 8, simplified]

lemma half_word_less: "unat (push_bit 8 (ucast (a :: u8)) OR ucast (b :: u8) :: u32) < 65536"
proof -
  have "push_bit 8 (ucast a) OR ucast b = (take_bit 16 (push_bit 8 (ucast a) OR ucast b) :: u32)"
    by (rule bit_eqI) (auto simp: bit_simps dest: bit_imp_le_length)
  then have "unat (push_bit 8 (ucast a) OR ucast b :: u32) = take_bit 16 (unat (push_bit 8 (ucast a) OR ucast b :: u32))"
    by (metis unsigned_take_bit_eq)
  also have "\<dots> < 2 ^ 16" by (rule take_bit_nat_less_exp)
  finally show ?thesis by simp
qed

lemma read_safe_yields:
  assumes "m68k_wf info"
  shows "yields (m68k_read_safe_16 info a) (\<lambda>v. unat v < 65536)" "yields (m68k_read_safe_32 info a) (\<lambda>_. True)"
    "yields (m68k_read_safe_64 info a) (\<lambda>_. True)"
  using assms m68k_offset_less [of info a]
  by (auto simp: m68k_read_safe_16_def m68k_read_safe_32_def m68k_read_safe_64_def m68k_read_disassembler_16_def
      m68k_read_disassembler_32_def m68k_read_disassembler_64_def Let_def wp m68k_wf_def half_word_less
      m68k_offset_steps word_less_nat_alt)

section \<open>Operands\<close>

text \<open>
  An operand that is not a list or a pair of registers, has no register bits, and names existing
  registers where it names any.
\<close>

definition plain :: "cs_m68k_op \<Rightarrow> bool" where
  "plain op \<longleftrightarrow> ko_type op \<noteq> M68K_OP_REG_BITS \<and> ko_type op \<noteq> M68K_OP_REG_PAIR \<and>
     (ko_type op = M68K_OP_REG \<longrightarrow> ko_address_mode op = M68K_AM_NONE \<longrightarrow> unat (ko_reg op) < 47) \<and>
     unat (km_base_reg (ko_mem op)) < 47 \<and> unat (km_index_reg (ko_mem op)) < 47 \<and> ko_register_bits op = 0"

lemma and_7_less: "unat (x AND 7 :: u32) < 8"
proof -
  have "x AND 7 \<le> 7" by (rule word_and_le1)
  then show ?thesis by (simp add: word_le_nat_alt)
qed

lemma unat_plus_less: "unat (a :: u32) < m \<Longrightarrow> unat (n + a) < unat n + m"
  using unat_plus_if' [of n a] by (auto split: if_splits)

lemma reg_bounds [simp]:
  "unat (D_reg w s) < 47" "unat (A_reg w s) < 47" "unat (DA_reg w) < 47"
  "unat (FP_reg (x AND 7)) < 47" "unat (M68K_REG_D0 + (x AND 7)) < 47"
proof -
  show "unat (D_reg w s) < 47" "unat (A_reg w s) < 47" for w s
    using unat_plus_less [OF and_7_less [of "drop_bit s w"], of 1] unat_plus_less [OF and_7_less [of "drop_bit s w"], of 9]
    by (simp_all add: D_reg_def A_reg_def)
  then show "unat (DA_reg w) < 47" by (simp add: DA_reg_def)
  show "unat (FP_reg (x AND 7)) < 47" "unat (M68K_REG_D0 + (x AND 7)) < 47"
    using unat_plus_less [OF and_7_less [of x], of 17] unat_plus_less [OF and_7_less [of x], of 1] by (simp_all add: FP_reg_def)
qed

lemma ko_reg_set_reg [simp]: "ko_reg (set_reg r op) = r"
  by (rule bit_eqI) (simp add: ko_reg_def set_reg_def bit_simps)

lemma set_reg_other [simp]: "ko_type (set_reg r op) = ko_type op" "ko_address_mode (set_reg r op) = ko_address_mode op"
  "ko_mem (set_reg r op) = ko_mem op" "ko_register_bits (set_reg r op) = ko_register_bits op"
  by (simp_all add: set_reg_def)

lemma set_reg_pair_other [simp]: "ko_register_bits (set_reg_pair r0 r1 op) = ko_register_bits op"
  by (simp add: set_reg_pair_def)

lemma ko_reg_other [simp]: "ko_reg (op\<lparr>ko_type := t\<rparr>) = ko_reg op" "ko_reg (op\<lparr>ko_address_mode := a\<rparr>) = ko_reg op"
  "ko_reg (op\<lparr>ko_mem := m\<rparr>) = ko_reg op" "ko_reg (op\<lparr>ko_br_disp := d\<rparr>) = ko_reg op" 
  by (simp_all add: ko_reg_def)

lemma plain_updates [simp]:
  "plain op \<Longrightarrow> unat r < 47 \<Longrightarrow> plain (set_reg r op)"
  "plain op \<Longrightarrow> unat r < 47 \<Longrightarrow> plain (as_reg mode r op)"
  "plain op \<Longrightarrow> plain (as_imm v op)"
  "plain op \<Longrightarrow> plain (as_branch disp d op)"
  "plain op \<Longrightarrow> plain (op\<lparr>ko_type := M68K_OP_MEM\<rparr>)"
  "plain op \<Longrightarrow> mode \<noteq> M68K_AM_NONE \<Longrightarrow> plain (op\<lparr>ko_address_mode := mode\<rparr>)"
  "plain op \<Longrightarrow> mode \<noteq> M68K_AM_NONE \<Longrightarrow> plain (set_imm v (op\<lparr>ko_address_mode := mode\<rparr>))"
  "plain op \<Longrightarrow> unat r < 47 \<Longrightarrow> plain ((as_reg mode r op)\<lparr>ko_type := M68K_OP_REG\<rparr>)"
  "plain op \<Longrightarrow> unat r < 47 \<Longrightarrow> plain (as_disp r disp op)"
  "plain op \<Longrightarrow> plain (full_mode is_pc ext op)"
  by (auto simp: plain_def as_reg_def as_imm_def as_branch_def set_imm_def as_disp_def on_mem_def full_mode_def Let_def)

lemma plain_on_mem:
  assumes "plain op" "unat (km_base_reg (f (ko_mem op))) < 47" "unat (km_index_reg (f (ko_mem op))) < 47"
  shows "plain (on_mem f op)"
  using assms by (auto simp: plain_def on_mem_def)

lemma mem_bounds: "plain op \<Longrightarrow> unat (km_base_reg (ko_mem op)) < 47 \<and> unat (km_index_reg (ko_mem op)) < 47"
  by (simp add: plain_def)

lemma mem_setters [simp]:
  "km_base_reg (set_scale e m) = km_base_reg m" "km_index_reg (set_scale e m) = km_index_reg m"
  "km_base_reg (set_index e m) = km_base_reg m" "km_index_reg (set_index e m) = DA_reg e"
  "km_base_reg (set_base pc w m) = (if pc then M68K_REG_PC else A_reg w 0)" "km_index_reg (set_base pc w m) = km_index_reg m"
  by (simp_all add: set_scale_def set_index_def set_base_def)

section \<open>States of a handler\<close>

text \<open>The parts of the state that no handler changes.\<close>

definition m68k_frame :: "m68k_info \<Rightarrow> m68k_info" where
  "m68k_frame info = info\<lparr>mk_pc := 0, mk_extension := zero_m68k, mk_inst := (mk_inst info)\<lparr>mi_Opcode := 0\<rparr>,
     mk_groups := [], mk_groups_count := 0\<rparr>"

text \<open>
  \<open>st I Z X n g info\<close>: the state \<open>info\<close> has been reached from \<open>I\<close> by reading at most \<open>n\<close> words.
  The operands but those in \<open>X\<close> are plain, at most \<open>g\<close> groups are set, and the size is of the
  kind \<open>Z\<close>.
\<close>

definition advanced :: "m68k_info \<Rightarrow> nat \<Rightarrow> m68k_info \<Rightarrow> bool" where
  "advanced I n info \<longleftrightarrow> (\<exists>k\<le>n. mk_pc info = mk_pc I + of_nat (2 * k))"

definition ops_st :: "m68k_size_type \<Rightarrow> nat set \<Rightarrow> cs_m68k \<Rightarrow> bool" where
  "ops_st Z X ext \<longleftrightarrow> length (kx_operands ext) = 4 \<and> kz_type (kx_op_size ext) = Z \<and> unat (kx_op_count ext) \<le> 3 \<and>
     (\<forall>i<4. i \<notin> X \<longrightarrow> plain (kx_operands ext ! i))"

definition st :: "m68k_info \<Rightarrow> m68k_size_type \<Rightarrow> nat set \<Rightarrow> nat \<Rightarrow> nat \<Rightarrow> m68k_info \<Rightarrow> bool" where
  "st I Z X n g info \<longleftrightarrow> m68k_wf I \<and> m68k_frame info = m68k_frame I \<and> advanced I n info \<and> ops_st Z X (mk_extension info) \<and>
     length (mk_groups info) = 8 \<and> unat (mk_groups_count info) \<le> g \<and> unat (mi_Opcode (mk_inst info)) < 375"

lemma advanced_mono: "advanced I n info \<Longrightarrow> n \<le> m \<Longrightarrow> advanced I m info"
  unfolding advanced_def using le_trans by blast

lemma st_mono: "st I Z X n g info \<Longrightarrow> X \<subseteq> Y \<Longrightarrow> n \<le> m \<Longrightarrow> g \<le> h \<Longrightarrow> st I Z Y m h info"
  using advanced_mono [of I n info m] by (auto simp: st_def ops_st_def)

lemma frame_fields:
  assumes "m68k_frame info = m68k_frame I"
  shows "mk_code info = mk_code I" "mk_code_len info = mk_code_len I" "mk_baseAddress info = mk_baseAddress I" "mk_ir info = mk_ir I"
    "mk_type info = mk_type I" "mk_address_mask info = mk_address_mask I"
    "mk_regs_read info = mk_regs_read I" "mk_regs_read_count info = mk_regs_read_count I"
    "mk_regs_write info = mk_regs_write I" "mk_regs_write_count info = mk_regs_write_count I"
    "(mk_inst info)\<lparr>mi_Opcode := 0\<rparr> = (mk_inst I)\<lparr>mi_Opcode := 0\<rparr>"
  using assms by (cases info; cases I; simp add: m68k_frame_def)+

lemma st_wf: "st I Z X n g info \<Longrightarrow> m68k_wf info"
  using frame_fields(1,2) [of info I] by (simp add: st_def m68k_wf_def)

lemma st_ir: "st I Z X n g info \<Longrightarrow> mk_ir info = mk_ir I"
  using frame_fields(4) [of info I] by (simp add: st_def)

lemma st_type: "st I Z X n g info \<Longrightarrow> mk_type info = mk_type I"
  using frame_fields(5) [of info I] by (simp add: st_def)

lemma frame_updates [simp]:
  "m68k_frame (skip_pc k info) = m68k_frame info" "m68k_frame (on_op i f info) = m68k_frame info"
  "m68k_frame (set_op_count c info) = m68k_frame info" "m68k_frame (set_op_size z sz info) = m68k_frame info"
  "m68k_frame (set_opcode oc info) = m68k_frame info"
  "m68k_frame (info\<lparr>mk_groups := gs, mk_groups_count := gc\<rparr>) = m68k_frame info"
  by (simp_all add: m68k_frame_def skip_pc_def on_op_def set_op_count_def set_op_size_def set_opcode_def MCInst_setOpcode_def)

lemma st_if: "st I Z X n g a \<Longrightarrow> st I Z X n g b \<Longrightarrow> st I Z X n g (if c then a else b)"
  by simp

lemma advanced_updates [simp]:
  "advanced I n (on_op i f info) = advanced I n info" "advanced I n (set_op_count c info) = advanced I n info"
  "advanced I n (set_op_size z sz info) = advanced I n info" "advanced I n (set_opcode oc info) = advanced I n info"
  "advanced I n (info\<lparr>mk_groups := gs, mk_groups_count := gc\<rparr>) = advanced I n info"
  by (simp_all add: advanced_def on_op_def set_op_count_def set_op_size_def set_opcode_def)

lemma advanced_skip: "advanced I n info \<Longrightarrow> advanced I (n + k) (skip_pc (of_nat (2 * k)) info)"
proof -
  assume "advanced I n info"
  then obtain j where "j \<le> n" "mk_pc info = mk_pc I + of_nat (2 * j)" by (auto simp: advanced_def)
  then have "j + k \<le> n + k \<and> mk_pc (skip_pc (of_nat (2 * k)) info) = mk_pc I + of_nat (2 * (j + k))"
    by (simp add: skip_pc_def)
  then show ?thesis unfolding advanced_def by blast
qed

lemma st_skip: "st I Z X n g info \<Longrightarrow> st I Z X (n + k) g (skip_pc (of_nat (2 * k)) info)"
  using advanced_skip [of I n info k] by (simp add: st_def) (simp add: skip_pc_def)

text \<open>The pure steps.\<close>

lemma st_set_op_count: "st I Z X n g info \<Longrightarrow> unat c \<le> 3 \<Longrightarrow> st I Z X n g (set_op_count c info)"
  by (simp add: st_def) (simp add: set_op_count_def ops_st_def)

lemma st_set_op_size: "st I Z X n g info \<Longrightarrow> st I Z' X n g (set_op_size Z' sz info)"
  by (simp add: st_def) (simp add: set_op_size_def ops_st_def)

lemma st_set_opcode: "st I Z X n g info \<Longrightarrow> unat oc < 375 \<Longrightarrow> st I Z X n g (set_opcode oc info)"
  by (simp add: st_def) (simp add: set_opcode_def MCInst_setOpcode_def ops_st_def)

lemma st_init: "st I Z X n g info \<Longrightarrow> unat oc < 375 \<Longrightarrow> unat k \<le> 3 \<Longrightarrow> st I M68K_SIZE_TYPE_CPU X n g (build_init_op info oc k sz)"
  unfolding build_init_op_def by (intro st_set_op_size st_set_op_count st_set_opcode)

lemma st_on_op:
  assumes "st I Z X n g info" "\<And>op. plain op \<Longrightarrow> plain (f op)"
  shows "st I Z X n g (on_op i f info)"
proof -
  have "ops_st Z X (mk_extension (on_op i f info))"
    using assms by (cases "i < 4") (auto simp: st_def ops_st_def on_op_def nth_list_update)
  with assms(1) show ?thesis by (simp add: st_def) (simp add: on_op_def)
qed

lemma st_on_special: "st I Z X n g info \<Longrightarrow> st I Z (insert i X) n g (on_op i f info)"
proof -
  assume "st I Z X n g info"
  moreover from this have "ops_st Z (insert i X) (mk_extension (on_op i f info))"
    by (auto simp: st_def ops_st_def on_op_def nth_list_update)
  ultimately show ?thesis by (simp add: st_def) (simp add: on_op_def)
qed

lemma ir_updates [simp]:
  "mk_ir (skip_pc k info) = mk_ir info" "mk_ir (on_op i f info) = mk_ir info"
  "mk_ir (set_op_count c info) = mk_ir info" "mk_ir (set_op_size z sz info) = mk_ir info"
  "mk_ir (set_opcode oc info) = mk_ir info" "mk_ir (build_init_op info oc kk sz) = mk_ir info"
  by (simp_all add: skip_pc_def on_op_def set_op_count_def set_op_size_def set_opcode_def build_init_op_def)

text \<open>Reading words.\<close>

lemma read_then [wpi]:
  assumes "st I Z X n g info"
  shows "(\<And>v. unat v < 65536 \<Longrightarrow> st I Z X (n + 1) g (skip_pc 2 info) \<Longrightarrow> yields (f (v, skip_pc 2 info)) Q) \<Longrightarrow> yields (read_imm_8 info \<bind> f) Q"
    "(\<And>v. unat v < 65536 \<Longrightarrow> st I Z X (n + 1) g (skip_pc 2 info) \<Longrightarrow> yields (f (v, skip_pc 2 info)) Q) \<Longrightarrow> yields (read_imm_16 info \<bind> f) Q"
    "(\<And>v. st I Z X (n + 2) g (skip_pc 4 info) \<Longrightarrow> yields (f (v, skip_pc 4 info)) Q) \<Longrightarrow> yields (read_imm_32 info \<bind> f) Q"
    "(\<And>v. st I Z X (n + 4) g (skip_pc 8 info) \<Longrightarrow> yields (f' (v, skip_pc 8 info)) Q) \<Longrightarrow> yields (read_imm_64 info \<bind> f') Q"
    "(\<And>v. yields (h v) Q) \<Longrightarrow> yields (peek_imm_32 info \<bind> h) Q"
proof -
  note reads = read_safe_yields [OF st_wf [OF assms]]
  have 8: "unat (v AND 0xff) < 65536" for v :: u32
  proof -
    have "v AND 0xff \<le> 0xff" by (rule word_and_le1)
    then show ?thesis by (simp add: word_le_nat_alt)
  qed
  have skip: "st I Z X (n + 1) g (skip_pc 2 info)" "st I Z X (n + 2) g (skip_pc 4 info)" "st I Z X (n + 4) g (skip_pc 8 info)"
    using st_skip [OF assms, of 1] st_skip [OF assms, of 2] st_skip [OF assms, of 4] by simp_all
  show "yields (read_imm_8 info \<bind> f) Q" if "\<And>v. unat v < 65536 \<Longrightarrow> st I Z X (n + 1) g (skip_pc 2 info) \<Longrightarrow> yields (f (v, skip_pc 2 info)) Q"
    by (simp add: read_imm_8_def peek_imm_8_def wp) (rule yields_mono [OF reads(1)], rule that [OF 8 skip(1)])
  show "yields (read_imm_16 info \<bind> f) Q" if "\<And>v. unat v < 65536 \<Longrightarrow> st I Z X (n + 1) g (skip_pc 2 info) \<Longrightarrow> yields (f (v, skip_pc 2 info)) Q"
    by (simp add: read_imm_16_def peek_imm_16_def wp) (rule yields_mono [OF reads(1)], rule that [OF _ skip(1)])
  show "yields (read_imm_32 info \<bind> f) Q" if "\<And>v. st I Z X (n + 2) g (skip_pc 4 info) \<Longrightarrow> yields (f (v, skip_pc 4 info)) Q"
    by (simp add: read_imm_32_def peek_imm_32_def wp) (rule yields_mono [OF reads(2)], rule that [OF skip(2)])
  show "yields (read_imm_64 info \<bind> f') Q" if "\<And>v. st I Z X (n + 4) g (skip_pc 8 info) \<Longrightarrow> yields (f' (v, skip_pc 8 info)) Q"
    by (simp add: read_imm_64_def peek_imm_64_def wp) (rule yields_mono [OF reads(3)], rule that [OF skip(3)])
  show "yields (peek_imm_32 info \<bind> h) Q" if "\<And>v. yields (h v) Q"
    by (simp add: peek_imm_32_def wp) (rule yields_mono [OF reads(2)], rule that)
qed

section \<open>Effective addresses\<close>

text \<open>Only operand \<open>i\<close> has changed.\<close>

definition only_op :: "nat \<Rightarrow> m68k_info \<Rightarrow> m68k_info \<Rightarrow> bool" where
  "only_op i info info' \<longleftrightarrow> (\<exists>op. mk_extension info' =
     (mk_extension info)\<lparr>kx_operands := (kx_operands (mk_extension info))[i := op]\<rparr>)"

lemma only_op_refl [simp]: "only_op i info info"
  by (auto simp: only_op_def intro!: exI [of _ "op_at info i"]) (simp add: op_at_def)

lemma only_op_steps: "only_op i info info' \<Longrightarrow> only_op i info (on_op i f info')"
  "only_op i info info' \<Longrightarrow> only_op i info (skip_pc k info')"
  by (auto simp: only_op_def on_op_def skip_pc_def)

lemma only_op_other: "only_op i info info' \<Longrightarrow> j \<noteq> i \<Longrightarrow> op_at info' j = op_at info j"
  by (auto simp: only_op_def op_at_def)

lemma only_op_size: "only_op i info info' \<Longrightarrow> kx_op_size (mk_extension info') = kx_op_size (mk_extension info) \<and>
    kx_op_count (mk_extension info') = kx_op_count (mk_extension info)"
  by (auto simp: only_op_def)

definition ea_st :: "m68k_info \<Rightarrow> m68k_size_type \<Rightarrow> nat set \<Rightarrow> nat \<Rightarrow> nat \<Rightarrow> nat \<Rightarrow> m68k_info \<Rightarrow> m68k_info \<Rightarrow> bool" where
  "ea_st I Z X n g i info info' \<longleftrightarrow> st I Z X n g info' \<and> only_op i info info'"

lemma ea_on_op: "ea_st I Z X n g i info info' \<Longrightarrow> (\<And>op. plain op \<Longrightarrow> plain (f op)) \<Longrightarrow> ea_st I Z X n g i info (on_op i f info')"
  by (simp add: ea_st_def st_on_op only_op_steps)

lemma ea_if: "ea_st I Z X n g i info a \<Longrightarrow> ea_st I Z X n g i info b \<Longrightarrow> ea_st I Z X n g i info (if c then a else b)"
  by simp

lemma ea_mono: "ea_st I Z X n g i info info' \<Longrightarrow> n \<le> m \<Longrightarrow> ea_st I Z X m g i info info'"
  by (auto simp: ea_st_def intro: st_mono)

lemma ea_read_then:
  assumes "ea_st I Z X n g i info info'"
  shows "(\<And>v. ea_st I Z X (n + 1) g i info (skip_pc 2 info') \<Longrightarrow> yields (f (v, skip_pc 2 info')) Q) \<Longrightarrow> yields (read_imm_8 info' \<bind> f) Q"
    "(\<And>v. ea_st I Z X (n + 1) g i info (skip_pc 2 info') \<Longrightarrow> yields (f (v, skip_pc 2 info')) Q) \<Longrightarrow> yields (read_imm_16 info' \<bind> f) Q"
    "(\<And>v. ea_st I Z X (n + 2) g i info (skip_pc 4 info') \<Longrightarrow> yields (f (v, skip_pc 4 info')) Q) \<Longrightarrow> yields (read_imm_32 info' \<bind> f) Q"
    "(\<And>v. ea_st I Z X (n + 4) g i info (skip_pc 8 info') \<Longrightarrow> yields (f' (v, skip_pc 8 info')) Q) \<Longrightarrow> yields (read_imm_64 info' \<bind> f') Q"
proof -
  have s: "st I Z X n g info'" and o: "only_op i info (skip_pc k info')" for k
    using assms by (auto simp: ea_st_def only_op_steps)
  note ea = ea_st_def [of I Z X _ g i info, THEN iffD2, OF conjI, OF _ o]
  show "yields (read_imm_8 info' \<bind> f) Q"
    if "\<And>v. ea_st I Z X (n + 1) g i info (skip_pc 2 info') \<Longrightarrow> yields (f (v, skip_pc 2 info')) Q"
    by (rule read_then(1) [OF s], rule that, rule ea)
  show "yields (read_imm_16 info' \<bind> f) Q"
    if "\<And>v. ea_st I Z X (n + 1) g i info (skip_pc 2 info') \<Longrightarrow> yields (f (v, skip_pc 2 info')) Q"
    by (rule read_then(2) [OF s], rule that, rule ea)
  show "yields (read_imm_32 info' \<bind> f) Q"
    if "\<And>v. ea_st I Z X (n + 2) g i info (skip_pc 4 info') \<Longrightarrow> yields (f (v, skip_pc 4 info')) Q"
    by (rule read_then(3) [OF s], rule that, rule ea)
  show "yields (read_imm_64 info' \<bind> f') Q"
    if "\<And>v. ea_st I Z X (n + 4) g i info (skip_pc 8 info') \<Longrightarrow> yields (f' (v, skip_pc 8 info')) Q"
    by (rule read_then(4) [OF s], rule that, rule ea)
qed

lemma ea_read_disp:
  assumes "ea_st I Z X n g i info info'"
    "\<And>v info''. ea_st I Z X (n + 2) g i info info'' \<Longrightarrow> yields (f (v, info'')) Q"
  shows "yields ((if p then if q then read_imm_32 info' else read_imm_16 info' else Some (0, info')) \<bind> f) Q"
proof -
  have "ea_st I Z X (n + 2) g i info info'" by (rule ea_mono [OF assms(1)]) simp
  moreover have "yields (read_imm_16 info' \<bind> f) Q"
    by (rule ea_read_then(2) [OF assms(1)], rule assms(2), erule ea_mono) simp
  moreover have "yields (read_imm_32 info' \<bind> f) Q"
    by (rule ea_read_then(3) [OF assms(1)], rule assms(2))
  ultimately show ?thesis using assms(2) by simp
qed

lemma yields_ifI: "(c \<Longrightarrow> yields a Q) \<Longrightarrow> (\<not> c \<Longrightarrow> yields b Q) \<Longrightarrow> yields (if c then a else b) Q"
  by simp

lemma index_plain:
  assumes "plain op"
  shows "plain (on_mem (\<lambda>m. m\<lparr>km_base_reg := M68K_REG_INVALID, km_index_reg := M68K_REG_INVALID\<rparr>) op)"
    "plain (on_mem (\<lambda>m. m\<lparr>km_in_disp := d\<rparr>) op)" "plain (on_mem (\<lambda>m. m\<lparr>km_out_disp := d\<rparr>) op)"
    "plain (on_mem (set_base is_pc w) op)" "plain (on_mem (\<lambda>m. set_scale e (set_index e m)) op)"
    "plain (on_mem (\<lambda>m. set_base is_pc w (set_index e m)) op)" "plain (on_mem (set_scale e) op)"
    "mode \<noteq> M68K_AM_NONE \<Longrightarrow> plain (on_mem (\<lambda>m. m\<lparr>km_disp := dd\<rparr>) (op\<lparr>ko_address_mode := mode\<rparr>))"
    "unat r < 47 \<Longrightarrow> mode \<noteq> M68K_AM_NONE \<Longrightarrow> plain (on_mem (\<lambda>m. m\<lparr>km_base_reg := r, km_disp := dd\<rparr>) (op\<lparr>ko_address_mode := mode\<rparr>))"
  using assms mem_bounds [OF assms] by (auto intro!: plain_on_mem)

lemma get_with_index_address_mode_ea:
  assumes "ea_st I Z X n g i info info'"
  shows "yields (get_with_index_address_mode info' i w is_pc) (ea_st I Z X (n + 5) g i info)"
  unfolding get_with_index_address_mode_def Let_def
  apply (rule ea_read_then(2) [OF assms], simp only: prod.case)
  apply (rule yields_ifI)
  subgoal
    apply (rule ea_read_disp)
     apply (rule ea_on_op, rule ea_on_op, assumption)
    apply simp
    apply (simp add: index_plain)
    apply (simp only: prod.case)
    apply (rule ea_read_disp)
     apply (rule ea_on_op, assumption)
    apply (simp add: index_plain)
    apply (simp only: prod.case yields_Some)
    apply (intro ea_on_op ea_if; (erule ea_mono, simp)?; (simp add: index_plain)?)
    done
  apply (simp only: yields_Some)
  apply (intro ea_on_op ea_if; (erule ea_mono, simp)?; (simp add: index_plain)?)
  done

lemma read_ea_imm_then:
  assumes "ea_st I Z X n g i info info'"
    "\<And>v info''. ea_st I Z X (n + 4) g i info info'' \<Longrightarrow> yields (f (v, info'')) Q"
  shows "yields (read_ea_imm info' sz \<bind> f) Q"
proof -
  let ?P = "\<lambda>p. ea_st I Z X (n + 4) g i info (snd p)"
  have "yields (read_imm_8 info' \<bind> Some) ?P" "yields (read_imm_16 info' \<bind> Some) ?P" "yields (read_imm_32 info' \<bind> Some) ?P"
    "yields (read_imm_64 info' \<bind> Some) ?P"
    by (rule ea_read_then [OF assms(1)], (simp only: yields_Some snd_conv; erule ea_mono; simp))+
  then have r: "yields (read_imm_8 info') ?P" "yields (read_imm_16 info') ?P" "yields (read_imm_32 info') ?P"
    "yields (read_imm_64 info') ?P"
    by (simp_all only: Option.bind_runit)
  have k: "yields (f p) Q" if "?P p" for p using assms(2) [of "snd p" "fst p"] that by simp
  show ?thesis
    unfolding read_ea_imm_def yields_bind
    by (intro yields_ifI; (simp only: yields_map_option split_def)?;
        (rule yields_mono [OF r(1)] yields_mono [OF r(2)] yields_mono [OF r(3)] yields_mono [OF r(4)]), rule k, simp)
qed

lemma get_ea_mode_op_ea:
  assumes "st I Z X n g info"
  shows "yields (get_ea_mode_op info i w sz) (ea_st I Z X (n + 5) g i info)"
proof -
  have "ea_st I Z X n g i info info" using assms by (simp add: ea_st_def)
  then have e: "ea_st I Z X n g i info (on_op i (\<lambda>op. op\<lparr>ko_type := M68K_OP_MEM\<rparr>) info)" by (rule ea_on_op) simp
  note m = ea_mono [OF e, of "n + 5"]
  show ?thesis
    unfolding get_ea_mode_op_def Let_def
    by (intro yields_ifI ea_read_then [OF e] read_ea_imm_then [OF e] get_with_index_address_mode_ea [OF e];
        (simp only: prod.case yields_Some)?; (intro ea_on_op m)?; (erule ea_mono)?; simp add: index_plain)
qed

section \<open>Builders\<close>

lemma get_ea_then:
  assumes "st I Z X n g info"
    and "\<And>info'. st I Z X (n + 5) g info' \<Longrightarrow> only_op i info info' \<Longrightarrow> yields (f info') Q"
  shows "yields (get_ea_mode_op info i w sz \<bind> f) Q"
  by (rule yields_then [OF get_ea_mode_op_ea [OF assms(1)]]) (auto simp: ea_st_def assms(2))

lemma get_ea_st: "st I Z X n g info \<Longrightarrow> yields (get_ea_mode_op info i w sz) (st I Z X (n + 5) g)"
  using get_ea_then [of I Z X n g info i Some "st I Z X (n + 5) g" w sz] by (simp add: wp)

lemma set_insn_group_st:
  assumes "st I Z X n g info" "g < 8"
  shows "yields (set_insn_group info grp) (\<lambda>info'. st I Z X n (g + 1) info' \<and> mk_extension info' = mk_extension info)"
  using assms by (auto simp: set_insn_group_def wp st_def unat_word_ariths)

lemma set_group_then:
  assumes "st I Z X n g info" "g < 8" "\<And>info'. st I Z X n (g + 1) info' \<Longrightarrow> mk_extension info' = mk_extension info \<Longrightarrow> yields (f info') Q"
  shows "yields (set_insn_group info grp \<bind> f) Q"
  by (rule yields_then [OF set_insn_group_st [OF assms(1,2)]]) (auto simp: assms(3))

lemma jump_groups_st: "st I Z X n g info \<Longrightarrow> g < 7 \<Longrightarrow> yields (jump_groups info) (st I Z X n (g + 2))"
  unfolding jump_groups_def
  by (rule set_group_then, assumption, simp, rule yields_mono [OF set_insn_group_st]) auto

text \<open>
  \<open>builds f k h\<close>: from a state with plain operands \<open>f\<close> reads at most \<open>k\<close> words, adds at most \<open>h\<close>
  groups, and leaves plain operands and a CPU size.
\<close>

definition builds :: "(m68k_info \<Rightarrow> m68k_info option) \<Rightarrow> nat \<Rightarrow> nat \<Rightarrow> bool" where
  "builds f k h \<longleftrightarrow> (\<forall>I n g info. st I M68K_SIZE_TYPE_CPU {} n g info \<longrightarrow> g \<le> 1 \<longrightarrow>
     yields (f info) (st I M68K_SIZE_TYPE_CPU {} (n + k) (g + h)))"

lemma buildsI:
  "(\<And>I n g info. st I M68K_SIZE_TYPE_CPU {} n g info \<Longrightarrow> g \<le> 1 \<Longrightarrow> yields (f info) (st I M68K_SIZE_TYPE_CPU {} (n + k) (g + h))) \<Longrightarrow>
   builds f k h"
  by (simp add: builds_def)

lemma buildsD: "builds f k h \<Longrightarrow> st I M68K_SIZE_TYPE_CPU {} n g info \<Longrightarrow> g \<le> 1 \<Longrightarrow>
    yields (f info) (st I M68K_SIZE_TYPE_CPU {} (n + k) (g + h))"
  by (simp add: builds_def)

lemma builds_mono: "builds f k h \<Longrightarrow> k \<le> k' \<Longrightarrow> h \<le> h' \<Longrightarrow> builds f k' h'"
  unfolding builds_def by (blast intro: yields_mono st_mono add_left_mono order_refl)

lemma condition_less: "condition info < 16"
proof -
  have "drop_bit 8 (mk_ir info) AND 0xf \<le> 0xf" by (rule word_and_le1)
  then show ?thesis by (simp add: condition_def word_le_nat_alt)
qed

lemma lut_bounds:
  "unat (s_branch_lut ! condition info) < 375" "unat (s_trap_lut ! condition info) < 375"
  "unat (s_dbcc_lut ! condition info) < 375" "unat (s_scc_lut ! condition info) < 375"
proof -
  have "list_all (\<lambda>x. unat x < 375) s_branch_lut \<and> length s_branch_lut = 16"
    "list_all (\<lambda>x. unat x < 375) s_trap_lut \<and> length s_trap_lut = 16"
    "list_all (\<lambda>x. unat x < 375) s_dbcc_lut \<and> length s_dbcc_lut = 16"
    "list_all (\<lambda>x. unat x < 375) s_scc_lut \<and> length s_scc_lut = 16"
    by (simp_all add: s_branch_lut_def s_trap_lut_def s_dbcc_lut_def s_scc_lut_def)
  then show "unat (s_branch_lut ! condition info) < 375" "unat (s_trap_lut ! condition info) < 375"
    "unat (s_dbcc_lut ! condition info) < 375" "unat (s_scc_lut ! condition info) < 375"
    using condition_less [of info] by (simp_all add: list_all_length)
qed

lemmas st_steps = st_on_op st_init st_set_op_count st_set_opcode

named_theorems builds \<open>what the builders of operands use up\<close>

lemma build_simple [builds]:
  assumes c: "unat c < 375"
  shows "builds (\<lambda>info. build_r info c sz) 0 0" "builds (\<lambda>info. build_3bit_d info c sz) 0 0" "builds (\<lambda>info. build_pi_pi info c sz) 0 0"
    "builds (\<lambda>info. build_d info c sz) 0 0"
    "unat r < 47 \<Longrightarrow> builds (\<lambda>info. build_imm_special_reg info c imm sz r) 0 0"
    "builds (\<lambda>info. Some (set_opcode c info)) 0 0" "builds (\<lambda>info. Some (build_imm info c (v info))) 0 0"
  unfolding build_r_def build_3bit_d_def build_pi_pi_def build_d_def build_imm_special_reg_def build_imm_def Let_def
  by (rule buildsI; simp only: yields_Some add_0_right; (intro st_steps; (assumption | simp add: c)))+

lemma third_imm_st: "st I Z X n g info \<Longrightarrow> st I Z X n g (third_imm imm info)"
  unfolding third_imm_def by (split if_split, intro conjI impI) (intro st_steps; (assumption | simp))+

lemma build_two [builds]:
  assumes c: "unat c < 375"
  shows "builds (\<lambda>info. build_rr info c sz imm) 0 0" "builds (\<lambda>info. build_mm info c sz imm) 0 0"
  unfolding build_rr_def build_mm_def Let_def
  by (rule buildsI; simp only: yields_Some add_0_right; (intro third_imm_st st_steps; (assumption | simp add: c)))+

lemma build_ea_one [builds]:
  assumes c: "unat c < 375"
  shows "builds (\<lambda>info. build_re_1 info c sz) 5 0" "builds (\<lambda>info. build_imm_ea info c sz imm) 5 0"
    "builds (\<lambda>info. build_3bit_ea info c sz) 5 0" "builds (\<lambda>info. build_ea info c sz) 5 0"
  unfolding build_re_1_def build_re_gen_1_def build_imm_ea_def build_3bit_ea_def build_ea_def Let_def
  by (rule buildsI; simp only: add_0_right; rule get_ea_st; (intro st_steps; (assumption | simp add: c)))+

lemma build_ea_reg [builds]:
  assumes c: "unat c < 375"
  shows "builds (\<lambda>info. build_er_1 info c sz) 5 0" "builds (\<lambda>info. build_ea_a info c sz) 5 0"
  unfolding build_er_1_def build_er_gen_1_def build_ea_a_def Let_def
  by (rule buildsI; simp only: add_0_right; rule get_ea_then; (simp only: yields_Some)?; (intro st_steps; (assumption | simp add: c)))+

lemma build_ea_ea [builds]:
  assumes c: "unat c < 375"
  shows "builds (\<lambda>info. build_ea_ea info c sz) 10 0"
proof (rule buildsI)
  fix I n g info assume s: "st I M68K_SIZE_TYPE_CPU {} n g info"
  have "yields (build_ea_ea info c sz) (st I M68K_SIZE_TYPE_CPU {} (n + 5 + 5) g)"
    unfolding build_ea_ea_def Let_def
    by (rule get_ea_then, rule st_init [OF s c], simp, rule get_ea_st)
  then show "yields (build_ea_ea info c sz) (st I M68K_SIZE_TYPE_CPU {} (n + 10) (g + 0))" by (simp add: add.assoc)
qed

lemma build_jumps [builds]:
  assumes c: "unat c < 375"
  shows "builds (\<lambda>info. build_relative_branch info c sz (d info)) 0 2" "builds (\<lambda>info. build_dbxx info c sz (d info)) 0 2"
    "builds (\<lambda>info. build_absolute_jump_with_immediate info c sz (d info)) 0 1"
proof -
  show "builds (\<lambda>info. build_relative_branch info c sz (d info)) 0 2" "builds (\<lambda>info. build_dbxx info c sz (d info)) 0 2"
    unfolding build_relative_branch_def build_dbxx_def Let_def
    by (rule buildsI; simp only: add_0_right; rule jump_groups_st; (intro st_steps; (assumption | simp add: c))?; simp)+
  show "builds (\<lambda>info. build_absolute_jump_with_immediate info c sz (d info)) 0 1"
    unfolding build_absolute_jump_with_immediate_def Let_def
  proof (rule buildsI)
    fix I n g info assume s: "st I M68K_SIZE_TYPE_CPU {} n g info" "g \<le> 1"
    have "st I M68K_SIZE_TYPE_CPU {} n g (on_op 0 (as_imm (int_imm (d info))) (build_init_op info c 1 sz))"
      by (intro st_on_op st_init [OF s(1) c]) simp_all
    from yields_mono [OF set_insn_group_st [OF this]] s(2)
    show "yields (set_insn_group (on_op 0 (as_imm (int_imm (d info))) (build_init_op info c 1 sz)) M68K_GRP_JUMP)
        (st I M68K_SIZE_TYPE_CPU {} (n + 0) (g + 1))" by simp
  qed
qed

lemma build_conditional [builds]:
  "builds (\<lambda>info. build_bcc info sz (d info)) 0 2" "builds (\<lambda>info. build_trap info sz (d info)) 0 1"
  "builds (\<lambda>info. build_dbcc info sz (d info)) 0 2"
  unfolding build_bcc_def build_trap_def build_dbcc_def
  using build_jumps [OF lut_bounds(1)] build_jumps [OF lut_bounds(2)] build_jumps [OF lut_bounds(3)]
  by (auto simp: builds_def)

lemma six_words: "(n :: nat) + 1 + 5 = n + 6"
  by simp

lemma build_d_d_ea [builds]:
  assumes c: "unat c < 375"
  shows "builds (\<lambda>info. build_d_d_ea info c sz) 6 0"
proof (rule buildsI)
  fix I n g info assume s: "st I M68K_SIZE_TYPE_CPU {} n g info"
  have "yields (build_d_d_ea info c sz) (st I M68K_SIZE_TYPE_CPU {} (n + 1 + 5) g)"
    unfolding build_d_d_ea_def Let_def
    by (rule read_then [OF s], simp only: prod.case, rule get_ea_st, intro st_steps; (assumption | simp add: c))
  then show "yields (build_d_d_ea info c sz) (st I M68K_SIZE_TYPE_CPU {} (n + 6) (g + 0))" by (simp only: six_words add_0_right)
qed

lemma build_bitfield_ins [builds]:
  assumes c: "unat c < 375"
  shows "builds (\<lambda>info. build_bitfield_ins info c has_d) 6 0"
proof (rule buildsI)
  fix I n g info assume s: "st I M68K_SIZE_TYPE_CPU {} n g info"
  have r: "st I M68K_SIZE_TYPE_CPU {} n g (build_init_op info c 1 0)" by (rule st_init [OF s c]) simp
  have w: "plain (on_mem (\<lambda>m. m\<lparr>km_bitfield := 1, km_width := a, km_offset := b\<rparr>) op)" if "plain op" for a b op
    using that mem_bounds [OF that] by (intro plain_on_mem) simp_all
  have "yields (build_bitfield_ins info c has_d) (st I M68K_SIZE_TYPE_CPU {} (n + 1 + 5) g)"
    unfolding build_bitfield_ins_def Let_def
    apply (rule read_then [OF r], simp only: prod.case)
    apply (rule get_ea_then)
     prefer 2 apply (simp only: yields_Some, rule st_on_op, assumption, rule w, assumption)
    apply (split if_split, intro conjI impI; (intro st_steps)?; (assumption | simp))
    done
  then show "yields (build_bitfield_ins info c has_d) (st I M68K_SIZE_TYPE_CPU {} (n + 6) (g + 0))" by (simp only: six_words add_0_right)
qed

lemma build_chk2_cmp2 [builds]: "builds (\<lambda>info. build_chk2_cmp2 info sz) 6 0"
proof (rule buildsI)
  fix I n g info assume s: "st I M68K_SIZE_TYPE_CPU {} n g info"
  have r: "st I M68K_SIZE_TYPE_CPU {} n g (build_init_op info M68K_INS_CHK2 2 sz)" by (rule st_init [OF s]) simp_all
  have "yields (build_chk2_cmp2 info sz) (st I M68K_SIZE_TYPE_CPU {} (n + 1 + 5) g)"
    unfolding build_chk2_cmp2_def Let_def
    apply (rule read_then [OF r], simp only: prod.case)
    apply (rule get_ea_then)
     prefer 2 apply (simp only: yields_Some, rule st_on_op, assumption, simp)
    apply (rule st_set_opcode, assumption, simp)
    done
  then show "yields (build_chk2_cmp2 info sz) (st I M68K_SIZE_TYPE_CPU {} (n + 6) (g + 0))" by (simp only: six_words add_0_right)
qed

lemma move16_plain:
  "mode \<in> {M68K_AM_REGI_ADDR_POST_INC, M68K_AM_REG_DIRECT_ADDR, M68K_AM_ABSOLUTE_DATA_LONG} \<Longrightarrow> plain op \<Longrightarrow> plain (move16_op d mode op)"
  by (auto simp: move16_op_def Let_def plain_def set_imm_def)

lemma build_move16 [builds]:
  assumes "fst m \<in> {M68K_AM_REGI_ADDR_POST_INC, M68K_AM_REG_DIRECT_ADDR, M68K_AM_ABSOLUTE_DATA_LONG}"
    "snd m \<in> {M68K_AM_REGI_ADDR_POST_INC, M68K_AM_REG_DIRECT_ADDR, M68K_AM_ABSOLUTE_DATA_LONG}"
  shows "builds (\<lambda>info. build_move16 info (d info) m) 0 0"
  unfolding build_move16_def Let_def
  by (rule buildsI, simp only: yields_Some add_0_right, intro st_on_op st_init move16_plain assms) simp_all

lemma build_link [builds]: "builds (\<lambda>info. build_link info disp sz) 0 0"
  unfolding build_link_def Let_def
  by (rule buildsI, simp only: yields_Some add_0_right, intro st_steps; (assumption | simp))

lemma build_moveps [builds]: "builds (\<lambda>info. build_movep_re info sz) 1 0" "builds (\<lambda>info. build_movep_er info sz) 1 0"
proof -
  have r: "st I M68K_SIZE_TYPE_CPU {} n g (build_init_op info M68K_INS_MOVEP 2 sz)"
    if "st I M68K_SIZE_TYPE_CPU {} n g info" for I n g info
    by (rule st_init [OF that]) simp_all
  show "builds (\<lambda>info. build_movep_re info sz) 1 0"
    unfolding build_movep_re_def Let_def
    by (rule buildsI, rule read_then, rule st_on_op, erule r, simp, simp only: prod.case yields_Some add_0_right,
        rule st_on_op, assumption, simp)
  show "builds (\<lambda>info. build_movep_er info sz) 1 0"
    unfolding build_movep_er_def Let_def
    by (rule buildsI, rule read_then, erule r, simp only: prod.case yields_Some add_0_right,
        rule st_on_op, rule st_on_op, assumption, simp, simp)
qed

lemma build_moves [builds]: "builds (\<lambda>info. build_moves info sz) 6 0"
proof (rule buildsI)
  fix I n g info assume s: "st I M68K_SIZE_TYPE_CPU {} n g info"
  have r: "st I M68K_SIZE_TYPE_CPU {} n g (build_init_op info M68K_INS_MOVES 2 sz)" by (rule st_init [OF s]) simp_all
  have "yields (build_moves info sz) (st I M68K_SIZE_TYPE_CPU {} (n + 1 + 5) g)"
    unfolding build_moves_def Let_def
    by (rule read_then [OF r], simp only: prod.case, rule yields_ifI, rule get_ea_st, rule st_on_op, assumption, simp,
        rule get_ea_then, assumption, simp only: yields_Some, rule st_on_op, assumption, simp)
  then show "yields (build_moves info sz) (st I M68K_SIZE_TYPE_CPU {} (n + 6) (g + 0))" by (simp only: six_words add_0_right)
qed

lemma build_invalid_builds [builds]: "builds d68000_invalid 0 0"
  unfolding d68000_invalid_def build_invalid_def build_imm_def Let_def
  by (rule buildsI, simp only: yields_Some add_0_right, intro st_steps; (assumption | simp))

lemma build_cpush_cinv [builds]:
  assumes "unat c < 300"
  shows "builds (\<lambda>info. build_cpush_cinv info c) 0 0"
proof (rule buildsI)
  fix I n g info assume s: "st I M68K_SIZE_TYPE_CPU {} n g info" "g \<le> 1"
  have c: "unat c < 375" "unat (c + 1) < 375" "unat (c + 2) < 375" using assms by (simp_all add: unat_word_ariths)
  have r: "st I M68K_SIZE_TYPE_CPU {} n g (build_init_op info M68K_INS_INVALID 2 0)" by (rule st_init [OF s(1)]) simp_all
  have p: "plain (set_imm v (op\<lparr>ko_type := M68K_OP_MEM, ko_address_mode := M68K_AM_REG_DIRECT_ADDR\<rparr>))" if "plain op" for op v
    using that by (simp add: plain_def set_imm_def)
  show "yields (build_cpush_cinv info c) (st I M68K_SIZE_TYPE_CPU {} (n + 0) (g + 0))"
    unfolding build_cpush_cinv_def Let_def
    apply (rule yields_ifI)
     apply (rule buildsD [OF build_invalid_builds r s(2)])
    apply (simp only: yields_Some add_0_right)
    apply (rule st_on_op, rule st_on_op)
      apply (intro st_if st_set_opcode st_set_op_count r c)
    apply (simp_all add: p)
    done
qed

section \<open>Composition\<close>

lemma builds_read [builds]:
  assumes "\<And>v. builds (\<lambda>info. f v info) k h"
  shows "builds (\<lambda>info. read_imm_8 info \<bind> (\<lambda>(v, info). f v info)) (k + 1) h"
    "builds (\<lambda>info. read_imm_16 info \<bind> (\<lambda>(v, info). f v info)) (k + 1) h"
    "builds (\<lambda>info. read_imm_32 info \<bind> (\<lambda>(v, info). f v info)) (k + 2) h"
    "builds (\<lambda>info. peek_imm_32 info \<bind> (\<lambda>v. f v info)) k h"
proof -
  have *: "yields (f v info') (st I M68K_SIZE_TYPE_CPU {} (n + (k + j)) (g + h))"
    if "st I M68K_SIZE_TYPE_CPU {} (n + j) g info'" "g \<le> 1" for I n g info' j v
    using buildsD [OF assms that] by (simp add: ac_simps)
  have 0: "yields (f v info') (st I M68K_SIZE_TYPE_CPU {} (n + k) (g + h))"
    if "st I M68K_SIZE_TYPE_CPU {} n g info'" "g \<le> 1" for I n g info' v
    by (rule buildsD [OF assms that])
  show "builds (\<lambda>info. read_imm_8 info \<bind> (\<lambda>(v, info). f v info)) (k + 1) h"
    "builds (\<lambda>info. read_imm_16 info \<bind> (\<lambda>(v, info). f v info)) (k + 1) h"
    "builds (\<lambda>info. read_imm_32 info \<bind> (\<lambda>(v, info). f v info)) (k + 2) h"
    by (rule buildsI; rule read_then, assumption, simp only: prod.case, rule *, assumption, assumption)+
  show "builds (\<lambda>info. peek_imm_32 info \<bind> (\<lambda>v. f v info)) k h"
    by (rule buildsI; rule read_then, assumption, rule 0, assumption, assumption)
qed

lemma builds_limit [builds]:
  assumes "builds f k h"
  shows "builds (\<lambda>info. LIMIT_CPU_TYPES info allowed f) k h"
proof -
  have "builds d68000_invalid k h" by (rule builds_mono [OF build_invalid_builds]) simp_all
  then show ?thesis
    using assms unfolding LIMIT_CPU_TYPES_def builds_def by (simp split: if_split)
qed

section \<open>The result of a handler\<close>

text \<open>
  Lists of registers have at most sixteen of them and are not the third operand, pairs are of the
  sixteen data and address registers, and an immediate of the floating point unit is the only one.
\<close>

definition bits_ok :: "u32 \<Rightarrow> bool" where
  "bits_ok bits \<longleftrightarrow> unat bits < 65536 \<or> (\<exists>b :: u8. bits = push_bit 16 (ucast b))"

definition op_ok :: "cs_m68k_op \<Rightarrow> bool" where
  "op_ok op \<longleftrightarrow> plain op \<or> unat (km_base_reg (ko_mem op)) < 47 \<and> unat (km_index_reg (ko_mem op)) < 47 \<and>
     (ko_type op = M68K_OP_REG_BITS \<and> bits_ok (ko_register_bits op) \<or>
      ko_type op = M68K_OP_REG_PAIR \<and> unat (ko_reg_0 op) < 16 \<and> unat (ko_reg_1 op) < 16 \<and> ko_register_bits op = 0)"

definition ops_with :: "(cs_m68k_op \<Rightarrow> bool) \<Rightarrow> cs_m68k \<Rightarrow> nat" where
  "ops_with P ext = length (filter P (kx_operands ext))"

definition ext_ok :: "cs_m68k \<Rightarrow> bool" where
  "ext_ok ext \<longleftrightarrow> length (kx_operands ext) = 4 \<and> unat (kx_op_count ext) \<le> 3 \<and> list_all op_ok (kx_operands ext) \<and>
     ko_type (kx_operands ext ! 2) \<noteq> M68K_OP_REG_BITS \<and>
     ops_with (\<lambda>op. ko_type op = M68K_OP_REG_BITS) ext \<le> 1 \<and>
     (kz_type (kx_op_size ext) = M68K_SIZE_TYPE_FPU \<longrightarrow> ops_with (\<lambda>op. ko_address_mode op = M68K_AM_IMMEDIATE) ext \<le> 1)"

definition m68k_start :: "m68k_info \<Rightarrow> bool" where
  "m68k_start I \<longleftrightarrow> m68k_wf I \<and> mk_extension I = fresh_m68k \<and> length (mk_groups I) = 8 \<and> mk_groups_count I = 0 \<and>
     mi_Opcode (mk_inst I) = 0 \<and> unat (mk_ir I) < 65536"

definition m68k_result :: "m68k_info \<Rightarrow> m68k_info \<Rightarrow> bool" where
  "m68k_result I info \<longleftrightarrow> m68k_frame info = m68k_frame I \<and> advanced I 10 info \<and> ext_ok (mk_extension info) \<and>
     length (mk_groups info) = 8 \<and> unat (mk_groups_count info) \<le> 3 \<and> unat (mi_Opcode (mk_inst info)) < 375"

definition handler_ok :: "(m68k_info \<Rightarrow> m68k_info option) \<Rightarrow> bool" where
  "handler_ok f \<longleftrightarrow> (\<forall>I. m68k_start I \<longrightarrow> yields (f I) (m68k_result I))"

lemma fresh_plain: "ops_st M68K_SIZE_TYPE_CPU {} fresh_m68k"
  by (auto simp: ops_st_def fresh_m68k_def zero_m68k_def plain_def zero_m68k_op_def zero_mem_def ko_reg_def)

lemma start_st: "m68k_start I \<Longrightarrow> st I M68K_SIZE_TYPE_CPU {} 0 0 I"
  using fresh_plain by (auto simp: m68k_start_def st_def advanced_def)

text \<open>The operands outside \<open>X\<close> are plain, those in \<open>X\<close> have to be shown to be in order.\<close>

lemma all_less_4: "(\<forall>i<4. P (i :: nat)) \<longleftrightarrow> P 0 \<and> P 1 \<and> P 2 \<and> P 3"
  by (auto simp: less_Suc_eq numeral_eq_Suc)

lemma four_ops:
  assumes "length xs = 4"
  obtains a b c d where "xs = [a, b, c, d]"
  using assms by (auto simp: numeral_eq_Suc length_Suc_conv)

lemma ops_st_ext_ok:
  assumes "ops_st Z X ext" "card X \<le> 1 \<or> (\<forall>i\<in>X. ko_type (kx_operands ext ! i) \<noteq> M68K_OP_REG_BITS)" "finite X"
    and "\<And>i. i \<in> X \<Longrightarrow> i < 4 \<Longrightarrow> op_ok (kx_operands ext ! i)"
    and third: "2 \<in> X \<Longrightarrow> ko_type (kx_operands ext ! 2) \<noteq> M68K_OP_REG_BITS"
    and "Z = M68K_SIZE_TYPE_FPU \<Longrightarrow> ops_with (\<lambda>op. ko_address_mode op = M68K_AM_IMMEDIATE) ext \<le> 1"
  shows "ext_ok ext"
proof -
  let ?o = "kx_operands ext" and ?B = "\<lambda>op. ko_type op = M68K_OP_REG_BITS"
  have len: "length ?o = 4" using assms(1) by (simp add: ops_st_def)
  have pl: "plain (?o ! i)" if "i < 4" "i \<notin> X" for i using assms(1) that by (simp add: ops_st_def)
  then have "list_all op_ok ?o" using assms(4) len by (auto simp: list_all_length op_ok_def)
  moreover have "{i. i < 4 \<and> ?B (?o ! i)} \<subseteq> X" using pl by (auto simp: plain_def)
  then have sub: "{i. i < 4 \<and> ?B (?o ! i)} \<subseteq> X" .
  have "card {i. i < 4 \<and> ?B (?o ! i)} \<le> 1"
    using assms(2)
  proof
    assume "card X \<le> 1"
    with card_mono [OF assms(3) sub] show ?thesis by linarith
  next
    assume "\<forall>i\<in>X. ko_type (?o ! i) \<noteq> M68K_OP_REG_BITS"
    with sub have "{i. i < 4 \<and> ?B (?o ! i)} = {}" by blast
    then show ?thesis by (simp only: card.empty)
  qed
  then have "ops_with ?B ext \<le> 1" using len by (simp add: ops_with_def length_filter_conv_card)
  moreover have "ko_type (?o ! 2) \<noteq> M68K_OP_REG_BITS" using third pl [of 2] by (auto simp: plain_def)
  ultimately show ?thesis using assms(1,6) len by (auto simp: ext_ok_def ops_st_def)
qed

lemma st_result:
  assumes "st I Z X n g info" "n \<le> 10" "g \<le> 3"
    and "card X \<le> 1 \<or> (\<forall>i\<in>X. ko_type (op_at info i) \<noteq> M68K_OP_REG_BITS)" "finite X"
    and "\<And>i. i \<in> X \<Longrightarrow> i < 4 \<Longrightarrow> op_ok (op_at info i)"
    and "2 \<in> X \<Longrightarrow> ko_type (op_at info 2) \<noteq> M68K_OP_REG_BITS"
    and "Z = M68K_SIZE_TYPE_FPU \<Longrightarrow> ops_with (\<lambda>op. ko_address_mode op = M68K_AM_IMMEDIATE) (mk_extension info) \<le> 1"
  shows "m68k_result I info"
proof -
  have "ops_st Z X (mk_extension info)" using assms(1) by (simp add: st_def)
  then have "ext_ok (mk_extension info)" by (rule ops_st_ext_ok) (use assms(4-) in \<open>simp_all add: op_at_def\<close>)
  moreover have "advanced I 10 info" using assms(1,2) advanced_mono by (auto simp: st_def)
  ultimately show ?thesis using assms(1,3) by (simp add: st_def m68k_result_def)
qed

lemma st_plain_result: "st I M68K_SIZE_TYPE_CPU {} n g info \<Longrightarrow> n \<le> 10 \<Longrightarrow> g \<le> 3 \<Longrightarrow> m68k_result I info"
  by (rule st_result) auto

lemma builds_ok: "builds f k h \<Longrightarrow> k \<le> 10 \<Longrightarrow> h \<le> 3 \<Longrightarrow> handler_ok f"
proof -
  assume b: "builds f k h" "k \<le> 10" "h \<le> 3"
  have "yields (f I) (m68k_result I)" if "m68k_start I" for I
    by (rule yields_mono [OF buildsD [OF b(1) start_st [OF that]]]) (use b in \<open>auto intro: st_plain_result\<close>)
  then show ?thesis by (simp add: handler_ok_def)
qed

lemma builds_group_ok:
  assumes "builds f k h" "k \<le> 10" "h \<le> 2"
  shows "handler_ok (\<lambda>info. set_insn_group info grp \<bind> f)"
proof -
  have "yields (set_insn_group I grp \<bind> f) (m68k_result I)" if "m68k_start I" for I
    by (rule set_group_then [OF start_st [OF that]], simp, rule yields_mono [OF buildsD [OF assms(1)]])
      (use assms in \<open>auto intro: st_plain_result\<close>)
  then show ?thesis by (simp add: handler_ok_def)
qed

end
