(* ===== verification/M68K_Handlers_Safe.thy ===== *)
theory M68K_Handlers_Safe
  imports M68K_Safety
begin

text \<open>
  Every instruction handler of M68K keeps to its bounds. For the handlers that only call one of the
  builders this follows from the facts on the builders; the others are in a theory of their own.
\<close>

section \<open>Handlers that call a builder\<close>

lemma simple_handlers_1:
  "handler_ok d68000_abcd_rr"
  "handler_ok d68000_abcd_mm"
  "handler_ok d68000_add_er_8"
  "handler_ok d68000_add_er_16"
  "handler_ok d68000_add_er_32"
  "handler_ok d68000_add_re_8"
  "handler_ok d68000_add_re_16"
  "handler_ok d68000_add_re_32"
  "handler_ok d68000_adda_16"
  "handler_ok d68000_adda_32"
  "handler_ok d68000_addi_8"
  "handler_ok d68000_addi_16"
  "handler_ok d68000_addi_32"
  "handler_ok d68000_addq_8"
  "handler_ok d68000_addq_16"
  "handler_ok d68000_addq_32"
  "handler_ok d68000_addx_rr_8"
  "handler_ok d68000_addx_rr_16"
  "handler_ok d68000_addx_rr_32"
  "handler_ok d68000_addx_mm_8"
  "handler_ok d68000_addx_mm_16"
  "handler_ok d68000_addx_mm_32"
  "handler_ok d68000_and_er_8"
  "handler_ok d68000_and_er_16"
  unfolding d68000_abcd_rr_def [abs_def] d68000_abcd_mm_def [abs_def] d68000_add_er_8_def [abs_def] d68000_add_er_16_def [abs_def]
    d68000_add_er_32_def [abs_def] d68000_add_re_8_def [abs_def] d68000_add_re_16_def [abs_def] d68000_add_re_32_def [abs_def]
    d68000_adda_16_def [abs_def] d68000_adda_32_def [abs_def] d68000_addi_8_def [abs_def] d68000_addi_16_def [abs_def]
    d68000_addi_32_def [abs_def] d68000_addq_8_def [abs_def] d68000_addq_16_def [abs_def] d68000_addq_32_def [abs_def]
    d68000_addx_rr_8_def [abs_def] d68000_addx_rr_16_def [abs_def] d68000_addx_rr_32_def [abs_def] d68000_addx_mm_8_def [abs_def]
    d68000_addx_mm_16_def [abs_def] d68000_addx_mm_32_def [abs_def] d68000_and_er_8_def [abs_def] d68000_and_er_16_def [abs_def]
  by (rule builds_ok, (rule builds)+; simp)+

lemma simple_handlers_2:
  "handler_ok d68000_and_er_32"
  "handler_ok d68000_and_re_8"
  "handler_ok d68000_and_re_16"
  "handler_ok d68000_and_re_32"
  "handler_ok d68000_andi_8"
  "handler_ok d68000_andi_16"
  "handler_ok d68000_andi_32"
  "handler_ok d68000_andi_to_ccr"
  "handler_ok d68000_andi_to_sr"
  "handler_ok d68000_asr_s_8"
  "handler_ok d68000_asr_s_16"
  "handler_ok d68000_asr_s_32"
  "handler_ok d68000_asr_r_8"
  "handler_ok d68000_asr_r_16"
  "handler_ok d68000_asr_r_32"
  "handler_ok d68000_asr_ea"
  "handler_ok d68000_asl_s_8"
  "handler_ok d68000_asl_s_16"
  "handler_ok d68000_asl_s_32"
  "handler_ok d68000_asl_r_8"
  "handler_ok d68000_asl_r_16"
  "handler_ok d68000_asl_r_32"
  "handler_ok d68000_asl_ea"
  "handler_ok d68000_bcc_8"
  unfolding d68000_and_er_32_def [abs_def] d68000_and_re_8_def [abs_def] d68000_and_re_16_def [abs_def] d68000_and_re_32_def [abs_def]
    d68000_andi_8_def [abs_def] d68000_andi_16_def [abs_def] d68000_andi_32_def [abs_def] d68000_andi_to_ccr_def [abs_def]
    d68000_andi_to_sr_def [abs_def] d68000_asr_s_8_def [abs_def] d68000_asr_s_16_def [abs_def] d68000_asr_s_32_def [abs_def]
    d68000_asr_r_8_def [abs_def] d68000_asr_r_16_def [abs_def] d68000_asr_r_32_def [abs_def] d68000_asr_ea_def [abs_def]
    d68000_asl_s_8_def [abs_def] d68000_asl_s_16_def [abs_def] d68000_asl_s_32_def [abs_def] d68000_asl_r_8_def [abs_def]
    d68000_asl_r_16_def [abs_def] d68000_asl_r_32_def [abs_def] d68000_asl_ea_def [abs_def] d68000_bcc_8_def [abs_def]
  by (rule builds_ok, (rule builds)+; simp)+

lemma simple_handlers_3:
  "handler_ok d68000_bcc_16"
  "handler_ok d68020_bcc_32"
  "handler_ok d68000_bchg_r"
  "handler_ok d68000_bchg_s"
  "handler_ok d68000_bclr_r"
  "handler_ok d68000_bclr_s"
  "handler_ok d68010_bkpt"
  "handler_ok d68020_bfchg"
  "handler_ok d68020_bfclr"
  "handler_ok d68020_bfexts"
  "handler_ok d68020_bfextu"
  "handler_ok d68020_bfffo"
  "handler_ok d68020_bfset"
  "handler_ok d68020_bftst"
  "handler_ok d68000_bra_8"
  "handler_ok d68000_bra_16"
  "handler_ok d68020_bra_32"
  "handler_ok d68000_bset_r"
  "handler_ok d68000_bset_s"
  "handler_ok d68000_bsr_8"
  "handler_ok d68000_bsr_16"
  "handler_ok d68020_bsr_32"
  "handler_ok d68000_btst_r"
  "handler_ok d68000_btst_s"
  unfolding d68000_bcc_16_def [abs_def] d68020_bcc_32_def [abs_def] d68000_bchg_r_def [abs_def] d68000_bchg_s_def [abs_def]
    d68000_bclr_r_def [abs_def] d68000_bclr_s_def [abs_def] d68010_bkpt_def [abs_def] d68020_bfchg_def [abs_def]
    d68020_bfclr_def [abs_def] d68020_bfexts_def [abs_def] d68020_bfextu_def [abs_def] d68020_bfffo_def [abs_def]
    d68020_bfset_def [abs_def] d68020_bftst_def [abs_def] d68000_bra_8_def [abs_def] d68000_bra_16_def [abs_def]
    d68020_bra_32_def [abs_def] d68000_bset_r_def [abs_def] d68000_bset_s_def [abs_def] d68000_bsr_8_def [abs_def]
    d68000_bsr_16_def [abs_def] d68020_bsr_32_def [abs_def] d68000_btst_r_def [abs_def] d68000_btst_s_def [abs_def]
  by (rule builds_ok, (rule builds)+; simp)+

lemma simple_handlers_4:
  "handler_ok d68020_callm"
  "handler_ok d68020_cas_8"
  "handler_ok d68020_cas_16"
  "handler_ok d68020_cas_32"
  "handler_ok d68000_chk_16"
  "handler_ok d68020_chk_32"
  "handler_ok d68020_chk2_cmp2_8"
  "handler_ok d68020_chk2_cmp2_16"
  "handler_ok d68020_chk2_cmp2_32"
  "handler_ok d68040_cinv"
  "handler_ok d68000_clr_8"
  "handler_ok d68000_clr_16"
  "handler_ok d68000_clr_32"
  "handler_ok d68000_cmp_8"
  "handler_ok d68000_cmp_16"
  "handler_ok d68000_cmp_32"
  "handler_ok d68000_cmpa_16"
  "handler_ok d68000_cmpa_32"
  "handler_ok d68000_cmpi_8"
  "handler_ok d68020_cmpi_pcdi_8"
  "handler_ok d68020_cmpi_pcix_8"
  "handler_ok d68000_cmpi_16"
  "handler_ok d68020_cmpi_pcdi_16"
  "handler_ok d68020_cmpi_pcix_16"
  unfolding d68020_callm_def [abs_def] d68020_cas_8_def [abs_def] d68020_cas_16_def [abs_def] d68020_cas_32_def [abs_def]
    d68000_chk_16_def [abs_def] d68020_chk_32_def [abs_def] d68020_chk2_cmp2_8_def [abs_def] d68020_chk2_cmp2_16_def [abs_def]
    d68020_chk2_cmp2_32_def [abs_def] d68040_cinv_def [abs_def] d68000_clr_8_def [abs_def] d68000_clr_16_def [abs_def]
    d68000_clr_32_def [abs_def] d68000_cmp_8_def [abs_def] d68000_cmp_16_def [abs_def] d68000_cmp_32_def [abs_def]
    d68000_cmpa_16_def [abs_def] d68000_cmpa_32_def [abs_def] d68000_cmpi_8_def [abs_def] d68020_cmpi_pcdi_8_def [abs_def]
    d68020_cmpi_pcix_8_def [abs_def] d68000_cmpi_16_def [abs_def] d68020_cmpi_pcdi_16_def [abs_def] d68020_cmpi_pcix_16_def [abs_def]
  by (rule builds_ok, (rule builds)+; simp)+

lemma simple_handlers_5:
  "handler_ok d68000_cmpi_32"
  "handler_ok d68020_cmpi_pcdi_32"
  "handler_ok d68020_cmpi_pcix_32"
  "handler_ok d68000_cmpm_8"
  "handler_ok d68000_cmpm_16"
  "handler_ok d68000_cmpm_32"
  "handler_ok d68040_cpush"
  "handler_ok d68000_dbra"
  "handler_ok d68000_dbcc"
  "handler_ok d68000_divs"
  "handler_ok d68000_divu"
  "handler_ok d68000_eor_8"
  "handler_ok d68000_eor_16"
  "handler_ok d68000_eor_32"
  "handler_ok d68000_eori_8"
  "handler_ok d68000_eori_16"
  "handler_ok d68000_eori_32"
  "handler_ok d68000_eori_to_ccr"
  "handler_ok d68000_eori_to_sr"
  "handler_ok d68000_exg_dd"
  "handler_ok d68000_ext_16"
  "handler_ok d68000_ext_32"
  "handler_ok d68020_extb_32"
  "handler_ok d68000_lea"
  unfolding d68000_cmpi_32_def [abs_def] d68020_cmpi_pcdi_32_def [abs_def] d68020_cmpi_pcix_32_def [abs_def] d68000_cmpm_8_def [abs_def]
    d68000_cmpm_16_def [abs_def] d68000_cmpm_32_def [abs_def] d68040_cpush_def [abs_def] d68000_dbra_def [abs_def]
    d68000_dbcc_def [abs_def] d68000_divs_def [abs_def] d68000_divu_def [abs_def] d68000_eor_8_def [abs_def]
    d68000_eor_16_def [abs_def] d68000_eor_32_def [abs_def] d68000_eori_8_def [abs_def] d68000_eori_16_def [abs_def]
    d68000_eori_32_def [abs_def] d68000_eori_to_ccr_def [abs_def] d68000_eori_to_sr_def [abs_def] d68000_exg_dd_def [abs_def]
    d68000_ext_16_def [abs_def] d68000_ext_32_def [abs_def] d68020_extb_32_def [abs_def] d68000_lea_def [abs_def]
  by (rule builds_ok, (rule builds)+; simp)+

lemma simple_handlers_6:
  "handler_ok d68000_link_16"
  "handler_ok d68020_link_32"
  "handler_ok d68000_lsr_s_8"
  "handler_ok d68000_lsr_s_16"
  "handler_ok d68000_lsr_s_32"
  "handler_ok d68000_lsr_r_8"
  "handler_ok d68000_lsr_r_16"
  "handler_ok d68000_lsr_r_32"
  "handler_ok d68000_lsr_ea"
  "handler_ok d68000_lsl_s_8"
  "handler_ok d68000_lsl_s_16"
  "handler_ok d68000_lsl_s_32"
  "handler_ok d68000_lsl_r_8"
  "handler_ok d68000_lsl_r_16"
  "handler_ok d68000_lsl_r_32"
  "handler_ok d68000_lsl_ea"
  "handler_ok d68000_move_8"
  "handler_ok d68000_move_16"
  "handler_ok d68000_move_32"
  "handler_ok d68000_movea_16"
  "handler_ok d68000_movea_32"
  "handler_ok d68000_movep_re_16"
  "handler_ok d68000_movep_re_32"
  "handler_ok d68000_movep_er_16"
  unfolding d68000_link_16_def [abs_def] d68020_link_32_def [abs_def] d68000_lsr_s_8_def [abs_def] d68000_lsr_s_16_def [abs_def]
    d68000_lsr_s_32_def [abs_def] d68000_lsr_r_8_def [abs_def] d68000_lsr_r_16_def [abs_def] d68000_lsr_r_32_def [abs_def]
    d68000_lsr_ea_def [abs_def] d68000_lsl_s_8_def [abs_def] d68000_lsl_s_16_def [abs_def] d68000_lsl_s_32_def [abs_def]
    d68000_lsl_r_8_def [abs_def] d68000_lsl_r_16_def [abs_def] d68000_lsl_r_32_def [abs_def] d68000_lsl_ea_def [abs_def]
    d68000_move_8_def [abs_def] d68000_move_16_def [abs_def] d68000_move_32_def [abs_def] d68000_movea_16_def [abs_def]
    d68000_movea_32_def [abs_def] d68000_movep_re_16_def [abs_def] d68000_movep_re_32_def [abs_def] d68000_movep_er_16_def [abs_def]
  by (rule builds_ok, (rule builds)+; simp)+

lemma simple_handlers_7:
  "handler_ok d68000_movep_er_32"
  "handler_ok d68010_moves_8"
  "handler_ok d68010_moves_16"
  "handler_ok d68010_moves_32"
  "handler_ok d68000_muls"
  "handler_ok d68000_mulu"
  "handler_ok d68000_nbcd"
  "handler_ok d68000_neg_8"
  "handler_ok d68000_neg_16"
  "handler_ok d68000_neg_32"
  "handler_ok d68000_negx_8"
  "handler_ok d68000_negx_16"
  "handler_ok d68000_negx_32"
  "handler_ok d68000_nop"
  "handler_ok d68000_not_8"
  "handler_ok d68000_not_16"
  "handler_ok d68000_not_32"
  "handler_ok d68000_or_er_8"
  "handler_ok d68000_or_er_16"
  "handler_ok d68000_or_er_32"
  "handler_ok d68000_or_re_8"
  "handler_ok d68000_or_re_16"
  "handler_ok d68000_or_re_32"
  "handler_ok d68000_ori_8"
  unfolding d68000_movep_er_32_def [abs_def] d68010_moves_8_def [abs_def] d68010_moves_16_def [abs_def] d68010_moves_32_def [abs_def]
    d68000_muls_def [abs_def] d68000_mulu_def [abs_def] d68000_nbcd_def [abs_def] d68000_neg_8_def [abs_def]
    d68000_neg_16_def [abs_def] d68000_neg_32_def [abs_def] d68000_negx_8_def [abs_def] d68000_negx_16_def [abs_def]
    d68000_negx_32_def [abs_def] d68000_nop_def [abs_def] d68000_not_8_def [abs_def] d68000_not_16_def [abs_def]
    d68000_not_32_def [abs_def] d68000_or_er_8_def [abs_def] d68000_or_er_16_def [abs_def] d68000_or_er_32_def [abs_def]
    d68000_or_re_8_def [abs_def] d68000_or_re_16_def [abs_def] d68000_or_re_32_def [abs_def] d68000_ori_8_def [abs_def]
  by (rule builds_ok, (rule builds)+; simp)+

lemma simple_handlers_8:
  "handler_ok d68000_ori_16"
  "handler_ok d68000_ori_32"
  "handler_ok d68000_ori_to_ccr"
  "handler_ok d68000_ori_to_sr"
  "handler_ok d68020_pack_rr"
  "handler_ok d68020_pack_mm"
  "handler_ok d68000_pea"
  "handler_ok d68000_reset"
  "handler_ok d68000_ror_s_8"
  "handler_ok d68000_ror_s_16"
  "handler_ok d68000_ror_s_32"
  "handler_ok d68000_ror_r_8"
  "handler_ok d68000_ror_r_16"
  "handler_ok d68000_ror_r_32"
  "handler_ok d68000_ror_ea"
  "handler_ok d68000_rol_s_8"
  "handler_ok d68000_rol_s_16"
  "handler_ok d68000_rol_s_32"
  "handler_ok d68000_rol_r_8"
  "handler_ok d68000_rol_r_16"
  "handler_ok d68000_rol_r_32"
  "handler_ok d68000_rol_ea"
  "handler_ok d68000_roxr_s_8"
  "handler_ok d68000_roxr_s_16"
  unfolding d68000_ori_16_def [abs_def] d68000_ori_32_def [abs_def] d68000_ori_to_ccr_def [abs_def] d68000_ori_to_sr_def [abs_def]
    d68020_pack_rr_def [abs_def] d68020_pack_mm_def [abs_def] d68000_pea_def [abs_def] d68000_reset_def [abs_def]
    d68000_ror_s_8_def [abs_def] d68000_ror_s_16_def [abs_def] d68000_ror_s_32_def [abs_def] d68000_ror_r_8_def [abs_def]
    d68000_ror_r_16_def [abs_def] d68000_ror_r_32_def [abs_def] d68000_ror_ea_def [abs_def] d68000_rol_s_8_def [abs_def]
    d68000_rol_s_16_def [abs_def] d68000_rol_s_32_def [abs_def] d68000_rol_r_8_def [abs_def] d68000_rol_r_16_def [abs_def]
    d68000_rol_r_32_def [abs_def] d68000_rol_ea_def [abs_def] d68000_roxr_s_8_def [abs_def] d68000_roxr_s_16_def [abs_def]
  by (rule builds_ok, (rule builds)+; simp)+

lemma simple_handlers_9:
  "handler_ok d68000_roxr_s_32"
  "handler_ok d68000_roxr_r_8"
  "handler_ok d68000_roxr_r_16"
  "handler_ok d68000_roxr_r_32"
  "handler_ok d68000_roxr_ea"
  "handler_ok d68000_roxl_s_8"
  "handler_ok d68000_roxl_s_16"
  "handler_ok d68000_roxl_s_32"
  "handler_ok d68000_roxl_r_8"
  "handler_ok d68000_roxl_r_16"
  "handler_ok d68000_roxl_r_32"
  "handler_ok d68000_roxl_ea"
  "handler_ok d68000_sbcd_rr"
  "handler_ok d68000_sbcd_mm"
  "handler_ok d68000_stop"
  "handler_ok d68000_sub_er_8"
  "handler_ok d68000_sub_er_16"
  "handler_ok d68000_sub_er_32"
  "handler_ok d68000_sub_re_8"
  "handler_ok d68000_sub_re_16"
  "handler_ok d68000_sub_re_32"
  "handler_ok d68000_suba_16"
  "handler_ok d68000_suba_32"
  "handler_ok d68000_subi_8"
  unfolding d68000_roxr_s_32_def [abs_def] d68000_roxr_r_8_def [abs_def] d68000_roxr_r_16_def [abs_def] d68000_roxr_r_32_def [abs_def]
    d68000_roxr_ea_def [abs_def] d68000_roxl_s_8_def [abs_def] d68000_roxl_s_16_def [abs_def] d68000_roxl_s_32_def [abs_def]
    d68000_roxl_r_8_def [abs_def] d68000_roxl_r_16_def [abs_def] d68000_roxl_r_32_def [abs_def] d68000_roxl_ea_def [abs_def]
    d68000_sbcd_rr_def [abs_def] d68000_sbcd_mm_def [abs_def] d68000_stop_def [abs_def] d68000_sub_er_8_def [abs_def]
    d68000_sub_er_16_def [abs_def] d68000_sub_er_32_def [abs_def] d68000_sub_re_8_def [abs_def] d68000_sub_re_16_def [abs_def]
    d68000_sub_re_32_def [abs_def] d68000_suba_16_def [abs_def] d68000_suba_32_def [abs_def] d68000_subi_8_def [abs_def]
  by (rule builds_ok, (rule builds)+; simp)+

lemma simple_handlers_10:
  "handler_ok d68000_subi_16"
  "handler_ok d68000_subi_32"
  "handler_ok d68000_subq_8"
  "handler_ok d68000_subq_16"
  "handler_ok d68000_subq_32"
  "handler_ok d68000_subx_rr_8"
  "handler_ok d68000_subx_rr_16"
  "handler_ok d68000_subx_rr_32"
  "handler_ok d68000_subx_mm_8"
  "handler_ok d68000_subx_mm_16"
  "handler_ok d68000_subx_mm_32"
  "handler_ok d68000_swap"
  "handler_ok d68000_tas"
  "handler_ok d68000_trap"
  "handler_ok d68020_trapcc_16"
  "handler_ok d68020_trapcc_32"
  "handler_ok d68000_trapv"
  "handler_ok d68000_tst_8"
  "handler_ok d68020_tst_pcdi_8"
  "handler_ok d68020_tst_pcix_8"
  "handler_ok d68020_tst_i_8"
  "handler_ok d68000_tst_16"
  "handler_ok d68020_tst_a_16"
  "handler_ok d68020_tst_pcdi_16"
  unfolding d68000_subi_16_def [abs_def] d68000_subi_32_def [abs_def] d68000_subq_8_def [abs_def] d68000_subq_16_def [abs_def]
    d68000_subq_32_def [abs_def] d68000_subx_rr_8_def [abs_def] d68000_subx_rr_16_def [abs_def] d68000_subx_rr_32_def [abs_def]
    d68000_subx_mm_8_def [abs_def] d68000_subx_mm_16_def [abs_def] d68000_subx_mm_32_def [abs_def] d68000_swap_def [abs_def]
    d68000_tas_def [abs_def] d68000_trap_def [abs_def] d68020_trapcc_16_def [abs_def] d68020_trapcc_32_def [abs_def]
    d68000_trapv_def [abs_def] d68000_tst_8_def [abs_def] d68020_tst_pcdi_8_def [abs_def] d68020_tst_pcix_8_def [abs_def]
    d68020_tst_i_8_def [abs_def] d68000_tst_16_def [abs_def] d68020_tst_a_16_def [abs_def] d68020_tst_pcdi_16_def [abs_def]
  by (rule builds_ok, (rule builds)+; simp)+

lemma simple_handlers_11:
  "handler_ok d68020_tst_pcix_16"
  "handler_ok d68020_tst_i_16"
  "handler_ok d68000_tst_32"
  "handler_ok d68020_tst_a_32"
  "handler_ok d68020_tst_pcdi_32"
  "handler_ok d68020_tst_pcix_32"
  "handler_ok d68020_tst_i_32"
  "handler_ok d68020_unpk_rr"
  "handler_ok d68020_unpk_mm"
  unfolding d68020_tst_pcix_16_def [abs_def] d68020_tst_i_16_def [abs_def] d68000_tst_32_def [abs_def] d68020_tst_a_32_def [abs_def]
    d68020_tst_pcdi_32_def [abs_def] d68020_tst_pcix_32_def [abs_def] d68020_tst_i_32_def [abs_def] d68020_unpk_rr_def [abs_def]
    d68020_unpk_mm_def [abs_def]
  by (rule builds_ok, (rule builds)+; simp)+

end
