(* ===== verification/M68K_Special_Safe.thy ===== *)
theory M68K_Special_Safe
  imports M68K_Handlers_Safe
begin

text \<open>
  The handlers of M68K that set their operands themselves, those of the coprocessor, of the lists
  and of the pairs of registers: they keep to the same bounds.
\<close>

section \<open>Handlers with operands of their own\<close>

lemma opcode_updates [simp]:
  "mi_Opcode (mk_inst (build_init_op info c k sz)) = c" "mi_Opcode (mk_inst (skip_pc n info)) = mi_Opcode (mk_inst info)"
  "mi_Opcode (mk_inst (on_op i f info)) = mi_Opcode (mk_inst info)" "mi_Opcode (mk_inst (set_opcode c info)) = c"
  by (simp_all add: build_init_op_def set_op_size_def set_op_count_def set_opcode_def MCInst_setOpcode_def skip_pc_def on_op_def)

lemma and_2f_less: "unat (x AND 0x2f :: u32) < 48"
proof -
  have "x AND 0x2f \<le> 0x2f" by (rule word_and_le1)
  then show ?thesis by (simp add: word_le_nat_alt)
qed

lemma st_add_opcode:
  assumes "st I Z X n g info" "unat (mi_Opcode (mk_inst info)) \<le> 300"
  shows "st I Z X n g (add_opcode (x AND 0x2f) info)" 
proof -
  have "unat (mi_Opcode (mk_inst info) + (x AND 0x2f)) < 375"
    using unat_plus_less [OF and_2f_less [of x], of "mi_Opcode (mk_inst info)"] assms(2) by linarith
  then show ?thesis unfolding add_opcode_def by (rule st_set_opcode [OF assms(1)])
qed

lemma register_handlers:
  "handler_ok d68000_illegal" "handler_ok d68000_1010" "handler_ok d68000_1111" "handler_ok d68000_exg_aa" "handler_ok d68000_exg_da"
  "handler_ok d68000_move_fr_usp" "handler_ok d68000_move_to_usp" "handler_ok d68000_moveq" "handler_ok d68000_unlk"
  unfolding d68000_illegal_def [abs_def] d68000_1010_def [abs_def] d68000_1111_def [abs_def] build_illegal_def build_invalid_def
    d68000_exg_aa_def [abs_def] d68000_exg_da_def [abs_def] d68000_move_fr_usp_def [abs_def] d68000_move_to_usp_def [abs_def]
    d68000_moveq_def [abs_def] d68000_unlk_def [abs_def] build_imm_def Let_def
  by (rule builds_ok, rule buildsI [where k = 0 and h = 0]; (simp only: yields_Some add_0_right)?; (intro st_steps)?; (assumption | simp))+

lemma ea_handlers:
  "handler_ok d68000_move_fr_sr" "handler_ok d68000_scc"
  unfolding d68000_move_fr_sr_def [abs_def] d68000_scc_def [abs_def] Let_def
  by (rule builds_ok, rule buildsI [where k = 5 and h = 0]; (simp only: yields_Some add_0_right)?; (rule get_ea_st)?; (intro st_steps)?; (assumption | simp add: lut_bounds))+

lemma ea_limited_handlers:
  "handler_ok d68010_move_fr_ccr" "handler_ok d68020_cprestore" "handler_ok d68020_cpsave"
  unfolding d68010_move_fr_ccr_def [abs_def] d68020_cprestore_def [abs_def] d68020_cpsave_def [abs_def] Let_def
  by (rule builds_ok, rule builds_limit, rule buildsI [where k = 5 and h = 0]; (simp only: yields_Some add_0_right)?; (rule get_ea_st)?; (intro st_steps)?; (assumption | simp))+

lemma ea_reg_handlers:
  "handler_ok d68000_move_to_ccr" "handler_ok d68000_move_to_sr"
  unfolding d68000_move_to_ccr_def [abs_def] d68000_move_to_sr_def [abs_def] Let_def
  by (rule builds_ok, rule buildsI [where k = 5 and h = 0], rule get_ea_then, erule st_init, simp, simp,
      simp only: yields_Some add_0_right, rule st_on_op, assumption, simp, simp, simp)+

lemma jump_handlers: "handler_ok d68000_jmp" "handler_ok d68000_jsr"
  unfolding d68000_jmp_def [abs_def] d68000_jsr_def [abs_def] Let_def
  by (rule builds_ok, rule buildsI [where k = 5 and h = 1], rule set_group_then, erule st_init, simp, simp, simp,
      rule get_ea_st, assumption, simp, simp)+

lemma return_handlers: "handler_ok d68010_rtd" "handler_ok d68000_rte" "handler_ok d68000_rtr" "handler_ok d68000_rts"
  unfolding d68010_rtd_def [abs_def] d68000_rte_def [abs_def] d68000_rtr_def [abs_def] d68000_rts_def [abs_def]
  by (rule builds_group_ok, (rule builds)+; simp)+

lemma move16_handlers:
  "handler_ok d68040_move16_pi_pi" "handler_ok d68040_move16_pi_al" "handler_ok d68040_move16_al_pi"
  "handler_ok d68040_move16_ai_al" "handler_ok d68040_move16_al_ai"
  unfolding d68040_move16_pi_pi_def [abs_def] d68040_move16_pi_al_def [abs_def] d68040_move16_al_pi_def [abs_def]
    d68040_move16_ai_al_def [abs_def] d68040_move16_al_ai_def [abs_def]
  by (rule builds_ok, (rule builds)+; simp)+

lemma scc_opcode_handlers: "handler_ok d68020_cpscc" "handler_ok d68020_cptrapcc_0" "handler_ok d68020_cptrapcc_16" "handler_ok d68020_cptrapcc_32"
proof -
  have "builds (\<lambda>info. do {
     let info = build_init_op info M68K_INS_FSF 1 1;
     (imm, info) \<leftarrow> read_imm_16 info;
     let info = add_opcode (imm AND 0x2f) info;
     get_ea_mode_op info 0 (mk_ir info) 1 }) 6 0"
    unfolding Let_def
    by (rule buildsI, simp only: six_words [symmetric] add_0_right, rule read_then, erule st_init, simp, simp, simp only: prod.case,
        rule get_ea_st, rule st_add_opcode, assumption, simp)
  from builds_ok [OF builds_limit [OF this]] show "handler_ok d68020_cpscc" unfolding d68020_cpscc_def [abs_def] by simp
  have "builds (\<lambda>info. Some (add_opcode (v AND 0x2f) (build_init_op info M68K_INS_FTRAPF k sz))) 0 0" if "unat k \<le> 3" for v k sz
    by (rule buildsI, simp only: yields_Some add_0_right, rule st_add_opcode, erule st_init, simp_all add: that)
  then show "handler_ok d68020_cptrapcc_0"
    unfolding d68020_cptrapcc_0_def [abs_def] Let_def by (rule builds_ok [OF builds_limit [OF builds_read(2)]]) simp_all
  have "builds (\<lambda>info. Some (on_op 0 (as_imm w) (add_opcode (v AND 0x2f) (build_init_op info M68K_INS_FTRAPF 1 sz)))) 0 0" for v w sz
    by (rule buildsI, simp only: yields_Some add_0_right, rule st_on_op, rule st_add_opcode, erule st_init, simp_all)
  then show "handler_ok d68020_cptrapcc_16" "handler_ok d68020_cptrapcc_32"
    unfolding d68020_cptrapcc_16_def [abs_def] d68020_cptrapcc_32_def [abs_def] Let_def
    by (rule builds_ok [OF builds_limit [OF builds_read(2) [OF builds_read(2)]]] builds_ok [OF builds_limit [OF builds_read(2) [OF builds_read(3)]]], simp_all)+
qed

lemma st_op_at: "st I Z X n g info \<Longrightarrow> i < 4 \<Longrightarrow> i \<notin> X \<Longrightarrow> plain (op_at info i)"
  by (simp add: st_def ops_st_def op_at_def)

lemma bfins_handler: "handler_ok d68020_bfins"
proof -
  have "builds (\<lambda>info. do {
      info \<leftarrow> build_bitfield_ins info M68K_INS_BFINS True;
      let op0 = op_at info 0;
      let op1 = op_at info 1;
      Some (on_op 1 (\<lambda>_. op0) (on_op 0 (\<lambda>_. op1) info)) }) 6 0"
    unfolding Let_def
    by (rule buildsI, rule yields_then, rule buildsD [OF build_bitfield_ins], simp, assumption, assumption)
      (simp only: yields_Some, intro st_on_op, assumption, simp_all add: st_op_at)
  from builds_ok [OF builds_limit [OF this]] show ?thesis unfolding d68020_bfins_def [abs_def] by simp
qed

lemma rtm_handler: "handler_ok d68020_rtm"
proof -
  have p: "plain (set_reg r (op\<lparr>ko_address_mode := M68K_AM_NONE, ko_type := M68K_OP_REG\<rparr>))" if "plain op" "unat r < 47" for op r
    using that by (simp add: plain_def)
  have "builds (\<lambda>info. do {
       info \<leftarrow> build_absolute_jump_with_immediate info M68K_INS_RTM 0 0;
       Some (on_op 0 (\<lambda>op. set_reg (if mk_ir info AND 8 \<noteq> 0 then A_reg (mk_ir info) 0 else D_reg (mk_ir info) 0)
         (op\<lparr>ko_address_mode := M68K_AM_NONE, ko_type := M68K_OP_REG\<rparr>)) info) }) 0 1"
    by (rule buildsI, rule yields_then, rule buildsD [OF build_jumps(3)], simp, assumption, assumption)
      (simp only: yields_Some, rule st_on_op, assumption, rule p, assumption, simp)
  from builds_group_ok [OF builds_limit [OF this]] show ?thesis unfolding d68020_rtm_def [abs_def] by simp
qed

lemma trapcc_0_handler: "handler_ok d68020_trapcc_0"
proof -
  have "builds (\<lambda>info. do { info \<leftarrow> build_trap info 0 0; Some (set_op_count 0 info) }) 0 1"
    by (rule buildsI, rule yields_then, rule buildsD [OF build_conditional(2)], assumption, assumption)
      (simp only: yields_Some, rule st_set_op_count, assumption, simp)
  from builds_ok [OF builds_limit [OF this]] show ?thesis unfolding d68020_trapcc_0_def [abs_def] by simp
qed

lemma movec_handler: "handler_ok d68010_movec"
proof -
  have m: "unat (case map_of movec_regs k of None \<Rightarrow> M68K_REG_INVALID | Some r \<Rightarrow> r) < 47" for k
  proof -
    have "list_all (\<lambda>(k, r). unat r < 47) movec_regs" by (simp add: movec_regs_def)
    then show ?thesis by (auto simp: list_all_iff split: option.split dest!: map_of_SomeD)
  qed
  show ?thesis
    unfolding d68010_movec_def [abs_def] Let_def
    by (rule builds_ok, rule builds_limit, rule builds_read, rule buildsI [where k = 0 and h = 0])
      (simp_all only: yields_Some add_0_right, (intro st_if st_steps; (assumption | simp add: m))+)
qed


section \<open>Branches of the coprocessor\<close>

text \<open>\<^verbatim>\<open>build_init_op\<close> overwrites an opcode that was set before.\<close>

lemma init_add_opcode: "build_init_op (add_opcode x info) c k sz = build_init_op info c k sz"
  by (simp add: build_init_op_def add_opcode_def set_opcode_def MCInst_setOpcode_def set_op_count_def set_op_size_def)

lemma jump_groups_builds:
  assumes "\<And>I n g info. st I M68K_SIZE_TYPE_CPU {} n g info \<Longrightarrow> st I M68K_SIZE_TYPE_CPU {} n g (f info)"
  shows "builds (\<lambda>info. jump_groups (f info)) 0 2"
  by (rule buildsI) (simp only: add_0_right, rule jump_groups_st [OF assms], assumption, simp)

lemma coprocessor_branches: "handler_ok d68020_cpbcc_16" "handler_ok d68020_cpbcc_32" "handler_ok d68020_cpdbcc"
proof -
  have b: "builds (\<lambda>info. jump_groups (on_op 0 (as_branch d dsz) info)) 0 2" for d dsz
    by (rule jump_groups_builds) (rule st_on_op, assumption, simp)
  have r: "builds (\<lambda>info. read_imm_16 (build_init_op info M68K_INS_FBF 1 sz) \<bind> (\<lambda>(v, info). jump_groups (on_op 0 (as_branch (d v) dsz) info))) 1 2"
    "builds (\<lambda>info. read_imm_32 (build_init_op info M68K_INS_FBF 1 sz) \<bind> (\<lambda>(v, info). jump_groups (on_op 0 (as_branch (d v) dsz) info))) 2 2"
    for sz d dsz
  proof -
    have i: "st I M68K_SIZE_TYPE_CPU {} n g (build_init_op info M68K_INS_FBF 1 sz)" if "st I M68K_SIZE_TYPE_CPU {} n g info" for I n g info
      by (rule st_init [OF that]) simp_all
    show "builds (\<lambda>info. read_imm_16 (build_init_op info M68K_INS_FBF 1 sz) \<bind> (\<lambda>(v, info). jump_groups (on_op 0 (as_branch (d v) dsz) info))) 1 2"
      by (rule buildsI, rule buildsD [OF builds_read(2) [OF b], simplified add_0], erule i)
    show "builds (\<lambda>info. read_imm_32 (build_init_op info M68K_INS_FBF 1 sz) \<bind> (\<lambda>(v, info). jump_groups (on_op 0 (as_branch (d v) dsz) info))) 2 2"
      by (rule buildsI, rule buildsD [OF builds_read(3) [OF b], simplified add_0], erule i)
  qed
  from builds_ok [OF builds_limit [OF r(1)]] show "handler_ok d68020_cpbcc_16"
    unfolding d68020_cpbcc_16_def [abs_def] Let_def make_cpbcc_operand_def init_add_opcode by simp
  from builds_ok [OF builds_limit [OF builds_limit [OF r(2)]]] show "handler_ok d68020_cpbcc_32"
    unfolding d68020_cpbcc_32_def [abs_def] Let_def make_cpbcc_operand_def init_add_opcode by simp
  have "builds (\<lambda>info. jump_groups (on_op (Suc 0) (as_branch d dsz) (on_op 0 (set_reg (D_reg (mk_ir info) 0)) (build_init_op info M68K_INS_FDBF 2 0)))) 0 2"
    for d dsz
    by (rule jump_groups_builds) (intro st_steps; (assumption | simp))
  from builds_ok [OF builds_limit [OF builds_read(2) [OF builds_read(2) [OF this]]]] show "handler_ok d68020_cpdbcc"
    unfolding d68020_cpdbcc_def [abs_def] Let_def make_cpbcc_operand_def init_add_opcode by simp
qed

section \<open>Lists and pairs of registers\<close>

lemma handler_limit: "handler_ok f \<Longrightarrow> handler_ok (\<lambda>info. LIMIT_CPU_TYPES info allowed f)"
  using builds_ok [OF build_invalid_builds] by (simp add: handler_ok_def LIMIT_CPU_TYPES_def)

lemma handlerI: "(\<And>I. m68k_start I \<Longrightarrow> yields (f I) (m68k_result I)) \<Longrightarrow> handler_ok f"
  by (simp add: handler_ok_def)

lemma length_ops [simp]:
  "length (kx_operands (mk_extension (on_op i f info))) = length (kx_operands (mk_extension info))"
  "length (kx_operands (mk_extension (set_op_size z sz info))) = length (kx_operands (mk_extension info))"
  "length (kx_operands (mk_extension (set_op_count c info))) = length (kx_operands (mk_extension info))"
  by (simp_all add: on_op_def set_op_size_def set_op_count_def)

lemma st_length: "st I Z X n g info \<Longrightarrow> length (kx_operands (mk_extension info)) = 4"
  by (simp add: st_def ops_st_def)

lemma op_at_on_op [simp]: "i < length (kx_operands (mk_extension info)) \<Longrightarrow>
    op_at (on_op i f info) j = (if i = j then f (op_at info j) else op_at info j)"
  by (simp add: op_at_def on_op_def)

lemma set_reg_pair_fields [simp]:
  "ko_reg_0 (set_reg_pair r0 r1 op) = r0" "ko_reg_1 (set_reg_pair r0 r1 op) = r1"
  by (rule bit_eqI; auto simp: set_reg_pair_def ko_reg_0_def ko_reg_1_def bit_simps dest: bit_imp_le_length)+

lemma as_pair_fields [simp]:
  "ko_type (as_pair r0 r1 op) = M68K_OP_REG_PAIR" "ko_mem (as_pair r0 r1 op) = ko_mem op"
  "ko_reg_0 (as_pair r0 r1 op) = r0" "ko_reg_1 (as_pair r0 r1 op) = r1" "ko_address_mode (as_pair r0 r1 op) = M68K_AM_NONE" "ko_register_bits (as_pair r0 r1 op) = ko_register_bits op"
  by (simp_all add: as_pair_def) (simp_all add: set_reg_pair_def)

lemma op_ok_pair: "plain op \<Longrightarrow> unat r0 < 16 \<Longrightarrow> unat r1 < 16 \<Longrightarrow> op_ok (as_pair r0 r1 op)"
  by (auto simp: op_ok_def mem_bounds) (simp_all add: plain_def)

lemma op_ok_pair_reg: "plain op \<Longrightarrow> unat r < 47 \<Longrightarrow> op_ok (set_reg r ((as_pair r0 r1 op)\<lparr>ko_type := M68K_OP_REG\<rparr>))"
  by (simp add: op_ok_def plain_def)

lemma op_ok_bits: "plain op \<Longrightarrow> bits_ok b \<Longrightarrow> op_ok (as_bits b op)"
  by (auto simp: op_ok_def as_bits_def mem_bounds)

lemma and_7_less_16: "unat (x AND 7 :: u32) < 16" "unat ((x AND 7 :: u32) + 8) < 16"
  using and_7_less [of x] by (simp_all add: unat_word_ariths)

lemma wide_division:
  assumes "unat c1 < 375"
  shows "m68k_start I \<Longrightarrow> yields (get_ea_mode_op (build_init_op (skip_pc 2 I) c1 2 4) 0 w 4 \<bind> (\<lambda>info.
     Some (if b then on_op 1 (\<lambda>op. set_reg (M68K_REG_D0 + (r1 AND 7)) (op\<lparr>ko_type := M68K_OP_REG\<rparr>)) (on_op 1 (as_pair (r0 AND 7) (r1 AND 7)) info)
       else on_op 1 (as_pair (r0 AND 7) (r1 AND 7)) info))) (m68k_result I)"
proof -
  assume I: "m68k_start I"
  have "st I M68K_SIZE_TYPE_CPU {} 1 0 (build_init_op (skip_pc 2 I) c1 2 4)"
    by (rule st_init) (use st_skip [OF start_st [OF I], of 1] assms in simp_all)
  then show ?thesis
  proof (rule get_ea_then, unfold yields_Some)
    fix info assume s: "st I M68K_SIZE_TYPE_CPU {} (1 + 5) 0 info"
    let ?i = "on_op 1 (as_pair (r0 AND 7) (r1 AND 7)) info"
    note p = st_on_special [OF s, of 1 "as_pair (r0 AND 7) (r1 AND 7)"]
    have q: "plain (op_at info 1)" by (rule st_op_at [OF s]) simp_all
    show "m68k_result I (if b then on_op 1 (\<lambda>op. set_reg (M68K_REG_D0 + (r1 AND 7)) (op\<lparr>ko_type := M68K_OP_REG\<rparr>)) ?i else ?i)"
      apply (rule st_result [where Z = M68K_SIZE_TYPE_CPU and X = "{1}" and n = "1 + 5" and g = 0])
            apply (use p st_on_special [OF p, of 1] in simp)
           apply (simp_all add: st_length [OF s])
      apply (use op_ok_pair [OF q] op_ok_pair_reg [OF q] in \<open>auto simp: and_7_less_16 st_length [OF s]\<close>)
      done
  qed
qed

lemma wide_handlers: "handler_ok d68020_divl" "handler_ok d68020_mull"
  unfolding d68020_divl_def [abs_def] d68020_mull_def [abs_def] Let_def
  by (rule handler_limit, rule handlerI, rule read_then(2), erule start_st, simp only: prod.case, rule wide_division, simp, assumption)+

lemma cas2_handlers: "handler_ok (d68020_cas2_16 tab)" "handler_ok (d68020_cas2_32 tab)"
proof -
  have "yields (build_cas2 tab I sz) (m68k_result I)" if I: "m68k_start I" for I sz
  proof -
    let ?i = "build_init_op I M68K_INS_CAS2 3 sz"
    have s: "st I M68K_SIZE_TYPE_CPU {} 0 0 ?i" by (rule st_init [OF start_st [OF I]]) simp_all
    have inv: "yields (d68000_invalid ?i) (m68k_result I)"
      by (rule yields_mono [OF buildsD [OF build_invalid_builds s]], simp, erule st_plain_result) simp_all
    have v: "yields (instruction_is_valid tab ?i w) (\<lambda>(ok, info). if ok then info = ?i else m68k_result I info)" for w
      using I inv by (auto simp: instruction_is_valid_def Let_def m68k_start_def wp)
    show ?thesis
      unfolding build_cas2_def Let_def
    proof (rule read_then(5) [OF s], rule yields_then [OF v], clarify, split if_split, intro conjI impI)
      fix ok info assume "if ok then info = ?i else m68k_result I info" "\<not> ok"
      then show "yields (Some info) (m68k_result I)" by (simp only: yields_Some if_False)
    next
      fix ok info assume "if ok then info = ?i else m68k_result I info" "\<not> \<not> ok"
      then have i: "info = ?i" by simp
      show "yields (read_imm_32 info \<bind> (\<lambda>(extension, info). Some (on_op 2
           (as_pair ((drop_bit 28 extension AND 7) + (if extension AND 0x80000000 \<noteq> 0 then 8 else 0))
             ((drop_bit 12 extension AND 7) + (if extension AND 0x8000 \<noteq> 0 then 8 else 0)))
           (on_op 1 (as_pair (drop_bit 22 extension AND 7) (drop_bit 6 extension AND 7))
             (on_op 0 (as_pair (drop_bit 16 extension AND 7) (extension AND 7)) info))))) (m68k_result I)"
        unfolding i
      proof (rule read_then(3) [OF s], unfold prod.case yields_Some)
        fix e :: u32 assume q: "st I M68K_SIZE_TYPE_CPU {} (0 + 2) 0 (skip_pc 4 ?i)"
        note l = st_length [OF q] and p = op_ok_pair [OF st_op_at [OF q]]
        show "m68k_result I (on_op 2
           (as_pair ((drop_bit 28 e AND 7) + (if e AND 0x80000000 \<noteq> 0 then 8 else 0))
             ((drop_bit 12 e AND 7) + (if e AND 0x8000 \<noteq> 0 then 8 else 0)))
           (on_op 1 (as_pair (drop_bit 22 e AND 7) (drop_bit 6 e AND 7))
             (on_op 0 (as_pair (drop_bit 16 e AND 7) (e AND 7)) (skip_pc 4 ?i))))"
          by (rule st_result [OF st_on_special [OF st_on_special [OF st_on_special [OF q]]]])
            (auto simp: l intro!: p and_7_less_16)
      qed
    qed
  qed
  then show "handler_ok (d68020_cas2_16 tab)" "handler_ok (d68020_cas2_32 tab)"
    by (simp_all add: handler_ok_def d68020_cas2_16_def d68020_cas2_32_def)
qed

lemma movem_er: "unat c < 375 \<Longrightarrow> m68k_start I \<Longrightarrow> yields (build_movem_er I c sz) (m68k_result I)"
proof -
  assume c: "unat c < 375" and I: "m68k_start I"
  have s: "st I M68K_SIZE_TYPE_CPU {} 0 0 (build_init_op I c 2 sz)" by (rule st_init [OF start_st [OF I] c]) simp_all
  show ?thesis
    unfolding build_movem_er_def Let_def
  proof (rule read_then(2) [OF s], unfold prod.case)
    fix v :: u32 let ?i = "skip_pc 2 (build_init_op I c 2 sz)"
    assume v: "unat v < 65536" and q: "st I M68K_SIZE_TYPE_CPU {} (0 + 1) 0 ?i"
    have "yields (get_ea_mode_op (on_op 1 (as_bits v) ?i) 0 w sz \<bind> Some) (m68k_result I)" for w
    proof (rule get_ea_then [OF st_on_special [OF q]], unfold yields_Some)
      fix info assume t: "st I M68K_SIZE_TYPE_CPU {1} (0 + 1 + 5) 0 info" and o: "only_op 0 (on_op 1 (as_bits v) ?i) info"
      have "op_at info 1 = as_bits v (op_at ?i 1)" using only_op_other [OF o, of 1] by (simp add: st_length [OF q])
      moreover have "op_ok (as_bits v (op_at ?i 1))" by (rule op_ok_bits [OF st_op_at [OF q]]) (simp_all add: bits_ok_def v)
      ultimately show "m68k_result I info" by (intro st_result [OF t]) auto
    qed
    then show "yields (get_ea_mode_op (on_op 1 (as_bits v) ?i) 0 (mk_ir (on_op 1 (as_bits v) ?i)) sz) (m68k_result I)"
      by (simp only: Option.bind_runit)
  qed
qed

lemma movem_re: "unat c < 375 \<Longrightarrow> m68k_start I \<Longrightarrow> yields (build_movem_re I c sz) (m68k_result I)"
proof -
  assume c: "unat c < 375" and I: "m68k_start I"
  have s: "st I M68K_SIZE_TYPE_CPU {} 0 0 (build_init_op I c 2 sz)" by (rule st_init [OF start_st [OF I] c]) simp_all
  have r: "unat (ucast (w :: u16) :: u32) < 65536" for w using unsigned_less [of w, where ?'a = nat] by simp
  show ?thesis
    unfolding build_movem_re_def Let_def
  proof (rule read_then(2) [OF s], unfold prod.case, rule get_ea_then [OF st_on_special], assumption, unfold yields_Some)
    fix v :: u32 and info let ?i = "skip_pc 2 (build_init_op I c 2 sz)"
      and ?f = "\<lambda>op. op\<lparr>ko_register_bits := ucast (reverse_bits (ko_register_bits op))\<rparr>"
    assume v: "unat v < 65536" and q: "st I M68K_SIZE_TYPE_CPU {} (0 + 1) 0 ?i"
      and t: "st I M68K_SIZE_TYPE_CPU {0} (0 + 1 + 5) 0 info" and o: "only_op 1 (on_op 0 (as_bits v) ?i) info"
    have a: "op_at info 0 = as_bits v (op_at ?i 0)" using only_op_other [OF o, of 0] by (simp add: st_length [OF q])
    have b: "op_ok (as_bits b (op_at ?i 0))" if "unat b < 65536" for b
      by (rule op_ok_bits [OF st_op_at [OF q]]) (simp_all add: bits_ok_def that)
    have f: "?f (as_bits v op) = as_bits (ucast (reverse_bits v)) op" for op by (simp add: as_bits_def)
    show "m68k_result I (if ko_address_mode (op_at info 1) = M68K_AM_REGI_ADDR_PRE_DEC then on_op 0 ?f info else info)"
    proof (rule st_result [where Z = M68K_SIZE_TYPE_CPU and X = "{0}" and n = "0 + 1 + 5" and g = 0])
      show "st I M68K_SIZE_TYPE_CPU {0} (0 + 1 + 5) 0
          (if ko_address_mode (op_at info 1) = M68K_AM_REGI_ADDR_PRE_DEC then on_op 0 ?f info else info)"
        using t st_on_special [OF t, of 0 ?f] by (simp split: if_split)
    next
      fix i :: nat assume "i \<in> {0}"
      then show "op_ok (op_at (if ko_address_mode (op_at info 1) = M68K_AM_REGI_ADDR_PRE_DEC then on_op 0 ?f info else info) i)"
        using b [OF v] b [OF r] by (simp add: st_length [OF t] a f)
    qed simp_all
  qed
qed

lemma movem_handlers:
  "handler_ok d68000_movem_pd_16" "handler_ok d68000_movem_pd_32" "handler_ok d68000_movem_er_16" "handler_ok d68000_movem_er_32"
  "handler_ok d68000_movem_re_16" "handler_ok d68000_movem_re_32"
  unfolding handler_ok_def d68000_movem_pd_16_def d68000_movem_pd_32_def d68000_movem_er_16_def d68000_movem_er_32_def
    d68000_movem_re_16_def d68000_movem_re_32_def
  by (intro allI impI movem_er movem_re; simp)+

section \<open>The general instructions of the coprocessor\<close>

text \<open>The state after the second word has been read.\<close>

definition cp_start :: "m68k_info \<Rightarrow> m68k_info \<Rightarrow> bool" where
  "cp_start I info \<longleftrightarrow> st I M68K_SIZE_TYPE_CPU {} 1 0 info \<and> mk_extension info = fresh_m68k \<and> mi_Opcode (mk_inst info) = 0"

lemma read_cp_start:
  assumes "m68k_start I" "\<And>v info. cp_start I info \<Longrightarrow> yields (f (v, info)) Q"
  shows "yields (read_imm_16 I \<bind> f) Q"
proof (rule read_then(2) [OF start_st [OF assms(1)]], rule assms(2))
  assume "st I M68K_SIZE_TYPE_CPU {} (0 + 1) 0 (skip_pc 2 I)"
  moreover have "mk_extension (skip_pc 2 I) = mk_extension I" by (simp add: skip_pc_def)
  ultimately show "cp_start I (skip_pc 2 I)" using assms(1) by (simp add: cp_start_def m68k_start_def)
qed

lemma fmove_fpcr_ok: "cp_start I info \<Longrightarrow> yields (fmove_fpcr info ext) (m68k_result I)"
proof -
  assume "cp_start I info"
  then have s: "st I M68K_SIZE_TYPE_CPU {} 1 0 (build_init_op info M68K_INS_FMOVE 2 4)"
    by (intro st_init [where Z = M68K_SIZE_TYPE_CPU]) (simp_all add: cp_start_def)
  show ?thesis
    unfolding fmove_fpcr_def Let_def
    by (cases "drop_bit 13 ext AND 1 = 0"; simp only: simp_thms if_True if_False prod.case;
        rule get_ea_then [OF s], unfold yields_Some,
        rule st_plain_result [where n = "1 + 5" and g = 0], intro st_if st_on_op; (assumption | simp))
qed

lemma bits_ok_push: "bits_ok (push_bit 16 (x AND 0xff))" "bits_ok (push_bit 16 (ucast (b :: u8)))"
proof -
  have "x AND 0xff = take_bit 8 x" by (simp add: take_bit_eq_mask mask_eq_exp_minus_1)
  also have "\<dots> = ucast (ucast x :: u8)" by (rule bit_eqI) (auto simp: bit_simps)
  finally have "x AND 0xff = ucast (ucast x :: u8)" .
  then show "bits_ok (push_bit 16 (x AND 0xff))" "bits_ok (push_bit 16 (ucast b))" by (auto simp: bits_ok_def)
qed

lemma op_ok_float_bits: "plain op \<Longrightarrow> bits_ok b \<Longrightarrow> op_ok ((as_bits b op)\<lparr>ko_address_mode := M68K_AM_NONE\<rparr>)"
  by (auto simp: op_ok_def as_bits_def mem_bounds)

lemma op_ok_plain: "plain op \<Longrightarrow> op_ok op"
  by (simp add: op_ok_def)

lemma fmovem_ok: "cp_start I info \<Longrightarrow> yields (fmovem info ext) (m68k_result I)"
proof -
  assume "cp_start I info"
  then have s: "st I M68K_SIZE_TYPE_CPU {} 1 0 (build_init_op info M68K_INS_FMOVEM 2 0)"
    by (intro st_init [where Z = M68K_SIZE_TYPE_CPU]) (simp_all add: cp_start_def)
  let ?b = "\<lambda>b op. (as_bits b op)\<lparr>ko_address_mode := M68K_AM_NONE\<rparr>"
  have one: "m68k_result I (if m = 1 then on_op l (set_reg (D_reg r 4)) i
      else if m = 0 then on_op l (?b (push_bit 16 (ext AND 0xff))) i
      else if m = 2 then on_op l (?b (push_bit 16 (ucast (w :: u8)))) i else i)"
    if t: "st I M68K_SIZE_TYPE_CPU {} (1 + 5) 0 i" and l: "l < 2" for i l r w and m :: u32
  proof -
    have l4: "l < 4" using l by simp
    note p = st_op_at [OF t l4]
    have x: "m68k_result I (on_op l (?b b) i)" if "bits_ok b" for b
      by (rule st_result [OF st_on_special [OF t]])
        (use op_ok_float_bits [OF p that] l in \<open>simp_all add: st_length [OF t]\<close>)
    have y: "m68k_result I (on_op l (set_reg (D_reg r 4)) i)" "m68k_result I i"
      by (rule st_plain_result [where n = "1 + 5" and g = 0], (rule st_on_op)?, rule t, simp_all)+
    show ?thesis using x [OF bits_ok_push(1)] x [OF bits_ok_push(2)] y by simp
  qed
  show ?thesis
    unfolding fmovem_def Let_def
    by (cases "drop_bit 13 ext AND 1 = 0"; simp only: simp_thms if_True if_False prod.case;
        rule get_ea_then [OF s], unfold yields_Some, rule one; simp)
qed

text \<open>No operand but \<open>i\<close> is an immediate, so that there is at most one.\<close>

definition no_imm_but :: "nat \<Rightarrow> m68k_info \<Rightarrow> bool" where
  "no_imm_but i info \<longleftrightarrow> (\<forall>j<4. j \<noteq> i \<longrightarrow> ko_address_mode (op_at info j) \<noteq> M68K_AM_IMMEDIATE)"

lemma no_imm_count:
  assumes "no_imm_but i info" "length (kx_operands (mk_extension info)) = 4"
  shows "ops_with (\<lambda>op. ko_address_mode op = M68K_AM_IMMEDIATE) (mk_extension info) \<le> 1"
proof -
  have "{j. j < 4 \<and> ko_address_mode (op_at info j) = M68K_AM_IMMEDIATE} \<subseteq> {i}" using assms(1) by (auto simp: no_imm_but_def)
  then have "card {j. j < 4 \<and> ko_address_mode (op_at info j) = M68K_AM_IMMEDIATE} \<le> card {i}" by (rule card_mono [rotated]) simp
  then show ?thesis using assms(2) by (simp add: ops_with_def length_filter_conv_card op_at_def)
qed

lemma no_imm_only: "no_imm_but i info \<Longrightarrow> only_op i info info' \<Longrightarrow> no_imm_but i info'"
  by (simp add: no_imm_but_def only_op_other)

lemma no_imm_set_reg: "no_imm_but i info \<Longrightarrow> length (kx_operands (mk_extension info)) = 4 \<Longrightarrow> k < 4 \<Longrightarrow> no_imm_but i (on_op k (set_reg r) info)"
  by (simp add: no_imm_but_def)

definition cp_state :: "m68k_info \<Rightarrow> nat \<Rightarrow> nat \<Rightarrow> m68k_info \<Rightarrow> bool" where
  "cp_state I i n info \<longleftrightarrow> (\<exists>Z. st I Z {} n 0 info) \<and> no_imm_but i info"

lemma cp_state_result: "cp_state I i n info \<Longrightarrow> n \<le> 10 \<Longrightarrow> m68k_result I info"
  unfolding cp_state_def by (elim conjE exE, rule st_result, assumption) (simp_all only: no_imm_count st_length, simp_all)

lemma cp_state_set_reg: "cp_state I i n info \<Longrightarrow> k < 4 \<Longrightarrow> unat r < 47 \<Longrightarrow> cp_state I i n (on_op k (set_reg r) info)"
  unfolding cp_state_def by (auto intro!: no_imm_set_reg exI st_on_op dest: st_length)

lemma cp_state_size: "cp_state I i n info \<Longrightarrow> cp_state I i n (set_op_size Z sz info)"
  unfolding cp_state_def no_imm_but_def
  by (auto intro!: exI st_set_op_size) (simp add: op_at_def set_op_size_def)

lemma cp_state_ea:
  assumes "cp_state I i n info"
  shows "yields (get_ea_mode_op info i w sz) (cp_state I i (n + 5))"
proof -
  from assms obtain Z where "st I Z {} n 0 info" by (auto simp: cp_state_def)
  then show ?thesis
    by (rule yields_mono [OF get_ea_mode_op_ea]) (use assms in \<open>auto simp: cp_state_def ea_st_def intro: no_imm_only\<close>)
qed

lemma cp_state_ea_float:
  assumes "cp_state I i n info" "t \<in> {M68K_OP_FP_SINGLE, M68K_OP_FP_DOUBLE}"
  shows "yields (get_ea_mode_op info i w sz \<bind> (\<lambda>info. Some (on_op i (\<lambda>op. op\<lparr>ko_type := t\<rparr>) info))) (cp_state I i (n + 5))"
proof (rule yields_then [OF cp_state_ea [OF assms(1)]], unfold yields_Some)
  fix info' assume c: "cp_state I i (n + 5) info'"
  then obtain Z where s: "st I Z {} (n + 5) 0 info'" by (auto simp: cp_state_def)
  have "st I Z {} (n + 5) 0 (on_op i (\<lambda>op. op\<lparr>ko_type := t\<rparr>) info')"
    by (rule st_on_op [OF s]) (use assms(2) in \<open>auto simp: plain_def\<close>)
  moreover have "no_imm_but i (on_op i (\<lambda>op. op\<lparr>ko_type := t\<rparr>) info')"
    using c by (intro no_imm_only [OF _ only_op_steps(1) [OF only_op_refl]]) (simp add: cp_state_def)
  ultimately show "cp_state I i (n + 5) (on_op i (\<lambda>op. op\<lparr>ko_type := t\<rparr>) info')" by (auto simp: cp_state_def)
qed

lemma cpgen_source_ok:
  assumes "cp_state I i n info"
  shows "yields (cpgen_source info i src) (cp_state I i (n + 5))"
proof -
  note c = cp_state_size [OF assms]
  have m: "cp_state I i (n + 5) info'" if "cp_state I i n info'" for info'
    using that st_mono [of I _ "{}" n 0 info' "{}" "n + 5" 0] unfolding cp_state_def by auto
  show ?thesis
    unfolding cpgen_source_def
    by (intro yields_ifI cp_state_ea cp_state_ea_float c) (simp_all only: yields_Some m c insert_iff simp_thms)
qed

text \<open>The opcode and the operand count of a computing instruction.\<close>

lemma fpu_opcode_less:
  "unat (mi_Opcode (mk_inst info)) = 0 \<Longrightarrow>
   unat (mi_Opcode (mk_inst (fst (case map_of fpu_opmodes m of None \<Rightarrow> (info, True) | Some (c, b) \<Rightarrow> (set_opcode c info, b))))) < 300"
proof -
  assume "unat (mi_Opcode (mk_inst info)) = 0"
  moreover have "list_all (\<lambda>(m, c, b). unat c < 300) fpu_opmodes" by (simp add: fpu_opmodes_def)
  ultimately show ?thesis by (auto simp: list_all_iff split: option.split dest!: map_of_SomeD)
qed

lemma cp_state_opcode:
  assumes "cp_start I info" "d \<in> {0, 1, 2}" and that: "unat k \<le> 3"
  shows "cp_state I i 1 (set_op_size Z 0 (set_op_count k (set_opcode
    (mi_Opcode (mk_inst (fst (case map_of fpu_opmodes m of None \<Rightarrow> (info, True) | Some (c, b) \<Rightarrow> (set_opcode c info, b)))) + d) info)))"
proof -
  let ?c = "mi_Opcode (mk_inst (fst (case map_of fpu_opmodes m of None \<Rightarrow> (info, True) | Some (c, b) \<Rightarrow> (set_opcode c info, b))))"
  have "unat ?c < 300" by (rule fpu_opcode_less) (use assms(1) in \<open>simp add: cp_start_def\<close>)
  then have "unat (?c + d) < 375" using assms(2) by (auto simp: unat_word_ariths)
  with assms(1) that have "st I Z {} 1 0 (set_op_size Z 0 (set_op_count k (set_opcode (?c + d) info)))"
    by (intro st_set_op_size [where Z = M68K_SIZE_TYPE_CPU] st_set_op_count st_set_opcode) (simp_all add: cp_start_def)
  moreover have "no_imm_but i (set_op_size Z 0 (set_op_count k (set_opcode oc info)))" for oc
    using assms(1) by (simp add: cp_start_def no_imm_but_def op_at_def set_op_size_def set_op_count_def set_opcode_def
        all_less_4 fresh_m68k_def zero_m68k_def zero_m68k_op_def)
  ultimately show ?thesis by (auto simp: cp_state_def)
qed

lemma set_opcode_twice: "set_opcode d (set_opcode c info) = set_opcode d info" "set_opcode (mi_Opcode (mk_inst info)) info = info"
  "add_opcode d info = set_opcode (mi_Opcode (mk_inst info) + d) info"
  by (simp_all add: add_opcode_def set_opcode_def MCInst_setOpcode_def)

lemma cpgen_arith_ok:
  assumes "cp_start I info"
  shows "yields (cpgen_arith info w) (m68k_result I)"
proof -
  let ?p = "\<lambda>m. case map_of fpu_opmodes m of None \<Rightarrow> (info, True) | Some x \<Rightarrow> (set_opcode (fst x) info, snd x)"
  let ?d = "if drop_bit 6 w AND 1 \<noteq> 0 then if drop_bit 2 w AND 1 \<noteq> 0 then 2 else 1 else 0"
  have e: "(if drop_bit 6 w AND 1 \<noteq> 0 then add_opcode (if drop_bit 2 w AND 1 \<noteq> 0 then 2 else 1) (fst (?p m)) else fst (?p m)) =
      set_opcode (mi_Opcode (mk_inst (fst (?p m))) + ?d) info" for m
    by (auto simp: set_opcode_twice split: option.split)
  have c: "cp_state I i 1 (set_op_size Z 0 (set_op_count k (set_opcode (mi_Opcode (mk_inst (fst (?p m))) + ?d) info)))" if "unat k \<le> 3" for i Z k m
    by (rule cp_state_opcode [OF assms _ that, unfolded split_def]) simp
  have one: "set_op_count 1 (set_op_size M68K_SIZE_TYPE_CPU 0 (set_op_count 2 info')) = set_op_size M68K_SIZE_TYPE_CPU 0 (set_op_count 1 info')" for info'
    by (simp add: set_op_count_def set_op_size_def)
  have go: "yields (if r = 0 \<and> sg \<and> src = dst then Some (on_op i (set_reg (FP_reg dst)) (set_op_count 1 i0))
     else (if r = 1 then cpgen_source i0 i src else Some (on_op i (set_reg (FP_reg src)) i0)) \<bind>
       (\<lambda>info. Some (on_op j (set_reg (FP_reg dst)) info))) (m68k_result I)"
    if "i < 4" "j < 4" "unat (FP_reg src) < 47" "unat (FP_reg dst) < 47"
      "i0 = set_op_size M68K_SIZE_TYPE_CPU 0 (set_op_count 2 (set_opcode (mi_Opcode (mk_inst (fst (?p m))) + ?d) info))"
    for i j i0 m src dst sg and r :: u32
  proof -
    have k: "cp_state I i 1 i0" "cp_state I i 1 (set_op_count 1 i0)" unfolding that(5) one by (rule c, simp)+
    have y: "yields (if r = 1 then cpgen_source i0 i src else Some (on_op i (set_reg (FP_reg src)) i0)) (cp_state I i 6)"
    proof (rule yields_ifI)
      show "yields (cpgen_source i0 i src) (cp_state I i 6)" using cpgen_source_ok [OF k(1), of src] by simp
      have "st I Z {} 6 0 x" if "st I Z {} 1 0 x" for Z x by (rule st_mono [OF that]) simp_all
      then show "yields (Some (on_op i (set_reg (FP_reg src)) i0)) (cp_state I i 6)"
        using cp_state_set_reg [OF k(1) that(1,3)] by (auto simp: yields_Some cp_state_def)
    qed
    show ?thesis
    proof (rule yields_ifI)
      show "yields (Some (on_op i (set_reg (FP_reg dst)) (set_op_count 1 i0))) (m68k_result I)"
        unfolding yields_Some by (rule cp_state_result [OF cp_state_set_reg [OF k(2) that(1,4)]]) simp
      show "yields ((if r = 1 then cpgen_source i0 i src else Some (on_op i (set_reg (FP_reg src)) i0)) \<bind>
          (\<lambda>info. Some (on_op j (set_reg (FP_reg dst)) info))) (m68k_result I)"
        by (rule yields_then [OF y], unfold yields_Some, rule cp_state_result [OF cp_state_set_reg [OF _ that(2,4)]], assumption) simp
    qed
  qed
  show ?thesis
    unfolding cpgen_arith_def Let_def split_def e
    by (rule go [OF _ _ _ _ refl]) simp_all
qed

lemma cpgen_handler: "handler_ok d68020_cpgen"
  unfolding d68020_cpgen_def [abs_def] Let_def
proof (rule handler_limit, rule handlerI, rule read_cp_start, assumption, unfold prod.case, intro yields_ifI)
  fix I :: m68k_info and v info assume c: "cp_start I info"
  have "m68k_result I (on_op 1 (set_reg (FP_reg (drop_bit 7 v AND 7))) (on_op 0 (as_imm (ucast (v AND 0x3f))) (build_init_op info M68K_INS_FMOVECR 2 0)))"
    by (rule st_plain_result [where n = 1 and g = 0], intro st_on_op st_init [where Z = M68K_SIZE_TYPE_CPU])
      (use c in \<open>simp_all add: cp_start_def\<close>)
  then show "yields (Some (on_op 1 (set_reg (FP_reg (drop_bit 7 v AND 7))) (on_op 0 (as_imm (ucast (v AND 0x3f)))
      (build_init_op info M68K_INS_FMOVECR 2 0)))) (m68k_result I)" by (simp only: yields_Some)
  show "yields (fmove_fpcr info v) (m68k_result I)" "yields (fmovem info v) (m68k_result I)" "yields (cpgen_arith info v) (m68k_result I)"
    by (rule fmove_fpcr_ok [OF c] fmovem_ok [OF c] cpgen_arith_ok [OF c])+
qed

lemma invalid_handler: "handler_ok d68000_invalid"
  by (rule builds_ok [OF build_invalid_builds]) simp_all

section \<open>All handlers\<close>

lemmas handlers_ok = invalid_handler simple_handlers_1 simple_handlers_2 simple_handlers_3 simple_handlers_4 simple_handlers_5
  simple_handlers_6 simple_handlers_7 simple_handlers_8 simple_handlers_9 simple_handlers_10 simple_handlers_11
  register_handlers ea_handlers ea_limited_handlers ea_reg_handlers jump_handlers return_handlers move16_handlers
  scc_opcode_handlers bfins_handler rtm_handler trapcc_0_handler movec_handler coprocessor_branches wide_handlers
  cas2_handlers movem_handlers cpgen_handler

lemma opcode_handlers_ok: "list_all handler_ok (opcode_handlers tab)"
  unfolding opcode_handlers_def list.pred_inject(2) by (intro conjI list.pred_inject(1) handlers_ok)

lemma length_opcode_handlers: "length (opcode_handlers tab) = 299"
  by (simp add: opcode_handlers_def)

lemma call_handler_ok: "0 < p \<Longrightarrow> p \<le> 299 \<Longrightarrow> m68k_start I \<Longrightarrow> yields (call_handler tab p I) (m68k_result I)"
  using opcode_handlers_ok [of tab]
  by (auto simp: call_handler_def wp length_opcode_handlers list_all_length handler_ok_def)

end
