(* ===== verification/M68K_Result.thy ===== *)
theory M68K_Result
  imports M68K_Special_Safe
begin

text \<open>
  Decoding one instruction with M68K: the lists of registers stay within their arrays, an opcode is
  accepted if and only if the opcode table has an entry for it, and the length of an accepted
  instruction is even and at most 22 bytes.
\<close>

section \<open>Register lists\<close>

definition regs_frame :: "m68k_info \<Rightarrow> m68k_info" where
  "regs_frame info = info\<lparr>mk_regs_read := [], mk_regs_read_count := 0, mk_regs_write := [], mk_regs_write_count := 0\<rparr>"

text \<open>At most \<open>n\<close> registers have been added to each list; nothing else has changed.\<close>

definition regs_st :: "m68k_info \<Rightarrow> nat \<Rightarrow> m68k_info \<Rightarrow> bool" where
  "regs_st I n info \<longleftrightarrow> regs_frame info = regs_frame I \<and> length (mk_regs_read info) = 20 \<and> length (mk_regs_write info) = 20 \<and>
     unat (mk_regs_read_count info) \<le> n \<and> unat (mk_regs_write_count info) \<le> n"

lemma regs_mono: "regs_st I n info \<Longrightarrow> n \<le> m \<Longrightarrow> regs_st I m info"
  by (auto simp: regs_st_def)

lemma regs_extension: "regs_st I n info \<Longrightarrow> mk_extension info = mk_extension I"
  by (cases info; cases I) (simp add: regs_st_def regs_frame_def)

lemma exists_reg_list: "n \<le> length regs \<Longrightarrow> m68k_exists_reg_list regs n reg = Some (reg \<in> set (take n regs))"
  by (induction regs n reg rule: m68k_exists_reg_list.induct) auto

lemma add_reg_st:
  assumes "regs_st I n info" "n < 20"
  shows "yields (m68k_add_reg_to_rw_list info reg write) (regs_st I (n + 1))"
proof -
  have m: "regs_st I (n + 1) info" by (rule regs_mono [OF assms(1)]) simp
  have "yields (m68k_add_write (ucast reg) info) (regs_st I (n + 1))" "yields (m68k_add_read (ucast reg) info) (regs_st I (n + 1))"
    using assms m by (auto simp: m68k_add_write_def m68k_add_read_def exists_reg_list regs_st_def regs_frame_def wp unat_word_ariths)
  with m show ?thesis by (simp add: m68k_add_reg_to_rw_list_def wp)
qed

lemma add_reg_then:
  assumes "regs_st I n info" "n < 20" "\<And>info'. regs_st I (n + 1) info' \<Longrightarrow> yields (f info') Q"
  shows "yields (m68k_add_reg_to_rw_list info reg write \<bind> f) Q"
  by (rule yields_then [OF add_reg_st [OF assms(1,2)]]) (rule assms(3))

lemma update_bits_st: "regs_st I n info \<Longrightarrow> n + k \<le> 20 \<Longrightarrow> yields (update_bits_from r bits wr i k info) (regs_st I (n + k))"
proof (induction k arbitrary: i n info)
  case (Suc k)
  have "yields (if bits AND push_bit i 1 \<noteq> 0 then m68k_add_reg_to_rw_list info (r + of_nat i) wr else Some info) (regs_st I (n + 1))"
    using add_reg_st [OF Suc(2)] regs_mono [OF Suc(2), of "n + 1"] Suc(3) by (simp add: wp)
  then show ?case
    unfolding update_bits_from.simps
    by (rule yields_then) (use Suc.IH [of "n + 1"] Suc(3) in simp)
qed (simp add: wp)

lemma update_no_bits: "update_bits_from r 0 write i k info = Some info"
  by (induction k arbitrary: i) simp_all

lemma update_range_st:
  "regs_st I n info \<Longrightarrow> n + 8 \<le> 20 \<Longrightarrow> yields (update_bits_range info r bits write) (regs_st I (n + 8))"
  "update_bits_range info r 0 write = Some info"
  by (simp_all only: update_bits_range_def update_bits_st update_no_bits)

lemma high_bits_0: "unat (b :: u32) < 65536 \<Longrightarrow> drop_bit 16 b AND 0xff = 0"
proof -
  assume "unat b < 65536"
  then have "unat (drop_bit 16 b) = 0" by (simp add: drop_bit_eq_div unat_div)
  then show ?thesis by (simp add: unat_eq_0)
qed

lemma low_bits_0: "push_bit 16 (c :: u32) AND 0xff = 0" "drop_bit 8 (push_bit 16 c) AND 0xff = 0"
proof -
  have m: "(0xff :: u32) = mask 8" by (simp add: mask_eq_exp_minus_1)
  show "push_bit 16 c AND 0xff = 0" "drop_bit 8 (push_bit 16 c) AND 0xff = 0"
    unfolding m by (rule bit_eqI; auto simp: bit_simps)+
qed

lemma update_regbits_st:
  assumes "bits_ok (ko_register_bits op)" "regs_st I n info" "n + 16 \<le> 20"
  shows "yields (update_reg_list_regbits info op write) (regs_st I (n + 16))"
  using assms(1)[unfolded bits_ok_def]
proof
  assume "unat (ko_register_bits op) < 65536"
  then have z: "drop_bit 16 (ko_register_bits op) AND 0xff = 0" by (rule high_bits_0)
  show ?thesis
    unfolding update_reg_list_regbits_def Let_def z update_range_st(2)
    by (rule yields_then [OF update_range_st(1) [OF assms(2)]], use assms(3) in simp,
        rule yields_then [OF update_range_st(1)], assumption) (use assms(3) in \<open>simp_all add: wp add.assoc\<close>)
next
  assume "\<exists>b :: u8. ko_register_bits op = push_bit 16 (ucast b)"
  then obtain b :: u8 where b: "ko_register_bits op = push_bit 16 (ucast b)" ..
  show ?thesis
    unfolding update_reg_list_regbits_def Let_def b low_bits_0 update_range_st(2) Option.bind.bind_lunit
    by (rule yields_mono [OF update_range_st(1) [OF assms(2)]], use assms(3) in simp, erule regs_mono) simp
qed

definition reg_weight :: "cs_m68k_op \<Rightarrow> nat" where
  "reg_weight op = (if ko_type op = M68K_OP_REG_BITS then 16 else 2)"

lemma am_reg_list_st:
  assumes "regs_st I n info" "n + 2 \<le> 20"
  shows "yields (m68k_update_am_reg_list info op write) (regs_st I (n + 2))"
proof -
  have one: "yields (m68k_add_reg_to_rw_list info r w) (regs_st I (n + 2))" for r w
    by (rule yields_mono [OF add_reg_st [OF assms(1)]], use assms(2) in simp, erule regs_mono) simp
  have two: "yields (do { info \<leftarrow> m68k_add_reg_to_rw_list info r w; m68k_add_reg_to_rw_list info r' w' }) (regs_st I (n + 2))" for r r' w w'
    by (rule add_reg_then [OF assms(1)], use assms(2) in simp, rule yields_mono [OF add_reg_st], assumption)
      (use assms(2) in simp_all)
  have none: "yields (Some info) (regs_st I (n + 2))" using regs_mono [OF assms(1), of "n + 2"] by (simp add: wp)
  show ?thesis
    unfolding m68k_update_am_reg_list_def by (cases "ko_address_mode op"; simp add: one two none del: add_2_eq_Suc')
qed

lemma op_reg_list_st:
  assumes "op_ok op" "regs_st I n info" "n + reg_weight op \<le> 20"
  shows "yields (update_op_reg_list info op write) (regs_st I (n + reg_weight op))"
proof (cases "ko_type op = M68K_OP_REG_BITS")
  case True
  then have "bits_ok (ko_register_bits op)" using assms(1) by (auto simp: op_ok_def plain_def)
  then show ?thesis using update_regbits_st assms True by (simp add: update_op_reg_list_def reg_weight_def)
next
  case False
  then have w: "reg_weight op = 2" by (simp add: reg_weight_def)
  have none: "yields (Some info) (regs_st I (n + 2))" using regs_mono [OF assms(2), of "n + 2"] by (simp add: wp)
  have one: "yields (m68k_add_reg_to_rw_list info r write) (regs_st I (n + 2))" for r
    by (rule yields_mono [OF add_reg_st [OF assms(2)]], use assms(3) w in simp, erule regs_mono) simp
  have two: "yields (do { info \<leftarrow> m68k_add_reg_to_rw_list info r write; m68k_add_reg_to_rw_list info r' write }) (regs_st I (n + 2))" for r r'
    by (rule add_reg_then [OF assms(2)], use assms(3) w in simp, rule yields_mono [OF add_reg_st], assumption)
      (use assms(3) w in simp_all)
  have am: "yields (m68k_update_am_reg_list info op write) (regs_st I (n + 2))"
    using am_reg_list_st [OF assms(2)] assms(3) w by simp
  show ?thesis
    unfolding w update_op_reg_list_def by (cases "ko_type op"; use False in \<open>simp add: one two none am del: add_2_eq_Suc'\<close>)
qed


section \<open>All operands of an instruction\<close>

definition reg_weights :: "cs_m68k_op list \<Rightarrow> nat" where
  "reg_weights ops = sum_list (map reg_weight ops)"

lemma update_ops_st:
  assumes "list_all op_ok (kx_operands (mk_extension I))" "i + n \<le> length (kx_operands (mk_extension I))"
    and "regs_st I m info" "m + reg_weights (take n (drop i (kx_operands (mk_extension I)))) \<le> 20"
  shows "yields (update_ops_from i n info) (regs_st I (m + reg_weights (take n (drop i (kx_operands (mk_extension I))))))"
  using assms(2-)
proof (induction n arbitrary: i m info)
  case (Suc n)
  let ?ops = "kx_operands (mk_extension I)"
  have i: "i < length ?ops" using Suc(2) by simp
  have d: "take (Suc n) (drop i ?ops) = ?ops ! i # take n (drop (Suc i) ?ops)" by (simp flip: Cons_nth_drop_Suc [OF i])
  have ok: "op_ok (?ops ! i)" using assms(1) i by (simp add: list_all_length)
  have "yields (update_op_reg_list info (?ops ! i) True) (regs_st I (m + reg_weight (?ops ! i)))"
    by (rule op_reg_list_st [OF ok Suc(3)]) (use Suc(4) in \<open>simp add: d reg_weights_def\<close>)
  then have "yields (update_op_reg_list info (?ops ! i) True \<bind> update_ops_from (i + 1) n)
      (regs_st I (m + reg_weight (?ops ! i) + reg_weights (take n (drop (Suc i) ?ops))))"
    by (rule yields_then) (use Suc.IH [of "i + 1" "m + reg_weight (?ops ! i)"] Suc(2,4) in \<open>simp add: d reg_weights_def add.assoc\<close>)
  then show ?case
    using i by (simp add: d reg_weights_def add.assoc aget_def regs_extension [OF Suc(3)])
qed (simp add: reg_weights_def wp)

lemma weights_at_most:
  assumes "ext_ok ext" "n \<le> 3"
  shows "reg_weights (take n (kx_operands ext)) \<le> 20"
proof -
  obtain a b c d where ops: "kx_operands ext = [a, b, c, d]" using assms(1) by (auto simp: ext_ok_def elim: four_ops)
  have "reg_weight a + reg_weight b + reg_weight c \<le> 20"
    using assms(1) ops by (auto simp: ext_ok_def ops_with_def reg_weight_def)
  moreover have "n \<in> {0, 1, 2, 3}" using assms(2) by auto
  ultimately show ?thesis by (auto simp: ops reg_weights_def)
qed

lemma build_regs_st:
  assumes ext: "ext_ok (mk_extension info)" and st: "regs_st info 0 info"
  shows "yields (m68k_build_regs_read_write_counts info) (regs_st info 20)"
proof -
  let ?ops = "kx_operands (mk_extension info)" and ?n = "unat (kx_op_count (mk_extension info))"
  have ok: "list_all op_ok ?ops" "length ?ops = 4" "?n \<le> 3" using ext by (simp_all add: ext_ok_def)
  then have w: "op_ok (?ops ! 0)" "reg_weight (?ops ! 0) \<le> 20" by (simp_all add: list_all_length reg_weight_def)
  have first: "yields (update_op_reg_list info (?ops ! 0) wr) (regs_st info (reg_weight (?ops ! 0)))" for wr
    using op_reg_list_st [OF w(1) st] w(2) by simp
  have rest: "yields (update_ops_from 1 (?n - 1) info') (regs_st info 20)" if s: "regs_st info (reg_weight (?ops ! 0)) info'" "1 < ?n" for info'
  proof -
    have "take ?n ?ops = ?ops ! 0 # take (?n - 1) (drop 1 ?ops)"
      using that(2) ok(2) by (cases ?ops; cases ?n) simp_all
    then have "reg_weight (?ops ! 0) + reg_weights (take (?n - 1) (drop 1 ?ops)) \<le> 20"
      using weights_at_most [OF ext ok(3)] by (simp add: reg_weights_def)
    then show ?thesis
      using ok that(2) by (intro yields_mono [OF update_ops_st [OF ok(1) _ s(1)]]) (auto elim: regs_mono)
  qed
  have 0: "yields (Some info) (regs_st info 20)" using regs_mono [OF st] by (simp add: wp)
  have 1: "yields (update_op_reg_list info (?ops ! 0) True) (regs_st info 20)"
    by (rule yields_mono [OF first], erule regs_mono) (rule w)
  have 2: "yields (update_op_reg_list info (?ops ! 0) False \<bind> (\<lambda>info'. update_ops_from 1 (?n - 1) info')) (regs_st info 20)" if "1 < ?n"
    by (rule yields_then [OF first]) (rule rest [OF _ that])
  show ?thesis
    unfolding m68k_build_regs_read_write_counts_def Let_def op_at_def
    by (intro yields_ifI 0 1 2) linarith
qed


section \<open>The words that select the instruction\<close>

definition m68k_first_word :: "u8 list \<Rightarrow> u32" where
  "m68k_first_word code = push_bit 8 (ucast (code ! 0)) OR ucast (code ! 1)"

text \<open>Where the code ends the second word is read as \<open>0xaaaa\<close>.\<close>

definition m68k_second_word :: "u8 list \<Rightarrow> u32" where
  "m68k_second_word code = (if length code < 4 then 0xaaaa else push_bit 8 (ucast (code ! 2)) OR ucast (code ! 3))"

definition m68k_selects :: "u8 list \<Rightarrow> opcode_struct option" where
  "m68k_selects code = (case best_entry (m68k_first_word code) of None \<Rightarrow> None
     | Some e \<Rightarrow> if os_mask2 e \<noteq> 0 \<and> m68k_second_word code AND os_mask2 e \<noteq> os_match2 e then None else Some e)"

text \<open>The decoder's state at the start of the code.\<close>

definition m68k_at_start :: "u8 list \<Rightarrow> u64 \<Rightarrow> m68k_info \<Rightarrow> bool" where
  "m68k_at_start code address info \<longleftrightarrow> mk_code info = code \<and> mk_code_len info = of_nat (length code) \<and>
     mk_baseAddress info = address \<and> mk_pc info = ucast address \<and> mk_address_mask info \<in> {0x00ffffff, 0xffffffff}"

lemma start_offset: "m68k_at_start code address info \<Longrightarrow> m68k_offset info (ucast (mk_pc info)) = 0"
proof -
  assume a: "m68k_at_start code address info"
  have m: "(0x00ffffff :: u64) = mask 24" "(0xffffffff :: u64) = mask 32" by (simp_all add: mask_eq_exp_minus_1)
  have t: "take_bit k (ucast (ucast address :: u32) - address) = 0" if "k \<le> 32" for k
  proof -
    have "take_bit k (ucast (ucast address :: u32) :: u64) = take_bit k address"
      using that by (intro bit_eqI) (auto simp: bit_simps)
    then have "take_bit k (uint (ucast (ucast address :: u32) :: u64)) = take_bit k (uint address)"
      by (simp only: flip: unsigned_take_bit_eq)
    then have "take_bit k (uint (ucast (ucast address :: u32) :: u64) - uint address) = 0"
      by (simp only: take_bit_eq_mod mod_eq_dvd_iff mod_0_imp_dvd dvd_imp_mod_0)
    moreover have "uint (ucast (ucast address :: u32) - address) = take_bit 64 (uint (ucast (ucast address :: u32) :: u64) - uint address)"
      by (simp only: uint_word_ariths take_bit_eq_mod len_of_numeral_defs) simp
    ultimately have "uint (take_bit k (ucast (ucast address :: u32) - address)) = 0"
      using that by (simp add: unsigned_take_bit_eq min_def)
    then show ?thesis by (simp only: uint_0_iff)
  qed
  have "(ucast (ucast address :: u32) - address) AND 0x00ffffff = 0" "(ucast (ucast address :: u32) - address) AND 0xffffffff = 0"
    unfolding m using t [of 24] t [of 32] by (simp_all add: take_bit_eq_mask)
  with a show ?thesis by (auto simp: m68k_at_start_def m68k_offset_def)
qed

lemma low_half: "(push_bit 24 (ucast a) OR push_bit 16 (ucast b) OR push_bit 8 (ucast c) OR ucast d :: u32) AND 0xffff =
    push_bit 8 (ucast (c :: u8)) OR ucast (d :: u8)"
proof -
  have m: "(0xffff :: u32) = mask 16" by (simp add: mask_eq_exp_minus_1)
  show ?thesis unfolding m by (rule bit_eqI) (auto simp: bit_simps dest: bit_imp_le_length)
qed

lemma start_words:
  assumes "m68k_at_start code address info" "2 \<le> length code" "length code < 2 ^ 64"
  shows "peek_imm_16 info = Some (m68k_first_word code)" "yields (peek_imm_32 info) (\<lambda>w. w AND 0xffff = m68k_second_word code)"
proof -
  have len: "unat (of_nat (length code) :: u64) = length code" using assms(3) by (simp add: unsigned_of_nat take_bit_nat_eq_self)
  have c: "mk_code info = code" "unat (mk_code_len info) = length code" using assms(1) len by (simp_all add: m68k_at_start_def)
  note o = start_offset [OF assms(1)]
  show "peek_imm_16 info = Some (m68k_first_word code)"
    using assms(2) by (auto simp: peek_imm_16_def m68k_read_safe_16_def m68k_read_disassembler_16_def o c aget_def word_less_nat_alt
        m68k_first_word_def)
  show "yields (peek_imm_32 info) (\<lambda>w. w AND 0xffff = m68k_second_word code)"
    by (auto simp: peek_imm_32_def m68k_read_safe_32_def m68k_read_disassembler_32_def o c wp word_less_nat_alt
        m68k_second_word_def low_half)
qed

lemma first_word_less: "unat (m68k_first_word code) < 65536"
  unfolding m68k_first_word_def by (rule half_word_less)

section \<open>Decoding\<close>

lemma best_entry_in: "best_entry oc = Some e \<Longrightarrow> e \<in> set opcode_entries \<and> opcode_matches oc e"
  by (auto simp: best_entry_def find_Some_iff)

lemma entry_handler: "e \<in> set opcode_entries \<Longrightarrow> 1 < os_opcode_handler e \<and> os_opcode_handler e \<le> 299"
  using opcode_entries_handlers by (auto simp: list_all_iff)

text \<open>The test of the first two words accepts what the table selects.\<close>

lemma is_valid_selects:
  assumes "mk_ir info = m68k_first_word code" "w = m68k_second_word code"
    and tab: "\<And>i. tab i = as_instruction (best_entry (of_nat i))"
  shows "instruction_is_valid tab info w =
    (case m68k_selects code of None \<Rightarrow> map_option (\<lambda>info. (False, info)) (d68000_invalid info) | Some _ \<Rightarrow> Some (True, info))"
  using assms(1,2) first_word_less [of code] entry_handler best_entry_in [of "m68k_first_word code"]
  by (fastforce simp: instruction_is_valid_def tab as_instruction_def m68k_selects_def Let_def need_def split: option.split)

definition m68k_info_ok :: "m68k_info \<Rightarrow> bool" where
  "m68k_info_ok info \<longleftrightarrow> length (mk_groups info) = 8 \<and> length (mk_regs_read info) = 20 \<and> length (mk_regs_write info) = 20"


lemma globals_table:
  assumes "qsort_order qsort" "m68k_globals_ok qsort g"
  shows "build_opcode_table qsort g = build_opcode_table qsort m68k_initial_globals"
    "gl_instruction_table (build_opcode_table qsort g) i = as_instruction (best_entry (of_nat i))"
proof -
  show 1: "build_opcode_table qsort g = build_opcode_table qsort m68k_initial_globals"
    using assms(2) qsort_order.built_once [OF assms(1)] by (auto simp: m68k_globals_ok_def)
  show "gl_instruction_table (build_opcode_table qsort g) i = as_instruction (best_entry (of_nat i))"
    unfolding 1 by (rule qsort_order.built_table [OF assms(1)])
qed

text \<open>
  What decoding leaves in the state: the operands are in order, the groups are within their array,
  and the parts that a handler does not touch are as they were.
\<close>

definition m68k_decoded :: "m68k_info \<Rightarrow> m68k_info \<Rightarrow> bool" where
  "m68k_decoded info info' \<longleftrightarrow> ext_ok (mk_extension info') \<and> length (mk_groups info') = 8 \<and> unat (mk_groups_count info') \<le> 3 \<and>
     unat (mi_Opcode (mk_inst info')) < 375 \<and> (mk_inst info')\<lparr>mi_Opcode := 0\<rparr> = (mk_inst info)\<lparr>mi_Opcode := 0\<rparr> \<and>
     mk_regs_read info' = mk_regs_read info \<and> mk_regs_read_count info' = mk_regs_read_count info \<and>
     mk_regs_write info' = mk_regs_write info \<and> mk_regs_write_count info' = mk_regs_write_count info"

lemma result_decoded:
  assumes "m68k_result I info'" "mk_regs_read I = mk_regs_read info" "mk_regs_read_count I = mk_regs_read_count info"
    "mk_regs_write I = mk_regs_write info" "mk_regs_write_count I = mk_regs_write_count info"
    "(mk_inst I)\<lparr>mi_Opcode := 0\<rparr> = (mk_inst info)\<lparr>mi_Opcode := 0\<rparr>"
  shows "m68k_decoded info (info'\<lparr>mk_pc := pc\<rparr>)"
  using assms frame_fields(7-) [of info' I] by (simp add: m68k_decoded_def m68k_result_def)

lemma disassemble_yields:
  assumes qs: "qsort_order qsort" and g: "m68k_globals_ok qsort g"
    and at: "m68k_at_start code address info" and len: "2 \<le> length code" "length code < 2 ^ 64"
    and ok: "m68k_info_ok info" "mk_groups_count info = 0"
  shows "yields (m68k_disassemble qsort g info address) (\<lambda>(s, g', info').
     g' = build_opcode_table qsort m68k_initial_globals \<and> m68k_decoded info info' \<and>
     (if m68k_selects code = None then s = 0 else \<exists>k. 1 \<le> k \<and> k \<le> 11 \<and> s = of_nat (2 * k)))"
proof -
  let ?i0 = "(set_opcode M68K_INS_INVALID info)\<lparr>mk_extension := fresh_m68k\<rparr>" and ?ir = "m68k_first_word code"
  let ?i1 = "?i0\<lparr>mk_ir := ?ir\<rparr>"
  let ?i2 = "(skip_pc 2 ?i1)\<lparr>mk_ir := ?ir\<rparr>" and ?tab = "gl_instruction_table (build_opcode_table qsort g)"
  have at0: "m68k_at_start code address ?i0" and at1: "m68k_at_start code address ?i1"
    using at by (simp_all add: m68k_at_start_def set_opcode_def)
  have pc: "mk_pc ?i1 = ucast address" using at1 by (simp add: m68k_at_start_def)
  have wf: "m68k_wf ?i1" using at1 len(2) by (simp add: m68k_wf_def m68k_at_start_def unsigned_of_nat take_bit_nat_eq_self)
  have st1: "m68k_start ?i1"
    using wf ok first_word_less [of code] by (simp add: m68k_start_def m68k_info_ok_def set_opcode_def MCInst_setOpcode_def)
  have wf2: "m68k_wf ?i2" using wf by (simp add: m68k_wf_def skip_pc_def)
  have st2: "m68k_start ?i2"
    using st1 wf2 by (simp add: m68k_start_def) (simp add: skip_pc_def)
  have ir: "mk_ir ?i1 = ?ir" by simp
  note valid = is_valid_selects [OF ir _ globals_table(2) [OF qs g]]
  have inv: "yields (d68000_invalid ?i1) (\<lambda>i. mk_pc i = ucast address \<and> m68k_decoded info (i\<lparr>mk_pc := ucast address\<rparr>))"
  proof -
    have "yields (d68000_invalid ?i1) (m68k_result ?i1)" using invalid_handler st1 by (simp only: handler_ok_def)
    moreover have "yields (d68000_invalid ?i1) (\<lambda>i. mk_pc i = mk_pc ?i1)"
      by (simp add: d68000_invalid_def build_invalid_def build_imm_def build_init_op_def on_op_def set_opcode_def set_op_count_def
          set_op_size_def Let_def wp)
    ultimately show ?thesis
      by (rule yields_mono [OF yields_conj])
        (use pc in \<open>auto intro!: result_decoded simp: set_opcode_def MCInst_setOpcode_def\<close>)
  qed
  have run: "yields (call_handler ?tab (os_opcode_handler e) ?i2) (\<lambda>i. m68k_decoded info (i\<lparr>mk_pc := ucast address\<rparr>) \<and>
      (\<exists>k. 1 \<le> k \<and> k \<le> 11 \<and> mk_pc i - ucast address = of_nat (2 * k)))" if e: "e \<in> set opcode_entries" for e
  proof (rule yields_mono [OF call_handler_ok])
    show "0 < os_opcode_handler e" "os_opcode_handler e \<le> 299" "m68k_start ?i2" using entry_handler [OF e] st2 by simp_all
  next
    fix i assume r: "m68k_result ?i2 i"
    then obtain k where k: "k \<le> 10" "mk_pc i = mk_pc ?i2 + of_nat (2 * k)" by (auto simp: m68k_result_def advanced_def)
    have "mk_pc ?i2 = ucast address + 2" using pc by (simp add: skip_pc_def)
    then have "mk_pc i - ucast address = of_nat (2 * Suc k)" using k(2) by (simp add: algebra_simps)
    moreover have "m68k_decoded info (i\<lparr>mk_pc := ucast address\<rparr>)"
      by (rule result_decoded [OF r]) (simp_all add: skip_pc_def set_opcode_def MCInst_setOpcode_def)
    ultimately show "m68k_decoded info (i\<lparr>mk_pc := ucast address\<rparr>) \<and> (\<exists>k. 1 \<le> k \<and> k \<le> 11 \<and> mk_pc i - ucast address = of_nat (2 * k))"
      using k(1) by (intro conjI exI [of _ "Suc k"]) simp_all
  qed
  have read: "read_imm_16 ?i1 = Some (?ir, skip_pc 2 ?i1)"
    using start_words(1) [OF at1 len] by (simp add: read_imm_16_def)
  show ?thesis
    unfolding m68k_disassemble_def Let_def start_words(1) [OF at0 len] Option.bind.bind_lunit
  proof (rule yields_then [OF start_words(2) [OF at1 len]])
    fix w :: u32 assume w: "w AND 0xffff = m68k_second_word code"
    show "yields (instruction_is_valid ?tab ?i1 (w AND 0xffff) \<bind> (\<lambda>(ok, info).
          (if ok then read_imm_16 info \<bind> (\<lambda>(ir, info). need (unat ir < 65536) \<bind> (\<lambda>_.
             call_handler ?tab (is_instruction (?tab (unat ir))) (info\<lparr>mk_ir := ir\<rparr>))) else Some info) \<bind>
          (\<lambda>info. Some (mk_pc info - ucast address, build_opcode_table qsort g, info\<lparr>mk_pc := ucast address\<rparr>))))
        (\<lambda>(s, g', info'). g' = build_opcode_table qsort m68k_initial_globals \<and> m68k_decoded info info' \<and>
          (if m68k_selects code = None then s = 0 else \<exists>k. 1 \<le> k \<and> k \<le> 11 \<and> s = of_nat (2 * k)))"
    proof (cases "m68k_selects code")
      case None
      then show ?thesis
        using inv unfolding valid [OF w] by (simp add: wp globals_table(1) [OF qs g]) (erule yields_mono, simp)
    next
      case (Some e)
      then have b: "best_entry ?ir = Some e" by (auto simp: m68k_selects_def split: option.splits if_splits)
      then have "is_instruction (?tab (unat ?ir)) = os_opcode_handler e"
        by (simp add: globals_table(2) [OF qs g] as_instruction_def)
      with Some show ?thesis
        using run [OF conjunct1 [OF best_entry_in [OF b]]] first_word_less [of code]
        unfolding valid [OF w] by (simp add: read wp globals_table(1) [OF qs g])
    qed
  qed
qed


lemma cpu_setup_mask: "snd (m68k_cpu_setup (m68k_cpu_type mode)) \<in> {0x00ffffff, 0xffffffff}"
  by (simp add: m68k_cpu_type_def Let_def m68k_cpu_setup_def)

lemma clear_detail_yields: "yields (on_detail (\<lambda>d. Some (m68k_clear_detail d)) instr) (\<lambda>_. True)"
  by (simp add: on_detail_def yields_def split: option.split)

lemma unat_of_small: "m < 2 ^ 31 \<Longrightarrow> unat (of_nat m :: u32) = m" "m < 2 ^ 16 \<Longrightarrow> unat (of_nat m :: u16) = m"
  by (simp_all add: unsigned_of_nat take_bit_nat_eq_self)

lemma size_in_range:
  assumes "length code < 2 ^ 31" "1 \<le> k" "k \<le> 11" "s = (of_nat (2 * k) :: u32)"
  shows "unat (if (ucast (of_nat (length code) :: u64) :: u32) <s s then ucast (of_nat (length code) :: u64) else ucast s :: u16) =
    min (length code) (2 * k)"
proof -
  have c: "(ucast (of_nat (length code) :: u64) :: u32) = of_nat (length code)" "(ucast (of_nat (length code) :: u64) :: u16) = of_nat (length code)"
    by (simp_all add: unsigned_of_nat word_of_nat_eq_iff)
  have n: "sint (of_nat m :: u32) = int m" if "m < 2 ^ 31" for m
    using that by (simp add: signed_of_nat signed_take_bit_int_eq_self)
  have u: "ucast (of_nat m :: u32) = (of_nat m :: u16)" for m by (simp add: unsigned_of_nat word_of_nat_eq_iff)
  have "ucast s = (of_nat (2 * k) :: u16)" unfolding assms(4) by (rule u)
  then have "unat (ucast s :: u16) = 2 * k" using unat_of_small(2) [of "2 * k"] assms(3) by (simp only:) simp
  moreover have "(of_nat (length code) :: u32) <s s \<longleftrightarrow> length code < 2 * k"
    unfolding word_sless_alt assms(4) using n [OF assms(1)] n [of "2 * k"] assms(3) by auto
  moreover have "unat (of_nat (length code) :: u16) = length code" if "length code < 2 * k"
    using that assms(3) by (simp add: unsigned_of_nat take_bit_nat_eq_self)
  ultimately show ?thesis unfolding c by simp
qed

text \<open>What a call of \<^verbatim>\<open>M68K_getInstruction\<close> on two bytes or more leaves behind.\<close>

definition m68k_counts_ok :: "m68k_info \<Rightarrow> bool" where
  "m68k_counts_ok info \<longleftrightarrow> unat (mk_regs_read_count info) \<le> 20 \<and> unat (mk_regs_write_count info) \<le> 20 \<and>
     unat (mk_groups_count info) \<le> 3 \<and> unat (mi_Opcode (mk_inst info)) < 375"

lemma regs_frame_fields:
  assumes "regs_frame a = regs_frame b"
  shows "mk_extension a = mk_extension b" "mk_groups a = mk_groups b" "mk_groups_count a = mk_groups_count b" "mk_inst a = mk_inst b"
    "mk_pc a = mk_pc b"
  using assms by (cases a; cases b; simp add: regs_frame_def)+

text \<open>What the rest of the call makes of the decoder's result.\<close>

lemma after_disassemble:
  assumes len: "length code < 2 ^ 31" and dec: "m68k_decoded i info'" "m68k_info_ok i" "mk_regs_read_count i = 0" "mk_regs_write_count i = 0"
    and s: "if sel = None then s = 0 else \<exists>k. 1 \<le> k \<and> k \<le> 11 \<and> s = of_nat (2 * k)"
  shows "yields (if s = 0 then Some (False, mk_inst info', 2, g', info')
      else m68k_build_regs_read_write_counts info' \<bind> (\<lambda>info'. Some (True, mk_inst info',
        if (ucast (of_nat (length code) :: u64) :: u32) <s s then ucast (of_nat (length code) :: u64) else ucast s, g', info')))
    (\<lambda>(ok, instr', sz, g'', info'). g'' = g' \<and> m68k_info_ok info' \<and> ext_ok (mk_extension info') \<and>
       m68k_counts_ok info' \<and> instr' = mk_inst info' \<and> (ok \<longleftrightarrow> sel \<noteq> None) \<and>
       (if ok then \<exists>k. 1 \<le> k \<and> k \<le> 11 \<and> unat (sz :: u16) = min (length code) (2 * k) else sz = 2))"
proof -
  have ext: "ext_ok (mk_extension info')" and st: "regs_st info' 0 info'"
    using dec by (simp_all add: m68k_decoded_def m68k_info_ok_def regs_st_def)
  have ok: "m68k_info_ok info'" "m68k_counts_ok info'" using dec by (simp_all add: m68k_decoded_def m68k_info_ok_def m68k_counts_ok_def)
  show ?thesis
  proof (rule yields_ifI)
    assume "s = 0"
    moreover have "of_nat (2 * k) \<noteq> (0 :: u32)" if "1 \<le> k" "k \<le> 11" for k
    proof -
      have "unat (of_nat (2 * k) :: u32) = 2 * k" by (rule unat_of_small(1)) (use that in simp)
      with that(1) show ?thesis by (metis unat_0 mult_is_0 not_one_le_zero zero_neq_numeral)
    qed
    ultimately have "sel = None" using s by (metis (full_types))
    with ext ok show "yields (Some (False, mk_inst info', 2, g', info')) (\<lambda>(ok, instr', sz, g'', info'). g'' = g' \<and> m68k_info_ok info' \<and>
       ext_ok (mk_extension info') \<and> m68k_counts_ok info' \<and> instr' = mk_inst info' \<and> (ok \<longleftrightarrow> sel \<noteq> None) \<and>
       (if ok then \<exists>k. 1 \<le> k \<and> k \<le> 11 \<and> unat (sz :: u16) = min (length code) (2 * k) else sz = 2))" by (simp add: wp)
  next
    assume "s \<noteq> 0"
    with s obtain k where k: "sel \<noteq> None" "1 \<le> k" "k \<le> 11" "s = of_nat (2 * k)" by (auto split: if_splits)
    note sz = size_in_range [OF len k(2-)]
    show "yields (m68k_build_regs_read_write_counts info' \<bind> (\<lambda>info'. Some (True, mk_inst info',
        if (ucast (of_nat (length code) :: u64) :: u32) <s s then ucast (of_nat (length code) :: u64) else ucast s, g', info')))
      (\<lambda>(ok, instr', sz, g'', info'). g'' = g' \<and> m68k_info_ok info' \<and> ext_ok (mk_extension info') \<and>
       m68k_counts_ok info' \<and> instr' = mk_inst info' \<and> (ok \<longleftrightarrow> sel \<noteq> None) \<and>
       (if ok then \<exists>k. 1 \<le> k \<and> k \<le> 11 \<and> unat (sz :: u16) = min (length code) (2 * k) else sz = 2))"
    proof (rule yields_then [OF build_regs_st [OF ext st]], unfold yields_Some prod.case if_True, intro conjI)
      fix j assume j: "regs_st info' 20 j"
      then have f: "regs_frame j = regs_frame info'" by (simp add: regs_st_def)
      note f = regs_frame_fields [OF f]
      show "m68k_info_ok j" "ext_ok (mk_extension j)" "m68k_counts_ok j"
        using ok ext j unfolding m68k_info_ok_def m68k_counts_ok_def f by (simp_all add: regs_st_def)
      show "\<exists>k. 1 \<le> k \<and> k \<le> 11 \<and> unat (if (ucast (of_nat (length code) :: u64) :: u32) <s s then ucast (of_nat (length code) :: u64)
          else ucast s :: u16) = min (length code) (2 * k)" using k sz by blast
    qed (use k in simp_all)
  qed
qed

lemma getInstruction_yields:
  assumes qs: "qsort_order qsort" and g: "m68k_globals_ok qsort g" and ok: "m68k_info_ok info" and len: "length code < 2 ^ 31"
  shows "yields (M68K_getInstruction qsort g handle code instr address info) (\<lambda>(ok, instr', sz, g', info').
     if length code < 2 then \<not> ok \<and> instr' = instr \<and> sz = 0 \<and> g' = g \<and> info' = info
     else g' = build_opcode_table qsort m68k_initial_globals \<and> m68k_info_ok info' \<and> ext_ok (mk_extension info') \<and>
       m68k_counts_ok info' \<and> instr' = mk_inst info' \<and> (ok \<longleftrightarrow> m68k_selects code \<noteq> None) \<and>
       (if ok then \<exists>k. 1 \<le> k \<and> k \<le> 11 \<and> unat sz = min (length code) (2 * k) else sz = 2))"
proof -
  have l: "unat (of_nat (length code) :: u64) = length code" using len by (simp add: unsigned_of_nat take_bit_nat_eq_self)
  then have short: "(of_nat (length code) :: u64) < 2 \<longleftrightarrow> length code < 2" by (simp add: word_less_nat_alt)
  show ?thesis
  proof (cases "length code < 2")
    case True
    then show ?thesis unfolding M68K_getInstruction_def Let_def short by (simp add: wp)
  next
    case False
    let ?i = "\<lambda>instr. m68k_setup_internals (info\<lparr>mk_groups_count := 0, mk_regs_read_count := 0, mk_regs_write_count := 0,
         mk_code := code, mk_code_len := of_nat (length code), mk_baseAddress := address\<rparr>) instr (ucast address) (m68k_cpu_type (ud_mode handle))"
    have at: "m68k_at_start code address (?i instr)" for instr
      using cpu_setup_mask [of "ud_mode handle"] by (simp add: m68k_at_start_def m68k_setup_internals_def)
    have ok': "m68k_info_ok (?i instr)" "mk_groups_count (?i instr) = 0" "mk_regs_read_count (?i instr) = 0" "mk_regs_write_count (?i instr) = 0" for instr
      using ok by (simp_all add: m68k_info_ok_def m68k_setup_internals_def)
    have dis: "yields (m68k_disassemble qsort g (?i instr) address) (\<lambda>(s, g', info').
       g' = build_opcode_table qsort m68k_initial_globals \<and> m68k_decoded (?i instr) info' \<and>
       (if m68k_selects code = None then s = 0 else \<exists>k. 1 \<le> k \<and> k \<le> 11 \<and> s = of_nat (2 * k)))" for instr
      by (rule disassemble_yields [OF qs g at _ _ ok'(1,2)]) (use False len in simp_all)
    show ?thesis
      unfolding M68K_getInstruction_def Let_def short
      apply (simp only: False if_False)
      apply (rule any_then [OF clear_detail_yields])
      apply (rule yields_then [OF dis])
      apply (clarsimp simp only: prod.case)
      apply (rule yields_mono [OF after_disassemble [OF len _ ok'(1,3,4)]])
        apply assumption
       apply assumption
      apply (simp split: prod.splits)
      done
  qed
qed

end
