(* ===== verification/M68K_Printer.thy ===== *)
theory M68K_Printer
  imports M68K_Decode SStream_Model
begin

text \<open>
  The M68K printer, \<^verbatim>\<open>M68KInstPrinter.c\<close>: the names, the text of an operand in each
  addressing mode, the lists of registers, and the text of an instruction. The printer works on the
  operands in the decoder's state and copies them, the register lists and the groups to the details.

  A 64-bit argument that is printed with \<^verbatim>\<open>%x\<close> is read as its low half, as on the 64-bit
  machines the program runs on.
\<close>

unbundle bit_operations_syntax

section \<open>Names\<close>

definition M68K_reg_name :: "u32 \<Rightarrow> string option" where
  "M68K_reg_name reg = (if length m68k_reg_names \<le> unat reg then None else Some (m68k_reg_names ! unat reg))"

text \<open>No test of the number: the outer option is undefined behaviour.\<close>

definition M68K_insn_name :: "u32 \<Rightarrow> string option option" where
  "M68K_insn_name idn = map_option Some (aget m68k_instruction_names (unat idn))"

definition M68K_group_name :: "u32 \<Rightarrow> string option" where
  "M68K_group_name idn = id2name m68k_group_name_maps idn"

definition M68K_get_insn_id :: "cs_insn \<Rightarrow> u32 \<Rightarrow> cs_insn" where
  "M68K_get_insn_id insn idn = insn\<lparr>in_id := idn\<rparr>"

definition getRegName :: "u32 \<Rightarrow> string option" where
  "getRegName reg = aget m68k_reg_names (unat reg)"

section \<open>Numbers\<close>

text \<open>
  \<^verbatim>\<open>%f\<close> of the number \<open>m * 2 ^ e\<close>: six digits after the point, rounded to the nearest, to
  even digits in a tie. The exponent field with all bits set is an infinity or not a number.
\<close>

definition micro_units :: "nat \<Rightarrow> int \<Rightarrow> nat" where
  "micro_units m e =
     (if 0 \<le> e then m * 2 ^ nat e * 10 ^ 6
      else let d = 2 ^ nat (- e); q = m * 10 ^ 6 div d; r = m * 10 ^ 6 mod d
        in if d < 2 * r \<or> d = 2 * r \<and> odd q then q + 1 else q)"

definition fmt_fixed :: "nat \<Rightarrow> string" where
  "fmt_fixed n = fmt_u (n div 10 ^ 6) @ ''.'' @
     replicate (6 - length (fmt_u (n mod 10 ^ 6))) CHR ''0'' @ fmt_u (n mod 10 ^ 6)"

definition fmt_f :: "bool \<Rightarrow> nat \<Rightarrow> nat \<Rightarrow> nat \<Rightarrow> nat \<Rightarrow> string" where
  "fmt_f neg expo frac emax bits =
     (if neg then ''-'' else []) @
     (if expo = emax then if frac = 0 then ''inf'' else ''nan''
      else if expo = 0 then fmt_fixed (micro_units frac (1 - int (emax div 2) - int bits))
      else fmt_fixed (micro_units (2 ^ bits + frac) (int expo - int (emax div 2) - int bits)))"

definition fmt_simm :: "u64 \<Rightarrow> string" where
  "fmt_simm raw = fmt_f (bit raw 31) (unat (drop_bit 23 raw AND 0xff)) (unat (raw AND 0x7fffff)) 255 23"

definition fmt_dimm :: "u64 \<Rightarrow> string" where
  "fmt_dimm raw = fmt_f (bit raw 63) (unat (drop_bit 52 raw AND 0x7ff)) (unat (raw AND 0xfffffffffffff)) 2047 52"

text \<open>\<^verbatim>\<open>"%s$%x"\<close> of the sign and the absolute value of a displacement.\<close>

definition signed_hex :: "u16 \<Rightarrow> string" where
  "signed_hex d = (if d <s 0 then ''-'' else []) @ ''$'' @ fmt_x (nat \<bar>sint d\<bar>)"

definition low_hex :: "u64 \<Rightarrow> string" where
  "low_hex v = fmt_x (unat (ucast v :: u32))"

section \<open>Register lists\<close>

text \<open>The end of the run of bits that starts at \<open>i\<close>.\<close>

function run_end :: "u32 \<Rightarrow> nat \<Rightarrow> nat" where
  "run_end bits i = (if i < 7 \<and> bits AND push_bit (i + 1) 1 \<noteq> 0 then run_end bits (i + 1) else i)"
  by pat_completeness auto
termination
  by (relation "measure (\<lambda>(bits, i). 7 - i)") auto

declare run_end.simps [simp del]

lemma run_end_ge: "i \<le> run_end bits i"
proof (induction bits i rule: run_end.induct)
  case (1 bits i)
  then show ?case by (subst run_end.simps) auto
qed

text \<open>\<^verbatim>\<open>strcat\<close> and \<^verbatim>\<open>sprintf\<close> at the end of \<^verbatim>\<open>char buffer[128]\<close>.\<close>

definition buffer_cat :: "string \<Rightarrow> string \<Rightarrow> string option" where
  "buffer_cat buffer s = do { need (length buffer + length s < 128); Some (buffer @ s) }"

function printRegbits_from :: "u32 \<Rightarrow> string \<Rightarrow> nat \<Rightarrow> string \<Rightarrow> string option" where
  "printRegbits_from bits prefix i buffer =
     (if i < 8 then
        if bits AND push_bit i 1 \<noteq> 0 then do {
          let j = run_end bits i;
          buffer \<leftarrow> (if buffer \<noteq> [] then buffer_cat buffer ''/'' else Some buffer);
          buffer \<leftarrow> buffer_cat buffer (prefix @ fmt_u i);
          buffer \<leftarrow> (if i < j then buffer_cat buffer (''-'' @ prefix @ fmt_u j) else Some buffer);
          printRegbits_from bits prefix (j + 1) buffer }
        else printRegbits_from bits prefix (i + 1) buffer
      else Some buffer)"
  by pat_completeness auto
termination
proof (relation "measure (\<lambda>(bits, prefix, i, buffer). 8 - i)")
  fix i j :: nat and bits :: u32 and prefix buffer buffer' :: string
  assume "i < 8" "j = run_end bits i"
  then show "((bits, prefix, j + 1, buffer'), bits, prefix, i, buffer) \<in> measure (\<lambda>(bits, prefix, i, buffer). 8 - i)"
    using run_end_ge [of i bits] by simp
qed auto

declare printRegbits_from.simps [simp del]

definition printRegbitsRange :: "string \<Rightarrow> u32 \<Rightarrow> string \<Rightarrow> string option" where
  "printRegbitsRange buffer bits prefix = printRegbits_from bits prefix 0 buffer"

definition registerBits :: "SStream \<Rightarrow> cs_m68k_op \<Rightarrow> SStream option" where
  "registerBits OS op = do {
     let bits = ko_register_bits op;
     if bits = 0 then SStream_concat OS ''#$0''
     else do {
       buffer \<leftarrow> printRegbitsRange [] (bits AND 0xff) ''d'';
       buffer \<leftarrow> printRegbitsRange buffer (drop_bit 8 bits AND 0xff) ''a'';
       buffer \<leftarrow> printRegbitsRange buffer (drop_bit 16 bits AND 0xff) ''fp'';
       SStream_concat OS buffer } }"

definition registerPair :: "SStream \<Rightarrow> cs_m68k_op \<Rightarrow> SStream option" where
  "registerPair OS op = do {
     r0 \<leftarrow> getRegName (M68K_REG_D0 + ko_reg_0 op);
     r1 \<leftarrow> getRegName (M68K_REG_D0 + ko_reg_1 op);
     SStream_concat OS (r0 @ '':'' @ r1) }"

section \<open>Operands\<close>

definition index_char :: "cs_m68k_op \<Rightarrow> string" where
  "index_char op = (if km_index_size (ko_mem op) \<noteq> 0 then ''l'' else ''w'')"

text \<open>\<^verbatim>\<open>%d\<close> of the number of a data or address register.\<close>

definition reg_num :: "u32 \<Rightarrow> u32 \<Rightarrow> string" where
  "reg_num reg base = decimal_numeral (reg - base)"

definition printIndexBase :: "SStream \<Rightarrow> u32 \<Rightarrow> cs_m68k_op \<Rightarrow> SStream option" where
  "printIndexBase OS pc op = do {
     let m = ko_mem op;
     OS \<leftarrow> (if ko_address_mode op = M68K_AM_PCI_INDEX_BASE_DISP
           then SStream_concat OS (''$'' @ fmt_x (unat (pc + 2 + km_in_disp m)))
           else if km_in_disp m > 0 then SStream_concat OS (''$'' @ fmt_x (unat (km_in_disp m))) else Some OS);
     OS \<leftarrow> SStream_concat OS ''('';
     OS \<leftarrow> (if ko_address_mode op = M68K_AM_PCI_INDEX_BASE_DISP then do {
             r \<leftarrow> getRegName (km_index_reg m);
             SStream_concat OS (''pc,'' @ r @ ''.'' @ index_char op) }
           else do {
             OS \<leftarrow> (if km_base_reg m \<noteq> M68K_REG_INVALID
                   then SStream_concat OS (''a'' @ reg_num (km_base_reg m) M68K_REG_A0 @ '', '') else Some OS);
             r \<leftarrow> getRegName (km_index_reg m);
             SStream_concat OS (r @ ''.'' @ index_char op) });
     if km_scale m > 0 then SStream_concat OS ('' * '' @ fmt_u (unat (km_scale m)) @ '')'') else SStream_concat OS '')'' }"

definition printMemIndirect :: "SStream \<Rightarrow> u32 \<Rightarrow> cs_m68k_op \<Rightarrow> SStream option" where
  "printMemIndirect OS pc op = do {
     let m = ko_mem op;
     let mode = ko_address_mode op;
     OS \<leftarrow> SStream_concat OS ''(['';
     OS \<leftarrow> (if mode = M68K_AM_PC_MEMI_POST_INDEX \<or> mode = M68K_AM_PC_MEMI_PRE_INDEX
           then SStream_concat OS (''$'' @ fmt_x (unat (pc + 2 + km_in_disp m)))
           else if km_in_disp m > 0 then SStream_concat OS (''$'' @ fmt_x (unat (km_in_disp m))) else Some OS);
     OS \<leftarrow> (if km_base_reg m \<noteq> M68K_REG_INVALID then do {
             r \<leftarrow> getRegName (km_base_reg m);
             if km_in_disp m > 0 then SStream_concat OS ('', '' @ r) else SStream_concat OS r }
           else Some OS);
     OS \<leftarrow> (if mode = M68K_AM_MEMI_POST_INDEX \<or> mode = M68K_AM_PC_MEMI_POST_INDEX then SStream_concat OS '']'' else Some OS);
     OS \<leftarrow> (if km_index_reg m \<noteq> M68K_REG_INVALID then do {
             r \<leftarrow> getRegName (km_index_reg m);
             SStream_concat OS ('', '' @ r @ ''.'' @ index_char op) }
           else Some OS);
     OS \<leftarrow> (if km_scale m > 0 then SStream_concat OS ('' * '' @ fmt_u (unat (km_scale m))) else Some OS);
     OS \<leftarrow> (if mode = M68K_AM_MEMI_PRE_INDEX \<or> mode = M68K_AM_PC_MEMI_PRE_INDEX then SStream_concat OS '']'' else Some OS);
     OS \<leftarrow> (if km_out_disp m > 0 then SStream_concat OS ('', $'' @ fmt_x (unat (km_out_disp m))) else Some OS);
     SStream_concat OS '')'' }"

definition printMode :: "SStream \<Rightarrow> u32 \<Rightarrow> cs_m68k \<Rightarrow> cs_m68k_op \<Rightarrow> SStream option" where
  "printMode OS pc inst op =
     (let m = ko_mem op; reg = ko_reg op
      in case ko_address_mode op of
        M68K_AM_NONE \<Rightarrow>
          (case ko_type op of
             M68K_OP_REG_BITS \<Rightarrow> registerBits OS op
           | M68K_OP_REG_PAIR \<Rightarrow> registerPair OS op
           | M68K_OP_REG \<Rightarrow> do { r \<leftarrow> getRegName reg; SStream_concat OS r }
           | _ \<Rightarrow> Some OS)
      | M68K_AM_REG_DIRECT_DATA \<Rightarrow> SStream_concat OS (''d'' @ reg_num reg M68K_REG_D0)
      | M68K_AM_REG_DIRECT_ADDR \<Rightarrow> SStream_concat OS (''a'' @ reg_num reg M68K_REG_A0)
      | M68K_AM_REGI_ADDR \<Rightarrow> SStream_concat OS (''(a'' @ reg_num reg M68K_REG_A0 @ '')'')
      | M68K_AM_REGI_ADDR_POST_INC \<Rightarrow> SStream_concat OS (''(a'' @ reg_num reg M68K_REG_A0 @ '')+'')
      | M68K_AM_REGI_ADDR_PRE_DEC \<Rightarrow> SStream_concat OS (''-(a'' @ reg_num reg M68K_REG_A0 @ '')'')
      | M68K_AM_REGI_ADDR_DISP \<Rightarrow>
          SStream_concat OS (signed_hex (km_disp m) @ ''(a'' @ reg_num (km_base_reg m) M68K_REG_A0 @ '')'')
      | M68K_AM_PCI_DISP \<Rightarrow> SStream_concat OS (''$'' @ fmt_x (unat (pc + 2 + scast (km_disp m))) @ ''(pc)'')
      | M68K_AM_ABSOLUTE_DATA_SHORT \<Rightarrow> SStream_concat OS (''$'' @ low_hex (ko_raw op) @ ''.w'')
      | M68K_AM_ABSOLUTE_DATA_LONG \<Rightarrow> SStream_concat OS (''$'' @ low_hex (ko_raw op) @ ''.l'')
      | M68K_AM_IMMEDIATE \<Rightarrow>
          if kz_type (kx_op_size inst) = M68K_SIZE_TYPE_FPU then
            if kz_size (kx_op_size inst) = M68K_FPU_SIZE_SINGLE then SStream_concat OS (''#'' @ fmt_simm (ko_raw op))
            else if kz_size (kx_op_size inst) = M68K_FPU_SIZE_DOUBLE then SStream_concat OS (''#'' @ fmt_dimm (ko_raw op))
            else SStream_concat OS ''#<unsupported>''
          else SStream_concat OS (''#$'' @ low_hex (ko_raw op))
      | M68K_AM_PCI_INDEX_8_BIT_DISP \<Rightarrow> do {
          r \<leftarrow> getRegName (km_index_reg m);
          SStream_concat OS (''$'' @ fmt_x (unat (pc + 2 + scast (km_disp m))) @ ''(pc, '' @ r @ ''.'' @ index_char op @ '')'') }
      | M68K_AM_AREGI_INDEX_8_BIT_DISP \<Rightarrow> do {
          b \<leftarrow> getRegName (km_base_reg m);
          r \<leftarrow> getRegName (km_index_reg m);
          SStream_concat OS (signed_hex (km_disp m) @ ''('' @ b @ '', '' @ r @ ''.'' @ index_char op @ '')'') }
      | M68K_AM_PCI_INDEX_BASE_DISP \<Rightarrow> printIndexBase OS pc op
      | M68K_AM_AREGI_INDEX_BASE_DISP \<Rightarrow> printIndexBase OS pc op
      | M68K_AM_PC_MEMI_POST_INDEX \<Rightarrow> printMemIndirect OS pc op
      | M68K_AM_PC_MEMI_PRE_INDEX \<Rightarrow> printMemIndirect OS pc op
      | M68K_AM_MEMI_PRE_INDEX \<Rightarrow> printMemIndirect OS pc op
      | M68K_AM_MEMI_POST_INDEX \<Rightarrow> printMemIndirect OS pc op
      | M68K_AM_BRANCH_DISPLACEMENT \<Rightarrow> SStream_concat OS (''$'' @ fmt_x (unat (pc + 2 + kb_disp (ko_br_disp op)))))"

definition printAddressingMode :: "SStream \<Rightarrow> u32 \<Rightarrow> cs_m68k \<Rightarrow> cs_m68k_op \<Rightarrow> SStream option" where
  "printAddressingMode OS pc inst op = do {
     OS \<leftarrow> printMode OS pc inst op;
     let m = ko_mem op;
     if km_bitfield m \<noteq> 0 then SStream_concat OS (''{'' @ fmt_u (unat (km_offset m)) @ '':'' @ fmt_u (unat (km_width m)) @ ''}'')
     else Some OS }"

section \<open>Instructions\<close>

text \<open>
  The copy to the details: as many registers and groups as the arrays of the details have room for.
  Of the operands the model of the details keeps the count and the types.
\<close>

definition m68k_copy_detail :: "m68k_info \<Rightarrow> MCInst \<Rightarrow> MCInst option" where
  "m68k_copy_detail info = on_detail (\<lambda>d. do {
     let nr = min (length (d_regs_read d)) (unat (mk_regs_read_count info));
     let nw = min (length (d_regs_write d)) (unat (mk_regs_write_count info));
     let ng = min (length (d_groups d)) (unat (mk_groups_count info));
     need (nr \<le> length (mk_regs_read info) \<and> nw \<le> length (mk_regs_write info) \<and> ng \<le> length (mk_groups info));
     Some (d\<lparr>d_m68k := \<lparr>ao_op_count = kx_op_count (mk_extension info),
         ao_types = map (\<lambda>op. of_nat (m68k_op_num (ko_type op))) (kx_operands (mk_extension info))\<rparr>,
       d_regs_read := take nr (mk_regs_read info) @ drop nr (d_regs_read d), d_regs_read_count := of_nat nr,
       d_regs_write := take nw (mk_regs_write info) @ drop nw (d_regs_write d), d_regs_write_count := of_nat nw,
       d_groups := take ng (mk_groups info) @ drop ng (d_groups d), d_groups_count := of_nat ng\<rparr>) })"

definition size_suffix :: "m68k_op_size \<Rightarrow> string" where
  "size_suffix z = (case kz_type z of
      M68K_SIZE_TYPE_INVALID \<Rightarrow> []
    | M68K_SIZE_TYPE_CPU \<Rightarrow>
        if kz_size z = M68K_CPU_SIZE_BYTE then ''.b'' else if kz_size z = M68K_CPU_SIZE_WORD then ''.w''
        else if kz_size z = M68K_CPU_SIZE_LONG then ''.l'' else []
    | M68K_SIZE_TYPE_FPU \<Rightarrow>
        if kz_size z = M68K_FPU_SIZE_SINGLE then ''.s'' else if kz_size z = M68K_FPU_SIZE_DOUBLE then ''.d''
        else if kz_size z = M68K_FPU_SIZE_EXTENDED then ''.x'' else [])"

text \<open>The loop over the operands, from operand \<open>i\<close> on; \<open>n\<close> are left.\<close>

fun m68k_print_operands :: "m68k_info \<Rightarrow> nat \<Rightarrow> nat \<Rightarrow> SStream \<Rightarrow> SStream option" where
  "m68k_print_operands info i 0 OS = Some OS"
| "m68k_print_operands info i (Suc n) OS = do {
     op \<leftarrow> aget (kx_operands (mk_extension info)) i;
     OS \<leftarrow> printAddressingMode OS (mk_pc info) (mk_extension info) op;
     OS \<leftarrow> (if n \<noteq> 0 then SStream_concat OS '', '' else Some OS);
     m68k_print_operands info (i + 1) n OS }"

definition print_cas2 :: "m68k_info \<Rightarrow> SStream \<Rightarrow> SStream option" where
  "print_cas2 info OS = do {
     OS \<leftarrow> printAddressingMode OS (mk_pc info) (mk_extension info) (op_at info 0);
     OS \<leftarrow> SStream_concat0 OS '','';
     OS \<leftarrow> printAddressingMode OS (mk_pc info) (mk_extension info) (op_at info 1);
     OS \<leftarrow> SStream_concat0 OS '','';
     let bits = ko_register_bits (op_at info 2);
     r0 \<leftarrow> getRegName (M68K_REG_D0 + drop_bit 4 bits);
     r1 \<leftarrow> getRegName (M68K_REG_D0 + (bits AND 0xf));
     SStream_concat OS (''('' @ r0 @ ''):('' @ r1 @ '')'') }"

definition M68K_printInst :: "m68k_info \<Rightarrow> MCInst \<Rightarrow> SStream \<Rightarrow> (MCInst \<times> SStream) option" where
  "M68K_printInst info MI OS = do {
     let ext = mk_extension info;
     MI \<leftarrow> m68k_copy_detail info MI;
     OS \<leftarrow> (if mi_Opcode MI = M68K_INS_INVALID then
             if kx_op_count ext \<noteq> 0 then SStream_concat OS (''dc.w $'' @ low_hex (ko_raw (op_at info 0)))
             else SStream_concat OS ''dc.w $<unknown>''
           else do {
             name \<leftarrow> aget m68k_instruction_names (unat (mi_Opcode MI));
             OS \<leftarrow> SStream_concat0 OS name;
             OS \<leftarrow> SStream_concat0 OS (size_suffix (kx_op_size ext));
             OS \<leftarrow> SStream_concat0 OS '' '';
             if mi_Opcode MI = M68K_INS_CAS2 then print_cas2 info OS
             else m68k_print_operands info 0 (unat (kx_op_count ext)) OS });
     Some (MI, OS) }"

end
