(* ===== verification/Spec2Isabelle.thy ===== *)
theory Spec2Isabelle
  imports Support_Props Decoder_Props Engine_Props Disasm_Props Query_Props AddrModes_Props M680X_Text M680X_Operands M68K_Result M68K_Printer
begin

text \<open>
  \<^bold>\<open>The disassembly engine of mocha.\<close>

  mocha is a viewer of Mach-O files. Its code view is produced by the vendored C library Capstone
  (\<^verbatim>\<open>src/capstone-fee83fc\<close>), which it calls from \<^verbatim>\<open>CapStoneHelper.m\<close>. This
  development models that C library: the engine completely, with the constructors of all thirteen
  architectures, and three architectures from the decoder to the printed text.

  \<^bold>\<open>Parts and theories.\<close>

  \<^item> \<^verbatim>\<open>CS_Prelude\<close>: C arrays, strings and loops. A value of an option type is a
    computation that may be undefined: \<open>None\<close> is undefined behaviour of C (an access outside
    an array, a null pointer, a read of an unterminated string). Errors the code reports are values
    of \<^verbatim>\<open>cs_err\<close>. \<open>c_loop\<close> is a loop that may run for ever, which is also \<open>None\<close>;
    every theorem that a function returns therefore includes its termination.
  \<^item> \<^verbatim>\<open>Capstone_Types\<close>: the types of \<^verbatim>\<open>capstone.h\<close>, \<^verbatim>\<open>cs_priv.h\<close>,
    \<^verbatim>\<open>MCInst.h\<close> and \<^verbatim>\<open>mos65xx.h\<close>. A union is a record with one field per member, or
    one raw value read at each member's width where the code reads a member other than the one it
    wrote; enumerations have the unsigned type that gcc and clang give them.
  \<^item> \<^verbatim>\<open>SStream_Model\<close> (\<^verbatim>\<open>SStream.c\<close>): the text buffer of the printers and its
    number formats.
  \<^item> \<^verbatim>\<open>CS_Heap\<close>: the memory functions a user may replace. The heap is the map of the live
    blocks with their sizes; \<open>h_grant\<close> decides which allocation succeeds, so each theorem
    covers all patterns of failure. A block released twice or never allocated is undefined.
  \<^item> \<^verbatim>\<open>MCInst_Model\<close> (\<^verbatim>\<open>MCInst.c\<close>), \<^verbatim>\<open>Utils_Model\<close> (\<^verbatim>\<open>utils.c\<close>),
    \<^verbatim>\<open>RegisterInfo_Model\<close> (\<^verbatim>\<open>MCRegisterInfo.c\<close>, \<^verbatim>\<open>MCInstrDesc.c\<close>): the objects
    and tables the decoders share.
  \<^item> \<^verbatim>\<open>Arch_Modules\<close>: the constructors and option handlers of the \<^verbatim>\<open>*Module.c\<close>
    files and the tables of \<^verbatim>\<open>cs.c\<close> that register them.
  \<^item> \<^verbatim>\<open>EVM_Model\<close>, \<^verbatim>\<open>MOS65XX_Model\<close>: decoder, details, printer, mapping and tables
    of the two architectures (\<^verbatim>\<open>arch/EVM\<close>, \<^verbatim>\<open>arch/MOS65XX\<close>).
  \<^item> \<^verbatim>\<open>M680X_Tables\<close> (\<^verbatim>\<open>arch/M680X/*.inc\<close>), \<^verbatim>\<open>M680X_Model\<close>
    (\<^verbatim>\<open>M680XDisassembler.c\<close>), \<^verbatim>\<open>M680X_Printer\<close> (\<^verbatim>\<open>M680XInstPrinter.c\<close>): the family
    of ten CPUs from the 6800 to the CPU12, with their opcode pages and overlays, the check of the
    length, the handlers of the addressing modes, the register lists and the text.
    \<^verbatim>\<open>M680X_Lemmas\<close> has the rules for the handlers, \<^verbatim>\<open>M680X_Decode\<close> the conditions
    every table entry meets, \<^verbatim>\<open>M680X_Length\<close> the reference for recognition and length,
    \<^verbatim>\<open>M680X_Safety\<close> the outcome of the decoder; \<^verbatim>\<open>M680X_Props\<close>,
    \<^verbatim>\<open>M680X_Operands\<close> and \<^verbatim>\<open>M680X_Text\<close> hold the properties.
  \<^item> \<^verbatim>\<open>Engine_Dispatch\<close>, \<^verbatim>\<open>Engine_Handle\<close>, \<^verbatim>\<open>Engine_Fill\<close>,
    \<^verbatim>\<open>Engine_Disasm\<close>, \<^verbatim>\<open>Engine_Query\<close>: \<^verbatim>\<open>cs.c\<close>, in this order the calls through
    the function pointers, the life of a handle with its options, the text of a record, the
    disassembly loops, and the queries.
  \<^item> \<^verbatim>\<open>Engine_Session\<close>: the client of \<^verbatim>\<open>CapStoneHelper.m\<close>.
  \<^item> \<^verbatim>\<open>Engine_Reach\<close>: sequences of calls as a step relation.
  \<^item> \<^verbatim>\<open>Math_Model\<close> (\<^verbatim>\<open>MathExtras.h\<close>, \<^verbatim>\<open>LEB128.h\<close>),
    \<^verbatim>\<open>AddrModes_Model\<close> (\<^verbatim>\<open>ARMAddressingModes.h\<close>, \<^verbatim>\<open>AArch64AddressingModes.h\<close> and the
    Thumb-2 immediate of \<^verbatim>\<open>ARMDisassembler.c\<close>): bit counting, alignment, sign extension and
    the encodings of immediates and addressing modes. \<^verbatim>\<open>AddrModes_Props\<close> holds their
    properties.
  \<^item> \<^verbatim>\<open>Samples\<close>: concrete objects; \<^verbatim>\<open>Support_Props\<close>, \<^verbatim>\<open>Decoder_Props\<close>,
    \<^verbatim>\<open>Engine_Props\<close>, \<^verbatim>\<open>Disasm_Props\<close>, \<^verbatim>\<open>Query_Props\<close>: the properties, each with
    a concrete instance.

  \<^bold>\<open>State.\<close> The record \<open>world\<close> is the library: the heap and the map from the addresses of
  handles to their \<^verbatim>\<open>cs_struct\<close>. What the caller holds (arrays of \<^verbatim>\<open>cs_disasm\<close>, records
  of \<^verbatim>\<open>cs_malloc\<close>) is part of the session of \<^verbatim>\<open>Engine_Reach\<close>. The record \<open>build\<close> is
  the set of compile-time switches, \<open>abi\<close> the sizes of the C structures, and \<open>junk\<close> the
  contents of memory the code reads or passes on without having written it.

  \<^bold>\<open>Interfaces.\<close> The locale \<open>backend\<close> of \<^verbatim>\<open>Engine_Dispatch\<close> is what the engine relies on
  in an architecture: which byte strings it accepts, their length, number and text, and that a
  rejected input leaves the record alone. The engine's lemmas are proved in it once. The locale
  \<open>backend_arch\<close> of \<^verbatim>\<open>Engine_Session\<close> adds the constructor and carries the client. Both are
  interpreted on the models of EVM and MOS65XX, so that every property of the engine holds of the
  code of these two without further assumption. The decoders of the other eleven architectures are
  a parameter, the record \<open>backends\<close>: the properties on opening, closing, options and queries
  hold for all of them, those on disassembling for the two. M680X stays behind this parameter: its
  decoder leaves the operands in a state of its own, from which its printer takes them, and its
  properties are stated on the pair of decoder and printer with a handle of its constructor.

  \<^bold>\<open>Specifications.\<close> The abstract disassembler of \<^verbatim>\<open>Engine_Disasm\<close> maps bytes and an address
  to the list of the records a caller sees (\<open>next_view\<close>, \<open>views\<close>, \<open>listing\<close>), from a
  description of the architecture and the options of the handle only. \<^verbatim>\<open>cs_disasm\<close>,
  \<^verbatim>\<open>cs_disasm_iter\<close> and the client are shown to implement it. Further refinements are the
  list of operands of an instruction object, the table search behind the instruction cache, the map
  of custom mnemonics behind its linked list, the list of instructions behind the client's bank,
  and the decoded list of sub-registers behind its differences. For M680X \<open>insn_of\<close> of
  \<^verbatim>\<open>M680X_Length\<close> is the reference: linear search of the tables and the sum of the lengths of
  the operands; \<open>insn_text\<close> of \<^verbatim>\<open>M680X_Text\<close> is the text as a function of the operands.

  \<^bold>\<open>What the groups of lemmas show.\<close> Decoders and printers: total, exact on the accepted inputs,
  inside their arrays, and their text determines the instruction. Engine: every call keeps the
  invariant that each live block belongs to exactly one handle or held object; opening and closing,
  disassembling and freeing are balanced under any allocation failure; the loops end and deliver
  the specified records. Bit arithmetic: the portable and the builtin counters agree, and the
  encoders and decoders of immediates are inverse on exactly the encodable values. M680X: for all
  ten CPUs the decoder is total, reads inside the code and writes inside its arrays, recognises
  exactly the instructions of the reference, computes the branch targets and addresses of their
  bytes, and its text is the specified one. Errors: which arguments give which code. The theorems on
  undefined or surprising behaviour (a push of 24 bytes or more, an oversized SKIPDATA callback, an
  unchecked allocation, the id 0 of an EVM instruction, code of a multiple of 65536 bytes, the
  target of a short PC-relative mode) are proved of the same definitions.

  \<^bold>\<open>Bounds.\<close> \<^verbatim>\<open>cs_disasm\<close> is treated for inputs of less than \<open>2 ^ 29\<close> bytes: its cache
  size is a 32-bit number multiplied by 8, which wraps beyond that. With details on, the theorem on
  \<^verbatim>\<open>cs_disasm\<close> asks that allocations succeed, because the EVM and MOS65XX code writes to the
  details without a test. A SKIPDATA setup has to be safe (\<open>skip_ok\<close>), since others are
  undefined. The build is not the diet one. No fuel is used: recursion is structural or has a
  measure, and \<open>c_loop\<close> is a partial function whose results are shown to exist.

  \<^bold>\<open>Not modelled.\<close> The decoders, printers and mappings of ARM, AArch64, X86, Mips, PowerPC, Sparc,
  SystemZ, XCore, M68K and TMS320C64x, most of which walk tables generated by LLVM; the
  contents of those tables; the command line tool, tests, fuzzers and bindings; the Swift and
  Objective-C user interface, which is not C and holds no state of the engine. Time, the progress
  report of the client and concurrent use of one handle, which the library does not support, are
  outside the model.
\<close>

end
